(* ===== verification/Prelude.thy ===== *)
theory Prelude
  imports Main "HOL-Library.Char_ord" "HOL-Library.List_Lexorder"
begin

text \<open>
  Shared vocabulary of the development: 64-bit wrap-around arithmetic, the part of Go's
  \<^verbatim>\<open>strings\<close> package the sources use, the SQL statements the store issues (as operations on
  lists of rows), and the two interfaces every grant table of the store implements:
  \<open>keyed_table\<close> (a table with a primary key) and \<open>single_use\<close> (an artifact that can be
  redeemed once). Strings are byte lists, as Go's are.
\<close>

named_theorems sql_defs \<open>unfolding rules of the SQL statement models\<close>
named_theorems store_defs \<open>unfolding rules of the store operations\<close>
named_theorems row_simps \<open>what an operation does to each table\<close>

section \<open>Machine integers\<close>

text \<open>Go's \<^verbatim>\<open>int\<close> and \<^verbatim>\<open>int64\<close> are 64 bits wide and wrap around.\<close>

definition wrap64 :: "int \<Rightarrow> int" where
  "wrap64 x = (x + 2 ^ 63) mod 2 ^ 64 - 2 ^ 63"

definition is_int64 :: "int \<Rightarrow> bool" where
  "is_int64 x \<longleftrightarrow> - (2 ^ 63) \<le> x \<and> x < 2 ^ 63"

definition i64_add :: "int \<Rightarrow> int \<Rightarrow> int" where
  "i64_add a b = wrap64 (a + b)"

definition i64_mul :: "int \<Rightarrow> int \<Rightarrow> int" where
  "i64_mul a b = wrap64 (a * b)"

lemma wrap64_range [simp, intro]: "is_int64 (wrap64 x)"
proof -
  have "0 \<le> (x + 2 ^ 63) mod 2 ^ 64" and "(x + 2 ^ 63) mod 2 ^ 64 < 2 ^ 64"
    by simp_all
  then show ?thesis by (simp add: is_int64_def wrap64_def)
qed

lemma wrap64_id: "is_int64 x \<Longrightarrow> wrap64 x = x"
  by (simp add: is_int64_def wrap64_def mod_pos_pos_trivial)

lemma i64_add_id: "is_int64 (a + b) \<Longrightarrow> i64_add a b = a + b"
  by (simp add: i64_add_def wrap64_id)

lemma i64_mul_id: "is_int64 (a * b) \<Longrightarrow> i64_mul a b = a * b"
  by (simp add: i64_mul_def wrap64_id)

lemma wrap64_mod: "wrap64 x mod 2 ^ 64 = x mod 2 ^ 64"
  unfolding wrap64_def by (simp add: mod_diff_left_eq)

lemma wrap64_cong: "x mod 2 ^ 64 = y mod 2 ^ 64 \<Longrightarrow> wrap64 x = wrap64 y"
  unfolding wrap64_def by (metis mod_add_cong)

lemma i64_add_assoc: "i64_add (i64_add a b) c = i64_add a (i64_add b c)"
proof -
  have "(wrap64 (a + b) + c) mod 2 ^ 64 = (a + b + c) mod 2 ^ 64"
    by (metis mod_add_left_eq wrap64_mod)
  moreover have "(a + wrap64 (b + c)) mod 2 ^ 64 = (a + b + c) mod 2 ^ 64"
    by (metis add.assoc mod_add_right_eq wrap64_mod)
  ultimately show ?thesis
    unfolding i64_add_def by (intro wrap64_cong) simp
qed

section \<open>Go's strings package\<close>

definition is_space :: "char \<Rightarrow> bool" where
  "is_space c \<longleftrightarrow> c \<in> {CHR '' '', CHR 0x09, CHR 0x0A, CHR 0x0B, CHR 0x0C, CHR 0x0D}"

text \<open>\<open>Fields\<close> is \<^verbatim>\<open>strings.Fields\<close>: the maximal runs of non-space bytes. The first argument of
  \<open>fields_acc\<close> is the current run, reversed.\<close>

fun fields_acc :: "string \<Rightarrow> string \<Rightarrow> string list" where
  "fields_acc cur [] = (if cur = [] then [] else [rev cur])"
| "fields_acc cur (c # cs) =
     (if is_space c then (if cur = [] then fields_acc [] cs else rev cur # fields_acc [] cs)
      else fields_acc (c # cur) cs)"

definition Fields :: "string \<Rightarrow> string list" where
  "Fields s = fields_acc [] s"

fun Join :: "string list \<Rightarrow> string \<Rightarrow> string" where
  "Join [] sep = []"
| "Join [x] sep = x"
| "Join (x # y # ys) sep = x @ sep @ Join (y # ys) sep"

definition HasPrefix :: "string \<Rightarrow> string \<Rightarrow> bool" where
  "HasPrefix s p \<longleftrightarrow> take (length p) s = p"

definition TrimPrefix :: "string \<Rightarrow> string \<Rightarrow> string" where
  "TrimPrefix s p = (if HasPrefix s p then drop (length p) s else s)"

definition HasSuffix :: "string \<Rightarrow> string \<Rightarrow> bool" where
  "HasSuffix s p \<longleftrightarrow> HasPrefix (rev s) (rev p)"

definition TrimSuffix :: "string \<Rightarrow> string \<Rightarrow> string" where
  "TrimSuffix s p = (if HasSuffix s p then take (length s - length p) s else s)"

fun ContainsStr :: "string \<Rightarrow> string \<Rightarrow> bool" where
  "ContainsStr [] sub = (sub = [])"
| "ContainsStr (c # cs) sub = (HasPrefix (c # cs) sub \<or> ContainsStr cs sub)"

text \<open>The value behind a pointer, or a default.\<close>

definition or_else :: "'a option \<Rightarrow> 'a \<Rightarrow> 'a" where
  "or_else p d = (case p of None \<Rightarrow> d | Some v \<Rightarrow> v)"

text \<open>\<open>LastIndex s c\<close> is \<^verbatim>\<open>strings.LastIndex\<close> for a one-byte separator, \<open>IndexByte\<close> its
  counterpart from the left; both are \<open>-1\<close> when the byte does not occur.\<close>

definition LastIndex :: "string \<Rightarrow> char \<Rightarrow> int" where
  "LastIndex s c =
     (if c \<in> set s then int (length s) - 1 - int (length (takeWhile (\<lambda>x. x \<noteq> c) (rev s))) else -1)"

definition IndexByte :: "string \<Rightarrow> char \<Rightarrow> int" where
  "IndexByte s c = (if c \<in> set s then int (length (takeWhile (\<lambda>x. x \<noteq> c) s)) else -1)"

text \<open>\<open>slice_to s i\<close> and \<open>slice_from s i\<close> are \<^verbatim>\<open>s[:i]\<close> and \<^verbatim>\<open>s[i:]\<close>.\<close>

definition slice_to :: "string \<Rightarrow> int \<Rightarrow> string" where
  "slice_to s i = take (nat i) s"

definition slice_from :: "string \<Rightarrow> int \<Rightarrow> string" where
  "slice_from s i = drop (nat i) s"

fun SplitChar :: "string \<Rightarrow> char \<Rightarrow> string list" where
  "SplitChar [] c = [[]]"
| "SplitChar (x # xs) c =
     (if x = c then [] # SplitChar xs c
      else (case SplitChar xs c of [] \<Rightarrow> [[x]] | w # ws \<Rightarrow> (x # w) # ws))"

definition TrimSpace :: "string \<Rightarrow> string" where
  "TrimSpace s = rev (dropWhile is_space (rev (dropWhile is_space s)))"

text \<open>A value in single quotes, as the messages print it.\<close>

definition quoted :: "string \<Rightarrow> string" where
  "quoted s = CHR 0x27 # s @ [CHR 0x27]"

lemma HasPrefix_append [simp]: "HasPrefix (p @ s) p"
  by (simp add: HasPrefix_def)

lemma TrimPrefix_append [simp]: "TrimPrefix (p @ s) p = s"
  by (simp add: TrimPrefix_def)

lemma HasPrefix_iff: "HasPrefix s p \<longleftrightarrow> (\<exists>t. s = p @ t)"
  by (metis HasPrefix_append HasPrefix_def append_take_drop_id)

lemma HasSuffix_append [simp]: "HasSuffix (s @ p) p"
  by (simp add: HasSuffix_def)

lemma TrimSuffix_append [simp]: "TrimSuffix (s @ p) p = s"
  by (simp add: TrimSuffix_def)

lemma HasSuffix_iff: "HasSuffix s p \<longleftrightarrow> (\<exists>t. s = t @ p)"
  unfolding HasSuffix_def HasPrefix_iff by (metis rev_append rev_rev_ident)

lemma takeWhile_neq_self [simp]: "c \<notin> set xs \<Longrightarrow> takeWhile (\<lambda>x. x \<noteq> c) xs = xs"
  by (induction xs) auto

lemma takeWhile_neq_append [simp]: "c \<notin> set xs \<Longrightarrow> takeWhile (\<lambda>x. x \<noteq> c) (xs @ c # ys) = xs"
  by (induction xs) auto

text \<open>The last occurrence of the separator cuts a scope into resource and name.\<close>

lemma LastIndex_cut:
  assumes "c \<notin> set b"
  shows "LastIndex (a @ c # b) c = int (length a)"
    and "slice_to (a @ c # b) (LastIndex (a @ c # b) c) = a"
    and "slice_from (a @ c # b) (LastIndex (a @ c # b) c + 1) = b"
proof -
  have "takeWhile (\<lambda>x. x \<noteq> c) (rev (a @ c # b)) = rev b"
    using assms by (simp add: takeWhile_neq_append)
  then show i: "LastIndex (a @ c # b) c = int (length a)"
    by (simp add: LastIndex_def)
  show "slice_to (a @ c # b) (LastIndex (a @ c # b) c) = a"
    by (simp only: i slice_to_def) simp
  show "slice_from (a @ c # b) (LastIndex (a @ c # b) c + 1) = b"
    by (simp only: i slice_from_def) (simp add: nat_add_distrib)
qed

subsection \<open>Fields and Join are inverse on scope lists\<close>

definition is_word :: "string \<Rightarrow> bool" where
  "is_word w \<longleftrightarrow> w \<noteq> [] \<and> list_all (\<lambda>c. \<not> is_space c) w"

lemma fields_acc_word: "list_all (\<lambda>c. \<not> is_space c) w \<Longrightarrow> fields_acc cur (w @ s) = fields_acc (rev w @ cur) s"
  by (induction w arbitrary: cur) auto

lemma fields_acc_words:
  "list_all (\<lambda>c. \<not> is_space c) cur \<Longrightarrow> list_all is_word (fields_acc cur s)"
proof (induction cur s rule: fields_acc.induct)
  case (1 cur)
  then show ?case by (simp add: is_word_def)
next
  case (2 cur c cs)
  then show ?case by (cases "is_space c"; cases "cur = []") (simp_all add: is_word_def)
qed

lemma Fields_words [simp]: "list_all is_word (Fields s)"
  by (simp add: Fields_def fields_acc_words)

lemma Fields_Join [simp]: "list_all is_word ws \<Longrightarrow> Fields (Join ws '' '') = ws"
proof (induction ws "'' ''" rule: Join.induct)
  case 1
  then show ?case by (simp add: Fields_def)
next
  case (2 x)
  then show ?case
    using fields_acc_word[of x "[]" "[]"] by (simp add: Fields_def is_word_def)
next
  case (3 x y ys)
  have "fields_acc [] (x @ '' '' @ Join (y # ys) '' '') = x # Fields (Join (y # ys) '' '')"
    using 3(2) fields_acc_word[of x "[]"] by (simp add: Fields_def is_word_def is_space_def)
  with 3 show ?case by (simp add: Fields_def)
qed

section \<open>SQL statements over lists of rows\<close>

text \<open>
  A table is the list of its rows in insertion order. \<open>sql_first\<close> is \<^verbatim>\<open>QueryRow\<close> (the first
  matching row, \<^verbatim>\<open>sql.ErrNoRows\<close> when there is none), \<open>sql_update\<close> and \<open>sql_delete\<close> are
  \<^verbatim>\<open>UPDATE .. WHERE\<close> and \<^verbatim>\<open>DELETE .. WHERE\<close>, and \<open>sql_count\<close> is both \<^verbatim>\<open>SELECT COUNT(*)\<close> and the
  rows-affected count of the other two.
\<close>

datatype store_err = ErrNotFound | ErrConflict | ErrForeignKey | ErrUnique | ErrRows nat
  | ErrUnknownType string | ErrPayload | ErrType string

type_synonym 'a res = "store_err + 'a"

definition sql_first :: "('r \<Rightarrow> bool) \<Rightarrow> 'r list \<Rightarrow> 'r option" where
  [sql_defs]: "sql_first P rows = find P rows"

definition sql_count :: "('r \<Rightarrow> bool) \<Rightarrow> 'r list \<Rightarrow> nat" where
  [sql_defs]: "sql_count P rows = length (filter P rows)"

definition sql_update :: "('r \<Rightarrow> bool) \<Rightarrow> ('r \<Rightarrow> 'r) \<Rightarrow> 'r list \<Rightarrow> 'r list" where
  [sql_defs]: "sql_update P f rows = map (\<lambda>r. if P r then f r else r) rows"

definition sql_delete :: "('r \<Rightarrow> bool) \<Rightarrow> 'r list \<Rightarrow> 'r list" where
  [sql_defs]: "sql_delete P rows = filter (\<lambda>r. \<not> P r) rows"

text \<open>A column written through \<^verbatim>\<open>nullable\<close> holds NULL exactly when the Go string is empty, and
  NULL equals nothing, so \<^verbatim>\<open>col = ?\<close> on such a column is \<open>null_eq\<close>.\<close>

definition null_eq :: "string \<Rightarrow> string \<Rightarrow> bool" where
  "null_eq col v \<longleftrightarrow> col \<noteq> [] \<and> col = v"

definition one_row :: "'r option \<Rightarrow> 'r res" where
  [sql_defs]: "one_row q = (case q of None \<Rightarrow> Inl ErrNotFound | Some r \<Rightarrow> Inr r)"

lemma sql_first_append: "sql_first P (xs @ ys) = (case sql_first P xs of None \<Rightarrow> sql_first P ys | Some r \<Rightarrow> Some r)"
  by (induction xs) (auto simp: sql_first_def)

lemma sql_first_single [simp]: "sql_first P [x] = (if P x then Some x else None)"
  by (simp add: sql_first_def)

lemma sql_first_None: "sql_first P xs = None \<longleftrightarrow> (\<forall>r \<in> set xs. \<not> P r)"
  by (auto simp: sql_first_def find_None_iff)

lemma sql_first_Some: "sql_first P xs = Some r \<Longrightarrow> r \<in> set xs \<and> P r"
  by (auto simp: sql_first_def find_Some_iff)

lemma sql_first_key:
  assumes "distinct (map key xs)" and "r \<in> set xs"
  shows "sql_first (\<lambda>x. key x = key r) xs = Some r"
  using assms by (induction xs) (auto simp: sql_first_def image_iff)

lemma sql_count_0: "sql_count P xs = 0 \<longleftrightarrow> (\<forall>r \<in> set xs. \<not> P r)"
  by (auto simp: sql_count_def filter_empty_conv)

lemma sql_count_key:
  assumes "distinct (map key xs)"
  shows "sql_count (\<lambda>x. key x = k \<and> P x) xs \<le> 1"
  using assms by (induction xs) (auto simp: sql_count_def filter_empty_conv image_iff)

lemma sql_count_key_le:
  assumes "distinct (map key xs)" and "\<And>x. P x \<Longrightarrow> key x = k"
  shows "sql_count P xs \<le> 1"
  using assms by (induction xs) (auto simp: sql_count_def filter_empty_conv image_iff)

lemma sql_count_le_1:
  assumes "distinct xs" and "\<And>x y. x \<in> set xs \<Longrightarrow> y \<in> set xs \<Longrightarrow> P x \<Longrightarrow> P y \<Longrightarrow> x = y"
  shows "sql_count P xs \<le> 1"
proof -
  have "card (set (filter P xs)) \<le> Suc 0"
    using assms(2) by (simp add: card_le_Suc0_iff_eq)
  then show ?thesis using distinct_card[of "filter P xs"] assms(1) by (simp add: sql_count_def)
qed

lemma sql_count_1_iff: "sql_count P xs \<le> 1 \<Longrightarrow> sql_count P xs = 1 \<longleftrightarrow> (\<exists>r \<in> set xs. P r)"
  using sql_count_0[of P xs] by (cases "sql_count P xs = 0") (simp_all only:, auto)

lemma sql_count_1_ex: "sql_count P xs = 1 \<Longrightarrow> \<exists>r \<in> set xs. P r"
  using sql_count_1_iff[of P xs] by simp

lemma ball_sql_update: "(\<forall>r \<in> set (sql_update P f xs). Q r) \<longleftrightarrow> (\<forall>r \<in> set xs. if P r then Q (f r) else Q r)"
  by (auto simp: sql_update_def)

lemma set_sql_delete [simp]: "set (sql_delete P xs) = {r \<in> set xs. \<not> P r}"
  by (auto simp: sql_delete_def)

lemma set_sql_update: "set (sql_update P f xs) = (\<lambda>r. if P r then f r else r) ` set xs"
  by (auto simp: sql_update_def)

lemma map_sql_update [simp]: "(\<And>r. key (f r) = key r) \<Longrightarrow> map key (sql_update P f xs) = map key xs"
  by (induction xs) (auto simp: sql_update_def)

lemma length_sql_update [simp]: "length (sql_update P f xs) = length xs"
  by (simp add: sql_update_def)

lemma distinct_sql_delete [simp]: "distinct (map key xs) \<Longrightarrow> distinct (map key (sql_delete P xs))"
  by (simp add: sql_delete_def distinct_map_filter)

lemma sql_update_none [simp]: "(\<And>r. r \<in> set xs \<Longrightarrow> \<not> P r) \<Longrightarrow> sql_update P f xs = xs"
  by (induction xs) (auto simp: sql_update_def)

lemma sql_first_update:
  assumes "\<And>r. Q (f r) = Q r"
  shows "sql_first Q (sql_update P f xs) = map_option (\<lambda>r. if P r then f r else r) (sql_first Q xs)"
  using assms by (induction xs) (auto simp: sql_first_def sql_update_def)

lemma sql_first_delete:
  assumes "\<And>r. r \<in> set xs \<Longrightarrow> Q r \<Longrightarrow> \<not> P r"
  shows "sql_first Q (sql_delete P xs) = sql_first Q xs"
  using assms by (induction xs) (auto simp: sql_first_def sql_delete_def)

section \<open>Interfaces\<close>

subsection \<open>A table with a primary key\<close>

text \<open>
  What the clients of a store table rely on: a lookup finds the row with the key, an insert
  either appends the (normalised) row under a fresh key or changes nothing, and a duplicate key
  is reported as a conflict.
\<close>

locale keyed_table =
  fixes rows :: "'s \<Rightarrow> 'r list"
    and key :: "'r \<Rightarrow> 'k"
    and get :: "'s \<Rightarrow> 'k \<Rightarrow> 'r res"
    and ins :: "'r \<Rightarrow> 's \<Rightarrow> unit res \<times> 's"
    and norm :: "'r \<Rightarrow> 'r"
  assumes get_row: "get s k = one_row (sql_first (\<lambda>r. key r = k) (rows s))"
    and ins_ok: "ins r s = (Inr (), s') \<Longrightarrow> rows s' = rows s @ [norm r] \<and> key r \<notin> key ` set (rows s)"
    and ins_err: "ins r s = (Inl e, s') \<Longrightarrow> s' = s"
    and ins_dup: "key r \<in> key ` set (rows s) \<Longrightarrow> ins r s = (Inl ErrConflict, s)"
    and key_norm: "key (norm r) = key r"
begin

lemma get_inserted:
  assumes "ins r s = (Inr (), s')"
  shows "get s' (key r) = Inr (norm r)"
proof -
  have "sql_first (\<lambda>x. key x = key r) (rows s) = None"
    using ins_ok[OF assms] by (auto simp: sql_first_None image_iff)
  then show ?thesis
    using ins_ok[OF assms] by (simp add: get_row sql_first_append one_row_def key_norm)
qed

lemma get_other:
  assumes "ins r s = (Inr (), s')" and "k \<noteq> key r"
  shows "get s' k = get s k"
  using ins_ok[OF assms(1)] assms(2)
  by (simp add: get_row sql_first_append key_norm split: option.splits)

lemma get_kept:
  assumes "ins r s = (Inr (), s')" and "get s k = Inr x"
  shows "get s' k = Inr x"
proof -
  have "k \<in> key ` set (rows s)"
    using assms(2) by (auto simp: get_row one_row_def split: option.splits dest!: sql_first_Some)
  then have "k \<noteq> key r" using ins_ok[OF assms(1)] by blast
  then show ?thesis using get_other[OF assms(1)] assms(2) by simp
qed

lemma ins_distinct:
  assumes "ins r s = (res, s')" and "distinct (map key (rows s))"
  shows "distinct (map key (rows s'))"
proof (cases res)
  case (Inl e)
  with assms ins_err show ?thesis by blast
next
  case (Inr u)
  with assms ins_ok[of r s s'] show ?thesis by (auto simp: key_norm)
qed

lemma get_Inr_iff:
  assumes "distinct (map key (rows s))"
  shows "get s k = Inr r \<longleftrightarrow> r \<in> set (rows s) \<and> key r = k"
  using assms sql_first_key[OF assms]
  by (auto simp: get_row one_row_def split: option.splits dest: sql_first_Some)

lemma get_Inl_iff: "get s k = Inl e \<longleftrightarrow> e = ErrNotFound \<and> (\<forall>r \<in> set (rows s). key r \<noteq> k)"
proof (cases "sql_first (\<lambda>r. key r = k) (rows s)")
  case None
  moreover from None have "\<forall>r \<in> set (rows s). key r \<noteq> k" by (simp add: sql_first_None)
  ultimately show ?thesis by (auto simp: get_row one_row_def)
next
  case (Some r)
  then show ?thesis using sql_first_Some[OF Some] by (auto simp: get_row one_row_def)
qed

end

subsection \<open>Single-use artifacts\<close>

text \<open>
  An authorization code, a device code and a refresh token are redeemed by one atomic statement
  (\<^verbatim>\<open>UPDATE .. WHERE .. AND consumed=0\<close>, \<^verbatim>\<open>DELETE .. RETURNING\<close>, a compare-and-set on \<^verbatim>\<open>revoked\<close>).
  Requests may interleave in any order with each other and with other store traffic; an
  \<open>attempt\<close> is a redemption of one artifact, a \<open>traffic\<close> step is any other change of the store.
\<close>

datatype ('a, 's) event = Attempt 'a | Traffic "'s \<Rightarrow> 's"

primrec run_events :: "('a \<Rightarrow> 's \<Rightarrow> bool \<times> 's) \<Rightarrow> ('a, 's) event list \<Rightarrow> 's \<Rightarrow> ('a \<times> bool) list \<times> 's" where
  "run_events redeem [] s = ([], s)"
| "run_events redeem (e # es) s =
     (case e of
        Attempt a \<Rightarrow>
          (let (b, s1) = redeem a s; (rs, s2) = run_events redeem es s1 in ((a, b) # rs, s2))
      | Traffic f \<Rightarrow> run_events redeem es (f s))"

text \<open>How many attempts on the artifact \<open>k\<close> succeeded.\<close>

definition wins :: "('a \<Rightarrow> 'k) \<Rightarrow> 'k \<Rightarrow> ('a \<times> bool) list \<Rightarrow> nat" where
  "wins key k rs = length (filter (\<lambda>(a, b). key a = k \<and> b) rs)"

text \<open>Traffic keeps the table well-formed and does not bring a spent artifact back to life.\<close>

definition no_revival :: "('s \<Rightarrow> bool) \<Rightarrow> ('k \<Rightarrow> 's \<Rightarrow> bool) \<Rightarrow> 'k \<Rightarrow> ('a, 's) event list \<Rightarrow> bool" where
  "no_revival ok live k es \<longleftrightarrow>
     (\<forall>f. Traffic f \<in> set es \<longrightarrow> (\<forall>s. ok s \<longrightarrow> ok (f s) \<and> (\<not> live k s \<longrightarrow> \<not> live k (f s))))"

lemma no_revival_Nil [simp]: "no_revival ok live k []"
  by (simp add: no_revival_def)

lemma no_revival_Attempt [simp]: "no_revival ok live k (Attempt a # es) = no_revival ok live k es"
  by (auto simp: no_revival_def)

lemma no_revival_Traffic [simp]:
  "no_revival ok live k (Traffic f # es) \<longleftrightarrow>
     (\<forall>s. ok s \<longrightarrow> ok (f s) \<and> (\<not> live k s \<longrightarrow> \<not> live k (f s))) \<and> no_revival ok live k es"
  by (auto simp: no_revival_def)

lemma wins_Nil [simp]: "wins key k [] = 0"
  by (simp add: wins_def)

lemma wins_Cons [simp]: "wins key k ((a, b) # rs) = (if key a = k \<and> b then Suc (wins key k rs) else wins key k rs)"
  by (simp add: wins_def)

locale single_use =
  fixes redeem :: "'a \<Rightarrow> 's \<Rightarrow> bool \<times> 's"
    and key :: "'a \<Rightarrow> 'k"
    and live :: "'k \<Rightarrow> 's \<Rightarrow> bool"
    and ok :: "'s \<Rightarrow> bool"
  assumes ok_redeem: "ok s \<Longrightarrow> ok (snd (redeem a s))"
    and win_live: "ok s \<Longrightarrow> fst (redeem a s) \<Longrightarrow> live (key a) s"
    and win_spends: "ok s \<Longrightarrow> fst (redeem a s) \<Longrightarrow> \<not> live (key a) (snd (redeem a s))"
    and stays_spent: "ok s \<Longrightarrow> \<not> live k s \<Longrightarrow> \<not> live k (snd (redeem a s))"
begin

lemma spent_never_wins:
  assumes "ok s" and "\<not> live k s" and "no_revival ok live k es"
  shows "wins key k (fst (run_events redeem es s)) = 0"
  using assms
proof (induction es arbitrary: s)
  case Nil
  then show ?case by simp
next
  case (Cons e es)
  show ?case
  proof (cases e)
    case (Attempt a)
    have "wins key k (fst (run_events redeem es (snd (redeem a s)))) = 0"
      using Cons.prems Attempt by (intro Cons.IH ok_redeem stays_spent) simp_all
    moreover have "key a = k \<Longrightarrow> \<not> fst (redeem a s)"
      using win_live Cons.prems by blast
    ultimately show ?thesis
      using Attempt by (auto split: prod.splits)
  next
    case (Traffic f)
    with Cons show ?thesis by simp
  qed
qed

theorem at_most_one_win:
  assumes "ok s" and "no_revival ok live k es"
  shows "wins key k (fst (run_events redeem es s)) \<le> 1"
  using assms
proof (induction es arbitrary: s)
  case Nil
  then show ?case by simp
next
  case (Cons e es)
  show ?case
  proof (cases e)
    case (Attempt a)
    have nr: "no_revival ok live k es" using Cons.prems Attempt by simp
    have ok': "ok (snd (redeem a s))" using Cons.prems(1) by (rule ok_redeem)
    show ?thesis
    proof (cases "key a = k \<and> fst (redeem a s)")
      case True
      then have "\<not> live k (snd (redeem a s))" using win_spends Cons.prems(1) by blast
      then have "wins key k (fst (run_events redeem es (snd (redeem a s)))) = 0"
        using ok' nr by (blast intro: spent_never_wins)
      with Attempt True show ?thesis by (auto split: prod.splits)
    next
      case False
      then show ?thesis
        using Attempt Cons.IH[OF ok' nr] by (auto split: prod.splits)
    qed
  next
    case (Traffic f)
    with Cons show ?thesis by simp
  qed
qed

end

end
