(* ===== verification/Codec.thy ===== *)
theory Codec
  imports Prelude
begin

text \<open>
  The byte encodings the token service uses from Go's standard library:
  \<^verbatim>\<open>base64.RawURLEncoding\<close>, \<^verbatim>\<open>hex.EncodeToString\<close> and the big-endian bytes of \<^verbatim>\<open>math/big\<close>. The
  decoders are proved to invert the encoders, and base64 text to contain no dot, which is what
  makes a compact JWS parse back into its parts.
\<close>

section \<open>base64url without padding\<close>

definition b64_char :: "nat \<Rightarrow> char" where
  "b64_char i =
     (if i < 26 then char_of (65 + i) else if i < 52 then char_of (71 + i)
      else if i < 62 then char_of (i - 4) else if i = 62 then CHR ''-'' else CHR ''_'')"

definition b64_val :: "char \<Rightarrow> nat option" where
  "b64_val c =
     (let n = of_char c :: nat in
      if 65 \<le> n \<and> n \<le> 90 then Some (n - 65) else if 97 \<le> n \<and> n \<le> 122 then Some (n - 71)
      else if 48 \<le> n \<and> n \<le> 57 then Some (n + 4) else if n = 45 then Some 62
      else if n = 95 then Some 63 else None)"

abbreviation byte :: "char \<Rightarrow> nat" where "byte \<equiv> of_char"

fun RawURLEncode :: "string \<Rightarrow> string" where
  "RawURLEncode [] = []"
| "RawURLEncode [a] = [b64_char (byte a div 4), b64_char (byte a mod 4 * 16)]"
| "RawURLEncode [a, b] =
     [b64_char (byte a div 4), b64_char (byte a mod 4 * 16 + byte b div 16), b64_char (byte b mod 16 * 4)]"
| "RawURLEncode (a # b # c # rest) =
     b64_char (byte a div 4) # b64_char (byte a mod 4 * 16 + byte b div 16) #
     b64_char (byte b mod 16 * 4 + byte c div 64) # b64_char (byte c mod 64) # RawURLEncode rest"

text \<open>The decoder skips line breaks, rejects any other character outside the alphabet and a single
  left-over character, and ignores the unused trailing bits.\<close>

fun b64_groups :: "nat list \<Rightarrow> string option" where
  "b64_groups [] = Some []"
| "b64_groups [x] = None"
| "b64_groups [x, y] = Some [char_of (x * 4 + y div 16)]"
| "b64_groups [x, y, z] = Some [char_of (x * 4 + y div 16), char_of (y mod 16 * 16 + z div 4)]"
| "b64_groups (x # y # z # w # rest) =
     map_option (\<lambda>t. char_of (x * 4 + y div 16) # char_of (y mod 16 * 16 + z div 4) #
                     char_of (z mod 4 * 64 + w) # t) (b64_groups rest)"

fun all_some :: "'a option list \<Rightarrow> 'a list option" where
  "all_some [] = Some []"
| "all_some (x # xs) = (case x of None \<Rightarrow> None | Some v \<Rightarrow> map_option ((#) v) (all_some xs))"

definition is_newline :: "char \<Rightarrow> bool" where
  "is_newline c \<longleftrightarrow> c = CHR 0x0A \<or> c = CHR 0x0D"

definition RawURLDecode :: "string \<Rightarrow> string option" where
  "RawURLDecode s = Option.bind (all_some (map b64_val (filter (\<lambda>c. \<not> is_newline c) s))) b64_groups"

lemma byte_less [simp]: "byte c < 256"
  using of_char_of[of "byte c"] by (metis mod_less_divisor of_char_mod_256 zero_less_numeral)

lemma b64_val_char [simp]: "i < 64 \<Longrightarrow> b64_val (b64_char i) = Some i"
  by (auto simp: b64_val_def b64_char_def Let_def)

lemma b64_char_neq [simp]: "i < 64 \<Longrightarrow> b64_char i \<noteq> CHR ''.''" "i < 64 \<Longrightarrow> b64_char i \<noteq> CHR 0x22"
  "i < 64 \<Longrightarrow> \<not> is_newline (b64_char i)"
  by (auto simp: b64_char_def is_newline_def dest!: arg_cong[of _ _ "of_char :: char \<Rightarrow> nat"])

lemma b64_digits [simp]:
  "byte a div 4 < 64" "byte a mod 4 * 16 < 64" "byte a mod 4 * 16 + byte b div 16 < 64" "byte b mod 16 * 4 < 64"
  "byte b mod 16 * 4 + byte c div 64 < 64" "byte c mod 64 < 64"
  using byte_less[of a] byte_less[of b] byte_less[of c] by linarith+

lemma b64_bits [simp]:
  "byte b div 16 div 16 = 0" "byte c div 64 div 4 = 0" "byte b div 16 mod 16 = byte b div 16"
  "byte c div 64 mod 4 = byte c div 64" "char_of (byte c div 64 * 64 + byte c mod 64) = c"
  "char_of (byte b div 16 * 16 + byte b mod 16) = b"
proof -
  have "byte b div 16 < 16" "byte c div 64 < 4" using byte_less[of b] byte_less[of c] by linarith+
  then show "byte b div 16 div 16 = 0" "byte c div 64 div 4 = 0" "byte b div 16 mod 16 = byte b div 16"
    "byte c div 64 mod 4 = byte c div 64" by simp_all
qed (simp_all add: div_mult_mod_eq)

lemma b64_no_newline: "filter (\<lambda>c. \<not> is_newline c) (RawURLEncode s) = RawURLEncode s"
  by (induction s rule: RawURLEncode.induct) simp_all

lemma b64_no_dot [simp]: "CHR ''.'' \<notin> set (RawURLEncode s)"
  by (induction s rule: RawURLEncode.induct) (auto simp: eq_commute[of "CHR ''.''"])

lemma b64_no_quote [simp]: "CHR 0x22 \<notin> set (RawURLEncode s)"
  by (induction s rule: RawURLEncode.induct) (auto simp: eq_commute[of "CHR 0x22"])

lemma b64_groups_encode:
  "Option.bind (all_some (map b64_val (RawURLEncode s))) b64_groups = Some s"
proof (induction s rule: RawURLEncode.induct)
  case (4 a b c rest)
  then obtain vs where "all_some (map b64_val (RawURLEncode rest)) = Some vs" "b64_groups vs = Some rest"
    by (auto simp: bind_eq_Some_conv)
  then show ?case by simp
qed simp_all

lemma RawURLDecode_Encode [simp]: "RawURLDecode (RawURLEncode s) = Some s"
  by (simp add: RawURLDecode_def b64_no_newline b64_groups_encode)

lemma RawURLEncode_inj: "RawURLEncode s = RawURLEncode t \<longleftrightarrow> s = t"
  by (metis RawURLDecode_Encode option.inject)

section \<open>Hexadecimal\<close>

definition hex_char :: "nat \<Rightarrow> char" where
  "hex_char i = (if i < 10 then char_of (48 + i) else char_of (87 + i))"

definition hex_encode :: "string \<Rightarrow> string" where
  "hex_encode s = concat (map (\<lambda>c. [hex_char (byte c div 16), hex_char (byte c mod 16)]) s)"

lemma hex_char_inj: "i < 16 \<Longrightarrow> j < 16 \<Longrightarrow> hex_char i = hex_char j \<longleftrightarrow> i = j"
  by (auto simp: hex_char_def split: if_splits dest!: arg_cong[of _ _ "of_char :: char \<Rightarrow> nat"])

lemma hex_encode_inj: "hex_encode s = hex_encode t \<longleftrightarrow> s = t"
proof (induction s arbitrary: t)
  case Nil
  then show ?case by (cases t) (simp_all add: hex_encode_def)
next
  case (Cons a s)
  have byte_eq: "byte a div 16 = byte b div 16 \<and> byte a mod 16 = byte b mod 16 \<longleftrightarrow> a = b" for b
    by (metis div_mult_mod_eq of_char_eq_iff)
  have lt: "byte a div 16 < 16" "byte b div 16 < 16" for b
    using byte_less[of a] byte_less[of b] by linarith+
  show ?case
  proof (cases t)
    case Nil
    then show ?thesis by (simp add: hex_encode_def)
  next
    case (Cons b u)
    then show ?thesis
      using Cons.IH[of u] byte_eq[of b] lt by (auto simp: hex_encode_def hex_char_inj)
  qed
qed

section \<open>Big-endian integers\<close>

text \<open>\<^verbatim>\<open>big.Int.SetBytes\<close> and \<^verbatim>\<open>big.Int.Bytes\<close>.\<close>

definition be_val :: "string \<Rightarrow> nat" where
  "be_val bs = foldl (\<lambda>acc c. acc * 256 + byte c) 0 bs"

function be_bytes :: "nat \<Rightarrow> string" where
  "be_bytes n = (if n = 0 then [] else be_bytes (n div 256) @ [char_of (n mod 256)])"
  by pat_completeness auto
termination by (relation "measure (\<lambda>n. n)") auto

declare be_bytes.simps [simp del]

lemma be_val_bytes [simp]: "be_val (be_bytes n) = n"
proof (induction n rule: be_bytes.induct)
  case (1 n)
  show ?case
  proof (cases "n = 0")
    case True
    then show ?thesis by (simp add: be_bytes.simps be_val_def)
  next
    case False
    with 1 have "be_val (be_bytes (n div 256)) = n div 256" by simp
    with False show ?thesis by (simp add: be_bytes.simps[of n] be_val_def)
  qed
qed

section \<open>Splitting at a separator\<close>

lemma SplitChar_nonempty [simp]: "SplitChar s c \<noteq> []"
  by (cases s) (auto split: list.splits)

lemma SplitChar_none: "c \<notin> set s \<Longrightarrow> SplitChar s c = [s]"
  by (induction s) auto

lemma SplitChar_append: "c \<notin> set s \<Longrightarrow> SplitChar (s @ c # t) c = s # SplitChar t c"
  by (induction s) auto

lemma SplitChar_three:
  assumes "c \<notin> set x" "c \<notin> set y" "c \<notin> set z"
  shows "SplitChar (x @ c # y @ c # z) c = [x, y, z]"
  using assms by (simp add: SplitChar_append SplitChar_none)

end
