(* ===== verification/StoreTypes.thy ===== *)
theory StoreTypes
  imports Prelude
begin

text \<open>
  The entity types of \<^verbatim>\<open>internal/store\<close> (\<^verbatim>\<open>types.go\<close> and the structs declared beside their
  repositories) and the store itself: one list of rows per SQLite table of the schema in
  \<^verbatim>\<open>db.go\<close>. Timestamps are epoch seconds. A column the Go code writes through \<^verbatim>\<open>nullable\<close> is
  kept as the Go string, the empty string standing for NULL; \<open>k_NotAfter\<close> is an option because
  one writer stores a plain integer there and one writes 0 as NULL.
\<close>

section \<open>Entities\<close>

record Tenant =
  t_ID :: string
  t_DisplayName :: string
  t_Issuer :: string
  t_InitialDomain :: string
  t_CreatedAt :: int

record WorkspaceIdentity =
  wi_ID :: string
  wi_TenantID :: string
  wi_AppID :: string
  wi_WorkspaceID :: string
  wi_WorkspaceName :: string
  wi_State :: string
  wi_CreatedAt :: int

record User =
  u_ID :: string
  u_TenantID :: string
  u_UserPrincipalName :: string
  u_DisplayName :: string
  u_GivenName :: string
  u_Surname :: string
  u_Mail :: string
  u_PasswordHash :: string
  u_AccountEnabled :: bool
  u_UserType :: string
  u_ExternalUserState :: string
  u_InviteRedirectURL :: string
  u_CreatedAt :: int
  u_UpdatedAt :: int

record Group =
  g_ID :: string
  g_TenantID :: string
  g_DisplayName :: string
  g_Description :: string
  g_CreatedAt :: int

record App =
  a_ID :: string
  a_TenantID :: string
  a_DisplayName :: string
  a_IsConfidential :: bool
  a_AppIDURI :: string
  a_OptionalClaims :: string
  a_GroupMembershipClaims :: string
  a_GroupOverageLimit :: int
  a_CreatedAt :: int

text \<open>The row of \<^verbatim>\<open>app_registrations\<close> has one column \<^verbatim>\<open>scanApp\<close> does not read.\<close>

record AppRow = App +
  ar_FrontchannelLogoutURI :: string

record RedirectURI =
  ru_ID :: int
  ru_AppID :: string
  ru_URI :: string
  ru_Type :: string

record AppSecret =
  sec_ID :: string
  sec_AppID :: string
  sec_DisplayName :: string
  sec_SecretHash :: string
  sec_Hint :: string
  sec_ExpiresAt :: int
  sec_CreatedAt :: int

record AppScope =
  sc_ID :: string
  sc_AppID :: string
  sc_Value :: string
  sc_AdminConsentDisplayName :: string
  sc_IsEnabled :: bool

record AppRole =
  ro_ID :: string
  ro_AppID :: string
  ro_Value :: string
  ro_DisplayName :: string
  ro_AllowedMemberTypes :: string
  ro_IsEnabled :: bool

record SigningKey =
  k_Kid :: string
  k_TenantID :: string
  k_Alg :: string
  k_PublicJWK :: string
  k_PrivatePKCS8 :: string
  k_IsActive :: bool
  k_CreatedAt :: int
  k_NotAfter :: "int option"

record AuthCode =
  ac_Code :: string
  ac_AppID :: string
  ac_UserID :: string
  ac_RedirectURI :: string
  ac_Scopes :: string
  ac_Resource :: string
  ac_CodeChallenge :: string
  ac_CodeChallengeMethod :: string
  ac_Nonce :: string
  ac_AMR :: string
  ac_AuthTime :: int
  ac_MaxAgeRequested :: bool
  ac_ExpiresAt :: int
  ac_Consumed :: bool
  ac_CreatedAt :: int

record RefreshToken =
  rt_TokenHash :: string
  rt_AppID :: string
  rt_UserID :: string
  rt_Scopes :: string
  rt_Resource :: string
  rt_AMR :: string
  rt_AuthTime :: int
  rt_AuthCode :: string
  rt_ExpiresAt :: int
  rt_RotatedFrom :: string
  rt_Revoked :: bool
  rt_CreatedAt :: int

record Session =
  se_ID :: string
  se_UserID :: string
  se_AuthMethod :: string
  se_CreatedAt :: int
  se_ExpiresAt :: int

definition Session_AuthTime :: "Session \<Rightarrow> int" where
  "Session_AuthTime s = se_CreatedAt s"

record DeviceCode =
  dc_DeviceCodeHash :: string
  dc_UserCode :: string
  dc_AppID :: string
  dc_UserID :: string
  dc_Scopes :: string
  dc_Status :: string
  dc_Interval :: int
  dc_ExpiresAt :: int
  dc_CreatedAt :: int

text \<open>\<^verbatim>\<open>consent.go\<close>, \<^verbatim>\<open>roles.go\<close>, \<^verbatim>\<open>tokenlifetime.go\<close>, \<^verbatim>\<open>federatedcred.go\<close>, \<^verbatim>\<open>keycred.go\<close>,
  \<^verbatim>\<open>webauthn.go\<close>, \<^verbatim>\<open>deleted.go\<close>, \<^verbatim>\<open>export.go\<close>.\<close>

record OAuth2PermissionGrant =
  og_ID :: string
  og_ClientID :: string
  og_ConsentType :: string
  og_ResourceID :: string
  og_PrincipalID :: string
  og_Scope :: string
  og_CreatedAt :: int

record AppRoleAssignment =
  ara_ID :: string
  ara_PrincipalID :: string
  ara_PrincipalType :: string
  ara_ResourceID :: string
  ara_AppRoleID :: string
  ara_CreatedAt :: int

record DirectoryRoleAssignment =
  dra_ID :: string
  dra_RoleDefinitionID :: string
  dra_PrincipalID :: string
  dra_DirectoryScopeID :: string
  dra_CreatedAt :: int

record TokenLifetimePolicy =
  tlp_ID :: string
  tlp_DisplayName :: string
  tlp_Definition :: "string list"
  tlp_IsOrganizationDefault :: bool
  tlp_CreatedAt :: int

record FederatedCredential =
  fc_ID :: string
  fc_AppID :: string
  fc_Name :: string
  fc_Issuer :: string
  fc_Subject :: string
  fc_Audiences :: "string list"
  fc_Description :: string
  fc_CreatedAt :: int

record AppKeyCredential =
  kc_ID :: string
  kc_AppID :: string
  kc_PublicKey :: string
  kc_DisplayName :: string
  kc_CreatedAt :: int

record AppExport =
  ae_App :: App
  ae_RedirectURIs :: "RedirectURI list"
  ae_Secrets :: "AppSecret list"
  ae_Scopes :: "AppScope list"
  ae_Roles :: "AppRole list"

text \<open>The JSON payload of a recycle-bin row is kept as the value it encodes.\<close>

datatype DeletedPayload =
    DeletedUser User "string list"
  | DeletedGroup Group "string list"
  | DeletedApp AppExport

record DeletedItem =
  di_ID :: string
  di_ObjectType :: string
  di_TenantID :: string
  di_DisplayName :: string
  di_Payload :: DeletedPayload
  di_DeletedAt :: int

text \<open>
  A decoded JSON value (Go's \<^verbatim>\<open>any\<close>). A number is a float64: \<open>JInt\<close> holds the integral ones, \<open>JFrac\<close> the
  text of any other. An object is the list of its members in the order Go's map iteration visits them.
\<close>

datatype json = JNull | JBool bool | JStr string | JInt int | JFrac string | JList "json list" | JObj "(string \<times> json) list"

record AttributeSet =
  at_ID :: string
  at_Description :: string
  at_MaxAttributesPerSet :: "int option"

record CustomSecurityAttributeDefinition =
  sd_ID :: string
  sd_AttributeSet :: string
  sd_Name :: string
  sd_Description :: string
  sd_Type :: string
  sd_Status :: string
  sd_IsCollection :: bool
  sd_IsSearchable :: bool

record AdministrativeUnit =
  au_ID :: string
  au_DisplayName :: string
  au_Description :: string
  au_Visibility :: string
  au_CreatedAt :: int

record AdminUnitMember =
  am_AU :: string
  am_ID :: string
  am_Type :: string

record CustomRoleDefinition =
  rd_ID :: string
  rd_DisplayName :: string
  rd_Description :: string
  rd_IsEnabled :: bool
  rd_RolePermissions :: "string list"
  rd_CreatedAt :: int

record WebAuthnCredential =
  wc_ID :: string
  wc_UserID :: string
  wc_PublicKey :: string
  wc_SignCount :: int
  wc_AAGUID :: string
  wc_Transports :: string
  wc_Name :: string
  wc_CreatedAt :: int

record ScimExternalID =
  sx_Type :: string
  sx_Resource :: string
  sx_External :: string

section \<open>The store\<close>

record Store =
  tenants :: "Tenant list"
  users :: "User list"
  groups :: "Group list"
  group_members :: "(string \<times> string) list"
  app_registrations :: "AppRow list"
  app_redirect_uris :: "RedirectURI list"
  redirect_uri_seq :: int
  app_secrets :: "AppSecret list"
  app_scopes :: "AppScope list"
  app_roles :: "AppRole list"
  signing_keys :: "SigningKey list"
  authorization_codes :: "AuthCode list"
  refresh_tokens :: "RefreshToken list"
  sessions :: "Session list"
  session_apps :: "(string \<times> string) list"
  device_codes :: "DeviceCode list"
  token_lifetime_policies :: "TokenLifetimePolicy list"
  app_token_lifetime_policies :: "(string \<times> string) list"
  custom_role_definitions :: "CustomRoleDefinition list"
  app_federated_credentials :: "FederatedCredential list"
  app_key_credentials :: "AppKeyCredential list"
  webauthn_credentials :: "WebAuthnCredential list"
  workspace_identities :: "WorkspaceIdentity list"
  deleted_items :: "DeletedItem list"
  oauth2_permission_grants :: "OAuth2PermissionGrant list"
  app_role_assignments :: "AppRoleAssignment list"
  directory_role_assignments :: "DirectoryRoleAssignment list"
  attribute_sets :: "AttributeSet list"
  custom_security_attribute_definitions :: "CustomSecurityAttributeDefinition list"
  user_custom_security_attributes :: "(string \<times> string \<times> json) list"
  administrative_units :: "AdministrativeUnit list"
  administrative_unit_members :: "AdminUnitMember list"
  scim_external_ids :: "ScimExternalID list"

text \<open>The freshly migrated store: every table of the schema is empty.\<close>

definition empty_store :: Store where
  "empty_store = \<lparr>tenants = [], users = [], groups = [], group_members = [], app_registrations = [],
     app_redirect_uris = [], redirect_uri_seq = 0, app_secrets = [], app_scopes = [], app_roles = [],
     signing_keys = [], authorization_codes = [], refresh_tokens = [], sessions = [], session_apps = [],
     device_codes = [], token_lifetime_policies = [], app_token_lifetime_policies = [],
     custom_role_definitions = [], app_federated_credentials = [], app_key_credentials = [],
     webauthn_credentials = [], workspace_identities = [], deleted_items = [],
     oauth2_permission_grants = [], app_role_assignments = [], directory_role_assignments = [],
     attribute_sets = [], custom_security_attribute_definitions = [], user_custom_security_attributes = [],
     administrative_units = [], administrative_unit_members = [], scim_external_ids = []\<rparr>"

type_synonym 'a op = "Store \<Rightarrow> 'a res \<times> Store"

section \<open>Helpers shared by the repositories\<close>

text \<open>\<^verbatim>\<open>Store.tx\<close>: the body runs on the store and an error rolls every change back.\<close>

definition tx :: "'a op \<Rightarrow> 'a op" where
  "tx fn s = (case fn s of (Inl e, _) \<Rightarrow> (Inl e, s) | (Inr v, s') \<Rightarrow> (Inr v, s'))"

definition requireRow :: "nat \<Rightarrow> unit res" where
  "requireRow n = (if n = 0 then Inl ErrNotFound else if n > 1 then Inl (ErrRows n) else Inr ())"

definition coalesceStr :: "string \<Rightarrow> string \<Rightarrow> string" where
  "coalesceStr v def = (if v = [] then def else v)"

definition userTypeOrDefault :: "string \<Rightarrow> string" where
  "userTypeOrDefault t = (if t = [] then ''Member'' else t)"

lemma tx_Inl: "tx fn s = (Inl e, s') \<Longrightarrow> s' = s"
  by (auto simp: tx_def split: prod.splits sum.splits)

lemma tx_Inr_iff: "tx fn s = (Inr v, s') \<longleftrightarrow> fn s = (Inr v, s')"
  by (auto simp: tx_def split: prod.splits sum.splits)

lemma requireRow_Inr_iff [simp]: "requireRow n = Inr u \<longleftrightarrow> n = 1"
  by (auto simp: requireRow_def)

lemma requireRow_cases: "n \<le> 1 \<Longrightarrow> requireRow n = (if n = 0 then Inl ErrNotFound else Inr ())"
  by (auto simp: requireRow_def)

lemma coalesceStr_idem [simp]: "coalesceStr (coalesceStr v d) d = coalesceStr v d"
  by (simp add: coalesceStr_def)

text \<open>Existence of the parent row a foreign key names.\<close>

definition has_tenant :: "Store \<Rightarrow> string \<Rightarrow> bool" where
  "has_tenant s i \<longleftrightarrow> list_ex (\<lambda>t. t_ID t = i) (tenants s)"

definition has_user :: "Store \<Rightarrow> string \<Rightarrow> bool" where
  "has_user s i \<longleftrightarrow> list_ex (\<lambda>u. u_ID u = i) (users s)"

definition has_group :: "Store \<Rightarrow> string \<Rightarrow> bool" where
  "has_group s i \<longleftrightarrow> list_ex (\<lambda>g. g_ID g = i) (groups s)"

definition has_app :: "Store \<Rightarrow> string \<Rightarrow> bool" where
  "has_app s i \<longleftrightarrow> list_ex (\<lambda>a. a_ID a = i) (app_registrations s)"

lemmas has_defs = has_tenant_def has_user_def has_group_def has_app_def

lemma has_iff:
  "has_tenant s i \<longleftrightarrow> i \<in> t_ID ` set (tenants s)"
  "has_user s i \<longleftrightarrow> i \<in> u_ID ` set (users s)"
  "has_group s i \<longleftrightarrow> i \<in> g_ID ` set (groups s)"
  "has_app s i \<longleftrightarrow> i \<in> a_ID ` set (app_registrations s)"
  by (auto simp: has_defs list_ex_iff)

end
