(* ===== verification/Directory.thy ===== *)
theory Directory
  imports StoreTypes
begin

text \<open>
  \<^verbatim>\<open>internal/store/directory.go\<close>: tenants, users, groups and group membership, with the
  cascades and foreign-key checks the schema attaches to their rows. The statements that delete
  users, groups and app registrations are shared by the hard deletes here and in \<^verbatim>\<open>apps.go\<close> and
  by the recycle bin.
\<close>

section \<open>Deleting rows other tables refer to\<close>

text \<open>
  \<open>del_users P\<close>, \<open>del_groups P\<close> and \<open>del_apps P\<close> are \<^verbatim>\<open>DELETE FROM users|groups|app_registrations WHERE P\<close>
  under \<^verbatim>\<open>PRAGMA foreign_keys=ON\<close>: rows that reference a deleted row go with it when the foreign key
  says \<^verbatim>\<open>ON DELETE CASCADE\<close>, and the statement fails when one that does not is still there.
  The number is the rows-affected count.
\<close>

definition del_users :: "(User \<Rightarrow> bool) \<Rightarrow> nat op" where
  "del_users P s =
     (let gone = map u_ID (filter P (users s)) in
      if list_ex (\<lambda>c. ac_UserID c \<in> set gone) (authorization_codes s)
         \<or> list_ex (\<lambda>t. rt_UserID t \<in> set gone) (refresh_tokens s)
      then (Inl ErrForeignKey, s)
      else (Inr (sql_count P (users s)),
        s\<lparr>users := sql_delete P (users s),
          group_members := sql_delete (\<lambda>(g, u). u \<in> set gone) (group_members s),
          sessions := sql_delete (\<lambda>x. se_UserID x \<in> set gone) (sessions s),
          webauthn_credentials := sql_delete (\<lambda>c. wc_UserID c \<in> set gone) (webauthn_credentials s),
          user_custom_security_attributes :=
            sql_delete (\<lambda>(u, d, v). u \<in> set gone) (user_custom_security_attributes s)\<rparr>))"

definition del_groups :: "(Group \<Rightarrow> bool) \<Rightarrow> nat op" where
  "del_groups P s =
     (let gone = map g_ID (filter P (groups s)) in
      (Inr (sql_count P (groups s)),
        s\<lparr>groups := sql_delete P (groups s),
          group_members := sql_delete (\<lambda>(g, u). g \<in> set gone) (group_members s)\<rparr>))"

definition del_apps :: "(AppRow \<Rightarrow> bool) \<Rightarrow> nat op" where
  "del_apps P s =
     (let gone = map a_ID (filter P (app_registrations s)) in
      if list_ex (\<lambda>c. ac_AppID c \<in> set gone) (authorization_codes s)
         \<or> list_ex (\<lambda>t. rt_AppID t \<in> set gone) (refresh_tokens s)
         \<or> list_ex (\<lambda>d. dc_AppID d \<in> set gone) (device_codes s)
      then (Inl ErrForeignKey, s)
      else (Inr (sql_count P (app_registrations s)),
        s\<lparr>app_registrations := sql_delete P (app_registrations s),
          app_redirect_uris := sql_delete (\<lambda>r. ru_AppID r \<in> set gone) (app_redirect_uris s),
          app_secrets := sql_delete (\<lambda>r. sec_AppID r \<in> set gone) (app_secrets s),
          app_scopes := sql_delete (\<lambda>r. sc_AppID r \<in> set gone) (app_scopes s),
          app_roles := sql_delete (\<lambda>r. ro_AppID r \<in> set gone) (app_roles s),
          app_token_lifetime_policies :=
            sql_delete (\<lambda>(a, p). a \<in> set gone) (app_token_lifetime_policies s),
          app_federated_credentials :=
            sql_delete (\<lambda>r. fc_AppID r \<in> set gone) (app_federated_credentials s),
          app_key_credentials := sql_delete (\<lambda>r. kc_AppID r \<in> set gone) (app_key_credentials s),
          workspace_identities := sql_delete (\<lambda>r. wi_AppID r \<in> set gone) (workspace_identities s)\<rparr>))"

section \<open>Tenants\<close>

definition ListTenants :: "Store \<Rightarrow> Tenant list" where
  "ListTenants s = sort_key t_CreatedAt (tenants s)"

definition GetTenant :: "Store \<Rightarrow> Tenant res" where
  "GetTenant s = one_row (case ListTenants s of [] \<Rightarrow> None | t # _ \<Rightarrow> Some t)"

definition GetTenantByID :: "Store \<Rightarrow> string \<Rightarrow> Tenant res" where
  "GetTenantByID s i = one_row (sql_first (\<lambda>t. t_ID t = i) (tenants s))"

definition CreateTenant :: "Tenant \<Rightarrow> unit op" where
  "CreateTenant t s =
     (if has_tenant s (t_ID t) then (Inl ErrConflict, s)
      else (Inr (), s\<lparr>tenants := tenants s @ [t]\<rparr>))"

definition tenant_apps :: "Store \<Rightarrow> string \<Rightarrow> string list" where
  "tenant_apps s i = map a_ID (filter (\<lambda>a. a_TenantID a = i) (app_registrations s))"

definition tenant_users :: "Store \<Rightarrow> string \<Rightarrow> string list" where
  "tenant_users s i = map u_ID (filter (\<lambda>u. u_TenantID u = i) (users s))"

text \<open>The statements of \<^verbatim>\<open>DeleteTenant\<close> in order; each sees the effect of the ones before.\<close>

definition del_tenant_row :: "string \<Rightarrow> unit op" where
  "del_tenant_row i s =
     (if has_tenant s i \<and>
         (list_ex (\<lambda>u. u_TenantID u = i) (users s) \<or> list_ex (\<lambda>g. g_TenantID g = i) (groups s)
          \<or> list_ex (\<lambda>a. a_TenantID a = i) (app_registrations s)
          \<or> list_ex (\<lambda>k. k_TenantID k = i) (signing_keys s)
          \<or> list_ex (\<lambda>w. wi_TenantID w = i) (workspace_identities s))
      then (Inl ErrForeignKey, s)
      else (requireRow (sql_count (\<lambda>t. t_ID t = i) (tenants s)),
            s\<lparr>tenants := sql_delete (\<lambda>t. t_ID t = i) (tenants s)\<rparr>))"

definition clear_tenant_grants :: "string \<Rightarrow> Store \<Rightarrow> Store" where
  "clear_tenant_grants i s =
     (let apps = tenant_apps s i; us = tenant_users s i in
      s\<lparr>authorization_codes :=
          sql_delete (\<lambda>c. ac_AppID c \<in> set apps \<or> ac_UserID c \<in> set us) (authorization_codes s),
        refresh_tokens :=
          sql_delete (\<lambda>t. rt_AppID t \<in> set apps \<or> rt_UserID t \<in> set us) (refresh_tokens s),
        device_codes := sql_delete (\<lambda>d. dc_AppID d \<in> set apps) (device_codes s)\<rparr>)"

definition DeleteTenant :: "string \<Rightarrow> unit op" where
  "DeleteTenant i = tx (\<lambda>s.
     let s1 = clear_tenant_grants i s in
     case del_apps (\<lambda>a. a_TenantID a = i) s1 of
       (Inl e, s2) \<Rightarrow> (Inl e, s2)
     | (Inr _, s2) \<Rightarrow>
       (case del_groups (\<lambda>g. g_TenantID g = i) s2 of
          (Inl e, s3) \<Rightarrow> (Inl e, s3)
        | (Inr _, s3) \<Rightarrow>
          (case del_users (\<lambda>u. u_TenantID u = i) s3 of
             (Inl e, s4) \<Rightarrow> (Inl e, s4)
           | (Inr _, s4) \<Rightarrow>
               del_tenant_row i
                 (s4\<lparr>signing_keys := sql_delete (\<lambda>k. k_TenantID k = i) (signing_keys s4)\<rparr>))))"

section \<open>Users\<close>

text \<open>\<^verbatim>\<open>COLLATE NOCASE\<close> and \<^verbatim>\<open>LIKE\<close> fold the 26 ASCII capitals only.\<close>

definition lower_char :: "char \<Rightarrow> char" where
  "lower_char c = (if CHR ''A'' \<le> c \<and> c \<le> CHR ''Z'' then char_of (of_char c + 32 :: nat) else c)"

definition nocase_eq :: "string \<Rightarrow> string \<Rightarrow> bool" where
  "nocase_eq a b \<longleftrightarrow> map lower_char a = map lower_char b"

fun sql_like :: "string \<Rightarrow> string \<Rightarrow> bool" where
  "sql_like [] v = (v = [])"
| "sql_like (p # ps) v =
     (if p = CHR ''%'' then sql_like ps v \<or> (case v of [] \<Rightarrow> False | _ # cs \<Rightarrow> sql_like (p # ps) cs)
      else (case v of [] \<Rightarrow> False
            | c # cs \<Rightarrow> (p = CHR ''_'' \<or> lower_char p = lower_char c) \<and> sql_like ps cs))"

text \<open>\<^verbatim>\<open>LIMIT ? OFFSET ?\<close>: a negative limit means no limit, a negative offset none.\<close>

definition sql_page :: "int \<Rightarrow> int \<Rightarrow> 'r list \<Rightarrow> 'r list" where
  "sql_page lim skip rows =
     (let rest = drop (nat skip) rows in if lim < 0 then rest else take (nat lim) rest)"

definition GetUser :: "Store \<Rightarrow> string \<Rightarrow> User res" where
  "GetUser s i = one_row (sql_first (\<lambda>u. u_ID u = i) (users s))"

definition GetUserByUPN :: "Store \<Rightarrow> string \<Rightarrow> User res" where
  "GetUserByUPN s upn = one_row (sql_first (\<lambda>u. nocase_eq (u_UserPrincipalName u) upn) (users s))"

definition user_matches :: "string \<Rightarrow> User \<Rightarrow> bool" where
  "user_matches search u \<longleftrightarrow> search = [] \<or>
     sql_like (''%'' @ search @ ''%'') (u_UserPrincipalName u) \<or>
     sql_like (''%'' @ search @ ''%'') (u_DisplayName u)"

definition ListUsers :: "Store \<Rightarrow> int \<Rightarrow> int \<Rightarrow> string \<Rightarrow> User list \<times> nat" where
  "ListUsers s lim skip search =
     (let rows = filter (user_matches search) (users s)
      in (sql_page lim skip (sort_key u_ID rows), length rows))"

definition norm_user :: "User \<Rightarrow> User" where
  "norm_user u = u\<lparr>u_UserType := userTypeOrDefault (u_UserType u),
                   u_UpdatedAt := (if u_UpdatedAt u = 0 then u_CreatedAt u else u_UpdatedAt u)\<rparr>"

definition CreateUser :: "User \<Rightarrow> unit op" where
  "CreateUser u s =
     (if has_user s (u_ID u) \<or> list_ex (\<lambda>x. u_UserPrincipalName x = u_UserPrincipalName u) (users s)
      then (Inl ErrConflict, s)
      else if \<not> has_tenant s (u_TenantID u) then (Inl ErrForeignKey, s)
      else (Inr (), s\<lparr>users := users s @ [norm_user u]\<rparr>))"

text \<open>\<^verbatim>\<open>UpdateUser\<close> writes the mutable columns; tenant, creation time and invite URL stay.\<close>

definition set_user_columns :: "int \<Rightarrow> User \<Rightarrow> User \<Rightarrow> User" where
  "set_user_columns now u row = row\<lparr>u_UserPrincipalName := u_UserPrincipalName u,
     u_DisplayName := u_DisplayName u, u_GivenName := u_GivenName u, u_Surname := u_Surname u,
     u_Mail := u_Mail u, u_PasswordHash := u_PasswordHash u, u_AccountEnabled := u_AccountEnabled u,
     u_UserType := userTypeOrDefault (u_UserType u), u_ExternalUserState := u_ExternalUserState u,
     u_UpdatedAt := now\<rparr>"

definition UpdateUser :: "int \<Rightarrow> User \<Rightarrow> unit op" where
  "UpdateUser now u s =
     (if has_user s (u_ID u) \<and>
         list_ex (\<lambda>x. u_ID x \<noteq> u_ID u \<and> u_UserPrincipalName x = u_UserPrincipalName u) (users s)
      then (Inl ErrConflict, s)
      else (requireRow (sql_count (\<lambda>x. u_ID x = u_ID u) (users s)),
            s\<lparr>users := sql_update (\<lambda>x. u_ID x = u_ID u) (set_user_columns now u) (users s)\<rparr>))"

text \<open>The three grant statements every deletion of a user runs first.\<close>

definition clear_user_grants :: "string \<Rightarrow> Store \<Rightarrow> Store" where
  "clear_user_grants i s =
     s\<lparr>authorization_codes := sql_delete (\<lambda>c. ac_UserID c = i) (authorization_codes s),
       refresh_tokens := sql_delete (\<lambda>t. rt_UserID t = i) (refresh_tokens s),
       device_codes := sql_update (\<lambda>d. null_eq (dc_UserID d) i) (\<lambda>d. d\<lparr>dc_UserID := []\<rparr>) (device_codes s)\<rparr>"

definition delete_user_body :: "string \<Rightarrow> unit op" where
  "delete_user_body i s =
     (case del_users (\<lambda>u. u_ID u = i) (clear_user_grants i s) of
        (Inl e, s') \<Rightarrow> (Inl e, s')
      | (Inr n, s') \<Rightarrow> (requireRow n, s'))"

definition DeleteUser :: "string \<Rightarrow> unit op" where
  "DeleteUser i = tx (delete_user_body i)"

text \<open>\<open>verify\<close> is \<^verbatim>\<open>VerifySecret\<close>: the scrypt check of a plaintext against an encoded hash.\<close>

definition VerifyPassword :: "(string \<Rightarrow> string \<Rightarrow> bool) \<Rightarrow> Store \<Rightarrow> string \<Rightarrow> string \<Rightarrow> User res" where
  "VerifyPassword verify s upn password =
     (case GetUserByUPN s upn of
        Inl e \<Rightarrow> Inl e
      | Inr u \<Rightarrow>
          if \<not> u_AccountEnabled u \<or> u_PasswordHash u = [] \<or> \<not> verify password (u_PasswordHash u)
          then Inl ErrNotFound else Inr u)"

section \<open>Groups\<close>

definition GetGroup :: "Store \<Rightarrow> string \<Rightarrow> Group res" where
  "GetGroup s i = one_row (sql_first (\<lambda>g. g_ID g = i) (groups s))"

definition ListGroups :: "Store \<Rightarrow> int \<Rightarrow> int \<Rightarrow> string \<Rightarrow> Group list \<times> nat" where
  "ListGroups s lim skip search =
     (let rows = filter (\<lambda>g. search = [] \<or> sql_like (''%'' @ search @ ''%'') (g_DisplayName g)) (groups s)
      in (sql_page lim skip (sort_key g_ID rows), length rows))"

definition CreateGroup :: "Group \<Rightarrow> unit op" where
  "CreateGroup g s =
     (if has_group s (g_ID g) then (Inl ErrConflict, s)
      else if \<not> has_tenant s (g_TenantID g) then (Inl ErrForeignKey, s)
      else (Inr (), s\<lparr>groups := groups s @ [g]\<rparr>))"

definition UpdateGroup :: "Group \<Rightarrow> unit op" where
  "UpdateGroup g s =
     (requireRow (sql_count (\<lambda>x. g_ID x = g_ID g) (groups s)),
      s\<lparr>groups := sql_update (\<lambda>x. g_ID x = g_ID g)
          (\<lambda>x. x\<lparr>g_DisplayName := g_DisplayName g, g_Description := g_Description g\<rparr>) (groups s)\<rparr>)"

definition DeleteGroup :: "string \<Rightarrow> unit op" where
  "DeleteGroup i s =
     (case del_groups (\<lambda>g. g_ID g = i) s of
        (Inl e, s') \<Rightarrow> (Inl e, s')
      | (Inr n, s') \<Rightarrow> (requireRow n, s'))"

definition IsGroupMember :: "Store \<Rightarrow> string \<Rightarrow> string \<Rightarrow> bool" where
  "IsGroupMember s gid uid \<longleftrightarrow> (gid, uid) \<in> set (group_members s)"

definition insert_or_ignore :: "'a \<Rightarrow> 'a list \<Rightarrow> 'a list" where
  "insert_or_ignore x xs = (if x \<in> set xs then xs else xs @ [x])"

definition AddGroupMember :: "string \<Rightarrow> string \<Rightarrow> unit op" where
  "AddGroupMember gid uid s =
     (case GetGroup s gid of
        Inl e \<Rightarrow> (Inl e, s)
      | Inr _ \<Rightarrow>
        (case GetUser s uid of
           Inl e \<Rightarrow> (Inl e, s)
         | Inr _ \<Rightarrow> (Inr (), s\<lparr>group_members := insert_or_ignore (gid, uid) (group_members s)\<rparr>)))"

definition RemoveGroupMember :: "string \<Rightarrow> string \<Rightarrow> unit op" where
  "RemoveGroupMember gid uid s =
     (Inr (), s\<lparr>group_members := sql_delete (\<lambda>e. e = (gid, uid)) (group_members s)\<rparr>)"

definition ListGroupMembers :: "Store \<Rightarrow> string \<Rightarrow> User list" where
  "ListGroupMembers s gid = sort_key u_ID (filter (\<lambda>u. (gid, u_ID u) \<in> set (group_members s)) (users s))"

definition ListGroupsForUser :: "Store \<Rightarrow> string \<Rightarrow> Group list" where
  "ListGroupsForUser s uid = sort_key g_ID (filter (\<lambda>g. (g_ID g, uid) \<in> set (group_members s)) (groups s))"

definition CountGroupMembers :: "Store \<Rightarrow> string \<Rightarrow> nat" where
  "CountGroupMembers s gid = sql_count (\<lambda>(g, u). g = gid) (group_members s)"

end
