(* ===== verification/Apps.thy ===== *)
theory Apps
  imports Directory
begin

text \<open>
  \<^verbatim>\<open>internal/store/apps.go\<close> with \<^verbatim>\<open>keycred.go\<close>, \<^verbatim>\<open>federatedcred.go\<close>, \<^verbatim>\<open>frontchannel.go\<close> and
  \<^verbatim>\<open>fabric.go\<close>: app registrations and the rows they own (redirect URIs, secrets, scopes, app
  roles, key and federated credentials, workspace identities).
\<close>

section \<open>App registrations\<close>

definition GetApp :: "Store \<Rightarrow> string \<Rightarrow> App res" where
  "GetApp s appID = one_row (sql_first (\<lambda>a. a_ID a = appID) (map App.truncate (app_registrations s)))"

definition GetAppByIDURI :: "Store \<Rightarrow> string \<Rightarrow> App res" where
  "GetAppByIDURI s uri =
     one_row (sql_first (\<lambda>a. null_eq (a_AppIDURI a) uri) (map App.truncate (app_registrations s)))"

definition ListApps :: "Store \<Rightarrow> int \<Rightarrow> int \<Rightarrow> string \<Rightarrow> App list \<times> nat" where
  "ListApps s lim skip search =
     (let rows = filter (\<lambda>a. search = [] \<or> sql_like (''%'' @ search @ ''%'') (a_DisplayName a))
                   (map App.truncate (app_registrations s))
      in (sql_page lim skip (sort_key a_ID rows), length rows))"

definition appIDURITaken :: "Store \<Rightarrow> string \<Rightarrow> string \<Rightarrow> bool" where
  "appIDURITaken s uri exceptAppID =
     (if uri = [] then False
      else sql_count (\<lambda>a. null_eq (a_AppIDURI a) uri \<and> a_ID a \<noteq> exceptAppID) (app_registrations s) > 0)"

definition norm_app :: "App \<Rightarrow> App" where
  "norm_app a = a\<lparr>a_GroupMembershipClaims := coalesceStr (a_GroupMembershipClaims a) ''None''\<rparr>"

definition app_row :: "App \<Rightarrow> AppRow" where
  "app_row a = App.extend a (AppRow.fields [])"

text \<open>The \<^verbatim>\<open>INSERT INTO app_registrations\<close> statement, used by \<^verbatim>\<open>CreateApp\<close> and by the restore.\<close>

definition insert_app :: "App \<Rightarrow> unit op" where
  "insert_app a s =
     (if has_app s (a_ID a) then (Inl ErrConflict, s)
      else if \<not> has_tenant s (a_TenantID a) then (Inl ErrForeignKey, s)
      else (Inr (), s\<lparr>app_registrations := app_registrations s @ [app_row (norm_app a)]\<rparr>))"

definition CreateApp :: "App \<Rightarrow> unit op" where
  "CreateApp a s = (if appIDURITaken s (a_AppIDURI a) (a_ID a) then (Inl ErrConflict, s) else insert_app a s)"

definition set_app_columns :: "App \<Rightarrow> AppRow \<Rightarrow> AppRow" where
  "set_app_columns a row = row\<lparr>a_DisplayName := a_DisplayName a, a_IsConfidential := a_IsConfidential a,
     a_AppIDURI := a_AppIDURI a, a_OptionalClaims := a_OptionalClaims a,
     a_GroupMembershipClaims := coalesceStr (a_GroupMembershipClaims a) ''None'',
     a_GroupOverageLimit := a_GroupOverageLimit a\<rparr>"

definition UpdateApp :: "App \<Rightarrow> unit op" where
  "UpdateApp a s =
     (if appIDURITaken s (a_AppIDURI a) (a_ID a) then (Inl ErrConflict, s)
      else (requireRow (sql_count (\<lambda>x. a_ID x = a_ID a) (app_registrations s)),
            s\<lparr>app_registrations :=
                sql_update (\<lambda>x. a_ID x = a_ID a) (set_app_columns a) (app_registrations s)\<rparr>))"

definition clear_app_grants :: "string \<Rightarrow> Store \<Rightarrow> Store" where
  "clear_app_grants i s =
     s\<lparr>authorization_codes := sql_delete (\<lambda>c. ac_AppID c = i) (authorization_codes s),
       refresh_tokens := sql_delete (\<lambda>t. rt_AppID t = i) (refresh_tokens s),
       device_codes := sql_delete (\<lambda>d. dc_AppID d = i) (device_codes s)\<rparr>"

definition delete_app_body :: "string \<Rightarrow> unit op" where
  "delete_app_body i s =
     (case del_apps (\<lambda>a. a_ID a = i) (clear_app_grants i s) of
        (Inl e, s') \<Rightarrow> (Inl e, s')
      | (Inr n, s') \<Rightarrow> (requireRow n, s'))"

definition DeleteApp :: "string \<Rightarrow> unit op" where
  "DeleteApp i = tx (delete_app_body i)"

section \<open>Redirect URIs\<close>

definition ListRedirectURIs :: "Store \<Rightarrow> string \<Rightarrow> RedirectURI list" where
  "ListRedirectURIs s appID = sort_key ru_ID (filter (\<lambda>r. ru_AppID r = appID) (app_redirect_uris s))"

text \<open>\<^verbatim>\<open>id INTEGER PRIMARY KEY AUTOINCREMENT\<close>: a new row gets the next number, never a used one.\<close>

definition AddRedirectURI :: "string \<Rightarrow> string \<Rightarrow> string \<Rightarrow> RedirectURI op" where
  "AddRedirectURI appID uri typ s =
     (if list_ex (\<lambda>r. ru_AppID r = appID \<and> ru_URI r = uri) (app_redirect_uris s) then (Inl ErrConflict, s)
      else if \<not> has_app s appID then (Inl ErrForeignKey, s)
      else let r = \<lparr>ru_ID = redirect_uri_seq s + 1, ru_AppID = appID, ru_URI = uri,
                    ru_Type = coalesceStr typ ''web''\<rparr>
           in (Inr r, s\<lparr>app_redirect_uris := app_redirect_uris s @ [r],
                        redirect_uri_seq := redirect_uri_seq s + 1\<rparr>))"

definition DeleteRedirectURI :: "string \<Rightarrow> int \<Rightarrow> unit op" where
  "DeleteRedirectURI appID i s =
     (requireRow (sql_count (\<lambda>r. ru_AppID r = appID \<and> ru_ID r = i) (app_redirect_uris s)),
      s\<lparr>app_redirect_uris := sql_delete (\<lambda>r. ru_AppID r = appID \<and> ru_ID r = i) (app_redirect_uris s)\<rparr>)"

definition HasRedirectURI :: "Store \<Rightarrow> string \<Rightarrow> string \<Rightarrow> bool" where
  "HasRedirectURI s appID uri \<longleftrightarrow>
     sql_count (\<lambda>r. ru_AppID r = appID \<and> ru_URI r = uri) (app_redirect_uris s) > 0"

definition HasRedirectURIOfType :: "Store \<Rightarrow> string \<Rightarrow> string \<Rightarrow> string \<Rightarrow> bool" where
  "HasRedirectURIOfType s appID uri typ \<longleftrightarrow>
     sql_count (\<lambda>r. ru_AppID r = appID \<and> ru_URI r = uri \<and> ru_Type r = typ) (app_redirect_uris s) > 0"

section \<open>Secrets\<close>

definition ListSecrets :: "Store \<Rightarrow> string \<Rightarrow> AppSecret list" where
  "ListSecrets s appID = sort_key sec_CreatedAt (filter (\<lambda>r. sec_AppID r = appID) (app_secrets s))"

definition AddSecret :: "AppSecret \<Rightarrow> unit op" where
  "AddSecret sec s =
     (if list_ex (\<lambda>r. sec_ID r = sec_ID sec) (app_secrets s) then (Inl ErrConflict, s)
      else if \<not> has_app s (sec_AppID sec) then (Inl ErrForeignKey, s)
      else (Inr (), s\<lparr>app_secrets := app_secrets s @ [sec]\<rparr>))"

definition DeleteSecret :: "string \<Rightarrow> string \<Rightarrow> unit op" where
  "DeleteSecret appID i s =
     (requireRow (sql_count (\<lambda>r. sec_AppID r = appID \<and> sec_ID r = i) (app_secrets s)),
      s\<lparr>app_secrets := sql_delete (\<lambda>r. sec_AppID r = appID \<and> sec_ID r = i) (app_secrets s)\<rparr>)"

fun check_secrets :: "(string \<Rightarrow> string \<Rightarrow> bool) \<Rightarrow> int \<Rightarrow> string \<Rightarrow> AppSecret list \<Rightarrow> bool" where
  "check_secrets verify now plaintext [] = False"
| "check_secrets verify now plaintext (sec # rest) =
     (if sec_ExpiresAt sec \<noteq> 0 \<and> sec_ExpiresAt sec \<le> now then check_secrets verify now plaintext rest
      else if verify plaintext (sec_SecretHash sec) then True
      else check_secrets verify now plaintext rest)"

definition VerifyAppSecret :: "(string \<Rightarrow> string \<Rightarrow> bool) \<Rightarrow> int \<Rightarrow> Store \<Rightarrow> string \<Rightarrow> string \<Rightarrow> bool" where
  "VerifyAppSecret verify now s appID plaintext = check_secrets verify now plaintext (ListSecrets s appID)"

section \<open>Scopes and app roles\<close>

definition ListScopes :: "Store \<Rightarrow> string \<Rightarrow> AppScope list" where
  "ListScopes s appID = sort_key sc_Value (filter (\<lambda>r. sc_AppID r = appID) (app_scopes s))"

definition AddScope :: "AppScope \<Rightarrow> unit op" where
  "AddScope sc s =
     (if list_ex (\<lambda>r. sc_ID r = sc_ID sc \<or> (sc_AppID r = sc_AppID sc \<and> sc_Value r = sc_Value sc)) (app_scopes s)
      then (Inl ErrConflict, s)
      else if \<not> has_app s (sc_AppID sc) then (Inl ErrForeignKey, s)
      else (Inr (), s\<lparr>app_scopes := app_scopes s @ [sc]\<rparr>))"

definition UpdateScope :: "AppScope \<Rightarrow> unit op" where
  "UpdateScope sc s =
     (requireRow (sql_count (\<lambda>r. sc_AppID r = sc_AppID sc \<and> sc_ID r = sc_ID sc) (app_scopes s)),
      s\<lparr>app_scopes := sql_update (\<lambda>r. sc_AppID r = sc_AppID sc \<and> sc_ID r = sc_ID sc)
          (\<lambda>r. r\<lparr>sc_AdminConsentDisplayName := sc_AdminConsentDisplayName sc,
                sc_IsEnabled := sc_IsEnabled sc\<rparr>) (app_scopes s)\<rparr>)"

definition DeleteScope :: "string \<Rightarrow> string \<Rightarrow> unit op" where
  "DeleteScope appID i s =
     (requireRow (sql_count (\<lambda>r. sc_AppID r = appID \<and> sc_ID r = i) (app_scopes s)),
      s\<lparr>app_scopes := sql_delete (\<lambda>r. sc_AppID r = appID \<and> sc_ID r = i) (app_scopes s)\<rparr>)"

definition ListRoles :: "Store \<Rightarrow> string \<Rightarrow> AppRole list" where
  "ListRoles s appID = sort_key ro_Value (filter (\<lambda>r. ro_AppID r = appID) (app_roles s))"

definition norm_role :: "AppRole \<Rightarrow> AppRole" where
  "norm_role r = r\<lparr>ro_AllowedMemberTypes := coalesceStr (ro_AllowedMemberTypes r) ''Application''\<rparr>"

definition AddRole :: "AppRole \<Rightarrow> unit op" where
  "AddRole ro s =
     (if list_ex (\<lambda>r. ro_ID r = ro_ID ro \<or> (ro_AppID r = ro_AppID ro \<and> ro_Value r = ro_Value ro)) (app_roles s)
      then (Inl ErrConflict, s)
      else if \<not> has_app s (ro_AppID ro) then (Inl ErrForeignKey, s)
      else (Inr (), s\<lparr>app_roles := app_roles s @ [norm_role ro]\<rparr>))"

definition UpdateRole :: "AppRole \<Rightarrow> unit op" where
  "UpdateRole ro s =
     (requireRow (sql_count (\<lambda>r. ro_AppID r = ro_AppID ro \<and> ro_ID r = ro_ID ro) (app_roles s)),
      s\<lparr>app_roles := sql_update (\<lambda>r. ro_AppID r = ro_AppID ro \<and> ro_ID r = ro_ID ro)
          (\<lambda>r. r\<lparr>ro_DisplayName := ro_DisplayName ro,
                ro_AllowedMemberTypes := coalesceStr (ro_AllowedMemberTypes ro) ''Application'',
                ro_IsEnabled := ro_IsEnabled ro\<rparr>) (app_roles s)\<rparr>)"

definition DeleteRole :: "string \<Rightarrow> string \<Rightarrow> unit op" where
  "DeleteRole appID i s =
     (requireRow (sql_count (\<lambda>r. ro_AppID r = appID \<and> ro_ID r = i) (app_roles s)),
      s\<lparr>app_roles := sql_delete (\<lambda>r. ro_AppID r = appID \<and> ro_ID r = i) (app_roles s)\<rparr>)"

section \<open>Key credentials\<close>

definition AddAppKeyCredential :: "AppKeyCredential \<Rightarrow> unit op" where
  "AddAppKeyCredential c s =
     (if list_ex (\<lambda>r. kc_ID r = kc_ID c) (app_key_credentials s) then (Inl ErrConflict, s)
      else if \<not> has_app s (kc_AppID c) then (Inl ErrForeignKey, s)
      else (Inr (), s\<lparr>app_key_credentials := app_key_credentials s @ [c]\<rparr>))"

definition ListAppKeyCredentials :: "Store \<Rightarrow> string \<Rightarrow> AppKeyCredential list" where
  "ListAppKeyCredentials s appID =
     sort_key kc_CreatedAt (filter (\<lambda>r. kc_AppID r = appID) (app_key_credentials s))"

definition DeleteAppKeyCredential :: "string \<Rightarrow> string \<Rightarrow> unit op" where
  "DeleteAppKeyCredential appID i s =
     (requireRow (sql_count (\<lambda>r. kc_AppID r = appID \<and> kc_ID r = i) (app_key_credentials s)),
      s\<lparr>app_key_credentials := sql_delete (\<lambda>r. kc_AppID r = appID \<and> kc_ID r = i) (app_key_credentials s)\<rparr>)"

section \<open>Federated credentials\<close>

definition DefaultFederatedAudience :: string where
  "DefaultFederatedAudience = ''api://AzureADTokenExchange''"

text \<open>The audience column is one comma-separated string; a scan splits and trims it.\<close>

definition scan_audiences :: "string \<Rightarrow> string list" where
  "scan_audiences auds = filter (\<lambda>a. a \<noteq> []) (map TrimSpace (SplitChar auds CHR '',''))"

definition norm_fedcred :: "FederatedCredential \<Rightarrow> FederatedCredential" where
  "norm_fedcred c =
     c\<lparr>fc_Audiences := scan_audiences (Join
         (if fc_Audiences c = [] then [DefaultFederatedAudience] else fc_Audiences c) '','')\<rparr>"

text \<open>\<^verbatim>\<open>CreateFederatedCredential\<close> returns the driver's error unmapped, so a duplicate id or
  (app, name) is the raw constraint error there and not \<^verbatim>\<open>ErrConflict\<close>.\<close>

definition CreateFederatedCredential :: "FederatedCredential \<Rightarrow> unit op" where
  "CreateFederatedCredential c s =
     (if list_ex (\<lambda>r. fc_ID r = fc_ID c \<or> (fc_AppID r = fc_AppID c \<and> fc_Name r = fc_Name c))
           (app_federated_credentials s)
      then (Inl ErrUnique, s)
      else if \<not> has_app s (fc_AppID c) then (Inl ErrForeignKey, s)
      else (Inr (), s\<lparr>app_federated_credentials := app_federated_credentials s @ [norm_fedcred c]\<rparr>))"

definition ListFederatedCredentials :: "Store \<Rightarrow> string \<Rightarrow> FederatedCredential list" where
  "ListFederatedCredentials s appID =
     sort_key fc_CreatedAt (filter (\<lambda>r. fc_AppID r = appID) (app_federated_credentials s))"

definition GetFederatedCredential :: "Store \<Rightarrow> string \<Rightarrow> string \<Rightarrow> FederatedCredential res" where
  "GetFederatedCredential s appID i =
     one_row (sql_first (\<lambda>r. fc_AppID r = appID \<and> fc_ID r = i) (app_federated_credentials s))"

definition DeleteFederatedCredential :: "string \<Rightarrow> string \<Rightarrow> unit op" where
  "DeleteFederatedCredential appID i s =
     ((if sql_count (\<lambda>r. fc_AppID r = appID \<and> fc_ID r = i) (app_federated_credentials s) = 0
       then Inl ErrNotFound else Inr ()),
      s\<lparr>app_federated_credentials :=
          sql_delete (\<lambda>r. fc_AppID r = appID \<and> fc_ID r = i) (app_federated_credentials s)\<rparr>)"

definition UpdateFederatedCredential :: "FederatedCredential \<Rightarrow> unit op" where
  "UpdateFederatedCredential c s =
     ((if sql_count (\<lambda>r. fc_AppID r = fc_AppID c \<and> fc_ID r = fc_ID c) (app_federated_credentials s) = 0
       then Inl ErrNotFound else Inr ()),
      s\<lparr>app_federated_credentials :=
          sql_update (\<lambda>r. fc_AppID r = fc_AppID c \<and> fc_ID r = fc_ID c)
            (\<lambda>r. r\<lparr>fc_Issuer := fc_Issuer c, fc_Subject := fc_Subject c,
                  fc_Audiences := fc_Audiences (norm_fedcred c), fc_Description := fc_Description c\<rparr>)
            (app_federated_credentials s)\<rparr>)"

definition MatchFederatedCredential :: "Store \<Rightarrow> string \<Rightarrow> string \<Rightarrow> string \<Rightarrow> string \<Rightarrow> FederatedCredential res" where
  "MatchFederatedCredential s appID issuer subject audience =
     (case sql_first (\<lambda>r. fc_AppID r = appID \<and> fc_Issuer r = issuer \<and> fc_Subject r = subject)
             (app_federated_credentials s) of
        None \<Rightarrow> Inl ErrNotFound
      | Some c \<Rightarrow> if audience \<in> set (fc_Audiences c) then Inr c else Inl ErrNotFound)"

section \<open>Front-channel logout\<close>

definition SetFrontchannelLogoutURI :: "string \<Rightarrow> string \<Rightarrow> unit op" where
  "SetFrontchannelLogoutURI appID uri s =
     (requireRow (sql_count (\<lambda>x. a_ID x = appID) (app_registrations s)),
      s\<lparr>app_registrations := sql_update (\<lambda>x. a_ID x = appID)
          (\<lambda>x. x\<lparr>ar_FrontchannelLogoutURI := uri\<rparr>) (app_registrations s)\<rparr>)"

definition FrontchannelLogoutURI :: "Store \<Rightarrow> string \<Rightarrow> string res" where
  "FrontchannelLogoutURI s appID =
     (case sql_first (\<lambda>x. a_ID x = appID) (app_registrations s) of
        None \<Rightarrow> Inl ErrNotFound | Some x \<Rightarrow> Inr (ar_FrontchannelLogoutURI x))"

definition RecordSessionApp :: "string \<Rightarrow> string \<Rightarrow> Store \<Rightarrow> Store" where
  "RecordSessionApp sessionID appID s =
     (if sessionID = [] \<or> appID = [] then s
      else s\<lparr>session_apps := insert_or_ignore (sessionID, appID) (session_apps s)\<rparr>)"

definition SessionLogoutURIs :: "Store \<Rightarrow> string \<Rightarrow> string list" where
  "SessionLogoutURIs s sessionID =
     map ar_FrontchannelLogoutURI (sort_key a_ID
       (filter (\<lambda>a. (sessionID, a_ID a) \<in> set (session_apps s) \<and> ar_FrontchannelLogoutURI a \<noteq> [])
         (app_registrations s)))"

definition ForgetSessionApps :: "string \<Rightarrow> Store \<Rightarrow> Store" where
  "ForgetSessionApps sessionID s =
     s\<lparr>session_apps := sql_delete (\<lambda>(x, a). x = sessionID) (session_apps s)\<rparr>"

section \<open>Fabric workspace identities\<close>

definition ValidWorkspaceIdentityState :: "string \<Rightarrow> bool" where
  "ValidWorkspaceIdentityState st \<longleftrightarrow> st \<in> {''Active'', ''Provisioning'', ''Failed'', ''Deprovisioning''}"

definition CreateWorkspaceIdentity :: "WorkspaceIdentity \<Rightarrow> App \<Rightarrow> unit op" where
  "CreateWorkspaceIdentity wi app = tx (\<lambda>s.
     if has_app s (a_ID app) then (Inl ErrConflict, s)
     else if \<not> has_tenant s (a_TenantID app) then (Inl ErrForeignKey, s)
     else let sp = app\<lparr>a_IsConfidential := True, a_AppIDURI := [], a_OptionalClaims := [],
                       a_GroupMembershipClaims := ''None'', a_GroupOverageLimit := 0\<rparr>;
              s1 = s\<lparr>app_registrations := app_registrations s @ [app_row sp]\<rparr> in
     if list_ex (\<lambda>w. wi_ID w = wi_ID wi) (workspace_identities s1) then (Inl ErrConflict, s1)
     else if \<not> has_tenant s1 (wi_TenantID wi) \<or> \<not> has_app s1 (wi_AppID wi) then (Inl ErrForeignKey, s1)
     else (Inr (), s1\<lparr>workspace_identities := workspace_identities s1 @ [wi]\<rparr>))"

definition GetWorkspaceIdentity :: "Store \<Rightarrow> string \<Rightarrow> WorkspaceIdentity res" where
  "GetWorkspaceIdentity s i = one_row (sql_first (\<lambda>w. wi_ID w = i) (workspace_identities s))"

definition ListWorkspaceIdentities :: "Store \<Rightarrow> WorkspaceIdentity list" where
  "ListWorkspaceIdentities s = sort_key wi_CreatedAt (workspace_identities s)"

definition UpdateWorkspaceIdentity :: "WorkspaceIdentity \<Rightarrow> unit op" where
  "UpdateWorkspaceIdentity wi = tx (\<lambda>s.
     case requireRow (sql_count (\<lambda>w. wi_ID w = wi_ID wi) (workspace_identities s)) of
       Inl e \<Rightarrow> (Inl e, s)
     | Inr _ \<Rightarrow> (Inr (),
         s\<lparr>workspace_identities := sql_update (\<lambda>w. wi_ID w = wi_ID wi)
             (\<lambda>w. w\<lparr>wi_WorkspaceName := wi_WorkspaceName wi, wi_State := wi_State wi\<rparr>) (workspace_identities s),
           app_registrations := sql_update (\<lambda>a. a_ID a = wi_AppID wi)
             (\<lambda>a. a\<lparr>a_DisplayName := wi_WorkspaceName wi\<rparr>) (app_registrations s)\<rparr>))"

definition DeleteWorkspaceIdentity :: "string \<Rightarrow> unit op" where
  "DeleteWorkspaceIdentity i s =
     (case GetWorkspaceIdentity s i of Inl e \<Rightarrow> (Inl e, s) | Inr wi \<Rightarrow> DeleteApp (wi_AppID wi) s)"

end
