(* ===== verification/Samples.thy ===== *)
theory Samples
  imports StoreTypes
begin

text \<open>
  A small concrete directory on which the witnesses of the properties are evaluated: one tenant,
  one user, one confidential client, one authorization code, one refresh token, one approved
  device code.
\<close>

definition tenant0 :: Tenant where
  "tenant0 = \<lparr>t_ID = ''t'', t_DisplayName = ''T'', t_Issuer = ''https://h/t/v2.0'', t_InitialDomain = ''t.onmicrosoft.com'', t_CreatedAt = 1\<rparr>"

definition user0 :: User where
  "user0 = \<lparr>u_ID = ''u'', u_TenantID = ''t'', u_UserPrincipalName = ''a@t'', u_DisplayName = ''A'',
     u_GivenName = '''', u_Surname = '''', u_Mail = '''', u_PasswordHash = ''pw'', u_AccountEnabled = True,
     u_UserType = ''Member'', u_ExternalUserState = '''', u_InviteRedirectURL = '''', u_CreatedAt = 1, u_UpdatedAt = 1\<rparr>"

definition group0 :: Group where
  "group0 = \<lparr>g_ID = ''g'', g_TenantID = ''t'', g_DisplayName = ''G'', g_Description = '''', g_CreatedAt = 1\<rparr>"

definition app0 :: AppRow where
  "app0 = \<lparr>a_ID = ''app'', a_TenantID = ''t'', a_DisplayName = ''App'', a_IsConfidential = True,
     a_AppIDURI = ''api://app'', a_OptionalClaims = '''', a_GroupMembershipClaims = ''None'', a_GroupOverageLimit = 0,
     a_CreatedAt = 1, ar_FrontchannelLogoutURI = ''''\<rparr>"

definition code0 :: AuthCode where
  "code0 = \<lparr>ac_Code = ''c'', ac_AppID = ''app'', ac_UserID = ''u'', ac_RedirectURI = ''https://r'',
     ac_Scopes = ''openid'', ac_Resource = '''', ac_CodeChallenge = ''ch'', ac_CodeChallengeMethod = ''S256'',
     ac_Nonce = ''n'', ac_AMR = ''pwd'', ac_AuthTime = 5, ac_MaxAgeRequested = False, ac_ExpiresAt = 100,
     ac_Consumed = False, ac_CreatedAt = 5\<rparr>"

definition token0 :: RefreshToken where
  "token0 = \<lparr>rt_TokenHash = ''h0'', rt_AppID = ''app'', rt_UserID = ''u'', rt_Scopes = ''openid'', rt_Resource = '''',
     rt_AMR = ''pwd'', rt_AuthTime = 5, rt_AuthCode = ''c'', rt_ExpiresAt = 1000, rt_RotatedFrom = '''',
     rt_Revoked = False, rt_CreatedAt = 5\<rparr>"

definition token1 :: RefreshToken where
  "token1 = token0\<lparr>rt_TokenHash := ''h1''\<rparr>"

definition device0 :: DeviceCode where
  "device0 = \<lparr>dc_DeviceCodeHash = ''d'', dc_UserCode = ''UC'', dc_AppID = ''app'', dc_UserID = ''u'',
     dc_Scopes = ''openid'', dc_Status = ''approved'', dc_Interval = 5, dc_ExpiresAt = 100, dc_CreatedAt = 5\<rparr>"

definition store0 :: Store where
  "store0 = empty_store\<lparr>tenants := [tenant0], users := [user0], groups := [group0],
     group_members := [(''g'', ''u'')], app_registrations := [app0],
     authorization_codes := [code0], refresh_tokens := [token0], device_codes := [device0]\<rparr>"

lemmas sample_defs = tenant0_def user0_def group0_def app0_def code0_def token0_def token1_def device0_def
  store0_def empty_store_def

end
