(* ===== verification/Grants.thy ===== *)
theory Grants
  imports Apps Samples
begin

text \<open>
  \<^verbatim>\<open>internal/store/grants.go\<close>: signing keys, authorization codes, refresh tokens with their
  rotation chains, sessions and device codes. The compare-and-set statements are modelled as
  the single atomic steps they are; the family walk of \<^verbatim>\<open>RevokeRefreshTokenFamily\<close> is the
  worklist loop of the source, proved to visit exactly the rotation family.
\<close>

section \<open>Signing keys\<close>

definition GetActiveSigningKey :: "Store \<Rightarrow> string \<Rightarrow> SigningKey res" where
  "GetActiveSigningKey s tenantID =
     one_row (sql_first (\<lambda>k. k_TenantID k = tenantID \<and> k_IsActive k) (signing_keys s))"

definition GetSigningKey :: "Store \<Rightarrow> string \<Rightarrow> SigningKey res" where
  "GetSigningKey s kid = one_row (sql_first (\<lambda>k. k_Kid k = kid) (signing_keys s))"

definition publishable :: "int \<Rightarrow> SigningKey \<Rightarrow> bool" where
  "publishable now k \<longleftrightarrow> k_IsActive k \<or> (case k_NotAfter k of None \<Rightarrow> True | Some e \<Rightarrow> e > now)"

definition ListPublishableKeys :: "Store \<Rightarrow> string \<Rightarrow> int \<Rightarrow> SigningKey list" where
  "ListPublishableKeys s tenantID now =
     sort_key k_CreatedAt (filter (\<lambda>k. k_TenantID k = tenantID \<and> publishable now k) (signing_keys s))"

definition DemoteActiveSigningKeys :: "string \<Rightarrow> int \<Rightarrow> Store \<Rightarrow> Store" where
  "DemoteActiveSigningKeys tenantID notAfter s =
     s\<lparr>signing_keys := sql_update (\<lambda>k. k_TenantID k = tenantID \<and> k_IsActive k)
         (\<lambda>k. k\<lparr>k_IsActive := False, k_NotAfter := Some notAfter\<rparr>) (signing_keys s)\<rparr>"

definition norm_key :: "SigningKey \<Rightarrow> SigningKey" where
  "norm_key k = k\<lparr>k_Alg := coalesceStr (k_Alg k) ''RS256'',
                   k_NotAfter := (if k_NotAfter k = Some 0 then None else k_NotAfter k)\<rparr>"

definition InsertSigningKey :: "SigningKey \<Rightarrow> unit op" where
  "InsertSigningKey k s =
     (if list_ex (\<lambda>r. k_Kid r = k_Kid k) (signing_keys s) then (Inl ErrConflict, s)
      else if \<not> has_tenant s (k_TenantID k) then (Inl ErrForeignKey, s)
      else (Inr (), s\<lparr>signing_keys := signing_keys s @ [norm_key k]\<rparr>))"

section \<open>Authorization codes\<close>

definition norm_code :: "AuthCode \<Rightarrow> AuthCode" where
  "norm_code c = c\<lparr>ac_Consumed := False\<rparr>"

definition InsertAuthCode :: "AuthCode \<Rightarrow> unit op" where
  "InsertAuthCode c s =
     (if list_ex (\<lambda>r. ac_Code r = ac_Code c) (authorization_codes s) then (Inl ErrConflict, s)
      else if \<not> has_app s (ac_AppID c) \<or> \<not> has_user s (ac_UserID c) then (Inl ErrForeignKey, s)
      else (Inr (), s\<lparr>authorization_codes := authorization_codes s @ [norm_code c]\<rparr>))"

definition GetAuthCode :: "Store \<Rightarrow> string \<Rightarrow> AuthCode res" where
  "GetAuthCode s code = one_row (sql_first (\<lambda>c. ac_Code c = code) (authorization_codes s))"

definition ConsumeAuthCode :: "string \<Rightarrow> Store \<Rightarrow> bool \<times> Store" where
  "ConsumeAuthCode code s =
     (sql_count (\<lambda>c. ac_Code c = code \<and> \<not> ac_Consumed c) (authorization_codes s) = 1,
      s\<lparr>authorization_codes := sql_update (\<lambda>c. ac_Code c = code \<and> \<not> ac_Consumed c)
          (\<lambda>c. c\<lparr>ac_Consumed := True\<rparr>) (authorization_codes s)\<rparr>)"

section \<open>Refresh tokens\<close>

definition GetRefreshTokenByHash :: "Store \<Rightarrow> string \<Rightarrow> RefreshToken res" where
  "GetRefreshTokenByHash s hash = one_row (sql_first (\<lambda>t. rt_TokenHash t = hash) (refresh_tokens s))"

definition norm_token :: "RefreshToken \<Rightarrow> RefreshToken" where
  "norm_token t = t\<lparr>rt_Revoked := False\<rparr>"

definition InsertRefreshToken :: "RefreshToken \<Rightarrow> unit op" where
  "InsertRefreshToken t s =
     (if list_ex (\<lambda>r. rt_TokenHash r = rt_TokenHash t) (refresh_tokens s) then (Inl ErrConflict, s)
      else if \<not> has_app s (rt_AppID t) \<or> \<not> has_user s (rt_UserID t) then (Inl ErrForeignKey, s)
      else (Inr (), s\<lparr>refresh_tokens := refresh_tokens s @ [norm_token t]\<rparr>))"

definition revoke_where :: "(RefreshToken \<Rightarrow> bool) \<Rightarrow> Store \<Rightarrow> Store" where
  "revoke_where P s = s\<lparr>refresh_tokens := sql_update P (\<lambda>t. t\<lparr>rt_Revoked := True\<rparr>) (refresh_tokens s)\<rparr>"

text \<open>\<^verbatim>\<open>RotateRefreshToken\<close>: the CAS and the successor's insert share one transaction. The insert is a
  plain statement, so its constraint errors reach the caller unmapped.\<close>

definition RotateRefreshToken :: "string \<Rightarrow> RefreshToken \<Rightarrow> bool op" where
  "RotateRefreshToken oldHash successor = tx (\<lambda>s.
     let n = sql_count (\<lambda>t. rt_TokenHash t = oldHash \<and> \<not> rt_Revoked t) (refresh_tokens s);
         s1 = revoke_where (\<lambda>t. rt_TokenHash t = oldHash \<and> \<not> rt_Revoked t) s in
     if n \<noteq> 1 then (Inr False, s1)
     else case InsertRefreshToken (successor\<lparr>rt_RotatedFrom := oldHash\<rparr>) s1 of
            (Inl e, s2) \<Rightarrow> (Inl (if e = ErrConflict then ErrUnique else e), s2)
          | (Inr _, s2) \<Rightarrow> (Inr True, s2))"

definition RevokeRefreshTokensForAuthCode :: "string \<Rightarrow> Store \<Rightarrow> nat \<times> Store" where
  "RevokeRefreshTokensForAuthCode code s =
     (if code = [] then (0, s)
      else (sql_count (\<lambda>t. null_eq (rt_AuthCode t) code \<and> \<not> rt_Revoked t) (refresh_tokens s),
            revoke_where (\<lambda>t. null_eq (rt_AuthCode t) code \<and> \<not> rt_Revoked t) s))"

subsection \<open>The family walk\<close>

text \<open>
  \<open>parent_of\<close> is \<^verbatim>\<open>SELECT rotated_from .. WHERE token=?\<close> (empty when NULL or no row), \<open>children_of\<close>
  is \<^verbatim>\<open>SELECT token .. WHERE rotated_from=?\<close>. The frontier is the Go slice with its end first, so
  the head is the hash popped next.
\<close>

definition parent_of :: "RefreshToken list \<Rightarrow> string \<Rightarrow> string" where
  "parent_of rows h = (case sql_first (\<lambda>t. rt_TokenHash t = h) rows of None \<Rightarrow> [] | Some t \<Rightarrow> rt_RotatedFrom t)"

definition children_of :: "RefreshToken list \<Rightarrow> string \<Rightarrow> string list" where
  "children_of rows h = map rt_TokenHash (filter (\<lambda>t. null_eq (rt_RotatedFrom t) h) rows)"

definition family_nodes :: "RefreshToken list \<Rightarrow> string set" where
  "family_nodes rows = rt_TokenHash ` set rows \<union> rt_RotatedFrom ` set rows"

lemma finite_family_nodes [simp]: "finite (family_nodes rows)"
  by (simp add: family_nodes_def)

lemma parent_of_node: "parent_of rows h \<noteq> [] \<Longrightarrow> parent_of rows h \<in> family_nodes rows"
  by (auto simp: parent_of_def family_nodes_def split: option.splits dest: sql_first_Some)

lemma children_of_node: "c \<in> set (children_of rows h) \<Longrightarrow> c \<in> family_nodes rows"
  by (auto simp: children_of_def family_nodes_def)

definition expand :: "RefreshToken list \<Rightarrow> string list \<Rightarrow> string \<Rightarrow> string list" where
  "expand rows seen h =
     rev (filter (\<lambda>c. c \<notin> set seen) (children_of rows h)) @
     (if parent_of rows h \<noteq> [] \<and> parent_of rows h \<notin> set seen then [parent_of rows h] else [])"

lemma expand_nodes: "set (expand rows seen h) \<subseteq> family_nodes rows"
  by (auto simp: expand_def parent_of_node children_of_node)

function family_loop :: "RefreshToken list \<Rightarrow> string list \<Rightarrow> string list \<Rightarrow> string list" where
  "family_loop rows seen [] = seen"
| "family_loop rows seen (h # frontier) =
     (if h \<in> set seen then family_loop rows seen frontier
      else family_loop rows (h # seen) (expand rows (h # seen) h @ frontier))"
  by pat_completeness auto
termination
proof (relation "measures [\<lambda>(rows, seen, fr). card ((family_nodes rows \<union> set fr) - set seen),
                           \<lambda>(rows, seen, fr). length fr]", goal_cases)
  case 1
  show ?case by simp
next
  case (2 rows seen h frontier)
  then have "(family_nodes rows \<union> set frontier) - set seen
             = (family_nodes rows \<union> set (h # frontier)) - set seen" by auto
  then show ?case by simp
next
  case (3 rows seen h frontier)
  have "(family_nodes rows \<union> set (expand rows (h # seen) h @ frontier)) - set (h # seen)
        \<subset> (family_nodes rows \<union> set (h # frontier)) - set seen"
    using 3 expand_nodes[of rows "h # seen" h] by auto
  then show ?case by (simp add: psubset_card_mono)
qed

definition RevokeRefreshTokenFamily :: "string \<Rightarrow> Store \<Rightarrow> Store" where
  "RevokeRefreshTokenFamily hash s =
     (let seen = family_loop (refresh_tokens s) [] [hash]
      in revoke_where (\<lambda>t. rt_TokenHash t \<in> set seen) s)"

section \<open>Sessions\<close>

definition norm_session :: "Session \<Rightarrow> Session" where
  "norm_session x = x\<lparr>se_AuthMethod := (if se_AuthMethod x = [] then ''pwd'' else se_AuthMethod x)\<rparr>"

definition CreateSession :: "Session \<Rightarrow> unit op" where
  "CreateSession x s =
     (if list_ex (\<lambda>r. se_ID r = se_ID x) (sessions s) then (Inl ErrConflict, s)
      else if \<not> has_user s (se_UserID x) then (Inl ErrForeignKey, s)
      else (Inr (), s\<lparr>sessions := sessions s @ [norm_session x]\<rparr>))"

definition GetSession :: "Store \<Rightarrow> string \<Rightarrow> Session res" where
  "GetSession s i = one_row (sql_first (\<lambda>x. se_ID x = i) (sessions s))"

definition DeleteSession :: "string \<Rightarrow> Store \<Rightarrow> Store" where
  "DeleteSession i s = s\<lparr>sessions := sql_delete (\<lambda>x. se_ID x = i) (sessions s)\<rparr>"

section \<open>Device codes\<close>

definition norm_device :: "DeviceCode \<Rightarrow> DeviceCode" where
  "norm_device d = d\<lparr>dc_Status := coalesceStr (dc_Status d) ''pending''\<rparr>"

definition InsertDeviceCode :: "DeviceCode \<Rightarrow> unit op" where
  "InsertDeviceCode d s =
     (if list_ex (\<lambda>r. dc_DeviceCodeHash r = dc_DeviceCodeHash d \<or> dc_UserCode r = dc_UserCode d) (device_codes s)
      then (Inl ErrConflict, s)
      else if \<not> has_app s (dc_AppID d) then (Inl ErrForeignKey, s)
      else (Inr (), s\<lparr>device_codes := device_codes s @ [norm_device d]\<rparr>))"

definition GetDeviceCodeByHash :: "Store \<Rightarrow> string \<Rightarrow> DeviceCode res" where
  "GetDeviceCodeByHash s hash = one_row (sql_first (\<lambda>d. dc_DeviceCodeHash d = hash) (device_codes s))"

definition GetDeviceCodeByUserCode :: "Store \<Rightarrow> string \<Rightarrow> DeviceCode res" where
  "GetDeviceCodeByUserCode s userCode = one_row (sql_first (\<lambda>d. dc_UserCode d = userCode) (device_codes s))"

definition SetDeviceCodeDecision :: "string \<Rightarrow> string \<Rightarrow> string \<Rightarrow> unit op" where
  "SetDeviceCodeDecision userCode status userID s =
     (requireRow (sql_count (\<lambda>d. dc_UserCode d = userCode \<and> dc_Status d = ''pending'') (device_codes s)),
      s\<lparr>device_codes := sql_update (\<lambda>d. dc_UserCode d = userCode \<and> dc_Status d = ''pending'')
          (\<lambda>d. d\<lparr>dc_Status := status, dc_UserID := userID\<rparr>) (device_codes s)\<rparr>)"

definition redeemable :: "string \<Rightarrow> string \<Rightarrow> int \<Rightarrow> DeviceCode \<Rightarrow> bool" where
  "redeemable hash appID now d \<longleftrightarrow> dc_DeviceCodeHash d = hash \<and> dc_AppID d = appID
     \<and> dc_Status d = ''approved'' \<and> dc_ExpiresAt d > now"

definition ConsumeApprovedDeviceCode :: "string \<Rightarrow> string \<Rightarrow> int \<Rightarrow> Store \<Rightarrow> DeviceCode option \<times> Store" where
  "ConsumeApprovedDeviceCode hash appID now s =
     (sql_first (redeemable hash appID now) (device_codes s),
      s\<lparr>device_codes := sql_delete (redeemable hash appID now) (device_codes s)\<rparr>)"

definition DeleteDeviceCode :: "string \<Rightarrow> Store \<Rightarrow> Store" where
  "DeleteDeviceCode hash s = s\<lparr>device_codes := sql_delete (\<lambda>d. dc_DeviceCodeHash d = hash) (device_codes s)\<rparr>"

definition UserCodeExists :: "Store \<Rightarrow> string \<Rightarrow> bool" where
  "UserCodeExists s userCode \<longleftrightarrow> sql_count (\<lambda>d. dc_UserCode d = userCode) (device_codes s) > 0"

section \<open>The tables keep the interface of a keyed table\<close>

interpretation keys: keyed_table signing_keys k_Kid GetSigningKey InsertSigningKey norm_key
  by unfold_locales
     (auto simp: GetSigningKey_def InsertSigningKey_def norm_key_def list_ex_iff split: if_splits)

interpretation codes: keyed_table authorization_codes ac_Code GetAuthCode InsertAuthCode norm_code
  by unfold_locales
     (auto simp: GetAuthCode_def InsertAuthCode_def norm_code_def list_ex_iff split: if_splits)

interpretation tokens: keyed_table refresh_tokens rt_TokenHash GetRefreshTokenByHash InsertRefreshToken norm_token
  by unfold_locales
     (auto simp: GetRefreshTokenByHash_def InsertRefreshToken_def norm_token_def list_ex_iff split: if_splits)

interpretation sess: keyed_table sessions se_ID GetSession CreateSession norm_session
  by unfold_locales
     (auto simp: GetSession_def CreateSession_def norm_session_def list_ex_iff split: if_splits)

interpretation devs: keyed_table device_codes dc_DeviceCodeHash GetDeviceCodeByHash InsertDeviceCode norm_device
  by unfold_locales
     (auto simp: GetDeviceCodeByHash_def InsertDeviceCode_def norm_device_def list_ex_iff split: if_splits)

section \<open>Each grant artifact is redeemed at most once\<close>

definition code_live :: "string \<Rightarrow> Store \<Rightarrow> bool" where
  "code_live code s \<longleftrightarrow> \<not> (\<forall>c \<in> set (authorization_codes s). ac_Code c = code \<longrightarrow> ac_Consumed c)"

definition codes_ok :: "Store \<Rightarrow> bool" where
  "codes_ok s \<longleftrightarrow> distinct (map ac_Code (authorization_codes s))"

lemma ConsumeAuthCode_won:
  assumes "codes_ok s"
  shows "fst (ConsumeAuthCode code s) \<longleftrightarrow> code_live code s"
proof -
  have "sql_count (\<lambda>c. ac_Code c = code \<and> \<not> ac_Consumed c) (authorization_codes s) \<le> 1"
    using assms unfolding codes_ok_def by (rule sql_count_key)
  then show ?thesis
    unfolding ConsumeAuthCode_def code_live_def fst_conv by (subst sql_count_1_iff) auto
qed

interpretation code_use: single_use ConsumeAuthCode "\<lambda>c. c" code_live codes_ok
proof
  fix s and a :: string
  show "codes_ok s \<Longrightarrow> codes_ok (snd (ConsumeAuthCode a s))"
    by (simp add: codes_ok_def ConsumeAuthCode_def)
  show "codes_ok s \<Longrightarrow> fst (ConsumeAuthCode a s) \<Longrightarrow> code_live a s"
    by (simp add: ConsumeAuthCode_won)
  show "\<not> code_live a (snd (ConsumeAuthCode a s))"
    by (simp add: code_live_def ConsumeAuthCode_def ball_sql_update)
  show "\<not> code_live k (snd (ConsumeAuthCode a s))" if "\<not> code_live k s" for k
    using that by (simp add: code_live_def ConsumeAuthCode_def ball_sql_update)
qed

text \<open>A rotation attempt presents a hash and the successor to be stored. A refresh token is spent
  once its row is marked revoked.\<close>

definition rotate_attempt :: "string \<times> RefreshToken \<Rightarrow> Store \<Rightarrow> bool \<times> Store" where
  "rotate_attempt a s = (case RotateRefreshToken (fst a) (snd a) s of (r, s') \<Rightarrow> (r = Inr True, s'))"

definition token_unspent :: "string \<Rightarrow> Store \<Rightarrow> bool" where
  "token_unspent h s \<longleftrightarrow> (\<forall>t \<in> set (refresh_tokens s). rt_TokenHash t = h \<longrightarrow> \<not> rt_Revoked t)"

definition tokens_ok :: "Store \<Rightarrow> bool" where
  "tokens_ok s \<longleftrightarrow> distinct (map rt_TokenHash (refresh_tokens s))"

text \<open>What a rotation does: it loses and changes nothing, fails and changes nothing, or revokes the
  presented row and appends the successor.\<close>

lemma RotateRefreshToken_cases:
  assumes "RotateRefreshToken h t s = (r, s')" and "tokens_ok s"
  obtains (lost) "r = Inr False" "s' = s" "\<forall>x \<in> set (refresh_tokens s). rt_TokenHash x = h \<longrightarrow> rt_Revoked x"
  | (failed) e where "r = Inl e" "s' = s"
  | (won) x where "r = Inr True" "x \<in> set (refresh_tokens s)" "rt_TokenHash x = h" "\<not> rt_Revoked x"
      "s' = s\<lparr>refresh_tokens := sql_update (\<lambda>x. rt_TokenHash x = h) (\<lambda>x. x\<lparr>rt_Revoked := True\<rparr>) (refresh_tokens s)
               @ [t\<lparr>rt_RotatedFrom := h, rt_Revoked := False\<rparr>]\<rparr>"
      "rt_TokenHash t \<notin> rt_TokenHash ` set (refresh_tokens s)"
proof -
  let ?P = "\<lambda>x. rt_TokenHash x = h \<and> \<not> rt_Revoked x"
  let ?n = "sql_count ?P (refresh_tokens s)"
  have le: "?n \<le> 1"
    using assms(2) unfolding tokens_ok_def by (rule sql_count_key)
  show thesis
  proof (cases "?n = 1")
    case False
    with le have none: "\<forall>x \<in> set (refresh_tokens s). \<not> ?P x"
      by (simp add: le_Suc_eq sql_count_0)
    then have "revoke_where ?P s = s" by (simp add: revoke_where_def)
    with False assms(1) have "r = Inr False" "s' = s"
      by (auto simp: RotateRefreshToken_def tx_def)
    with none show ?thesis by (intro lost) auto
  next
    case True
    then obtain x where x: "x \<in> set (refresh_tokens s)" "rt_TokenHash x = h" "\<not> rt_Revoked x"
      using sql_count_1_ex by blast
    have same: "sql_update ?P (\<lambda>x. x\<lparr>rt_Revoked := True\<rparr>) (refresh_tokens s)
                = sql_update (\<lambda>x. rt_TokenHash x = h) (\<lambda>x. x\<lparr>rt_Revoked := True\<rparr>) (refresh_tokens s)"
      by (auto simp: sql_update_def)
    show ?thesis
    proof (cases r)
      case (Inl e)
      with assms(1) have "s' = s" by (auto simp: RotateRefreshToken_def intro: tx_Inl)
      with Inl show ?thesis by (rule failed)
    next
      case (Inr b)
      with True assms(1) x same show ?thesis
        by (intro won[of x])
           (auto simp: RotateRefreshToken_def tx_def InsertRefreshToken_def norm_token_def revoke_where_def
              list_ex_iff ball_sql_update Let_def split: prod.splits sum.splits if_splits)
    qed
  qed
qed

lemma RotateRefreshToken_ok:
  assumes "tokens_ok s"
  shows "tokens_ok (snd (RotateRefreshToken h t s))"
proof -
  obtain r s' where rot: "RotateRefreshToken h t s = (r, s')" by fastforce
  show ?thesis
    using rot assms
    by (cases rule: RotateRefreshToken_cases) (use rot assms in \<open>auto simp: tokens_ok_def\<close>)
qed

lemma RotateRefreshToken_stays_revoked:
  assumes "tokens_ok s" and "x \<in> set (refresh_tokens s)" and "rt_Revoked x"
  shows "x \<in> set (refresh_tokens (snd (RotateRefreshToken h t s)))"
proof -
  obtain r s' where rot: "RotateRefreshToken h t s = (r, s')" by fastforce
  have kept: "x \<in> set (sql_update (\<lambda>x. rt_TokenHash x = h) (\<lambda>x. x\<lparr>rt_Revoked := True\<rparr>) (refresh_tokens s))"
    unfolding sql_update_def set_map by (rule rev_image_eqI[OF assms(2)]) (use assms(3) in simp)
  show ?thesis
    using rot assms(1)
    by (cases rule: RotateRefreshToken_cases) (simp_all add: rot assms kept)
qed

interpretation token_use: single_use rotate_attempt fst token_unspent tokens_ok
proof
  fix s and a :: "string \<times> RefreshToken"
  obtain h t where a: "a = (h, t)" by fastforce
  obtain r s' where rot: "RotateRefreshToken h t s = (r, s')" by fastforce
  show "tokens_ok s \<Longrightarrow> tokens_ok (snd (rotate_attempt a s))"
    using RotateRefreshToken_ok[of s h t] by (simp add: a rotate_attempt_def rot)
  assume ok: "tokens_ok s"
  have won: "(\<exists>x \<in> set (refresh_tokens s). rt_TokenHash x = h \<and> \<not> rt_Revoked x)
             \<and> (\<exists>y \<in> set (refresh_tokens s'). rt_TokenHash y = h \<and> rt_Revoked y)" if "r = Inr True"
    using rot ok
  proof (cases rule: RotateRefreshToken_cases)
    case (won x)
    let ?u = "\<lambda>x. x\<lparr>rt_Revoked := True\<rparr>"
    have "?u x \<in> set (sql_update (\<lambda>x. rt_TokenHash x = h) ?u (refresh_tokens s))"
      unfolding sql_update_def set_map by (rule rev_image_eqI[OF won(2)]) (simp add: won(3))
    then have "?u x \<in> set (refresh_tokens s')" by (simp add: won(5))
    moreover have "rt_TokenHash (?u x) = h \<and> rt_Revoked (?u x)" by (simp add: won(3))
    ultimately show ?thesis using won(2-4) by blast
  qed (use that in simp_all)
  show "fst (rotate_attempt a s) \<Longrightarrow> token_unspent (fst a) s"
    using won ok unfolding tokens_ok_def
    by (auto simp: a rotate_attempt_def rot token_unspent_def distinct_map dest: inj_onD)
  show "fst (rotate_attempt a s) \<Longrightarrow> \<not> token_unspent (fst a) (snd (rotate_attempt a s))"
    using won by (auto simp: a rotate_attempt_def rot token_unspent_def)
  show "\<not> token_unspent k (snd (rotate_attempt a s))" if "\<not> token_unspent k s" for k
    using that RotateRefreshToken_stays_revoked[OF ok, of _ h t]
    by (fastforce simp: a rotate_attempt_def rot token_unspent_def)
qed

text \<open>A device-code attempt presents the hash, the client and the time of the poll.\<close>

definition device_attempt :: "string \<times> string \<times> int \<Rightarrow> Store \<Rightarrow> bool \<times> Store" where
  "device_attempt a s =
     (case ConsumeApprovedDeviceCode (fst a) (fst (snd a)) (snd (snd a)) s of (d, s') \<Rightarrow> (d \<noteq> None, s'))"

definition device_live :: "string \<Rightarrow> Store \<Rightarrow> bool" where
  "device_live h s \<longleftrightarrow> (\<exists>d \<in> set (device_codes s). dc_DeviceCodeHash d = h)"

definition devices_ok :: "Store \<Rightarrow> bool" where
  "devices_ok s \<longleftrightarrow> distinct (map dc_DeviceCodeHash (device_codes s))"

interpretation device_use: single_use device_attempt fst device_live devices_ok
proof
  fix s and a :: "string \<times> string \<times> int"
  obtain h app now where a: "a = (h, app, now)" by (cases a) auto
  show "devices_ok s \<Longrightarrow> devices_ok (snd (device_attempt a s))"
    by (simp add: a devices_ok_def device_attempt_def ConsumeApprovedDeviceCode_def)
  show "fst (device_attempt a s) \<Longrightarrow> device_live (fst a) s"
    using sql_first_Some[of "redeemable h app now" "device_codes s"]
    by (auto simp: a device_attempt_def ConsumeApprovedDeviceCode_def device_live_def redeemable_def)
  show "\<not> device_live (fst a) (snd (device_attempt a s))"
    if ok: "devices_ok s" and won: "fst (device_attempt a s)"
  proof -
    from won obtain d where "sql_first (redeemable h app now) (device_codes s) = Some d"
      by (auto simp: a device_attempt_def ConsumeApprovedDeviceCode_def)
    then have d: "d \<in> set (device_codes s)" "redeemable h app now d"
      using sql_first_Some by fastforce+
    have "redeemable h app now x" if "x \<in> set (device_codes s)" "dc_DeviceCodeHash x = h" for x
      using that d ok by (auto simp: devices_ok_def distinct_map redeemable_def dest: inj_onD)
    then show ?thesis
      by (auto simp: a device_attempt_def ConsumeApprovedDeviceCode_def device_live_def)
  qed
  show "\<not> device_live k (snd (device_attempt a s))" if "\<not> device_live k s" for k
    using that by (auto simp: a device_attempt_def ConsumeApprovedDeviceCode_def device_live_def)
qed

section \<open>Properties\<close>

text \<open>
  C2. However requests interleave with each other and with any store traffic that does not
  re-create the code, at most one \<^verbatim>\<open>ConsumeAuthCode\<close> call for a given authorization code reports
  that it won.
\<close>

theorem auth_code_redeemed_once:
  assumes "codes_ok s" and "no_revival codes_ok code_live code es"
  shows "wins (\<lambda>c. c) code (fst (run_events ConsumeAuthCode es s)) \<le> 1"
  using assms by (rule code_use.at_most_one_win)

theorem auth_code_redeemed_once_witness:
  "wins (\<lambda>c. c) ''c'' (fst (run_events ConsumeAuthCode
      [Attempt ''c'', Traffic (DeleteSession ''x''), Attempt ''c''] store0)) \<le> 1"
proof (rule auth_code_redeemed_once)
  show "codes_ok store0" by (simp add: codes_ok_def sample_defs)
  show "no_revival codes_ok code_live ''c'' [Attempt ''c'', Traffic (DeleteSession ''x''), Attempt ''c'']"
    by (simp add: codes_ok_def code_live_def DeleteSession_def)
qed

text \<open>
  However rotations interleave with each other and with traffic that does not un-revoke the
  token, at most one \<^verbatim>\<open>RotateRefreshToken\<close> call for a given refresh-token hash wins, so a token
  never gets two successors.
\<close>

theorem refresh_token_rotated_once:
  assumes "tokens_ok s" and "no_revival tokens_ok token_unspent h es"
  shows "wins fst h (fst (run_events rotate_attempt es s)) \<le> 1"
  using assms by (rule token_use.at_most_one_win)

theorem refresh_token_rotated_once_witness:
  "wins fst ''h0'' (fst (run_events rotate_attempt
      [Attempt (''h0'', token1), Traffic (DeleteSession ''x''), Attempt (''h0'', token1\<lparr>rt_TokenHash := ''h2''\<rparr>)] store0)) \<le> 1"
proof (rule refresh_token_rotated_once)
  show "tokens_ok store0" by (simp add: tokens_ok_def sample_defs)
  show "no_revival tokens_ok token_unspent ''h0''
      [Attempt (''h0'', token1), Traffic (DeleteSession ''x''), Attempt (''h0'', token1\<lparr>rt_TokenHash := ''h2''\<rparr>)]"
    by (simp add: tokens_ok_def token_unspent_def DeleteSession_def)
qed

text \<open>
  At most one poll obtains an approved device code: \<^verbatim>\<open>DELETE .. RETURNING\<close> hands the row to a
  single caller, whatever client and time the other polls present.
\<close>

theorem device_code_redeemed_once:
  assumes "devices_ok s" and "no_revival devices_ok device_live h es"
  shows "wins fst h (fst (run_events device_attempt es s)) \<le> 1"
  using assms by (rule device_use.at_most_one_win)

theorem device_code_redeemed_once_witness:
  "wins fst ''d'' (fst (run_events device_attempt
      [Attempt (''d'', ''app'', 9), Traffic (DeleteDeviceCode ''e''), Attempt (''d'', ''app'', 10)] store0)) \<le> 1"
proof (rule device_code_redeemed_once)
  show "devices_ok store0" by (simp add: devices_ok_def sample_defs)
  show "no_revival devices_ok device_live ''d''
      [Attempt (''d'', ''app'', 9), Traffic (DeleteDeviceCode ''e''), Attempt (''d'', ''app'', 10)]"
    by (simp add: devices_ok_def device_live_def DeleteDeviceCode_def)
qed

text \<open>
  \<^verbatim>\<open>RotateRefreshToken\<close> is all-or-nothing: when it wins, the presented row was live and is
  revoked, the successor is stored live under the new hash with the old one as its predecessor,
  and every other row is as before; in every other outcome (lost race, constraint error) the
  store is unchanged.
\<close>

theorem rotation_all_or_nothing:
  assumes "tokens_ok s" and "RotateRefreshToken h t s = (r, s')" and "rt_TokenHash t \<noteq> h"
  shows "if r = Inr True
         then (\<exists>x. GetRefreshTokenByHash s h = Inr x \<and> \<not> rt_Revoked x
                 \<and> GetRefreshTokenByHash s' h = Inr (x\<lparr>rt_Revoked := True\<rparr>))
            \<and> GetRefreshTokenByHash s' (rt_TokenHash t) = Inr (t\<lparr>rt_RotatedFrom := h, rt_Revoked := False\<rparr>)
            \<and> (\<forall>k. k \<noteq> h \<longrightarrow> k \<noteq> rt_TokenHash t \<longrightarrow> GetRefreshTokenByHash s' k = GetRefreshTokenByHash s k)
         else s' = s"
  using assms(2,1)
proof (cases rule: RotateRefreshToken_cases)
  case (won x)
  let ?rows = "sql_update (\<lambda>x. rt_TokenHash x = h) (\<lambda>x. x\<lparr>rt_Revoked := True\<rparr>) (refresh_tokens s)"
  have old: "sql_first (\<lambda>y. rt_TokenHash y = k) ?rows = map_option (\<lambda>y. if k = h then y\<lparr>rt_Revoked := True\<rparr> else y)
      (sql_first (\<lambda>y. rt_TokenHash y = k) (refresh_tokens s))" for k
    by (cases "sql_first (\<lambda>y. rt_TokenHash y = k) (refresh_tokens s)")
       (auto simp: sql_first_update dest: sql_first_Some)
  have found: "sql_first (\<lambda>y. rt_TokenHash y = h) (refresh_tokens s) = Some x"
    using sql_first_key[of rt_TokenHash "refresh_tokens s" x] assms(1) won(2,3) by (simp add: tokens_ok_def)
  have fresh: "sql_first (\<lambda>y. rt_TokenHash y = rt_TokenHash t) (refresh_tokens s) = None"
    using won(6) by (auto simp: sql_first_None image_iff)
  show ?thesis
    using won(1,4) assms(3) found fresh
    by (simp add: won(5) GetRefreshTokenByHash_def sql_first_append old one_row_def split: option.splits)
qed auto

theorem rotation_all_or_nothing_witness:
  "fst (RotateRefreshToken ''h0'' token1 store0) = Inr True
   \<and> GetRefreshTokenByHash (snd (RotateRefreshToken ''h0'' token1 store0)) ''h1''
       = Inr (token1\<lparr>rt_RotatedFrom := ''h0'', rt_Revoked := False\<rparr>)"
proof -
  have won: "fst (RotateRefreshToken ''h0'' token1 store0) = Inr True"
    by (simp add: RotateRefreshToken_def tx_def sql_defs revoke_where_def InsertRefreshToken_def
        norm_token_def has_defs sample_defs)
  have "tokens_ok store0" by (simp add: tokens_ok_def sample_defs)
  moreover have "rt_TokenHash token1 = ''h1''" by (simp add: token1_def)
  ultimately show ?thesis
    using won rotation_all_or_nothing[of store0 "''h0''" token1, OF _ surjective_pairing] by simp
qed

end
