(* ===== verification/Lifetimes.thy ===== *)
theory Lifetimes
  imports Apps
begin

text \<open>
  \<^verbatim>\<open>internal/store/tokenlifetime.go\<close>: token lifetime policies, their assignment to applications, and
  the duration syntax they carry. The definition strings hold JSON; \<open>decode\<close> is
  \<^verbatim>\<open>json.Unmarshal\<close> into the policy struct, giving the three duration strings (empty when absent) or
  nothing when the string does not parse.
\<close>

section \<open>Durations\<close>

subsection \<open>strconv.Atoi\<close>

definition is_digit :: "char \<Rightarrow> bool" where
  "is_digit c \<longleftrightarrow> CHR ''0'' \<le> c \<and> c \<le> CHR ''9''"

definition digit_val :: "char \<Rightarrow> int" where
  "digit_val c = int (of_char c) - 48"

definition dec_val :: "string \<Rightarrow> int" where
  "dec_val ds = foldl (\<lambda>acc c. acc * 10 + digit_val c) 0 ds"

text \<open>An optional sign, at least one digit, nothing else, and a value that fits 64 bits.\<close>

definition Atoi :: "string \<Rightarrow> int option" where
  "Atoi s =
     (let neg = (case s of [] \<Rightarrow> False | c # _ \<Rightarrow> c = CHR ''-'');
          ds = (case s of [] \<Rightarrow> [] | c # cs \<Rightarrow> if c = CHR ''-'' \<or> c = CHR ''+'' then cs else s);
          v = (if neg then - dec_val ds else dec_val ds)
      in if ds \<noteq> [] \<and> list_all is_digit ds \<and> is_int64 v then Some v else None)"

subsection \<open>ParseTimeSpan\<close>

definition count_char :: "string \<Rightarrow> char \<Rightarrow> nat" where
  "count_char s c = length (filter (\<lambda>x. x = c) s)"

fun parse_hms :: "string list \<Rightarrow> int list option" where
  "parse_hms [] = Some []"
| "parse_hms (p # ps) =
     (case Atoi p of
        None \<Rightarrow> None
      | Some n \<Rightarrow> if n < 0 then None else map_option ((#) n) (parse_hms ps))"

definition span_total :: "int \<Rightarrow> int \<Rightarrow> int \<Rightarrow> int \<Rightarrow> int" where
  "span_total days h m s =
     i64_add (i64_add (i64_add (i64_mul days 86400) (i64_mul h 3600)) (i64_mul m 60)) s"

definition parse_days :: "string \<Rightarrow> (int \<times> string) option" where
  "parse_days v =
     (let i = IndexByte v (CHR ''.'') in
      if i \<ge> 0 \<and> count_char v (CHR '':'') = 2 \<and> i < IndexByte v (CHR '':'')
      then map_option (\<lambda>d. (d, slice_from v (i + 1))) (Atoi (slice_to v i))
      else Some (0, v))"

definition ParseTimeSpan :: "string \<Rightarrow> int \<times> bool" where
  "ParseTimeSpan v =
     (if v = [] then (0, False)
      else case parse_days v of
        None \<Rightarrow> (0, False)
      | Some (days, rest) \<Rightarrow>
        (let parts = SplitChar rest (CHR '':'') in
         if length parts \<noteq> 3 then (0, False)
         else case parse_hms parts of
           None \<Rightarrow> (0, False)
         | Some hms \<Rightarrow>
           (let total = span_total days (hms ! 0) (hms ! 1) (hms ! 2) in
            if total \<le> 0 then (0, False) else (total, True))))"

section \<open>Policies\<close>

record PolicyLifetimes =
  pl_AccessToken :: int
  pl_IDToken :: int
  pl_RefreshToken :: int

definition no_lifetimes :: PolicyLifetimes where
  "no_lifetimes = \<lparr>pl_AccessToken = 0, pl_IDToken = 0, pl_RefreshToken = 0\<rparr>"

type_synonym policy_decoder = "string \<Rightarrow> (string \<times> string \<times> string) option"

definition set_if_ok :: "(int \<Rightarrow> 'a \<Rightarrow> 'a) \<Rightarrow> string \<Rightarrow> 'a \<Rightarrow> 'a" where
  "set_if_ok upd v out = (case ParseTimeSpan v of (n, ok) \<Rightarrow> if ok then upd n out else out)"

fun parse_definitions :: "policy_decoder \<Rightarrow> string list \<Rightarrow> PolicyLifetimes \<Rightarrow> PolicyLifetimes" where
  "parse_definitions decode [] out = out"
| "parse_definitions decode (raw # rest) out =
     parse_definitions decode rest
       (case decode raw of
          None \<Rightarrow> out
        | Some (access, idt, refresh) \<Rightarrow>
            set_if_ok (\<lambda>n pl. pl\<lparr>pl_RefreshToken := n\<rparr>) refresh
              (set_if_ok (\<lambda>n pl. pl\<lparr>pl_IDToken := n\<rparr>) idt
                (set_if_ok (\<lambda>n pl. pl\<lparr>pl_AccessToken := n\<rparr>) access out)))"

definition parsePolicyLifetimes :: "policy_decoder \<Rightarrow> TokenLifetimePolicy \<Rightarrow> PolicyLifetimes" where
  "parsePolicyLifetimes decode p = parse_definitions decode (tlp_Definition p) no_lifetimes"

definition EffectiveFromPolicy :: "policy_decoder \<Rightarrow> TokenLifetimePolicy \<Rightarrow> PolicyLifetimes" where
  "EffectiveFromPolicy decode p = parsePolicyLifetimes decode p"

definition CreateTokenLifetimePolicy :: "TokenLifetimePolicy \<Rightarrow> unit op" where
  "CreateTokenLifetimePolicy p s =
     (if list_ex (\<lambda>r. tlp_ID r = tlp_ID p) (token_lifetime_policies s) then (Inl ErrConflict, s)
      else (Inr (), s\<lparr>token_lifetime_policies := token_lifetime_policies s @ [p]\<rparr>))"

definition ListTokenLifetimePolicies :: "Store \<Rightarrow> TokenLifetimePolicy list" where
  "ListTokenLifetimePolicies s = sort_key tlp_CreatedAt (token_lifetime_policies s)"

definition GetTokenLifetimePolicy :: "Store \<Rightarrow> string \<Rightarrow> TokenLifetimePolicy res" where
  "GetTokenLifetimePolicy s i = one_row (sql_first (\<lambda>p. tlp_ID p = i) (token_lifetime_policies s))"

text \<open>\<^verbatim>\<open>app_token_lifetime_policies.policy_id\<close> cascades.\<close>

definition DeleteTokenLifetimePolicy :: "string \<Rightarrow> unit op" where
  "DeleteTokenLifetimePolicy i s =
     (requireRow (sql_count (\<lambda>p. tlp_ID p = i) (token_lifetime_policies s)),
      s\<lparr>token_lifetime_policies := sql_delete (\<lambda>p. tlp_ID p = i) (token_lifetime_policies s),
        app_token_lifetime_policies := sql_delete (\<lambda>(a, p). p = i) (app_token_lifetime_policies s)\<rparr>)"

definition AssignTokenLifetimePolicy :: "string \<Rightarrow> string \<Rightarrow> unit op" where
  "AssignTokenLifetimePolicy appID policyID s =
     (case GetTokenLifetimePolicy s policyID of
        Inl e \<Rightarrow> (Inl e, s)
      | Inr _ \<Rightarrow>
        tx (\<lambda>s. let s1 = s\<lparr>app_token_lifetime_policies :=
                            sql_delete (\<lambda>(a, p). a = appID) (app_token_lifetime_policies s)\<rparr> in
             if \<not> has_app s1 appID then (Inl ErrForeignKey, s1)
             else (Inr (), s1\<lparr>app_token_lifetime_policies := app_token_lifetime_policies s1 @ [(appID, policyID)]\<rparr>)) s)"

definition UnassignTokenLifetimePolicy :: "string \<Rightarrow> string \<Rightarrow> unit op" where
  "UnassignTokenLifetimePolicy appID policyID s =
     (requireRow (sql_count (\<lambda>e. e = (appID, policyID)) (app_token_lifetime_policies s)),
      s\<lparr>app_token_lifetime_policies := sql_delete (\<lambda>e. e = (appID, policyID)) (app_token_lifetime_policies s)\<rparr>)"

definition AppTokenLifetimePolicies :: "Store \<Rightarrow> string \<Rightarrow> TokenLifetimePolicy list" where
  "AppTokenLifetimePolicies s appID =
     concat (map (\<lambda>(a, pid). filter (\<lambda>p. tlp_ID p = pid) (token_lifetime_policies s))
       (filter (\<lambda>(a, pid). a = appID) (app_token_lifetime_policies s)))"

definition EffectiveTokenLifetimes :: "policy_decoder \<Rightarrow> Store \<Rightarrow> string \<Rightarrow> PolicyLifetimes" where
  "EffectiveTokenLifetimes decode s appID =
     (case AppTokenLifetimePolicies s appID of
        p # _ \<Rightarrow> parsePolicyLifetimes decode p
      | [] \<Rightarrow>
        (case sql_first tlp_IsOrganizationDefault (ListTokenLifetimePolicies s) of
           Some p \<Rightarrow> parsePolicyLifetimes decode p
         | None \<Rightarrow> no_lifetimes))"

interpretation policies: keyed_table token_lifetime_policies tlp_ID GetTokenLifetimePolicy CreateTokenLifetimePolicy "\<lambda>p. p"
  by unfold_locales
     (auto simp: GetTokenLifetimePolicy_def CreateTokenLifetimePolicy_def list_ex_iff split: if_splits)

end
