(* ===== verification/Jwt.thy ===== *)
theory Jwt
  imports Codec Grants Lifetimes
begin

text \<open>
  \<^verbatim>\<open>internal/tokens/jwt.go\<close>, \<^verbatim>\<open>keys.go\<close> and the token hash of \<^verbatim>\<open>internal/store/hashing.go\<close>: compact JWS
  signing and verification, the published JWK with its thumbprint, and the life of a tenant's
  signing key. What the code takes from Go's crypto and JSON packages is the record \<open>Env\<close>; the laws
  a theorem needs of them are hypotheses of that theorem.
\<close>

text \<open>
  Claim values. Go decodes every JSON number of a payload to a \<^verbatim>\<open>float64\<close> and every reader of a claim applies
  \<^verbatim>\<open>int64(f)\<close> to it before anything else (\<^verbatim>\<open>numClaim\<close> in \<^verbatim>\<open>service.go\<close>, the expiry checks, \<^verbatim>\<open>applyRequestObject\<close>), so
  \<open>CInt\<close> of a decoded payload is that truncated number, whole or not: \<open>env_unmarshal\<close> stands for the decoding with the
  truncation. \<open>CVal\<close> holds what an extension or a policy puts into a token, texts, lists and objects.
\<close>

datatype cval = CStr string | CInt int | CStrs "string list" | CObj "(string \<times> cval) list" | CVal json

type_synonym claims = "string \<rightharpoonup> cval"

record PublicKey =
  pk_N :: nat
  pk_E :: int

text \<open>
  \<open>env_header\<close> decodes a JOSE header into its \<^verbatim>\<open>alg\<close> and \<^verbatim>\<open>kid\<close>, \<open>env_jwk\<close> a JWK into \<^verbatim>\<open>n\<close> and \<^verbatim>\<open>e\<close>,
  \<open>env_optional\<close> an \<^verbatim>\<open>optionalClaims\<close> document into the claim names for ID and access tokens (as far as
  it decodes, with whether it decoded without error),
  \<open>env_enrich\<close> is the installed \<^verbatim>\<open>ClaimsEnricher\<close>, if any. Private keys are opaque strings.
\<close>

record Env =
  env_sha256 :: "string \<Rightarrow> string"
  env_rsa_sign :: "string \<Rightarrow> string \<Rightarrow> string option"
  env_rsa_verify :: "PublicKey \<Rightarrow> string \<Rightarrow> string \<Rightarrow> bool"
  env_pss_verify :: "PublicKey \<Rightarrow> string \<Rightarrow> string \<Rightarrow> bool"
  env_public :: "string \<Rightarrow> PublicKey"
  env_pem_encode :: "string \<Rightarrow> string"
  env_pem_decode :: "string \<Rightarrow> string option"
  env_marshal :: "claims \<Rightarrow> string"
  env_unmarshal :: "string \<Rightarrow> claims option"
  env_header :: "string \<Rightarrow> (string \<times> string) option"
  env_jwk :: "string \<Rightarrow> (string \<times> string) option"
  env_optional :: "string \<Rightarrow> (string list \<times> string list) \<times> bool"
  env_policy :: policy_decoder
  env_enrich :: "(App \<Rightarrow> User \<Rightarrow> string \<Rightarrow> claims) option"
  env_verify_secret :: "string \<Rightarrow> string \<Rightarrow> bool"

text \<open>\<^verbatim>\<open>RedeemErr\<close> carries the OAuth code and description; the other constructors are the store's errors
  and plain \<^verbatim>\<open>fmt.Errorf\<close> errors.\<close>

datatype svc_err = RedeemErr string string | StoreErr store_err | Failed string

text \<open>\<^verbatim>\<open>err.Error()\<close> where it ends up in a response. Messages that wrap an error of Go's library or quote a
  number keep their fixed part only.\<close>

definition err_text :: "svc_err \<Rightarrow> string" where
  "err_text e = (case e of RedeemErr c d \<Rightarrow> c @ '': '' @ d | Failed d \<Rightarrow> d | StoreErr _ \<Rightarrow> ''store'')"

definition HashToken :: "Env \<Rightarrow> string \<Rightarrow> string" where
  "HashToken env token = hex_encode (env_sha256 env token)"

section \<open>Compact JWS\<close>

definition jws_header :: "string \<Rightarrow> claims" where
  "jws_header kid = [''typ'' \<mapsto> CStr ''JWT'', ''alg'' \<mapsto> CStr ''RS256'', ''kid'' \<mapsto> CStr kid]"

definition SignRS256 :: "Env \<Rightarrow> string \<Rightarrow> string \<Rightarrow> claims \<Rightarrow> svc_err + string" where
  "SignRS256 env key kid claims =
     (let signingInput = RawURLEncode (env_marshal env (jws_header kid)) @ ''.'' @ RawURLEncode (env_marshal env claims) in
      case env_rsa_sign env key (env_sha256 env signingInput) of
        None \<Rightarrow> Inl (Failed ''sign'')
      | Some sig \<Rightarrow> Inr (signingInput @ ''.'' @ RawURLEncode sig))"

definition decode_payload :: "Env \<Rightarrow> string \<Rightarrow> svc_err + claims" where
  "decode_payload env part =
     (case RawURLDecode part of
        None \<Rightarrow> Inl (Failed ''jwt: bad payload encoding'')
      | Some payload \<Rightarrow>
        (case env_unmarshal env payload of
           None \<Rightarrow> Inl (Failed ''jwt: bad payload JSON'')
         | Some c \<Rightarrow> Inr c))"

definition VerifyRS256 :: "Env \<Rightarrow> PublicKey \<Rightarrow> string \<Rightarrow> svc_err + claims" where
  "VerifyRS256 env pub token =
     (case SplitChar token (CHR ''.'') of
        [h, p, sg] \<Rightarrow>
          (case RawURLDecode sg of
             None \<Rightarrow> Inl (Failed ''jwt: bad signature encoding'')
           | Some sig \<Rightarrow>
             if \<not> env_rsa_verify env pub (env_sha256 env (h @ ''.'' @ p)) sig
             then Inl (Failed ''jwt: signature verification failed'')
             else decode_payload env p)
      | _ \<Rightarrow> Inl (Failed ''jwt: malformed token''))"

definition VerifyClientJWS :: "Env \<Rightarrow> PublicKey \<Rightarrow> string \<Rightarrow> svc_err + claims" where
  "VerifyClientJWS env pub token =
     (case SplitChar token (CHR ''.'') of
        [h, p, sg] \<Rightarrow>
          (case RawURLDecode h of
             None \<Rightarrow> Inl (Failed ''jwt: bad header encoding'')
           | Some hj \<Rightarrow>
             (case env_header env hj of
                None \<Rightarrow> Inl (Failed ''jwt: bad header JSON'')
              | Some (alg, kid) \<Rightarrow>
                (case RawURLDecode sg of
                   None \<Rightarrow> Inl (Failed ''jwt: bad signature encoding'')
                 | Some sig \<Rightarrow>
                   (let digest = env_sha256 env (h @ ''.'' @ p) in
                    if alg = ''RS256'' then
                      (if env_rsa_verify env pub digest sig then decode_payload env p
                       else Inl (Failed ''jwt: signature verification failed''))
                    else if alg = ''PS256'' then
                      (if env_pss_verify env pub digest sig then decode_payload env p
                       else Inl (Failed ''jwt: signature verification failed''))
                    else Inl (Failed ''jwt: unsupported client assertion alg'')))))
      | _ \<Rightarrow> Inl (Failed ''jwt: malformed token''))"

definition DecodeUnverified :: "Env \<Rightarrow> string \<Rightarrow> svc_err + claims" where
  "DecodeUnverified env token =
     (case SplitChar token (CHR ''.'') of
        [h, p, sg] \<Rightarrow> decode_payload env p
      | _ \<Rightarrow> Inl (Failed ''jwt: malformed token''))"

section \<open>Signing keys\<close>

text \<open>Go prints a struct of plain (escape-free) strings as \<open>json_obj\<close> does.\<close>

definition jstr :: "string \<Rightarrow> string" where
  "jstr s = CHR 0x22 # s @ [CHR 0x22]"

definition json_obj :: "(string \<times> string) list \<Rightarrow> string" where
  "json_obj kvs = ''{'' @ Join (map (\<lambda>(k, v). jstr k @ '':'' @ jstr v) kvs) '','' @ ''}''"

record Signer =
  sg_Kid :: string
  sg_PrivateKey :: string

text \<open>The exponent of a public key is positive and fits an \<^verbatim>\<open>int64\<close>.\<close>

definition publicJWKFor :: "Env \<Rightarrow> PublicKey \<Rightarrow> string \<times> string" where
  "publicJWKFor env pub =
     (let n = RawURLEncode (be_bytes (pk_N pub));
          e = RawURLEncode (be_bytes (nat \<bar>pk_E pub\<bar>));
          canonical = json_obj [(''e'', e), (''kty'', ''RSA''), (''n'', n)];
          kid = RawURLEncode (env_sha256 env canonical)
      in (kid, json_obj [(''kty'', ''RSA''), (''use'', ''sig''), (''alg'', ''RS256''), (''kid'', kid), (''n'', n), (''e'', e)]))"

text \<open>\<open>priv\<close> is the key \<^verbatim>\<open>rsa.GenerateKey\<close> returns.\<close>

definition generateAndActivate :: "Env \<Rightarrow> string \<Rightarrow> int \<Rightarrow> string \<Rightarrow> Store \<Rightarrow> (svc_err + Signer) \<times> Store" where
  "generateAndActivate env priv now tenantID s =
     (case publicJWKFor env (env_public env priv) of (kid, jwkJSON) \<Rightarrow>
        (case InsertSigningKey \<lparr>k_Kid = kid, k_TenantID = tenantID, k_Alg = ''RS256'', k_PublicJWK = jwkJSON,
                k_PrivatePKCS8 = env_pem_encode env priv, k_IsActive = True, k_CreatedAt = now, k_NotAfter = Some 0\<rparr> s of
           (Inl e, s1) \<Rightarrow> (Inl (StoreErr e), s1)
         | (Inr _, s1) \<Rightarrow> (Inr \<lparr>sg_Kid = kid, sg_PrivateKey = priv\<rparr>, s1)))"

definition EnsureActiveKey :: "Env \<Rightarrow> string \<Rightarrow> int \<Rightarrow> string \<Rightarrow> Store \<Rightarrow> (svc_err + Signer) \<times> Store" where
  "EnsureActiveKey env priv now tenantID s =
     (case GetActiveSigningKey s tenantID of
        Inr k \<Rightarrow>
          (case env_pem_decode env (k_PrivatePKCS8 k) of
             None \<Rightarrow> (Inl (Failed ''tokens: persisted key''), s)
           | Some p \<Rightarrow> (Inr \<lparr>sg_Kid = k_Kid k, sg_PrivateKey = p\<rparr>, s))
      | Inl e \<Rightarrow> if e \<noteq> ErrNotFound then (Inl (StoreErr e), s) else generateAndActivate env priv now tenantID s)"

definition JWKS :: "Store \<Rightarrow> string \<Rightarrow> int \<Rightarrow> string" where
  "JWKS s tenantID now =
     ''{'' @ jstr ''keys'' @ '':['' @ Join (map k_PublicJWK (ListPublishableKeys s tenantID now)) '','' @ '']}''"

definition VerificationKey :: "Env \<Rightarrow> Store \<Rightarrow> string \<Rightarrow> svc_err + PublicKey" where
  "VerificationKey env s kid =
     (case GetSigningKey s kid of
        Inl e \<Rightarrow> Inl (StoreErr e)
      | Inr k \<Rightarrow>
        (case env_jwk env (k_PublicJWK k) of
           None \<Rightarrow> Inl (Failed ''json'')
         | Some (n, e) \<Rightarrow>
           (case RawURLDecode n of
              None \<Rightarrow> Inl (Failed ''base64'')
            | Some nBytes \<Rightarrow>
              (case RawURLDecode e of
                 None \<Rightarrow> Inl (Failed ''base64'')
               | Some eBytes \<Rightarrow> Inr \<lparr>pk_N = be_val nBytes, pk_E = wrap64 (int (be_val eBytes))\<rparr>))))"

section \<open>Lemmas\<close>

lemma VerifyRS256_SignRS256:
  assumes "SignRS256 env key kid c = Inr token"
    and "\<And>d sig. env_rsa_sign env key d = Some sig \<Longrightarrow> env_rsa_verify env pub d sig"
    and "env_unmarshal env (env_marshal env c) = Some c"
  shows "VerifyRS256 env pub token = Inr c" "DecodeUnverified env token = Inr c"
    "\<exists>p sg. SplitChar token (CHR ''.'') = [RawURLEncode (env_marshal env (jws_header kid)), p, sg]"
proof -
  let ?h = "RawURLEncode (env_marshal env (jws_header kid))" and ?p = "RawURLEncode (env_marshal env c)"
  from assms(1) obtain sig where sig: "env_rsa_sign env key (env_sha256 env (?h @ ''.'' @ ?p)) = Some sig"
    "token = ?h @ CHR ''.'' # ?p @ CHR ''.'' # RawURLEncode sig"
    by (auto simp: SignRS256_def Let_def split: option.splits)
  have split: "SplitChar token (CHR ''.'') = [?h, ?p, RawURLEncode sig]"
    unfolding sig(2) by (rule SplitChar_three) simp_all
  then show "VerifyRS256 env pub token = Inr c" "DecodeUnverified env token = Inr c"
    "\<exists>p sg. SplitChar token (CHR ''.'') = [?h, p, sg]"
    using assms(2)[OF sig(1)] assms(3) by (simp_all add: VerifyRS256_def DecodeUnverified_def decode_payload_def)
qed

lemma generateAndActivate_Inr:
  assumes "generateAndActivate env priv now tid s = (Inr sg, s')"
  shows "sg_PrivateKey sg = priv" "sg_Kid sg = fst (publicJWKFor env (env_public env priv))"
    "\<exists>k. GetSigningKey s' (sg_Kid sg) = Inr k \<and> k_TenantID k = tid \<and> k_IsActive k
         \<and> k_PublicJWK k = snd (publicJWKFor env (env_public env priv))
         \<and> k_PrivatePKCS8 k = env_pem_encode env priv"
proof -
  obtain kid jwk where pj: "publicJWKFor env (env_public env priv) = (kid, jwk)" by fastforce
  let ?k = "\<lparr>k_Kid = kid, k_TenantID = tid, k_Alg = ''RS256'', k_PublicJWK = jwk,
      k_PrivatePKCS8 = env_pem_encode env priv, k_IsActive = True, k_CreatedAt = now, k_NotAfter = Some 0\<rparr>"
  from assms pj have ins: "InsertSigningKey ?k s = (Inr (), s')" and sg: "sg = \<lparr>sg_Kid = kid, sg_PrivateKey = priv\<rparr>"
    by (auto simp: generateAndActivate_def split: prod.splits sum.splits)
  have "GetSigningKey s' kid = Inr (norm_key ?k)" using keys.get_inserted[OF ins] by simp
  then show "sg_PrivateKey sg = priv" "sg_Kid sg = fst (publicJWKFor env (env_public env priv))"
    "\<exists>k. GetSigningKey s' (sg_Kid sg) = Inr k \<and> k_TenantID k = tid \<and> k_IsActive k
         \<and> k_PublicJWK k = snd (publicJWKFor env (env_public env priv))
         \<and> k_PrivatePKCS8 k = env_pem_encode env priv"
    by (simp_all add: sg pj norm_key_def)
qed

text \<open>The key a verifier reads back from the published JWK is the generated public key.\<close>

definition jwk_law :: "Env \<Rightarrow> PublicKey \<Rightarrow> bool" where
  "jwk_law env pub \<longleftrightarrow> env_jwk env (snd (publicJWKFor env pub))
     = Some (RawURLEncode (be_bytes (pk_N pub)), RawURLEncode (be_bytes (nat \<bar>pk_E pub\<bar>)))"

lemma VerificationKey_generated:
  assumes "jwk_law env pub" and "GetSigningKey s kid = Inr k" and "k_PublicJWK k = snd (publicJWKFor env pub)"
    and "0 \<le> pk_E pub" "is_int64 (pk_E pub)"
  shows "VerificationKey env s kid = Inr pub"
  using assms by (simp add: VerificationKey_def jwk_law_def Let_def wrap64_id)

end
