(* ===== verification/Consent.thy ===== *)
theory Consent
  imports Apps
begin

text \<open>
  \<^verbatim>\<open>internal/store/consent.go\<close> and \<^verbatim>\<open>roles.go\<close>: delegated permission grants (the source of the
  \<^verbatim>\<open>scp\<close> claim), app-role assignments (\<^verbatim>\<open>roles\<close>) and directory-role assignments (\<^verbatim>\<open>wids\<close>). The
  lemmas say which values each query yields.
\<close>

definition ZeroGUID :: string where
  "ZeroGUID = ''00000000-0000-0000-0000-000000000000''"

section \<open>Delegated permission grants\<close>

definition CreateOAuth2Grant :: "OAuth2PermissionGrant \<Rightarrow> unit op" where
  "CreateOAuth2Grant g s =
     (if list_ex (\<lambda>r. og_ID r = og_ID g) (oauth2_permission_grants s) then (Inl ErrConflict, s)
      else (Inr (), s\<lparr>oauth2_permission_grants := oauth2_permission_grants s @ [g]\<rparr>))"

definition GetOAuth2Grant :: "Store \<Rightarrow> string \<Rightarrow> OAuth2PermissionGrant res" where
  "GetOAuth2Grant s i = one_row (sql_first (\<lambda>r. og_ID r = i) (oauth2_permission_grants s))"

definition ListOAuth2Grants :: "Store \<Rightarrow> OAuth2PermissionGrant list" where
  "ListOAuth2Grants s = sort_key og_CreatedAt (sort_key og_ID (oauth2_permission_grants s))"

definition DeleteOAuth2Grant :: "string \<Rightarrow> unit op" where
  "DeleteOAuth2Grant i s =
     (requireRow (sql_count (\<lambda>r. og_ID r = i) (oauth2_permission_grants s)),
      s\<lparr>oauth2_permission_grants := sql_delete (\<lambda>r. og_ID r = i) (oauth2_permission_grants s)\<rparr>)"

text \<open>The row loop of \<^verbatim>\<open>ConsentedScopes\<close>: the Go map from scope to \<^verbatim>\<open>true\<close> is the set of its keys.\<close>

definition grant_applies :: "string \<Rightarrow> OAuth2PermissionGrant \<Rightarrow> bool" where
  "grant_applies userID g \<longleftrightarrow> og_ConsentType g = ''AllPrincipals''
     \<or> (og_ConsentType g = ''Principal'' \<and> og_PrincipalID g = userID)"

fun consent_loop :: "string \<Rightarrow> OAuth2PermissionGrant list \<Rightarrow> string set \<times> bool \<Rightarrow> string set \<times> bool" where
  "consent_loop userID [] acc = acc"
| "consent_loop userID (g # rest) (scopes, hasGrant) =
     consent_loop userID rest
       (if grant_applies userID g then scopes \<union> set (Fields (og_Scope g)) else scopes, True)"

definition ConsentedScopes :: "Store \<Rightarrow> string \<Rightarrow> string \<Rightarrow> string \<Rightarrow> string set \<times> bool" where
  "ConsentedScopes s clientID resourceID userID =
     consent_loop userID
       (filter (\<lambda>g. og_ClientID g = clientID \<and> og_ResourceID g = resourceID) (oauth2_permission_grants s))
       ({}, False)"

section \<open>App-role assignments\<close>

definition norm_ara :: "AppRoleAssignment \<Rightarrow> AppRoleAssignment" where
  "norm_ara a = a\<lparr>ara_PrincipalType := (if ara_PrincipalType a = [] then ''ServicePrincipal'' else ara_PrincipalType a)\<rparr>"

definition CreateAppRoleAssignment :: "AppRoleAssignment \<Rightarrow> unit op" where
  "CreateAppRoleAssignment a s =
     (if list_ex (\<lambda>r. ara_ID r = ara_ID a) (app_role_assignments s) then (Inl ErrConflict, s)
      else (Inr (), s\<lparr>app_role_assignments := app_role_assignments s @ [norm_ara a]\<rparr>))"

definition GetAppRoleAssignment :: "Store \<Rightarrow> string \<Rightarrow> AppRoleAssignment res" where
  "GetAppRoleAssignment s i = one_row (sql_first (\<lambda>r. ara_ID r = i) (app_role_assignments s))"

definition listARA :: "(AppRoleAssignment \<Rightarrow> bool) \<Rightarrow> Store \<Rightarrow> AppRoleAssignment list" where
  "listARA P s = sort_key ara_CreatedAt (sort_key ara_ID (filter P (app_role_assignments s)))"

definition ListAppRoleAssignmentsToResource :: "Store \<Rightarrow> string \<Rightarrow> AppRoleAssignment list" where
  "ListAppRoleAssignmentsToResource s resourceID = listARA (\<lambda>a. ara_ResourceID a = resourceID) s"

definition ListAppRoleAssignmentsForPrincipal :: "Store \<Rightarrow> string \<Rightarrow> AppRoleAssignment list" where
  "ListAppRoleAssignmentsForPrincipal s principalID = listARA (\<lambda>a. ara_PrincipalID a = principalID) s"

definition DeleteAppRoleAssignment :: "string \<Rightarrow> unit op" where
  "DeleteAppRoleAssignment i s =
     (requireRow (sql_count (\<lambda>r. ara_ID r = i) (app_role_assignments s)),
      s\<lparr>app_role_assignments := sql_delete (\<lambda>r. ara_ID r = i) (app_role_assignments s)\<rparr>)"

text \<open>\<^verbatim>\<open>LEFT JOIN app_roles r ON r.id = ara.app_role_id\<close>: \<open>app_roles\<close> has \<^verbatim>\<open>id\<close> as its key, so an
  assignment joins with at most one role; without one the value is the empty string.\<close>

definition joined_value :: "Store \<Rightarrow> AppRoleAssignment \<Rightarrow> string" where
  "joined_value s a = (case sql_first (\<lambda>r. ro_ID r = ara_AppRoleID a) (app_roles s) of
     None \<Rightarrow> [] | Some r \<Rightarrow> ro_Value r)"

definition AssignedAppRoleValues :: "Store \<Rightarrow> string \<Rightarrow> string \<Rightarrow> string list \<times> bool" where
  "AssignedAppRoleValues s principalID resourceID =
     (let rows = filter (\<lambda>a. ara_PrincipalID a = principalID \<and> ara_ResourceID a = resourceID) (app_role_assignments s)
      in (map (joined_value s) (filter (\<lambda>a. ara_AppRoleID a \<noteq> ZeroGUID \<and> joined_value s a \<noteq> []) rows),
          rows \<noteq> []))"

section \<open>Directory-role assignments\<close>

definition norm_dra :: "DirectoryRoleAssignment \<Rightarrow> DirectoryRoleAssignment" where
  "norm_dra a = a\<lparr>dra_DirectoryScopeID := (if dra_DirectoryScopeID a = [] then ''/'' else dra_DirectoryScopeID a)\<rparr>"

definition CreateDirectoryRoleAssignment :: "DirectoryRoleAssignment \<Rightarrow> unit op" where
  "CreateDirectoryRoleAssignment a s =
     (if list_ex (\<lambda>r. dra_ID r = dra_ID a) (directory_role_assignments s) then (Inl ErrConflict, s)
      else (Inr (), s\<lparr>directory_role_assignments := directory_role_assignments s @ [norm_dra a]\<rparr>))"

definition GetDirectoryRoleAssignment :: "Store \<Rightarrow> string \<Rightarrow> DirectoryRoleAssignment res" where
  "GetDirectoryRoleAssignment s i = one_row (sql_first (\<lambda>r. dra_ID r = i) (directory_role_assignments s))"

definition ListDirectoryRoleAssignments :: "Store \<Rightarrow> DirectoryRoleAssignment list" where
  "ListDirectoryRoleAssignments s = sort_key dra_CreatedAt (sort_key dra_ID (directory_role_assignments s))"

definition DeleteDirectoryRoleAssignment :: "string \<Rightarrow> unit op" where
  "DeleteDirectoryRoleAssignment i s =
     (requireRow (sql_count (\<lambda>r. dra_ID r = i) (directory_role_assignments s)),
      s\<lparr>directory_role_assignments := sql_delete (\<lambda>r. dra_ID r = i) (directory_role_assignments s)\<rparr>)"

definition TenantWideRoleTemplateIDs :: "Store \<Rightarrow> string \<Rightarrow> string list" where
  "TenantWideRoleTemplateIDs s principalID =
     sort (remdups (map dra_RoleDefinitionID
       (filter (\<lambda>a. dra_PrincipalID a = principalID \<and> dra_DirectoryScopeID a = ''/''
                  \<and> dra_RoleDefinitionID a \<notin> rd_ID ` set (custom_role_definitions s))
         (directory_role_assignments s))))"

section \<open>The tables keep the interface of a keyed table\<close>

interpretation o2grants: keyed_table oauth2_permission_grants og_ID GetOAuth2Grant CreateOAuth2Grant "\<lambda>g. g"
  by unfold_locales
     (auto simp: GetOAuth2Grant_def CreateOAuth2Grant_def list_ex_iff split: if_splits)

lemma norm_ids [simp]: "ara_ID (norm_ara a) = ara_ID a" "dra_ID (norm_dra d) = dra_ID d"
  by (simp_all add: norm_ara_def norm_dra_def)

interpretation roleassigns: keyed_table app_role_assignments ara_ID GetAppRoleAssignment CreateAppRoleAssignment norm_ara
  by unfold_locales
     (auto simp: GetAppRoleAssignment_def CreateAppRoleAssignment_def list_ex_iff split: if_splits)

interpretation dirroles: keyed_table directory_role_assignments dra_ID GetDirectoryRoleAssignment
    CreateDirectoryRoleAssignment norm_dra
  by unfold_locales
     (auto simp: GetDirectoryRoleAssignment_def CreateDirectoryRoleAssignment_def list_ex_iff split: if_splits)

section \<open>What the queries yield\<close>

lemma consent_loop_scopes:
  "sc \<in> fst (consent_loop userID gs acc) \<longleftrightarrow>
     sc \<in> fst acc \<or> (\<exists>g \<in> set gs. grant_applies userID g \<and> sc \<in> set (Fields (og_Scope g)))"
  by (induction userID gs acc rule: consent_loop.induct) auto

lemma consent_loop_has: "snd (consent_loop userID gs acc) \<longleftrightarrow> snd acc \<or> gs \<noteq> []"
  by (induction userID gs acc rule: consent_loop.induct) auto

lemma ConsentedScopes_iff:
  "sc \<in> fst (ConsentedScopes s c r u) \<longleftrightarrow>
     (\<exists>g \<in> set (oauth2_permission_grants s). og_ClientID g = c \<and> og_ResourceID g = r
        \<and> grant_applies u g \<and> sc \<in> set (Fields (og_Scope g)))"
  "snd (ConsentedScopes s c r u) \<longleftrightarrow>
     (\<exists>g \<in> set (oauth2_permission_grants s). og_ClientID g = c \<and> og_ResourceID g = r)"
  by (auto simp: ConsentedScopes_def consent_loop_scopes consent_loop_has filter_empty_conv)

lemma ConsentedScopes_none: "\<not> snd (ConsentedScopes s c r u) \<Longrightarrow> fst (ConsentedScopes s c r u) = {}"
  using ConsentedScopes_iff by blast

lemma TenantWideRoleTemplateIDs_iff:
  "i \<in> set (TenantWideRoleTemplateIDs s p) \<longleftrightarrow>
     i \<notin> rd_ID ` set (custom_role_definitions s) \<and>
     (\<exists>a \<in> set (directory_role_assignments s). dra_PrincipalID a = p \<and> dra_DirectoryScopeID a = ''/''
        \<and> dra_RoleDefinitionID a = i)"
  "sorted (TenantWideRoleTemplateIDs s p)" "distinct (TenantWideRoleTemplateIDs s p)"
  by (auto simp: TenantWideRoleTemplateIDs_def)

lemma AssignedAppRoleValues_iff:
  assumes "distinct (map ro_ID (app_roles s))"
  shows "v \<in> set (fst (AssignedAppRoleValues s p r)) \<longleftrightarrow> v \<noteq> [] \<and>
     (\<exists>a \<in> set (app_role_assignments s). \<exists>ro \<in> set (app_roles s). ara_PrincipalID a = p \<and> ara_ResourceID a = r
        \<and> ara_AppRoleID a \<noteq> ZeroGUID \<and> ro_ID ro = ara_AppRoleID a \<and> ro_Value ro = v)"
    (is "_ \<longleftrightarrow> ?rhs")
proof -
  have val: "joined_value s a = v \<and> v \<noteq> [] \<longleftrightarrow>
      v \<noteq> [] \<and> (\<exists>ro \<in> set (app_roles s). ro_ID ro = ara_AppRoleID a \<and> ro_Value ro = v)" for a
    using sql_first_key[OF assms]
    by (fastforce simp: joined_value_def split: option.splits dest: sql_first_Some)
  have "v \<in> set (fst (AssignedAppRoleValues s p r)) \<longleftrightarrow>
     (\<exists>a \<in> set (app_role_assignments s). ara_PrincipalID a = p \<and> ara_ResourceID a = r
        \<and> ara_AppRoleID a \<noteq> ZeroGUID \<and> (joined_value s a = v \<and> v \<noteq> []))"
    by (auto simp: AssignedAppRoleValues_def Let_def)
  also have "\<dots> \<longleftrightarrow> ?rhs"
    unfolding val by blast
  finally show ?thesis .
qed

end
