(* ===== verification/RotationFamily.thy ===== *)
theory RotationFamily
  imports Grants
begin

text \<open>
  The rotation family of a refresh token: the tokens connected to it through \<^verbatim>\<open>rotated_from\<close>
  links in either direction. The worklist loop of \<^verbatim>\<open>RevokeRefreshTokenFamily\<close> computes exactly
  that set, and under the invariant that rotation keeps (\<open>chain_ok\<close>) a family has at most one
  live token.
\<close>

section \<open>The loop computes the family\<close>

definition kin :: "RefreshToken list \<Rightarrow> string \<Rightarrow> string \<Rightarrow> bool" where
  "kin rows a b \<longleftrightarrow> (\<exists>t \<in> set rows. rt_RotatedFrom t \<noteq> [] \<and>
     ((a = rt_TokenHash t \<and> b = rt_RotatedFrom t) \<or> (a = rt_RotatedFrom t \<and> b = rt_TokenHash t)))"

definition family :: "RefreshToken list \<Rightarrow> string \<Rightarrow> string set" where
  "family rows h = {x. (kin rows)\<^sup>*\<^sup>* h x}"

lemma family_sym:
  assumes "x \<in> family rows h" and "y \<in> family rows h"
  shows "y \<in> family rows x"
proof -
  have "symp (kin rows)" by (auto simp: symp_def kin_def)
  then have "(kin rows)\<^sup>*\<^sup>* x h" using assms(1) by (simp add: family_def symp_rtranclp sympD)
  then show ?thesis using assms(2) by (simp add: family_def)
qed

lemma kin_step:
  assumes "distinct (map rt_TokenHash rows)"
  shows "kin rows a b \<longleftrightarrow> (b = parent_of rows a \<and> b \<noteq> []) \<or> b \<in> set (children_of rows a)"
proof -
  have own: "parent_of rows (rt_TokenHash t) = rt_RotatedFrom t" if "t \<in> set rows" for t
    using sql_first_key[OF assms that] by (simp add: parent_of_def)
  have row: "\<exists>t \<in> set rows. a = rt_TokenHash t \<and> parent_of rows a = rt_RotatedFrom t"
    if "parent_of rows a \<noteq> []"
    using that by (auto simp: parent_of_def split: option.splits dest: sql_first_Some)
  have "kin rows a b \<longleftrightarrow> (\<exists>t \<in> set rows. rt_RotatedFrom t \<noteq> [] \<and> a = rt_TokenHash t \<and> b = rt_RotatedFrom t)
                        \<or> b \<in> set (children_of rows a)"
    unfolding kin_def children_of_def null_eq_def by auto
  also have "(\<exists>t \<in> set rows. rt_RotatedFrom t \<noteq> [] \<and> a = rt_TokenHash t \<and> b = rt_RotatedFrom t)
             \<longleftrightarrow> b = parent_of rows a \<and> b \<noteq> []"
    using own row by metis
  finally show ?thesis .
qed

lemma expand_covers:
  assumes "distinct (map rt_TokenHash rows)" and "kin rows h y"
  shows "y \<in> set seen \<or> y \<in> set (expand rows seen h)"
  using assms(2) unfolding kin_step[OF assms(1)] expand_def by auto

lemma expand_kin:
  assumes "distinct (map rt_TokenHash rows)" and "y \<in> set (expand rows seen h)"
  shows "kin rows h y"
  using assms(2) unfolding kin_step[OF assms(1)] expand_def by (auto split: if_splits)

lemma family_loop_closed:
  assumes "distinct (map rt_TokenHash rows)"
    and "\<forall>x \<in> set seen. \<forall>y. kin rows x y \<longrightarrow> y \<in> set seen \<union> set frontier"
  shows "set seen \<union> set frontier \<subseteq> set (family_loop rows seen frontier)
         \<and> (\<forall>x \<in> set (family_loop rows seen frontier). \<forall>y. kin rows x y
              \<longrightarrow> y \<in> set (family_loop rows seen frontier))"
  using assms
proof (induction rows seen frontier rule: family_loop.induct)
  case (1 rows seen)
  then show ?case by simp
next
  case (2 rows seen h frontier)
  show ?case
  proof (cases "h \<in> set seen")
    case True
    then have "\<forall>x \<in> set seen. \<forall>y. kin rows x y \<longrightarrow> y \<in> set seen \<union> set frontier"
      using "2.prems"(2) by auto
    from "2.IH"(1)[OF True "2.prems"(1) this] True show ?thesis by auto
  next
    case False
    have "\<forall>x \<in> set (h # seen). \<forall>y. kin rows x y
            \<longrightarrow> y \<in> set (h # seen) \<union> set (expand rows (h # seen) h @ frontier)"
      using "2.prems"(2) expand_covers[OF "2.prems"(1), of h _ "h # seen"] by auto
    from "2.IH"(2)[OF False "2.prems"(1) this] False show ?thesis by auto
  qed
qed

lemma family_loop_sound:
  assumes "distinct (map rt_TokenHash rows)"
    and "set seen \<union> set frontier \<subseteq> family rows h0"
  shows "set (family_loop rows seen frontier) \<subseteq> family rows h0"
  using assms
proof (induction rows seen frontier rule: family_loop.induct)
  case (1 rows seen)
  then show ?case by simp
next
  case (2 rows seen h frontier)
  show ?case
  proof (cases "h \<in> set seen")
    case True
    from "2.IH"(1)[OF True] "2.prems" True show ?thesis by auto
  next
    case False
    have "set (expand rows (h # seen) h) \<subseteq> family rows h0"
      using expand_kin[OF "2.prems"(1)] "2.prems"(2)
      by (fastforce simp: family_def intro: rtranclp.rtrancl_into_rtrancl)
    from "2.IH"(2)[OF False "2.prems"(1)] this "2.prems"(2) False show ?thesis by auto
  qed
qed

theorem family_loop_family:
  assumes "distinct (map rt_TokenHash rows)"
  shows "set (family_loop rows [] [h]) = family rows h"
proof
  show "set (family_loop rows [] [h]) \<subseteq> family rows h"
    using assms by (rule family_loop_sound) (simp add: family_def)
  have closed: "h \<in> set (family_loop rows [] [h])"
    "\<And>x y. x \<in> set (family_loop rows [] [h]) \<Longrightarrow> kin rows x y \<Longrightarrow> y \<in> set (family_loop rows [] [h])"
    using family_loop_closed[OF assms, of "[]" "[h]"] by auto
  show "family rows h \<subseteq> set (family_loop rows [] [h])"
  proof
    fix x assume "x \<in> family rows h"
    then have "(kin rows)\<^sup>*\<^sup>* h x" by (simp add: family_def)
    then show "x \<in> set (family_loop rows [] [h])"
      by (induction rule: rtranclp_induct) (use closed in auto)
  qed
qed

lemma RevokeRefreshTokenFamily_rows:
  assumes "tokens_ok s"
  shows "RevokeRefreshTokenFamily h s = revoke_where (\<lambda>t. rt_TokenHash t \<in> family (refresh_tokens s) h) s"
  using assms family_loop_family[of "refresh_tokens s" h]
  by (simp add: RevokeRefreshTokenFamily_def tokens_ok_def)

section \<open>The shape of rotation chains\<close>

text \<open>
  \<open>chain_ok\<close> is what issuing and rotating keep: hashes are unique and non-empty, a token is
  rotated into at most one successor, and the predecessor a row names is there, revoked, and
  belongs to the same client, user and authorization code.
\<close>

definition same_grant :: "RefreshToken \<Rightarrow> RefreshToken \<Rightarrow> bool" where
  "same_grant t u \<longleftrightarrow> rt_AppID t = rt_AppID u \<and> rt_UserID t = rt_UserID u \<and> rt_AuthCode t = rt_AuthCode u"

definition chain_ok :: "RefreshToken list \<Rightarrow> bool" where
  "chain_ok rows \<longleftrightarrow> distinct (map rt_TokenHash rows)
     \<and> (\<forall>t \<in> set rows. rt_TokenHash t \<noteq> [])
     \<and> distinct (filter (\<lambda>h. h \<noteq> []) (map rt_RotatedFrom rows))
     \<and> (\<forall>u \<in> set rows. rt_RotatedFrom u \<noteq> [] \<longrightarrow>
          (\<exists>t \<in> set rows. rt_TokenHash t = rt_RotatedFrom u \<and> rt_Revoked t \<and> same_grant t u))"

lemma one_child:
  assumes "distinct (filter (\<lambda>h. h \<noteq> []) (map rt_RotatedFrom rows))"
    and "u \<in> set rows" "v \<in> set rows" "rt_RotatedFrom u = rt_RotatedFrom v" "rt_RotatedFrom u \<noteq> []"
  shows "u = v"
proof -
  have "distinct (map rt_RotatedFrom (filter (\<lambda>t. rt_RotatedFrom t \<noteq> []) rows))"
    using assms(1) by (simp add: filter_map o_def)
  then show ?thesis using assms(2-5) by (auto simp: distinct_map dest: inj_onD)
qed

text \<open>Walking up from a token: the ancestors of \<open>h\<close>, itself included.\<close>

definition up :: "RefreshToken list \<Rightarrow> string \<Rightarrow> string \<Rightarrow> bool" where
  "up rows a b \<longleftrightarrow> (\<exists>t \<in> set rows. rt_TokenHash t = a \<and> rt_RotatedFrom t = b \<and> b \<noteq> [])"

lemma kin_up: "kin rows a b \<longleftrightarrow> up rows a b \<or> up rows b a"
  by (auto simp: kin_def up_def)

lemma leaf_family:
  assumes "chain_ok rows" and leaf: "\<And>u. \<not> up rows u a"
  shows "(kin rows)\<^sup>*\<^sup>* a x \<Longrightarrow> (up rows)\<^sup>*\<^sup>* a x"
proof (induction rule: rtranclp_induct)
  case base
  show ?case by simp
next
  case (step y z)
  show ?case
  proof (cases "up rows y z")
    case True
    with step.IH show ?thesis by (rule rtranclp.rtrancl_into_rtrancl)
  next
    case False
    with step.hyps have zy: "up rows z y" by (simp add: kin_up)
    with leaf have "y \<noteq> a" by auto
    with step.IH obtain w where w: "(up rows)\<^sup>*\<^sup>* a w" "up rows w y"
      by (auto elim: rtranclp.cases)
    from w(2) zy have "w = z"
      using one_child[of rows] assms(1) unfolding chain_ok_def up_def by metis
    with w show ?thesis by simp
  qed
qed

lemma live_is_leaf:
  assumes "chain_ok rows" and "t \<in> set rows" and "\<not> rt_Revoked t"
  shows "\<not> up rows u (rt_TokenHash t)"
proof
  assume "up rows u (rt_TokenHash t)"
  then obtain v where v: "v \<in> set rows" "rt_RotatedFrom v = rt_TokenHash t" "rt_RotatedFrom v \<noteq> []"
    by (auto simp: up_def)
  with assms(1) obtain p where p: "p \<in> set rows" "rt_TokenHash p = rt_TokenHash t" "rt_Revoked p"
    unfolding chain_ok_def by metis
  then have "p = t" using assms(1,2) by (auto simp: chain_ok_def distinct_map dest: inj_onD)
  with p assms(3) show False by simp
qed

text \<open>Two live tokens of one family are the same token.\<close>

lemma one_live_per_family:
  assumes "chain_ok rows" and "t \<in> set rows" "\<not> rt_Revoked t" and "u \<in> set rows" "\<not> rt_Revoked u"
    and "rt_TokenHash u \<in> family rows (rt_TokenHash t)"
  shows "t = u"
proof -
  have "(up rows)\<^sup>*\<^sup>* (rt_TokenHash t) (rt_TokenHash u)"
    using leaf_family[OF assms(1) live_is_leaf[OF assms(1-3)]] assms(6) by (simp add: family_def)
  then have "rt_TokenHash t = rt_TokenHash u"
    using live_is_leaf[OF assms(1,4,5)] by (auto elim: rtranclp.cases)
  then show ?thesis using assms(1,2,4) by (auto simp: chain_ok_def distinct_map dest: inj_onD)
qed

lemma family_same_grant:
  assumes "chain_ok rows" and "t \<in> set rows" and "u \<in> set rows"
    and "rt_TokenHash u \<in> family rows (rt_TokenHash t)"
  shows "same_grant t u"
proof -
  have inj: "x = y" if "x \<in> set rows" "y \<in> set rows" "rt_TokenHash x = rt_TokenHash y" for x y
    using assms(1) that by (auto simp: chain_ok_def distinct_map dest: inj_onD)
  have par: "\<exists>p \<in> set rows. rt_TokenHash p = rt_RotatedFrom x \<and> same_grant p x"
    if "x \<in> set rows" "rt_RotatedFrom x \<noteq> []" for x
    using assms(1) that unfolding chain_ok_def by metis
  have "(kin rows)\<^sup>*\<^sup>* (rt_TokenHash t) y \<Longrightarrow> \<exists>v \<in> set rows. rt_TokenHash v = y \<and> same_grant t v" for y
  proof (induction rule: rtranclp_induct)
    case base
    show ?case using assms(2) by (auto simp: same_grant_def)
  next
    case (step y z)
    from step.IH obtain v where v: "v \<in> set rows" "rt_TokenHash v = y" "same_grant t v" by blast
    from step.hyps(2) obtain x where x: "x \<in> set rows" "rt_RotatedFrom x \<noteq> []"
      "rt_TokenHash x = y \<and> rt_RotatedFrom x = z \<or> rt_TokenHash x = z \<and> rt_RotatedFrom x = y"
      unfolding kin_def by blast
    from par[OF x(1,2)] obtain p where p: "p \<in> set rows" "rt_TokenHash p = rt_RotatedFrom x" "same_grant p x"
      by blast
    show ?case
      using x(3)
    proof
      assume "rt_TokenHash x = y \<and> rt_RotatedFrom x = z"
      then have "x = v" "rt_TokenHash p = z" using inj x v p by auto
      then show ?thesis using p v by (auto simp: same_grant_def)
    next
      assume xz: "rt_TokenHash x = z \<and> rt_RotatedFrom x = y"
      then have "p = v" using inj v p by auto
      then show ?thesis using p v x xz by (auto simp: same_grant_def)
    qed
  qed
  then obtain v where "v \<in> set rows" "rt_TokenHash v = rt_TokenHash u" "same_grant t v"
    using assms(4) by (auto simp: family_def)
  then show ?thesis using inj assms(3) by metis
qed

section \<open>Every change of the table keeps the shape\<close>

lemma chain_ok_Nil [simp]: "chain_ok []"
  by (simp add: chain_ok_def)

lemma chain_ok_issue:
  assumes "chain_ok rows" and "rt_TokenHash t \<notin> rt_TokenHash ` set rows" "rt_TokenHash t \<noteq> []" "rt_RotatedFrom t = []"
  shows "chain_ok (rows @ [t])"
  using assms unfolding chain_ok_def by auto

lemma chain_ok_revoke:
  assumes "chain_ok rows"
  shows "chain_ok (sql_update P (\<lambda>t. t\<lparr>rt_Revoked := True\<rparr>) rows)"
proof -
  let ?u = "\<lambda>t. if P t then t\<lparr>rt_Revoked := True\<rparr> else t"
  have u: "rt_TokenHash (?u t) = rt_TokenHash t" "rt_RotatedFrom (?u t) = rt_RotatedFrom t"
    "rt_Revoked t \<Longrightarrow> rt_Revoked (?u t)" "same_grant (?u t) (?u v) = same_grant t v" for t v
    by (auto simp: same_grant_def)
  have "\<exists>t \<in> set rows. rt_TokenHash (?u t) = rt_RotatedFrom (?u v) \<and> rt_Revoked (?u t) \<and> same_grant (?u t) (?u v)"
    if v: "v \<in> set rows" "rt_RotatedFrom (?u v) \<noteq> []" for v
  proof -
    from v(2) have "rt_RotatedFrom v \<noteq> []" by (simp only: u not_False_eq_True)
    then obtain t where "t \<in> set rows" "rt_TokenHash t = rt_RotatedFrom v" "rt_Revoked t" "same_grant t v"
      using assms v(1) unfolding chain_ok_def by blast
    then show ?thesis using u by (intro bexI[of _ t]) simp_all
  qed
  moreover have "map rt_TokenHash (sql_update P (\<lambda>t. t\<lparr>rt_Revoked := True\<rparr>) rows) = map rt_TokenHash rows"
    "map rt_RotatedFrom (sql_update P (\<lambda>t. t\<lparr>rt_Revoked := True\<rparr>) rows) = map rt_RotatedFrom rows"
    by simp_all
  ultimately show ?thesis
    using assms unfolding chain_ok_def set_sql_update ball_simps bex_simps u by simp
qed

lemma chain_ok_rotate:
  assumes "chain_ok rows" and "x \<in> set rows" "rt_TokenHash x = h" "\<not> rt_Revoked x"
    and "rt_TokenHash t \<notin> rt_TokenHash ` set rows" "rt_TokenHash t \<noteq> []" "same_grant x t"
  shows "chain_ok (sql_update (\<lambda>x. rt_TokenHash x = h) (\<lambda>x. x\<lparr>rt_Revoked := True\<rparr>) rows
                   @ [t\<lparr>rt_RotatedFrom := h, rt_Revoked := False\<rparr>])"
    (is "chain_ok (?rows @ [?t])")
proof -
  have ok: "chain_ok ?rows" using assms(1) by (rule chain_ok_revoke)
  have maps: "map rt_TokenHash ?rows = map rt_TokenHash rows" "map rt_RotatedFrom ?rows = map rt_RotatedFrom rows"
    by simp_all
  have fresh: "h \<notin> rt_RotatedFrom ` set rows"
  proof
    assume "h \<in> rt_RotatedFrom ` set rows"
    then have "up rows u (rt_TokenHash x)" if "u = rt_TokenHash v" "v \<in> set rows" "rt_RotatedFrom v = h" for u v
      using that assms(1-3) by (auto simp: up_def chain_ok_def)
    with \<open>h \<in> _\<close> live_is_leaf[OF assms(1,2,4)] show False by blast
  qed
  have sets: "rt_TokenHash ` set ?rows = rt_TokenHash ` set rows" "rt_RotatedFrom ` set ?rows = rt_RotatedFrom ` set rows"
    using maps by (metis set_map)+
  let ?x = "x\<lparr>rt_Revoked := True\<rparr>"
  have x': "?x \<in> set ?rows"
    unfolding set_sql_update by (rule rev_image_eqI[OF assms(2)]) (simp add: assms(3))
  have link: "rt_TokenHash ?x = rt_RotatedFrom ?t \<and> rt_Revoked ?x \<and> same_grant ?x ?t"
    using assms(3,7) by (simp add: same_grant_def)
  have "distinct (map rt_TokenHash (?rows @ [?t]))"
    using ok assms(5) sets by (simp add: chain_ok_def maps)
  moreover have "\<forall>v \<in> set (?rows @ [?t]). rt_TokenHash v \<noteq> []"
    using ok assms(6) by (simp add: chain_ok_def)
  moreover have "distinct (filter (\<lambda>h. h \<noteq> []) (map rt_RotatedFrom (?rows @ [?t])))"
    using ok fresh sets by (simp add: chain_ok_def)
  moreover have "\<forall>u \<in> set (?rows @ [?t]). rt_RotatedFrom u \<noteq> [] \<longrightarrow>
     (\<exists>v \<in> set (?rows @ [?t]). rt_TokenHash v = rt_RotatedFrom u \<and> rt_Revoked v \<and> same_grant v u)"
  proof
    fix u assume "u \<in> set (?rows @ [?t])"
    then consider "u \<in> set ?rows" | "u = ?t" by auto
    then show "rt_RotatedFrom u \<noteq> [] \<longrightarrow>
     (\<exists>v \<in> set (?rows @ [?t]). rt_TokenHash v = rt_RotatedFrom u \<and> rt_Revoked v \<and> same_grant v u)"
    proof cases
      case 1
      then show ?thesis using ok unfolding chain_ok_def set_append by blast
    next
      case 2
      show ?thesis unfolding 2 using x' link by (intro impI bexI[of _ ?x]) (simp_all only: set_append Un_iff simp_thms)
    qed
  qed
  ultimately show ?thesis unfolding chain_ok_def by blast
qed

text \<open>Deletions select rows by client and user, so they take whole chains.\<close>

lemma chain_ok_delete:
  assumes "chain_ok rows" and "\<And>t. P t = Q (rt_AppID t) (rt_UserID t)"
  shows "chain_ok (sql_delete P rows)"
proof -
  have "distinct (filter (\<lambda>h. h \<noteq> []) (map rt_RotatedFrom (sql_delete P rows)))"
  proof -
    have "filter (\<lambda>t. rt_RotatedFrom t \<noteq> []) (sql_delete P rows)
          = sql_delete P (filter (\<lambda>t. rt_RotatedFrom t \<noteq> []) rows)"
      by (simp add: sql_delete_def conj_commute)
    then show ?thesis using assms(1) by (simp add: chain_ok_def filter_map o_def)
  qed
  moreover have "\<exists>t \<in> set (sql_delete P rows). rt_TokenHash t = rt_RotatedFrom u \<and> rt_Revoked t \<and> same_grant t u"
    if "u \<in> set (sql_delete P rows)" "rt_RotatedFrom u \<noteq> []" for u
    using assms that unfolding chain_ok_def same_grant_def by fastforce
  ultimately show ?thesis using assms(1) by (auto simp: chain_ok_def)
qed

section \<open>Reachable token tables\<close>

text \<open>
  The store calls that touch \<^verbatim>\<open>refresh_tokens\<close>, with the arguments their callers in
  \<^verbatim>\<open>internal/tokens\<close> give them: a first token has no predecessor, a successor is built from the
  row that is being rotated.
\<close>

inductive token_step :: "Store \<Rightarrow> Store \<Rightarrow> bool" where
  issue: "InsertRefreshToken t s = (r, s') \<Longrightarrow> rt_TokenHash t \<noteq> [] \<Longrightarrow> rt_RotatedFrom t = [] \<Longrightarrow> token_step s s'"
| rotate: "GetRefreshTokenByHash s h = Inr x \<Longrightarrow> same_grant x t \<Longrightarrow> rt_TokenHash t \<noteq> [] \<Longrightarrow>
     RotateRefreshToken h t s = (r, s') \<Longrightarrow> token_step s s'"
| revoke_family: "token_step s (RevokeRefreshTokenFamily h s)"
| revoke_code: "token_step s (snd (RevokeRefreshTokensForAuthCode c s))"
| delete_user: "token_step s (snd (DeleteUser i s))"
| delete_app: "token_step s (snd (DeleteApp i s))"
| delete_tenant: "token_step s (snd (DeleteTenant i s))"
| other: "refresh_tokens s' = refresh_tokens s \<Longrightarrow> token_step s s'"

lemma DeleteUser_tokens:
  "refresh_tokens (snd (DeleteUser i s)) = refresh_tokens s
   \<or> refresh_tokens (snd (DeleteUser i s)) = sql_delete (\<lambda>t. rt_UserID t = i) (refresh_tokens s)"
  by (auto simp: DeleteUser_def delete_user_body_def tx_def del_users_def clear_user_grants_def Let_def
      split: prod.splits sum.splits)

lemma DeleteApp_tokens:
  "refresh_tokens (snd (DeleteApp i s)) = refresh_tokens s
   \<or> refresh_tokens (snd (DeleteApp i s)) = sql_delete (\<lambda>t. rt_AppID t = i) (refresh_tokens s)"
  by (auto simp: DeleteApp_def delete_app_body_def tx_def del_apps_def clear_app_grants_def Let_def
      split: prod.splits sum.splits)

lemma DeleteTenant_tokens:
  "refresh_tokens (snd (DeleteTenant i s)) = refresh_tokens s
   \<or> refresh_tokens (snd (DeleteTenant i s))
     = sql_delete (\<lambda>t. rt_AppID t \<in> set (tenant_apps s i) \<or> rt_UserID t \<in> set (tenant_users s i)) (refresh_tokens s)"
  by (auto simp: DeleteTenant_def tx_def del_users_def del_apps_def del_groups_def del_tenant_row_def
      clear_tenant_grants_def Let_def split: prod.splits sum.splits if_splits)

lemma token_step_chain_ok:
  assumes "token_step s s'" and "chain_ok (refresh_tokens s)"
  shows "chain_ok (refresh_tokens s')"
  using assms
proof cases
  case (issue t r)
  show ?thesis
  proof (cases r)
    case (Inl e)
    with issue assms(2) tokens.ins_err show ?thesis by metis
  next
    case (Inr u)
    with issue(1) have "refresh_tokens s' = refresh_tokens s @ [norm_token t]"
      "rt_TokenHash t \<notin> rt_TokenHash ` set (refresh_tokens s)"
      using tokens.ins_ok[of t s s'] by simp_all
    with issue(2,3) assms(2) show ?thesis
      by (simp add: chain_ok_issue norm_token_def)
  qed
next
  case (rotate h x t r)
  have ok: "tokens_ok s" using assms(2) by (simp add: tokens_ok_def chain_ok_def)
  show ?thesis
    using rotate(4) ok
  proof (cases rule: RotateRefreshToken_cases)
    case (won y)
    have "x = y"
      using rotate(1) won(2,3) ok by (auto simp: tokens.get_Inr_iff tokens_ok_def distinct_map dest: inj_onD)
    with won rotate(2,3) assms(2) show ?thesis by (simp add: chain_ok_rotate)
  qed (use assms(2) in simp_all)
next
  case (delete_tenant i)
  show ?thesis
    using DeleteTenant_tokens[of i s] assms(2)
      chain_ok_delete[OF assms(2), of _ "\<lambda>a u. a \<in> set (tenant_apps s i) \<or> u \<in> set (tenant_users s i)"]
    unfolding delete_tenant by auto
next
  case (delete_user i)
  show ?thesis
    using DeleteUser_tokens[of i s] assms(2) chain_ok_delete[OF assms(2), of _ "\<lambda>a u. u = i"]
    unfolding delete_user by auto
next
  case (delete_app i)
  show ?thesis
    using DeleteApp_tokens[of i s] assms(2) chain_ok_delete[OF assms(2), of _ "\<lambda>a u. a = i"]
    unfolding delete_app by auto
qed (auto simp: RevokeRefreshTokenFamily_def RevokeRefreshTokensForAuthCode_def revoke_where_def Let_def
      intro: chain_ok_revoke)

lemma token_steps_chain_ok:
  assumes "token_step\<^sup>*\<^sup>* s s'" and "chain_ok (refresh_tokens s)"
  shows "chain_ok (refresh_tokens s')"
  using assms by (induction rule: rtranclp_induct) (auto intro: token_step_chain_ok)

section \<open>Properties\<close>

text \<open>
  C5. \<^verbatim>\<open>RevokeRefreshTokenFamily\<close> terminates and revokes exactly the rotation family: every row
  connected to the hash through \<^verbatim>\<open>rotated_from\<close> links, in either direction, ends up revoked, and
  no other row changes.
\<close>

theorem revoke_family_exact:
  assumes "tokens_ok s"
  shows "RevokeRefreshTokenFamily h s = s\<lparr>refresh_tokens :=
     map (\<lambda>t. if rt_TokenHash t \<in> family (refresh_tokens s) h then t\<lparr>rt_Revoked := True\<rparr> else t) (refresh_tokens s)\<rparr>"
  using RevokeRefreshTokenFamily_rows[OF assms] by (simp add: revoke_where_def sql_update_def)

theorem revoke_family_exact_witness:
  "refresh_tokens (RevokeRefreshTokenFamily ''h0'' store0) =
     map (\<lambda>t. if rt_TokenHash t \<in> family (refresh_tokens store0) ''h0'' then t\<lparr>rt_Revoked := True\<rparr> else t)
       (refresh_tokens store0)"
  by (subst revoke_family_exact) (simp_all add: tokens_ok_def sample_defs)

text \<open>
  C6. In every store reachable from one without refresh tokens by issuing, rotating and revoking
  tokens and deleting users, clients and tenants, in any order, a rotation family has at most one
  token that is not revoked.
\<close>

theorem one_live_token_per_family:
  assumes "token_step\<^sup>*\<^sup>* s0 s" and "refresh_tokens s0 = []"
  shows "sql_count (\<lambda>t. \<not> rt_Revoked t \<and> rt_TokenHash t \<in> family (refresh_tokens s) h) (refresh_tokens s) \<le> 1"
proof (rule sql_count_le_1)
  have ok: "chain_ok (refresh_tokens s)" using token_steps_chain_ok[OF assms(1)] assms(2) by simp
  then show "distinct (refresh_tokens s)" by (auto simp: chain_ok_def distinct_map)
  show "t = u" if "t \<in> set (refresh_tokens s)" "u \<in> set (refresh_tokens s)"
    "\<not> rt_Revoked t \<and> rt_TokenHash t \<in> family (refresh_tokens s) h"
    "\<not> rt_Revoked u \<and> rt_TokenHash u \<in> family (refresh_tokens s) h" for t u
    using that one_live_per_family[OF ok, of t u] family_sym by blast
qed

definition rotated_store :: Store where
  "rotated_store = snd (RotateRefreshToken ''h0'' token1 store0)"

lemma rotated_store_rows:
  "refresh_tokens rotated_store = [token0\<lparr>rt_Revoked := True\<rparr>, token1\<lparr>rt_RotatedFrom := ''h0''\<rparr>]"
  by (simp add: rotated_store_def RotateRefreshToken_def tx_def sql_defs revoke_where_def InsertRefreshToken_def
      norm_token_def has_defs sample_defs)

lemma rotated_store_reachable: "token_step\<^sup>*\<^sup>* (store0\<lparr>refresh_tokens := []\<rparr>) rotated_store"
proof -
  have "token_step (store0\<lparr>refresh_tokens := []\<rparr>) store0"
    by (rule token_step.issue[of token0 _ "Inr ()"])
       (simp_all add: InsertRefreshToken_def norm_token_def has_defs sample_defs)
  moreover have "token_step store0 rotated_store"
    unfolding rotated_store_def
    by (rule token_step.rotate[OF _ _ _ surjective_pairing, of _ _ token0])
       (simp_all add: GetRefreshTokenByHash_def sql_defs sql_first_def same_grant_def sample_defs)
  ultimately show ?thesis by (meson r_into_rtranclp rtranclp.rtrancl_into_rtrancl)
qed

theorem one_live_token_per_family_witness:
  "sql_count (\<lambda>t. \<not> rt_Revoked t \<and> rt_TokenHash t \<in> family (refresh_tokens rotated_store) ''h0'')
     (refresh_tokens rotated_store) \<le> 1"
  by (rule one_live_token_per_family[OF rotated_store_reachable]) simp

text \<open>
  A replayed authorization code kills the whole chain it started: in every reachable store,
  after \<^verbatim>\<open>RevokeRefreshTokensForAuthCode\<close> every token of the rotation family of a token issued
  from that code is revoked.
\<close>

theorem replay_kills_chain:
  assumes "token_step\<^sup>*\<^sup>* s0 s" and "refresh_tokens s0 = []"
    and "t \<in> set (refresh_tokens s)" "rt_AuthCode t = code" "code \<noteq> []"
    and "u \<in> set (refresh_tokens (snd (RevokeRefreshTokensForAuthCode code s)))"
    and "rt_TokenHash u \<in> family (refresh_tokens s) (rt_TokenHash t)"
  shows "rt_Revoked u"
proof -
  have ok: "chain_ok (refresh_tokens s)" using token_steps_chain_ok[OF assms(1)] assms(2) by simp
  from assms(5,6) obtain v where v: "v \<in> set (refresh_tokens s)"
    "u = (if null_eq (rt_AuthCode v) code \<and> \<not> rt_Revoked v then v\<lparr>rt_Revoked := True\<rparr> else v)"
    by (auto simp: RevokeRefreshTokensForAuthCode_def revoke_where_def set_sql_update)
  then have "rt_TokenHash v = rt_TokenHash u" by auto
  then have "same_grant t v" using family_same_grant[OF ok assms(3) v(1)] assms(7) by simp
  then show ?thesis using v(2) assms(4,5) by (auto simp: same_grant_def null_eq_def)
qed

theorem replay_kills_chain_witness:
  "rt_Revoked (token1\<lparr>rt_RotatedFrom := ''h0'', rt_Revoked := True\<rparr>)
   \<and> token1\<lparr>rt_RotatedFrom := ''h0'', rt_Revoked := True\<rparr>
       \<in> set (refresh_tokens (snd (RevokeRefreshTokensForAuthCode ''c'' rotated_store)))"
proof -
  let ?t = "token1\<lparr>rt_RotatedFrom := ''h0''\<rparr>" and ?u = "token1\<lparr>rt_RotatedFrom := ''h0'', rt_Revoked := True\<rparr>"
  have t: "?t \<in> set (refresh_tokens rotated_store)" by (simp add: rotated_store_rows)
  have u: "?u \<in> set (refresh_tokens (snd (RevokeRefreshTokensForAuthCode ''c'' rotated_store)))"
    by (simp add: RevokeRefreshTokensForAuthCode_def revoke_where_def sql_update_def rotated_store_rows null_eq_def
        token1_def token0_def)
  have "rt_Revoked ?u"
    by (rule replay_kills_chain[OF rotated_store_reachable _ t _ _ u]) (simp_all add: family_def token1_def token0_def)
  with u show ?thesis by simp
qed

end
