(* ===== verification/TokenService.thy ===== *)
theory TokenService
  imports Jwt Consent RotationFamily
begin

text \<open>
  \<^verbatim>\<open>internal/tokens/service.go\<close>: minting access and ID tokens, issuing and redeeming authorization
  codes and refresh tokens, rotating the signing key and validating access tokens. The mutable
  state is the store and the cached signers. \<open>now\<close> is the clock reading of the call; \<open>priv\<close> (a fresh
  RSA key) and \<open>plain\<close> (a fresh opaque token) are the random values it may draw.
\<close>

section \<open>Configuration and state\<close>

record Config =
  cf_TenantID :: string
  cf_Issuer :: string
  cf_Login :: string
  cf_Graph :: string
  cf_GraphResourceID :: string
  cf_RequirePassword :: bool
  cf_RequireConsent :: bool
  cf_AuthCode :: int
  cf_IDToken :: int
  cf_AccessToken :: int
  cf_RefreshToken :: int
  cf_DeviceCode :: int
  cf_DeviceInterval :: int
  cf_ManagedIdentitySecret :: string
  cf_ManagedIdentityClientID :: string
  cf_GraphPermissions :: bool

record Service =
  sv_Store :: Store
  sv_Signer :: Signer
  sv_tenantSigners :: "string \<rightharpoonup> Signer"

type_synonym 'a svc = "Service \<Rightarrow> (svc_err + 'a) \<times> Service"

definition resolveTenant :: "Config \<Rightarrow> string \<Rightarrow> string" where
  "resolveTenant cfg tid = (if tid = [] then cf_TenantID cfg else tid)"

definition issuerForTenant :: "Config \<Rightarrow> string \<Rightarrow> string" where
  "issuerForTenant cfg tid = (if tid = cf_TenantID cfg then cf_Issuer cfg else cf_Login cfg @ ''/'' @ tid @ ''/v2.0'')"

definition signerForTenant :: "Env \<Rightarrow> Config \<Rightarrow> int \<Rightarrow> string \<Rightarrow> string \<Rightarrow> Signer svc" where
  "signerForTenant env cfg now priv tid sv =
     (if tid = cf_TenantID cfg then (Inr (sv_Signer sv), sv)
      else case sv_tenantSigners sv tid of
        Some signer \<Rightarrow> (Inr signer, sv)
      | None \<Rightarrow>
        (case EnsureActiveKey env priv now tid (sv_Store sv) of
           (Inl e, s1) \<Rightarrow> (Inl e, sv\<lparr>sv_Store := s1\<rparr>)
         | (Inr signer, s1) \<Rightarrow>
             (Inr signer, sv\<lparr>sv_Store := s1, sv_tenantSigners := (sv_tenantSigners sv)(tid \<mapsto> signer)\<rparr>)))"

definition signTenant :: "Env \<Rightarrow> Config \<Rightarrow> int \<Rightarrow> string \<Rightarrow> string \<Rightarrow> claims \<Rightarrow> string svc" where
  "signTenant env cfg now priv tid claims sv =
     (case signerForTenant env cfg now priv tid sv of
        (Inl e, sv1) \<Rightarrow> (Inl e, sv1)
      | (Inr signer, sv1) \<Rightarrow> (SignRS256 env (sg_PrivateKey signer) (sg_Kid signer) claims, sv1))"

definition ActiveKid :: "Service \<Rightarrow> string" where
  "ActiveKid sv = sg_Kid (sv_Signer sv)"

definition Rotate :: "Env \<Rightarrow> Config \<Rightarrow> int \<Rightarrow> string \<Rightarrow> int \<Rightarrow> string svc" where
  "Rotate env cfg now priv graceSeconds sv =
     (let s1 = DemoteActiveSigningKeys (cf_TenantID cfg) (i64_add now graceSeconds) (sv_Store sv) in
      case generateAndActivate env priv now (cf_TenantID cfg) s1 of
        (Inl e, s2) \<Rightarrow> (Inl e, sv\<lparr>sv_Store := s2\<rparr>)
      | (Inr newSigner, s2) \<Rightarrow> (Inr (sg_Kid newSigner), sv\<lparr>sv_Store := s2, sv_Signer := newSigner\<rparr>))"

text \<open>\<^verbatim>\<open>MintSystemToken\<close> signs with the home signer and drops a signing error.\<close>

definition MintSystemToken :: "Env \<Rightarrow> Config \<Rightarrow> int \<Rightarrow> Service \<Rightarrow> string \<Rightarrow> string" where
  "MintSystemToken env cfg now sv audience =
     (let claims = [''iss'' \<mapsto> CStr (cf_Issuer cfg), ''sub'' \<mapsto> CStr ''entra-emulator-system'', ''aud'' \<mapsto> CStr audience,
          ''iat'' \<mapsto> CInt now, ''nbf'' \<mapsto> CInt now, ''exp'' \<mapsto> CInt (i64_add now 300),
          ''tid'' \<mapsto> CStr (cf_TenantID cfg), ''idtyp'' \<mapsto> CStr ''app'', ''ver'' \<mapsto> CStr ''2.0'']
      in case SignRS256 env (sg_PrivateKey (sv_Signer sv)) (sg_Kid (sv_Signer sv)) claims of
           Inl e \<Rightarrow> [] | Inr jwt \<Rightarrow> jwt)"

section \<open>Claims\<close>

definition protectedClaims :: "string list" where
  "protectedClaims = [''iss'', ''aud'', ''exp'', ''iat'', ''nbf'', ''sub'', ''tid'', ''oid'', ''azp'', ''appid'',
     ''scp'', ''roles'', ''ver'', ''nonce'', ''name'', ''preferred_username'', ''email'']"

definition enrich :: "Env \<Rightarrow> claims \<Rightarrow> App \<Rightarrow> User \<Rightarrow> string \<Rightarrow> claims" where
  "enrich env claims app user kind =
     (case env_enrich env of
        None \<Rightarrow> claims
      | Some f \<Rightarrow> (\<lambda>k. if k \<in> set protectedClaims then claims k
                     else case f app user kind k of None \<Rightarrow> claims k | Some v \<Rightarrow> Some v))"

definition hasScope :: "string list \<Rightarrow> string \<Rightarrow> bool" where
  "hasScope scopes want \<longleftrightarrow> want \<in> set scopes"

definition is_oidc :: "string \<Rightarrow> bool" where
  "is_oidc sc \<longleftrightarrow> sc = ''openid'' \<or> sc = ''profile'' \<or> sc = ''email'' \<or> sc = ''offline_access''"

definition strip_resource :: "string \<Rightarrow> string" where
  "strip_resource sc =
     (let i = LastIndex sc (CHR ''/'') in if i \<ge> 0 then slice_from sc (i + 1) else sc)"

definition scopeNamesOnly :: "string list \<Rightarrow> string list" where
  "scopeNamesOnly scopes =
     (let out = map strip_resource (filter (\<lambda>sc. \<not> is_oidc sc) scopes) in
      if out = [] then filter (\<lambda>sc. sc \<noteq> ''offline_access'') scopes else out)"

definition lifetimesFor :: "Env \<Rightarrow> Config \<Rightarrow> Store \<Rightarrow> string \<Rightarrow> int \<times> int \<times> int" where
  "lifetimesFor env cfg s appID =
     (if appID = [] then (cf_AccessToken cfg, cf_IDToken cfg, cf_RefreshToken cfg)
      else let p = EffectiveTokenLifetimes (env_policy env) s appID in
        (if pl_AccessToken p > 0 then pl_AccessToken p else cf_AccessToken cfg,
         if pl_IDToken p > 0 then pl_IDToken p else cf_IDToken cfg,
         if pl_RefreshToken p > 0 then pl_RefreshToken p else cf_RefreshToken cfg))"

definition defaultGroupOverageLimit :: int where
  "defaultGroupOverageLimit = 200"

definition graphBase :: "Config \<Rightarrow> string" where
  "graphBase cfg = (if cf_Graph cfg = cf_Login cfg then cf_Graph cfg @ ''/graph'' else cf_Graph cfg)"

definition PairwiseSub :: "Env \<Rightarrow> Config \<Rightarrow> string \<Rightarrow> string \<Rightarrow> string \<Rightarrow> string" where
  "PairwiseSub env cfg userID appID tid =
     RawURLEncode (env_sha256 env (userID @ ''|'' @ appID @ ''|'' @ resolveTenant cfg tid))"

definition clientInfo :: "Env \<Rightarrow> Config \<Rightarrow> string \<Rightarrow> string \<Rightarrow> string" where
  "clientInfo env cfg userOID tid =
     RawURLEncode (env_marshal env [''uid'' \<mapsto> CStr userOID, ''utid'' \<mapsto> CStr (resolveTenant cfg tid)])"

definition supportedOptionalClaims :: "string \<Rightarrow> string \<Rightarrow> bool" where
  "supportedOptionalClaims kind name =
     (if kind = ''idToken''
      then name \<in> set [''given_name'', ''family_name'', ''upn'', ''ipaddr'', ''groups'', ''auth_time'']
      else if kind = ''accessToken''
      then name \<in> set [''given_name'', ''family_name'', ''upn'', ''ipaddr'', ''groups'']
      else False)"

definition optional_entries :: "Env \<Rightarrow> App \<Rightarrow> string \<Rightarrow> string list" where
  "optional_entries env app kind =
     (if a_OptionalClaims app = [] then []
      else case env_optional env (a_OptionalClaims app) of
        ((idt, acc), ok) \<Rightarrow> if kind = ''accessToken'' then acc else idt)"

definition appRequestsOptionalClaim :: "Env \<Rightarrow> App \<Rightarrow> string \<Rightarrow> string \<Rightarrow> bool" where
  "appRequestsOptionalClaim env app kind name =
     (if a_OptionalClaims app = [] \<or> \<not> supportedOptionalClaims kind name then False
      else if \<not> snd (env_optional env (a_OptionalClaims app)) then False
      else name \<in> set (optional_entries env app kind))"

fun apply_entries :: "User \<Rightarrow> string \<Rightarrow> string list \<Rightarrow> claims \<times> bool \<Rightarrow> claims \<times> bool" where
  "apply_entries user kind [] acc = acc"
| "apply_entries user kind (e # es) (claims, groupsRequested) =
     apply_entries user kind es
       (if \<not> supportedOptionalClaims kind e then (claims, groupsRequested)
        else if e = ''groups'' then (claims, True)
        else if e = ''given_name'' then
          (if u_GivenName user \<noteq> [] then claims(''given_name'' \<mapsto> CStr (u_GivenName user)) else claims, groupsRequested)
        else if e = ''family_name'' then
          (if u_Surname user \<noteq> [] then claims(''family_name'' \<mapsto> CStr (u_Surname user)) else claims, groupsRequested)
        else if e = ''upn'' then (claims(''upn'' \<mapsto> CStr (u_UserPrincipalName user)), groupsRequested)
        else if e = ''ipaddr'' then (claims(''ipaddr'' \<mapsto> CStr ''127.0.0.1''), groupsRequested)
        else (claims, groupsRequested))"

definition add_wids :: "Store \<Rightarrow> App \<Rightarrow> User \<Rightarrow> claims \<Rightarrow> claims" where
  "add_wids s app user claims =
     (if a_GroupMembershipClaims app = ''DirectoryRole'' \<or> a_GroupMembershipClaims app = ''All'' then
        (let wids = TenantWideRoleTemplateIDs s (u_ID user) in
         if wids \<noteq> [] then claims(''wids'' \<mapsto> CStrs wids) else claims)
      else claims)"

definition applyTokenConfig :: "Env \<Rightarrow> Config \<Rightarrow> Store \<Rightarrow> claims \<Rightarrow> App \<Rightarrow> User \<Rightarrow> string \<Rightarrow> claims" where
  "applyTokenConfig env cfg s claims app user kind =
     (case apply_entries user kind (optional_entries env app kind) (claims, False) of (c1, groupsRequested) \<Rightarrow>
      if (a_GroupMembershipClaims app \<noteq> [] \<and> a_GroupMembershipClaims app \<noteq> ''None'') \<or> groupsRequested then
        (let gs = ListGroupsForUser s (u_ID user);
             limit = (if a_GroupOverageLimit app = 0 then defaultGroupOverageLimit else a_GroupOverageLimit app) in
         if int (length gs) > limit then
           c1(''_claim_names'' \<mapsto> CObj [(''groups'', CStr ''src1'')],
              ''_claim_sources'' \<mapsto> CObj [(''src1'', CObj [(''endpoint'',
                 CStr (graphBase cfg @ ''/v1.0/users/'' @ u_ID user @ ''/getMemberObjects''))])])
         else add_wids s app user (c1(''groups'' \<mapsto> CStrs (map g_ID gs))))
      else add_wids s app user c1)"

section \<open>Minting\<close>

record DelegatedGrant =
  dg_App :: App
  dg_User :: User
  dg_Scopes :: "string list"
  dg_Resource :: string
  dg_ScopeEcho :: "string list"
  dg_Nonce :: string
  dg_AMR :: string
  dg_AuthTime :: int
  dg_AuthCode :: string
  dg_MaxAgeRequested :: bool
  dg_TenantID :: string
  dg_SkipRefreshToken :: bool

definition scopeEcho :: "DelegatedGrant \<Rightarrow> string list" where
  "scopeEcho g = (if dg_ScopeEcho g \<noteq> [] then dg_ScopeEcho g else dg_Scopes g)"

definition set_if :: "bool \<Rightarrow> string \<Rightarrow> cval \<Rightarrow> claims \<Rightarrow> claims" where
  "set_if b k v c = (if b then c(k \<mapsto> v) else c)"

definition id_token_claims :: "Env \<Rightarrow> Config \<Rightarrow> int \<Rightarrow> DelegatedGrant \<Rightarrow> Store \<Rightarrow> claims" where
  "id_token_claims env cfg now g s =
     (let tid = resolveTenant cfg (dg_TenantID g); app = dg_App g; user = dg_User g;
          idTokenSec = fst (snd (lifetimesFor env cfg s (a_ID app)));
          c0 = [''iss'' \<mapsto> CStr (issuerForTenant cfg tid),
                ''sub'' \<mapsto> CStr (PairwiseSub env cfg (u_ID user) (a_ID app) tid),
                ''aud'' \<mapsto> CStr (a_ID app),
                ''iat'' \<mapsto> CInt now, ''nbf'' \<mapsto> CInt now, ''exp'' \<mapsto> CInt (i64_add now idTokenSec),
                ''tid'' \<mapsto> CStr tid, ''oid'' \<mapsto> CStr (u_ID user),
                ''name'' \<mapsto> CStr (u_DisplayName user), ''preferred_username'' \<mapsto> CStr (u_UserPrincipalName user),
                ''ver'' \<mapsto> CStr ''2.0''];
          c1 = set_if (u_Mail user \<noteq> []) ''email'' (CStr (u_Mail user)) c0;
          c2 = set_if (dg_Nonce g \<noteq> []) ''nonce'' (CStr (dg_Nonce g)) c1;
          c3 = set_if (dg_AMR g \<noteq> []) ''amr'' (CStrs [dg_AMR g]) c2;
          c4 = set_if (dg_AuthTime g > 0 \<and> (dg_MaxAgeRequested g \<or> appRequestsOptionalClaim env app ''idToken'' ''auth_time''))
                 ''auth_time'' (CInt (dg_AuthTime g)) c3
      in enrich env (applyTokenConfig env cfg s c4 app user ''idToken'') app user ''idToken'')"

definition mintIDToken :: "Env \<Rightarrow> Config \<Rightarrow> int \<Rightarrow> string \<Rightarrow> DelegatedGrant \<Rightarrow> string svc" where
  "mintIDToken env cfg now priv g sv =
     signTenant env cfg now priv (resolveTenant cfg (dg_TenantID g)) (id_token_claims env cfg now g (sv_Store sv)) sv"

definition resource_app :: "Config \<Rightarrow> Store \<Rightarrow> App \<Rightarrow> string \<Rightarrow> App" where
  "resource_app cfg s app aud =
     (if aud \<noteq> cf_GraphResourceID cfg then
        (case GetAppByIDURI s aud of
           Inr byURI \<Rightarrow> byURI
         | Inl _ \<Rightarrow> (case GetApp s aud of Inr byID \<Rightarrow> byID | Inl _ \<Rightarrow> app))
      else app)"

definition scp_names :: "Config \<Rightarrow> DelegatedGrant \<Rightarrow> string \<Rightarrow> Store \<Rightarrow> string list" where
  "scp_names cfg g aud s =
     (let scpNames = scopeNamesOnly (dg_Scopes g) in
      case ConsentedScopes s (a_ID (dg_App g)) (a_ID (resource_app cfg s (dg_App g) aud)) (u_ID (dg_User g)) of
        (consented, has) \<Rightarrow> if has then filter (\<lambda>sc. sc \<in> consented) scpNames else scpNames)"

definition access_claims :: "Env \<Rightarrow> Config \<Rightarrow> int \<Rightarrow> DelegatedGrant \<Rightarrow> string \<Rightarrow> Store \<Rightarrow> claims" where
  "access_claims env cfg now g aud s =
     (let tid = resolveTenant cfg (dg_TenantID g); app = dg_App g; user = dg_User g;
          sec = fst (lifetimesFor env cfg s (a_ID app));
          c0 = [''iss'' \<mapsto> CStr (issuerForTenant cfg tid),
                ''sub'' \<mapsto> CStr (PairwiseSub env cfg (u_ID user) (a_ID app) tid),
                ''aud'' \<mapsto> CStr aud,
                ''iat'' \<mapsto> CInt now, ''nbf'' \<mapsto> CInt now, ''exp'' \<mapsto> CInt (i64_add now sec),
                ''tid'' \<mapsto> CStr tid, ''oid'' \<mapsto> CStr (u_ID user),
                ''azp'' \<mapsto> CStr (a_ID app), ''appid'' \<mapsto> CStr (a_ID app),
                ''scp'' \<mapsto> CStr (Join (scp_names cfg g aud s) '' ''),
                ''ver'' \<mapsto> CStr ''2.0'']
      in enrich env (applyTokenConfig env cfg s c0 (resource_app cfg s app aud) user ''accessToken'') app user ''accessToken'')"

definition mintAccessDelegated :: "Env \<Rightarrow> Config \<Rightarrow> int \<Rightarrow> string \<Rightarrow> DelegatedGrant \<Rightarrow> string \<Rightarrow> string svc" where
  "mintAccessDelegated env cfg now priv g aud sv =
     signTenant env cfg now priv (resolveTenant cfg (dg_TenantID g)) (access_claims env cfg now g aud (sv_Store sv)) sv"

record TokenResponse =
  tr_TokenType :: string
  tr_ExpiresIn :: int
  tr_ExtExpiresIn :: int
  tr_Scope :: string
  tr_AccessToken :: string
  tr_IDToken :: string
  tr_RefreshToken :: string
  tr_ClientInfo :: string

section \<open>Refresh tokens\<close>

record RefreshRequest =
  rr_AppID :: string
  rr_UserID :: string
  rr_Scopes :: "string list"
  rr_Resource :: string
  rr_RotatedFrom :: string
  rr_AMR :: string
  rr_AuthTime :: int
  rr_AuthCode :: string

definition IssueRefreshToken :: "Env \<Rightarrow> Config \<Rightarrow> int \<Rightarrow> string \<Rightarrow> RefreshRequest \<Rightarrow> Store \<Rightarrow> (svc_err + string) \<times> Store" where
  "IssueRefreshToken env cfg now plain r s =
     (let refreshSec = snd (snd (lifetimesFor env cfg s (rr_AppID r))) in
      case InsertRefreshToken \<lparr>rt_TokenHash = HashToken env plain, rt_AppID = rr_AppID r, rt_UserID = rr_UserID r,
             rt_Scopes = Join (rr_Scopes r) '' '', rt_Resource = rr_Resource r, rt_AMR = rr_AMR r,
             rt_AuthTime = rr_AuthTime r, rt_AuthCode = rr_AuthCode r, rt_ExpiresAt = i64_add now refreshSec,
             rt_RotatedFrom = rr_RotatedFrom r, rt_Revoked = False, rt_CreatedAt = now\<rparr> s of
        (Inl e, s1) \<Rightarrow> (Inl (StoreErr e), s1)
      | (Inr _, s1) \<Rightarrow> (Inr plain, s1))"

definition invalidGrant :: "string \<Rightarrow> svc_err" where
  "invalidGrant desc = RedeemErr ''invalid_grant'' desc"

record RedeemedRefresh =
  re_UserID :: string
  re_Resource :: string
  re_Scopes :: "string list"
  re_NewRefreshToken :: string
  re_AMR :: string
  re_AuthTime :: int

definition successor_token :: "Env \<Rightarrow> Config \<Rightarrow> int \<Rightarrow> string \<Rightarrow> string \<Rightarrow> RefreshToken \<Rightarrow> RefreshToken" where
  "successor_token env cfg now plain appID row =
     \<lparr>rt_TokenHash = HashToken env plain, rt_AppID = appID, rt_UserID = rt_UserID row,
      rt_Scopes = rt_Scopes row, rt_Resource = rt_Resource row, rt_AMR = rt_AMR row, rt_AuthTime = rt_AuthTime row,
      rt_AuthCode = rt_AuthCode row, rt_ExpiresAt = i64_add now (cf_RefreshToken cfg),
      rt_RotatedFrom = [], rt_Revoked = False, rt_CreatedAt = now\<rparr>"

definition reuse_detected :: svc_err where
  "reuse_detected = invalidGrant ''AADSTS70008: The refresh token was already rotated (reuse detected).''"

text \<open>The loop over the requested scopes reports the first one that was not granted.\<close>

definition stray_scope :: "string list \<Rightarrow> string list \<Rightarrow> string option" where
  "stray_scope granted requested = sql_first (\<lambda>sc. \<not> hasScope granted sc) requested"

definition RedeemRefreshToken ::
  "Env \<Rightarrow> Config \<Rightarrow> int \<Rightarrow> string \<Rightarrow> string \<Rightarrow> string \<Rightarrow> string list \<Rightarrow> Store \<Rightarrow> (svc_err + RedeemedRefresh) \<times> Store" where
  "RedeemRefreshToken env cfg now successorPlain plaintext appID requestedScopes s =
     (let hash = HashToken env plaintext in
      case GetRefreshTokenByHash s hash of
        Inl ErrNotFound \<Rightarrow> (Inl (invalidGrant ''AADSTS70008: The refresh token is invalid.''), s)
      | Inl e \<Rightarrow> (Inl (StoreErr e), s)
      | Inr row \<Rightarrow>
        if rt_Revoked row then (Inl reuse_detected, RevokeRefreshTokenFamily hash s)
        else if rt_AppID row \<noteq> appID
        then (Inl (invalidGrant ''AADSTS70008: The refresh token is bound to a different client.''), s)
        else if rt_ExpiresAt row \<le> now
        then (Inl (invalidGrant ''AADSTS70008: The refresh token has expired.''), s)
        else
          (let granted = Fields (rt_Scopes row) in
           case stray_scope granted requestedScopes of
             Some sc \<Rightarrow> (Inl (RedeemErr ''invalid_scope''
                (''AADSTS70011: Requested scope is not a subset of the original grant: '' @ sc)), s)
           | None \<Rightarrow>
             (let scopes = (if requestedScopes \<noteq> [] then requestedScopes else granted) in
              case RotateRefreshToken hash (successor_token env cfg now successorPlain appID row) s of
                (Inl e, s1) \<Rightarrow> (Inl (StoreErr e), s1)
              | (Inr False, s1) \<Rightarrow> (Inl reuse_detected, RevokeRefreshTokenFamily hash s1)
              | (Inr True, s1) \<Rightarrow>
                  (Inr \<lparr>re_UserID = rt_UserID row, re_Resource = rt_Resource row, re_Scopes = scopes,
                        re_NewRefreshToken = (if hasScope scopes ''offline_access'' then successorPlain else []),
                        re_AMR = rt_AMR row, re_AuthTime = rt_AuthTime row\<rparr>, s1))))"

section \<open>Authorization codes\<close>

record AuthCodeRequest =
  cr_AppID :: string
  cr_UserID :: string
  cr_RedirectURI :: string
  cr_Scopes :: "string list"
  cr_Resource :: string
  cr_CodeChallenge :: string
  cr_ChallengeMethod :: string
  cr_Nonce :: string
  cr_AMR :: string
  cr_AuthTime :: int
  cr_MaxAgeRequested :: bool

definition IssueAuthCode :: "Config \<Rightarrow> int \<Rightarrow> string \<Rightarrow> AuthCodeRequest \<Rightarrow> Store \<Rightarrow> (svc_err + string) \<times> Store" where
  "IssueAuthCode cfg now code r s =
     (case InsertAuthCode \<lparr>ac_Code = code, ac_AppID = cr_AppID r, ac_UserID = cr_UserID r,
             ac_RedirectURI = cr_RedirectURI r, ac_Scopes = Join (cr_Scopes r) '' '', ac_Resource = cr_Resource r,
             ac_CodeChallenge = cr_CodeChallenge r, ac_CodeChallengeMethod = cr_ChallengeMethod r, ac_Nonce = cr_Nonce r,
             ac_AMR = cr_AMR r, ac_AuthTime = cr_AuthTime r, ac_MaxAgeRequested = cr_MaxAgeRequested r,
             ac_ExpiresAt = i64_add now (cf_AuthCode cfg), ac_Consumed = False, ac_CreatedAt = now\<rparr> s of
        (Inl e, s1) \<Rightarrow> (Inl (StoreErr e), s1)
      | (Inr _, s1) \<Rightarrow> (Inr code, s1))"

definition verifyPKCE :: "Env \<Rightarrow> string \<Rightarrow> string \<Rightarrow> string \<Rightarrow> bool" where
  "verifyPKCE env challenge pkce_method verifier =
     (if pkce_method = ''plain'' then challenge = verifier
      else RawURLEncode (env_sha256 env verifier) = challenge)"

definition already_redeemed :: svc_err where
  "already_redeemed = invalidGrant ''AADSTS54005: The authorization code was already redeemed.''"

definition RedeemAuthCode ::
  "Env \<Rightarrow> int \<Rightarrow> string \<Rightarrow> string \<Rightarrow> string \<Rightarrow> string \<Rightarrow> Store \<Rightarrow> (svc_err + AuthCode) \<times> Store" where
  "RedeemAuthCode env now code appID redirectURI codeVerifier s =
     (case GetAuthCode s code of
        Inl ErrNotFound \<Rightarrow> (Inl (invalidGrant ''AADSTS70008: The provided authorization code is invalid.''), s)
      | Inl e \<Rightarrow> (Inl (StoreErr e), s)
      | Inr row \<Rightarrow>
        if ac_Consumed row then (Inl already_redeemed, snd (RevokeRefreshTokensForAuthCode code s))
        else if ac_ExpiresAt row \<le> now
        then (Inl (invalidGrant ''AADSTS70008: The provided authorization code has expired.''), s)
        else if ac_AppID row \<noteq> appID
        then (Inl (invalidGrant ''AADSTS70008: The code was issued to a different client.''), s)
        else if ac_RedirectURI row \<noteq> redirectURI
        then (Inl (invalidGrant ''AADSTS50011: The redirect URI does not match the authorization request.''), s)
        else if ac_CodeChallenge row \<noteq> [] \<and> codeVerifier = []
        then (Inl (invalidGrant ''AADSTS501481: code_verifier is required.''), s)
        else if ac_CodeChallenge row \<noteq> [] \<and> \<not> verifyPKCE env (ac_CodeChallenge row) (ac_CodeChallengeMethod row) codeVerifier
        then (Inl (invalidGrant ''AADSTS501481: The code_verifier does not match the code_challenge.''), s)
        else case ConsumeAuthCode code s of
          (ok, s1) \<Rightarrow> if ok then (Inr row, s1) else (Inl already_redeemed, s1))"

section \<open>Token responses\<close>

definition response_aud :: "Config \<Rightarrow> DelegatedGrant \<Rightarrow> string" where
  "response_aud cfg g = (if dg_Resource g = [] then cf_GraphResourceID cfg else dg_Resource g)"

definition BuildDelegatedResponse :: "Env \<Rightarrow> Config \<Rightarrow> int \<Rightarrow> string \<Rightarrow> string \<Rightarrow> DelegatedGrant \<Rightarrow> TokenResponse svc" where
  "BuildDelegatedResponse env cfg now priv plain g sv =
     (case mintAccessDelegated env cfg now priv g (response_aud cfg g) sv of
        (Inl e, sv1) \<Rightarrow> (Inl e, sv1)
      | (Inr access, sv1) \<Rightarrow>
        (let accessSec = fst (lifetimesFor env cfg (sv_Store sv1) (a_ID (dg_App g)));
             resp = \<lparr>tr_TokenType = ''Bearer'', tr_ExpiresIn = accessSec, tr_ExtExpiresIn = accessSec,
                     tr_Scope = Join (scopeEcho g) '' '', tr_AccessToken = access, tr_IDToken = [], tr_RefreshToken = [],
                     tr_ClientInfo = clientInfo env cfg (u_ID (dg_User g)) (dg_TenantID g)\<rparr> in
         case (if hasScope (dg_Scopes g) ''openid''
               then (case mintIDToken env cfg now priv g sv1 of
                       (Inl e, sv2) \<Rightarrow> (Inl e, sv2)
                     | (Inr idt, sv2) \<Rightarrow> (Inr (resp\<lparr>tr_IDToken := idt\<rparr>), sv2))
               else (Inr resp, sv1)) of
           (Inl e, sv2) \<Rightarrow> (Inl e, sv2)
         | (Inr resp2, sv2) \<Rightarrow>
           (if hasScope (dg_Scopes g) ''offline_access'' \<and> \<not> dg_SkipRefreshToken g
            then (case IssueRefreshToken env cfg now plain
                    \<lparr>rr_AppID = a_ID (dg_App g), rr_UserID = u_ID (dg_User g), rr_Scopes = dg_Scopes g,
                     rr_Resource = dg_Resource g, rr_RotatedFrom = [], rr_AMR = dg_AMR g,
                     rr_AuthTime = dg_AuthTime g, rr_AuthCode = dg_AuthCode g\<rparr> (sv_Store sv2) of
                    (Inl e, s3) \<Rightarrow> (Inl e, sv2\<lparr>sv_Store := s3\<rparr>)
                  | (Inr rt, s3) \<Rightarrow> (Inr (resp2\<lparr>tr_RefreshToken := rt\<rparr>), sv2\<lparr>sv_Store := s3\<rparr>))
            else (Inr resp2, sv2))))"

definition app_only_claims :: "Env \<Rightarrow> Config \<Rightarrow> int \<Rightarrow> App \<Rightarrow> string \<Rightarrow> string list \<Rightarrow> string \<Rightarrow> Store \<Rightarrow> claims" where
  "app_only_claims env cfg now app aud roles tid s =
     [''iss'' \<mapsto> CStr (issuerForTenant cfg tid), ''sub'' \<mapsto> CStr (a_ID app), ''aud'' \<mapsto> CStr aud,
      ''iat'' \<mapsto> CInt now, ''nbf'' \<mapsto> CInt now, ''exp'' \<mapsto> CInt (i64_add now (fst (lifetimesFor env cfg s (a_ID app)))),
      ''tid'' \<mapsto> CStr tid, ''azp'' \<mapsto> CStr (a_ID app), ''appid'' \<mapsto> CStr (a_ID app),
      ''roles'' \<mapsto> CStrs roles, ''ver'' \<mapsto> CStr ''2.0'']"

definition BuildAppOnlyResponse ::
  "Env \<Rightarrow> Config \<Rightarrow> int \<Rightarrow> string \<Rightarrow> App \<Rightarrow> string \<Rightarrow> string list \<Rightarrow> string \<Rightarrow> string \<Rightarrow> TokenResponse svc" where
  "BuildAppOnlyResponse env cfg now priv app aud roles echo tenantID sv =
     (let tid = resolveTenant cfg tenantID; sec = fst (lifetimesFor env cfg (sv_Store sv) (a_ID app)) in
      case signTenant env cfg now priv tid (app_only_claims env cfg now app aud roles tid (sv_Store sv)) sv of
        (Inl e, sv1) \<Rightarrow> (Inl e, sv1)
      | (Inr jwt, sv1) \<Rightarrow>
          (Inr \<lparr>tr_TokenType = ''Bearer'', tr_ExpiresIn = sec, tr_ExtExpiresIn = sec, tr_Scope = echo,
                tr_AccessToken = jwt, tr_IDToken = [], tr_RefreshToken = [], tr_ClientInfo = []\<rparr>, sv1))"

section \<open>Validating access tokens\<close>

record ValidatedToken =
  vt_Claims :: claims
  vt_OID :: string
  vt_Sub :: string
  vt_Scopes :: "string list"

definition str_claim :: "claims \<Rightarrow> string \<Rightarrow> string" where
  "str_claim c k = (case c k of Some (CStr v) \<Rightarrow> v | _ \<Rightarrow> [])"

text \<open>The truncation \<^verbatim>\<open>int64(f)\<close> is part of the decoded number, see \<open>cval\<close> in theory \<open>Jwt\<close>.\<close>

definition numClaim :: "claims \<Rightarrow> string \<Rightarrow> int option" where
  "numClaim c k = (case c k of Some (CInt n) \<Rightarrow> Some n | _ \<Rightarrow> None)"

definition clockSkewSeconds :: int where
  "clockSkewSeconds = 60"

definition check_claims :: "Config \<Rightarrow> int \<Rightarrow> string list \<Rightarrow> claims \<Rightarrow> svc_err + ValidatedToken" where
  "check_claims cfg now audiences c =
     (if str_claim c ''tid'' = [] \<or> str_claim c ''iss'' \<noteq> issuerForTenant cfg (str_claim c ''tid'')
      then Inl (Failed ''wrong issuer'')
      else if (case numClaim c ''exp'' of None \<Rightarrow> True | Some e \<Rightarrow> now > i64_add e clockSkewSeconds)
      then Inl (Failed ''token expired'')
      else if (case numClaim c ''nbf'' of None \<Rightarrow> False | Some n \<Rightarrow> now < i64_add n (- clockSkewSeconds))
      then Inl (Failed ''token not yet valid'')
      else if str_claim c ''aud'' \<notin> set audiences then Inl (Failed ''wrong audience'')
      else Inr \<lparr>vt_Claims = c, vt_OID = str_claim c ''oid'', vt_Sub = str_claim c ''sub'',
                vt_Scopes = (case c ''scp'' of Some (CStr scp) \<Rightarrow> Fields scp | _ \<Rightarrow> [])\<rparr>)"

definition ValidateAccessToken :: "Env \<Rightarrow> Config \<Rightarrow> int \<Rightarrow> Store \<Rightarrow> string \<Rightarrow> string list \<Rightarrow> svc_err + ValidatedToken" where
  "ValidateAccessToken env cfg now s bearer audiences =
     (case SplitChar bearer (CHR ''.'') of
        [h, p, sg] \<Rightarrow>
          (case RawURLDecode h of
             None \<Rightarrow> Inl (Failed ''malformed token header'')
           | Some headerRaw \<Rightarrow>
             (case env_header env headerRaw of
                None \<Rightarrow> Inl (Failed ''unsupported token algorithm'')
              | Some (alg, kid) \<Rightarrow>
                if alg \<noteq> ''RS256'' then Inl (Failed ''unsupported token algorithm'')
                else (case VerificationKey env s kid of
                   Inl e \<Rightarrow> Inl (Failed ''unknown signing key'')
                 | Inr pub \<Rightarrow>
                   (case VerifyRS256 env pub bearer of
                      Inl e \<Rightarrow> Inl e
                    | Inr c \<Rightarrow> check_claims cfg now audiences c))))
      | _ \<Rightarrow> Inl (Failed ''malformed token''))"

section \<open>Redeeming codes and refresh tokens\<close>

lemma ConsumeAuthCode_get:
  assumes "codes_ok s" and "GetAuthCode s code = Inr row" and "\<not> ac_Consumed row"
  shows "ConsumeAuthCode code s = (True, snd (ConsumeAuthCode code s))"
    "GetAuthCode (snd (ConsumeAuthCode code s)) code = Inr (row\<lparr>ac_Consumed := True\<rparr>)"
proof -
  have row: "sql_first (\<lambda>c. ac_Code c = code) (authorization_codes s) = Some row"
    using assms(2) by (simp add: GetAuthCode_def one_row_def split: option.splits)
  then have "code_live code s"
    using assms(3) sql_first_Some[OF row] by (auto simp: code_live_def)
  with ConsumeAuthCode_won[OF assms(1)] show "ConsumeAuthCode code s = (True, snd (ConsumeAuthCode code s))"
    by (metis prod.collapse)
  show "GetAuthCode (snd (ConsumeAuthCode code s)) code = Inr (row\<lparr>ac_Consumed := True\<rparr>)"
    using row assms(3) sql_first_Some[OF row]
    by (simp add: GetAuthCode_def ConsumeAuthCode_def sql_first_update one_row_def)
qed

definition pkce_ok :: "Env \<Rightarrow> AuthCode \<Rightarrow> string \<Rightarrow> bool" where
  "pkce_ok env row verifier \<longleftrightarrow> ac_CodeChallenge row = [] \<or>
     (verifier \<noteq> [] \<and> verifyPKCE env (ac_CodeChallenge row) (ac_CodeChallengeMethod row) verifier)"

lemma RedeemAuthCode_Inr_iff:
  assumes "codes_ok s"
  shows "RedeemAuthCode env now code appID uri verifier s = (Inr row, s') \<longleftrightarrow>
     GetAuthCode s code = Inr row \<and> \<not> ac_Consumed row \<and> now < ac_ExpiresAt row \<and> ac_AppID row = appID
     \<and> ac_RedirectURI row = uri \<and> pkce_ok env row verifier \<and> s' = snd (ConsumeAuthCode code s)"
proof (cases "GetAuthCode s code")
  case (Inl e)
  then show ?thesis by (cases e) (simp_all add: RedeemAuthCode_def)
next
  case (Inr r)
  show ?thesis
  proof (cases "ac_Consumed r")
    case True
    with Inr show ?thesis by (auto simp: RedeemAuthCode_def)
  next
    case False
    with ConsumeAuthCode_get[OF assms Inr] Inr show ?thesis
      by (auto simp: RedeemAuthCode_def pkce_ok_def not_le split: prod.splits if_splits)
  qed
qed

definition code_accepted :: "Env \<Rightarrow> int \<Rightarrow> string \<Rightarrow> string \<Rightarrow> string \<Rightarrow> string \<Rightarrow> Store \<Rightarrow> AuthCode \<Rightarrow> bool" where
  "code_accepted env now code appID uri verifier s row \<longleftrightarrow>
     GetAuthCode s code = Inr row \<and> \<not> ac_Consumed row \<and> now < ac_ExpiresAt row \<and> ac_AppID row = appID
     \<and> ac_RedirectURI row = uri \<and> pkce_ok env row verifier"

lemma RedeemAuthCode_refused:
  assumes "codes_ok s" and "RedeemAuthCode env now code appID uri verifier s = (Inl e, s')"
  shows "authorization_codes s' = authorization_codes s"
proof (cases "GetAuthCode s code")
  case (Inl e)
  with assms(2) show ?thesis by (cases e) (auto simp: RedeemAuthCode_def)
next
  case (Inr row)
  with assms(2) ConsumeAuthCode_get[OF assms(1) Inr] show ?thesis
    by (auto simp: RedeemAuthCode_def RevokeRefreshTokensForAuthCode_def revoke_where_def
        split: if_splits prod.splits)
qed

lemma RedeemAuthCode_replay:
  assumes "GetAuthCode s code = Inr row" and "ac_Consumed row"
  shows "RedeemAuthCode env now code appID uri verifier s
     = (Inl already_redeemed, snd (RevokeRefreshTokensForAuthCode code s))"
  using assms by (simp add: RedeemAuthCode_def)

section \<open>What minting touches\<close>

text \<open>Signing may create a tenant's first key; every other table is left alone.\<close>

definition keys_only :: "Store \<Rightarrow> Store \<Rightarrow> bool" where
  "keys_only s s' \<longleftrightarrow> (\<exists>ks. s' = s\<lparr>signing_keys := ks\<rparr>)"

lemma keys_only_upd [simp]: "keys_only s (s\<lparr>signing_keys := ks\<rparr>)"
  unfolding keys_only_def by blast

lemma keys_only_refl [simp]: "keys_only s s"
  using keys_only_upd[of s "signing_keys s"] by simp

lemma keys_only_trans: "keys_only s t \<Longrightarrow> keys_only t u \<Longrightarrow> keys_only s u"
  unfolding keys_only_def by (elim exE) (simp, blast)

lemma keys_onlyE:
  assumes "keys_only s s'"
  shows "authorization_codes s' = authorization_codes s" "refresh_tokens s' = refresh_tokens s"
    "sessions s' = sessions s" "device_codes s' = device_codes s" "users s' = users s"
    "app_registrations s' = app_registrations s" "has_user s' = has_user s" "has_app s' = has_app s"
proof -
  obtain ks where "s' = s\<lparr>signing_keys := ks\<rparr>" using assms unfolding keys_only_def by blast
  then show "authorization_codes s' = authorization_codes s" "refresh_tokens s' = refresh_tokens s"
    "sessions s' = sessions s" "device_codes s' = device_codes s" "users s' = users s"
    "app_registrations s' = app_registrations s" "has_user s' = has_user s" "has_app s' = has_app s"
    by (simp_all add: has_defs fun_eq_iff)
qed

lemma EnsureActiveKey_frame: "keys_only s (snd (EnsureActiveKey env priv now tid s))"
  by (simp add: EnsureActiveKey_def generateAndActivate_def InsertSigningKey_def
      split: prod.splits sum.splits option.splits)

lemma signTenant_frame:
  "keys_only (sv_Store sv) (sv_Store (snd (signTenant env cfg now priv tid c sv)))"
  using EnsureActiveKey_frame[of "sv_Store sv" env priv now tid]
  by (auto simp: signTenant_def signerForTenant_def split: prod.splits sum.splits option.splits)

lemma mint_frame:
  "keys_only (sv_Store sv) (sv_Store (snd (mintAccessDelegated env cfg now priv g aud sv)))"
  "keys_only (sv_Store sv) (sv_Store (snd (mintIDToken env cfg now priv g sv)))"
  by (simp_all add: mintAccessDelegated_def mintIDToken_def signTenant_frame)

text \<open>A delegated response stores at most one refresh token, fresh, at the head of its own chain.\<close>

lemma BuildDelegatedResponse_cases:
  assumes "BuildDelegatedResponse env cfg now priv plain g sv = (r, sv')"
  obtains (none) "keys_only (sv_Store sv) (sv_Store sv')" "\<And>resp. r = Inr resp \<Longrightarrow> tr_RefreshToken resp = []"
  | (stored) t u s1 where "keys_only (sv_Store sv) s1" "InsertRefreshToken t s1 = (u, sv_Store sv')"
      "rt_TokenHash t = HashToken env plain" "rt_RotatedFrom t = []" "rt_AuthCode t = dg_AuthCode g"
      "rt_AppID t = a_ID (dg_App g)" "rt_UserID t = u_ID (dg_User g)"
      "\<And>resp. r = Inr resp \<Longrightarrow> tr_RefreshToken resp = plain \<and> u = Inr ()" "\<not> dg_SkipRefreshToken g"
proof -
  obtain ra sv1 where ra: "mintAccessDelegated env cfg now priv g (response_aud cfg g) sv = (ra, sv1)" by fastforce
  obtain ri sv2 where ri: "mintIDToken env cfg now priv g sv1 = (ri, sv2)" by fastforce
  have k1: "keys_only (sv_Store sv) (sv_Store sv1)" using mint_frame(1)[of sv env cfg now priv g] ra by (metis snd_conv)
  have k2: "keys_only (sv_Store sv) (sv_Store sv2)"
    using mint_frame(2)[of sv1 env cfg now priv g] ri k1 keys_only_trans by (metis snd_conv)
  show thesis
  proof (cases ra)
    case (Inl e)
    with assms ra k1 show ?thesis by (intro none) (auto simp: BuildDelegatedResponse_def)
  next
    case (Inr access)
    show ?thesis
    proof (cases "hasScope (dg_Scopes g) ''openid'' \<and> isl ri")
      case True
      with assms ra ri Inr k2 show ?thesis by (intro none) (auto simp: BuildDelegatedResponse_def Let_def isl_def)
    next
      case minted: False
      define sv3 where "sv3 = (if hasScope (dg_Scopes g) ''openid'' then sv2 else sv1)"
      have k3: "keys_only (sv_Store sv) (sv_Store sv3)" using k1 k2 by (simp add: sv3_def)
      show ?thesis
      proof (cases "hasScope (dg_Scopes g) ''offline_access'' \<and> \<not> dg_SkipRefreshToken g")
        case False
        with assms ra ri Inr minted k3 show ?thesis
          by (intro none) (auto simp: BuildDelegatedResponse_def Let_def sv3_def isl_def split: if_splits sum.splits)
      next
        case True
        define t where "t = \<lparr>rt_TokenHash = HashToken env plain, rt_AppID = a_ID (dg_App g), rt_UserID = u_ID (dg_User g),
             rt_Scopes = Join (dg_Scopes g) '' '', rt_Resource = dg_Resource g, rt_AMR = dg_AMR g,
             rt_AuthTime = dg_AuthTime g, rt_AuthCode = dg_AuthCode g,
             rt_ExpiresAt = i64_add now (snd (snd (lifetimesFor env cfg (sv_Store sv3) (a_ID (dg_App g))))),
             rt_RotatedFrom = [], rt_Revoked = False, rt_CreatedAt = now\<rparr>"
        obtain u s4 where u: "InsertRefreshToken t (sv_Store sv3) = (u, s4)" by fastforce
        have "sv_Store sv' = s4 \<and> (\<forall>resp. r = Inr resp \<longrightarrow> tr_RefreshToken resp = plain \<and> u = Inr ())"
          using assms ra ri Inr minted True u
          by (cases u) (auto simp: BuildDelegatedResponse_def IssueRefreshToken_def Let_def sv3_def isl_def t_def
                split: if_splits sum.splits)
        with k3 u True show ?thesis by (intro stored[of "sv_Store sv3" t u]) (auto simp: t_def)
      qed
    qed
  qed
qed

section \<open>Redeeming a refresh token\<close>

lemma stray_scope_None: "stray_scope granted req = None \<longleftrightarrow> set req \<subseteq> set granted"
  by (auto simp: stray_scope_def sql_first_None hasScope_def)

lemma GetRefreshTokenByHash_row:
  "GetRefreshTokenByHash s h = Inr row \<Longrightarrow> row \<in> set (refresh_tokens s) \<and> rt_TokenHash row = h"
  by (auto simp: GetRefreshTokenByHash_def one_row_def split: option.splits dest: sql_first_Some)

lemma RedeemRefreshToken_cases:
  assumes "RedeemRefreshToken env cfg now succ plain appID req s = (r, s')" and "tokens_ok s"
  obtains (refused) e where "r = Inl e" "s' = s"
  | (reuse) row where "r = Inl reuse_detected" "GetRefreshTokenByHash s (HashToken env plain) = Inr row"
      "rt_Revoked row" "s' = RevokeRefreshTokenFamily (HashToken env plain) s"
  | (rotated) row re where "r = Inr re" "GetRefreshTokenByHash s (HashToken env plain) = Inr row" "\<not> rt_Revoked row"
      "rt_AppID row = appID" "now < rt_ExpiresAt row" "set req \<subseteq> set (Fields (rt_Scopes row))"
      "re = \<lparr>re_UserID = rt_UserID row, re_Resource = rt_Resource row,
             re_Scopes = (if req \<noteq> [] then req else Fields (rt_Scopes row)),
             re_NewRefreshToken = (if hasScope (if req \<noteq> [] then req else Fields (rt_Scopes row)) ''offline_access'' then succ else []),
             re_AMR = rt_AMR row, re_AuthTime = rt_AuthTime row\<rparr>"
      "RotateRefreshToken (HashToken env plain) (successor_token env cfg now succ appID row) s = (Inr True, s')"
proof (cases "GetRefreshTokenByHash s (HashToken env plain)")
  case (Inl e)
  with assms(1) show thesis by (cases e; intro refused) (auto simp: RedeemRefreshToken_def)
next
  case (Inr row)
  let ?h = "HashToken env plain" and ?t = "successor_token env cfg now succ appID row"
  show thesis
  proof (cases "rt_Revoked row")
    case True
    with Inr assms(1) show thesis by (intro reuse[of row]) (auto simp: RedeemRefreshToken_def)
  next
    case live: False
    show thesis
    proof (cases "rt_AppID row = appID \<and> now < rt_ExpiresAt row \<and> set req \<subseteq> set (Fields (rt_Scopes row))")
      case False
      with Inr live assms(1) have "isl r \<and> s' = s"
        by (cases "stray_scope (Fields (rt_Scopes row)) req")
           (auto simp: RedeemRefreshToken_def stray_scope_None not_le Let_def split: if_splits)
      then show thesis by (intro refused[of "projl r"]) auto
    next
      case True
      then have stray: "stray_scope (Fields (rt_Scopes row)) req = None" by (simp add: stray_scope_None)
      obtain q s1 where rot: "RotateRefreshToken ?h ?t s = (q, s1)" by fastforce
      show thesis
        using rot assms(2)
      proof (cases rule: RotateRefreshToken_cases)
        case lost
        with live GetRefreshTokenByHash_row[OF Inr] show thesis by blast
      next
        case (failed e)
        with True stray Inr live assms(1) rot show thesis
          by (intro refused) (auto simp: RedeemRefreshToken_def Let_def)
      next
        case (won x)
        with True stray Inr live assms(1) rot show thesis
          by (intro rotated[of _ row]) (auto simp: RedeemRefreshToken_def Let_def)
      qed
    qed
  qed
qed

lemma successor_same_grant: "rt_AppID row = appID \<Longrightarrow> same_grant row (successor_token env cfg now succ appID row)"
  by (simp add: same_grant_def successor_token_def)

text \<open>SHA-256 never yields the empty string, so neither does the token hash.\<close>

definition hash_law :: "Env \<Rightarrow> bool" where
  "hash_law env \<longleftrightarrow> (\<forall>x. env_sha256 env x \<noteq> [])"

lemma HashToken_nonempty [simp]: "hash_law env \<Longrightarrow> HashToken env x \<noteq> []"
  by (cases "env_sha256 env x") (simp_all add: HashToken_def hex_encode_def hash_law_def)

lemma chain_tokens_ok: "chain_ok (refresh_tokens s) \<Longrightarrow> tokens_ok s"
  by (simp add: chain_ok_def tokens_ok_def)

lemma RedeemRefreshToken_step:
  assumes "hash_law env" and "tokens_ok s"
  shows "token_step s (snd (RedeemRefreshToken env cfg now succ plain appID req s))"
proof -
  obtain r s' where red: "RedeemRefreshToken env cfg now succ plain appID req s = (r, s')" by fastforce
  show ?thesis
    using red assms(2)
  proof (cases rule: RedeemRefreshToken_cases)
    case (refused e)
    with red show ?thesis by (simp add: token_step.other)
  next
    case (reuse row)
    with red show ?thesis by (simp add: token_step.revoke_family)
  next
    case (rotated row re)
    with red show ?thesis
      using token_step.rotate[OF rotated(2) successor_same_grant[OF rotated(4)] _ rotated(8)] assms(1)
      by (simp add: successor_token_def)
  qed
qed

lemma RedeemAuthCode_step: "token_step s (snd (RedeemAuthCode env now code appID uri verifier s))"
proof -
  have "refresh_tokens (snd (ConsumeAuthCode code s)) = refresh_tokens s" by (simp add: ConsumeAuthCode_def)
  then show ?thesis
    by (cases "GetAuthCode s code")
       (auto simp: RedeemAuthCode_def ConsumeAuthCode_def split: store_err.split intro: token_step.other token_step.revoke_code)
qed

lemma BuildDelegatedResponse_steps:
  assumes "hash_law env"
  shows "token_step\<^sup>*\<^sup>* (sv_Store sv) (sv_Store (snd (BuildDelegatedResponse env cfg now priv plain g sv)))"
proof -
  obtain r sv' where b: "BuildDelegatedResponse env cfg now priv plain g sv = (r, sv')" by fastforce
  then show ?thesis
  proof (cases rule: BuildDelegatedResponse_cases)
    case none
    with b show ?thesis by (simp add: keys_onlyE token_step.other r_into_rtranclp)
  next
    case (stored t u s1)
    have "token_step (sv_Store sv) s1" using keys_onlyE(2)[OF stored(1)] by (rule token_step.other)
    moreover have "token_step s1 (sv_Store sv')"
      using stored assms by (intro token_step.issue[of t s1 u]) simp_all
    ultimately show ?thesis using b by simp
  qed
qed

lemma GetRefreshTokenByHash_revoke:
  "GetRefreshTokenByHash s h = Inr t \<Longrightarrow>
   GetRefreshTokenByHash (revoke_where P s) h = Inr (if P t then t\<lparr>rt_Revoked := True\<rparr> else t)"
  by (auto simp: GetRefreshTokenByHash_def revoke_where_def sql_first_update one_row_def split: option.splits)

lemma rotation_spends:
  assumes "tokens_ok s" and "RotateRefreshToken h t s = (Inr True, s')"
  shows "\<exists>x. GetRefreshTokenByHash s' h = Inr x \<and> rt_Revoked x"
    "GetRefreshTokenByHash s' (rt_TokenHash t) = Inr (t\<lparr>rt_RotatedFrom := h, rt_Revoked := False\<rparr>)" "tokens_ok s'"
proof -
  show ok': "tokens_ok s'" using RotateRefreshToken_ok[OF assms(1), of h t] assms(2) by simp
  then have d: "distinct (map rt_TokenHash (refresh_tokens s'))" by (simp add: tokens_ok_def)
  have "\<not> token_unspent h s'"
    using token_use.win_spends[OF assms(1), of "(h, t)"] assms(2) by (simp add: rotate_attempt_def)
  then show "\<exists>x. GetRefreshTokenByHash s' h = Inr x \<and> rt_Revoked x"
    using tokens.get_Inr_iff[OF d] by (auto simp: token_unspent_def)
  show "GetRefreshTokenByHash s' (rt_TokenHash t) = Inr (t\<lparr>rt_RotatedFrom := h, rt_Revoked := False\<rparr>)"
    using assms(2,1)
  proof (cases rule: RotateRefreshToken_cases)
    case (won x)
    have "t\<lparr>rt_RotatedFrom := h, rt_Revoked := False\<rparr> \<in> set (refresh_tokens s')" by (simp add: won(5))
    then show ?thesis by (simp add: tokens.get_Inr_iff[OF d])
  qed simp_all
qed

lemma InsertRefreshToken_codes: "authorization_codes (snd (InsertRefreshToken t s)) = authorization_codes s"
  by (simp add: InsertRefreshToken_def)

section \<open>A concrete environment\<close>

text \<open>
  A toy cryptographic environment for the witnesses: the digest prefixes a byte, a signature is the
  private key followed by the digest, a JWK is cut at its quotes, and every other JSON document holds the claims \<open>c\<close>.
\<close>

definition env0 :: "claims \<Rightarrow> Env" where
  "env0 c = \<lparr>env_sha256 = (\<lambda>x. CHR ''#'' # x), env_rsa_sign = (\<lambda>k d. Some (be_bytes (be_val k) @ d)),
     env_rsa_verify = (\<lambda>pub d sig. sig = be_bytes (pk_N pub) @ d), env_pss_verify = (\<lambda>pub d sig. False),
     env_public = (\<lambda>p. \<lparr>pk_N = be_val p, pk_E = 65537\<rparr>), env_pem_encode = (\<lambda>p. p), env_pem_decode = Some,
     env_marshal = (\<lambda>m. case m ''kid'' of Some (CStr k) \<Rightarrow> CHR ''H'' # k | _ \<Rightarrow> ''P''),
     env_unmarshal = (\<lambda>_. Some c),
     env_header = (\<lambda>raw. case raw of [] \<Rightarrow> None | h # kid \<Rightarrow> if h = CHR ''H'' then Some (''RS256'', kid) else None),
     env_jwk = (\<lambda>j. let parts = SplitChar j (CHR 0x22) in Some (parts ! 19, parts ! 23)),
     env_optional = (\<lambda>_. (([], []), True)), env_policy = (\<lambda>_. None), env_enrich = None,
     env_verify_secret = (\<lambda>p h. p = h)\<rparr>"

definition config0 :: Config where
  "config0 = \<lparr>cf_TenantID = ''t'', cf_Issuer = ''https://h/t/v2.0'', cf_Login = ''https://h'', cf_Graph = ''https://g'',
     cf_GraphResourceID = ''https://graph'', cf_RequirePassword = True, cf_RequireConsent = False, cf_AuthCode = 600,
     cf_IDToken = 3600, cf_AccessToken = 3600, cf_RefreshToken = 86400, cf_DeviceCode = 900, cf_DeviceInterval = 5,
     cf_ManagedIdentitySecret = [], cf_ManagedIdentityClientID = [], cf_GraphPermissions = True\<rparr>"

definition service0 :: Service where
  "service0 = \<lparr>sv_Store = store0, sv_Signer = \<lparr>sg_Kid = ''kid'', sg_PrivateKey = ''K''\<rparr>, sv_tenantSigners = (\<lambda>_. None)\<rparr>"

definition grant0 :: DelegatedGrant where
  "grant0 = \<lparr>dg_App = App.truncate app0, dg_User = user0, dg_Scopes = [''openid'', ''offline_access''], dg_Resource = [],
     dg_ScopeEcho = [], dg_Nonce = ''n'', dg_AMR = ''pwd'', dg_AuthTime = 5, dg_AuthCode = ''c'',
     dg_MaxAgeRequested = False, dg_TenantID = [], dg_SkipRefreshToken = False\<rparr>"

lemma hash_law_env0 [simp]: "hash_law (env0 c)"
  by (simp add: hash_law_def env0_def)

section \<open>Properties\<close>

text \<open>
  C1. \<^verbatim>\<open>RedeemAuthCode\<close> accepts a code exactly when its row is present, not consumed, not expired, was
  issued to this client for this redirect URI, and the verifier answers the stored PKCE challenge
  (when there is one); it then returns that row and marks it consumed. A refused redemption leaves
  every authorization code as it was.
\<close>

theorem auth_code_redemption_exact:
  assumes "codes_ok s" and "RedeemAuthCode env now code appID uri verifier s = (r, s')"
  shows "case r of
      Inr row \<Rightarrow> code_accepted env now code appID uri verifier s row
        \<and> GetAuthCode s' code = Inr (row\<lparr>ac_Consumed := True\<rparr>)
    | Inl _ \<Rightarrow> (\<forall>row. \<not> code_accepted env now code appID uri verifier s row)
        \<and> authorization_codes s' = authorization_codes s"
proof (cases r)
  case (Inl e)
  have "\<not> code_accepted env now code appID uri verifier s row" for row
    using RedeemAuthCode_Inr_iff[OF assms(1), of env now code appID uri verifier row] assms(2) Inl
    by (auto simp: code_accepted_def)
  with Inl RedeemAuthCode_refused[OF assms(1)] assms(2) show ?thesis by simp
next
  case (Inr row)
  with assms show ?thesis
    using RedeemAuthCode_Inr_iff[OF assms(1), of env now code appID uri verifier row s'] ConsumeAuthCode_get[OF assms(1)]
    by (simp add: code_accepted_def)
qed

theorem auth_code_redemption_exact_witness:
  "\<exists>s'. RedeemAuthCode (env0 Map.empty) 9 ''c'' ''app'' ''https://r'' ''v'' store0
     = (Inl (invalidGrant ''AADSTS501481: The code_verifier does not match the code_challenge.''), s')
     \<and> authorization_codes s' = authorization_codes store0"
proof -
  have ok: "codes_ok store0" by (simp add: codes_ok_def sample_defs)
  have r: "RedeemAuthCode (env0 Map.empty) 9 ''c'' ''app'' ''https://r'' ''v'' store0
     = (Inl (invalidGrant ''AADSTS501481: The code_verifier does not match the code_challenge.''), store0)"
    by (simp add: RedeemAuthCode_def GetAuthCode_def sql_defs sample_defs verifyPKCE_def env0_def)
  show ?thesis using auth_code_redemption_exact[OF ok r] r by simp
qed

text \<open>
  C3. Replaying a redeemed authorization code fails and revokes the refresh token its first
  exchange returned: after \<^verbatim>\<open>RedeemAuthCode\<close> and \<^verbatim>\<open>BuildDelegatedResponse\<close> for that code, any second
  \<^verbatim>\<open>RedeemAuthCode\<close> of it, whatever client, redirect URI, verifier and time it presents, is refused as
  already redeemed and leaves the issued token revoked.
\<close>

theorem code_replay_revokes_issued_token:
  assumes "codes_ok s" and "code \<noteq> []"
    and "RedeemAuthCode env now code appID uri verifier s = (Inr row, s1)"
    and "sv_Store sv = s1" and "dg_AuthCode g = code"
    and "BuildDelegatedResponse env cfg now priv plain g sv = (Inr resp, sv1)" and "tr_RefreshToken resp \<noteq> []"
    and "RedeemAuthCode env now2 code appID2 uri2 verifier2 (sv_Store sv1) = (r, s2)"
  shows "r = Inl already_redeemed
    \<and> (\<exists>t. GetRefreshTokenByHash s2 (HashToken env (tr_RefreshToken resp)) = Inr t \<and> rt_Revoked t)"
  using assms(6)
proof (cases rule: BuildDelegatedResponse_cases)
  case none
  with assms(7) show ?thesis by simp
next
  case (stored t u s3)
  have rt: "tr_RefreshToken resp = plain" and ins: "InsertRefreshToken t s3 = (Inr (), sv_Store sv1)"
    using stored(8,2) by simp_all
  have "GetAuthCode s1 code = Inr (row\<lparr>ac_Consumed := True\<rparr>)"
    using RedeemAuthCode_Inr_iff[OF assms(1)] assms(3) ConsumeAuthCode_get[OF assms(1)] by simp
  moreover have "authorization_codes (sv_Store sv1) = authorization_codes s1"
    using InsertRefreshToken_codes[of t s3] ins keys_onlyE(1)[OF stored(1)] assms(4) by simp
  ultimately have "GetAuthCode (sv_Store sv1) code = Inr (row\<lparr>ac_Consumed := True\<rparr>)"
    by (simp add: GetAuthCode_def)
  then have r: "r = Inl already_redeemed" "s2 = snd (RevokeRefreshTokensForAuthCode code (sv_Store sv1))"
    using RedeemAuthCode_replay assms(8) by fastforce+
  have "GetRefreshTokenByHash (sv_Store sv1) (HashToken env plain) = Inr (norm_token t)"
    using tokens.get_inserted[OF ins] stored(3) by simp
  from GetRefreshTokenByHash_revoke[OF this] show ?thesis
    using assms(2,5) stored(5) r rt by (simp add: RevokeRefreshTokensForAuthCode_def norm_token_def null_eq_def)
qed

lemma replay_samples:
  "RedeemAuthCode (env0 c) 9 ''c'' ''app'' ''https://r'' ''v'' (store0\<lparr>authorization_codes := [code0\<lparr>ac_CodeChallenge := ''''\<rparr>]\<rparr>)
     = (Inr (code0\<lparr>ac_CodeChallenge := ''''\<rparr>), store0\<lparr>authorization_codes := [code0\<lparr>ac_CodeChallenge := '''', ac_Consumed := True\<rparr>]\<rparr>)"
  by (simp add: RedeemAuthCode_def GetAuthCode_def ConsumeAuthCode_def sql_defs sample_defs)

theorem code_replay_revokes_issued_token_witness:
  "\<exists>resp sv1. BuildDelegatedResponse (env0 Map.empty) config0 9 ''K'' ''plain'' grant0
      (service0\<lparr>sv_Store := store0\<lparr>authorization_codes := [code0\<lparr>ac_CodeChallenge := '''', ac_Consumed := True\<rparr>]\<rparr>\<rparr>) = (Inr resp, sv1)
     \<and> fst (RedeemAuthCode (env0 Map.empty) 10 ''c'' ''x'' ''y'' ''z'' (sv_Store sv1)) = Inl already_redeemed"
proof -
  let ?sv = "service0\<lparr>sv_Store := store0\<lparr>authorization_codes := [code0\<lparr>ac_CodeChallenge := '''', ac_Consumed := True\<rparr>]\<rparr>\<rparr>"
  let ?b = "BuildDelegatedResponse (env0 Map.empty) config0 9 ''K'' ''plain'' grant0 ?sv"
  have "\<exists>resp. fst ?b = Inr resp \<and> tr_RefreshToken resp = ''plain''"
    by (simp add: BuildDelegatedResponse_def mintAccessDelegated_def mintIDToken_def signTenant_def signerForTenant_def
        resolveTenant_def config0_def grant0_def service0_def SignRS256_def env0_def hasScope_def IssueRefreshToken_def
        InsertRefreshToken_def HashToken_def hex_encode_def hex_char_def Let_def has_defs sample_defs App.defs)
  then obtain resp sv1 where b: "?b = (Inr resp, sv1)" and rt: "tr_RefreshToken resp \<noteq> []"
    by (metis list.discI prod.collapse)
  have ok: "codes_ok (store0\<lparr>authorization_codes := [code0\<lparr>ac_CodeChallenge := ''''\<rparr>]\<rparr>)" by (simp add: codes_ok_def)
  have "fst (RedeemAuthCode (env0 Map.empty) 10 ''c'' ''x'' ''y'' ''z'' (sv_Store sv1)) = Inl already_redeemed"
    using code_replay_revokes_issued_token[OF ok _ replay_samples _ _ b rt surjective_pairing]
    by (simp add: grant0_def)
  with b show ?thesis by blast
qed

text \<open>
  C4. Refresh-token reuse is detected: once a refresh token was redeemed, presenting it again, from
  any client and at any time, is refused and revokes its whole rotation family, the successor that
  the first redemption issued included.
\<close>

theorem refresh_reuse_revokes_family:
  assumes "tokens_ok s" and "RedeemRefreshToken env cfg now succ plain appID req s = (Inr re, s1)"
    and "RedeemRefreshToken env cfg now2 succ2 plain appID2 req2 s1 = (r, s2)"
    and "hash_law env"
  shows "r = Inl reuse_detected
    \<and> (\<forall>t \<in> set (refresh_tokens s2). rt_TokenHash t \<in> family (refresh_tokens s1) (HashToken env plain) \<longrightarrow> rt_Revoked t)
    \<and> (\<exists>t. GetRefreshTokenByHash s2 (HashToken env succ) = Inr t \<and> rt_Revoked t)"
  using assms(2,1)
proof (cases rule: RedeemRefreshToken_cases)
  case (rotated row re')
  let ?h = "HashToken env plain" and ?k = "HashToken env succ"
  note sp = rotation_spends[OF assms(1) rotated(8)]
  obtain x where x: "GetRefreshTokenByHash s1 ?h = Inr x" "rt_Revoked x" using sp(1) by blast
  have r: "r = Inl reuse_detected" "s2 = RevokeRefreshTokenFamily ?h s1"
    using assms(3) x by (simp_all add: RedeemRefreshToken_def)
  let ?t = "(successor_token env cfg now succ appID row)\<lparr>rt_RotatedFrom := ?h, rt_Revoked := False\<rparr>"
  have t: "GetRefreshTokenByHash s1 ?k = Inr ?t" using sp(2) by (simp add: successor_token_def)
  have "?h \<noteq> []" using assms(4) by simp
  then have "kin (refresh_tokens s1) ?h ?k"
    unfolding kin_def using GetRefreshTokenByHash_row[OF t] by (intro bexI[of _ ?t]) simp_all
  then have "?k \<in> family (refresh_tokens s1) ?h" by (simp add: family_def r_into_rtranclp)
  then show ?thesis
    using GetRefreshTokenByHash_revoke[OF t] GetRefreshTokenByHash_row[OF t] r RevokeRefreshTokenFamily_rows[OF sp(3)]
    by (auto simp: revoke_where_def ball_sql_update)
qed simp_all

definition offline_store :: Store where
  "offline_store = store0\<lparr>refresh_tokens := [token0\<lparr>rt_TokenHash := HashToken (env0 Map.empty) ''rt''\<rparr>]\<rparr>"

lemma RedeemRefreshToken_offline:
  "\<exists>re. fst (RedeemRefreshToken (env0 Map.empty) config0 9 ''rt2'' ''rt'' ''app'' [] offline_store) = Inr re"
  by (simp add: RedeemRefreshToken_def offline_store_def GetRefreshTokenByHash_def sql_defs sample_defs
      stray_scope_def RotateRefreshToken_def tx_def InsertRefreshToken_def revoke_where_def has_defs
      successor_token_def HashToken_def hex_encode_inj env0_def Let_def)

theorem refresh_reuse_revokes_family_witness:
  "fst (RedeemRefreshToken (env0 Map.empty) config0 20 ''rt3'' ''rt'' ''app'' []
     (snd (RedeemRefreshToken (env0 Map.empty) config0 9 ''rt2'' ''rt'' ''app'' [] offline_store))) = Inl reuse_detected"
proof -
  obtain re where "fst (RedeemRefreshToken (env0 Map.empty) config0 9 ''rt2'' ''rt'' ''app'' [] offline_store) = Inr re"
    using RedeemRefreshToken_offline by blast
  then have first: "RedeemRefreshToken (env0 Map.empty) config0 9 ''rt2'' ''rt'' ''app'' [] offline_store
      = (Inr re, snd (RedeemRefreshToken (env0 Map.empty) config0 9 ''rt2'' ''rt'' ''app'' [] offline_store))"
    by (metis prod.collapse)
  have "tokens_ok offline_store" by (simp add: tokens_ok_def offline_store_def)
  from refresh_reuse_revokes_family[OF this first surjective_pairing hash_law_env0] show ?thesis by blast
qed

text \<open>
  The token service keeps rotation chains well formed: redeeming codes, redeeming refresh
  tokens and building token responses, with whatever arguments, preserve that hashes are unique,
  that a token has at most one successor, and that the predecessor a token names is revoked and
  belongs to the same client, user and authorization code.
\<close>

theorem service_keeps_chains:
  assumes "hash_law env" and "chain_ok (refresh_tokens (sv_Store sv))"
  shows "chain_ok (refresh_tokens (sv_Store (snd (BuildDelegatedResponse env cfg now priv plain g sv))))
    \<and> chain_ok (refresh_tokens (snd (RedeemRefreshToken env cfg now succ rt appID req (sv_Store sv))))
    \<and> chain_ok (refresh_tokens (snd (RedeemAuthCode env now code appID uri verifier (sv_Store sv))))"
  using token_steps_chain_ok[OF BuildDelegatedResponse_steps[OF assms(1)] assms(2)]
    token_step_chain_ok[OF RedeemRefreshToken_step[OF assms(1) chain_tokens_ok[OF assms(2)]] assms(2)]
    token_step_chain_ok[OF RedeemAuthCode_step assms(2)]
  by blast

theorem service_keeps_chains_witness:
  "chain_ok (refresh_tokens (snd (RedeemRefreshToken (env0 Map.empty) config0 9 ''rt2'' ''rt'' ''app'' [] offline_store)))"
proof -
  have "chain_ok (refresh_tokens (sv_Store (service0\<lparr>sv_Store := offline_store\<rparr>)))"
    by (simp add: chain_ok_def offline_store_def sample_defs HashToken_def hex_encode_def env0_def)
  from service_keeps_chains[OF hash_law_env0 this] show ?thesis by simp
qed

end
