(* ===== verification/Minting.thy ===== *)
theory Minting
  imports TokenService
begin

text \<open>
  What minted tokens carry and that the service accepts what it minted: which claims an optional-claim
  configuration or a claims enricher can touch, the round trip from \<^verbatim>\<open>mintAccessDelegated\<close> to
  \<^verbatim>\<open>ValidateAccessToken\<close>, and the life of the signing keys under \<^verbatim>\<open>Rotate\<close>.
\<close>

section \<open>Protected claims\<close>

definition config_claims :: "string set" where
  "config_claims = {''given_name'', ''family_name'', ''upn'', ''ipaddr'', ''groups'', ''_claim_names'', ''_claim_sources'', ''wids''}"

lemma apply_entries_frame:
  "k \<notin> config_claims \<Longrightarrow> fst (apply_entries user kind es acc) k = fst acc k"
  by (induction user kind es acc rule: apply_entries.induct) (auto simp: config_claims_def split: if_splits)

lemma add_wids_frame: "k \<notin> config_claims \<Longrightarrow> add_wids s app user c k = c k"
  by (auto simp: add_wids_def config_claims_def Let_def)

lemma applyTokenConfig_frame:
  assumes "k \<notin> config_claims"
  shows "applyTokenConfig env cfg s c app user kind k = c k"
  using apply_entries_frame[OF assms, of user kind "optional_entries env app kind" "(c, False)"] assms
  by (auto simp: applyTokenConfig_def add_wids_frame Let_def config_claims_def split: prod.splits)

lemma enrich_frame: "k \<in> set protectedClaims \<Longrightarrow> enrich env c app user kind k = c k"
  by (simp add: enrich_def split: option.splits)

lemma protected_not_config: "set protectedClaims \<inter> config_claims = {}"
  by (simp add: protectedClaims_def config_claims_def)

lemma protected_frame:
  assumes "k \<in> set protectedClaims"
  shows "enrich env (applyTokenConfig env cfg s c app user kind) app' user' kind' k = c k"
proof -
  have "k \<notin> config_claims" using assms protected_not_config by blast
  then show ?thesis using assms by (simp add: enrich_frame applyTokenConfig_frame)
qed

lemma access_claims_values:
  "access_claims env cfg now g aud s ''iss'' = Some (CStr (issuerForTenant cfg (resolveTenant cfg (dg_TenantID g))))"
  "access_claims env cfg now g aud s ''sub'' = Some (CStr (PairwiseSub env cfg (u_ID (dg_User g)) (a_ID (dg_App g)) (resolveTenant cfg (dg_TenantID g))))"
  "access_claims env cfg now g aud s ''aud'' = Some (CStr aud)"
  "access_claims env cfg now g aud s ''nbf'' = Some (CInt now)"
  "access_claims env cfg now g aud s ''exp'' = Some (CInt (i64_add now (fst (lifetimesFor env cfg s (a_ID (dg_App g))))))"
  "access_claims env cfg now g aud s ''tid'' = Some (CStr (resolveTenant cfg (dg_TenantID g)))"
  "access_claims env cfg now g aud s ''oid'' = Some (CStr (u_ID (dg_User g)))"
  "access_claims env cfg now g aud s ''azp'' = Some (CStr (a_ID (dg_App g)))"
  "access_claims env cfg now g aud s ''appid'' = Some (CStr (a_ID (dg_App g)))"
  "access_claims env cfg now g aud s ''scp'' = Some (CStr (Join (scp_names cfg g aud s) '' ''))"
  by (simp_all add: access_claims_def Let_def protected_frame protectedClaims_def)

section \<open>Signers and keys\<close>

text \<open>The laws of the cryptographic environment: RSA verifies what it signed, PEM and the two JSON
  documents (JOSE header, JWK) decode to what was encoded.\<close>

definition crypto_laws :: "Env \<Rightarrow> bool" where
  "crypto_laws env \<longleftrightarrow>
     (\<forall>p d sig. env_rsa_sign env p d = Some sig \<longrightarrow> env_rsa_verify env (env_public env p) d sig)
     \<and> (\<forall>p. env_pem_decode env (env_pem_encode env p) = Some p)
     \<and> (\<forall>kid. env_header env (env_marshal env (jws_header kid)) = Some (''RS256'', kid))
     \<and> (\<forall>p. jwk_law env (env_public env p) \<and> 0 \<le> pk_E (env_public env p) \<and> is_int64 (pk_E (env_public env p)))"

definition key_row_ok :: "Env \<Rightarrow> SigningKey \<Rightarrow> bool" where
  "key_row_ok env k \<longleftrightarrow> (\<exists>p. env_pem_decode env (k_PrivatePKCS8 k) = Some p
     \<and> k_PublicJWK k = snd (publicJWKFor env (env_public env p)))"

text \<open>A signer whose key verification finds: a row under its key id holds its public key. That the row is active, of the
  home tenant or in the published set is stated apart where a property needs it.\<close>

definition signer_ok :: "Env \<Rightarrow> Store \<Rightarrow> Signer \<Rightarrow> bool" where
  "signer_ok env s sg \<longleftrightarrow> (\<exists>k. GetSigningKey s (sg_Kid sg) = Inr k
     \<and> k_PublicJWK k = snd (publicJWKFor env (env_public env (sg_PrivateKey sg))))"

definition keys_ok :: "Env \<Rightarrow> Store \<Rightarrow> bool" where
  "keys_ok env s \<longleftrightarrow> (\<forall>k \<in> set (signing_keys s). key_row_ok env k) \<and> distinct (map k_Kid (signing_keys s))"

definition service_ok :: "Env \<Rightarrow> Service \<Rightarrow> bool" where
  "service_ok env sv \<longleftrightarrow> keys_ok env (sv_Store sv) \<and> signer_ok env (sv_Store sv) (sv_Signer sv)
     \<and> (\<forall>tid sg. sv_tenantSigners sv tid = Some sg \<longrightarrow> signer_ok env (sv_Store sv) sg)"

lemma signer_ok_verifies:
  assumes "crypto_laws env" and "signer_ok env s sg"
  shows "VerificationKey env s (sg_Kid sg) = Inr (env_public env (sg_PrivateKey sg))"
  using assms VerificationKey_generated[of env "env_public env (sg_PrivateKey sg)" s "sg_Kid sg"]
  by (auto simp: crypto_laws_def signer_ok_def)

lemma signer_ok_insert:
  assumes "InsertSigningKey k s = (Inr (), s')" and "signer_ok env s sg"
  shows "signer_ok env s' sg"
  using assms(2) keys.get_kept[OF assms(1)] by (auto simp: signer_ok_def)

text \<open>Generating or loading a key keeps the key table well formed, yields a signer it can verify, and
  does not disturb the signers already handed out.\<close>

lemma generateAndActivate_ok:
  assumes "crypto_laws env" and "keys_ok env s" and "generateAndActivate env priv now tid s = (Inr sg, s')"
  shows "keys_ok env s' \<and> signer_ok env s' sg \<and> (\<forall>sg'. signer_ok env s sg' \<longrightarrow> signer_ok env s' sg')"
proof -
  obtain kid jwk where pj: "publicJWKFor env (env_public env priv) = (kid, jwk)" by fastforce
  let ?k = "\<lparr>k_Kid = kid, k_TenantID = tid, k_Alg = ''RS256'', k_PublicJWK = jwk,
      k_PrivatePKCS8 = env_pem_encode env priv, k_IsActive = True, k_CreatedAt = now, k_NotAfter = Some 0\<rparr>"
  from assms(3) pj have ins: "InsertSigningKey ?k s = (Inr (), s')"
    by (auto simp: generateAndActivate_def split: prod.splits sum.splits)
  have "key_row_ok env (norm_key ?k)"
    using assms(1) pj by (auto simp: key_row_ok_def norm_key_def crypto_laws_def)
  moreover have "signing_keys s' = signing_keys s @ [norm_key ?k]" using keys.ins_ok[OF ins] by blast
  ultimately have "keys_ok env s'"
    using assms(2) keys.ins_distinct[OF ins] by (auto simp: keys_ok_def)
  moreover have "signer_ok env s' sg" using generateAndActivate_Inr[OF assms(3)] by (auto simp: signer_ok_def)
  ultimately show ?thesis using signer_ok_insert[OF ins] by blast
qed

lemma EnsureActiveKey_ok:
  assumes "crypto_laws env" and "keys_ok env s" and "EnsureActiveKey env priv now tid s = (Inr sg, s')"
  shows "keys_ok env s' \<and> signer_ok env s' sg \<and> (\<forall>sg'. signer_ok env s sg' \<longrightarrow> signer_ok env s' sg')"
proof (cases "GetActiveSigningKey s tid")
  case (Inl e)
  with assms(3) have "generateAndActivate env priv now tid s = (Inr sg, s')"
    by (auto simp: EnsureActiveKey_def split: if_splits)
  with generateAndActivate_ok[OF assms(1,2)] show ?thesis by blast
next
  case (Inr k)
  then have k: "k \<in> set (signing_keys s)"
    by (auto simp: GetActiveSigningKey_def one_row_def split: option.splits dest: sql_first_Some)
  have sg: "s' = s" "sg_Kid sg = k_Kid k" "env_pem_decode env (k_PrivatePKCS8 k) = Some (sg_PrivateKey sg)"
    using assms(3) Inr by (auto simp: EnsureActiveKey_def split: option.splits)
  have "GetSigningKey s (k_Kid k) = Inr k"
    using k assms(2) keys.get_Inr_iff by (auto simp: keys_ok_def)
  with sg k assms(2) show ?thesis by (auto simp: keys_ok_def signer_ok_def key_row_ok_def)
qed

text \<open>A service started on a well-formed key table is well formed.\<close>

lemma service_start:
  assumes "crypto_laws env" and "keys_ok env s" and "EnsureActiveKey env priv now tid s = (Inr sg, s')"
  shows "service_ok env \<lparr>sv_Store = s', sv_Signer = sg, sv_tenantSigners = (\<lambda>_. None)\<rparr>"
  using EnsureActiveKey_ok[OF assms] by (simp add: service_ok_def)

lemma signTenant_ok:
  assumes "crypto_laws env" and "service_ok env sv" and "signTenant env cfg now priv tid c sv = (Inr jwt, sv')"
  shows "service_ok env sv'"
    "\<exists>sg. signer_ok env (sv_Store sv') sg \<and> SignRS256 env (sg_PrivateKey sg) (sg_Kid sg) c = Inr jwt"
proof -
  from assms(3) obtain sg where sg: "signerForTenant env cfg now priv tid sv = (Inr sg, sv')"
    "SignRS256 env (sg_PrivateKey sg) (sg_Kid sg) c = Inr jwt"
    by (auto simp: signTenant_def split: prod.splits sum.splits)
  have "service_ok env sv' \<and> signer_ok env (sv_Store sv') sg"
  proof (cases "tid = cf_TenantID cfg \<or> sv_tenantSigners sv tid \<noteq> None")
    case True
    with sg(1) assms(2) show ?thesis by (auto simp: signerForTenant_def service_ok_def split: if_splits)
  next
    case False
    then obtain s1 where "EnsureActiveKey env priv now tid (sv_Store sv) = (Inr sg, s1)"
      "sv' = sv\<lparr>sv_Store := s1, sv_tenantSigners := (sv_tenantSigners sv)(tid \<mapsto> sg)\<rparr>"
      using sg(1) by (auto simp: signerForTenant_def split: prod.splits sum.splits)
    with EnsureActiveKey_ok[OF assms(1), of "sv_Store sv"] assms(2) show ?thesis by (auto simp: service_ok_def)
  qed
  with sg(2) show "service_ok env sv'"
    "\<exists>sg. signer_ok env (sv_Store sv') sg \<and> SignRS256 env (sg_PrivateKey sg) (sg_Kid sg) c = Inr jwt" by blast+
qed

section \<open>Validation\<close>

lemma signed_token_validation:
  assumes "crypto_laws env" and "signer_ok env s sg" and "SignRS256 env (sg_PrivateKey sg) (sg_Kid sg) c = Inr jwt"
    and "env_unmarshal env (env_marshal env c) = Some c"
  shows "ValidateAccessToken env cfg now s jwt auds = check_claims cfg now auds c"
proof -
  have rsa: "\<And>d sig. env_rsa_sign env (sg_PrivateKey sg) d = Some sig \<Longrightarrow> env_rsa_verify env (env_public env (sg_PrivateKey sg)) d sig"
    and hdr: "env_header env (env_marshal env (jws_header (sg_Kid sg))) = Some (''RS256'', sg_Kid sg)"
    using assms(1) by (auto simp: crypto_laws_def)
  note v = VerifyRS256_SignRS256[OF assms(3) rsa assms(4)]
  from v(3) obtain p sig where "SplitChar jwt (CHR ''.'') = [RawURLEncode (env_marshal env (jws_header (sg_Kid sg))), p, sig]"
    by blast
  then show ?thesis
    using v(1) hdr signer_ok_verifies[OF assms(1,2)] by (simp add: ValidateAccessToken_def)
qed

lemma check_claims_Inr_iff:
  "check_claims cfg now auds c = Inr vt \<longleftrightarrow>
     str_claim c ''tid'' \<noteq> [] \<and> str_claim c ''iss'' = issuerForTenant cfg (str_claim c ''tid'')
     \<and> (\<exists>e. numClaim c ''exp'' = Some e \<and> now \<le> i64_add e clockSkewSeconds)
     \<and> (\<forall>n. numClaim c ''nbf'' = Some n \<longrightarrow> i64_add n (- clockSkewSeconds) \<le> now)
     \<and> str_claim c ''aud'' \<in> set auds
     \<and> vt = \<lparr>vt_Claims = c, vt_OID = str_claim c ''oid'', vt_Sub = str_claim c ''sub'',
              vt_Scopes = (case c ''scp'' of Some (CStr scp) \<Rightarrow> Fields scp | _ \<Rightarrow> [])\<rparr>"
  by (auto simp: check_claims_def not_le not_less split: option.splits)

lemma ValidateAccessToken_InrE:
  assumes "ValidateAccessToken env cfg now s bearer auds = Inr vt"
  obtains h p sig raw kid pub where "SplitChar bearer (CHR ''.'') = [h, p, sig]" "RawURLDecode h = Some raw"
    "env_header env raw = Some (''RS256'', kid)" "VerificationKey env s kid = Inr pub"
    "VerifyRS256 env pub bearer = Inr (vt_Claims vt)" "check_claims cfg now auds (vt_Claims vt) = Inr vt"
proof -
  obtain h p sig where split: "SplitChar bearer (CHR ''.'') = [h, p, sig]"
    using assms by (auto simp: ValidateAccessToken_def split: list.splits)
  obtain raw where raw: "RawURLDecode h = Some raw"
    using assms split by (auto simp: ValidateAccessToken_def split: option.splits)
  obtain kid where kid: "env_header env raw = Some (''RS256'', kid)"
    using assms split raw by (auto simp: ValidateAccessToken_def split: option.splits if_splits)
  obtain pub where pub: "VerificationKey env s kid = Inr pub"
    using assms split raw kid by (auto simp: ValidateAccessToken_def split: sum.splits)
  obtain c where c: "VerifyRS256 env pub bearer = Inr c" "check_claims cfg now auds c = Inr vt"
    using assms split raw kid pub by (auto simp: ValidateAccessToken_def split: sum.splits)
  then have "vt_Claims vt = c" by (simp add: check_claims_Inr_iff)
  with c split raw kid pub that show thesis by blast
qed

section \<open>Key rotation\<close>

lemma GetSigningKey_demote:
  "GetSigningKey (DemoteActiveSigningKeys tid e s) kid =
     map_sum (\<lambda>x. x) (\<lambda>k. if k_TenantID k = tid \<and> k_IsActive k then k\<lparr>k_IsActive := False, k_NotAfter := Some e\<rparr> else k)
       (GetSigningKey s kid)"
  by (simp add: GetSigningKey_def DemoteActiveSigningKeys_def sql_first_update one_row_def split: option.splits)

lemma signer_ok_demote: "signer_ok env s sg \<Longrightarrow> signer_ok env (DemoteActiveSigningKeys tid e s) sg"
  by (auto simp: signer_ok_def GetSigningKey_demote)

lemma VerificationKey_demote: "VerificationKey env (DemoteActiveSigningKeys tid e s) kid = VerificationKey env s kid"
  by (cases "GetSigningKey s kid") (simp_all add: VerificationKey_def GetSigningKey_demote)

lemma VerificationKey_insert:
  assumes "InsertSigningKey k s = (Inr (), s')" and "VerificationKey env s kid = Inr pub"
  shows "VerificationKey env s' kid = Inr pub"
  using assms(2) keys.get_kept[OF assms(1), of kid] by (cases "GetSigningKey s kid") (auto simp: VerificationKey_def)

lemma demote_keys:
  "map k_Kid (signing_keys (DemoteActiveSigningKeys tid e s)) = map k_Kid (signing_keys s)"
  "(\<forall>k \<in> set (signing_keys (DemoteActiveSigningKeys tid e s)). key_row_ok env k) \<longleftrightarrow> (\<forall>k \<in> set (signing_keys s). key_row_ok env k)"
  by (simp add: DemoteActiveSigningKeys_def) (auto simp: DemoteActiveSigningKeys_def ball_sql_update key_row_ok_def)

lemma service_ok_demote:
  "service_ok env sv \<Longrightarrow> service_ok env (sv\<lparr>sv_Store := DemoteActiveSigningKeys tid e (sv_Store sv)\<rparr>)"
  by (auto simp: service_ok_def keys_ok_def signer_ok_demote demote_keys)

lemma Rotate_InrE:
  assumes "Rotate env cfg now priv grace sv = (Inr kid, sv')"
  obtains sg s2 where "generateAndActivate env priv now (cf_TenantID cfg)
       (DemoteActiveSigningKeys (cf_TenantID cfg) (i64_add now grace) (sv_Store sv)) = (Inr sg, s2)"
    "kid = sg_Kid sg" "sv' = sv\<lparr>sv_Store := s2, sv_Signer := sg\<rparr>"
  using assms by (auto simp: Rotate_def Let_def split: prod.splits sum.splits)

lemma generated_rows:
  assumes "generateAndActivate env priv now tid s = (Inr sg, s')"
  obtains k where "InsertSigningKey k s = (Inr (), s')" "signing_keys s' = signing_keys s @ [norm_key k]"
    "k_Kid k = sg_Kid sg" "k_TenantID k = tid" "k_IsActive k"
proof -
  obtain kid jwk where pj: "publicJWKFor env (env_public env priv) = (kid, jwk)" by fastforce
  let ?k = "\<lparr>k_Kid = kid, k_TenantID = tid, k_Alg = ''RS256'', k_PublicJWK = jwk,
      k_PrivatePKCS8 = env_pem_encode env priv, k_IsActive = True, k_CreatedAt = now, k_NotAfter = Some 0\<rparr>"
  from assms pj have ins: "InsertSigningKey ?k s = (Inr (), s')" and "sg_Kid sg = kid"
    by (auto simp: generateAndActivate_def split: prod.splits sum.splits)
  then show thesis using keys.ins_ok[OF ins] that[of ?k] by simp
qed

section \<open>Properties\<close>

text \<open>
  No optional-claim configuration and no claims enricher can change what identifies an access
  token: issuer, subject, audience, times, tenant, user, client and scopes are those of the grant.
\<close>

theorem access_token_identity:
  "map (access_claims env cfg now g aud s) [''iss'', ''sub'', ''aud'', ''iat'', ''nbf'', ''exp'', ''tid'', ''oid'', ''azp'', ''appid'', ''scp'', ''ver'']
   = map Some
      (let tid = resolveTenant cfg (dg_TenantID g); app = a_ID (dg_App g); user = u_ID (dg_User g) in
       [CStr (issuerForTenant cfg tid), CStr (PairwiseSub env cfg user app tid), CStr aud, CInt now, CInt now,
        CInt (i64_add now (fst (lifetimesFor env cfg s app))), CStr tid, CStr user, CStr app, CStr app,
        CStr (Join (scp_names cfg g aud s) '' ''), CStr ''2.0''])"
  by (simp add: access_claims_def Let_def protected_frame protectedClaims_def)

text \<open>
  The same for an ID token: whatever the app's optional claims and the enricher say, its issuer,
  audience, subject, times, tenant, user, names and nonce are those of the grant, and there is a nonce
  only if the client sent one.
\<close>

theorem id_token_identity:
  "map (id_token_claims env cfg now g s) [''iss'', ''sub'', ''aud'', ''iat'', ''nbf'', ''exp'', ''tid'', ''oid'', ''name'', ''preferred_username'', ''ver'']
   = map Some
      (let tid = resolveTenant cfg (dg_TenantID g); app = a_ID (dg_App g); user = dg_User g in
       [CStr (issuerForTenant cfg tid), CStr (PairwiseSub env cfg (u_ID user) app tid), CStr app, CInt now, CInt now,
        CInt (i64_add now (fst (snd (lifetimesFor env cfg s app)))), CStr tid, CStr (u_ID user),
        CStr (u_DisplayName user), CStr (u_UserPrincipalName user), CStr ''2.0''])
   \<and> id_token_claims env cfg now g s ''nonce'' = (if dg_Nonce g = [] then None else Some (CStr (dg_Nonce g)))"
  by (simp add: id_token_claims_def Let_def protected_frame protectedClaims_def set_if_def)

text \<open>
  The \<^verbatim>\<open>scp\<close> claim never exceeds consent: it names a requested scope, and when any delegated grant
  exists between the client and the resource, only scopes that an applicable grant (for all
  principals or for this user) lists.
\<close>

theorem scp_within_consent:
  "sc \<in> set (scp_names cfg g aud s) \<longleftrightarrow>
     sc \<in> set (scopeNamesOnly (dg_Scopes g)) \<and>
     (let client = a_ID (dg_App g); resource = a_ID (resource_app cfg s (dg_App g) aud);
          grants = filter (\<lambda>r. og_ClientID r = client \<and> og_ResourceID r = resource) (oauth2_permission_grants s) in
      grants = [] \<or> list_ex (\<lambda>r. grant_applies (u_ID (dg_User g)) r \<and> sc \<in> set (Fields (og_Scope r))) grants)"
proof -
  let ?c = "a_ID (dg_App g)" and ?r = "a_ID (resource_app cfg s (dg_App g) aud)" and ?u = "u_ID (dg_User g)"
  let ?gs = "filter (\<lambda>x. og_ClientID x = ?c \<and> og_ResourceID x = ?r) (oauth2_permission_grants s)"
  obtain consented has where cs: "ConsentedScopes s ?c ?r ?u = (consented, has)" by fastforce
  have has: "has \<longleftrightarrow> ?gs \<noteq> []"
    using ConsentedScopes_iff(2)[of s ?c ?r ?u] cs by (simp add: filter_empty_conv)
  have con: "sc \<in> consented \<longleftrightarrow> list_ex (\<lambda>x. grant_applies ?u x \<and> sc \<in> set (Fields (og_Scope x))) ?gs"
    using ConsentedScopes_iff(1)[of sc s ?c ?r ?u] cs by (auto simp: list_ex_iff)
  show ?thesis
    unfolding scp_names_def Let_def cs prod.case con[symmetric] using has by simp
qed

text \<open>
  C7. What the service mints, the service accepts: under the laws of RSA, PEM and JSON, an access
  token minted in a well-formed service validates against the resulting store for its audience
  throughout its lifetime and the clock skew, and yields the user and the scopes it was minted for.
  Minting keeps the service well formed.
\<close>

theorem minted_access_token_validates:
  assumes "crypto_laws env" and "service_ok env sv"
    and "mintAccessDelegated env cfg now priv g aud sv = (Inr jwt, sv')"
    and "env_unmarshal env (env_marshal env (access_claims env cfg now g aud (sv_Store sv)))
           = Some (access_claims env cfg now g aud (sv_Store sv))"
    and "resolveTenant cfg (dg_TenantID g) \<noteq> []" and "aud \<in> set auds"
    and "sec = fst (lifetimesFor env cfg (sv_Store sv) (a_ID (dg_App g)))" and "0 \<le> sec"
    and "is_int64 (now - 60)" and "is_int64 (now + sec + 60)" and "now - 60 \<le> now2" and "now2 \<le> now + sec + 60"
    and "list_all is_word (scp_names cfg g aud (sv_Store sv))"
  shows "service_ok env sv' \<and> (\<exists>vt. ValidateAccessToken env cfg now2 (sv_Store sv') jwt auds = Inr vt
    \<and> vt_OID vt = u_ID (dg_User g) \<and> vt_Scopes vt = scp_names cfg g aud (sv_Store sv))"
proof -
  let ?c = "access_claims env cfg now g aud (sv_Store sv)"
  note signed = signTenant_ok[OF assms(1,2) assms(3)[unfolded mintAccessDelegated_def]]
  obtain sg where sg: "signer_ok env (sv_Store sv') sg" "SignRS256 env (sg_PrivateKey sg) (sg_Kid sg) ?c = Inr jwt"
    using signed(2) by blast
  have "is_int64 (now + sec)" using assms(8-10) by (simp add: is_int64_def)
  then have time: "i64_add (i64_add now sec) 60 = now + sec + 60" "i64_add now (-60) = now - 60"
    using assms(9,10) by (simp_all add: i64_add_id)
  have "\<exists>vt. check_claims cfg now2 auds ?c = Inr vt \<and> vt_OID vt = u_ID (dg_User g)
        \<and> vt_Scopes vt = scp_names cfg g aud (sv_Store sv)"
    using assms(5,6,11-13) time
    by (simp add: check_claims_Inr_iff str_claim_def numClaim_def access_claims_values clockSkewSeconds_def
        flip: assms(7))
  then show ?thesis
    using signed_token_validation[OF assms(1) sg assms(4)] signed(1) by simp
qed

lemma crypto_laws_env0: "crypto_laws (env0 c)"
proof -
  have "jwk_law (env0 c) pub" for pub
    by (simp add: jwk_law_def publicJWKFor_def Let_def env0_def json_obj_def jstr_def SplitChar_append SplitChar_none)
  then show ?thesis
    by (auto simp: crypto_laws_def is_int64_def jws_header_def) (auto simp: env0_def)
qed

definition service1 :: "claims \<Rightarrow> Service" where
  "service1 c = (case EnsureActiveKey (env0 c) ''K'' 1 ''t'' store0 of
     (r, s) \<Rightarrow> \<lparr>sv_Store = s, sv_Signer = projr r, sv_tenantSigners = (\<lambda>_. None)\<rparr>)"

lemma service1_ok: "service_ok (env0 c) (service1 c)"
proof -
  have "\<exists>sg. fst (EnsureActiveKey (env0 c) ''K'' 1 ''t'' store0) = Inr sg"
    by (simp add: EnsureActiveKey_def GetActiveSigningKey_def generateAndActivate_def InsertSigningKey_def sql_defs
        sample_defs has_defs split: prod.splits)
  then obtain sg s' where e: "EnsureActiveKey (env0 c) ''K'' 1 ''t'' store0 = (Inr sg, s')"
    by (metis prod.collapse)
  have "keys_ok (env0 c) store0" by (simp add: keys_ok_def sample_defs)
  from service_start[OF crypto_laws_env0 this e] show ?thesis by (simp add: service1_def e)
qed

lemma service1_frame: "keys_only store0 (sv_Store (service1 c))"
  using EnsureActiveKey_frame[of store0 "env0 c" "''K''" 1 "''t''"] by (simp add: service1_def case_prod_beta)

definition claims1 :: claims where
  "claims1 = [''iss'' \<mapsto> CStr ''https://h/t/v2.0'', ''sub'' \<mapsto> CStr (RawURLEncode ''#u|app|t''), ''aud'' \<mapsto> CStr ''https://graph'',
     ''iat'' \<mapsto> CInt 9, ''nbf'' \<mapsto> CInt 9, ''exp'' \<mapsto> CInt 3609, ''tid'' \<mapsto> CStr ''t'', ''oid'' \<mapsto> CStr ''u'',
     ''azp'' \<mapsto> CStr ''app'', ''appid'' \<mapsto> CStr ''app'', ''scp'' \<mapsto> CStr ''openid'', ''ver'' \<mapsto> CStr ''2.0'']"

lemma lifetimes_sample: "lifetimesFor (env0 c) config0 (store0\<lparr>signing_keys := ks\<rparr>) ''app'' = (3600, 3600, 86400)"
  by (simp add: lifetimesFor_def EffectiveTokenLifetimes_def AppTokenLifetimePolicies_def ListTokenLifetimePolicies_def
      no_lifetimes_def Let_def sql_defs sample_defs config0_def)

lemma scp_sample: "scp_names config0 grant0 ''https://graph'' (store0\<lparr>signing_keys := ks\<rparr>) = [''openid'']"
  by (simp add: scp_names_def scopeNamesOnly_def is_oidc_def ConsentedScopes_def grant0_def resource_app_def config0_def
      sample_defs)

lemma grant0_sel [simp]: "a_ID (dg_App grant0) = ''app''" "u_ID (dg_User grant0) = ''u''" "dg_TenantID grant0 = []"
  "a_OptionalClaims (dg_App grant0) = []" "a_GroupMembershipClaims (dg_App grant0) = ''None''"
  by (simp_all add: grant0_def sample_defs App.defs)

lemma config0_sel [simp]: "resolveTenant config0 [] = ''t''" "resolveTenant config0 ''t'' = ''t''"
  "issuerForTenant config0 ''t'' = ''https://h/t/v2.0''" "cf_GraphResourceID config0 = ''https://graph''"
  by (simp_all add: resolveTenant_def issuerForTenant_def config0_def)

lemma env0_unmarshal [simp]: "env_unmarshal (env0 c) x = Some c"
  by (simp add: env0_def)

lemma claims_sample: "access_claims (env0 c) config0 9 grant0 ''https://graph'' (store0\<lparr>signing_keys := ks\<rparr>) = claims1"
proof -
  have "enrich (env0 c) x a u kind = x" for x a u kind by (simp add: enrich_def env0_def)
  moreover have "applyTokenConfig (env0 c) config0 s x (dg_App grant0) u kind = x" for s x u kind
    by (simp add: applyTokenConfig_def optional_entries_def add_wids_def)
  moreover have "PairwiseSub (env0 c) config0 ''u'' ''app'' ''t'' = RawURLEncode ''#u|app|t''"
    by (simp add: PairwiseSub_def env0_def)
  moreover have "i64_add 9 3600 = 3609" by (simp add: i64_add_id is_int64_def)
  ultimately show ?thesis
    by (simp add: access_claims_def resource_app_def scp_sample lifetimes_sample claims1_def Let_def)
qed

theorem minted_access_token_validates_witness:
  "\<exists>jwt sv' vt. mintAccessDelegated (env0 claims1) config0 9 ''K'' grant0 ''https://graph'' (service1 claims1) = (Inr jwt, sv')
     \<and> ValidateAccessToken (env0 claims1) config0 3000 (sv_Store sv') jwt [''https://graph''] = Inr vt \<and> vt_OID vt = ''u''"
proof -
  obtain ks where st: "sv_Store (service1 claims1) = store0\<lparr>signing_keys := ks\<rparr>"
    using service1_frame by (auto simp: keys_only_def)
  have "\<exists>jwt. fst (mintAccessDelegated (env0 claims1) config0 9 ''K'' grant0 ''https://graph'' (service1 claims1)) = Inr jwt"
    by (simp add: mintAccessDelegated_def signTenant_def signerForTenant_def SignRS256_def Let_def config0_def env0_def
        resolveTenant_def)
  then obtain jwt sv' where m: "mintAccessDelegated (env0 claims1) config0 9 ''K'' grant0 ''https://graph'' (service1 claims1) = (Inr jwt, sv')"
    by (metis prod.collapse)
  have "\<exists>vt. ValidateAccessToken (env0 claims1) config0 3000 (sv_Store sv') jwt [''https://graph''] = Inr vt \<and> vt_OID vt = ''u''"
    using minted_access_token_validates[OF crypto_laws_env0 service1_ok m, of "[''https://graph'']" 3600 3000]
    by (simp add: st claims_sample scp_sample lifetimes_sample is_int64_def is_word_def is_space_def) blast
  with m show ?thesis by blast
qed

text \<open>
  C8. An access token is accepted only if it is genuine: three parts, an RS256 header naming a key
  the store holds, a signature that this key verifies over exactly the presented header and payload,
  an issuer that is the one of its tenant, an expiry that is present and not past by more than the
  clock skew, and an audience the caller asked for.
\<close>

theorem validated_token_is_genuine:
  assumes "ValidateAccessToken env cfg now s bearer auds = Inr vt"
  shows "\<exists>h p sig raw kid pub e. SplitChar bearer (CHR ''.'') = [h, p, sig] \<and> RawURLDecode h = Some raw
    \<and> env_header env raw = Some (''RS256'', kid) \<and> VerificationKey env s kid = Inr pub
    \<and> (\<exists>sb. RawURLDecode sig = Some sb \<and> env_rsa_verify env pub (env_sha256 env (h @ ''.'' @ p)) sb)
    \<and> decode_payload env p = Inr (vt_Claims vt)
    \<and> str_claim (vt_Claims vt) ''iss'' = issuerForTenant cfg (str_claim (vt_Claims vt) ''tid'')
    \<and> numClaim (vt_Claims vt) ''exp'' = Some e \<and> now \<le> i64_add e 60
    \<and> str_claim (vt_Claims vt) ''aud'' \<in> set auds"
  using assms
proof (cases rule: ValidateAccessToken_InrE)
  case (1 h p sig raw kid pub)
  then have "\<exists>sb. RawURLDecode sig = Some sb \<and> env_rsa_verify env pub (env_sha256 env (h @ ''.'' @ p)) sb"
    "decode_payload env p = Inr (vt_Claims vt)"
    by (auto simp: VerifyRS256_def split: option.splits if_splits)
  with 1 show ?thesis by (auto simp: check_claims_Inr_iff clockSkewSeconds_def)
qed

theorem validated_token_is_genuine_witness:
  "\<exists>jwt vt. ValidateAccessToken (env0 claims1) config0 10 (sv_Store (service1 claims1)) jwt [''https://graph''] = Inr vt
     \<and> numClaim (vt_Claims vt) ''exp'' = Some 3609 \<and> str_claim (vt_Claims vt) ''aud'' \<in> {''https://graph''}"
proof -
  let ?sg = "sv_Signer (service1 claims1)"
  obtain jwt where j: "SignRS256 (env0 claims1) (sg_PrivateKey ?sg) (sg_Kid ?sg) claims1 = Inr jwt"
    by (simp add: SignRS256_def env0_def)
  have "signer_ok (env0 claims1) (sv_Store (service1 claims1)) ?sg" using service1_ok by (simp add: service_ok_def)
  then have "ValidateAccessToken (env0 claims1) config0 10 (sv_Store (service1 claims1)) jwt [''https://graph'']
      = check_claims config0 10 [''https://graph''] claims1"
    by (rule signed_token_validation[OF crypto_laws_env0 _ j]) (simp add: env0_def)
  then obtain vt where vt: "ValidateAccessToken (env0 claims1) config0 10 (sv_Store (service1 claims1)) jwt [''https://graph''] = Inr vt"
    "vt_Claims vt = claims1"
    by (simp add: check_claims_def str_claim_def numClaim_def claims1_def clockSkewSeconds_def i64_add_def wrap64_def)
  have "str_claim (vt_Claims vt) ''aud'' \<in> {''https://graph''}"
    using validated_token_is_genuine[OF vt(1)] by auto
  moreover have "numClaim claims1 ''exp'' = Some 3609" by (simp add: claims1_def numClaim_def)
  ultimately show ?thesis using vt by metis
qed

text \<open>
  C20. Key rotation is seamless: after \<^verbatim>\<open>Rotate\<close> the home tenant has exactly one active key, the one
  whose id is returned and which now signs; every key that was active before stays in the published
  JWKS until the grace period ends; every key that verified tokens before still does; and the service
  stays well formed.
\<close>

theorem rotation_is_seamless:
  assumes "crypto_laws env" and "service_ok env sv" and "Rotate env cfg now priv grace sv = (Inr kid, sv')"
    and "now2 < i64_add now grace"
  shows "map k_Kid (filter (\<lambda>k. k_TenantID k = cf_TenantID cfg \<and> k_IsActive k) (signing_keys (sv_Store sv'))) = [kid]
    \<and> ActiveKid sv' = kid \<and> service_ok env sv'
    \<and> (\<forall>k \<in> set (signing_keys (sv_Store sv)). k_TenantID k = cf_TenantID cfg \<and> k_IsActive k \<longrightarrow>
         k_PublicJWK k \<in> k_PublicJWK ` set (ListPublishableKeys (sv_Store sv') (cf_TenantID cfg) now2))
    \<and> (\<forall>i pub. VerificationKey env (sv_Store sv) i = Inr pub \<longrightarrow> VerificationKey env (sv_Store sv') i = Inr pub)"
  using assms(3)
proof (cases rule: Rotate_InrE)
  case (1 sg s2)
  let ?tid = "cf_TenantID cfg" and ?e = "i64_add now grace"
  let ?s1 = "DemoteActiveSigningKeys ?tid ?e (sv_Store sv)"
  obtain k where k: "InsertSigningKey k ?s1 = (Inr (), s2)" "signing_keys s2 = signing_keys ?s1 @ [norm_key k]"
    "k_Kid k = sg_Kid sg" "k_TenantID k = ?tid" "k_IsActive k"
    using 1(1) by (rule generated_rows)
  have none: "filter (\<lambda>k. k_TenantID k = ?tid \<and> k_IsActive k) (signing_keys ?s1) = []"
    by (auto simp: DemoteActiveSigningKeys_def set_sql_update filter_empty_conv)
  have new: "k_TenantID (norm_key k) = ?tid" "k_IsActive (norm_key k)" "k_Kid (norm_key k) = kid"
    using k 1(2) by (simp_all add: norm_key_def)
  have one: "map k_Kid (filter (\<lambda>k. k_TenantID k = ?tid \<and> k_IsActive k) (signing_keys (sv_Store sv'))) = [kid]"
    using none new by (simp add: k(2) 1(3))
  have "service_ok env (sv\<lparr>sv_Store := ?s1\<rparr>)" using assms(2) by (rule service_ok_demote)
  then have ok: "service_ok env sv'"
    using generateAndActivate_ok[OF assms(1) _ 1(1)] by (auto simp: service_ok_def 1(3))
  have pub: "k_PublicJWK x \<in> k_PublicJWK ` set (ListPublishableKeys (sv_Store sv') ?tid now2)"
    if "x \<in> set (signing_keys (sv_Store sv))" "k_TenantID x = ?tid \<and> k_IsActive x" for x
  proof -
    let ?x = "x\<lparr>k_IsActive := False, k_NotAfter := Some ?e\<rparr>"
    have "?x \<in> set (signing_keys ?s1)"
      unfolding DemoteActiveSigningKeys_def by (simp add: set_sql_update) (rule disjI1, rule imageI, simp add: that)
    then have "?x \<in> set (ListPublishableKeys (sv_Store sv') ?tid now2)"
      using that(2) assms(4) by (simp add: ListPublishableKeys_def publishable_def 1(3) k(2))
    then show ?thesis by (rule rev_image_eqI) simp
  qed
  have ver: "VerificationKey env (sv_Store sv') i = Inr p" if "VerificationKey env (sv_Store sv) i = Inr p" for i p
    using VerificationKey_insert[OF k(1), of env i p] that by (simp add: VerificationKey_demote 1(3))
  from one ok pub ver show ?thesis by (simp add: ActiveKid_def 1)
qed

theorem rotation_is_seamless_witness:
  "\<exists>kid sv'. Rotate (env0 claims1) config0 50 ''L'' 3600 (service1 claims1) = (Inr kid, sv') \<and> ActiveKid sv' = kid"
proof -
  have "k_Kid k = fst (publicJWKFor (env0 claims1) (env_public (env0 claims1) ''K''))"
    if "k \<in> set (signing_keys (sv_Store (service1 claims1)))" for k
    using that by (auto simp: service1_def EnsureActiveKey_def GetActiveSigningKey_def generateAndActivate_def
        InsertSigningKey_def sql_defs sample_defs has_defs norm_key_def split: prod.splits)
  moreover have "fst (publicJWKFor (env0 claims1) (env_public (env0 claims1) ''K''))
      \<noteq> fst (publicJWKFor (env0 claims1) (env_public (env0 claims1) ''L''))"
    by (simp add: publicJWKFor_def Let_def RawURLEncode_inj env0_def json_obj_def jstr_def be_val_def be_bytes.simps b64_char_def)
  moreover obtain ks where "sv_Store (service1 claims1) = store0\<lparr>signing_keys := ks\<rparr>"
    using service1_frame by (auto simp: keys_only_def)
  ultimately have "\<exists>kid. fst (Rotate (env0 claims1) config0 50 ''L'' 3600 (service1 claims1)) = Inr kid"
    by (auto simp: Rotate_def DemoteActiveSigningKeys_def generateAndActivate_def InsertSigningKey_def Let_def
        list_ex_iff set_sql_update has_defs sample_defs config0_def split: prod.splits)
  then obtain kid sv' where r: "Rotate (env0 claims1) config0 50 ''L'' 3600 (service1 claims1) = (Inr kid, sv')"
    by (metis prod.collapse)
  have "ActiveKid sv' = kid"
    using rotation_is_seamless[OF crypto_laws_env0 service1_ok r, of 100] by (simp add: i64_add_def wrap64_def)
  with r show ?thesis by blast
qed

end
