(* ===== verification/Scopes.thy ===== *)
theory Scopes
  imports Apps Samples
begin

text \<open>
  \<^verbatim>\<open>internal/identity/scopes.go\<close> with the resource tables of \<^verbatim>\<open>azure.go\<close>, \<^verbatim>\<open>fabric.go\<close> and
  \<^verbatim>\<open>databricks.go\<close>: which delegated scopes a request may carry, under which short names they are
  granted and for which audience. The loop over the scopes is shown equal to a specification that
  classifies every scope on its own (\<open>scope_target\<close>).
\<close>

section \<open>Well-known resources\<close>

definition oidcScopes :: "string list" where
  "oidcScopes = [''openid'', ''profile'', ''email'', ''offline_access'']"

definition knownGraphScopes :: "string list" where
  "knownGraphScopes = [''User.Read'', ''User.ReadBasic.All'', ''User.Read.All'', ''Group.Read.All'']"

definition fabricResource :: string where
  "fabricResource = ''https://api.fabric.microsoft.com''"

definition powerBIResource :: string where
  "powerBIResource = ''https://analysis.windows.net/powerbi/api''"

definition fabricFirstPartyAppID :: string where
  "fabricFirstPartyAppID = ''00000009-0000-0000-c000-000000000000''"

definition knownFabricScopes :: "string list" where
  "knownFabricScopes = [''Fabric.Embed'', ''Item.Read.All'']"

definition fabricAud :: "string \<Rightarrow> string" where
  "fabricAud resource =
     (if resource = fabricResource \<or> resource = fabricFirstPartyAppID then fabricResource
      else if resource = powerBIResource then powerBIResource else [])"

definition databricksFirstPartyAppID :: string where
  "databricksFirstPartyAppID = ''2ff814a6-3304-4ab8-85cb-cd0e6f879c1d''"

definition databricksAud :: "string \<Rightarrow> string" where
  "databricksAud resource = (if resource = databricksFirstPartyAppID then databricksFirstPartyAppID else [])"

definition knownAzureResources :: "(string \<times> string) list" where
  "knownAzureResources =
     [(''https://vault.azure.net'', ''https://vault.azure.net''),
      (''https://storage.azure.com'', ''https://storage.azure.com''),
      (''https://management.azure.com'', ''https://management.azure.com''),
      (''https://management.core.windows.net'', ''https://management.azure.com''),
      (''https://cognitiveservices.azure.com'', ''https://cognitiveservices.azure.com'')]"

definition azureAud :: "string \<Rightarrow> string" where
  "azureAud resource =
     (case map_of knownAzureResources resource of
        Some aud \<Rightarrow> aud
      | None \<Rightarrow>
        (let trimmed = TrimSuffix resource ''/'' in
         if trimmed \<noteq> resource then
           (case map_of knownAzureResources trimmed of Some aud \<Rightarrow> aud @ ''/'' | None \<Rightarrow> [])
         else []))"

definition azureDelegatedResource :: "string \<Rightarrow> string" where
  "azureDelegatedResource scope =
     (let idx = LastIndex scope (CHR ''/'') in
      if idx \<le> 0 then []
      else let resource = slice_to scope idx in if azureAud resource \<noteq> [] then resource else [])"

section \<open>Resolution\<close>

record ResolvedScopes =
  rs_Granted :: "string list"
  rs_Resource :: string
  rs_Requested :: "string list"

definition SplitScopes :: "string \<Rightarrow> string list" where
  "SplitScopes raw = Fields raw"

definition setResource :: "string \<Rightarrow> ResolvedScopes \<Rightarrow> ResolvedScopes option" where
  "setResource resource r =
     (if rs_Resource r \<noteq> [] \<and> rs_Resource r \<noteq> resource then None else Some (r\<lparr>rs_Resource := resource\<rparr>))"

definition findResourceApp :: "Store \<Rightarrow> string \<Rightarrow> App option" where
  "findResourceApp s resource =
     (case GetAppByIDURI s resource of
        Inr app \<Rightarrow> Some app
      | Inl _ \<Rightarrow> (case GetApp s resource of Inr app \<Rightarrow> Some app | Inl _ \<Rightarrow> None))"

definition appExposesScope :: "Store \<Rightarrow> App \<Rightarrow> string \<Rightarrow> bool" where
  "appExposesScope s app name \<longleftrightarrow> list_ex (\<lambda>sc. sc_Value sc = name \<and> sc_IsEnabled sc) (ListScopes s (a_ID app))"

definition grant_name :: "string \<Rightarrow> ResolvedScopes \<Rightarrow> ResolvedScopes" where
  "grant_name n r = r\<lparr>rs_Granted := rs_Granted r @ [n]\<rparr>"

text \<open>One turn of the loop; \<open>gid\<close> is \<^verbatim>\<open>Cfg.GraphResourceID\<close>.\<close>

definition resolve_one :: "string \<Rightarrow> Store \<Rightarrow> string \<Rightarrow> ResolvedScopes \<Rightarrow> ResolvedScopes option" where
  "resolve_one gid s sc out =
     (if sc \<in> set oidcScopes then Some (grant_name sc out)
      else if HasPrefix sc (gid @ ''/'') then Some (grant_name (TrimPrefix sc (gid @ ''/'')) out)
      else if sc \<in> set knownGraphScopes then Some (grant_name sc out)
      else if HasPrefix sc (fabricResource @ ''/'') then
        map_option (grant_name (TrimPrefix sc (fabricResource @ ''/''))) (setResource fabricResource out)
      else if sc \<in> set knownFabricScopes then map_option (grant_name sc) (setResource fabricResource out)
      else if azureDelegatedResource sc \<noteq> [] then
        map_option (grant_name (slice_from sc (LastIndex sc (CHR ''/'') + 1)))
          (setResource (azureAud (azureDelegatedResource sc)) out)
      else if CHR ''/'' \<in> set sc then
        (let idx = LastIndex sc (CHR ''/''); resource = slice_to sc idx; name = slice_from sc (idx + 1) in
         case findResourceApp s resource of
           None \<Rightarrow> None
         | Some app \<Rightarrow>
             if \<not> appExposesScope s app name then None
             else map_option (grant_name name) (setResource resource out))
      else Some (grant_name sc out))"

fun resolve_loop :: "string \<Rightarrow> Store \<Rightarrow> string list \<Rightarrow> ResolvedScopes \<Rightarrow> ResolvedScopes option" where
  "resolve_loop gid s [] out = Some out"
| "resolve_loop gid s (sc # rest) out =
     (case resolve_one gid s sc out of None \<Rightarrow> None | Some out' \<Rightarrow> resolve_loop gid s rest out')"

definition ResolveDelegatedScopes :: "string \<Rightarrow> Store \<Rightarrow> string list \<Rightarrow> ResolvedScopes option" where
  "ResolveDelegatedScopes gid s scopes =
     resolve_loop gid s scopes \<lparr>rs_Granted = [], rs_Resource = [], rs_Requested = scopes\<rparr>"

section \<open>Specification\<close>

text \<open>What a scope means on its own: the name it is granted under and the resource it is for (empty
  for the default, Microsoft Graph); nothing when it does not name a registered, enabled scope.\<close>

definition scope_target :: "string \<Rightarrow> Store \<Rightarrow> string \<Rightarrow> (string \<times> string) option" where
  "scope_target gid s sc =
     (if sc \<in> set oidcScopes then Some (sc, [])
      else if HasPrefix sc (gid @ ''/'') then Some (TrimPrefix sc (gid @ ''/''), [])
      else if sc \<in> set knownGraphScopes then Some (sc, [])
      else if HasPrefix sc (fabricResource @ ''/'') then Some (TrimPrefix sc (fabricResource @ ''/''), fabricResource)
      else if sc \<in> set knownFabricScopes then Some (sc, fabricResource)
      else if azureDelegatedResource sc \<noteq> [] then
        Some (slice_from sc (LastIndex sc (CHR ''/'') + 1), azureAud (azureDelegatedResource sc))
      else if CHR ''/'' \<in> set sc then
        (let idx = LastIndex sc (CHR ''/''); resource = slice_to sc idx; name = slice_from sc (idx + 1) in
         case findResourceApp s resource of
           None \<Rightarrow> None
         | Some app \<Rightarrow> if appExposesScope s app name then Some (name, resource) else None)
      else Some (sc, []))"

fun common_resource :: "string \<Rightarrow> string list \<Rightarrow> string option" where
  "common_resource cur [] = Some cur"
| "common_resource cur (r # rs) =
     (if r = [] then common_resource cur rs
      else if cur \<noteq> [] \<and> cur \<noteq> r then None else common_resource r rs)"

lemma setResource_eq:
  "map_option (grant_name n) (setResource r out)
   = (if rs_Resource out \<noteq> [] \<and> rs_Resource out \<noteq> r then None
      else Some (out\<lparr>rs_Granted := rs_Granted out @ [n], rs_Resource := r\<rparr>))"
  by (simp add: setResource_def grant_name_def)

text \<open>A path scope never has an empty resource part that resolves: no registered app has an empty
  identifier URI, and \<open>app_ids_ok\<close> says none has an empty id.\<close>

definition app_ids_ok :: "Store \<Rightarrow> bool" where
  "app_ids_ok s \<longleftrightarrow> (\<forall>a \<in> set (app_registrations s). a_ID a \<noteq> [])"

lemma findResourceApp_nonempty:
  assumes "app_ids_ok s"
  shows "findResourceApp s [] = None"
proof -
  have "sql_first (\<lambda>a. null_eq (a_AppIDURI a) []) (map App.truncate (app_registrations s)) = None"
    by (auto simp: sql_first_None null_eq_def)
  moreover have "sql_first (\<lambda>a. a_ID a = []) (map App.truncate (app_registrations s)) = None"
    using assms by (auto simp: sql_first_None app_ids_ok_def App.truncate_def)
  ultimately show ?thesis by (simp add: findResourceApp_def GetAppByIDURI_def GetApp_def one_row_def)
qed

lemma azureAud_nonempty [simp]: "azureDelegatedResource sc \<noteq> [] \<Longrightarrow> azureAud (azureDelegatedResource sc) \<noteq> []"
  by (auto simp: azureDelegatedResource_def Let_def split: if_splits)

lemma resolve_one_target:
  assumes "app_ids_ok s"
  shows "resolve_one gid s sc out =
     (case scope_target gid s sc of
        None \<Rightarrow> None
      | Some (n, r) \<Rightarrow>
          if r = [] then Some (grant_name n out)
          else if rs_Resource out \<noteq> [] \<and> rs_Resource out \<noteq> r then None
          else Some (out\<lparr>rs_Granted := rs_Granted out @ [n], rs_Resource := r\<rparr>))"
proof -
  have fab: "fabricResource \<noteq> []" by (simp add: fabricResource_def)
  have nonempty: "r \<noteq> []" if "findResourceApp s r = Some app" for r app
    using that findResourceApp_nonempty[OF assms] by auto
  show ?thesis
    using fab nonempty
    by (auto simp: resolve_one_def scope_target_def setResource_eq Let_def split: option.splits)
qed

lemma resolve_loop_spec:
  assumes "app_ids_ok s"
  shows "resolve_loop gid s scs out =
     (if \<exists>sc \<in> set scs. scope_target gid s sc = None then None
      else let ts = map (\<lambda>sc. the (scope_target gid s sc)) scs in
        map_option (\<lambda>r. out\<lparr>rs_Granted := rs_Granted out @ map fst ts, rs_Resource := r\<rparr>)
          (common_resource (rs_Resource out) (map snd ts)))"
proof (induction scs arbitrary: out)
  case Nil
  show ?case by simp
next
  case (Cons sc scs)
  show ?case
  proof (cases "scope_target gid s sc")
    case None
    then show ?thesis by (simp add: resolve_one_target[OF assms])
  next
    case (Some t)
    obtain n r where t: "t = (n, r)" by fastforce
    have step: "common_resource (rs_Resource out) (map snd ((n, r) # map (\<lambda>sc. the (scope_target gid s sc)) scs))
        = (if r = [] then common_resource (rs_Resource out) (map snd (map (\<lambda>sc. the (scope_target gid s sc)) scs))
           else if rs_Resource out \<noteq> [] \<and> rs_Resource out \<noteq> r then None
           else common_resource r (map snd (map (\<lambda>sc. the (scope_target gid s sc)) scs)))" by simp
    show ?thesis
      using Some t step Cons.IH[of "grant_name n out"]
        Cons.IH[of "out\<lparr>rs_Granted := rs_Granted out @ [n], rs_Resource := r\<rparr>"]
      by (auto simp: resolve_one_target[OF assms] Let_def grant_name_def)
  qed
qed

lemma common_resource_Some:
  "common_resource cur rs = Some R \<Longrightarrow> (cur \<noteq> [] \<longrightarrow> R = cur) \<and> (\<forall>r \<in> set rs. r = [] \<or> r = R)"
  by (induction cur rs rule: common_resource.induct) (auto split: if_splits)

lemma common_resource_None:
  "common_resource cur rs = None \<longleftrightarrow> (\<exists>a \<in> insert cur (set rs). \<exists>b \<in> insert cur (set rs). a \<noteq> [] \<and> b \<noteq> [] \<and> a \<noteq> b)"
proof (induction cur rs rule: common_resource.induct)
  case (2 cur r rs)
  show ?case
  proof (cases "r = [] \<or> (cur \<noteq> [] \<and> cur \<noteq> r)")
    case True
    then show ?thesis using 2 by auto
  next
    case False
    then show ?thesis using 2 by (cases "cur = []") auto
  qed
qed auto

lemma ResolveDelegatedScopes_None:
  assumes "app_ids_ok s"
  shows "ResolveDelegatedScopes gid s scs = None \<longleftrightarrow>
     (\<exists>sc \<in> set scs. scope_target gid s sc = None) \<or>
     (\<exists>x \<in> set scs. \<exists>y \<in> set scs. \<exists>n r m q. scope_target gid s x = Some (n, r) \<and> scope_target gid s y = Some (m, q)
        \<and> r \<noteq> [] \<and> q \<noteq> [] \<and> r \<noteq> q)"
proof (cases "\<exists>sc \<in> set scs. scope_target gid s sc = None")
  case True
  then show ?thesis by (simp add: ResolveDelegatedScopes_def resolve_loop_spec[OF assms])
next
  case False
  let ?snd = "\<lambda>sc. snd (the (scope_target gid s sc))"
  have "ResolveDelegatedScopes gid s scs = None \<longleftrightarrow> common_resource [] (map ?snd scs) = None"
    using False unfolding ResolveDelegatedScopes_def resolve_loop_spec[OF assms] Let_def
    by (simp only: if_False) (simp add: o_def)
  also have "\<dots> \<longleftrightarrow> (\<exists>x \<in> set scs. \<exists>y \<in> set scs. ?snd x \<noteq> [] \<and> ?snd y \<noteq> [] \<and> ?snd x \<noteq> ?snd y)"
    by (auto simp: common_resource_None)
  also have "\<dots> \<longleftrightarrow> (\<exists>x \<in> set scs. \<exists>y \<in> set scs. \<exists>n r m q. scope_target gid s x = Some (n, r)
      \<and> scope_target gid s y = Some (m, q) \<and> r \<noteq> [] \<and> q \<noteq> [] \<and> r \<noteq> q)"
  proof (intro bex_cong refl)
    fix x y assume "x \<in> set scs" "y \<in> set scs"
    with False obtain n r m q where "scope_target gid s x = Some (n, r)" "scope_target gid s y = Some (m, q)"
      by fastforce
    then show "(?snd x \<noteq> [] \<and> ?snd y \<noteq> [] \<and> ?snd x \<noteq> ?snd y) = (\<exists>n r m q. scope_target gid s x = Some (n, r)
        \<and> scope_target gid s y = Some (m, q) \<and> r \<noteq> [] \<and> q \<noteq> [] \<and> r \<noteq> q)"
      by simp
  qed
  finally show ?thesis using False by blast
qed

lemma ResolveDelegatedScopes_Some:
  assumes "app_ids_ok s" and "ResolveDelegatedScopes gid s scs = Some out"
  shows "rs_Requested out = scs"
    and "list_all2 (\<lambda>sc n. \<exists>r. scope_target gid s sc = Some (n, r) \<and> (r = [] \<or> r = rs_Resource out)) scs (rs_Granted out)"
proof -
  let ?ts = "map (\<lambda>sc. the (scope_target gid s sc)) scs"
  from assms(2) have def: "\<forall>sc \<in> set scs. scope_target gid s sc \<noteq> None"
    and out: "rs_Requested out = scs" "rs_Granted out = map fst ?ts" "common_resource [] (map snd ?ts) = Some (rs_Resource out)"
    by (auto simp: ResolveDelegatedScopes_def resolve_loop_spec[OF assms(1)] Let_def split: if_splits)
  show "rs_Requested out = scs" by (rule out)
  have "\<exists>r. scope_target gid s sc = Some (fst (the (scope_target gid s sc)), r) \<and> (r = [] \<or> r = rs_Resource out)"
    if sc: "sc \<in> set scs" for sc
  proof -
    from def sc obtain n r where nr: "scope_target gid s sc = Some (n, r)" by fastforce
    then have "r \<in> set (map snd ?ts)" using sc by (force simp: image_iff)
    then show ?thesis using nr common_resource_Some[OF out(3)] by auto
  qed
  then show "list_all2 (\<lambda>sc n. \<exists>r. scope_target gid s sc = Some (n, r) \<and> (r = [] \<or> r = rs_Resource out)) scs (rs_Granted out)"
    unfolding out(2) by (auto simp: list_all2_conv_all_nth)
qed

text \<open>What a scope asks for: a protocol scope, a permission of Microsoft Graph, a permission of a named resource, or
  an unqualified name nobody registered.\<close>

datatype scope_target_kind = ProtocolScope | GraphScope | ResourceScope string | LooseScope

text \<open>The text before and after the last slash.\<close>

definition path_parts :: "string \<Rightarrow> string \<times> string" where
  "path_parts sc = (let n = rev (takeWhile (\<lambda>c. c \<noteq> CHR ''/'') (rev sc)) in (take (length sc - length n - 1) sc, n))"

definition scope_meaning :: "string \<Rightarrow> Store \<Rightarrow> string \<Rightarrow> (string \<times> scope_target_kind) option" where
  "scope_meaning gid s sc =
     (if sc \<in> {''openid'', ''profile'', ''email'', ''offline_access''} then Some (sc, ProtocolScope)
      else if HasPrefix sc (gid @ ''/'') then Some (drop (length gid + 1) sc, GraphScope)
      else if sc \<in> {''User.Read'', ''User.ReadBasic.All'', ''User.Read.All'', ''Group.Read.All''} then Some (sc, GraphScope)
      else if HasPrefix sc (fabricResource @ ''/'') then Some (drop (length fabricResource + 1) sc, ResourceScope fabricResource)
      else if sc \<in> set knownFabricScopes then Some (sc, ResourceScope fabricResource)
      else if CHR ''/'' \<notin> set sc then Some (sc, LooseScope)
      else case path_parts sc of (resource, name) \<Rightarrow>
        if resource \<noteq> [] \<and> azureAud resource \<noteq> [] then Some (name, ResourceScope (azureAud resource))
        else case findResourceApp s resource of
          None \<Rightarrow> None
        | Some app \<Rightarrow>
            if \<exists>x \<in> set (app_scopes s). sc_AppID x = a_ID app \<and> sc_Value x = name \<and> sc_IsEnabled x then Some (name, ResourceScope resource) else None)"

fun resource_of :: "scope_target_kind \<Rightarrow> string option" where
  "resource_of (ResourceScope r) = Some r"
| "resource_of k = None"

lemma path_parts_LastIndex:
  assumes "CHR ''/'' \<in> set sc"
  shows "path_parts sc = (slice_to sc (LastIndex sc (CHR ''/'')), slice_from sc (LastIndex sc (CHR ''/'') + 1))"
    and "LastIndex sc (CHR ''/'') \<le> 0 \<longleftrightarrow> slice_to sc (LastIndex sc (CHR ''/'')) = []"
proof -
  obtain r n where sc: "sc = r @ CHR ''/'' # n" "CHR ''/'' \<notin> set n"
    using split_list_last[OF assms] by blast
  have t: "takeWhile (\<lambda>c. c \<noteq> CHR ''/'') (rev sc) = rev n"
    using sc by (simp add: takeWhile_append2)
  have l: "LastIndex sc (CHR ''/'') = int (length r)" unfolding LastIndex_def t by (simp add: sc(1))
  then show "LastIndex sc (CHR ''/'') \<le> 0 \<longleftrightarrow> slice_to sc (LastIndex sc (CHR ''/'')) = []" by (simp add: slice_to_def sc(1))
  show "path_parts sc = (slice_to sc (LastIndex sc (CHR ''/'')), slice_from sc (LastIndex sc (CHR ''/'') + 1))"
    by (simp add: path_parts_def t Let_def l) (simp add: slice_to_def slice_from_def sc(1) nat_add_distrib)
qed

lemma scope_target_meaning:
  "scope_target gid s sc = map_option (\<lambda>(n, k). (n, case resource_of k of Some r \<Rightarrow> r | None \<Rightarrow> [])) (scope_meaning gid s sc)"
proof (cases "CHR ''/'' \<in> set sc")
  case False
  then have "azureDelegatedResource sc = []" by (simp add: azureDelegatedResource_def LastIndex_def Let_def)
  with False show ?thesis
    by (simp add: scope_target_def scope_meaning_def oidcScopes_def knownGraphScopes_def TrimPrefix_def)
next
  case True
  let ?r = "slice_to sc (LastIndex sc (CHR ''/''))"
  have az: "azureDelegatedResource sc = (if ?r \<noteq> [] \<and> azureAud ?r \<noteq> [] then ?r else [])"
    using path_parts_LastIndex(2)[OF True] by (simp add: azureDelegatedResource_def Let_def)
  show ?thesis
    using True unfolding scope_target_def scope_meaning_def path_parts_LastIndex(1)[OF True] az oidcScopes_def knownGraphScopes_def Let_def
    by (simp add: TrimPrefix_def appExposesScope_def ListScopes_def list_ex_iff split: option.splits) blast
qed

definition common_target :: "scope_target_kind list \<Rightarrow> string" where
  "common_target ks = (case List.map_filter resource_of ks of [] \<Rightarrow> [] | r # _ \<Rightarrow> r)"

lemma scope_meaning_nonempty:
  assumes "app_ids_ok s" and "scope_meaning gid s sc = Some (n, ResourceScope r)"
  shows "r \<noteq> []"
proof -
  have "r \<noteq> []" if "findResourceApp s r = Some app" for app using that findResourceApp_nonempty[OF assms(1)] by auto
  then show ?thesis using assms(2)
    by (auto simp: scope_meaning_def fabricResource_def split: if_splits option.splits prod.splits)
qed

lemma common_resource_first:
  "common_resource cur rs = Some R \<Longrightarrow> R = (if cur \<noteq> [] then cur else case filter (\<lambda>r. r \<noteq> []) rs of [] \<Rightarrow> [] | r # _ \<Rightarrow> r)"
  by (induction cur rs rule: common_resource.induct) (auto split: if_splits)

lemma common_target_filter:
  assumes "\<And>r. ResourceScope r \<in> set ks \<Longrightarrow> r \<noteq> []"
  shows "filter (\<lambda>r. r \<noteq> []) (map (\<lambda>k. case resource_of k of Some r \<Rightarrow> r | None \<Rightarrow> []) ks) = List.map_filter resource_of ks"
  using assms
proof (induction ks)
  case (Cons k ks)
  then show ?case by (cases k) (auto simp: map_filter_simps)
qed (simp add: map_filter_simps)

section \<open>Properties\<close>

text \<open>
  C21. \<^verbatim>\<open>ResolveDelegatedScopes\<close> exactly: a scope set is refused when one of its scopes is for a resource but names no
  registered, enabled scope of it, or when two are for different resources; otherwise every scope is granted under its
  short name, in order, for the resource the set names, if any, and the requested strings are kept for the echo. The
  outcome depends on the order of the scopes only through the order of the names. Scopes of Microsoft Graph (and
  unqualified names) take no part in the single-resource rule: beside a scope of another resource they are granted in a
  token for that resource.
\<close>

theorem resolve_grants_targets:
  assumes "app_ids_ok s"
  shows "ResolveDelegatedScopes gid s scs =
     (if (\<exists>sc \<in> set scs. scope_meaning gid s sc = None)
       \<or> (\<exists>x \<in> set scs. \<exists>y \<in> set scs. \<exists>n r m q. scope_meaning gid s x = Some (n, ResourceScope r)
            \<and> scope_meaning gid s y = Some (m, ResourceScope q) \<and> r \<noteq> q)
      then None
      else let ts = map (\<lambda>sc. the (scope_meaning gid s sc)) scs in
        Some \<lparr>rs_Granted = map fst ts, rs_Resource = common_target (map snd ts), rs_Requested = scs\<rparr>)"
    (is "_ = (if ?refused then None else _)")
proof -
  let ?val = "\<lambda>k. case resource_of k of Some r \<Rightarrow> r | None \<Rightarrow> []"
  note ne = scope_meaning_nonempty[OF assms]
  have target: "scope_target gid s sc = Some (n, r) \<and> r \<noteq> [] \<longleftrightarrow> scope_meaning gid s sc = Some (n, ResourceScope r)" for sc n r
    using ne[of gid sc n r] unfolding scope_target_meaning by (auto elim!: resource_of.elims split: option.splits)
  have unknown: "scope_target gid s sc = None \<longleftrightarrow> scope_meaning gid s sc = None" for sc by (simp add: scope_target_meaning)
  have clash: "(\<exists>n r m q. scope_target gid s x = Some (n, r) \<and> scope_target gid s y = Some (m, q) \<and> r \<noteq> [] \<and> q \<noteq> [] \<and> r \<noteq> q)
      \<longleftrightarrow> (\<exists>n r m q. scope_meaning gid s x = Some (n, ResourceScope r) \<and> scope_meaning gid s y = Some (m, ResourceScope q) \<and> r \<noteq> q)" for x y
    unfolding target[symmetric] by blast
  have refused: "ResolveDelegatedScopes gid s scs = None \<longleftrightarrow> ?refused"
    unfolding ResolveDelegatedScopes_None[OF assms] unknown clash ..
  show ?thesis
  proof (cases "ResolveDelegatedScopes gid s scs")
    case None
    with refused have ?refused by (simp only: simp_thms)
    with None show ?thesis by (simp only: if_True)
  next
    case (Some out)
    let ?ts = "map (\<lambda>sc. the (scope_meaning gid s sc)) scs"
    have known: "\<forall>sc \<in> set scs. scope_meaning gid s sc \<noteq> None" using refused[THEN iffD2, OF disjI1] unfolding Some by (metis option.distinct(1))
    then have the: "map (\<lambda>sc. the (scope_target gid s sc)) scs = map (\<lambda>(n, k). (n, ?val k)) ?ts"
      by (auto simp: scope_target_meaning)
    from Some known have out: "\<exists>R. common_resource [] (map ?val (map snd ?ts)) = Some R
        \<and> out = \<lparr>rs_Granted = map fst ?ts, rs_Resource = R, rs_Requested = scs\<rparr>"
      unfolding ResolveDelegatedScopes_def resolve_loop_spec[OF assms] the Let_def unknown
      by (auto simp: o_def case_prod_beta split: if_splits)
    then obtain R where R: "common_resource [] (map ?val (map snd ?ts)) = Some R"
      "out = \<lparr>rs_Granted = map fst ?ts, rs_Resource = R, rs_Requested = scs\<rparr>" by blast
    have "r \<noteq> []" if "ResourceScope r \<in> set (map snd ?ts)" for r using that known ne by (auto; metis option.sel prod.collapse)
    then have f: "filter (\<lambda>r. r \<noteq> []) (map ?val (map snd ?ts)) = List.map_filter resource_of (map snd ?ts)"
      by (intro common_target_filter)
    have "R = (case filter (\<lambda>r. r \<noteq> []) (map ?val (map snd ?ts)) of [] \<Rightarrow> [] | r # _ \<Rightarrow> r)"
      using common_resource_first[OF R(1)] by simp
    then have "R = common_target (map snd ?ts)" unfolding f common_target_def .
    moreover have "\<not> ?refused" using refused Some by (simp only: option.distinct not_False_eq_True)
    ultimately show ?thesis by (simp only: if_False Let_def Some R(2))
  qed
qed

definition scope0 :: AppScope where
  "scope0 = \<lparr>sc_ID = ''s'', sc_AppID = ''app'', sc_Value = ''read'', sc_AdminConsentDisplayName = '''', sc_IsEnabled = True\<rparr>"

definition scope_store :: Store where
  "scope_store = store0\<lparr>app_scopes := [scope0]\<rparr>"

lemma resolve_sample:
  "ResolveDelegatedScopes ''https://graph.microsoft.com'' scope_store [''openid'', ''User.Read'', ''api://app/read'']
   = Some \<lparr>rs_Granted = [''openid'', ''User.Read'', ''read''], rs_Resource = ''api://app'',
           rs_Requested = [''openid'', ''User.Read'', ''api://app/read'']\<rparr>"
  by code_simp

lemma scope_store_ids: "app_ids_ok scope_store"
  by (simp add: app_ids_ok_def scope_store_def sample_defs)

theorem resolve_grants_targets_witness:
  "ResolveDelegatedScopes ''https://graph.microsoft.com'' scope_store [''openid'', ''User.Read'', ''api://app/read'']
     = Some \<lparr>rs_Granted = [''openid'', ''User.Read'', ''read''], rs_Resource = ''api://app'',
             rs_Requested = [''openid'', ''User.Read'', ''api://app/read'']\<rparr>
   \<and> ResolveDelegatedScopes ''gid'' scope_store [''api://app/read'', ''Fabric.Embed''] = None"
proof -
  have m: "scope_meaning ''https://graph.microsoft.com'' scope_store ''openid'' = Some (''openid'', ProtocolScope)"
    "scope_meaning ''https://graph.microsoft.com'' scope_store ''User.Read'' = Some (''User.Read'', GraphScope)"
    "scope_meaning ''https://graph.microsoft.com'' scope_store ''api://app/read'' = Some (''read'', ResourceScope ''api://app'')"
    by code_simp+
  have f: "scope_meaning ''gid'' scope_store ''api://app/read'' = Some (''read'', ResourceScope ''api://app'')"
    "scope_meaning ''gid'' scope_store ''Fabric.Embed'' = Some (''Fabric.Embed'', ResourceScope fabricResource)" "''api://app'' \<noteq> fabricResource"
    by code_simp+
  show ?thesis
    unfolding resolve_grants_targets[OF scope_store_ids] using f by (simp add: m common_target_def map_filter_simps)
qed

text \<open>
  A delegated scope set is refused exactly when one of its scopes names no registered, enabled
  scope or two of its scopes are for different named resources; in particular the outcome does not
  depend on the order of the scopes.
\<close>

theorem resolve_refusal_exact:
  assumes "app_ids_ok s"
  shows "ResolveDelegatedScopes gid s scs = None \<longleftrightarrow>
     (\<exists>sc \<in> set scs. scope_target gid s sc = None) \<or>
     (\<exists>x \<in> set scs. \<exists>y \<in> set scs. \<exists>n r m q. scope_target gid s x = Some (n, r) \<and> scope_target gid s y = Some (m, q)
        \<and> r \<noteq> [] \<and> q \<noteq> [] \<and> r \<noteq> q)"
  using assms by (rule ResolveDelegatedScopes_None)

theorem resolve_refusal_exact_witness:
  "ResolveDelegatedScopes ''gid'' scope_store [''api://app/read'', ''Fabric.Embed''] = None"
proof -
  have "scope_target ''gid'' scope_store ''api://app/read'' = Some (''read'', ''api://app'')" by code_simp
  moreover have "scope_target ''gid'' scope_store ''Fabric.Embed'' = Some (''Fabric.Embed'', fabricResource)" by code_simp
  moreover have "fabricResource \<noteq> []" "''api://app'' \<noteq> fabricResource" by (simp_all add: fabricResource_def)
  ultimately show ?thesis
    unfolding resolve_refusal_exact[OF scope_store_ids]
    by (intro disjI2 bexI[of _ "''api://app/read''"] bexI[of _ "''Fabric.Embed''"]) auto
qed

text \<open>The single-resource rule does not cover Microsoft Graph: a Graph scope beside an API scope is
  accepted, and its name is granted in a token for the API (the comment of \<^verbatim>\<open>setResource\<close> says one
  resource per token).\<close>

lemma graph_and_api_scopes_mix:
  "\<exists>out. ResolveDelegatedScopes ''https://graph.microsoft.com'' scope_store [''User.Read'', ''api://app/read''] = Some out
       \<and> rs_Resource out = ''api://app'' \<and> ''User.Read'' \<in> set (rs_Granted out)"
proof -
  have "ResolveDelegatedScopes ''https://graph.microsoft.com'' scope_store [''User.Read'', ''api://app/read'']
    = Some \<lparr>rs_Granted = [''User.Read'', ''read''], rs_Resource = ''api://app'',
           rs_Requested = [''User.Read'', ''api://app/read'']\<rparr>" by code_simp
  then show ?thesis by simp
qed

end
