(* ===== verification/Runtime.thy ===== *)
theory Runtime
  imports Prelude Complex_Main
begin

text \<open>
  The process-wide runtime state: the controllable clock (\<^verbatim>\<open>internal/clock\<close>), the fault
  injection settings (\<^verbatim>\<open>internal/faults\<close>) and the two audit ring buffers (\<^verbatim>\<open>internal/audit\<close>).
  Each object is guarded by its own mutex, so its methods are atomic steps. Real time, the random
  roll and the random event id are arguments.
\<close>

section \<open>The clock\<close>

record Clock =
  ck_offset :: int
  ck_frozen :: bool
  ck_frozenAt :: int

definition Clock_New :: Clock where
  "Clock_New = \<lparr>ck_offset = 0, ck_frozen = False, ck_frozenAt = 0\<rparr>"

definition Clock_Now :: "int \<Rightarrow> Clock \<Rightarrow> int" where
  "Clock_Now realNow c = (if ck_frozen c then ck_frozenAt c else i64_add realNow (ck_offset c))"

definition Clock_SetOffset :: "int \<Rightarrow> Clock \<Rightarrow> Clock" where
  "Clock_SetOffset seconds c = c\<lparr>ck_offset := seconds, ck_frozen := False\<rparr>"

definition Clock_Advance :: "int \<Rightarrow> Clock \<Rightarrow> Clock" where
  "Clock_Advance seconds c =
     (if ck_frozen c then c\<lparr>ck_frozenAt := i64_add (ck_frozenAt c) seconds\<rparr>
      else c\<lparr>ck_offset := i64_add (ck_offset c) seconds\<rparr>)"

definition Clock_Freeze :: "int \<Rightarrow> Clock \<Rightarrow> Clock" where
  "Clock_Freeze realNow c =
     (if \<not> ck_frozen c then c\<lparr>ck_frozenAt := i64_add realNow (ck_offset c), ck_frozen := True\<rparr> else c)"

definition Clock_Unfreeze :: "int \<Rightarrow> Clock \<Rightarrow> Clock" where
  "Clock_Unfreeze realNow c =
     (if ck_frozen c then c\<lparr>ck_offset := i64_add (ck_frozenAt c) (- realNow), ck_frozen := False\<rparr> else c)"

definition Clock_Reset :: "Clock \<Rightarrow> Clock" where
  "Clock_Reset c = c\<lparr>ck_offset := 0, ck_frozen := False, ck_frozenAt := 0\<rparr>"

text \<open>\<^verbatim>\<open>time.Unix(now, 0).UTC().Format(time.RFC3339)\<close>: the proleptic Gregorian date of an epoch
  second, by the usual era/day-of-era arithmetic.\<close>

fun dec_digits :: "nat \<Rightarrow> nat \<Rightarrow> string" where
  "dec_digits 0 n = []"
| "dec_digits (Suc w) n = dec_digits w (n div 10) @ [char_of (48 + n mod 10 :: nat)]"

text \<open>A number with at least \<open>w\<close> digits, the sign in front.\<close>

fun dec_len :: "nat \<Rightarrow> nat" where
  "dec_len n = (if n < 10 then 1 else Suc (dec_len (n div 10)))"

declare dec_len.simps [simp del]

definition int_digits :: "nat \<Rightarrow> int \<Rightarrow> string" where
  "int_digits w i = (let n = nat (abs i) in (if i < 0 then ''-'' else []) @ dec_digits (max w (dec_len n)) n)"

definition civil_from_days :: "int \<Rightarrow> int \<times> int \<times> int" where
  "civil_from_days z0 =
     (let z = z0 + 719468; era = z div 146097; doe = z mod 146097;
          yoe = (doe - doe div 1460 + doe div 36524 - doe div 146096) div 365;
          doy = doe - (365 * yoe + yoe div 4 - yoe div 100);
          mp = (5 * doy + 2) div 153;
          d = doy - (153 * mp + 2) div 5 + 1;
          m = (if mp < 10 then mp + 3 else mp - 9);
          y = yoe + era * 400 + (if m \<le> 2 then 1 else 0)
      in (y, m, d))"

definition rfc3339 :: "int \<Rightarrow> string" where
  "rfc3339 t =
     (case civil_from_days (t div 86400) of (y, m, d) \<Rightarrow>
        let sod = t mod 86400 in
        int_digits 4 y @ ''-'' @ dec_digits 2 (nat m) @ ''-'' @ dec_digits 2 (nat d) @ ''T'' @
        dec_digits 2 (nat (sod div 3600)) @ '':'' @ dec_digits 2 (nat (sod mod 3600 div 60)) @ '':'' @
        dec_digits 2 (nat (sod mod 60)) @ ''Z'')"

record ClockState =
  cs_OffsetSeconds :: int
  cs_Frozen :: bool
  cs_Now :: int
  cs_NowISO :: string

definition Clock_State :: "int \<Rightarrow> Clock \<Rightarrow> ClockState" where
  "Clock_State realNow c =
     (let now = (if ck_frozen c then ck_frozenAt c else i64_add realNow (ck_offset c)) in
      \<lparr>cs_OffsetSeconds = ck_offset c, cs_Frozen = ck_frozen c, cs_Now = now, cs_NowISO = rfc3339 now\<rparr>)"

subsection \<open>Lemmas\<close>

lemma Clock_Now_range: "is_int64 (ck_frozenAt c) \<Longrightarrow> is_int64 (Clock_Now r c)"
  by (simp add: Clock_Now_def i64_add_def)

lemma i64_add_cancel: "is_int64 a \<Longrightarrow> i64_add b (i64_add a (- b)) = a"
proof -
  assume "is_int64 a"
  have "i64_add b (i64_add a (- b)) = wrap64 (b + (a + - b))"
    unfolding i64_add_def by (rule wrap64_cong) (metis mod_add_right_eq wrap64_mod)
  with \<open>is_int64 a\<close> show ?thesis by (simp add: wrap64_id)
qed

section \<open>Fault injection\<close>

record FaultConfig =
  fa_TokenError :: string
  fa_TokenErrorDescription :: string
  fa_TokenLatencyMs :: int
  fa_Probability :: real

definition no_faults :: FaultConfig where
  "no_faults = \<lparr>fa_TokenError = [], fa_TokenErrorDescription = [], fa_TokenLatencyMs = 0, fa_Probability = 0\<rparr>"

definition Faults_Set :: "FaultConfig \<Rightarrow> FaultConfig \<Rightarrow> FaultConfig" where
  "Faults_Set c s = c"

definition Faults_Clear :: "FaultConfig \<Rightarrow> FaultConfig" where
  "Faults_Clear s = no_faults"

text \<open>\<open>roll\<close> is the value of \<^verbatim>\<open>rand.Float64()\<close>, in [0, 1).\<close>

definition TokenFault :: "real \<Rightarrow> FaultConfig \<Rightarrow> int \<times> string \<times> string \<times> bool" where
  "TokenFault roll c =
     (if fa_TokenError c = [] then (fa_TokenLatencyMs c, [], [], False)
      else let p = fa_Probability c in
        if p \<le> 0 \<or> p \<ge> 1 then (fa_TokenLatencyMs c, fa_TokenError c, fa_TokenErrorDescription c, True)
        else (fa_TokenLatencyMs c, fa_TokenError c, fa_TokenErrorDescription c, roll < p))"

section \<open>Audit ring buffers\<close>

text \<open>\<^verbatim>\<open>Recorder\<close> and \<^verbatim>\<open>DirectoryRecorder\<close> are the same ring over two event types. \<open>zero\<close> is the event
  a fresh slot holds.\<close>

record 'e Recorder =
  rec_buf :: "'e list"
  rec_next :: nat
  rec_full :: bool
  rec_cap :: nat

definition Recorder_New :: "'e \<Rightarrow> int \<Rightarrow> 'e Recorder" where
  "Recorder_New zero capacity =
     (let c = nat (if capacity \<le> 0 then 500 else capacity) in
      \<lparr>rec_buf = replicate c zero, rec_next = 0, rec_full = False, rec_cap = c\<rparr>)"

definition ring_put :: "'e \<Rightarrow> 'e Recorder \<Rightarrow> 'e Recorder" where
  "ring_put e r =
     (let nxt = (rec_next r + 1) mod rec_cap r in
      r\<lparr>rec_buf := (rec_buf r)[rec_next r := e], rec_next := nxt,
        rec_full := (if nxt = 0 then True else rec_full r)\<rparr>)"

definition Recorder_Clear :: "'e \<Rightarrow> 'e Recorder \<Rightarrow> 'e Recorder" where
  "Recorder_Clear zero r = r\<lparr>rec_buf := replicate (rec_cap r) zero, rec_next := 0, rec_full := False\<rparr>"

definition ring_size :: "'e Recorder \<Rightarrow> nat" where
  "ring_size r = (if rec_full r then rec_cap r else rec_next r)"

text \<open>The loop of \<^verbatim>\<open>Recorder.List\<close>: \<open>i\<close> counts up to \<open>n\<close>, stopping once \<open>limit\<close> events are out.\<close>

function ring_walk :: "'e Recorder \<Rightarrow> int \<Rightarrow> nat \<Rightarrow> nat \<Rightarrow> 'e list \<Rightarrow> 'e list" where
  "ring_walk r limit n i out =
     (if i < n then
        let idx = nat ((int (rec_next r) - 1 - int i + int (rec_cap r)) mod int (rec_cap r));
            out' = out @ [rec_buf r ! idx] in
        if limit > 0 \<and> int (length out') \<ge> limit then out' else ring_walk r limit n (i + 1) out'
      else out)"
  by pat_completeness auto
termination by (relation "measure (\<lambda>(r, limit, n, i, out). n - i)") auto

declare ring_walk.simps [simp del]

definition Recorder_List :: "int \<Rightarrow> 'e Recorder \<Rightarrow> 'e list" where
  "Recorder_List limit r = ring_walk r limit (ring_size r) 0 []"

definition DirectoryRecorder_List :: "int \<Rightarrow> 'e Recorder \<Rightarrow> 'e list" where
  "DirectoryRecorder_List limit r =
     (let n = int (ring_size r); limit = (if limit \<le> 0 \<or> limit > n then n else limit) in
      map (\<lambda>i. rec_buf r ! nat ((int (rec_next r) - 1 - int i + int (rec_cap r) * 2) mod int (rec_cap r)))
        [0 ..< nat limit])"

text \<open>The two event types with the stamps \<^verbatim>\<open>Record\<close> puts on them. \<open>rid\<close> is the hex of the 16 random
  bytes, \<open>None\<close> when the random source failed.\<close>

record Event =
  ev_EventID :: string
  ev_Time :: int
  ev_TimeISO :: string
  ev_Flow :: string
  ev_GrantType :: string
  ev_ClientID :: string
  ev_UserID :: string
  ev_UserPrincipalName :: string
  ev_Status :: int
  ev_OK :: bool
  ev_Error :: string
  ev_Reason :: string

definition fresh_id :: "string option \<Rightarrow> string \<Rightarrow> string" where
  "fresh_id rid i = (if i = [] then (case rid of None \<Rightarrow> [] | Some h \<Rightarrow> h) else i)"

definition stamp_event :: "string option \<Rightarrow> Event \<Rightarrow> Event" where
  "stamp_event rid e = e\<lparr>ev_EventID := fresh_id rid (ev_EventID e), ev_TimeISO := rfc3339 (ev_Time e)\<rparr>"

definition Recorder_Record :: "string option \<Rightarrow> Event \<Rightarrow> Event Recorder \<Rightarrow> Event Recorder" where
  "Recorder_Record rid e r = ring_put (stamp_event rid e) r"

record DirectoryEvent =
  de_EventID :: string
  de_Time :: int
  de_TimeISO :: string
  de_Activity :: string
  de_Category :: string
  de_Result :: string
  de_InitiatedByAppID :: string
  de_InitiatedByUser :: string
  de_InitiatedByUPN :: string
  de_TargetType :: string
  de_TargetID :: string
  de_TargetDisplayName :: string

definition stamp_directory :: "int \<Rightarrow> string option \<Rightarrow> DirectoryEvent \<Rightarrow> DirectoryEvent" where
  "stamp_directory wall rid e =
     (let t = (if de_Time e = 0 then wall else de_Time e) in
      e\<lparr>de_EventID := fresh_id rid (de_EventID e), de_Time := t,
        de_TimeISO := (if de_TimeISO e = [] then rfc3339 t else de_TimeISO e),
        de_Result := (if de_Result e = [] then ''success'' else de_Result e)\<rparr>)"

text \<open>A nil recorder ignores what it is given and lists nothing.\<close>

definition DirectoryRecorder_Record ::
  "int \<Rightarrow> string option \<Rightarrow> DirectoryEvent \<Rightarrow> DirectoryEvent Recorder option \<Rightarrow> DirectoryEvent Recorder option" where
  "DirectoryRecorder_Record wall rid e r = map_option (ring_put (stamp_directory wall rid e)) r"

section \<open>What the ring buffers promise\<close>

text \<open>
  The contract of a bounded log: after a write the full listing is the new event in front of the
  old listing, cut at the capacity, and a positive limit takes a prefix of the full listing.
\<close>

locale bounded_log =
  fixes ok :: "'r \<Rightarrow> bool" and capacity :: "'r \<Rightarrow> nat" and put :: "'e \<Rightarrow> 'r \<Rightarrow> 'r" and lst :: "int \<Rightarrow> 'r \<Rightarrow> 'e list"
  assumes ok_put: "ok r \<Longrightarrow> ok (put e r)"
    and capacity_put: "capacity (put e r) = capacity r"
    and lst_put: "ok r \<Longrightarrow> lst 0 (put e r) = take (capacity r) (e # lst 0 r)"
    and lst_limit: "ok r \<Longrightarrow> lst limit r = (if limit > 0 then take (nat limit) (lst 0 r) else lst 0 r)"
begin

lemma lst_fold:
  assumes "ok r" and "length (lst 0 r) \<le> capacity r"
  shows "ok (fold put es r) \<and> capacity (fold put es r) = capacity r
         \<and> lst 0 (fold put es r) = take (capacity r) (rev es @ lst 0 r)"
  using assms
proof (induction es arbitrary: r)
  case Nil
  then show ?case by simp
next
  case (Cons e es)
  have "length (lst 0 (put e r)) \<le> capacity (put e r)"
    using Cons.prems by (simp add: lst_put capacity_put)
  note ih = Cons.IH[OF ok_put[OF Cons.prems(1)] this]
  have "take (capacity r) (rev es @ take (capacity r) (e # lst 0 r)) = take (capacity r) (rev es @ e # lst 0 r)"
    by (simp add: take_Cons' min_def)
  with ih Cons.prems show ?case by (simp add: capacity_put lst_put)
qed

lemma lst_history:
  assumes "ok r" and "lst 0 r = []"
  shows "lst limit (fold put es r)
         = (if limit > 0 then take (nat limit) (take (capacity r) (rev es)) else take (capacity r) (rev es))"
  using lst_fold[OF assms(1), of es] assms lst_limit[of "fold put es r" limit] by simp

end

definition ring_ok :: "'e Recorder \<Rightarrow> bool" where
  "ring_ok r \<longleftrightarrow> 0 < rec_cap r \<and> length (rec_buf r) = rec_cap r \<and> rec_next r < rec_cap r"

definition ring_at :: "'e Recorder \<Rightarrow> nat \<Rightarrow> 'e" where
  "ring_at r i = rec_buf r ! ((rec_next r + rec_cap r - 1 - i) mod rec_cap r)"

definition ring_abs :: "'e Recorder \<Rightarrow> 'e list" where
  "ring_abs r = map (ring_at r) [0 ..< ring_size r]"

lemma ring_size_le: "ring_ok r \<Longrightarrow> ring_size r \<le> rec_cap r"
  by (simp add: ring_size_def ring_ok_def)

lemma ring_index:
  assumes "ring_ok r" and "i < rec_cap r"
  shows "rec_buf r ! nat ((int (rec_next r) - 1 - int i + int (rec_cap r)) mod int (rec_cap r)) = ring_at r i"
    and "rec_buf r ! nat ((int (rec_next r) - 1 - int i + int (rec_cap r) * 2) mod int (rec_cap r)) = ring_at r i"
proof -
  have eq: "int (rec_next r) - 1 - int i + int (rec_cap r) = int (rec_next r + rec_cap r - 1 - i)"
    using assms by (simp add: ring_ok_def)
  show "rec_buf r ! nat ((int (rec_next r) - 1 - int i + int (rec_cap r)) mod int (rec_cap r)) = ring_at r i"
    unfolding eq ring_at_def zmod_int[symmetric] nat_int ..
  have "(int (rec_next r) - 1 - int i + int (rec_cap r) * 2) mod int (rec_cap r)
        = int (rec_next r + rec_cap r - 1 - i) mod int (rec_cap r)"
    using mod_add_self2[of "int (rec_next r) - 1 - int i + int (rec_cap r)" "int (rec_cap r)"]
    unfolding eq[symmetric] by (simp add: algebra_simps)
  then show "rec_buf r ! nat ((int (rec_next r) - 1 - int i + int (rec_cap r) * 2) mod int (rec_cap r)) = ring_at r i"
    unfolding ring_at_def zmod_int[symmetric] by simp
qed

lemma ring_put_ok: "ring_ok r \<Longrightarrow> ring_ok (ring_put e r)"
  by (simp add: ring_ok_def ring_put_def Let_def)

lemma ring_put_size: "ring_ok r \<Longrightarrow> ring_size (ring_put e r) = min (rec_cap r) (ring_size r + 1)"
  by (cases "rec_next r + 1 = rec_cap r") (auto simp: ring_ok_def ring_put_def ring_size_def Let_def)

lemma ring_put_at:
  assumes "ring_ok r" and "i < rec_cap r"
  shows "ring_at (ring_put e r) i = (case i of 0 \<Rightarrow> e | Suc j \<Rightarrow> ring_at r j)"
proof -
  have nxt: "rec_next (ring_put e r) = (if rec_next r + 1 = rec_cap r then 0 else rec_next r + 1)"
    using assms by (simp add: ring_put_def Let_def ring_ok_def)
  have bound: "rec_next r < rec_cap r" "length (rec_buf r) = rec_cap r" using assms by (simp_all add: ring_ok_def)
  have idx: "(rec_next (ring_put e r) + rec_cap r - 1 - i) mod rec_cap r
             = (if i \<le> rec_next r then rec_next r - i else rec_next r + rec_cap r - i)"
    using nxt bound assms(2) by (auto simp: mod_if)
  show ?thesis
  proof (cases i)
    case 0
    with idx bound show ?thesis by (simp add: ring_at_def ring_put_def Let_def)
  next
    case (Suc j)
    have "(rec_next r + rec_cap r - 1 - j) mod rec_cap r
          = (if i \<le> rec_next r then rec_next r - i else rec_next r + rec_cap r - i)"
      using bound assms(2) Suc by (auto simp: mod_if)
    moreover have "(if i \<le> rec_next r then rec_next r - i else rec_next r + rec_cap r - i) \<noteq> rec_next r"
      using Suc assms(2) bound by auto
    ultimately show ?thesis
      using idx Suc by (simp add: ring_at_def ring_put_def Let_def)
  qed
qed

lemma ring_abs_put:
  assumes "ring_ok r"
  shows "ring_abs (ring_put e r) = take (rec_cap r) (e # ring_abs r)"
proof (rule nth_equalityI)
  have cap: "rec_cap r > 0" using assms by (simp add: ring_ok_def)
  show "length (ring_abs (ring_put e r)) = length (take (rec_cap r) (e # ring_abs r))"
    using assms by (simp add: ring_abs_def ring_put_size)
  fix i assume "i < length (ring_abs (ring_put e r))"
  then have i: "i < rec_cap r" "i < ring_size r + 1" using assms by (simp_all add: ring_abs_def ring_put_size)
  then show "ring_abs (ring_put e r) ! i = take (rec_cap r) (e # ring_abs r) ! i"
    using assms by (cases i) (simp_all add: ring_abs_def ring_put_size ring_put_at)
qed

lemma ring_walk_take:
  assumes "ring_ok r" and "i \<le> ring_size r" and "limit > 0 \<longrightarrow> int (length out) < limit"
  shows "ring_walk r limit (ring_size r) i out
         = out @ (if limit > 0 then take (nat limit - length out) (drop i (ring_abs r)) else drop i (ring_abs r))"
  using assms
proof (induction "ring_size r - i" arbitrary: i out)
  case 0
  then show ?case by (simp add: ring_walk.simps ring_abs_def)
next
  case (Suc k)
  let ?o = "out @ [ring_at r i]"
  have i: "i < ring_size r" "i < rec_cap r" using Suc ring_size_le[OF assms(1)] by auto
  have hd: "drop i (ring_abs r) = ring_at r i # drop (Suc i) (ring_abs r)"
    using i by (simp add: ring_abs_def Cons_nth_drop_Suc[symmetric])
  have step: "ring_walk r limit (ring_size r) i out
      = (if limit > 0 \<and> int (length ?o) \<ge> limit then ?o else ring_walk r limit (ring_size r) (Suc i) ?o)"
    using i ring_index(1)[OF assms(1) i(2)] by (simp add: ring_walk.simps[of r limit _ i] Let_def)
  show ?case
  proof (cases "limit > 0 \<and> int (length ?o) \<ge> limit")
    case True
    then have "nat limit - length out = 1" using Suc.prems by auto
    with True step hd show ?thesis by simp
  next
    case False
    then have "ring_walk r limit (ring_size r) (Suc i) ?o
       = ?o @ (if limit > 0 then take (nat limit - length ?o) (drop (Suc i) (ring_abs r)) else drop (Suc i) (ring_abs r))"
      using Suc i by (intro Suc.hyps) auto
    moreover have "limit > 0 \<Longrightarrow> nat limit - length out = Suc (nat limit - length ?o)" using False by auto
    ultimately show ?thesis using False step hd by (cases "limit > 0") simp_all
  qed
qed

lemma Recorder_List_take:
  assumes "ring_ok r"
  shows "Recorder_List limit r = (if limit > 0 then take (nat limit) (ring_abs r) else ring_abs r)"
  using ring_walk_take[OF assms, of 0 limit "[]"] by (simp add: Recorder_List_def)

lemma DirectoryRecorder_List_take:
  assumes "ring_ok r"
  shows "DirectoryRecorder_List limit r = (if limit > 0 then take (nat limit) (ring_abs r) else ring_abs r)"
proof -
  have "map (\<lambda>i. rec_buf r ! nat ((int (rec_next r) - 1 - int i + int (rec_cap r) * 2) mod int (rec_cap r))) [0 ..< m]
        = take m (ring_abs r)" if "m \<le> ring_size r" for m
    using that ring_size_le[OF assms] ring_index(2)[OF assms] by (auto simp: ring_abs_def take_map)
  then show ?thesis
    by (auto simp: DirectoryRecorder_List_def Let_def ring_abs_def take_all_iff)
qed

lemma ring_new [simp]: "ring_ok (Recorder_New z c)" "ring_abs (Recorder_New z c) = []"
  "rec_cap (Recorder_New z c) = nat (if c \<le> 0 then 500 else c)"
  by (simp_all add: ring_ok_def Recorder_New_def ring_abs_def ring_size_def Let_def)

lemma rec_cap_put [simp]: "rec_cap (ring_put e r) = rec_cap r"
  by (simp add: ring_put_def Let_def)

interpretation signin_log: bounded_log ring_ok rec_cap ring_put Recorder_List
  by unfold_locales (simp_all add: ring_put_ok Recorder_List_take ring_abs_put)

interpretation directory_log: bounded_log ring_ok rec_cap ring_put DirectoryRecorder_List
  by unfold_locales (simp_all add: ring_put_ok DirectoryRecorder_List_take ring_abs_put)

lemma record_stamped:
  "fold (\<lambda>(rid, e). Recorder_Record rid e) es r = fold ring_put (map (\<lambda>(rid, e). stamp_event rid e) es) r"
  by (induction es arbitrary: r) (auto simp: Recorder_Record_def)

lemma directory_record_stamped:
  "fold (\<lambda>(wall, rid, e). DirectoryRecorder_Record wall rid e) es (Some r)
   = Some (fold ring_put (map (\<lambda>(wall, rid, e). stamp_directory wall rid e) es) r)"
  by (induction es arbitrary: r) (auto simp: DirectoryRecorder_Record_def)

lemma advance_frozen:
  assumes "ck_frozen c"
  shows "Clock_Now r (fold Clock_Advance ds c) = foldl i64_add (ck_frozenAt c) ds"
  using assms by (induction ds arbitrary: c) (simp_all add: Clock_Now_def Clock_Advance_def)

section \<open>Properties\<close>

text \<open>
  The sign-in log is a faithful bounded history: after any sequence of \<^verbatim>\<open>Record\<close> calls on a fresh
  recorder, \<^verbatim>\<open>List(limit)\<close> is the newest \<open>limit\<close> events (all of them when the limit is not positive),
  newest first, of the last \<^verbatim>\<open>cap\<close> recorded ones, each with its stamp; wrap-around of the ring loses
  and reorders nothing else.
\<close>

theorem signin_log_newest_first:
  "Recorder_List limit (fold (\<lambda>(rid, e). Recorder_Record rid e) es (Recorder_New zero c))
   = (let hist = take (nat (if c \<le> 0 then 500 else c)) (rev (map (\<lambda>(rid, e). stamp_event rid e) es))
      in if limit > 0 then take (nat limit) hist else hist)"
  using signin_log.lst_history[of "Recorder_New zero c"]
  by (simp add: record_stamped Recorder_List_take Let_def)

text \<open>
  The directory-audit log keeps the same promise, through its different index arithmetic and
  its own treatment of the limit.
\<close>

theorem directory_log_newest_first:
  "map_option (DirectoryRecorder_List limit)
     (fold (\<lambda>(wall, rid, e). DirectoryRecorder_Record wall rid e) es (Some (Recorder_New zero c)))
   = Some (let hist = take (nat (if c \<le> 0 then 500 else c)) (rev (map (\<lambda>(wall, rid, e). stamp_directory wall rid e) es))
           in if limit > 0 then take (nat limit) hist else hist)"
  using directory_log.lst_history[of "Recorder_New zero c"]
  by (simp add: directory_record_stamped DirectoryRecorder_List_take Let_def)

text \<open>
  A frozen clock is driven by \<^verbatim>\<open>Advance\<close> alone: after \<^verbatim>\<open>Freeze\<close> and any advances the reading is the
  time of the freeze plus the advances (64-bit), whatever real time has become, and \<^verbatim>\<open>Unfreeze\<close>
  resumes from exactly that reading, without a jump.
\<close>

theorem frozen_clock_controlled:
  assumes "is_int64 (ck_frozenAt c)"
  shows "Clock_Now r1 (fold Clock_Advance ds (Clock_Freeze r0 c)) = foldl i64_add (Clock_Now r0 c) ds
       \<and> Clock_Now r2 (Clock_Unfreeze r2 (fold Clock_Advance ds (Clock_Freeze r0 c))) = foldl i64_add (Clock_Now r0 c) ds"
proof -
  let ?c = "Clock_Freeze r0 c"
  have fr: "ck_frozen ?c" "ck_frozenAt ?c = Clock_Now r0 c"
    by (simp_all add: Clock_Freeze_def Clock_Now_def)
  have still: "ck_frozen (fold Clock_Advance ds k)" if "ck_frozen k" for k
    using that by (induction ds arbitrary: k) (simp_all add: Clock_Advance_def)
  have now: "Clock_Now r (fold Clock_Advance ds ?c) = foldl i64_add (Clock_Now r0 c) ds" for r
    using advance_frozen[OF fr(1), of r ds] fr(2) by simp
  have at: "ck_frozenAt (fold Clock_Advance ds ?c) = foldl i64_add (Clock_Now r0 c) ds"
    using now[of 0] still[OF fr(1)] by (simp add: Clock_Now_def)
  have "is_int64 (foldl i64_add (Clock_Now r0 c) ds)"
    using Clock_Now_range[OF assms(1), of r0] by (induction ds rule: rev_induct) (simp_all add: i64_add_def)
  then have "Clock_Now r2 (Clock_Unfreeze r2 (fold Clock_Advance ds ?c)) = foldl i64_add (Clock_Now r0 c) ds"
    using still[OF fr(1)] by (simp add: Clock_Now_def Clock_Unfreeze_def at i64_add_cancel)
  with now show ?thesis by simp
qed

theorem frozen_clock_controlled_witness:
  "Clock_Now 900 (fold Clock_Advance [60, 3600] (Clock_Freeze 100 Clock_New)) = 3760
   \<and> Clock_Now 950 (Clock_Unfreeze 950 (fold Clock_Advance [60, 3600] (Clock_Freeze 100 Clock_New))) = 3760"
  using frozen_clock_controlled[of Clock_New 900 "[60, 3600]" 100 950]
  by (simp add: Clock_New_def is_int64_def Clock_Now_def i64_add_def wrap64_def)

text \<open>
  \<^verbatim>\<open>Advance\<close> moves the controlled time by exactly its argument, frozen or not, and a later
  \<^verbatim>\<open>Freeze\<close> does not change the reading.
\<close>

theorem advance_exact:
  "Clock_Now r (Clock_Advance d c) = i64_add (Clock_Now r c) d \<and> Clock_Now r (Clock_Freeze r c) = Clock_Now r c"
  by (simp add: Clock_Now_def Clock_Advance_def Clock_Freeze_def i64_add_assoc)

end
