(* ===== verification/Identity.thy ===== *)
theory Identity
  imports TokenService Scopes Runtime
begin

text \<open>
  The shared parts of the STS surface (\<^verbatim>\<open>internal/identity/identity.go\<close>, the client authentication of
  \<^verbatim>\<open>token.go\<close>, \<^verbatim>\<open>federated.go\<close>, \<^verbatim>\<open>internal/tokens/clientassertion.go\<close>, \<^verbatim>\<open>internal/httpx\<close>): requests and
  responses, tenant resolution, signed form state, SSO sessions, and authenticating a client by
  secret, by its own signed assertion or by a federated workload token.
\<close>

section \<open>Requests, responses, state\<close>

text \<open>\<open>rq_form\<close> is \<^verbatim>\<open>PostFormValue\<close> and \<open>rq_query\<close> is \<^verbatim>\<open>URL.Query().Get\<close>: the empty string when the
  parameter is absent. \<open>rq_form_ok\<close> says whether \<^verbatim>\<open>ParseForm\<close> succeeds; \<open>rq_cookie\<close> is the value of the
  session cookie, empty when there is none.\<close>

record Request =
  rq_post :: bool
  rq_tenant :: string
  rq_form_ok :: bool
  rq_form :: "string \<Rightarrow> string"
  rq_query :: "string \<Rightarrow> string"
  rq_basic :: "(string \<times> string) option"
  rq_cookie :: string
  rq_path_id :: string
  rq_identity_header :: string

text \<open>
  What the code takes from packages outside the repository: HMAC-SHA256, parsing of a public-key
  PEM, an HTTP GET (status and body, nothing when it fails), and the decoding of an issuer's
  metadata and JWKS.
\<close>

record IEnv =
  ie_env :: Env
  ie_hmac :: "string \<Rightarrow> string \<Rightarrow> string"
  ie_public_pem :: "string \<Rightarrow> PublicKey option"
  ie_http :: "string \<Rightarrow> (int \<times> string) option"
  ie_jwks_uri :: "string \<Rightarrow> string option"
  ie_jwk_set :: "string \<Rightarrow> (string \<times> string \<times> string \<times> string) list option"

text \<open>A Go map from kid to key, as the association list of its writes, the last one first.\<close>

type_synonym key_set = "(string \<times> PublicKey) list"

record Identity =
  id_Service :: Service
  id_Faults :: FaultConfig
  id_stateKey :: string
  id_extKeys :: "string \<Rightarrow> key_set"

abbreviation id_Store :: "Identity \<Rightarrow> Store" where
  "id_Store i \<equiv> sv_Store (id_Service i)"

definition with_store :: "Store \<Rightarrow> Identity \<Rightarrow> Identity" where
  "with_store s i = i\<lparr>id_Service := (id_Service i)\<lparr>sv_Store := s\<rparr>\<rparr>"

text \<open>An error of the OAuth JSON shape, or a handler that panicked (the connection is dropped).\<close>

datatype oauth_err = OAuthError string string | Aborted

definition oauthStatus :: "string \<Rightarrow> int" where
  "oauthStatus code =
     (if code = ''invalid_client'' then 401 else if code = ''temporarily_unavailable'' then 503
      else if code = ''server_error'' then 500 else 400)"

definition writeRedeemErr :: "svc_err \<Rightarrow> oauth_err" where
  "writeRedeemErr e = (case e of
     RedeemErr c d \<Rightarrow> OAuthError c d
   | _ \<Rightarrow> OAuthError ''invalid_request'' ''AADSTS90002: The request could not be processed.'')"

section \<open>Tenants\<close>

definition tenantSegment :: "Config \<Rightarrow> Store \<Rightarrow> Request \<Rightarrow> string \<times> bool" where
  "tenantSegment cfg s rq =
     (let seg = rq_tenant rq in
      if seg = cf_TenantID cfg \<or> seg = ''common'' \<or> seg = ''organizations'' \<or> seg = ''consumers''
      then (cf_TenantID cfg, True)
      else case GetTenantByID s seg of Inr _ \<Rightarrow> (seg, True) | Inl _ \<Rightarrow> (seg, False))"

section \<open>Signed form state\<close>

definition signState :: "IEnv \<Rightarrow> string \<Rightarrow> string \<Rightarrow> string" where
  "signState ie key payload = RawURLEncode payload @ ''.'' @ RawURLEncode (ie_hmac ie key payload)"

definition verifyState :: "IEnv \<Rightarrow> string \<Rightarrow> string \<Rightarrow> string option" where
  "verifyState ie key signed =
     (let dot = LastIndex signed (CHR ''.'') in
      if dot < 0 then None
      else case RawURLDecode (slice_to signed dot) of
        None \<Rightarrow> None
      | Some payload \<Rightarrow>
        (case RawURLDecode (slice_from signed (dot + 1)) of
           None \<Rightarrow> None
         | Some sig \<Rightarrow> if ie_hmac ie key payload \<noteq> sig then None else Some payload))"

lemma verifyState_signState: "verifyState ie key (signState ie key payload) = Some payload"
proof -
  have "CHR ''.'' \<notin> set (RawURLEncode (ie_hmac ie key payload))" by simp
  note cut = LastIndex_cut[OF this, of "RawURLEncode payload"]
  show ?thesis
    using cut by (simp add: verifyState_def signState_def Let_def)
qed

lemma verifyState_mac:
  assumes "verifyState ie key signed = Some payload"
  shows "RawURLDecode (slice_from signed (LastIndex signed (CHR ''.'') + 1)) = Some (ie_hmac ie key payload)"
  using assms by (auto simp: verifyState_def Let_def split: if_splits option.splits)

section \<open>Sessions\<close>

definition sessionLifetimeSeconds :: int where
  "sessionLifetimeSeconds = 8 * 60 * 60"

definition currentSession :: "int \<Rightarrow> Store \<Rightarrow> Request \<Rightarrow> (Session \<times> User) option" where
  "currentSession now s rq =
     (if rq_cookie rq = [] then None
      else case GetSession s (rq_cookie rq) of
        Inl _ \<Rightarrow> None
      | Inr sess \<Rightarrow>
          if se_ExpiresAt sess \<le> now then None
          else (case GetUser s (se_UserID sess) of
             Inl _ \<Rightarrow> None
           | Inr user \<Rightarrow> if \<not> u_AccountEnabled user then None else Some (sess, user)))"

definition enabledDirectoryAccounts :: "Store \<Rightarrow> User list" where
  "enabledDirectoryAccounts s = filter u_AccountEnabled (fst (ListUsers s 100 0 []))"

text \<open>\<open>sid\<close> is the fresh session id; the cookie is set exactly when a session is returned.\<close>

definition createSession :: "int \<Rightarrow> string \<Rightarrow> string \<Rightarrow> string \<Rightarrow> Store \<Rightarrow> Session option \<times> Store" where
  "createSession now sid userID amethod s =
     (let sess = \<lparr>se_ID = sid, se_UserID = userID, se_AuthMethod = (if amethod = [] then ''pwd'' else amethod),
                  se_CreatedAt = now, se_ExpiresAt = i64_add now sessionLifetimeSeconds\<rparr> in
      case CreateSession sess s of
        (Inl _, s1) \<Rightarrow> (None, s1)
      | (Inr _, s1) \<Rightarrow> (Some sess, s1))"

definition clearSession :: "Request \<Rightarrow> Store \<Rightarrow> Store" where
  "clearSession rq s = (if rq_cookie rq \<noteq> [] then DeleteSession (rq_cookie rq) s else s)"

section \<open>Client assertions\<close>

text \<open>The key loops of \<^verbatim>\<open>VerifyClientAssertion\<close> and \<^verbatim>\<open>VerifyRequestObject\<close>: the claims under the first
  registered key that verifies the JWS; keys that do not parse are skipped.\<close>

fun verify_any_key :: "IEnv \<Rightarrow> string list \<Rightarrow> string \<Rightarrow> claims option" where
  "verify_any_key ie [] jws = None"
| "verify_any_key ie (pem # rest) jws =
     (case ie_public_pem ie pem of
        None \<Rightarrow> verify_any_key ie rest jws
      | Some pub \<Rightarrow>
        (case VerifyClientJWS (ie_env ie) pub jws of
           Inr c \<Rightarrow> Some c
         | Inl _ \<Rightarrow> verify_any_key ie rest jws))"

definition VerifyClientAssertion ::
  "IEnv \<Rightarrow> string \<Rightarrow> string \<Rightarrow> string list \<Rightarrow> string list \<Rightarrow> int \<Rightarrow> svc_err + unit" where
  "VerifyClientAssertion ie assertion clientID publicKeysPEM acceptedAudiences now =
     (if publicKeysPEM = [] then Inl (Failed ''no registered key credentials for the client'')
      else if verify_any_key ie publicKeysPEM assertion = None
      then Inl (Failed ''assertion signature does not match any registered key'')
      else case DecodeUnverified (ie_env ie) assertion of
        Inl e \<Rightarrow> Inl e
      | Inr c \<Rightarrow>
          if str_claim c ''iss'' \<noteq> clientID \<or> str_claim c ''sub'' \<noteq> clientID
          then Inl (Failed ''assertion iss/sub must equal the client_id'')
          else if (case numClaim c ''exp'' of None \<Rightarrow> True | Some e \<Rightarrow> now > i64_add e clockSkewSeconds)
          then Inl (Failed ''assertion expired'')
          else if (case numClaim c ''nbf'' of None \<Rightarrow> False | Some n \<Rightarrow> now < i64_add n (- clockSkewSeconds))
          then Inl (Failed ''assertion not yet valid'')
          else if str_claim c ''aud'' \<in> set acceptedAudiences then Inr ()
          else Inl (Failed (''assertion aud '' @ jstr (str_claim c ''aud'') @ '' is not an accepted token-endpoint audience'')))"

definition VerifyRequestObject :: "IEnv \<Rightarrow> string \<Rightarrow> string \<Rightarrow> string list \<Rightarrow> int \<Rightarrow> svc_err + claims" where
  "VerifyRequestObject ie object clientID publicKeysPEM now =
     (if publicKeysPEM = [] then Inl (Failed ''no registered key credentials for the client'')
      else case verify_any_key ie publicKeysPEM object of
        None \<Rightarrow> Inl (Failed ''signature does not match any registered key'')
      | Some c \<Rightarrow>
          if str_claim c ''iss'' \<noteq> clientID then Inl (Failed ''request object iss must be the client_id'')
          else if (case numClaim c ''exp'' of None \<Rightarrow> False | Some e \<Rightarrow> now \<ge> e)
          then Inl (Failed ''request object has expired'')
          else if (case numClaim c ''nbf'' of None \<Rightarrow> False | Some n \<Rightarrow> now < n)
          then Inl (Failed ''request object is not yet valid'')
          else Inr c)"

definition verifyClientAssertion :: "IEnv \<Rightarrow> Config \<Rightarrow> int \<Rightarrow> Store \<Rightarrow> string \<Rightarrow> string \<Rightarrow> oauth_err option" where
  "verifyClientAssertion ie cfg now s appID assertion =
     (let creds = ListAppKeyCredentials s appID in
      if creds = [] then Some (OAuthError ''invalid_client'' ''AADSTS700027: No key credentials are registered for the client.'')
      else case VerifyClientAssertion ie assertion appID (map kc_PublicKey creds)
               [cf_Login cfg @ ''/'' @ cf_TenantID cfg @ ''/oauth2/v2.0/token'', cf_Issuer cfg] now of
        Inl e \<Rightarrow> Some (OAuthError ''invalid_client'' (''AADSTS700027: Client assertion validation failed: '' @ err_text e))
      | Inr _ \<Rightarrow> None)"

section \<open>Workload identity federation\<close>

text \<open>
  The public keys of an issuer's JWKS. \<^verbatim>\<open>copy(padded[8-len(eb):], eb)\<close> slices out of range, and
  panics, when the decoded exponent is longer than 8 bytes.
\<close>

fun issuer_keys :: "(string \<times> string \<times> string \<times> string) list \<Rightarrow> key_set \<Rightarrow> key_set option" where
  "issuer_keys [] out = Some out"
| "issuer_keys ((kid, kty, n, e) # rest) out =
     (if kty \<noteq> ''RSA'' then issuer_keys rest out
      else case RawURLDecode n of
        None \<Rightarrow> issuer_keys rest out
      | Some nb \<Rightarrow>
        (case RawURLDecode e of
           None \<Rightarrow> issuer_keys rest out
         | Some eb \<Rightarrow>
             if length eb > 8 then None
             else issuer_keys rest ((kid, \<lparr>pk_N = be_val nb, pk_E = wrap64 (int (be_val eb))\<rparr>) # out)))"

datatype fetch_result = Keys key_set | FetchErr string | FetchPanic

definition fetchIssuerKeys :: "IEnv \<Rightarrow> string \<Rightarrow> fetch_result" where
  "fetchIssuerKeys ie issuer =
     (case ie_http ie (TrimSuffix issuer ''/'' @ ''/.well-known/openid-configuration'') of
        None \<Rightarrow> FetchErr ''fetch issuer metadata''
      | Some (status, body) \<Rightarrow>
        if status \<noteq> 200 then FetchErr ''issuer metadata returned''
        else case ie_jwks_uri ie body of
          None \<Rightarrow> FetchErr ''issuer metadata has no jwks_uri''
        | Some uri \<Rightarrow>
          if uri = [] then FetchErr ''issuer metadata has no jwks_uri''
          else case ie_http ie uri of
            None \<Rightarrow> FetchErr ''fetch issuer JWKS''
          | Some (jstatus, jbody) \<Rightarrow>
            if jstatus \<noteq> 200 then FetchErr ''issuer JWKS returned''
            else case ie_jwk_set ie jbody of
              None \<Rightarrow> FetchErr ''decode issuer JWKS''
            | Some ks \<Rightarrow>
              (case issuer_keys ks [] of
                 None \<Rightarrow> FetchPanic
               | Some out \<Rightarrow> if out = [] then FetchErr ''issuer JWKS contains no usable RSA keys'' else Keys out))"

definition fetch_text :: "fetch_result \<Rightarrow> string" where
  "fetch_text f = (case f of FetchErr m \<Rightarrow> m | _ \<Rightarrow> [])"

text \<open>\<^verbatim>\<open>issuerKeyCache.get\<close>: a cached kid needs no fetch; otherwise the issuer's whole entry is
  replaced by what was fetched.\<close>

definition extKeys_get :: "IEnv \<Rightarrow> string \<Rightarrow> string \<Rightarrow> Identity \<Rightarrow> (fetch_result + PublicKey) \<times> Identity" where
  "extKeys_get ie issuer kid i =
     (case map_of (id_extKeys i issuer) kid of
        Some k \<Rightarrow> (Inr k, i)
      | None \<Rightarrow>
        (case fetchIssuerKeys ie issuer of
           Keys fetched \<Rightarrow>
             (let i1 = i\<lparr>id_extKeys := (id_extKeys i)(issuer := fetched)\<rparr> in
              case map_of fetched kid of
                Some k \<Rightarrow> (Inr k, i1)
              | None \<Rightarrow> (Inl (FetchErr ''issuer publishes no key with that kid''), i1))
         | err \<Rightarrow> (Inl err, i)))"

definition isFederatedAssertion :: "claims \<Rightarrow> string \<Rightarrow> bool" where
  "isFederatedAssertion c appID \<longleftrightarrow> str_claim c ''iss'' \<noteq> appID \<or> str_claim c ''sub'' \<noteq> appID"

definition assertionKid :: "Env \<Rightarrow> string \<Rightarrow> svc_err + string" where
  "assertionKid env assertion =
     (case SplitChar assertion (CHR ''.'') of
        [h, p, sg] \<Rightarrow>
          (case RawURLDecode h of
             None \<Rightarrow> Inl (Failed ''malformed assertion header'')
           | Some raw \<Rightarrow>
             (case env_header env raw of
                None \<Rightarrow> Inl (Failed ''malformed assertion header'')
              | Some (alg, kid) \<Rightarrow>
                  if alg \<noteq> ''RS256'' then Inl (Failed (''unsupported assertion alg '' @ jstr alg)) else Inr kid))
      | _ \<Rightarrow> Inl (Failed ''malformed assertion''))"

definition assertion_auds :: "claims \<Rightarrow> string list" where
  "assertion_auds c = (case c ''aud'' of Some (CStr a) \<Rightarrow> [a] | Some (CStrs as) \<Rightarrow> as | _ \<Rightarrow> [])"

fun match_any_aud :: "Store \<Rightarrow> string \<Rightarrow> string \<Rightarrow> string \<Rightarrow> string list \<Rightarrow> FederatedCredential option" where
  "match_any_aud s appID iss sub [] = None"
| "match_any_aud s appID iss sub (aud # rest) =
     (case MatchFederatedCredential s appID iss sub aud of
        Inr c \<Rightarrow> Some c
      | Inl _ \<Rightarrow> match_any_aud s appID iss sub rest)"

definition fed_err :: "string \<Rightarrow> oauth_err" where
  "fed_err d = OAuthError ''invalid_client'' (''AADSTS700213: '' @ d)"

definition verifyFederatedAssertion ::
  "IEnv \<Rightarrow> int \<Rightarrow> App \<Rightarrow> string \<Rightarrow> claims \<Rightarrow> Identity \<Rightarrow> oauth_err option \<times> Identity" where
  "verifyFederatedAssertion ie now app assertion c i =
     (let iss = str_claim c ''iss''; sub = str_claim c ''sub'' in
      if iss = [] \<or> sub = [] then (Some (fed_err ''The federated assertion is missing iss or sub.''), i)
      else case match_any_aud (id_Store i) (a_ID app) iss sub (assertion_auds c) of
        None \<Rightarrow> (Some (fed_err (''No matching federated identity record found for issuer '' @ quoted iss @
                  '' and subject '' @ quoted sub @ ''.'')), i)
      | Some cred \<Rightarrow>
        (case assertionKid (ie_env ie) assertion of
           Inl e \<Rightarrow> (Some (fed_err (err_text e)), i)
         | Inr kid \<Rightarrow>
           (case extKeys_get ie iss kid i of
              (Inl FetchPanic, i1) \<Rightarrow> (Some Aborted, i1)
            | (Inl f, i1) \<Rightarrow> (Some (fed_err (''Could not validate against the issuer'' @ [CHR 0x27] @ ''s keys: '' @ fetch_text f)), i1)
            | (Inr key, i1) \<Rightarrow>
              (case VerifyRS256 (ie_env ie) key assertion of
                 Inl _ \<Rightarrow> (Some (fed_err ''Federated assertion signature validation failed.''), i1)
               | Inr v \<Rightarrow>
                 if (case numClaim v ''exp'' of None \<Rightarrow> False | Some e \<Rightarrow> now \<ge> e)
                 then (Some (fed_err ''The federated assertion has expired.''), i1)
                 else if (case numClaim v ''nbf'' of None \<Rightarrow> False | Some n \<Rightarrow> now < n)
                 then (Some (fed_err ''The federated assertion is not yet valid.''), i1)
                 else (None, i1)))))"

section \<open>Client authentication\<close>

definition hex_val :: "char \<Rightarrow> nat option" where
  "hex_val c =
     (let n = of_char c :: nat in
      if 48 \<le> n \<and> n \<le> 57 then Some (n - 48) else if 97 \<le> n \<and> n \<le> 102 then Some (n - 87)
      else if 65 \<le> n \<and> n \<le> 70 then Some (n - 55) else None)"

text \<open>\<^verbatim>\<open>url.QueryUnescape\<close>.\<close>

fun QueryUnescape :: "string \<Rightarrow> string option" where
  "QueryUnescape [] = Some []"
| "QueryUnescape (c # cs) =
     (if c = CHR ''%'' then
        (case cs of
           a # b # rest \<Rightarrow>
             (case hex_val a of
                None \<Rightarrow> None
              | Some x \<Rightarrow> (case hex_val b of
                  None \<Rightarrow> None
                | Some y \<Rightarrow> map_option ((#) (char_of (x * 16 + y))) (QueryUnescape rest)))
         | _ \<Rightarrow> None)
      else map_option ((#) (if c = CHR ''+'' then CHR '' '' else c)) (QueryUnescape cs))"

definition decodeBasicComponent :: "string \<Rightarrow> string" where
  "decodeBasicComponent s = (case QueryUnescape s of None \<Rightarrow> s | Some d \<Rightarrow> d)"

text \<open>The client id and secret of a request: the form fields, overridden by HTTP Basic as the code
  does, then the subject of an assertion.\<close>

definition client_credentials_of :: "Env \<Rightarrow> Request \<Rightarrow> string \<times> string" where
  "client_credentials_of env rq =
     (let clientID0 = rq_form rq ''client_id''; secret0 = rq_form rq ''client_secret'';
          (clientID1, secret1) =
            (case rq_basic rq of
               None \<Rightarrow> (clientID0, secret0)
             | Some (user, pass) \<Rightarrow>
               (let user = decodeBasicComponent user; cid = (if clientID0 = [] then user else clientID0)
                in (cid, if cid = user \<and> pass \<noteq> [] then pass else secret0)));
          assertion = rq_form rq ''client_assertion'';
          clientID2 = (if assertion \<noteq> [] \<and> clientID1 = []
             then (case DecodeUnverified env assertion of Inr c \<Rightarrow> str_claim c ''sub'' | Inl _ \<Rightarrow> clientID1)
             else clientID1)
      in (clientID2, secret1))"

definition check_secret :: "Env \<Rightarrow> int \<Rightarrow> Store \<Rightarrow> App \<Rightarrow> string \<Rightarrow> oauth_err + App" where
  "check_secret env now s app secret =
     (if a_IsConfidential app then
        (if secret = [] then Inl (OAuthError ''invalid_client'' ''AADSTS7000215: A client secret is required for confidential clients.'')
         else if \<not> VerifyAppSecret (env_verify_secret env) now s (a_ID app) secret
         then Inl (OAuthError ''invalid_client'' (''AADSTS7000215: Invalid client secret provided. Ensure the secret being sent in the request is the client secret value, not the client secret ID, for a secret added to app '' @ quoted (a_ID app) @ ''.''))
         else Inr app)
      else if secret \<noteq> [] then Inl (OAuthError ''invalid_client'' ''AADSTS700025: Public clients must not send a client secret.'')
      else Inr app)"

definition authenticateClient :: "IEnv \<Rightarrow> Config \<Rightarrow> int \<Rightarrow> Request \<Rightarrow> Identity \<Rightarrow> (oauth_err + App) \<times> Identity" where
  "authenticateClient ie cfg now rq i =
     (let env = ie_env ie; s = id_Store i; (clientID, secret) = client_credentials_of env rq;
          assertion = rq_form rq ''client_assertion'' in
      if clientID = [] then (Inl (OAuthError ''invalid_request'' ''AADSTS900144: client_id is required.''), i)
      else case GetApp s clientID of
        Inl _ \<Rightarrow> (Inl (OAuthError ''unauthorized_client''
                 (''AADSTS700038: '' @ clientID @ '' is not a valid application identifier.'')), i)
      | Inr app \<Rightarrow>
        if assertion = [] then (check_secret env now s app secret, i)
        else if rq_form rq ''client_assertion_type'' \<noteq> ''urn:ietf:params:oauth:client-assertion-type:jwt-bearer''
        then (Inl (OAuthError ''invalid_request'' ''AADSTS900144: unsupported client_assertion_type.''), i)
        else case DecodeUnverified env assertion of
          Inl _ \<Rightarrow> (Inl (OAuthError ''invalid_client'' ''AADSTS700027: Client assertion is malformed.''), i)
        | Inr c \<Rightarrow>
          if isFederatedAssertion c (a_ID app) then
            (case verifyFederatedAssertion ie now app assertion c i of
               (Some e, i1) \<Rightarrow> (Inl e, i1)
             | (None, i1) \<Rightarrow> (Inr app, i1))
          else (case verifyClientAssertion ie cfg now s (a_ID app) assertion of
             Some e \<Rightarrow> (Inl e, i)
           | None \<Rightarrow> (Inr app, i)))"

section \<open>What client authentication establishes\<close>

lemma verify_any_key_Some:
  "verify_any_key ie pems jws = Some c \<Longrightarrow>
   \<exists>pem \<in> set pems. \<exists>pub. ie_public_pem ie pem = Some pub \<and> VerifyClientJWS (ie_env ie) pub jws = Inr c"
  by (induction ie pems jws rule: verify_any_key.induct) (auto split: option.splits sum.splits)

lemma match_any_aud_Some:
  "match_any_aud s appID iss sub auds = Some cred \<Longrightarrow> \<exists>aud \<in> set auds. MatchFederatedCredential s appID iss sub aud = Inr cred"
  by (induction s appID iss sub auds rule: match_any_aud.induct) (auto split: sum.splits)

lemma extKeys_get_service: "extKeys_get ie iss kid i = (r, i') \<Longrightarrow> id_Service i' = id_Service i"
  by (auto simp: extKeys_get_def Let_def split: option.splits fetch_result.splits)

lemma verifyFederatedAssertion_service:
  "verifyFederatedAssertion ie now app a c i = (r, i') \<Longrightarrow> id_Service i' = id_Service i"
  unfolding verifyFederatedAssertion_def Let_def
  by (auto split: if_splits option.splits sum.splits prod.splits fetch_result.splits dest: extKeys_get_service)

text \<open>
  The three proofs a client can give, over the rows of the store and the decoded claims: a secret with a row of the
  application that has not expired and whose hash verifies; an assertion about itself, signed with a key registered on
  the application, in its time and addressed to this server; an assertion of an external issuer, signed with a key
  that issuer publishes, matching a federated credential of the application, in its time.
\<close>

definition secret_proves :: "IEnv \<Rightarrow> int \<Rightarrow> Store \<Rightarrow> string \<Rightarrow> string \<Rightarrow> bool" where
  "secret_proves ie now s appID secret \<longleftrightarrow>
     (\<exists>sec \<in> set (app_secrets s). sec_AppID sec = appID \<and> (sec_ExpiresAt sec = 0 \<or> now < sec_ExpiresAt sec)
        \<and> env_verify_secret (ie_env ie) secret (sec_SecretHash sec))"

definition key_proves :: "IEnv \<Rightarrow> Config \<Rightarrow> int \<Rightarrow> Store \<Rightarrow> string \<Rightarrow> string \<Rightarrow> bool" where
  "key_proves ie cfg now s appID assertion \<longleftrightarrow>
     (\<exists>cred \<in> set (app_key_credentials s). \<exists>pub v c e. kc_AppID cred = appID \<and> ie_public_pem ie (kc_PublicKey cred) = Some pub
        \<and> VerifyClientJWS (ie_env ie) pub assertion = Inr v \<and> DecodeUnverified (ie_env ie) assertion = Inr c
        \<and> c ''iss'' = Some (CStr appID) \<and> c ''sub'' = Some (CStr appID)
        \<and> c ''exp'' = Some (CInt e) \<and> now \<le> i64_add e 60 \<and> (\<forall>n. c ''nbf'' = Some (CInt n) \<longrightarrow> i64_add n (- 60) \<le> now)
        \<and> str_claim c ''aud'' \<in> {cf_Login cfg @ ''/'' @ cf_TenantID cfg @ ''/oauth2/v2.0/token'', cf_Issuer cfg})"

definition issuer_key :: "IEnv \<Rightarrow> Identity \<Rightarrow> string \<Rightarrow> string \<Rightarrow> PublicKey \<Rightarrow> bool" where
  "issuer_key ie i iss kid pub \<longleftrightarrow>
     map_of (id_extKeys i iss) kid = Some pub
     \<or> (\<exists>ks. fetchIssuerKeys ie iss = Keys ks \<and> map_of ks kid = Some pub)"

definition federated_proves :: "IEnv \<Rightarrow> int \<Rightarrow> Identity \<Rightarrow> string \<Rightarrow> string \<Rightarrow> bool" where
  "federated_proves ie now i appID assertion \<longleftrightarrow>
     (\<exists>c cred kid pub v. DecodeUnverified (ie_env ie) assertion = Inr c
        \<and> cred \<in> set (app_federated_credentials (id_Store i)) \<and> fc_AppID cred = appID
        \<and> c ''iss'' = Some (CStr (fc_Issuer cred)) \<and> c ''sub'' = Some (CStr (fc_Subject cred))
        \<and> (\<exists>aud \<in> set (fc_Audiences cred). c ''aud'' = Some (CStr aud) \<or> (\<exists>auds. c ''aud'' = Some (CStrs auds) \<and> aud \<in> set auds))
        \<and> assertionKid (ie_env ie) assertion = Inr kid \<and> issuer_key ie i (fc_Issuer cred) kid pub
        \<and> VerifyRS256 (ie_env ie) pub assertion = Inr v
        \<and> (\<forall>e. v ''exp'' = Some (CInt e) \<longrightarrow> now < e) \<and> (\<forall>n. v ''nbf'' = Some (CInt n) \<longrightarrow> n \<le> now))"

lemma check_secrets_iff:
  "check_secrets verify now p rows \<longleftrightarrow> (\<exists>sec \<in> set rows. (sec_ExpiresAt sec = 0 \<or> now < sec_ExpiresAt sec) \<and> verify p (sec_SecretHash sec))"
  by (induction verify now p rows rule: check_secrets.induct) auto

lemma VerifyAppSecret_iff: "VerifyAppSecret (env_verify_secret (ie_env ie)) now s appID p \<longleftrightarrow> secret_proves ie now s appID p"
  by (auto simp: VerifyAppSecret_def check_secrets_iff secret_proves_def ListSecrets_def)

lemma str_claim_Some: "str_claim c k = v \<Longrightarrow> v \<noteq> [] \<Longrightarrow> c k = Some (CStr v)"
  by (auto simp: str_claim_def split: option.splits cval.splits)

lemma verifyClientAssertion_accepts:
  assumes "verifyClientAssertion ie cfg now s appID assertion = None" and "appID \<noteq> []"
  shows "key_proves ie cfg now s appID assertion"
proof -
  let ?auds = "[cf_Login cfg @ ''/'' @ cf_TenantID cfg @ ''/oauth2/v2.0/token'', cf_Issuer cfg]"
  have "VerifyClientAssertion ie assertion appID (map kc_PublicKey (ListAppKeyCredentials s appID)) ?auds now = Inr ()"
    using assms by (auto simp: verifyClientAssertion_def Let_def split: if_splits sum.splits)
  then obtain v c e where v: "verify_any_key ie (map kc_PublicKey (ListAppKeyCredentials s appID)) assertion = Some v"
    and c: "DecodeUnverified (ie_env ie) assertion = Inr c" "str_claim c ''iss'' = appID" "str_claim c ''sub'' = appID"
      "numClaim c ''exp'' = Some e" "now \<le> i64_add e clockSkewSeconds" "\<forall>n. numClaim c ''nbf'' = Some n \<longrightarrow> i64_add n (- clockSkewSeconds) \<le> now"
      "str_claim c ''aud'' \<in> set ?auds"
    unfolding VerifyClientAssertion_def by (auto simp: not_less split: if_splits option.splits sum.splits)
  from verify_any_key_Some[OF v] obtain cred pub where k: "cred \<in> set (app_key_credentials s)" "kc_AppID cred = appID"
    "ie_public_pem ie (kc_PublicKey cred) = Some pub" "VerifyClientJWS (ie_env ie) pub assertion = Inr v"
    by (auto simp: ListAppKeyCredentials_def)
  have n: "c k = Some (CInt x) \<Longrightarrow> numClaim c k = Some x" for k x by (simp add: numClaim_def)
  have e: "c ''exp'' = Some (CInt e)" using c(4) by (auto simp: numClaim_def split: option.splits cval.splits)
  show ?thesis unfolding key_proves_def
    by (intro bexI[OF _ k(1)] exI[of _ pub] exI[of _ v] exI[of _ c] exI[of _ e] conjI)
       (use k c e n str_claim_Some[OF c(2) assms(2)] str_claim_Some[OF c(3) assms(2)] in \<open>auto simp: clockSkewSeconds_def\<close>)
qed

lemma extKeys_get_key: "extKeys_get ie iss kid i = (Inr pub, i') \<Longrightarrow> issuer_key ie i iss kid pub"
  by (auto simp: extKeys_get_def issuer_key_def Let_def split: option.splits fetch_result.splits)

lemma verifyFederatedAssertion_accepts:
  assumes "verifyFederatedAssertion ie now app assertion c i = (None, i')"
    and "DecodeUnverified (ie_env ie) assertion = Inr c"
  shows "federated_proves ie now i (a_ID app) assertion"
proof -
  let ?iss = "str_claim c ''iss''" and ?sub = "str_claim c ''sub''"
  have ne: "?iss \<noteq> []" "?sub \<noteq> []" using assms(1) by (auto simp: verifyFederatedAssertion_def Let_def split: if_splits)
  obtain cred where cred: "match_any_aud (id_Store i) (a_ID app) ?iss ?sub (assertion_auds c) = Some cred"
    using assms(1) by (auto simp: verifyFederatedAssertion_def Let_def split: if_splits option.splits)
  obtain kid where kid: "assertionKid (ie_env ie) assertion = Inr kid"
    using assms(1) cred by (auto simp: verifyFederatedAssertion_def Let_def split: if_splits sum.splits)
  obtain pub i1 where pub: "extKeys_get ie ?iss kid i = (Inr pub, i1)"
    using assms(1) cred kid
    by (auto simp: verifyFederatedAssertion_def Let_def split: if_splits sum.splits prod.splits fetch_result.splits)
  obtain v where v: "VerifyRS256 (ie_env ie) pub assertion = Inr v"
    using assms(1) cred kid pub by (auto simp: verifyFederatedAssertion_def Let_def split: if_splits sum.splits)
  have t: "(\<forall>e. numClaim v ''exp'' = Some e \<longrightarrow> now < e) \<and> (\<forall>n. numClaim v ''nbf'' = Some n \<longrightarrow> n \<le> now)"
    using assms(1) ne cred kid pub v unfolding verifyFederatedAssertion_def by (auto simp: Let_def split: if_splits option.splits)
  from match_any_aud_Some[OF cred] obtain aud where aud: "aud \<in> set (assertion_auds c)"
    and m: "MatchFederatedCredential (id_Store i) (a_ID app) ?iss ?sub aud = Inr cred" by blast
  from m have row: "cred \<in> set (app_federated_credentials (id_Store i))" "fc_AppID cred = a_ID app" "fc_Issuer cred = ?iss" "fc_Subject cred = ?sub"
    "aud \<in> set (fc_Audiences cred)"
    by (auto simp: MatchFederatedCredential_def split: option.splits if_splits dest: sql_first_Some)
  have a: "c ''aud'' = Some (CStr aud) \<or> (\<exists>auds. c ''aud'' = Some (CStrs auds) \<and> aud \<in> set auds)"
    using aud unfolding assertion_auds_def by (cases "c ''aud''"; cases "the (c ''aud'')") auto
  have n: "v k = Some (CInt x) \<Longrightarrow> numClaim v k = Some x" for k x by (simp add: numClaim_def)
  show ?thesis unfolding federated_proves_def
    by (intro exI[of _ c] exI[of _ cred] exI[of _ kid] exI[of _ pub] exI[of _ v] conjI)
       (use assms(2) row a kid v t n extKeys_get_key[OF pub] str_claim_Some[OF _ ne(1)] str_claim_Some[OF _ ne(2)] in auto)
qed

lemma authenticateClient_service: "authenticateClient ie cfg now rq i = (r, i') \<Longrightarrow> id_Service i' = id_Service i"
  unfolding authenticateClient_def Let_def
  by (auto split: if_splits option.splits sum.splits prod.splits dest: verifyFederatedAssertion_service)

section \<open>A concrete request\<close>

definition ie0 :: IEnv where
  "ie0 = \<lparr>ie_env = env0 Map.empty, ie_hmac = (\<lambda>k p. k @ p), ie_public_pem = (\<lambda>_. None), ie_http = (\<lambda>_. None),
     ie_jwks_uri = (\<lambda>_. None), ie_jwk_set = (\<lambda>_. None)\<rparr>"

definition post0 :: "(string \<times> string) list \<Rightarrow> Request" where
  "post0 kvs = \<lparr>rq_post = True, rq_tenant = ''t'', rq_form_ok = True,
     rq_form = (\<lambda>k. case map_of kvs k of None \<Rightarrow> [] | Some v \<Rightarrow> v), rq_query = (\<lambda>k. []), rq_basic = None,
     rq_cookie = ''sid'', rq_path_id = [], rq_identity_header = []\<rparr>"

definition secret0 :: AppSecret where
  "secret0 = \<lparr>sec_ID = ''s'', sec_AppID = ''app'', sec_DisplayName = [], sec_SecretHash = ''hunter2'', sec_Hint = [],
     sec_ExpiresAt = 0, sec_CreatedAt = 1\<rparr>"

definition session0 :: Session where
  "session0 = \<lparr>se_ID = ''sid'', se_UserID = ''u'', se_AuthMethod = ''pwd'', se_CreatedAt = 5, se_ExpiresAt = 1000\<rparr>"

definition identity0 :: Identity where
  "identity0 = \<lparr>id_Service = service0\<lparr>sv_Store := store0\<lparr>app_secrets := [secret0], sessions := [session0]\<rparr>\<rparr>,
     id_Faults = no_faults, id_stateKey = ''key'', id_extKeys = (\<lambda>_. [])\<rparr>"

section \<open>Properties\<close>

text \<open>What a request must prove about the client it names.\<close>

definition client_proved :: "IEnv \<Rightarrow> Config \<Rightarrow> int \<Rightarrow> Request \<Rightarrow> Identity \<Rightarrow> App \<Rightarrow> bool" where
  "client_proved ie cfg now rq i app \<longleftrightarrow>
     (let secret = snd (client_credentials_of (ie_env ie) rq); assertion = rq_form rq ''client_assertion'' in
      if assertion = [] then
        (if a_IsConfidential app then secret \<noteq> [] \<and> secret_proves ie now (id_Store i) (a_ID app) secret else secret = [])
      else rq_form rq ''client_assertion_type'' = ''urn:ietf:params:oauth:client-assertion-type:jwt-bearer''
        \<and> (key_proves ie cfg now (id_Store i) (a_ID app) assertion \<or> federated_proves ie now i (a_ID app) assertion))"

text \<open>
  C9. A client is authenticated only as the registered application the request names. Without an assertion, a confidential
  client presented a secret of which that application has an unexpired row whose hash verifies; a public client, which
  has nothing to prove with, is accepted on its identifier alone, and only when the request carries no secret. With an
  assertion, of the one type supported, it either names the application as issuer and subject, is addressed to this
  server, is within its times and verifies under a key registered on the application, or its issuer, subject and audience
  match a federated credential of the application, it verifies under a key of that issuer and is within its times.
  Authentication changes no stored state.
\<close>

theorem client_authentication_sound:
  assumes "authenticateClient ie cfg now rq i = (Inr app, i')"
  shows "GetApp (id_Store i) (fst (client_credentials_of (ie_env ie) rq)) = Inr app
    \<and> client_proved ie cfg now rq i app \<and> id_Service i' = id_Service i"
proof -
  obtain cid secret where cs: "client_credentials_of (ie_env ie) rq = (cid, secret)" by fastforce
  let ?a = "rq_form rq ''client_assertion''"
  have app: "cid \<noteq> []" "GetApp (id_Store i) cid = Inr app"
    using assms cs unfolding authenticateClient_def Let_def by (auto split: if_splits option.splits sum.splits prod.splits simp: check_secret_def)
  then have "a_ID app \<noteq> []" by (auto simp: GetApp_def one_row_def App.defs split: option.splits dest!: sql_first_Some)
  have "client_proved ie cfg now rq i app"
  proof (cases "?a = []")
    case True
    with assms cs app show ?thesis
      by (auto simp: authenticateClient_def client_proved_def check_secret_def VerifyAppSecret_iff Let_def split: if_splits)
  next
    case False
    then have type: "rq_form rq ''client_assertion_type'' = ''urn:ietf:params:oauth:client-assertion-type:jwt-bearer''"
      using assms cs app by (auto simp: authenticateClient_def Let_def split: if_splits)
    obtain c where c: "DecodeUnverified (ie_env ie) ?a = Inr c"
      using assms cs app False by (auto simp: authenticateClient_def Let_def split: if_splits sum.splits)
    show ?thesis
    proof (cases "isFederatedAssertion c (a_ID app)")
      case True
      with assms cs app False c have "verifyFederatedAssertion ie now app ?a c i = (None, i')"
        by (auto simp: authenticateClient_def Let_def split: if_splits prod.splits option.splits)
      from verifyFederatedAssertion_accepts[OF this c] False type show ?thesis by (simp add: client_proved_def)
    next
      case not_fed: False
      with assms cs app False c have "verifyClientAssertion ie cfg now (id_Store i) (a_ID app) ?a = None"
        by (auto simp: authenticateClient_def Let_def split: if_splits option.splits)
      from verifyClientAssertion_accepts[OF this \<open>a_ID app \<noteq> []\<close>] False type show ?thesis by (simp add: client_proved_def)
    qed
  qed
  with app cs authenticateClient_service[OF assms] show ?thesis by simp
qed

lemma authenticate_sample:
  assumes "rq_form rq ''client_id'' = ''app''" "rq_form rq ''client_secret'' = ''hunter2''" "rq_form rq ''client_assertion'' = []"
    "rq_basic rq = None" "app_registrations (id_Store i) = [app0]" "app_secrets (id_Store i) = [secret0]"
  shows "authenticateClient ie0 cfg now rq i = (Inr (App.truncate app0), i)"
  using assms by (simp add: authenticateClient_def client_credentials_of_def check_secret_def VerifyAppSecret_def ListSecrets_def
      GetApp_def ie0_def env0_def secret0_def Let_def sql_defs sample_defs App.defs)

lemma identity0_store [simp]: "app_registrations (id_Store identity0) = [app0]" "app_secrets (id_Store identity0) = [secret0]"
  "users (id_Store identity0) = [user0]" "sessions (id_Store identity0) = [session0]"
  by (simp_all add: identity0_def store0_def empty_store_def)

theorem client_authentication_sound_witness:
  "client_proved ie0 config0 9 (post0 [(''client_id'', ''app''), (''client_secret'', ''hunter2'')]) identity0 (App.truncate app0)"
  using client_authentication_sound[OF authenticate_sample
      [of "post0 [(''client_id'', ''app''), (''client_secret'', ''hunter2'')]" identity0 config0 9]]
  by (simp add: post0_def)

end
