(* ===== verification/TokenEndpoint.thy ===== *)
theory TokenEndpoint
  imports Identity
begin

text \<open>
  The token endpoint (\<^verbatim>\<open>internal/identity/token.go\<close>, \<^verbatim>\<open>obo.go\<close>, \<^verbatim>\<open>ropc.go\<close>, the polling half of
  \<^verbatim>\<open>devicecode.go\<close>) and the two internal token endpoints (\<^verbatim>\<open>msi.go\<close>, \<^verbatim>\<open>fabric.go\<close>). Each handler is a
  function from the request and the state to the response and the state. \<open>priv\<close> and \<open>plain\<close> are the
  random values the call may draw.
\<close>

datatype token_result = TokenOK TokenResponse | TokenErr oauth_err

definition minting_failed :: oauth_err where
  "minting_failed = OAuthError ''invalid_request'' ''AADSTS90002: Token minting failed.''"

definition scope_not_registered :: oauth_err where
  "scope_not_registered = OAuthError ''invalid_scope'' ''AADSTS70011: A requested scope is not registered.''"

definition user_disabled :: oauth_err where
  "user_disabled = OAuthError ''invalid_grant'' ''AADSTS50057: The user account is disabled or deleted.''"

text \<open>The tail every delegated grant shares: build the response, or report that minting failed.\<close>

definition respond_delegated ::
  "IEnv \<Rightarrow> Config \<Rightarrow> int \<Rightarrow> string \<Rightarrow> string \<Rightarrow> DelegatedGrant \<Rightarrow> Identity \<Rightarrow> token_result \<times> Identity" where
  "respond_delegated ie cfg now priv plain g i =
     (case BuildDelegatedResponse (ie_env ie) cfg now priv plain g (id_Service i) of
        (Inl _, sv) \<Rightarrow> (TokenErr minting_failed, i\<lparr>id_Service := sv\<rparr>)
      | (Inr resp, sv) \<Rightarrow> (TokenOK resp, i\<lparr>id_Service := sv\<rparr>))"

definition delegated :: "App \<Rightarrow> User \<Rightarrow> string list \<Rightarrow> string \<Rightarrow> string list \<Rightarrow> DelegatedGrant" where
  "delegated app user scopes resource echo =
     \<lparr>dg_App = app, dg_User = user, dg_Scopes = scopes, dg_Resource = resource, dg_ScopeEcho = echo, dg_Nonce = [],
      dg_AMR = [], dg_AuthTime = 0, dg_AuthCode = [], dg_MaxAgeRequested = False, dg_TenantID = [],
      dg_SkipRefreshToken = False\<rparr>"

definition enabled_user :: "Store \<Rightarrow> string \<Rightarrow> User option" where
  "enabled_user s i = (case GetUser s i of Inl _ \<Rightarrow> None | Inr u \<Rightarrow> if u_AccountEnabled u then Some u else None)"

section \<open>Authorization code\<close>

text \<open>Narrowing on exchange: the resolved scopes replace the grant when none of them (OIDC protocol
  scopes apart) exceeds it.\<close>

definition narrow_on_exchange ::
  "Config \<Rightarrow> Store \<Rightarrow> string list \<Rightarrow> string list \<Rightarrow> oauth_err + (string list \<times> string list)" where
  "narrow_on_exchange cfg s grantScopes raw =
     (if raw = [] then Inr (grantScopes, grantScopes)
      else case ResolveDelegatedScopes (cf_GraphResourceID cfg) s raw of
        None \<Rightarrow> Inl scope_not_registered
      | Some resolved \<Rightarrow>
          if list_ex (\<lambda>sc. sc \<notin> set oidcScopes \<and> sc \<notin> set grantScopes) (rs_Granted resolved)
          then Inl (OAuthError ''invalid_scope'' ''AADSTS70011: Requested scope exceeds the authorized grant.'')
          else Inr (rs_Granted resolved, rs_Requested resolved))"

definition grantAuthorizationCode ::
  "IEnv \<Rightarrow> Config \<Rightarrow> int \<Rightarrow> string \<Rightarrow> string \<Rightarrow> Request \<Rightarrow> Identity \<Rightarrow> token_result \<times> Identity" where
  "grantAuthorizationCode ie cfg now priv plain rq i =
     (case authenticateClient ie cfg now rq i of
        (Inl e, i1) \<Rightarrow> (TokenErr e, i1)
      | (Inr app, i1) \<Rightarrow>
        (let code = rq_form rq ''code''; redirectURI = rq_form rq ''redirect_uri'' in
         if code = [] \<or> redirectURI = []
         then (TokenErr (OAuthError ''invalid_request'' ''AADSTS900144: code and redirect_uri are required.''), i1)
         else case RedeemAuthCode (ie_env ie) now code (a_ID app) redirectURI (rq_form rq ''code_verifier'') (id_Store i1) of
           (Inl e, s2) \<Rightarrow> (TokenErr (writeRedeemErr e), with_store s2 i1)
         | (Inr row, s2) \<Rightarrow>
           (let i2 = with_store s2 i1 in
            case enabled_user s2 (ac_UserID row) of
              None \<Rightarrow> (TokenErr user_disabled, i2)
            | Some user \<Rightarrow>
              (case narrow_on_exchange cfg s2 (Fields (ac_Scopes row)) (SplitScopes (rq_form rq ''scope'')) of
                 Inl e \<Rightarrow> (TokenErr e, i2)
               | Inr (grantScopes, echo) \<Rightarrow>
                   respond_delegated ie cfg now priv plain
                     ((delegated app user grantScopes (ac_Resource row) echo)
                        \<lparr>dg_Nonce := ac_Nonce row, dg_AMR := ac_AMR row, dg_AuthTime := ac_AuthTime row,
                         dg_MaxAgeRequested := ac_MaxAgeRequested row, dg_AuthCode := code\<rparr>) i2))))"

section \<open>Refresh token\<close>

text \<open>\<open>succ\<close> is the fresh plaintext of the successor token.\<close>

definition refresh_exchange ::
  "IEnv \<Rightarrow> Config \<Rightarrow> int \<Rightarrow> string \<Rightarrow> string \<Rightarrow> App \<Rightarrow> string \<Rightarrow> string list \<Rightarrow> string list \<Rightarrow> Identity \<Rightarrow> token_result \<times> Identity" where
  "refresh_exchange ie cfg now priv succ app rt narrowed echo i =
     (case RedeemRefreshToken (ie_env ie) cfg now succ rt (a_ID app) narrowed (id_Store i) of
        (Inl e, s2) \<Rightarrow> (TokenErr (writeRedeemErr e), with_store s2 i)
      | (Inr redeemed, s2) \<Rightarrow>
        (let i2 = with_store s2 i in
         case enabled_user s2 (re_UserID redeemed) of
           None \<Rightarrow> (TokenErr user_disabled, i2)
         | Some user \<Rightarrow>
           (case respond_delegated ie cfg now priv []
                   ((delegated app user (re_Scopes redeemed) (re_Resource redeemed) echo)
                      \<lparr>dg_AMR := re_AMR redeemed, dg_AuthTime := re_AuthTime redeemed, dg_SkipRefreshToken := True\<rparr>) i2 of
              (TokenOK resp, i3) \<Rightarrow> (TokenOK (resp\<lparr>tr_RefreshToken := re_NewRefreshToken redeemed\<rparr>), i3)
            | (TokenErr e, i3) \<Rightarrow> (TokenErr e, i3))))"

definition grantRefreshToken ::
  "IEnv \<Rightarrow> Config \<Rightarrow> int \<Rightarrow> string \<Rightarrow> string \<Rightarrow> Request \<Rightarrow> Identity \<Rightarrow> token_result \<times> Identity" where
  "grantRefreshToken ie cfg now priv succ rq i =
     (case authenticateClient ie cfg now rq i of
        (Inl e, i1) \<Rightarrow> (TokenErr e, i1)
      | (Inr app, i1) \<Rightarrow>
        (let rt = rq_form rq ''refresh_token''; raw = SplitScopes (rq_form rq ''scope'') in
         if rt = [] then (TokenErr (OAuthError ''invalid_request'' ''AADSTS900144: refresh_token is required.''), i1)
         else if raw = [] then refresh_exchange ie cfg now priv succ app rt [] [] i1
         else case ResolveDelegatedScopes (cf_GraphResourceID cfg) (id_Store i1) raw of
           None \<Rightarrow> (TokenErr scope_not_registered, i1)
         | Some resolved \<Rightarrow>
             refresh_exchange ie cfg now priv succ app rt (rs_Granted resolved) (rs_Requested resolved) i1))"

section \<open>Client credentials\<close>

definition application_roles :: "Store \<Rightarrow> string \<Rightarrow> string list" where
  "application_roles s appID =
     map ro_Value (filter (\<lambda>ro. ro_IsEnabled ro \<and> ContainsStr (ro_AllowedMemberTypes ro) ''Application'') (ListRoles s appID))"

text \<open>The audience and the roles of an app-only token for \<open>resource\<close>; nothing when no resource
  principal has that name.\<close>

definition app_only_target :: "Config \<Rightarrow> Store \<Rightarrow> App \<Rightarrow> string \<Rightarrow> (string \<times> string list) option" where
  "app_only_target cfg s app resource =
     (if resource = cf_GraphResourceID cfg then Some (cf_GraphResourceID cfg, [])
      else if fabricAud resource \<noteq> [] then Some (fabricAud resource, [])
      else if databricksAud resource \<noteq> [] then Some (databricksAud resource, [])
      else if azureAud resource \<noteq> [] then Some (azureAud resource, [])
      else case findResourceApp s resource of
        None \<Rightarrow> None
      | Some resourceApp \<Rightarrow>
          Some (if a_AppIDURI resourceApp = resource then a_AppIDURI resourceApp else a_ID resourceApp,
                case AssignedAppRoleValues s (a_ID app) (a_ID resourceApp) of
                  (assigned, has) \<Rightarrow> if has then assigned else application_roles s (a_ID resourceApp)))"

definition requires_confidential :: oauth_err where
  "requires_confidential = OAuthError ''invalid_client'' ''AADSTS700025: Client credentials requires a confidential client.''"

definition grantClientCredentials ::
  "IEnv \<Rightarrow> Config \<Rightarrow> int \<Rightarrow> string \<Rightarrow> Request \<Rightarrow> Identity \<Rightarrow> token_result \<times> Identity" where
  "grantClientCredentials ie cfg now priv rq i =
     (let cid0 = rq_form rq ''client_id'';
          clientID = (case rq_basic rq of Some (u, _) \<Rightarrow> if cid0 = [] then u else cid0 | None \<Rightarrow> cid0) in
      if (case GetApp (id_Store i) clientID of Inr app \<Rightarrow> \<not> a_IsConfidential app | Inl _ \<Rightarrow> False)
      then (TokenErr requires_confidential, i)
      else case authenticateClient ie cfg now rq i of
        (Inl e, i1) \<Rightarrow> (TokenErr e, i1)
      | (Inr app, i1) \<Rightarrow>
        if \<not> a_IsConfidential app then (TokenErr requires_confidential, i1)
        else let rawScope = TrimSpace (rq_form rq ''scope'');
                 scopes = filter (\<lambda>sc. sc \<notin> set oidcScopes) (SplitScopes rawScope) in
          if rawScope = [] then (TokenErr (OAuthError ''invalid_request'' ''AADSTS900144: scope is required.''), i1)
          else if length scopes \<noteq> 1 \<or> \<not> HasSuffix (hd scopes) ''/.default''
          then (TokenErr (OAuthError ''invalid_scope''
                  ''AADSTS1002012: Client credentials requires exactly one <resource>/.default scope.''), i1)
          else let resource = TrimSuffix (hd scopes) ''/.default'' in
            case app_only_target cfg (id_Store i1) app resource of
              None \<Rightarrow> (TokenErr (OAuthError ''invalid_resource''
                  (''AADSTS500011: The resource principal named '' @ resource @ '' was not found in the tenant named '' @
                   cf_TenantID cfg @
                   ''. This can happen if the application has not been installed by the administrator of the tenant or consented to by any user in the tenant. You might have sent your authentication request to the wrong tenant.'')), i1)
            | Some (aud, roles) \<Rightarrow>
              (case BuildAppOnlyResponse (ie_env ie) cfg now priv app aud roles [] (a_TenantID app) (id_Service i1) of
                 (Inl _, sv) \<Rightarrow> (TokenErr minting_failed, i1\<lparr>id_Service := sv\<rparr>)
               | (Inr resp, sv) \<Rightarrow> (TokenOK resp, i1\<lparr>id_Service := sv\<rparr>)))"

section \<open>On-behalf-of, password, device code\<close>

definition grantOnBehalfOf ::
  "IEnv \<Rightarrow> Config \<Rightarrow> int \<Rightarrow> string \<Rightarrow> string \<Rightarrow> Request \<Rightarrow> Identity \<Rightarrow> token_result \<times> Identity" where
  "grantOnBehalfOf ie cfg now priv plain rq i =
     (case authenticateClient ie cfg now rq i of
        (Inl e, i1) \<Rightarrow> (TokenErr e, i1)
      | (Inr app, i1) \<Rightarrow>
        (let s = id_Store i1; assertion = rq_form rq ''assertion'';
             accepted = a_ID app # (if a_AppIDURI app \<noteq> [] then [a_AppIDURI app] else []) in
         if \<not> a_IsConfidential app
         then (TokenErr (OAuthError ''invalid_client'' ''AADSTS700025: On-Behalf-Of requires a confidential client.''), i1)
         else if rq_form rq ''requested_token_use'' \<noteq> ''on_behalf_of''
         then (TokenErr (OAuthError ''invalid_request'' (''AADSTS90014: requested_token_use must be '' @ quoted ''on_behalf_of'' @ ''.'')), i1)
         else if assertion = []
         then (TokenErr (OAuthError ''invalid_request'' ''AADSTS900144: assertion is required.''), i1)
         else case ValidateAccessToken (ie_env ie) cfg now s assertion accepted of
           Inl e \<Rightarrow> (TokenErr (OAuthError ''invalid_grant''
                    (''AADSTS500131: The assertion is invalid or not addressed to this application: '' @ err_text e)), i1)
         | Inr validated \<Rightarrow>
           if vt_OID validated = []
           then (TokenErr (OAuthError ''invalid_grant'' ''AADSTS500131: On-Behalf-Of requires a delegated (user) assertion.''), i1)
           else case enabled_user s (vt_OID validated) of
             None \<Rightarrow> (TokenErr (OAuthError ''invalid_grant'' ''AADSTS50057: The user is disabled or deleted.''), i1)
           | Some user \<Rightarrow>
             (case ResolveDelegatedScopes (cf_GraphResourceID cfg) s (SplitScopes (rq_form rq ''scope'')) of
                None \<Rightarrow> (TokenErr scope_not_registered, i1)
              | Some resolved \<Rightarrow>
                  respond_delegated ie cfg now priv plain
                    (delegated app user (rs_Granted resolved) (rs_Resource resolved) (rs_Requested resolved)) i1)))"

definition grantResourceOwnerPassword ::
  "IEnv \<Rightarrow> Config \<Rightarrow> int \<Rightarrow> string \<Rightarrow> string \<Rightarrow> Request \<Rightarrow> Identity \<Rightarrow> token_result \<times> Identity" where
  "grantResourceOwnerPassword ie cfg now priv plain rq i =
     (case authenticateClient ie cfg now rq i of
        (Inl e, i1) \<Rightarrow> (TokenErr e, i1)
      | (Inr app, i1) \<Rightarrow>
        (let s = id_Store i1; username = rq_form rq ''username''; password = rq_form rq ''password'';
             rawScope = TrimSpace (rq_form rq ''scope'') in
         if username = [] \<or> password = []
         then (TokenErr (OAuthError ''invalid_request'' ''AADSTS900144: username and password are required.''), i1)
         else if rawScope = [] then (TokenErr (OAuthError ''invalid_scope'' ''AADSTS70011: scope is required.''), i1)
         else case ResolveDelegatedScopes (cf_GraphResourceID cfg) s (SplitScopes rawScope) of
           None \<Rightarrow> (TokenErr scope_not_registered, i1)
         | Some resolved \<Rightarrow>
           (case VerifyPassword (env_verify_secret (ie_env ie)) s username password of
              Inl _ \<Rightarrow> (TokenErr (OAuthError ''invalid_grant''
                  ''AADSTS50126: Error validating credentials due to invalid username or password.''), i1)
            | Inr user \<Rightarrow>
                respond_delegated ie cfg now priv plain
                  ((delegated app user (rs_Granted resolved) (rs_Resource resolved) (rs_Requested resolved))\<lparr>dg_AMR := ''pwd''\<rparr>) i1)))"

definition bad_device_code :: oauth_err where
  "bad_device_code = OAuthError ''bad_verification_code'' ''AADSTS70019: The device code is unknown or already redeemed.''"

definition grantDeviceCode ::
  "IEnv \<Rightarrow> Config \<Rightarrow> int \<Rightarrow> string \<Rightarrow> string \<Rightarrow> Request \<Rightarrow> Identity \<Rightarrow> token_result \<times> Identity" where
  "grantDeviceCode ie cfg now priv plain rq i =
     (case authenticateClient ie cfg now rq i of
        (Inl e, i1) \<Rightarrow> (TokenErr e, i1)
      | (Inr app, i1) \<Rightarrow>
        (let s = id_Store i1; plaintext = rq_form rq ''device_code''; hash = HashToken (ie_env ie) plaintext in
         if plaintext = [] then (TokenErr (OAuthError ''invalid_request'' ''AADSTS900144: device_code is required.''), i1)
         else case GetDeviceCodeByHash s hash of
           Inl _ \<Rightarrow> (TokenErr bad_device_code, i1)
         | Inr row \<Rightarrow>
           if dc_AppID row \<noteq> a_ID app
           then (TokenErr (OAuthError ''bad_verification_code'' ''AADSTS70019: The device code is bound to a different client.''), i1)
           else if dc_ExpiresAt row \<le> now
           then (TokenErr (OAuthError ''expired_token'' ''AADSTS70020: The device code has expired.''),
                 with_store (DeleteDeviceCode hash s) i1)
           else if dc_Status row = ''denied''
           then (TokenErr (OAuthError ''authorization_declined'' ''AADSTS70018: The user declined the request.''),
                 with_store (DeleteDeviceCode hash s) i1)
           else if dc_Status row = ''pending''
           then (TokenErr (OAuthError ''authorization_pending''
                   ''AADSTS70016: The end user has not yet approved the request. Continue polling.''), i1)
           else case ConsumeApprovedDeviceCode hash (a_ID app) now s of
             (None, s2) \<Rightarrow> (TokenErr bad_device_code, with_store s2 i1)
           | (Some consumed, s2) \<Rightarrow>
             (let i2 = with_store s2 i1 in
              case enabled_user s2 (dc_UserID consumed) of
                None \<Rightarrow> (TokenErr (OAuthError ''invalid_grant'' ''AADSTS50057: The approving user is disabled or deleted.''), i2)
              | Some user \<Rightarrow>
                (case ResolveDelegatedScopes (cf_GraphResourceID cfg) s2 (Fields (dc_Scopes consumed)) of
                   None \<Rightarrow> (TokenErr (OAuthError ''invalid_grant'' ''AADSTS70019: The granted scopes are no longer valid.''), i2)
                 | Some resolved \<Rightarrow>
                     respond_delegated ie cfg now priv plain
                       (delegated app user (rs_Granted resolved) (rs_Resource resolved) (rs_Requested resolved)) i2))))"

section \<open>The endpoint\<close>

text \<open>Latency has no effect on the state. \<open>roll\<close> is the fault-injection roll.\<close>

definition handleToken ::
  "IEnv \<Rightarrow> Config \<Rightarrow> int \<Rightarrow> real \<Rightarrow> string \<Rightarrow> string \<Rightarrow> Request \<Rightarrow> Identity \<Rightarrow> token_result \<times> Identity" where
  "handleToken ie cfg now roll priv plain rq i =
     (case TokenFault roll (id_Faults i) of (latencyMs, code, desc, fire) \<Rightarrow>
      if fire then (TokenErr (OAuthError code (if desc = [] then ''Injected fault (roadmap #5 fault injection).'' else desc)), i)
      else if \<not> snd (tenantSegment cfg (id_Store i) rq)
      then (TokenErr (OAuthError ''invalid_request'' ''AADSTS90002: Unknown tenant.''), i)
      else if \<not> rq_form_ok rq
      then (TokenErr (OAuthError ''invalid_request'' ''AADSTS900144: Malformed request body.''), i)
      else let gt = rq_form rq ''grant_type'' in
        if gt = ''authorization_code'' then grantAuthorizationCode ie cfg now priv plain rq i
        else if gt = ''refresh_token'' then grantRefreshToken ie cfg now priv plain rq i
        else if gt = ''client_credentials'' then grantClientCredentials ie cfg now priv rq i
        else if gt = ''password'' then grantResourceOwnerPassword ie cfg now priv plain rq i
        else if gt = ''urn:ietf:params:oauth:grant-type:jwt-bearer'' then grantOnBehalfOf ie cfg now priv plain rq i
        else if gt = ''urn:ietf:params:oauth:grant-type:device_code'' \<or> gt = ''device_code''
        then grantDeviceCode ie cfg now priv plain rq i
        else (TokenErr (OAuthError ''unsupported_grant_type''
                (''AADSTS70003: The app requested an unsupported grant type '' @ quoted gt @ ''.'')), i))"

section \<open>Managed identity and workspace identity\<close>

datatype internal_result =
    InternalOK TokenResponse string string
  | InternalErr int string

fun firstNonEmpty :: "string list \<Rightarrow> string" where
  "firstNonEmpty [] = []"
| "firstNonEmpty (v # vs) = (if v \<noteq> [] then v else firstNonEmpty vs)"

definition handleMSIToken :: "IEnv \<Rightarrow> Config \<Rightarrow> int \<Rightarrow> string \<Rightarrow> Request \<Rightarrow> Identity \<Rightarrow> internal_result \<times> Identity" where
  "handleMSIToken ie cfg now priv rq i =
     (let got = rq_identity_header rq; resource = rq_query rq ''resource'' in
      if got = [] \<or> got \<noteq> cf_ManagedIdentitySecret cfg then (InternalErr 401 ''unauthorized'', i)
      else if resource = [] then (InternalErr 400 ''invalid_request'', i)
      else let cid = firstNonEmpty [rq_query rq ''client_id'', rq_query rq ''object_id'', rq_query rq ''mi_res_id''];
               clientID = (if cid = [] then cf_ManagedIdentityClientID cfg else cid) in
        case GetApp (id_Store i) clientID of
          Inl _ \<Rightarrow> (InternalErr 400 ''invalid_request'', i)
        | Inr app \<Rightarrow>
          (let roles = (case findResourceApp (id_Store i) (TrimSuffix resource ''/'') of
                          None \<Rightarrow> [] | Some ra \<Rightarrow> application_roles (id_Store i) (a_ID ra)) in
           case BuildAppOnlyResponse (ie_env ie) cfg now priv app resource roles resource (a_TenantID app) (id_Service i) of
             (Inl _, sv) \<Rightarrow> (InternalErr 500 ''server_error'', i\<lparr>id_Service := sv\<rparr>)
           | (Inr resp, sv) \<Rightarrow> (InternalOK resp resource (a_ID app), i\<lparr>id_Service := sv\<rparr>)))"

definition handleWorkspaceIdentityToken ::
  "IEnv \<Rightarrow> Config \<Rightarrow> int \<Rightarrow> string \<Rightarrow> Request \<Rightarrow> Identity \<Rightarrow> internal_result \<times> Identity" where
  "handleWorkspaceIdentityToken ie cfg now priv rq i =
     (case GetWorkspaceIdentity (id_Store i) (rq_path_id rq) of
        Inl _ \<Rightarrow> (InternalErr 404 ''not_found'', i)
      | Inr wi \<Rightarrow>
        if wi_State wi \<noteq> ''Active'' then (InternalErr 409 ''identity_not_ready'', i)
        else let q = rq_query rq ''resource''; resource = (if q = [] then fabricResource else q);
                 aud = (if fabricAud resource = [] then resource else fabricAud resource) in
          case GetApp (id_Store i) (wi_AppID wi) of
            Inl _ \<Rightarrow> (InternalErr 500 ''server_error'', i)
          | Inr app \<Rightarrow>
            (case BuildAppOnlyResponse (ie_env ie) cfg now priv app aud [] resource (a_TenantID app) (id_Service i) of
               (Inl _, sv) \<Rightarrow> (InternalErr 500 ''server_error'', i\<lparr>id_Service := sv\<rparr>)
             | (Inr resp, sv) \<Rightarrow> (InternalOK resp resource (a_ID app), i\<lparr>id_Service := sv\<rparr>)))"

section \<open>What a successful response went through\<close>

lemma respond_delegated_OK:
  assumes "respond_delegated ie cfg now priv plain g i = (TokenOK resp, i')"
  shows "BuildDelegatedResponse (ie_env ie) cfg now priv plain g (id_Service i) = (Inr resp, id_Service i')"
  using assms by (auto simp: respond_delegated_def split: prod.splits sum.splits)

lemma enabled_user_Some:
  "enabled_user s i = Some u \<Longrightarrow> u \<in> set (users s) \<and> u_ID u = i \<and> u_AccountEnabled u"
  by (auto simp: enabled_user_def GetUser_def one_row_def split: sum.splits if_splits option.splits dest: sql_first_Some)

lemma VerifyPassword_Inr:
  "VerifyPassword v s upn pw = Inr u \<Longrightarrow> u \<in> set (users s) \<and> u_AccountEnabled u \<and> v pw (u_PasswordHash u)"
  by (auto simp: VerifyPassword_def GetUserByUPN_def one_row_def split: sum.splits if_splits option.splits dest: sql_first_Some)

lemma with_store_sel [simp]: "id_Service (with_store s i) = (id_Service i)\<lparr>sv_Store := s\<rparr>"
  by (simp add: with_store_def)

lemma narrow_on_exchange_Inr:
  assumes "narrow_on_exchange cfg s granted raw = Inr (gs, echo)"
  shows "set gs \<subseteq> set granted \<union> set oidcScopes"
  using assms by (auto simp: narrow_on_exchange_def list_ex_iff split: if_splits option.splits)

lemma grantAuthorizationCode_OK:
  assumes "grantAuthorizationCode ie cfg now priv plain rq i = (TokenOK resp, i')"
  obtains app i1 row s2 user g where "authenticateClient ie cfg now rq i = (Inr app, i1)"
    "RedeemAuthCode (ie_env ie) now (rq_form rq ''code'') (a_ID app) (rq_form rq ''redirect_uri'')
       (rq_form rq ''code_verifier'') (id_Store i1) = (Inr row, s2)"
    "enabled_user s2 (ac_UserID row) = Some user"
    "dg_App g = app" "dg_User g = user" "dg_Resource g = ac_Resource row" "dg_AuthCode g = rq_form rq ''code''"
    "dg_Nonce g = ac_Nonce row" "set (dg_Scopes g) \<subseteq> set (Fields (ac_Scopes row)) \<union> set oidcScopes"
    "BuildDelegatedResponse (ie_env ie) cfg now priv plain g ((id_Service i1)\<lparr>sv_Store := s2\<rparr>) = (Inr resp, id_Service i')"
proof -
  obtain app i1 where a: "authenticateClient ie cfg now rq i = (Inr app, i1)"
    using assms by (auto simp: grantAuthorizationCode_def split: prod.splits sum.splits)
  obtain row s2 where r: "RedeemAuthCode (ie_env ie) now (rq_form rq ''code'') (a_ID app) (rq_form rq ''redirect_uri'')
       (rq_form rq ''code_verifier'') (id_Store i1) = (Inr row, s2)"
    using assms a by (auto simp: grantAuthorizationCode_def Let_def split: prod.splits sum.splits if_splits)
  obtain user where u: "enabled_user s2 (ac_UserID row) = Some user"
    using assms a r by (auto simp: grantAuthorizationCode_def Let_def split: option.splits if_splits)
  obtain gs echo where n: "narrow_on_exchange cfg s2 (Fields (ac_Scopes row)) (SplitScopes (rq_form rq ''scope'')) = Inr (gs, echo)"
    using assms a r u by (auto simp: grantAuthorizationCode_def Let_def split: sum.splits prod.splits if_splits)
  let ?g = "(delegated app user gs (ac_Resource row) echo)
      \<lparr>dg_Nonce := ac_Nonce row, dg_AMR := ac_AMR row, dg_AuthTime := ac_AuthTime row,
       dg_MaxAgeRequested := ac_MaxAgeRequested row, dg_AuthCode := rq_form rq ''code''\<rparr>"
  have "respond_delegated ie cfg now priv plain ?g (with_store s2 i1) = (TokenOK resp, i')"
    using assms a r u n by (auto simp: grantAuthorizationCode_def Let_def split: if_splits)
  from respond_delegated_OK[OF this] narrow_on_exchange_Inr[OF n] a r u show thesis
    by (intro that[of app i1 row s2 user ?g]) (simp_all add: delegated_def)
qed

lemma refresh_exchange_OK:
  assumes "refresh_exchange ie cfg now priv succ app rt req echo i = (TokenOK resp, i')"
  obtains re s2 user g resp0 where "RedeemRefreshToken (ie_env ie) cfg now succ rt (a_ID app) req (id_Store i) = (Inr re, s2)"
    "enabled_user s2 (re_UserID re) = Some user" "dg_App g = app" "dg_User g = user" "dg_Scopes g = re_Scopes re"
    "dg_Resource g = re_Resource re" "dg_SkipRefreshToken g"
    "BuildDelegatedResponse (ie_env ie) cfg now priv [] g ((id_Service i)\<lparr>sv_Store := s2\<rparr>) = (Inr resp0, id_Service i')"
    "resp = resp0\<lparr>tr_RefreshToken := re_NewRefreshToken re\<rparr>"
proof -
  obtain re s2 where r: "RedeemRefreshToken (ie_env ie) cfg now succ rt (a_ID app) req (id_Store i) = (Inr re, s2)"
    using assms by (auto simp: refresh_exchange_def split: prod.splits sum.splits)
  obtain user where u: "enabled_user s2 (re_UserID re) = Some user"
    using assms r by (auto simp: refresh_exchange_def Let_def split: option.splits)
  let ?g = "(delegated app user (re_Scopes re) (re_Resource re) echo)
      \<lparr>dg_AMR := re_AMR re, dg_AuthTime := re_AuthTime re, dg_SkipRefreshToken := True\<rparr>"
  obtain resp0 where "respond_delegated ie cfg now priv [] ?g (with_store s2 i) = (TokenOK resp0, i')"
    "resp = resp0\<lparr>tr_RefreshToken := re_NewRefreshToken re\<rparr>"
    using assms r u by (auto simp: refresh_exchange_def Let_def split: prod.splits token_result.splits)
  with respond_delegated_OK[OF this(1)] r u show thesis
    by (intro that[of re s2 user ?g resp0]) (simp_all add: delegated_def)
qed

lemma grantRefreshToken_OK:
  assumes "grantRefreshToken ie cfg now priv succ rq i = (TokenOK resp, i')"
  obtains app i1 req echo where "authenticateClient ie cfg now rq i = (Inr app, i1)"
    "refresh_exchange ie cfg now priv succ app (rq_form rq ''refresh_token'') req echo i1 = (TokenOK resp, i')"
    "SplitScopes (rq_form rq ''scope'') = [] \<Longrightarrow> req = []"
proof -
  obtain app i1 where a: "authenticateClient ie cfg now rq i = (Inr app, i1)"
    using assms by (auto simp: grantRefreshToken_def split: prod.splits sum.splits)
  have "\<exists>req echo. refresh_exchange ie cfg now priv succ app (rq_form rq ''refresh_token'') req echo i1 = (TokenOK resp, i')
      \<and> (SplitScopes (rq_form rq ''scope'') = [] \<longrightarrow> req = [])"
    using assms a by (auto simp: grantRefreshToken_def Let_def split: if_splits option.splits)
  with a that show thesis by blast
qed

lemma grantOnBehalfOf_OK:
  assumes "grantOnBehalfOf ie cfg now priv plain rq i = (TokenOK resp, i')"
  obtains app i1 vt user g where "authenticateClient ie cfg now rq i = (Inr app, i1)" "a_IsConfidential app"
    "ValidateAccessToken (ie_env ie) cfg now (id_Store i1) (rq_form rq ''assertion'')
       (a_ID app # (if a_AppIDURI app \<noteq> [] then [a_AppIDURI app] else [])) = Inr vt"
    "enabled_user (id_Store i1) (vt_OID vt) = Some user" "dg_App g = app" "dg_User g = user"
    "BuildDelegatedResponse (ie_env ie) cfg now priv plain g (id_Service i1) = (Inr resp, id_Service i')"
proof -
  obtain app i1 where a: "authenticateClient ie cfg now rq i = (Inr app, i1)"
    using assms by (auto simp: grantOnBehalfOf_def split: prod.splits sum.splits)
  let ?auds = "a_ID app # (if a_AppIDURI app \<noteq> [] then [a_AppIDURI app] else [])"
  have c: "a_IsConfidential app"
    using assms a by (auto simp: grantOnBehalfOf_def Let_def split: if_splits)
  obtain vt where v: "ValidateAccessToken (ie_env ie) cfg now (id_Store i1) (rq_form rq ''assertion'') ?auds = Inr vt"
    using assms a by (auto simp: grantOnBehalfOf_def Let_def split: if_splits sum.splits)
  obtain user where u: "enabled_user (id_Store i1) (vt_OID vt) = Some user"
    using assms a c v by (auto simp: grantOnBehalfOf_def Let_def split: if_splits option.splits)
  obtain rs where r: "ResolveDelegatedScopes (cf_GraphResourceID cfg) (id_Store i1) (SplitScopes (rq_form rq ''scope'')) = Some rs"
    using assms a c v u by (auto simp: grantOnBehalfOf_def Let_def split: if_splits option.splits)
  let ?g = "delegated app user (rs_Granted rs) (rs_Resource rs) (rs_Requested rs)"
  have "respond_delegated ie cfg now priv plain ?g i1 = (TokenOK resp, i')"
    using assms a c v u r by (auto simp: grantOnBehalfOf_def Let_def split: if_splits)
  from respond_delegated_OK[OF this] a c v u show thesis
    by (intro that[of app i1 vt user ?g]) (simp_all add: delegated_def)
qed

lemma grantResourceOwnerPassword_OK:
  assumes "grantResourceOwnerPassword ie cfg now priv plain rq i = (TokenOK resp, i')"
  obtains app i1 user g where "authenticateClient ie cfg now rq i = (Inr app, i1)"
    "VerifyPassword (env_verify_secret (ie_env ie)) (id_Store i1) (rq_form rq ''username'') (rq_form rq ''password'') = Inr user"
    "dg_App g = app" "dg_User g = user"
    "BuildDelegatedResponse (ie_env ie) cfg now priv plain g (id_Service i1) = (Inr resp, id_Service i')"
proof -
  obtain app i1 where a: "authenticateClient ie cfg now rq i = (Inr app, i1)"
    using assms by (auto simp: grantResourceOwnerPassword_def split: prod.splits sum.splits)
  obtain rs where r: "ResolveDelegatedScopes (cf_GraphResourceID cfg) (id_Store i1) (SplitScopes (TrimSpace (rq_form rq ''scope''))) = Some rs"
    using assms a by (auto simp: grantResourceOwnerPassword_def Let_def split: if_splits option.splits)
  obtain user where u: "VerifyPassword (env_verify_secret (ie_env ie)) (id_Store i1) (rq_form rq ''username'') (rq_form rq ''password'') = Inr user"
    using assms a r by (auto simp: grantResourceOwnerPassword_def Let_def split: if_splits sum.splits)
  let ?g = "(delegated app user (rs_Granted rs) (rs_Resource rs) (rs_Requested rs))\<lparr>dg_AMR := ''pwd''\<rparr>"
  have "respond_delegated ie cfg now priv plain ?g i1 = (TokenOK resp, i')"
    using assms a r u by (auto simp: grantResourceOwnerPassword_def Let_def split: if_splits)
  from respond_delegated_OK[OF this] a u show thesis
    by (intro that[of app i1 user ?g]) (simp_all add: delegated_def)
qed

lemma grantDeviceCode_OK:
  assumes "grantDeviceCode ie cfg now priv plain rq i = (TokenOK resp, i')"
  obtains app i1 row s2 user g where "authenticateClient ie cfg now rq i = (Inr app, i1)"
    "ConsumeApprovedDeviceCode (HashToken (ie_env ie) (rq_form rq ''device_code'')) (a_ID app) now (id_Store i1) = (Some row, s2)"
    "enabled_user s2 (dc_UserID row) = Some user" "dg_App g = app" "dg_User g = user"
    "BuildDelegatedResponse (ie_env ie) cfg now priv plain g ((id_Service i1)\<lparr>sv_Store := s2\<rparr>) = (Inr resp, id_Service i')"
proof -
  obtain app i1 where a: "authenticateClient ie cfg now rq i = (Inr app, i1)"
    using assms by (auto simp: grantDeviceCode_def split: prod.splits sum.splits)
  let ?h = "HashToken (ie_env ie) (rq_form rq ''device_code'')"
  obtain d where d: "GetDeviceCodeByHash (id_Store i1) ?h = Inr d"
    using assms a by (auto simp: grantDeviceCode_def Let_def split: if_splits sum.splits)
  obtain row s2 where r: "ConsumeApprovedDeviceCode ?h (a_ID app) now (id_Store i1) = (Some row, s2)"
    using assms a d by (auto simp: grantDeviceCode_def Let_def split: if_splits prod.splits option.splits)
  obtain user where u: "enabled_user s2 (dc_UserID row) = Some user"
    using assms a d r by (auto simp: grantDeviceCode_def Let_def split: if_splits option.splits)
  obtain rs where rs: "ResolveDelegatedScopes (cf_GraphResourceID cfg) s2 (Fields (dc_Scopes row)) = Some rs"
    using assms a d r u by (auto simp: grantDeviceCode_def Let_def split: if_splits option.splits)
  let ?g = "delegated app user (rs_Granted rs) (rs_Resource rs) (rs_Requested rs)"
  have "respond_delegated ie cfg now priv plain ?g (with_store s2 i1) = (TokenOK resp, i')"
    using assms a d r u rs by (auto simp: grantDeviceCode_def Let_def split: if_splits)
  from respond_delegated_OK[OF this] a r u show thesis
    by (intro that[of app i1 row s2 user ?g]) (simp_all add: delegated_def)
qed

lemma grantClientCredentials_OK:
  assumes "grantClientCredentials ie cfg now priv rq i = (TokenOK resp, i')"
  obtains app i1 aud roles resource where "authenticateClient ie cfg now rq i = (Inr app, i1)" "a_IsConfidential app"
    "filter (\<lambda>sc. sc \<notin> set oidcScopes) (SplitScopes (TrimSpace (rq_form rq ''scope''))) = [resource @ ''/.default'']"
    "app_only_target cfg (id_Store i1) app resource = Some (aud, roles)"
    "BuildAppOnlyResponse (ie_env ie) cfg now priv app aud roles [] (a_TenantID app) (id_Service i1) = (Inr resp, id_Service i')"
proof -
  obtain app i1 where a: "authenticateClient ie cfg now rq i = (Inr app, i1)" "a_IsConfidential app"
    using assms unfolding grantClientCredentials_def Let_def by (auto split: prod.splits sum.splits if_splits)
  let ?scs = "filter (\<lambda>sc. sc \<notin> set oidcScopes) (SplitScopes (TrimSpace (rq_form rq ''scope'')))"
  let ?r = "TrimSuffix (hd ?scs) ''/.default''"
  have one: "length ?scs = 1" "HasSuffix (hd ?scs) ''/.default''"
    using assms a unfolding grantClientCredentials_def Let_def by (auto split: prod.splits if_splits)
  then have sc: "?scs = [?r @ ''/.default'']"
    by (cases ?scs) (auto dest!: iffD1[OF HasSuffix_iff])
  obtain aud roles where t: "app_only_target cfg (id_Store i1) app ?r = Some (aud, roles)"
    using assms a unfolding grantClientCredentials_def Let_def by (auto split: prod.splits if_splits option.splits)
  have "BuildAppOnlyResponse (ie_env ie) cfg now priv app aud roles [] (a_TenantID app) (id_Service i1) = (Inr resp, id_Service i')"
    using assms a t unfolding grantClientCredentials_def Let_def by (auto split: prod.splits if_splits sum.splits)
  with a sc t that show thesis by blast
qed

section \<open>Concrete exchanges\<close>

definition client_form :: "(string \<times> string) list" where
  "client_form = [(''client_id'', ''app''), (''client_secret'', ''hunter2'')]"

definition ropc0 :: Request where
  "ropc0 = post0 (client_form @ [(''grant_type'', ''password''), (''username'', ''a@t''), (''password'', ''pw''), (''scope'', ''openid'')])"

lemma openid_resolves:
  "\<exists>rs. ResolveDelegatedScopes ''https://graph'' s [''openid''] = Some rs \<and> rs_Granted rs = [''openid'']"
  by (simp add: ResolveDelegatedScopes_def resolve_one_def grant_name_def oidcScopes_def)

lemma sign_sample: "\<exists>jwt. signTenant (env0 c) config0 now priv ''t'' cl sv = (Inr jwt, sv)"
  by (simp add: signTenant_def signerForTenant_def SignRS256_def Let_def config0_def env0_def)

lemma build_sample:
  assumes "dg_TenantID g = []" and "''offline_access'' \<notin> set (dg_Scopes g) \<or> dg_SkipRefreshToken g"
  shows "\<exists>resp. BuildDelegatedResponse (env0 c) config0 now priv plain g sv = (Inr resp, sv)"
proof -
  have t: "resolveTenant config0 [] = ''t''" by (simp add: resolveTenant_def config0_def)
  obtain a where a: "mintAccessDelegated (env0 c) config0 now priv g (response_aud config0 g) sv = (Inr a, sv)"
    using sign_sample t assms(1) by (simp add: mintAccessDelegated_def) blast
  obtain b where b: "mintIDToken (env0 c) config0 now priv g sv = (Inr b, sv)"
    using sign_sample t assms(1) by (simp add: mintIDToken_def) blast
  show ?thesis using a b assms(2) by (auto simp: BuildDelegatedResponse_def hasScope_def Let_def)
qed

lemma endpoint_sample:
  assumes "rq_tenant rq = ''t''"
  shows "TokenFault 0 (id_Faults identity0) = (0, [], [], False)" "snd (tenantSegment config0 s rq)"
  using assms by (simp_all add: TokenFault_def identity0_def no_faults_def tenantSegment_def config0_def)

lemma ropc_sample: "\<exists>resp. handleToken ie0 config0 9 0 ''K'' ''plain'' ropc0 identity0 = (TokenOK resp, identity0)"
proof -
  have auth: "authenticateClient ie0 config0 9 ropc0 identity0 = (Inr (App.truncate app0), identity0)"
    by (rule authenticate_sample) (simp_all add: ropc0_def post0_def client_form_def)
  have pw: "VerifyPassword (env_verify_secret (ie_env ie0)) (id_Store identity0) ''a@t'' ''pw'' = Inr user0"
    by (simp add: VerifyPassword_def GetUserByUPN_def nocase_eq_def identity0_def ie0_def env0_def sql_defs sample_defs)
  have form: "rq_form ropc0 ''grant_type'' = ''password''" "rq_form ropc0 ''username'' = ''a@t''"
    "rq_form ropc0 ''password'' = ''pw''" "rq_form ropc0 ''scope'' = ''openid''" "rq_form_ok ropc0" "rq_tenant ropc0 = ''t''"
    by (simp_all add: ropc0_def post0_def client_form_def)
  have sc: "TrimSpace ''openid'' = ''openid''" "SplitScopes ''openid'' = [''openid'']"
    by (simp_all add: TrimSpace_def SplitScopes_def Fields_def is_space_def)
  obtain rs where rs: "ResolveDelegatedScopes ''https://graph'' (id_Store identity0) [''openid''] = Some rs" "rs_Granted rs = [''openid'']"
    using openid_resolves by blast
  let ?g = "(delegated (App.truncate app0) user0 (rs_Granted rs) (rs_Resource rs) (rs_Requested rs))\<lparr>dg_AMR := ''pwd''\<rparr>"
  obtain resp where "BuildDelegatedResponse (ie_env ie0) config0 9 ''K'' ''plain'' ?g (id_Service identity0) = (Inr resp, id_Service identity0)"
    using build_sample[of ?g Map.empty 9 "''K''" "''plain''" "id_Service identity0"] rs(2) by (auto simp: delegated_def ie0_def)
  moreover have "cf_GraphResourceID config0 = ''https://graph''" by (simp add: config0_def)
  ultimately show ?thesis
    using endpoint_sample[OF form(6)] rs(1)
    by (simp add: handleToken_def grantResourceOwnerPassword_def auth pw form sc respond_delegated_def)
qed

section \<open>Properties\<close>

text \<open>
  C10. The token endpoint never answers with a token unless no fault was injected, the tenant is
  known, the body is well formed and the client was authenticated, whatever the grant type.
\<close>

theorem tokens_need_client_authentication:
  assumes "handleToken ie cfg now roll priv plain rq i = (TokenOK resp, i')"
  shows "\<not> snd (snd (snd (TokenFault roll (id_Faults i)))) \<and> snd (tenantSegment cfg (id_Store i) rq) \<and> rq_form_ok rq
    \<and> (\<exists>app i1. authenticateClient ie cfg now rq i = (Inr app, i1))"
proof -
  have pre: "\<not> snd (snd (snd (TokenFault roll (id_Faults i))))" "snd (tenantSegment cfg (id_Store i) rq)" "rq_form_ok rq"
    using assms unfolding handleToken_def by (auto split: prod.splits if_splits)
  have "\<exists>app i1. authenticateClient ie cfg now rq i = (Inr app, i1)"
    using assms unfolding handleToken_def Let_def
    by (auto split: prod.splits if_splits elim!: grantAuthorizationCode_OK grantRefreshToken_OK grantClientCredentials_OK
        grantResourceOwnerPassword_OK grantOnBehalfOf_OK grantDeviceCode_OK)
  with pre show ?thesis by blast
qed

theorem tokens_need_client_authentication_witness:
  "\<exists>resp. handleToken ie0 config0 9 0 ''K'' ''plain'' ropc0 identity0 = (TokenOK resp, identity0)
     \<and> (\<exists>app i1. authenticateClient ie0 config0 9 ropc0 identity0 = (Inr app, i1))"
  using ropc_sample tokens_need_client_authentication by blast

text \<open>
  C11. A disabled account gets no token: whenever the endpoint answers a grant other than client
  credentials, the access token was minted for a user of the directory whose account is enabled at
  that moment.
\<close>

theorem delegated_tokens_for_enabled_users:
  assumes "handleToken ie cfg now roll priv plain rq i = (TokenOK resp, i')"
    and "rq_form rq ''grant_type'' \<noteq> ''client_credentials''"
  shows "\<exists>g fresh sv resp0. BuildDelegatedResponse (ie_env ie) cfg now priv fresh g sv = (Inr resp0, id_Service i')
    \<and> tr_AccessToken resp = tr_AccessToken resp0 \<and> dg_User g \<in> set (users (sv_Store sv)) \<and> u_AccountEnabled (dg_User g)"
    (is ?goal)
proof -
  let ?gt = "rq_form rq ''grant_type''"
  consider "grantAuthorizationCode ie cfg now priv plain rq i = (TokenOK resp, i')"
    | "grantRefreshToken ie cfg now priv plain rq i = (TokenOK resp, i')"
    | "grantResourceOwnerPassword ie cfg now priv plain rq i = (TokenOK resp, i')"
    | "grantOnBehalfOf ie cfg now priv plain rq i = (TokenOK resp, i')"
    | "grantDeviceCode ie cfg now priv plain rq i = (TokenOK resp, i')"
    using assms unfolding handleToken_def Let_def by (auto split: prod.splits if_splits)
  then show ?thesis
  proof cases
    case 1
    then show ?thesis
    proof (cases rule: grantAuthorizationCode_OK)
      case (1 app i1 row s2 user g)
      with enabled_user_Some[OF 1(3)] show ?thesis by (intro exI conjI) (assumption, simp_all)
    qed
  next
    case 2
    then show ?thesis
    proof (cases rule: grantRefreshToken_OK)
      case (1 app i1 req echo)
      from 1(2) show ?thesis
      proof (cases rule: refresh_exchange_OK)
        case (1 re s2 user g resp0)
        have "tr_AccessToken resp = tr_AccessToken resp0" by (simp add: 1(9))
        with 1(8) enabled_user_Some[OF 1(2)] 1(4) show ?thesis by (intro exI conjI) (assumption, simp_all)
      qed
    qed
  next
    case 3
    then show ?thesis
      by (cases rule: grantResourceOwnerPassword_OK) (use VerifyPassword_Inr in blast)
  next
    case 4
    then show ?thesis
      by (cases rule: grantOnBehalfOf_OK) (use enabled_user_Some in blast)
  next
    case 5
    then show ?thesis
    proof (cases rule: grantDeviceCode_OK)
      case (1 app i1 row s2 user g)
      with enabled_user_Some[OF 1(3)] show ?thesis by (intro exI conjI) (assumption, simp_all)
    qed
  qed
qed

theorem delegated_tokens_for_enabled_users_witness:
  "\<exists>resp g fresh sv resp0. handleToken ie0 config0 9 0 ''K'' ''plain'' ropc0 identity0 = (TokenOK resp, identity0)
     \<and> BuildDelegatedResponse (ie_env ie0) config0 9 ''K'' fresh g sv = (Inr resp0, id_Service identity0)
     \<and> u_AccountEnabled (dg_User g)"
proof -
  obtain resp where r: "handleToken ie0 config0 9 0 ''K'' ''plain'' ropc0 identity0 = (TokenOK resp, identity0)"
    using ropc_sample by blast
  have "rq_form ropc0 ''grant_type'' \<noteq> ''client_credentials''" by (simp add: ropc0_def post0_def client_form_def)
  from delegated_tokens_for_enabled_users[OF r this] r show ?thesis by blast
qed

text \<open>
  C15. A code exchange grants what was authorized: the response is minted for the redeeming client
  and the code's user, for the code's resource and nonce, with scopes among the authorized ones (the
  OIDC protocol scopes apart), and the code was accepted for exactly this client, redirect URI and
  verifier.
\<close>

theorem code_exchange_binds_grant:
  assumes "grantAuthorizationCode ie cfg now priv plain rq i = (TokenOK resp, i')" and "codes_ok (id_Store i)"
  shows "\<exists>app row g sv. code_accepted (ie_env ie) now (rq_form rq ''code'') (a_ID app) (rq_form rq ''redirect_uri'')
        (rq_form rq ''code_verifier'') (id_Store i) row
    \<and> BuildDelegatedResponse (ie_env ie) cfg now priv plain g sv = (Inr resp, id_Service i')
    \<and> dg_App g = app \<and> u_ID (dg_User g) = ac_UserID row \<and> dg_Resource g = ac_Resource row \<and> dg_Nonce g = ac_Nonce row
    \<and> set (dg_Scopes g) \<subseteq> set (Fields (ac_Scopes row)) \<union> set oidcScopes"
  using assms(1)
proof (cases rule: grantAuthorizationCode_OK)
  case (1 app i1 row s2 user g)
  have "id_Service i1 = id_Service i" using authenticateClient_service[OF 1(1)] .
  then have "code_accepted (ie_env ie) now (rq_form rq ''code'') (a_ID app) (rq_form rq ''redirect_uri'')
      (rq_form rq ''code_verifier'') (id_Store i) row"
    using 1(2) RedeemAuthCode_Inr_iff[OF assms(2)] by (simp add: code_accepted_def)
  moreover have "u_ID (dg_User g) = ac_UserID row" using enabled_user_Some[OF 1(3)] 1(5) by simp
  ultimately show ?thesis using 1(4,6,8-10) by blast
qed

definition code_rq :: Request where
  "code_rq = post0 (client_form @ [(''code'', ''c''), (''redirect_uri'', ''https://r'')])"

definition code_identity :: Identity where
  "code_identity = with_store ((id_Store identity0)\<lparr>authorization_codes := [code0\<lparr>ac_CodeChallenge := []\<rparr>]\<rparr>) identity0"

lemma code_grant_sample:
  "\<exists>resp i'. grantAuthorizationCode ie0 config0 9 ''K'' ''plain'' code_rq code_identity = (TokenOK resp, i')"
proof -
  let ?row = "code0\<lparr>ac_CodeChallenge := []\<rparr>"
  let ?s2 = "(id_Store identity0)\<lparr>authorization_codes := [?row\<lparr>ac_Consumed := True\<rparr>]\<rparr>"
  have auth: "authenticateClient ie0 config0 9 code_rq code_identity = (Inr (App.truncate app0), code_identity)"
    by (rule authenticate_sample) (simp_all add: code_rq_def post0_def client_form_def code_identity_def)
  have form: "rq_form code_rq ''code'' = ''c''" "rq_form code_rq ''redirect_uri'' = ''https://r''" "rq_form code_rq ''scope'' = []"
    by (simp_all add: code_rq_def post0_def client_form_def)
  have redeem: "RedeemAuthCode (ie_env ie0) 9 ''c'' (a_ID (App.truncate app0)) ''https://r'' v (id_Store code_identity) = (Inr ?row, ?s2)" for v
    by (simp add: RedeemAuthCode_def GetAuthCode_def ConsumeAuthCode_def code_identity_def sql_defs code0_def app0_def App.defs)
  have user: "enabled_user ?s2 (ac_UserID ?row) = Some user0"
    by (simp add: enabled_user_def GetUser_def sql_defs user0_def code0_def)
  have sc: "SplitScopes [] = []" "Fields (ac_Scopes ?row) = [''openid'']"
    by (simp_all add: SplitScopes_def Fields_def is_space_def code0_def)
  let ?g = "(delegated (App.truncate app0) user0 [''openid''] (ac_Resource ?row) [''openid''])
      \<lparr>dg_Nonce := ac_Nonce ?row, dg_AMR := ac_AMR ?row, dg_AuthTime := ac_AuthTime ?row,
       dg_MaxAgeRequested := ac_MaxAgeRequested ?row, dg_AuthCode := ''c''\<rparr>"
  obtain resp where "BuildDelegatedResponse (ie_env ie0) config0 9 ''K'' ''plain'' ?g (id_Service (with_store ?s2 code_identity))
      = (Inr resp, id_Service (with_store ?s2 code_identity))"
    using build_sample[of ?g Map.empty 9 "''K''" "''plain''" "id_Service (with_store ?s2 code_identity)"]
    by (auto simp: delegated_def ie0_def)
  then show ?thesis
    using auth form redeem user sc
    by (simp add: grantAuthorizationCode_def narrow_on_exchange_def respond_delegated_def)
qed

theorem code_exchange_binds_grant_witness:
  "\<exists>resp i' (app :: App) row. grantAuthorizationCode ie0 config0 9 ''K'' ''plain'' code_rq code_identity = (TokenOK resp, i')
     \<and> code_accepted (ie_env ie0) 9 (rq_form code_rq ''code'') (a_ID app) (rq_form code_rq ''redirect_uri'')
         (rq_form code_rq ''code_verifier'') (id_Store code_identity) row"
proof -
  have ok: "codes_ok (id_Store code_identity)" by (simp add: codes_ok_def code_identity_def)
  obtain resp i' where r: "grantAuthorizationCode ie0 config0 9 ''K'' ''plain'' code_rq code_identity = (TokenOK resp, i')"
    using code_grant_sample by blast
  obtain app :: App and row where "code_accepted (ie_env ie0) 9 (rq_form code_rq ''code'') (a_ID app) (rq_form code_rq ''redirect_uri'')
      (rq_form code_rq ''code_verifier'') (id_Store code_identity) row"
    using code_exchange_binds_grant[OF r ok] by (elim exE conjE) (rule that)
  with r show ?thesis by (intro exI conjI)
qed

text \<open>
  C16. A refresh exchange spends the presented token: its row was live and unexpired, the tokens are minted for the user,
  application and resource of that row, with scopes of the row (all of them when the request names none), and afterwards
  the row is revoked and a live successor rotated from it is stored, for the same user, application and scopes. The
  response carries that successor exactly when the granted scopes include \<^verbatim>\<open>offline_access\<close>; otherwise it carries none.
\<close>

theorem refresh_exchange_spends_token:
  assumes "grantRefreshToken ie cfg now priv succ rq i = (TokenOK resp, i')" and "tokens_ok (id_Store i)"
    and "h = HashToken (ie_env ie) (rq_form rq ''refresh_token'')"
  shows "\<exists>row x t g sv resp0. GetRefreshTokenByHash (id_Store i) h = Inr row \<and> \<not> rt_Revoked row \<and> now < rt_ExpiresAt row
    \<and> BuildDelegatedResponse (ie_env ie) cfg now priv [] g sv = (Inr resp0, id_Service i')
    \<and> rt_AppID row = a_ID (dg_App g) \<and> rt_UserID row = u_ID (dg_User g) \<and> dg_Resource g = rt_Resource row
    \<and> set (dg_Scopes g) \<subseteq> set (Fields (rt_Scopes row))
    \<and> (SplitScopes (rq_form rq ''scope'') = [] \<longrightarrow> dg_Scopes g = Fields (rt_Scopes row))
    \<and> resp = resp0\<lparr>tr_RefreshToken := if ''offline_access'' \<in> set (dg_Scopes g) then succ else []\<rparr>
    \<and> GetRefreshTokenByHash (id_Store i') h = Inr x \<and> rt_Revoked x
    \<and> GetRefreshTokenByHash (id_Store i') (HashToken (ie_env ie) succ) = Inr t \<and> \<not> rt_Revoked t \<and> rt_RotatedFrom t = h
    \<and> rt_AppID t = rt_AppID row \<and> rt_UserID t = rt_UserID row \<and> rt_Scopes t = rt_Scopes row"
  using assms(1)
proof (cases rule: grantRefreshToken_OK)
  case (1 app i1 req echo)
  note narrow = 1(3)
  have sv1: "id_Service i1 = id_Service i" using authenticateClient_service[OF 1(1)] .
  from 1(2) show ?thesis
  proof (cases rule: refresh_exchange_OK)
    case (1 re s2 user g resp0)
    have red: "RedeemRefreshToken (ie_env ie) cfg now succ (rq_form rq ''refresh_token'') (a_ID app) req (id_Store i) = (Inr re, s2)"
      using 1(1) sv1 by simp
    have same: "refresh_tokens (id_Store i') = refresh_tokens s2"
      using 1(8)
    proof (cases rule: BuildDelegatedResponse_cases)
      case none
      then show ?thesis using keys_onlyE(2) by fastforce
    next
      case stored
      with 1(7) show ?thesis by blast
    qed
    from red assms(2) show ?thesis
    proof (cases rule: RedeemRefreshToken_cases)
      case (rotated row re')
      note sp = rotation_spends[OF assms(2) rotated(8)]
      have get: "GetRefreshTokenByHash (id_Store i') k = GetRefreshTokenByHash s2 k" for k
        by (simp add: GetRefreshTokenByHash_def same)
      have re: "re = re'" using rotated(1) by simp
      have sc: "set (dg_Scopes g) \<subseteq> set (Fields (rt_Scopes row))" using 1(5) rotated(6,7) re by auto
      have all: "SplitScopes (rq_form rq ''scope'') = [] \<Longrightarrow> dg_Scopes g = Fields (rt_Scopes row)" using 1(5) rotated(7) re narrow by simp
      have u: "u_ID (dg_User g) = rt_UserID row" using enabled_user_Some[OF 1(2)] 1(4) rotated(7) re by simp
      have resp: "resp = resp0\<lparr>tr_RefreshToken := if ''offline_access'' \<in> set (dg_Scopes g) then succ else []\<rparr>"
        using 1(5,9) rotated(7) re by (simp only: hasScope_def RedeemedRefresh.simps)
      let ?t = "(successor_token (ie_env ie) cfg now succ (a_ID app) row)\<lparr>rt_RotatedFrom := h, rt_Revoked := False\<rparr>"
      have t: "GetRefreshTokenByHash (id_Store i') (HashToken (ie_env ie) succ) = Inr ?t"
        using sp(2) get assms(3) by (simp add: successor_token_def)
      obtain x where x: "GetRefreshTokenByHash (id_Store i') h = Inr x" "rt_Revoked x"
        using sp(1) get assms(3) by auto
      have row: "GetRefreshTokenByHash (id_Store i) h = Inr row" "rt_AppID row = a_ID (dg_App g)" "dg_Resource g = rt_Resource row"
        using rotated(2,4,7) 1(3,6) re assms(3) by simp_all
      have tf: "\<not> rt_Revoked ?t" "rt_RotatedFrom ?t = h" "rt_AppID ?t = rt_AppID row" "rt_UserID ?t = rt_UserID row" "rt_Scopes ?t = rt_Scopes row"
        using rotated(4) by (simp_all add: successor_token_def)
      show ?thesis
        by (intro exI[of _ row] exI[of _ x] exI[of _ ?t] exI[of _ g] exI[of _ "(id_Service i)\<lparr>sv_Store := s2\<rparr>"] exI[of _ resp0] conjI impI)
          (use row(1) rotated(3,5) 1(8) sv1 row(2,3) u[symmetric] sc all resp x t tf in \<open>simp_all only: simp_thms\<close>)
    qed simp_all
  qed
qed

definition refresh_rq :: Request where
  "refresh_rq = post0 (client_form @ [(''refresh_token'', ''rt'')])"

definition refresh_identity :: Identity where
  "refresh_identity = with_store ((id_Store identity0)\<lparr>refresh_tokens := [token0\<lparr>rt_TokenHash := HashToken (ie_env ie0) ''rt'',
     rt_Scopes := ''openid offline_access''\<rparr>]\<rparr>) identity0"

lemma refresh_grant_sample:
  "\<exists>resp i'. grantRefreshToken ie0 config0 9 ''K'' ''rt2'' refresh_rq refresh_identity = (TokenOK resp, i')"
proof -
  have auth: "authenticateClient ie0 config0 9 refresh_rq refresh_identity = (Inr (App.truncate app0), refresh_identity)"
    by (rule authenticate_sample) (simp_all add: refresh_rq_def post0_def client_form_def refresh_identity_def)
  have form: "rq_form refresh_rq ''refresh_token'' = ''rt''" "rq_form refresh_rq ''scope'' = []"
    by (simp_all add: refresh_rq_def post0_def client_form_def)
  have aid: "a_ID (App.truncate app0) = ''app''" by (simp add: app0_def App.defs)
  have "\<exists>re. fst (RedeemRefreshToken (ie_env ie0) config0 9 ''rt2'' ''rt'' ''app'' [] (id_Store refresh_identity)) = Inr re
      \<and> re_UserID re = ''u'' \<and> re_Scopes re = [''openid'', ''offline_access'']
      \<and> users (snd (RedeemRefreshToken (ie_env ie0) config0 9 ''rt2'' ''rt'' ''app'' [] (id_Store refresh_identity))) = [user0]"
    by (simp add: RedeemRefreshToken_def refresh_identity_def identity0_def GetRefreshTokenByHash_def sql_defs sample_defs
        stray_scope_def RotateRefreshToken_def tx_def InsertRefreshToken_def revoke_where_def has_defs Fields_def is_space_def
        successor_token_def HashToken_def hex_encode_inj ie0_def env0_def Let_def)
  then obtain re s2 where redeem: "RedeemRefreshToken (ie_env ie0) config0 9 ''rt2'' ''rt'' ''app'' [] (id_Store refresh_identity) = (Inr re, s2)"
    and re: "re_UserID re = ''u''" "re_Scopes re = [''openid'', ''offline_access'']" "users s2 = [user0]" by (metis prod.collapse)
  have user: "enabled_user s2 (re_UserID re) = Some user0"
    using re by (simp add: enabled_user_def GetUser_def sql_defs user0_def)
  let ?g = "(delegated (App.truncate app0) user0 [''openid'', ''offline_access''] (re_Resource re) [])
      \<lparr>dg_AMR := re_AMR re, dg_AuthTime := re_AuthTime re, dg_SkipRefreshToken := True\<rparr>"
  obtain resp where "BuildDelegatedResponse (ie_env ie0) config0 9 ''K'' [] ?g (id_Service (with_store s2 refresh_identity))
      = (Inr resp, id_Service (with_store s2 refresh_identity))"
    using build_sample[of ?g Map.empty 9 "''K''" "[]" "id_Service (with_store s2 refresh_identity)"]
    by (auto simp: delegated_def ie0_def)
  then show ?thesis
    using auth form aid redeem user re(2)
    by (simp add: grantRefreshToken_def refresh_exchange_def respond_delegated_def SplitScopes_def Fields_def)
qed

theorem refresh_exchange_spends_token_witness:
  "\<exists>resp i' x t. grantRefreshToken ie0 config0 9 ''K'' ''rt2'' refresh_rq refresh_identity = (TokenOK resp, i')
     \<and> GetRefreshTokenByHash (id_Store i') (HashToken (ie_env ie0) (rq_form refresh_rq ''refresh_token'')) = Inr x \<and> rt_Revoked x
     \<and> tr_RefreshToken resp = ''rt2'' \<and> GetRefreshTokenByHash (id_Store i') (HashToken (ie_env ie0) ''rt2'') = Inr t \<and> \<not> rt_Revoked t"
proof -
  have ok: "tokens_ok (id_Store refresh_identity)" by (simp add: tokens_ok_def refresh_identity_def)
  from refresh_grant_sample obtain resp i' where r: "grantRefreshToken ie0 config0 9 ''K'' ''rt2'' refresh_rq refresh_identity = (TokenOK resp, i')" by blast
  have f: "SplitScopes (rq_form refresh_rq ''scope'') = []" by (simp add: refresh_rq_def post0_def client_form_def SplitScopes_def Fields_def)
  have row: "GetRefreshTokenByHash (id_Store refresh_identity) (HashToken (ie_env ie0) (rq_form refresh_rq ''refresh_token'')) = Inr row
      \<Longrightarrow> ''offline_access'' \<in> set (Fields (rt_Scopes row))" for row
    by (auto simp: GetRefreshTokenByHash_def refresh_identity_def sql_defs Fields_def is_space_def split: if_splits)
  from refresh_exchange_spends_token[OF r ok refl] obtain row :: RefreshToken and g :: DelegatedGrant and x t :: RefreshToken and resp0 :: TokenResponse where
    "GetRefreshTokenByHash (id_Store refresh_identity) (HashToken (ie_env ie0) (rq_form refresh_rq ''refresh_token'')) = Inr row"
    "dg_Scopes g = Fields (rt_Scopes row)" "resp = resp0\<lparr>tr_RefreshToken := if ''offline_access'' \<in> set (dg_Scopes g) then ''rt2'' else []\<rparr>"
    "GetRefreshTokenByHash (id_Store i') (HashToken (ie_env ie0) (rq_form refresh_rq ''refresh_token'')) = Inr x" "rt_Revoked x"
    "GetRefreshTokenByHash (id_Store i') (HashToken (ie_env ie0) ''rt2'') = Inr t" "\<not> rt_Revoked t"
    using f by blast
  with row r show ?thesis by simp
qed

text \<open>The roles a client may carry on an API: the values of the roles assigned to it there; only when it has no
  assignment on that API, the values of the roles the API exposes, enabled and open to applications.\<close>

definition entitled_roles :: "Store \<Rightarrow> string \<Rightarrow> string \<Rightarrow> string set" where
  "entitled_roles s clientID apiID =
     (if \<exists>a \<in> set (app_role_assignments s). ara_PrincipalID a = clientID \<and> ara_ResourceID a = apiID
      then {v. v \<noteq> [] \<and> (\<exists>a \<in> set (app_role_assignments s). \<exists>ro \<in> set (app_roles s). ara_PrincipalID a = clientID
              \<and> ara_ResourceID a = apiID \<and> ara_AppRoleID a \<noteq> ZeroGUID \<and> ro_ID ro = ara_AppRoleID a \<and> ro_Value ro = v)}
      else {v. \<exists>ro \<in> set (app_roles s). ro_AppID ro = apiID \<and> ro_IsEnabled ro
              \<and> ContainsStr (ro_AllowedMemberTypes ro) ''Application'' \<and> ro_Value ro = v})"

text \<open>
  What a client may be granted on a resource: no role for Graph and the resources known by name, whose audience the code
  fixes; for an API of the directory, named by its URI or its id, that name as audience and the roles above.
\<close>

definition app_only_grant :: "Config \<Rightarrow> Store \<Rightarrow> string \<Rightarrow> string \<Rightarrow> string \<Rightarrow> string list \<Rightarrow> bool" where
  "app_only_grant cfg s clientID resource aud roles \<longleftrightarrow>
     roles = [] \<and> (resource = cf_GraphResourceID cfg \<and> aud = resource
        \<or> aud \<in> {fabricAud resource, databricksAud resource, azureAud resource} \<and> aud \<noteq> [])
     \<or> (\<exists>api \<in> set (app_registrations s). (a_AppIDURI api = resource \<and> aud = resource \<or> a_ID api = resource \<and> aud = resource)
          \<and> set roles = entitled_roles s clientID (a_ID api))"

lemma app_only_target_grant:
  assumes "app_only_target cfg s app resource = Some (aud, roles)" and "distinct (map ro_ID (app_roles s))"
  shows "app_only_grant cfg s (a_ID app) resource aud roles"
proof (cases "resource = cf_GraphResourceID cfg \<or> fabricAud resource \<noteq> [] \<or> databricksAud resource \<noteq> [] \<or> azureAud resource \<noteq> []")
  case True
  then show ?thesis using assms(1) by (auto simp: app_only_target_def app_only_grant_def split: if_splits)
next
  case False
  then obtain api where api: "findResourceApp s resource = Some api"
    and aud: "aud = (if a_AppIDURI api = resource then a_AppIDURI api else a_ID api)"
    and roles: "roles = (case AssignedAppRoleValues s (a_ID app) (a_ID api) of
       (assigned, has) \<Rightarrow> if has then assigned else application_roles s (a_ID api))"
    using assms(1) by (auto simp: app_only_target_def split: if_splits option.splits)
  obtain row where row: "row \<in> set (app_registrations s)" "App.truncate row = api" "a_AppIDURI api = resource \<or> a_ID api = resource"
    using api by (auto simp: findResourceApp_def GetAppByIDURI_def GetApp_def one_row_def null_eq_def split: sum.splits option.splits dest!: sql_first_Some)
  have same: "a_ID row = a_ID api" "a_AppIDURI row = a_AppIDURI api" using row(2) by (auto simp: App.defs)
  have "snd (AssignedAppRoleValues s (a_ID app) (a_ID api))
      \<longleftrightarrow> (\<exists>a \<in> set (app_role_assignments s). ara_PrincipalID a = a_ID app \<and> ara_ResourceID a = a_ID api)"
    by (auto simp: AssignedAppRoleValues_def Let_def filter_empty_conv)
  then have "set roles = entitled_roles s (a_ID app) (a_ID api)"
    unfolding roles entitled_roles_def using AssignedAppRoleValues_iff[OF assms(2), of _ "a_ID app" "a_ID api"]
    by (auto simp: case_prod_beta application_roles_def ListRoles_def)
  with row same aud show ?thesis unfolding app_only_grant_def by auto
qed

text \<open>
  C17. Client credentials yield app-only tokens for confidential clients: the client is confidential and authenticated,
  the request asks for the one scope \<^verbatim>\<open>resource/.default\<close>, and the signed access token is for that resource: its audience is
  Graph's or the known resource's with no roles, or the name of the API of the directory the scope names, with exactly
  the roles the client is entitled to on that API: the values of the roles assigned to it there or, when it has no
  assignment there at all, of the enabled roles of the API open to applications. The token is about the client and has no
  delegated scope, and the response carries neither an ID token nor a refresh token.
\<close>

theorem client_credentials_app_only:
  assumes "grantClientCredentials ie cfg now priv rq i = (TokenOK resp, i')"
    and "distinct (map ro_ID (app_roles (id_Store i)))"
  shows "\<exists>app i1 resource aud roles c. authenticateClient ie cfg now rq i = (Inr app, i1) \<and> a_IsConfidential app
    \<and> filter (\<lambda>sc. sc \<notin> set oidcScopes) (SplitScopes (TrimSpace (rq_form rq ''scope''))) = [resource @ ''/.default'']
    \<and> app_only_grant cfg (id_Store i) (a_ID app) resource aud roles
    \<and> signTenant (ie_env ie) cfg now priv (resolveTenant cfg (a_TenantID app)) c (id_Service i) = (Inr (tr_AccessToken resp), id_Service i')
    \<and> c ''aud'' = Some (CStr aud) \<and> c ''roles'' = Some (CStrs roles) \<and> c ''sub'' = Some (CStr (a_ID app)) \<and> c ''scp'' = None
    \<and> tr_IDToken resp = [] \<and> tr_RefreshToken resp = []"
  using assms(1)
proof (cases rule: grantClientCredentials_OK)
  case (1 app i1 aud roles resource)
  have sv: "id_Service i1 = id_Service i" using authenticateClient_service[OF 1(1)] .
  let ?tid = "resolveTenant cfg (a_TenantID app)"
  let ?c = "app_only_claims (ie_env ie) cfg now app aud roles ?tid (id_Store i)"
  have b: "signTenant (ie_env ie) cfg now priv ?tid ?c (id_Service i) = (Inr (tr_AccessToken resp), id_Service i')"
    "tr_IDToken resp = []" "tr_RefreshToken resp = []"
    using 1(5) unfolding sv by (auto simp: BuildAppOnlyResponse_def Let_def split: prod.splits sum.splits)
  have c: "?c ''aud'' = Some (CStr aud)" "?c ''roles'' = Some (CStrs roles)" "?c ''sub'' = Some (CStr (a_ID app))" "?c ''scp'' = None"
    by (simp_all add: app_only_claims_def)
  from app_only_target_grant[OF 1(4)[unfolded sv] assms(2)] 1(1-3) b c show ?thesis by blast
qed

definition api_rq :: Request where
  "api_rq = post0 (client_form @ [(''grant_type'', ''client_credentials''), (''scope'', ''api://app/.default'')])"

definition api_identity :: Identity where
  "api_identity = with_store ((id_Store identity0)\<lparr>app_roles :=
     [\<lparr>ro_ID = ''r1'', ro_AppID = ''app'', ro_Value = ''Do.All'', ro_DisplayName = [], ro_AllowedMemberTypes = ''[Application]'', ro_IsEnabled = True\<rparr>,
      \<lparr>ro_ID = ''r2'', ro_AppID = ''app'', ro_Value = ''Be.User'', ro_DisplayName = [], ro_AllowedMemberTypes = ''[User]'', ro_IsEnabled = True\<rparr>]\<rparr>) identity0"

lemma cc_sample: "\<exists>resp. grantClientCredentials ie0 config0 9 ''K'' api_rq api_identity = (TokenOK resp, api_identity)"
proof -
  have auth: "authenticateClient ie0 config0 9 api_rq api_identity = (Inr (App.truncate app0), api_identity)"
    by (rule authenticate_sample) (simp_all add: api_rq_def post0_def client_form_def api_identity_def)
  have form: "rq_form api_rq ''client_id'' = ''app''" "rq_form api_rq ''scope'' = ''api://app/.default''" "rq_basic api_rq = None"
    by (simp_all add: api_rq_def post0_def client_form_def)
  have sc: "TrimSpace ''api://app/.default'' = ''api://app/.default''"
    "SplitScopes ''api://app/.default'' = [''api://app/.default'']" "''api://app/.default'' \<notin> set oidcScopes"
    "HasSuffix ''api://app/.default'' ''/.default''" "TrimSuffix ''api://app/.default'' ''/.default'' = ''api://app''"
    by (simp_all add: TrimSpace_def SplitScopes_def Fields_def is_space_def oidcScopes_def HasSuffix_def HasPrefix_def TrimSuffix_def)
  have app: "GetApp (id_Store api_identity) ''app'' = Inr (App.truncate app0)" "a_IsConfidential (App.truncate app0)"
    "a_TenantID (App.truncate app0) = ''t''" "findResourceApp (id_Store api_identity) ''api://app'' = Some (App.truncate app0)"
    by (simp_all add: api_identity_def findResourceApp_def GetAppByIDURI_def null_eq_def GetApp_def sql_defs app0_def App.defs)
  have t: "\<exists>aud roles. app_only_target config0 (id_Store api_identity) (App.truncate app0) ''api://app'' = Some (aud, roles)"
    by (simp add: app_only_target_def app(4))
  then obtain aud roles where t: "app_only_target config0 (id_Store api_identity) (App.truncate app0) ''api://app'' = Some (aud, roles)" by blast
  have cfg: "resolveTenant config0 ''t'' = ''t''" by (simp add: config0_def resolveTenant_def)
  obtain jwt where "signTenant (ie_env ie0) config0 9 ''K'' ''t'' (app_only_claims (ie_env ie0) config0 9 (App.truncate app0)
      aud roles ''t'' (id_Store api_identity)) (id_Service api_identity) = (Inr jwt, id_Service api_identity)"
    using sign_sample by (fastforce simp: ie0_def)
  then show ?thesis
    using auth form sc app t cfg
    by (simp add: grantClientCredentials_def BuildAppOnlyResponse_def Let_def)
qed

theorem client_credentials_app_only_witness:
  "\<exists>resp c. grantClientCredentials ie0 config0 9 ''K'' api_rq api_identity = (TokenOK resp, api_identity) \<and> tr_RefreshToken resp = []
     \<and> signTenant (ie_env ie0) config0 9 ''K'' ''t'' c (id_Service api_identity) = (Inr (tr_AccessToken resp), id_Service api_identity)
     \<and> c ''aud'' = Some (CStr ''api://app'') \<and> (\<exists>roles. c ''roles'' = Some (CStrs roles) \<and> set roles = {''Do.All''})"
proof -
  obtain resp where r: "grantClientCredentials ie0 config0 9 ''K'' api_rq api_identity = (TokenOK resp, api_identity)"
    using cc_sample by blast
  have d: "distinct (map ro_ID (app_roles (id_Store api_identity)))" by (simp add: api_identity_def)
  have sc: "filter (\<lambda>sc. sc \<notin> set oidcScopes) (SplitScopes (TrimSpace (rq_form api_rq ''scope''))) = [''api://app/.default'']"
    by (simp add: api_rq_def post0_def client_form_def TrimSpace_def SplitScopes_def Fields_def is_space_def oidcScopes_def)
  have e: "entitled_roles (id_Store api_identity) ''app'' ''app'' = {''Do.All''}"
    by (auto simp: entitled_roles_def api_identity_def identity0_def sample_defs HasPrefix_def)
  have z: "fabricAud ''api://app'' = []" "databricksAud ''api://app'' = []" "azureAud ''api://app'' = []" by code_simp+
  have regs: "app_registrations (id_Store api_identity) = [app0]" by (simp add: api_identity_def)
  have g: "aud = ''api://app'' \<and> set roles = {''Do.All''}"
    if "app_only_grant config0 (id_Store api_identity) ''app'' ''api://app'' aud roles" for aud roles
    using that e unfolding app_only_grant_def regs z by (simp add: config0_def) (auto simp: app0_def)
  from client_credentials_app_only[OF r d] obtain app :: App and i1 resource aud roles c where
    h: "authenticateClient ie0 config0 9 api_rq api_identity = (Inr app, i1)"
    "[''api://app/.default''] = [resource @ ''/.default'']" "app_only_grant config0 (id_Store api_identity) (a_ID app) resource aud roles"
    "signTenant (ie_env ie0) config0 9 ''K'' (resolveTenant config0 (a_TenantID app)) c (id_Service api_identity) = (Inr (tr_AccessToken resp), id_Service api_identity)"
    "c ''aud'' = Some (CStr aud)" "c ''roles'' = Some (CStrs roles)" "tr_RefreshToken resp = []"
    unfolding sc by blast
  have "authenticateClient ie0 config0 9 api_rq api_identity = (Inr (App.truncate app0), api_identity)"
    by (rule authenticate_sample) (simp_all add: api_rq_def post0_def client_form_def api_identity_def)
  with h(1) have a: "a_ID app = ''app''" "resolveTenant config0 (a_TenantID app) = ''t''" by (auto simp: app0_def App.defs config0_def resolveTenant_def)
  have "resource = ''api://app''" using h(2) append_same_eq[of resource "''/.default''" "''api://app''"] by simp
  with g h a r show ?thesis by auto
qed

lemma BuildDelegatedResponse_devices:
  "device_codes (sv_Store (snd (BuildDelegatedResponse env cfg now priv plain g sv))) = device_codes (sv_Store sv)"
proof -
  obtain r sv' where b: "BuildDelegatedResponse env cfg now priv plain g sv = (r, sv')" by fastforce
  then show ?thesis
  proof (cases rule: BuildDelegatedResponse_cases)
    case none
    with b show ?thesis by (simp add: keys_onlyE)
  next
    case (stored t u s1)
    have "device_codes (snd (InsertRefreshToken t s1)) = device_codes s1" by (simp add: InsertRefreshToken_def)
    with b stored(2) keys_onlyE(4)[OF stored(1)] show ?thesis by simp
  qed
qed

text \<open>
  C18. A device-code poll returns tokens only for an approved request: the row was approved, not
  expired and issued to the polling client, the tokens are minted for the user who approved it, and
  the row is gone afterwards, so that the code cannot be redeemed again.
\<close>

theorem device_poll_redeems_approved:
  assumes "grantDeviceCode ie cfg now priv plain rq i = (TokenOK resp, i')" and "devices_ok (id_Store i)"
    and "h = HashToken (ie_env ie) (rq_form rq ''device_code'')"
  shows "\<exists>row g sv. GetDeviceCodeByHash (id_Store i) h = Inr row \<and> dc_Status row = ''approved'' \<and> now < dc_ExpiresAt row
    \<and> BuildDelegatedResponse (ie_env ie) cfg now priv plain g sv = (Inr resp, id_Service i')
    \<and> a_ID (dg_App g) = dc_AppID row \<and> u_ID (dg_User g) = dc_UserID row
    \<and> GetDeviceCodeByHash (id_Store i') h = Inl ErrNotFound"
  using assms(1)
proof (cases rule: grantDeviceCode_OK)
  case (1 app i1 row s2 user g)
  have s: "id_Service i1 = id_Service i" using authenticateClient_service[OF 1(1)] .
  have c: "sql_first (redeemable h (a_ID app) now) (device_codes (id_Store i)) = Some row"
    "s2 = snd (ConsumeApprovedDeviceCode h (a_ID app) now (id_Store i))"
    using 1(2) s assms(3) by (auto simp: ConsumeApprovedDeviceCode_def)
  then have row: "row \<in> set (device_codes (id_Store i))" "redeemable h (a_ID app) now row" using sql_first_Some by fastforce+
  then have "GetDeviceCodeByHash (id_Store i) h = Inr row"
    using devs.get_Inr_iff assms(2) by (auto simp: devices_ok_def redeemable_def)
  moreover have "\<not> device_live h s2"
    using device_use.win_spends[OF assms(2), of "(h, a_ID app, now)"] c by (simp add: device_attempt_def ConsumeApprovedDeviceCode_def)
  moreover have "device_codes (id_Store i') = device_codes s2"
    using BuildDelegatedResponse_devices[of "ie_env ie" cfg now priv plain g] 1(6) by (metis snd_conv Service.select_convs(1) Service.surjective Service.update_convs(1))
  ultimately have "GetDeviceCodeByHash (id_Store i) h = Inr row" "GetDeviceCodeByHash (id_Store i') h = Inl ErrNotFound"
    by (auto simp: devs.get_Inl_iff device_live_def)
  moreover have "u_ID (dg_User g) = dc_UserID row" using enabled_user_Some[OF 1(3)] 1(5) by simp
  ultimately show ?thesis using row(2) 1(4,6) by (auto simp: redeemable_def)
qed

definition poll_rq :: Request where
  "poll_rq = post0 (client_form @ [(''device_code'', ''dcode'')])"

definition poll_row :: DeviceCode where
  "poll_row = device0\<lparr>dc_DeviceCodeHash := HashToken (ie_env ie0) ''dcode''\<rparr>"

definition poll_identity :: Identity where
  "poll_identity = with_store ((id_Store identity0)\<lparr>device_codes := [poll_row]\<rparr>) identity0"

lemma poll_sample:
  "\<exists>resp i'. grantDeviceCode ie0 config0 9 ''K'' ''plain'' poll_rq poll_identity = (TokenOK resp, i')"
proof -
  let ?h = "HashToken (ie_env ie0) ''dcode''" and ?s2 = "(id_Store identity0)\<lparr>device_codes := []\<rparr>"
  have auth: "authenticateClient ie0 config0 9 poll_rq poll_identity = (Inr (App.truncate app0), poll_identity)"
    by (rule authenticate_sample) (simp_all add: poll_rq_def post0_def client_form_def poll_identity_def)
  have form: "rq_form poll_rq ''device_code'' = ''dcode''" by (simp add: poll_rq_def post0_def client_form_def)
  have row: "GetDeviceCodeByHash (id_Store poll_identity) ?h = Inr poll_row"
    "dc_AppID poll_row = ''app''" "dc_ExpiresAt poll_row = 100" "dc_Status poll_row = ''approved''" "dc_UserID poll_row = ''u''"
    "dc_Scopes poll_row = ''openid''" "a_ID (App.truncate app0) = ''app''"
    by (simp_all add: GetDeviceCodeByHash_def poll_identity_def poll_row_def sql_defs device0_def app0_def App.defs)
  have consume: "ConsumeApprovedDeviceCode ?h ''app'' 9 (id_Store poll_identity) = (Some poll_row, ?s2)"
    by (simp add: ConsumeApprovedDeviceCode_def redeemable_def poll_identity_def poll_row_def sql_defs device0_def)
  have user: "enabled_user ?s2 ''u'' = Some user0" by (simp add: enabled_user_def GetUser_def sql_defs user0_def)
  have sc: "Fields ''openid'' = [''openid'']" "cf_GraphResourceID config0 = ''https://graph''"
    by (simp_all add: Fields_def is_space_def config0_def)
  obtain rs where rs: "ResolveDelegatedScopes ''https://graph'' ?s2 [''openid''] = Some rs" "rs_Granted rs = [''openid'']"
    using openid_resolves by blast
  let ?g = "delegated (App.truncate app0) user0 (rs_Granted rs) (rs_Resource rs) (rs_Requested rs)"
  obtain resp where "BuildDelegatedResponse (ie_env ie0) config0 9 ''K'' ''plain'' ?g (id_Service (with_store ?s2 poll_identity))
      = (Inr resp, id_Service (with_store ?s2 poll_identity))"
    using build_sample[of ?g Map.empty 9 "''K''" "''plain''" "id_Service (with_store ?s2 poll_identity)"] rs(2)
    by (auto simp: delegated_def ie0_def)
  then show ?thesis
    using auth form row consume user sc rs(1) by (simp add: grantDeviceCode_def respond_delegated_def)
qed

theorem device_poll_redeems_approved_witness:
  "\<exists>resp i'. grantDeviceCode ie0 config0 9 ''K'' ''plain'' poll_rq poll_identity = (TokenOK resp, i')
     \<and> GetDeviceCodeByHash (id_Store i') (HashToken (ie_env ie0) (rq_form poll_rq ''device_code'')) = Inl ErrNotFound"
proof -
  obtain resp i' where r: "grantDeviceCode ie0 config0 9 ''K'' ''plain'' poll_rq poll_identity = (TokenOK resp, i')"
    using poll_sample by blast
  have "devices_ok (id_Store poll_identity)" by (simp add: devices_ok_def poll_identity_def)
  from device_poll_redeems_approved[OF r this refl] r show ?thesis by (elim exE conjE) (intro exI conjI)
qed

end
