(* ===== verification/DeviceFlow.thy ===== *)
theory DeviceFlow
  imports TokenEndpoint
begin

text \<open>
  \<^verbatim>\<open>internal/identity/devicecode.go\<close>: the device authorization grant (RFC 8628). The machine endpoint
  allocates a device code and a user code; the human approval surface walks lookup, sign-in and
  decide, carrying an HMAC-signed state; polling is \<open>grantDeviceCode\<close>. Rendered pages are values that
  say which page it is and carry the signed state it embeds.
\<close>

section \<open>User codes\<close>

definition userCodeAlphabet :: string where
  "userCodeAlphabet = ''BCDFGHJKLMNPQRSTVWXZ''"

text \<open>\<open>ns\<close> are the eight random draws below 20.\<close>

definition newUserCode :: "nat list \<Rightarrow> string" where
  "newUserCode ns =
     (let ls = map (\<lambda>n. userCodeAlphabet ! n) ns in take 4 ls @ ''-'' @ drop 4 ls)"

text \<open>\<^verbatim>\<open>strings.ToUpper\<close> on the bytes of a UTF-8 string, as far as its result can contain letters of the
  alphabet: the ASCII letters, and U+017F (bytes C5 BF), whose upper case is S.\<close>

definition upper_char :: "char \<Rightarrow> char" where
  "upper_char c = (if CHR ''a'' \<le> c \<and> c \<le> CHR ''z'' then char_of (of_char c - 32 :: nat) else c)"

fun to_upper :: "string \<Rightarrow> string" where
  "to_upper [] = []"
| "to_upper [c] = [upper_char c]"
| "to_upper (c # d # cs) =
     (if c = CHR 0xC5 \<and> d = CHR 0xBF then CHR ''S'' # to_upper cs else upper_char c # to_upper (d # cs))"

definition normalizeUserCode :: "string \<Rightarrow> string" where
  "normalizeUserCode raw =
     (let letters = filter (\<lambda>c. c \<in> set userCodeAlphabet) (to_upper raw) in
      if length letters \<noteq> 8 then [] else take 4 letters @ ''-'' @ drop 4 letters)"

section \<open>Device authorization\<close>

datatype device_result =
    DeviceOK string string string int int
  | DeviceErr oauth_err

text \<open>The allocation loop: the first of the (at most five) candidates that is not in use.\<close>

fun pick_user_code :: "Store \<Rightarrow> string list \<Rightarrow> string" where
  "pick_user_code s [] = []"
| "pick_user_code s (c # cs) = (if UserCodeExists s c then pick_user_code s cs else c)"

definition handleDeviceAuthorization ::
  "IEnv \<Rightarrow> Config \<Rightarrow> int \<Rightarrow> string \<Rightarrow> nat list list \<Rightarrow> Request \<Rightarrow> Identity \<Rightarrow> device_result \<times> Identity" where
  "handleDeviceAuthorization ie cfg now deviceCode draws rq i =
     (case tenantSegment cfg (id_Store i) rq of (tenantSeg, ok) \<Rightarrow>
      if \<not> ok then (DeviceErr (OAuthError ''invalid_request'' ''AADSTS90002: Unknown tenant.''), i)
      else if \<not> rq_form_ok rq then (DeviceErr (OAuthError ''invalid_request'' ''AADSTS900144: Malformed request body.''), i)
      else case authenticateClient ie cfg now rq i of
        (Inl e, i1) \<Rightarrow> (DeviceErr e, i1)
      | (Inr app, i1) \<Rightarrow>
        (let s = id_Store i1; scopes = SplitScopes (rq_form rq ''scope'') in
         if scopes = [] then (DeviceErr (OAuthError ''invalid_scope'' ''AADSTS70011: scope is required.''), i1)
         else if ResolveDelegatedScopes (cf_GraphResourceID cfg) s scopes = None then (DeviceErr scope_not_registered, i1)
         else let userCode = pick_user_code s (map newUserCode (take 5 draws)) in
           if userCode = [] then (DeviceErr (OAuthError ''invalid_request'' ''AADSTS90002: Could not allocate a user code.''), i1)
           else case InsertDeviceCode \<lparr>dc_DeviceCodeHash = HashToken (ie_env ie) deviceCode, dc_UserCode = userCode,
                    dc_AppID = a_ID app, dc_UserID = [], dc_Scopes = Join scopes '' '', dc_Status = ''pending'',
                    dc_Interval = cf_DeviceInterval cfg, dc_ExpiresAt = i64_add now (cf_DeviceCode cfg), dc_CreatedAt = now\<rparr> s of
             (Inl _, s2) \<Rightarrow> (DeviceErr (OAuthError ''invalid_request'' ''AADSTS90002: Could not persist the device code.''),
                            with_store s2 i1)
           | (Inr _, s2) \<Rightarrow>
               (DeviceOK deviceCode userCode (cf_Login cfg @ ''/'' @ tenantSeg @ ''/oauth2/v2.0/devicecode'')
                  (cf_DeviceCode cfg) (cf_DeviceInterval cfg), with_store s2 i1)))"

section \<open>The approval surface\<close>

text \<open>The JSON codec of a signed form state.\<close>

record 'a codec =
  cd_enc :: "'a \<Rightarrow> string"
  cd_dec :: "string \<Rightarrow> 'a option"

record deviceApprovalState =
  ds_Kind :: string
  ds_UserCode :: string
  ds_SID :: string

datatype page =
    ErrorPage int string
  | CodeEntryPage string
  | PasswordPage string
  | PickerPage string "User list"
  | DeviceConsentPage string DeviceCode User
  | DonePage string

definition loadPendingDeviceCode :: "int \<Rightarrow> Store \<Rightarrow> string \<Rightarrow> page + DeviceCode" where
  "loadPendingDeviceCode now s userCode =
     (case GetDeviceCodeByUserCode s userCode of
        Inl _ \<Rightarrow> Inl (ErrorPage 200 ''Code not found'')
      | Inr row \<Rightarrow>
          if dc_ExpiresAt row \<le> now then Inl (ErrorPage 200 ''Code expired'')
          else if dc_Status row = ''denied'' then Inl (ErrorPage 200 ''Request denied'')
          else if dc_Status row = ''approved'' then Inl (ErrorPage 200 ''Code already used'')
          else Inr row)"

definition renderDeviceConsent :: "Store \<Rightarrow> DeviceCode \<Rightarrow> User \<Rightarrow> string \<Rightarrow> page" where
  "renderDeviceConsent s row user signedState =
     (case GetApp s (dc_AppID row) of
        Inl _ \<Rightarrow> ErrorPage 200 ''Code not found''
      | Inr app \<Rightarrow> DeviceConsentPage signedState row user)"

definition sign_device :: "IEnv \<Rightarrow> deviceApprovalState codec \<Rightarrow> Identity \<Rightarrow> string \<Rightarrow> string \<Rightarrow> string" where
  "sign_device ie cd i userCode sid =
     signState ie (id_stateKey i) (cd_enc cd \<lparr>ds_Kind = ''device'', ds_UserCode = userCode, ds_SID = sid\<rparr>)"

definition verify_device :: "IEnv \<Rightarrow> deviceApprovalState codec \<Rightarrow> Identity \<Rightarrow> string \<Rightarrow> deviceApprovalState option" where
  "verify_device ie cd i signed =
     (case Option.bind (verifyState ie (id_stateKey i) signed) (cd_dec cd) of
        None \<Rightarrow> None
      | Some st \<Rightarrow> if ds_Kind st = ''device'' then Some st else None)"

definition deviceLookup ::
  "IEnv \<Rightarrow> deviceApprovalState codec \<Rightarrow> Config \<Rightarrow> int \<Rightarrow> Request \<Rightarrow> Identity \<Rightarrow> page" where
  "deviceLookup ie cd cfg now rq i =
     (let userCode = normalizeUserCode (rq_form rq ''user_code''); s = id_Store i in
      if userCode = [] then CodeEntryPage ''Enter the 8-character code, e.g. BCDF-GHJK.''
      else case loadPendingDeviceCode now s userCode of
        Inl p \<Rightarrow> p
      | Inr row \<Rightarrow>
        (case currentSession now s rq of
           Some (sess, user) \<Rightarrow> renderDeviceConsent s row user (sign_device ie cd i userCode (se_ID sess))
         | None \<Rightarrow>
           (let signed = sign_device ie cd i userCode [] in
            if cf_RequirePassword cfg then PasswordPage signed
            else PickerPage signed (filter u_AccountEnabled (fst (ListUsers s 100 0 []))))))"

text \<open>The account a sign-in form names: by password when the configuration requires it, otherwise
  the picked enabled user.\<close>

definition sign_in_user :: "Env \<Rightarrow> Config \<Rightarrow> Store \<Rightarrow> Request \<Rightarrow> User option" where
  "sign_in_user env cfg s rq =
     (if cf_RequirePassword cfg then
        (case VerifyPassword (env_verify_secret env) s (rq_form rq ''__ee_username'') (rq_form rq ''__ee_password'') of
           Inr u \<Rightarrow> Some u | Inl _ \<Rightarrow> None)
      else enabled_user s (rq_form rq ''__ee_user''))"

text \<open>The second component is the session cookie the response sets.\<close>

definition deviceSignIn ::
  "IEnv \<Rightarrow> deviceApprovalState codec \<Rightarrow> Config \<Rightarrow> int \<Rightarrow> string \<Rightarrow> Request \<Rightarrow> Identity \<Rightarrow> page \<times> string option \<times> Identity" where
  "deviceSignIn ie cd cfg now sid rq i =
     (case verify_device ie cd i (rq_form rq ''__ee_state'') of
        None \<Rightarrow> (ErrorPage 400 ''Invalid request'', None, i)
      | Some st \<Rightarrow>
        (case loadPendingDeviceCode now (id_Store i) (ds_UserCode st) of
           Inl p \<Rightarrow> (p, None, i)
         | Inr row \<Rightarrow>
           (case sign_in_user (ie_env ie) cfg (id_Store i) rq of
              None \<Rightarrow> (ErrorPage 200 ''Sign-in failed'', None, i)
            | Some user \<Rightarrow>
              (case createSession now sid (u_ID user) ''pwd'' (id_Store i) of
                 (None, s1) \<Rightarrow> (ErrorPage 500 ''Error'', None, with_store s1 i)
               | (Some sess, s1) \<Rightarrow>
                   (renderDeviceConsent s1 row user (sign_device ie cd i (ds_UserCode st) (se_ID sess)),
                    Some (se_ID sess), with_store s1 i)))))"

definition decide_store :: "string \<Rightarrow> string \<Rightarrow> string \<Rightarrow> string \<Rightarrow> Identity \<Rightarrow> page \<times> Identity" where
  "decide_store userCode status userID done i =
     (case SetDeviceCodeDecision userCode status userID (id_Store i) of
        (Inl _, s1) \<Rightarrow> (ErrorPage 200 ''Code already used'', with_store s1 i)
      | (Inr _, s1) \<Rightarrow> (DonePage done, with_store s1 i))"

definition deviceDecide ::
  "IEnv \<Rightarrow> deviceApprovalState codec \<Rightarrow> int \<Rightarrow> Request \<Rightarrow> Identity \<Rightarrow> page \<times> Identity" where
  "deviceDecide ie cd now rq i =
     (case verify_device ie cd i (rq_form rq ''__ee_state'') of
        None \<Rightarrow> (ErrorPage 400 ''Invalid request'', i)
      | Some st \<Rightarrow>
        if ds_SID st = [] then (ErrorPage 400 ''Invalid request'', i)
        else case currentSession now (id_Store i) rq of
          None \<Rightarrow> (ErrorPage 400 ''Invalid request'', i)
        | Some (sess, user) \<Rightarrow>
          if se_ID sess \<noteq> ds_SID st then (ErrorPage 400 ''Invalid request'', i)
          else case loadPendingDeviceCode now (id_Store i) (ds_UserCode st) of
            Inl p \<Rightarrow> (p, i)
          | Inr row \<Rightarrow>
            (let decision = rq_form rq ''__ee_decision'' in
             if decision = ''approve'' then decide_store (ds_UserCode st) ''approved'' (u_ID user) ''Approved'' i
             else if decision = ''deny'' then decide_store (ds_UserCode st) ''denied'' [] ''Denied'' i
             else (ErrorPage 400 ''Invalid request'', i)))"

definition handleDeviceVerify ::
  "IEnv \<Rightarrow> deviceApprovalState codec \<Rightarrow> Config \<Rightarrow> int \<Rightarrow> string \<Rightarrow> Request \<Rightarrow> Identity \<Rightarrow> page \<times> string option \<times> Identity" where
  "handleDeviceVerify ie cd cfg now sid rq i =
     (if \<not> snd (tenantSegment cfg (id_Store i) rq) \<or> \<not> rq_form_ok rq then (ErrorPage 400 ''Invalid request'', None, i)
      else let step = rq_form rq ''__ee_step'' in
        if step = ''lookup'' then (deviceLookup ie cd cfg now rq i, None, i)
        else if step = ''signin'' then deviceSignIn ie cd cfg now sid rq i
        else if step = ''decide'' then (case deviceDecide ie cd now rq i of (p, i1) \<Rightarrow> (p, None, i1))
        else (ErrorPage 400 ''Invalid request'', None, i))"

section \<open>Lemmas\<close>

lemma verify_device_Some:
  assumes "verify_device ie cd i signed = Some st"
  shows "\<exists>payload. verifyState ie (id_stateKey i) signed = Some payload \<and> cd_dec cd payload = Some st \<and> ds_Kind st = ''device''"
  using assms by (auto simp: verify_device_def bind_eq_Some_conv split: option.splits if_splits)

lemma verify_device_sign:
  assumes "cd_dec cd (cd_enc cd \<lparr>ds_Kind = ''device'', ds_UserCode = uc, ds_SID = sid\<rparr>)
      = Some \<lparr>ds_Kind = ''device'', ds_UserCode = uc, ds_SID = sid\<rparr>"
  shows "verify_device ie cd i (sign_device ie cd i uc sid) = Some \<lparr>ds_Kind = ''device'', ds_UserCode = uc, ds_SID = sid\<rparr>"
  using assms by (simp add: verify_device_def sign_device_def verifyState_signState)

lemma loadPendingDeviceCode_Inr:
  assumes "loadPendingDeviceCode now s uc = Inr row"
  shows "GetDeviceCodeByUserCode s uc = Inr row" "now < dc_ExpiresAt row" "dc_Status row \<noteq> ''approved''" "dc_Status row \<noteq> ''denied''"
  using assms by (auto simp: loadPendingDeviceCode_def not_le split: sum.splits if_splits)

lemma SetDeviceCodeDecision_settled:
  "d \<in> set (device_codes s) \<Longrightarrow> dc_Status d \<noteq> ''pending'' \<Longrightarrow> d \<in> set (device_codes (snd (SetDeviceCodeDecision uc st uid s)))"
  by (auto simp: SetDeviceCodeDecision_def sql_update_def)

lemma to_upper_map: "CHR 0xC5 \<notin> set s \<Longrightarrow> to_upper s = map upper_char s"
  by (induction s rule: to_upper.induct) auto

lemma alphabet_case:
  "c \<in> set userCodeAlphabet \<Longrightarrow> upper_char c = c" "c \<in> set userCodeAlphabet \<Longrightarrow> upper_char (lower_char c) = c"
  "c \<in> set userCodeAlphabet \<Longrightarrow> c \<noteq> CHR 0xC5" "c \<in> set userCodeAlphabet \<Longrightarrow> lower_char c \<noteq> CHR 0xC5"
  "CHR ''-'' \<notin> set userCodeAlphabet"
proof -
  have "list_all (\<lambda>c. upper_char c = c \<and> upper_char (lower_char c) = c \<and> c \<noteq> CHR 0xC5 \<and> lower_char c \<noteq> CHR 0xC5 \<and> c \<noteq> CHR ''-'')
      userCodeAlphabet" by code_simp
  then show "c \<in> set userCodeAlphabet \<Longrightarrow> upper_char c = c" "c \<in> set userCodeAlphabet \<Longrightarrow> upper_char (lower_char c) = c"
    "c \<in> set userCodeAlphabet \<Longrightarrow> c \<noteq> CHR 0xC5" "c \<in> set userCodeAlphabet \<Longrightarrow> lower_char c \<noteq> CHR 0xC5"
    "CHR ''-'' \<notin> set userCodeAlphabet" by (auto simp: list_all_iff)
qed

lemma normalize_letters:
  assumes "length ls = 8" and "set ls \<subseteq> set userCodeAlphabet"
  shows "normalizeUserCode (take 4 ls @ ''-'' @ drop 4 ls) = take 4 ls @ ''-'' @ drop 4 ls"
    "normalizeUserCode (map lower_char ls) = take 4 ls @ ''-'' @ drop 4 ls"
proof -
  have in_alpha: "c \<in> set userCodeAlphabet" if "c \<in> set (take 4 ls) \<or> c \<in> set (drop 4 ls) \<or> c \<in> set ls" for c
    using that assms(2) by (auto dest: in_set_takeD in_set_dropD)
  have keep: "filter (\<lambda>c. c \<in> set userCodeAlphabet) (map upper_char xs) = xs" if "set xs \<subseteq> set userCodeAlphabet" for xs
    using that by (induction xs) (auto simp: alphabet_case)
  have keep': "filter (\<lambda>c. c \<in> set userCodeAlphabet) (map upper_char (map lower_char xs)) = xs"
    if "set xs \<subseteq> set userCodeAlphabet" for xs
    using that by (induction xs) (auto simp: alphabet_case)
  have dash: "upper_char (CHR ''-'') = CHR ''-''" by (simp add: upper_char_def)
  have up: "to_upper (take 4 ls @ ''-'' @ drop 4 ls) = map upper_char (take 4 ls @ ''-'' @ drop 4 ls)"
    using in_alpha alphabet_case(3) by (intro to_upper_map) auto
  have up': "to_upper (map lower_char ls) = map upper_char (map lower_char ls)"
    using in_alpha alphabet_case(4) by (intro to_upper_map) fastforce
  have "filter (\<lambda>c. c \<in> set userCodeAlphabet) (to_upper (take 4 ls @ ''-'' @ drop 4 ls)) = take 4 ls @ drop 4 ls"
    unfolding up using keep[of "take 4 ls"] keep[of "drop 4 ls"] in_alpha by (simp add: dash alphabet_case(5) subsetI)
  then show "normalizeUserCode (take 4 ls @ ''-'' @ drop 4 ls) = take 4 ls @ ''-'' @ drop 4 ls"
    using assms(1) by (simp add: normalizeUserCode_def)
  show "normalizeUserCode (map lower_char ls) = take 4 ls @ ''-'' @ drop 4 ls"
    using keep'[OF assms(2)] assms(1) by (simp only: normalizeUserCode_def up' Let_def) simp
qed

lemma deviceDecide_changes:
  assumes "deviceDecide ie cd now rq i = (p, i')" and "id_Store i' \<noteq> id_Store i"
  obtains st sess user row status uid where "verify_device ie cd i (rq_form rq ''__ee_state'') = Some st" "ds_SID st \<noteq> []"
    "currentSession now (id_Store i) rq = Some (sess, user)" "se_ID sess = ds_SID st"
    "loadPendingDeviceCode now (id_Store i) (ds_UserCode st) = Inr row"
    "id_Store i' = snd (SetDeviceCodeDecision (ds_UserCode st) status uid (id_Store i))"
    "(status = ''approved'' \<and> uid = u_ID user) \<or> (status = ''denied'' \<and> uid = [])"
proof -
  obtain st where st: "verify_device ie cd i (rq_form rq ''__ee_state'') = Some st" "ds_SID st \<noteq> []"
    using assms by (auto simp: deviceDecide_def split: option.splits if_splits)
  obtain sess user where se: "currentSession now (id_Store i) rq = Some (sess, user)" "se_ID sess = ds_SID st"
    using assms st by (auto simp: deviceDecide_def split: option.splits if_splits)
  obtain row where row: "loadPendingDeviceCode now (id_Store i) (ds_UserCode st) = Inr row"
    using assms st se by (auto simp: deviceDecide_def split: sum.splits)
  obtain status uid d where "decide_store (ds_UserCode st) status uid d i = (p, i')"
    "(status = ''approved'' \<and> uid = u_ID user) \<or> (status = ''denied'' \<and> uid = [])"
    using assms st se row by (auto simp: deviceDecide_def Let_def split: if_splits)
  then have "id_Store i' = snd (SetDeviceCodeDecision (ds_UserCode st) status uid (id_Store i))"
    "(status = ''approved'' \<and> uid = u_ID user) \<or> (status = ''denied'' \<and> uid = [])"
    by (auto simp: decide_store_def split: prod.splits sum.splits)
  with st se row that show thesis by blast
qed

section \<open>Properties\<close>

text \<open>
  C19. A device request is decided only by the signed-in user it was shown to: a decision changes the
  store only under a form state carrying the server's MAC, of kind \<^verbatim>\<open>device\<close>, bound to the id of a live
  session of an enabled user whose cookie the request presents, for a request that is neither decided
  nor expired; an approval records that very user; and requests that are no longer pending keep their
  rows.
\<close>

theorem device_decision_guarded:
  assumes "deviceDecide ie cd now rq i = (p, i')" and "id_Store i' \<noteq> id_Store i"
  shows "\<exists>payload st sess user row status uid. verifyState ie (id_stateKey i) (rq_form rq ''__ee_state'') = Some payload
    \<and> cd_dec cd payload = Some st \<and> ds_Kind st = ''device'' \<and> currentSession now (id_Store i) rq = Some (sess, user)
    \<and> se_ID sess = ds_SID st \<and> GetDeviceCodeByUserCode (id_Store i) (ds_UserCode st) = Inr row \<and> now < dc_ExpiresAt row
    \<and> id_Store i' = snd (SetDeviceCodeDecision (ds_UserCode st) status uid (id_Store i))
    \<and> ((status = ''approved'' \<and> uid = u_ID user) \<or> (status = ''denied'' \<and> uid = []))
    \<and> (\<forall>d \<in> set (device_codes (id_Store i)). dc_Status d \<noteq> ''pending'' \<longrightarrow> d \<in> set (device_codes (id_Store i')))"
  using assms
proof (cases rule: deviceDecide_changes)
  case (1 st sess user row status uid)
  obtain payload where pl: "verifyState ie (id_stateKey i) (rq_form rq ''__ee_state'') = Some payload"
    "cd_dec cd payload = Some st" "ds_Kind st = ''device''"
    using verify_device_Some[OF 1(1)] by blast
  have settled: "\<forall>d \<in> set (device_codes (id_Store i)). dc_Status d \<noteq> ''pending'' \<longrightarrow> d \<in> set (device_codes (id_Store i'))"
    using SetDeviceCodeDecision_settled 1(6) by simp
  note row = loadPendingDeviceCode_Inr[OF 1(5)]
  show ?thesis
    using pl 1(3,4) row(1,2) 1(6,7) settled by (intro exI conjI)
qed

definition codec0 :: "deviceApprovalState codec" where
  "codec0 = \<lparr>cd_enc = (\<lambda>_. ''st''), cd_dec = (\<lambda>_. Some \<lparr>ds_Kind = ''device'', ds_UserCode = ''UC'', ds_SID = ''sid''\<rparr>)\<rparr>"

definition decide_identity :: Identity where
  "decide_identity = with_store ((id_Store identity0)\<lparr>device_codes := [device0\<lparr>dc_Status := ''pending'', dc_UserID := []\<rparr>]\<rparr>) identity0"

definition decide_rq :: Request where
  "decide_rq = post0 [(''__ee_state'', signState ie0 ''key'' ''st''), (''__ee_decision'', ''approve'')]"

lemma decide_sample:
  "id_Store (snd (deviceDecide ie0 codec0 9 decide_rq decide_identity))
     = (id_Store identity0)\<lparr>device_codes := [device0\<lparr>dc_Status := ''approved'', dc_UserID := ''u''\<rparr>]\<rparr>"
proof -
  have key: "id_stateKey decide_identity = ''key''" by (simp add: decide_identity_def with_store_def identity0_def)
  have form: "rq_form decide_rq ''__ee_state'' = signState ie0 ''key'' ''st''" "rq_form decide_rq ''__ee_decision'' = ''approve''"
    "rq_cookie decide_rq = ''sid''" by (simp_all add: decide_rq_def post0_def)
  have st: "verify_device ie0 codec0 decide_identity (signState ie0 ''key'' ''st'') = Some \<lparr>ds_Kind = ''device'', ds_UserCode = ''UC'', ds_SID = ''sid''\<rparr>"
    by (simp add: verify_device_def key verifyState_signState codec0_def)
  have sess: "currentSession 9 (id_Store decide_identity) decide_rq = Some (session0, user0)"
    by (simp add: currentSession_def form decide_identity_def GetSession_def GetUser_def sql_defs session0_def user0_def)
  have ids: "se_ID session0 = ''sid''" "u_ID user0 = ''u''" by (simp_all add: session0_def user0_def)
  have load: "\<exists>row. loadPendingDeviceCode 9 (id_Store decide_identity) ''UC'' = Inr row"
    by (simp add: loadPendingDeviceCode_def GetDeviceCodeByUserCode_def decide_identity_def sql_defs device0_def)
  have set: "SetDeviceCodeDecision ''UC'' ''approved'' ''u'' (id_Store decide_identity)
      = (Inr (), (id_Store identity0)\<lparr>device_codes := [device0\<lparr>dc_Status := ''approved'', dc_UserID := ''u''\<rparr>]\<rparr>)"
    by (simp add: SetDeviceCodeDecision_def requireRow_def decide_identity_def sql_defs device0_def)
  show ?thesis
    using load set by (auto simp: deviceDecide_def form st sess ids decide_store_def)
qed

theorem device_decision_guarded_witness:
  "\<exists>payload. verifyState ie0 (id_stateKey decide_identity) (rq_form decide_rq ''__ee_state'') = Some payload"
proof -
  have "id_Store (snd (deviceDecide ie0 codec0 9 decide_rq decide_identity)) \<noteq> id_Store decide_identity"
    unfolding decide_sample by (auto simp: decide_identity_def device0_def dest!: arg_cong[of _ _ device_codes])
  from device_decision_guarded[OF surjective_pairing this] show ?thesis by (elim exE conjE) (intro exI)
qed

text \<open>
  Whatever user code the emulator shows can be typed back: normalising a generated code gives the
  code itself, also when it is typed in lower case and without the dash.
\<close>

theorem user_code_normalizes:
  assumes "length ns = 8" and "\<forall>n \<in> set ns. n < 20"
  shows "normalizeUserCode (newUserCode ns) = newUserCode ns
    \<and> normalizeUserCode (map lower_char (filter (\<lambda>c. c \<noteq> CHR ''-'') (newUserCode ns))) = newUserCode ns"
proof -
  let ?ls = "map (\<lambda>n. userCodeAlphabet ! n) ns"
  have "length userCodeAlphabet = 20" by (simp add: userCodeAlphabet_def)
  then have sub: "set ?ls \<subseteq> set userCodeAlphabet" using assms(2) by (auto intro: nth_mem)
  have "CHR ''-'' \<notin> set (take 4 ?ls)" "CHR ''-'' \<notin> set (drop 4 ?ls)"
    using sub alphabet_case(5) by (blast dest: in_set_takeD in_set_dropD)+
  then have "filter (\<lambda>c. c \<noteq> CHR ''-'') (take 4 ?ls) = take 4 ?ls" "filter (\<lambda>c. c \<noteq> CHR ''-'') (drop 4 ?ls) = drop 4 ?ls"
    by (fastforce simp: filter_id_conv)+
  then have strip: "filter (\<lambda>c. c \<noteq> CHR ''-'') (newUserCode ns) = ?ls"
    unfolding newUserCode_def Let_def filter_append by simp
  show ?thesis
    using normalize_letters[of ?ls] sub assms(1) unfolding strip by (simp add: newUserCode_def Let_def)
qed

theorem user_code_normalizes_witness:
  "normalizeUserCode ''bcdfghjk'' = ''BCDF-GHJK''"
proof -
  have "map lower_char (filter (\<lambda>c. c \<noteq> CHR ''-'') (newUserCode [0, 1, 2, 3, 4, 5, 6, 7])) = ''bcdfghjk''"
    "newUserCode [0, 1, 2, 3, 4, 5, 6, 7] = ''BCDF-GHJK''" by code_simp+
  with user_code_normalizes[of "[0, 1, 2, 3, 4, 5, 6, 7]"] show ?thesis by simp
qed

end
