(* ===== verification/Authorize.thy ===== *)
theory Authorize
  imports DeviceFlow
begin

text \<open>
  \<^verbatim>\<open>internal/identity/authorize.go\<close> and \<^verbatim>\<open>requestobject.go\<close>: the authorize endpoint, its sign-in and
  consent submissions, and JAR request objects. A delivered result is kept as the redirect URI, the
  response mode and the parameters; their URL or HTML encoding is not modelled.
\<close>

record authorizeState =
  as_Kind :: string
  as_Tenant :: string
  as_ClientID :: string
  as_RedirectURI :: string
  as_Scope :: string
  as_State :: string
  as_Nonce :: string
  as_Challenge :: string
  as_Method :: string
  as_ResponseMode :: string
  as_ResponseType :: string
  as_MaxAge :: int
  as_HasMaxAge :: bool

text \<open>\<open>an_origin\<close> is \<^verbatim>\<open>url.Parse\<close> reduced to scheme and host (nothing when the URL does not parse or
  lacks one of them), \<open>an_itoa\<close> is \<^verbatim>\<open>strconv.FormatInt\<close>.\<close>

record AEnv =
  an_ie :: IEnv
  an_codec :: "authorizeState codec"
  an_origin :: "string \<Rightarrow> string option"
  an_itoa :: "int \<Rightarrow> string"

datatype authorize_result =
    AErrorPage int string
  | SignInForm authorizeState string
  | ConsentForm authorizeState App
  | Deliver string string "(string \<times> string) list"

definition sign_authorize :: "AEnv \<Rightarrow> Identity \<Rightarrow> authorizeState \<Rightarrow> string" where
  "sign_authorize an i st = signState (an_ie an) (id_stateKey i) (cd_enc (an_codec an) st)"

definition verify_authorize :: "AEnv \<Rightarrow> Identity \<Rightarrow> string \<Rightarrow> authorizeState option" where
  "verify_authorize an i signed =
     (case Option.bind (verifyState (an_ie an) (id_stateKey i) signed) (cd_dec (an_codec an)) of
        None \<Rightarrow> None
      | Some st \<Rightarrow> if as_Kind st = ''authorize'' then Some st else None)"

definition normalizeResponseType :: "string \<Rightarrow> string" where
  "normalizeResponseType v = Join (sort (Fields v)) '' ''"

section \<open>Delivering a result\<close>

definition deliverAuthorizeResult :: "authorizeState \<Rightarrow> (string \<times> string) list \<Rightarrow> authorize_result" where
  "deliverAuthorizeResult st params =
     Deliver (as_RedirectURI st)
       (if as_ResponseMode st = ''form_post'' \<or> as_ResponseMode st = ''fragment'' then as_ResponseMode st else ''query'')
       (params @ (if as_State st \<noteq> [] then [(''state'', as_State st)] else []))"

definition deliverAuthorizeError :: "authorizeState \<Rightarrow> string \<Rightarrow> string \<Rightarrow> authorize_result" where
  "deliverAuthorizeError st code desc = deliverAuthorizeResult st [(''error'', code), (''error_description'', desc)]"

text \<open>\<open>code\<close> is the fresh opaque code, \<open>priv\<close> a fresh signing key.\<close>

definition issueCodeAndDeliver ::
  "AEnv \<Rightarrow> Config \<Rightarrow> int \<Rightarrow> string \<Rightarrow> string \<Rightarrow> authorizeState \<Rightarrow> App \<Rightarrow> User \<Rightarrow> string \<Rightarrow> int \<Rightarrow> Identity
     \<Rightarrow> authorize_result \<times> Identity" where
  "issueCodeAndDeliver an cfg now priv code st app user amr authTime i =
     (case ResolveDelegatedScopes (cf_GraphResourceID cfg) (id_Store i) (SplitScopes (as_Scope st)) of
        None \<Rightarrow> (deliverAuthorizeError st ''invalid_scope'' ''A requested resource scope is not registered.'', i)
      | Some resolved \<Rightarrow>
        (case IssueAuthCode cfg now code
                \<lparr>cr_AppID = a_ID app, cr_UserID = u_ID user, cr_RedirectURI = as_RedirectURI st,
                 cr_Scopes = rs_Granted resolved, cr_Resource = rs_Resource resolved, cr_CodeChallenge = as_Challenge st,
                 cr_ChallengeMethod = as_Method st, cr_Nonce = as_Nonce st, cr_AMR = amr, cr_AuthTime = authTime,
                 cr_MaxAgeRequested = as_HasMaxAge st\<rparr> (id_Store i) of
           (Inl _, s1) \<Rightarrow> (AErrorPage 500 ''Error'', with_store s1 i)
         | (Inr c, s1) \<Rightarrow>
           (let i1 = with_store s1 i; rt = as_ResponseType st;
                codeParam = (if rt = ''code'' \<or> rt = ''code id_token'' then [(''code'', c)] else []) in
            if rt = ''id_token'' \<or> rt = ''code id_token'' then
              (case mintIDToken (ie_env (an_ie an)) cfg now priv
                      ((delegated app user (rs_Granted resolved) (rs_Resource resolved) [])
                         \<lparr>dg_Nonce := as_Nonce st, dg_AMR := amr, dg_AuthTime := authTime,
                          dg_MaxAgeRequested := as_HasMaxAge st\<rparr>) (id_Service i1) of
                 (Inl _, sv) \<Rightarrow> (AErrorPage 500 ''Error'', i1\<lparr>id_Service := sv\<rparr>)
               | (Inr idt, sv) \<Rightarrow> (deliverAuthorizeResult st (codeParam @ [(''id_token'', idt)]), i1\<lparr>id_Service := sv\<rparr>))
            else (deliverAuthorizeResult st codeParam, i1))))"

section \<open>Request objects\<close>

definition allowedRequestURIOrigin :: "AEnv \<Rightarrow> Store \<Rightarrow> string \<Rightarrow> string \<Rightarrow> bool" where
  "allowedRequestURIOrigin an s appID requestURI =
     (case an_origin an requestURI of
        None \<Rightarrow> False
      | Some want \<Rightarrow> list_ex (\<lambda>r. an_origin an (ru_URI r) = Some want) (ListRedirectURIs s appID))"

definition requestObjectMaxBytes :: nat where
  "requestObjectMaxBytes = 65536"

definition fetchRequestObject :: "AEnv \<Rightarrow> int \<Rightarrow> Store \<Rightarrow> string \<Rightarrow> string \<Rightarrow> svc_err + claims" where
  "fetchRequestObject an now s appID requestURI =
     (if \<not> allowedRequestURIOrigin an s appID requestURI
      then Inl (Failed ''request_uri origin is not a registered redirect-URI origin for this application'')
      else case ie_http (an_ie an) requestURI of
        None \<Rightarrow> Inl (Failed ''could not fetch request_uri'')
      | Some (status, body) \<Rightarrow>
          if status \<noteq> 200 then Inl (Failed ''request_uri returned an HTTP error'')
          else let assertion = TrimSpace (take requestObjectMaxBytes body); creds = ListAppKeyCredentials s appID in
            if creds = [] then Inl (Failed ''the application has no registered key to verify a request object'')
            else VerifyRequestObject (an_ie an) assertion appID (map kc_PublicKey creds) now)"

definition request_object_params :: "string list" where
  "request_object_params = [''response_type'', ''response_mode'', ''redirect_uri'', ''scope'', ''state'', ''nonce'',
     ''prompt'', ''login_hint'', ''code_challenge'', ''code_challenge_method'']"

definition applyRequestObject :: "AEnv \<Rightarrow> (string \<Rightarrow> string) \<Rightarrow> claims \<Rightarrow> string \<Rightarrow> string" where
  "applyRequestObject an q c k =
     (if k \<in> set request_object_params then (case c k of Some (CStr v) \<Rightarrow> if v \<noteq> [] then v else q k | _ \<Rightarrow> q k)
      else if k = ''max_age'' then
        (case c k of Some (CInt n) \<Rightarrow> an_itoa an n | Some (CStr v) \<Rightarrow> if v \<noteq> [] then v else q k | _ \<Rightarrow> q k)
      else q k)"

section \<open>Validation of the parameters\<close>

text \<open>The checks of \<^verbatim>\<open>handleAuthorize\<close> after the redirect URI is known to be registered, in order: an
  error to deliver, or the state with its defaults filled in.\<close>

definition check_response_type :: "authorizeState \<Rightarrow> (string \<times> string) + authorizeState" where
  "check_response_type st =
     (let rt = as_ResponseType st in
      if rt \<noteq> ''code'' \<and> rt \<noteq> ''id_token'' \<and> rt \<noteq> ''code id_token''
      then Inl (''unsupported_response_type'', ''Supported response_type values are code, id_token, and code id_token.'')
      else if rt = ''code'' then Inr st
      else if as_Nonce st = [] then Inl (''invalid_request'', ''nonce is required when response_type includes id_token.'')
      else let st1 = (if as_ResponseMode st = [] then st\<lparr>as_ResponseMode := ''fragment''\<rparr> else st) in
        if as_ResponseMode st1 = ''query''
        then Inl (''invalid_request'', ''response_mode=query cannot deliver an id_token; use fragment or form_post.'')
        else Inr st1)"

definition check_pkce_max_age :: "App \<Rightarrow> string \<Rightarrow> authorizeState \<Rightarrow> (string \<times> string) + authorizeState" where
  "check_pkce_max_age app maxAgeRaw st =
     (let issuesCode = (as_ResponseType st = ''code'' \<or> as_ResponseType st = ''code id_token'') in
      if issuesCode \<and> \<not> a_IsConfidential app \<and> as_Challenge st = []
      then Inl (''invalid_request'', ''Public clients must send a PKCE code_challenge.'')
      else case (if maxAgeRaw = [] then Some st
                 else (case Atoi maxAgeRaw of
                         None \<Rightarrow> None
                       | Some n \<Rightarrow> if n < 0 then None else Some (st\<lparr>as_MaxAge := n, as_HasMaxAge := True\<rparr>))) of
        None \<Rightarrow> Inl (''invalid_request'', ''max_age must be a non-negative number of seconds.'')
      | Some st1 \<Rightarrow>
        (let st2 = (if as_Challenge st1 \<noteq> [] \<and> as_Method st1 = [] then st1\<lparr>as_Method := ''plain''\<rparr> else st1) in
         if as_Method st2 \<noteq> [] \<and> as_Method st2 \<noteq> ''S256'' \<and> as_Method st2 \<noteq> ''plain''
         then Inl (''invalid_request'', ''code_challenge_method must be S256 or plain.'')
         else Inr st2))"

text \<open>The state an error is delivered with is the one current at that point of the handler.\<close>

definition validate_authorize ::
  "Config \<Rightarrow> Store \<Rightarrow> App \<Rightarrow> bool \<Rightarrow> string \<Rightarrow> authorizeState \<Rightarrow> authorize_result + authorizeState" where
  "validate_authorize cfg s app inlineRequest maxAgeRaw st =
     (if inlineRequest
      then Inl (deliverAuthorizeError st ''request_not_supported'' ''The request parameter is not supported; use request_uri.'')
      else case check_response_type st of
        Inl (c, d) \<Rightarrow> Inl (deliverAuthorizeError st c d)
      | Inr st1 \<Rightarrow>
        (let scopes = SplitScopes (as_Scope st1) in
         if ''openid'' \<notin> set scopes then Inl (deliverAuthorizeError st1 ''invalid_scope'' ''The openid scope is required.'')
         else if ResolveDelegatedScopes (cf_GraphResourceID cfg) s scopes = None
         then Inl (deliverAuthorizeError st1 ''invalid_scope'' ''A requested resource scope is not registered.'')
         else case check_pkce_max_age app maxAgeRaw st1 of
           Inl (c, d) \<Rightarrow> Inl (deliverAuthorizeError st1 c d)
         | Inr st2 \<Rightarrow> Inr st2))"

section \<open>The handlers\<close>

definition handleConsentDecision ::
  "AEnv \<Rightarrow> Config \<Rightarrow> int \<Rightarrow> string \<Rightarrow> string \<Rightarrow> Request \<Rightarrow> Identity \<Rightarrow> authorize_result \<times> Identity" where
  "handleConsentDecision an cfg now priv code rq i =
     (case verify_authorize an i (rq_form rq ''__ee_state'') of
        None \<Rightarrow> (AErrorPage 400 ''Invalid request'', i)
      | Some st \<Rightarrow>
        (case GetApp (id_Store i) (as_ClientID st) of
           Inl _ \<Rightarrow> (AErrorPage 400 ''Invalid request'', i)
         | Inr app \<Rightarrow>
           (case currentSession now (id_Store i) rq of
              None \<Rightarrow> (AErrorPage 400 ''Invalid request'', i)
            | Some (sess, user) \<Rightarrow>
              if rq_form rq ''__ee_decision'' \<noteq> ''approve''
              then (deliverAuthorizeError st ''access_denied'' ''The user declined consent.'', i)
              else issueCodeAndDeliver an cfg now priv code st app user (se_AuthMethod sess) (Session_AuthTime sess)
                     (with_store (RecordSessionApp (se_ID sess) (a_ID app) (id_Store i)) i))))"

text \<open>The third component is the session cookie the response sets.\<close>

definition handleSignInSubmit ::
  "AEnv \<Rightarrow> Config \<Rightarrow> int \<Rightarrow> string \<Rightarrow> string \<Rightarrow> string \<Rightarrow> Request \<Rightarrow> Identity \<Rightarrow> authorize_result \<times> string option \<times> Identity" where
  "handleSignInSubmit an cfg now priv code sid rq i =
     (case verify_authorize an i (rq_form rq ''__ee_state'') of
        None \<Rightarrow> (AErrorPage 400 ''Invalid request'', None, i)
      | Some st \<Rightarrow>
        (case GetApp (id_Store i) (as_ClientID st) of
           Inl _ \<Rightarrow> (AErrorPage 400 ''Invalid request'', None, i)
         | Inr app \<Rightarrow>
           (case sign_in_user (ie_env (an_ie an)) cfg (id_Store i) rq of
              None \<Rightarrow> (SignInForm st (if cf_RequirePassword cfg then rq_form rq ''__ee_username'' else []), None, i)
            | Some user \<Rightarrow>
              (case createSession now sid (u_ID user) ''pwd'' (id_Store i) of
                 (newSess, s1) \<Rightarrow>
                 (let s2 = (case newSess of None \<Rightarrow> s1 | Some sess \<Rightarrow> RecordSessionApp (se_ID sess) (a_ID app) s1);
                      authTime = (case newSess of None \<Rightarrow> 0 | Some sess \<Rightarrow> Session_AuthTime sess);
                      cookie = map_option se_ID newSess in
                  if cf_RequireConsent cfg then (ConsentForm st app, cookie, with_store s2 i)
                  else case issueCodeAndDeliver an cfg now priv code st app user ''pwd'' authTime (with_store s2 i) of
                    (r, i2) \<Rightarrow> (r, cookie, i2))))))"

text \<open>Session and prompt resolution, once the request is valid.\<close>

definition resolve_session ::
  "AEnv \<Rightarrow> Config \<Rightarrow> int \<Rightarrow> string \<Rightarrow> string \<Rightarrow> string \<Rightarrow> string \<Rightarrow> authorizeState \<Rightarrow> App \<Rightarrow> Request \<Rightarrow> Identity
     \<Rightarrow> authorize_result \<times> Identity" where
  "resolve_session an cfg now priv code prompt loginHint st app rq i =
     (let live = (case currentSession now (id_Store i) rq of
                    None \<Rightarrow> None
                  | Some (sess, user) \<Rightarrow>
                      if as_HasMaxAge st \<and> i64_add now (- Session_AuthTime sess) > as_MaxAge st then None else Some (sess, user)) in
      if prompt = ''none'' \<and> live = None
      then (deliverAuthorizeError st ''login_required'' ''No active session and prompt=none.'', i)
      else case (if prompt = ''login'' \<or> prompt = ''select_account'' then None else live) of
        None \<Rightarrow> (SignInForm st loginHint, i)
      | Some (sess, user) \<Rightarrow>
          if cf_RequireConsent cfg \<and> prompt \<noteq> ''none'' then (ConsentForm st app, i)
          else issueCodeAndDeliver an cfg now priv code st app user (se_AuthMethod sess) (Session_AuthTime sess)
                 (with_store (RecordSessionApp (se_ID sess) (a_ID app) (id_Store i)) i))"

definition authorize_request ::
  "AEnv \<Rightarrow> Config \<Rightarrow> int \<Rightarrow> string \<Rightarrow> string \<Rightarrow> bool \<Rightarrow> (string \<Rightarrow> string) \<Rightarrow> Request \<Rightarrow> Identity \<Rightarrow> authorize_result \<times> Identity" where
  "authorize_request an cfg now priv code inlineRequest param rq i =
     (let st = \<lparr>as_Kind = ''authorize'', as_Tenant = rq_tenant rq, as_ClientID = param ''client_id'',
               as_RedirectURI = param ''redirect_uri'', as_Scope = param ''scope'', as_State = param ''state'',
               as_Nonce = param ''nonce'', as_Challenge = param ''code_challenge'', as_Method = param ''code_challenge_method'',
               as_ResponseMode = param ''response_mode'', as_ResponseType = normalizeResponseType (param ''response_type''),
               as_MaxAge = 0, as_HasMaxAge = False\<rparr> in
      case GetApp (id_Store i) (as_ClientID st) of
        Inl _ \<Rightarrow> (AErrorPage 400 ''Invalid request'', i)
      | Inr app \<Rightarrow>
        if \<not> HasRedirectURI (id_Store i) (a_ID app) (as_RedirectURI st) then (AErrorPage 400 ''Invalid request'', i)
        else case validate_authorize cfg (id_Store i) app inlineRequest (param ''max_age'') st of
          Inl r \<Rightarrow> (r, i)
        | Inr st2 \<Rightarrow> resolve_session an cfg now priv code (param ''prompt'') (param ''login_hint'') st2 app rq i)"

definition handleAuthorize ::
  "AEnv \<Rightarrow> Config \<Rightarrow> int \<Rightarrow> string \<Rightarrow> string \<Rightarrow> string \<Rightarrow> Request \<Rightarrow> Identity \<Rightarrow> authorize_result \<times> string option \<times> Identity" where
  "handleAuthorize an cfg now priv code sid rq i =
     (if \<not> snd (tenantSegment cfg (id_Store i) rq) then (AErrorPage 400 ''Invalid request'', None, i)
      else if rq_post rq \<and> rq_form rq ''__ee_consent'' \<noteq> []
      then (case handleConsentDecision an cfg now priv code rq i of (r, i1) \<Rightarrow> (r, None, i1))
      else if rq_post rq \<and> rq_form rq ''__ee_state'' \<noteq> [] then handleSignInSubmit an cfg now priv code sid rq i
      else let param = (if rq_post rq then rq_form rq else rq_query rq); requestURI = param ''request_uri'';
               inlineRequest = (param ''request'' \<noteq> []) in
        if requestURI = []
        then (case authorize_request an cfg now priv code inlineRequest param rq i of (r, i1) \<Rightarrow> (r, None, i1))
        else if param ''client_id'' = [] then (AErrorPage 400 ''Invalid request'', None, i)
        else case fetchRequestObject an now (id_Store i) (param ''client_id'') requestURI of
          Inl _ \<Rightarrow> (AErrorPage 400 ''Invalid request'', None, i)
        | Inr c \<Rightarrow>
          (case authorize_request an cfg now priv code inlineRequest (applyRequestObject an (rq_query rq) c) rq i of
             (r, i1) \<Rightarrow> (r, None, i1)))"

end
