(* ===== verification/AuthorizeFlow.thy ===== *)
theory AuthorizeFlow
  imports Authorize
begin

text \<open>
  The authorize endpoint as a protocol: a run interleaves authorize requests, sign-in submissions and
  consent decisions of any browsers, each of which may return any form state the emulator showed before.
  The lemmas give what a handler shows or delivers; the properties say that results go only to
  registered redirect URIs, that a public client gets no code without a PKCE challenge, and when an
  existing session may answer a request.
\<close>

section \<open>What the handlers keep\<close>

definition registrations_kept :: "Store \<Rightarrow> Store \<Rightarrow> bool" where
  "registrations_kept s s' \<longleftrightarrow>
     app_registrations s' = app_registrations s \<and> app_redirect_uris s' = app_redirect_uris s"

lemma registrations_kept_refl [simp]: "registrations_kept s s"
  by (simp add: registrations_kept_def)

lemma registrations_kept_trans: "registrations_kept s t \<Longrightarrow> registrations_kept t u \<Longrightarrow> registrations_kept s u"
  by (simp add: registrations_kept_def)

lemma registrations_keptD:
  assumes "registrations_kept s s'"
  shows "GetApp s' x = GetApp s x" and "HasRedirectURI s' x u = HasRedirectURI s x u"
  using assms by (simp_all add: registrations_kept_def GetApp_def HasRedirectURI_def)

lemma GetApp_id: "GetApp s x = Inr app \<Longrightarrow> a_ID app = x"
  by (auto simp: GetApp_def one_row_def split: option.splits dest: sql_first_Some)

lemma registrations_kept_ops [simp]:
  "registrations_kept s (RecordSessionApp sid a s)"
  "registrations_kept s (snd (createSession now sid u m s))"
  "registrations_kept s (snd (IssueAuthCode cfg now code r s))"
  by (simp_all add: registrations_kept_def RecordSessionApp_def createSession_def CreateSession_def IssueAuthCode_def
      InsertAuthCode_def Let_def split: sum.splits prod.splits)

lemma keys_only_registrations: "keys_only s s' \<Longrightarrow> registrations_kept s s'"
  by (auto simp: keys_only_def registrations_kept_def)

lemma with_store_store [simp]: "id_Store (with_store s i) = s"
  by (simp add: with_store_def)

lemma with_store_key [simp]: "id_stateKey (with_store s i) = id_stateKey i"
  by (simp add: with_store_def)

section \<open>Issuing a code\<close>

definition auth_row :: "Config \<Rightarrow> int \<Rightarrow> string \<Rightarrow> authorizeState \<Rightarrow> App \<Rightarrow> User \<Rightarrow> string \<Rightarrow> int \<Rightarrow> AuthCode \<Rightarrow> bool" where
  "auth_row cfg now code st app user amr authTime row \<longleftrightarrow>
     ac_Code row = code \<and> ac_AppID row = a_ID app \<and> ac_UserID row = u_ID user \<and> ac_RedirectURI row = as_RedirectURI st
     \<and> ac_CodeChallenge row = as_Challenge st \<and> ac_AMR row = amr \<and> ac_AuthTime row = authTime
     \<and> ac_MaxAgeRequested row = as_HasMaxAge st \<and> ac_ExpiresAt row = i64_add now (cf_AuthCode cfg) \<and> \<not> ac_Consumed row"

lemma IssueAuthCode_row:
  assumes "IssueAuthCode cfg now code r s = (Inr c, s1)"
  shows "c = code \<and> (\<exists>row. GetAuthCode s1 code = Inr row \<and> ac_Code row = code \<and> ac_AppID row = cr_AppID r \<and> ac_UserID row = cr_UserID r
    \<and> ac_RedirectURI row = cr_RedirectURI r \<and> ac_CodeChallenge row = cr_CodeChallenge r \<and> ac_AMR row = cr_AMR r
    \<and> ac_AuthTime row = cr_AuthTime r \<and> ac_MaxAgeRequested row = cr_MaxAgeRequested r
    \<and> ac_ExpiresAt row = i64_add now (cf_AuthCode cfg) \<and> \<not> ac_Consumed row)"
proof -
  obtain row u where ins: "InsertAuthCode row s = (Inr u, s1)" and row: "ac_Code row = code" "ac_AppID row = cr_AppID r"
    "ac_UserID row = cr_UserID r" "ac_RedirectURI row = cr_RedirectURI r" "ac_CodeChallenge row = cr_CodeChallenge r"
    "ac_AMR row = cr_AMR r" "ac_AuthTime row = cr_AuthTime r" "ac_MaxAgeRequested row = cr_MaxAgeRequested r"
    "ac_ExpiresAt row = i64_add now (cf_AuthCode cfg)" and c: "c = code"
    using assms unfolding IssueAuthCode_def by (fastforce split: prod.splits sum.splits)
  from codes.get_inserted[of row s s1] ins row(1) have "GetAuthCode s1 code = Inr (norm_code row)" by simp
  with row c show ?thesis by (simp add: norm_code_def)
qed

text \<open>The ways \<^verbatim>\<open>issueCodeAndDeliver\<close> ends: refused, an error page, or a stored code and its delivery.\<close>

lemma issue_cases:
  assumes "issueCodeAndDeliver an cfg now priv code st app user amr authTime i = (r, i')"
  obtains (refused) "r = deliverAuthorizeError st ''invalid_scope'' ''A requested resource scope is not registered.''" "i' = i"
  | (page) d where "r = AErrorPage 500 d" "registrations_kept (id_Store i) (id_Store i')" "id_stateKey i' = id_stateKey i"
  | (issued) row idt where
      "r = deliverAuthorizeResult st ((if as_ResponseType st = ''code'' \<or> as_ResponseType st = ''code id_token'' then [(''code'', code)] else []) @ idt)"
      "idt = [] \<or> (\<exists>t. idt = [(''id_token'', t)] \<and> (as_ResponseType st = ''id_token'' \<or> as_ResponseType st = ''code id_token''))"
      "registrations_kept (id_Store i) (id_Store i')" "id_stateKey i' = id_stateKey i"
      "GetAuthCode (id_Store i') code = Inr row" "auth_row cfg now code st app user amr authTime row"
proof (cases "ResolveDelegatedScopes (cf_GraphResourceID cfg) (id_Store i) (SplitScopes (as_Scope st))")
  case None
  with assms refused show thesis by (simp add: issueCodeAndDeliver_def)
next
  case (Some resolved)
  define req where "req = \<lparr>cr_AppID = a_ID app, cr_UserID = u_ID user, cr_RedirectURI = as_RedirectURI st,
                 cr_Scopes = rs_Granted resolved, cr_Resource = rs_Resource resolved, cr_CodeChallenge = as_Challenge st,
                 cr_ChallengeMethod = as_Method st, cr_Nonce = as_Nonce st, cr_AMR = amr, cr_AuthTime = authTime,
                 cr_MaxAgeRequested = as_HasMaxAge st\<rparr>"
  obtain x s1 where x: "IssueAuthCode cfg now code req (id_Store i) = (x, s1)" by fastforce
  have k1: "registrations_kept (id_Store i) s1" using registrations_kept_ops(3)[of "id_Store i" cfg now code req] x by simp
  show thesis
  proof (cases x)
    case (Inl e)
    then show thesis using assms Some x k1 page[of "''Error''"] by (auto simp: issueCodeAndDeliver_def req_def)
  next
    case (Inr c)
    note iss = IssueAuthCode_row[OF x[unfolded Inr]]
    then obtain row where c: "c = code" and row: "GetAuthCode s1 code = Inr row" "auth_row cfg now code st app user amr authTime row"
      by (auto simp: req_def auth_row_def)
    define i1 where "i1 = with_store s1 i"
    define g where "g = (delegated app user (rs_Granted resolved) (rs_Resource resolved) [])
                         \<lparr>dg_Nonce := as_Nonce st, dg_AMR := amr, dg_AuthTime := authTime, dg_MaxAgeRequested := as_HasMaxAge st\<rparr>"
    obtain y sv where y: "mintIDToken (ie_env (an_ie an)) cfg now priv g (id_Service i1) = (y, sv)" by fastforce
    have k2: "keys_only s1 (sv_Store sv)" using mint_frame(2)[of "id_Service i1" "ie_env (an_ie an)" cfg now priv g] y
      by (simp add: i1_def)
    have k3: "GetAuthCode (sv_Store sv) code = Inr row" "registrations_kept (id_Store i) (sv_Store sv)"
      using row k2 keys_only_registrations[OF k2] k1 keys_onlyE(1)[OF k2] by (auto simp: GetAuthCode_def intro: registrations_kept_trans)
    show thesis
    proof (cases "as_ResponseType st = ''id_token'' \<or> as_ResponseType st = ''code id_token''")
      case False
      then have "r = deliverAuthorizeResult st ((if as_ResponseType st = ''code'' \<or> as_ResponseType st = ''code id_token'' then [(''code'', code)] else []) @ [])"
        "i' = i1" using assms Some x Inr c by (simp_all add: issueCodeAndDeliver_def req_def i1_def Let_def)
      then show thesis using issued[of "[]" row] k1 row by (simp add: i1_def)
    next
      case True
      then have e: "(r, i') = (case y of Inl _ \<Rightarrow> (AErrorPage 500 ''Error'', i1\<lparr>id_Service := sv\<rparr>)
         | Inr idt \<Rightarrow> (deliverAuthorizeResult st ((if as_ResponseType st = ''code'' \<or> as_ResponseType st = ''code id_token'' then [(''code'', code)] else []) @ [(''id_token'', idt)]), i1\<lparr>id_Service := sv\<rparr>))"
        using assms[symmetric] Some x Inr c y
        by (simp add: issueCodeAndDeliver_def req_def i1_def g_def Let_def split del: if_split) (simp add: i1_def split: sum.splits)
      show thesis
      proof (cases y)
        case (Inl a)
        with e page[of "''Error''"] k3 show thesis by (simp add: i1_def)
      next
        case y: (Inr t)
        with e issued[of "[(''id_token'', t)]" row] k3 row True show thesis by (auto simp: i1_def)
      qed
    qed
  qed
qed

section \<open>Valid requests\<close>

text \<open>What the endpoint establishes of a request before it shows a form or delivers a result for it.\<close>

definition valid_state :: "Store \<Rightarrow> authorizeState \<Rightarrow> App \<Rightarrow> bool" where
  "valid_state s st app \<longleftrightarrow>
     GetApp s (as_ClientID st) = Inr app \<and> HasRedirectURI s (a_ID app) (as_RedirectURI st)
     \<and> as_ResponseType st \<in> {''code'', ''id_token'', ''code id_token''}
     \<and> (as_ResponseType st \<noteq> ''code'' \<longrightarrow> as_Nonce st \<noteq> [] \<and> as_ResponseMode st \<notin> {[], ''query''})
     \<and> (as_ResponseType st \<noteq> ''id_token'' \<and> \<not> a_IsConfidential app \<longrightarrow> as_Challenge st \<noteq> [])"

lemma valid_state_kept: "registrations_kept s s' \<Longrightarrow> valid_state s' st app = valid_state s st app"
  by (simp add: valid_state_def registrations_keptD)

lemma check_response_type_Inr:
  assumes "check_response_type st = Inr st1"
  shows "as_ResponseType st1 \<in> {''code'', ''id_token'', ''code id_token''}"
    and "as_ResponseType st1 \<noteq> ''code'' \<Longrightarrow> as_Nonce st1 \<noteq> [] \<and> as_ResponseMode st1 \<notin> {[], ''query''}"
    and "as_ClientID st1 = as_ClientID st" "as_RedirectURI st1 = as_RedirectURI st" "as_HasMaxAge st1 = as_HasMaxAge st"
  using assms by (auto simp: check_response_type_def Let_def split: if_splits)

lemma check_pkce_max_age_Inr:
  assumes "check_pkce_max_age app raw st = Inr st2"
  shows "as_ResponseType st2 \<noteq> ''id_token'' \<Longrightarrow> as_ResponseType st2 \<in> {''code'', ''code id_token''}
      \<Longrightarrow> \<not> a_IsConfidential app \<Longrightarrow> as_Challenge st2 \<noteq> []"
    and "as_ClientID st2 = as_ClientID st" "as_RedirectURI st2 = as_RedirectURI st"
    "as_ResponseType st2 = as_ResponseType st" "as_Nonce st2 = as_Nonce st" "as_ResponseMode st2 = as_ResponseMode st"
    and "raw \<noteq> [] \<Longrightarrow> \<exists>n. Atoi raw = Some n \<and> 0 \<le> n \<and> as_MaxAge st2 = n \<and> as_HasMaxAge st2"
  using assms by (auto simp: check_pkce_max_age_def Let_def split: if_splits option.splits)

lemma validate_authorize_Inr:
  assumes "validate_authorize cfg s app inl raw st = Inr st2"
    and "GetApp s (as_ClientID st) = Inr app" and "HasRedirectURI s (a_ID app) (as_RedirectURI st)"
  shows "valid_state s st2 app" and "as_RedirectURI st2 = as_RedirectURI st"
    and "raw \<noteq> [] \<Longrightarrow> \<exists>n. Atoi raw = Some n \<and> 0 \<le> n \<and> as_MaxAge st2 = n \<and> as_HasMaxAge st2"
proof -
  obtain st1 where c: "check_response_type st = Inr st1" "check_pkce_max_age app raw st1 = Inr st2"
    using assms(1) by (auto simp: validate_authorize_def Let_def split: if_splits sum.splits)
  note 1 = check_response_type_Inr[OF c(1)] and 2 = check_pkce_max_age_Inr[OF c(2)]
  show "valid_state s st2 app"
    using assms(2,3) 1 2(1-6) unfolding valid_state_def by auto
  show "as_RedirectURI st2 = as_RedirectURI st" using 1(4) 2(3) by simp
  show "raw \<noteq> [] \<Longrightarrow> \<exists>n. Atoi raw = Some n \<and> 0 \<le> n \<and> as_MaxAge st2 = n \<and> as_HasMaxAge st2" by (rule 2(7))
qed

lemma deliverAuthorizeError_simps [simp]:
  "deliverAuthorizeError st e d = Deliver u m ps \<Longrightarrow> u = as_RedirectURI st \<and> (''code'', c) \<notin> set ps \<and> (''id_token'', c) \<notin> set ps"
  by (auto simp: deliverAuthorizeError_def deliverAuthorizeResult_def)

lemma validate_authorize_Inl:
  assumes "validate_authorize cfg s app inl raw st = Inl r"
  shows "\<exists>m ps. r = Deliver (as_RedirectURI st) m ps \<and> (\<forall>c. (''code'', c) \<notin> set ps \<and> (''id_token'', c) \<notin> set ps)"
proof -
  have err: "\<exists>m ps. deliverAuthorizeError st' e d = Deliver (as_RedirectURI st') m ps
      \<and> (\<forall>c. (''code'', c) \<notin> set ps \<and> (''id_token'', c) \<notin> set ps)" for st' e d
    by (auto simp: deliverAuthorizeError_def deliverAuthorizeResult_def)
  obtain st' e d where "r = deliverAuthorizeError st' e d" "as_RedirectURI st' = as_RedirectURI st"
    using assms check_response_type_Inr(4)[of st]
    by (auto simp: validate_authorize_def Let_def split: if_splits sum.splits)
  with err[of st' e d] show ?thesis by simp
qed

section \<open>What a handler answers\<close>

text \<open>A response about a request state: a form for it, or a result for its redirect URI whose code was just stored.\<close>

fun answers :: "Config \<Rightarrow> int \<Rightarrow> Store \<Rightarrow> authorizeState \<Rightarrow> App \<Rightarrow> authorize_result \<Rightarrow> bool" where
  "answers cfg now s st app (AErrorPage e d) \<longleftrightarrow> True"
| "answers cfg now s st app (SignInForm st' h) \<longleftrightarrow> st' = st"
| "answers cfg now s st app (ConsentForm st' a) \<longleftrightarrow> st' = st \<and> a = app"
| "answers cfg now s st app (Deliver uri m ps) \<longleftrightarrow> uri = as_RedirectURI st
     \<and> m = (if as_ResponseMode st = ''form_post'' \<or> as_ResponseMode st = ''fragment'' then as_ResponseMode st else ''query'')
     \<and> (\<forall>c. (''code'', c) \<in> set ps \<longrightarrow> as_ResponseType st \<in> {''code'', ''code id_token''}
          \<and> (\<exists>row user amr t. GetAuthCode s c = Inr row \<and> auth_row cfg now c st app user amr t row))
     \<and> (\<forall>t. (''id_token'', t) \<in> set ps \<longrightarrow> as_ResponseType st \<in> {''id_token'', ''code id_token''})"

fun shown :: "authorize_result \<Rightarrow> authorizeState set" where
  "shown (SignInForm st h) = {st}"
| "shown (ConsentForm st a) = {st}"
| "shown _ = {}"

lemma shown_answers: "answers cfg now s st app r \<Longrightarrow> shown r \<subseteq> {st}"
  by (cases r) auto

lemma answers_error [simp]: "answers cfg now s st app (deliverAuthorizeError st e d)"
  by (auto simp: deliverAuthorizeError_def deliverAuthorizeResult_def)

lemma issue_answers:
  assumes "issueCodeAndDeliver an cfg now priv code st app user amr authTime i = (r, i')"
  shows "registrations_kept (id_Store i) (id_Store i')" and "id_stateKey i' = id_stateKey i"
    and "answers cfg now (id_Store i') st app r"
  using assms
proof (atomize (full), cases rule: issue_cases)
  case (issued row idt)
  have "answers cfg now (id_Store i') st app r"
    using issued(2,5,6) unfolding issued(1) deliverAuthorizeResult_def by (auto split: if_splits)
  with issued(3,4) show "registrations_kept (id_Store i) (id_Store i') \<and> id_stateKey i' = id_stateKey i
      \<and> answers cfg now (id_Store i') st app r" by simp
qed simp_all

text \<open>A response to a request: an error page, or an answer about a state \<open>st\<close> with property \<open>P\<close>; registrations are kept.\<close>

definition responds ::
  "(authorizeState \<Rightarrow> App \<Rightarrow> bool) \<Rightarrow> Config \<Rightarrow> int \<Rightarrow> Identity \<Rightarrow> authorize_result \<Rightarrow> Identity \<Rightarrow> bool" where
  "responds P cfg now i r i' \<longleftrightarrow> registrations_kept (id_Store i) (id_Store i') \<and> id_stateKey i' = id_stateKey i
     \<and> ((\<exists>e d. r = AErrorPage e d) \<or> (\<exists>st app. P st app \<and> answers cfg now (id_Store i') st app r))"

lemma responds_page [simp]: "responds P cfg now i (AErrorPage e d) i"
  by (simp add: responds_def)

lemma responds_form [simp]:
  assumes "P st app"
  shows "responds P cfg now i (SignInForm st h) i" and "responds P cfg now i (ConsentForm st app) i"
    and "responds P cfg now i (deliverAuthorizeError st e d) i"
proof -
  show "responds P cfg now i (SignInForm st h) i" using assms by (auto simp: responds_def)
  show "responds P cfg now i (ConsentForm st app) i" using assms by (auto simp: responds_def)
  show "responds P cfg now i (deliverAuthorizeError st e d) i"
    unfolding responds_def using assms answers_error[of cfg now "id_Store i" st app e d] registrations_kept_refl by blast
qed

lemma responds_issue:
  assumes "P st app" and "issueCodeAndDeliver an cfg now priv code st app user amr t i0 = (r, i')"
    and "registrations_kept (id_Store i) (id_Store i0)" and "id_stateKey i0 = id_stateKey i"
  shows "responds P cfg now i r i'"
  unfolding responds_def using issue_answers[OF assms(2)] assms(1,3,4) by (metis registrations_kept_trans)

definition returned :: "AEnv \<Rightarrow> Request \<Rightarrow> Identity \<Rightarrow> authorizeState \<Rightarrow> App \<Rightarrow> bool" where
  "returned an rq i st app \<longleftrightarrow> verify_authorize an i (rq_form rq ''__ee_state'') = Some st
     \<and> GetApp (id_Store i) (as_ClientID st) = Inr app"

lemma consent_responds:
  assumes "handleConsentDecision an cfg now priv code rq i = (r, i')"
  shows "responds (returned an rq i) cfg now i r i'"
proof (cases "\<exists>st app sess user. returned an rq i st app \<and> currentSession now (id_Store i) rq = Some (sess, user)")
  case False
  then have "r = AErrorPage 400 ''Invalid request'' \<and> i' = i"
    using assms by (auto simp: handleConsentDecision_def returned_def split: option.splits sum.splits)
  then show ?thesis by simp
next
  case True
  then obtain st app sess user where st: "returned an rq i st app" "currentSession now (id_Store i) rq = Some (sess, user)" by blast
  show ?thesis
  proof (cases "rq_form rq ''__ee_decision'' = ''approve''")
    case False
    with assms st have "r = deliverAuthorizeError st ''access_denied'' ''The user declined consent.'' \<and> i' = i"
      by (auto simp: handleConsentDecision_def returned_def)
    then show ?thesis using responds_form(3)[of "returned an rq i", OF st(1)] by simp
  next
    case True
    with assms st have "issueCodeAndDeliver an cfg now priv code st app user (se_AuthMethod sess) (Session_AuthTime sess)
        (with_store (RecordSessionApp (se_ID sess) (a_ID app) (id_Store i)) i) = (r, i')"
      by (simp add: handleConsentDecision_def returned_def)
    then show ?thesis by (rule responds_issue[of "returned an rq i", OF st(1)]) simp_all
  qed
qed

lemma sign_in_responds:
  assumes "handleSignInSubmit an cfg now priv code sid rq i = (r, ck, i')"
  shows "responds (returned an rq i) cfg now i r i'"
proof (cases "\<exists>st app. returned an rq i st app")
  case False
  then have "r = AErrorPage 400 ''Invalid request'' \<and> i' = i"
    using assms by (auto simp: handleSignInSubmit_def returned_def split: option.splits sum.splits)
  then show ?thesis by simp
next
  case True
  then obtain st app where st: "returned an rq i st app" by blast
  show ?thesis
  proof (cases "sign_in_user (ie_env (an_ie an)) cfg (id_Store i) rq")
    case None
    with assms st have "\<exists>h. r = SignInForm st h \<and> i' = i" by (auto simp: handleSignInSubmit_def returned_def)
    then show ?thesis using responds_form(1)[of "returned an rq i", OF st(1)] by auto
  next
    case (Some user)
    obtain newSess s1 where n: "createSession now sid (u_ID user) ''pwd'' (id_Store i) = (newSess, s1)" by fastforce
    define s2 where "s2 = (case newSess of None \<Rightarrow> s1 | Some sess \<Rightarrow> RecordSessionApp (se_ID sess) (a_ID app) s1)"
    have k: "registrations_kept (id_Store i) s2"
      using registrations_kept_ops(2)[of "id_Store i" now sid "u_ID user" "''pwd''"] n registrations_kept_trans registrations_kept_ops(1)
      by (fastforce simp: s2_def split: option.splits)
    have "(r, i') = (ConsentForm st app, with_store s2 i)
        \<or> (\<exists>t. issueCodeAndDeliver an cfg now priv code st app user ''pwd'' t (with_store s2 i) = (r, i'))"
      using assms st Some n by (simp add: handleSignInSubmit_def returned_def s2_def[symmetric] Let_def split: if_splits prod.splits) blast
    then show ?thesis
    proof
      assume "(r, i') = (ConsentForm st app, with_store s2 i)"
      with k st show ?thesis by (auto simp: responds_def)
    next
      assume "\<exists>t. issueCodeAndDeliver an cfg now priv code st app user ''pwd'' t (with_store s2 i) = (r, i')"
      then show ?thesis using responds_issue[of "returned an rq i", OF st] k by fastforce
    qed
  qed
qed

lemma resolve_session_responds:
  assumes "resolve_session an cfg now priv code prompt hint st app rq i = (r, i')" and "P st app"
  shows "responds P cfg now i r i'"
proof -
  have "(\<exists>e d. r = deliverAuthorizeError st e d \<and> i' = i) \<or> (\<exists>h. r = SignInForm st h \<and> i' = i) \<or> (r = ConsentForm st app \<and> i' = i)
    \<or> (\<exists>sess user. issueCodeAndDeliver an cfg now priv code st app user (se_AuthMethod sess) (Session_AuthTime sess)
          (with_store (RecordSessionApp (se_ID sess) (a_ID app) (id_Store i)) i) = (r, i'))"
    using assms(1) by (auto simp: resolve_session_def Let_def split: option.splits if_splits)
  then show ?thesis
  proof (elim disjE exE conjE)
    fix sess :: Session and user
    assume "issueCodeAndDeliver an cfg now priv code st app user (se_AuthMethod sess) (Session_AuthTime sess)
          (with_store (RecordSessionApp (se_ID sess) (a_ID app) (id_Store i)) i) = (r, i')"
    then show ?thesis by (rule responds_issue[of P, OF assms(2)]) simp_all
  qed (simp_all add: responds_form[of P, OF assms(2)])
qed

definition refused :: "Store \<Rightarrow> authorize_result \<Rightarrow> bool" where
  "refused s r \<longleftrightarrow> (\<exists>app uri m ps cid. r = Deliver uri m ps \<and> GetApp s cid = Inr app \<and> HasRedirectURI s (a_ID app) uri
     \<and> (\<forall>c. (''code'', c) \<notin> set ps \<and> (''id_token'', c) \<notin> set ps))"

lemma authorize_request_cases:
  assumes "authorize_request an cfg now priv code inl param rq i = (r, i')"
  obtains (page) "r = AErrorPage 400 ''Invalid request''" "i' = i"
  | (refused) "refused (id_Store i) r" "i' = i"
  | (valid) st app where "valid_state (id_Store i) st app" "as_RedirectURI st = param ''redirect_uri''"
      "param ''max_age'' \<noteq> [] \<Longrightarrow> \<exists>n. Atoi (param ''max_age'') = Some n \<and> 0 \<le> n \<and> as_MaxAge st = n \<and> as_HasMaxAge st"
      "resolve_session an cfg now priv code (param ''prompt'') (param ''login_hint'') st app rq i = (r, i')"
proof -
  define st where "st = \<lparr>as_Kind = ''authorize'', as_Tenant = rq_tenant rq, as_ClientID = param ''client_id'',
               as_RedirectURI = param ''redirect_uri'', as_Scope = param ''scope'', as_State = param ''state'',
               as_Nonce = param ''nonce'', as_Challenge = param ''code_challenge'', as_Method = param ''code_challenge_method'',
               as_ResponseMode = param ''response_mode'', as_ResponseType = normalizeResponseType (param ''response_type''),
               as_MaxAge = 0, as_HasMaxAge = False\<rparr>"
  have e: "(r, i') = (case GetApp (id_Store i) (as_ClientID st) of
        Inl _ \<Rightarrow> (AErrorPage 400 ''Invalid request'', i)
      | Inr app \<Rightarrow>
        if \<not> HasRedirectURI (id_Store i) (a_ID app) (as_RedirectURI st) then (AErrorPage 400 ''Invalid request'', i)
        else case validate_authorize cfg (id_Store i) app inl (param ''max_age'') st of
          Inl r \<Rightarrow> (r, i)
        | Inr st2 \<Rightarrow> resolve_session an cfg now priv code (param ''prompt'') (param ''login_hint'') st2 app rq i)"
    using assms[symmetric] unfolding authorize_request_def st_def Let_def .
  show thesis
  proof (cases "\<exists>app. GetApp (id_Store i) (as_ClientID st) = Inr app \<and> HasRedirectURI (id_Store i) (a_ID app) (as_RedirectURI st)")
    case False
    with e page show thesis by (auto split: sum.splits if_splits)
  next
    case True
    then obtain app where app: "GetApp (id_Store i) (as_ClientID st) = Inr app" "HasRedirectURI (id_Store i) (a_ID app) (as_RedirectURI st)"
      by blast
    show thesis
    proof (cases "validate_authorize cfg (id_Store i) app inl (param ''max_age'') st")
      case (Inl r')
      with e app have "r = r'" "i' = i" by simp_all
      with validate_authorize_Inl[OF Inl] app refused show thesis unfolding refused_def by blast
    next
      case (Inr st2)
      have "as_RedirectURI st = param ''redirect_uri''" by (simp add: st_def)
      then show thesis using valid[OF validate_authorize_Inr(1)[OF Inr app] _ validate_authorize_Inr(3)[OF Inr app]]
          validate_authorize_Inr(2)[OF Inr app] e app Inr by simp
    qed
  qed
qed

lemma authorize_request_responds:
  assumes "authorize_request an cfg now priv code inl param rq i = (r, i')"
  shows "responds (valid_state (id_Store i)) cfg now i r i' \<or> (refused (id_Store i) r \<and> i' = i)"
  using assms
proof (cases rule: authorize_request_cases)
  case (valid st app)
  then show ?thesis using resolve_session_responds[of an cfg now priv code _ _ st app rq i r i' "valid_state (id_Store i)"] by blast
qed simp_all

lemma responds_mono: "responds P cfg now i r i' \<Longrightarrow> (\<And>st app. P st app \<Longrightarrow> Q st app) \<Longrightarrow> responds Q cfg now i r i'"
  unfolding responds_def by blast

lemma handle_responds:
  assumes "handleAuthorize an cfg now priv code sid rq i = (r, ck, i')"
  shows "responds (\<lambda>st app. valid_state (id_Store i) st app \<or> returned an rq i st app) cfg now i r i'
    \<or> (refused (id_Store i) r \<and> i' = i)"
proof -
  consider (page) "r = AErrorPage 400 ''Invalid request''" "i' = i"
    | (consent) "handleConsentDecision an cfg now priv code rq i = (r, i')"
    | (submit) "handleSignInSubmit an cfg now priv code sid rq i = (r, ck, i')"
    | (fresh) inl param where "authorize_request an cfg now priv code inl param rq i = (r, i')"
    using assms unfolding handleAuthorize_def Let_def by (auto split: if_splits prod.splits sum.splits)
  then show ?thesis
  proof cases
    case page
    then show ?thesis by simp
  next
    case consent
    show ?thesis by (rule disjI1, rule responds_mono[OF consent_responds[OF consent]]) simp
  next
    case submit
    show ?thesis by (rule disjI1, rule responds_mono[OF sign_in_responds[OF submit]]) simp
  next
    case fresh
    from authorize_request_responds[OF this] show ?thesis by (elim disjE) (rule disjI1, erule responds_mono, simp_all)
  qed
qed

section \<open>Runs\<close>

text \<open>
  A run from \<open>i0\<close>: any sequence of requests to the endpoint, at any times. A request may carry a form
  state only if a page showed it before (the MAC is not forged); \<open>S\<close> collects the states shown, \<open>out\<close>
  the responses, latest first.
\<close>

definition genuine :: "AEnv \<Rightarrow> Identity \<Rightarrow> authorizeState set \<Rightarrow> Request \<Rightarrow> bool" where
  "genuine an i S rq \<longleftrightarrow> (\<forall>st. verify_authorize an i (rq_form rq ''__ee_state'') = Some st \<longrightarrow> st \<in> S)"

inductive authorize_run :: "AEnv \<Rightarrow> Config \<Rightarrow> Identity \<Rightarrow> Identity \<Rightarrow> authorizeState set \<Rightarrow> authorize_result list \<Rightarrow> bool"
  for an cfg i0 where
  run_start: "authorize_run an cfg i0 i0 {} []"
| run_step: "authorize_run an cfg i0 i S out \<Longrightarrow> genuine an i S rq \<Longrightarrow>
    handleAuthorize an cfg now priv code sid rq i = (r, ck, i') \<Longrightarrow> authorize_run an cfg i0 i' (S \<union> shown r) (r # out)"

inductive_cases run_stepE: "authorize_run an cfg i0 i S (r # out)"

text \<open>Every state shown is valid for the registrations the run started with.\<close>

definition run_inv :: "Identity \<Rightarrow> Identity \<Rightarrow> authorizeState set \<Rightarrow> bool" where
  "run_inv i0 i S \<longleftrightarrow> registrations_kept (id_Store i0) (id_Store i) \<and> (\<forall>st \<in> S. \<exists>app. valid_state (id_Store i0) st app)"

lemma step_answers:
  assumes "run_inv i0 i S" and "genuine an i S rq" and "handleAuthorize an cfg now priv code sid rq i = (r, ck, i')"
  shows "registrations_kept (id_Store i0) (id_Store i')"
    and "(\<exists>e d. r = AErrorPage e d) \<or> refused (id_Store i0) r
      \<or> (\<exists>st app. valid_state (id_Store i0) st app \<and> answers cfg now (id_Store i') st app r)"
proof -
  note k = assms(1)[unfolded run_inv_def, THEN conjunct1]
  have v: "valid_state (id_Store i0) st app" if "valid_state (id_Store i) st app \<or> returned an rq i st app" for st app
  proof -
    have "valid_state (id_Store i0) st app" if "returned an rq i st app"
    proof -
      have "st \<in> S" using that assms(2) by (simp add: returned_def genuine_def)
      then obtain app' where "valid_state (id_Store i0) st app'" using assms(1) by (auto simp: run_inv_def)
      with that show ?thesis unfolding returned_def valid_state_def registrations_keptD[OF k] by (metis sum.inject(2))
    qed
    with that valid_state_kept[OF k] show ?thesis by blast
  qed
  have ref: "refused (id_Store i0) r = refused (id_Store i) r" by (simp add: refused_def registrations_keptD[OF k])
  from handle_responds[OF assms(3)] v ref k
  show "registrations_kept (id_Store i0) (id_Store i')"
    and "(\<exists>e d. r = AErrorPage e d) \<or> refused (id_Store i0) r
      \<or> (\<exists>st app. valid_state (id_Store i0) st app \<and> answers cfg now (id_Store i') st app r)"
    unfolding responds_def by (blast intro: registrations_kept_trans)+
qed

lemma run_keeps_inv: "authorize_run an cfg i0 i S out \<Longrightarrow> run_inv i0 i S"
proof (induction rule: authorize_run.induct)
  case run_start
  then show ?case by (simp add: run_inv_def)
next
  case (run_step i S out rq now priv code sid r ck i')
  have "\<exists>app. valid_state (id_Store i0) st app" if "st \<in> shown r" for st
    using step_answers(2)[OF run_step(4,2,3)] that shown_answers by (fastforce simp: refused_def)
  with step_answers(1)[OF run_step(4,2,3)] run_step(4) show ?case by (auto simp: run_inv_def)
qed

section \<open>A concrete run\<close>

definition an0 :: AEnv where
  "an0 = \<lparr>an_ie = ie0, an_codec = \<lparr>cd_enc = (\<lambda>_. []), cd_dec = (\<lambda>_. None)\<rparr>, an_origin = (\<lambda>_. None), an_itoa = (\<lambda>_. [])\<rparr>"

definition authorize_identity :: Identity where
  "authorize_identity = with_store ((id_Store identity0)\<lparr>app_registrations := [app0\<lparr>a_IsConfidential := False\<rparr>],
     app_redirect_uris := [\<lparr>ru_ID = 1, ru_AppID = ''app'', ru_URI = ''https://r'', ru_Type = ''spa''\<rparr>]\<rparr>) identity0"

definition get0 :: "(string \<times> string) list \<Rightarrow> Request" where
  "get0 kvs = (post0 [])\<lparr>rq_post := False, rq_query := (\<lambda>k. case map_of kvs k of None \<Rightarrow> [] | Some v \<Rightarrow> v)\<rparr>"

definition authorize_query :: "(string \<times> string) list" where
  "authorize_query = [(''client_id'', ''app''), (''redirect_uri'', ''https://r''), (''response_type'', ''code''),
     (''scope'', ''openid''), (''state'', ''xyz''), (''code_challenge'', ''ch''), (''code_challenge_method'', ''S256''),
     (''max_age'', ''4'')]"

definition code_delivery :: authorize_result where
  "code_delivery = Deliver ''https://r'' ''query'' [(''code'', ''new''), (''state'', ''xyz'')]"

lemma authorize_query_get [simp]:
  "rq_query (get0 authorize_query) ''client_id'' = ''app''" "rq_query (get0 authorize_query) ''redirect_uri'' = ''https://r''"
  "rq_query (get0 authorize_query) ''response_type'' = ''code''" "rq_query (get0 authorize_query) ''scope'' = ''openid''"
  "rq_query (get0 authorize_query) ''state'' = ''xyz''" "rq_query (get0 authorize_query) ''code_challenge'' = ''ch''"
  "rq_query (get0 authorize_query) ''code_challenge_method'' = ''S256''" "rq_query (get0 authorize_query) ''max_age'' = ''4''"
  "rq_query (get0 authorize_query) ''nonce'' = []" "rq_query (get0 authorize_query) ''response_mode'' = []"
  "rq_query (get0 authorize_query) ''prompt'' = []" "rq_query (get0 authorize_query) ''login_hint'' = []"
  "rq_query (get0 authorize_query) ''request'' = []" "rq_query (get0 authorize_query) ''request_uri'' = []"
  by (simp_all add: get0_def authorize_query_def)

lemma authorize_request_sample:
  "\<exists>i'. authorize_request an0 config0 9 ''K'' ''new'' False (rq_query (get0 authorize_query)) (get0 authorize_query) authorize_identity
     = (code_delivery, i')"
proof -
  have flds: "normalizeResponseType ''code'' = ''code''" "SplitScopes ''openid'' = [''openid'']" "Atoi ''4'' = Some 4"
    by (simp_all add: normalizeResponseType_def SplitScopes_def Fields_def is_space_def) code_simp
  have app: "GetApp (id_Store authorize_identity) ''app'' = Inr (App.truncate (app0\<lparr>a_IsConfidential := False\<rparr>))"
    by (simp add: GetApp_def authorize_identity_def sql_defs app0_def App.defs)
  have uri: "HasRedirectURI (id_Store authorize_identity) ''app'' ''https://r''"
    by (simp add: HasRedirectURI_def authorize_identity_def sql_defs)
  have fields: "a_ID (App.truncate (app0\<lparr>a_IsConfidential := False\<rparr>)) = ''app''" "\<not> a_IsConfidential (App.truncate (app0\<lparr>a_IsConfidential := False\<rparr>))"
    by (simp_all add: app0_def App.defs)
  have cf: "cf_GraphResourceID config0 = ''https://graph''" "\<not> cf_RequireConsent config0" by (simp_all add: config0_def)
  have sess: "currentSession 9 (id_Store authorize_identity) (get0 authorize_query) = Some (session0, user0)"
    by (simp add: currentSession_def get0_def post0_def authorize_identity_def GetSession_def GetUser_def sql_defs session0_def user0_def)
  let ?s = "RecordSessionApp (se_ID session0) ''app'' (id_Store authorize_identity)"
  obtain rs rs' where rs: "ResolveDelegatedScopes ''https://graph'' (id_Store authorize_identity) [''openid''] = Some rs"
    "ResolveDelegatedScopes ''https://graph'' ?s [''openid''] = Some rs'" using openid_resolves by meson
  have "\<exists>s1. IssueAuthCode config0 9 ''new'' r ?s = (Inr ''new'', s1)" if "cr_AppID r = ''app''" "cr_UserID r = ''u''" for r
    using that by (simp add: IssueAuthCode_def InsertAuthCode_def RecordSessionApp_def authorize_identity_def identity0_def has_defs
        sample_defs session0_def)
  then obtain f where f: "cr_AppID r = ''app'' \<Longrightarrow> cr_UserID r = ''u'' \<Longrightarrow> IssueAuthCode config0 9 ''new'' r ?s = (Inr ''new'', f r)" for r
    by metis
  have "u_ID user0 = ''u''" "Session_AuthTime session0 = 5" by (simp_all add: user0_def session0_def Session_AuthTime_def)
  then show ?thesis
    by (simp add: authorize_request_def flds app uri fields validate_authorize_def check_response_type_def check_pkce_max_age_def cf rs f
        resolve_session_def sess issueCodeAndDeliver_def deliverAuthorizeResult_def code_delivery_def i64_add_def wrap64_def Let_def)
qed

lemma handle_sample:
  "\<exists>i'. handleAuthorize an0 config0 9 ''K'' ''new'' ''s2'' (get0 authorize_query) authorize_identity = (code_delivery, None, i')"
proof -
  have "snd (tenantSegment config0 (id_Store authorize_identity) (get0 authorize_query))"
    by (simp add: tenantSegment_def config0_def get0_def post0_def Let_def)
  moreover have "\<not> rq_post (get0 authorize_query)" "rq_query (get0 authorize_query) ''request_uri'' = []"
    "rq_query (get0 authorize_query) ''request'' = []"
    by (simp_all add: get0_def authorize_query_def)
  ultimately show ?thesis
    using authorize_request_sample by (auto simp: handleAuthorize_def Let_def)
qed

lemma genuine_sample: "genuine an0 i S (get0 kvs)"
  by (simp add: genuine_def verify_authorize_def an0_def get0_def post0_def split: option.splits Option.bind_splits)

lemma run_sample:
  "\<exists>i'. authorize_run an0 config0 authorize_identity i' {} [code_delivery]"
proof -
  obtain i' where h: "handleAuthorize an0 config0 9 ''K'' ''new'' ''s2'' (get0 authorize_query) authorize_identity = (code_delivery, None, i')"
    using handle_sample by blast
  have "authorize_run an0 config0 authorize_identity i' ({} \<union> shown code_delivery) [code_delivery]"
    by (rule run_step[OF run_start genuine_sample h])
  then show ?thesis by (auto simp: code_delivery_def)
qed

section \<open>Properties\<close>

lemma resolve_session_delivers:
  assumes "resolve_session an cfg now priv code prompt hint st app rq i = (Deliver uri m ps, i')"
    and "(''code'', c) \<in> set ps \<or> (''id_token'', c) \<in> set ps"
  obtains sess user row where "currentSession now (id_Store i) rq = Some (sess, user)"
    "as_HasMaxAge st \<Longrightarrow> i64_add now (- Session_AuthTime sess) \<le> as_MaxAge st" "prompt \<noteq> ''login''" "prompt \<noteq> ''select_account''"
    "GetAuthCode (id_Store i') code = Inr row"
    "auth_row cfg now code st app user (se_AuthMethod sess) (Session_AuthTime sess) row"
proof -
  have err: "deliverAuthorizeError st e d = Deliver uri m ps \<Longrightarrow> False" for e d
    using assms(2) by (auto simp: deliverAuthorizeError_def deliverAuthorizeResult_def)
  then obtain sess user where su: "currentSession now (id_Store i) rq = Some (sess, user)"
    "\<not> (as_HasMaxAge st \<and> i64_add now (- Session_AuthTime sess) > as_MaxAge st)" "prompt \<noteq> ''login''" "prompt \<noteq> ''select_account''"
    "issueCodeAndDeliver an cfg now priv code st app user (se_AuthMethod sess) (Session_AuthTime sess)
       (with_store (RecordSessionApp (se_ID sess) (a_ID app) (id_Store i)) i) = (Deliver uri m ps, i')"
    using assms(1) unfolding resolve_session_def Let_def by (auto split: option.splits if_splits prod.splits)
  from su(5) show thesis
  proof (cases rule: issue_cases)
    case (issued row idt)
    with su that show thesis by auto
  next
    case refused
    from err[OF refused(1)[symmetric]] show thesis ..
  qed simp
qed

text \<open>
  C12. No open redirect: in any run of the authorize endpoint, in which requests, sign-in submissions
  and consent decisions of any browsers interleave and form states are not forged, every result, error
  or success, is delivered to a redirect URI registered for an application of the directory.
\<close>

theorem no_open_redirect:
  assumes "authorize_run an cfg i0 i S out" and "Deliver uri m ps \<in> set out"
  shows "\<exists>app cid. GetApp (id_Store i0) cid = Inr app \<and> HasRedirectURI (id_Store i0) (a_ID app) uri"
  using assms
proof (induction rule: authorize_run.induct)
  case (run_step i S out rq now priv code sid r ck i')
  show ?case
  proof (cases "Deliver uri m ps \<in> set out")
    case False
    with run_step(5) have "r = Deliver uri m ps" by simp
    with step_answers(2)[OF run_keeps_inv[OF run_step(1)] run_step(2,3)] show ?thesis
      by (auto simp: refused_def valid_state_def)
  qed (rule run_step(4))
qed simp

theorem no_open_redirect_witness:
  "\<exists>app cid. GetApp (id_Store authorize_identity) cid = Inr app \<and> HasRedirectURI (id_Store authorize_identity) (a_ID app) ''https://r''"
proof -
  obtain i' where "authorize_run an0 config0 authorize_identity i' {} [code_delivery]" using run_sample by blast
  from no_open_redirect[OF this, unfolded code_delivery_def] show ?thesis by simp
qed

text \<open>
  C13. What a delivered authorization code stands for: at whatever point of a run a code is delivered,
  it was stored unconsumed with the configured lifetime, bound to the redirect URI it is delivered to and to an application
  that has this URI registered, and when the application is a public client the stored row carries a
  PKCE challenge, so the code cannot be exchanged without the verifier.
\<close>

theorem delivered_code_bound:
  assumes "authorize_run an cfg i0 i S out" and "genuine an i S rq"
    and "handleAuthorize an cfg now priv code sid rq i = (Deliver uri m ps, ck, i')" and "(''code'', c) \<in> set ps"
  shows "\<exists>row app. GetAuthCode (id_Store i') c = Inr row \<and> GetApp (id_Store i0) (ac_AppID row) = Inr app
    \<and> HasRedirectURI (id_Store i0) (ac_AppID row) uri \<and> ac_RedirectURI row = uri \<and> \<not> ac_Consumed row
    \<and> ac_ExpiresAt row = i64_add now (cf_AuthCode cfg) \<and> (\<not> a_IsConfidential app \<longrightarrow> ac_CodeChallenge row \<noteq> [])"
proof -
  from step_answers(2)[OF run_keeps_inv[OF assms(1)] assms(2,3)] assms(4)
  obtain st app where v: "valid_state (id_Store i0) st app" and a: "answers cfg now (id_Store i') st app (Deliver uri m ps)"
    by (auto simp: refused_def)
  then obtain row user amr t where row: "GetAuthCode (id_Store i') c = Inr row" "auth_row cfg now c st app user amr t row"
    "as_ResponseType st \<in> {''code'', ''code id_token''}" "uri = as_RedirectURI st"
    using assms(4) by auto
  have "as_ClientID st = a_ID app" using v GetApp_id[of "id_Store i0" "as_ClientID st" app] by (simp add: valid_state_def)
  with v row show ?thesis unfolding valid_state_def auth_row_def by auto
qed

theorem delivered_code_bound_witness:
  "\<exists>i' row. handleAuthorize an0 config0 9 ''K'' ''new'' ''s2'' (get0 authorize_query) authorize_identity = (code_delivery, None, i')
     \<and> GetAuthCode (id_Store i') ''new'' = Inr row \<and> ac_RedirectURI row = ''https://r''"
proof -
  obtain i' where h: "handleAuthorize an0 config0 9 ''K'' ''new'' ''s2'' (get0 authorize_query) authorize_identity = (code_delivery, None, i')"
    using handle_sample by blast
  from delivered_code_bound[OF run_start genuine_sample h[unfolded code_delivery_def], of "''new''"] h show ?thesis by auto
qed

text \<open>
  C14. \<^verbatim>\<open>max_age\<close> is enforced on an authorize request: a code or ID token is delivered at once only from a
  live session of an enabled user, authenticated at most \<^verbatim>\<open>max_age\<close> seconds ago, and only when the prompt
  does not ask for a fresh sign-in; \<^verbatim>\<open>max_age\<close> is then a non-negative number, and the stored code records
  that user, the session's authentication time and that an age was requested.
\<close>

theorem max_age_enforced:
  assumes "authorize_request an cfg now priv code inl param rq i = (Deliver uri m ps, i')"
    and "(''code'', c) \<in> set ps \<or> (''id_token'', c) \<in> set ps" and "param ''max_age'' \<noteq> []"
  shows "\<exists>n sess user row. Atoi (param ''max_age'') = Some n \<and> 0 \<le> n \<and> param ''prompt'' \<notin> {''login'', ''select_account''}
    \<and> currentSession now (id_Store i) rq = Some (sess, user) \<and> i64_add now (- se_CreatedAt sess) \<le> n
    \<and> GetAuthCode (id_Store i') code = Inr row \<and> ac_UserID row = u_ID user \<and> ac_AuthTime row = se_CreatedAt sess
    \<and> ac_MaxAgeRequested row"
  using assms(1)
proof (cases rule: authorize_request_cases)
  case (valid st app)
  obtain sess user row where r: "currentSession now (id_Store i) rq = Some (sess, user)"
    "as_HasMaxAge st \<Longrightarrow> i64_add now (- Session_AuthTime sess) \<le> as_MaxAge st"
    "param ''prompt'' \<notin> {''login'', ''select_account''}" "GetAuthCode (id_Store i') code = Inr row"
    "auth_row cfg now code st app user (se_AuthMethod sess) (Session_AuthTime sess) row"
    by (rule resolve_session_delivers[OF valid(4) assms(2)]) simp
  obtain n where n: "Atoi (param ''max_age'') = Some n" "0 \<le> n" "as_MaxAge st = n" "as_HasMaxAge st" using valid(3)[OF assms(3)] by blast
  have "i64_add now (- se_CreatedAt sess) \<le> n" "ac_UserID row = u_ID user" "ac_AuthTime row = se_CreatedAt sess" "ac_MaxAgeRequested row"
    using r(2,5) n by (simp_all add: auth_row_def Session_AuthTime_def)
  with r(1,3,4) n(1,2) show ?thesis by blast
next
  case refused
  with assms(2) show ?thesis by (auto simp: refused_def)
qed simp

theorem max_age_enforced_witness:
  "\<exists>sess user. currentSession 9 (id_Store authorize_identity) (get0 authorize_query) = Some (sess, user)
     \<and> i64_add 9 (- se_CreatedAt sess) \<le> 4"
proof -
  obtain i' where h: "authorize_request an0 config0 9 ''K'' ''new'' False (rq_query (get0 authorize_query)) (get0 authorize_query) authorize_identity
     = (code_delivery, i')" using authorize_request_sample by blast
  have four: "Atoi ''4'' = Some 4" by code_simp
  from max_age_enforced[OF h[unfolded code_delivery_def], of "''new''"] four show ?thesis by auto
qed

text \<open>
  How the response to a validated request that asks for an ID token is delivered: never for an
  explicit \<^verbatim>\<open>response_mode=query\<close>, by fragment when none is given, and as asked for \<^verbatim>\<open>fragment\<close> and \<^verbatim>\<open>form_post\<close>;
  but any other value passes validation and puts the ID token on the query string, which the endpoint
  otherwise refuses.
\<close>

theorem id_token_response_mode:
  assumes "validate_authorize cfg s app inl raw st = Inr st2" and "as_ResponseType st \<noteq> ''code''"
  shows "as_ResponseMode st \<noteq> ''query'' \<and> (\<exists>ps'. deliverAuthorizeResult st2 ps = Deliver (as_RedirectURI st)
    (if as_ResponseMode st = ''form_post'' then ''form_post''
     else if as_ResponseMode st \<in> {[], ''fragment''} then ''fragment'' else ''query'') (ps @ ps'))"
proof -
  obtain st1 where c: "check_response_type st = Inr st1" "check_pkce_max_age app raw st1 = Inr st2"
    using assms(1) by (auto simp: validate_authorize_def Let_def split: if_splits sum.splits)
  have "as_ResponseMode st \<noteq> ''query''" "as_ResponseMode st1 = (if as_ResponseMode st = [] then ''fragment'' else as_ResponseMode st)"
    "as_RedirectURI st1 = as_RedirectURI st"
    using c(1) assms(2) by (auto simp: check_response_type_def Let_def split: if_splits)
  with check_pkce_max_age_Inr(3,6)[OF c(2)] show ?thesis by (auto simp: deliverAuthorizeResult_def)
qed

definition jwt_mode_state :: authorizeState where
  "jwt_mode_state = \<lparr>as_Kind = ''authorize'', as_Tenant = ''t'', as_ClientID = ''app'', as_RedirectURI = ''https://r'',
     as_Scope = ''openid'', as_State = [], as_Nonce = ''n'', as_Challenge = [], as_Method = [], as_ResponseMode = ''jwt'',
     as_ResponseType = ''id_token'', as_MaxAge = 0, as_HasMaxAge = False\<rparr>"

theorem id_token_response_mode_witness:
  "deliverAuthorizeResult jwt_mode_state [(''id_token'', ''x'')] = Deliver ''https://r'' ''query'' [(''id_token'', ''x'')]"
proof -
  have "SplitScopes ''openid'' = [''openid'']" "cf_GraphResourceID config0 = ''https://graph''"
    by (simp_all add: SplitScopes_def Fields_def is_space_def config0_def)
  moreover obtain rs where "ResolveDelegatedScopes ''https://graph'' store0 [''openid''] = Some rs" using openid_resolves by meson
  ultimately have "validate_authorize config0 store0 (App.truncate app0) False [] jwt_mode_state = Inr jwt_mode_state"
    by (simp add: validate_authorize_def check_response_type_def check_pkce_max_age_def jwt_mode_state_def Let_def)
  from id_token_response_mode[OF this, of "[(''id_token'', ''x'')]"] show ?thesis
    by (simp add: jwt_mode_state_def deliverAuthorizeResult_def)
qed

end
