(* ===== verification/RecycleBin.thy ===== *)
theory RecycleBin
  imports Grants Consent
begin

text \<open>
  \<^verbatim>\<open>internal/store/deleted.go\<close>: the recycle bin. A soft delete moves an object with the
  relationships needed to restore it into \<^verbatim>\<open>deleted_items\<close>; a restore puts it back; a purge (explicit
  or by the 30-day window) drops it. \<open>now\<close> is the store's clock reading during the call.
\<close>

definition DeletedTypeUser :: string where "DeletedTypeUser = ''user''"
definition DeletedTypeGroup :: string where "DeletedTypeGroup = ''group''"
definition DeletedTypeApp :: string where "DeletedTypeApp = ''application''"

definition DeletedItemRetentionSeconds :: int where
  "DeletedItemRetentionSeconds = 30 * 24 * 60 * 60"

section \<open>Soft delete\<close>

text \<open>The driver's error is returned unmapped.\<close>

definition insertDeletedTx :: "DeletedItem \<Rightarrow> unit op" where
  "insertDeletedTx d s =
     (if list_ex (\<lambda>r. di_ID r = di_ID d) (deleted_items s) then (Inl ErrUnique, s)
      else (Inr (), s\<lparr>deleted_items := deleted_items s @ [d]\<rparr>))"

definition SoftDeleteUser :: "int \<Rightarrow> string \<Rightarrow> unit op" where
  "SoftDeleteUser now i s =
     (case GetUser s i of
        Inl e \<Rightarrow> (Inl e, s)
      | Inr u \<Rightarrow>
        (let gids = map g_ID (ListGroupsForUser s i) in
         tx (\<lambda>s. case delete_user_body i s of
               (Inl e, s1) \<Rightarrow> (Inl e, s1)
             | (Inr _, s1) \<Rightarrow> insertDeletedTx \<lparr>di_ID = u_ID u, di_ObjectType = DeletedTypeUser,
                   di_TenantID = u_TenantID u, di_DisplayName = u_DisplayName u,
                   di_Payload = DeletedUser u gids, di_DeletedAt = now\<rparr> s1) s))"

definition SoftDeleteGroup :: "int \<Rightarrow> string \<Rightarrow> unit op" where
  "SoftDeleteGroup now i s =
     (case GetGroup s i of
        Inl e \<Rightarrow> (Inl e, s)
      | Inr g \<Rightarrow>
        (let mids = map u_ID (ListGroupMembers s i) in
         tx (\<lambda>s. case DeleteGroup i s of
               (Inl e, s1) \<Rightarrow> (Inl e, s1)
             | (Inr _, s1) \<Rightarrow> insertDeletedTx \<lparr>di_ID = g_ID g, di_ObjectType = DeletedTypeGroup,
                   di_TenantID = g_TenantID g, di_DisplayName = g_DisplayName g,
                   di_Payload = DeletedGroup g mids, di_DeletedAt = now\<rparr> s1) s))"

definition export_app :: "Store \<Rightarrow> App \<Rightarrow> AppExport" where
  "export_app s a = \<lparr>ae_App = a, ae_RedirectURIs = ListRedirectURIs s (a_ID a),
     ae_Secrets = ListSecrets s (a_ID a), ae_Scopes = ListScopes s (a_ID a), ae_Roles = ListRoles s (a_ID a)\<rparr>"

definition SoftDeleteApp :: "int \<Rightarrow> string \<Rightarrow> unit op" where
  "SoftDeleteApp now appID s =
     (case GetApp s appID of
        Inl e \<Rightarrow> (Inl e, s)
      | Inr a \<Rightarrow>
        (let ae = export_app s a in
         tx (\<lambda>s. case delete_app_body appID s of
               (Inl e, s1) \<Rightarrow> (Inl e, s1)
             | (Inr _, s1) \<Rightarrow> insertDeletedTx \<lparr>di_ID = a_ID a, di_ObjectType = DeletedTypeApp,
                   di_TenantID = a_TenantID a, di_DisplayName = a_DisplayName a,
                   di_Payload = DeletedApp ae, di_DeletedAt = now\<rparr> s1) s))"

section \<open>Reading and purging\<close>

definition purgeExpired :: "int \<Rightarrow> Store \<Rightarrow> Store" where
  "purgeExpired now s =
     s\<lparr>deleted_items := sql_delete (\<lambda>d. di_DeletedAt d \<le> now - DeletedItemRetentionSeconds) (deleted_items s)\<rparr>"

definition ListDeletedItems :: "int \<Rightarrow> string \<Rightarrow> Store \<Rightarrow> DeletedItem list \<times> Store" where
  "ListDeletedItems now objectType s =
     (let s1 = purgeExpired now s in
      (sort_key (\<lambda>d. - di_DeletedAt d) (sort_key di_ID
         (filter (\<lambda>d. objectType = [] \<or> di_ObjectType d = objectType) (deleted_items s1))), s1))"

definition GetDeletedItem :: "int \<Rightarrow> string \<Rightarrow> DeletedItem op" where
  "GetDeletedItem now i s =
     (let s1 = purgeExpired now s in (one_row (sql_first (\<lambda>d. di_ID d = i) (deleted_items s1)), s1))"

definition delete_item_row :: "string \<Rightarrow> unit op" where
  "delete_item_row i s =
     (requireRow (sql_count (\<lambda>d. di_ID d = i) (deleted_items s)),
      s\<lparr>deleted_items := sql_delete (\<lambda>d. di_ID d = i) (deleted_items s)\<rparr>)"

definition PurgeDeletedItem :: "int \<Rightarrow> string \<Rightarrow> unit op" where
  "PurgeDeletedItem now i s = delete_item_row i (purgeExpired now s)"

section \<open>Restore\<close>

definition orNow :: "int \<Rightarrow> int \<Rightarrow> int" where
  "orNow v now = (if v = 0 then now else v)"

fun reattachMembersTx :: "string list \<Rightarrow> (Store \<Rightarrow> string \<Rightarrow> bool) \<Rightarrow> (string \<Rightarrow> string \<times> string) \<Rightarrow> Store \<Rightarrow> Store" where
  "reattachMembersTx [] exists edge s = s"
| "reattachMembersTx (i # ids) exists edge s =
     reattachMembersTx ids exists edge
       (if exists s i then s\<lparr>group_members := insert_or_ignore (edge i) (group_members s)\<rparr> else s)"

text \<open>The restoring \<^verbatim>\<open>INSERT INTO users\<close> names neither \<^verbatim>\<open>user_type\<close> (so the column default applies)
  nor \<^verbatim>\<open>external_user_state\<close> nor \<^verbatim>\<open>invite_redirect_url\<close> (so they become NULL).\<close>

definition restored_user :: "int \<Rightarrow> User \<Rightarrow> User" where
  "restored_user now u =
     (let created = orNow (u_CreatedAt u) now; updated = orNow (u_UpdatedAt u) created in
      u\<lparr>u_UserType := ''Member'', u_ExternalUserState := [], u_InviteRedirectURL := [],
        u_CreatedAt := created, u_UpdatedAt := updated\<rparr>)"

definition restoreUserTx :: "User \<Rightarrow> string list \<Rightarrow> int \<Rightarrow> unit op" where
  "restoreUserTx u gids now s =
     (if has_user s (u_ID u) \<or> list_ex (\<lambda>x. u_UserPrincipalName x = u_UserPrincipalName u) (users s)
      then (Inl ErrConflict, s)
      else if \<not> has_tenant s (u_TenantID u) then (Inl ErrForeignKey, s)
      else (Inr (), reattachMembersTx gids has_group (\<lambda>gid. (gid, u_ID u))
                      (s\<lparr>users := users s @ [restored_user now u]\<rparr>)))"

definition restoreGroupTx :: "Group \<Rightarrow> string list \<Rightarrow> int \<Rightarrow> unit op" where
  "restoreGroupTx g mids now s =
     (if has_group s (g_ID g) then (Inl ErrConflict, s)
      else if \<not> has_tenant s (g_TenantID g) then (Inl ErrForeignKey, s)
      else (Inr (), reattachMembersTx mids has_user (\<lambda>uid. (g_ID g, uid))
                      (s\<lparr>groups := groups s @ [g\<lparr>g_CreatedAt := orNow (g_CreatedAt g) now\<rparr>]\<rparr>)))"

text \<open>The sub-resource inserts are plain statements whose constraint errors are not mapped.\<close>

fun insert_all :: "('r \<Rightarrow> unit op) \<Rightarrow> 'r list \<Rightarrow> unit op" where
  "insert_all ins [] s = (Inr (), s)"
| "insert_all ins (r # rs) s =
     (case ins r s of
        (Inl e, s1) \<Rightarrow> (Inl (if e = ErrConflict then ErrUnique else e), s1)
      | (Inr _, s1) \<Rightarrow> insert_all ins rs s1)"

definition drop_row :: "'a op \<Rightarrow> unit op" where
  "drop_row f s = (case f s of (Inl e, s1) \<Rightarrow> (Inl e, s1) | (Inr _, s1) \<Rightarrow> (Inr (), s1))"

definition insertAppExportTx :: "AppExport \<Rightarrow> int \<Rightarrow> unit op" where
  "insertAppExportTx ae now s =
     (let a = ae_App ae in
      case insert_app (a\<lparr>a_CreatedAt := orNow (a_CreatedAt a) now\<rparr>) s of
        (Inl e, s1) \<Rightarrow> (Inl e, s1)
      | (Inr _, s1) \<Rightarrow>
        (case insert_all (\<lambda>ru. drop_row (AddRedirectURI (a_ID a) (ru_URI ru) (ru_Type ru))) (ae_RedirectURIs ae) s1 of
           (Inl e, s2) \<Rightarrow> (Inl e, s2)
         | (Inr _, s2) \<Rightarrow>
           (case insert_all (\<lambda>sec. AddSecret (sec\<lparr>sec_AppID := a_ID a, sec_CreatedAt := orNow (sec_CreatedAt sec) now\<rparr>))
                   (ae_Secrets ae) s2 of
              (Inl e, s3) \<Rightarrow> (Inl e, s3)
            | (Inr _, s3) \<Rightarrow>
              (case insert_all (\<lambda>sc. AddScope (sc\<lparr>sc_AppID := a_ID a\<rparr>)) (ae_Scopes ae) s3 of
                 (Inl e, s4) \<Rightarrow> (Inl e, s4)
               | (Inr _, s4) \<Rightarrow> insert_all (\<lambda>ro. AddRole (ro\<lparr>ro_AppID := a_ID a\<rparr>)) (ae_Roles ae) s4))))"

definition restore_object :: "int \<Rightarrow> DeletedItem \<Rightarrow> unit op" where
  "restore_object now d s =
     (if di_ObjectType d = DeletedTypeUser then
        (case di_Payload d of DeletedUser u gids \<Rightarrow> restoreUserTx u gids now s | _ \<Rightarrow> (Inl ErrPayload, s))
      else if di_ObjectType d = DeletedTypeGroup then
        (case di_Payload d of DeletedGroup g mids \<Rightarrow> restoreGroupTx g mids now s | _ \<Rightarrow> (Inl ErrPayload, s))
      else if di_ObjectType d = DeletedTypeApp then
        (case di_Payload d of DeletedApp ae \<Rightarrow> insertAppExportTx ae now s | _ \<Rightarrow> (Inl ErrPayload, s))
      else (Inl (ErrUnknownType (di_ObjectType d)), s))"

definition RestoreDeletedItem :: "int \<Rightarrow> string \<Rightarrow> DeletedItem op" where
  "RestoreDeletedItem now i s =
     (case GetDeletedItem now i s of
        (Inl e, s1) \<Rightarrow> (Inl e, s1)
      | (Inr d, s1) \<Rightarrow>
        (case tx (\<lambda>s. case restore_object now d s of
                (Inl e, s2) \<Rightarrow> (Inl e, s2)
              | (Inr _, s2) \<Rightarrow> delete_item_row i s2) s1 of
           (Inl e, s3) \<Rightarrow> (Inl e, s3)
         | (Inr _, s3) \<Rightarrow> (Inr d, s3)))"

end
