(* ===== verification/Snapshot.thy ===== *)
theory Snapshot
  imports RecycleBin Samples
begin

text \<open>
  \<^verbatim>\<open>internal/store/export.go\<close>: the portable directory snapshot. An export reads users, groups,
  memberships and applications with their sub-resources; an import replaces the directory by a
  snapshot in one transaction and clears the live grants. The round trip is proved below, with
  exactly what it loses.
\<close>

record DirectorySnapshot =
  dx_Version :: int
  dx_Users :: "User list"
  dx_Groups :: "Group list"
  dx_GroupMembers :: "(string \<times> string) list"
  dx_Apps :: "AppExport list"

definition ExportDirectory :: "Store \<Rightarrow> DirectorySnapshot" where
  "ExportDirectory s =
     (let gs = fst (ListGroups s 1000000 0 []) in
      \<lparr>dx_Version = 1, dx_Users = fst (ListUsers s 1000000 0 []), dx_Groups = gs,
       dx_GroupMembers = concat (map (\<lambda>g. map (\<lambda>m. (g_ID g, u_ID m)) (ListGroupMembers s (g_ID g))) gs),
       dx_Apps = map (export_app s) (fst (ListApps s 1000000 0 []))\<rparr>)"

text \<open>The twelve \<^verbatim>\<open>DELETE FROM\<close> statements, with the rows the schema cascades to.\<close>

definition clear_directory :: "Store \<Rightarrow> Store" where
  "clear_directory s =
     s\<lparr>authorization_codes := [], refresh_tokens := [], sessions := [], device_codes := [], group_members := [],
       app_redirect_uris := [], app_secrets := [], app_scopes := [], app_roles := [], app_registrations := [],
       groups := [], users := [], webauthn_credentials := [], user_custom_security_attributes := [],
       app_federated_credentials := [], app_key_credentials := [], app_token_lifetime_policies := [],
       workspace_identities := []\<rparr>"

text \<open>The inserting statement names neither \<^verbatim>\<open>user_type\<close>, \<^verbatim>\<open>external_user_state\<close>, \<^verbatim>\<open>invite_redirect_url\<close> nor
  \<^verbatim>\<open>updated_at\<close>: the first takes its default, the last reads as the creation time.\<close>

definition imported_user :: "string \<Rightarrow> int \<Rightarrow> User \<Rightarrow> User" where
  "imported_user tenantID now u =
     u\<lparr>u_TenantID := (if u_TenantID u = [] then tenantID else u_TenantID u), u_UserType := ''Member'',
       u_ExternalUserState := [], u_InviteRedirectURL := [], u_CreatedAt := orNow (u_CreatedAt u) now,
       u_UpdatedAt := orNow (u_CreatedAt u) now\<rparr>"

definition import_user :: "string \<Rightarrow> int \<Rightarrow> User \<Rightarrow> unit op" where
  "import_user tenantID now u s =
     (let row = imported_user tenantID now u in
      if has_user s (u_ID u) \<or> list_ex (\<lambda>x. u_UserPrincipalName x = u_UserPrincipalName u) (users s) then (Inl ErrUnique, s)
      else if \<not> has_tenant s (u_TenantID row) then (Inl ErrForeignKey, s)
      else (Inr (), s\<lparr>users := users s @ [row]\<rparr>))"

definition import_group :: "string \<Rightarrow> int \<Rightarrow> Group \<Rightarrow> unit op" where
  "import_group tenantID now g s =
     (let row = g\<lparr>g_TenantID := (if g_TenantID g = [] then tenantID else g_TenantID g), g_CreatedAt := orNow (g_CreatedAt g) now\<rparr> in
      if has_group s (g_ID g) then (Inl ErrUnique, s)
      else if \<not> has_tenant s (g_TenantID row) then (Inl ErrForeignKey, s)
      else (Inr (), s\<lparr>groups := groups s @ [row]\<rparr>))"

definition import_member :: "string \<times> string \<Rightarrow> unit op" where
  "import_member m s =
     (if \<not> has_group s (fst m) \<or> \<not> has_user s (snd m) then (Inl ErrForeignKey, s)
      else (Inr (), s\<lparr>group_members := insert_or_ignore m (group_members s)\<rparr>))"

definition import_app :: "string \<Rightarrow> int \<Rightarrow> AppExport \<Rightarrow> unit op" where
  "import_app tenantID now ae =
     insertAppExportTx (ae\<lparr>ae_App := (ae_App ae)\<lparr>a_TenantID := (if a_TenantID (ae_App ae) = [] then tenantID else a_TenantID (ae_App ae))\<rparr>\<rparr>) now"

definition ImportDirectory :: "DirectorySnapshot \<Rightarrow> string \<Rightarrow> int \<Rightarrow> unit op" where
  "ImportDirectory snap tenantID now = tx (\<lambda>s.
     case insert_all (import_user tenantID now) (dx_Users snap) (clear_directory s) of
       (Inl e, s1) \<Rightarrow> (Inl e, s1)
     | (Inr _, s1) \<Rightarrow>
       (case insert_all (import_group tenantID now) (dx_Groups snap) s1 of
          (Inl e, s2) \<Rightarrow> (Inl e, s2)
        | (Inr _, s2) \<Rightarrow>
          (case insert_all import_member (dx_GroupMembers snap) s2 of
             (Inl e, s3) \<Rightarrow> (Inl e, s3)
           | (Inr _, s3) \<Rightarrow> insert_all (import_app tenantID now) (dx_Apps snap) s3)))"

section \<open>Loops of inserts\<close>

text \<open>When every insert of a loop leads from the state of a prefix to that of the next, the loop succeeds.\<close>

lemma insert_all_state:
  assumes "\<And>pre r post. rs = pre @ r # post \<Longrightarrow> ins r (S pre) = (Inr (), S (pre @ [r]))"
    and "S [] = s"
  shows "insert_all ins rs s = (Inr (), S rs)"
proof -
  have "insert_all ins rs2 (S rs1) = (Inr (), S (rs1 @ rs2))" if "rs = rs1 @ rs2" for rs1 rs2
    using that
  proof (induction rs2 arbitrary: rs1)
    case (Cons r rs2)
    from Cons(1)[of "rs1 @ [r]"] Cons(2) assms(1)[of rs1 r rs2] show ?case by simp
  qed simp
  from this[of "[]" rs] assms(2) show ?thesis by simp
qed

text \<open>What a stored directory satisfies: keys are distinct, references exist, mandatory columns are set.\<close>

definition directory_wf :: "Store \<Rightarrow> bool" where
  "directory_wf s \<longleftrightarrow>
     distinct (map u_ID (users s)) \<and> distinct (map u_UserPrincipalName (users s))
     \<and> (\<forall>u \<in> set (users s). u_TenantID u \<noteq> [] \<and> has_tenant s (u_TenantID u) \<and> u_CreatedAt u \<noteq> 0)
     \<and> distinct (map g_ID (groups s))
     \<and> (\<forall>g \<in> set (groups s). g_TenantID g \<noteq> [] \<and> has_tenant s (g_TenantID g) \<and> g_CreatedAt g \<noteq> 0)
     \<and> distinct (map a_ID (app_registrations s))
     \<and> (\<forall>a \<in> set (app_registrations s). a_TenantID a \<noteq> [] \<and> has_tenant s (a_TenantID a) \<and> a_CreatedAt a \<noteq> 0 \<and> a_GroupMembershipClaims a \<noteq> [])
     \<and> distinct (map (\<lambda>r. (ru_AppID r, ru_URI r)) (app_redirect_uris s)) \<and> (\<forall>r \<in> set (app_redirect_uris s). ru_Type r \<noteq> [])
     \<and> distinct (map sec_ID (app_secrets s)) \<and> (\<forall>r \<in> set (app_secrets s). sec_CreatedAt r \<noteq> 0)
     \<and> distinct (map sc_ID (app_scopes s)) \<and> distinct (map (\<lambda>r. (sc_AppID r, sc_Value r)) (app_scopes s))
     \<and> distinct (map ro_ID (app_roles s)) \<and> distinct (map (\<lambda>r. (ro_AppID r, ro_Value r)) (app_roles s))
     \<and> (\<forall>r \<in> set (app_roles s). ro_AllowedMemberTypes r \<noteq> [])
     \<and> length (users s) \<le> 1000000 \<and> length (groups s) \<le> 1000000 \<and> length (app_registrations s) \<le> 1000000"

subsection \<open>Users, groups and memberships\<close>

lemma import_users_ok:
  assumes "distinct (map u_ID us)" "distinct (map u_UserPrincipalName us)"
    and "\<forall>u \<in> set us. u_TenantID u \<noteq> [] \<and> has_tenant s (u_TenantID u)" and "users s = []"
  shows "insert_all (import_user tid now) us s = (Inr (), s\<lparr>users := map (imported_user tid now) us\<rparr>)"
proof -
  let ?S = "\<lambda>pre. s\<lparr>users := map (imported_user tid now) pre\<rparr>"
  have "import_user tid now u (?S pre) = (Inr (), ?S (pre @ [u]))" if "us = pre @ u # post" for pre u post
    using assms that by (auto simp: import_user_def imported_user_def has_defs list_ex_iff image_iff Let_def)
  from insert_all_state[where S = ?S, OF this] show ?thesis using assms(4) by (cases s) simp
qed

lemma import_groups_ok:
  assumes "distinct (map g_ID gs)" and "\<forall>g \<in> set gs. g_TenantID g \<noteq> [] \<and> has_tenant s (g_TenantID g) \<and> g_CreatedAt g \<noteq> 0"
    and "groups s = []"
  shows "insert_all (import_group tid now) gs s = (Inr (), s\<lparr>groups := gs\<rparr>)"
proof -
  let ?S = "\<lambda>pre. s\<lparr>groups := pre\<rparr>"
  have "import_group tid now g (?S pre) = (Inr (), ?S (pre @ [g]))" if "gs = pre @ g # post" for pre g post
    using assms that by (auto simp: import_group_def has_defs list_ex_iff orNow_def image_iff Let_def)
  from insert_all_state[where S = ?S, OF this] show ?thesis using assms(3) by (cases s) simp
qed

lemma import_members_ok:
  assumes "distinct ms" and "\<forall>m \<in> set ms. has_group s (fst m) \<and> has_user s (snd m)" and "group_members s = []"
  shows "insert_all import_member ms s = (Inr (), s\<lparr>group_members := ms\<rparr>)"
proof -
  let ?S = "\<lambda>pre. s\<lparr>group_members := pre\<rparr>"
  have "import_member m (?S pre) = (Inr (), ?S (pre @ [m]))" if "ms = pre @ m # post" for pre m post
    using assms that by (auto simp: import_member_def has_defs insert_or_ignore_def list_ex_iff)
  from insert_all_state[where S = ?S, OF this] show ?thesis using assms(3) by (cases s) simp
qed

subsection \<open>Applications\<close>

text \<open>An import numbers the redirect URIs afresh.\<close>

fun renumber :: "int \<Rightarrow> RedirectURI list \<Rightarrow> RedirectURI list" where
  "renumber n [] = []"
| "renumber n (r # rs) = r\<lparr>ru_ID := n + 1\<rparr> # renumber (n + 1) rs"

lemma renumber_append: "renumber n (xs @ ys) = renumber n xs @ renumber (n + int (length xs)) ys"
  by (induction xs arbitrary: n) (simp_all add: add.assoc)

lemma renumber_keys [simp]:
  "map ru_URI (renumber n xs) = map ru_URI xs" "map ru_AppID (renumber n xs) = map ru_AppID xs"
  "map ru_Type (renumber n xs) = map ru_Type xs" "length (renumber n xs) = length xs"
  by (induction xs arbitrary: n) simp_all

lemma renumber_mem: "(\<exists>r \<in> set (renumber n xs). P (ru_AppID r) (ru_URI r)) \<longleftrightarrow> (\<exists>r \<in> set xs. P (ru_AppID r) (ru_URI r))"
  by (induction xs arbitrary: n) auto

text \<open>The store after importing the applications \<open>aes\<close> into \<open>s\<close>.\<close>

definition with_apps :: "Store \<Rightarrow> AppExport list \<Rightarrow> Store" where
  "with_apps s aes =
     (let rus = concat (map ae_RedirectURIs aes) in
      s\<lparr>app_registrations := map (\<lambda>ae. app_row (ae_App ae)) aes,
        app_redirect_uris := renumber (redirect_uri_seq s) rus, redirect_uri_seq := redirect_uri_seq s + int (length rus),
        app_secrets := concat (map ae_Secrets aes), app_scopes := concat (map ae_Scopes aes),
        app_roles := concat (map ae_Roles aes)\<rparr>)"

lemma with_apps_tables:
  "app_redirect_uris (with_apps s aes) = renumber (redirect_uri_seq s) (concat (map ae_RedirectURIs aes))"
  "app_secrets (with_apps s aes) = concat (map ae_Secrets aes)" "app_scopes (with_apps s aes) = concat (map ae_Scopes aes)"
  "app_roles (with_apps s aes) = concat (map ae_Roles aes)"
  "app_registrations (with_apps s aes) = map (\<lambda>ae. app_row (ae_App ae)) aes"
  "users (with_apps s aes) = users s" "groups (with_apps s aes) = groups s" "group_members (with_apps s aes) = group_members s"
  by (simp_all add: with_apps_def Let_def)

text \<open>Exports whose inserts succeed one after the other.\<close>

definition apps_fit :: "Store \<Rightarrow> AppExport list \<Rightarrow> bool" where
  "apps_fit s aes \<longleftrightarrow>
     distinct (map (\<lambda>ae. a_ID (ae_App ae)) aes)
     \<and> distinct (map (\<lambda>r. (ru_AppID r, ru_URI r)) (concat (map ae_RedirectURIs aes)))
     \<and> distinct (map sec_ID (concat (map ae_Secrets aes)))
     \<and> distinct (map sc_ID (concat (map ae_Scopes aes)))
     \<and> distinct (map (\<lambda>r. (sc_AppID r, sc_Value r)) (concat (map ae_Scopes aes)))
     \<and> distinct (map ro_ID (concat (map ae_Roles aes)))
     \<and> distinct (map (\<lambda>r. (ro_AppID r, ro_Value r)) (concat (map ae_Roles aes)))
     \<and> (\<forall>ae \<in> set aes. let a = ae_App ae in a_TenantID a \<noteq> [] \<and> has_tenant s (a_TenantID a) \<and> a_CreatedAt a \<noteq> 0
          \<and> a_GroupMembershipClaims a \<noteq> []
          \<and> (\<forall>r \<in> set (ae_RedirectURIs ae). ru_AppID r = a_ID a \<and> ru_Type r \<noteq> [])
          \<and> (\<forall>r \<in> set (ae_Secrets ae). sec_AppID r = a_ID a \<and> sec_CreatedAt r \<noteq> 0)
          \<and> (\<forall>r \<in> set (ae_Scopes ae). sc_AppID r = a_ID a)
          \<and> (\<forall>r \<in> set (ae_Roles ae). ro_AppID r = a_ID a \<and> ro_AllowedMemberTypes r \<noteq> []))"

lemma import_redirects_ok:
  assumes "has_app s aid" and "\<forall>r \<in> set rus. ru_AppID r = aid \<and> ru_Type r \<noteq> []"
    and "distinct (map (\<lambda>r. (ru_AppID r, ru_URI r)) (app_redirect_uris s @ rus))"
  shows "insert_all (\<lambda>ru. drop_row (AddRedirectURI aid (ru_URI ru) (ru_Type ru))) rus s
    = (Inr (), s\<lparr>app_redirect_uris := app_redirect_uris s @ renumber (redirect_uri_seq s) rus,
        redirect_uri_seq := redirect_uri_seq s + int (length rus)\<rparr>)"
proof -
  let ?S = "\<lambda>pre. s\<lparr>app_redirect_uris := app_redirect_uris s @ renumber (redirect_uri_seq s) pre,
        redirect_uri_seq := redirect_uri_seq s + int (length pre)\<rparr>"
  have step: "drop_row (AddRedirectURI aid (ru_URI r) (ru_Type r)) (?S pre) = (Inr (), ?S (pre @ [r]))" if rs: "rus = pre @ r # post" for pre r post
  proof -
    have r: "ru_AppID r = aid" "coalesceStr (ru_Type r) ''web'' = ru_Type r" using assms(2) rs by (auto simp: coalesceStr_def)
    have "\<not> (\<exists>x \<in> set (app_redirect_uris s) \<union> set pre. ru_AppID x = aid \<and> ru_URI x = ru_URI r)"
      using assms(3) rs r(1) by (auto simp: image_iff)
    then have fresh: "\<not> list_ex (\<lambda>x. ru_AppID x = aid \<and> ru_URI x = ru_URI r) (app_redirect_uris s @ renumber (redirect_uri_seq s) pre)"
      using renumber_mem[of _ pre "\<lambda>a u. a = aid \<and> u = ru_URI r"] by (auto simp: list_ex_iff)
    have "\<lparr>ru_ID = n, ru_AppID = aid, ru_URI = ru_URI r, ru_Type = ru_Type r\<rparr> = r\<lparr>ru_ID := n\<rparr>" for n
      using r(1) by (cases r) simp
    with fresh r assms(1) show ?thesis
      by (simp add: drop_row_def AddRedirectURI_def has_defs renumber_append add.assoc Let_def)
  qed
  from insert_all_state[where S = ?S, OF step] show ?thesis by (cases s) simp
qed

lemma import_secrets_ok:
  assumes "has_app s aid" and "\<forall>r \<in> set secs. sec_AppID r = aid \<and> sec_CreatedAt r \<noteq> 0"
    and "distinct (map sec_ID (app_secrets s @ secs))"
  shows "insert_all (\<lambda>sec. AddSecret (sec\<lparr>sec_AppID := aid, sec_CreatedAt := orNow (sec_CreatedAt sec) now\<rparr>)) secs s
    = (Inr (), s\<lparr>app_secrets := app_secrets s @ secs\<rparr>)"
proof -
  let ?S = "\<lambda>pre. s\<lparr>app_secrets := app_secrets s @ pre\<rparr>"
  have step: "AddSecret (r\<lparr>sec_AppID := aid, sec_CreatedAt := orNow (sec_CreatedAt r) now\<rparr>) (?S pre) = (Inr (), ?S (pre @ [r]))"
    if rs: "secs = pre @ r # post" for pre r post
  proof -
    have e: "r\<lparr>sec_AppID := aid, sec_CreatedAt := orNow (sec_CreatedAt r) now\<rparr> = r" using assms(2) rs by (cases r) (simp add: orNow_def)
    have "\<not> list_ex (\<lambda>x. sec_ID x = sec_ID r) (app_secrets s @ pre)"
      using assms(3) rs by (auto simp: list_ex_iff image_iff)
    moreover have "sec_AppID r = aid" using assms(2) rs by simp
    ultimately show ?thesis unfolding e using assms(1) by (simp add: AddSecret_def has_defs)
  qed
  from insert_all_state[where S = ?S, OF step] show ?thesis by (cases s) simp
qed

lemma import_scopes_ok:
  assumes "has_app s aid" and "\<forall>r \<in> set scs. sc_AppID r = aid" and "distinct (map sc_ID (app_scopes s @ scs))"
    and "distinct (map (\<lambda>r. (sc_AppID r, sc_Value r)) (app_scopes s @ scs))"
  shows "insert_all (\<lambda>sc. AddScope (sc\<lparr>sc_AppID := aid\<rparr>)) scs s = (Inr (), s\<lparr>app_scopes := app_scopes s @ scs\<rparr>)"
proof -
  let ?S = "\<lambda>pre. s\<lparr>app_scopes := app_scopes s @ pre\<rparr>"
  have step: "AddScope (r\<lparr>sc_AppID := aid\<rparr>) (?S pre) = (Inr (), ?S (pre @ [r]))" if rs: "scs = pre @ r # post" for pre r post
  proof -
    have e: "r\<lparr>sc_AppID := aid\<rparr> = r" using assms(2) rs by (cases r) simp
    have "\<not> list_ex (\<lambda>x. sc_ID x = sc_ID r \<or> (sc_AppID x = sc_AppID r \<and> sc_Value x = sc_Value r)) (app_scopes s @ pre)"
      using assms(3,4) rs by (auto simp: list_ex_iff image_iff)
    moreover have "sc_AppID r = aid" using assms(2) rs by simp
    ultimately show ?thesis unfolding e using assms(1) by (simp add: AddScope_def has_defs)
  qed
  from insert_all_state[where S = ?S, OF step] show ?thesis by (cases s) simp
qed

lemma import_roles_ok:
  assumes "has_app s aid" and "\<forall>r \<in> set ros. ro_AppID r = aid \<and> ro_AllowedMemberTypes r \<noteq> []"
    and "distinct (map ro_ID (app_roles s @ ros))" and "distinct (map (\<lambda>r. (ro_AppID r, ro_Value r)) (app_roles s @ ros))"
  shows "insert_all (\<lambda>ro. AddRole (ro\<lparr>ro_AppID := aid\<rparr>)) ros s = (Inr (), s\<lparr>app_roles := app_roles s @ ros\<rparr>)"
proof -
  let ?S = "\<lambda>pre. s\<lparr>app_roles := app_roles s @ pre\<rparr>"
  have step: "AddRole (r\<lparr>ro_AppID := aid\<rparr>) (?S pre) = (Inr (), ?S (pre @ [r]))" if rs: "ros = pre @ r # post" for pre r post
  proof -
    have e: "r\<lparr>ro_AppID := aid\<rparr> = r" "norm_role r = r"
      using assms(2) rs by (cases r, auto simp: norm_role_def coalesceStr_def)+
    have "\<not> list_ex (\<lambda>x. ro_ID x = ro_ID r \<or> (ro_AppID x = ro_AppID r \<and> ro_Value x = ro_Value r)) (app_roles s @ pre)"
      using assms(3,4) rs by (auto simp: list_ex_iff image_iff)
    moreover have "ro_AppID r = aid" using assms(2) rs by simp
    ultimately show ?thesis unfolding e(1) using assms(1) e(2) by (simp add: AddRole_def has_defs)
  qed
  from insert_all_state[where S = ?S, OF step] show ?thesis by (cases s) simp
qed

lemma distinct_concat_prefix:
  "distinct (map f (concat (map g (pre @ x # post)))) \<Longrightarrow> distinct (map f (concat (map g pre)) @ map f (g x))"
proof -
  assume "distinct (map f (concat (map g (pre @ x # post))))"
  moreover have "map f (concat (map g (pre @ x # post))) = (map f (concat (map g pre)) @ map f (g x)) @ map f (concat (map g post))" by simp
  ultimately show ?thesis by (metis distinct_append)
qed

lemma import_app_step:
  assumes fit: "apps_fit s aes" and rs: "aes = pre @ ae # post"
  shows "import_app tid now ae (with_apps s pre) = (Inr (), with_apps s (pre @ [ae]))"
proof -
  let ?a = "ae_App ae" and ?s0 = "with_apps s pre"
  have ok: "a_TenantID ?a \<noteq> []" "has_tenant s (a_TenantID ?a)" "a_CreatedAt ?a \<noteq> 0" "a_GroupMembershipClaims ?a \<noteq> []"
    "\<forall>r \<in> set (ae_RedirectURIs ae). ru_AppID r = a_ID ?a \<and> ru_Type r \<noteq> []"
    "\<forall>r \<in> set (ae_Secrets ae). sec_AppID r = a_ID ?a \<and> sec_CreatedAt r \<noteq> 0"
    "\<forall>r \<in> set (ae_Scopes ae). sc_AppID r = a_ID ?a" "\<forall>r \<in> set (ae_Roles ae). ro_AppID r = a_ID ?a \<and> ro_AllowedMemberTypes r \<noteq> []"
    using fit rs by (simp_all add: apps_fit_def Let_def)
  define s1 where "s1 = ?s0\<lparr>app_registrations := app_registrations ?s0 @ [app_row ?a]\<rparr>"
  have fresh: "\<not> has_app ?s0 (a_ID ?a)"
    using fit rs by (auto simp: has_iff with_apps_def apps_fit_def app_row_def App.defs Let_def image_iff)
  have same: "?a\<lparr>a_TenantID := (if a_TenantID ?a = [] then tid else a_TenantID ?a)\<rparr> = ?a" using ok(1) by (cases ?a) simp
  have norm: "norm_app (?a\<lparr>a_CreatedAt := orNow (a_CreatedAt ?a) now\<rparr>) = ?a"
    using ok(3,4) by (cases ?a) (simp add: norm_app_def orNow_def coalesceStr_def)
  have 1: "insert_app (?a\<lparr>a_CreatedAt := orNow (a_CreatedAt ?a) now\<rparr>) ?s0 = (Inr (), s1)"
    using fresh ok(2) norm by (simp add: insert_app_def s1_def with_apps_def has_defs Let_def)
  define s2 where "s2 = s1\<lparr>app_redirect_uris := app_redirect_uris s1 @ renumber (redirect_uri_seq s1) (ae_RedirectURIs ae),
        redirect_uri_seq := redirect_uri_seq s1 + int (length (ae_RedirectURIs ae))\<rparr>"
  define s3 where "s3 = s2\<lparr>app_secrets := app_secrets s2 @ ae_Secrets ae\<rparr>"
  define s4 where "s4 = s3\<lparr>app_scopes := app_scopes s3 @ ae_Scopes ae\<rparr>"
  have has: "has_app s1 (a_ID ?a)" "has_app s2 (a_ID ?a)" "has_app s3 (a_ID ?a)" "has_app s4 (a_ID ?a)"
    by (simp_all add: has_defs s1_def s2_def s3_def s4_def app_row_def App.defs)
  have keys: "map (\<lambda>r. (ru_AppID r, ru_URI r)) (renumber n xs) = map (\<lambda>r. (ru_AppID r, ru_URI r)) xs" for n xs
    by (induction xs arbitrary: n) simp_all
  have d: "distinct (map (\<lambda>r. (ru_AppID r, ru_URI r)) (app_redirect_uris ?s0 @ ae_RedirectURIs ae))"
    "distinct (map sec_ID (app_secrets ?s0 @ ae_Secrets ae))" "distinct (map sc_ID (app_scopes ?s0 @ ae_Scopes ae))"
    "distinct (map (\<lambda>r. (sc_AppID r, sc_Value r)) (app_scopes ?s0 @ ae_Scopes ae))"
    "distinct (map ro_ID (app_roles ?s0 @ ae_Roles ae))" "distinct (map (\<lambda>r. (ro_AppID r, ro_Value r)) (app_roles ?s0 @ ae_Roles ae))"
    by (simp_all only: with_apps_tables map_append keys)
      (rule distinct_concat_prefix[where post = post], use fit in \<open>simp only: apps_fit_def rs\<close>)+
  have tabs: "app_redirect_uris s1 = app_redirect_uris ?s0" "app_secrets s2 = app_secrets ?s0" "app_scopes s3 = app_scopes ?s0"
    "app_roles s4 = app_roles ?s0" by (simp_all add: s1_def s2_def s3_def s4_def)
  have 2: "insert_all (\<lambda>ru. drop_row (AddRedirectURI (a_ID ?a) (ru_URI ru) (ru_Type ru))) (ae_RedirectURIs ae) s1 = (Inr (), s2)"
    unfolding s2_def by (rule import_redirects_ok[OF has(1) ok(5)]) (unfold tabs, rule d(1))
  have 3: "insert_all (\<lambda>sec. AddSecret (sec\<lparr>sec_AppID := a_ID ?a, sec_CreatedAt := orNow (sec_CreatedAt sec) now\<rparr>)) (ae_Secrets ae) s2 = (Inr (), s3)"
    unfolding s3_def by (rule import_secrets_ok[OF has(2) ok(6)]) (unfold tabs, rule d(2))
  have 4: "insert_all (\<lambda>sc. AddScope (sc\<lparr>sc_AppID := a_ID ?a\<rparr>)) (ae_Scopes ae) s3 = (Inr (), s4)"
    unfolding s4_def by (rule import_scopes_ok[OF has(3) ok(7)]) (unfold tabs, rule d(3), rule d(4))
  have 5: "insert_all (\<lambda>ro. AddRole (ro\<lparr>ro_AppID := a_ID ?a\<rparr>)) (ae_Roles ae) s4 = (Inr (), s4\<lparr>app_roles := app_roles s4 @ ae_Roles ae\<rparr>)"
    by (rule import_roles_ok[OF has(4) ok(8)]) (unfold tabs, rule d(5), rule d(6))
  have "s4\<lparr>app_roles := app_roles s4 @ ae_Roles ae\<rparr> = with_apps s (pre @ [ae])"
    by (simp add: s1_def s2_def s3_def s4_def with_apps_def renumber_append add.assoc Let_def)
  with 1 2 3 4 5 show ?thesis by (simp add: import_app_def insertAppExportTx_def same Let_def)
qed

lemma import_apps_ok:
  assumes "apps_fit s aes" and "app_registrations s = []" "app_redirect_uris s = []" "app_secrets s = []" "app_scopes s = []" "app_roles s = []"
  shows "insert_all (import_app tid now) aes s = (Inr (), with_apps s aes)"
proof (rule insert_all_state)
  show "import_app tid now r (with_apps s pre) = (Inr (), with_apps s (pre @ [r]))" if "aes = pre @ r # post" for pre r post
    by (rule import_app_step[OF assms(1) that])
  show "with_apps s [] = s" using assms(2-6) by (cases s) (simp add: with_apps_def)
qed

section \<open>The exported lists\<close>

lemma exported_rows_distinct:
  assumes "distinct (map f tbl)" and "distinct (map k apps)"
  shows "distinct (map f (concat (map (\<lambda>a. sort_key ord (filter (\<lambda>r. h r = k a) tbl)) apps)))"
proof -
  let ?c = "concat (map (\<lambda>a. sort_key ord (filter (\<lambda>r. h r = k a) tbl)) apps)"
  have "distinct ?c" using assms(2) assms(1)
    by (induction apps) (auto simp: distinct_map image_iff)
  moreover have "inj_on f (set ?c)" using assms(1) by (auto simp: distinct_map intro: inj_on_subset)
  ultimately show ?thesis by (simp add: distinct_map)
qed

lemma filter_concat_own:
  assumes "distinct (map k aes)" and "\<forall>ae \<in> set aes. \<forall>r \<in> set (g ae). h r = k ae" and "ae \<in> set aes"
  shows "filter (\<lambda>r. h r = k ae) (concat (map g aes)) = g ae"
  using assms
proof (induction aes)
  case (Cons a aes)
  show ?case
  proof (cases "ae = a")
    case True
    have "filter (\<lambda>r. h r = k a) (concat (map g aes)) = []"
      using Cons.prems(1,2) by (auto simp: filter_empty_conv image_iff)
    then show ?thesis using Cons.prems True by simp
  next
    case False
    then have "filter (\<lambda>r. h r = k ae) (g a) = []" using Cons.prems by (auto simp: filter_empty_conv image_iff)
    with False Cons show ?thesis by simp
  qed
qed simp

lemma renumber_sorted: "sorted (map ru_ID (renumber n xs)) \<and> (\<forall>r \<in> set (renumber n xs). n < ru_ID r)"
  by (induction xs arbitrary: n) force+

definition forget_id :: "RedirectURI \<Rightarrow> RedirectURI" where
  "forget_id r = r\<lparr>ru_ID := 0\<rparr>"

lemma renumber_forget: "map forget_id (filter (\<lambda>r. ru_AppID r = a) (renumber n xs)) = map forget_id (filter (\<lambda>r. ru_AppID r = a) xs)"
  by (induction xs arbitrary: n) (simp_all add: forget_id_def)

lemma page_all: "length xs \<le> 1000000 \<Longrightarrow> sql_page 1000000 0 xs = xs"
  by (simp add: sql_page_def)

lemma export_lists:
  assumes "directory_wf s"
  shows "dx_Users (ExportDirectory s) = sort_key u_ID (users s)" "dx_Groups (ExportDirectory s) = sort_key g_ID (groups s)"
    "dx_Apps (ExportDirectory s) = map (export_app s) (sort_key a_ID (map App.truncate (app_registrations s)))"
    "dx_GroupMembers (ExportDirectory s)
       = concat (map (\<lambda>g. map (\<lambda>m. (g_ID g, u_ID m)) (ListGroupMembers s (g_ID g))) (sort_key g_ID (groups s)))"
  using assms by (simp_all add: ExportDirectory_def ListUsers_def ListGroups_def ListApps_def user_matches_def page_all
      directory_wf_def Let_def)

lemma truncate_sel [simp]:
  "a_ID (App.truncate a) = a_ID a" "a_TenantID (App.truncate a) = a_TenantID a" "a_CreatedAt (App.truncate a) = a_CreatedAt a"
  "a_GroupMembershipClaims (App.truncate a) = a_GroupMembershipClaims a"
  by (simp_all add: App.defs)

lemma exported_apps_fit:
  assumes "directory_wf s" and "has_tenant s0 = has_tenant s"
  shows "apps_fit s0 (dx_Apps (ExportDirectory s))"
proof -
  let ?apps = "sort_key a_ID (map App.truncate (app_registrations s))"
  have d: "distinct (map a_ID ?apps)"
    using assms(1) by (simp add: directory_wf_def distinct_map inj_on_def image_iff comp_def) (metis truncate_sel(1))
  have own: "a_TenantID a \<noteq> [] \<and> has_tenant s0 (a_TenantID a) \<and> a_CreatedAt a \<noteq> 0 \<and> a_GroupMembershipClaims a \<noteq> []"
    if "a \<in> set ?apps" for a using that assms by (auto simp: directory_wf_def)
  note ex = exported_rows_distinct[where k = a_ID and apps = ?apps, OF _ d]
  show ?thesis
    unfolding apps_fit_def export_lists(3)[OF assms(1)] map_map comp_def export_app_def AppExport.simps
      ListRedirectURIs_def ListSecrets_def ListScopes_def ListRoles_def
    using assms(1) d own by (intro conjI ex) (auto simp: directory_wf_def Let_def)
qed

section \<open>The round trip\<close>

text \<open>What of a snapshot is portable: everything but the row numbers of redirect URIs.\<close>

definition portable :: "DirectorySnapshot \<Rightarrow> DirectorySnapshot" where
  "portable x = x\<lparr>dx_Apps := map (\<lambda>ae. ae\<lparr>ae_RedirectURIs := map forget_id (ae_RedirectURIs ae)\<rparr>) (dx_Apps x)\<rparr>"

text \<open>The store an import of an own export leads to.\<close>

definition reimported :: "string \<Rightarrow> int \<Rightarrow> Store \<Rightarrow> Store" where
  "reimported tid now s =
     with_apps ((clear_directory s)\<lparr>users := map (imported_user tid now) (sort_key u_ID (users s)),
        groups := sort_key g_ID (groups s), group_members := dx_GroupMembers (ExportDirectory s)\<rparr>) (dx_Apps (ExportDirectory s))"

lemma member_ids: "ListGroupMembers s gid = filter (\<lambda>u. (gid, u_ID u) \<in> set (group_members s)) (sort_key u_ID (users s))"
  by (simp add: ListGroupMembers_def filter_sort)

lemma members_wf:
  assumes "directory_wf s"
  shows "distinct (dx_GroupMembers (ExportDirectory s))"
    and "m \<in> set (dx_GroupMembers (ExportDirectory s)) \<longleftrightarrow> m \<in> set (group_members s) \<and> fst m \<in> g_ID ` set (groups s) \<and> snd m \<in> u_ID ` set (users s)"
proof -
  have "distinct (concat (map (\<lambda>g. map (\<lambda>m. (g_ID g, u_ID m)) (ListGroupMembers s (g_ID g))) gs))"
    if "distinct (map g_ID gs)" for gs
    using that assms
    by (induction gs) (auto simp: ListGroupMembers_def directory_wf_def distinct_map image_iff inj_on_def)
  moreover have "distinct (map g_ID (sort_key g_ID (groups s)))" using assms by (simp add: directory_wf_def distinct_map)
  ultimately show "distinct (dx_GroupMembers (ExportDirectory s))" by (simp add: export_lists[OF assms])
  show "m \<in> set (dx_GroupMembers (ExportDirectory s)) \<longleftrightarrow> m \<in> set (group_members s) \<and> fst m \<in> g_ID ` set (groups s) \<and> snd m \<in> u_ID ` set (users s)"
    by (cases m) (auto simp: export_lists[OF assms] ListGroupMembers_def)
qed

lemma import_own_export:
  assumes "directory_wf s"
  shows "ImportDirectory (ExportDirectory s) tid now s = (Inr (), reimported tid now s)"
proof -
  let ?us = "sort_key u_ID (users s)" and ?gs = "sort_key g_ID (groups s)" and ?ms = "dx_GroupMembers (ExportDirectory s)"
  let ?s0 = "clear_directory s" let ?s1 = "?s0\<lparr>users := map (imported_user tid now) ?us\<rparr>" let ?s2 = "?s1\<lparr>groups := ?gs\<rparr>"
  have t: "has_tenant (?s0\<lparr>users := x, groups := y, group_members := z\<rparr>) = has_tenant s"
    "has_tenant ?s0 = has_tenant s" "has_tenant ?s1 = has_tenant s" for x y z by (simp_all add: fun_eq_iff has_defs clear_directory_def)
  have 1: "insert_all (import_user tid now) ?us ?s0 = (Inr (), ?s1)"
    by (rule import_users_ok) (use assms t in \<open>auto simp: directory_wf_def distinct_map clear_directory_def\<close>)
  have 2: "insert_all (import_group tid now) ?gs ?s1 = (Inr (), ?s2)"
    by (rule import_groups_ok) (use assms t in \<open>auto simp: directory_wf_def distinct_map clear_directory_def\<close>)
  have 3: "insert_all import_member ?ms ?s2 = (Inr (), ?s2\<lparr>group_members := ?ms\<rparr>)"
    by (rule import_members_ok[OF members_wf(1)[OF assms]])
      (auto simp: members_wf(2)[OF assms] has_iff imported_user_def image_image clear_directory_def)
  have 4: "insert_all (import_app tid now) (dx_Apps (ExportDirectory s)) (?s2\<lparr>group_members := ?ms\<rparr>) = (Inr (), reimported tid now s)"
    unfolding reimported_def by (rule import_apps_ok) (use exported_apps_fit[OF assms] t in \<open>auto simp: clear_directory_def\<close>)
  show ?thesis
    using 1 2 3 4 by (simp add: ImportDirectory_def tx_def export_lists(1,2)[OF assms])
qed

lemma sort_key_own [simp]: "sort_key f (sort_key f xs) = sort_key f xs"
  by (simp add: sorted_sort_key sort_key_id_if_sorted)

lemma truncate_row [simp]: "App.truncate (app_row a) = a"
  by (cases a) (simp add: app_row_def App.defs)

lemma reimported_app:
  assumes "directory_wf s" and "a \<in> set (sort_key a_ID (map App.truncate (app_registrations s)))"
  shows "export_app (reimported tid now s) a
    = (export_app s a)\<lparr>ae_RedirectURIs := ae_RedirectURIs (export_app (reimported tid now s) a)\<rparr>"
    and "map forget_id (ae_RedirectURIs (export_app (reimported tid now s) a)) = map forget_id (ae_RedirectURIs (export_app s a))"
proof -
  let ?aes = "dx_Apps (ExportDirectory s)" and ?s' = "reimported tid now s"
  have fit: "apps_fit s ?aes" using exported_apps_fit[OF assms(1)] by simp
  have ae: "export_app s a \<in> set ?aes" "a_ID (ae_App (export_app s a)) = a_ID a"
    using assms(2) by (simp_all add: export_lists[OF assms(1)] export_app_def)
  have d: "distinct (map (\<lambda>ae. a_ID (ae_App ae)) ?aes)" using fit by (simp add: apps_fit_def)
  note own = filter_concat_own[where k = "\<lambda>ae. a_ID (ae_App ae)" and ae = "export_app s a", OF d _ ae(1), unfolded ae(2)]
  have sec: "filter (\<lambda>r. sec_AppID r = a_ID a) (app_secrets ?s') = ae_Secrets (export_app s a)"
    unfolding reimported_def with_apps_tables by (rule own) (use fit in \<open>simp add: apps_fit_def Let_def\<close>)
  have sc: "filter (\<lambda>r. sc_AppID r = a_ID a) (app_scopes ?s') = ae_Scopes (export_app s a)"
    unfolding reimported_def with_apps_tables by (rule own) (use fit in \<open>simp add: apps_fit_def Let_def\<close>)
  have ro: "filter (\<lambda>r. ro_AppID r = a_ID a) (app_roles ?s') = ae_Roles (export_app s a)"
    unfolding reimported_def with_apps_tables by (rule own) (use fit in \<open>simp add: apps_fit_def Let_def\<close>)
  have ru: "filter (\<lambda>r. ru_AppID r = a_ID a) (concat (map ae_RedirectURIs ?aes)) = ae_RedirectURIs (export_app s a)"
    by (rule own) (use fit in \<open>simp add: apps_fit_def Let_def\<close>)
  show "export_app ?s' a = (export_app s a)\<lparr>ae_RedirectURIs := ae_RedirectURIs (export_app ?s' a)\<rparr>"
    using sec sc ro by (simp add: export_app_def ListSecrets_def ListScopes_def ListRoles_def)
  have "sorted (map ru_ID (filter P (renumber n xs)))" for P n xs
    using renumber_sorted[of n xs] by (simp add: sorted_filter)
  then show "map forget_id (ae_RedirectURIs (export_app ?s' a)) = map forget_id (ae_RedirectURIs (export_app s a))"
    by (simp add: export_app_def ListRedirectURIs_def reimported_def with_apps_tables sort_key_id_if_sorted renumber_forget)
       (use ru in \<open>simp add: export_app_def ListRedirectURIs_def\<close>)
qed

lemma reimported_export:
  assumes "directory_wf s"
  shows "portable (ExportDirectory (reimported tid now s))
    = (portable (ExportDirectory s))\<lparr>dx_Users := map (imported_user tid now) (dx_Users (ExportDirectory s))\<rparr>"
proof -
  let ?s' = "reimported tid now s"
  have us: "users ?s' = map (imported_user tid now) (sort_key u_ID (users s))" "groups ?s' = sort_key g_ID (groups s)"
    "group_members ?s' = dx_GroupMembers (ExportDirectory s)"
    by (simp_all add: reimported_def with_apps_tables)
  have keep: "u_ID (imported_user tid now u) = u_ID u" for u by (simp add: imported_user_def)
  have apps: "map App.truncate (app_registrations ?s') = sort_key a_ID (map App.truncate (app_registrations s))"
    by (simp add: reimported_def with_apps_tables export_lists(3)[OF assms] comp_def export_app_def)
  have len: "length (users s) \<le> 1000000" "length (groups s) \<le> 1000000" "length (app_registrations s) \<le> 1000000"
    using assms by (simp_all add: directory_wf_def)
  have srt: "sort_key u_ID (map (imported_user tid now) (sort_key u_ID (users s))) = map (imported_user tid now) (sort_key u_ID (users s))"
    by (rule sort_key_id_if_sorted) (simp add: comp_def keep)
  have mem: "map (\<lambda>m. (g_ID g, u_ID m)) (ListGroupMembers ?s' (g_ID g)) = map (\<lambda>m. (g_ID g, u_ID m)) (ListGroupMembers s (g_ID g))"
    if "g \<in> set (groups s)" for g
    using that by (simp add: member_ids us srt filter_map comp_def keep members_wf(2)[OF assms] cong: filter_cong)
      (rule arg_cong[of _ _ "map _"], auto intro: filter_cong)
  have 1: "dx_Users (ExportDirectory ?s') = map (imported_user tid now) (sort_key u_ID (users s))"
    using len by (simp add: ExportDirectory_def ListUsers_def user_matches_def us srt page_all Let_def)
  have 2: "dx_Groups (ExportDirectory ?s') = sort_key g_ID (groups s)"
    using len by (simp add: ExportDirectory_def ListGroups_def us page_all Let_def)
  have 3: "dx_GroupMembers (ExportDirectory ?s') = dx_GroupMembers (ExportDirectory s)"
  proof -
    have e: "dx_GroupMembers (ExportDirectory ?s')
      = concat (map (\<lambda>g. map (\<lambda>m. (g_ID g, u_ID m)) (ListGroupMembers ?s' (g_ID g))) (sort_key g_ID (groups s)))"
      using len by (simp add: ExportDirectory_def ListGroups_def us page_all Let_def)
    show ?thesis
      unfolding e export_lists(4)[OF assms] by (intro arg_cong[where f = concat] map_cong refl mem) simp
  qed
  have 4: "dx_Apps (ExportDirectory ?s') = map (export_app ?s') (sort_key a_ID (map App.truncate (app_registrations s)))"
    using len by (simp add: ExportDirectory_def ListApps_def apps page_all Let_def)
  have 5: "map (\<lambda>ae. ae\<lparr>ae_RedirectURIs := map forget_id (ae_RedirectURIs ae)\<rparr>) (dx_Apps (ExportDirectory ?s'))
    = map (\<lambda>ae. ae\<lparr>ae_RedirectURIs := map forget_id (ae_RedirectURIs ae)\<rparr>) (dx_Apps (ExportDirectory s))"
    unfolding 4 export_lists(3)[OF assms] map_map comp_def
    by (rule map_cong[OF refl]) (subst reimported_app(1)[OF assms], assumption, simp add: reimported_app(2)[OF assms])
  have v: "dx_Version (ExportDirectory x) = 1" for x by (simp add: ExportDirectory_def Let_def)
  show ?thesis
    using 1 2 3 5 v export_lists(1,2)[OF assms]
    by (intro DirectorySnapshot.equality) (simp_all add: portable_def)
qed

text \<open>
  The directory snapshot round trip: importing what a well-formed store exports always succeeds;
  exporting again gives the same groups, memberships and applications with their redirect URIs, secrets,
  scopes and roles (only the row numbers of redirect URIs are new) and the same users except that every
  guest has become a member and the invitation and update columns are reset; the live grants are gone,
  the tenants and signing keys kept.
\<close>

theorem snapshot_roundtrip:
  assumes "directory_wf s"
  shows "\<exists>s'. ImportDirectory (ExportDirectory s) tid now s = (Inr (), s')
    \<and> portable (ExportDirectory s')
      = (portable (ExportDirectory s))\<lparr>dx_Users := map (imported_user tid now) (dx_Users (ExportDirectory s))\<rparr>
    \<and> authorization_codes s' = [] \<and> refresh_tokens s' = [] \<and> sessions s' = [] \<and> device_codes s' = []
    \<and> tenants s' = tenants s \<and> signing_keys s' = signing_keys s"
proof -
  have "authorization_codes (reimported tid now s) = []" "refresh_tokens (reimported tid now s) = []" "sessions (reimported tid now s) = []"
    "device_codes (reimported tid now s) = []" "tenants (reimported tid now s) = tenants s" "signing_keys (reimported tid now s) = signing_keys s"
    by (simp_all add: reimported_def with_apps_def clear_directory_def Let_def)
  then show ?thesis using import_own_export[OF assms] reimported_export[OF assms] by blast
qed

theorem snapshot_roundtrip_witness:
  "\<exists>s'. ImportDirectory (ExportDirectory store0) ''t'' 9 store0 = (Inr (), s')
     \<and> dx_GroupMembers (ExportDirectory s') = [(''g'', ''u'')] \<and> refresh_tokens s' = []"
proof -
  have wf: "directory_wf store0" by (simp add: directory_wf_def has_defs sample_defs)
  have m: "dx_GroupMembers (portable (ExportDirectory store0)) = [(''g'', ''u'')]"
    unfolding portable_def using export_lists(4)[OF wf] by (simp add: ListGroupMembers_def sample_defs)
  obtain s' where s': "ImportDirectory (ExportDirectory store0) ''t'' 9 store0 = (Inr (), s')" "refresh_tokens s' = []"
    "portable (ExportDirectory s')
       = (portable (ExportDirectory store0))\<lparr>dx_Users := map (imported_user ''t'' 9) (dx_Users (ExportDirectory store0))\<rparr>"
    using snapshot_roundtrip[OF wf, of "''t''" 9] by blast
  have "dx_GroupMembers (ExportDirectory s') = dx_GroupMembers (portable (ExportDirectory s'))" by (simp add: portable_def)
  with s' m show ?thesis by simp
qed

end
