(* ===== verification/DirectoryExtras.thy ===== *)
theory DirectoryExtras
  imports Consent Samples
begin

text \<open>
  The satellite tables of the directory: administrative units (\<^verbatim>\<open>internal/store/adminunit.go\<close>),
  tenant-authored roles (\<^verbatim>\<open>customrole.go\<close>), custom security attributes (\<^verbatim>\<open>customsecattr.go\<close>), passkeys
  (\<^verbatim>\<open>webauthn.go\<close>) and SCIM external ids (\<^verbatim>\<open>scimext.go\<close>). A value the code stores as JSON text is kept as
  the decoded value: encoding and decoding it again gives the same value.
\<close>

section \<open>Administrative units\<close>

definition norm_au :: "AdministrativeUnit \<Rightarrow> AdministrativeUnit" where
  "norm_au a = a\<lparr>au_Visibility := (if au_Visibility a = [] then ''Public'' else au_Visibility a)\<rparr>"

text \<open>The driver's error is returned unmapped.\<close>

definition CreateAdministrativeUnit :: "AdministrativeUnit \<Rightarrow> unit op" where
  "CreateAdministrativeUnit a s =
     (if list_ex (\<lambda>r. au_ID r = au_ID a) (administrative_units s) then (Inl ErrUnique, s)
      else (Inr (), s\<lparr>administrative_units := administrative_units s @ [norm_au a]\<rparr>))"

definition ListAdministrativeUnits :: "Store \<Rightarrow> AdministrativeUnit list" where
  "ListAdministrativeUnits s = sort_key au_CreatedAt (administrative_units s)"

definition GetAdministrativeUnit :: "Store \<Rightarrow> string \<Rightarrow> AdministrativeUnit res" where
  "GetAdministrativeUnit s i = one_row (sql_first (\<lambda>a. au_ID a = i) (administrative_units s))"

definition affected :: "nat \<Rightarrow> unit res" where
  "affected n = (if n = 0 then Inl ErrNotFound else Inr ())"

definition UpdateAdministrativeUnit :: "AdministrativeUnit \<Rightarrow> unit op" where
  "UpdateAdministrativeUnit a s =
     (affected (sql_count (\<lambda>r. au_ID r = au_ID a) (administrative_units s)),
      s\<lparr>administrative_units := sql_update (\<lambda>r. au_ID r = au_ID a)
          (\<lambda>r. r\<lparr>au_DisplayName := au_DisplayName a, au_Description := au_Description a, au_Visibility := au_Visibility a\<rparr>)
          (administrative_units s)\<rparr>)"

definition DeleteAdministrativeUnit :: "string \<Rightarrow> unit op" where
  "DeleteAdministrativeUnit i s =
     (affected (sql_count (\<lambda>r. au_ID r = i) (administrative_units s)),
      s\<lparr>administrative_units := sql_delete (\<lambda>r. au_ID r = i) (administrative_units s),
        administrative_unit_members := sql_delete (\<lambda>m. am_AU m = i) (administrative_unit_members s)\<rparr>)"

definition AddAdminUnitMember :: "string \<Rightarrow> string \<Rightarrow> unit op" where
  "AddAdminUnitMember auID memberID s =
     (case GetAdministrativeUnit s auID of
        Inl e \<Rightarrow> (Inl e, s)
      | Inr _ \<Rightarrow>
        (case (case GetUser s memberID of
                 Inr _ \<Rightarrow> Some ''user''
               | Inl _ \<Rightarrow> (case GetGroup s memberID of Inr _ \<Rightarrow> Some ''group'' | Inl _ \<Rightarrow> None)) of
           None \<Rightarrow> (Inl ErrNotFound, s)
         | Some typ \<Rightarrow>
           (Inr (), if list_ex (\<lambda>m. am_AU m = auID \<and> am_ID m = memberID) (administrative_unit_members s) then s
                    else s\<lparr>administrative_unit_members := administrative_unit_members s
                             @ [\<lparr>am_AU = auID, am_ID = memberID, am_Type = typ\<rparr>]\<rparr>)))"

definition RemoveAdminUnitMember :: "string \<Rightarrow> string \<Rightarrow> unit op" where
  "RemoveAdminUnitMember auID memberID s =
     (affected (sql_count (\<lambda>m. am_AU m = auID \<and> am_ID m = memberID) (administrative_unit_members s)),
      s\<lparr>administrative_unit_members :=
          sql_delete (\<lambda>m. am_AU m = auID \<and> am_ID m = memberID) (administrative_unit_members s)\<rparr>)"

definition ListAdminUnitMembers :: "Store \<Rightarrow> string \<Rightarrow> AdminUnitMember list" where
  "ListAdminUnitMembers s auID = sort_key am_ID (filter (\<lambda>m. am_AU m = auID) (administrative_unit_members s))"

section \<open>Tenant-authored roles\<close>

definition CreateCustomRoleDefinition :: "CustomRoleDefinition \<Rightarrow> unit op" where
  "CreateCustomRoleDefinition d s =
     (if list_ex (\<lambda>r. rd_ID r = rd_ID d) (custom_role_definitions s) then (Inl ErrUnique, s)
      else (Inr (), s\<lparr>custom_role_definitions := custom_role_definitions s @ [d]\<rparr>))"

definition ListCustomRoleDefinitions :: "Store \<Rightarrow> CustomRoleDefinition list" where
  "ListCustomRoleDefinitions s = sort_key rd_CreatedAt (custom_role_definitions s)"

definition GetCustomRoleDefinition :: "Store \<Rightarrow> string \<Rightarrow> CustomRoleDefinition res" where
  "GetCustomRoleDefinition s i = one_row (sql_first (\<lambda>d. rd_ID d = i) (custom_role_definitions s))"

definition UpdateCustomRoleDefinition :: "CustomRoleDefinition \<Rightarrow> unit op" where
  "UpdateCustomRoleDefinition d s =
     (affected (sql_count (\<lambda>r. rd_ID r = rd_ID d) (custom_role_definitions s)),
      s\<lparr>custom_role_definitions := sql_update (\<lambda>r. rd_ID r = rd_ID d)
          (\<lambda>r. r\<lparr>rd_DisplayName := rd_DisplayName d, rd_Description := rd_Description d, rd_IsEnabled := rd_IsEnabled d,
                 rd_RolePermissions := rd_RolePermissions d\<rparr>) (custom_role_definitions s)\<rparr>)"

definition DeleteCustomRoleDefinition :: "string \<Rightarrow> unit op" where
  "DeleteCustomRoleDefinition i = tx (\<lambda>s.
     let s1 = s\<lparr>custom_role_definitions := sql_delete (\<lambda>r. rd_ID r = i) (custom_role_definitions s)\<rparr> in
     case affected (sql_count (\<lambda>r. rd_ID r = i) (custom_role_definitions s)) of
       Inl e \<Rightarrow> (Inl e, s1)
     | Inr _ \<Rightarrow> (Inr (), s1\<lparr>directory_role_assignments :=
                   sql_delete (\<lambda>a. dra_RoleDefinitionID a = i) (directory_role_assignments s1)\<rparr>))"

section \<open>Custom security attributes\<close>

definition CreateAttributeSet :: "AttributeSet \<Rightarrow> unit op" where
  "CreateAttributeSet a s =
     (if list_ex (\<lambda>r. at_ID r = at_ID a) (attribute_sets s) then (Inl ErrConflict, s)
      else (Inr (), s\<lparr>attribute_sets := attribute_sets s @ [a]\<rparr>))"

definition ListAttributeSets :: "Store \<Rightarrow> AttributeSet list" where
  "ListAttributeSets s = sort_key at_ID (attribute_sets s)"

definition GetAttributeSet :: "Store \<Rightarrow> string \<Rightarrow> AttributeSet res" where
  "GetAttributeSet s i = one_row (sql_first (\<lambda>a. at_ID a = i) (attribute_sets s))"

definition csa_id :: "string \<Rightarrow> string \<Rightarrow> string" where
  "csa_id setName attrName = setName @ ''_'' @ attrName"

definition CreateCSADefinition :: "CustomSecurityAttributeDefinition \<Rightarrow> unit op" where
  "CreateCSADefinition d s =
     (case GetAttributeSet s (sd_AttributeSet d) of
        Inl e \<Rightarrow> (Inl e, s)
      | Inr _ \<Rightarrow>
        (let d1 = d\<lparr>sd_ID := csa_id (sd_AttributeSet d) (sd_Name d)\<rparr> in
         if list_ex (\<lambda>r. sd_ID r = sd_ID d1) (custom_security_attribute_definitions s) then (Inl ErrConflict, s)
         else (Inr (), s\<lparr>custom_security_attribute_definitions := custom_security_attribute_definitions s @ [d1]\<rparr>)))"

definition ListCSADefinitions :: "Store \<Rightarrow> CustomSecurityAttributeDefinition list" where
  "ListCSADefinitions s = sort_key sd_ID (custom_security_attribute_definitions s)"

definition GetCSADefinition :: "Store \<Rightarrow> string \<Rightarrow> CustomSecurityAttributeDefinition res" where
  "GetCSADefinition s i = one_row (sql_first (\<lambda>d. sd_ID d = i) (custom_security_attribute_definitions s))"

text \<open>The closure \<^verbatim>\<open>check\<close>: a JSON number is an Integer when it is integral and its conversion to
  \<^verbatim>\<open>int64\<close> and back is exact.\<close>

definition csa_check :: "CustomSecurityAttributeDefinition \<Rightarrow> json \<Rightarrow> bool" where
  "csa_check d v =
     (if sd_Type d = ''String'' then (case v of JStr _ \<Rightarrow> True | _ \<Rightarrow> False)
      else if sd_Type d = ''Integer'' then (case v of JInt n \<Rightarrow> is_int64 n | _ \<Rightarrow> False)
      else if sd_Type d = ''Boolean'' then (case v of JBool _ \<Rightarrow> True | _ \<Rightarrow> False)
      else True)"

definition validateCSAValue :: "CustomSecurityAttributeDefinition \<Rightarrow> json \<Rightarrow> bool" where
  "validateCSAValue d v =
     (if sd_IsCollection d then (case v of JList vs \<Rightarrow> list_all (csa_check d) vs | _ \<Rightarrow> False)
      else (case v of JList _ \<Rightarrow> False | _ \<Rightarrow> csa_check d v))"

definition upsert_csa :: "string \<Rightarrow> string \<Rightarrow> json \<Rightarrow> (string \<times> string \<times> json) list \<Rightarrow> (string \<times> string \<times> json) list" where
  "upsert_csa uid did v rows =
     (if list_ex (\<lambda>(u, d, _). u = uid \<and> d = did) rows
      then map (\<lambda>(u, d, w). if u = uid \<and> d = did then (u, d, v) else (u, d, w)) rows
      else rows @ [(uid, did, v)])"

definition SetUserCustomSecurityAttribute :: "string \<Rightarrow> string \<Rightarrow> string \<Rightarrow> json \<Rightarrow> unit op" where
  "SetUserCustomSecurityAttribute userID setName attrName v s =
     (case GetCSADefinition s (csa_id setName attrName) of
        Inl e \<Rightarrow> (Inl e, s)
      | Inr d \<Rightarrow>
        if v = JNull then
          (Inr (), s\<lparr>user_custom_security_attributes :=
             sql_delete (\<lambda>(u, i, _). u = userID \<and> i = sd_ID d) (user_custom_security_attributes s)\<rparr>)
        else if \<not> validateCSAValue d v then (Inl (ErrType (sd_ID d)), s)
        else if \<not> has_user s userID then (Inl ErrForeignKey, s)
        else (Inr (), s\<lparr>user_custom_security_attributes :=
               upsert_csa userID (sd_ID d) v (user_custom_security_attributes s)\<rparr>))"

text \<open>The rows of the join in the order of the definition id, then grouped by attribute set.\<close>

definition UserCustomSecurityAttributes :: "Store \<Rightarrow> string \<Rightarrow> (string \<times> (string \<times> json) list) list" where
  "UserCustomSecurityAttributes s userID =
     (let rows = [(sd_AttributeSet d, sd_Name d, v).
                    d \<leftarrow> sort_key sd_ID (custom_security_attribute_definitions s),
                    (u, i, v) \<leftarrow> user_custom_security_attributes s, u = userID \<and> i = sd_ID d]
      in map (\<lambda>set. (set, map (\<lambda>(_, n, v). (n, v)) (filter (\<lambda>(x, _, _). x = set) rows))) (remdups (map fst rows)))"

section \<open>Passkeys\<close>

definition AddWebAuthnCredential :: "WebAuthnCredential \<Rightarrow> unit op" where
  "AddWebAuthnCredential c s =
     (if list_ex (\<lambda>r. wc_ID r = wc_ID c) (webauthn_credentials s) then (Inl ErrConflict, s)
      else if \<not> has_user s (wc_UserID c) then (Inl ErrForeignKey, s)
      else (Inr (), s\<lparr>webauthn_credentials := webauthn_credentials s @ [c]\<rparr>))"

definition ListWebAuthnCredentials :: "Store \<Rightarrow> string \<Rightarrow> WebAuthnCredential list" where
  "ListWebAuthnCredentials s userID = sort_key wc_CreatedAt (filter (\<lambda>c. wc_UserID c = userID) (webauthn_credentials s))"

definition GetWebAuthnCredential :: "Store \<Rightarrow> string \<Rightarrow> WebAuthnCredential res" where
  "GetWebAuthnCredential s i = one_row (sql_first (\<lambda>c. wc_ID c = i) (webauthn_credentials s))"

definition UpdateWebAuthnSignCount :: "string \<Rightarrow> int \<Rightarrow> Store \<Rightarrow> Store" where
  "UpdateWebAuthnSignCount i n s =
     s\<lparr>webauthn_credentials := sql_update (\<lambda>c. wc_ID c = i) (\<lambda>c. c\<lparr>wc_SignCount := n\<rparr>) (webauthn_credentials s)\<rparr>"

definition DeleteWebAuthnCredential :: "string \<Rightarrow> string \<Rightarrow> unit op" where
  "DeleteWebAuthnCredential userID i s =
     (requireRow (sql_count (\<lambda>c. wc_UserID c = userID \<and> wc_ID c = i) (webauthn_credentials s)),
      s\<lparr>webauthn_credentials := sql_delete (\<lambda>c. wc_UserID c = userID \<and> wc_ID c = i) (webauthn_credentials s)\<rparr>)"

definition HasWebAuthnCredentials :: "Store \<Rightarrow> string \<Rightarrow> bool" where
  "HasWebAuthnCredentials s userID \<longleftrightarrow> sql_count (\<lambda>c. wc_UserID c = userID) (webauthn_credentials s) > 0"

section \<open>SCIM external ids\<close>

definition ext_key :: "string \<Rightarrow> string \<Rightarrow> ScimExternalID \<Rightarrow> bool" where
  "ext_key typ rid x \<longleftrightarrow> sx_Type x = typ \<and> sx_Resource x = rid"

definition DeleteExternalID :: "string \<Rightarrow> string \<Rightarrow> Store \<Rightarrow> Store" where
  "DeleteExternalID typ rid s = s\<lparr>scim_external_ids := sql_delete (ext_key typ rid) (scim_external_ids s)\<rparr>"

definition SetExternalID :: "string \<Rightarrow> string \<Rightarrow> string \<Rightarrow> Store \<Rightarrow> Store" where
  "SetExternalID typ rid ext s =
     (if ext = [] then DeleteExternalID typ rid s
      else s\<lparr>scim_external_ids :=
        (if list_ex (ext_key typ rid) (scim_external_ids s)
         then sql_update (ext_key typ rid) (\<lambda>x. x\<lparr>sx_External := ext\<rparr>) (scim_external_ids s)
         else scim_external_ids s @ [\<lparr>sx_Type = typ, sx_Resource = rid, sx_External = ext\<rparr>])\<rparr>)"

definition ExternalID :: "Store \<Rightarrow> string \<Rightarrow> string \<Rightarrow> string" where
  "ExternalID s typ rid = (case sql_first (ext_key typ rid) (scim_external_ids s) of None \<Rightarrow> [] | Some x \<Rightarrow> sx_External x)"

definition ExternalIDs :: "Store \<Rightarrow> string \<Rightarrow> (string \<rightharpoonup> string)" where
  "ExternalIDs s typ = map_of (map (\<lambda>x. (sx_Resource x, sx_External x)) (rev (filter (\<lambda>x. sx_Type x = typ) (scim_external_ids s))))"

definition FindByExternalID :: "Store \<Rightarrow> string \<Rightarrow> string \<Rightarrow> string option" where
  "FindByExternalID s typ ext =
     map_option sx_Resource (sql_first (\<lambda>x. sx_Type x = typ \<and> sx_External x = ext) (scim_external_ids s))"

section \<open>Facts\<close>

lemma ext_get_set [simp]: "ExternalID (SetExternalID typ rid ext s) typ rid = ext"
proof (cases "ext = []")
  case True
  have "sql_first (ext_key typ rid) (sql_delete (ext_key typ rid) (scim_external_ids s)) = None"
    by (simp add: sql_first_None sql_delete_def)
  with True show ?thesis by (simp add: SetExternalID_def DeleteExternalID_def ExternalID_def)
next
  case False
  show ?thesis
  proof (cases "sql_first (ext_key typ rid) (scim_external_ids s)")
    case None
    then have "\<not> list_ex (ext_key typ rid) (scim_external_ids s)" by (auto simp: list_ex_iff sql_first_None)
    with None False show ?thesis by (simp add: SetExternalID_def ExternalID_def sql_first_append ext_key_def)
  next
    case (Some x)
    then have "list_ex (ext_key typ rid) (scim_external_ids s)" "ext_key typ rid x" by (auto simp: list_ex_iff dest: sql_first_Some)
    with Some False show ?thesis
      by (simp add: SetExternalID_def ExternalID_def sql_first_update[where Q = "ext_key typ rid"] ext_key_def)
  qed
qed

interpretation attrsets: keyed_table attribute_sets at_ID GetAttributeSet CreateAttributeSet "\<lambda>a. a"
  by unfold_locales (auto simp: GetAttributeSet_def CreateAttributeSet_def list_ex_iff split: if_splits)

interpretation passkeys: keyed_table webauthn_credentials wc_ID GetWebAuthnCredential AddWebAuthnCredential "\<lambda>c. c"
  by unfold_locales (auto simp: GetWebAuthnCredential_def AddWebAuthnCredential_def list_ex_iff split: if_splits)

section \<open>Typing of security attributes\<close>

text \<open>Definitions are keyed by \<^verbatim>\<open>{set}_{name}\<close> and every assigned value has the type its definition declares.\<close>

text \<open>What a definition declares: the type of a single value, and whether the attribute holds one value or a list of them.
  A type that is none of the three is not restricted.\<close>

definition scalar_of :: "string \<Rightarrow> json \<Rightarrow> bool" where
  "scalar_of t v \<longleftrightarrow> (t = ''String'' \<longrightarrow> (\<exists>x. v = JStr x)) \<and> (t = ''Integer'' \<longrightarrow> (\<exists>n. v = JInt n \<and> - (2 ^ 63) \<le> n \<and> n < 2 ^ 63))
     \<and> (t = ''Boolean'' \<longrightarrow> (\<exists>b. v = JBool b))"

definition csa_fits :: "CustomSecurityAttributeDefinition \<Rightarrow> json \<Rightarrow> bool" where
  "csa_fits d v \<longleftrightarrow> (if sd_IsCollection d then \<exists>vs. v = JList vs \<and> (\<forall>x \<in> set vs. scalar_of (sd_Type d) x)
     else (\<forall>vs. v \<noteq> JList vs) \<and> scalar_of (sd_Type d) v)"

lemma csa_check_iff: "csa_check d v \<longleftrightarrow> scalar_of (sd_Type d) v"
  by (cases v) (simp_all add: csa_check_def scalar_of_def is_int64_def)

lemma validateCSAValue_iff: "validateCSAValue d v \<longleftrightarrow> csa_fits d v"
  by (cases v) (simp_all add: validateCSAValue_def csa_fits_def csa_check_iff list_all_iff)

definition csa_ok :: "Store \<Rightarrow> bool" where
  "csa_ok s \<longleftrightarrow> distinct (map sd_ID (custom_security_attribute_definitions s))
     \<and> distinct (map (\<lambda>(u, i, _). (u, i)) (user_custom_security_attributes s))
     \<and> (\<forall>(u, i, v) \<in> set (user_custom_security_attributes s).
          \<exists>d \<in> set (custom_security_attribute_definitions s). sd_ID d = i \<and> csa_fits d v)"

lemma GetCSADefinition_Inr:
  assumes "GetCSADefinition s i = Inr d"
  shows "d \<in> set (custom_security_attribute_definitions s)" "sd_ID d = i"
  using assms by (auto simp: GetCSADefinition_def one_row_def split: option.splits dest: sql_first_Some)

lemma upsert_csa_keys:
  "map (\<lambda>(u, i, _). (u, i)) (upsert_csa uid did v rows)
     = (if (uid, did) \<in> set (map (\<lambda>(u, i, _). (u, i)) rows) then map (\<lambda>(u, i, _). (u, i)) rows
        else map (\<lambda>(u, i, _). (u, i)) rows @ [(uid, did)])"
proof -
  have "list_ex (\<lambda>(u, d, _). u = uid \<and> d = did) rows \<longleftrightarrow> (uid, did) \<in> set (map (\<lambda>(u, i, _). (u, i)) rows)"
    by (auto simp: list_ex_iff intro: rev_image_eqI)
  then show ?thesis by (auto simp: upsert_csa_def comp_def case_prod_beta)
qed

lemma upsert_csa_set:
  assumes "x \<in> set (upsert_csa uid did v rows)"
  shows "x = (uid, did, v) \<or> x \<in> set rows \<and> (fst x, fst (snd x)) \<noteq> (uid, did)"
  using assms by (auto simp: upsert_csa_def list_ex_iff split: if_splits)

lemma upsert_csa_mem: "(uid, did, v) \<in> set (upsert_csa uid did v rows)"
  by (auto simp: upsert_csa_def list_ex_iff image_iff case_prod_beta)

lemma csa_ok_set:
  assumes "csa_ok s"
  shows "csa_ok (snd (SetUserCustomSecurityAttribute uid st nm v s))"
proof (cases "GetCSADefinition s (csa_id st nm)")
  case (Inr d)
  note d = GetCSADefinition_Inr[OF Inr]
  have del: "csa_ok (s\<lparr>user_custom_security_attributes := sql_delete P (user_custom_security_attributes s)\<rparr>)" for P
    using assms by (auto simp: csa_ok_def sql_delete_def distinct_map intro: inj_on_subset)
  have "csa_ok (s\<lparr>user_custom_security_attributes := upsert_csa uid (sd_ID d) v (user_custom_security_attributes s)\<rparr>)"
    if "csa_fits d v"
  proof -
    have "\<exists>d \<in> set (custom_security_attribute_definitions s). sd_ID d = i \<and> csa_fits d w"
      if "(u, i, w) \<in> set (upsert_csa uid (sd_ID d) v (user_custom_security_attributes s))" for u i w
      using upsert_csa_set[OF that] \<open>csa_fits d v\<close> d(1) assms by (fastforce simp: csa_ok_def)
    then show ?thesis using assms by (auto simp: csa_ok_def upsert_csa_keys)
  qed
  then show ?thesis using Inr assms del by (simp add: SetUserCustomSecurityAttribute_def validateCSAValue_iff)
qed (use assms in \<open>simp add: SetUserCustomSecurityAttribute_def\<close>)

lemma csa_ok_define:
  assumes "csa_ok s"
  shows "csa_ok (snd (CreateCSADefinition d s))"
  using assms by (fastforce simp: CreateCSADefinition_def csa_ok_def list_ex_iff image_iff Let_def split: sum.splits)

lemma csa_ok_del_users:
  assumes "csa_ok s"
  shows "csa_ok (snd (del_users P s))"
  using assms by (auto simp: del_users_def csa_ok_def sql_delete_def distinct_map Let_def intro: inj_on_subset)

text \<open>
  C34. Custom security attributes stay typed: defining attributes, assigning or clearing values and
  deleting users all keep every stored value within the type and collection shape its definition
  declares (texts for String, 64-bit integers for Integer, truth values for Boolean, a list of such
  exactly when the attribute is a collection; other type names are not restricted), with one value per
  user and attribute. A value outside its declaration, or for an unknown user, is refused and changes
  nothing; an accepted one is what the user's attribute then holds, and null clears it.
\<close>

theorem security_attributes_typed:
  assumes "csa_ok s" and "SetUserCustomSecurityAttribute uid st nm v s = (r, s')"
  shows "csa_ok (snd (CreateCSADefinition d s)) \<and> csa_ok (snd (del_users P s)) \<and> csa_ok s'
    \<and> (\<forall>def. GetCSADefinition s (csa_id st nm) = Inr def \<longrightarrow>
         (if v = JNull then r = Inr () \<and> (\<forall>w. (uid, sd_ID def, w) \<notin> set (user_custom_security_attributes s'))
          else if csa_fits def v \<and> has_user s uid then r = Inr () \<and> (uid, sd_ID def, v) \<in> set (user_custom_security_attributes s')
          else isl r \<and> s' = s))"
  using csa_ok_define[OF assms(1)] csa_ok_del_users[OF assms(1)] csa_ok_set[OF assms(1), of uid st nm v] upsert_csa_mem assms(2)
  by (auto simp: SetUserCustomSecurityAttribute_def validateCSAValue_iff split: if_splits)

definition csa_store0 :: Store where
  "csa_store0 = store0\<lparr>custom_security_attribute_definitions := [\<lparr>sd_ID = ''Eng_Level'', sd_AttributeSet = ''Eng'', sd_Name = ''Level'',
     sd_Description = [], sd_Type = ''Integer'', sd_Status = ''Available'', sd_IsCollection = False, sd_IsSearchable = True\<rparr>]\<rparr>"

theorem security_attributes_typed_witness:
  "csa_ok (snd (SetUserCustomSecurityAttribute ''u'' ''Eng'' ''Level'' (JInt 7) csa_store0))
   \<and> snd (SetUserCustomSecurityAttribute ''u'' ''Eng'' ''Level'' (JStr ''x'') csa_store0) = csa_store0"
proof -
  have ok: "csa_ok csa_store0" by (simp add: csa_ok_def csa_store0_def sample_defs)
  obtain def where d: "GetCSADefinition csa_store0 (csa_id ''Eng'' ''Level'') = Inr def" "\<not> csa_fits def (JStr ''x'')"
    by (simp add: GetCSADefinition_def csa_store0_def csa_id_def sql_defs csa_fits_def scalar_of_def)
  obtain r1 s1 r2 s2 where e: "SetUserCustomSecurityAttribute ''u'' ''Eng'' ''Level'' (JInt 7) csa_store0 = (r1, s1)"
    "SetUserCustomSecurityAttribute ''u'' ''Eng'' ''Level'' (JStr ''x'') csa_store0 = (r2, s2)" by (metis prod.collapse)
  from security_attributes_typed[OF ok e(1)] security_attributes_typed[OF ok e(2)] d show ?thesis by (simp add: e)
qed

end
