(* ===== verification/OData.thy ===== *)
theory OData
  imports DirectoryExtras Lifetimes "HOL-Library.AList"
begin

text \<open>
  \<^verbatim>\<open>internal/graph/odata.go\<close> and the paging and projection helpers of \<^verbatim>\<open>graph.go\<close>: the \<^verbatim>\<open>$select\<close>, \<^verbatim>\<open>$filter\<close>,
  \<^verbatim>\<open>$top\<close>, \<^verbatim>\<open>$skiptoken\<close> and \<^verbatim>\<open>$count\<close> options of the Graph read surface. A shaped entity is the list of its
  members; Go's map has distinct keys, and where the code ranges over a map the list order is the
  iteration order. The regular expressions are matched by hand-written functions: their character
  classes are disjoint at every point where a match could be extended, so the match is unique, apart
  from the one place noted below.
\<close>

type_synonym shape = "(string \<times> json) list"

section \<open>Case folding\<close>

text \<open>
  \<^verbatim>\<open>strings.ToLower\<close> as far as its result can equal an ASCII string: the ASCII letters, U+212A (Kelvin sign)
  and U+0130, whose lower cases are k and i. \<^verbatim>\<open>strings.EqualFold\<close> against an ASCII name: U+212A and U+017F
  fold to k and s.
\<close>

fun ToLower :: "string \<Rightarrow> string" where
  "ToLower (a # b # c # cs) =
     (if a = CHR 0xE2 \<and> b = CHR 0x84 \<and> c = CHR 0xAA then CHR ''k'' # ToLower cs
      else if a = CHR 0xC4 \<and> b = CHR 0xB0 then CHR ''i'' # ToLower (c # cs)
      else lower_char a # ToLower (b # c # cs))"
| "ToLower [a, b] = (if a = CHR 0xC4 \<and> b = CHR 0xB0 then ''i'' else [lower_char a, lower_char b])"
| "ToLower [a] = [lower_char a]"
| "ToLower [] = []"

fun fold_name :: "string \<Rightarrow> string" where
  "fold_name (a # b # c # cs) =
     (if a = CHR 0xE2 \<and> b = CHR 0x84 \<and> c = CHR 0xAA then CHR ''k'' # fold_name cs
      else if a = CHR 0xC5 \<and> b = CHR 0xBF then CHR ''s'' # fold_name (c # cs)
      else lower_char a # fold_name (b # c # cs))"
| "fold_name [a, b] = (if a = CHR 0xC5 \<and> b = CHR 0xBF then ''s'' else [lower_char a, lower_char b])"
| "fold_name [a] = [lower_char a]"
| "fold_name [] = []"

definition EqualFold :: "string \<Rightarrow> string \<Rightarrow> bool" where
  "EqualFold a b \<longleftrightarrow> fold_name a = fold_name b"

section \<open>Filters\<close>

definition re_space :: "char \<Rightarrow> bool" where
  "re_space c \<longleftrightarrow> c \<in> {CHR '' '', CHR 0x09, CHR 0x0A, CHR 0x0C, CHR 0x0D}"

definition re_word :: "char \<Rightarrow> bool" where
  "re_word c \<longleftrightarrow> CHR ''a'' \<le> c \<and> c \<le> CHR ''z'' \<or> CHR ''A'' \<le> c \<and> c \<le> CHR ''Z'' \<or> CHR ''0'' \<le> c \<and> c \<le> CHR ''9'' \<or> c = CHR ''_''"

definition squote :: char where
  "squote = CHR 0x27"

text \<open>\<^verbatim>\<open>reFuncFilter\<close>: function name, field and value.\<close>

definition match_func :: "string \<Rightarrow> (string \<times> string \<times> string) option" where
  "match_func expr =
     (case (if HasPrefix expr ''startswith('' then Some (''startswith'', drop 11 expr)
            else if HasPrefix expr ''endswith('' then Some (''endswith'', drop 9 expr) else None) of
        None \<Rightarrow> None
      | Some (fn, r1) \<Rightarrow>
        (let r2 = dropWhile re_space r1; field = takeWhile re_word r2; r3 = dropWhile re_space (dropWhile re_word r2) in
         if field = [] then None
         else case r3 of
           [] \<Rightarrow> None
         | c # r4 \<Rightarrow>
           if c \<noteq> CHR '','' then None
           else (case dropWhile re_space r4 of
              [] \<Rightarrow> None
            | q # r5 \<Rightarrow>
              if q \<noteq> squote then None
              else (case dropWhile (\<lambda>x. x \<noteq> squote) r5 of
                 [] \<Rightarrow> None
               | _ # r6 \<Rightarrow> if dropWhile re_space r6 = '')'' then Some (fn, field, takeWhile (\<lambda>x. x \<noteq> squote) r5) else None))))"

text \<open>\<^verbatim>\<open>reCmpFilter\<close>: field, operator and raw value. When only spaces follow the operator, the leftmost-first
  match leaves the last of them to the value.\<close>

definition match_cmp :: "string \<Rightarrow> (string \<times> string \<times> string) option" where
  "match_cmp expr =
     (let field = takeWhile re_word expr; r1 = dropWhile re_word expr; r2 = dropWhile re_space r1;
          opr = take 2 r2; r3 = drop 2 r2; sp = takeWhile re_space r3; v = dropWhile re_space r3;
          rawVal = (if v = [] then (if length sp \<ge> 2 then [last sp] else []) else v) in
      if field = [] \<or> takeWhile re_space r1 = [] \<or> (opr \<noteq> ''eq'' \<and> opr \<noteq> ''ne'') \<or> sp = [] \<or> rawVal = [] \<or> CHR 0x0A \<in> set rawVal
      then None else Some (field, opr, rawVal))"

definition literalValue :: "string \<Rightarrow> (json \<times> bool) option" where
  "literalValue raw =
     (if length raw \<ge> 2 \<and> hd raw = squote \<and> last raw = squote then Some (JStr (butlast (tl raw)), True)
      else if ToLower raw = ''true'' then Some (JBool True, False)
      else if ToLower raw = ''false'' then Some (JBool False, False)
      else if ToLower raw = ''null'' then Some (JNull, False)
      else None)"

text \<open>A parsed clause is what the returned closure captures.\<close>

datatype clause = FuncClause string string string | CmpClause string string json bool

definition parseFilter :: "string \<Rightarrow> string + clause" where
  "parseFilter expr =
     (case match_func expr of
        Some (fn, field, want) \<Rightarrow> Inr (FuncClause fn field want)
      | None \<Rightarrow>
        (case match_cmp expr of
           Some (field, opr, rawVal) \<Rightarrow>
             (case literalValue (TrimSpace rawVal) of
                None \<Rightarrow> Inl ''unparseable filter value''
              | Some (want, isStr) \<Rightarrow> Inr (CmpClause field opr want isStr))
         | None \<Rightarrow> Inl ''unsupported $filter''))"

text \<open>\<^verbatim>\<open>fmt.Sprint\<close> of a member of a shape: strings, booleans, Go ints, slices, maps and nil.\<close>

fun nat_digits :: "nat \<Rightarrow> string" where
  "nat_digits n = (if n < 10 then [char_of (48 + n)] else nat_digits (n div 10) @ [char_of (48 + n mod 10)])"

declare nat_digits.simps [simp del]

definition Itoa :: "int \<Rightarrow> string" where
  "Itoa n = (if n < 0 then CHR ''-'' # nat_digits (nat (- n)) else nat_digits (nat n))"

fun sprint :: "json \<Rightarrow> string" where
  "sprint JNull = ''<nil>''"
| "sprint (JBool b) = (if b then ''true'' else ''false'')"
| "sprint (JStr s) = s"
| "sprint (JInt n) = Itoa n"
| "sprint (JFrac t) = t"
| "sprint (JList vs) = ''['' @ Join (map sprint vs) '' '' @ '']''"
| "sprint (JObj ms) = ''map['' @ Join (map snd (sort_key fst (map (\<lambda>m. (fst m, fst m @ '':'' @ sprint (snd m))) ms))) '' '' @ '']''"

definition lookupField :: "shape \<Rightarrow> string \<Rightarrow> json option" where
  "lookupField sh field =
     (case map_of sh field of
        Some v \<Rightarrow> Some v
      | None \<Rightarrow> map_option snd (find (\<lambda>m. EqualFold (fst m) field) sh))"

definition fieldString :: "shape \<Rightarrow> string \<Rightarrow> string" where
  "fieldString sh field = (case lookupField sh field of None \<Rightarrow> [] | Some JNull \<Rightarrow> [] | Some v \<Rightarrow> sprint v)"

definition valueEquals :: "json \<Rightarrow> json \<Rightarrow> bool \<Rightarrow> bool" where
  "valueEquals got want wantIsStr \<longleftrightarrow>
     (if wantIsStr then (if got = JNull then want = JStr [] else JStr (sprint got) = want) else got = want)"

fun clause_holds :: "clause \<Rightarrow> shape \<Rightarrow> bool" where
  "clause_holds (FuncClause fn field want) sh \<longleftrightarrow>
     (if fn = ''startswith'' then HasPrefix (fieldString sh field) want else HasSuffix (fieldString sh field) want)"
| "clause_holds (CmpClause field opr want isStr) sh \<longleftrightarrow>
     (let eq = valueEquals (case lookupField sh field of None \<Rightarrow> JNull | Some v \<Rightarrow> v) want isStr in
      if opr = ''ne'' then \<not> eq else eq)"

section \<open>Selection\<close>

text \<open>\<^verbatim>\<open>canonical\<close> maps the lower-cased name of each member to the member; later members overwrite earlier ones.\<close>

definition canonical :: "shape \<Rightarrow> string \<Rightarrow> string option" where
  "canonical sh low = map_of (rev (map (\<lambda>m. (ToLower (fst m), fst m)) sh)) low"

fun select_fields :: "shape \<Rightarrow> string list \<Rightarrow> shape \<Rightarrow> shape" where
  "select_fields sh [] out = out"
| "select_fields sh (f # fs) out =
     (case (if map_of sh f \<noteq> None then Some f else canonical sh (ToLower f)) of
        None \<Rightarrow> select_fields sh fs out
      | Some k \<Rightarrow> select_fields sh fs (AList.update k (the (map_of sh k)) out))"

definition applySelect :: "shape \<Rightarrow> string list \<Rightarrow> shape" where
  "applySelect sh flds = (if flds = [] then sh else select_fields sh flds [])"

definition splitCSV :: "string \<Rightarrow> string list" where
  "splitCSV s = filter (\<lambda>f. f \<noteq> []) (map TrimSpace (SplitChar s (CHR '','')))"

section \<open>Paging and the query\<close>

type_synonym query = "string \<Rightarrow> string"

definition paging :: "query \<Rightarrow> int \<times> int" where
  "paging q =
     (let top = (case Atoi (q ''$top'') of Some v \<Rightarrow> if v > 0 then (if v > 999 then 999 else v) else 100 | None \<Rightarrow> 100);
          skip = (case Atoi (q ''$skiptoken'') of Some v \<Rightarrow> if v > 0 then v else 0 | None \<Rightarrow> 0)
      in (top, skip))"

record odataQuery =
  oq_Select :: "string list"
  oq_Filter :: "clause option"
  oq_Top :: int
  oq_Skip :: int
  oq_Count :: bool

definition parseOData :: "query \<Rightarrow> string + odataQuery" where
  "parseOData q =
     (let (top, skip) = paging q;
          base = \<lparr>oq_Select = (if q ''$select'' \<noteq> [] then splitCSV (q ''$select'') else []), oq_Filter = None, oq_Top = top,
                  oq_Skip = skip, oq_Count = EqualFold (q ''$count'') ''true''\<rparr>;
          f = TrimSpace (q ''$filter'') in
      if f = [] then Inr base
      else case parseFilter f of Inl e \<Rightarrow> Inl e | Inr c \<Rightarrow> Inr (base\<lparr>oq_Filter := Some c\<rparr>))"

text \<open>A collection response: its entities, the count when asked for, and the \<^verbatim>\<open>$skiptoken\<close> of the next link.\<close>

record collection =
  co_value :: "shape list"
  co_count :: "nat option"
  co_next :: "int option"

definition writeCollection :: "(shape \<Rightarrow> shape) \<Rightarrow> odataQuery \<Rightarrow> shape list \<Rightarrow> collection" where
  "writeCollection project q shapes0 =
     (let shapes = (case oq_Filter q of None \<Rightarrow> shapes0 | Some c \<Rightarrow> filter (clause_holds c) shapes0);
          n = int (length shapes);
          start = (if oq_Skip q > n then n else oq_Skip q);
          stop = (if i64_add start (oq_Top q) > n then n else i64_add start (oq_Top q)) in
      \<lparr>co_value = map (\<lambda>s. applySelect (project s) (oq_Select q)) (take (nat (stop - start)) (drop (nat start) shapes)),
       co_count = (if oq_Count q then Some (length shapes) else None),
       co_next = (if stop < n then Some stop else None)\<rparr>)"

section \<open>Shapes\<close>

definition json_nullable :: "string \<Rightarrow> json" where
  "json_nullable s = (if s = [] then JNull else JStr s)"

definition userShape :: "User \<Rightarrow> shape" where
  "userShape u = [(''id'', JStr (u_ID u)), (''displayName'', JStr (u_DisplayName u)),
     (''userPrincipalName'', JStr (u_UserPrincipalName u)), (''mail'', json_nullable (u_Mail u)),
     (''givenName'', json_nullable (u_GivenName u)), (''surname'', json_nullable (u_Surname u)),
     (''accountEnabled'', JBool (u_AccountEnabled u)), (''userType'', JStr (u_UserType u)),
     (''externalUserState'', json_nullable (u_ExternalUserState u))]"

definition groupShape :: "Group \<Rightarrow> shape" where
  "groupShape g = [(''id'', JStr (g_ID g)), (''displayName'', JStr (g_DisplayName g)),
     (''description'', json_nullable (g_Description g)), (''mailEnabled'', JBool False), (''securityEnabled'', JBool True)]"

definition entraUserDefaultProjection :: "string list" where
  "entraUserDefaultProjection = [''businessPhones'', ''displayName'', ''givenName'', ''id'', ''jobTitle'', ''mail'',
     ''mobilePhone'', ''officeLocation'', ''preferredLanguage'', ''surname'', ''userPrincipalName'']"

definition defaultUserProjection :: "query \<Rightarrow> shape \<Rightarrow> shape" where
  "defaultUserProjection q sh =
     (if TrimSpace (q ''$select'') \<noteq> [] then sh
      else filter (\<lambda>m. fst m \<in> set entraUserDefaultProjection \<or> HasPrefix (fst m) ''@odata.'') sh)"

definition shape_id :: "shape \<Rightarrow> string" where
  "shape_id sh = (case map_of sh ''id'' of Some (JStr i) \<Rightarrow> i | _ \<Rightarrow> [])"

definition selectEntity :: "Store \<Rightarrow> query \<Rightarrow> shape \<Rightarrow> shape" where
  "selectEntity s q sh0 =
     (let sel = q ''$select'';
          sh = (if ContainsStr (ToLower sel) ''customsecurityattributes'' \<and> shape_id sh0 \<noteq> []
                then AList.update ''customSecurityAttributes''
                       (JObj (map (\<lambda>g. (fst g, JObj (snd g))) (UserCustomSecurityAttributes s (shape_id sh0)))) sh0
                else sh0) in
      if sel = [] then sh else applySelect sh (splitCSV sel))"

section \<open>Decimal numbers\<close>

lemma nat_digits_small: "n < 10 \<Longrightarrow> nat_digits n = [char_of (48 + n)]"
  by (subst nat_digits.simps) simp

lemma nat_digits_big: "\<not> n < 10 \<Longrightarrow> nat_digits n = nat_digits (n div 10) @ [char_of (48 + n mod 10)]"
  by (subst nat_digits.simps) simp

lemma digit_char: "d < 10 \<Longrightarrow> is_digit (char_of (48 + d)) \<and> digit_val (char_of (48 + d)) = int d"
  by (simp add: is_digit_def digit_val_def less_eq_char_def of_char_of)

lemma dec_val_snoc: "dec_val (ds @ [c]) = dec_val ds * 10 + digit_val c"
  by (simp add: dec_val_def)

lemma nat_digits_val: "list_all is_digit (nat_digits n) \<and> nat_digits n \<noteq> [] \<and> dec_val (nat_digits n) = int n"
proof (induction n rule: nat_digits.induct)
  case (1 n)
  show ?case
  proof (cases "n < 10")
    case True
    then show ?thesis using digit_char[of n] by (simp add: nat_digits_small dec_val_def)
  next
    case False
    have "n mod 10 < 10" by simp
    from digit_char[OF this] 1[OF False] show ?thesis
      unfolding nat_digits_big[OF False] dec_val_snoc by (simp add: list_all_append) presburger
  qed
qed

lemma Atoi_Itoa:
  assumes "is_int64 n" and "0 \<le> n"
  shows "Atoi (Itoa n) = Some n"
proof -
  have d: "list_all is_digit (nat_digits (nat n))" "nat_digits (nat n) \<noteq> []" "dec_val (nat_digits (nat n)) = n"
    using nat_digits_val[of "nat n"] assms(2) by simp_all
  then obtain c cs where c: "nat_digits (nat n) = c # cs" "is_digit c" by (cases "nat_digits (nat n)") auto
  then have "c \<noteq> CHR ''-''" "c \<noteq> CHR ''+''" by (auto simp: is_digit_def less_eq_char_def)
  with assms d c show ?thesis by (simp add: Atoi_def Itoa_def Let_def)
qed

section \<open>Following the next links\<close>

lemma paging_bounds: "1 \<le> fst (paging q) \<and> fst (paging q) \<le> 999 \<and> 0 \<le> snd (paging q)"
  by (simp add: paging_def Let_def split: option.splits)

lemma parseOData_fields:
  assumes "parseOData q = Inr o'"
  shows "oq_Top o' = fst (paging q)" "oq_Skip o' = snd (paging q)"
  using assms by (auto simp: parseOData_def Let_def split: prod.splits if_splits sum.splits)

lemma i64_small: "0 \<le> a \<Longrightarrow> a \<le> 2 ^ 62 \<Longrightarrow> 0 \<le> b \<Longrightarrow> b \<le> 999 \<Longrightarrow> i64_add a b = a + b"
  by (rule i64_add_id) (simp add: is_int64_def)

text \<open>The entities a query matches, and the page \<^verbatim>\<open>writeCollection\<close> cuts out of them.\<close>

definition matching :: "odataQuery \<Rightarrow> shape list \<Rightarrow> shape list" where
  "matching q shapes = (case oq_Filter q of None \<Rightarrow> shapes | Some c \<Rightarrow> filter (clause_holds c) shapes)"

lemma matching_length: "length (matching q shapes) \<le> length shapes"
  by (simp add: matching_def split: option.splits)

lemma writeCollection_page:
  assumes "1 \<le> oq_Top q" "oq_Top q \<le> 999" "0 \<le> oq_Skip q" and "int (length shapes) \<le> 2 ^ 62"
  defines "m \<equiv> matching q shapes" and "k \<equiv> nat (oq_Skip q)" and "t \<equiv> nat (oq_Top q)"
  shows "co_value (writeCollection project q shapes) = map (\<lambda>s. applySelect (project s) (oq_Select q)) (take t (drop k m))"
    and "co_next (writeCollection project q shapes) = (if k + t < length m then Some (int (k + t)) else None)"
proof -
  have n: "int (length m) \<le> 2 ^ 62" using matching_length[of q shapes] assms(4) by (simp add: m_def)
  have sum: "i64_add x (oq_Top q) = x + oq_Top q" if "0 \<le> x" "x \<le> int (length m)" for x
    using that n assms(1,2) by (intro i64_small) auto
  have kt: "oq_Skip q = int k" "oq_Top q = int t" using assms(1,3) by (simp_all add: k_def t_def)
  show "co_value (writeCollection project q shapes) = map (\<lambda>s. applySelect (project s) (oq_Select q)) (take t (drop k m))"
    unfolding writeCollection_def Let_def matching_def[symmetric] m_def[symmetric]
    using sum[of "oq_Skip q"] sum[of "int (length m)"] kt by (auto simp: nat_diff_distrib nat_add_distrib split: if_splits)
  show "co_next (writeCollection project q shapes) = (if k + t < length m then Some (int (k + t)) else None)"
    unfolding writeCollection_def Let_def matching_def[symmetric] m_def[symmetric]
    using sum[of "oq_Skip q"] sum[of "int (length m)"] kt by (auto split: if_splits)
qed

text \<open>
  A client that reads a collection to its end: it repeats the request with the \<^verbatim>\<open>$skiptoken\<close> of the next
  link (\<^verbatim>\<open>nextLink\<close> sets that one query parameter) until a response has none. The loop ends because every
  link points further into the list; a collection too long for 64-bit positions is left out.
\<close>

function follow :: "(shape \<Rightarrow> shape) \<Rightarrow> shape list \<Rightarrow> query \<Rightarrow> string + shape list" where
  "follow project shapes q =
     (if int (length shapes) > 2 ^ 62 then Inl ''too many entities''
      else case parseOData q of
        Inl e \<Rightarrow> Inl e
      | Inr o' \<Rightarrow>
        (let c = writeCollection project o' shapes in
         case co_next c of
           None \<Rightarrow> Inr (co_value c)
         | Some n \<Rightarrow>
           (case follow project shapes (q(''$skiptoken'' := Itoa n)) of
              Inl e \<Rightarrow> Inl e
            | Inr rest \<Rightarrow> Inr (co_value c @ rest))))"
  by pat_completeness auto

lemma paging_skiptoken:
  assumes "0 < n" and "is_int64 n"
  shows "paging (q(''$skiptoken'' := Itoa n)) = (fst (paging q), n)"
  using Atoi_Itoa[of n] assms by (simp add: paging_def Let_def)

lemma next_link:
  assumes "int (length shapes) \<le> 2 ^ 62" and "parseOData q = Inr o'" and "co_next (writeCollection project o' shapes) = Some n"
  shows "n = int (nat (snd (paging q)) + nat (fst (paging q)))" "n < int (length shapes)" "0 < n" "is_int64 n"
proof -
  have t: "1 \<le> oq_Top o'" "oq_Top o' \<le> 999" "0 \<le> oq_Skip o'" using parseOData_fields[OF assms(2)] paging_bounds[of q] by simp_all
  from writeCollection_page(2)[OF t assms(1), of project] assms(3) matching_length[of o' shapes]
  have "n = int (nat (oq_Skip o') + nat (oq_Top o'))" "nat (oq_Skip o') + nat (oq_Top o') < length shapes"
    by (auto split: if_splits)
  then show "n = int (nat (snd (paging q)) + nat (fst (paging q)))" "n < int (length shapes)" "0 < n" "is_int64 n"
    using t assms(1) parseOData_fields[OF assms(2)] by (simp_all add: is_int64_def)
qed

termination follow
proof (relation "measure (\<lambda>(project, shapes, q). nat (int (length shapes) - snd (paging q)))", simp)
  fix project :: "shape \<Rightarrow> shape" and shapes q o' c n
  assume a: "\<not> 2 ^ 62 < int (length shapes)" "parseOData q = Inr o'" "c = writeCollection project o' shapes" "co_next c = Some n"
  then have le: "int (length shapes) \<le> 2 ^ 62" by simp
  note nx = next_link[OF le a(2) a(4)[unfolded a(3)]]
  show "((project, shapes, q(''$skiptoken'' := Itoa n)), (project, shapes, q))
      \<in> measure (\<lambda>(project, shapes, q). nat (int (length shapes) - snd (paging q)))"
    using nx(1,2) paging_skiptoken[OF nx(3,4)] paging_bounds[of q] by simp
qed

declare follow.simps [simp del]

lemma parseOData_skiptoken:
  assumes "parseOData q = Inr o'" and "0 < n" "is_int64 n"
  shows "parseOData (q(''$skiptoken'' := Itoa n)) = Inr (o'\<lparr>oq_Skip := n\<rparr>)"
  using assms(1) paging_skiptoken[OF assms(2,3)]
  by (auto simp: parseOData_def Let_def split: prod.splits if_splits sum.splits)

lemma follow_from:
  assumes "parseOData q = Inr o'" and "int (length shapes) \<le> 2 ^ 62"
  shows "follow project shapes q
    = Inr (map (\<lambda>s. applySelect (project s) (oq_Select o')) (drop (nat (oq_Skip o')) (matching o' shapes)))"
  using assms
proof (induction project shapes q arbitrary: o' rule: follow.induct)
  case (1 project shapes q)
  have t: "1 \<le> oq_Top o'" "oq_Top o' \<le> 999" "0 \<le> oq_Skip o'" using parseOData_fields[OF 1(2)] paging_bounds[of q] by simp_all
  let ?k = "nat (oq_Skip o')" and ?t = "nat (oq_Top o')" and ?m = "matching o' shapes"
  let ?f = "\<lambda>s. applySelect (project s) (oq_Select o')" and ?c = "writeCollection project o' shapes"
  note page = writeCollection_page[OF t 1(3), of project]
  show ?case
  proof (cases "co_next ?c")
    case None
    then have "length ?m \<le> ?k + ?t" using page(2) by (simp split: if_splits)
    then have "take ?t (drop ?k ?m) = drop ?k ?m" by simp
    with None 1 page(1) show ?thesis by (subst follow.simps) simp
  next
    case (Some n)
    note nx = next_link[OF 1(3,2) Some]
    let ?o = "o'\<lparr>oq_Skip := n\<rparr>"
    have "follow project shapes (q(''$skiptoken'' := Itoa n)) = Inr (map ?f (drop (nat n) ?m))"
      using 1(1)[OF _ 1(2) refl Some parseOData_skiptoken[OF 1(2) nx(3,4)] 1(3)] 1(3) by (simp add: matching_def fun_upd_def)
    moreover have "nat n = ?k + ?t" using nx(1) parseOData_fields[OF 1(2)] by (simp only: nat_int)
    moreover have "take ?t (drop ?k ?m) @ drop (?k + ?t) ?m = drop ?k ?m" by (metis add.commute append_take_drop_id drop_drop)
    ultimately show ?thesis
      using Some 1(2,3) page(1) by (subst follow.simps) (simp flip: map_append)
  qed
qed

section \<open>Properties\<close>

text \<open>
  C35. Paging loses and repeats nothing: whatever filter, selection and page size a valid query has, a
  client that starts at the beginning and follows the next links until there are none stops, and has
  then received exactly the matching entities, in order, each projected and narrowed to its selection.
\<close>

theorem paging_complete:
  assumes "parseOData q = Inr o'" and "q ''$skiptoken'' = []" and "int (length shapes) \<le> 2 ^ 62"
  shows "follow project shapes q
    = Inr (map (\<lambda>s. applySelect (project s) (oq_Select o'))
             (case oq_Filter o' of None \<Rightarrow> shapes | Some c \<Rightarrow> filter (clause_holds c) shapes))"
proof -
  have "Atoi [] = None" by (simp add: Atoi_def)
  then have "oq_Skip o' = 0" using parseOData_fields(2)[OF assms(1)] assms(2) by (simp add: paging_def Let_def)
  with follow_from[OF assms(1,3)] show ?thesis by (simp add: matching_def)
qed

definition list_query :: query where
  "list_query = (\<lambda>_. [])(''$top'' := ''1'', ''$select'' := ''ID'')"

theorem paging_complete_witness:
  "follow (\<lambda>s. s) [[(''id'', JStr ''a''), (''x'', JNull)], [(''id'', JStr ''b'')]] list_query
     = Inr [[(''id'', JStr ''a'')], [(''id'', JStr ''b'')]]"
proof -
  have q: "list_query ''$skiptoken'' = []" "TrimSpace (list_query ''$filter'') = []" "splitCSV (list_query ''$select'') = [''ID'']"
    "list_query ''$select'' \<noteq> []"
    by (simp_all add: list_query_def TrimSpace_def splitCSV_def is_space_def)
  obtain o' where o': "parseOData list_query = Inr o'" "oq_Select o' = [''ID'']" "oq_Filter o' = None"
    using q by (simp add: parseOData_def Let_def case_prod_beta)
  have "ToLower ''ID'' = ''id''" "ToLower ''id'' = ''id''" "ToLower ''x'' = ''x''" by code_simp+
  then show ?thesis
    using paging_complete[OF o'(1) q(1), of "[[(''id'', JStr ''a''), (''x'', JNull)], [(''id'', JStr ''b'')]]" "\<lambda>s. s"] o'(2,3)
    by (simp add: applySelect_def canonical_def)
qed

lemma re_facts [simp]:
  "re_space (CHR '' '')" "\<not> re_word (CHR '' '')" "\<not> re_word (CHR ''('')" "\<not> re_space squote" "\<not> re_word squote"
  "\<not> re_space (CHR '','')" "\<not> re_word (CHR '','')" "\<not> re_space (CHR '')'')" "\<not> re_space (CHR ''e'')" "\<not> re_space (CHR ''n'')"
  "\<not> is_space squote" "\<not> re_word (CHR '')'')"
  by (simp_all add: re_space_def re_word_def squote_def is_space_def less_eq_char_def)

lemma quoted_squote: "quoted v = squote # v @ [squote]"
  by (simp add: quoted_def squote_def)

lemma squote_not_newline [simp]: "squote \<noteq> CHR 0x0A" "CHR 0x0A \<noteq> squote"
  by (simp_all add: squote_def)

lemma word_cut:
  assumes "list_all re_word w" and "\<not> re_word c"
  shows "takeWhile re_word (w @ c # r) = w" and "dropWhile re_word (w @ c # r) = c # r"
  using assms by (simp_all add: takeWhile_append dropWhile_append list_all_iff)

lemma space_char:
  assumes "re_space c"
  shows "\<not> re_word c" "c \<noteq> CHR ''(''" "c \<noteq> CHR '',''" "c \<noteq> squote" "is_space c"
  using assms by (auto simp: re_word_def re_space_def squote_def is_space_def less_eq_char_def)

lemma word_char:
  assumes "re_word c"
  shows "\<not> re_space c"
  using assms space_char by blast

lemma word_no_func:
  assumes "list_all re_word w" and "re_space c"
  shows "match_func (w @ c # r) = None"
proof -
  have no: "\<not> HasPrefix (w @ c # r) (f @ ''('')" if "list_all re_word f" for f
  proof
    assume "HasPrefix (w @ c # r) (f @ ''('')"
    then obtain t where t: "w @ c # r = f @ CHR ''('' # t" by (auto simp: HasPrefix_iff)
    from word_cut[OF assms(1) space_char(1)[OF assms(2)], of r] word_cut[OF that, of "CHR ''(''" t] t space_char(2)[OF assms(2)]
    show False by simp
  qed
  have "list_all re_word ''startswith''" "list_all re_word ''endswith''" by (simp_all add: re_word_def less_eq_char_def)
  from no[OF this(1)] no[OF this(2)] show ?thesis by (simp add: match_func_def)
qed

lemma space_cut:
  assumes "list_all re_space sp" and "\<not> re_space c"
  shows "takeWhile re_space (sp @ c # r) = sp" and "dropWhile re_space (sp @ c # r) = c # r"
  using assms by (simp_all add: takeWhile_append dropWhile_append list_all_iff)

lemma quoted_literal: "literalValue (TrimSpace (quoted v)) = Some (JStr v, True)"
proof -
  have "TrimSpace (quoted v) = quoted v" by (simp add: TrimSpace_def quoted_squote)
  then show ?thesis by (simp add: literalValue_def quoted_squote)
qed

text \<open>
  The literals of the documented syntax (\<^verbatim>\<open>docs/09-graph-api.md\<close>, the comment of \<^verbatim>\<open>literalValue\<close>) and how they are
  spelled: a text between quotes, the truth values and \<^verbatim>\<open>null\<close> in any mixture of upper and lower case.
\<close>

datatype filter_literal = LString string | LBool bool | LNull

fun spells :: "filter_literal \<Rightarrow> string \<Rightarrow> bool" where
  "spells (LString v) t \<longleftrightarrow> t = quoted v \<and> CHR 0x0A \<notin> set v"
| "spells (LBool b) t \<longleftrightarrow> map lower_char t = (if b then ''true'' else ''false'')"
| "spells LNull t \<longleftrightarrow> map lower_char t = ''null''"

text \<open>When the property of an entity has the value of a literal: a missing or null property counts as the empty text.\<close>

fun has_value :: "shape \<Rightarrow> string \<Rightarrow> filter_literal \<Rightarrow> bool" where
  "has_value sh field (LString v) \<longleftrightarrow> fieldString sh field = v"
| "has_value sh field (LBool b) \<longleftrightarrow> lookupField sh field = Some (JBool b)"
| "has_value sh field LNull \<longleftrightarrow> lookupField sh field = None \<or> lookupField sh field = Some JNull"

fun literal_want :: "filter_literal \<Rightarrow> json \<times> bool" where
  "literal_want (LString v) = (JStr v, True)"
| "literal_want (LBool b) = (JBool b, False)"
| "literal_want LNull = (JNull, False)"

definition letter :: "char \<Rightarrow> bool" where
  "letter c \<longleftrightarrow> CHR ''a'' \<le> c \<and> c \<le> CHR ''z''"

lemma letter_facts:
  assumes "letter (lower_char c)"
  shows "c \<noteq> CHR 0xE2" "c \<noteq> CHR 0xC4" "\<not> is_space c" "\<not> re_space c" "c \<noteq> squote" "c \<noteq> CHR 0x0A"
proof -
  have "\<not> letter (lower_char d)" if "d \<in> {CHR 0xE2, CHR 0xC4, CHR '' '', CHR 0x09, CHR 0x0A, CHR 0x0B, CHR 0x0C, CHR 0x0D, squote}" for d
    using that by (elim insertE emptyE) (simp_all add: letter_def lower_char_def squote_def less_eq_char_def)
  with assms show "c \<noteq> CHR 0xE2" "c \<noteq> CHR 0xC4" "\<not> is_space c" "\<not> re_space c" "c \<noteq> squote" "c \<noteq> CHR 0x0A"
    unfolding is_space_def re_space_def by blast+
qed

lemma ToLower_letters: "list_all letter (map lower_char t) \<Longrightarrow> ToLower t = map lower_char t"
  by (induction t rule: ToLower.induct) (simp_all add: letter_facts)

lemma TrimSpace_none: "t \<noteq> [] \<Longrightarrow> \<not> is_space (hd t) \<Longrightarrow> \<not> is_space (last t) \<Longrightarrow> TrimSpace t = t"
proof -
  assume a: "t \<noteq> []" "\<not> is_space (hd t)" "\<not> is_space (last t)"
  have d: "dropWhile is_space u = u" if "u \<noteq> []" "\<not> is_space (hd u)" for u using that by (cases u) auto
  have "dropWhile is_space (rev t) = rev t" using a by (intro d) (simp_all add: hd_rev)
  with d[OF a(1,2)] show ?thesis by (simp add: TrimSpace_def)
qed

lemma bare_literal:
  assumes "map lower_char t = w" and "list_all letter w" and "w \<noteq> []"
  shows "TrimSpace t = t" "ToLower t = w" "t \<noteq> []" "\<not> re_space (hd t)" "CHR 0x0A \<notin> set t" "hd t \<noteq> squote"
proof -
  have t: "t \<noteq> []" using assms(1,3) by auto
  have l: "letter (lower_char c)" if "c \<in> set t" for c using assms(1,2) that by (auto simp: list_all_iff)
  show "t \<noteq> []" by (rule t)
  show "ToLower t = w" using ToLower_letters[of t] assms(1,2) by simp
  show "TrimSpace t = t" using letter_facts(3)[OF l] t by (intro TrimSpace_none) auto
  show "\<not> re_space (hd t)" "hd t \<noteq> squote" using letter_facts(4,5)[OF l[OF hd_in_set[OF t]]] by auto
  show "CHR 0x0A \<notin> set t" using letter_facts(6) l by blast
qed

lemma spelled_literal:
  assumes "spells lit t"
  shows "literalValue (TrimSpace t) = Some (literal_want lit)" "t \<noteq> []" "\<not> re_space (hd t)" "CHR 0x0A \<notin> set t"
proof -
  have words: "list_all letter ''true''" "list_all letter ''false''" "list_all letter ''null''" by (simp_all add: letter_def less_eq_char_def)
  have "literalValue (TrimSpace t) = Some (literal_want lit) \<and> t \<noteq> [] \<and> \<not> re_space (hd t) \<and> CHR 0x0A \<notin> set t"
  proof (cases lit)
    case (LString v)
    with assms quoted_literal show ?thesis by (auto simp: quoted_squote)
  next
    case (LBool b)
    then have "map lower_char t = (if b then ''true'' else ''false'')" using assms by simp
    from bare_literal[OF this] words show ?thesis unfolding LBool by (cases b) (simp_all add: literalValue_def)
  next
    case LNull
    then have "map lower_char t = ''null''" using assms by simp
    from bare_literal[OF this words(3)] show ?thesis unfolding LNull by (simp add: literalValue_def)
  qed
  then show "literalValue (TrimSpace t) = Some (literal_want lit)" "t \<noteq> []" "\<not> re_space (hd t)" "CHR 0x0A \<notin> set t" by simp_all
qed

lemma compare_meaning:
  assumes "opr \<in> {''eq'', ''ne''}"
  shows "clause_holds (CmpClause field opr (fst (literal_want lit)) (snd (literal_want lit))) sh \<longleftrightarrow> (has_value sh field lit \<longleftrightarrow> opr = ''eq'')"
  using assms by (cases lit) (auto simp: valueEquals_def fieldString_def Let_def split: option.splits json.splits)

lemma compare_parses:
  assumes "field \<noteq> []" and "list_all re_word field" and "opr \<in> {''eq'', ''ne''}" and "spells lit t"
    and "list_all re_space sp" and "sp \<noteq> []" and "list_all re_space sp2" and "sp2 \<noteq> []"
  shows "parseFilter (field @ sp @ opr @ sp2 @ t) = Inr (CmpClause field opr (fst (literal_want lit)) (snd (literal_want lit)))"
proof -
  obtain x xs where sp: "sp = x # xs" "re_space x" using assms(5,6) by (cases sp) auto
  obtain y ys where sp2: "sp2 = y # ys" using assms(8) by (cases sp2) auto
  obtain c cs where t: "t = c # cs" "\<not> re_space c" using spelled_literal(2,3)[OF assms(4)] by (cases t) auto
  obtain o1 os where o1: "opr = o1 # os" "\<not> re_space o1" using assms(3) re_facts(9,10) by blast
  have f: "takeWhile re_word (field @ sp @ r) = field" "dropWhile re_word (field @ sp @ r) = sp @ r" for r
    using word_cut[OF assms(2) space_char(1)[OF sp(2)]] by (simp_all add: sp(1))
  have s1: "takeWhile re_space (sp @ opr @ r) = sp" "dropWhile re_space (sp @ opr @ r) = opr @ r" for r
    using space_cut[OF assms(5) o1(2)] by (simp_all add: o1(1))
  have s2: "takeWhile re_space (sp2 @ t) = sp2" "dropWhile re_space (sp2 @ t) = t"
    using space_cut[OF assms(7) t(2)] by (simp_all add: t(1))
  have o2: "take 2 (opr @ r) = opr" "drop 2 (opr @ r) = r" for r using assms(3) by auto
  have "match_cmp (field @ sp @ opr @ sp2 @ t) = Some (field, opr, t)"
    unfolding match_cmp_def Let_def f s1 o2 s2
    using assms(1,3,6,8) spelled_literal(2,4)[OF assms(4)] by simp
  moreover have "match_func (field @ sp @ opr @ sp2 @ t) = None" using word_no_func[OF assms(2) sp(2)] by (simp add: sp(1))
  ultimately show ?thesis using spelled_literal(1)[OF assms(4)] by (simp add: parseFilter_def split: prod.splits)
qed

lemma function_parses:
  assumes "field \<noteq> []" and "list_all re_word field" and "fn \<in> {''startswith'', ''endswith''}" and "squote \<notin> set w"
    and "list_all re_space sp" and "list_all re_space sp2" and "list_all re_space sp3" and "list_all re_space sp4"
  shows "parseFilter (fn @ ''('' @ sp @ field @ sp2 @ '','' @ sp3 @ quoted w @ sp4 @ '')'') = Inr (FuncClause fn field w)"
proof -
  obtain c cs where f: "field = c # cs" "\<not> re_space c" using assms(1,2) word_char by (cases field) auto
  have a: "dropWhile re_space (sp @ field @ r) = field @ r" for r using space_cut(2)[OF assms(5) f(2)] by (simp add: f(1))
  have b: "takeWhile re_word (field @ sp2 @ CHR '','' # r) = field" "dropWhile re_word (field @ sp2 @ CHR '','' # r) = sp2 @ CHR '','' # r" for r
  proof -
    obtain d ds where "sp2 @ CHR '','' # r = d # ds" "\<not> re_word d"
      using assms(6) space_char(1) by (cases sp2) auto
    with word_cut[OF assms(2), of d ds] show "takeWhile re_word (field @ sp2 @ CHR '','' # r) = field"
      "dropWhile re_word (field @ sp2 @ CHR '','' # r) = sp2 @ CHR '','' # r" by simp_all
  qed
  have d: "dropWhile re_space (sp2 @ CHR '','' # r) = CHR '','' # r" for r using space_cut(2)[OF assms(6)] by simp
  have e: "dropWhile re_space (sp3 @ squote # r) = squote # r" for r using space_cut(2)[OF assms(7)] by simp
  have g: "takeWhile (\<lambda>x. x \<noteq> squote) (w @ squote # r) = w" "dropWhile (\<lambda>x. x \<noteq> squote) (w @ squote # r) = squote # r" for r
    using assms(4) by (induction w) auto
  have h: "dropWhile re_space (sp4 @ '')'') = '')''" using space_cut(2)[OF assms(8), of "CHR '')''" "[]"] by simp
  have "match_func (fn @ ''('' @ sp @ field @ sp2 @ '','' @ sp3 @ quoted w @ sp4 @ '')'') = Some (fn, field, w)"
    using assms(3)
  proof (elim insertE emptyE)
    assume fn: "fn = ''startswith''"
    show ?thesis unfolding match_func_def fn Let_def using assms(1) a b d e g h by (simp add: HasPrefix_def quoted_squote)
  next
    assume fn: "fn = ''endswith''"
    show ?thesis unfolding match_func_def fn Let_def using assms(1) a b d e g h by (simp add: HasPrefix_def quoted_squote)
  qed
  then show ?thesis by (simp add: parseFilter_def)
qed

text \<open>
  C36. Filters mean what they say, for the whole documented syntax of a clause: a comparison \<^verbatim>\<open>eq\<close> or \<^verbatim>\<open>ne\<close> of a property
  with a quoted text, \<^verbatim>\<open>true\<close>, \<^verbatim>\<open>false\<close> or \<^verbatim>\<open>null\<close> (in any case) keeps exactly the entities whose property has, or has
  not, that value, and \<^verbatim>\<open>startswith\<close> and \<^verbatim>\<open>endswith\<close> exactly those whose printed property begins or ends with the text;
  with any white space where the syntax allows it, for every property name. The texts are those without line feed, and
  in the functions without quote; a quote inside a comparison text is taken as it stands, for the doubled quote by which
  OData escapes it is not undone. A missing or null property counts as the empty text, and only it equals \<^verbatim>\<open>null\<close>.
\<close>

theorem filter_roundtrip:
  assumes "field \<noteq> []" and "list_all re_word field" and "opr \<in> {''eq'', ''ne''}" and "fn \<in> {''startswith'', ''endswith''}"
    and "spells lit t" and "squote \<notin> set w" and "sp \<noteq> []" and "sp2 \<noteq> []"
    and "list_all re_space (sp @ sp2 @ sp3 @ sp4 @ sp5 @ sp6)"
  shows "\<exists>c d. parseFilter (field @ sp @ opr @ sp2 @ t) = Inr c
    \<and> (\<forall>sh. clause_holds c sh \<longleftrightarrow> (if opr = ''eq'' then has_value sh field lit else \<not> has_value sh field lit))
    \<and> parseFilter (fn @ ''('' @ sp3 @ field @ sp4 @ '','' @ sp5 @ quoted w @ sp6 @ '')'') = Inr d
    \<and> (\<forall>sh. clause_holds d sh \<longleftrightarrow>
         (if fn = ''startswith'' then \<exists>rest. fieldString sh field = w @ rest else \<exists>rest. fieldString sh field = rest @ w))"
proof -
  from assms(9) have sp: "list_all re_space sp" "list_all re_space sp2" "list_all re_space sp3" "list_all re_space sp4"
    "list_all re_space sp5" "list_all re_space sp6" by simp_all
  note c = compare_parses[OF assms(1-3,5) sp(1) assms(7) sp(2) assms(8)]
  note d = function_parses[OF assms(1,2,4,6) sp(3-6)]
  have "clause_holds (FuncClause fn field w) sh \<longleftrightarrow>
      (if fn = ''startswith'' then \<exists>rest. fieldString sh field = w @ rest else \<exists>rest. fieldString sh field = rest @ w)" for sh
    by (auto simp: HasPrefix_iff HasSuffix_iff)
  with c d compare_meaning[OF assms(3)] show ?thesis
    by (intro exI[of _ "CmpClause field opr (fst (literal_want lit)) (snd (literal_want lit))"] exI[of _ "FuncClause fn field w"]) auto
qed

theorem filter_roundtrip_witness:
  "\<exists>c. parseFilter (''accountEnabled'' @ '' '' @ ''eq'' @ '' '' @ ''True'') = Inr c
     \<and> clause_holds c [(''accountEnabled'', JBool True)] \<and> \<not> clause_holds c [(''accountEnabled'', JBool False)]"
proof -
  have "list_all re_word ''accountEnabled''" by (simp add: re_word_def less_eq_char_def)
  moreover have "spells (LBool True) ''True''" by code_simp
  moreover have "squote \<notin> set ''A''" "list_all re_space ('' '' @ '' '' @ [] @ [] @ [] @ [])" by (simp_all add: re_space_def squote_def)
  ultimately obtain c where c: "parseFilter (''accountEnabled'' @ '' '' @ ''eq'' @ '' '' @ ''True'') = Inr c"
    "\<forall>sh. clause_holds c sh \<longleftrightarrow> (if ''eq'' = ''eq'' then has_value sh ''accountEnabled'' (LBool True) else \<not> has_value sh ''accountEnabled'' (LBool True))"
    using filter_roundtrip[of "''accountEnabled''" "''eq''" "''startswith''" "LBool True" "''True''" "''A''" "'' ''" "'' ''" "[]" "[]" "[]" "[]"]
    by blast
  have "lookupField [(''accountEnabled'', JBool b)] ''accountEnabled'' = Some (JBool b)" for b by (simp add: lookupField_def)
  with c show ?thesis by simp
qed

end
