(* ===== verification/GraphCore.thy ===== *)
theory GraphCore
  imports OData TokenService RecycleBin Runtime
begin

text \<open>
  The frame of the Microsoft Graph surface (\<^verbatim>\<open>internal/graph\<close>): the handler context, the bearer gate of
  \<^verbatim>\<open>graph.go\<close> with the permission tables of \<^verbatim>\<open>permissions.go\<close>, request bodies, error mapping and the
  directory audit record of a change. A handler takes the request, the validated token and the graph
  state and returns what it writes and the new state.
\<close>

section \<open>State, requests and responses\<close>

text \<open>What a call reads besides the request: cryptography, configuration, the host \<^verbatim>\<open>net/url\<close>
  finds in the login origin (empty when there is none), the clock of the store and of the machine, fresh identifiers, an opaque token, the scrypt hash of a secret (\<open>None\<close> when the random
  source failed) and the random bytes of an audit record.\<close>

record GraphEnv =
  ge_env :: Env
  ge_cfg :: Config
  ge_loginHost :: string
  ge_now :: int
  ge_wall :: int
  ge_guid :: string
  ge_guid2 :: string
  ge_opaque :: string
  ge_hash :: "string \<Rightarrow> string option"
  ge_rid :: "string option"

record Graph =
  gr_Store :: Store
  gr_Audit :: "Event Recorder"
  gr_DirAudit :: "DirectoryEvent Recorder option"

text \<open>\<open>gq_Body\<close> is the first JSON value of the body, \<open>None\<close> when the body does not start with one;
  \<open>gq_Form\<close> is \<^verbatim>\<open>PostFormValue\<close>.\<close>

record GraphRequest =
  gq_Method :: string
  gq_Path :: string
  gq_Query :: query
  gq_PathValue :: "string \<Rightarrow> string"
  gq_Authorization :: string
  gq_ContentType :: string
  gq_Form :: "string \<Rightarrow> string"
  gq_ContentLength :: int
  gq_Body :: "json option"

text \<open>A response: the Graph error envelope (\<^verbatim>\<open>WriteGraphError\<close>, without its correlation ids), the error pair
  of the userinfo endpoint, a JSON entity, a page of a collection with its context, an empty response,
  or a redirect.\<close>

datatype reply =
    GraphError int string string
  | OAuthJSON int string string
  | Entity int shape
  | Page string collection
  | Empty int
  | Redirect string

type_synonym handler = "GraphRequest \<Rightarrow> ValidatedToken \<Rightarrow> Graph \<Rightarrow> reply \<times> Graph"

definition GraphResourceNotFound :: "string \<Rightarrow> string" where
  "GraphResourceNotFound i = ''Resource '' @ quoted i @ '' does not exist or one of its queried reference-property objects are not present.''"

definition refused :: "reply \<Rightarrow> bool" where
  "refused rep \<longleftrightarrow> (\<exists>n c m. rep = GraphError n c m \<or> rep = OAuthJSON n c m)"

section \<open>Permissions\<close>

record perms =
  pm_delegated :: "string list"
  pm_app :: "string list"

definition both :: "string list \<Rightarrow> perms" where
  "both ps = \<lparr>pm_delegated = ps, pm_app = ps\<rparr>"

definition dirRead :: "string list" where
  "dirRead = [''Directory.Read.All'', ''Directory.ReadWrite.All'']"

definition userRead :: perms where
  "userRead = \<lparr>pm_delegated = [''User.ReadBasic.All'', ''User.Read.All'', ''User.ReadWrite.All''] @ dirRead,
     pm_app = [''User.Read.All'', ''User.ReadWrite.All''] @ dirRead\<rparr>"

definition userWrite :: perms where
  "userWrite = both [''User.ReadWrite.All'', ''Directory.ReadWrite.All'']"

definition groupRead :: perms where
  "groupRead = both ([''Group.Read.All'', ''Group.ReadWrite.All''] @ dirRead)"

definition groupWrite :: perms where
  "groupWrite = both [''Group.ReadWrite.All'', ''Directory.ReadWrite.All'']"

definition appRead :: perms where
  "appRead = both ([''Application.Read.All'', ''Application.ReadWrite.All''] @ dirRead)"

definition appWrite :: perms where
  "appWrite = both [''Application.ReadWrite.All'', ''Directory.ReadWrite.All'']"

definition roleRead :: perms where
  "roleRead = both ([''RoleManagement.Read.Directory'', ''RoleManagement.ReadWrite.Directory''] @ dirRead)"

definition roleWrite :: perms where
  "roleWrite = both [''RoleManagement.ReadWrite.Directory'', ''Directory.ReadWrite.All'']"

definition meRead :: perms where
  "meRead = \<lparr>pm_delegated = [''User.Read'', ''User.ReadWrite'', ''User.ReadBasic.All'', ''User.Read.All'', ''User.ReadWrite.All''] @ dirRead,
     pm_app = []\<rparr>"

definition graphRequirement :: "string \<Rightarrow> string \<Rightarrow> perms" where
  "graphRequirement meth res =
     (let i = IndexByte res (CHR ''/''); head = (if i \<ge> 0 then slice_to res i else res);
          write = (meth \<noteq> ''GET'' \<and> meth \<noteq> ''HEAD'') in
      if head = ''me'' then meRead
      else if head = ''users'' then (if write then userWrite else userRead)
      else if head = ''groups'' then (if write then groupWrite else groupRead)
      else if head = ''applications'' \<or> head = ''servicePrincipals'' then (if write then appWrite else appRead)
      else if head = ''invitations'' then both [''User.Invite.All'', ''User.ReadWrite.All'', ''Directory.ReadWrite.All'']
      else if head = ''roleManagement'' then (if write then roleWrite else roleRead)
      else if head = ''directory'' then (if write then both [''Directory.ReadWrite.All''] else both dirRead)
      else if head = ''oauth2PermissionGrants'' then
        (if write then both [''DelegatedPermissionGrant.ReadWrite.All'', ''Directory.ReadWrite.All'']
         else both (''DelegatedPermissionGrant.ReadWrite.All'' # dirRead))
      else \<lparr>pm_delegated = [], pm_app = []\<rparr>)"

text \<open>\<^verbatim>\<open>strings.Index\<close> cuts at the first occurrence of \<^verbatim>\<open>/v1.0/\<close>.\<close>

fun resourcePath :: "string \<Rightarrow> string option" where
  "resourcePath [] = None"
| "resourcePath (c # cs) = (if HasPrefix (c # cs) ''/v1.0/'' then Some (drop 6 (c # cs)) else resourcePath cs)"

definition tokenRoles :: "ValidatedToken \<Rightarrow> string list" where
  "tokenRoles tok = (case vt_Claims tok ''roles'' of Some (CStrs rs) \<Rightarrow> rs | _ \<Rightarrow> [])"

definition hasAny :: "string list \<Rightarrow> string list \<Rightarrow> bool" where
  "hasAny have want \<longleftrightarrow> list_ex (\<lambda>w. list_ex (\<lambda>h. h = w) have) want"

definition permissionDenied :: "Config \<Rightarrow> GraphRequest \<Rightarrow> ValidatedToken \<Rightarrow> string" where
  "permissionDenied cfg r tok =
     (if \<not> cf_GraphPermissions cfg then []
      else case resourcePath (gq_Path r) of
        None \<Rightarrow> []
      | Some res \<Rightarrow>
        (let req = graphRequirement (gq_Method r) res in
         if vt_OID tok \<noteq> [] then
           (if pm_delegated req = [] \<or> hasAny (vt_Scopes tok) (pm_delegated req) then []
            else ''Insufficient privileges to complete the operation. The delegated token needs one of: '' @
                 Join (pm_delegated req) '', '' @ ''.'')
         else if pm_app req = [] \<or> hasAny (tokenRoles tok) (pm_app req) then []
         else ''Insufficient privileges to complete the operation. The app-only token needs one of: '' @
              Join (pm_app req) '', '' @ ''.''))"

section \<open>The gates\<close>

definition validateBearer :: "GraphEnv \<Rightarrow> string \<Rightarrow> Graph \<Rightarrow> string + ValidatedToken" where
  "validateBearer ge auth g =
     (if auth = [] then Inl ''Access token is empty.''
      else if \<not> HasPrefix auth ''Bearer '' then Inl ''Access token is empty or invalid.''
      else case ValidateAccessToken (ge_env ge) (ge_cfg ge) (ge_now ge) (gr_Store g) (TrimPrefix auth ''Bearer '')
             [cf_GraphResourceID (ge_cfg ge)] of
        Inl e \<Rightarrow> Inl (''Access token validation failure: '' @ err_text e)
      | Inr tok \<Rightarrow> Inr tok)"

definition validate :: "GraphEnv \<Rightarrow> GraphRequest \<Rightarrow> Graph \<Rightarrow> string + ValidatedToken" where
  "validate ge r g = validateBearer ge (gq_Authorization r) g"

definition requireBearer :: "GraphEnv \<Rightarrow> handler \<Rightarrow> GraphRequest \<Rightarrow> Graph \<Rightarrow> reply \<times> Graph" where
  "requireBearer ge nxt r g =
     (case validate ge r g of
        Inl msg \<Rightarrow> (GraphError 401 ''InvalidAuthenticationToken'' msg, g)
      | Inr tok \<Rightarrow>
        (let denied = permissionDenied (ge_cfg ge) r tok in
         if denied \<noteq> [] then (GraphError 403 ''Authorization_RequestDenied'' denied, g) else nxt r tok g))"

definition requireDelegated :: "GraphEnv \<Rightarrow> handler \<Rightarrow> GraphRequest \<Rightarrow> Graph \<Rightarrow> reply \<times> Graph" where
  "requireDelegated ge nxt = requireBearer ge (\<lambda>r tok g.
     if vt_OID tok = [] then (GraphError 403 ''Authorization_RequestDenied'' ''An app-only token cannot access /me.'', g)
     else nxt r tok g)"

definition userInfoBearer :: "GraphRequest \<Rightarrow> (string \<times> string) + string" where
  "userInfoBearer r =
     (let header = gq_Authorization r;
          body = (if gq_Method r = ''POST'' \<and> HasPrefix (gq_ContentType r) ''application/x-www-form-urlencoded''
                  then gq_Form r ''access_token'' else []) in
      if header \<noteq> [] \<and> body \<noteq> [] then
        Inl (''invalid_request'', ''The access token was sent both in the Authorization header and in the request body; use one.'')
      else if body \<noteq> [] then Inr (''Bearer '' @ body) else Inr header)"

definition requireDelegatedUserInfo :: "GraphEnv \<Rightarrow> handler \<Rightarrow> GraphRequest \<Rightarrow> Graph \<Rightarrow> reply \<times> Graph" where
  "requireDelegatedUserInfo ge nxt r g =
     (case userInfoBearer r of
        Inl (code, desc) \<Rightarrow> (OAuthJSON 400 code desc, g)
      | Inr raw \<Rightarrow>
        (case validateBearer ge raw g of
           Inl msg \<Rightarrow> (OAuthJSON 401 ''invalid_token'' msg, g)
         | Inr tok \<Rightarrow>
           if vt_OID tok = [] then (OAuthJSON 403 ''insufficient_scope'' ''UserInfo requires a user (delegated) token.'', g)
           else nxt r tok g))"

section \<open>Contexts, errors and audit records\<close>

definition graph_base :: "Config \<Rightarrow> string" where
  "graph_base cfg = cf_Graph cfg @ (if cf_Graph cfg = cf_Login cfg then ''/graph'' else [])"

definition contextURL :: "GraphEnv \<Rightarrow> string \<Rightarrow> string" where
  "contextURL ge suffix = graph_base (ge_cfg ge) @ ''/v1.0/$metadata#'' @ suffix"

definition entityContext :: "GraphEnv \<Rightarrow> GraphRequest \<Rightarrow> string \<Rightarrow> string" where
  "entityContext ge r coll =
     (let sel = TrimSpace (gq_Query r ''$select'') in
      if sel \<noteq> [] then contextURL ge (coll @ ''('' @ sel @ '')/$entity'') else contextURL ge (coll @ ''/$entity''))"

definition with_context :: "string \<Rightarrow> shape \<Rightarrow> shape" where
  "with_context ctx sh = AList.update ''@odata.context'' (JStr ctx) sh"

definition with_type :: "string \<Rightarrow> shape \<Rightarrow> shape" where
  "with_type t sh = AList.update ''@odata.type'' (JStr t) sh"

definition writeSimpleCollection :: "GraphEnv \<Rightarrow> string \<Rightarrow> shape list \<Rightarrow> reply" where
  "writeSimpleCollection ge suffix shapes = Page (contextURL ge suffix) \<lparr>co_value = shapes, co_count = None, co_next = None\<rparr>"

text \<open>\<^verbatim>\<open>tenantOf\<close>, and the mapping of store errors. The text of an unmapped error is the driver's.\<close>

definition tenantOf :: "Config \<Rightarrow> ValidatedToken \<Rightarrow> string" where
  "tenantOf cfg tok = (let tid = str_claim (vt_Claims tok) ''tid'' in if tid \<noteq> [] then tid else cf_TenantID cfg)"

definition internalError :: reply where
  "internalError = GraphError 500 ''InternalServerError'' ''store error''"

definition writeStoreErrGraph :: "store_err \<Rightarrow> reply" where
  "writeStoreErrGraph e =
     (case e of
        ErrNotFound \<Rightarrow> GraphError 404 ''Request_ResourceNotFound'' ''The resource does not exist.''
      | ErrConflict \<Rightarrow> GraphError 400 ''Request_BadRequest'' ''Another object with the same value for property already exists.''
      | _ \<Rightarrow> internalError)"

definition badRequest :: "string \<Rightarrow> reply" where
  "badRequest msg = GraphError 400 ''Request_BadRequest'' msg"

definition notFound :: "string \<Rightarrow> reply" where
  "notFound msg = GraphError 404 ''Request_ResourceNotFound'' msg"

definition recordChange :: "GraphEnv \<Rightarrow> ValidatedToken \<Rightarrow> string \<Rightarrow> string \<Rightarrow> string \<Rightarrow> string \<Rightarrow> string \<Rightarrow> Graph \<Rightarrow> Graph" where
  "recordChange ge tok activity category targetType targetID targetName g =
     g\<lparr>gr_DirAudit := DirectoryRecorder_Record (ge_wall ge) (ge_rid ge)
         \<lparr>de_EventID = [], de_Time = ge_now ge, de_TimeISO = [], de_Activity = activity, de_Category = category,
          de_Result = ''success'', de_InitiatedByAppID = str_claim (vt_Claims tok) ''appid'', de_InitiatedByUser = vt_OID tok,
          de_InitiatedByUPN = str_claim (vt_Claims tok) ''preferred_username'', de_TargetType = targetType,
          de_TargetID = targetID, de_TargetDisplayName = targetName\<rparr> (gr_DirAudit g)\<rparr>"

lemma recordChange_store [simp]: "gr_Store (recordChange ge tok a c t i n g) = gr_Store g"
  by (simp add: recordChange_def)

section \<open>Request bodies\<close>

text \<open>
  \<^verbatim>\<open>json.Decoder.Decode\<close> into a struct: the members whose name folds to the field's are stored one after
  the other, \<^verbatim>\<open>null\<close> leaves a value alone and clears a pointer, a slice or a map, a value of another
  kind is an error. A body that is \<^verbatim>\<open>null\<close> leaves the struct zero. The result is \<open>None\<close> on an error. In a
  list of strings a \<^verbatim>\<open>null\<close> element is the zero value.
\<close>

definition as_object :: "json \<Rightarrow> (string \<times> json) list option" where
  "as_object v = (case v of JObj ms \<Rightarrow> Some ms | JNull \<Rightarrow> Some [] | _ \<Rightarrow> None)"

definition members :: "(string \<times> json) list \<Rightarrow> string \<Rightarrow> json list" where
  "members ms name = map snd (filter (\<lambda>m. EqualFold (fst m) name) ms)"

fun store_value :: "(json \<Rightarrow> 'a option) \<Rightarrow> 'a \<Rightarrow> json list \<Rightarrow> 'a option" where
  "store_value dec cur [] = Some cur"
| "store_value dec cur (v # vs) =
     (if v = JNull then store_value dec cur vs else (case dec v of None \<Rightarrow> None | Some x \<Rightarrow> store_value dec x vs))"

fun store_pointer :: "(json \<Rightarrow> 'a option) \<Rightarrow> 'a option \<Rightarrow> json list \<Rightarrow> 'a option option" where
  "store_pointer dec cur [] = Some cur"
| "store_pointer dec cur (v # vs) =
     (if v = JNull then store_pointer dec None vs
      else (case dec v of None \<Rightarrow> None | Some x \<Rightarrow> store_pointer dec (Some x) vs))"

definition dec_str :: "json \<Rightarrow> string option" where
  "dec_str v = (case v of JStr s \<Rightarrow> Some s | _ \<Rightarrow> None)"

definition dec_bool :: "json \<Rightarrow> bool option" where
  "dec_bool v = (case v of JBool b \<Rightarrow> Some b | _ \<Rightarrow> None)"

text \<open>An integer literal that fits the field; other numbers are refused.\<close>

definition dec_int :: "json \<Rightarrow> int option" where
  "dec_int v = (case v of JInt n \<Rightarrow> if is_int64 n then Some n else None | _ \<Rightarrow> None)"

fun dec_elems :: "json list \<Rightarrow> string list option" where
  "dec_elems [] = Some []"
| "dec_elems (v # vs) =
     (case (if v = JNull then Some [] else dec_str v) of
        None \<Rightarrow> None
      | Some s \<Rightarrow> map_option ((#) s) (dec_elems vs))"

definition dec_strs :: "json \<Rightarrow> string list option" where
  "dec_strs v = (case v of JList vs \<Rightarrow> dec_elems vs | _ \<Rightarrow> None)"

abbreviation str_field :: "(string \<times> json) list \<Rightarrow> string \<Rightarrow> string option" where
  "str_field ms name \<equiv> store_value dec_str [] (members ms name)"

abbreviation bool_field :: "(string \<times> json) list \<Rightarrow> string \<Rightarrow> bool option" where
  "bool_field ms name \<equiv> store_value dec_bool False (members ms name)"

abbreviation str_ptr :: "(string \<times> json) list \<Rightarrow> string \<Rightarrow> string option option" where
  "str_ptr ms name \<equiv> store_pointer dec_str None (members ms name)"

abbreviation bool_ptr :: "(string \<times> json) list \<Rightarrow> string \<Rightarrow> bool option option" where
  "bool_ptr ms name \<equiv> store_pointer dec_bool None (members ms name)"

abbreviation strs_field :: "(string \<times> json) list \<Rightarrow> string \<Rightarrow> string list option option" where
  "strs_field ms name \<equiv> store_pointer dec_strs None (members ms name)"

definition decodeGraph :: "((string \<times> json) list \<Rightarrow> 'b option) \<Rightarrow> GraphRequest \<Rightarrow> reply + 'b" where
  "decodeGraph dec r =
     (case gq_Body r of
        None \<Rightarrow> Inl (GraphError 400 ''BadRequest'' ''Invalid JSON'')
      | Some v \<Rightarrow>
        (case as_object v of
           None \<Rightarrow> Inl (GraphError 400 ''BadRequest'' ''Invalid JSON'')
         | Some ms \<Rightarrow> (case dec ms of None \<Rightarrow> Inl (GraphError 400 ''BadRequest'' ''Invalid JSON'') | Some b \<Rightarrow> Inr b)))"

end
