(* ===== verification/GraphReads.thy ===== *)
theory GraphReads
  imports GraphCore
begin

text \<open>
  The reading handlers of the Graph surface: \<^verbatim>\<open>graph.go\<close> (users, groups, membership, userinfo),
  \<^verbatim>\<open>reads.go\<close> (applications and service principals), \<^verbatim>\<open>membergroups.go\<close>, \<^verbatim>\<open>authmethods.go\<close>, \<^verbatim>\<open>auditlogs.go\<close>,
  and the reading halves of \<^verbatim>\<open>consent.go\<close>, \<^verbatim>\<open>roles.go\<close>, \<^verbatim>\<open>customroles.go\<close>, \<^verbatim>\<open>customsecattr.go\<close>,
  \<^verbatim>\<open>adminunits.go\<close>, \<^verbatim>\<open>federatedcreds.go\<close>, \<^verbatim>\<open>tokenlifetime.go\<close> and \<^verbatim>\<open>deleted.go\<close>.
\<close>

section \<open>Users and groups\<close>

definition allRows :: int where
  "allRows = 2 ^ 30"

text \<open>The common body of the collection handlers: parse the options, refuse a bad filter, write a page.\<close>

definition odata_page :: "GraphEnv \<Rightarrow> GraphRequest \<Rightarrow> string \<Rightarrow> (shape \<Rightarrow> shape) \<Rightarrow> shape list \<Rightarrow> reply" where
  "odata_page ge r suffix project shapes =
     (case parseOData (gq_Query r) of
        Inl e \<Rightarrow> GraphError 400 ''BadRequest'' e
      | Inr q \<Rightarrow> Page (contextURL ge suffix) (writeCollection project q shapes))"

definition handleMe :: "GraphEnv \<Rightarrow> handler" where
  "handleMe ge r tok g =
     (case GetUser (gr_Store g) (vt_OID tok) of
        Inl _ \<Rightarrow> (notFound ''The signed-in user no longer exists.'', g)
      | Inr u \<Rightarrow> (Entity 200 (with_context (entityContext ge r ''users'')
          (selectEntity (gr_Store g) (gq_Query r) (defaultUserProjection (gq_Query r) (userShape u)))), g))"

definition handleUsers :: "GraphEnv \<Rightarrow> handler" where
  "handleUsers ge r tok g =
     (odata_page ge r ''users'' (defaultUserProjection (gq_Query r))
        (map userShape (fst (ListUsers (gr_Store g) allRows 0 []))), g)"

definition handleUserByID :: "GraphEnv \<Rightarrow> handler" where
  "handleUserByID ge r tok g =
     (let i = gq_PathValue r ''id'' in
      case (case GetUser (gr_Store g) i of Inr u \<Rightarrow> Inr u | Inl _ \<Rightarrow> GetUserByUPN (gr_Store g) i) of
        Inl _ \<Rightarrow> (notFound (GraphResourceNotFound i), g)
      | Inr u \<Rightarrow> (Entity 200 (with_context (entityContext ge r ''users'')
          (selectEntity (gr_Store g) (gq_Query r) (defaultUserProjection (gq_Query r) (userShape u)))), g))"

definition handleGroups :: "GraphEnv \<Rightarrow> handler" where
  "handleGroups ge r tok g =
     (odata_page ge r ''groups'' (\<lambda>s. s) (map groupShape (fst (ListGroups (gr_Store g) allRows 0 []))), g)"

definition handleGroupByID :: "GraphEnv \<Rightarrow> handler" where
  "handleGroupByID ge r tok g =
     (case GetGroup (gr_Store g) (gq_PathValue r ''id'') of
        Inl _ \<Rightarrow> (notFound ''Group does not exist.'', g)
      | Inr gr \<Rightarrow> (Entity 200 (with_context (entityContext ge r ''groups'')
          (selectEntity (gr_Store g) (gq_Query r) (groupShape gr))), g))"

definition handleGroupMembers :: "GraphEnv \<Rightarrow> handler" where
  "handleGroupMembers ge r tok g =
     (case parseOData (gq_Query r) of
        Inl e \<Rightarrow> (GraphError 400 ''BadRequest'' e, g)
      | Inr q \<Rightarrow>
        (let groupID = gq_PathValue r ''id'' in
         case GetGroup (gr_Store g) groupID of
           Inl _ \<Rightarrow> (notFound ''Group does not exist.'', g)
         | Inr _ \<Rightarrow> (Page (contextURL ge ''directoryObjects'') (writeCollection (\<lambda>s. s) q
             (map (\<lambda>u. with_type ''#microsoft.graph.user'' (userShape u)) (ListGroupMembers (gr_Store g) groupID))), g)))"

text \<open>The path of \<^verbatim>\<open>/me\<close> routes has no \<^verbatim>\<open>id\<close>, so the wildcard reads as the empty string.\<close>

definition me_or_id :: "GraphRequest \<Rightarrow> ValidatedToken \<Rightarrow> string" where
  "me_or_id r tok = (let i = gq_PathValue r ''id'' in if i = [] then vt_OID tok else i)"

definition handleMemberOf :: "GraphEnv \<Rightarrow> handler" where
  "handleMemberOf ge r tok g =
     (case parseOData (gq_Query r) of
        Inl e \<Rightarrow> (GraphError 400 ''BadRequest'' e, g)
      | Inr q \<Rightarrow>
        (let userID = me_or_id r tok in
         case GetUser (gr_Store g) userID of
           Inl _ \<Rightarrow> (notFound (GraphResourceNotFound userID), g)
         | Inr _ \<Rightarrow> (Page (contextURL ge ''directoryObjects'') (writeCollection (\<lambda>s. s) q
             (map (\<lambda>gr. with_type ''#microsoft.graph.group'' (groupShape gr)) (ListGroupsForUser (gr_Store g) userID))), g)))"

definition handleUserInfo :: "GraphEnv \<Rightarrow> handler" where
  "handleUserInfo ge r tok g =
     (let gone = (OAuthJSON 401 ''invalid_token'' (''The token'' @ [squote] @ ''s user no longer exists.''), g);
          opt = (\<lambda>k v. if v \<noteq> [] then [(k, JStr v)] else []) in
      case GetUser (gr_Store g) (vt_OID tok) of
        Inl _ \<Rightarrow> gone
      | Inr u \<Rightarrow>
        if \<not> u_AccountEnabled u then gone
        else (Entity 200 ([(''sub'', JStr (vt_Sub tok)), (''oid'', JStr (u_ID u)), (''tid'', JStr (cf_TenantID (ge_cfg ge))),
            (''name'', JStr (u_DisplayName u)), (''preferred_username'', JStr (u_UserPrincipalName u))]
            @ opt ''given_name'' (u_GivenName u) @ opt ''family_name'' (u_Surname u) @ opt ''email'' (u_Mail u)), g))"

section \<open>Membership and authentication methods\<close>

definition getMemberObjects :: "GraphEnv \<Rightarrow> bool \<Rightarrow> handler" where
  "getMemberObjects ge withRoles r tok g =
     (let userID = me_or_id r tok; s = gr_Store g in
      case GetUser s userID of
        Inl _ \<Rightarrow> (notFound (GraphResourceNotFound userID), g)
      | Inr _ \<Rightarrow>
        (case (if gq_ContentLength r > 0 then decodeGraph (\<lambda>ms. bool_field ms ''securityEnabledOnly'') r else Inr False) of
           Inl e \<Rightarrow> (e, g)
         | Inr _ \<Rightarrow> (Entity 200 [(''@odata.context'', JStr (contextURL ge ''Collection(Edm.String)'')),
             (''value'', JList (map JStr (map g_ID (ListGroupsForUser s userID)
                @ (if withRoles then TenantWideRoleTemplateIDs s userID else []))))], g)))"

definition passwordMethodID :: string where
  "passwordMethodID = ''28c10230-6103-485e-b985-444c60001490''"

definition authUserID :: "GraphRequest \<Rightarrow> bool \<Rightarrow> ValidatedToken \<Rightarrow> string" where
  "authUserID r me tok = (if me then vt_OID tok else gq_PathValue r ''id'')"

definition passwordMethodShape :: shape where
  "passwordMethodShape = [(''@odata.type'', JStr ''#microsoft.graph.passwordAuthenticationMethod''), (''id'', JStr passwordMethodID)]"

definition formatGUID :: "string \<Rightarrow> string" where
  "formatGUID b = (let h = hex_encode b in
     take 8 h @ ''-'' @ take 4 (drop 8 h) @ ''-'' @ take 4 (drop 12 h) @ ''-'' @ take 4 (drop 16 h) @ ''-'' @ take 12 (drop 20 h))"

definition fido2MethodShape :: "WebAuthnCredential \<Rightarrow> shape" where
  "fido2MethodShape c =
     [(''@odata.type'', JStr ''#microsoft.graph.fido2AuthenticationMethod''), (''id'', JStr (wc_ID c)),
      (''displayName'', json_nullable (wc_Name c)), (''createdDateTime'', JStr (rfc3339 (wc_CreatedAt c)))]
     @ (if length (wc_AAGUID c) = 16 then [(''aaGuid'', JStr (formatGUID (wc_AAGUID c)))] else [])"

definition userMethods :: "Graph \<Rightarrow> string \<Rightarrow> reply + (bool \<times> WebAuthnCredential list)" where
  "userMethods g userID =
     (case GetUser (gr_Store g) userID of
        Inl _ \<Rightarrow> Inl (notFound (GraphResourceNotFound userID))
      | Inr u \<Rightarrow> Inr (u_PasswordHash u \<noteq> [], ListWebAuthnCredentials (gr_Store g) userID))"

definition authMethods :: "GraphEnv \<Rightarrow> bool \<Rightarrow> handler" where
  "authMethods ge me r tok g =
     (case userMethods g (authUserID r me tok) of
        Inl e \<Rightarrow> (e, g)
      | Inr (hasPw, creds) \<Rightarrow> (writeSimpleCollection ge ''authenticationMethods''
          ((if hasPw then [passwordMethodShape] else []) @ map fido2MethodShape creds), g))"

definition passwordMethods :: "GraphEnv \<Rightarrow> bool \<Rightarrow> handler" where
  "passwordMethods ge me r tok g =
     (case userMethods g (authUserID r me tok) of
        Inl e \<Rightarrow> (e, g)
      | Inr (hasPw, creds) \<Rightarrow> (writeSimpleCollection ge ''passwordAuthenticationMethods''
          (if hasPw then [passwordMethodShape] else []), g))"

definition fido2Methods :: "GraphEnv \<Rightarrow> bool \<Rightarrow> handler" where
  "fido2Methods ge me r tok g =
     (case userMethods g (authUserID r me tok) of
        Inl e \<Rightarrow> (e, g)
      | Inr (hasPw, creds) \<Rightarrow> (writeSimpleCollection ge ''fido2AuthenticationMethods'' (map fido2MethodShape creds), g))"

section \<open>Applications and service principals\<close>

definition json_strs :: "string list \<Rightarrow> json" where
  "json_strs xs = JList (map JStr xs)"

definition oauth2ScopeShapes :: "Store \<Rightarrow> string \<Rightarrow> json" where
  "oauth2ScopeShapes s appID = JList (map (\<lambda>sc. JObj [(''id'', JStr (sc_ID sc)), (''value'', JStr (sc_Value sc)),
     (''adminConsentDisplayName'', json_nullable (sc_AdminConsentDisplayName sc)), (''isEnabled'', JBool (sc_IsEnabled sc)),
     (''type'', JStr ''User'')]) (ListScopes s appID))"

definition appRoleShapes :: "Store \<Rightarrow> string \<Rightarrow> json" where
  "appRoleShapes s appID = JList (map (\<lambda>ro. JObj [(''id'', JStr (ro_ID ro)), (''value'', JStr (ro_Value ro)),
     (''displayName'', json_nullable (ro_DisplayName ro)),
     (''allowedMemberTypes'', json_strs (splitCSV (ro_AllowedMemberTypes ro))), (''isEnabled'', JBool (ro_IsEnabled ro))])
     (ListRoles s appID))"

definition applicationDTO :: "Store \<Rightarrow> App \<Rightarrow> shape" where
  "applicationDTO s a =
     [(''id'', JStr (a_ID a)), (''appId'', JStr (a_ID a)), (''displayName'', JStr (a_DisplayName a)),
      (''signInAudience'', JStr ''AzureADMyOrg''),
      (''identifierUris'', json_strs (if a_AppIDURI a \<noteq> [] then [a_AppIDURI a] else [])),
      (''appRoles'', appRoleShapes s (a_ID a)), (''api'', JObj [(''oauth2PermissionScopes'', oauth2ScopeShapes s (a_ID a))])]"

definition servicePrincipalDTO :: "Store \<Rightarrow> App \<Rightarrow> shape" where
  "servicePrincipalDTO s a =
     [(''id'', JStr (a_ID a)), (''appId'', JStr (a_ID a)), (''displayName'', JStr (a_DisplayName a)),
      (''servicePrincipalType'', JStr ''Application''), (''accountEnabled'', JBool True),
      (''appRoles'', appRoleShapes s (a_ID a)), (''oauth2PermissionScopes'', oauth2ScopeShapes s (a_ID a)),
      (''servicePrincipalNames'', json_strs (a_ID a # (if a_AppIDURI a \<noteq> [] then [a_AppIDURI a] else [])))]"

definition listApplications :: "GraphEnv \<Rightarrow> handler" where
  "listApplications ge r tok g =
     (odata_page ge r ''applications'' (\<lambda>s. s)
        (map (applicationDTO (gr_Store g)) (fst (ListApps (gr_Store g) allRows 0 []))), g)"

definition listServicePrincipals :: "GraphEnv \<Rightarrow> handler" where
  "listServicePrincipals ge r tok g =
     (odata_page ge r ''servicePrincipals'' (\<lambda>s. s)
        (map (servicePrincipalDTO (gr_Store g)) (fst (ListApps (gr_Store g) allRows 0 []))), g)"

definition app_entity :: "GraphEnv \<Rightarrow> GraphRequest \<Rightarrow> Graph \<Rightarrow> string \<Rightarrow> (Store \<Rightarrow> App \<Rightarrow> shape) \<Rightarrow> string \<Rightarrow> string \<Rightarrow> reply" where
  "app_entity ge r g coll dto i missing =
     (case GetApp (gr_Store g) i of
        Inl _ \<Rightarrow> notFound missing
      | Inr a \<Rightarrow> Entity 200 (with_context (entityContext ge r coll) (selectEntity (gr_Store g) (gq_Query r) (dto (gr_Store g) a))))"

definition getApplication :: "GraphEnv \<Rightarrow> handler" where
  "getApplication ge r tok g =
     (app_entity ge r g ''applications'' applicationDTO (gq_PathValue r ''id'') ''Application does not exist.'', g)"

definition getServicePrincipal :: "GraphEnv \<Rightarrow> handler" where
  "getServicePrincipal ge r tok g =
     (app_entity ge r g ''servicePrincipals'' servicePrincipalDTO (gq_PathValue r ''id'') ''Service principal does not exist.'', g)"

text \<open>Matching a literal with \<^verbatim>\<open>(?i)\<close>: besides the ASCII pairs, U+017F matches s and U+212A matches k. The
  result is what follows the match.\<close>

fun eat_fold :: "string \<Rightarrow> string \<Rightarrow> string option" where
  "eat_fold [] s = Some s"
| "eat_fold (n # ns) s =
     (case s of
        [] \<Rightarrow> None
      | c # cs \<Rightarrow>
        if lower_char c = lower_char n then eat_fold ns cs
        else if lower_char n = CHR ''s'' \<and> take 2 s = [CHR 0xC5, CHR 0xBF] then eat_fold ns (drop 2 s)
        else if lower_char n = CHR ''k'' \<and> take 3 s = [CHR 0xE2, CHR 0x84, CHR 0xAA] then eat_fold ns (drop 3 s)
        else None)"

definition spByAppID :: "string \<Rightarrow> string option" where
  "spByAppID key =
     (case eat_fold (''servicePrincipals(appId='' @ [squote]) key of
        None \<Rightarrow> None
      | Some rest \<Rightarrow>
        (let v = takeWhile (\<lambda>c. c \<noteq> squote) rest in
         if v \<noteq> [] \<and> dropWhile (\<lambda>c. c \<noteq> squote) rest = squote # '')'' then Some v else None))"

definition getByAlternateKey :: "GraphEnv \<Rightarrow> handler" where
  "getByAlternateKey ge r tok g =
     (let key = gq_PathValue r ''key'' in
      case spByAppID key of
        None \<Rightarrow> (notFound (GraphResourceNotFound key), g)
      | Some i \<Rightarrow> (app_entity ge r g ''servicePrincipals'' servicePrincipalDTO i (GraphResourceNotFound i), g))"

section \<open>Consent and roles\<close>

text \<open>\<^verbatim>\<open>grantFilterField\<close>: the leftmost place where the pattern matches; the patterns start with an ASCII letter,
  so trying every byte position is trying every character.\<close>

definition filter_at :: "string \<Rightarrow> string \<Rightarrow> string option" where
  "filter_at field s =
     (case eat_fold field s of
        None \<Rightarrow> None
      | Some r1 \<Rightarrow>
        (let r2 = dropWhile re_space r1; r3 = drop 2 r2; r4 = dropWhile re_space r3 in
         if takeWhile re_space r1 = [] \<or> take 2 r2 \<noteq> ''eq'' \<or> takeWhile re_space r3 = [] \<or> r4 = [] \<or> hd r4 \<noteq> squote
            \<or> squote \<notin> set (tl r4)
         then None else Some (takeWhile (\<lambda>c. c \<noteq> squote) (tl r4))))"

fun grantFilterField :: "string \<Rightarrow> string \<Rightarrow> string option" where
  "grantFilterField [] field = filter_at field []"
| "grantFilterField (c # cs) field =
     (case filter_at field (c # cs) of Some v \<Rightarrow> Some v | None \<Rightarrow> grantFilterField cs field)"

definition wanted :: "string option \<Rightarrow> string \<Rightarrow> bool" where
  "wanted w v \<longleftrightarrow> (case w of None \<Rightarrow> True | Some x \<Rightarrow> v = x)"

definition o2pgShape :: "OAuth2PermissionGrant \<Rightarrow> shape" where
  "o2pgShape gr = [(''id'', JStr (og_ID gr)), (''clientId'', JStr (og_ClientID gr)), (''consentType'', JStr (og_ConsentType gr)),
     (''resourceId'', JStr (og_ResourceID gr)), (''principalId'', json_nullable (og_PrincipalID gr)), (''scope'', JStr (og_Scope gr))]"

definition listOAuth2Grants :: "GraphEnv \<Rightarrow> handler" where
  "listOAuth2Grants ge r tok g =
     (let raw = gq_Query r ''$filter'' in
      (writeSimpleCollection ge ''oauth2PermissionGrants'' (map o2pgShape (filter (\<lambda>gr.
         wanted (grantFilterField raw ''clientId'') (og_ClientID gr)
         \<and> wanted (grantFilterField raw ''consentType'') (og_ConsentType gr)
         \<and> wanted (grantFilterField raw ''resourceId'') (og_ResourceID gr)) (ListOAuth2Grants (gr_Store g)))), g))"

definition listSPOAuth2Grants :: "GraphEnv \<Rightarrow> handler" where
  "listSPOAuth2Grants ge r tok g =
     (writeSimpleCollection ge ''oauth2PermissionGrants'' (map o2pgShape (filter (\<lambda>gr.
        og_ClientID gr = gq_PathValue r ''id'') (ListOAuth2Grants (gr_Store g)))), g)"

definition araShape :: "Store \<Rightarrow> AppRoleAssignment \<Rightarrow> shape" where
  "araShape s a =
     [(''id'', JStr (ara_ID a)), (''principalId'', JStr (ara_PrincipalID a)), (''principalType'', JStr (ara_PrincipalType a)),
      (''resourceId'', JStr (ara_ResourceID a)), (''appRoleId'', JStr (ara_AppRoleID a)),
      (''createdDateTime'', JStr (rfc3339 (ara_CreatedAt a)))]
     @ (case GetApp s (ara_ResourceID a) of Inr ap \<Rightarrow> [(''resourceDisplayName'', JStr (a_DisplayName ap))] | Inl _ \<Rightarrow> [])
     @ (if ara_PrincipalType a = ''User''
        then (case GetUser s (ara_PrincipalID a) of Inr u \<Rightarrow> [(''principalDisplayName'', JStr (u_DisplayName u))] | Inl _ \<Rightarrow> [])
        else (case GetApp s (ara_PrincipalID a) of Inr ap \<Rightarrow> [(''principalDisplayName'', JStr (a_DisplayName ap))] | Inl _ \<Rightarrow> []))"

definition writeARACollection :: "GraphEnv \<Rightarrow> Store \<Rightarrow> string \<Rightarrow> string \<Rightarrow> AppRoleAssignment list \<Rightarrow> reply" where
  "writeARACollection ge s spID rel as =
     writeSimpleCollection ge (''servicePrincipals('' @ quoted spID @ '')/'' @ rel) (map (araShape s) as)"

definition listAppRoleAssignedTo :: "GraphEnv \<Rightarrow> handler" where
  "listAppRoleAssignedTo ge r tok g = (writeARACollection ge (gr_Store g) (gq_PathValue r ''id'') ''appRoleAssignedTo''
     (ListAppRoleAssignmentsToResource (gr_Store g) (gq_PathValue r ''id'')), g)"

definition listAppRoleAssignments :: "GraphEnv \<Rightarrow> handler" where
  "listAppRoleAssignments ge r tok g = (writeARACollection ge (gr_Store g) (gq_PathValue r ''id'') ''appRoleAssignments''
     (ListAppRoleAssignmentsForPrincipal (gr_Store g) (gq_PathValue r ''id'')), g)"

record roleDef =
  rdf_ID :: string
  rdf_DisplayName :: string
  rdf_Description :: string

definition builtInRoleDefinitions :: "roleDef list" where
  "builtInRoleDefinitions = [
     \<lparr>rdf_ID = ''62e90394-69f5-4237-9190-012177145e10'', rdf_DisplayName = ''Global Administrator'',
      rdf_Description = ''Can manage all aspects of Microsoft Entra ID and Microsoft services that use Microsoft Entra identities.''\<rparr>,
     \<lparr>rdf_ID = ''f2ef992c-3afb-46b9-b7cf-a126ee74c451'', rdf_DisplayName = ''Global Reader'',
      rdf_Description = ''Can read everything that a Global Administrator can, but not update anything.''\<rparr>,
     \<lparr>rdf_ID = ''e8611ab8-c189-46e8-94e1-60213ab1f814'', rdf_DisplayName = ''Privileged Role Administrator'',
      rdf_Description = ''Can manage role assignments in Microsoft Entra ID, and all aspects of Privileged Identity Management.''\<rparr>,
     \<lparr>rdf_ID = ''fe930be7-5e62-47db-91af-98c3a49a38b1'', rdf_DisplayName = ''User Administrator'',
      rdf_Description = ''Can manage all aspects of users and groups, including resetting passwords for limited admins.''\<rparr>,
     \<lparr>rdf_ID = ''9b895d92-2cd3-44c7-9d02-a6ac2d5ea5c3'', rdf_DisplayName = ''Application Administrator'',
      rdf_Description = ''Can create and manage all aspects of app registrations and enterprise apps.''\<rparr>,
     \<lparr>rdf_ID = ''158c047a-c907-4556-b7ef-446551a6b5f7'', rdf_DisplayName = ''Cloud Application Administrator'',
      rdf_Description = ''Can create and manage all aspects of app registrations and enterprise apps except App Proxy.''\<rparr>]"

definition roleDefByID :: "string \<Rightarrow> roleDef option" where
  "roleDefByID i = find (\<lambda>d. rdf_ID d = i) builtInRoleDefinitions"

definition roleDefShape :: "roleDef \<Rightarrow> shape" where
  "roleDefShape d = [(''id'', JStr (rdf_ID d)), (''templateId'', JStr (rdf_ID d)), (''displayName'', JStr (rdf_DisplayName d)),
     (''description'', JStr (rdf_Description d)), (''isBuiltIn'', JBool True), (''isEnabled'', JBool True), (''rolePermissions'', JList [])]"

definition customRoleShape :: "CustomRoleDefinition \<Rightarrow> shape" where
  "customRoleShape d = [(''@odata.type'', JStr ''#microsoft.graph.unifiedRoleDefinition''), (''id'', JStr (rd_ID d)),
     (''displayName'', JStr (rd_DisplayName d)), (''description'', JStr (rd_Description d)), (''isBuiltIn'', JBool False),
     (''isEnabled'', JBool (rd_IsEnabled d)), (''rolePermissions'', JList (if rd_RolePermissions d \<noteq> []
        then [JObj [(''allowedResourceActions'', json_strs (rd_RolePermissions d))]] else []))]"

definition listRoleDefinitions :: "GraphEnv \<Rightarrow> handler" where
  "listRoleDefinitions ge r tok g =
     (writeSimpleCollection ge ''roleManagement/directory/roleDefinitions''
        (map roleDefShape builtInRoleDefinitions @ map customRoleShape (ListCustomRoleDefinitions (gr_Store g))), g)"

definition getRoleDefinition :: "GraphEnv \<Rightarrow> handler" where
  "getRoleDefinition ge r tok g =
     (let ctx = contextURL ge ''roleManagement/directory/roleDefinitions/$entity''; i = gq_PathValue r ''id'' in
      (case roleDefByID i of
         Some d \<Rightarrow> Entity 200 (with_context ctx (roleDefShape d))
       | None \<Rightarrow>
         (case GetCustomRoleDefinition (gr_Store g) i of
            Inr c \<Rightarrow> Entity 200 (with_context ctx (customRoleShape c))
          | Inl _ \<Rightarrow> notFound ''Role definition does not exist.''), g))"

definition roleAssignmentShape :: "DirectoryRoleAssignment \<Rightarrow> shape" where
  "roleAssignmentShape a = [(''@odata.type'', JStr ''#microsoft.graph.unifiedRoleAssignment''), (''id'', JStr (dra_ID a)),
     (''roleDefinitionId'', JStr (dra_RoleDefinitionID a)), (''principalId'', JStr (dra_PrincipalID a)),
     (''directoryScopeId'', JStr (dra_DirectoryScopeID a))]"

definition listRoleAssignments :: "GraphEnv \<Rightarrow> handler" where
  "listRoleAssignments ge r tok g =
     (let raw = gq_Query r ''$filter'' in
      (writeSimpleCollection ge ''roleManagement/directory/roleAssignments'' (map roleAssignmentShape (filter (\<lambda>a.
         wanted (grantFilterField raw ''principalId'') (dra_PrincipalID a)
         \<and> wanted (grantFilterField raw ''roleDefinitionId'') (dra_RoleDefinitionID a))
         (ListDirectoryRoleAssignments (gr_Store g)))), g))"

definition getRoleAssignment :: "GraphEnv \<Rightarrow> handler" where
  "getRoleAssignment ge r tok g =
     (case GetDirectoryRoleAssignment (gr_Store g) (gq_PathValue r ''id'') of
        Inl _ \<Rightarrow> (notFound ''Role assignment does not exist.'', g)
      | Inr a \<Rightarrow> (Entity 200 (with_context (contextURL ge ''roleManagement/directory/roleAssignments/$entity'')
          (roleAssignmentShape a)), g))"

section \<open>Audit logs\<close>

definition appDisplayName :: "Store \<Rightarrow> string \<Rightarrow> string" where
  "appDisplayName s clientID =
     (case (case GetApp s clientID of Inr a \<Rightarrow> Inr a | Inl _ \<Rightarrow> GetAppByIDURI s clientID) of
        Inl _ \<Rightarrow> []
      | Inr a \<Rightarrow> a_DisplayName a)"

definition clientAppUsed :: "Event \<Rightarrow> string" where
  "clientAppUsed e =
     (let t = ev_GrantType e in
      if t = ''password'' then ''Resource Owner Password Credential''
      else if t = ''client_credentials'' then ''Client Credentials''
      else if t = ''urn:ietf:params:oauth:grant-type:device_code'' \<or> t = ''device_code'' then ''Device Code''
      else if t = ''authorization_code'' \<or> t = ''refresh_token'' then ''Browser''
      else if ev_Flow e = ''authorize'' then ''Browser'' else ''Other'')"

definition signInShape :: "Store \<Rightarrow> Event \<Rightarrow> shape" where
  "signInShape s e =
     [(''id'', JStr (ev_EventID e)),
      (''createdDateTime'', JStr (if ev_TimeISO e = [] then rfc3339 (ev_Time e) else ev_TimeISO e)),
      (''userId'', json_nullable (ev_UserID e)), (''userPrincipalName'', json_nullable (ev_UserPrincipalName e)),
      (''userDisplayName'', json_nullable (ev_UserPrincipalName e)), (''appId'', json_nullable (ev_ClientID e)),
      (''appDisplayName'', json_nullable (appDisplayName s (ev_ClientID e))), (''clientAppUsed'', JStr (clientAppUsed e)),
      (''isInteractive'', JBool (ev_Flow e = ''authorize'' \<or> ev_Flow e = ''wsfed'')),
      (''resourceDisplayName'', json_nullable (ev_GrantType e)), (''correlationId'', JStr (ev_EventID e)),
      (''conditionalAccessStatus'', JStr ''notApplied''),
      (''status'', JObj (if ev_OK e
         then [(''errorCode'', JInt 0), (''failureReason'', JNull), (''additionalDetails'', JNull)]
         else [(''errorCode'', JInt 50000), (''failureReason'', JStr (ev_Reason e)), (''additionalDetails'', JStr (ev_Error e))]))]"

definition listSignIns :: "GraphEnv \<Rightarrow> handler" where
  "listSignIns ge r tok g =
     (writeSimpleCollection ge ''auditLogs/signIns''
        (map (signInShape (gr_Store g)) (Recorder_List (fst (paging (gq_Query r))) (gr_Audit g))), g)"

definition directoryAuditShape :: "DirectoryEvent \<Rightarrow> shape" where
  "directoryAuditShape e =
     [(''id'', JStr (de_EventID e)), (''activityDateTime'', JStr (de_TimeISO e)), (''activityDisplayName'', JStr (de_Activity e)),
      (''category'', JStr (de_Category e)), (''result'', JStr (de_Result e)),
      (''initiatedBy'', JObj ((if de_InitiatedByAppID e \<noteq> [] then [(''app'', JObj [(''appId'', JStr (de_InitiatedByAppID e))])] else [])
         @ (if de_InitiatedByUser e \<noteq> [] then [(''user'', JObj [(''id'', JStr (de_InitiatedByUser e)),
              (''userPrincipalName'', json_nullable (de_InitiatedByUPN e))])] else []))),
      (''targetResources'', JList [JObj [(''id'', JStr (de_TargetID e)), (''type'', JStr (de_TargetType e)),
         (''displayName'', json_nullable (de_TargetDisplayName e))]])]"

definition listDirectoryAudits :: "GraphEnv \<Rightarrow> handler" where
  "listDirectoryAudits ge r tok g =
     (writeSimpleCollection ge ''auditLogs/directoryAudits''
        (map directoryAuditShape (case gr_DirAudit g of
           None \<Rightarrow> [] | Some da \<Rightarrow> DirectoryRecorder_List (fst (paging (gq_Query r))) da)), g)"

section \<open>Directory extras\<close>

definition adminUnitShape :: "AdministrativeUnit \<Rightarrow> shape" where
  "adminUnitShape a = [(''@odata.type'', JStr ''#microsoft.graph.administrativeUnit''), (''id'', JStr (au_ID a)),
     (''displayName'', JStr (au_DisplayName a)), (''description'', json_nullable (au_Description a)), (''visibility'', JStr (au_Visibility a))]"

definition listAdminUnits :: "GraphEnv \<Rightarrow> handler" where
  "listAdminUnits ge r tok g =
     (writeSimpleCollection ge ''directory/administrativeUnits'' (map adminUnitShape (ListAdministrativeUnits (gr_Store g))), g)"

definition getAdminUnit :: "GraphEnv \<Rightarrow> handler" where
  "getAdminUnit ge r tok g =
     (case GetAdministrativeUnit (gr_Store g) (gq_PathValue r ''id'') of
        Inl _ \<Rightarrow> (notFound ''Administrative unit does not exist.'', g)
      | Inr a \<Rightarrow> (Entity 200 (with_context (contextURL ge ''directory/administrativeUnits/$entity'')
          (selectEntity (gr_Store g) (gq_Query r) (adminUnitShape a))), g))"

definition unit_member_shapes :: "Store \<Rightarrow> AdminUnitMember \<Rightarrow> shape list" where
  "unit_member_shapes s m =
     (if am_Type m = ''group''
      then (case GetGroup s (am_ID m) of Inr gr \<Rightarrow> [with_type ''#microsoft.graph.group'' (groupShape gr)] | Inl _ \<Rightarrow> [])
      else (case GetUser s (am_ID m) of Inr u \<Rightarrow> [with_type ''#microsoft.graph.user'' (userShape u)] | Inl _ \<Rightarrow> []))"

definition listAdminUnitMembers :: "GraphEnv \<Rightarrow> handler" where
  "listAdminUnitMembers ge r tok g =
     (let auID = gq_PathValue r ''id''; s = gr_Store g in
      case GetAdministrativeUnit s auID of
        Inl _ \<Rightarrow> (notFound ''Administrative unit does not exist.'', g)
      | Inr _ \<Rightarrow> (writeSimpleCollection ge ''directoryObjects''
          (concat (map (unit_member_shapes s) (ListAdminUnitMembers s auID))), g))"

definition attributeSetShape :: "AttributeSet \<Rightarrow> shape" where
  "attributeSetShape a = [(''@odata.type'', JStr ''#microsoft.graph.attributeSet''), (''id'', JStr (at_ID a)),
     (''description'', json_nullable (at_Description a)),
     (''maxAttributesPerSet'', (case at_MaxAttributesPerSet a of None \<Rightarrow> JNull | Some n \<Rightarrow> JInt n))]"

definition csaDefShape :: "CustomSecurityAttributeDefinition \<Rightarrow> shape" where
  "csaDefShape d = [(''@odata.type'', JStr ''#microsoft.graph.customSecurityAttributeDefinition''), (''id'', JStr (sd_ID d)),
     (''attributeSet'', JStr (sd_AttributeSet d)), (''name'', JStr (sd_Name d)), (''description'', json_nullable (sd_Description d)),
     (''type'', JStr (sd_Type d)), (''status'', JStr (sd_Status d)), (''isCollection'', JBool (sd_IsCollection d)),
     (''isSearchable'', JBool (sd_IsSearchable d))]"

definition listAttributeSets :: "GraphEnv \<Rightarrow> handler" where
  "listAttributeSets ge r tok g =
     (writeSimpleCollection ge ''directory/attributeSets'' (map attributeSetShape (ListAttributeSets (gr_Store g))), g)"

definition getAttributeSet :: "GraphEnv \<Rightarrow> handler" where
  "getAttributeSet ge r tok g =
     (case GetAttributeSet (gr_Store g) (gq_PathValue r ''id'') of
        Inl _ \<Rightarrow> (notFound ''Attribute set does not exist.'', g)
      | Inr a \<Rightarrow> (Entity 200 (attributeSetShape a), g))"

definition listCSADefs :: "GraphEnv \<Rightarrow> handler" where
  "listCSADefs ge r tok g =
     (writeSimpleCollection ge ''directory/customSecurityAttributeDefinitions'' (map csaDefShape (ListCSADefinitions (gr_Store g))), g)"

definition getCSADef :: "GraphEnv \<Rightarrow> handler" where
  "getCSADef ge r tok g =
     (case GetCSADefinition (gr_Store g) (gq_PathValue r ''id'') of
        Inl _ \<Rightarrow> (notFound ''Definition does not exist.'', g)
      | Inr d \<Rightarrow> (Entity 200 (csaDefShape d), g))"

section \<open>Credentials and policies of an application\<close>

text \<open>The audiences read back from a row are a nil slice, which encodes as \<^verbatim>\<open>null\<close>, when the column names none.\<close>

definition federatedCredShape :: "FederatedCredential \<Rightarrow> shape" where
  "federatedCredShape c = [(''@odata.type'', JStr ''#microsoft.graph.federatedIdentityCredential''), (''id'', JStr (fc_ID c)),
     (''name'', JStr (fc_Name c)), (''issuer'', JStr (fc_Issuer c)), (''subject'', JStr (fc_Subject c)),
     (''audiences'', if fc_Audiences c = [] then JNull else json_strs (fc_Audiences c)), (''description'', json_nullable (fc_Description c))]"

definition appForFIC :: "GraphRequest \<Rightarrow> Graph \<Rightarrow> reply + string" where
  "appForFIC r g =
     (case GetApp (gr_Store g) (gq_PathValue r ''id'') of
        Inl _ \<Rightarrow> Inl (notFound ''Application does not exist.'')
      | Inr _ \<Rightarrow> Inr (gq_PathValue r ''id''))"

definition app_relation :: "string \<Rightarrow> string \<Rightarrow> string" where
  "app_relation appID rel = ''applications('' @ quoted appID @ '')/'' @ rel"

definition listFederatedCreds :: "GraphEnv \<Rightarrow> handler" where
  "listFederatedCreds ge r tok g =
     (case appForFIC r g of
        Inl e \<Rightarrow> (e, g)
      | Inr appID \<Rightarrow> (writeSimpleCollection ge (app_relation appID ''federatedIdentityCredentials'')
          (map federatedCredShape (ListFederatedCredentials (gr_Store g) appID)), g))"

definition getFederatedCred :: "GraphEnv \<Rightarrow> handler" where
  "getFederatedCred ge r tok g =
     (case appForFIC r g of
        Inl e \<Rightarrow> (e, g)
      | Inr appID \<Rightarrow>
        (case GetFederatedCredential (gr_Store g) appID (gq_PathValue r ''ficId'') of
           Inl _ \<Rightarrow> (notFound ''Federated identity credential does not exist.'', g)
         | Inr c \<Rightarrow> (Entity 200 (federatedCredShape c), g)))"

definition tlpShape :: "TokenLifetimePolicy \<Rightarrow> shape" where
  "tlpShape p = [(''@odata.type'', JStr ''#microsoft.graph.tokenLifetimePolicy''), (''id'', JStr (tlp_ID p)),
     (''displayName'', JStr (tlp_DisplayName p)), (''definition'', json_strs (tlp_Definition p)),
     (''isOrganizationDefault'', JBool (tlp_IsOrganizationDefault p))]"

definition listTLPs :: "GraphEnv \<Rightarrow> handler" where
  "listTLPs ge r tok g =
     (writeSimpleCollection ge ''policies/tokenLifetimePolicies'' (map tlpShape (ListTokenLifetimePolicies (gr_Store g))), g)"

definition getTLP :: "GraphEnv \<Rightarrow> handler" where
  "getTLP ge r tok g =
     (case GetTokenLifetimePolicy (gr_Store g) (gq_PathValue r ''id'') of
        Inl _ \<Rightarrow> (notFound ''Policy does not exist.'', g)
      | Inr p \<Rightarrow> (Entity 200 (tlpShape p), g))"

definition listAppTLPs :: "GraphEnv \<Rightarrow> handler" where
  "listAppTLPs ge r tok g =
     (let appID = gq_PathValue r ''id'' in
      case GetApp (gr_Store g) appID of
        Inl _ \<Rightarrow> (notFound ''Application does not exist.'', g)
      | Inr _ \<Rightarrow> (writeSimpleCollection ge (app_relation appID ''tokenLifetimePolicies'')
          (map tlpShape (AppTokenLifetimePolicies (gr_Store g) appID)), g))"

section \<open>The recycle bin\<close>

definition deletedODataType :: "string \<Rightarrow> string" where
  "deletedODataType t =
     (if t = DeletedTypeUser then ''#microsoft.graph.user'' else if t = DeletedTypeGroup then ''#microsoft.graph.group''
      else if t = DeletedTypeApp then ''#microsoft.graph.application'' else [])"

text \<open>\<open>None\<close> stands for a payload that is not of the row's type, which no writer of the table produces.\<close>

definition deletedShape :: "Store \<Rightarrow> DeletedItem \<Rightarrow> shape option" where
  "deletedShape s d =
     map_option (\<lambda>sh. AList.update ''deletedDateTime'' (JStr (rfc3339 (di_DeletedAt d)))
                        (with_type (deletedODataType (di_ObjectType d)) sh))
       (if di_ObjectType d = DeletedTypeUser then (case di_Payload d of DeletedUser u _ \<Rightarrow> Some (userShape u) | _ \<Rightarrow> None)
        else if di_ObjectType d = DeletedTypeGroup then (case di_Payload d of DeletedGroup gr _ \<Rightarrow> Some (groupShape gr) | _ \<Rightarrow> None)
        else if di_ObjectType d = DeletedTypeApp then (case di_Payload d of DeletedApp ae \<Rightarrow> Some (applicationDTO s (ae_App ae)) | _ \<Rightarrow> None)
        else Some [(''id'', JStr (di_ID d))])"

fun deleted_shapes :: "Store \<Rightarrow> DeletedItem list \<Rightarrow> shape list option" where
  "deleted_shapes s [] = Some []"
| "deleted_shapes s (it # its) =
     (case deletedShape s it of None \<Rightarrow> None | Some sh \<Rightarrow> map_option ((#) sh) (deleted_shapes s its))"

definition listDeleted :: "GraphEnv \<Rightarrow> string \<Rightarrow> handler" where
  "listDeleted ge objectType r tok g =
     (case parseOData (gq_Query r) of
        Inl e \<Rightarrow> (GraphError 400 ''BadRequest'' e, g)
      | Inr q \<Rightarrow>
        (case ListDeletedItems (ge_now ge) objectType (gr_Store g) of (items, s1) \<Rightarrow>
           (case deleted_shapes s1 items of
              None \<Rightarrow> (internalError, g\<lparr>gr_Store := s1\<rparr>)
            | Some shapes \<Rightarrow> (Page (contextURL ge (''directoryObjects/'' @ tl (deletedODataType objectType)))
                (writeCollection (\<lambda>s. s) q shapes), g\<lparr>gr_Store := s1\<rparr>))))"

definition getDeleted :: "GraphEnv \<Rightarrow> handler" where
  "getDeleted ge r tok g =
     (case GetDeletedItem (ge_now ge) (gq_PathValue r ''id'') (gr_Store g) of
        (Inl _, s1) \<Rightarrow> (notFound ''The deleted object does not exist.'', g\<lparr>gr_Store := s1\<rparr>)
      | (Inr it, s1) \<Rightarrow>
        (case deletedShape s1 it of
           None \<Rightarrow> (internalError, g\<lparr>gr_Store := s1\<rparr>)
         | Some sh \<Rightarrow> (Entity 200 (selectEntity s1 (gq_Query r)
             (with_context (contextURL ge ''directoryObjects/$entity'') sh)), g\<lparr>gr_Store := s1\<rparr>)))"

end
