(* ===== verification/GraphWrites.thy ===== *)
theory GraphWrites
  imports GraphReads
begin

text \<open>
  The writing handlers of the Graph surface: \<^verbatim>\<open>writes.go\<close> (users, groups, applications, membership) and the
  writing halves of \<^verbatim>\<open>consent.go\<close>, \<^verbatim>\<open>roles.go\<close>, \<^verbatim>\<open>customroles.go\<close>, \<^verbatim>\<open>customsecattr.go\<close>, \<^verbatim>\<open>adminunits.go\<close>,
  \<^verbatim>\<open>federatedcreds.go\<close>, \<^verbatim>\<open>tokenlifetime.go\<close>, \<^verbatim>\<open>authmethods.go\<close>, \<^verbatim>\<open>passwordreset.go\<close>, \<^verbatim>\<open>invitations.go\<close> and
  \<^verbatim>\<open>deleted.go\<close>.
\<close>

text \<open>The last step of most handlers: run the store operation, answer its error or go on.\<close>

definition store_step :: "'a op \<Rightarrow> (store_err \<Rightarrow> reply) \<Rightarrow> ('a \<Rightarrow> Graph \<Rightarrow> reply \<times> Graph) \<Rightarrow> Graph \<Rightarrow> reply \<times> Graph" where
  "store_step f onerr k g =
     (case f (gr_Store g) of
        (Inl e, s) \<Rightarrow> (onerr e, g\<lparr>gr_Store := s\<rparr>)
      | (Inr x, s) \<Rightarrow> k x (g\<lparr>gr_Store := s\<rparr>))"

section \<open>Users\<close>

record userWriteBody =
  ub_AccountEnabled :: "bool option"
  ub_DisplayName :: "string option"
  ub_GivenName :: "string option"
  ub_Surname :: "string option"
  ub_Mail :: "string option"
  ub_UserPrincipalName :: "string option"
  ub_CustomSecurityAttributes :: "(string \<times> (string \<times> json) list) list"
  ub_PasswordProfile :: "string option"

text \<open>\<^verbatim>\<open>map[string]map[string]any\<close> and the pointer to the password struct. Members of a repeated object are
  merged by Go; here the last object counts.\<close>

fun dec_attr_sets :: "(string \<times> json) list \<Rightarrow> (string \<times> (string \<times> json) list) list option" where
  "dec_attr_sets [] = Some []"
| "dec_attr_sets ((k, v) # ms) =
     (case as_object v of None \<Rightarrow> None | Some attrs \<Rightarrow> map_option ((#) (k, attrs)) (dec_attr_sets ms))"

definition dec_attrs :: "json \<Rightarrow> (string \<times> (string \<times> json) list) list option" where
  "dec_attrs v = (case v of JObj ms \<Rightarrow> dec_attr_sets ms | _ \<Rightarrow> None)"

definition dec_profile :: "json \<Rightarrow> string option" where
  "dec_profile v = (case v of JObj ms \<Rightarrow> str_field ms ''password'' | _ \<Rightarrow> None)"

definition user_body :: "(string \<times> json) list \<Rightarrow> userWriteBody option" where
  "user_body ms =
     (case (bool_ptr ms ''accountEnabled'', str_ptr ms ''displayName'', str_ptr ms ''givenName'', str_ptr ms ''surname'',
            str_ptr ms ''mail'', str_ptr ms ''userPrincipalName'',
            store_pointer dec_attrs None (members ms ''customSecurityAttributes''),
            store_pointer dec_profile None (members ms ''passwordProfile'')) of
        (Some en, Some dn, Some gn, Some sn, Some ml, Some upn, Some csa, Some pw) \<Rightarrow>
          Some \<lparr>ub_AccountEnabled = en, ub_DisplayName = dn, ub_GivenName = gn, ub_Surname = sn, ub_Mail = ml,
                ub_UserPrincipalName = upn, ub_CustomSecurityAttributes = (case csa of None \<Rightarrow> [] | Some a \<Rightarrow> a),
                ub_PasswordProfile = pw\<rparr>
      | _ \<Rightarrow> None)"

text \<open>The password of the body, hashed; \<open>None\<close> when hashing failed. An absent or empty one keeps the old hash.\<close>

definition new_hash :: "GraphEnv \<Rightarrow> string option \<Rightarrow> string \<Rightarrow> string option" where
  "new_hash ge profile old =
     (case profile of None \<Rightarrow> Some old | Some p \<Rightarrow> if p = [] then Some old else ge_hash ge p)"

definition createUser :: "GraphEnv \<Rightarrow> handler" where
  "createUser ge r tok g =
     (case decodeGraph user_body r of
        Inl e \<Rightarrow> (e, g)
      | Inr b \<Rightarrow>
        if or_else (ub_DisplayName b) [] = [] \<or> or_else (ub_UserPrincipalName b) [] = []
        then (badRequest ''displayName and userPrincipalName are required.'', g)
        else case new_hash ge (ub_PasswordProfile b) [] of
          None \<Rightarrow> (internalError, g)
        | Some hash \<Rightarrow>
          (let u = \<lparr>u_ID = ge_guid ge, u_TenantID = tenantOf (ge_cfg ge) tok,
                    u_UserPrincipalName = or_else (ub_UserPrincipalName b) [], u_DisplayName = or_else (ub_DisplayName b) [],
                    u_GivenName = or_else (ub_GivenName b) [], u_Surname = or_else (ub_Surname b) [],
                    u_Mail = or_else (ub_Mail b) [], u_PasswordHash = hash, u_AccountEnabled = or_else (ub_AccountEnabled b) True,
                    u_UserType = [], u_ExternalUserState = [], u_InviteRedirectURL = [], u_CreatedAt = ge_now ge, u_UpdatedAt = 0\<rparr> in
           store_step (CreateUser u) writeStoreErrGraph
             (\<lambda>_ g. (Entity 201 (with_context (contextURL ge ''users/$entity'') (userShape u)),
                     recordChange ge tok ''Add user'' ''UserManagement'' ''User'' (u_ID u) (u_DisplayName u) g)) g))"

text \<open>The nested loops over the attributes: the first refused value ends them.\<close>

fun set_attrs :: "string \<Rightarrow> (string \<times> string \<times> json) list \<Rightarrow> unit op" where
  "set_attrs uid [] s = (Inr (), s)"
| "set_attrs uid ((setName, attrName, v) # rest) s =
     (case SetUserCustomSecurityAttribute uid setName attrName v s of
        (Inl e, s1) \<Rightarrow> (Inl e, s1)
      | (Inr _, s1) \<Rightarrow> set_attrs uid rest s1)"

definition flat_attrs :: "(string \<times> (string \<times> json) list) list \<Rightarrow> (string \<times> string \<times> json) list" where
  "flat_attrs sets = concat (map (\<lambda>(setName, attrs). map (\<lambda>(n, v). (setName, n, v)) attrs) sets)"

definition patched_user :: "userWriteBody \<Rightarrow> User \<Rightarrow> User" where
  "patched_user b u =
     u\<lparr>u_DisplayName := or_else (ub_DisplayName b) (u_DisplayName u), u_GivenName := or_else (ub_GivenName b) (u_GivenName u),
       u_Surname := or_else (ub_Surname b) (u_Surname u), u_Mail := or_else (ub_Mail b) (u_Mail u),
       u_UserPrincipalName := or_else (ub_UserPrincipalName b) (u_UserPrincipalName u),
       u_AccountEnabled := or_else (ub_AccountEnabled b) (u_AccountEnabled u)\<rparr>"

definition updateUser :: "GraphEnv \<Rightarrow> handler" where
  "updateUser ge r tok g =
     (case GetUser (gr_Store g) (gq_PathValue r ''id'') of
        Inl e \<Rightarrow> (writeStoreErrGraph e, g)
      | Inr u \<Rightarrow>
        (case decodeGraph user_body r of
           Inl e \<Rightarrow> (e, g)
         | Inr b \<Rightarrow>
           store_step (set_attrs (u_ID u) (flat_attrs (ub_CustomSecurityAttributes b)))
             (\<lambda>_. badRequest ''custom security attribute'')
             (\<lambda>_ g. case new_hash ge (ub_PasswordProfile b) (u_PasswordHash u) of
                None \<Rightarrow> (internalError, g)
              | Some hash \<Rightarrow>
                (let u1 = (patched_user b u)\<lparr>u_PasswordHash := hash\<rparr> in
                 store_step (UpdateUser (ge_now ge) u1) writeStoreErrGraph
                   (\<lambda>_ g. (Empty 204, recordChange ge tok ''Update user'' ''UserManagement'' ''User'' (u_ID u1) (u_DisplayName u1) g)) g)) g))"

definition deleteUser :: "GraphEnv \<Rightarrow> handler" where
  "deleteUser ge r tok =
     store_step (SoftDeleteUser (ge_now ge) (gq_PathValue r ''id'')) writeStoreErrGraph
       (\<lambda>_ g. (Empty 204, recordChange ge tok ''Delete user'' ''UserManagement'' ''User'' (gq_PathValue r ''id'') [] g))"

section \<open>Groups\<close>

record groupWriteBody =
  gb_DisplayName :: "string option"
  gb_Description :: "string option"

definition group_body :: "(string \<times> json) list \<Rightarrow> groupWriteBody option" where
  "group_body ms =
     (case (str_ptr ms ''displayName'', str_ptr ms ''description'') of
        (Some dn, Some de) \<Rightarrow> Some \<lparr>gb_DisplayName = dn, gb_Description = de\<rparr>
      | _ \<Rightarrow> None)"

definition createGroup :: "GraphEnv \<Rightarrow> handler" where
  "createGroup ge r tok g =
     (case decodeGraph group_body r of
        Inl e \<Rightarrow> (e, g)
      | Inr b \<Rightarrow>
        if or_else (gb_DisplayName b) [] = [] then (badRequest ''displayName is required.'', g)
        else let gr = \<lparr>g_ID = ge_guid ge, g_TenantID = tenantOf (ge_cfg ge) tok, g_DisplayName = or_else (gb_DisplayName b) [],
                       g_Description = or_else (gb_Description b) [], g_CreatedAt = ge_now ge\<rparr> in
          store_step (CreateGroup gr) writeStoreErrGraph
            (\<lambda>_ g. (Entity 201 (with_context (contextURL ge ''groups/$entity'') (groupShape gr)),
                    recordChange ge tok ''Add group'' ''GroupManagement'' ''Group'' (g_ID gr) (g_DisplayName gr) g)) g)"

definition updateGroup :: "GraphEnv \<Rightarrow> handler" where
  "updateGroup ge r tok g =
     (case GetGroup (gr_Store g) (gq_PathValue r ''id'') of
        Inl e \<Rightarrow> (writeStoreErrGraph e, g)
      | Inr gr0 \<Rightarrow>
        (case decodeGraph group_body r of
           Inl e \<Rightarrow> (e, g)
         | Inr b \<Rightarrow>
           (let gr = gr0\<lparr>g_DisplayName := or_else (gb_DisplayName b) (g_DisplayName gr0),
                         g_Description := or_else (gb_Description b) (g_Description gr0)\<rparr> in
            store_step (UpdateGroup gr) writeStoreErrGraph
              (\<lambda>_ g. (Empty 204, recordChange ge tok ''Update group'' ''GroupManagement'' ''Group'' (g_ID gr) (g_DisplayName gr) g)) g)))"

definition deleteGroup :: "GraphEnv \<Rightarrow> handler" where
  "deleteGroup ge r tok =
     store_step (SoftDeleteGroup (ge_now ge) (gq_PathValue r ''id'')) writeStoreErrGraph
       (\<lambda>_ g. (Empty 204, recordChange ge tok ''Delete group'' ''GroupManagement'' ''Group'' (gq_PathValue r ''id'') [] g))"

definition after_slash :: "string \<Rightarrow> string" where
  "after_slash v = (let i = LastIndex v (CHR ''/'') in if i \<ge> 0 then slice_from v (i + 1) else v)"

definition refTailID :: "string \<Rightarrow> string" where
  "refTailID odataID = (let t = TrimSpace odataID in if t = [] then [] else after_slash t)"

abbreviation ref_body :: "(string \<times> json) list \<Rightarrow> string option" where
  "ref_body ms \<equiv> str_field ms ''@odata.id''"

text \<open>A reference names a user by id or, failing that, by UPN.\<close>

definition resolve_user_ref :: "Store \<Rightarrow> string \<Rightarrow> string" where
  "resolve_user_ref s userRef =
     (case GetUser s userRef of
        Inr _ \<Rightarrow> userRef
      | Inl _ \<Rightarrow> (case GetUserByUPN s userRef of Inr u \<Rightarrow> u_ID u | Inl _ \<Rightarrow> userRef))"

definition addGroupMember :: "GraphEnv \<Rightarrow> handler" where
  "addGroupMember ge r tok g =
     (case decodeGraph ref_body r of
        Inl e \<Rightarrow> (e, g)
      | Inr odataID \<Rightarrow>
        (let userRef = refTailID odataID; groupID = gq_PathValue r ''id'' in
         if userRef = [] then (badRequest ''@odata.id is required.'', g)
         else let userID = resolve_user_ref (gr_Store g) userRef in
           if IsGroupMember (gr_Store g) groupID userID
           then (badRequest (''One or more added object references already exist for the following modified properties: '' @ quoted ''members'' @ ''.''), g)
           else store_step (AddGroupMember groupID userID) writeStoreErrGraph
             (\<lambda>_ g. (Empty 204, recordChange ge tok ''Add member to group'' ''GroupManagement'' ''Group'' groupID [] g)) g))"

definition removeGroupMember :: "GraphEnv \<Rightarrow> handler" where
  "removeGroupMember ge r tok g =
     (case GetGroup (gr_Store g) (gq_PathValue r ''id'') of
        Inl e \<Rightarrow> (writeStoreErrGraph e, g)
      | Inr _ \<Rightarrow> store_step (RemoveGroupMember (gq_PathValue r ''id'') (gq_PathValue r ''userId'')) writeStoreErrGraph
          (\<lambda>_ g. (Empty 204, recordChange ge tok ''Remove member from group'' ''GroupManagement'' ''Group'' (gq_PathValue r ''id'') [] g)) g)"

section \<open>Applications\<close>

record applicationWriteBody =
  ab_DisplayName :: "string option"
  ab_IdentifierUris :: "string list option"
  ab_SignInAudience :: "string option"

definition application_body :: "(string \<times> json) list \<Rightarrow> applicationWriteBody option" where
  "application_body ms =
     (case (str_ptr ms ''displayName'', strs_field ms ''identifierUris'', str_ptr ms ''signInAudience'') of
        (Some dn, Some iu, Some sa) \<Rightarrow> Some \<lparr>ab_DisplayName = dn, ab_IdentifierUris = iu, ab_SignInAudience = sa\<rparr>
      | _ \<Rightarrow> None)"

definition first_uri :: "string list option \<Rightarrow> string" where
  "first_uri uris = (case uris of Some (u # _) \<Rightarrow> u | _ \<Rightarrow> [])"

definition createApplication :: "GraphEnv \<Rightarrow> handler" where
  "createApplication ge r tok g =
     (case decodeGraph application_body r of
        Inl e \<Rightarrow> (e, g)
      | Inr b \<Rightarrow>
        if or_else (ab_DisplayName b) [] = [] then (badRequest ''displayName is required.'', g)
        else let ap = \<lparr>a_ID = ge_guid ge, a_TenantID = tenantOf (ge_cfg ge) tok, a_DisplayName = or_else (ab_DisplayName b) [],
                       a_IsConfidential = False, a_AppIDURI = first_uri (ab_IdentifierUris b), a_OptionalClaims = [],
                       a_GroupMembershipClaims = ''None'', a_GroupOverageLimit = 0, a_CreatedAt = ge_now ge\<rparr> in
          store_step (CreateApp ap) writeStoreErrGraph
            (\<lambda>_ g. (Entity 201 (with_context (contextURL ge ''applications/$entity'') (applicationDTO (gr_Store g) ap)),
                    recordChange ge tok ''Add application'' ''ApplicationManagement'' ''Application'' (a_ID ap) (a_DisplayName ap) g)) g)"

definition updateApplication :: "GraphEnv \<Rightarrow> handler" where
  "updateApplication ge r tok g =
     (case GetApp (gr_Store g) (gq_PathValue r ''id'') of
        Inl e \<Rightarrow> (writeStoreErrGraph e, g)
      | Inr ap0 \<Rightarrow>
        (case decodeGraph application_body r of
           Inl e \<Rightarrow> (e, g)
         | Inr b \<Rightarrow>
           (let ap = ap0\<lparr>a_DisplayName := or_else (ab_DisplayName b) (a_DisplayName ap0),
                         a_AppIDURI := (case ab_IdentifierUris b of None \<Rightarrow> a_AppIDURI ap0 | Some us \<Rightarrow> first_uri (Some us))\<rparr> in
            store_step (UpdateApp ap) writeStoreErrGraph
              (\<lambda>_ g. (Empty 204, recordChange ge tok ''Update application'' ''ApplicationManagement'' ''Application'' (gq_PathValue r ''id'') [] g)) g)))"

definition deleteApplication :: "GraphEnv \<Rightarrow> handler" where
  "deleteApplication ge r tok =
     store_step (SoftDeleteApp (ge_now ge) (gq_PathValue r ''id'')) writeStoreErrGraph
       (\<lambda>_ g. (Empty 204, recordChange ge tok ''Delete application'' ''ApplicationManagement'' ''Application'' (gq_PathValue r ''id'') [] g))"

section \<open>Consent and roles\<close>

record oauth2GrantBody =
  ob_ClientID :: string
  ob_ConsentType :: string
  ob_ResourceID :: string
  ob_PrincipalID :: string
  ob_Scope :: string

definition grant_body :: "(string \<times> json) list \<Rightarrow> oauth2GrantBody option" where
  "grant_body ms =
     (case (str_field ms ''clientId'', str_field ms ''consentType'', str_field ms ''resourceId'', str_field ms ''principalId'',
            str_field ms ''scope'') of
        (Some c, Some t, Some rs, Some p, Some sc) \<Rightarrow>
          Some \<lparr>ob_ClientID = c, ob_ConsentType = t, ob_ResourceID = rs, ob_PrincipalID = p, ob_Scope = sc\<rparr>
      | _ \<Rightarrow> None)"

definition createOAuth2Grant :: "GraphEnv \<Rightarrow> handler" where
  "createOAuth2Grant ge r tok g =
     (case decodeGraph grant_body r of
        Inl e \<Rightarrow> (e, g)
      | Inr b \<Rightarrow>
        if ob_ClientID b = [] \<or> ob_ResourceID b = [] \<or> ob_Scope b = []
        then (badRequest ''clientId, resourceId, and scope are required.'', g)
        else let ct = (if ob_ConsentType b = [] then ''AllPrincipals'' else ob_ConsentType b) in
          if ct = ''Principal'' \<and> ob_PrincipalID b = []
          then (badRequest ''principalId is required when consentType is Principal.'', g)
          else let grant = \<lparr>og_ID = ge_guid ge, og_ClientID = ob_ClientID b, og_ConsentType = ct, og_ResourceID = ob_ResourceID b,
                            og_PrincipalID = ob_PrincipalID b, og_Scope = TrimSpace (ob_Scope b), og_CreatedAt = ge_now ge\<rparr> in
            store_step (CreateOAuth2Grant grant) writeStoreErrGraph
              (\<lambda>_ g. (Entity 201 (with_context (contextURL ge ''oauth2PermissionGrants/$entity'') (o2pgShape grant)), g)) g)"

definition deleteOAuth2Grant :: "GraphEnv \<Rightarrow> handler" where
  "deleteOAuth2Grant ge r tok =
     store_step (DeleteOAuth2Grant (gq_PathValue r ''id'')) writeStoreErrGraph (\<lambda>_ g. (Empty 204, g))"

record assignmentBody =
  sb_PrincipalID :: string
  sb_PrincipalType :: string
  sb_ResourceID :: string
  sb_AppRoleID :: string

definition assignment_body :: "(string \<times> json) list \<Rightarrow> assignmentBody option" where
  "assignment_body ms =
     (case (str_field ms ''principalId'', str_field ms ''principalType'', str_field ms ''resourceId'', str_field ms ''appRoleId'') of
        (Some p, Some t, Some rs, Some a) \<Rightarrow>
          Some \<lparr>sb_PrincipalID = p, sb_PrincipalType = t, sb_ResourceID = rs, sb_AppRoleID = a\<rparr>
      | _ \<Rightarrow> None)"

definition createAppRoleAssignment :: "GraphEnv \<Rightarrow> handler" where
  "createAppRoleAssignment ge r tok g =
     (let resourceID = gq_PathValue r ''id'' in
      case decodeGraph assignment_body r of
        Inl e \<Rightarrow> (e, g)
      | Inr b \<Rightarrow>
        if sb_PrincipalID b = [] then (badRequest ''principalId is required.'', g)
        else let a = \<lparr>ara_ID = ge_guid ge, ara_PrincipalID = sb_PrincipalID b,
              ara_PrincipalType = (if sb_PrincipalType b = []
                then (case GetUser (gr_Store g) (sb_PrincipalID b) of Inr _ \<Rightarrow> ''User'' | Inl _ \<Rightarrow> ''ServicePrincipal'')
                else sb_PrincipalType b),
              ara_ResourceID = (if sb_ResourceID b = [] then resourceID else sb_ResourceID b),
              ara_AppRoleID = (if sb_AppRoleID b = [] then ZeroGUID else sb_AppRoleID b), ara_CreatedAt = ge_now ge\<rparr> in
          store_step (CreateAppRoleAssignment a) writeStoreErrGraph
            (\<lambda>_ g. (Entity 201 (with_context
                (contextURL ge (''servicePrincipals('' @ quoted resourceID @ '')/appRoleAssignedTo/$entity''))
                (araShape (gr_Store g) a)), g)) g)"

definition deleteAppRoleAssignment :: "GraphEnv \<Rightarrow> handler" where
  "deleteAppRoleAssignment ge r tok =
     store_step (DeleteAppRoleAssignment (gq_PathValue r ''assignmentId'')) writeStoreErrGraph (\<lambda>_ g. (Empty 204, g))"

definition createRoleAssignment :: "GraphEnv \<Rightarrow> handler" where
  "createRoleAssignment ge r tok g =
     (case decodeGraph (\<lambda>ms. case (str_field ms ''roleDefinitionId'', str_field ms ''principalId'', str_field ms ''directoryScopeId'') of
             (Some d, Some p, Some sc) \<Rightarrow> Some (d, p, sc) | _ \<Rightarrow> None) r of
        Inl e \<Rightarrow> (e, g)
      | Inr (d, p, sc) \<Rightarrow>
        if d = [] \<or> p = [] then (badRequest ''roleDefinitionId and principalId are required.'', g)
        else if roleDefByID d = None \<and> (case GetCustomRoleDefinition (gr_Store g) d of Inl _ \<Rightarrow> True | Inr _ \<Rightarrow> False)
        then (badRequest ''Unknown roleDefinitionId.'', g)
        else let a = \<lparr>dra_ID = ge_guid ge, dra_RoleDefinitionID = d, dra_PrincipalID = p,
                      dra_DirectoryScopeID = (if sc = [] then ''/'' else sc), dra_CreatedAt = ge_now ge\<rparr> in
          store_step (CreateDirectoryRoleAssignment a) writeStoreErrGraph
            (\<lambda>_ g. (Entity 201 (with_context (contextURL ge ''roleManagement/directory/roleAssignments/$entity'')
                      (roleAssignmentShape a)), g)) g)"

definition deleteRoleAssignment :: "GraphEnv \<Rightarrow> handler" where
  "deleteRoleAssignment ge r tok =
     store_step (DeleteDirectoryRoleAssignment (gq_PathValue r ''id'')) writeStoreErrGraph (\<lambda>_ g. (Empty 204, g))"

record roleDefBody =
  rb_DisplayName :: string
  rb_Description :: string
  rb_IsEnabled :: "bool option"
  rb_RolePermissions :: "string list option"

definition role_def_body :: "(string \<times> json) list \<Rightarrow> roleDefBody option" where
  "role_def_body ms =
     (case (str_field ms ''displayName'', str_field ms ''description'', bool_ptr ms ''isEnabled'', strs_field ms ''rolePermissions'') of
        (Some dn, Some de, Some en, Some rp) \<Rightarrow>
          Some \<lparr>rb_DisplayName = dn, rb_Description = de, rb_IsEnabled = en, rb_RolePermissions = rp\<rparr>
      | _ \<Rightarrow> None)"

definition createRoleDefinition :: "GraphEnv \<Rightarrow> handler" where
  "createRoleDefinition ge r tok g =
     (case decodeGraph role_def_body r of
        Inl e \<Rightarrow> (e, g)
      | Inr b \<Rightarrow>
        if rb_DisplayName b = [] then (badRequest ''displayName is required.'', g)
        else let d = \<lparr>rd_ID = ge_guid ge, rd_DisplayName = rb_DisplayName b, rd_Description = rb_Description b,
                      rd_IsEnabled = or_else (rb_IsEnabled b) True, rd_RolePermissions = or_else (rb_RolePermissions b) [],
                      rd_CreatedAt = ge_now ge\<rparr> in
          store_step (CreateCustomRoleDefinition d) (\<lambda>_. internalError)
            (\<lambda>_ g. (Entity 201 (with_context (contextURL ge ''roleManagement/directory/roleDefinitions/$entity'')
                      (customRoleShape d)), g)) g)"

definition updateRoleDefinition :: "GraphEnv \<Rightarrow> handler" where
  "updateRoleDefinition ge r tok g =
     (let i = gq_PathValue r ''id'' in
      if roleDefByID i \<noteq> None
      then (GraphError 403 ''Authorization_RequestDenied'' ''Built-in role definitions cannot be modified.'', g)
      else case GetCustomRoleDefinition (gr_Store g) i of
        Inl _ \<Rightarrow> (notFound ''Role definition does not exist.'', g)
      | Inr d0 \<Rightarrow>
        (case decodeGraph role_def_body r of
           Inl e \<Rightarrow> (e, g)
         | Inr b \<Rightarrow>
           (let d = d0\<lparr>rd_DisplayName := coalesceStr (rb_DisplayName b) (rd_DisplayName d0),
                       rd_Description := coalesceStr (rb_Description b) (rd_Description d0),
                       rd_IsEnabled := or_else (rb_IsEnabled b) (rd_IsEnabled d0),
                       rd_RolePermissions := or_else (rb_RolePermissions b) (rd_RolePermissions d0)\<rparr> in
            store_step (UpdateCustomRoleDefinition d) (\<lambda>_. internalError) (\<lambda>_ g. (Entity 200 (customRoleShape d), g)) g)))"

definition deleteRoleDefinition :: "GraphEnv \<Rightarrow> handler" where
  "deleteRoleDefinition ge r tok g =
     (let i = gq_PathValue r ''id'' in
      if roleDefByID i \<noteq> None
      then (GraphError 403 ''Authorization_RequestDenied'' ''Built-in role definitions cannot be deleted.'', g)
      else store_step (DeleteCustomRoleDefinition i) (\<lambda>_. notFound ''Role definition does not exist.'') (\<lambda>_ g. (Empty 204, g)) g)"

section \<open>Custom security attributes and administrative units\<close>

definition createAttributeSet :: "GraphEnv \<Rightarrow> handler" where
  "createAttributeSet ge r tok g =
     (case decodeGraph (\<lambda>ms. case (str_field ms ''id'', str_field ms ''description'',
             store_pointer dec_int None (members ms ''maxAttributesPerSet'')) of
             (Some i, Some d, Some m) \<Rightarrow> Some \<lparr>at_ID = i, at_Description = d, at_MaxAttributesPerSet = m\<rparr> | _ \<Rightarrow> None) r of
        Inl e \<Rightarrow> (e, g)
      | Inr a \<Rightarrow>
        if at_ID a = [] then (badRequest ''id is required.'', g)
        else store_step (CreateAttributeSet a) (\<lambda>_. GraphError 409 ''Request_BadRequest'' ''Attribute set already exists.'')
          (\<lambda>_ g. (Entity 201 (attributeSetShape a), g)) g)"

record csaDefBody =
  xb_AttributeSet :: string
  xb_Name :: string
  xb_Description :: string
  xb_Type :: string
  xb_Status :: string
  xb_IsCollection :: bool
  xb_IsSearchable :: "bool option"

definition csa_def_body :: "(string \<times> json) list \<Rightarrow> csaDefBody option" where
  "csa_def_body ms =
     (case (str_field ms ''attributeSet'', str_field ms ''name'', str_field ms ''description'', str_field ms ''type'',
            str_field ms ''status'', bool_field ms ''isCollection'', bool_ptr ms ''isSearchable'') of
        (Some a, Some n, Some d, Some t, Some st, Some c, Some se) \<Rightarrow>
          Some \<lparr>xb_AttributeSet = a, xb_Name = n, xb_Description = d, xb_Type = t, xb_Status = st, xb_IsCollection = c,
                xb_IsSearchable = se\<rparr>
      | _ \<Rightarrow> None)"

definition createCSADef :: "GraphEnv \<Rightarrow> handler" where
  "createCSADef ge r tok g =
     (case decodeGraph csa_def_body r of
        Inl e \<Rightarrow> (e, g)
      | Inr b \<Rightarrow>
        if xb_AttributeSet b = [] \<or> xb_Name b = [] then (badRequest ''attributeSet and name are required.'', g)
        else if xb_Type b \<notin> {''String'', ''Integer'', ''Boolean''}
        then (badRequest ''type must be String, Integer or Boolean.'', g)
        else let d = \<lparr>sd_ID = [], sd_AttributeSet = xb_AttributeSet b, sd_Name = xb_Name b, sd_Description = xb_Description b,
                      sd_Type = xb_Type b, sd_Status = coalesceStr (xb_Status b) ''Available'',
                      sd_IsCollection = xb_IsCollection b, sd_IsSearchable = or_else (xb_IsSearchable b) True\<rparr> in
          store_step (CreateCSADefinition d)
            (\<lambda>_. badRequest ''Could not create the definition: its attribute set must exist and the name must be unique within it.'')
            (\<lambda>_ g. (Entity 201 (csaDefShape (d\<lparr>sd_ID := csa_id (sd_AttributeSet d) (sd_Name d)\<rparr>)), g)) g)"

record adminUnitBody =
  nb_DisplayName :: string
  nb_Description :: string
  nb_Visibility :: string

definition admin_unit_body :: "(string \<times> json) list \<Rightarrow> adminUnitBody option" where
  "admin_unit_body ms =
     (case (str_field ms ''displayName'', str_field ms ''description'', str_field ms ''visibility'') of
        (Some dn, Some de, Some v) \<Rightarrow> Some \<lparr>nb_DisplayName = dn, nb_Description = de, nb_Visibility = v\<rparr>
      | _ \<Rightarrow> None)"

definition bad_visibility :: "string \<Rightarrow> bool" where
  "bad_visibility v \<longleftrightarrow> v \<noteq> [] \<and> v \<noteq> ''Public'' \<and> v \<noteq> ''HiddenMembership''"

definition createAdminUnit :: "GraphEnv \<Rightarrow> handler" where
  "createAdminUnit ge r tok g =
     (case decodeGraph admin_unit_body r of
        Inl e \<Rightarrow> (e, g)
      | Inr b \<Rightarrow>
        if nb_DisplayName b = [] then (badRequest ''displayName is required.'', g)
        else if bad_visibility (nb_Visibility b) then (badRequest ''visibility must be Public or HiddenMembership.'', g)
        else let a = \<lparr>au_ID = ge_guid ge, au_DisplayName = nb_DisplayName b, au_Description = nb_Description b,
                      au_Visibility = nb_Visibility b, au_CreatedAt = ge_now ge\<rparr> in
          store_step (CreateAdministrativeUnit a) (\<lambda>_. internalError)
            (\<lambda>_ g. (Entity 201 (with_context (contextURL ge ''directory/administrativeUnits/$entity'')
                      (adminUnitShape (norm_au a))), g)) g)"

definition updateAdminUnit :: "GraphEnv \<Rightarrow> handler" where
  "updateAdminUnit ge r tok g =
     (case GetAdministrativeUnit (gr_Store g) (gq_PathValue r ''id'') of
        Inl _ \<Rightarrow> (notFound ''Administrative unit does not exist.'', g)
      | Inr a0 \<Rightarrow>
        (case decodeGraph admin_unit_body r of
           Inl e \<Rightarrow> (e, g)
         | Inr b \<Rightarrow>
           if bad_visibility (nb_Visibility b) then (badRequest ''visibility must be Public or HiddenMembership.'', g)
           else let a = a0\<lparr>au_DisplayName := coalesceStr (nb_DisplayName b) (au_DisplayName a0),
                           au_Description := coalesceStr (nb_Description b) (au_Description a0),
                           au_Visibility := coalesceStr (nb_Visibility b) (au_Visibility a0)\<rparr> in
             store_step (UpdateAdministrativeUnit a) (\<lambda>_. internalError) (\<lambda>_ g. (Entity 200 (adminUnitShape a), g)) g))"

definition deleteAdminUnit :: "GraphEnv \<Rightarrow> handler" where
  "deleteAdminUnit ge r tok =
     store_step (DeleteAdministrativeUnit (gq_PathValue r ''id'')) (\<lambda>_. notFound ''Administrative unit does not exist.'')
       (\<lambda>_ g. (Empty 204, g))"

definition addAdminUnitMember :: "GraphEnv \<Rightarrow> handler" where
  "addAdminUnitMember ge r tok g =
     (case decodeGraph ref_body r of
        Inl e \<Rightarrow> (e, g)
      | Inr odataID \<Rightarrow>
        (let memberID = after_slash odataID in
         if memberID = [] then (badRequest ''@odata.id is required.'', g)
         else store_step (AddAdminUnitMember (gq_PathValue r ''id'') memberID)
           (\<lambda>_. notFound ''The administrative unit or the member object does not exist.'') (\<lambda>_ g. (Empty 204, g)) g))"

definition removeAdminUnitMember :: "GraphEnv \<Rightarrow> handler" where
  "removeAdminUnitMember ge r tok =
     store_step (RemoveAdminUnitMember (gq_PathValue r ''id'') (gq_PathValue r ''memberId''))
       (\<lambda>_. notFound ''Membership does not exist.'') (\<lambda>_ g. (Empty 204, g))"

section \<open>Credentials and policies of an application\<close>

record federatedCredBody =
  fb_Name :: string
  fb_Issuer :: string
  fb_Subject :: string
  fb_Audiences :: "string list option"
  fb_Description :: string

definition federated_body :: "(string \<times> json) list \<Rightarrow> federatedCredBody option" where
  "federated_body ms =
     (case (str_field ms ''name'', str_field ms ''issuer'', str_field ms ''subject'', strs_field ms ''audiences'',
            str_field ms ''description'') of
        (Some n, Some i, Some sj, Some au, Some d) \<Rightarrow>
          Some \<lparr>fb_Name = n, fb_Issuer = i, fb_Subject = sj, fb_Audiences = au, fb_Description = d\<rparr>
      | _ \<Rightarrow> None)"

text \<open>\<^verbatim>\<open>CreateFederatedCredential\<close> sets the default audience in the struct it is given, and the response shows
  that struct, not the row.\<close>

definition createFederatedCred :: "GraphEnv \<Rightarrow> handler" where
  "createFederatedCred ge r tok g =
     (case appForFIC r g of
        Inl e \<Rightarrow> (e, g)
      | Inr appID \<Rightarrow>
        (case decodeGraph federated_body r of
           Inl e \<Rightarrow> (e, g)
         | Inr b \<Rightarrow>
           if fb_Name b = [] \<or> fb_Issuer b = [] \<or> fb_Subject b = [] then (badRequest ''name, issuer and subject are required.'', g)
           else let c = \<lparr>fc_ID = ge_guid ge, fc_AppID = appID, fc_Name = fb_Name b, fc_Issuer = fb_Issuer b,
                         fc_Subject = fb_Subject b, fc_Audiences = or_else (fb_Audiences b) [], fc_Description = fb_Description b,
                         fc_CreatedAt = ge_now ge\<rparr> in
             store_step (CreateFederatedCredential c)
               (\<lambda>_. GraphError 409 ''Request_BadRequest'' ''A federated identity credential with that name already exists on this application.'')
               (\<lambda>_ g. (Entity 201 (with_context (contextURL ge (app_relation appID ''federatedIdentityCredentials/$entity''))
                  (federatedCredShape (c\<lparr>fc_Audiences := (if fc_Audiences c = [] then [DefaultFederatedAudience] else fc_Audiences c)\<rparr>))), g)) g))"

definition patchFederatedCred :: "GraphEnv \<Rightarrow> handler" where
  "patchFederatedCred ge r tok g =
     (case appForFIC r g of
        Inl e \<Rightarrow> (e, g)
      | Inr appID \<Rightarrow>
        (case GetFederatedCredential (gr_Store g) appID (gq_PathValue r ''ficId'') of
           Inl _ \<Rightarrow> (notFound ''Federated identity credential does not exist.'', g)
         | Inr c \<Rightarrow>
           (case decodeGraph federated_body r of
              Inl e \<Rightarrow> (e, g)
            | Inr b \<Rightarrow>
              store_step (UpdateFederatedCredential (c\<lparr>fc_Issuer := coalesceStr (fb_Issuer b) (fc_Issuer c),
                  fc_Subject := coalesceStr (fb_Subject b) (fc_Subject c), fc_Audiences := or_else (fb_Audiences b) (fc_Audiences c),
                  fc_Description := coalesceStr (fb_Description b) (fc_Description c)\<rparr>))
                (\<lambda>_. internalError) (\<lambda>_ g. (Empty 204, g)) g)))"

definition deleteFederatedCred :: "GraphEnv \<Rightarrow> handler" where
  "deleteFederatedCred ge r tok g =
     (case appForFIC r g of
        Inl e \<Rightarrow> (e, g)
      | Inr appID \<Rightarrow> store_step (DeleteFederatedCredential appID (gq_PathValue r ''ficId''))
          (\<lambda>_. notFound ''Federated identity credential does not exist.'') (\<lambda>_ g. (Empty 204, g)) g)"

definition createTLP :: "GraphEnv \<Rightarrow> handler" where
  "createTLP ge r tok g =
     (case decodeGraph (\<lambda>ms. case (str_field ms ''displayName'', strs_field ms ''definition'', bool_field ms ''isOrganizationDefault'') of
             (Some dn, Some de, Some od) \<Rightarrow> Some (dn, or_else de [], od) | _ \<Rightarrow> None) r of
        Inl e \<Rightarrow> (e, g)
      | Inr (dn, de, od) \<Rightarrow>
        if dn = [] \<or> de = [] then (badRequest ''displayName and definition are required.'', g)
        else let p = \<lparr>tlp_ID = ge_guid ge, tlp_DisplayName = dn, tlp_Definition = de, tlp_IsOrganizationDefault = od,
                      tlp_CreatedAt = ge_now ge\<rparr>;
                 lt = EffectiveFromPolicy (env_policy (ge_env ge)) p in
          if pl_AccessToken lt = 0 \<and> pl_IDToken lt = 0 \<and> pl_RefreshToken lt = 0
          then (badRequest ''definition sets no recognised lifetime; expected a TokenLifetimePolicy with a [d.]hh:mm:ss duration.'', g)
          else store_step (CreateTokenLifetimePolicy p) (\<lambda>_. internalError) (\<lambda>_ g. (Entity 201 (tlpShape p), g)) g)"

definition deleteTLP :: "GraphEnv \<Rightarrow> handler" where
  "deleteTLP ge r tok =
     store_step (DeleteTokenLifetimePolicy (gq_PathValue r ''id'')) (\<lambda>_. notFound ''Policy does not exist.'') (\<lambda>_ g. (Empty 204, g))"

definition assignTLP :: "GraphEnv \<Rightarrow> handler" where
  "assignTLP ge r tok g =
     (let appID = gq_PathValue r ''id'' in
      case GetApp (gr_Store g) appID of
        Inl _ \<Rightarrow> (notFound ''Application does not exist.'', g)
      | Inr _ \<Rightarrow>
        (case decodeGraph ref_body r of
           Inl e \<Rightarrow> (e, g)
         | Inr odataID \<Rightarrow> store_step (AssignTokenLifetimePolicy appID (after_slash odataID))
             (\<lambda>_. notFound ''Policy does not exist.'') (\<lambda>_ g. (Empty 204, g)) g))"

definition unassignTLP :: "GraphEnv \<Rightarrow> handler" where
  "unassignTLP ge r tok =
     store_step (UnassignTokenLifetimePolicy (gq_PathValue r ''id'') (gq_PathValue r ''policyId''))
       (\<lambda>_. notFound ''Assignment does not exist.'') (\<lambda>_ g. (Empty 204, g))"

section \<open>Passwords, passkeys and invitations\<close>

definition deleteFido2Method :: "GraphEnv \<Rightarrow> handler" where
  "deleteFido2Method ge r tok =
     store_step (DeleteWebAuthnCredential (gq_PathValue r ''id'') (gq_PathValue r ''methodId'')) writeStoreErrGraph (\<lambda>_ g. (Empty 204, g))"

text \<open>Response headers are not modelled.\<close>

definition resetPassword :: "GraphEnv \<Rightarrow> handler" where
  "resetPassword ge r tok g =
     (if gq_PathValue r ''methodId'' \<noteq> passwordMethodID then (notFound ''Password authentication method does not exist.'', g)
      else case GetUser (gr_Store g) (gq_PathValue r ''id'') of
        Inl _ \<Rightarrow> (notFound ''User does not exist.'', g)
      | Inr u \<Rightarrow>
        (case (if gq_ContentLength r > 0 then decodeGraph (\<lambda>ms. str_field ms ''newPassword'') r else Inr []) of
           Inl e \<Rightarrow> (e, g)
         | Inr pw \<Rightarrow>
           (let generated = (pw = []); newPassword = (if generated then ge_opaque ge @ ''aA1!'' else pw) in
            case ge_hash ge newPassword of
              None \<Rightarrow> (internalError, g)
            | Some hash \<Rightarrow>
              store_step (UpdateUser (ge_now ge) (u\<lparr>u_PasswordHash := hash\<rparr>)) (\<lambda>_. internalError)
                (\<lambda>_ g. (if generated
                   then Entity 202 [(''@odata.context'', JStr (contextURL ge ''microsoft.graph.passwordResetResponse'')),
                                    (''newPassword'', JStr newPassword)]
                   else Empty 202, g)) g)))"

definition guestUPN :: "string \<Rightarrow> string \<Rightarrow> string" where
  "guestUPN email domain = map (\<lambda>c. if c = CHR ''@'' then CHR ''_'' else c) email @ ''#EXT#@'' @ domain"

definition tenantDomain :: "GraphEnv \<Rightarrow> string" where
  "tenantDomain ge =
     (if ge_loginHost ge \<noteq> [] then map (\<lambda>c. if c = CHR '':'' then CHR ''-'' else c) (ge_loginHost ge) else ''entraemulator.dev'')"

record invitationBody =
  ib_Email :: string
  ib_RedirectURL :: string
  ib_DisplayName :: string
  ib_Type :: string
  ib_SendMessage :: bool

definition invitation_body :: "(string \<times> json) list \<Rightarrow> invitationBody option" where
  "invitation_body ms =
     (case (str_field ms ''invitedUserEmailAddress'', str_field ms ''inviteRedirectUrl'', str_field ms ''invitedUserDisplayName'',
            str_field ms ''invitedUserType'', bool_field ms ''sendInvitationMessage'') of
        (Some e, Some u, Some d, Some t, Some m) \<Rightarrow>
          Some \<lparr>ib_Email = e, ib_RedirectURL = u, ib_DisplayName = d, ib_Type = t, ib_SendMessage = m\<rparr>
      | _ \<Rightarrow> None)"

text \<open>A GUID needs no escaping in the redeem link.\<close>

definition createInvitation :: "GraphEnv \<Rightarrow> handler" where
  "createInvitation ge r tok g =
     (case decodeGraph invitation_body r of
        Inl e \<Rightarrow> (e, g)
      | Inr b \<Rightarrow>
        if ib_Email b = [] \<or> ib_RedirectURL b = []
        then (badRequest ''invitedUserEmailAddress and inviteRedirectUrl are required.'', g)
        else let userType = coalesceStr (ib_Type b) ''Guest''; display = coalesceStr (ib_DisplayName b) (ib_Email b) in
          if userType \<noteq> ''Guest'' \<and> userType \<noteq> ''Member'' then (badRequest ''invitedUserType must be Guest or Member.'', g)
          else let guest = \<lparr>u_ID = ge_guid ge, u_TenantID = cf_TenantID (ge_cfg ge),
                   u_UserPrincipalName = guestUPN (ib_Email b) (tenantDomain ge), u_DisplayName = display, u_GivenName = [],
                   u_Surname = [], u_Mail = ib_Email b, u_PasswordHash = [], u_AccountEnabled = True, u_UserType = userType,
                   u_ExternalUserState = ''PendingAcceptance'', u_InviteRedirectURL = ib_RedirectURL b,
                   u_CreatedAt = ge_now ge, u_UpdatedAt = 0\<rparr> in
            store_step (CreateUser guest) (\<lambda>_. badRequest ''Could not invite this address'')
              (\<lambda>_ g. (Entity 201 [(''@odata.context'', JStr (contextURL ge ''invitations/$entity'')), (''id'', JStr (ge_guid2 ge)),
                 (''inviteRedeemUrl'', JStr (graph_base (ge_cfg ge) @ ''/invitations/redeem?id='' @ u_ID guest)),
                 (''invitedUserEmailAddress'', JStr (ib_Email b)), (''invitedUserDisplayName'', JStr display),
                 (''invitedUserType'', JStr userType), (''inviteRedirectUrl'', JStr (ib_RedirectURL b)),
                 (''sendInvitationMessage'', JBool (ib_SendMessage b)), (''status'', JStr ''PendingAcceptance''),
                 (''invitedUser'', JObj [(''id'', JStr (u_ID guest))])], g)) g)"

text \<open>Redemption has no bearer gate.\<close>

definition redeemInvitation :: "GraphEnv \<Rightarrow> GraphRequest \<Rightarrow> Graph \<Rightarrow> reply \<times> Graph" where
  "redeemInvitation ge r g =
     (case GetUser (gr_Store g) (gq_Query r ''id'') of
        Inl _ \<Rightarrow> (notFound ''Invitation does not exist.'', g)
      | Inr u \<Rightarrow>
        (let done = (\<lambda>g. (if u_InviteRedirectURL u \<noteq> [] then Redirect (u_InviteRedirectURL u)
               else Entity 200 [(''id'', JStr (u_ID u)), (''externalUserState'', JStr ''Accepted'')], g)) in
         if u_ExternalUserState u \<noteq> ''Accepted'' then
           store_step (UpdateUser (ge_now ge) (u\<lparr>u_ExternalUserState := ''Accepted''\<rparr>)) (\<lambda>_. internalError) (\<lambda>_ g. done g) g
         else done g))"

section \<open>The recycle bin\<close>

definition restoreDeleted :: "GraphEnv \<Rightarrow> handler" where
  "restoreDeleted ge r tok =
     store_step (RestoreDeletedItem (ge_now ge) (gq_PathValue r ''id'')) writeStoreErrGraph
       (\<lambda>it g. case deletedShape (gr_Store g) it of
          None \<Rightarrow> (internalError, g)
        | Some sh \<Rightarrow> (Entity 200 (with_context (contextURL ge ''directoryObjects/$entity'') (AList.delete ''deletedDateTime'' sh)), g))"

definition purgeDeleted :: "GraphEnv \<Rightarrow> handler" where
  "purgeDeleted ge r tok =
     store_step (PurgeDeletedItem (ge_now ge) (gq_PathValue r ''id'')) writeStoreErrGraph (\<lambda>_ g. (Empty 204, g))"

end
