(* ===== verification/CaseFold.thy ===== *)
theory CaseFold
  imports OData Codec
begin

text \<open>
  \<^verbatim>\<open>internal/graph/casefold.go\<close>: the wrapper in front of the router that rewrites the spelling of a Graph
  path to the registered one. The escaped path and the raw query of a URL are kept as Go keeps them;
  \<^verbatim>\<open>url.PathUnescape\<close>, \<^verbatim>\<open>url.QueryUnescape\<close> and \<^verbatim>\<open>url.QueryEscape\<close> are written out.
\<close>

section \<open>Percent encoding\<close>

definition unhex :: "char \<Rightarrow> nat option" where
  "unhex c =
     (let n = of_char c in
      if 48 \<le> n \<and> n \<le> 57 then Some (n - 48) else if 97 \<le> n \<and> n \<le> 102 then Some (n - 87)
      else if 65 \<le> n \<and> n \<le> 70 then Some (n - 55) else None)"

text \<open>\<open>inq\<close> distinguishes the query component, where \<^verbatim>\<open>+\<close> is a space.\<close>

fun unescape :: "bool \<Rightarrow> string \<Rightarrow> string option" where
  "unescape inq [] = Some []"
| "unescape inq (c # cs) =
     (if c = CHR ''%'' then
        (case cs of
           a # b # rest \<Rightarrow>
             (case (unhex a, unhex b) of
                (Some h, Some l) \<Rightarrow> map_option ((#) (char_of (16 * h + l))) (unescape inq rest)
              | _ \<Rightarrow> None)
         | _ \<Rightarrow> None)
      else map_option ((#) (if inq \<and> c = CHR ''+'' then CHR '' '' else c)) (unescape inq cs))"

definition PathUnescape :: "string \<Rightarrow> string option" where
  "PathUnescape s = unescape False s"

definition QueryUnescape :: "string \<Rightarrow> string option" where
  "QueryUnescape s = unescape True s"

definition unreserved :: "char \<Rightarrow> bool" where
  "unreserved c \<longleftrightarrow> re_word c \<or> c \<in> {CHR ''-'', CHR ''.'', CHR ''~''}"

definition upper_hex :: "nat \<Rightarrow> char" where
  "upper_hex i = (if i < 10 then char_of (48 + i) else char_of (55 + i))"

definition QueryEscape :: "string \<Rightarrow> string" where
  "QueryEscape s = concat (map (\<lambda>c. if unreserved c then [c] else if c = CHR '' '' then ''+''
     else [CHR ''%'', upper_hex (of_char c div 16), upper_hex (of_char c mod 16)]) s)"

section \<open>The folder\<close>

record foldSeg =
  fs_lit :: string
  fs_wild :: bool

record foldPattern =
  fp_method :: string
  fp_segs :: "foldSeg list"

definition allows :: "foldPattern \<Rightarrow> string \<Rightarrow> bool" where
  "allows p meth \<longleftrightarrow> fp_method p = [] \<or> fp_method p = meth \<or> (fp_method p = ''GET'' \<and> meth = ''HEAD'')"

text \<open>The loop of \<^verbatim>\<open>moreSpecific\<close>; it is only asked about patterns of the same length.\<close>

fun specific_loop :: "foldSeg list \<Rightarrow> foldSeg list \<Rightarrow> bool" where
  "specific_loop (a # as) (b # bs) = (if fs_wild a \<noteq> fs_wild b then \<not> fs_wild a else specific_loop as bs)"
| "specific_loop _ _ = False"

definition moreSpecific :: "foldPattern \<Rightarrow> foldPattern \<Rightarrow> bool" where
  "moreSpecific a b = specific_loop (fp_segs a) (fp_segs b)"

record CaseFolder =
  fo_prefix :: string
  fo_pats :: "foldPattern list"

definition NewCaseFolder :: "string \<Rightarrow> CaseFolder" where
  "NewCaseFolder prefix = \<lparr>fo_prefix = prefix, fo_pats = []\<rparr>"

definition learn_seg :: "string \<Rightarrow> foldSeg option" where
  "learn_seg s =
     (if HasPrefix s ''{'' then
        (if \<not> HasSuffix s ''}'' \<or> ContainsStr s ''...'' \<or> ContainsStr s ''$'' then None
         else Some \<lparr>fs_lit = [], fs_wild = True\<rparr>)
      else Some \<lparr>fs_lit = s, fs_wild = False\<rparr>)"

fun learn_segs :: "string list \<Rightarrow> foldSeg list option" where
  "learn_segs [] = Some []"
| "learn_segs (s # ss) = (case learn_seg s of None \<Rightarrow> None | Some x \<Rightarrow> map_option ((#) x) (learn_segs ss))"

definition split_pattern :: "string \<Rightarrow> string \<times> string" where
  "split_pattern pattern =
     (let i = IndexByte pattern (CHR '' '') in
      if i \<ge> 0 then (slice_to pattern i, TrimSpace (slice_from pattern (i + 1))) else ([], pattern))"

text \<open>\<open>None\<close> is the panic that stops registration.\<close>

definition learn :: "string \<Rightarrow> CaseFolder \<Rightarrow> CaseFolder option" where
  "learn pattern f =
     (case split_pattern pattern of (meth, path) \<Rightarrow>
        if \<not> HasPrefix path (fo_prefix f @ ''/v1.0/'') then Some f
        else case learn_segs (SplitChar (TrimPrefix path (fo_prefix f @ ''/'')) (CHR ''/'')) of
          None \<Rightarrow> None
        | Some segs \<Rightarrow> Some (f\<lparr>fo_pats := fo_pats f @ [\<lparr>fp_method = meth, fp_segs = segs\<rparr>]\<rparr>))"

fun learn_all :: "string list \<Rightarrow> CaseFolder \<Rightarrow> CaseFolder option" where
  "learn_all [] f = Some f"
| "learn_all (p # ps) f = (case learn p f of None \<Rightarrow> None | Some f1 \<Rightarrow> learn_all ps f1)"

text \<open>The search loop of \<^verbatim>\<open>match\<close>: a candidate replaces the best one so far when it is better.\<close>

fun best_of :: "('p \<Rightarrow> 'p \<Rightarrow> bool) \<Rightarrow> ('p \<Rightarrow> bool) \<Rightarrow> 'p option \<Rightarrow> 'p list \<Rightarrow> 'p option" where
  "best_of better P best [] = best"
| "best_of better P best (p # ps) =
     best_of better P (if P p \<and> (case best of None \<Rightarrow> True | Some b \<Rightarrow> better p b) then Some p else best) ps"

definition seg_folds :: "foldSeg \<Rightarrow> string \<Rightarrow> bool" where
  "seg_folds s seg \<longleftrightarrow> fs_wild s \<or> (case PathUnescape seg of None \<Rightarrow> False | Some got \<Rightarrow> EqualFold got (fs_lit s))"

definition pattern_folds :: "string \<Rightarrow> string list \<Rightarrow> foldPattern \<Rightarrow> bool" where
  "pattern_folds meth segs p \<longleftrightarrow>
     length (fp_segs p) = length segs \<and> (meth = [] \<or> allows p meth) \<and> list_all2 seg_folds (fp_segs p) segs"

definition match_path :: "CaseFolder \<Rightarrow> string \<Rightarrow> string list \<Rightarrow> foldPattern option" where
  "match_path f meth segs = best_of moreSpecific (pattern_folds meth segs) None (fo_pats f)"

section \<open>Query options\<close>

text \<open>Option names are ASCII; \<open>ToLower\<close> is exact on those.\<close>

fun restore_dollar :: "string \<Rightarrow> string" where
  "restore_dollar (a # b # c # cs) =
     (if a = CHR ''%'' \<and> b = CHR ''2'' \<and> c = CHR ''4'' then CHR ''$'' # restore_dollar cs else a # restore_dollar (b # c # cs))"
| "restore_dollar s = s"

definition cut_eq :: "string \<Rightarrow> string \<times> string option" where
  "cut_eq part =
     (case dropWhile (\<lambda>c. c \<noteq> CHR ''='') part of
        [] \<Rightarrow> (part, None)
      | _ # val \<Rightarrow> (takeWhile (\<lambda>c. c \<noteq> CHR ''='') part, Some val))"

definition fold_part :: "string \<Rightarrow> string" where
  "fold_part part =
     (case cut_eq part of (key, val) \<Rightarrow>
        (case QueryUnescape key of
           None \<Rightarrow> part
         | Some name \<Rightarrow>
           if \<not> HasPrefix name ''$'' \<or> ToLower name = name then part
           else restore_dollar (QueryEscape (ToLower name)) @ (case val of None \<Rightarrow> [] | Some v \<Rightarrow> ''='' @ v)))"

definition foldQuery :: "string \<Rightarrow> string" where
  "foldQuery raw = (if raw = [] then raw else Join (map fold_part (SplitChar raw (CHR ''&''))) ''&'')"

section \<open>Rewriting a URL\<close>

record FoldURL =
  fu_Path :: string
  fu_Escaped :: string
  fu_RawQuery :: string

definition canon_segs :: "foldPattern \<Rightarrow> string list \<Rightarrow> string list" where
  "canon_segs p segs = map2 (\<lambda>s seg. if fs_wild s then seg else fs_lit s) (fp_segs p) segs"

definition best_pattern :: "CaseFolder \<Rightarrow> string \<Rightarrow> string list \<Rightarrow> foldPattern option" where
  "best_pattern f meth segs = (case match_path f meth segs of Some p \<Rightarrow> Some p | None \<Rightarrow> match_path f [] segs)"

definition fold_url :: "CaseFolder \<Rightarrow> string \<Rightarrow> FoldURL \<Rightarrow> FoldURL" where
  "fold_url f meth u =
     (let escaped = fu_Escaped u; rest = TrimPrefix escaped (fo_prefix f @ ''/'') in
      if \<not> HasPrefix escaped (fo_prefix f @ ''/'') then u
      else if length rest < 5 \<or> \<not> EqualFold (take 5 rest) ''v1.0/'' then u
      else let u1 = u\<lparr>fu_RawQuery := foldQuery (fu_RawQuery u)\<rparr>; segs = SplitChar rest (CHR ''/'') in
        case best_pattern f meth segs of
          None \<Rightarrow> u1
        | Some best \<Rightarrow>
          (let canon = fo_prefix f @ ''/'' @ Join (canon_segs best segs) ''/'' in
           if canon = escaped then u1
           else case PathUnescape canon of None \<Rightarrow> u1 | Some decoded \<Rightarrow> u1\<lparr>fu_Path := decoded, fu_Escaped := canon\<rparr>))"

section \<open>Choosing the best candidate\<close>

text \<open>
  What a caller of the search loop relies on: \<open>better\<close> is a strict weak order on the candidates in
  question. The loop then yields a candidate no other one beats.
\<close>

locale weak_choice =
  fixes better :: "'p \<Rightarrow> 'p \<Rightarrow> bool" and ok :: "'p \<Rightarrow> bool"
  assumes asym: "ok x \<Longrightarrow> ok y \<Longrightarrow> better x y \<Longrightarrow> \<not> better y x"
    and neg_trans: "ok x \<Longrightarrow> ok y \<Longrightarrow> ok z \<Longrightarrow> better x z \<Longrightarrow> better x y \<or> better y z"
begin

lemma best_of_unbeaten:
  assumes "\<And>p. P p \<Longrightarrow> ok p" and "\<And>b. best = Some b \<Longrightarrow> ok b" and "best_of better P best ps = Some r"
  shows "ok r \<and> (\<forall>b. best = Some b \<longrightarrow> \<not> better b r) \<and> (\<forall>q \<in> set ps. P q \<longrightarrow> \<not> better q r)"
  using assms(2,3)
proof (induction ps arbitrary: best)
  case Nil
  then show ?case using asym[of r r] by auto
next
  case (Cons x xs)
  let ?b = "if P x \<and> (case best of None \<Rightarrow> True | Some b \<Rightarrow> better x b) then Some x else best"
  have ok: "\<And>b. ?b = Some b \<Longrightarrow> ok b" using Cons.prems(1) assms(1) by (auto split: if_splits)
  from Cons.IH[OF ok] Cons.prems(2) have r: "ok r" "\<And>b. ?b = Some b \<Longrightarrow> \<not> better b r" "\<forall>q \<in> set xs. P q \<longrightarrow> \<not> better q r" by auto
  have "\<not> better x r" if "P x"
  proof (cases "case best of None \<Rightarrow> True | Some b \<Rightarrow> better x b")
    case True
    with r(2) that show ?thesis by auto
  next
    case False
    then obtain b where b: "best = Some b" "\<not> better x b" by (auto split: option.splits)
    then have "\<not> better b r" using r(2)[of b] by auto
    with b neg_trans[OF assms(1)[OF that] Cons.prems(1)[OF b(1)] r(1)] show ?thesis by blast
  qed
  moreover have "\<not> better b r" if b: "best = Some b" for b
  proof (cases "P x \<and> better x b")
    case True
    then have "\<not> better x r" using r(2)[of x] b by auto
    show ?thesis
    proof
      assume "better b r"
      have okx: "ok x" and okb: "ok b" using True assms(1) Cons.prems(1) b by auto
      from neg_trans[OF okb r(1) okx] neg_trans[OF okb okx r(1) \<open>better b r\<close>] asym[OF okx okb] True \<open>\<not> better x r\<close> show False by blast
    qed
  next
    case False
    with r(2)[of b] b show ?thesis by auto
  qed
  ultimately show ?case using r(1,3) by auto
qed

end

lemma specific_asym: "length as = length bs \<Longrightarrow> specific_loop as bs \<Longrightarrow> \<not> specific_loop bs as"
  by (induction as bs rule: specific_loop.induct) (auto split: if_splits)

lemma specific_neg_trans:
  "length as = n \<Longrightarrow> length bs = n \<Longrightarrow> length cs = n \<Longrightarrow> specific_loop as cs \<Longrightarrow> specific_loop as bs \<or> specific_loop bs cs"
proof (induction n arbitrary: as bs cs)
  case 0
  then show ?case by simp
next
  case (Suc n)
  obtain a as' where a: "as = a # as'" "length as' = n" using Suc.prems(1) by (cases as) auto
  obtain b bs' where b: "bs = b # bs'" "length bs' = n" using Suc.prems(2) by (cases bs) auto
  obtain c cs' where c: "cs = c # cs'" "length cs' = n" using Suc.prems(3) by (cases cs) auto
  show ?case using Suc.IH[OF a(2) b(2) c(2)] Suc.prems(4) a b c by (auto split: if_splits)
qed

interpretation folder: weak_choice moreSpecific "\<lambda>p. length (fp_segs p) = n" for n
  by unfold_locales (simp add: moreSpecific_def specific_asym, metis moreSpecific_def specific_neg_trans)

lemma best_of_pred: "best_of better P b ps = Some p \<Longrightarrow> b = Some p \<or> (P p \<and> p \<in> set ps)"
  by (induction ps arbitrary: b) (fastforce split: if_splits)+

section \<open>Folding finds the registered route\<close>

text \<open>What the router does with the same patterns: literals are compared exactly and a wildcard takes one
  non-empty segment.\<close>

definition seg_exact :: "foldSeg \<Rightarrow> string \<Rightarrow> bool" where
  "seg_exact s seg \<longleftrightarrow> (if fs_wild s then seg \<noteq> [] else PathUnescape seg = Some (fs_lit s))"

definition pattern_exact :: "string \<Rightarrow> string list \<Rightarrow> foldPattern \<Rightarrow> bool" where
  "pattern_exact meth segs p \<longleftrightarrow>
     length (fp_segs p) = length segs \<and> allows p meth \<and> list_all2 seg_exact (fp_segs p) segs"

text \<open>
  The precedence of \<^verbatim>\<open>http.ServeMux\<close>, as its documentation states it: of the patterns that match, the one that
  matches a subset of the requests of every other. Registration panics on two patterns that overlap with neither
  inside the other, so a table that was registered has one.
\<close>

definition narrower :: "foldPattern \<Rightarrow> foldPattern \<Rightarrow> bool" where
  "narrower a b \<longleftrightarrow> (fp_method b = [] \<or> fp_method a = fp_method b \<or> fp_method b = ''GET'' \<and> fp_method a = ''HEAD'')
     \<and> list_all2 (\<lambda>x y. fs_wild y \<or> \<not> fs_wild x \<and> fs_lit x = fs_lit y) (fp_segs a) (fp_segs b)"

definition mux_match :: "foldPattern list \<Rightarrow> string \<Rightarrow> string list \<Rightarrow> foldPattern option" where
  "mux_match pats meth segs =
     (let matching = filter (pattern_exact meth segs) pats in find (\<lambda>p. list_all (narrower p) matching) matching)"

lemma find_SomeD: "find P xs = Some x \<Longrightarrow> x \<in> set xs \<and> P x"
  by (induction xs) (auto split: if_splits)

lemma mux_match_pred: "mux_match pats meth segs = Some p \<Longrightarrow> pattern_exact meth segs p \<and> p \<in> set pats"
  using find_SomeD by (fastforce simp: mux_match_def Let_def)

definition plain_literals :: "foldPattern \<Rightarrow> bool" where
  "plain_literals p \<longleftrightarrow> list_all (\<lambda>s. if fs_wild s then fs_lit s = []
     else fs_lit s \<noteq> [] \<and> CHR ''%'' \<notin> set (fs_lit s) \<and> CHR ''/'' \<notin> set (fs_lit s)) (fp_segs p)"

lemma narrower_subset:
  assumes "narrower a b" and "plain_literals a" and "pattern_exact meth segs a"
  shows "pattern_exact meth segs b"
proof -
  have len: "length (fp_segs a) = length segs" "length (fp_segs b) = length segs"
    using assms(1,3) by (auto simp: narrower_def pattern_exact_def dest: list_all2_lengthD)
  have "seg_exact (fp_segs b ! i) (segs ! i)" if "i < length segs" for i
  proof -
    have "seg_exact (fp_segs a ! i) (segs ! i)" "fs_wild (fp_segs b ! i) \<or> \<not> fs_wild (fp_segs a ! i) \<and> fs_lit (fp_segs a ! i) = fs_lit (fp_segs b ! i)"
      "\<not> fs_wild (fp_segs a ! i) \<Longrightarrow> fs_lit (fp_segs a ! i) \<noteq> []"
      using assms that len by (auto simp: pattern_exact_def narrower_def list_all2_conv_all_nth plain_literals_def list_all_length)
    then show ?thesis by (auto simp: seg_exact_def PathUnescape_def split: if_splits)
  qed
  with len assms(1,3) show ?thesis by (auto simp: pattern_exact_def narrower_def allows_def list_all2_conv_all_nth)
qed

lemma unescape_plain: "CHR ''%'' \<notin> set s \<Longrightarrow> PathUnescape s = Some s"
proof -
  have "CHR ''%'' \<notin> set s \<Longrightarrow> unescape False s = Some s"
  proof (induction s)
    case (Cons c cs)
    then have "unescape False cs = Some cs" "c \<noteq> CHR ''%''" by auto
    then show ?case by (simp del: unescape.simps add: unescape.simps(2))
  qed simp
  then show "CHR ''%'' \<notin> set s \<Longrightarrow> PathUnescape s = Some s" by (simp add: PathUnescape_def)
qed

lemma length_canon [simp]: "length (canon_segs p segs) = min (length (fp_segs p)) (length segs)"
  by (simp add: canon_segs_def)

lemma canon_nth:
  "i < length (fp_segs p) \<Longrightarrow> i < length segs \<Longrightarrow>
   canon_segs p segs ! i = (if fs_wild (fp_segs p ! i) then segs ! i else fs_lit (fp_segs p ! i))"
  by (simp add: canon_segs_def)

lemma canon_unescape:
  assumes "plain_literals p" and "pattern_folds meth segs p" and "i < length segs" and "\<not> fs_wild (fp_segs p ! i)"
  shows "PathUnescape (canon_segs p segs ! i) = Some (fs_lit (fp_segs p ! i))"
    "\<exists>got. PathUnescape (segs ! i) = Some got \<and> EqualFold got (fs_lit (fp_segs p ! i))"
proof -
  have len: "length (fp_segs p) = length segs" and f: "seg_folds (fp_segs p ! i) (segs ! i)"
    using assms(2,3) by (auto simp: pattern_folds_def list_all2_conv_all_nth)
  have "CHR ''%'' \<notin> set (fs_lit (fp_segs p ! i))"
    using assms(1,3,4) len by (auto simp: plain_literals_def list_all_length)
  then show "PathUnescape (canon_segs p segs ! i) = Some (fs_lit (fp_segs p ! i))"
    using assms(3,4) len by (simp add: canon_nth unescape_plain)
  show "\<exists>got. PathUnescape (segs ! i) = Some got \<and> EqualFold got (fs_lit (fp_segs p ! i))"
    using f assms(4) by (auto simp: seg_folds_def split: option.splits)
qed

text \<open>Canonical segments fold onto the same patterns as the original ones.\<close>

lemma canon_folds:
  assumes "plain_literals p" and "pattern_folds m segs p"
  shows "pattern_folds meth (canon_segs p segs) q \<longleftrightarrow> pattern_folds meth segs q"
proof -
  have len: "length (fp_segs p) = length segs" using assms(2) by (simp add: pattern_folds_def)
  have "seg_folds x (canon_segs p segs ! i) \<longleftrightarrow> seg_folds x (segs ! i)" if i: "i < length segs" for i x
  proof (cases "fs_wild (fp_segs p ! i)")
    case True
    then show ?thesis using i len by (simp add: canon_nth)
  next
    case False
    with canon_unescape[OF assms i] show ?thesis by (auto simp: seg_folds_def EqualFold_def)
  qed
  then show ?thesis using len by (auto simp: pattern_folds_def list_all2_conv_all_nth)
qed

lemma exact_folds: "pattern_exact meth segs q \<Longrightarrow> pattern_folds meth segs q"
  by (auto simp: pattern_exact_def pattern_folds_def seg_exact_def seg_folds_def EqualFold_def
      elim!: list_all2_mono split: if_splits)

lemma canon_exact:
  assumes "plain_literals p" and "pattern_folds meth segs p" and "meth \<noteq> []" and "\<forall>seg \<in> set segs. seg \<noteq> []"
  shows "pattern_exact meth (canon_segs p segs) p"
proof -
  have len: "length (fp_segs p) = length segs" and al: "allows p meth"
    using assms(2,3) by (auto simp: pattern_folds_def)
  have "seg_exact (fp_segs p ! i) (canon_segs p segs ! i)" if i: "i < length segs" for i
  proof (cases "fs_wild (fp_segs p ! i)")
    case True
    then show ?thesis using i len assms(4) by (simp add: seg_exact_def canon_nth)
  next
    case False
    with canon_unescape(1)[OF assms(1,2) i] show ?thesis by (simp add: seg_exact_def)
  qed
  with len al show ?thesis by (simp add: pattern_exact_def list_all2_conv_all_nth)
qed

lemma match_path_folds: "match_path f meth segs = Some p \<Longrightarrow> pattern_folds meth segs p \<and> p \<in> set (fo_pats f)"
  by (auto simp: match_path_def dest: best_of_pred)

lemma canon_idem: "canon_segs p (canon_segs p segs) = canon_segs p segs" if "length (fp_segs p) = length segs"
  using that by (intro nth_equalityI) (auto simp: canon_nth)

section \<open>Paths as segments\<close>

lemma unescape_append: "unescape inq a = Some x \<Longrightarrow> unescape inq (a @ b) = map_option ((@) x) (unescape inq b)"
proof (induction inq a arbitrary: x rule: unescape.induct)
  case (1 inq)
  then show ?case by (simp add: option.map_ident)
next
  case (2 inq c cs)
  show ?case
  proof (cases "c = CHR ''%''")
    case True
    with 2(3) obtain a' b' rest h l y where s: "cs = a' # b' # rest" "unhex a' = Some h" "unhex b' = Some l"
      "unescape inq rest = Some y" "x = char_of (16 * h + l) # y"
      by (auto split: list.splits option.splits)
    have "unescape inq (rest @ b) = map_option ((@) y) (unescape inq b)"
      using 2(1)[OF True s(1) refl refl s(2) s(3) s(4)] .
    then show ?thesis using True s by (simp add: option.map_comp comp_def)
  next
    case False
    with 2(3) obtain y where "unescape inq cs = Some y" "x = (if inq \<and> c = CHR ''+'' then CHR '' '' else c) # y" by auto
    with 2(2)[OF False this(1)] False show ?thesis by (simp add: option.map_comp comp_def)
  qed
qed

lemma PathUnescape_append: "PathUnescape a = Some x \<Longrightarrow> PathUnescape b = Some y \<Longrightarrow> PathUnescape (a @ b) = Some (x @ y)"
  by (simp add: PathUnescape_def unescape_append)

lemma PathUnescape_Join:
  "list_all2 (\<lambda>s d. PathUnescape s = Some d) segs ds \<Longrightarrow> PathUnescape (Join segs ''/'') = Some (Join ds ''/'')"
proof (induction segs "''/''" arbitrary: ds rule: Join.induct)
  case 1
  then show ?case by (simp add: PathUnescape_def)
next
  case (2 x)
  then show ?case by (auto simp: list_all2_Cons1)
next
  case (3 x y ys)
  from 3(2) obtain d e es where d: "ds = d # e # es" "PathUnescape x = Some d"
    "list_all2 (\<lambda>s d. PathUnescape s = Some d) (y # ys) (e # es)" by (auto simp: list_all2_Cons1)
  have "PathUnescape (''/'' @ Join (y # ys) ''/'') = Some (''/'' @ Join (e # es) ''/'')"
    using PathUnescape_append[of "''/''" "''/''"] 3(1)[OF d(3)] by (simp add: unescape_plain)
  with PathUnescape_append[OF d(2)] d(1) show ?case by simp
qed

lemma unescape_split:
  "unescape inq (a @ CHR ''/'' # b) = Some x \<Longrightarrow> \<exists>y z. unescape inq a = Some y \<and> unescape inq b = Some z \<and> x = y @ ''/'' @ z"
proof (induction inq a arbitrary: x rule: unescape.induct)
  case (1 inq)
  then show ?case by auto
next
  case (2 inq c cs)
  show ?case
  proof (cases "c = CHR ''%''")
    case True
    have sep: "unhex (CHR ''/'') = None" by code_simp
    obtain a' b' rest where cs: "cs = a' # b' # rest"
      using 2(3) True sep by (cases cs; cases "tl cs") (auto split: option.splits list.splits)
    with 2(3) True obtain h l y where u: "unhex a' = Some h" "unhex b' = Some l" "unescape inq (rest @ CHR ''/'' # b) = Some y"
      "x = char_of (16 * h + l) # y" by (auto split: option.splits)
    with 2(1)[OF True cs refl refl u(1,2,3)] True cs show ?thesis by fastforce
  next
    case False
    with 2(3) obtain y where y: "unescape inq (cs @ CHR ''/'' # b) = Some y"
      "x = (if inq \<and> c = CHR ''+'' then CHR '' '' else c) # y" by auto
    with 2(2)[OF False y(1)] False show ?thesis by fastforce
  qed
qed

lemma PathUnescape_JoinE:
  "segs \<noteq> [] \<Longrightarrow> PathUnescape (Join segs ''/'') = Some x \<Longrightarrow>
   \<exists>ds. list_all2 (\<lambda>s d. PathUnescape s = Some d) segs ds \<and> x = Join ds ''/''"
proof (induction segs "''/''" arbitrary: x rule: Join.induct)
  case (2 s)
  then show ?case by (intro exI[of _ "[x]"]) simp
next
  case (3 s t ts)
  from 3(3) obtain y z where yz: "PathUnescape s = Some y" "PathUnescape (Join (t # ts) ''/'') = Some z" "x = y @ ''/'' @ z"
    using unescape_split[of False s "Join (t # ts) ''/''"] by (auto simp: PathUnescape_def)
  from 3(1)[OF _ yz(2)] obtain ds where ds: "list_all2 (\<lambda>s d. PathUnescape s = Some d) (t # ts) ds" "z = Join ds ''/''" by auto
  then show ?case using yz by (intro exI[of _ "y # ds"]) (cases ds, auto)
qed simp

lemma SplitChar_Join: "segs \<noteq> [] \<Longrightarrow> \<forall>s \<in> set segs. c \<notin> set s \<Longrightarrow> SplitChar (Join segs [c]) c = segs"
  by (induction segs "[c]" rule: Join.induct) (simp_all add: SplitChar_none SplitChar_append)

lemma SplitChar_no_sep: "\<forall>w \<in> set (SplitChar s c). c \<notin> set w"
  by (induction s) (auto split: list.splits)

lemma Join_SplitChar: "Join (SplitChar s c) [c] = s"
proof (induction s)
  case (Cons x xs)
  then show ?case
  proof (cases "SplitChar xs c")
    case (Cons w ws)
    then show ?thesis using Cons.IH by (cases ws) auto
  qed simp
qed simp

lemma best_of_complete:
  assumes "P p0" and "p0 \<in> set ps"
  shows "\<exists>p. best_of better P b ps = Some p"
proof -
  have keep: "\<exists>p. best_of better P (Some x) ps = Some p" for x ps
    by (induction ps arbitrary: x) auto
  show ?thesis using assms(2,1)
  proof (induction ps arbitrary: b)
    case (Cons y ys)
    show ?case
    proof (cases "p0 = y")
      case True
      then show ?thesis using keep Cons.prems(2) by (cases b) auto
    next
      case False
      then show ?thesis using Cons by auto
    qed
  qed simp
qed

section \<open>The rewritten URL\<close>

text \<open>A request path under the folder's prefix, cut into segments as the server delivers it: no empty
  segment and every escape valid.\<close>

definition graph_path :: "CaseFolder \<Rightarrow> string list \<Rightarrow> string \<Rightarrow> bool" where
  "graph_path f segs escaped \<longleftrightarrow> escaped = fo_prefix f @ ''/'' @ Join segs ''/'' \<and> CHR ''%'' \<notin> set (fo_prefix f)
     \<and> 2 \<le> length segs \<and> hd segs \<in> {''v1.0'', ''V1.0''}
     \<and> (\<forall>s \<in> set segs. s \<noteq> [] \<and> CHR ''/'' \<notin> set s \<and> PathUnescape s \<noteq> None)"

lemma graph_path_rest:
  assumes "graph_path f segs escaped"
  shows "HasPrefix escaped (fo_prefix f @ ''/'')" "TrimPrefix escaped (fo_prefix f @ ''/'') = Join segs ''/''"
    "SplitChar (Join segs ''/'') (CHR ''/'') = segs" "5 \<le> length (Join segs ''/'')" "EqualFold (take 5 (Join segs ''/'')) ''v1.0/''"
proof -
  have e: "escaped = (fo_prefix f @ ''/'') @ Join segs ''/''" using assms by (simp add: graph_path_def)
  show "HasPrefix escaped (fo_prefix f @ ''/'')" "TrimPrefix escaped (fo_prefix f @ ''/'') = Join segs ''/''"
    unfolding e by (rule HasPrefix_append, rule TrimPrefix_append)
  show "SplitChar (Join segs ''/'') (CHR ''/'') = segs"
    using assms by (intro SplitChar_Join) (auto simp: graph_path_def)
  obtain a b rest where s: "segs = a # b # rest" "a \<in> {''v1.0'', ''V1.0''}"
    using assms by (cases segs; cases "tl segs") (auto simp: graph_path_def)
  have v: "EqualFold ''v1.0/'' ''v1.0/''" "EqualFold ''V1.0/'' ''v1.0/''"
    by code_simp+
  show "5 \<le> length (Join segs ''/'')" "EqualFold (take 5 (Join segs ''/'')) ''v1.0/''"
    using s v by auto
qed

lemma canon_set:
  assumes "plain_literals p" and "pattern_folds meth segs p"
    and "\<forall>s \<in> set segs. s \<noteq> [] \<and> CHR ''/'' \<notin> set s \<and> PathUnescape s \<noteq> None"
  shows "\<forall>s \<in> set (canon_segs p segs). s \<noteq> [] \<and> CHR ''/'' \<notin> set s \<and> PathUnescape s \<noteq> None"
proof
  fix s assume "s \<in> set (canon_segs p segs)"
  then obtain i where i: "i < length segs" "i < length (fp_segs p)" "s = canon_segs p segs ! i" by (auto simp: in_set_conv_nth)
  show "s \<noteq> [] \<and> CHR ''/'' \<notin> set s \<and> PathUnescape s \<noteq> None"
  proof (cases "fs_wild (fp_segs p ! i)")
    case True
    then show ?thesis using i assms(3) by (simp add: canon_nth)
  next
    case False
    then show ?thesis using i assms(1) canon_unescape(1)[OF assms(1,2) i(1) False]
      by (auto simp: canon_nth plain_literals_def list_all_length)
  qed
qed

lemma fold_url_canonical:
  assumes "graph_path f segs (fu_Escaped u)" and "best_pattern f meth segs = Some p" and "plain_literals p"
    and "pattern_folds m segs p" and "PathUnescape (fu_Escaped u) = Some (fu_Path u)"
  shows "fu_Escaped (fold_url f meth u) = fo_prefix f @ ''/'' @ Join (canon_segs p segs) ''/''"
    "PathUnescape (fu_Escaped (fold_url f meth u)) = Some (fu_Path (fold_url f meth u))"
proof -
  let ?c = "canon_segs p segs"
  have "\<forall>s \<in> set segs. s \<noteq> [] \<and> CHR ''/'' \<notin> set s \<and> PathUnescape s \<noteq> None"
    using assms(1) by (simp add: graph_path_def)
  from canon_set[OF assms(3,4) this] have "\<forall>s \<in> set ?c. PathUnescape s \<noteq> None" by simp
  then have "list_all2 (\<lambda>s d. PathUnescape s = Some d) ?c (map (\<lambda>s. the (PathUnescape s)) ?c)"
    by (auto simp: list_all2_conv_all_nth)
  then obtain y where y: "PathUnescape (Join ?c ''/'') = Some y" using PathUnescape_Join by blast
  have "PathUnescape (fo_prefix f @ ''/'') = Some (fo_prefix f @ ''/'')"
    using assms(1) by (intro unescape_plain) (auto simp: graph_path_def)
  from PathUnescape_append[OF this y] have "PathUnescape (fo_prefix f @ ''/'' @ Join ?c ''/'') \<noteq> None" by simp
  then show "fu_Escaped (fold_url f meth u) = fo_prefix f @ ''/'' @ Join ?c ''/''"
    "PathUnescape (fu_Escaped (fold_url f meth u)) = Some (fu_Path (fold_url f meth u))"
    using graph_path_rest[OF assms(1)] assms(2,5) by (auto simp: fold_url_def Let_def)
qed

text \<open>What \<open>learn\<close> records of a pattern that holds no percent sign.\<close>

definition learned_ok :: "foldPattern \<Rightarrow> bool" where
  "learned_ok p \<longleftrightarrow> plain_literals p \<and> fp_segs p \<noteq> [] \<and> hd (fp_segs p) = \<lparr>fs_lit = ''v1.0'', fs_wild = False\<rparr>
     \<and> fp_method p \<notin> {[], ''HEAD''}"

text \<open>
  The wildcards of \<open>p\<close> are wildcards of \<open>q\<close>. A table is unambiguous when of two patterns that can fold onto the same
  path one is as specific as the other in every segment; the router asks the same of the exact spellings.
\<close>

definition as_specific :: "foldPattern \<Rightarrow> foldPattern \<Rightarrow> bool" where
  "as_specific p q \<longleftrightarrow> list_all2 (\<lambda>x y. fs_wild x \<longrightarrow> fs_wild y) (fp_segs p) (fp_segs q)"

definition unambiguous :: "foldPattern list \<Rightarrow> bool" where
  "unambiguous pats \<longleftrightarrow> list_all (\<lambda>p. list_all (\<lambda>q.
     fp_method p = fp_method q \<and> list_all2 (\<lambda>x y. fs_wild x \<or> fs_wild y \<or> EqualFold (fs_lit x) (fs_lit y)) (fp_segs p) (fp_segs q)
     \<longrightarrow> as_specific p q \<or> as_specific q p) pats) pats"

lemma folds_overlap:
  assumes "pattern_folds meth segs p" and "pattern_folds meth segs q"
  shows "list_all2 (\<lambda>x y. fs_wild x \<or> fs_wild y \<or> EqualFold (fs_lit x) (fs_lit y)) (fp_segs p) (fp_segs q)"
proof -
  have "fs_wild (fp_segs p ! i) \<or> fs_wild (fp_segs q ! i) \<or> EqualFold (fs_lit (fp_segs p ! i)) (fs_lit (fp_segs q ! i))" if "i < length segs" for i
  proof -
    have "seg_folds (fp_segs p ! i) (segs ! i)" "seg_folds (fp_segs q ! i) (segs ! i)"
      using assms that by (auto simp: pattern_folds_def list_all2_conv_all_nth)
    then show ?thesis by (auto simp: seg_folds_def EqualFold_def split: option.splits)
  qed
  then show ?thesis using assms by (auto simp: pattern_folds_def list_all2_conv_all_nth)
qed

lemma strictly_specific:
  "list_all2 (\<lambda>x y. fs_wild x \<longrightarrow> fs_wild y) as bs \<Longrightarrow> \<not> list_all2 (\<lambda>x y. fs_wild x \<longrightarrow> fs_wild y) bs as \<Longrightarrow> specific_loop as bs"
  by (induction as bs rule: specific_loop.induct) auto

lemma same_method:
  assumes "pattern_folds meth segs p" and "pattern_folds meth segs q" and "meth \<noteq> []" and "learned_ok p" and "learned_ok q"
  shows "fp_method p = fp_method q"
  using assms by (auto simp: pattern_folds_def allows_def learned_ok_def)

lemma match_most_specific:
  assumes "match_path f meth segs = Some p" and "unambiguous (fo_pats f)" and "list_all learned_ok (fo_pats f)" and "meth \<noteq> []"
    and "q \<in> set (fo_pats f)" and "pattern_folds meth segs q"
  shows "as_specific p q"
proof (rule ccontr)
  assume no: "\<not> as_specific p q"
  have p: "pattern_folds meth segs p" "p \<in> set (fo_pats f)" using match_path_folds[OF assms(1)] by auto
  have "as_specific p q \<or> as_specific q p"
    using assms(2) same_method[OF p(1) assms(6,4)] folds_overlap[OF p(1) assms(6)] p(2) assms(3,5) by (auto simp: unambiguous_def list_all_iff)
  with no have "moreSpecific q p" unfolding moreSpecific_def as_specific_def by (blast intro: strictly_specific)
  moreover have "\<not> moreSpecific q p"
    using folder.best_of_unbeaten[where n = "length segs", of "pattern_folds meth segs" None "fo_pats f" p] assms(1,5,6)
    by (auto simp: match_path_def pattern_folds_def)
  ultimately show False by blast
qed

lemma narrowerI:
  assumes "pattern_exact meth segs p" and "pattern_exact meth segs q" and "as_specific p q" and "fp_method p = fp_method q"
  shows "narrower p q"
proof -
  have "fs_wild (fp_segs q ! i) \<or> \<not> fs_wild (fp_segs p ! i) \<and> fs_lit (fp_segs p ! i) = fs_lit (fp_segs q ! i)" if "i < length segs" for i
  proof -
    have "seg_exact (fp_segs p ! i) (segs ! i)" "seg_exact (fp_segs q ! i) (segs ! i)" "fs_wild (fp_segs p ! i) \<longrightarrow> fs_wild (fp_segs q ! i)"
      using assms that by (auto simp: pattern_exact_def as_specific_def list_all2_conv_all_nth)
    then show ?thesis by (auto simp: seg_exact_def split: if_splits)
  qed
  with assms show ?thesis by (auto simp: narrower_def pattern_exact_def list_all2_conv_all_nth)
qed

lemma narrower_antisym:
  assumes "narrower p q" and "narrower q p" and "plain_literals p" and "plain_literals q"
  shows "fp_method p = fp_method q \<Longrightarrow> p = q"
proof -
  have len: "length (fp_segs p) = length (fp_segs q)" using assms(1) by (auto simp: narrower_def dest: list_all2_lengthD)
  have "fp_segs p ! i = fp_segs q ! i" if i: "i < length (fp_segs p)" for i
  proof -
    let ?x = "fp_segs p ! i" and ?y = "fp_segs q ! i"
    have "fs_wild ?y \<or> \<not> fs_wild ?x \<and> fs_lit ?x = fs_lit ?y" "fs_wild ?x \<or> \<not> fs_wild ?y \<and> fs_lit ?y = fs_lit ?x"
      using assms(1,2) i len by (auto simp: narrower_def list_all2_conv_all_nth)
    moreover have "fs_wild ?x \<Longrightarrow> fs_lit ?x = []" "fs_wild ?y \<Longrightarrow> fs_lit ?y = []"
      using assms(3,4) i len by (auto simp: plain_literals_def list_all_length)
    ultimately show ?thesis by (intro foldSeg.equality) auto
  qed
  with len have "fp_segs p = fp_segs q" by (intro nth_equalityI) auto
  then show "fp_method p = fp_method q \<Longrightarrow> p = q" by (intro foldPattern.equality) simp_all
qed

lemma mux_match_unique:
  assumes "p \<in> set pats" and "pattern_exact meth segs p" and "\<And>q. q \<in> set pats \<Longrightarrow> pattern_exact meth segs q \<Longrightarrow> narrower p q"
    and "\<And>q. q \<in> set pats \<Longrightarrow> pattern_exact meth segs q \<Longrightarrow> narrower q p \<Longrightarrow> q = p"
  shows "mux_match pats meth segs = Some p"
proof -
  let ?ms = "filter (pattern_exact meth segs) pats"
  have P: "p \<in> set ?ms" "list_all (narrower p) ?ms" using assms(1-3) by (auto simp: list_all_iff)
  have U: "q = p" if "q \<in> set ?ms" "list_all (narrower q) ?ms" for q using that P assms(4) by (auto simp: list_all_iff)
  have "find (\<lambda>q. list_all (narrower q) ?ms) ?ms \<noteq> None" using P by (auto simp: find_None_iff)
  then obtain q where q: "find (\<lambda>q. list_all (narrower q) ?ms) ?ms = Some q" by blast
  then have "q \<in> set ?ms \<and> list_all (narrower q) ?ms" by (rule find_SomeD)
  with U q show ?thesis unfolding mux_match_def Let_def by blast
qed

text \<open>
  C38. Whatever the spelling of a Graph path, it reaches the registered route: if some pattern of an unambiguous table
  matches the segments with literals compared ignoring case, there is a most specific such pattern, one with a literal
  wherever another match has a literal, and the rewritten path is the one of which the router picks that pattern, by its
  own rule that the pattern matching the fewest requests wins. The wildcard segments (ids and alternate keys) are passed
  through byte for byte, the decoded path stays the decoding of the escaped one, and rewriting again changes nothing.
\<close>

theorem casefold_finds_route:
  assumes "graph_path f segs (fu_Escaped u)" and "PathUnescape (fu_Escaped u) = Some (fu_Path u)"
    and "list_all learned_ok (fo_pats f)" and "unambiguous (fo_pats f)" and "p0 \<in> set (fo_pats f)" and "pattern_folds meth segs p0"
    and "meth \<noteq> []" and "u' = fold_url f meth u"
  shows "\<exists>p. fu_Escaped u' = fo_prefix f @ ''/'' @ Join (canon_segs p segs) ''/''
    \<and> mux_match (fo_pats f) meth (canon_segs p segs) = Some p
    \<and> pattern_folds meth segs p \<and> (\<forall>q \<in> set (fo_pats f). pattern_folds meth segs q \<longrightarrow>
         (\<forall>i < length segs. fs_wild (fp_segs p ! i) \<longrightarrow> fs_wild (fp_segs q ! i)))
    \<and> (\<forall>i < length segs. fs_wild (fp_segs p ! i) \<longrightarrow> canon_segs p segs ! i = segs ! i)
    \<and> PathUnescape (fu_Escaped u') = Some (fu_Path u')
    \<and> fu_Escaped (fold_url f meth u') = fu_Escaped u'"
proof -
  obtain p where m: "match_path f meth segs = Some p"
    using best_of_complete[of "pattern_folds meth segs" p0 "fo_pats f"] assms(5,6) by (auto simp: match_path_def)
  have p: "pattern_folds meth segs p" "p \<in> set (fo_pats f)" using match_path_folds[OF m] by auto
  have lo: "learned_ok p" using p(2) assms(3) by (auto simp: list_all_iff)
  then have pl: "plain_literals p" by (simp add: learned_ok_def)
  have len: "length (fp_segs p) = length segs" using p(1) by (simp add: pattern_folds_def)
  let ?c = "canon_segs p segs"
  have best: "best_pattern f meth segs = Some p" using m by (simp add: best_pattern_def)
  note url = fold_url_canonical[OF assms(1) best pl p(1) assms(2), folded assms(8)]
  have most: "as_specific p q" if "q \<in> set (fo_pats f)" "pattern_folds meth segs q" for q
    by (rule match_most_specific[OF m assms(4,3,7) that])
  have exact: "pattern_exact meth ?c p" using canon_exact[OF pl p(1) assms(7)] assms(1) by (auto simp: graph_path_def)
  have mux: "mux_match (fo_pats f) meth ?c = Some p"
    using p(2) exact
  proof (rule mux_match_unique)
    fix q assume q: "q \<in> set (fo_pats f)" "pattern_exact meth ?c q"
    then have folds: "pattern_folds meth segs q" using exact_folds[OF q(2)] canon_folds[OF pl p(1)] by simp
    have loq: "learned_ok q" using q(1) assms(3) by (auto simp: list_all_iff)
    then have plq: "plain_literals q" by (simp add: learned_ok_def)
    show "narrower p q" by (rule narrowerI[OF exact q(2) most[OF q(1) folds] same_method[OF p(1) folds assms(7) lo loq]])
    show "q = p" if "narrower q p"
      using that narrower_antisym[OF \<open>narrower p q\<close> that pl plq] same_method[OF p(1) folds assms(7) lo loq] by simp
  qed
  have again: "best_pattern f meth ?c = Some p"
  proof -
    have "pattern_folds meth ?c = pattern_folds meth segs" by (intro ext canon_folds[OF pl p(1)])
    then show ?thesis using m by (simp add: best_pattern_def match_path_def)
  qed
  have hd: "hd ?c = ''v1.0''"
    using lo len assms(1) by (cases "fp_segs p"; cases segs) (auto simp: learned_ok_def canon_segs_def graph_path_def)
  have path: "graph_path f ?c (fu_Escaped u')"
  proof -
    have g: "2 \<le> length segs" "CHR ''%'' \<notin> set (fo_prefix f)"
      "\<forall>s \<in> set segs. s \<noteq> [] \<and> CHR ''/'' \<notin> set s \<and> PathUnescape s \<noteq> None"
      using assms(1) by (simp_all add: graph_path_def)
    show ?thesis unfolding graph_path_def using url(1) g(1,2) hd len canon_set[OF pl p(1) g(3)] by simp
  qed
  have "fu_Escaped (fold_url f meth u') = fu_Escaped u'"
    using fold_url_canonical(1)[OF path again pl _ url(2)] canon_folds[OF pl p(1)] p(1) url(1) canon_idem[OF len] by metis
  moreover have "\<forall>q \<in> set (fo_pats f). pattern_folds meth segs q \<longrightarrow> (\<forall>i < length segs. fs_wild (fp_segs p ! i) \<longrightarrow> fs_wild (fp_segs q ! i))"
    using most len by (auto simp: as_specific_def list_all2_conv_all_nth)
  ultimately show ?thesis using url mux len p(1) by (intro exI[of _ p]) (simp add: canon_nth)
qed

definition folder0 :: CaseFolder where
  "folder0 = \<lparr>fo_prefix = ''/graph'', fo_pats =
     [\<lparr>fp_method = ''GET'', fp_segs = [\<lparr>fs_lit = ''v1.0'', fs_wild = False\<rparr>, \<lparr>fs_lit = [], fs_wild = True\<rparr>]\<rparr>,
      \<lparr>fp_method = ''GET'', fp_segs = [\<lparr>fs_lit = ''v1.0'', fs_wild = False\<rparr>, \<lparr>fs_lit = ''users'', fs_wild = False\<rparr>,
         \<lparr>fs_lit = [], fs_wild = True\<rparr>]\<rparr>]\<rparr>"

lemma folder0_learned:
  "learn_all [''GET /graph/v1.0/{key}'', ''GET /graph/oidc/userinfo'', ''GET /graph/v1.0/users/{id}''] (NewCaseFolder ''/graph'') = Some folder0"
  by code_simp

theorem casefold_finds_route_witness:
  "\<exists>p. fu_Escaped (fold_url folder0 ''GET'' \<lparr>fu_Path = ''/graph/V1.0/USERS/Ab'', fu_Escaped = ''/graph/V1.0/%55SERS/Ab'', fu_RawQuery = []\<rparr>)
     = ''/graph/'' @ Join (canon_segs p [''V1.0'', ''%55SERS'', ''Ab'']) ''/''
   \<and> mux_match (fo_pats folder0) ''GET'' (canon_segs p [''V1.0'', ''%55SERS'', ''Ab'']) = Some p"
proof -
  let ?u = "\<lparr>fu_Path = ''/graph/V1.0/USERS/Ab'', fu_Escaped = ''/graph/V1.0/%55SERS/Ab'', fu_RawQuery = []\<rparr>"
  let ?segs = "[''V1.0'', ''%55SERS'', ''Ab'']"
  have "graph_path folder0 ?segs (fu_Escaped ?u)" by code_simp
  moreover have "PathUnescape (fu_Escaped ?u) = Some (fu_Path ?u)" by code_simp
  moreover have "list_all learned_ok (fo_pats folder0)" by code_simp
  moreover have "unambiguous (fo_pats folder0)" by code_simp
  moreover have "fo_pats folder0 ! 1 \<in> set (fo_pats folder0)" by (simp add: folder0_def)
  moreover have "pattern_folds ''GET'' ?segs (fo_pats folder0 ! 1)" by code_simp
  ultimately show ?thesis
    using casefold_finds_route[of folder0 ?segs ?u "fo_pats folder0 ! 1" "''GET''"] by (auto simp: folder0_def)
qed

end
