(* ===== verification/Router.thy ===== *)
theory Router
  imports CaseFold
begin

text \<open>
  Go's \<^verbatim>\<open>http.ServeMux\<close> on a table of routes, as far as the repository uses it: a pattern is an optional
  method and a path of literal and \<^verbatim>\<open>{name}\<close> segments below a mounting prefix; the most specific matching
  pattern serves the request and the decoded values of its wildcards are the path values.
\<close>

definition pattern_parts :: "string \<Rightarrow> string \<Rightarrow> string list" where
  "pattern_parts prefix pat = SplitChar (TrimPrefix (snd (split_pattern pat)) (prefix @ ''/'')) (CHR ''/'')"

definition mux_pattern :: "string \<Rightarrow> string \<Rightarrow> foldPattern" where
  "mux_pattern prefix pat = \<lparr>fp_method = fst (split_pattern pat),
     fp_segs = (case learn_segs (pattern_parts prefix pat) of None \<Rightarrow> [] | Some segs \<Rightarrow> segs)\<rparr>"

definition path_values :: "string \<Rightarrow> string \<Rightarrow> string list \<Rightarrow> string \<Rightarrow> string" where
  "path_values prefix pat segs name =
     (case map_of (zip (pattern_parts prefix pat) segs) (''{'' @ name @ ''}'') of
        None \<Rightarrow> []
      | Some seg \<Rightarrow> (case PathUnescape seg of None \<Rightarrow> [] | Some v \<Rightarrow> v))"

definition find_route :: "(string \<times> 'h) list \<Rightarrow> string \<Rightarrow> string \<Rightarrow> string list \<Rightarrow> (string \<times> 'h) option" where
  "find_route rs prefix meth segs =
     (case mux_match (map (mux_pattern prefix \<circ> fst) rs) meth segs of
        None \<Rightarrow> None
      | Some p \<Rightarrow> find (\<lambda>rt. mux_pattern prefix (fst rt) = p) rs)"

lemma find_route_mem: "find_route rs prefix meth segs = Some rt \<Longrightarrow> rt \<in> set rs \<and> pattern_exact meth segs (mux_pattern prefix (fst rt))"
  by (auto simp: find_route_def split: option.splits dest!: find_SomeD mux_match_pred)

text \<open>The pattern found depends on the patterns of the table only.\<close>

lemma find_map: "find P (map f xs) = map_option f (find (P \<circ> f) xs)"
  by (induction xs) auto

lemma find_route_pattern:
  "map_option fst (find_route rs prefix meth segs) = map_option fst (find_route (map (\<lambda>p. (p, ())) (map fst rs)) prefix meth segs)"
  by (simp add: find_route_def find_map comp_def option.map_comp split: option.split)

text \<open>\<^verbatim>\<open>url.ParseQuery\<close> and \<^verbatim>\<open>Values.Get\<close>: the first well-formed part with the name.\<close>

definition query_of :: "string \<Rightarrow> query" where
  "query_of raw name =
     (case find (\<lambda>part. part \<noteq> [] \<and> CHR '';'' \<notin> set part \<and> QueryUnescape (fst (cut_eq part)) = Some name
              \<and> QueryUnescape (or_else (snd (cut_eq part)) []) \<noteq> None) (SplitChar raw (CHR ''&'')) of
        None \<Rightarrow> []
      | Some part \<Rightarrow> the (QueryUnescape (or_else (snd (cut_eq part)) [])))"

section \<open>Query encoding\<close>

lemma of_char_hex: "i < 16 \<Longrightarrow> unhex (upper_hex i) = Some i"
  by (auto simp: unhex_def upper_hex_def Let_def)

lemma byte_div_16: "of_char c div 16 < (16 :: nat)"
  by (rule less_mult_imp_div_less) simp

text \<open>\<^verbatim>\<open>url.QueryEscape\<close> is undone by \<^verbatim>\<open>url.QueryUnescape\<close>, and its result needs no quoting in a query.\<close>

definition escape_char :: "char \<Rightarrow> string" where
  "escape_char c = (if unreserved c then [c] else if c = CHR '' '' then ''+''
     else [CHR ''%'', upper_hex (of_char c div 16), upper_hex (of_char c mod 16)])"

lemma QueryEscape_Cons [simp]: "QueryEscape [] = []" "QueryEscape (c # cs) = escape_char c @ QueryEscape cs"
  by (simp_all add: QueryEscape_def escape_char_def)

lemma unreserved_plain: "unreserved c \<Longrightarrow> c \<notin> {CHR ''%'', CHR ''+'', CHR ''&'', CHR ''='', CHR '';'', CHR ''?'', CHR '' ''}"
  by (auto simp: unreserved_def re_word_def less_eq_char_def)

lemma unescape_char: "unescape True (escape_char c @ s) = map_option ((#) c) (unescape True s)"
proof (cases "unreserved c \<or> c = CHR '' ''")
  case True
  then show ?thesis using unreserved_plain[of c] by (auto simp: escape_char_def)
next
  case False
  have "unhex (upper_hex (of_char c div 16)) = Some (of_char c div 16)" "unhex (upper_hex (of_char c mod 16)) = Some (of_char c mod 16)"
    using byte_div_16 by (simp_all add: of_char_hex)
  moreover have "char_of (16 * (of_char c div 16) + of_char c mod 16 :: nat) = c" by simp
  ultimately show ?thesis using False by (simp add: escape_char_def)
qed

lemma query_roundtrip [simp]: "QueryUnescape (QueryEscape s) = Some s"
  unfolding QueryUnescape_def by (induction s) (simp_all add: unescape_char)

lemma upper_hex_plain: "i < 16 \<Longrightarrow> upper_hex i \<notin> {CHR ''&'', CHR ''='', CHR '';'', CHR ''?''}"
  by (auto simp: upper_hex_def dest!: arg_cong[where f = "of_char :: char \<Rightarrow> nat"] split: if_splits)

lemma QueryEscape_plain: "{CHR ''&'', CHR ''='', CHR '';'', CHR ''?''} \<inter> set (QueryEscape s) = {}"
proof (induction s)
  case (Cons c s)
  have "{CHR ''&'', CHR ''='', CHR '';'', CHR ''?''} \<inter> set (escape_char c) = {}"
  proof (cases "unreserved c \<or> c = CHR '' ''")
    case True
    then show ?thesis using unreserved_plain[of c] by (auto simp: escape_char_def)
  next
    case False
    then show ?thesis using upper_hex_plain[OF byte_div_16[of c]] upper_hex_plain[of "of_char c mod 16"]
      by (auto simp: escape_char_def)
  qed
  with Cons show ?case by (simp add: Int_Un_distrib)
qed simp

text \<open>A single encoded parameter is read back as it was.\<close>

lemma query_of_single:
  assumes "{CHR ''&'', CHR ''='', CHR '';'', CHR ''%'', CHR ''+''} \<inter> set k = {}"
  shows "query_of (k @ ''='' @ QueryEscape v) k = v"
proof -
  have k: "unescape True k = Some k" using assms by (induction k) auto
  let ?p = "k @ ''='' @ QueryEscape v"
  have "CHR ''&'' \<notin> set ?p" "CHR '';'' \<notin> set ?p" using assms QueryEscape_plain[of v] by auto
  moreover have "cut_eq ?p = (k, Some (QueryEscape v))"
    using assms by (auto simp: cut_eq_def dropWhile_append takeWhile_append split: list.splits)
  ultimately show ?thesis
    using k by (simp add: query_of_def SplitChar_none or_else_def QueryUnescape_def[of k])
qed

end
