(* ===== verification/GraphRoutes.thy ===== *)
theory GraphRoutes
  imports GraphWrites Router Minting
begin

text \<open>
  The route table of the Graph surface (\<^verbatim>\<open>Register\<close> of \<^verbatim>\<open>graph.go\<close> and the \<^verbatim>\<open>register\<close> functions of its files), the
  router that serves it, and what the whole surface guarantees: nothing but the redemption link is
  reachable without a genuine token, and with permission enforcement on the directory's users change
  only for a caller that holds a permission to change them.
\<close>

section \<open>Routes\<close>

type_synonym route = "string \<times> (GraphRequest \<Rightarrow> Graph \<Rightarrow> reply \<times> Graph)"

definition Register_own :: "GraphEnv \<Rightarrow> string \<Rightarrow> route list" where
  "Register_own ge prefix = [
     (''GET '' @ prefix @ ''/v1.0/me'', requireDelegated ge (handleMe ge)),
     (''GET '' @ prefix @ ''/v1.0/me/memberOf'', requireDelegated ge (handleMemberOf ge)),
     (''GET '' @ prefix @ ''/v1.0/users'', requireBearer ge (handleUsers ge)),
     (''GET '' @ prefix @ ''/v1.0/users/{id}'', requireBearer ge (handleUserByID ge)),
     (''GET '' @ prefix @ ''/v1.0/users/{id}/memberOf'', requireBearer ge (handleMemberOf ge)),
     (''GET '' @ prefix @ ''/v1.0/groups'', requireBearer ge (handleGroups ge)),
     (''GET '' @ prefix @ ''/v1.0/groups/{id}'', requireBearer ge (handleGroupByID ge)),
     (''GET '' @ prefix @ ''/v1.0/groups/{id}/members'', requireBearer ge (handleGroupMembers ge)),
     (''GET '' @ prefix @ ''/oidc/userinfo'', requireDelegatedUserInfo ge (handleUserInfo ge)),
     (''POST '' @ prefix @ ''/oidc/userinfo'', requireDelegatedUserInfo ge (handleUserInfo ge))]"

definition registerWrites :: "GraphEnv \<Rightarrow> string \<Rightarrow> route list" where
  "registerWrites ge prefix = [
     (''POST '' @ prefix @ ''/v1.0/users'', requireBearer ge (createUser ge)),
     (''PATCH '' @ prefix @ ''/v1.0/users/{id}'', requireBearer ge (updateUser ge)),
     (''DELETE '' @ prefix @ ''/v1.0/users/{id}'', requireBearer ge (deleteUser ge)),
     (''POST '' @ prefix @ ''/v1.0/groups'', requireBearer ge (createGroup ge)),
     (''PATCH '' @ prefix @ ''/v1.0/groups/{id}'', requireBearer ge (updateGroup ge)),
     (''DELETE '' @ prefix @ ''/v1.0/groups/{id}'', requireBearer ge (deleteGroup ge)),
     (''POST '' @ prefix @ ''/v1.0/groups/{id}/members/$ref'', requireBearer ge (addGroupMember ge)),
     (''DELETE '' @ prefix @ ''/v1.0/groups/{id}/members/{userId}/$ref'', requireBearer ge (removeGroupMember ge)),
     (''POST '' @ prefix @ ''/v1.0/applications'', requireBearer ge (createApplication ge)),
     (''PATCH '' @ prefix @ ''/v1.0/applications/{id}'', requireBearer ge (updateApplication ge)),
     (''DELETE '' @ prefix @ ''/v1.0/applications/{id}'', requireBearer ge (deleteApplication ge))]"

definition registerReads :: "GraphEnv \<Rightarrow> string \<Rightarrow> route list" where
  "registerReads ge prefix = [
     (''GET '' @ prefix @ ''/v1.0/applications'', requireBearer ge (listApplications ge)),
     (''GET '' @ prefix @ ''/v1.0/applications/{id}'', requireBearer ge (getApplication ge)),
     (''GET '' @ prefix @ ''/v1.0/servicePrincipals'', requireBearer ge (listServicePrincipals ge)),
     (''GET '' @ prefix @ ''/v1.0/servicePrincipals/{id}'', requireBearer ge (getServicePrincipal ge)),
     (''GET '' @ prefix @ ''/v1.0/{key}'', requireBearer ge (getByAlternateKey ge))]"

definition registerDeleted :: "GraphEnv \<Rightarrow> string \<Rightarrow> route list" where
  "registerDeleted ge prefix = [
     (''GET '' @ prefix @ ''/v1.0/directory/deletedItems/microsoft.graph.user'', requireBearer ge (listDeleted ge DeletedTypeUser)),
     (''GET '' @ prefix @ ''/v1.0/directory/deletedItems/microsoft.graph.group'', requireBearer ge (listDeleted ge DeletedTypeGroup)),
     (''GET '' @ prefix @ ''/v1.0/directory/deletedItems/microsoft.graph.application'', requireBearer ge (listDeleted ge DeletedTypeApp)),
     (''GET '' @ prefix @ ''/v1.0/directory/deletedItems/graph.user'', requireBearer ge (listDeleted ge DeletedTypeUser)),
     (''GET '' @ prefix @ ''/v1.0/directory/deletedItems/graph.group'', requireBearer ge (listDeleted ge DeletedTypeGroup)),
     (''GET '' @ prefix @ ''/v1.0/directory/deletedItems/graph.application'', requireBearer ge (listDeleted ge DeletedTypeApp)),
     (''GET '' @ prefix @ ''/v1.0/directory/deletedItems/{id}'', requireBearer ge (getDeleted ge)),
     (''POST '' @ prefix @ ''/v1.0/directory/deletedItems/{id}/restore'', requireBearer ge (restoreDeleted ge)),
     (''DELETE '' @ prefix @ ''/v1.0/directory/deletedItems/{id}'', requireBearer ge (purgeDeleted ge))]"

definition registerConsent :: "GraphEnv \<Rightarrow> string \<Rightarrow> route list" where
  "registerConsent ge prefix = [
     (''POST '' @ prefix @ ''/v1.0/oauth2PermissionGrants'', requireBearer ge (createOAuth2Grant ge)),
     (''GET '' @ prefix @ ''/v1.0/oauth2PermissionGrants'', requireBearer ge (listOAuth2Grants ge)),
     (''DELETE '' @ prefix @ ''/v1.0/oauth2PermissionGrants/{id}'', requireBearer ge (deleteOAuth2Grant ge)),
     (''GET '' @ prefix @ ''/v1.0/servicePrincipals/{id}/oauth2PermissionGrants'', requireBearer ge (listSPOAuth2Grants ge)),
     (''POST '' @ prefix @ ''/v1.0/servicePrincipals/{id}/appRoleAssignedTo'', requireBearer ge (createAppRoleAssignment ge)),
     (''GET '' @ prefix @ ''/v1.0/servicePrincipals/{id}/appRoleAssignedTo'', requireBearer ge (listAppRoleAssignedTo ge)),
     (''GET '' @ prefix @ ''/v1.0/servicePrincipals/{id}/appRoleAssignments'', requireBearer ge (listAppRoleAssignments ge)),
     (''DELETE '' @ prefix @ ''/v1.0/servicePrincipals/{id}/appRoleAssignedTo/{assignmentId}'', requireBearer ge (deleteAppRoleAssignment ge))]"

definition registerRoles :: "GraphEnv \<Rightarrow> string \<Rightarrow> route list" where
  "registerRoles ge prefix = [
     (''GET '' @ prefix @ ''/v1.0/roleManagement/directory/roleDefinitions'', requireBearer ge (listRoleDefinitions ge)),
     (''GET '' @ prefix @ ''/v1.0/roleManagement/directory/roleDefinitions/{id}'', requireBearer ge (getRoleDefinition ge)),
     (''GET '' @ prefix @ ''/v1.0/roleManagement/directory/roleAssignments'', requireBearer ge (listRoleAssignments ge)),
     (''POST '' @ prefix @ ''/v1.0/roleManagement/directory/roleAssignments'', requireBearer ge (createRoleAssignment ge)),
     (''GET '' @ prefix @ ''/v1.0/roleManagement/directory/roleAssignments/{id}'', requireBearer ge (getRoleAssignment ge)),
     (''DELETE '' @ prefix @ ''/v1.0/roleManagement/directory/roleAssignments/{id}'', requireBearer ge (deleteRoleAssignment ge))]"

definition registerCustomRoles :: "GraphEnv \<Rightarrow> string \<Rightarrow> route list" where
  "registerCustomRoles ge prefix = [
     (''POST '' @ prefix @ ''/v1.0/roleManagement/directory/roleDefinitions'', requireBearer ge (createRoleDefinition ge)),
     (''PATCH '' @ prefix @ ''/v1.0/roleManagement/directory/roleDefinitions/{id}'', requireBearer ge (updateRoleDefinition ge)),
     (''DELETE '' @ prefix @ ''/v1.0/roleManagement/directory/roleDefinitions/{id}'', requireBearer ge (deleteRoleDefinition ge))]"

definition registerMemberGroups :: "GraphEnv \<Rightarrow> string \<Rightarrow> route list" where
  "registerMemberGroups ge prefix = [
     (''POST '' @ prefix @ ''/v1.0/users/{id}/getMemberObjects'', requireBearer ge (getMemberObjects ge True)),
     (''POST '' @ prefix @ ''/v1.0/users/{id}/getMemberGroups'', requireBearer ge (getMemberObjects ge False)),
     (''POST '' @ prefix @ ''/v1.0/me/getMemberObjects'', requireDelegated ge (getMemberObjects ge True)),
     (''POST '' @ prefix @ ''/v1.0/me/getMemberGroups'', requireDelegated ge (getMemberObjects ge False))]"

definition registerAdminUnits :: "GraphEnv \<Rightarrow> string \<Rightarrow> route list" where
  "registerAdminUnits ge prefix = [
     (''GET '' @ prefix @ ''/v1.0/directory/administrativeUnits'', requireBearer ge (listAdminUnits ge)),
     (''POST '' @ prefix @ ''/v1.0/directory/administrativeUnits'', requireBearer ge (createAdminUnit ge)),
     (''GET '' @ prefix @ ''/v1.0/directory/administrativeUnits/{id}'', requireBearer ge (getAdminUnit ge)),
     (''PATCH '' @ prefix @ ''/v1.0/directory/administrativeUnits/{id}'', requireBearer ge (updateAdminUnit ge)),
     (''DELETE '' @ prefix @ ''/v1.0/directory/administrativeUnits/{id}'', requireBearer ge (deleteAdminUnit ge)),
     (''GET '' @ prefix @ ''/v1.0/directory/administrativeUnits/{id}/members'', requireBearer ge (listAdminUnitMembers ge)),
     (''POST '' @ prefix @ ''/v1.0/directory/administrativeUnits/{id}/members/$ref'', requireBearer ge (addAdminUnitMember ge)),
     (''DELETE '' @ prefix @ ''/v1.0/directory/administrativeUnits/{id}/members/{memberId}/$ref'', requireBearer ge (removeAdminUnitMember ge))]"

definition registerInvitations :: "GraphEnv \<Rightarrow> string \<Rightarrow> route list" where
  "registerInvitations ge prefix = [
     (''POST '' @ prefix @ ''/v1.0/invitations'', requireBearer ge (createInvitation ge)),
     (''GET '' @ prefix @ ''/invitations/redeem'', redeemInvitation ge)]"

definition registerAuditLogs :: "GraphEnv \<Rightarrow> string \<Rightarrow> route list" where
  "registerAuditLogs ge prefix = [
     (''GET '' @ prefix @ ''/v1.0/auditLogs/signIns'', requireBearer ge (listSignIns ge)),
     (''GET '' @ prefix @ ''/v1.0/auditLogs/directoryAudits'', requireBearer ge (listDirectoryAudits ge))]"

definition registerPasswordReset :: "GraphEnv \<Rightarrow> string \<Rightarrow> route list" where
  "registerPasswordReset ge prefix = [
     (''POST '' @ prefix @ ''/v1.0/users/{id}/authentication/methods/{methodId}/resetPassword'', requireBearer ge (resetPassword ge))]"

definition registerCustomSecurityAttributes :: "GraphEnv \<Rightarrow> string \<Rightarrow> route list" where
  "registerCustomSecurityAttributes ge prefix = [
     (''GET '' @ prefix @ ''/v1.0/directory/attributeSets'', requireBearer ge (listAttributeSets ge)),
     (''POST '' @ prefix @ ''/v1.0/directory/attributeSets'', requireBearer ge (createAttributeSet ge)),
     (''GET '' @ prefix @ ''/v1.0/directory/attributeSets/{id}'', requireBearer ge (getAttributeSet ge)),
     (''GET '' @ prefix @ ''/v1.0/directory/customSecurityAttributeDefinitions'', requireBearer ge (listCSADefs ge)),
     (''POST '' @ prefix @ ''/v1.0/directory/customSecurityAttributeDefinitions'', requireBearer ge (createCSADef ge)),
     (''GET '' @ prefix @ ''/v1.0/directory/customSecurityAttributeDefinitions/{id}'', requireBearer ge (getCSADef ge))]"

definition registerFederatedCredentials :: "GraphEnv \<Rightarrow> string \<Rightarrow> route list" where
  "registerFederatedCredentials ge prefix = [
     (''GET '' @ prefix @ ''/v1.0/applications/{id}/federatedIdentityCredentials'', requireBearer ge (listFederatedCreds ge)),
     (''POST '' @ prefix @ ''/v1.0/applications/{id}/federatedIdentityCredentials'', requireBearer ge (createFederatedCred ge)),
     (''GET '' @ prefix @ ''/v1.0/applications/{id}/federatedIdentityCredentials/{ficId}'', requireBearer ge (getFederatedCred ge)),
     (''PATCH '' @ prefix @ ''/v1.0/applications/{id}/federatedIdentityCredentials/{ficId}'', requireBearer ge (patchFederatedCred ge)),
     (''DELETE '' @ prefix @ ''/v1.0/applications/{id}/federatedIdentityCredentials/{ficId}'', requireBearer ge (deleteFederatedCred ge))]"

definition registerTokenLifetimePolicies :: "GraphEnv \<Rightarrow> string \<Rightarrow> route list" where
  "registerTokenLifetimePolicies ge prefix = [
     (''GET '' @ prefix @ ''/v1.0/policies/tokenLifetimePolicies'', requireBearer ge (listTLPs ge)),
     (''POST '' @ prefix @ ''/v1.0/policies/tokenLifetimePolicies'', requireBearer ge (createTLP ge)),
     (''GET '' @ prefix @ ''/v1.0/policies/tokenLifetimePolicies/{id}'', requireBearer ge (getTLP ge)),
     (''DELETE '' @ prefix @ ''/v1.0/policies/tokenLifetimePolicies/{id}'', requireBearer ge (deleteTLP ge)),
     (''GET '' @ prefix @ ''/v1.0/applications/{id}/tokenLifetimePolicies'', requireBearer ge (listAppTLPs ge)),
     (''POST '' @ prefix @ ''/v1.0/applications/{id}/tokenLifetimePolicies/$ref'', requireBearer ge (assignTLP ge)),
     (''DELETE '' @ prefix @ ''/v1.0/applications/{id}/tokenLifetimePolicies/{policyId}/$ref'', requireBearer ge (unassignTLP ge))]"

definition registerAuthMethods :: "GraphEnv \<Rightarrow> string \<Rightarrow> route list" where
  "registerAuthMethods ge prefix = [
     (''GET '' @ prefix @ ''/v1.0/users/{id}/authentication/methods'', requireBearer ge (authMethods ge False)),
     (''GET '' @ prefix @ ''/v1.0/me/authentication/methods'', requireDelegated ge (authMethods ge True)),
     (''GET '' @ prefix @ ''/v1.0/users/{id}/authentication/passwordMethods'', requireBearer ge (passwordMethods ge False)),
     (''GET '' @ prefix @ ''/v1.0/me/authentication/passwordMethods'', requireDelegated ge (passwordMethods ge True)),
     (''GET '' @ prefix @ ''/v1.0/users/{id}/authentication/fido2Methods'', requireBearer ge (fido2Methods ge False)),
     (''GET '' @ prefix @ ''/v1.0/me/authentication/fido2Methods'', requireDelegated ge (fido2Methods ge True)),
     (''DELETE '' @ prefix @ ''/v1.0/users/{id}/authentication/fido2Methods/{methodId}'', requireBearer ge (deleteFido2Method ge))]"

definition Register :: "GraphEnv \<Rightarrow> string \<Rightarrow> route list" where
  "Register ge prefix = Register_own ge prefix @ registerWrites ge prefix @ registerReads ge prefix @ registerDeleted ge prefix @ registerConsent ge prefix @ registerRoles ge prefix @ registerCustomRoles ge prefix @ registerMemberGroups ge prefix @ registerAdminUnits ge prefix @ registerInvitations ge prefix @ registerAuditLogs ge prefix @ registerPasswordReset ge prefix @ registerCustomSecurityAttributes ge prefix @ registerFederatedCredentials ge prefix @ registerTokenLifetimePolicies ge prefix @ registerAuthMethods ge prefix"

definition RegisteredPatterns :: "string \<Rightarrow> GraphEnv \<Rightarrow> string list" where
  "RegisteredPatterns prefix ge = map fst (Register ge prefix)"

text \<open>The router on that table. The server rejects a URL whose path does not unescape, and the router
  redirects one with empty segments; neither reaches a handler.\<close>

definition route_of :: "GraphEnv \<Rightarrow> string \<Rightarrow> string \<Rightarrow> string list \<Rightarrow> route option" where
  "route_of ge prefix meth segs = find_route (Register ge prefix) prefix meth segs"

definition serve :: "GraphEnv \<Rightarrow> string \<Rightarrow> string \<Rightarrow> GraphRequest \<Rightarrow> Graph \<Rightarrow> (reply \<times> Graph) option" where
  "serve ge prefix escaped r g =
     (case PathUnescape escaped of
        None \<Rightarrow> None
      | Some path \<Rightarrow>
        if \<not> HasPrefix escaped (prefix @ ''/'') then None
        else let segs = SplitChar (TrimPrefix escaped (prefix @ ''/'')) (CHR ''/'') in
          case route_of ge prefix (gq_Method r) segs of
            None \<Rightarrow> None
          | Some (pat, f) \<Rightarrow> Some (f (r\<lparr>gq_Path := path, gq_PathValue := path_values prefix pat segs\<rparr>) g))"

section \<open>Which handlers leave the users alone\<close>

named_theorems users_frame \<open>operations and handlers that keep the users table\<close>

definition keeps_users :: "'a op \<Rightarrow> bool" where
  "keeps_users f \<longleftrightarrow> (\<forall>s. users (snd (f s)) = users s)"

lemma keeps_tx: "keeps_users f \<Longrightarrow> keeps_users (tx f)"
  by (auto simp: keeps_users_def tx_def split: prod.splits sum.splits) (metis snd_conv)

lemma keeps_group_ops [users_frame]:
  "keeps_users (CreateGroup gr)" "keeps_users (UpdateGroup gr)" "keeps_users (DeleteGroup i)"
  "keeps_users (AddGroupMember i j)" "keeps_users (RemoveGroupMember i j)" "keeps_users (insertDeletedTx d)"
  by (simp_all add: keeps_users_def CreateGroup_def UpdateGroup_def DeleteGroup_def del_groups_def AddGroupMember_def
      RemoveGroupMember_def insertDeletedTx_def Let_def split: sum.splits)

lemma keeps_app_ops [users_frame]:
  "keeps_users (insert_app a)" "keeps_users (CreateApp a)" "keeps_users (UpdateApp a)" "keeps_users (delete_app_body i)"
  "keeps_users (CreateFederatedCredential c)" "keeps_users (UpdateFederatedCredential c)" "keeps_users (DeleteFederatedCredential i j)"
  by (simp_all add: keeps_users_def CreateApp_def insert_app_def UpdateApp_def delete_app_body_def del_apps_def clear_app_grants_def
      CreateFederatedCredential_def UpdateFederatedCredential_def DeleteFederatedCredential_def Let_def split: sum.splits)

lemma keeps_then:
  assumes "keeps_users f" and "keeps_users h"
  shows "keeps_users (\<lambda>s. case f s of (Inl e, s1) \<Rightarrow> (Inl e, s1) | (Inr _, s1) \<Rightarrow> h s1)"
  using assms by (auto simp: keeps_users_def split: prod.splits sum.splits) (metis snd_conv)+

lemma keeps_soft_delete [users_frame]: "keeps_users (SoftDeleteGroup now i)" "keeps_users (SoftDeleteApp now i)"
proof -
  have "users (snd (SoftDeleteGroup now i s)) = users s" for s
    using keeps_tx[OF keeps_then[OF keeps_group_ops(3) keeps_group_ops(6)]]
    by (auto simp: SoftDeleteGroup_def Let_def keeps_users_def split: sum.splits)
  moreover have "users (snd (SoftDeleteApp now i s)) = users s" for s
    using keeps_tx[OF keeps_then[OF keeps_app_ops(4) keeps_group_ops(6)]]
    by (auto simp: SoftDeleteApp_def Let_def keeps_users_def split: sum.splits)
  ultimately show "keeps_users (SoftDeleteGroup now i)" "keeps_users (SoftDeleteApp now i)" by (simp_all add: keeps_users_def)
qed

lemma keeps_policy_ops [users_frame]:
  "keeps_users (CreateOAuth2Grant og)" "keeps_users (DeleteOAuth2Grant i)" "keeps_users (CreateAppRoleAssignment a)"
  "keeps_users (DeleteAppRoleAssignment i)" "keeps_users (CreateDirectoryRoleAssignment d)" "keeps_users (DeleteDirectoryRoleAssignment i)"
  "keeps_users (CreateTokenLifetimePolicy p)" "keeps_users (DeleteTokenLifetimePolicy i)" "keeps_users (UnassignTokenLifetimePolicy i j)"
  "keeps_users (AssignTokenLifetimePolicy i j)" "keeps_users (PurgeDeletedItem now i)" "keeps_users (DeleteWebAuthnCredential i j)"
  by (simp_all add: keeps_users_def CreateOAuth2Grant_def DeleteOAuth2Grant_def CreateAppRoleAssignment_def DeleteAppRoleAssignment_def
      CreateDirectoryRoleAssignment_def DeleteDirectoryRoleAssignment_def CreateTokenLifetimePolicy_def DeleteTokenLifetimePolicy_def
      UnassignTokenLifetimePolicy_def AssignTokenLifetimePolicy_def tx_def PurgeDeletedItem_def delete_item_row_def purgeExpired_def
      DeleteWebAuthnCredential_def Let_def split: sum.splits)

lemma keeps_extra_ops [users_frame]:
  "keeps_users (CreateCustomRoleDefinition c)" "keeps_users (UpdateCustomRoleDefinition c)" "keeps_users (DeleteCustomRoleDefinition i)"
  "keeps_users (CreateAttributeSet a)" "keeps_users (CreateCSADefinition x)" "keeps_users (CreateAdministrativeUnit u)"
  "keeps_users (UpdateAdministrativeUnit u)" "keeps_users (DeleteAdministrativeUnit i)" "keeps_users (AddAdminUnitMember i j)"
  "keeps_users (RemoveAdminUnitMember i j)"
  by (simp_all add: keeps_users_def CreateCustomRoleDefinition_def UpdateCustomRoleDefinition_def DeleteCustomRoleDefinition_def
      CreateAttributeSet_def CreateCSADefinition_def CreateAdministrativeUnit_def UpdateAdministrativeUnit_def tx_def
      DeleteAdministrativeUnit_def AddAdminUnitMember_def RemoveAdminUnitMember_def Let_def split: sum.splits option.splits)

text \<open>The same for handlers.\<close>

abbreviation users_of :: "Graph \<Rightarrow> User list" where
  "users_of g \<equiv> users (gr_Store g)"

lemma store_step_keeps:
  assumes "keeps_users f" and "\<And>x g. users_of (snd (k x g)) = users_of g"
  shows "users_of (snd (store_step f onerr k g)) = users_of g"
  using assms by (auto simp: store_step_def keeps_users_def split: prod.splits sum.splits) (metis snd_conv)+

definition keeps :: "handler \<Rightarrow> bool" where
  "keeps h \<longleftrightarrow> (\<forall>r tok g. users_of (snd (h r tok g)) = users_of g)"

lemmas read_handler_defs = handleMe_def handleUsers_def handleUserByID_def handleGroups_def handleGroupByID_def handleGroupMembers_def
  handleMemberOf_def handleUserInfo_def getMemberObjects_def authMethods_def passwordMethods_def fido2Methods_def
  listApplications_def getApplication_def listServicePrincipals_def getServicePrincipal_def getByAlternateKey_def
  listOAuth2Grants_def listSPOAuth2Grants_def listAppRoleAssignedTo_def listAppRoleAssignments_def listRoleDefinitions_def
  getRoleDefinition_def listRoleAssignments_def getRoleAssignment_def listSignIns_def listDirectoryAudits_def listAdminUnits_def
  getAdminUnit_def listAdminUnitMembers_def listAttributeSets_def getAttributeSet_def listCSADefs_def getCSADef_def
  listFederatedCreds_def getFederatedCred_def listTLPs_def getTLP_def listAppTLPs_def

text \<open>A reading handler returns the state it was given.\<close>

definition reads_only :: "handler \<Rightarrow> bool" where
  "reads_only h \<longleftrightarrow> (\<forall>r tok g. snd (h r tok g) = g)"

lemma reads_only_handlers:
  "reads_only (handleMe ge)" "reads_only (handleUsers ge)" "reads_only (handleUserByID ge)" "reads_only (handleGroups ge)"
  "reads_only (handleGroupByID ge)" "reads_only (handleGroupMembers ge)" "reads_only (handleMemberOf ge)" "reads_only (handleUserInfo ge)"
  "reads_only (getMemberObjects ge b)" "reads_only (authMethods ge b)" "reads_only (passwordMethods ge b)" "reads_only (fido2Methods ge b)"
  "reads_only (listApplications ge)" "reads_only (getApplication ge)" "reads_only (listServicePrincipals ge)"
  "reads_only (getServicePrincipal ge)" "reads_only (getByAlternateKey ge)" "reads_only (listOAuth2Grants ge)"
  "reads_only (listSPOAuth2Grants ge)" "reads_only (listAppRoleAssignedTo ge)" "reads_only (listAppRoleAssignments ge)"
  "reads_only (listRoleDefinitions ge)" "reads_only (getRoleDefinition ge)" "reads_only (listRoleAssignments ge)"
  "reads_only (getRoleAssignment ge)" "reads_only (listSignIns ge)" "reads_only (listDirectoryAudits ge)" "reads_only (listAdminUnits ge)"
  "reads_only (getAdminUnit ge)" "reads_only (listAdminUnitMembers ge)" "reads_only (listAttributeSets ge)" "reads_only (getAttributeSet ge)"
  "reads_only (listCSADefs ge)" "reads_only (getCSADef ge)" "reads_only (listFederatedCreds ge)" "reads_only (getFederatedCred ge)"
  "reads_only (listTLPs ge)" "reads_only (getTLP ge)" "reads_only (listAppTLPs ge)"
  by (simp_all add: reads_only_def read_handler_defs Let_def split: sum.splits option.splits prod.splits)

lemma reads_keep [users_frame]: "reads_only h \<Longrightarrow> keeps h"
  by (simp add: reads_only_def keeps_def)

lemma keeps_bin_reads [users_frame]: "keeps (listDeleted ge t)" "keeps (getDeleted ge)" "keeps (purgeDeleted ge)"
  by (auto simp: keeps_def listDeleted_def getDeleted_def purgeDeleted_def ListDeletedItems_def GetDeletedItem_def purgeExpired_def
      Let_def users_frame intro!: store_step_keeps split: sum.splits option.splits prod.splits)

lemma keeps_group_writes [users_frame]:
  "keeps (createGroup ge)" "keeps (updateGroup ge)" "keeps (deleteGroup ge)" "keeps (addGroupMember ge)" "keeps (removeGroupMember ge)"
  by (auto simp: keeps_def createGroup_def updateGroup_def deleteGroup_def addGroupMember_def removeGroupMember_def Let_def
      intro!: store_step_keeps users_frame split: sum.splits)

lemma keeps_app_writes [users_frame]:
  "keeps (createApplication ge)" "keeps (updateApplication ge)" "keeps (deleteApplication ge)"
  "keeps (createFederatedCred ge)" "keeps (patchFederatedCred ge)" "keeps (deleteFederatedCred ge)"
  "keeps (createTLP ge)" "keeps (deleteTLP ge)" "keeps (assignTLP ge)" "keeps (unassignTLP ge)"
  by (auto simp: keeps_def createApplication_def updateApplication_def deleteApplication_def createFederatedCred_def
      patchFederatedCred_def deleteFederatedCred_def createTLP_def deleteTLP_def assignTLP_def unassignTLP_def Let_def
      intro!: store_step_keeps users_frame split: sum.splits)

lemma keeps_other_writes [users_frame]:
  "keeps (createOAuth2Grant ge)" "keeps (deleteOAuth2Grant ge)" "keeps (createAppRoleAssignment ge)" "keeps (deleteAppRoleAssignment ge)"
  "keeps (createRoleAssignment ge)" "keeps (deleteRoleAssignment ge)" "keeps (createRoleDefinition ge)" "keeps (updateRoleDefinition ge)"
  "keeps (deleteRoleDefinition ge)" "keeps (createAttributeSet ge)" "keeps (createCSADef ge)" "keeps (createAdminUnit ge)"
  "keeps (updateAdminUnit ge)" "keeps (deleteAdminUnit ge)" "keeps (addAdminUnitMember ge)" "keeps (removeAdminUnitMember ge)"
  "keeps (deleteFido2Method ge)"
  by (auto simp: keeps_def createOAuth2Grant_def deleteOAuth2Grant_def createAppRoleAssignment_def deleteAppRoleAssignment_def
      createRoleAssignment_def deleteRoleAssignment_def createRoleDefinition_def updateRoleDefinition_def deleteRoleDefinition_def
      createAttributeSet_def createCSADef_def createAdminUnit_def updateAdminUnit_def deleteAdminUnit_def addAdminUnitMember_def
      removeAdminUnitMember_def deleteFido2Method_def Let_def
      intro!: store_step_keeps users_frame split: sum.splits)

section \<open>The gates\<close>

lemma gate_keeps [users_frame]:
  "keeps h \<Longrightarrow> users_of (snd (requireBearer ge h r g)) = users_of g"
  "keeps h \<Longrightarrow> users_of (snd (requireDelegated ge h r g)) = users_of g"
  "keeps h \<Longrightarrow> users_of (snd (requireDelegatedUserInfo ge h r g)) = users_of g"
  by (auto simp: keeps_def requireBearer_def requireDelegated_def requireDelegatedUserInfo_def Let_def split: sum.splits prod.splits)

text \<open>A genuine bearer token for the Graph resource, as the request carries it.\<close>

definition presents :: "GraphEnv \<Rightarrow> GraphRequest \<Rightarrow> Graph \<Rightarrow> ValidatedToken \<Rightarrow> bool" where
  "presents ge r g tok \<longleftrightarrow>
     (\<exists>bearer. ValidateAccessToken (ge_env ge) (ge_cfg ge) (ge_now ge) (gr_Store g) bearer [cf_GraphResourceID (ge_cfg ge)] = Inr tok
        \<and> (gq_Authorization r = ''Bearer '' @ bearer \<or> gq_Form r ''access_token'' = bearer))"

definition held :: "ValidatedToken \<Rightarrow> string set" where
  "held tok = set (if vt_OID tok \<noteq> [] then vt_Scopes tok else tokenRoles tok)"

lemma validateBearer_InrE:
  assumes "validateBearer ge auth g = Inr tok"
  obtains bearer where "auth = ''Bearer '' @ bearer"
    "ValidateAccessToken (ge_env ge) (ge_cfg ge) (ge_now ge) (gr_Store g) bearer [cf_GraphResourceID (ge_cfg ge)] = Inr tok"
proof -
  from assms have p: "HasPrefix auth ''Bearer ''" and
    v: "ValidateAccessToken (ge_env ge) (ge_cfg ge) (ge_now ge) (gr_Store g) (TrimPrefix auth ''Bearer '') [cf_GraphResourceID (ge_cfg ge)] = Inr tok"
    by (auto simp: validateBearer_def split: if_splits sum.splits)
  from p obtain b where "auth = ''Bearer '' @ b" by (auto simp: HasPrefix_iff)
  then show ?thesis using v that by (metis TrimPrefix_append)
qed

lemma requireBearer_cases:
  obtains (refused) "refused (fst (requireBearer ge h r g))" "snd (requireBearer ge h r g) = g"
    | (passed) tok where "presents ge r g tok" "permissionDenied (ge_cfg ge) r tok = []" "requireBearer ge h r g = h r tok g"
proof (cases "validate ge r g")
  case (Inl msg)
  then show ?thesis using refused by (auto simp: requireBearer_def refused_def)
next
  case (Inr tok)
  then obtain b where "gq_Authorization r = ''Bearer '' @ b"
    "ValidateAccessToken (ge_env ge) (ge_cfg ge) (ge_now ge) (gr_Store g) b [cf_GraphResourceID (ge_cfg ge)] = Inr tok"
    by (auto simp: validate_def elim: validateBearer_InrE)
  then have "presents ge r g tok" by (auto simp: presents_def)
  then show ?thesis using Inr refused passed
    by (cases "permissionDenied (ge_cfg ge) r tok = []") (auto simp: requireBearer_def refused_def Let_def)
qed

lemma userinfo_cases:
  obtains (refused) "refused (fst (requireDelegatedUserInfo ge h r g))" "snd (requireDelegatedUserInfo ge h r g) = g"
    | (passed) tok where "presents ge r g tok"
proof (cases "userInfoBearer r")
  case (Inl e)
  then show ?thesis using refused by (cases e) (auto simp: requireDelegatedUserInfo_def refused_def)
next
  case (Inr raw)
  show ?thesis
  proof (cases "validateBearer ge raw g")
    case (Inl msg)
    then show ?thesis using \<open>userInfoBearer r = Inr raw\<close> refused by (auto simp: requireDelegatedUserInfo_def refused_def)
  next
    case (Inr tok)
    then obtain b where b: "raw = ''Bearer '' @ b"
      "ValidateAccessToken (ge_env ge) (ge_cfg ge) (ge_now ge) (gr_Store g) b [cf_GraphResourceID (ge_cfg ge)] = Inr tok"
      by (auto elim: validateBearer_InrE)
    have "gq_Authorization r = ''Bearer '' @ b \<or> gq_Form r ''access_token'' = b"
      using \<open>userInfoBearer r = Inr raw\<close> b(1) by (auto simp: userInfoBearer_def Let_def split: if_splits)
    with b(2) have "presents ge r g tok" unfolding presents_def by blast
    then show ?thesis by (rule passed)
  qed
qed

section \<open>The table\<close>

lemmas register_defs = Register_def Register_own_def registerWrites_def registerReads_def registerDeleted_def registerConsent_def
  registerRoles_def registerCustomRoles_def registerMemberGroups_def registerAdminUnits_def registerInvitations_def
  registerAuditLogs_def registerPasswordReset_def registerCustomSecurityAttributes_def registerFederatedCredentials_def
  registerTokenLifetimePolicies_def registerAuthMethods_def

text \<open>The patterns of the table, without the handlers.\<close>

definition graph_patterns :: "string \<Rightarrow> string list" where
  "graph_patterns prefix = [
     ''GET '' @ prefix @ ''/v1.0/me'',
     ''GET '' @ prefix @ ''/v1.0/me/memberOf'',
     ''GET '' @ prefix @ ''/v1.0/users'',
     ''GET '' @ prefix @ ''/v1.0/users/{id}'',
     ''GET '' @ prefix @ ''/v1.0/users/{id}/memberOf'',
     ''GET '' @ prefix @ ''/v1.0/groups'',
     ''GET '' @ prefix @ ''/v1.0/groups/{id}'',
     ''GET '' @ prefix @ ''/v1.0/groups/{id}/members'',
     ''GET '' @ prefix @ ''/oidc/userinfo'',
     ''POST '' @ prefix @ ''/oidc/userinfo'',
     ''POST '' @ prefix @ ''/v1.0/users'',
     ''PATCH '' @ prefix @ ''/v1.0/users/{id}'',
     ''DELETE '' @ prefix @ ''/v1.0/users/{id}'',
     ''POST '' @ prefix @ ''/v1.0/groups'',
     ''PATCH '' @ prefix @ ''/v1.0/groups/{id}'',
     ''DELETE '' @ prefix @ ''/v1.0/groups/{id}'',
     ''POST '' @ prefix @ ''/v1.0/groups/{id}/members/$ref'',
     ''DELETE '' @ prefix @ ''/v1.0/groups/{id}/members/{userId}/$ref'',
     ''POST '' @ prefix @ ''/v1.0/applications'',
     ''PATCH '' @ prefix @ ''/v1.0/applications/{id}'',
     ''DELETE '' @ prefix @ ''/v1.0/applications/{id}'',
     ''GET '' @ prefix @ ''/v1.0/applications'',
     ''GET '' @ prefix @ ''/v1.0/applications/{id}'',
     ''GET '' @ prefix @ ''/v1.0/servicePrincipals'',
     ''GET '' @ prefix @ ''/v1.0/servicePrincipals/{id}'',
     ''GET '' @ prefix @ ''/v1.0/{key}'',
     ''GET '' @ prefix @ ''/v1.0/directory/deletedItems/microsoft.graph.user'',
     ''GET '' @ prefix @ ''/v1.0/directory/deletedItems/microsoft.graph.group'',
     ''GET '' @ prefix @ ''/v1.0/directory/deletedItems/microsoft.graph.application'',
     ''GET '' @ prefix @ ''/v1.0/directory/deletedItems/graph.user'',
     ''GET '' @ prefix @ ''/v1.0/directory/deletedItems/graph.group'',
     ''GET '' @ prefix @ ''/v1.0/directory/deletedItems/graph.application'',
     ''GET '' @ prefix @ ''/v1.0/directory/deletedItems/{id}'',
     ''POST '' @ prefix @ ''/v1.0/directory/deletedItems/{id}/restore'',
     ''DELETE '' @ prefix @ ''/v1.0/directory/deletedItems/{id}'',
     ''POST '' @ prefix @ ''/v1.0/oauth2PermissionGrants'',
     ''GET '' @ prefix @ ''/v1.0/oauth2PermissionGrants'',
     ''DELETE '' @ prefix @ ''/v1.0/oauth2PermissionGrants/{id}'',
     ''GET '' @ prefix @ ''/v1.0/servicePrincipals/{id}/oauth2PermissionGrants'',
     ''POST '' @ prefix @ ''/v1.0/servicePrincipals/{id}/appRoleAssignedTo'',
     ''GET '' @ prefix @ ''/v1.0/servicePrincipals/{id}/appRoleAssignedTo'',
     ''GET '' @ prefix @ ''/v1.0/servicePrincipals/{id}/appRoleAssignments'',
     ''DELETE '' @ prefix @ ''/v1.0/servicePrincipals/{id}/appRoleAssignedTo/{assignmentId}'',
     ''GET '' @ prefix @ ''/v1.0/roleManagement/directory/roleDefinitions'',
     ''GET '' @ prefix @ ''/v1.0/roleManagement/directory/roleDefinitions/{id}'',
     ''GET '' @ prefix @ ''/v1.0/roleManagement/directory/roleAssignments'',
     ''POST '' @ prefix @ ''/v1.0/roleManagement/directory/roleAssignments'',
     ''GET '' @ prefix @ ''/v1.0/roleManagement/directory/roleAssignments/{id}'',
     ''DELETE '' @ prefix @ ''/v1.0/roleManagement/directory/roleAssignments/{id}'',
     ''POST '' @ prefix @ ''/v1.0/roleManagement/directory/roleDefinitions'',
     ''PATCH '' @ prefix @ ''/v1.0/roleManagement/directory/roleDefinitions/{id}'',
     ''DELETE '' @ prefix @ ''/v1.0/roleManagement/directory/roleDefinitions/{id}'',
     ''POST '' @ prefix @ ''/v1.0/users/{id}/getMemberObjects'',
     ''POST '' @ prefix @ ''/v1.0/users/{id}/getMemberGroups'',
     ''POST '' @ prefix @ ''/v1.0/me/getMemberObjects'',
     ''POST '' @ prefix @ ''/v1.0/me/getMemberGroups'',
     ''GET '' @ prefix @ ''/v1.0/directory/administrativeUnits'',
     ''POST '' @ prefix @ ''/v1.0/directory/administrativeUnits'',
     ''GET '' @ prefix @ ''/v1.0/directory/administrativeUnits/{id}'',
     ''PATCH '' @ prefix @ ''/v1.0/directory/administrativeUnits/{id}'',
     ''DELETE '' @ prefix @ ''/v1.0/directory/administrativeUnits/{id}'',
     ''GET '' @ prefix @ ''/v1.0/directory/administrativeUnits/{id}/members'',
     ''POST '' @ prefix @ ''/v1.0/directory/administrativeUnits/{id}/members/$ref'',
     ''DELETE '' @ prefix @ ''/v1.0/directory/administrativeUnits/{id}/members/{memberId}/$ref'',
     ''POST '' @ prefix @ ''/v1.0/invitations'',
     ''GET '' @ prefix @ ''/invitations/redeem'',
     ''GET '' @ prefix @ ''/v1.0/auditLogs/signIns'',
     ''GET '' @ prefix @ ''/v1.0/auditLogs/directoryAudits'',
     ''POST '' @ prefix @ ''/v1.0/users/{id}/authentication/methods/{methodId}/resetPassword'',
     ''GET '' @ prefix @ ''/v1.0/directory/attributeSets'',
     ''POST '' @ prefix @ ''/v1.0/directory/attributeSets'',
     ''GET '' @ prefix @ ''/v1.0/directory/attributeSets/{id}'',
     ''GET '' @ prefix @ ''/v1.0/directory/customSecurityAttributeDefinitions'',
     ''POST '' @ prefix @ ''/v1.0/directory/customSecurityAttributeDefinitions'',
     ''GET '' @ prefix @ ''/v1.0/directory/customSecurityAttributeDefinitions/{id}'',
     ''GET '' @ prefix @ ''/v1.0/applications/{id}/federatedIdentityCredentials'',
     ''POST '' @ prefix @ ''/v1.0/applications/{id}/federatedIdentityCredentials'',
     ''GET '' @ prefix @ ''/v1.0/applications/{id}/federatedIdentityCredentials/{ficId}'',
     ''PATCH '' @ prefix @ ''/v1.0/applications/{id}/federatedIdentityCredentials/{ficId}'',
     ''DELETE '' @ prefix @ ''/v1.0/applications/{id}/federatedIdentityCredentials/{ficId}'',
     ''GET '' @ prefix @ ''/v1.0/policies/tokenLifetimePolicies'',
     ''POST '' @ prefix @ ''/v1.0/policies/tokenLifetimePolicies'',
     ''GET '' @ prefix @ ''/v1.0/policies/tokenLifetimePolicies/{id}'',
     ''DELETE '' @ prefix @ ''/v1.0/policies/tokenLifetimePolicies/{id}'',
     ''GET '' @ prefix @ ''/v1.0/applications/{id}/tokenLifetimePolicies'',
     ''POST '' @ prefix @ ''/v1.0/applications/{id}/tokenLifetimePolicies/$ref'',
     ''DELETE '' @ prefix @ ''/v1.0/applications/{id}/tokenLifetimePolicies/{policyId}/$ref'',
     ''GET '' @ prefix @ ''/v1.0/users/{id}/authentication/methods'',
     ''GET '' @ prefix @ ''/v1.0/me/authentication/methods'',
     ''GET '' @ prefix @ ''/v1.0/users/{id}/authentication/passwordMethods'',
     ''GET '' @ prefix @ ''/v1.0/me/authentication/passwordMethods'',
     ''GET '' @ prefix @ ''/v1.0/users/{id}/authentication/fido2Methods'',
     ''GET '' @ prefix @ ''/v1.0/me/authentication/fido2Methods'',
     ''DELETE '' @ prefix @ ''/v1.0/users/{id}/authentication/fido2Methods/{methodId}'']"

lemma registered_patterns: "map fst (Register ge prefix) = graph_patterns prefix"
  by (simp add: register_defs graph_patterns_def)

lemma route_of_fst:
  "map_option fst (route_of ge prefix meth segs) =
     (case mux_match (map (mux_pattern prefix) (graph_patterns prefix)) meth segs of
        None \<Rightarrow> None
      | Some p \<Rightarrow> find (\<lambda>pat. mux_pattern prefix pat = p) (graph_patterns prefix))"
proof -
  have fnd: "map_option fst (find (\<lambda>rt. P (fst rt)) rs) = find P (map fst rs)" for P and rs :: "route list"
    by (induction rs) auto
  have pats: "map (mux_pattern prefix \<circ> fst) (Register ge prefix) = map (mux_pattern prefix) (graph_patterns prefix)"
    using registered_patterns[of ge prefix] by (metis map_map)
  show ?thesis
    unfolding route_of_def find_route_def Let_def pats using fnd[of "\<lambda>pat. mux_pattern prefix pat = p" "Register ge prefix" for p]
    by (simp add: registered_patterns split: option.splits)
qed

definition redeem_pattern :: "string \<Rightarrow> string" where
  "redeem_pattern prefix = ''GET '' @ prefix @ ''/invitations/redeem''"

definition user_patterns :: "string \<Rightarrow> string list" where
  "user_patterns prefix = [''POST '' @ prefix @ ''/v1.0/users'', ''PATCH '' @ prefix @ ''/v1.0/users/{id}'',
     ''DELETE '' @ prefix @ ''/v1.0/users/{id}'',
     ''POST '' @ prefix @ ''/v1.0/users/{id}/authentication/methods/{methodId}/resetPassword'',
     ''POST '' @ prefix @ ''/v1.0/invitations'', ''POST '' @ prefix @ ''/v1.0/directory/deletedItems/{id}/restore'']"

definition gated :: "GraphEnv \<Rightarrow> (GraphRequest \<Rightarrow> Graph \<Rightarrow> reply \<times> Graph) \<Rightarrow> bool" where
  "gated ge f \<longleftrightarrow> (\<exists>h. f = requireBearer ge h) \<or> (\<exists>h. f = requireDelegatedUserInfo ge h)"

lemma gated_gates [simp]: "gated ge (requireBearer ge h)" "gated ge (requireDelegated ge h)" "gated ge (requireDelegatedUserInfo ge h)"
  by (auto simp: gated_def requireDelegated_def)

lemma table_gated: "list_all (\<lambda>(pat, f). gated ge f \<or> pat = redeem_pattern prefix) (Register ge prefix)"
  by (simp add: register_defs redeem_pattern_def)

definition keeps_route :: "(GraphRequest \<Rightarrow> Graph \<Rightarrow> reply \<times> Graph) \<Rightarrow> bool" where
  "keeps_route f \<longleftrightarrow> (\<forall>r g. users_of (snd (f r g)) = users_of g)"

lemma keeps_routes [simp]:
  "keeps h \<Longrightarrow> keeps_route (requireBearer ge h)" "keeps h \<Longrightarrow> keeps_route (requireDelegated ge h)"
  "keeps h \<Longrightarrow> keeps_route (requireDelegatedUserInfo ge h)"
  by (simp_all add: keeps_route_def users_frame)

lemma table_users:
  "list_all (\<lambda>(pat, f). keeps_route f \<or> pat = redeem_pattern prefix
     \<or> pat \<in> set (user_patterns prefix) \<and> (\<exists>h. f = requireBearer ge h)) (Register ge prefix)"
  by (simp add: register_defs redeem_pattern_def user_patterns_def users_frame reads_only_handlers del: append.simps) (auto)

section \<open>From the route to the requirement\<close>

definition user_head :: "foldPattern \<Rightarrow> bool" where
  "user_head p \<longleftrightarrow> fp_method p \<in> set [''POST'', ''PATCH'', ''DELETE''] \<and>
     (case fp_segs p of
        a # b # _ \<Rightarrow> a = \<lparr>fs_lit = ''v1.0'', fs_wild = False\<rparr> \<and> \<not> fs_wild b \<and> fs_lit b \<in> set [''users'', ''invitations'', ''directory'']
      | _ \<Rightarrow> False)"

lemma user_patterns_head:
  assumes "prefix \<in> {[], ''/graph''}" and "pat \<in> set (user_patterns prefix)"
  shows "user_head (mux_pattern prefix pat)"
proof -
  have "list_all (\<lambda>pat. user_head (mux_pattern [] pat)) (user_patterns [])" by code_simp
  moreover have "list_all (\<lambda>pat. user_head (mux_pattern ''/graph'' pat)) (user_patterns ''/graph'')" by code_simp
  ultimately show ?thesis using assms by (auto simp: list_all_iff)
qed

lemma redeem_segs:
  assumes "prefix \<in> {[], ''/graph''}" and "pattern_exact m segs (mux_pattern prefix (redeem_pattern prefix))"
  shows "\<exists>a b. segs = [a, b] \<and> PathUnescape a = Some ''invitations'' \<and> PathUnescape b = Some ''redeem''"
proof -
  have p: "fp_segs (mux_pattern [] (redeem_pattern [])) = [\<lparr>fs_lit = ''invitations'', fs_wild = False\<rparr>, \<lparr>fs_lit = ''redeem'', fs_wild = False\<rparr>]"
    "fp_segs (mux_pattern ''/graph'' (redeem_pattern ''/graph'')) = [\<lparr>fs_lit = ''invitations'', fs_wild = False\<rparr>, \<lparr>fs_lit = ''redeem'', fs_wild = False\<rparr>]"
    by code_simp+
  have "fp_segs (mux_pattern prefix (redeem_pattern prefix)) = [\<lparr>fs_lit = ''invitations'', fs_wild = False\<rparr>, \<lparr>fs_lit = ''redeem'', fs_wild = False\<rparr>]"
    using assms(1) p by (elim insertE) simp_all
  then show ?thesis using assms(2) by (auto simp: pattern_exact_def seg_exact_def list_all2_Cons1)
qed

lemma serve_SomeE:
  assumes "serve ge prefix escaped r g = Some (rep, g')"
  obtains ds segs pat f where "escaped = prefix @ ''/'' @ Join segs ''/''" "list_all2 (\<lambda>s d. PathUnescape s = Some d) segs ds"
    "(pat, f) \<in> set (Register ge prefix)" "pattern_exact (gq_Method r) segs (mux_pattern prefix pat)"
    "PathUnescape escaped = Some (prefix @ ''/'' @ Join ds ''/'') \<or> CHR ''%'' \<in> set prefix"
    "(rep, g') = f (r\<lparr>gq_Path := the (PathUnescape escaped), gq_PathValue := path_values prefix pat segs\<rparr>) g"
proof -
  let ?rest = "TrimPrefix escaped (prefix @ ''/'')"
  let ?segs = "SplitChar ?rest (CHR ''/'')"
  from assms obtain path p pat f where s: "PathUnescape escaped = Some path" "HasPrefix escaped (prefix @ ''/'')"
    "mux_match (map (mux_pattern prefix \<circ> fst) (Register ge prefix)) (gq_Method r) ?segs = Some p"
    "find (\<lambda>rt. mux_pattern prefix (fst rt) = p) (Register ge prefix) = Some (pat, f)"
    "(rep, g') = f (r\<lparr>gq_Path := path, gq_PathValue := path_values prefix pat ?segs\<rparr>) g"
    by (auto simp: serve_def route_of_def find_route_def Let_def split: option.splits if_splits)
  from s(2) obtain rest where rest: "escaped = (prefix @ ''/'') @ rest" by (auto simp: HasPrefix_iff)
  then have tr: "?rest = rest" by (metis TrimPrefix_append)
  have j: "Join ?segs ''/'' = rest" using Join_SplitChar[of rest "CHR ''/''"] tr by simp
  have "pattern_exact (gq_Method r) ?segs p" using mux_match_pred[OF s(3)] by blast
  moreover from s(4) have "(pat, f) \<in> set (Register ge prefix)" "mux_pattern prefix (fst (pat, f)) = p"
    unfolding find_Some_iff by (metis nth_mem)+
  moreover obtain y z where yz: "PathUnescape prefix = Some y" "PathUnescape rest = Some z" "path = y @ ''/'' @ z"
    using s(1) rest unescape_split[of False prefix rest] by (auto simp: PathUnescape_def)
  moreover from yz(2) obtain ds where "list_all2 (\<lambda>s d. PathUnescape s = Some d) ?segs ds" "z = Join ds ''/''"
    using PathUnescape_JoinE[of ?segs] j by auto
  moreover have "PathUnescape escaped = Some (prefix @ ''/'' @ z) \<or> CHR ''%'' \<in> set prefix"
    using yz s(1) unescape_plain[of prefix] by auto
  ultimately show ?thesis using that[of ?segs _ pat f] s(1,5) rest j by simp
qed

lemma head_takeWhile: "(let i = IndexByte res (CHR ''/'') in if i \<ge> 0 then slice_to res i else res) = takeWhile (\<lambda>c. c \<noteq> CHR ''/'') res"
proof (cases "CHR ''/'' \<in> set res")
  case True
  then show ?thesis by (simp add: IndexByte_def slice_to_def takeWhile_eq_take[symmetric])
next
  case False
  then show ?thesis by (simp add: IndexByte_def)
qed

lemma head_Join: "CHR ''/'' \<notin> set d \<Longrightarrow> takeWhile (\<lambda>c. c \<noteq> CHR ''/'') (Join (d # ds) ''/'') = d"
  by (cases ds) simp_all

lemma user_requirement:
  assumes "m \<in> {''POST'', ''PATCH'', ''DELETE''}" and "d \<in> {''users'', ''invitations'', ''directory''}"
  shows "\<exists>ps. graphRequirement m (Join (d # ds) ''/'') = both ps \<and> ps \<noteq> []
    \<and> set ps \<subseteq> {''User.ReadWrite.All'', ''Directory.ReadWrite.All'', ''User.Invite.All''}"
proof -
  have d: "CHR ''/'' \<notin> set d" using assms(2) by auto
  have w: "m \<noteq> ''GET''" "m \<noteq> ''HEAD''" using assms(1) by auto
  show ?thesis using assms(2) w
    unfolding graphRequirement_def head_takeWhile[unfolded Let_def] Let_def head_Join[OF d]
    by (auto simp: userWrite_def both_def)
qed

lemma resource_of_path: "prefix \<in> {[], ''/graph''} \<Longrightarrow> resourcePath (prefix @ ''/v1.0/'' @ x) = Some x"
  by (auto simp: HasPrefix_def)

lemma permission_granted:
  assumes "permissionDenied cfg r tok = []" and "cf_GraphPermissions cfg" and "resourcePath (gq_Path r) = Some res"
    and "graphRequirement (gq_Method r) res = both ps" and "ps \<noteq> []"
  shows "held tok \<inter> set ps \<noteq> {}"
  using assms by (auto simp: permissionDenied_def Let_def both_def held_def hasAny_def list_ex_iff split: if_splits)

section \<open>The surface as a whole\<close>

definition graph_folder :: "GraphEnv \<Rightarrow> string \<Rightarrow> CaseFolder option" where
  "graph_folder ge prefix = learn_all (RegisteredPatterns prefix ge) (NewCaseFolder prefix)"

text \<open>\<^verbatim>\<open>CaseFolder.Wrap\<close> around the router. \<open>None\<close>: no Graph handler runs.\<close>

definition handle :: "GraphEnv \<Rightarrow> string \<Rightarrow> FoldURL \<Rightarrow> GraphRequest \<Rightarrow> Graph \<Rightarrow> (reply \<times> Graph) option" where
  "handle ge prefix u r g =
     (case graph_folder ge prefix of
        None \<Rightarrow> None
      | Some f \<Rightarrow>
        (let u1 = fold_url f (gq_Method r) u in
         serve ge prefix (fu_Escaped u1) (r\<lparr>gq_Query := query_of (fu_RawQuery u1)\<rparr>) g))"

lemma served_gated:
  assumes "serve ge prefix escaped r g = Some (rep, g')" and "prefix \<in> {[], ''/graph''}"
    and "PathUnescape escaped \<noteq> Some (prefix @ ''/invitations/redeem'')"
  shows "(g' \<noteq> g \<or> \<not> refused rep \<longrightarrow> (\<exists>tok. presents ge r g tok))
    \<and> (cf_GraphPermissions (ge_cfg ge) \<and> users_of g' \<noteq> users_of g \<longrightarrow>
        (\<exists>tok. presents ge r g tok \<and> held tok \<inter> {''User.ReadWrite.All'', ''Directory.ReadWrite.All'', ''User.Invite.All''} \<noteq> {}))"
proof -
  from serve_SomeE[OF assms(1)] obtain ds segs pat f where s: "escaped = prefix @ ''/'' @ Join segs ''/''"
    "list_all2 (\<lambda>s d. PathUnescape s = Some d) segs ds" "(pat, f) \<in> set (Register ge prefix)"
    "pattern_exact (gq_Method r) segs (mux_pattern prefix pat)"
    "PathUnescape escaped = Some (prefix @ ''/'' @ Join ds ''/'') \<or> CHR ''%'' \<in> set prefix"
    "(rep, g') = f (r\<lparr>gq_Path := the (PathUnescape escaped), gq_PathValue := path_values prefix pat segs\<rparr>) g" .
  let ?r = "r\<lparr>gq_Path := the (PathUnescape escaped), gq_PathValue := path_values prefix pat segs\<rparr>"
  have path: "PathUnescape escaped = Some (prefix @ ''/'' @ Join ds ''/'')" using s(5) assms(2) by auto
  have same: "presents ge ?r g tok = presents ge r g tok" for tok by (simp add: presents_def)
  have nr: "pat \<noteq> redeem_pattern prefix"
  proof
    assume "pat = redeem_pattern prefix"
    with redeem_segs[OF assms(2)] s(4) obtain a b where "segs = [a, b]" "PathUnescape a = Some ''invitations''" "PathUnescape b = Some ''redeem''"
      by blast
    with s(2) path assms(3) show False by (auto simp: list_all2_Cons1)
  qed
  have g: "gated ge f" using table_gated[of ge prefix] s(3) nr by (auto simp: list_all_iff)
  have tok: "\<exists>tok. presents ge r g tok" if "g' \<noteq> g \<or> \<not> refused rep"
    using g unfolding gated_def
  proof
    assume "\<exists>h. f = requireBearer ge h"
    then obtain h where "f = requireBearer ge h" ..
    then show ?thesis using requireBearer_cases[of ge h ?r g] s(6) that same by (metis fst_conv snd_conv)
  next
    assume "\<exists>h. f = requireDelegatedUserInfo ge h"
    then obtain h where "f = requireDelegatedUserInfo ge h" ..
    then show ?thesis using userinfo_cases[of ge h ?r g] s(6) that same by (metis fst_conv snd_conv)
  qed
  have "\<exists>tok. presents ge r g tok \<and> held tok \<inter> {''User.ReadWrite.All'', ''Directory.ReadWrite.All'', ''User.Invite.All''} \<noteq> {}"
    if en: "cf_GraphPermissions (ge_cfg ge)" and ch: "users_of g' \<noteq> users_of g"
  proof -
    have "\<not> keeps_route f" using ch s(6) unfolding keeps_route_def by (metis snd_conv)
    then have up: "pat \<in> set (user_patterns prefix)" "\<exists>h. f = requireBearer ge h"
      using table_users[of prefix ge] s(3) nr by (auto simp: list_all_iff)
    then obtain h where f: "f = requireBearer ge h" by blast
    have hd: "user_head (mux_pattern prefix pat)" by (rule user_patterns_head[OF assms(2) up(1)])
    obtain a b t where p: "fp_segs (mux_pattern prefix pat) = a # b # t" "a = \<lparr>fs_lit = ''v1.0'', fs_wild = False\<rparr>" "\<not> fs_wild b"
      "fs_lit b \<in> {''users'', ''invitations'', ''directory''}" "fp_method (mux_pattern prefix pat) \<in> {''POST'', ''PATCH'', ''DELETE''}"
      using hd by (auto simp: user_head_def split: list.splits)
    obtain sa sb st where sg: "segs = sa # sb # st" "PathUnescape sa = Some ''v1.0''" "PathUnescape sb = Some (fs_lit b)"
      using s(4) p by (auto simp: pattern_exact_def seg_exact_def list_all2_Cons1)
    obtain dt where dt: "ds = ''v1.0'' # fs_lit b # dt" using s(2) sg by (auto simp: list_all2_Cons1)
    have m: "gq_Method r \<in> {''POST'', ''PATCH'', ''DELETE''}" using s(4) p(5) by (auto simp: pattern_exact_def allows_def)
    obtain ps where ps: "graphRequirement (gq_Method r) (Join (fs_lit b # dt) ''/'') = both ps" "ps \<noteq> []"
      "set ps \<subseteq> {''User.ReadWrite.All'', ''Directory.ReadWrite.All'', ''User.Invite.All''}"
      using user_requirement[OF m p(4)] by blast
    have res: "resourcePath (gq_Path ?r) = Some (Join (fs_lit b # dt) ''/'')"
      using resource_of_path[OF assms(2), of "Join (fs_lit b # dt) ''/''"] path dt by simp
    have "g' \<noteq> g" using ch by auto
    then obtain tok where t: "presents ge r g tok" "permissionDenied (ge_cfg ge) ?r tok = []"
      using requireBearer_cases[of ge h ?r g] s(6) f same by (metis snd_conv)
    have "held tok \<inter> set ps \<noteq> {}"
      by (rule permission_granted[OF t(2) en res _ ps(2)]) (simp add: ps(1))
    with t(1) ps(3) show ?thesis by blast
  qed
  with tok show ?thesis by blast
qed

text \<open>
  C37. The Graph surface is closed. Whatever the spelling of the path, a request that is not the
  redemption link changes the state or is answered with anything but an error only if it presents an
  access token that \<^verbatim>\<open>ValidateAccessToken\<close> accepts for the Graph resource. With permission enforcement on,
  it changes the users of the directory only if that token holds a permission to write or invite users:
  in its scopes for a delegated token, in its roles for an app-only one.
\<close>

theorem graph_surface_gated:
  assumes "handle ge prefix u r g = Some (rep, g')" and "prefix \<in> {[], ''/graph''}"
    and "graph_folder ge prefix = Some f" and "escaped = fu_Escaped (fold_url f (gq_Method r) u)"
    and "PathUnescape escaped \<noteq> Some (prefix @ ''/invitations/redeem'')"
  shows "(g' \<noteq> g \<or> \<not> refused rep \<longrightarrow> (\<exists>tok. presents ge r g tok))
    \<and> (cf_GraphPermissions (ge_cfg ge) \<and> users (gr_Store g') \<noteq> users (gr_Store g) \<longrightarrow>
        (\<exists>tok. presents ge r g tok \<and> held tok \<inter> {''User.ReadWrite.All'', ''Directory.ReadWrite.All'', ''User.Invite.All''} \<noteq> {}))"
proof -
  let ?r = "r\<lparr>gq_Query := query_of (fu_RawQuery (fold_url f (gq_Method r) u))\<rparr>"
  have "presents ge ?r g tok = presents ge r g tok" for tok by (simp add: presents_def)
  moreover have "serve ge prefix escaped ?r g = Some (rep, g')"
    using assms(1,3,4) by (simp add: handle_def Let_def)
  ultimately show ?thesis using served_gated[OF _ assms(2,5), of ge ?r g rep g'] by simp
qed

definition graph_claims :: claims where
  "graph_claims = claims1(''scp'' \<mapsto> CStr ''User.ReadWrite.All'')"

definition ge0 :: GraphEnv where
  "ge0 = \<lparr>ge_env = env0 graph_claims, ge_cfg = config0, ge_loginHost = ''h'', ge_now = 10, ge_wall = 10, ge_guid = ''n1'',
     ge_guid2 = ''n2'', ge_opaque = ''o'', ge_hash = Some, ge_rid = Some ''e''\<rparr>"

definition graph0 :: Graph where
  "graph0 = \<lparr>gr_Store = sv_Store (service1 graph_claims), gr_Audit = \<lparr>rec_buf = [], rec_next = 0, rec_full = False, rec_cap = 0\<rparr>,
     gr_DirAudit = None\<rparr>"

definition url0 :: FoldURL where
  "url0 = \<lparr>fu_Path = ''/V1.0/USERS'', fu_Escaped = ''/V1.0/USERS'', fu_RawQuery = []\<rparr>"

definition create_request :: "string \<Rightarrow> GraphRequest" where
  "create_request jwt = \<lparr>gq_Method = ''POST'', gq_Path = [], gq_Query = (\<lambda>_. []), gq_PathValue = (\<lambda>_. []),
     gq_Authorization = ''Bearer '' @ jwt, gq_ContentType = [], gq_Form = (\<lambda>_. []), gq_ContentLength = 9,
     gq_Body = Some (JObj [(''displayName'', JStr ''N''), (''UserPrincipalName'', JStr ''n@t'')])\<rparr>"

lemma fold_sample:
  "map_option (\<lambda>f. fold_url f ''POST'' url0) (learn_all (graph_patterns []) (NewCaseFolder []))
     = Some \<lparr>fu_Path = ''/v1.0/users'', fu_Escaped = ''/v1.0/users'', fu_RawQuery = []\<rparr>"
  by code_simp

lemma route_fst: "map_option fst (route_of ge0 [] ''POST'' [''v1.0'', ''users'']) = Some ''POST /v1.0/users''"
  unfolding route_of_fst by code_simp

lemma route_sample: "route_of ge0 [] ''POST'' [''v1.0'', ''users''] = Some (''POST /v1.0/users'', requireBearer ge0 (createUser ge0))"
proof -
  obtain f where f: "route_of ge0 [] ''POST'' [''v1.0'', ''users''] = Some (''POST /v1.0/users'', f)" using route_fst by auto
  then have "(''POST /v1.0/users'', f) \<in> set (Register ge0 [])"
    by (auto simp: route_of_def find_route_def Let_def find_Some_iff in_set_conv_nth split: option.splits)
  then have "f = requireBearer ge0 (createUser ge0)" by (simp add: register_defs)
  with f show ?thesis by simp
qed

lemma token_sample:
  obtains jwt tok where
    "ValidateAccessToken (env0 graph_claims) config0 10 (sv_Store (service1 graph_claims)) jwt [''https://graph''] = Inr tok"
    "vt_OID tok = ''u''" "vt_Scopes tok = [''User.ReadWrite.All'']" "str_claim (vt_Claims tok) ''tid'' = ''t''"
proof -
  let ?sg = "sv_Signer (service1 graph_claims)"
  obtain jwt where j: "SignRS256 (env0 graph_claims) (sg_PrivateKey ?sg) (sg_Kid ?sg) graph_claims = Inr jwt"
    by (simp add: SignRS256_def env0_def)
  have "signer_ok (env0 graph_claims) (sv_Store (service1 graph_claims)) ?sg" using service1_ok by (simp add: service_ok_def)
  then have v: "ValidateAccessToken (env0 graph_claims) config0 10 (sv_Store (service1 graph_claims)) jwt [''https://graph'']
      = check_claims config0 10 [''https://graph''] graph_claims"
    by (rule signed_token_validation[OF crypto_laws_env0 _ j]) (simp add: env0_def)
  have "Fields ''User.ReadWrite.All'' = [''User.ReadWrite.All'']" by code_simp
  then have "\<exists>tok. check_claims config0 10 [''https://graph''] graph_claims = Inr tok \<and> vt_OID tok = ''u''
      \<and> vt_Scopes tok = [''User.ReadWrite.All''] \<and> str_claim (vt_Claims tok) ''tid'' = ''t''"
    by (simp add: check_claims_def str_claim_def numClaim_def graph_claims_def claims1_def clockSkewSeconds_def i64_add_def
        wrap64_def issuerForTenant_def config0_def)
  then show ?thesis using that v by auto
qed

lemma body_sample:
  "decodeGraph user_body (create_request []) = Inr \<lparr>ub_AccountEnabled = None, ub_DisplayName = Some ''N'', ub_GivenName = None,
     ub_Surname = None, ub_Mail = None, ub_UserPrincipalName = Some ''n@t'', ub_CustomSecurityAttributes = [], ub_PasswordProfile = None\<rparr>"
  by code_simp

theorem graph_surface_gated_witness:
  "\<exists>jwt rep g'. handle ge0 [] url0 (create_request jwt) graph0 = Some (rep, g') \<and> users (gr_Store g') \<noteq> users (gr_Store graph0)
     \<and> (\<exists>tok. presents ge0 (create_request jwt) graph0 tok
          \<and> held tok \<inter> {''User.ReadWrite.All'', ''Directory.ReadWrite.All'', ''User.Invite.All''} \<noteq> {})"
proof -
  obtain jwt tok where tok:
    "ValidateAccessToken (env0 graph_claims) config0 10 (sv_Store (service1 graph_claims)) jwt [''https://graph''] = Inr tok"
    "vt_OID tok = ''u''" "vt_Scopes tok = [''User.ReadWrite.All'']" "str_claim (vt_Claims tok) ''tid'' = ''t''"
    by (rule token_sample)
  obtain ks where st: "gr_Store graph0 = store0\<lparr>signing_keys := ks\<rparr>"
    using service1_frame[of graph_claims] by (auto simp: graph0_def keys_only_def)
  obtain f where f: "graph_folder ge0 [] = Some f"
    "fold_url f ''POST'' url0 = \<lparr>fu_Path = ''/v1.0/users'', fu_Escaped = ''/v1.0/users'', fu_RawQuery = []\<rparr>"
    using fold_sample by (auto simp: graph_folder_def RegisteredPatterns_def registered_patterns)
  let ?r = "(create_request jwt)\<lparr>gq_Query := query_of [], gq_Path := ''/v1.0/users'', gq_PathValue := path_values [] ''POST /v1.0/users'' [''v1.0'', ''users'']\<rparr>"
  have un: "PathUnescape ''/v1.0/users'' = Some ''/v1.0/users''" "HasPrefix ''/v1.0/users'' ''/''"
    "SplitChar (TrimPrefix ''/v1.0/users'' ''/'') (CHR ''/'') = [''v1.0'', ''users'']" "PathUnescape ''/v1.0/users'' \<noteq> Some ''/invitations/redeem''"
    by code_simp+
  have m: "gq_Method (create_request jwt) = ''POST''" by (simp add: create_request_def)
  have h: "handle ge0 [] url0 (create_request jwt) graph0 = Some (requireBearer ge0 (createUser ge0) ?r graph0)"
    by (simp add: handle_def f serve_def un route_sample m Let_def)
  have a: "gq_Authorization ?r = ''Bearer '' @ jwt" by (simp add: create_request_def)
  have v: "validate ge0 ?r graph0 = Inr tok"
    unfolding validate_def validateBearer_def a
    using tok(1) by (simp add: ge0_def graph0_def config0_def HasPrefix_def TrimPrefix_def)
  have pd: "permissionDenied config0 ?r tok = []"
  proof -
    have "resourcePath ''/v1.0/users'' = Some ''users''" "graphRequirement ''POST'' ''users'' = userWrite"
      "hasAny [''User.ReadWrite.All''] (pm_delegated userWrite)" by code_simp+
    then show ?thesis by (simp add: permissionDenied_def m tok)
  qed
  have b: "decodeGraph user_body ?r = decodeGraph user_body (create_request [])" by (simp add: decodeGraph_def create_request_def)
  have "\<exists>rep g'. requireBearer ge0 (createUser ge0) ?r graph0 = (rep, g') \<and> users_of g' \<noteq> users_of graph0"
    using v pd tok(4) unfolding requireBearer_def createUser_def b body_sample
    by (simp add: ge0_def or_else_def new_hash_def tenantOf_def store_step_def CreateUser_def st has_defs sample_defs Let_def)
  then obtain rep g' where g': "requireBearer ge0 (createUser ge0) ?r graph0 = (rep, g')" "users_of g' \<noteq> users_of graph0" by blast
  with h have hh: "handle ge0 [] url0 (create_request jwt) graph0 = Some (rep, g')" by simp
  have en: "cf_GraphPermissions (ge_cfg ge0)" by (simp add: ge0_def config0_def)
  have "\<exists>tok. presents ge0 (create_request jwt) graph0 tok
      \<and> held tok \<inter> {''User.ReadWrite.All'', ''Directory.ReadWrite.All'', ''User.Invite.All''} \<noteq> {}"
    using graph_surface_gated[OF hh _ f(1) refl] en g'(2) un(4) m f(2) by simp
  with hh g'(2) show ?thesis by blast
qed

end
