(* ===== verification/GraphEffects.thy ===== *)
theory GraphEffects
  imports GraphWrites Snapshot
begin

text \<open>
  What the writing handlers of the Graph surface achieve: every directory change of \<^verbatim>\<open>writes.go\<close> is
  journalled exactly once and only when it happened, a password reset takes effect, and a deleted user
  comes back whole.
\<close>

section \<open>The directory journal\<close>

text \<open>The writing handlers of \<^verbatim>\<open>writes.go\<close> with the activity they record and the object they name.\<close>

definition audited_writes :: "GraphEnv \<Rightarrow> (string \<times> (GraphRequest \<Rightarrow> string) \<times> handler) list" where
  "audited_writes ge = [
     (''Add user'', \<lambda>_. ge_guid ge, createUser ge), (''Update user'', \<lambda>r. gq_PathValue r ''id'', updateUser ge),
     (''Delete user'', \<lambda>r. gq_PathValue r ''id'', deleteUser ge), (''Add group'', \<lambda>_. ge_guid ge, createGroup ge),
     (''Update group'', \<lambda>r. gq_PathValue r ''id'', updateGroup ge), (''Delete group'', \<lambda>r. gq_PathValue r ''id'', deleteGroup ge),
     (''Add member to group'', \<lambda>r. gq_PathValue r ''id'', addGroupMember ge),
     (''Remove member from group'', \<lambda>r. gq_PathValue r ''id'', removeGroupMember ge),
     (''Add application'', \<lambda>_. ge_guid ge, createApplication ge),
     (''Update application'', \<lambda>r. gq_PathValue r ''id'', updateApplication ge),
     (''Delete application'', \<lambda>r. gq_PathValue r ''id'', deleteApplication ge)]"

definition journalled :: "GraphEnv \<Rightarrow> ValidatedToken \<Rightarrow> string \<Rightarrow> string \<Rightarrow> DirectoryEvent Recorder option \<Rightarrow> reply \<times> Graph \<Rightarrow> bool" where
  "journalled ge tok act target lg res \<longleftrightarrow>
     (if refused (fst res) then gr_DirAudit (snd res) = lg
      else \<exists>cat ty name g. gr_DirAudit g = lg \<and> gr_DirAudit (snd res) = gr_DirAudit (recordChange ge tok act cat ty target name g))"

named_theorems journal

lemma refused_simps [simp]: "refused (GraphError n c m)" "refused (OAuthJSON n c m)" "\<not> refused (Entity n s)" "\<not> refused (Empty n)"
  "\<not> refused (Page c p)" "\<not> refused (Redirect u)"
  "refused (badRequest m)" "refused (notFound m)" "refused internalError" "refused (writeStoreErrGraph e)"
  by (simp_all add: refused_def badRequest_def notFound_def internalError_def writeStoreErrGraph_def split: store_err.splits)

lemma decodeGraph_refused: "decodeGraph f r = Inl e \<Longrightarrow> refused e"
  by (auto simp: decodeGraph_def split: option.splits if_splits json.splits)

lemma journalled_refused [journal]: "refused rep \<Longrightarrow> gr_DirAudit g = lg \<Longrightarrow> journalled ge tok act target lg (rep, g)"
  by (simp add: journalled_def)

lemma journalled_recorded [journal]:
  "\<not> refused rep \<Longrightarrow> gr_DirAudit g = lg \<Longrightarrow> journalled ge tok act target lg (rep, recordChange ge tok act cat ty target name g)"
  by (auto simp: journalled_def)

lemma journalled_step [journal]:
  assumes "\<And>e. refused (onerr e)" and "\<And>x g'. gr_DirAudit g' = lg \<Longrightarrow> journalled ge tok act target lg (k x g')" and "gr_DirAudit g = lg"
  shows "journalled ge tok act target lg (store_step f onerr k g)"
  using assms by (auto simp: store_step_def journalled_def split: prod.splits sum.splits)

lemma GetUser_id: "GetUser s i = Inr u \<Longrightarrow> u_ID u = i"
  by (auto simp: GetUser_def one_row_def split: option.splits dest: sql_first_Some)

lemma GetGroup_id: "GetGroup s i = Inr x \<Longrightarrow> g_ID x = i"
  by (auto simp: GetGroup_def one_row_def split: option.splits dest: sql_first_Some)

lemma patched_user_id [simp]: "u_ID (patched_user b u) = u_ID u"
  by (simp add: patched_user_def)

lemma journalled_users [journal]:
  "journalled ge tok ''Add user'' (ge_guid ge) (gr_DirAudit g) (createUser ge r tok g)"
  "journalled ge tok ''Update user'' (gq_PathValue r ''id'') (gr_DirAudit g) (updateUser ge r tok g)"
  "journalled ge tok ''Delete user'' (gq_PathValue r ''id'') (gr_DirAudit g) (deleteUser ge r tok g)"
  by (auto simp: createUser_def updateUser_def deleteUser_def Let_def GetUser_id intro!: journal dest: decodeGraph_refused
      split: sum.splits option.splits)

lemma journalled_groups [journal]:
  "journalled ge tok ''Add group'' (ge_guid ge) (gr_DirAudit g) (createGroup ge r tok g)"
  "journalled ge tok ''Update group'' (gq_PathValue r ''id'') (gr_DirAudit g) (updateGroup ge r tok g)"
  "journalled ge tok ''Delete group'' (gq_PathValue r ''id'') (gr_DirAudit g) (deleteGroup ge r tok g)"
  "journalled ge tok ''Add member to group'' (gq_PathValue r ''id'') (gr_DirAudit g) (addGroupMember ge r tok g)"
  "journalled ge tok ''Remove member from group'' (gq_PathValue r ''id'') (gr_DirAudit g) (removeGroupMember ge r tok g)"
  by (auto simp: createGroup_def updateGroup_def deleteGroup_def addGroupMember_def removeGroupMember_def Let_def GetGroup_id
      intro!: journal dest: decodeGraph_refused split: sum.splits option.splits)

lemma journalled_applications [journal]:
  "journalled ge tok ''Add application'' (ge_guid ge) (gr_DirAudit g) (createApplication ge r tok g)"
  "journalled ge tok ''Update application'' (gq_PathValue r ''id'') (gr_DirAudit g) (updateApplication ge r tok g)"
  "journalled ge tok ''Delete application'' (gq_PathValue r ''id'') (gr_DirAudit g) (deleteApplication ge r tok g)"
  by (auto simp: createApplication_def updateApplication_def deleteApplication_def Let_def
      intro!: journal dest: decodeGraph_refused split: sum.splits option.splits)

lemma all_journalled:
  assumes "(act, target, h) \<in> set (audited_writes ge)"
  shows "journalled ge tok act (target r) (gr_DirAudit g) (h r tok g)"
  using assms by (auto simp: audited_writes_def intro: journal)

text \<open>
  The directory journal is exact: each change of \<^verbatim>\<open>writes.go\<close> that is refused leaves it alone, and each
  that succeeds puts one entry in front of it, naming the activity, the object, the caller's user and
  application, with result \<^verbatim>\<open>success\<close>; the older entries stay, up to the capacity of the ring.
\<close>

theorem graph_changes_audited:
  assumes "(act, target, h) \<in> set (audited_writes ge)" and "gr_DirAudit g = Some old" and "ring_ok old" and "h r tok g = (rep, g')"
  shows "\<exists>new. gr_DirAudit g' = Some new \<and>
      (if refused rep then new = old
       else \<exists>e. DirectoryRecorder_List 0 new = take (rec_cap old) (e # DirectoryRecorder_List 0 old)
          \<and> de_Activity e = act \<and> de_TargetID e = target r \<and> de_Result e = ''success''
          \<and> de_InitiatedByUser e = vt_OID tok \<and> de_InitiatedByAppID e = str_claim (vt_Claims tok) ''appid'')"
proof (cases "refused rep")
  case True
  then show ?thesis using all_journalled[OF assms(1), of tok r g] assms(2,4) by (simp add: journalled_def)
next
  case False
  then obtain cat ty name g1 where "gr_DirAudit g1 = Some old" and "gr_DirAudit g' = gr_DirAudit (recordChange ge tok act cat ty (target r) name g1)"
    using all_journalled[OF assms(1), of tok r g] assms(2,4) by (auto simp: journalled_def)
  then obtain e where e: "gr_DirAudit g' = Some (ring_put e old)" "de_Activity e = act" "de_TargetID e = target r" "de_Result e = ''success''"
    "de_InitiatedByUser e = vt_OID tok" "de_InitiatedByAppID e = str_claim (vt_Claims tok) ''appid''"
    by (simp add: recordChange_def DirectoryRecorder_Record_def stamp_directory_def Let_def)
  moreover have "DirectoryRecorder_List 0 (ring_put e old) = take (rec_cap old) (e # DirectoryRecorder_List 0 old)"
    using assms(3) by (simp add: DirectoryRecorder_List_take ring_put_ok ring_abs_put)
  ultimately show ?thesis using False by auto
qed

definition ge1 :: GraphEnv where
  "ge1 = \<lparr>ge_env = env0 Map.empty, ge_cfg = config0, ge_loginHost = ''h'', ge_now = 10, ge_wall = 10, ge_guid = ''n1'',
     ge_guid2 = ''n2'', ge_opaque = ''o'', ge_hash = Some, ge_rid = Some ''e''\<rparr>"

definition graph1 :: Graph where
  "graph1 = \<lparr>gr_Store = store0, gr_Audit = \<lparr>rec_buf = [], rec_next = 0, rec_full = False, rec_cap = 0\<rparr>,
     gr_DirAudit = Some (Recorder_New undefined 2)\<rparr>"

definition caller1 :: ValidatedToken where
  "caller1 = \<lparr>vt_Claims = Map.empty, vt_OID = ''admin'', vt_Sub = ''admin'', vt_Scopes = [''User.ReadWrite.All'']\<rparr>"

definition user_request :: GraphRequest where
  "user_request = \<lparr>gq_Method = ''DELETE'', gq_Path = ''/v1.0/users/u'', gq_Query = (\<lambda>_. []), gq_PathValue = (\<lambda>_. ''u''),
     gq_Authorization = [], gq_ContentType = [], gq_Form = (\<lambda>_. []), gq_ContentLength = 0, gq_Body = None\<rparr>"

lemma delete_sample:
  "SoftDeleteUser 10 ''u'' store0 = (Inr (), store0\<lparr>users := [], group_members := [], authorization_codes := [], refresh_tokens := [],
     device_codes := [device0\<lparr>dc_UserID := []\<rparr>],
     deleted_items := [\<lparr>di_ID = ''u'', di_ObjectType = DeletedTypeUser, di_TenantID = ''t'', di_DisplayName = ''A'',
       di_Payload = DeletedUser user0 [''g''], di_DeletedAt = 10\<rparr>]\<rparr>)"
  by (simp add: SoftDeleteUser_def GetUser_def one_row_def ListGroupsForUser_def tx_def delete_user_body_def del_users_def
      clear_user_grants_def requireRow_def insertDeletedTx_def null_eq_def sql_defs sample_defs Let_def)

theorem graph_changes_audited_witness:
  "fst (deleteUser ge1 user_request caller1 graph1) = Empty 204 \<and>
   (\<exists>new. gr_DirAudit (snd (deleteUser ge1 user_request caller1 graph1)) = Some new \<and>
     (\<exists>e. DirectoryRecorder_List 0 new = [e] \<and> de_Activity e = ''Delete user'' \<and> de_TargetID e = ''u'' \<and> de_InitiatedByUser e = ''admin''))"
proof -
  have s: "fst (deleteUser ge1 user_request caller1 graph1) = Empty 204"
    by (simp add: deleteUser_def store_step_def ge1_def graph1_def user_request_def delete_sample)
  show ?thesis
    using graph_changes_audited[of "''Delete user''" "\<lambda>r. gq_PathValue r ''id''" "deleteUser ge1" ge1 graph1 "Recorder_New undefined 2" user_request caller1,
        OF _ _ _ prod.collapse[symmetric]] s
    by (auto simp: audited_writes_def graph1_def user_request_def caller1_def DirectoryRecorder_List_take)
qed

section \<open>The recycle bin\<close>

lemma reattach_frame [simp]:
  "users (reattachMembersTx ids ex edge s) = users s" "groups (reattachMembersTx ids ex edge s) = groups s"
  "deleted_items (reattachMembersTx ids ex edge s) = deleted_items s" "refresh_tokens (reattachMembersTx ids ex edge s) = refresh_tokens s"
  "sessions (reattachMembersTx ids ex edge s) = sessions s"
  by (induction ids arbitrary: s) simp_all

lemma reattach_members:
  assumes "\<And>s1 m j. ex (s1\<lparr>group_members := m\<rparr>) j = ex s1 j"
  shows "set (group_members (reattachMembersTx ids ex edge s)) = set (group_members s) \<union> edge ` {j \<in> set ids. ex s j}"
  using assms by (induction ids arbitrary: s) (auto simp: insert_or_ignore_def)

lemma SoftDeleteUser_InrE:
  assumes "SoftDeleteUser now i s = (Inr (), s1)"
  obtains u where "GetUser s i = Inr u" "users s1 = sql_delete (\<lambda>x. u_ID x = i) (users s)" "groups s1 = groups s" "tenants s1 = tenants s"
    "group_members s1 = sql_delete (\<lambda>(g, x). x \<in> set (map u_ID (filter (\<lambda>x. u_ID x = i) (users s)))) (group_members s)"
    "deleted_items s1 = deleted_items s @ [\<lparr>di_ID = i, di_ObjectType = DeletedTypeUser, di_TenantID = u_TenantID u,
        di_DisplayName = u_DisplayName u, di_Payload = DeletedUser u (map g_ID (ListGroupsForUser s i)), di_DeletedAt = now\<rparr>]"
    "\<forall>d \<in> set (deleted_items s). di_ID d \<noteq> i"
    "\<forall>t \<in> set (refresh_tokens s1). rt_UserID t \<noteq> i" "\<forall>x \<in> set (sessions s1). se_UserID x \<noteq> i"
proof -
  from assms obtain u where u: "GetUser s i = Inr u" by (auto simp: SoftDeleteUser_def split: sum.splits)
  then have i: "u_ID u = i" by (rule GetUser_id)
  from u have mem: "u \<in> set (users s)" by (auto simp: GetUser_def one_row_def split: option.splits dest: sql_first_Some)
  show ?thesis
  proof (rule that[of u])
    show "\<forall>x \<in> set (sessions s1). se_UserID x \<noteq> i" "\<forall>t \<in> set (refresh_tokens s1). rt_UserID t \<noteq> i"
      using assms u i mem
      by (auto simp: SoftDeleteUser_def tx_def delete_user_body_def del_users_def clear_user_grants_def insertDeletedTx_def sql_delete_def Let_def image_iff
          split: if_splits sum.splits prod.splits)
  qed (use assms u i in \<open>auto simp: SoftDeleteUser_def tx_def delete_user_body_def del_users_def clear_user_grants_def insertDeletedTx_def
      list_ex_iff Let_def split: if_splits sum.splits prod.splits\<close>)
qed


lemma distinct_upn_gone:
  assumes "distinct (map u_UserPrincipalName us)" and "u \<in> set us" and "x \<in> set us" and "u_ID x \<noteq> u_ID u"
  shows "u_UserPrincipalName x \<noteq> u_UserPrincipalName u"
  using assms by (auto simp: distinct_map inj_on_def)

lemma bin_last:
  assumes "\<forall>d \<in> set xs. di_ID d \<noteq> i" and "di_ID d0 = i"
  shows "sql_count (\<lambda>d. di_ID d = i) (xs @ [d0]) = 1" "sql_delete (\<lambda>d. di_ID d = i) (xs @ [d0]) = xs"
  using assms by (simp_all add: sql_count_def sql_delete_def filter_empty_conv filter_id_conv)

lemma one_row_some [simp]: "one_row (Some x) = Inr x" and one_row_none [simp]: "one_row None = Inl ErrNotFound"
  by (simp_all add: one_row_def)

text \<open>
  The recycle bin: a deleted user is gone with its refresh tokens and sessions; within 30 days a
  restore brings the account back under its id, with its credentials, profile and group memberships, as
  a plain member without invitation state, and touches no other user; the entry leaves the bin. From
  30 days on there is nothing to restore.
\<close>

theorem restore_undoes_delete:
  assumes "directory_wf s" and "GetUser s i = Inr u" and "SoftDeleteUser t i s = (Inr (), s1)"
  shows "GetUser s1 i = Inl ErrNotFound \<and> (\<forall>x \<in> set (refresh_tokens s1). rt_UserID x \<noteq> i) \<and> (\<forall>x \<in> set (sessions s1). se_UserID x \<noteq> i)
    \<and> (if t' < t + 30 * 24 * 60 * 60
        then \<exists>d s2. RestoreDeletedItem t' i s1 = (Inr d, s2)
          \<and> GetUser s2 i = Inr (u\<lparr>u_UserType := ''Member'', u_ExternalUserState := [], u_InviteRedirectURL := [],
                                  u_UpdatedAt := (if u_UpdatedAt u = 0 then u_CreatedAt u else u_UpdatedAt u)\<rparr>)
          \<and> (\<forall>j. j \<noteq> i \<longrightarrow> GetUser s2 j = GetUser s j) \<and> ListGroupsForUser s2 i = ListGroupsForUser s i
          \<and> fst (RestoreDeletedItem t' i s2) = Inl ErrNotFound
        else fst (RestoreDeletedItem t' i s1) = Inl ErrNotFound)"
proof -
  from assms(3) obtain u' where d: "GetUser s i = Inr u'" "users s1 = sql_delete (\<lambda>x. u_ID x = i) (users s)" "groups s1 = groups s" "tenants s1 = tenants s"
    "group_members s1 = sql_delete (\<lambda>(g, x). x \<in> set (map u_ID (filter (\<lambda>x. u_ID x = i) (users s)))) (group_members s)"
    "deleted_items s1 = deleted_items s @ [\<lparr>di_ID = i, di_ObjectType = DeletedTypeUser, di_TenantID = u_TenantID u',
        di_DisplayName = u_DisplayName u', di_Payload = DeletedUser u' (map g_ID (ListGroupsForUser s i)), di_DeletedAt = t\<rparr>]"
    "\<forall>d \<in> set (deleted_items s). di_ID d \<noteq> i"
    "\<forall>t \<in> set (refresh_tokens s1). rt_UserID t \<noteq> i" "\<forall>x \<in> set (sessions s1). se_UserID x \<noteq> i"
    by (rule SoftDeleteUser_InrE)
  have uu: "u' = u" using d(1) assms(2) by simp
  from assms(2) have u: "u \<in> set (users s)" "u_ID u = i"
    by (auto simp: GetUser_def one_row_def split: option.splits dest: sql_first_Some)
  have wf: "u_TenantID u \<noteq> []" "has_tenant s (u_TenantID u)" "u_CreatedAt u \<noteq> 0" "distinct (map u_UserPrincipalName (users s))"
    using assms(1) u(1) by (auto simp: directory_wf_def)
  have "sql_first (\<lambda>x. u_ID x = i) (users s1) = None" unfolding d(2) sql_first_None sql_delete_def by simp
  then have gone: "GetUser s1 i = Inl ErrNotFound" by (simp add: GetUser_def)
  let ?it = "\<lparr>di_ID = i, di_ObjectType = DeletedTypeUser, di_TenantID = u_TenantID u,
        di_DisplayName = u_DisplayName u, di_Payload = DeletedUser u (map g_ID (ListGroupsForUser s i)), di_DeletedAt = t\<rparr>"
  let ?old = "sql_delete (\<lambda>d. di_DeletedAt d \<le> t' - DeletedItemRetentionSeconds) (deleted_items s)"
  have old: "\<forall>d \<in> set ?old. di_ID d \<noteq> i" using d(7) by (simp add: sql_delete_def)
  show ?thesis
  proof (cases "t' < t + 30 * 24 * 60 * 60")
    case True
    let ?p = "purgeExpired t' s1"
    have p: "deleted_items ?p = ?old @ [?it]" "users ?p = users s1" "groups ?p = groups s" "tenants ?p = tenants s" "group_members ?p = group_members s1"
      using True by (simp_all add: purgeExpired_def d uu sql_delete_def DeletedItemRetentionSeconds_def)
    have get: "GetDeletedItem t' i s1 = (Inr ?it, ?p)"
      using old by (simp add: GetDeletedItem_def Let_def p(1) sql_first_append sql_first_None[THEN iffD2])
    let ?r = "restored_user t' u"
    let ?q = "reattachMembersTx (map g_ID (ListGroupsForUser s i)) has_group (\<lambda>gid. (gid, i)) (?p\<lparr>users := users ?p @ [?r]\<rparr>)"
    have "restoreUserTx u (map g_ID (ListGroupsForUser s i)) t' ?p = (Inr (), ?q)"
      using u wf distinct_upn_gone[OF wf(4) u(1)]
      by (auto simp: restoreUserTx_def has_defs p d(2) sql_delete_def list_ex_iff)
    then have obj: "restore_object t' ?it ?p = (Inr (), ?q)" by (simp add: restore_object_def)
    let ?s2 = "?q\<lparr>deleted_items := ?old\<rparr>"
    have del: "delete_item_row i ?q = (Inr (), ?s2)"
      unfolding delete_item_row_def reattach_frame using bin_last[OF old, of ?it] by (simp add: p requireRow_def)
    have res: "RestoreDeletedItem t' i s1 = (Inr ?it, ?s2)"
      by (simp only: RestoreDeletedItem_def get prod.case sum.case tx_def obj del)
    have us: "users ?s2 = sql_delete (\<lambda>x. u_ID x = i) (users s) @ [?r]" by (simp add: p d(2))
    have r: "?r = u\<lparr>u_UserType := ''Member'', u_ExternalUserState := [], u_InviteRedirectURL := [],
                     u_UpdatedAt := (if u_UpdatedAt u = 0 then u_CreatedAt u else u_UpdatedAt u)\<rparr>" "u_ID ?r = i"
      using wf(3) u(2) by (simp_all add: restored_user_def orNow_def Let_def)
    have restored: "GetUser ?s2 i = Inr ?r"
      by (simp only: GetUser_def us sql_first_append sql_first_single r(2)) (simp add: sql_first_None[THEN iffD2] sql_delete_def)
    have others: "GetUser ?s2 j = GetUser s j" if "j \<noteq> i" for j
      using that by (simp only: GetUser_def us sql_first_append sql_first_single r(2)) (simp add: sql_first_delete split: option.splits)
    have mem: "(g_ID g, i) \<in> set (group_members ?s2) \<longleftrightarrow> (g_ID g, i) \<in> set (group_members s)" if "g \<in> set (groups s)" for g
    proof -
      have "set (group_members ?s2) = set (group_members s1) \<union> (\<lambda>gid. (gid, i)) ` {j \<in> set (map g_ID (ListGroupsForUser s i)). has_group ?p j}"
        by (simp add: reattach_members has_defs p)
      then show ?thesis using that u by (auto simp: d(5) sql_delete_def ListGroupsForUser_def has_defs p(3) list_ex_iff)
    qed
    have groups: "ListGroupsForUser ?s2 i = ListGroupsForUser s i"
      using mem by (auto simp: ListGroupsForUser_def p intro!: arg_cong[where f = "sort_key g_ID"] filter_cong)
    have again: "fst (RestoreDeletedItem t' i ?s2) = Inl ErrNotFound"
      using old by (simp add: RestoreDeletedItem_def GetDeletedItem_def purgeExpired_def Let_def sql_delete_def sql_first_None[THEN iffD2])
    show ?thesis using True gone d(8,9) res restored r(1) others groups again by (simp del: reattach_frame)
  next
    case False
    then have "fst (RestoreDeletedItem t' i s1) = Inl ErrNotFound"
      using old by (simp add: RestoreDeletedItem_def GetDeletedItem_def purgeExpired_def Let_def d(6) sql_delete_def sql_first_None[THEN iffD2] DeletedItemRetentionSeconds_def)
    with False gone d(8,9) show ?thesis by simp
  qed
qed

theorem restore_undoes_delete_witness:
  "\<exists>s1 d s2. SoftDeleteUser 10 ''u'' store0 = (Inr (), s1) \<and> GetUser s1 ''u'' = Inl ErrNotFound
     \<and> RestoreDeletedItem 20 ''u'' s1 = (Inr d, s2) \<and> GetUser s2 ''u'' = Inr user0 \<and> map g_ID (ListGroupsForUser s2 ''u'') = [''g'']"
proof -
  have w: "directory_wf store0" by (simp add: directory_wf_def sample_defs has_defs)
  have u: "GetUser store0 ''u'' = Inr user0" "map g_ID (ListGroupsForUser store0 ''u'') = [''g'']"
    by (simp_all add: GetUser_def one_row_def ListGroupsForUser_def sql_defs sample_defs)
  have "user0\<lparr>u_UserType := ''Member'', u_ExternalUserState := [], u_InviteRedirectURL := [],
      u_UpdatedAt := (if u_UpdatedAt user0 = 0 then u_CreatedAt user0 else u_UpdatedAt user0)\<rparr> = user0" by (simp add: user0_def)
  with restore_undoes_delete[OF w u(1) delete_sample, of 20] u(2) delete_sample show ?thesis by auto
qed

section \<open>Password reset\<close>

lemma sql_first_update_on:
  assumes "\<And>r. r \<in> set xs \<Longrightarrow> P r \<Longrightarrow> Q (f r) = Q r"
  shows "sql_first Q (sql_update P f xs) = map_option (\<lambda>r. if P r then f r else r) (sql_first Q xs)"
  using assms by (induction xs) (auto simp: sql_first_def sql_update_def)

lemma user_unique:
  assumes "directory_wf s" and "GetUser s i = Inr u" and "x \<in> set (users s)" and "u_ID x = i"
  shows "x = u"
  using assms by (auto simp: directory_wf_def GetUser_def one_row_def distinct_map inj_on_def split: option.splits dest!: sql_first_Some)

text \<open>Either the caller chose the password, or the answer discloses the generated one.\<close>

definition reset_answer :: "GraphEnv \<Rightarrow> GraphRequest \<Rightarrow> reply \<Rightarrow> string \<Rightarrow> bool" where
  "reset_answer ge r rep pw \<longleftrightarrow>
     rep = Empty 202 \<and> gq_ContentLength r > 0 \<and> decodeGraph (\<lambda>ms. str_field ms ''newPassword'') r = Inr pw \<and> pw \<noteq> []
         \<or> (\<exists>ctx. rep = Entity 202 [ctx, (''newPassword'', JStr pw)]) \<and> pw = ge_opaque ge @ ''aA1!''"

lemma resetPassword_done:
  assumes "resetPassword ge r tok g = (rep, g')" and "\<not> refused rep" and "GetUser (gr_Store g) (gq_PathValue r ''id'') = Inr u"
  obtains pw hash where "ge_hash ge pw = Some hash"
    "UpdateUser (ge_now ge) (u\<lparr>u_PasswordHash := hash\<rparr>) (gr_Store g) = (Inr (), gr_Store g')" "reset_answer ge r rep pw"
proof -
  let ?in = "if gq_ContentLength r > 0 then decodeGraph (\<lambda>ms. str_field ms ''newPassword'') r else Inr []"
  have m: "gq_PathValue r ''methodId'' = passwordMethodID" using assms(1,2) by (auto simp: resetPassword_def split: if_splits)
  note run = assms(1)[unfolded resetPassword_def, simplified m assms(3) sum.case]
  obtain given where given: "?in = Inr given"
    using run assms(2) by (cases ?in) (auto dest: decodeGraph_refused split: if_splits)
  define pw where "pw = (if given = [] then ge_opaque ge @ ''aA1!'' else given)"
  obtain hash where hash: "ge_hash ge pw = Some hash"
    using run assms(2) unfolding given pw_def by (cases "given = []"; auto simp: Let_def split: option.splits)
  obtain res s1 where up: "UpdateUser (ge_now ge) (u\<lparr>u_PasswordHash := hash\<rparr>) (gr_Store g) = (res, s1)" by fastforce
  have "\<exists>x. res = Inr x \<and> s1 = gr_Store g' \<and> reset_answer ge r rep pw"
    using run assms(2) given hash up
    by (cases res; cases "given = []"; cases "gq_ContentLength r > 0") (auto simp: pw_def store_step_def Let_def reset_answer_def)
  then show ?thesis using that hash up by auto
qed

text \<open>
  A password reset that answers with success takes effect at once: from then on the account accepts a
  password exactly when it verifies against the hash of the requested password, or of the generated one
  that the answer discloses; the old hash is gone, and no other account changes.
\<close>

theorem password_reset_effective:
  assumes "directory_wf (gr_Store g)" and "resetPassword ge r tok g = (rep, g')" and "\<not> refused rep"
    and "GetUserByUPN (gr_Store g) upn = Inr u" and "u_ID u = gq_PathValue r ''id''" and "u_AccountEnabled u"
  shows "\<exists>pw hash. ge_hash ge pw = Some hash
      \<and> (\<forall>verify p. hash \<noteq> [] \<longrightarrow> (\<exists>u'. VerifyPassword verify (gr_Store g') upn p = Inr u') = verify p hash)
      \<and> (\<forall>j. j \<noteq> u_ID u \<longrightarrow> GetUser (gr_Store g') j = GetUser (gr_Store g) j)
      \<and> (rep = Empty 202 \<and> gq_ContentLength r > 0 \<and> decodeGraph (\<lambda>ms. str_field ms ''newPassword'') r = Inr pw \<and> pw \<noteq> []
         \<or> (\<exists>ctx. rep = Entity 202 [ctx, (''newPassword'', JStr pw)]) \<and> pw = ge_opaque ge @ ''aA1!'')"
proof -
  let ?s = "gr_Store g"
  from assms(2,3) obtain u0 where u0: "GetUser ?s (gq_PathValue r ''id'') = Inr u0"
    by (auto simp: resetPassword_def split: if_splits sum.splits)
  from assms(4) have mem: "u \<in> set (users ?s)"
    by (auto simp: GetUserByUPN_def one_row_def split: option.splits dest: sql_first_Some)
  have u: "u0 = u" using user_unique[OF assms(1) u0 mem assms(5)] by simp
  let ?P = "\<lambda>x. u_ID x = u_ID u"
  from assms(2,3) u0 obtain pw hash where h: "ge_hash ge pw = Some hash"
    "UpdateUser (ge_now ge) (u\<lparr>u_PasswordHash := hash\<rparr>) ?s = (Inr (), gr_Store g')" "reset_answer ge r rep pw"
    unfolding u by (rule resetPassword_done)
  let ?u = "u\<lparr>u_PasswordHash := hash\<rparr>"
  have "gr_Store g' = ?s\<lparr>users := sql_update ?P (set_user_columns (ge_now ge) ?u) (users ?s)\<rparr>"
    using h(2) by (auto simp: UpdateUser_def split: if_splits)
  then have us: "users (gr_Store g') = sql_update ?P (set_user_columns (ge_now ge) ?u) (users ?s)" by simp
  have one: "x = u" if "x \<in> set (users ?s)" "?P x" for x
    using user_unique[OF assms(1) u0[unfolded u], of x] that assms(5) by simp
  have "sql_first (\<lambda>x. nocase_eq (u_UserPrincipalName x) upn) (users (gr_Store g'))
      = map_option (\<lambda>x. if ?P x then set_user_columns (ge_now ge) ?u x else x) (sql_first (\<lambda>x. nocase_eq (u_UserPrincipalName x) upn) (users ?s))"
    unfolding us by (rule sql_first_update_on) (use one in \<open>auto simp: set_user_columns_def\<close>)
  then have found: "GetUserByUPN (gr_Store g') upn = Inr (set_user_columns (ge_now ge) ?u u)"
    using assms(4) by (cases "sql_first (\<lambda>x. nocase_eq (u_UserPrincipalName x) upn) (users ?s)") (simp_all add: GetUserByUPN_def)
  have "GetUser (gr_Store g') j = GetUser ?s j" if "j \<noteq> u_ID u" for j
  proof -
    have "sql_first (\<lambda>x. u_ID x = j) (users (gr_Store g'))
        = map_option (\<lambda>x. if ?P x then set_user_columns (ge_now ge) ?u x else x) (sql_first (\<lambda>x. u_ID x = j) (users ?s))"
      unfolding us by (rule sql_first_update) (simp add: set_user_columns_def)
    moreover have "sql_first (\<lambda>x. u_ID x = j) (users ?s) = Some x \<Longrightarrow> \<not> ?P x" for x
      using that by (auto dest: sql_first_Some)
    ultimately show ?thesis by (cases "sql_first (\<lambda>x. u_ID x = j) (users ?s)") (simp_all add: GetUser_def)
  qed
  moreover have "(\<exists>u'. VerifyPassword verify (gr_Store g') upn p = Inr u') = verify p hash" if "hash \<noteq> []" for verify p
    using that assms(6) by (auto simp: VerifyPassword_def found set_user_columns_def)
  ultimately show ?thesis using h(1,3) unfolding reset_answer_def by blast
qed

definition reset_request :: GraphRequest where
  "reset_request = user_request\<lparr>gq_PathValue := (\<lambda>k. if k = ''methodId'' then passwordMethodID else ''u''),
     gq_ContentLength := 9, gq_Body := Some (JObj [(''newPassword'', JStr ''s3cret'')])\<rparr>"

theorem password_reset_effective_witness:
  "\<exists>rep g'. resetPassword ge1 reset_request caller1 graph1 = (rep, g') \<and> rep = Empty 202
     \<and> (\<exists>u'. VerifyPassword (=) (gr_Store g') ''A@T'' ''s3cret'' = Inr u') \<and> (\<nexists>u'. VerifyPassword (=) (gr_Store g') ''A@T'' ''pw'' = Inr u')"
proof -
  have d: "decodeGraph (\<lambda>ms. str_field ms ''newPassword'') reset_request = Inr ''s3cret''" by code_simp
  have u: "GetUser store0 ''u'' = Inr user0" "GetUserByUPN store0 ''A@T'' = Inr user0" by code_simp+
  have w: "directory_wf (gr_Store graph1)" by (simp add: graph1_def directory_wf_def sample_defs has_defs)
  have rs: "fst (resetPassword ge1 reset_request caller1 graph1) = Empty 202"
    using d u(1) by (simp add: resetPassword_def reset_request_def user_request_def graph1_def ge1_def store_step_def UpdateUser_def
        requireRow_def sql_defs sample_defs has_defs)
  obtain rep g' where e: "resetPassword ge1 reset_request caller1 graph1 = (rep, g')" by (cases "resetPassword ge1 reset_request caller1 graph1")
  have s: "\<not> refused rep" "rep = Empty 202" using e rs by simp_all
  have v: "GetUserByUPN (gr_Store graph1) ''A@T'' = Inr user0" "u_ID user0 = gq_PathValue reset_request ''id''" "u_AccountEnabled user0"
    using u(2) by (simp_all add: graph1_def user0_def reset_request_def)
  from password_reset_effective[OF w e s(1) v] obtain pw hash where k: "ge_hash ge1 pw = Some hash"
    "\<forall>verify p. hash \<noteq> [] \<longrightarrow> (\<exists>u'. VerifyPassword verify (gr_Store g') ''A@T'' p = Inr u') = verify p hash" "pw = ''s3cret''"
    unfolding s(2) d by (elim exE conjE disjE) simp_all
  from k(1,3) have "hash = ''s3cret''" by (simp add: ge1_def)
  with k(2)[rule_format, of "(=)"] have "(\<exists>u'. VerifyPassword (=) (gr_Store g') ''A@T'' p = Inr u') = (p = ''s3cret'')" for p by simp
  from this[of "''s3cret''"] this[of "''pw''"] show ?thesis using e s(2) by simp
qed

end
