(* ===== verification/GraphProperties.thy ===== *)
theory GraphProperties
  imports GraphRoutes GraphEffects
begin

text \<open>
  What the Graph handlers promise beyond the gates: the audit trail of directory changes, invitations that
  lead only where they were issued for, password resets that take effect, and the recycle bin; and the
  one read that the permission tables miss.
\<close>

section \<open>Alternate keys\<close>

lemma eat_fold_self [simp]: "eat_fold p (p @ s) = Some s"
  by (induction p) auto

lemma spByAppID_key: "i \<noteq> [] \<Longrightarrow> squote \<notin> set i \<Longrightarrow> spByAppID (''servicePrincipals(appId='' @ quoted i @ '')'') = Some i"
proof -
  assume i: "i \<noteq> []" "squote \<notin> set i"
  have "''servicePrincipals(appId='' @ quoted i @ '')'' = (''servicePrincipals(appId='' @ [squote]) @ i @ squote # '')''"
    by (simp add: quoted_squote)
  moreover have "takeWhile (\<lambda>c. c \<noteq> squote) (i @ squote # t) = i" "dropWhile (\<lambda>c. c \<noteq> squote) (i @ squote # t) = squote # t" for t
    using i(2) by (simp_all add: dropWhile_append)
  ultimately show ?thesis using i(1) unfolding spByAppID_def by (simp only: eat_fold_self option.simps Let_def) simp
qed

text \<open>
  Permission enforcement misses one spelling of a service principal: \<^verbatim>\<open>servicePrincipals(appId='X')\<close>
  returns exactly what \<^verbatim>\<open>servicePrincipals/X\<close> returns, but its first path segment is none the tables
  know, so the gate asks for no permission where the other spelling is refused without
  \<^verbatim>\<open>Application.Read.All\<close> or one of its supersets.
\<close>

theorem alternate_key_ungated:
  assumes "cf_GraphPermissions (ge_cfg ge)" and "gq_Method r1 = ''GET''" and "gq_Method r2 = ''GET''" and "gq_Query r1 = gq_Query r2"
    and "gq_Path r1 = ''/v1.0/servicePrincipals(appId='' @ quoted i @ '')''" and "gq_Path r2 = ''/v1.0/servicePrincipals/'' @ i"
    and "gq_PathValue r1 ''key'' = ''servicePrincipals(appId='' @ quoted i @ '')''" and "gq_PathValue r2 ''id'' = i"
    and "i \<noteq> []" and "squote \<notin> set i" and "CHR ''/'' \<notin> set i" and "held tok \<inter> set (pm_app appRead) = {}"
    and "GetApp (gr_Store g) i = Inr a"
  shows "getByAlternateKey ge r1 tok g = getServicePrincipal ge r2 tok g \<and> permissionDenied (ge_cfg ge) r1 tok = []
    \<and> permissionDenied (ge_cfg ge) r2 tok \<noteq> []"
proof (intro conjI)
  have "entityContext ge r1 c = entityContext ge r2 c" for c using assms(4) by (simp add: entityContext_def)
  then show "getByAlternateKey ge r1 tok g = getServicePrincipal ge r2 tok g"
    using assms(4,8,13) spByAppID_key[OF assms(9,10)]
    by (simp add: getByAlternateKey_def getServicePrincipal_def app_entity_def assms(7) Let_def)
  let ?h = "''servicePrincipals(appId='' @ quoted i @ '')''"
  have "CHR ''/'' \<notin> set ?h" using assms(11) by (auto simp: quoted_def)
  then have h: "takeWhile (\<lambda>c. c \<noteq> CHR ''/'') ?h = ?h" by (rule takeWhile_neq_self)
  have "graphRequirement ''GET'' ?h = \<lparr>pm_delegated = [], pm_app = []\<rparr>"
    unfolding graphRequirement_def head_takeWhile[unfolded Let_def] Let_def h by simp
  then show "permissionDenied (ge_cfg ge) r1 tok = []"
    using assms(2,5) by (simp add: permissionDenied_def HasPrefix_def Let_def)
  have "takeWhile (\<lambda>c. c \<noteq> CHR ''/'') (''servicePrincipals/'' @ i) = ''servicePrincipals''" by simp
  then have "graphRequirement ''GET'' (''servicePrincipals/'' @ i) = appRead"
    unfolding graphRequirement_def head_takeWhile[unfolded Let_def] Let_def by simp
  then show "permissionDenied (ge_cfg ge) r2 tok \<noteq> []"
    using assms(1,3,6,12)
    by (auto simp: permissionDenied_def HasPrefix_def Let_def appRead_def both_def held_def hasAny_def list_ex_iff dirRead_def split: if_splits)
qed

definition key_request :: GraphRequest where
  "key_request = (create_request [])\<lparr>gq_Method := ''GET'', gq_Path := ''/v1.0/servicePrincipals(appId='' @ quoted ''app'' @ '')'',
     gq_PathValue := (\<lambda>_. ''servicePrincipals(appId='' @ quoted ''app'' @ '')'')\<rparr>"

definition id_request :: GraphRequest where
  "id_request = key_request\<lparr>gq_Path := ''/v1.0/servicePrincipals/app'', gq_PathValue := (\<lambda>_. ''app'')\<rparr>"

definition powerless :: ValidatedToken where
  "powerless = \<lparr>vt_Claims = Map.empty, vt_OID = ''u'', vt_Sub = ''u'', vt_Scopes = []\<rparr>"

theorem alternate_key_ungated_witness:
  "getByAlternateKey ge0 key_request powerless graph0 = getServicePrincipal ge0 id_request powerless graph0
     \<and> permissionDenied (ge_cfg ge0) key_request powerless = [] \<and> permissionDenied (ge_cfg ge0) id_request powerless \<noteq> []"
proof -
  obtain ks where st: "gr_Store graph0 = store0\<lparr>signing_keys := ks\<rparr>"
    using service1_frame[of graph_claims] by (auto simp: graph0_def keys_only_def)
  obtain a where a: "GetApp (gr_Store graph0) ''app'' = Inr a" by (simp add: st GetApp_def one_row_def sample_defs)
  have s: "squote \<notin> set ''app''" by code_simp
  show ?thesis
    using alternate_key_ungated[OF _ _ _ _ _ _ _ _ _ s _ _ a, of ge0 key_request id_request powerless]
    by (simp add: key_request_def id_request_def powerless_def ge0_def config0_def held_def tokenRoles_def)
qed

end
