(* ===== verification/ScimMapping.thy ===== *)
theory ScimMapping
  imports GraphCore Router
begin

text \<open>
  The wire side of the SCIM 2.0 provider (\<^verbatim>\<open>internal/scim/mapping.go\<close>, \<^verbatim>\<open>projection.go\<close> and the shared helpers of
  \<^verbatim>\<open>resources.go\<close>): resources, request bodies, the one supported filter form, attribute projection, paging
  and PatchOp documents. A resource is the list of its members in the order Go's map iteration visits them.
\<close>

section \<open>Resources\<close>

definition userSchema :: string where "userSchema = ''urn:ietf:params:scim:schemas:core:2.0:User''"
definition groupSchema :: string where "groupSchema = ''urn:ietf:params:scim:schemas:core:2.0:Group''"
definition listSchema :: string where "listSchema = ''urn:ietf:params:scim:api:messages:2.0:ListResponse''"
definition schemaSchema :: string where "schemaSchema = ''urn:ietf:params:scim:schemas:core:2.0:Schema''"
definition resourceTypeSchema :: string where "resourceTypeSchema = ''urn:ietf:params:scim:schemas:core:2.0:ResourceType''"
definition errorSchema :: string where "errorSchema = ''urn:ietf:params:scim:api:messages:2.0:Error''"
definition patchSchema :: string where "patchSchema = ''urn:ietf:params:scim:api:messages:2.0:PatchOp''"

definition isoTime :: "int \<Rightarrow> string" where
  "isoTime epoch = (if epoch = 0 then [] else rfc3339 epoch)"

definition optional_member :: "string \<Rightarrow> string \<Rightarrow> shape" where
  "optional_member k v = (if v = [] then [] else [(k, JStr v)])"

definition userResource :: "User \<Rightarrow> string \<Rightarrow> string \<Rightarrow> shape" where
  "userResource u base externalID =
     [(''schemas'', JList [JStr userSchema]), (''id'', JStr (u_ID u)), (''userName'', JStr (u_UserPrincipalName u)),
      (''active'', JBool (u_AccountEnabled u)),
      (''meta'', JObj [(''resourceType'', JStr ''User''), (''created'', JStr (isoTime (u_CreatedAt u))),
                     (''location'', JStr (base @ ''/Users/'' @ u_ID u))])]
     @ optional_member ''displayName'' (u_DisplayName u)
     @ (if u_GivenName u \<noteq> [] \<or> u_Surname u \<noteq> []
        then [(''name'', JObj (optional_member ''givenName'' (u_GivenName u) @ optional_member ''familyName'' (u_Surname u)))] else [])
     @ (if u_Mail u \<noteq> []
        then [(''emails'', JList [JObj [(''value'', JStr (u_Mail u)), (''type'', JStr ''work''), (''primary'', JBool True)]])] else [])
     @ optional_member ''externalId'' externalID"

definition groupResource :: "Group \<Rightarrow> User list \<Rightarrow> string \<Rightarrow> string \<Rightarrow> shape" where
  "groupResource g ms base externalID =
     [(''schemas'', JList [JStr groupSchema]), (''id'', JStr (g_ID g)), (''displayName'', JStr (g_DisplayName g)),
      (''meta'', JObj [(''resourceType'', JStr ''Group''), (''created'', JStr (isoTime (g_CreatedAt g))),
                     (''location'', JStr (base @ ''/Groups/'' @ g_ID g))])]
     @ (if ms \<noteq> []
        then [(''members'', JList (map (\<lambda>m. JObj [(''value'', JStr (u_ID m)), (''display'', JStr (u_DisplayName m)),
                 (''$ref'', JStr (base @ ''/Users/'' @ u_ID m))]) ms))] else [])
     @ optional_member ''externalId'' externalID"

definition listResponse :: "shape list \<Rightarrow> int \<Rightarrow> shape" where
  "listResponse resources startIndex =
     [(''schemas'', JList [JStr listSchema]), (''totalResults'', JInt (int (length resources))), (''startIndex'', JInt startIndex),
      (''itemsPerPage'', JInt (int (length resources))), (''Resources'', JList (map JObj resources))]"

definition withTotal :: "shape \<Rightarrow> int \<Rightarrow> shape" where
  "withTotal lst n = AList.update ''totalResults'' (JInt n) lst"

section \<open>Bodies\<close>

text \<open>\<^verbatim>\<open>encoding/json\<close> into nested structs and slices of structs: a repeated object is merged member by member, a
  repeated array is replaced by the last one.\<close>

fun obj_members :: "json list \<Rightarrow> (string \<times> json) list option" where
  "obj_members [] = Some []"
| "obj_members (v # vs) =
     (case as_object v of None \<Rightarrow> None | Some ms \<Rightarrow> map_option ((@) ms) (obj_members vs))"

fun dec_all :: "(json \<Rightarrow> 'a option) \<Rightarrow> json list \<Rightarrow> 'a list option" where
  "dec_all dec [] = Some []"
| "dec_all dec (v # vs) = (case dec v of None \<Rightarrow> None | Some x \<Rightarrow> map_option ((#) x) (dec_all dec vs))"

definition dec_list :: "(json \<Rightarrow> 'a option) \<Rightarrow> json \<Rightarrow> 'a list option" where
  "dec_list dec v = (case v of JList vs \<Rightarrow> dec_all dec vs | _ \<Rightarrow> None)"

definition list_field :: "(json \<Rightarrow> 'a option) \<Rightarrow> (string \<times> json) list \<Rightarrow> string \<Rightarrow> 'a list option" where
  "list_field dec ms name = map_option (\<lambda>v. or_else v []) (store_pointer (dec_list dec) None (members ms name))"

type_synonym email = "string \<times> bool"

definition dec_email :: "json \<Rightarrow> email option" where
  "dec_email v =
     (case as_object v of
        None \<Rightarrow> None
      | Some ms \<Rightarrow>
        (case (str_field ms ''value'', bool_field ms ''primary'') of
           (Some a, Some p) \<Rightarrow> Some (a, p)
         | _ \<Rightarrow> None))"

record userBody =
  yb_UserName :: string
  yb_ExternalID :: string
  yb_DisplayName :: string
  yb_GivenName :: string
  yb_FamilyName :: string
  yb_Emails :: "email list"
  yb_Active :: "bool option"
  yb_Password :: string

definition dec_user_body :: "(string \<times> json) list \<Rightarrow> userBody option" where
  "dec_user_body ms =
     (case obj_members (members ms ''name'') of
        None \<Rightarrow> None
      | Some nm \<Rightarrow>
        (case (str_field ms ''userName'', str_field ms ''externalId'', str_field ms ''displayName'', str_field nm ''givenName'',
               str_field nm ''familyName'', list_field dec_email ms ''emails'', bool_ptr ms ''active'', str_field ms ''password'') of
           (Some un, Some ex, Some dn, Some gn, Some fn, Some em, Some ac, Some pw) \<Rightarrow>
             Some \<lparr>yb_UserName = un, yb_ExternalID = ex, yb_DisplayName = dn, yb_GivenName = gn, yb_FamilyName = fn,
                   yb_Emails = em, yb_Active = ac, yb_Password = pw\<rparr>
         | _ \<Rightarrow> None))"

definition primaryEmail :: "email list \<Rightarrow> string" where
  "primaryEmail emails =
     (case find (\<lambda>e. snd e \<and> fst e \<noteq> []) emails of
        Some e \<Rightarrow> fst e
      | None \<Rightarrow> (case emails of [] \<Rightarrow> [] | e # _ \<Rightarrow> fst e))"

definition applyTo :: "userBody \<Rightarrow> User \<Rightarrow> User" where
  "applyTo b u =
     u\<lparr>u_UserPrincipalName := (if yb_UserName b \<noteq> [] then yb_UserName b else u_UserPrincipalName u),
       u_DisplayName := yb_DisplayName b, u_GivenName := yb_GivenName b, u_Surname := yb_FamilyName b,
       u_Mail := primaryEmail (yb_Emails b), u_AccountEnabled := or_else (yb_Active b) (u_AccountEnabled u)\<rparr>"

record groupBody =
  zb_DisplayName :: string
  zb_ExternalID :: string
  zb_Members :: "string list"

definition dec_member :: "json \<Rightarrow> string option" where
  "dec_member v = (case as_object v of None \<Rightarrow> None | Some ms \<Rightarrow> str_field ms ''value'')"

definition dec_group_body :: "(string \<times> json) list \<Rightarrow> groupBody option" where
  "dec_group_body ms =
     (case (str_field ms ''displayName'', str_field ms ''externalId'', list_field dec_member ms ''members'') of
        (Some dn, Some ex, Some me) \<Rightarrow> Some \<lparr>zb_DisplayName = dn, zb_ExternalID = ex, zb_Members = me\<rparr>
      | _ \<Rightarrow> None)"

section \<open>Filters\<close>

text \<open>\<^verbatim>\<open>filterRe\<close>. Its character classes are disjoint at every point where a match could be extended, so the
  match is unique.\<close>

definition dquote :: char where
  "dquote = CHR 0x22"

definition filterEq :: "string \<Rightarrow> (string \<times> string) option" where
  "filterEq expr =
     (let r0 = dropWhile re_space expr; field = takeWhile re_word r0; r1 = dropWhile re_word r0;
          r2 = dropWhile re_space r1; r3 = drop 2 r2 in
      if field = [] \<or> takeWhile re_space r1 = [] \<or> take 2 r2 \<noteq> ''eq'' \<or> takeWhile re_space r3 = [] then None
      else case dropWhile re_space r3 of
        [] \<Rightarrow> None
      | q # r4 \<Rightarrow>
        if q \<noteq> dquote then None
        else (case dropWhile (\<lambda>c. c \<noteq> dquote) r4 of
           [] \<Rightarrow> None
         | _ # r5 \<Rightarrow> if list_all re_space r5 then Some (ToLower field, takeWhile (\<lambda>c. c \<noteq> dquote) r4) else None))"

section \<open>Projection\<close>

definition alwaysReturned :: "string \<Rightarrow> bool" where
  "alwaysReturned k \<longleftrightarrow> ToLower k \<in> {''id'', ''schemas'', ''meta''}"

definition splitAttrs :: "string \<Rightarrow> string list" where
  "splitAttrs s = (if TrimSpace s = [] then [] else filter (\<lambda>p. p \<noteq> []) (map TrimSpace (SplitChar s (CHR '',''))))"

definition projectionFrom :: "query \<Rightarrow> string list \<times> string list" where
  "projectionFrom q = (splitAttrs (q ''attributes''), splitAttrs (q ''excludedAttributes''))"

definition lookup_attr :: "shape \<Rightarrow> string \<Rightarrow> (string \<times> json) option" where
  "lookup_attr m name = find (\<lambda>kv. EqualFold (fst kv) name) m"

text \<open>\<^verbatim>\<open>strings.Cut(path, ".")\<close>.\<close>

definition cut_dot :: "string \<Rightarrow> string \<times> string option" where
  "cut_dot path =
     (case dropWhile (\<lambda>c. c \<noteq> CHR ''.'') path of
        [] \<Rightarrow> (path, None)
      | _ # sub \<Rightarrow> (takeWhile (\<lambda>c. c \<noteq> CHR ''.'') path, Some sub))"

definition include_path :: "shape \<Rightarrow> string \<Rightarrow> shape \<Rightarrow> shape" where
  "include_path res path out =
     (case cut_dot path of (attr, sub) \<Rightarrow>
        case lookup_attr res attr of
          None \<Rightarrow> out
        | Some (key, val) \<Rightarrow>
          (case sub of
             None \<Rightarrow> AList.update key val out
           | Some leaf \<Rightarrow>
             (case val of
                JObj child \<Rightarrow>
                  (case lookup_attr child leaf of
                     None \<Rightarrow> out
                   | Some (k2, v2) \<Rightarrow>
                     AList.update key (JObj (AList.update k2 v2 (case map_of out key of Some (JObj ms) \<Rightarrow> ms | _ \<Rightarrow> []))) out)
              | _ \<Rightarrow> out)))"

definition exclude_path :: "string \<Rightarrow> shape \<Rightarrow> shape" where
  "exclude_path path out =
     (case cut_dot path of (attr, sub) \<Rightarrow>
        case lookup_attr out attr of
          None \<Rightarrow> out
        | Some (key, val) \<Rightarrow>
          if alwaysReturned key then out
          else (case sub of
             None \<Rightarrow> AList.delete key out
           | Some leaf \<Rightarrow>
             (case val of
                JObj child \<Rightarrow>
                  (case lookup_attr child leaf of
                     None \<Rightarrow> out
                   | Some (k2, _) \<Rightarrow> AList.update key (JObj (AList.delete k2 child)) out)
              | _ \<Rightarrow> out)))"

definition project :: "shape \<Rightarrow> string list \<times> string list \<Rightarrow> shape" where
  "project res p =
     (case p of (inc, exc) \<Rightarrow>
        if inc \<noteq> [] then fold (include_path res) inc (filter (\<lambda>kv. alwaysReturned (fst kv)) res)
        else if exc \<noteq> [] then fold exclude_path exc res
        else res)"

definition projectAll :: "shape list \<Rightarrow> string list \<times> string list \<Rightarrow> shape list" where
  "projectAll rs p = (if p = ([], []) then rs else map (\<lambda>r. project r p) rs)"

section \<open>Paging\<close>

text \<open>The bounds of the page in Go's \<^verbatim>\<open>int\<close>; the addition wraps around.\<close>

definition paginate :: "query \<Rightarrow> int \<Rightarrow> int \<times> int" where
  "paginate q len =
     (let startIndex = (case Atoi (q ''startIndex'') of Some n \<Rightarrow> if n > 0 then n else 1 | None \<Rightarrow> 1);
          count = (case Atoi (q ''count'') of Some n \<Rightarrow> if n \<ge> 0 then n else 100 | None \<Rightarrow> 100);
          start = (if startIndex - 1 > len then len else startIndex - 1);
          stop = i64_add start count in
      (start, if stop > len then len else stop))"

text \<open>\<^verbatim>\<open>xs[a:b]\<close>; \<open>None\<close> is the panic of bounds that are out of range.\<close>

definition slice :: "'a list \<Rightarrow> int \<Rightarrow> int \<Rightarrow> 'a list option" where
  "slice xs a b = (if 0 \<le> a \<and> a \<le> b \<and> b \<le> int (length xs) then Some (take (nat (b - a)) (drop (nat a) xs)) else None)"

section \<open>PatchOp\<close>

text \<open>\<open>po_Value\<close> is the raw member, \<open>None\<close> when it is absent; unmarshalling an absent one is an error.\<close>

record patchOp =
  po_Op :: string
  po_Path :: string
  po_Value :: "json option"

definition dec_op :: "json \<Rightarrow> patchOp option" where
  "dec_op v =
     (case as_object v of
        None \<Rightarrow> None
      | Some ms \<Rightarrow>
        (case (str_field ms ''op'', str_field ms ''path'') of
           (Some o', Some p) \<Rightarrow> Some \<lparr>po_Op = o', po_Path = p,
              po_Value = (case members ms ''value'' of [] \<Rightarrow> None | vs \<Rightarrow> Some (last vs))\<rparr>
         | _ \<Rightarrow> None))"

definition asString :: "json option \<Rightarrow> string" where
  "asString raw = (case raw of Some (JStr s) \<Rightarrow> s | _ \<Rightarrow> [])"

definition valueOrEmpty :: "json option \<Rightarrow> bool \<Rightarrow> string" where
  "valueOrEmpty raw remove = (if remove then [] else asString raw)"

definition dec_email_body :: "json \<Rightarrow> email option" where
  "dec_email_body v =
     (case as_object v of
        None \<Rightarrow> None
      | Some ms \<Rightarrow> if str_field ms ''type'' = None then None else dec_email v)"

definition firstEmail :: "json option \<Rightarrow> string" where
  "firstEmail raw =
     (case raw of
        Some v \<Rightarrow> (case dec_list dec_email_body v of Some (e # es) \<Rightarrow> primaryEmail (e # es) | _ \<Rightarrow> asString raw)
      | None \<Rightarrow> asString raw)"

definition unmarshal_bool :: "json option \<Rightarrow> bool option" where
  "unmarshal_bool raw = (case raw of Some (JBool b) \<Rightarrow> Some b | Some JNull \<Rightarrow> Some False | _ \<Rightarrow> None)"

definition unmarshal_name :: "json option \<Rightarrow> (string \<times> string) option" where
  "unmarshal_name raw =
     (case raw of
        None \<Rightarrow> None
      | Some v \<Rightarrow>
        (case as_object v of
           None \<Rightarrow> None
         | Some ms \<Rightarrow>
           (case (str_field ms ''givenName'', str_field ms ''familyName'') of
              (Some g, Some f) \<Rightarrow> Some (g, f)
            | _ \<Rightarrow> None)))"

text \<open>A JSON object as Go's map: of a repeated name the last value counts.\<close>

definition unmarshal_map :: "json option \<Rightarrow> (string \<times> json) list option" where
  "unmarshal_map raw =
     (case raw of
        None \<Rightarrow> None
      | Some v \<Rightarrow> map_option (\<lambda>ms. fold (\<lambda>(k, x). AList.update k x) ms []) (as_object v))"

definition unmarshal_members :: "json option \<Rightarrow> string list option" where
  "unmarshal_members raw =
     (case raw of
        None \<Rightarrow> None
      | Some JNull \<Rightarrow> Some []
      | Some v \<Rightarrow> dec_list dec_member v)"

text \<open>The user under edit and the external id are written together.\<close>

definition setUserAttr :: "string \<Rightarrow> json option \<Rightarrow> bool \<Rightarrow> User \<times> string \<Rightarrow> User \<times> string" where
  "setUserAttr path raw remove st =
     (case st of (u, ext) \<Rightarrow>
       let lower = takeWhile (\<lambda>c. c \<noteq> CHR ''['') (ToLower path) in
       if lower = ''active'' then
         (if remove then (u\<lparr>u_AccountEnabled := True\<rparr>, ext)
          else (case unmarshal_bool raw of None \<Rightarrow> (u, ext) | Some b \<Rightarrow> (u\<lparr>u_AccountEnabled := b\<rparr>, ext)))
       else if lower = ''displayname'' then (u\<lparr>u_DisplayName := valueOrEmpty raw remove\<rparr>, ext)
       else if lower = ''username'' then (if remove then (u, ext) else (u\<lparr>u_UserPrincipalName := asString raw\<rparr>, ext))
       else if lower = ''externalid'' then (u, valueOrEmpty raw remove)
       else if lower = ''name'' then
         (if remove then (u\<lparr>u_GivenName := [], u_Surname := []\<rparr>, ext)
          else (case unmarshal_name raw of None \<Rightarrow> (u, ext) | Some (g, f) \<Rightarrow> (u\<lparr>u_GivenName := g, u_Surname := f\<rparr>, ext)))
       else if lower = ''name.givenname'' then (u\<lparr>u_GivenName := valueOrEmpty raw remove\<rparr>, ext)
       else if lower = ''name.familyname'' then (u\<lparr>u_Surname := valueOrEmpty raw remove\<rparr>, ext)
       else if lower = ''emails'' then (u\<lparr>u_Mail := (if remove then [] else firstEmail raw)\<rparr>, ext)
       else (u, ext))"

definition applyUserOp :: "patchOp \<Rightarrow> User \<times> string \<Rightarrow> User \<times> string" where
  "applyUserOp p st =
     (let remove = EqualFold (po_Op p) ''remove'' in
      if po_Path p = [] then
        (if remove then st
         else (case unmarshal_map (po_Value p) of
            None \<Rightarrow> st
          | Some attrs \<Rightarrow> fold (\<lambda>(k, v). setUserAttr k (Some v) False) attrs st))
      else setUserAttr (po_Path p) (po_Value p) remove st)"

text \<open>\<^verbatim>\<open>memberPathRe\<close>: the leftmost match in the path.\<close>

definition member_at :: "string \<Rightarrow> string option" where
  "member_at s =
     (let pre = ''members[value eq '' @ [dquote] in
      if \<not> HasPrefix s pre then None
      else let r = drop (length pre) s; v = takeWhile (\<lambda>c. c \<noteq> dquote) r in
        if v \<noteq> [] \<and> HasPrefix (dropWhile (\<lambda>c. c \<noteq> dquote) r) (dquote # '']'') then Some v else None)"

fun member_path :: "string \<Rightarrow> string option" where
  "member_path [] = None"
| "member_path (c # cs) = (case member_at (c # cs) of Some v \<Rightarrow> Some v | None \<Rightarrow> member_path cs)"

text \<open>Membership edits ignore the store's errors. \<open>ScimGroup\<close> is the group under edit, its external id and the store.\<close>

type_synonym ScimGroup = "Group \<times> string \<times> Store"

definition remove_members :: "string \<Rightarrow> string list \<Rightarrow> Store \<Rightarrow> Store" where
  "remove_members gid ids s = fold (\<lambda>i s. snd (RemoveGroupMember gid i s)) ids s"

definition add_members :: "string \<Rightarrow> string list \<Rightarrow> Store \<Rightarrow> Store" where
  "add_members gid ids s = fold (\<lambda>i s. snd (AddGroupMember gid i s)) ids s"

definition clear_members :: "string \<Rightarrow> Store \<Rightarrow> Store" where
  "clear_members gid s = remove_members gid (map u_ID (ListGroupMembers s gid)) s"

definition applyGroupOp :: "patchOp \<Rightarrow> ScimGroup \<Rightarrow> ScimGroup" where
  "applyGroupOp p st =
     (case st of (g, ext, s) \<Rightarrow>
       let remove = EqualFold (po_Op p) ''remove'' in
       if EqualFold (po_Path p) ''displayName'' then (if remove then st else (g\<lparr>g_DisplayName := asString (po_Value p)\<rparr>, ext, s))
       else if EqualFold (po_Path p) ''externalId'' then (g, valueOrEmpty (po_Value p) remove, s)
       else case member_path (po_Path p) of
         Some i \<Rightarrow> (g, ext, snd (RemoveGroupMember (g_ID g) i s))
       | None \<Rightarrow>
         if \<not> EqualFold (TrimSpace (takeWhile (\<lambda>c. c \<noteq> CHR ''['') (po_Path p))) ''members'' \<and> po_Path p \<noteq> [] then st
         else (case unmarshal_members (po_Value p) of
            None \<Rightarrow> (g, ext, if remove then clear_members (g_ID g) s else s)
          | Some ids \<Rightarrow>
            (g, ext, if remove \<and> ids = [] then clear_members (g_ID g) s
                     else if remove then remove_members (g_ID g) ids s
                     else add_members (g_ID g) ids s)))"

end
