(* ===== verification/ScimService.thy ===== *)
theory ScimService
  imports ScimMapping
begin

text \<open>
  The SCIM 2.0 service provider (\<^verbatim>\<open>internal/scim/scim.go\<close>, \<^verbatim>\<open>resources.go\<close>, \<^verbatim>\<open>discovery.go\<close>, the search handlers of
  \<^verbatim>\<open>projection.go\<close>): its handlers over the directory, the bearer secret, and the routes that serve it. A
  handler takes the request and the store and returns what it writes and the new store.
\<close>

section \<open>Requests and responses\<close>

text \<open>The tenant and the secret of \<^verbatim>\<open>Service\<close>, the clock, a fresh identifier, and the scrypt hash (\<open>None\<close> when the
  random source failed).\<close>

record ScimEnv =
  xe_TenantID :: string
  xe_Token :: string
  xe_now :: int
  xe_guid :: string
  xe_hash :: "string \<Rightarrow> string option"

record ScimRequest =
  cq_Method :: string
  cq_Path :: string
  cq_Query :: query
  cq_PathValue :: "string \<Rightarrow> string"
  cq_Authorization :: string
  cq_TLS :: bool
  cq_Host :: string
  cq_ContentLength :: int
  cq_Body :: "json option"

text \<open>\<open>ScimPanic\<close> is the run-time panic of an out-of-range slice; the server then drops the connection.\<close>

datatype scim_reply = ScimJSON int shape | ScimEmpty int | ScimPanic

type_synonym scim_handler = "ScimRequest \<Rightarrow> Store \<Rightarrow> scim_reply \<times> Store"

definition scimErr :: "int \<Rightarrow> string \<Rightarrow> scim_reply" where
  "scimErr status detail =
     ScimJSON status [(''schemas'', JList [JStr errorSchema]), (''status'', JStr (Itoa status)), (''detail'', JStr detail)]"

text \<open>The path up to and including the first \<^verbatim>\<open>/v2\<close>.\<close>

fun upto_v2 :: "string \<Rightarrow> string" where
  "upto_v2 [] = []"
| "upto_v2 (c # cs) = (if HasPrefix (c # cs) ''/v2'' then ''/v2'' else c # upto_v2 cs)"

definition base :: "ScimRequest \<Rightarrow> string" where
  "base r = (if cq_TLS r then ''https'' else ''http'') @ ''://'' @ cq_Host r @ upto_v2 (cq_Path r)"

definition decode :: "((string \<times> json) list \<Rightarrow> 'b option) \<Rightarrow> ScimRequest \<Rightarrow> scim_reply + 'b" where
  "decode dec r =
     (case cq_Body r of
        None \<Rightarrow> Inl (scimErr 400 ''Malformed SCIM payload'')
      | Some v \<Rightarrow>
        (case as_object v of
           None \<Rightarrow> Inl (scimErr 400 ''Malformed SCIM payload'')
         | Some ms \<Rightarrow> (case dec ms of None \<Rightarrow> Inl (scimErr 400 ''Malformed SCIM payload'') | Some b \<Rightarrow> Inr b)))"

definition writeStoreErr :: "store_err \<Rightarrow> scim_reply" where
  "writeStoreErr e =
     (case e of
        ErrNotFound \<Rightarrow> scimErr 404 ''Resource not found.''
      | ErrConflict \<Rightarrow> scimErr 409 ''A resource with that identifier already exists.''
      | _ \<Rightarrow> scimErr 500 ''store error'')"

definition writeResource :: "ScimRequest \<Rightarrow> int \<Rightarrow> shape \<Rightarrow> scim_reply" where
  "writeResource r status res = ScimJSON status (project res (projectionFrom (cq_Query r)))"

definition allRows :: int where
  "allRows = 2 ^ 30"

text \<open>The end of every list handler: the page of the resources, projected, with the full count.\<close>

definition write_page :: "ScimRequest \<Rightarrow> shape list \<Rightarrow> scim_reply" where
  "write_page r resources =
     (case paginate (cq_Query r) (int (length resources)) of (start, stop) \<Rightarrow>
        case slice resources start stop of
          None \<Rightarrow> ScimPanic
        | Some page \<Rightarrow> ScimJSON 200 (withTotal (listResponse (projectAll page (projectionFrom (cq_Query r))) (start + 1))
            (int (length resources))))"

definition ext_of :: "Store \<Rightarrow> string \<Rightarrow> string \<Rightarrow> string" where
  "ext_of s typ i = or_else (ExternalIDs s typ i) []"

section \<open>Users\<close>

definition user_list :: "ScimRequest \<Rightarrow> Store \<Rightarrow> scim_reply + User list" where
  "user_list r s =
     (case filterEq (cq_Query r ''filter'') of
        None \<Rightarrow> Inr (fst (ListUsers s allRows 0 []))
      | Some (attr, v) \<Rightarrow>
        if attr = ''username'' then Inr (case GetUserByUPN s v of Inr u \<Rightarrow> [u] | Inl _ \<Rightarrow> [])
        else if attr = ''externalid'' then
          Inr (case FindByExternalID s ''User'' v of
                 None \<Rightarrow> []
               | Some i \<Rightarrow> (case GetUser s i of Inr u \<Rightarrow> [u] | Inl _ \<Rightarrow> []))
        else Inl (scimErr 400 (''Only '' @ quoted ''userName eq'' @ '' and '' @ quoted ''externalId eq'' @ '' filters are supported.'')))"

definition listUsers :: scim_handler where
  "listUsers r s =
     (case user_list r s of
        Inl e \<Rightarrow> (e, s)
      | Inr us \<Rightarrow> (write_page r (map (\<lambda>u. userResource u (base r) (ext_of s ''User'' (u_ID u))) us), s))"

definition createUser :: "ScimEnv \<Rightarrow> scim_handler" where
  "createUser xe r s =
     (case decode dec_user_body r of
        Inl e \<Rightarrow> (e, s)
      | Inr b \<Rightarrow>
        if yb_UserName b = [] then (scimErr 400 ''userName is required.'', s)
        else case (if yb_Password b = [] then Some [] else xe_hash xe (yb_Password b)) of
          None \<Rightarrow> (scimErr 500 ''store error'', s)
        | Some hash \<Rightarrow>
          (let u = (applyTo b \<lparr>u_ID = xe_guid xe, u_TenantID = xe_TenantID xe, u_UserPrincipalName = [], u_DisplayName = [],
                      u_GivenName = [], u_Surname = [], u_Mail = [], u_PasswordHash = [], u_AccountEnabled = True, u_UserType = [],
                      u_ExternalUserState = [], u_InviteRedirectURL = [], u_CreatedAt = xe_now xe, u_UpdatedAt = 0\<rparr>)\<lparr>u_PasswordHash := hash\<rparr> in
           case CreateUser u s of
             (Inl e, s1) \<Rightarrow> (writeStoreErr e, s1)
           | (Inr _, s1) \<Rightarrow>
             (writeResource r 201 (userResource u (base r) (yb_ExternalID b)),
              if yb_ExternalID b \<noteq> [] then SetExternalID ''User'' (u_ID u) (yb_ExternalID b) s1 else s1)))"

definition getUser :: scim_handler where
  "getUser r s =
     (case GetUser s (cq_PathValue r ''id'') of
        Inl e \<Rightarrow> (writeStoreErr e, s)
      | Inr u \<Rightarrow> (writeResource r 200 (userResource u (base r) (ExternalID s ''User'' (u_ID u))), s))"

text \<open>Storing an edited user and its external id, the common end of \<^verbatim>\<open>PUT\<close> and \<^verbatim>\<open>PATCH\<close>.\<close>

definition save_user :: "ScimEnv \<Rightarrow> ScimRequest \<Rightarrow> User \<Rightarrow> string \<Rightarrow> Store \<Rightarrow> scim_reply \<times> Store" where
  "save_user xe r u ext s =
     (case UpdateUser (xe_now xe) u s of
        (Inl e, s1) \<Rightarrow> (writeStoreErr e, s1)
      | (Inr _, s1) \<Rightarrow> (writeResource r 200 (userResource u (base r) ext), SetExternalID ''User'' (u_ID u) ext s1))"

definition replaceUser :: "ScimEnv \<Rightarrow> scim_handler" where
  "replaceUser xe r s =
     (case GetUser s (cq_PathValue r ''id'') of
        Inl e \<Rightarrow> (writeStoreErr e, s)
      | Inr u \<Rightarrow>
        (case decode dec_user_body r of
           Inl e \<Rightarrow> (e, s)
         | Inr b \<Rightarrow> save_user xe r (applyTo b u) (yb_ExternalID b) s))"

definition decodePatch :: "ScimRequest \<Rightarrow> scim_reply + patchOp list" where
  "decodePatch = decode (\<lambda>ms. list_field dec_op ms ''Operations'')"

definition patchUser :: "ScimEnv \<Rightarrow> scim_handler" where
  "patchUser xe r s =
     (case GetUser s (cq_PathValue r ''id'') of
        Inl e \<Rightarrow> (writeStoreErr e, s)
      | Inr u \<Rightarrow>
        (case decodePatch r of
           Inl e \<Rightarrow> (e, s)
         | Inr ops \<Rightarrow>
           (case fold applyUserOp ops (u, ExternalID s ''User'' (u_ID u)) of (u1, ext) \<Rightarrow> save_user xe r u1 ext s)))"

definition deleteUser :: scim_handler where
  "deleteUser r s =
     (case DeleteUser (cq_PathValue r ''id'') s of
        (Inl e, s1) \<Rightarrow> (writeStoreErr e, s1)
      | (Inr _, s1) \<Rightarrow> (ScimEmpty 204, DeleteExternalID ''User'' (cq_PathValue r ''id'') s1))"

section \<open>Groups\<close>

definition group_list :: "ScimRequest \<Rightarrow> Store \<Rightarrow> Group list" where
  "group_list r s =
     (let all = fst (ListGroups s allRows 0 []) in
      case filterEq (cq_Query r ''filter'') of
        None \<Rightarrow> all
      | Some (attr, v) \<Rightarrow>
        filter (\<lambda>g. attr = ''displayname'' \<and> g_DisplayName g = v \<or> attr = ''externalid'' \<and> ExternalID s ''Group'' (g_ID g) = v) all)"

definition group_shape :: "ScimRequest \<Rightarrow> Store \<Rightarrow> Group \<Rightarrow> string \<Rightarrow> shape" where
  "group_shape r s g ext = groupResource g (ListGroupMembers s (g_ID g)) (base r) ext"

definition listGroups :: scim_handler where
  "listGroups r s =
     (write_page r (map (\<lambda>g. group_shape r s g (ext_of s ''Group'' (g_ID g))) (group_list r s)), s)"

definition createGroup :: "ScimEnv \<Rightarrow> scim_handler" where
  "createGroup xe r s =
     (case decode dec_group_body r of
        Inl e \<Rightarrow> (e, s)
      | Inr b \<Rightarrow>
        if zb_DisplayName b = [] then (scimErr 400 ''displayName is required.'', s)
        else let g = \<lparr>g_ID = xe_guid xe, g_TenantID = xe_TenantID xe, g_DisplayName = zb_DisplayName b, g_Description = [],
                      g_CreatedAt = xe_now xe\<rparr> in
          case CreateGroup g s of
            (Inl e, s1) \<Rightarrow> (writeStoreErr e, s1)
          | (Inr _, s1) \<Rightarrow>
            (let s2 = add_members (g_ID g) (zb_Members b) s1;
                 s3 = (if zb_ExternalID b \<noteq> [] then SetExternalID ''Group'' (g_ID g) (zb_ExternalID b) s2 else s2) in
             (writeResource r 201 (group_shape r s3 g (zb_ExternalID b)), s3)))"

definition getGroup :: scim_handler where
  "getGroup r s =
     (case GetGroup s (cq_PathValue r ''id'') of
        Inl e \<Rightarrow> (writeStoreErr e, s)
      | Inr g \<Rightarrow> (writeResource r 200 (group_shape r s g (ExternalID s ''Group'' (g_ID g))), s))"

text \<open>The membership becomes exactly what the body carries.\<close>

definition reconcile_members :: "string \<Rightarrow> string list \<Rightarrow> Store \<Rightarrow> Store" where
  "reconcile_members gid wanted s =
     (let want = filter (\<lambda>m. m \<noteq> []) wanted; current = map u_ID (ListGroupMembers s gid) in
      add_members gid (filter (\<lambda>m. m \<notin> set current) want)
        (remove_members gid (filter (\<lambda>i. i \<notin> set want) current) s))"

definition replaceGroup :: scim_handler where
  "replaceGroup r s =
     (case GetGroup s (cq_PathValue r ''id'') of
        Inl e \<Rightarrow> (writeStoreErr e, s)
      | Inr g0 \<Rightarrow>
        (case decode dec_group_body r of
           Inl e \<Rightarrow> (e, s)
         | Inr b \<Rightarrow>
           if zb_DisplayName b = [] then (scimErr 400 ''displayName is required.'', s)
           else let g = g0\<lparr>g_DisplayName := zb_DisplayName b\<rparr> in
             case UpdateGroup g s of
               (Inl e, s1) \<Rightarrow> (writeStoreErr e, s1)
             | (Inr _, s1) \<Rightarrow>
               (let s2 = SetExternalID ''Group'' (g_ID g) (zb_ExternalID b) (reconcile_members (g_ID g) (zb_Members b) s1) in
                (writeResource r 200 (group_shape r s2 g (zb_ExternalID b)), s2))))"

definition patchGroup :: scim_handler where
  "patchGroup r s =
     (case GetGroup s (cq_PathValue r ''id'') of
        Inl e \<Rightarrow> (writeStoreErr e, s)
      | Inr g0 \<Rightarrow>
        (case decodePatch r of
           Inl e \<Rightarrow> (e, s)
         | Inr ops \<Rightarrow>
           (case fold applyGroupOp ops (g0, ExternalID s ''Group'' (g_ID g0), s) of (g, ext, s1) \<Rightarrow>
              case UpdateGroup g s1 of
                (Inl e, s2) \<Rightarrow> (writeStoreErr e, s2)
              | (Inr _, s2) \<Rightarrow>
                (let s3 = SetExternalID ''Group'' (g_ID g) ext s2 in (writeResource r 200 (group_shape r s3 g ext), s3)))))"

definition deleteGroup :: scim_handler where
  "deleteGroup r s =
     (case DeleteGroup (cq_PathValue r ''id'') s of
        (Inl e, s1) \<Rightarrow> (writeStoreErr e, s1)
      | (Inr _, s1) \<Rightarrow> (ScimEmpty 204, DeleteExternalID ''Group'' (cq_PathValue r ''id'') s1))"

section \<open>Query by POST\<close>

text \<open>\<^verbatim>\<open>toQuery\<close> writes the body's knobs over the query; encoding it and parsing it again is the identity.\<close>

definition set_param :: "string \<Rightarrow> string \<Rightarrow> query \<Rightarrow> query" where
  "set_param k v q = (if v = [] then q else q(k := v))"

definition int_ptr :: "(string \<times> json) list \<Rightarrow> string \<Rightarrow> int option option" where
  "int_ptr ms name = store_pointer dec_int None (members ms name)"

definition toQuery :: "(string \<times> json) list \<Rightarrow> query \<Rightarrow> query option" where
  "toQuery ms q =
     (case (strs_field ms ''schemas'', str_field ms ''filter'', int_ptr ms ''startIndex'', int_ptr ms ''count'',
            strs_field ms ''attributes'', strs_field ms ''excludedAttributes'') of
        (Some _, Some f, Some si, Some c, Some inc, Some ex) \<Rightarrow>
          Some (set_param ''count'' (case c of None \<Rightarrow> [] | Some n \<Rightarrow> Itoa n)
            (set_param ''startIndex'' (case si of None \<Rightarrow> [] | Some n \<Rightarrow> Itoa n)
            (set_param ''excludedAttributes'' (Join (or_else ex []) '','')
            (set_param ''attributes'' (Join (or_else inc []) '','') (set_param ''filter'' f q)))))
      | _ \<Rightarrow> None)"

definition readSearch :: "ScimRequest \<Rightarrow> scim_reply + ScimRequest" where
  "readSearch r =
     (if cq_ContentLength r = 0 then Inr r
      else case decode (\<lambda>ms. toQuery ms (cq_Query r)) r of
        Inl e \<Rightarrow> Inl e
      | Inr q \<Rightarrow> Inr (r\<lparr>cq_Query := q\<rparr>))"

definition search :: "scim_handler \<Rightarrow> scim_handler" where
  "search h r s = (case readSearch r of Inl e \<Rightarrow> (e, s) | Inr r1 \<Rightarrow> h r1 s)"

definition searchUsers :: scim_handler where "searchUsers = search listUsers"

definition searchGroups :: scim_handler where "searchGroups = search listGroups"

definition searchAll :: scim_handler where
  "searchAll = search (\<lambda>r s.
     (write_page r
        (map (\<lambda>u. userResource u (base r) (ext_of s ''User'' (u_ID u))) (fst (ListUsers s allRows 0 []))
         @ map (\<lambda>g. group_shape r s g (ext_of s ''Group'' (g_ID g))) (fst (ListGroups s allRows 0 []))), s))"

section \<open>Discovery\<close>

definition attr :: "string \<Rightarrow> string \<Rightarrow> string \<Rightarrow> bool \<Rightarrow> shape" where
  "attr name typ mutability required =
     [(''name'', JStr name), (''type'', JStr typ), (''multiValued'', JBool False), (''required'', JBool required),
      (''caseExact'', JBool False), (''mutability'', JStr mutability), (''returned'', JStr ''default''), (''uniqueness'', JStr ''none'')]"

definition refAttr :: "string \<Rightarrow> string \<Rightarrow> string list \<Rightarrow> shape" where
  "refAttr name mutability refTypes =
     AList.update ''referenceTypes'' (JList (map JStr refTypes)) (attr name ''reference'' mutability False)"

definition complex_attr :: "string \<Rightarrow> bool \<Rightarrow> shape list \<Rightarrow> json" where
  "complex_attr name multi subs = JObj [(''name'', JStr name), (''type'', JStr ''complex''), (''multiValued'', JBool multi),
     (''required'', JBool False), (''mutability'', JStr ''readWrite''), (''returned'', JStr ''default''), (''subAttributes'', JList (map JObj subs))]"

definition schema_def :: "string \<Rightarrow> string \<Rightarrow> string \<Rightarrow> json list \<Rightarrow> shape" where
  "schema_def i name desc attrs = [(''schemas'', JList [JStr schemaSchema]), (''id'', JStr i), (''name'', JStr name),
     (''description'', JStr desc), (''attributes'', JList attrs), (''meta'', JObj [(''resourceType'', JStr ''Schema'')])]"

definition userSchemaDef :: shape where
  "userSchemaDef = schema_def userSchema ''User'' ''User Account''
     [JObj (AList.update ''uniqueness'' (JStr ''server'') (attr ''userName'' ''string'' ''readWrite'' True)),
      JObj (attr ''displayName'' ''string'' ''readWrite'' False), JObj (attr ''active'' ''boolean'' ''readWrite'' False),
      complex_attr ''name'' False [attr ''givenName'' ''string'' ''readWrite'' False, attr ''familyName'' ''string'' ''readWrite'' False],
      complex_attr ''emails'' True [attr ''value'' ''string'' ''readWrite'' False, attr ''type'' ''string'' ''readWrite'' False,
        attr ''primary'' ''boolean'' ''readWrite'' False]]"

definition groupSchemaDef :: shape where
  "groupSchemaDef = schema_def groupSchema ''Group'' ''Group''
     [JObj (attr ''displayName'' ''string'' ''readWrite'' True),
      complex_attr ''members'' True [attr ''value'' ''string'' ''immutable'' False, attr ''display'' ''string'' ''immutable'' False,
        refAttr ''$ref'' ''immutable'' [''User'']]]"

definition set_location :: "string \<Rightarrow> shape \<Rightarrow> shape" where
  "set_location loc def =
     map (\<lambda>(k, v). (k, if k = ''meta'' then (case v of JObj ms \<Rightarrow> JObj (AList.update ''location'' (JStr loc) ms) | _ \<Rightarrow> v) else v)) def"

definition schemaDefs :: "string \<Rightarrow> (string \<times> shape) list" where
  "schemaDefs b = map (\<lambda>(i, def). (i, set_location (b @ ''/Schemas/'' @ i) def))
     [(userSchema, userSchemaDef), (groupSchema, groupSchemaDef)]"

definition resourceTypeDefs :: "string \<Rightarrow> (string \<times> shape) list" where
  "resourceTypeDefs b =
     (let rt = (\<lambda>i endpoint schema. (i, [(''schemas'', JList [JStr resourceTypeSchema]), (''id'', JStr i), (''name'', JStr i),
        (''description'', JStr i), (''endpoint'', JStr endpoint), (''schema'', JStr schema),
        (''meta'', JObj [(''resourceType'', JStr ''ResourceType''), (''location'', JStr (b @ ''/ResourceTypes/'' @ i))])])) in
      [rt ''User'' ''/Users'' userSchema, rt ''Group'' ''/Groups'' groupSchema])"

definition ordered :: "(string \<times> shape) list \<Rightarrow> string list \<Rightarrow> shape list" where
  "ordered defs ids = List.map_filter (map_of defs) ids"

definition serviceProviderConfig :: scim_handler where
  "serviceProviderConfig r s =
     (let sup = (\<lambda>b. JObj [(''supported'', JBool b)]) in
      (ScimJSON 200 [(''schemas'', JList [JStr ''urn:ietf:params:scim:schemas:core:2.0:ServiceProviderConfig'']),
         (''documentationUri'', JStr ''https://calvinchengx.github.io/entra-emulator/10-scim-provisioning/''),
         (''patch'', sup True), (''bulk'', sup False), (''filter'', JObj [(''supported'', JBool True), (''maxResults'', JInt 200)]),
         (''changePassword'', sup True), (''sort'', sup False), (''etag'', sup False),
         (''authenticationSchemes'', JList [JObj [(''type'', JStr ''oauthbearertoken''), (''name'', JStr ''OAuth Bearer Token'')]])], s))"

definition resourceTypes :: scim_handler where
  "resourceTypes r s = (ScimJSON 200 (listResponse (ordered (resourceTypeDefs (base r)) [''User'', ''Group'']) 1), s)"

definition resourceType :: scim_handler where
  "resourceType r s =
     (case map_of (resourceTypeDefs (base r)) (cq_PathValue r ''id'') of
        None \<Rightarrow> (scimErr 404 ''Resource type not found.'', s)
      | Some def \<Rightarrow> (ScimJSON 200 def, s))"

definition schemas :: scim_handler where
  "schemas r s = (ScimJSON 200 (listResponse (ordered (schemaDefs (base r)) [userSchema, groupSchema]) 1), s)"

definition schema :: scim_handler where
  "schema r s =
     (case map_of (schemaDefs (base r)) (cq_PathValue r ''id'') of
        None \<Rightarrow> (scimErr 404 ''Schema not found.'', s)
      | Some def \<Rightarrow> (ScimJSON 200 def, s))"

section \<open>Routes\<close>

definition auth :: "ScimEnv \<Rightarrow> scim_handler \<Rightarrow> scim_handler" where
  "auth xe nxt r s =
     (if TrimPrefix (cq_Authorization r) ''Bearer '' \<noteq> xe_Token xe then (scimErr 401 ''Invalid or missing bearer token.'', s)
      else nxt r s)"

definition ScimRoutes :: "ScimEnv \<Rightarrow> string \<Rightarrow> (string \<times> scim_handler) list" where
  "ScimRoutes xe prefix =
     (let p = prefix @ ''/v2'' in
      [(''GET '' @ p @ ''/ServiceProviderConfig'', auth xe serviceProviderConfig),
       (''GET '' @ p @ ''/ResourceTypes'', auth xe resourceTypes),
       (''GET '' @ p @ ''/ResourceTypes/{id}'', auth xe resourceType),
       (''GET '' @ p @ ''/Schemas'', auth xe schemas),
       (''GET '' @ p @ ''/Schemas/{id}'', auth xe schema),
       (''GET '' @ p @ ''/Users'', auth xe listUsers),
       (''POST '' @ p @ ''/Users'', auth xe (createUser xe)),
       (''GET '' @ p @ ''/Users/{id}'', auth xe getUser),
       (''PUT '' @ p @ ''/Users/{id}'', auth xe (replaceUser xe)),
       (''PATCH '' @ p @ ''/Users/{id}'', auth xe (patchUser xe)),
       (''DELETE '' @ p @ ''/Users/{id}'', auth xe deleteUser),
       (''POST '' @ p @ ''/Users/.search'', auth xe searchUsers),
       (''POST '' @ p @ ''/Groups/.search'', auth xe searchGroups),
       (''POST '' @ p @ ''/.search'', auth xe searchAll),
       (''GET '' @ p @ ''/Groups'', auth xe listGroups),
       (''POST '' @ p @ ''/Groups'', auth xe (createGroup xe)),
       (''GET '' @ p @ ''/Groups/{id}'', auth xe getGroup),
       (''PUT '' @ p @ ''/Groups/{id}'', auth xe replaceGroup),
       (''PATCH '' @ p @ ''/Groups/{id}'', auth xe patchGroup),
       (''DELETE '' @ p @ ''/Groups/{id}'', auth xe deleteGroup)])"

definition fallback :: "ScimEnv \<Rightarrow> scim_handler" where
  "fallback xe = auth xe (\<lambda>r s. (scimErr 404 (''No such SCIM endpoint: '' @ cq_Path r), s))"

text \<open>The router with the subtree pattern \<^verbatim>\<open>/v2/\<close> behind the others. \<open>None\<close>: no SCIM handler runs (another surface,
  a path that does not unescape, or one the router first redirects to its clean form).\<close>

definition scim_serve :: "ScimEnv \<Rightarrow> string \<Rightarrow> string \<Rightarrow> ScimRequest \<Rightarrow> Store \<Rightarrow> (scim_reply \<times> Store) option" where
  "scim_serve xe prefix escaped r s =
     (case PathUnescape escaped of
        None \<Rightarrow> None
      | Some path \<Rightarrow>
        let segs = SplitChar (TrimPrefix escaped (prefix @ ''/'')) (CHR ''/'') in
        if \<not> HasPrefix escaped (prefix @ ''/v2/'') \<or> [] \<in> set (butlast segs) \<or> ''.'' \<in> set segs \<or> ''..'' \<in> set segs then None
        else case find_route (ScimRoutes xe prefix) prefix (cq_Method r) segs of
          None \<Rightarrow> Some (fallback xe (r\<lparr>cq_Path := path\<rparr>) s)
        | Some (pat, h) \<Rightarrow> Some (h (r\<lparr>cq_Path := path, cq_PathValue := path_values prefix pat segs\<rparr>) s))"

end
