(* ===== verification/ScimProvision.thy ===== *)
theory ScimProvision
  imports ScimService
begin

text \<open>
  The SCIM provisioning client (\<^verbatim>\<open>internal/scim/provision.go\<close>): it pushes the directory to a downstream SCIM
  service. The downstream service is the parameter \<open>remote\<close>: what it answers to a request, and its state
  after it. The target's endpoint is taken to be a URL that \<^verbatim>\<open>http.NewRequest\<close> accepts. One cycle reads one
  state of the store and one clock reading.
\<close>

section \<open>State\<close>

record Target =
  tg_Endpoint :: string
  tg_Token :: string

record LogEntry =
  le_Time :: int
  le_Resource :: string
  le_Subject :: string
  le_Action :: string
  le_Method :: string
  le_Path :: string
  le_Status :: int
  le_Detail :: string

record Provisioner =
  pv_target :: "Target option"
  pv_log :: "LogEntry list"
  pv_watermark :: int

record SyncResult =
  sr_Mode :: string
  sr_Created :: nat
  sr_Updated :: nat
  sr_Deprovisioned :: nat
  sr_Skipped :: nat
  sr_Failed :: nat
  sr_GroupsCreated :: nat
  sr_GroupsUpdated :: nat

definition provisionLogCap :: nat where
  "provisionLogCap = 500"

definition NewProvisioner :: Provisioner where
  "NewProvisioner = \<lparr>pv_target = None, pv_log = [], pv_watermark = 0\<rparr>"

definition SetTarget :: "Target \<Rightarrow> Provisioner \<Rightarrow> Provisioner" where
  "SetTarget t p = p\<lparr>pv_target := Some t\<rparr>"

definition Provisioner_Target :: "Provisioner \<Rightarrow> Target \<times> bool" where
  "Provisioner_Target p =
     (case pv_target p of None \<Rightarrow> (\<lparr>tg_Endpoint = [], tg_Token = []\<rparr>, False) | Some t \<Rightarrow> (t, True))"

definition ClearTarget :: "Provisioner \<Rightarrow> Provisioner" where
  "ClearTarget p = p\<lparr>pv_target := None\<rparr>"

definition Provisioner_Log :: "Provisioner \<Rightarrow> LogEntry list" where
  "Provisioner_Log p = pv_log p"

definition ClearLog :: "Provisioner \<Rightarrow> Provisioner" where
  "ClearLog p = p\<lparr>pv_log := []\<rparr>"

definition appendLog :: "LogEntry \<Rightarrow> LogEntry list \<Rightarrow> LogEntry list" where
  "appendLog e es =
     (let es1 = es @ [e] in if length es1 > provisionLogCap then drop (length es1 - provisionLogCap) es1 else es1)"

section \<open>Payloads\<close>

definition outbound_members :: "string list \<Rightarrow> json" where
  "outbound_members ids = JList (map (\<lambda>i. JObj [(''value'', JStr i)]) ids)"

definition outboundUser :: "User \<Rightarrow> json" where
  "outboundUser u = JObj
     ([(''schemas'', JList [JStr userSchema]), (''externalId'', JStr (u_ID u)), (''userName'', JStr (u_UserPrincipalName u)),
       (''displayName'', JStr (u_DisplayName u)), (''active'', JBool (u_AccountEnabled u)),
       (''name'', JObj [(''givenName'', JStr (u_GivenName u)), (''familyName'', JStr (u_Surname u))])]
      @ (if u_Mail u \<noteq> []
         then [(''emails'', JList [JObj [(''value'', JStr (u_Mail u)), (''type'', JStr ''work''), (''primary'', JBool True)]])] else []))"

definition outboundGroup :: "Group \<Rightarrow> string list \<Rightarrow> json" where
  "outboundGroup g ids = JObj [(''schemas'', JList [JStr groupSchema]), (''externalId'', JStr (g_ID g)),
     (''displayName'', JStr (g_DisplayName g)), (''members'', outbound_members ids)]"

definition replace_op :: "string \<Rightarrow> json \<Rightarrow> json" where
  "replace_op path v = JObj [(''op'', JStr ''replace''), (''path'', JStr path), (''value'', v)]"

definition patch_doc :: "json list \<Rightarrow> json" where
  "patch_doc ops = JObj [(''schemas'', JList [JStr patchSchema]), (''Operations'', JList ops)]"

definition groupMembersPatch :: "string list \<Rightarrow> json" where
  "groupMembersPatch ids = patch_doc [replace_op ''members'' (outbound_members ids)]"

definition replaceActive :: "bool \<Rightarrow> json" where
  "replaceActive active = patch_doc [replace_op ''active'' (JBool active)]"

definition updatePatch :: "User \<Rightarrow> json" where
  "updatePatch u = patch_doc [replace_op ''active'' (JBool (u_AccountEnabled u)), replace_op ''displayName'' (JStr (u_DisplayName u))]"

section \<open>Requests\<close>

text \<open>The answer of the downstream service: \<open>Inl\<close> a transport error, or the status and the body's JSON value
  (\<open>None\<close> when the body is not JSON). The world is the request trail and the downstream state.\<close>

type_synonym 'r remote = "Target \<Rightarrow> string \<Rightarrow> string \<Rightarrow> json option \<Rightarrow> 'r \<Rightarrow> (string + int \<times> json option) \<times> 'r"

type_synonym 'r world = "LogEntry list \<times> 'r"

text \<open>The argument \<^verbatim>\<open>resource\<close> of the code reaches no field of the entry.\<close>

definition request ::
  "'r remote \<Rightarrow> int \<Rightarrow> Target \<Rightarrow> string \<Rightarrow> string \<Rightarrow> json option \<Rightarrow> string \<Rightarrow> string \<Rightarrow> 'r world \<Rightarrow> (int \<times> json option) \<times> 'r world" where
  "request remote now t meth path body subject action w =
     (case remote t meth path body (snd w) of (res, r1) \<Rightarrow>
       let e = \<lparr>le_Time = now, le_Resource = ''User'', le_Subject = subject, le_Action = action, le_Method = meth, le_Path = path,
             le_Status = (case res of Inl _ \<Rightarrow> 0 | Inr (status, _) \<Rightarrow> status),
             le_Detail = (case res of Inl err \<Rightarrow> err | Inr _ \<Rightarrow> [])\<rparr> in
       ((le_Status e, case res of Inl _ \<Rightarrow> None | Inr (_, b) \<Rightarrow> b), (appendLog e (fst w), r1)))"

definition send ::
  "'r remote \<Rightarrow> int \<Rightarrow> Target \<Rightarrow> string \<Rightarrow> string \<Rightarrow> json \<Rightarrow> string \<Rightarrow> string \<Rightarrow> 'r world \<Rightarrow> int \<times> 'r world" where
  "send remote now t meth path body subject action w =
     (case request remote now t meth path (Some body) subject action w of ((status, _), w1) \<Rightarrow> (status, w1))"

text \<open>The id of the first resource of a list response. Errors of the decoder are ignored: a member of another
  kind leaves the field as it was.\<close>

definition first_id :: "json option \<Rightarrow> string" where
  "first_id body =
     (case body of
        Some (JObj ms) \<Rightarrow>
          (case fold (\<lambda>v acc. case v of JList vs \<Rightarrow> vs | JNull \<Rightarrow> [] | _ \<Rightarrow> acc) (members ms ''Resources'') [] of
             JObj res # _ \<Rightarrow> fold (\<lambda>v acc. case v of JStr i \<Rightarrow> i | _ \<Rightarrow> acc) (members res ''id'') []
           | _ \<Rightarrow> [])
      | _ \<Rightarrow> [])"

definition eq_filter :: "string \<Rightarrow> string \<Rightarrow> string" where
  "eq_filter field v = field @ '' eq '' @ dquote # v @ [dquote]"

definition probe :: "string \<Rightarrow> string \<Rightarrow> 'r remote \<Rightarrow> int \<Rightarrow> Target \<Rightarrow> string \<Rightarrow> 'r world \<Rightarrow> string \<times> 'r world" where
  "probe resource field remote now t v w =
     (case request remote now t ''GET'' (resource @ ''?filter='' @ QueryEscape (eq_filter field v)) None v ''probe'' w of
        ((status, body), w1) \<Rightarrow> (if status = 200 then first_id body else [], w1))"

definition probeUser :: "'r remote \<Rightarrow> int \<Rightarrow> Target \<Rightarrow> string \<Rightarrow> 'r world \<Rightarrow> string \<times> 'r world" where
  "probeUser = probe ''/Users'' ''userName''"

definition probeGroup :: "'r remote \<Rightarrow> int \<Rightarrow> Target \<Rightarrow> string \<Rightarrow> 'r world \<Rightarrow> string \<times> 'r world" where
  "probeGroup = probe ''/Groups'' ''displayName''"

definition okStatus :: "int \<Rightarrow> bool" where
  "okStatus status \<longleftrightarrow> 200 \<le> status \<and> status < 300"

section \<open>The cycle\<close>

definition tally :: "SyncResult \<Rightarrow> string \<Rightarrow> int \<Rightarrow> SyncResult" where
  "tally res action status =
     (if \<not> okStatus status then res\<lparr>sr_Failed := sr_Failed res + 1\<rparr>
      else if action = ''create'' then res\<lparr>sr_Created := sr_Created res + 1\<rparr>
      else if action = ''update'' then res\<lparr>sr_Updated := sr_Updated res + 1\<rparr>
      else if action = ''deprovision'' then res\<lparr>sr_Deprovisioned := sr_Deprovisioned res + 1\<rparr>
      else res)"

definition send_tally ::
  "'r remote \<Rightarrow> int \<Rightarrow> Target \<Rightarrow> string \<Rightarrow> string \<Rightarrow> json \<Rightarrow> string \<Rightarrow> string \<Rightarrow> SyncResult \<times> 'r world \<Rightarrow> SyncResult \<times> 'r world" where
  "send_tally remote now t meth path body subject action st =
     (case send remote now t meth path body subject action (snd st) of (status, w) \<Rightarrow> (tally (fst st) action status, w))"

definition sync_user ::
  "'r remote \<Rightarrow> int \<Rightarrow> Target \<Rightarrow> bool \<Rightarrow> int \<Rightarrow> User \<Rightarrow> SyncResult \<times> 'r world \<Rightarrow> SyncResult \<times> 'r world" where
  "sync_user remote now t incremental wm u st =
     (if incremental \<and> u_UpdatedAt u < wm then ((fst st)\<lparr>sr_Skipped := sr_Skipped (fst st) + 1\<rparr>, snd st)
      else case probeUser remote now t (u_UserPrincipalName u) (snd st) of (existing, w) \<Rightarrow>
        if existing = [] \<and> u_AccountEnabled u
        then send_tally remote now t ''POST'' ''/Users'' (outboundUser u) (u_UserPrincipalName u) ''create'' (fst st, w)
        else if existing \<noteq> [] \<and> \<not> u_AccountEnabled u
        then send_tally remote now t ''PATCH'' (''/Users/'' @ existing) (replaceActive False) (u_UserPrincipalName u) ''deprovision'' (fst st, w)
        else if existing \<noteq> []
        then send_tally remote now t ''PATCH'' (''/Users/'' @ existing) (updatePatch u) (u_UserPrincipalName u) ''update'' (fst st, w)
        else ((fst st)\<lparr>sr_Skipped := sr_Skipped (fst st) + 1\<rparr>, w))"

definition correlatedMembers :: "'r remote \<Rightarrow> int \<Rightarrow> Target \<Rightarrow> Store \<Rightarrow> string \<Rightarrow> 'r world \<Rightarrow> string list \<times> 'r world" where
  "correlatedMembers remote now t s groupID w =
     fold (\<lambda>m (ids, w). case probeUser remote now t (u_UserPrincipalName m) w of (i, w1) \<Rightarrow> (if i \<noteq> [] then ids @ [i] else ids, w1))
       (ListGroupMembers s groupID) ([], w)"

definition sync_group :: "'r remote \<Rightarrow> int \<Rightarrow> Target \<Rightarrow> Store \<Rightarrow> Group \<Rightarrow> SyncResult \<times> 'r world \<Rightarrow> SyncResult \<times> 'r world" where
  "sync_group remote now t s g st =
     (case correlatedMembers remote now t s (g_ID g) (snd st) of (ids, w1) \<Rightarrow>
      case probeGroup remote now t (g_DisplayName g) w1 of (existing, w2) \<Rightarrow>
        if existing = [] then
          (case send remote now t ''POST'' ''/Groups'' (outboundGroup g ids) (g_DisplayName g) ''create'' w2 of (status, w3) \<Rightarrow>
             (if okStatus status then (fst st)\<lparr>sr_GroupsCreated := sr_GroupsCreated (fst st) + 1\<rparr>
              else (fst st)\<lparr>sr_Failed := sr_Failed (fst st) + 1\<rparr>, w3))
        else
          (case send remote now t ''PATCH'' (''/Groups/'' @ existing) (groupMembersPatch ids) (g_DisplayName g) ''update'' w2 of (status, w3) \<Rightarrow>
             (if okStatus status then (fst st)\<lparr>sr_GroupsUpdated := sr_GroupsUpdated (fst st) + 1\<rparr>
              else (fst st)\<lparr>sr_Failed := sr_Failed (fst st) + 1\<rparr>, w3)))"

definition syncGroups :: "'r remote \<Rightarrow> int \<Rightarrow> Target \<Rightarrow> Store \<Rightarrow> SyncResult \<times> 'r world \<Rightarrow> SyncResult \<times> 'r world" where
  "syncGroups remote now t s st = fold (sync_group remote now t s) (fst (ListGroups s (2 ^ 30) 0 [])) st"

definition no_result :: "string \<Rightarrow> SyncResult" where
  "no_result mode = \<lparr>sr_Mode = mode, sr_Created = 0, sr_Updated = 0, sr_Deprovisioned = 0, sr_Skipped = 0, sr_Failed = 0,
     sr_GroupsCreated = 0, sr_GroupsUpdated = 0\<rparr>"

definition Sync :: "'r remote \<Rightarrow> int \<Rightarrow> string \<Rightarrow> Store \<Rightarrow> Provisioner \<Rightarrow> 'r \<Rightarrow> (string + SyncResult) \<times> Provisioner \<times> 'r" where
  "Sync remote now mode s p r =
     (case pv_target p of
        None \<Rightarrow> (Inl ''no provisioning target configured'', p, r)
      | Some t \<Rightarrow>
        (case syncGroups remote now t s
            (fold (sync_user remote now t (mode = ''incremental'') (pv_watermark p)) (fst (ListUsers s (2 ^ 30) 0 []))
              (no_result mode, (pv_log p, r))) of
           (res, (es, r1)) \<Rightarrow> (Inr res, p\<lparr>pv_log := es, pv_watermark := now\<rparr>, r1)))"

section \<open>An emulator as the downstream service\<close>

text \<open>The requests of a provisioner reaching the SCIM service of another emulator, which mints its identifiers from
  the environment of each request.\<close>

definition scim_remote :: "(nat \<Rightarrow> ScimEnv) \<Rightarrow> string \<Rightarrow> (nat \<times> Store) remote" where
  "scim_remote xe prefix t meth path body st =
     (let p = takeWhile (\<lambda>c. c \<noteq> CHR ''?'') path; raw = drop (length p + 1) path;
          r = \<lparr>cq_Method = meth, cq_Path = [], cq_Query = query_of raw, cq_PathValue = (\<lambda>_. []), cq_Authorization = ''Bearer '' @ tg_Token t,
               cq_TLS = False, cq_Host = [], cq_ContentLength = -1, cq_Body = body\<rparr> in
      case scim_serve (xe (fst st)) prefix (prefix @ ''/v2'' @ p) r (snd st) of
        None \<Rightarrow> (Inr (404, None), (Suc (fst st), snd st))
      | Some (ScimJSON status sh, s1) \<Rightarrow> (Inr (status, Some (JObj sh)), (Suc (fst st), s1))
      | Some (ScimEmpty status, s1) \<Rightarrow> (Inr (status, None), (Suc (fst st), s1))
      | Some (ScimPanic, s1) \<Rightarrow> (Inl ''EOF'', (Suc (fst st), s1)))"

end
