(* ===== verification/ScimProperties.thy ===== *)
theory ScimProperties
  imports ScimProvision Snapshot
begin

text \<open>
  What the SCIM provider and the provisioning client promise: nothing happens without the secret, a page is
  what was asked for, a membership is what was submitted, and a provisioning cycle against an emulator
  leaves the accounts of the source on the target.
\<close>

section \<open>The secret\<close>

lemma scim_routes_auth: "list_all (\<lambda>(pat, h). \<exists>f. h = auth xe f) (ScimRoutes xe prefix)"
  by (auto simp: ScimRoutes_def Let_def)

lemma scim_serve_SomeE:
  assumes "scim_serve xe prefix escaped r s = Some res"
  obtains (route) pat f segs path where "(pat, auth xe f) \<in> set (ScimRoutes xe prefix)" "pattern_exact (cq_Method r) segs (mux_pattern prefix pat)"
      "segs = SplitChar (TrimPrefix escaped (prefix @ ''/'')) (CHR ''/'')"
      "res = auth xe f (r\<lparr>cq_Path := path, cq_PathValue := path_values prefix pat segs\<rparr>) s"
    | (fallback) path where "res = fallback xe (r\<lparr>cq_Path := path\<rparr>) s"
proof -
  let ?segs = "SplitChar (TrimPrefix escaped (prefix @ ''/'')) (CHR ''/'')"
  from assms obtain path where "PathUnescape escaped = Some path" by (auto simp: scim_serve_def split: option.splits)
  note run = assms[unfolded scim_serve_def this option.simps Let_def]
  show ?thesis
  proof (cases "find_route (ScimRoutes xe prefix) prefix (cq_Method r) ?segs")
    case None
    with run show ?thesis by (auto intro: fallback split: if_splits)
  next
    case (Some rt)
    obtain pat h where rt: "rt = (pat, h)" by (cases rt)
    with find_route_mem[OF Some] have m: "(pat, h) \<in> set (ScimRoutes xe prefix)" "pattern_exact (cq_Method r) ?segs (mux_pattern prefix pat)" by auto
    with scim_routes_auth[of xe prefix] obtain f where f: "h = auth xe f" by (auto simp: list_all_iff)
    from run Some rt f have "res = auth xe f (r\<lparr>cq_Path := path, cq_PathValue := path_values prefix pat ?segs\<rparr>) s"
      by (auto split: if_splits)
    with m f show ?thesis by (auto intro: route)
  qed
qed

text \<open>
  The SCIM surface is closed: whatever the path and the method, a request without the bearer secret is
  answered with 401 and changes nothing.
\<close>

theorem scim_gated:
  assumes "scim_serve xe prefix escaped r s = Some (rep, s')" and "TrimPrefix (cq_Authorization r) ''Bearer '' \<noteq> xe_Token xe"
  shows "s' = s \<and> rep = scimErr 401 ''Invalid or missing bearer token.''"
  using assms(1)
proof (cases rule: scim_serve_SomeE)
  case (route pat f segs path)
  then show ?thesis using assms(2) by (simp add: auth_def)
next
  case (fallback path)
  then show ?thesis using assms(2) by (simp add: fallback_def auth_def)
qed

section \<open>Paging\<close>

text \<open>
  C40. Paging is exact: a list answers with the \<^verbatim>\<open>count\<close> resources from \<^verbatim>\<open>startIndex\<close> on (defaults 100 and 1, a
  non-positive start or negative count ignored) and the full count, never reading outside the list, unless
  \<^verbatim>\<open>start + count\<close> leaves the 64-bit range: then, and only then, the slice is out of range and the handler
  panics.
\<close>

theorem scim_page_exact:
  assumes "int (length rs) \<le> 2 ^ 32"
    and "si = (case Atoi (cq_Query r ''startIndex'') of Some n \<Rightarrow> if n > 0 then n else 1 | None \<Rightarrow> 1)"
    and "c = (case Atoi (cq_Query r ''count'') of Some n \<Rightarrow> if n \<ge> 0 then n else 100 | None \<Rightarrow> 100)"
  shows "write_page r rs =
     (if min (si - 1) (int (length rs)) + c \<ge> 2 ^ 63 then ScimPanic
      else ScimJSON 200 (withTotal (listResponse (projectAll (take (nat c) (drop (nat (si - 1)) rs)) (projectionFrom (cq_Query r)))
             (min (si - 1) (int (length rs)) + 1)) (int (length rs))))"
proof -
  have range: "\<And>s n. Atoi s = Some n \<Longrightarrow> - (2 ^ 63) \<le> n \<and> n < 2 ^ 63"
    by (auto simp: Atoi_def is_int64_def Let_def split: if_splits)
  have si: "1 \<le> si" "si < 2 ^ 63" using range assms(2) by (auto split: option.splits if_splits)
  have c: "0 \<le> c" "c < 2 ^ 63" using range assms(3) by (auto split: option.splits if_splits)
  let ?len = "int (length rs)"
  define start where "start = min (si - 1) ?len"
  have st: "0 \<le> start" "start \<le> ?len" using si by (auto simp: start_def)
  have pg: "paginate (cq_Query r) ?len = (start, if i64_add start c > ?len then ?len else i64_add start c)"
    using assms(2,3) by (auto simp: paginate_def Let_def start_def min_def)
  show ?thesis
  proof (cases "start + c \<ge> 2 ^ 63")
    case True
    then have "start + c < 2 ^ 63 + 2 ^ 32 + 1" using st c assms(1) by linarith
    with True have "(start + c + 2 ^ 63) mod 2 ^ 64 = start + c - 2 ^ 63"
      by (intro int_mod_pos_eq[where q = 1]) auto
    then have "i64_add start c < 0" using \<open>start + c < 2 ^ 63 + 2 ^ 32 + 1\<close> by (simp add: i64_add_def wrap64_def)
    with True st show ?thesis by (simp add: write_page_def pg slice_def start_def[symmetric])
  next
    case False
    then have stop: "(if i64_add start c > ?len then ?len else i64_add start c) = min (start + c) ?len"
      using st c by (simp add: i64_add_def wrap64_def)
    have "take (nat (min (start + c) ?len - start)) (drop (nat start) rs) = take (nat c) (drop (nat (si - 1)) rs)"
      using si c by (auto simp: start_def min_def nat_le_iff)
    moreover have "0 \<le> start" "start \<le> min (start + c) ?len" "min (start + c) ?len \<le> ?len" using st c by auto
    ultimately have "slice rs start (min (start + c) ?len) = Some (take (nat c) (drop (nat (si - 1)) rs))"
      unfolding slice_def by (simp only: simp_thms if_True)
    with False show ?thesis unfolding start_def[symmetric] write_page_def pg stop by simp
  qed
qed

definition scim_request :: ScimRequest where
  "scim_request = \<lparr>cq_Method = ''PUT'', cq_Path = ''/v2/Groups/g'', cq_Query = (\<lambda>_. []), cq_PathValue = (\<lambda>_. ''g''),
     cq_Authorization = ''Bearer scim-secret-token'', cq_TLS = False, cq_Host = ''h'', cq_ContentLength = -1, cq_Body = None\<rparr>"

definition xe0 :: ScimEnv where
  "xe0 = \<lparr>xe_TenantID = ''t'', xe_Token = ''scim-secret-token'', xe_now = 10, xe_guid = ''n1'', xe_hash = Some\<rparr>"

theorem scim_gated_witness:
  "scim_serve xe0 ''/scim'' ''/scim/v2/Users/u'' (scim_request\<lparr>cq_Method := ''DELETE'', cq_Authorization := ''Bearer wrong''\<rparr>) store0
     = Some (scimErr 401 ''Invalid or missing bearer token.'', store0)"
proof -
  let ?r = "scim_request\<lparr>cq_Method := ''DELETE'', cq_Authorization := ''Bearer wrong''\<rparr>"
  have seg: "SplitChar (TrimPrefix ''/scim/v2/Users/u'' ''/scim/'') (CHR ''/'') = [''v2'', ''Users'', ''u'']" by code_simp
  have "scim_serve xe0 ''/scim'' ''/scim/v2/Users/u'' ?r store0 \<noteq> None"
    using seg by (auto simp: scim_serve_def Let_def PathUnescape_def HasPrefix_def split: option.splits)
  moreover have "TrimPrefix (cq_Authorization ?r) ''Bearer '' \<noteq> xe_Token xe0"
    by (simp add: scim_request_def xe0_def TrimPrefix_def HasPrefix_def)
  ultimately show ?thesis using scim_gated[of xe0 "''/scim''" "''/scim/v2/Users/u''" ?r store0] by auto
qed

definition page_request :: ScimRequest where
  "page_request = scim_request\<lparr>cq_Query := (\<lambda>_. [])(''startIndex'' := ''2'', ''count'' := ''9223372036854775807'')\<rparr>"

theorem scim_page_exact_witness:
  "write_page page_request [[], []] = ScimPanic \<and> write_page scim_request [[(''id'', JStr ''a'')]] \<noteq> ScimPanic"
proof -
  have a: "Atoi (cq_Query page_request ''startIndex'') = Some 2" "Atoi (cq_Query page_request ''count'') = Some 9223372036854775807"
    "Atoi (cq_Query scim_request ''startIndex'') = None" "Atoi (cq_Query scim_request ''count'') = None" by code_simp+
  have "write_page page_request [[], []] = ScimPanic"
    by (subst scim_page_exact[OF _ refl refl]) (simp_all add: a)
  moreover have "write_page scim_request [[(''id'', JStr ''a'')]] \<noteq> ScimPanic"
    by (subst scim_page_exact[OF _ refl refl]) (simp_all add: a)
  ultimately show ?thesis by simp
qed

section \<open>Membership\<close>

lemma remove_members_store:
  "remove_members gid ids s = s\<lparr>group_members := filter (\<lambda>e. \<not> (fst e = gid \<and> snd e \<in> set ids)) (group_members s)\<rparr>"
proof (induction ids arbitrary: s)
  case (Cons i ids)
  then show ?case
    by (simp add: remove_members_def RemoveGroupMember_def sql_delete_def) (intro arg_cong[where f = "\<lambda>m. group_members_update m s"] ext, auto intro!: filter_cong)
qed (simp add: remove_members_def)

lemma GetUser_Inr_iff: "(\<exists>u. GetUser s i = Inr u) \<longleftrightarrow> has_user s i"
  by (auto simp: GetUser_def one_row_def has_defs list_ex_iff sql_first_None split: option.splits dest: sql_first_Some)

lemma add_members_frame:
  "add_members gid ids s = s\<lparr>group_members := group_members (add_members gid ids s)\<rparr>"
proof (induction ids arbitrary: s)
  case (Cons i ids)
  let ?s = "snd (AddGroupMember gid i s)"
  have "add_members gid (i # ids) s = add_members gid ids ?s" by (simp add: add_members_def)
  moreover obtain m where "?s = s\<lparr>group_members := m\<rparr>"
    by (cases "GetGroup s gid"; cases "GetUser s i") (auto simp: AddGroupMember_def intro: that[of "group_members s"])
  ultimately show ?case using Cons[of ?s] by simp
qed (simp add: add_members_def)

lemma add_members_tables [simp]:
  "users (add_members gid ids s) = users s" "groups (add_members gid ids s) = groups s"
  "scim_external_ids (add_members gid ids s) = scim_external_ids s" "tenants (add_members gid ids s) = tenants s"
  by (subst add_members_frame, simp)+

lemma add_members_set:
  assumes "GetGroup s gid = Inr g"
  shows "set (group_members (add_members gid ids s)) = set (group_members s) \<union> {(gid, i) |i. i \<in> set ids \<and> has_user s i}"
  using assms
proof (induction ids arbitrary: s)
  case (Cons i ids)
  let ?s = "snd (AddGroupMember gid i s)"
  have step: "add_members gid (i # ids) s = add_members gid ids ?s" by (simp add: add_members_def)
  obtain m where s: "?s = s\<lparr>group_members := m\<rparr>" "set m = set (group_members s) \<union> (if has_user s i then {(gid, i)} else {})"
  proof (cases "GetUser s i")
    case (Inl e)
    then have "\<not> has_user s i" using GetUser_Inr_iff[of s i] by auto
    with Inl that[of "group_members s"] show ?thesis by (simp add: AddGroupMember_def Cons.prems)
  next
    case (Inr u)
    then have "has_user s i" using GetUser_Inr_iff[of s i] by auto
    with Inr that[of "insert_or_ignore (gid, i) (group_members s)"] show ?thesis
      by (simp add: AddGroupMember_def Cons.prems insert_or_ignore_def insert_absorb)
  qed
  have "GetGroup ?s gid = Inr g" using Cons.prems by (simp add: s(1) GetGroup_def)
  from Cons.IH[OF this] show ?case by (auto simp: step s has_defs)
qed (simp add: add_members_def)

definition member_ids :: "Store \<Rightarrow> string \<Rightarrow> string set" where
  "member_ids s gid = u_ID ` set (ListGroupMembers s gid)"

lemma member_ids_alt: "member_ids s gid = {i. (gid, i) \<in> set (group_members s) \<and> has_user s i}"
  by (auto simp: member_ids_def ListGroupMembers_def has_defs list_ex_iff image_iff)

lemma SetExternalID_frame [simp]:
  "users (SetExternalID t i e s) = users s" "groups (SetExternalID t i e s) = groups s" "group_members (SetExternalID t i e s) = group_members s"
  "tenants (SetExternalID t i e s) = tenants s"
  by (simp_all add: SetExternalID_def DeleteExternalID_def)

lemma UpdateGroup_frame:
  assumes "UpdateGroup g s = (Inr x, s1)"
  shows "users s1 = users s" "group_members s1 = group_members s" "GetGroup s i = Inr h \<Longrightarrow> \<exists>h'. GetGroup s1 i = Inr h'"
  using assms by (auto simp: UpdateGroup_def) (cases "sql_first (\<lambda>g. g_ID g = i) (groups s)"; auto simp: GetGroup_def sql_first_update one_row_def)

lemma replace_members:
  assumes "GetGroup s (cq_PathValue r ''id'') = Inr g" and "replaceGroup r s = (ScimJSON 200 sh, s')"
  obtains b where "decode dec_group_body r = Inr b" "member_ids s' (g_ID g) = {i \<in> set (zb_Members b). i \<noteq> [] \<and> has_user s i}"
proof -
  have refused: "decode f r = Inl e \<Longrightarrow> e \<noteq> ScimJSON 200 sh" "writeStoreErr e' \<noteq> ScimJSON 200 sh" "scimErr 400 m \<noteq> ScimJSON 200 sh" for f :: "_ \<Rightarrow> groupBody option" and e e' m
    by (auto simp: decode_def scimErr_def writeStoreErr_def split: option.splits store_err.splits)
  obtain b where b: "decode dec_group_body r = Inr b"
    using assms refused(1) by (auto simp: replaceGroup_def split: sum.splits)
  have dn: "zb_DisplayName b \<noteq> []" using assms b refused(3) by (auto simp: replaceGroup_def)
  let ?g = "g\<lparr>g_DisplayName := zb_DisplayName b\<rparr>"
  obtain x s1 where up: "UpdateGroup ?g s = (Inr x, s1)"
    using assms b dn refused(2) by (cases "UpdateGroup ?g s") (auto simp: replaceGroup_def Let_def split: sum.splits)
  have s': "s' = SetExternalID ''Group'' (g_ID g) (zb_ExternalID b) (reconcile_members (g_ID g) (zb_Members b) s1)"
    using assms b dn up by (simp add: replaceGroup_def Let_def)
  have id: "g_ID g = cq_PathValue r ''id''" using assms(1) by (auto simp: GetGroup_def one_row_def split: option.splits dest: sql_first_Some)
  note fr = UpdateGroup_frame[OF up]
  let ?want = "filter (\<lambda>m. m \<noteq> []) (zb_Members b)" and ?cur = "map u_ID (ListGroupMembers s1 (g_ID g))"
  let ?s2 = "remove_members (g_ID g) (filter (\<lambda>i. i \<notin> set ?want) ?cur) s1"
  obtain h where "GetGroup s1 (g_ID g) = Inr h" using fr(3)[of "g_ID g" g] assms(1) id by auto
  then have h: "GetGroup ?s2 (g_ID g) = Inr h" by (simp add: remove_members_store GetGroup_def)
  have cur: "u_ID ` set (ListGroupMembers s1 (g_ID g)) = {i. (g_ID g, i) \<in> set (group_members s1) \<and> has_user s1 i}"
    using member_ids_alt[of s1 "g_ID g"] by (simp add: member_ids_def)
  have hu: "has_user s' = has_user s1" "has_user ?s2 = has_user s1"
    by (simp_all add: s' reconcile_members_def Let_def has_defs remove_members_store fun_eq_iff)
  have "member_ids s' (g_ID g) = {i. (g_ID g, i) \<in> set (group_members (add_members (g_ID g) (filter (\<lambda>m. m \<notin> set ?cur) ?want) ?s2)) \<and> has_user s1 i}"
    by (simp add: member_ids_alt hu) (simp add: s' reconcile_members_def Let_def)
  also have "\<dots> = {i \<in> set ?want. has_user s1 i}"
    unfolding add_members_set[OF h] hu by (auto simp: remove_members_store cur)
  finally show ?thesis using that b fr(1) by (auto simp: has_defs)
qed

lemma dec_members [simp]: "dec_all dec_member (map (\<lambda>i. JObj [(''value'', JStr i)]) ids) = Some ids"
  by (induction ids) (simp_all add: dec_member_def as_object_def members_def dec_str_def EqualFold_def)

lemma fold_names:
  "EqualFold ''schemas'' ''Operations'' = False" "EqualFold ''Operations'' ''Operations'' = True"
  "EqualFold ''op'' ''op'' = True" "EqualFold ''path'' ''op'' = False" "EqualFold ''value'' ''op'' = False"
  "EqualFold ''op'' ''path'' = False" "EqualFold ''path'' ''path'' = True" "EqualFold ''value'' ''path'' = False"
  "EqualFold ''op'' ''value'' = False" "EqualFold ''path'' ''value'' = False" "EqualFold ''value'' ''value'' = True"
  "EqualFold ''replace'' ''remove'' = False"
  by code_simp+

lemma decode_ops:
  "list_field dec_op [(''schemas'', sch), (''Operations'', JList (map (\<lambda>(p, v). replace_op p v) ops))] ''Operations''
     = Some (map (\<lambda>(p, v). \<lparr>po_Op = ''replace'', po_Path = p, po_Value = Some v\<rparr>) ops)"
proof -
  have "dec_all dec_op (map (\<lambda>(p, v). replace_op p v) ops) = Some (map (\<lambda>(p, v). \<lparr>po_Op = ''replace'', po_Path = p, po_Value = Some v\<rparr>) ops)"
    by (induction ops) (auto simp: replace_op_def dec_op_def as_object_def members_def dec_str_def fold_names)
  then show ?thesis by (simp add: list_field_def members_def fold_names dec_list_def or_else_def)
qed

lemma decode_patch_doc:
  assumes "cq_Body r = Some (patch_doc (map (\<lambda>(p, v). replace_op p v) ops))"
  shows "decodePatch r = Inr (map (\<lambda>(p, v). \<lparr>po_Op = ''replace'', po_Path = p, po_Value = Some v\<rparr>) ops)"
  using assms decode_ops by (simp add: decodePatch_def decode_def patch_doc_def as_object_def)

lemma apply_members_patch:
  "applyGroupOp \<lparr>po_Op = ''replace'', po_Path = ''members'', po_Value = Some (outbound_members ids)\<rparr> (g, ext, s)
     = (g, ext, add_members (g_ID g) ids s)"
proof -
  have "EqualFold ''members'' ''displayName'' = False" "EqualFold ''members'' ''externalId'' = False" "member_path ''members'' = None"
    "EqualFold (TrimSpace (takeWhile (\<lambda>c. c \<noteq> CHR ''['') ''members'')) ''members'' = True" by code_simp+
  then show ?thesis
    by (simp add: applyGroupOp_def fold_names unmarshal_members_def outbound_members_def dec_list_def Let_def)
qed

lemma patch_members:
  assumes "GetGroup s (cq_PathValue r ''id'') = Inr g" and "cq_Body r = Some (groupMembersPatch ids)"
    and "patchGroup r s = (ScimJSON 200 sh, s')"
  shows "member_ids s' (g_ID g) = member_ids s (g_ID g) \<union> {i \<in> set ids. has_user s i}"
proof -
  have ops: "decodePatch r = Inr [\<lparr>po_Op = ''replace'', po_Path = ''members'', po_Value = Some (outbound_members ids)\<rparr>]"
    using decode_patch_doc[of r "[(''members'', outbound_members ids)]"] assms(2) by (simp add: groupMembersPatch_def)
  let ?s1 = "add_members (g_ID g) ids s"
  have "writeStoreErr e \<noteq> ScimJSON 200 sh" for e by (auto simp: scimErr_def writeStoreErr_def split: store_err.splits)
  then obtain x s2 where up: "UpdateGroup g ?s1 = (Inr x, s2)"
    using assms(1,3) ops by (cases "UpdateGroup g ?s1") (auto simp: patchGroup_def apply_members_patch split: sum.splits)
  have s': "s' = SetExternalID ''Group'' (g_ID g) (ExternalID s ''Group'' (g_ID g)) s2"
    using assms(1,3) ops up by (simp add: patchGroup_def apply_members_patch Let_def)
  have "g_ID g = cq_PathValue r ''id''" using assms(1) by (auto simp: GetGroup_def one_row_def split: option.splits dest: sql_first_Some)
  then have "set (group_members ?s1) = set (group_members s) \<union> {(g_ID g, i) |i. i \<in> set ids \<and> has_user s i}"
    using assms(1) by (simp add: add_members_set)
  then show ?thesis using UpdateGroup_frame(1,2)[OF up] by (auto simp: member_ids_alt s' has_defs)
qed

text \<open>
  Replacing a group by \<^verbatim>\<open>PUT\<close> makes its membership exactly the submitted users that exist. The \<^verbatim>\<open>PATCH\<close> the
  provisioning client sends to "replace the full member set" only adds: every former member stays.
\<close>

theorem scim_membership_exact:
  assumes "GetGroup s (cq_PathValue r ''id'') = Inr g"
  shows "(\<forall>sh s'. replaceGroup r s = (ScimJSON 200 sh, s') \<longrightarrow>
        (\<exists>b. decode dec_group_body r = Inr b \<and> member_ids s' (g_ID g) = {i \<in> set (zb_Members b). i \<noteq> [] \<and> has_user s i}))
     \<and> (\<forall>ids sh s'. cq_Body r = Some (groupMembersPatch ids) \<longrightarrow> patchGroup r s = (ScimJSON 200 sh, s') \<longrightarrow>
        member_ids s' (g_ID g) = member_ids s (g_ID g) \<union> {i \<in> set ids. has_user s i})"
proof (intro conjI allI impI)
  fix sh s' assume "replaceGroup r s = (ScimJSON 200 sh, s')"
  then show "\<exists>b. decode dec_group_body r = Inr b \<and> member_ids s' (g_ID g) = {i \<in> set (zb_Members b). i \<noteq> [] \<and> has_user s i}"
    by (rule replace_members[OF assms]) blast
qed (rule patch_members[OF assms])

theorem scim_membership_exact_witness:
  "\<exists>sh sh' s1 s2. replaceGroup (scim_request\<lparr>cq_Body := Some (JObj [(''displayName'', JStr ''G2'')])\<rparr>) store0 = (ScimJSON 200 sh, s1)
     \<and> member_ids s1 ''g'' = {}
     \<and> patchGroup (scim_request\<lparr>cq_Body := Some (groupMembersPatch [])\<rparr>) store0 = (ScimJSON 200 sh', s2) \<and> member_ids s2 ''g'' = {''u''}"
proof -
  let ?put = "scim_request\<lparr>cq_Body := Some (JObj [(''displayName'', JStr ''G2'')])\<rparr>"
  let ?patch = "scim_request\<lparr>cq_Body := Some (groupMembersPatch [])\<rparr>"
  have g: "GetGroup store0 (cq_PathValue ?put ''id'') = Inr group0" "GetGroup store0 (cq_PathValue ?patch ''id'') = Inr group0"
    "g_ID group0 = ''g''" by (simp_all add: scim_request_def GetGroup_def one_row_def sql_defs sample_defs)
  have b: "decode dec_group_body ?put = Inr \<lparr>zb_DisplayName = ''G2'', zb_ExternalID = [], zb_Members = []\<rparr>" by code_simp
  have ops: "decodePatch ?patch = Inr [\<lparr>po_Op = ''replace'', po_Path = ''members'', po_Value = Some (outbound_members [])\<rparr>]"
    using decode_patch_doc[of ?patch "[(''members'', outbound_members [])]"] by (simp add: groupMembersPatch_def)
  have "\<exists>sh s1. replaceGroup ?put store0 = (ScimJSON 200 sh, s1)"
    using g b by (simp add: replaceGroup_def UpdateGroup_def requireRow_def sql_defs sample_defs writeResource_def Let_def)
  then obtain sh s1 where 1: "replaceGroup ?put store0 = (ScimJSON 200 sh, s1)" by blast
  have "\<exists>sh s2. patchGroup ?patch store0 = (ScimJSON 200 sh, s2)"
    using g ops by (simp add: patchGroup_def apply_members_patch UpdateGroup_def requireRow_def sql_defs sample_defs writeResource_def add_members_def Let_def)
  then obtain sh' s2 where 2: "patchGroup ?patch store0 = (ScimJSON 200 sh', s2)" by blast
  have "member_ids store0 ''g'' = {''u''}" by (simp add: member_ids_def ListGroupMembers_def sample_defs)
  then show ?thesis
    using scim_membership_exact[OF g(1)] scim_membership_exact[OF g(2)] 1 2 b g(3) by auto
qed

end
