(* ===== verification/ScimContract.thy ===== *)
theory ScimContract
  imports ScimProvision
begin

text \<open>
  What the provisioning client of \<^verbatim>\<open>provision.go\<close> relies on: the contract of a downstream SCIM service as a locale.
  The client's own argument is made once, for every service that keeps the contract: a cycle leaves each user of
  the source on the service as the source has it and touches no other account.
\<close>

section \<open>Accounts\<close>

text \<open>The rules the schema puts on the users table.\<close>

definition user_keys :: "User list \<Rightarrow> bool" where
  "user_keys us \<longleftrightarrow> distinct (map u_ID us) \<and> distinct (map u_UserPrincipalName us)"

definition upn_key :: "User \<Rightarrow> string" where
  "upn_key u = map lower_char (u_UserPrincipalName u)"

text \<open>The account a source user is matched with, and the state the source asks for.\<close>

definition account_of :: "User list \<Rightarrow> User \<Rightarrow> User option" where
  "account_of us u = sql_first (\<lambda>r. nocase_eq (u_UserPrincipalName r) (u_UserPrincipalName u)) us"

text \<open>
  What the source asks for. A new account has every attribute \<^verbatim>\<open>outboundUser\<close> sends. Of an account that is found only
  the enabled state and, for an enabled user, the display name are sent (\<^verbatim>\<open>updatePatch\<close>, \<^verbatim>\<open>replaceActive\<close>): its other
  attributes stay, apart from the normalized type and the time of the update. \<open>ex\<close> and \<open>ex'\<close> are the external ids by
  account id before and after.
\<close>

definition created :: "User \<Rightarrow> User \<Rightarrow> bool" where
  "created u r \<longleftrightarrow> u_UserPrincipalName r = u_UserPrincipalName u \<and> u_DisplayName r = u_DisplayName u \<and> u_GivenName r = u_GivenName u
     \<and> u_Surname r = u_Surname u \<and> u_Mail r = u_Mail u \<and> u_AccountEnabled r = u_AccountEnabled u"

definition updated :: "User \<Rightarrow> User \<Rightarrow> User \<Rightarrow> bool" where
  "updated u a r \<longleftrightarrow> r = a\<lparr>u_AccountEnabled := u_AccountEnabled u,
     u_DisplayName := (if u_AccountEnabled u then u_DisplayName u else u_DisplayName a), u_UserType := u_UserType r, u_UpdatedAt := u_UpdatedAt r\<rparr>"

definition provisioned :: "User list \<Rightarrow> (string \<Rightarrow> string) \<Rightarrow> User list \<Rightarrow> (string \<Rightarrow> string) \<Rightarrow> User \<Rightarrow> bool" where
  "provisioned us ex us' ex' u \<longleftrightarrow>
     (case account_of us u of
        None \<Rightarrow> (case account_of us' u of None \<Rightarrow> \<not> u_AccountEnabled u
                | Some r \<Rightarrow> u_AccountEnabled u \<and> created u r \<and> (u_ID u \<noteq> [] \<longrightarrow> ex' (u_ID r) = u_ID u))
      | Some a \<Rightarrow> \<exists>r. account_of us' u = Some r \<and> updated u a r \<and> ex' (u_ID r) = ex (u_ID a))"

text \<open>A user the cycle can name in a filter.\<close>

definition nameable :: "User \<Rightarrow> bool" where
  "nameable u \<longleftrightarrow> u_UserPrincipalName u \<noteq> [] \<and> dquote \<notin> set (u_UserPrincipalName u)"

definition edit_doc :: "User \<Rightarrow> json" where
  "edit_doc u = (if u_AccountEnabled u then updatePatch u else replaceActive False)"

lemma upn_key: "nocase_eq (u_UserPrincipalName u) (u_UserPrincipalName v) \<longleftrightarrow> upn_key u = upn_key v"
  by (simp add: nocase_eq_def upn_key_def)

lemma account_row: "account_of us u = Some r \<Longrightarrow> r \<in> set us \<and> upn_key r = upn_key u"
  unfolding account_of_def upn_key[symmetric] by (rule sql_first_Some)

lemma account_None: "account_of us u = None \<longleftrightarrow> upn_key u \<notin> upn_key ` set us"
  by (auto simp: account_of_def sql_first_None upn_key image_iff)

lemma same_id: "user_keys us \<Longrightarrow> r \<in> set us \<Longrightarrow> q \<in> set us \<Longrightarrow> u_ID q = u_ID r \<Longrightarrow> q = r"
  by (auto simp: user_keys_def distinct_map inj_on_def)

section \<open>One user\<close>

lemma updated_facts: "updated u a r \<Longrightarrow> u_ID r = u_ID a \<and> u_UserPrincipalName r = u_UserPrincipalName a \<and> upn_key r = upn_key a"
proof -
  assume r: "updated u a r"
  note e = r[unfolded updated_def]
  from arg_cong[OF e, of u_ID] arg_cong[OF e, of u_UserPrincipalName] show ?thesis by (simp add: upn_key_def)
qed

text \<open>The specification of one step of a cycle: a missing enabled user is created with its id as external id, an account
  that is found is updated, and the others stay.\<close>

definition placed :: "User \<Rightarrow> User list \<Rightarrow> (string \<Rightarrow> string) \<Rightarrow> User list \<Rightarrow> (string \<Rightarrow> string) \<Rightarrow> bool" where
  "placed u us ex us' ex' \<longleftrightarrow>
     (case account_of us u of
        None \<Rightarrow> if u_AccountEnabled u
          then \<exists>row. us' = us @ [row] \<and> u_ID row \<notin> u_ID ` set us \<and> created u row
            \<and> ex' = (\<lambda>i. if i = u_ID row \<and> u_ID u \<noteq> [] then u_ID u else ex i)
          else us' = us \<and> ex' = ex
      | Some row \<Rightarrow> \<exists>row'. us' = map (\<lambda>y. if y = row then row' else y) us \<and> updated u row row' \<and> ex' = ex)"

lemma account_append: "account_of (us @ [row]) u = (case account_of us u of None \<Rightarrow> if upn_key row = upn_key u then Some row else None | Some r \<Rightarrow> Some r)"
  by (simp add: account_of_def sql_first_append upn_key split: option.split)

lemma account_map:
  assumes "upn_key row' = upn_key row"
  shows "account_of (map (\<lambda>y. if y = row then row' else y) us) u = map_option (\<lambda>y. if y = row then row' else y) (account_of us u)"
  using assms by (induction us) (auto simp: account_of_def sql_first_def upn_key)

lemma created_key: "created u row \<Longrightarrow> upn_key row = upn_key u"
  by (simp add: created_def upn_key_def)

lemma placed_account:
  assumes "placed v us ex us' ex'" and "upn_key v \<noteq> upn_key u"
  shows "account_of us' u = account_of us u"
proof (cases "account_of us v")
  case None
  then show ?thesis using assms created_key by (fastforce simp: placed_def account_append split: if_splits option.splits)
next
  case (Some row)
  then obtain row' where us': "us' = map (\<lambda>y. if y = row then row' else y) us" "updated v row row'"
    using assms(1) by (auto simp: placed_def)
  have k: "upn_key row' = upn_key row" using updated_facts[OF us'(2)] by simp
  have "account_of us u = Some r \<Longrightarrow> r \<noteq> row" for r using account_row[OF Some] account_row[of us u r] assms(2) by auto
  then show ?thesis unfolding us'(1) account_map[OF k] by (cases "account_of us u") auto
qed

lemma placed_provisions: "placed u us ex us' ex' \<Longrightarrow> provisioned us ex us' ex' u"
proof (cases "account_of us u")
  case None
  moreover assume "placed u us ex us' ex'"
  ultimately show ?thesis using created_key by (auto simp: placed_def provisioned_def account_append split: if_splits)
next
  case (Some row)
  moreover assume "placed u us ex us' ex'"
  ultimately obtain row' where r: "us' = map (\<lambda>y. if y = row then row' else y) us" "updated u row row'" "ex' = ex" by (auto simp: placed_def)
  have f: "upn_key row' = upn_key row" "u_ID row' = u_ID row" using updated_facts[OF r(2)] by simp_all
  show ?thesis unfolding provisioned_def r(1) account_map[OF f(1)] by (simp add: Some r(2,3) f(2))
qed

text \<open>The accounts a step does not concern: they stay with their external ids, and no account of another name appears.\<close>

lemma placed_others:
  assumes "placed u us ex us' ex'"
  shows "y \<in> set us \<Longrightarrow> upn_key y \<noteq> upn_key u \<Longrightarrow> y \<in> set us'" "y \<in> set us \<Longrightarrow> u_ID y \<in> u_ID ` set us' \<and> ex' (u_ID y) = ex (u_ID y)"
    "y \<in> set us' \<Longrightarrow> y \<in> set us \<or> upn_key y = upn_key u"
proof -
  show "y \<in> set us \<Longrightarrow> upn_key y \<noteq> upn_key u \<Longrightarrow> y \<in> set us'"
    using account_row[of us u] assms by (auto simp: placed_def split: option.splits if_splits)
  show "y \<in> set us \<Longrightarrow> u_ID y \<in> u_ID ` set us' \<and> ex' (u_ID y) = ex (u_ID y)"
  proof (cases "account_of us u")
    case None
    then show "y \<in> set us \<Longrightarrow> u_ID y \<in> u_ID ` set us' \<and> ex' (u_ID y) = ex (u_ID y)" using assms
      by (cases "u_AccountEnabled u") (auto simp: placed_def image_iff)
  next
    case (Some row)
    then obtain row' where r: "us' = map (\<lambda>y. if y = row then row' else y) us" "updated u row row'" "ex' = ex" using assms by (auto simp: placed_def)
    have "map u_ID us' = map u_ID us" using updated_facts[OF r(2)] by (auto simp: r(1))
    then have "u_ID ` set us' = u_ID ` set us" by (metis list.set_map)
    then show "y \<in> set us \<Longrightarrow> u_ID y \<in> u_ID ` set us' \<and> ex' (u_ID y) = ex (u_ID y)" by (auto simp: r(3))
  qed
  show "y \<in> set us' \<Longrightarrow> y \<in> set us \<or> upn_key y = upn_key u"
  proof (cases "account_of us u")
    case None
    then show "y \<in> set us' \<Longrightarrow> y \<in> set us \<or> upn_key y = upn_key u" using assms created_key by (auto simp: placed_def split: if_splits)
  next
    case (Some row)
    then obtain row' where r: "us' = map (\<lambda>y. if y = row then row' else y) us" "updated u row row'" using assms by (auto simp: placed_def)
    with updated_facts[OF r(2)] account_row[OF Some] show "y \<in> set us' \<Longrightarrow> y \<in> set us \<or> upn_key y = upn_key u" by auto
  qed
qed

section \<open>The contract\<close>

locale scim_target =
  fixes remote :: "'r remote" and t :: Target and accounts :: "'r \<Rightarrow> User list" and external :: "'r \<Rightarrow> string \<Rightarrow> string" and ok :: "'r \<Rightarrow> bool"
  assumes ids: "ok r \<Longrightarrow> a \<in> set (accounts r) \<Longrightarrow> u_ID a \<noteq> []"
    and lookup: "ok r \<Longrightarrow> \<exists>b r'. remote t ''GET'' (''/Users?filter='' @ QueryEscape (eq_filter ''userName'' (u_UserPrincipalName u))) None r
        = (Inr (200, b), r') \<and> ok r' \<and> accounts r' = accounts r \<and> external r' = external r
        \<and> (nameable u \<longrightarrow> first_id b = (case account_of (accounts r) u of None \<Rightarrow> [] | Some a \<Rightarrow> u_ID a))"
    and create: "ok r \<Longrightarrow> nameable u \<Longrightarrow> account_of (accounts r) u = None \<Longrightarrow>
        \<exists>b r' row. remote t ''POST'' ''/Users'' (Some (outboundUser u)) r = (Inr (201, b), r') \<and> ok r' \<and> accounts r' = accounts r @ [row]
          \<and> u_ID row \<notin> u_ID ` set (accounts r) \<and> created u row
          \<and> external r' = (\<lambda>i. if i = u_ID row \<and> u_ID u \<noteq> [] then u_ID u else external r i)"
    and edit: "ok r \<Longrightarrow> row \<in> set (accounts r) \<Longrightarrow>
        \<exists>b r' row'. remote t ''PATCH'' (''/Users/'' @ u_ID row) (Some (edit_doc u)) r = (Inr (200, b), r') \<and> ok r'
          \<and> accounts r' = map (\<lambda>y. if y = row then row' else y) (accounts r) \<and> updated u row row' \<and> external r' = external r"
    and groups_apart: "ok r \<Longrightarrow> rest = [] \<or> hd rest \<in> {CHR ''/'', CHR ''?''} \<Longrightarrow> remote t meth (''/Groups'' @ rest) body r = (x, r') \<Longrightarrow>
        ok r' \<and> accounts r' = accounts r \<and> external r' = external r"
begin

text \<open>What a request that is none of the cycle's writes leaves behind.\<close>

definition same :: "'r \<Rightarrow> 'r \<Rightarrow> bool" where
  "same r r' \<longleftrightarrow> ok r' \<and> accounts r' = accounts r \<and> external r' = external r"

lemma same_trans: "same r r1 \<Longrightarrow> same r1 r2 \<Longrightarrow> same r r2"
  by (simp add: same_def)

lemma probeUser_account:
  assumes "ok r"
  shows "\<exists>i es' r'. probeUser remote now t (u_UserPrincipalName u) (es, r) = (i, (es', r')) \<and> same r r'
     \<and> (nameable u \<longrightarrow> i = (case account_of (accounts r) u of None \<Rightarrow> [] | Some a \<Rightarrow> u_ID a))"
proof -
  from lookup[OF assms, of u] obtain b r' where
    "remote t ''GET'' (''/Users?filter='' @ QueryEscape (eq_filter ''userName'' (u_UserPrincipalName u))) None r = (Inr (200, b), r')"
    "same r r'" "nameable u \<longrightarrow> first_id b = (case account_of (accounts r) u of None \<Rightarrow> [] | Some a \<Rightarrow> u_ID a)" unfolding same_def by blast
  then show ?thesis by (simp add: probeUser_def probe_def request_def Let_def)
qed

lemma sync_user_placed:
  assumes "ok r" and "nameable u"
  shows "\<exists>res' es' r'. sync_user remote now t False wm u (res, (es, r)) = (res', (es', r')) \<and> sr_Failed res' = sr_Failed res
     \<and> ok r' \<and> placed u (accounts r) (external r) (accounts r') (external r')"
proof -
  from probeUser_account[OF assms(1), of now u es] assms(2) obtain es1 r1 where pr:
    "probeUser remote now t (u_UserPrincipalName u) (es, r) = (case account_of (accounts r) u of None \<Rightarrow> [] | Some a \<Rightarrow> u_ID a, (es1, r1))"
    "ok r1" "accounts r1 = accounts r" "external r1 = external r" unfolding same_def by blast
  note run = sync_user_def pr(1) send_tally_def send_def request_def tally_def okStatus_def Let_def
  show ?thesis
  proof (cases "account_of (accounts r) u")
    case None
    show ?thesis
    proof (cases "u_AccountEnabled u")
      case True
      from create[OF pr(2) assms(2), unfolded pr(3,4), OF None] obtain b r' row where "remote t ''POST'' ''/Users'' (Some (outboundUser u)) r1 = (Inr (201, b), r')"
        "ok r'" "accounts r' = accounts r @ [row]" "u_ID row \<notin> u_ID ` set (accounts r)" "created u row"
        "external r' = (\<lambda>i. if i = u_ID row \<and> u_ID u \<noteq> [] then u_ID u else external r i)" by blast
      with None True show ?thesis by (auto simp: run placed_def)
    qed (use None pr(2-4) in \<open>simp add: run placed_def\<close>)
  next
    case (Some row)
    then have row: "row \<in> set (accounts r1)" "u_ID row \<noteq> []" using account_row ids[OF assms(1)] pr(3) by auto
    from edit[OF pr(2) row(1), of u] obtain b r' row' where e: "remote t ''PATCH'' (''/Users/'' @ u_ID row) (Some (edit_doc u)) r1 = (Inr (200, b), r')"
      "ok r'" "accounts r' = map (\<lambda>y. if y = row then row' else y) (accounts r)" "updated u row row'" "external r' = external r" using pr(3,4) by auto
    then have "placed u (accounts r) (external r) (accounts r') (external r')" unfolding placed_def Some option.case by blast
    with Some row(2) e(1,2) show ?thesis by (cases "u_AccountEnabled u") (simp_all add: run edit_doc_def)
  qed
qed

lemma sync_users_placed:
  assumes "ok r" and "list_all nameable us" and "distinct (map upn_key us)"
  shows "\<exists>res' es' r'. fold (sync_user remote now t False wm) us (res, (es, r)) = (res', (es', r')) \<and> sr_Failed res' = sr_Failed res \<and> ok r'
     \<and> (\<forall>u \<in> set us. provisioned (accounts r) (external r) (accounts r') (external r') u)
     \<and> (\<forall>v. upn_key v \<notin> upn_key ` set us \<longrightarrow> account_of (accounts r') v = account_of (accounts r) v)
     \<and> (\<forall>y \<in> set (accounts r). upn_key y \<notin> upn_key ` set us \<longrightarrow> y \<in> set (accounts r'))
     \<and> (\<forall>y \<in> set (accounts r). u_ID y \<in> u_ID ` set (accounts r') \<and> external r' (u_ID y) = external r (u_ID y))
     \<and> (\<forall>y \<in> set (accounts r'). y \<in> set (accounts r) \<or> upn_key y \<in> upn_key ` set us)"
  using assms(2,3)
proof (induction us rule: rev_induct)
  case Nil
  then show ?case using assms(1) by simp
next
  case (snoc u us)
  then obtain res1 es1 r1 where ih: "fold (sync_user remote now t False wm) us (res, (es, r)) = (res1, (es1, r1))" "sr_Failed res1 = sr_Failed res"
     "ok r1" "\<And>u. u \<in> set us \<Longrightarrow> provisioned (accounts r) (external r) (accounts r1) (external r1) u"
     "\<And>v. upn_key v \<notin> upn_key ` set us \<Longrightarrow> account_of (accounts r1) v = account_of (accounts r) v"
     "\<And>y. y \<in> set (accounts r) \<Longrightarrow> upn_key y \<notin> upn_key ` set us \<Longrightarrow> y \<in> set (accounts r1)"
     "\<And>y. y \<in> set (accounts r) \<Longrightarrow> u_ID y \<in> u_ID ` set (accounts r1) \<and> external r1 (u_ID y) = external r (u_ID y)"
     "\<And>y. y \<in> set (accounts r1) \<Longrightarrow> y \<in> set (accounts r) \<or> upn_key y \<in> upn_key ` set us" by auto
  have "nameable u" and new: "upn_key u \<notin> upn_key ` set us" using snoc.prems by auto
  from sync_user_placed[OF ih(3) this(1), of now wm res1 es1] obtain res2 es2 r2 where st:
    "sync_user remote now t False wm u (res1, (es1, r1)) = (res2, (es2, r2))" "sr_Failed res2 = sr_Failed res1" "ok r2"
    "placed u (accounts r1) (external r1) (accounts r2) (external r2)" by blast
  note others = placed_others[OF st(4)]
  have p1: "provisioned (accounts r) (external r) (accounts r2) (external r2) u"
  proof -
    have "account_of (accounts r) u = Some a \<Longrightarrow> external r1 (u_ID a) = external r (u_ID a)" for a
      using account_row[of "accounts r" u a] ih(7)[of a] by auto
    then show ?thesis using placed_provisions[OF st(4)] ih(5)[OF new] by (auto simp: provisioned_def split: option.splits)
  qed
  have p2: "provisioned (accounts r) (external r) (accounts r2) (external r2) v" if v: "v \<in> set us" for v
  proof -
    have acc: "account_of (accounts r2) v = account_of (accounts r1) v" using placed_account[OF st(4), of v] new v by (auto simp: image_iff)
    have "account_of (accounts r1) v = Some a \<Longrightarrow> external r2 (u_ID a) = external r1 (u_ID a)" for a
      using account_row[of "accounts r1" v a] others(2)[of a] by auto
    then show ?thesis using ih(4)[OF v] by (auto simp: provisioned_def acc split: option.splits)
  qed
  show ?case
  proof (intro exI[of _ res2] exI[of _ es2] exI[of _ r2] conjI ballI allI impI)
    show "fold (sync_user remote now t False wm) (us @ [u]) (res, (es, r)) = (res2, (es2, r2))" using ih(1) st(1) by simp
    show "sr_Failed res2 = sr_Failed res" "ok r2" using st ih(2) by simp_all
    show "provisioned (accounts r) (external r) (accounts r2) (external r2) v" if "v \<in> set (us @ [u])" for v using that p1 p2 by auto
    show "account_of (accounts r2) v = account_of (accounts r) v" if "upn_key v \<notin> upn_key ` set (us @ [u])" for v
      using that ih(5)[of v] placed_account[OF st(4), of v] by auto
    show "y \<in> set (accounts r2)" if "y \<in> set (accounts r)" "upn_key y \<notin> upn_key ` set (us @ [u])" for y
      using that ih(6)[of y] others(1)[of y] by auto
    show "u_ID y \<in> u_ID ` set (accounts r2)" "external r2 (u_ID y) = external r (u_ID y)" if y: "y \<in> set (accounts r)" for y
    proof -
      from ih(7)[OF y] obtain z where z: "z \<in> set (accounts r1)" "u_ID z = u_ID y" by auto
      from others(2)[OF z(1)] ih(7)[OF y] show "u_ID y \<in> u_ID ` set (accounts r2)" "external r2 (u_ID y) = external r (u_ID y)"
        by (simp_all only: z(2))
    qed
    show "y \<in> set (accounts r) \<or> upn_key y \<in> upn_key ` set (us @ [u])" if "y \<in> set (accounts r2)" for y
      using others(3)[OF that] ih(8)[of y] by auto
  qed
qed

lemma request_groups:
  assumes "ok (snd w)" and "rest = [] \<or> hd rest \<in> {CHR ''/'', CHR ''?''}"
  shows "same (snd w) (snd (snd (request remote now t meth (''/Groups'' @ rest) body v a w)))"
  using groups_apart[OF assms, of meth body "fst (remote t meth (''/Groups'' @ rest) body (snd w))" "snd (remote t meth (''/Groups'' @ rest) body (snd w))"]
  unfolding request_def Let_def same_def by (simp add: case_prod_beta)

lemma send_groups:
  assumes "ok (snd w)" and "rest = [] \<or> hd rest \<in> {CHR ''/'', CHR ''?''}"
  shows "same (snd w) (snd (snd (send remote now t meth (''/Groups'' @ rest) body v a w)))"
  unfolding send_def using request_groups[OF assms, of now meth "Some body" v a] by (simp add: case_prod_beta)

lemma probeGroup_frame:
  assumes "ok (snd w)"
  shows "same (snd w) (snd (snd (probeGroup remote now t v w)))"
  using request_groups[OF assms, of "''?filter='' @ QueryEscape (eq_filter ''displayName'' v)" now "''GET''" None v "''probe''"]
  unfolding probeGroup_def probe_def by (simp add: case_prod_beta)

lemma correlated_frame:
  assumes "ok r"
  shows "\<exists>ids es' r'. correlatedMembers remote now t s gid (es, r) = (ids, (es', r')) \<and> same r r'"
proof -
  have "\<exists>ids' es' r'. fold (\<lambda>m (ids, w). case probeUser remote now t (u_UserPrincipalName m) w of (i, w1) \<Rightarrow> (if i \<noteq> [] then ids @ [i] else ids, w1)) ms
      (ids, (es, r)) = (ids', (es', r')) \<and> same r r'" for ms :: "User list" and ids
    using assms
  proof (induction ms arbitrary: ids es r)
    case Nil
    then show ?case by (simp add: same_def)
  next
    case (Cons m ms)
    obtain i es1 r1 where p: "probeUser remote now t (u_UserPrincipalName m) (es, r) = (i, (es1, r1))" "same r r1"
      using probeUser_account[OF Cons.prems, of now m es] by blast
    from p(2) have "ok r1" by (simp add: same_def)
    from Cons.IH[OF this, of "if i \<noteq> [] then ids @ [i] else ids" es1] obtain ids' es' r' where
      "fold (\<lambda>m (ids, w). case probeUser remote now t (u_UserPrincipalName m) w of (i, w1) \<Rightarrow> (if i \<noteq> [] then ids @ [i] else ids, w1)) ms
         (if i \<noteq> [] then ids @ [i] else ids, (es1, r1)) = (ids', (es', r'))" "same r1 r'" by blast
    with p same_trans[OF p(2)] show ?case by (intro exI[of _ ids'] exI[of _ es'] exI[of _ r']) simp
  qed
  then show ?thesis unfolding correlatedMembers_def by blast
qed

lemma sync_groups_frame:
  assumes "ok r"
  shows "same r (snd (snd (fold (sync_group remote now t s) gs (res, (es, r)))))"
  using assms
proof (induction gs arbitrary: res es r)
  case Nil
  then show ?case by (simp add: same_def)
next
  case (Cons g gs)
  obtain ids es1 r1 where m: "correlatedMembers remote now t s (g_ID g) (es, r) = (ids, (es1, r1))" "same r r1"
    using correlated_frame[OF Cons.prems] by blast
  obtain ex es2 r2 where p: "probeGroup remote now t (g_DisplayName g) (es1, r1) = (ex, (es2, r2))" by (metis surj_pair)
  have "ok r1" using m(2) by (simp add: same_def)
  then have r2: "same r1 r2" using probeGroup_frame[of "(es1, r1)" now "g_DisplayName g"] p by auto
  then have ok2: "ok r2" by (simp add: same_def)
  obtain res3 es3 r3 where st: "sync_group remote now t s g (res, (es, r)) = (res3, (es3, r3))" by (metis surj_pair)
  have "same r2 r3"
    using st ok2 send_groups[of "(es2, r2)" "[]" now "''POST''" "outboundGroup g ids" "g_DisplayName g" "''create''"]
      send_groups[of "(es2, r2)" "CHR ''/'' # ex" now "''PATCH''" "groupMembersPatch ids" "g_DisplayName g" "''update''"]
    by (auto simp: sync_group_def m(1) p split: prod.splits if_splits)
  from same_trans[OF same_trans[OF m(2) r2] this] have s3: "same r r3" .
  then have "ok r3" by (simp add: same_def)
  from Cons.IH[OF this, of res3 es3] s3 st show ?case by (auto intro: same_trans)
qed

lemma full_cycle:
  assumes "ok r" and "pv_target p = Some t" and "mode \<noteq> ''incremental''" and "list_all nameable (users s)" and "distinct (map upn_key (users s))"
    and "length (users s) \<le> 2 ^ 30" and "Sync remote now mode s p r = (out, p', r')"
  shows "\<exists>res. out = Inr res" "\<forall>u \<in> set (users s). provisioned (accounts r) (external r) (accounts r') (external r') u"
    "\<forall>y \<in> set (accounts r). upn_key y \<notin> upn_key ` set (users s) \<longrightarrow> y \<in> set (accounts r') \<and> external r' (u_ID y) = external r (u_ID y)"
    "\<forall>y \<in> set (accounts r'). y \<in> set (accounts r) \<or> upn_key y \<in> upn_key ` set (users s)"
proof -
  let ?us = "sort_key u_ID (users s)"
  have all: "fst (ListUsers s (2 ^ 30) 0 []) = ?us" using assms(6) by (simp add: ListUsers_def user_matches_def[abs_def] sql_page_def Let_def)
  have us: "list_all nameable ?us" "distinct (map upn_key ?us)" using assms(4,5) by (auto simp: list_all_iff distinct_map)
  from sync_users_placed[OF assms(1) us, of now "pv_watermark p" "no_result mode" "pv_log p"] obtain res1 es1 r1 where
    u: "fold (sync_user remote now t False (pv_watermark p)) ?us (no_result mode, (pv_log p, r)) = (res1, (es1, r1))" "ok r1"
      "\<forall>u \<in> set (users s). provisioned (accounts r) (external r) (accounts r1) (external r1) u"
      "\<forall>y \<in> set (accounts r). upn_key y \<notin> upn_key ` set (users s) \<longrightarrow> y \<in> set (accounts r1)"
      "\<forall>y \<in> set (accounts r). u_ID y \<in> u_ID ` set (accounts r1) \<and> external r1 (u_ID y) = external r (u_ID y)"
      "\<forall>y \<in> set (accounts r1). y \<in> set (accounts r) \<or> upn_key y \<in> upn_key ` set (users s)" by auto
  obtain res2 es2 r2 where g: "fold (sync_group remote now t s) (fst (ListGroups s (2 ^ 30) 0 [])) (res1, (es1, r1)) = (res2, (es2, r2))"
    by (metis surj_pair)
  have o: "out = Inr res2" "r' = r2" using assms(7) u(1) g assms(2,3) all by (simp_all add: Sync_def syncGroups_def)
  have "same r1 r2" using sync_groups_frame[OF u(2), of now s "fst (ListGroups s (2 ^ 30) 0 [])" res1 es1] g by simp
  then have e: "accounts r' = accounts r1" "external r' = external r1" by (simp_all add: same_def o(2))
  show "\<exists>res. out = Inr res" using o(1) by blast
  show "\<forall>u \<in> set (users s). provisioned (accounts r) (external r) (accounts r') (external r') u" using u(3) by (simp add: e)
  show "\<forall>y \<in> set (accounts r). upn_key y \<notin> upn_key ` set (users s) \<longrightarrow> y \<in> set (accounts r') \<and> external r' (u_ID y) = external r (u_ID y)"
    using u(4,5) by (auto simp: e)
  show "\<forall>y \<in> set (accounts r'). y \<in> set (accounts r) \<or> upn_key y \<in> upn_key ` set (users s)" using u(6) by (simp add: e)
qed

end

end
