(* ===== verification/ScimRemote.thy ===== *)
theory ScimRemote
  imports ScimProperties ScimContract
begin

text \<open>
  Another emulator as the downstream service of the provisioning client: what one request of \<^verbatim>\<open>provision.go\<close> does
  to the directory behind \<^verbatim>\<open>resources.go\<close>. A probe finds the account a name is correlated with, a \<^verbatim>\<open>PATCH\<close> edits
  one row, a \<^verbatim>\<open>POST\<close> appends one, and the requests for groups leave the accounts alone.
\<close>

section \<open>The route table\<close>

definition scim_patterns :: "string \<Rightarrow> string list" where
  "scim_patterns prefix = map (\<lambda>(m, p). m @ '' '' @ prefix @ ''/v2'' @ p)
     [(''GET'', ''/ServiceProviderConfig''), (''GET'', ''/ResourceTypes''), (''GET'', ''/ResourceTypes/{id}''), (''GET'', ''/Schemas''),
      (''GET'', ''/Schemas/{id}''), (''GET'', ''/Users''), (''POST'', ''/Users''), (''GET'', ''/Users/{id}''), (''PUT'', ''/Users/{id}''),
      (''PATCH'', ''/Users/{id}''), (''DELETE'', ''/Users/{id}''), (''POST'', ''/Users/.search''), (''POST'', ''/Groups/.search''),
      (''POST'', ''/.search''), (''GET'', ''/Groups''), (''POST'', ''/Groups''), (''GET'', ''/Groups/{id}''), (''PUT'', ''/Groups/{id}''),
      (''PATCH'', ''/Groups/{id}''), (''DELETE'', ''/Groups/{id}'')]"

lemma scim_patterns: "map fst (ScimRoutes xe prefix) = scim_patterns prefix"
  by (simp add: ScimRoutes_def scim_patterns_def Let_def)

abbreviation lit :: "string \<Rightarrow> foldSeg" where "lit s \<equiv> \<lparr>fs_lit = s, fs_wild = False\<rparr>"
abbreviation wild :: foldSeg where "wild \<equiv> \<lparr>fs_lit = [], fs_wild = True\<rparr>"

definition scim_table :: "foldPattern list" where
  "scim_table = map (\<lambda>(m, ss). \<lparr>fp_method = m, fp_segs = lit ''v2'' # ss\<rparr>)
     [(''GET'', [lit ''ServiceProviderConfig'']), (''GET'', [lit ''ResourceTypes'']), (''GET'', [lit ''ResourceTypes'', wild]), (''GET'', [lit ''Schemas'']),
      (''GET'', [lit ''Schemas'', wild]), (''GET'', [lit ''Users'']), (''POST'', [lit ''Users'']), (''GET'', [lit ''Users'', wild]),
      (''PUT'', [lit ''Users'', wild]), (''PATCH'', [lit ''Users'', wild]), (''DELETE'', [lit ''Users'', wild]),
      (''POST'', [lit ''Users'', lit ''.search'']), (''POST'', [lit ''Groups'', lit ''.search'']), (''POST'', [lit ''.search'']),
      (''GET'', [lit ''Groups'']), (''POST'', [lit ''Groups'']), (''GET'', [lit ''Groups'', wild]), (''PUT'', [lit ''Groups'', wild]),
      (''PATCH'', [lit ''Groups'', wild]), (''DELETE'', [lit ''Groups'', wild])]"

lemma scim_table:
  assumes "prefix \<in> {[], ''/scim''}"
  shows "map (mux_pattern prefix \<circ> fst) (ScimRoutes xe prefix) = scim_table"
proof -
  have "map (mux_pattern []) (scim_patterns []) = scim_table" "map (mux_pattern ''/scim'') (scim_patterns ''/scim'') = scim_table"
    by code_simp+
  then have "map (mux_pattern prefix) (scim_patterns prefix) = scim_table" using assms by auto
  then show ?thesis by (simp add: scim_patterns[symmetric, of prefix xe])
qed

lemma find_map_nth:
  assumes "map f rs = ps" and "distinct ps" and "k < length ps"
  shows "find (\<lambda>r. f r = ps ! k) rs = Some (rs ! k)"
  using assms by (auto simp: find_Some_iff distinct_conv_nth)

lemma find_scim_route:
  assumes "prefix \<in> {[], ''/scim''}" and "mux_match scim_table meth segs = Some (scim_table ! k)" and "k < 20"
  shows "find_route (ScimRoutes xe prefix) prefix meth segs = Some (ScimRoutes xe prefix ! k)"
proof -
  have d: "distinct scim_table" "length scim_table = 20" by code_simp+
  from find_map_nth[OF scim_table[OF assms(1), of xe] d(1), of k] d(2) assms
  show ?thesis unfolding find_route_def scim_table[OF assms(1)] assms(2) option.simps by (simp add: comp_def)
qed

section \<open>Requests by path\<close>

text \<open>Identifiers that need no quoting in a URL path, as GUIDs do not.\<close>

definition plain_id :: "string \<Rightarrow> bool" where
  "plain_id i \<longleftrightarrow> i \<noteq> [] \<and> list_all (\<lambda>c. unreserved c \<and> c \<noteq> CHR ''.'') i"

lemma plain_id_facts:
  assumes "plain_id i"
  shows "i \<noteq> []" "CHR ''/'' \<notin> set i" "CHR ''?'' \<notin> set i" "CHR ''%'' \<notin> set i" "i \<noteq> ''.''" "i \<noteq> ''..''"
proof -
  have n: "\<not> unreserved (CHR ''/'')" "\<not> unreserved (CHR ''?'')" "\<not> unreserved (CHR ''%'')" by code_simp+
  from assms have all: "\<And>c. c \<in> set i \<Longrightarrow> unreserved c" "CHR ''.'' \<notin> set i" and ne: "i \<noteq> []"
    by (auto simp: plain_id_def list_all_iff)
  show "i \<noteq> []" by (rule ne)
  show "CHR ''/'' \<notin> set i" "CHR ''?'' \<notin> set i" "CHR ''%'' \<notin> set i" using all(1) n by blast+
  show "i \<noteq> ''.''" "i \<noteq> ''..''" using all(2) by force+
qed

lemma TrimPrefix_self [simp]: "TrimPrefix (p @ s) p = s"
  by (simp add: TrimPrefix_def HasPrefix_def)

lemma path_plain:
  assumes "prefix \<in> {[], ''/scim''}" and "CHR ''%'' \<notin> set q"
  shows "PathUnescape (prefix @ ''/v2'' @ q) = Some (prefix @ ''/v2'' @ q)"
  using assms by (intro unescape_plain) auto

lemma serve_route:
  assumes "prefix \<in> {[], ''/scim''}" and "CHR ''%'' \<notin> set q" and "q = CHR ''/'' # q'"
    and "[] \<notin> set (butlast (SplitChar q' (CHR ''/'')))" and "''.'' \<notin> set (SplitChar q' (CHR ''/''))" and "''..'' \<notin> set (SplitChar q' (CHR ''/''))"
    and "mux_match scim_table (cq_Method r) (''v2'' # SplitChar q' (CHR ''/'')) = Some (scim_table ! k)" and "k < 20"
  shows "scim_serve xe prefix (prefix @ ''/v2'' @ q) r s =
    Some (snd (ScimRoutes xe prefix ! k) (r\<lparr>cq_Path := prefix @ ''/v2'' @ q,
       cq_PathValue := path_values prefix (fst (ScimRoutes xe prefix ! k)) (''v2'' # SplitChar q' (CHR ''/''))\<rparr>) s)"
proof -
  have e: "prefix @ ''/v2'' @ q = (prefix @ ''/'') @ ''v2/'' @ q'" using assms(3) by simp
  have segs: "SplitChar (TrimPrefix (prefix @ ''/v2'' @ q) (prefix @ ''/'')) (CHR ''/'') = ''v2'' # SplitChar q' (CHR ''/'')"
    unfolding e TrimPrefix_self by (cases "SplitChar q' (CHR ''/'')") simp_all
  have pre: "HasPrefix (prefix @ ''/v2'' @ q) (prefix @ ''/v2/'')" using assms(3) by (simp add: HasPrefix_def)
  have ne: "SplitChar q' (CHR ''/'') \<noteq> []" by (cases q') (auto split: list.splits)
  show ?thesis
    unfolding scim_serve_def path_plain[OF assms(1,2)] option.simps Let_def segs
      find_scim_route[OF assms(1,7,8)] using assms(4-6) ne pre by (simp add: case_prod_beta)
qed

lemma scim_routes_nth:
  "snd (ScimRoutes xe prefix ! 5) = auth xe listUsers" "snd (ScimRoutes xe prefix ! 6) = auth xe (createUser xe)"
  "snd (ScimRoutes xe prefix ! 9) = auth xe (patchUser xe)" "fst (ScimRoutes xe prefix ! 9) = ''PATCH '' @ prefix @ ''/v2/Users/{id}''"
  by (simp_all add: ScimRoutes_def Let_def)

lemma auth_pass: "cq_Authorization r = ''Bearer '' @ xe_Token xe \<Longrightarrow> auth xe h r s = h r s"
  by (simp add: auth_def TrimPrefix_def HasPrefix_def)

lemma takeWhile_neq: "c \<notin> set p \<Longrightarrow> takeWhile (\<lambda>x. x \<noteq> c) (p @ c # s) = p"
  by (induction p) auto

section \<open>Correlation\<close>

lemma filterEq_eq_filter:
  "dquote \<notin> set v \<Longrightarrow> filterEq (eq_filter ''userName'' v) = Some (''username'', v)"
  "dquote \<in> set v \<Longrightarrow> filterEq (eq_filter ''userName'' v) = None"
proof -
  let ?e = "eq_filter ''userName'' v"
  have e: "?e = ''userName'' @ CHR '' '' # ''eq'' @ CHR '' '' # dquote # v @ [dquote]" by (simp add: eq_filter_def)
  have d: "\<not> re_space dquote" "re_space (CHR '' '')" "\<not> re_word (CHR '' '')" "list_all re_word ''userName''" "\<not> re_space (CHR ''e'')"
    "\<not> re_space (CHR ''u'')" "ToLower ''userName'' = ''username''" by code_simp+
  have "dropWhile re_space ?e = ?e" "takeWhile re_word ?e = ''userName''" "dropWhile re_word ?e = CHR '' '' # ''eq'' @ CHR '' '' # dquote # v @ [dquote]"
    using d by (simp_all add: e)
  note parts = this
  have run: "filterEq ?e = (case dropWhile (\<lambda>c. c \<noteq> dquote) (v @ [dquote]) of [] \<Rightarrow> None
      | _ # r5 \<Rightarrow> if list_all re_space r5 then Some (''username'', takeWhile (\<lambda>c. c \<noteq> dquote) (v @ [dquote])) else None)"
    unfolding filterEq_def Let_def parts d(7) using d(1-6) by simp
  show "filterEq ?e = Some (''username'', v)" if "dquote \<notin> set v"
  proof -
    have "dropWhile (\<lambda>c. c \<noteq> dquote) (v @ [dquote]) = [dquote]" using that by (induction v) auto
    then show ?thesis using takeWhile_neq[OF that, of "[]"] by (simp add: run)
  qed
  show "filterEq ?e = None" if "dquote \<in> set v"
  proof -
    from split_list_first[OF that] obtain a b where v: "v = a @ dquote # b" "dquote \<notin> set a" by blast
    then have "dropWhile (\<lambda>c. c \<noteq> dquote) (v @ [dquote]) = dquote # b @ [dquote]" by (simp add: dropWhile_append)
    with d(1) show ?thesis by (simp add: run)
  qed
qed

lemma json_names:
  "EqualFold ''schemas'' ''Resources'' = False" "EqualFold ''totalResults'' ''Resources'' = False" "EqualFold ''startIndex'' ''Resources'' = False"
  "EqualFold ''itemsPerPage'' ''Resources'' = False" "EqualFold ''Resources'' ''Resources'' = True"
  "EqualFold ''schemas'' ''id'' = False" "EqualFold ''id'' ''id'' = True" "EqualFold ''userName'' ''id'' = False" "EqualFold ''active'' ''id'' = False"
  "EqualFold ''meta'' ''id'' = False" "EqualFold ''displayName'' ''id'' = False" "EqualFold ''name'' ''id'' = False" "EqualFold ''emails'' ''id'' = False"
  "EqualFold ''externalId'' ''id'' = False"
  by code_simp+

lemma first_id_user:
  "first_id (Some (JObj (withTotal (listResponse (map (\<lambda>u. userResource u b (e u)) us) n) k))) = (case us of [] \<Rightarrow> [] | u # _ \<Rightarrow> u_ID u)"
proof -
  let ?rs = "map (\<lambda>u. userResource u b (e u)) us"
  have "members (withTotal (listResponse ?rs n) k) ''Resources'' = [JList (map JObj ?rs)]"
    by (simp add: withTotal_def listResponse_def members_def json_names)
  moreover have "members (userResource u b x) ''id'' = [JStr (u_ID u)]" for u x
    by (simp add: userResource_def members_def optional_member_def json_names)
  ultimately show ?thesis by (cases us) (simp_all add: first_id_def)
qed

lemma query_other: "k \<noteq> ''filter'' \<Longrightarrow> query_of (''filter='' @ QueryEscape v) k = []"
proof -
  assume "k \<noteq> ''filter''"
  let ?p = "''filter='' @ QueryEscape v"
  have "CHR ''&'' \<notin> set ?p" using QueryEscape_plain[of v] by auto
  moreover have "cut_eq ?p = (''filter'', Some (QueryEscape v))" by (simp add: cut_eq_def)
  moreover have "QueryUnescape ''filter'' = Some ''filter''" by code_simp
  ultimately show ?thesis using \<open>k \<noteq> ''filter''\<close> by (simp add: query_of_def SplitChar_none)
qed

lemma write_page_all:
  assumes "cq_Query r ''startIndex'' = []" "cq_Query r ''count'' = []" "cq_Query r ''attributes'' = []" "cq_Query r ''excludedAttributes'' = []"
  shows "\<exists>n k. write_page r rs = ScimJSON 200 (withTotal (listResponse (take 100 rs) n) k)"
proof -
  have "Atoi [] = None" by (simp add: Atoi_def)
  moreover have "TrimSpace [] = []" by code_simp
  ultimately show ?thesis using assms
    by (auto simp: write_page_def paginate_def Let_def slice_def projectionFrom_def splitAttrs_def projectAll_def i64_add_def wrap64_def)
qed

text \<open>What a filter request finds: the user of that name when the name has no double quote, otherwise the first user
  of the directory.\<close>

definition correlated :: "Store \<Rightarrow> string \<Rightarrow> User list" where
  "correlated s v =
     (if dquote \<in> set v then fst (ListUsers s allRows 0 []) else (case GetUserByUPN s v of Inr u \<Rightarrow> [u] | Inl _ \<Rightarrow> []))"

definition head_id :: "User list \<Rightarrow> string" where
  "head_id us = (case us of [] \<Rightarrow> [] | u # _ \<Rightarrow> u_ID u)"

lemma mux_samples:
  "mux_match scim_table ''GET'' [''v2'', ''Users''] = Some (scim_table ! 5)" "mux_match scim_table ''POST'' [''v2'', ''Users''] = Some (scim_table ! 6)"
  by code_simp+

lemma probe_remote:
  assumes "prefix \<in> {[], ''/scim''}" and "\<And>n. xe_Token (xe n) = tg_Token t"
  shows "\<exists>b. scim_remote xe prefix t ''GET'' (''/Users?filter='' @ QueryEscape (eq_filter ''userName'' v)) None (n, T) = (Inr (200, b), (Suc n, T))
     \<and> first_id b = head_id (correlated T v)"
proof -
  let ?f = "eq_filter ''userName'' v"
  let ?raw = "''filter='' @ QueryEscape ?f"
  let ?path = "''/Users?filter='' @ QueryEscape ?f"
  have cut: "takeWhile (\<lambda>c. c \<noteq> CHR ''?'') ?path = ''/Users''" "drop (length ''/Users'' + 1) ?path = ?raw" by simp_all
  define r where "r = \<lparr>cq_Method = ''GET'', cq_Path = [], cq_Query = query_of ?raw, cq_PathValue = (\<lambda>_. []), cq_Authorization = ''Bearer '' @ tg_Token t,
     cq_TLS = False, cq_Host = [], cq_ContentLength = -1, cq_Body = None\<rparr>"
  have s1: "SplitChar ''Users'' (CHR ''/'') = [''Users'']" by code_simp
  let ?r1 = "r\<lparr>cq_Path := prefix @ ''/v2'' @ ''/Users'', cq_PathValue := path_values prefix (fst (ScimRoutes (xe n) prefix ! 5)) (''v2'' # [''Users''])\<rparr>"
  have sv: "scim_serve (xe n) prefix (prefix @ ''/v2'' @ ''/Users'') r T = Some (listUsers ?r1 T)"
    using serve_route[OF assms(1), of "''/Users''" "''Users''" r 5 "xe n" T] mux_samples(1)
    by (simp add: s1 scim_routes_nth auth_pass r_def assms(2))
  have f: "cq_Query ?r1 ''filter'' = ?f" using query_of_single[of "''filter''" ?f] by (simp add: r_def)
  have ul: "user_list ?r1 T = Inr (correlated T v)"
    unfolding user_list_def f correlated_def using filterEq_eq_filter[of v] by (cases "dquote \<in> set v") simp_all
  let ?rs = "map (\<lambda>u. userResource u (base ?r1) (ext_of T ''User'' (u_ID u))) (correlated T v)"
  have q: "cq_Query ?r1 x = []" if "x \<noteq> ''filter''" for x
    using query_other[OF that, of ?f] by (simp only: r_def ScimRequest.select_convs ScimRequest.update_convs)
  have "\<exists>m k. write_page ?r1 ?rs = ScimJSON 200 (withTotal (listResponse (take 100 ?rs) m) k)"
    by (rule write_page_all; rule q) simp_all
  then obtain m k where wp: "write_page ?r1 ?rs = ScimJSON 200 (withTotal (listResponse (take 100 ?rs) m) k)" by blast
  have lst: "listUsers ?r1 T = (ScimJSON 200 (withTotal (listResponse (take 100 ?rs) m) k), T)"
    unfolding listUsers_def ul sum.case wp ..
  have hd: "head_id (take 100 us) = head_id us" for us by (cases us) (simp_all add: head_id_def)
  have "scim_remote xe prefix t ''GET'' ?path None (n, T)
      = (Inr (200, Some (JObj (withTotal (listResponse (take 100 ?rs) m) k))), (Suc n, T))"
    unfolding scim_remote_def Let_def cut r_def[symmetric] fst_conv snd_conv sv lst by simp
  then show ?thesis
    using hd[of "correlated T v"] first_id_user[of "base ?r1" "\<lambda>u. ext_of T ''User'' (u_ID u)" "take 100 (correlated T v)" m k]
    by (simp add: take_map head_id_def)
qed

section \<open>Writing one account\<close>

lemma patch_route:
  assumes "plain_id i"
  shows "mux_match scim_table ''PATCH'' [''v2'', ''Users'', i] = Some (scim_table ! 9)"
proof -
  have "i \<noteq> ''.search''" using assms by (auto simp: plain_id_def)
  moreover have "PathUnescape i = Some i" "PathUnescape ''v2'' = Some ''v2''" "PathUnescape ''Users'' = Some ''Users''"
    using plain_id_facts(4)[OF assms] by (simp_all add: unescape_plain)
  moreover note plain_id_facts(1)[OF assms]
  ultimately show ?thesis by (simp add: mux_match_def scim_table_def pattern_exact_def allows_def seg_exact_def narrower_def)
qed

lemma users_path_values:
  assumes "prefix \<in> {[], ''/scim''}" and "plain_id i"
  shows "path_values prefix (''PATCH '' @ prefix @ ''/v2/Users/{id}'') [''v2'', ''Users'', i] ''id'' = i"
proof -
  have "pattern_parts [] ''PATCH /v2/Users/{id}'' = [''v2'', ''Users'', ''{id}'']"
    "pattern_parts ''/scim'' ''PATCH /scim/v2/Users/{id}'' = [''v2'', ''Users'', ''{id}'']" by code_simp+
  then have "pattern_parts prefix (''PATCH '' @ prefix @ ''/v2/Users/{id}'') = [''v2'', ''Users'', ''{id}'']" using assms(1) by auto
  then show ?thesis using plain_id_facts(4)[OF assms(2)] by (simp add: path_values_def unescape_plain)
qed

lemma GetUser_Some: "GetUser s i = Inr u \<Longrightarrow> u \<in> set (users s) \<and> u_ID u = i"
  by (auto simp: GetUser_def one_row_def split: option.splits dest: sql_first_Some)

lemma UpdateUser_row:
  assumes "user_keys (users s)" and "GetUser s (u_ID u) = Inr row" and "u_UserPrincipalName u = u_UserPrincipalName row"
  shows "UpdateUser now u s = (Inr (), s\<lparr>users := sql_update (\<lambda>x. u_ID x = u_ID u) (set_user_columns now u) (users s)\<rparr>)"
proof -
  from GetUser_Some[OF assms(2)] have row: "row \<in> set (users s)" "u_ID row = u_ID u" by auto
  have upn: "x = row" if "x \<in> set (users s)" "u_UserPrincipalName x = u_UserPrincipalName u" for x
    using assms(1,3) row(1) that by (auto simp: user_keys_def distinct_map inj_on_def)
  have "sql_count (\<lambda>x. u_ID x = u_ID u) (users s) = 1"
    using sql_count_1_iff[OF sql_count_key_le[of u_ID "users s" _ "u_ID u"]] assms(1) row by (auto simp: user_keys_def)
  then show ?thesis using upn row(2) by (auto simp: UpdateUser_def requireRow_def list_ex_iff)
qed

lemma lower_names:
  "takeWhile (\<lambda>c. c \<noteq> CHR ''['') (ToLower ''active'') = ''active''" "takeWhile (\<lambda>c. c \<noteq> CHR ''['') (ToLower ''displayName'') = ''displayname''"
  by code_simp+

lemma edit_active:
  "applyUserOp \<lparr>po_Op = ''replace'', po_Path = ''active'', po_Value = Some (JBool b)\<rparr> (u, e) = (u\<lparr>u_AccountEnabled := b\<rparr>, e)"
  unfolding applyUserOp_def setUserAttr_def patchOp.select_convs Let_def fold_names prod.case lower_names by (simp add: unmarshal_bool_def)

lemma edit_display:
  "applyUserOp \<lparr>po_Op = ''replace'', po_Path = ''displayName'', po_Value = Some (JStr d)\<rparr> (u, e) = (u\<lparr>u_DisplayName := d\<rparr>, e)"
  unfolding applyUserOp_def setUserAttr_def patchOp.select_convs Let_def fold_names prod.case lower_names by (simp add: valueOrEmpty_def asString_def)


text \<open>External ids are kept by resource kind and id.\<close>

lemma find_disjoint:
  assumes "\<And>x. P x \<Longrightarrow> \<not> Q x"
  shows "sql_first Q (sql_delete P xs) = sql_first Q xs"
  using assms by (induction xs) (auto simp: sql_first_def sql_delete_def)

lemma find_update_disjoint:
  assumes "\<And>x. P x \<Longrightarrow> \<not> Q x \<and> \<not> Q (f x)"
  shows "sql_first Q (sql_update P f xs) = sql_first Q xs"
  using assms by (induction xs) (auto simp: sql_first_def sql_update_def)

lemma ext_delete: "ExternalID (DeleteExternalID ty rid s) ty2 rid2 = (if ty2 = ty \<and> rid2 = rid then [] else ExternalID s ty2 rid2)"
proof (cases "ty2 = ty \<and> rid2 = rid")
  case True
  then show ?thesis using ext_get_set[of ty rid "[]" s] by (simp add: SetExternalID_def)
next
  case False
  then have "ext_key ty rid x \<Longrightarrow> \<not> ext_key ty2 rid2 x" for x by (auto simp: ext_key_def)
  with False show ?thesis by (auto simp: DeleteExternalID_def ExternalID_def find_disjoint)
qed

lemma ext_set: "ExternalID (SetExternalID ty rid ext s) ty2 rid2 = (if ty2 = ty \<and> rid2 = rid then ext else ExternalID s ty2 rid2)"
proof (cases "ty2 = ty \<and> rid2 = rid")
  case True
  then show ?thesis by simp
next
  case False
  then have no: "ext_key ty rid x \<Longrightarrow> \<not> ext_key ty2 rid2 x \<and> \<not> ext_key ty2 rid2 (x\<lparr>sx_External := ext\<rparr>)" for x by (auto simp: ext_key_def)
  have new: "\<not> ext_key ty2 rid2 \<lparr>sx_Type = ty, sx_Resource = rid, sx_External = ext\<rparr>" using False by (auto simp: ext_key_def)
  show ?thesis
  proof (cases "ext = []")
    case True
    then show ?thesis using ext_delete[of ty rid s ty2 rid2] by (simp add: SetExternalID_def)
  next
    case ne: False
    have "sql_first (ext_key ty2 rid2) (scim_external_ids (SetExternalID ty rid ext s)) = sql_first (ext_key ty2 rid2) (scim_external_ids s)"
      using ne no new find_update_disjoint[of "ext_key ty rid" "ext_key ty2 rid2" "\<lambda>x. x\<lparr>sx_External := ext\<rparr>" "scim_external_ids s"]
      by (simp add: SetExternalID_def sql_first_append split: option.split)
    with False show ?thesis by (auto simp: ExternalID_def)
  qed
qed

lemma ext_same: "scim_external_ids s' = scim_external_ids s \<Longrightarrow> ExternalID s' = ExternalID s"
  by (intro ext) (simp add: ExternalID_def)

lemma ext_users: "ExternalID (s\<lparr>users := us\<rparr>) = ExternalID s"
  by (rule ext_same) simp

definition edited :: "User \<Rightarrow> User \<Rightarrow> User" where
  "edited u row = (if u_AccountEnabled u then row\<lparr>u_AccountEnabled := True, u_DisplayName := u_DisplayName u\<rparr> else row\<lparr>u_AccountEnabled := False\<rparr>)"

lemma patchUser_edit:
  assumes "user_keys (users T)" and "GetUser T (cq_PathValue r ''id'') = Inr row" and "cq_Body r = Some (edit_doc u)"
  shows "\<exists>sh T'. patchUser x r T = (ScimJSON 200 sh, T') \<and> tenants T' = tenants T \<and> ExternalID T' ''User'' = ExternalID T ''User''
     \<and> users T' = sql_update (\<lambda>y. u_ID y = u_ID row) (set_user_columns (xe_now x) (edited u row)) (users T)"
proof -
  let ?ext = "ExternalID T ''User'' (u_ID row)"
  have "\<exists>ops. decodePatch r = Inr ops \<and> fold applyUserOp ops (row, ?ext) = (edited u row, ?ext)"
  proof (cases "u_AccountEnabled u")
    case True
    with decode_patch_doc[of r "[(''active'', JBool True), (''displayName'', JStr (u_DisplayName u))]"] assms(3) show ?thesis
      by (simp add: edit_doc_def updatePatch_def edited_def edit_active edit_display)
  next
    case False
    with decode_patch_doc[of r "[(''active'', JBool False)]"] assms(3) show ?thesis
      by (simp add: edit_doc_def replaceActive_def edited_def edit_active)
  qed
  then obtain ops where ops: "decodePatch r = Inr ops" "fold applyUserOp ops (row, ?ext) = (edited u row, ?ext)" by blast
  have e: "u_ID (edited u row) = u_ID row" "u_UserPrincipalName (edited u row) = u_UserPrincipalName row" by (simp_all add: edited_def)
  have "GetUser T (u_ID (edited u row)) = Inr row" using assms(2) GetUser_Some[OF assms(2)] e by simp
  from UpdateUser_row[OF assms(1) this e(2), of "xe_now x"] show ?thesis
    by (auto simp: patchUser_def assms(2) ops save_user_def writeResource_def e ext_set fun_eq_iff ext_users)
qed

lemma patch_remote:
  assumes "prefix \<in> {[], ''/scim''}" and "\<And>n. xe_Token (xe n) = tg_Token t" and "user_keys (users T)" and "plain_id i" and "GetUser T i = Inr row"
  shows "\<exists>b T'. scim_remote xe prefix t ''PATCH'' (''/Users/'' @ i) (Some (edit_doc u)) (n, T) = (Inr (200, b), (Suc n, T')) \<and> tenants T' = tenants T
     \<and> ExternalID T' ''User'' = ExternalID T ''User'' \<and> users T' = sql_update (\<lambda>y. u_ID y = i) (set_user_columns (xe_now (xe n)) (edited u row)) (users T)"
proof -
  let ?path = "''/Users/'' @ i"
  have tw: "takeWhile (\<lambda>c. c \<noteq> CHR ''?'') ?path = ?path" "drop (length ?path + 1) ?path = []"
    using plain_id_facts(3)[OF assms(4)] by (auto simp: takeWhile_eq_all_conv)
  define r where "r = \<lparr>cq_Method = ''PATCH'', cq_Path = [], cq_Query = query_of [], cq_PathValue = (\<lambda>_. []), cq_Authorization = ''Bearer '' @ tg_Token t,
     cq_TLS = False, cq_Host = [], cq_ContentLength = -1, cq_Body = Some (edit_doc u)\<rparr>"
  have segs: "SplitChar (''Users/'' @ i) (CHR ''/'') = [''Users'', i]" using plain_id_facts(2)[OF assms(4)] by (simp add: SplitChar_none)
  let ?r1 = "r\<lparr>cq_Path := prefix @ ''/v2'' @ ?path, cq_PathValue := path_values prefix (fst (ScimRoutes (xe n) prefix ! 9)) (''v2'' # [''Users'', i])\<rparr>"
  have "scim_serve (xe n) prefix (prefix @ ''/v2'' @ ?path) r T = Some (snd (ScimRoutes (xe n) prefix ! 9) ?r1 T)"
    unfolding segs[symmetric] by (rule serve_route[OF assms(1)])
      (use plain_id_facts[OF assms(4)] patch_route[OF assms(4)] segs in \<open>simp_all add: r_def\<close>)
  then have sv: "scim_serve (xe n) prefix (prefix @ ''/v2'' @ ?path) r T = Some (patchUser (xe n) ?r1 T)"
    unfolding scim_routes_nth(3) by (simp add: auth_pass r_def assms(2))
  have "cq_PathValue ?r1 ''id'' = i" using users_path_values[OF assms(1,4)] by (simp add: scim_routes_nth(4))
  then have "GetUser T (cq_PathValue ?r1 ''id'') = Inr row" "cq_Body ?r1 = Some (edit_doc u)" using assms(5) by (simp_all add: r_def)
  from patchUser_edit[OF assms(3) this, of "xe n"] obtain sh T' where p: "patchUser (xe n) ?r1 T = (ScimJSON 200 sh, T')" "tenants T' = tenants T"
    "ExternalID T' ''User'' = ExternalID T ''User''" "users T' = sql_update (\<lambda>y. u_ID y = i) (set_user_columns (xe_now (xe n)) (edited u row)) (users T)"
    using GetUser_Some[OF assms(5)] by auto
  have "scim_remote xe prefix t ''PATCH'' ?path (Some (edit_doc u)) (n, T) = (Inr (200, Some (JObj sh)), (Suc n, T'))"
    unfolding scim_remote_def Let_def tw r_def[symmetric] fst_conv snd_conv sv p(1) by simp
  with p(2-4) show ?thesis by blast
qed


section \<open>Creating one account\<close>

definition wire_names :: "string list" where
  "wire_names = [''schemas'', ''externalId'', ''userName'', ''displayName'', ''active'', ''name'', ''emails'', ''password'', ''givenName'', ''familyName'',
     ''value'', ''type'', ''primary'']"

lemma wire_names: "a \<in> set wire_names \<Longrightarrow> b \<in> set wire_names \<Longrightarrow> EqualFold a b = (a = b)"
proof -
  have "list_all (\<lambda>a. list_all (\<lambda>b. EqualFold a b = (a = b)) wire_names) wire_names" by code_simp
  then show "a \<in> set wire_names \<Longrightarrow> b \<in> set wire_names \<Longrightarrow> EqualFold a b = (a = b)" by (auto simp: list_all_iff)
qed

lemma dec_outbound:
  "\<exists>ms. outboundUser u = JObj ms \<and> dec_user_body ms = Some \<lparr>yb_UserName = u_UserPrincipalName u, yb_ExternalID = u_ID u, yb_DisplayName = u_DisplayName u,
     yb_GivenName = u_GivenName u, yb_FamilyName = u_Surname u, yb_Emails = (if u_Mail u = [] then [] else [(u_Mail u, True)]),
     yb_Active = Some (u_AccountEnabled u), yb_Password = []\<rparr>"
  by (simp add: outboundUser_def dec_user_body_def members_def wire_names wire_names_def dec_str_def as_object_def list_field_def or_else_def dec_list_def
      dec_email_def dec_bool_def)

definition new_row :: "ScimEnv \<Rightarrow> User \<Rightarrow> User" where
  "new_row x u = norm_user \<lparr>u_ID = xe_guid x, u_TenantID = xe_TenantID x, u_UserPrincipalName = u_UserPrincipalName u, u_DisplayName = u_DisplayName u,
     u_GivenName = u_GivenName u, u_Surname = u_Surname u, u_Mail = u_Mail u, u_PasswordHash = [], u_AccountEnabled = u_AccountEnabled u, u_UserType = [],
     u_ExternalUserState = [], u_InviteRedirectURL = [], u_CreatedAt = xe_now x, u_UpdatedAt = 0\<rparr>"

lemma createUser_outbound:
  assumes "u_UserPrincipalName u \<noteq> []" and "cq_Body r = Some (outboundUser u)" and "\<not> has_user T (xe_guid x)" and "has_tenant T (xe_TenantID x)"
    and "\<forall>y \<in> set (users T). u_UserPrincipalName y \<noteq> u_UserPrincipalName u"
  shows "\<exists>sh T'. createUser x r T = (ScimJSON 201 sh, T') \<and> tenants T' = tenants T \<and> users T' = users T @ [new_row x u]
     \<and> ExternalID T' ''User'' = (\<lambda>i. if i = xe_guid x \<and> u_ID u \<noteq> [] then u_ID u else ExternalID T ''User'' i)"
proof -
  from dec_outbound[of u] obtain ms where ms: "outboundUser u = JObj ms" and
    b: "dec_user_body ms = Some \<lparr>yb_UserName = u_UserPrincipalName u, yb_ExternalID = u_ID u, yb_DisplayName = u_DisplayName u,
     yb_GivenName = u_GivenName u, yb_FamilyName = u_Surname u, yb_Emails = (if u_Mail u = [] then [] else [(u_Mail u, True)]),
     yb_Active = Some (u_AccountEnabled u), yb_Password = []\<rparr>" by blast
  let ?b = "the (dec_user_body ms)"
  have d: "decode dec_user_body r = Inr ?b" using assms(2) b by (simp add: decode_def ms as_object_def)
  have no: "\<not> list_ex (\<lambda>y. u_UserPrincipalName y = u_UserPrincipalName u) (users T)" using assms(5) by (auto simp: list_ex_iff)
  let ?u = "(applyTo ?b \<lparr>u_ID = xe_guid x, u_TenantID = xe_TenantID x, u_UserPrincipalName = [], u_DisplayName = [],
                      u_GivenName = [], u_Surname = [], u_Mail = [], u_PasswordHash = [], u_AccountEnabled = True, u_UserType = [],
                      u_ExternalUserState = [], u_InviteRedirectURL = [], u_CreatedAt = xe_now x, u_UpdatedAt = 0\<rparr>)\<lparr>u_PasswordHash := []\<rparr>"
  have "norm_user ?u = new_row x u" using assms(1) by (simp add: b new_row_def applyTo_def primaryEmail_def or_else_def)
  moreover have "CreateUser ?u T = (Inr (), T\<lparr>users := users T @ [norm_user ?u]\<rparr>)"
    using assms(1,3,4) no by (simp add: CreateUser_def applyTo_def b)
  moreover have "u_ID ?u = xe_guid x" by (simp add: applyTo_def)
  ultimately show ?thesis using assms(1)
    by (simp add: createUser_def d Let_def b writeResource_def) (auto simp: ext_set fun_eq_iff ext_users)
qed

lemma post_remote:
  assumes "prefix \<in> {[], ''/scim''}" and "\<And>n. xe_Token (xe n) = tg_Token t"
    and "u_UserPrincipalName u \<noteq> []" and "\<not> has_user T (xe_guid (xe n))" and "has_tenant T (xe_TenantID (xe n))"
    and "\<forall>y \<in> set (users T). u_UserPrincipalName y \<noteq> u_UserPrincipalName u"
  shows "\<exists>b T'. scim_remote xe prefix t ''POST'' ''/Users'' (Some (outboundUser u)) (n, T) = (Inr (201, b), (Suc n, T')) \<and> tenants T' = tenants T
     \<and> users T' = users T @ [new_row (xe n) u]
     \<and> ExternalID T' ''User'' = (\<lambda>i. if i = xe_guid (xe n) \<and> u_ID u \<noteq> [] then u_ID u else ExternalID T ''User'' i)"
proof -
  have cut: "takeWhile (\<lambda>c. c \<noteq> CHR ''?'') ''/Users'' = ''/Users''" "drop (length ''/Users'' + 1) ''/Users'' = []" by simp_all
  define r where "r = \<lparr>cq_Method = ''POST'', cq_Path = [], cq_Query = query_of [], cq_PathValue = (\<lambda>_. []), cq_Authorization = ''Bearer '' @ tg_Token t,
     cq_TLS = False, cq_Host = [], cq_ContentLength = -1, cq_Body = Some (outboundUser u)\<rparr>"
  have s1: "SplitChar ''Users'' (CHR ''/'') = [''Users'']" by code_simp
  let ?r1 = "r\<lparr>cq_Path := prefix @ ''/v2'' @ ''/Users'', cq_PathValue := path_values prefix (fst (ScimRoutes (xe n) prefix ! 6)) (''v2'' # [''Users''])\<rparr>"
  have sv: "scim_serve (xe n) prefix (prefix @ ''/v2'' @ ''/Users'') r T = Some (createUser (xe n) ?r1 T)"
    using serve_route[OF assms(1), of "''/Users''" "''Users''" r 6 "xe n" T] mux_samples(2)
    by (simp add: s1 scim_routes_nth auth_pass r_def assms(2))
  have "cq_Body ?r1 = Some (outboundUser u)" by (simp add: r_def)
  from createUser_outbound[OF assms(3) this assms(4-6)] obtain sh T' where p: "createUser (xe n) ?r1 T = (ScimJSON 201 sh, T')"
    "tenants T' = tenants T" "users T' = users T @ [new_row (xe n) u]"
    "ExternalID T' ''User'' = (\<lambda>i. if i = xe_guid (xe n) \<and> u_ID u \<noteq> [] then u_ID u else ExternalID T ''User'' i)" by blast
  have "scim_remote xe prefix t ''POST'' ''/Users'' (Some (outboundUser u)) (n, T) = (Inr (201, Some (JObj sh)), (Suc n, T'))"
    unfolding scim_remote_def Let_def cut r_def[symmetric] fst_conv snd_conv sv p(1) by simp
  with p(2-4) show ?thesis by blast
qed

section \<open>Groups leave accounts alone\<close>

definition same_accounts :: "Store \<Rightarrow> Store \<Rightarrow> bool" where
  "same_accounts s s' \<longleftrightarrow> users s' = users s \<and> tenants s' = tenants s \<and> ExternalID s' ''User'' = ExternalID s ''User''"

lemma same_refl [simp]: "same_accounts s s"
  by (simp add: same_accounts_def)

lemma same_trans_accounts: "same_accounts s s1 \<Longrightarrow> same_accounts s1 s2 \<Longrightarrow> same_accounts s s2"
  by (simp add: same_accounts_def)

lemma same_after:
  assumes "same_accounts s s1"
  shows "same_accounts s1 s2 \<Longrightarrow> same_accounts s s2" "same_accounts s (SetExternalID ''Group'' i e s1)" "same_accounts s (DeleteExternalID ''Group'' i s1)"
    "same_accounts s (add_members gid is s1)" "same_accounts s (remove_members gid is s1)" "same_accounts s (reconcile_members gid is s1)"
    "CreateGroup g s1 = (y, s2) \<Longrightarrow> same_accounts s s2" "UpdateGroup g s1 = (y, s2) \<Longrightarrow> same_accounts s s2"
    "DeleteGroup i s1 = (y, s2) \<Longrightarrow> same_accounts s s2" "same_accounts s (snd (RemoveGroupMember gid i s1))"
proof -
  show tr: "same_accounts s1 s2 \<Longrightarrow> same_accounts s s2" for s2 using assms by (simp add: same_accounts_def)
  have tabs: "same_accounts t t'" if "users t' = users t" "tenants t' = tenants t" "scim_external_ids t' = scim_external_ids t" for t t'
    using that ext_same[OF that(3)] by (simp add: same_accounts_def)
  have tables: "same_accounts t (add_members gid js t)" "same_accounts t (remove_members gid js t)" for t js by (rule tabs; simp add: remove_members_store)+
  show "same_accounts s (SetExternalID ''Group'' i e s1)" "same_accounts s (DeleteExternalID ''Group'' i s1)"
    by (rule tr; simp add: same_accounts_def ext_set ext_delete fun_eq_iff; simp add: DeleteExternalID_def)+
  show "same_accounts s (add_members gid is s1)" "same_accounts s (remove_members gid is s1)" by (rule tr, rule tables)+
  show "same_accounts s (reconcile_members gid is s1)" unfolding reconcile_members_def Let_def
    by (rule tr, rule same_trans_accounts[OF tables(2) tables(1)])
  show "CreateGroup g s1 = (y, s2) \<Longrightarrow> same_accounts s s2" "UpdateGroup g s1 = (y, s2) \<Longrightarrow> same_accounts s s2"
    by (rule tr, rule tabs; auto simp: CreateGroup_def UpdateGroup_def split: if_splits)+
  show "DeleteGroup i s1 = (y, s2) \<Longrightarrow> same_accounts s s2" by (rule tr, rule tabs; auto simp: DeleteGroup_def del_groups_def Let_def split: prod.splits sum.splits)
  show "same_accounts s (snd (RemoveGroupMember gid i s1))" by (rule tr, rule tabs; auto simp: RemoveGroupMember_def split: prod.splits sum.splits if_splits)
qed

lemma group_handlers_frame:
  "same_accounts s (snd (listGroups r s))" "same_accounts s (snd (getGroup r s))"
  "same_accounts s (snd (createGroup x r s))" "same_accounts s (snd (replaceGroup r s))"
  "same_accounts s (snd (patchGroup r s))" "same_accounts s (snd (deleteGroup r s))" "same_accounts s (snd (searchGroups r s))"
proof -
  note after = same_after[OF same_refl] same_after
  show "same_accounts s (snd (listGroups r s))" "same_accounts s (snd (searchGroups r s))" "same_accounts s (snd (getGroup r s))"
    by (simp_all add: listGroups_def searchGroups_def search_def getGroup_def split: sum.splits)
  have ops: "same_accounts t (snd (snd (fold applyGroupOp ops (g, e, t))))" for ops g e t
  proof (induction ops arbitrary: g e t)
    case (Cons p ops)
    have "same_accounts t (snd (snd (applyGroupOp p (g, e, t))))"
      by (simp add: applyGroupOp_def Let_def clear_members_def same_after(4,5,10)[OF same_refl] split: option.split)
    with Cons show ?case by (cases "applyGroupOp p (g, e, t)") (auto intro: same_after(1))
  qed simp
  show "same_accounts s (snd (createGroup x r s))"
    unfolding createGroup_def Let_def by (auto split: sum.splits prod.splits intro!: same_after(2,4) dest: same_after(7)[OF same_refl])
  show "same_accounts s (snd (replaceGroup r s))"
    unfolding replaceGroup_def Let_def by (auto split: sum.splits prod.splits intro!: same_after(2,6) dest: same_after(8)[OF same_refl])
  show "same_accounts s (snd (patchGroup r s))"
  proof -
    have k: "same_accounts s s2" if "fold applyGroupOp l (g, e, s) = (g1, e1, s1)" "UpdateGroup g1 s1 = (x, s2)" for l g e g1 e1 s1 x s2
      using ops[where t = s and ops = l and g = g and e = e] same_after(8)[OF _ that(2), of s] that(1) by simp
    show ?thesis
      unfolding patchGroup_def Let_def by (auto split: sum.splits prod.splits intro!: same_after(2) dest: k)
  qed
  show "same_accounts s (snd (deleteGroup r s))"
    unfolding deleteGroup_def by (auto split: sum.splits prod.splits intro!: same_after(3) dest: same_after(9)[OF same_refl])
qed

lemma group_routes_frame:
  assumes "(pat, auth xe f) \<in> set (ScimRoutes xe prefix)" and "prefix \<in> {[], ''/scim''}"
    and "pattern_exact meth (''v2'' # ''Groups'' # ss) (mux_pattern prefix pat)"
  shows "same_accounts s (snd (auth xe f r s))"
proof -
  let ?ok = "\<lambda>(p, h). fs_lit (fp_segs p ! 1) = ''Groups'' \<and> length (fp_segs p) \<ge> 2 \<longrightarrow> same_accounts s (snd (h r s))"
  have len: "length (ScimRoutes xe prefix) = 20" by (simp add: ScimRoutes_def Let_def)
  have "list_all ?ok (zip scim_table (map snd (ScimRoutes xe prefix)))"
    by (simp add: scim_table_def ScimRoutes_def Let_def auth_def group_handlers_frame)
  moreover have "zip scim_table (map snd (ScimRoutes xe prefix)) = map (\<lambda>(p, h). (mux_pattern prefix p, h)) (ScimRoutes xe prefix)"
    unfolding scim_table[OF assms(2), of xe, symmetric] by (simp add: zip_map_map zip_same_conv_map comp_def case_prod_beta)
  ultimately have ok: "?ok (mux_pattern prefix pat, auth xe f)" using assms(1) by (auto simp: list_all_iff)
  have "mux_pattern prefix pat \<in> set scim_table" using assms(1) unfolding scim_table[OF assms(2), of xe, symmetric] by force
  moreover have "list_all (\<lambda>p. length (fp_segs p) \<ge> 2 \<and> \<not> fs_wild (fp_segs p ! 1)) scim_table" by code_simp
  ultimately have p: "length (fp_segs (mux_pattern prefix pat)) \<ge> 2" "\<not> fs_wild (fp_segs (mux_pattern prefix pat) ! 1)" by (auto simp: list_all_iff)
  then have "seg_exact (fp_segs (mux_pattern prefix pat) ! 1) ''Groups''"
    using assms(3) by (auto simp: pattern_exact_def list_all2_conv_all_nth dest!: spec[of _ "1::nat"])
  moreover have "PathUnescape ''Groups'' = Some ''Groups''" by (simp add: unescape_plain)
  ultimately show ?thesis using ok p by (simp add: seg_exact_def)
qed

lemma remote_groups_frame:
  assumes "prefix \<in> {[], ''/scim''}" and "path = ''/Groups'' @ rest" and "rest = [] \<or> hd rest \<in> {CHR ''/'', CHR ''?''}"
  shows "same_accounts (snd st) (snd (snd (scim_remote xe prefix t meth path body st)))"
proof -
  let ?p = "takeWhile (\<lambda>c. c \<noteq> CHR ''?'') path" and ?rest = "takeWhile (\<lambda>c. c \<noteq> CHR ''?'') rest"
  have p: "?p = ''/Groups'' @ ?rest" by (simp add: assms(2))
  have e: "prefix @ ''/v2'' @ ?p = (prefix @ ''/'') @ ''v2/Groups'' @ ?rest" by (simp add: p)
  have segs: "\<exists>ss. SplitChar (TrimPrefix (prefix @ ''/v2'' @ ?p) (prefix @ ''/'')) (CHR ''/'') = ''v2'' # ''Groups'' # ss"
    unfolding e TrimPrefix_self using assms(3) by (cases rest; cases "SplitChar (tl ?rest) (CHR ''/'')") auto
  have fb: "same_accounts s (snd (fallback x r s))" for x r s by (simp add: fallback_def auth_def)
  have "same_accounts s (snd res)" if "scim_serve x prefix (prefix @ ''/v2'' @ ?p) r s = Some res" for x r s res
    using that
  proof (cases rule: scim_serve_SomeE)
    case (route pat f ss pth)
    then show ?thesis using group_routes_frame[OF route(1) assms(1)] segs by auto
  qed (simp add: fb)
  then show ?thesis unfolding scim_remote_def Let_def
    by (auto simp del: append.simps append_assoc split: option.splits prod.splits scim_reply.splits) 
qed

end
