(* ===== verification/ScimConverge.thy ===== *)
theory ScimConverge
  imports ScimRemote
begin

text \<open>
  The composition of the provisioning client and the SCIM provider: the service provider of another emulator keeps
  the contract \<open>scim_target\<close>, so a full cycle converges on it; and a name that cannot be written in a filter reaches
  the wrong account.
\<close>

section \<open>The provider keeps the contract\<close>

text \<open>A target whose identifiers need no quoting in a path, and requests with fresh ones.\<close>

definition target_ok :: "(nat \<Rightarrow> ScimEnv) \<Rightarrow> nat \<Rightarrow> Store \<Rightarrow> bool" where
  "target_ok xe n T \<longleftrightarrow> user_keys (users T) \<and> list_all (\<lambda>y. plain_id (u_ID y)) (users T)
     \<and> (\<forall>k. plain_id (xe_guid (xe k)) \<and> has_tenant T (xe_TenantID (xe k)))
     \<and> (\<forall>k \<ge> n. xe_guid (xe k) \<notin> u_ID ` set (users T)) \<and> inj (\<lambda>k. xe_guid (xe k))"


lemma edited_columns [simp]:
  "u_UserPrincipalName (set_user_columns now (edited u row) y) = u_UserPrincipalName row" "u_ID (set_user_columns now (edited u row) y) = u_ID y"
  "u_AccountEnabled (set_user_columns now (edited u row) y) = u_AccountEnabled u"
  by (simp_all add: set_user_columns_def edited_def)


lemma new_row_columns [simp]:
  "u_UserPrincipalName (new_row x u) = u_UserPrincipalName u" "u_ID (new_row x u) = xe_guid x" "created u (new_row x u)"
  by (simp_all add: new_row_def norm_user_def created_def)






lemma row_by_id: "user_keys (users T) \<Longrightarrow> row \<in> set (users T) \<Longrightarrow> GetUser T (u_ID row) = Inr row"
  using sql_first_key[of u_ID "users T" row] by (simp add: GetUser_def one_row_def user_keys_def)






section \<open>Full cycles\<close>



text \<open>
  Offboarding a user whose name contains a double quote disables somebody else: the correlation filter no
  longer parses, the target answers with its whole directory, and its first account is the one deprovisioned.
\<close>

theorem provision_quote_misdirected:
  assumes "prefix \<in> {[], ''/scim''}" and "\<And>k. xe_Token (xe k) = tg_Token t" and "target_ok xe n T"
    and "dquote \<in> set (u_UserPrincipalName u)" and "\<not> u_AccountEnabled u"
    and "sort_key u_ID (users T) = v # vs" and "length (users T) \<le> 2 ^ 30"
    and "sync_user (scim_remote xe prefix) now t False wm u (res, (es, (n, T))) = (res', (es', (m, T')))"
  shows "sr_Deprovisioned res' = sr_Deprovisioned res + 1 \<and> sr_Failed res' = sr_Failed res
     \<and> (\<exists>r \<in> set (users T'). u_ID r = u_ID v \<and> u_UserPrincipalName r = u_UserPrincipalName v \<and> \<not> u_AccountEnabled r)"
proof -
  let ?R = "scim_remote xe prefix"
  have v: "v \<in> set (users T)" using assms(6) by (metis list.set_intros(1) set_sort)
  then have pl: "plain_id (u_ID v)" and k: "user_keys (users T)" using assms(3) by (auto simp: target_ok_def list_all_iff)
  note g = row_by_id[OF k v]
  have "head_id (correlated T (u_UserPrincipalName u)) = u_ID v"
    using assms(4,6,7) by (simp add: correlated_def allRows_def head_id_def ListUsers_def user_matches_def[abs_def] sql_page_def Let_def)
  then obtain es1 where pr: "probeUser ?R now t (u_UserPrincipalName u) (es, (n, T)) = (u_ID v, (es1, (Suc n, T)))"
    using probe_remote[where xe = xe and t = t and n = n and T = T and v = "u_UserPrincipalName u", OF assms(1,2)]
    by (auto simp: probeUser_def probe_def request_def Let_def)
  obtain b T1 where pa: "?R t ''PATCH'' (''/Users/'' @ u_ID v) (Some (edit_doc u)) (Suc n, T) = (Inr (200, b), (Suc (Suc n), T1))"
    "users T1 = sql_update (\<lambda>y. u_ID y = u_ID v) (set_user_columns (xe_now (xe (Suc n))) (edited u v)) (users T)"
    using patch_remote[where xe = xe and t = t, OF assms(1,2) k pl g] by blast
  have "T' = T1 \<and> res' = res\<lparr>sr_Deprovisioned := sr_Deprovisioned res + 1\<rparr>"
    using assms(5,8) pa(1) plain_id_facts(1)[OF pl]
    by (simp add: sync_user_def pr send_tally_def send_def request_def edit_doc_def tally_def okStatus_def Let_def)
  moreover have "set_user_columns (xe_now (xe (Suc n))) (edited u v) v \<in> set (users T1)"
    unfolding pa(2) set_sql_update using v by (intro image_eqI[of _ _ v]) simp_all
  ultimately show ?thesis using assms(5) by (auto intro!: bexI[of _ "set_user_columns (xe_now (xe (Suc n))) (edited u v) v"])
qed


section \<open>Instances\<close>

definition push_env :: "nat \<Rightarrow> ScimEnv" where
  "push_env k = \<lparr>xe_TenantID = ''t'', xe_Token = ''tok'', xe_now = 20, xe_guid = replicate (Suc k) (CHR ''g''), xe_hash = (\<lambda>_. None)\<rparr>"

definition push_target :: Target where
  "push_target = \<lparr>tg_Endpoint = ''http://b/scim/v2'', tg_Token = ''tok''\<rparr>"


definition quoted_user :: User where
  "quoted_user = user0\<lparr>u_UserPrincipalName := [CHR ''x'', dquote], u_AccountEnabled := False\<rparr>"

lemma push_facts:
  "xe_Token (push_env k) = tg_Token push_target" "target_ok push_env 0 store0"
proof -
  show "xe_Token (push_env k) = tg_Token push_target" by (simp add: push_env_def push_target_def)
  have u: "unreserved (CHR ''g'')" by code_simp
  have "plain_id (u_ID user0)" "u_ID user0 = ''u''" "has_tenant store0 ''t''" "users store0 = [user0]" by code_simp+
  moreover have "plain_id (xe_guid (push_env k))" for k using u by (simp add: push_env_def plain_id_def list_all_iff)
  moreover have "xe_guid (push_env k) \<noteq> ''u''" for k by (cases k) (simp_all add: push_env_def)
  moreover have "inj (\<lambda>k. xe_guid (push_env k))"
  proof (rule injI)
    fix j k assume "xe_guid (push_env j) = xe_guid (push_env k)"
    then have "length (xe_guid (push_env j)) = length (xe_guid (push_env k))" by simp
    then show "j = k" by (simp add: push_env_def)
  qed
  moreover have "xe_TenantID (push_env k) = ''t''" for k by (simp add: push_env_def)
  ultimately show "target_ok push_env 0 store0" by (simp add: target_ok_def user_keys_def)
qed


theorem provision_quote_misdirected_witness:
  "\<exists>res' es' m T'. sync_user (scim_remote push_env []) 10 push_target False 0 quoted_user (no_result [], ([], (0, store0))) = (res', (es', (m, T')))
     \<and> sr_Deprovisioned res' = 1 \<and> (\<exists>r \<in> set (users T'). u_ID r = ''u'' \<and> u_UserPrincipalName r = ''a@t'' \<and> \<not> u_AccountEnabled r)"
proof -
  obtain res' es' m T' where run:
    "sync_user (scim_remote push_env []) 10 push_target False 0 quoted_user (no_result [], ([], (0, store0))) = (res', (es', (m, T')))"
    by (metis surj_pair)
  have q: "dquote \<in> set (u_UserPrincipalName quoted_user)" "\<not> u_AccountEnabled quoted_user" by (simp_all add: quoted_user_def)
  have v: "sort_key u_ID (users store0) = user0 # []" "length (users store0) \<le> 2 ^ 30" "u_ID user0 = ''u''" "u_UserPrincipalName user0 = ''a@t''"
    by (simp_all add: sample_defs)
  from provision_quote_misdirected[OF _ push_facts q v(1,2) run] run v(3,4) show ?thesis by (auto simp: no_result_def)
qed

end
