(* ===== verification/CustomExt.thy ===== *)
theory CustomExt
  imports ScimMapping Minting
begin

text \<open>
  \<^verbatim>\<open>internal/customext\<close>: custom claims providers. Per application a webhook is registered; while a delegated token
  is minted it is called and the claims it returns are merged, those on the allowlist only. \<open>claims_enricher\<close> is
  the function \<^verbatim>\<open>server.New\<close> installs as the token service's \<^verbatim>\<open>ClaimsEnricher\<close>.
\<close>

section \<open>Registrations\<close>

record ExtConfig =
  xc_Endpoint :: string
  xc_Claims :: "string list"
  xc_TimeoutMs :: int

type_synonym ExtStore = "(string \<times> ExtConfig) list"

definition NewStore :: ExtStore where
  "NewStore = []"

definition ExtStore_Get :: "ExtStore \<Rightarrow> string \<Rightarrow> ExtConfig option" where
  "ExtStore_Get s appID = map_of s appID"

definition ExtStore_Set :: "string \<Rightarrow> ExtConfig \<Rightarrow> ExtStore \<Rightarrow> ExtStore" where
  "ExtStore_Set appID c s = AList.update appID c s"

definition ExtStore_Delete :: "string \<Rightarrow> ExtStore \<Rightarrow> ExtStore" where
  "ExtStore_Delete appID s = AList.delete appID s"

definition ExtStore_All :: "ExtStore \<Rightarrow> (string \<times> ExtConfig) list" where
  "ExtStore_All s = s"

section \<open>The callout\<close>

text \<open>The webhook: endpoint, timeout in nanoseconds, the bearer token sent along and the body; it answers with a
  transport error, or the status and the first JSON value of its body.\<close>

type_synonym callout = "string \<Rightarrow> int \<Rightarrow> string option \<Rightarrow> json \<Rightarrow> (string + int \<times> json option)"

definition DefaultTimeout :: int where
  "DefaultTimeout = 2000000000"

text \<open>A JSON value as a claim of the token.\<close>

definition claim_of_json :: "json \<Rightarrow> cval" where
  "claim_of_json v =
     (case v of
        JStr s \<Rightarrow> CStr s
      | JInt n \<Rightarrow> CInt n
      | JList vs \<Rightarrow> (case those (map dec_str vs) of Some ss \<Rightarrow> CStrs ss | None \<Rightarrow> CVal v)
      | _ \<Rightarrow> CVal v)"

definition omitempty :: "string \<Rightarrow> string \<Rightarrow> (string \<times> json) list" where
  "omitempty k v = (if v = [] then [] else [(k, JStr v)])"

definition calloutBody :: "string \<Rightarrow> (nat \<Rightarrow> string) \<Rightarrow> App \<Rightarrow> User \<Rightarrow> json" where
  "calloutBody tenantID guid app user = JObj
     [(''type'', JStr ''microsoft.graph.authenticationEvent.tokenIssuanceStart''),
      (''source'', JStr (''/tenants/'' @ tenantID @ ''/applications/'' @ a_ID app)),
      (''data'', JObj
        [(''@odata.type'', JStr ''microsoft.graph.onTokenIssuanceStartCalloutData''), (''tenantId'', JStr tenantID),
         (''authenticationEventListenerId'', JStr (guid 0)), (''customAuthenticationExtensionId'', JStr (guid 1)),
         (''authenticationContext'', JObj
           [(''correlationId'', JStr (guid 2)), (''protocol'', JStr ''OAUTH2.0''),
            (''clientServicePrincipal'', JObj [(''appId'', JStr (a_ID app)), (''displayName'', JStr (a_DisplayName app))]),
            (''user'', JObj ([(''id'', JStr (u_ID user)), (''displayName'', JStr (u_DisplayName user))]
              @ omitempty ''givenName'' (u_GivenName user) @ omitempty ''surname'' (u_Surname user) @ omitempty ''mail'' (u_Mail user)
              @ [(''userPrincipalName'', JStr (u_UserPrincipalName user)), (''userType'', JStr ''Member'')]))])])]"

text \<open>Decoding the answer: an action is its type and its claims. Repeated objects are merged, \<^verbatim>\<open>null\<close> empties the map.\<close>

fun claims_field :: "(string \<times> json) list \<Rightarrow> json list \<Rightarrow> (string \<times> json) list option" where
  "claims_field cur [] = Some cur"
| "claims_field cur (v # vs) =
     (case v of
        JNull \<Rightarrow> claims_field [] vs
      | JObj ms \<Rightarrow> claims_field (fold (\<lambda>(k, x). AList.update k x) ms cur) vs
      | _ \<Rightarrow> None)"

type_synonym ext_action = "string \<times> (string \<times> json) list"

definition dec_action :: "json \<Rightarrow> ext_action option" where
  "dec_action v =
     (case as_object v of
        None \<Rightarrow> None
      | Some ms \<Rightarrow>
        (case (str_field ms ''@odata.type'', claims_field [] (members ms ''claims'')) of
           (Some t, Some cs) \<Rightarrow> Some (t, cs)
         | _ \<Rightarrow> None))"

definition dec_callout :: "json \<Rightarrow> ext_action list option" where
  "dec_callout v =
     (case as_object v of
        None \<Rightarrow> None
      | Some ms \<Rightarrow>
        (case obj_members (members ms ''data'') of
           None \<Rightarrow> None
         | Some d \<Rightarrow> if str_field d ''@odata.type'' = None then None else list_field dec_action d ''actions''))"

definition provides_claims :: "string \<Rightarrow> bool" where
  "provides_claims t \<longleftrightarrow> t = [] \<or> t = ''microsoft.graph.tokenIssuanceStart.provideClaimsForToken''"

text \<open>\<^verbatim>\<open>allowSet\<close>: an empty allowlist allows every claim.\<close>

definition allowed :: "string list \<Rightarrow> string \<Rightarrow> bool" where
  "allowed names k \<longleftrightarrow> names = [] \<or> k \<in> set names"

definition merge_action :: "string list \<Rightarrow> ext_action \<Rightarrow> (string \<times> json) list \<Rightarrow> (string \<times> json) list" where
  "merge_action names a merged =
     (case a of (t, cs) \<Rightarrow>
        if provides_claims t then fold (\<lambda>(k, v) m. if allowed names k then AList.update k v m else m) cs merged else merged)"

definition merge_actions :: "string list \<Rightarrow> ext_action list \<Rightarrow> (string \<times> json) list" where
  "merge_actions names actions = fold (merge_action names) actions []"

definition Invoke :: "callout \<Rightarrow> string \<Rightarrow> (nat \<Rightarrow> string) \<Rightarrow> (string \<Rightarrow> string) option \<Rightarrow> ExtConfig \<Rightarrow> App \<Rightarrow> User \<Rightarrow> string + (string \<times> json) list" where
  "Invoke http tenantID guid minter cfg app user =
     (let timeout = (if xc_TimeoutMs cfg > 0 then i64_mul (xc_TimeoutMs cfg) 1000000 else DefaultTimeout) in
      case http (xc_Endpoint cfg) timeout (map_option (\<lambda>mint. mint (xc_Endpoint cfg)) minter) (calloutBody tenantID guid app user) of
        Inl err \<Rightarrow> Inl err
      | Inr (status, body) \<Rightarrow>
        if status \<noteq> 200 then Inl ''custom extension returned non-200''
        else (case body of
           None \<Rightarrow> Inl ''invalid JSON''
         | Some v \<Rightarrow> (case dec_callout v of None \<Rightarrow> Inl ''invalid JSON'' | Some actions \<Rightarrow> Inr (merge_actions (xc_Claims cfg) actions))))"

text \<open>A failing webhook adds nothing.\<close>

definition claims_enricher :: "callout \<Rightarrow> (nat \<Rightarrow> string) \<Rightarrow> (string \<Rightarrow> string) \<Rightarrow> string \<Rightarrow> ExtStore \<Rightarrow> App \<Rightarrow> User \<Rightarrow> string \<Rightarrow> claims" where
  "claims_enricher http guid mint tenantID s app user kind =
     (case ExtStore_Get s (a_ID app) of
        None \<Rightarrow> Map.empty
      | Some cfg \<Rightarrow>
        (case Invoke http tenantID guid (Some mint) cfg app user of
           Inl err \<Rightarrow> Map.empty
         | Inr ms \<Rightarrow> map_option claim_of_json \<circ> map_of ms))"

section \<open>What an extension can change\<close>

lemma merge_claims_keys:
  "fst ` set (fold (\<lambda>(k, v) m. if allowed names k then AList.update k v m else m) cs merged) \<subseteq> fst ` set merged \<union> {k. allowed names k}"
proof (induction cs arbitrary: merged)
  case (Cons c cs)
  obtain k v where c: "c = (k, v)" by (cases c)
  show ?case
  proof (cases "allowed names k")
    case True
    then have "fst ` set (AList.update k v merged) \<subseteq> fst ` set merged \<union> {k. allowed names k}" by (simp add: dom_update)
    with Cons.IH[of "AList.update k v merged"] True show ?thesis by (simp add: c) blast
  qed (use Cons.IH[of merged] in \<open>simp add: c\<close>)
qed simp

lemma merge_actions_keys: "fst ` set (merge_actions names actions) \<subseteq> {k. allowed names k}"
proof -
  have "fst ` set (fold (merge_action names) actions merged) \<subseteq> fst ` set merged \<union> {k. allowed names k}" for merged
  proof (induction actions arbitrary: merged)
    case (Cons a as)
    have "fst ` set (merge_action names a merged) \<subseteq> fst ` set merged \<union> {k. allowed names k}"
      using merge_claims_keys[of names "snd a" merged] by (auto simp: merge_action_def case_prod_beta)
    with Cons.IH[of "merge_action names a merged"] show ?case by (simp only: fold_simps) blast
  qed simp
  from this[of "[]"] show ?thesis by (simp add: merge_actions_def)
qed

text \<open>
  C28. An extension changes a claim of a token only where one is registered for the application, the call succeeded,
  the claim is on its allowlist (when it has one) and is none of the protocol claims the token service protects.
\<close>

theorem extension_claims_confined:
  assumes "env_enrich env = Some (claims_enricher http guid mint tenantID s)" and "enrich env c app user kind k \<noteq> c k"
  shows "\<exists>cfg ms. ExtStore_Get s (a_ID app) = Some cfg \<and> Invoke http tenantID guid (Some mint) cfg app user = Inr ms
     \<and> allowed (xc_Claims cfg) k \<and> k \<notin> set protectedClaims \<and> enrich env c app user kind k = map_option claim_of_json (map_of ms k)"
proof -
  have k: "k \<notin> set protectedClaims" and e: "enrich env c app user kind k = claims_enricher http guid mint tenantID s app user kind k"
    and ne: "claims_enricher http guid mint tenantID s app user kind k \<noteq> None"
    using assms by (auto simp: enrich_def split: if_splits option.splits)
  from ne obtain cfg ms where c: "ExtStore_Get s (a_ID app) = Some cfg" "Invoke http tenantID guid (Some mint) cfg app user = Inr ms" "map_of ms k \<noteq> None"
    by (auto simp: claims_enricher_def split: option.splits sum.splits)
  from c(2) obtain actions where "ms = merge_actions (xc_Claims cfg) actions"
    by (auto simp: Invoke_def Let_def split: sum.splits prod.splits if_splits option.splits)
  moreover have "k \<in> fst ` set ms" using c(3) by (simp add: map_of_eq_None_iff)
  ultimately have "allowed (xc_Claims cfg) k" using merge_actions_keys by blast
  with k e c(1,2) show ?thesis by (auto simp: claims_enricher_def)
qed


section \<open>An instance\<close>

definition ext0 :: ExtConfig where
  "ext0 = \<lparr>xc_Endpoint = ''http://hook'', xc_Claims = [''dept''], xc_TimeoutMs = 0\<rparr>"

definition hook0 :: callout where
  "hook0 endpoint timeout bearer body = Inr (200, Some (JObj [(''data'', JObj [(''actions'', JList [JObj
     [(''claims'', JObj [(''dept'', JStr ''x''), (''level'', JInt 3), (''oid'', JStr ''mallory'')])]])])]))"

definition ext_env0 :: Env where
  "ext_env0 = (env0 (\<lambda>_. None))\<lparr>env_enrich := Some (claims_enricher hook0 (\<lambda>_. []) (\<lambda>_. []) ''t'' [(''app'', ext0)])\<rparr>"

theorem extension_claims_confined_witness:
  "enrich ext_env0 Map.empty (App.truncate app0) user0 ''idToken'' ''dept'' = Some (CStr ''x'') \<and> allowed (xc_Claims ext0) ''dept'' \<and> ''dept'' \<notin> set protectedClaims"
proof -
  have r: "env_enrich ext_env0 = Some (claims_enricher hook0 (\<lambda>_. []) (\<lambda>_. []) ''t'' [(''app'', ext0)])" by (simp add: ext_env0_def)
  have v: "enrich ext_env0 Map.empty (App.truncate app0) user0 ''idToken'' ''dept'' = Some (CStr ''x'')" by code_simp
  then have "enrich ext_env0 Map.empty (App.truncate app0) user0 ''idToken'' ''dept'' \<noteq> Map.empty ''dept''" by simp
  from extension_claims_confined[OF r this] obtain cfg where
    "ExtStore_Get [(''app'', ext0)] (a_ID (App.truncate app0)) = Some cfg" "allowed (xc_Claims cfg) ''dept''" "''dept'' \<notin> set protectedClaims" by blast
  with v show ?thesis by (auto simp: ExtStore_Get_def split: if_splits)
qed

end
