(* ===== verification/AdminCore.thy ===== *)
theory AdminCore
  imports CustomExt ScimProvision Snapshot
begin

text \<open>
  The frame of the administration API (\<^verbatim>\<open>internal/admin/admin.go\<close>): the state its handlers work on, requests and
  replies, strict decoding of bodies, paging parameters, error mapping and the JSON of directory objects. A
  handler takes the request and the state and returns what it writes and the new state.
\<close>

section \<open>State\<close>

text \<open>
  \<open>ad_Remote\<close> is the world the provisioning requests reach. The environment of a call: cryptography, configuration
  and the origins it does not hold, the machine's clock, fresh identifiers, keys and passwords' hashes (by the
  number of the call, \<open>None\<close> when the random source failed), names from \<^verbatim>\<open>gofakeit\<close>, and the parts of Go's
  libraries that are parameters: \<^verbatim>\<open>mail.ParseAddress\<close>, \<^verbatim>\<open>json.Marshal\<close> of a decoded value, the float64 of a literal.
\<close>

record 'r Admin =
  ad_Tokens :: Service
  ad_Clock :: Clock
  ad_Faults :: FaultConfig
  ad_Audit :: "Event Recorder"
  ad_CustomExt :: ExtStore
  ad_Provisioner :: Provisioner
  ad_Remote :: 'r

record Certificate =
  ct_fingerprint :: "string option"
  ct_path :: string
  ct_pem :: string

record 'r AdminEnv =
  ae_env :: Env
  ae_cfg :: Config
  ae_Portal :: string
  ae_TLS :: bool
  ae_BaseDomain :: string
  ae_Cert :: "Certificate option"
  ae_Version :: string
  ae_uptime :: int
  ae_wall :: int
  ae_guid :: "nat \<Rightarrow> string"
  ae_hash :: "nat \<Rightarrow> string \<Rightarrow> string option"
  ae_opaque :: string
  ae_priv :: string
  ae_bogus :: "string option"
  ae_company :: string
  ae_letters :: string
  ae_mail_ok :: "string \<Rightarrow> bool"
  ae_marshal :: "json \<Rightarrow> string"
  ae_float :: "json \<Rightarrow> real option"
  ae_remote :: "'r remote"

abbreviation ad_Store :: "'r Admin \<Rightarrow> Store" where
  "ad_Store a \<equiv> sv_Store (ad_Tokens a)"

definition put_store :: "Store \<Rightarrow> 'r Admin \<Rightarrow> 'r Admin" where
  "put_store s a = a\<lparr>ad_Tokens := (ad_Tokens a)\<lparr>sv_Store := s\<rparr>\<rparr>"

text \<open>\<^verbatim>\<open>a.Store.Now()\<close>.\<close>

definition admin_now :: "'r AdminEnv \<Rightarrow> 'r Admin \<Rightarrow> int" where
  "admin_now e a = Clock_Now (ae_wall e) (ad_Clock a)"

lemma put_store_sel [simp]:
  "ad_Store (put_store s a) = s" "ad_Clock (put_store s a) = ad_Clock a" "ad_Faults (put_store s a) = ad_Faults a"
  "ad_Audit (put_store s a) = ad_Audit a" "ad_CustomExt (put_store s a) = ad_CustomExt a"
  "ad_Provisioner (put_store s a) = ad_Provisioner a" "ad_Remote (put_store s a) = ad_Remote a" "admin_now e (put_store s a) = admin_now e a"
  by (simp_all add: put_store_def admin_now_def)

lemma put_store_same [simp]: "put_store (ad_Store a) a = a"
  by (simp add: put_store_def)

section \<open>Requests and replies\<close>

text \<open>\<open>aq_Body\<close> is the first JSON value of the body, \<open>None\<close> when the body does not start with one.\<close>

record AdminRequest =
  aq_Method :: string
  aq_Query :: query
  aq_PathValue :: "string \<Rightarrow> string"
  aq_ContentLength :: int
  aq_Body :: "json option"

text \<open>\<open>AdminPanic\<close> is a run-time panic of the handler; \<open>AdminFaults\<close>, \<open>AdminEvents\<close> and \<open>AdminForged\<close> (token, its
  type, key id, claims) are the JSON of the values they hold.\<close>

datatype admin_reply =
    AdminError int string string "(string \<times> string) list"
  | AdminJSON int shape
  | AdminEmpty int
  | AdminFile string string
  | AdminDownload string shape
  | AdminFaults FaultConfig
  | AdminEvents "Event list"
  | AdminForged string string string claims
  | AdminPanic

type_synonym 'r admin_handler = "AdminRequest \<Rightarrow> 'r Admin \<Rightarrow> admin_reply \<times> 'r Admin"

definition validation_error :: "string \<Rightarrow> (string \<times> string) list \<Rightarrow> admin_reply" where
  "validation_error msg details = AdminError 400 ''validation_error'' msg details"

definition writeStoreErr :: "store_err \<Rightarrow> admin_reply" where
  "writeStoreErr err =
     (case err of
        ErrNotFound \<Rightarrow> AdminError 404 ''not_found'' ''The resource does not exist.'' []
      | ErrConflict \<Rightarrow> AdminError 409 ''conflict'' ''A resource with the same unique value already exists.'' []
      | _ \<Rightarrow> AdminError 500 ''internal_error'' ''store error'' [])"

text \<open>An operation of the store as the end of a handler.\<close>

definition run_store :: "'x op \<Rightarrow> ('x \<Rightarrow> 'r Admin \<Rightarrow> admin_reply) \<Rightarrow> 'r Admin \<Rightarrow> admin_reply \<times> 'r Admin" where
  "run_store op k a =
     (case op (ad_Store a) of
        (Inl err, s1) \<Rightarrow> (writeStoreErr err, put_store s1 a)
      | (Inr x, s1) \<Rightarrow> (k x (put_store s1 a), put_store s1 a))"

definition no_content :: "'x \<Rightarrow> 'r Admin \<Rightarrow> admin_reply" where
  "no_content x a = AdminEmpty 204"

text \<open>A lookup that guards the rest of a handler.\<close>

definition with_row :: "'x res \<Rightarrow> ('x \<Rightarrow> admin_reply \<times> 'r Admin) \<Rightarrow> 'r Admin \<Rightarrow> admin_reply \<times> 'r Admin" where
  "with_row row k a = (case row of Inl err \<Rightarrow> (writeStoreErr err, a) | Inr x \<Rightarrow> k x)"

section \<open>Bodies\<close>

text \<open>\<^verbatim>\<open>DisallowUnknownFields\<close>: a member that folds to no field of the struct is an error. The text of a decoder error
  keeps its fixed part.\<close>

definition known_fields :: "string list \<Rightarrow> (string \<times> json) list \<Rightarrow> bool" where
  "known_fields names ms \<longleftrightarrow> list_all (\<lambda>m. list_ex (EqualFold (fst m)) names) ms"

definition bad_json :: admin_reply where
  "bad_json = validation_error ''Invalid JSON body'' []"

definition decodeBody :: "string list \<Rightarrow> ((string \<times> json) list \<Rightarrow> 'b option) \<Rightarrow> AdminRequest \<Rightarrow> admin_reply + 'b" where
  "decodeBody names dec r =
     (case Option.bind (aq_Body r) as_object of
        None \<Rightarrow> Inl bad_json
      | Some ms \<Rightarrow> if known_fields names ms then (case dec ms of None \<Rightarrow> Inl bad_json | Some b \<Rightarrow> Inr b) else Inl bad_json)"

text \<open>\<^verbatim>\<open>r.ContentLength > 0 && !decodeBody(...)\<close>: without a body the struct stays zero.\<close>

definition optionalBody :: "string list \<Rightarrow> ((string \<times> json) list \<Rightarrow> 'b option) \<Rightarrow> 'b \<Rightarrow> AdminRequest \<Rightarrow> admin_reply + 'b" where
  "optionalBody names dec zero r = (if aq_ContentLength r > 0 then decodeBody names dec r else Inr zero)"

definition with_body :: "(admin_reply + 'b) \<Rightarrow> ('b \<Rightarrow> admin_reply \<times> 'r Admin) \<Rightarrow> 'r Admin \<Rightarrow> admin_reply \<times> 'r Admin" where
  "with_body b k a = (case b of Inl rep \<Rightarrow> (rep, a) | Inr x \<Rightarrow> k x)"

definition int_field :: "(string \<times> json) list \<Rightarrow> string \<Rightarrow> int option" where
  "int_field ms name = store_value dec_int 0 (members ms name)"

definition int_ptr :: "(string \<times> json) list \<Rightarrow> string \<Rightarrow> int option option" where
  "int_ptr ms name = store_pointer dec_int None (members ms name)"

text \<open>A nested object with known members.\<close>

definition strict_object :: "string list \<Rightarrow> json \<Rightarrow> (string \<times> json) list option" where
  "strict_object names v = (case as_object v of None \<Rightarrow> None | Some ms \<Rightarrow> if known_fields names ms then Some ms else None)"

section \<open>JSON of values\<close>

definition iso :: "int \<Rightarrow> json" where
  "iso epoch = (if epoch = 0 then JNull else JStr (rfc3339 epoch))"

definition nullable :: "string \<Rightarrow> json" where
  "nullable s = (if s = [] then JNull else JStr s)"

definition jnat :: "nat \<Rightarrow> json" where
  "jnat n = JInt (int n)"

definition pageParams :: "AdminRequest \<Rightarrow> int \<times> int \<times> string" where
  "pageParams r =
     ((case Atoi (aq_Query r ''top'') of Some v \<Rightarrow> if v > 0 then if v > 200 then 200 else v else 50 | None \<Rightarrow> 50),
      (case Atoi (aq_Query r ''skip'') of Some v \<Rightarrow> if v > 0 then v else 0 | None \<Rightarrow> 0),
      aq_Query r ''search'')"

definition paged :: "shape list \<Rightarrow> nat \<Rightarrow> int \<Rightarrow> int \<Rightarrow> admin_reply" where
  "paged value count tp skip =
     AdminJSON 200 [(''value'', JList (map JObj value)), (''count'', jnat count), (''top'', JInt tp), (''skip'', JInt skip)]"

definition paged_all :: "shape list \<Rightarrow> admin_reply" where
  "paged_all value = paged value (length value) (int (length value)) 0"

definition userDTO :: "User \<Rightarrow> shape" where
  "userDTO u = [(''id'', JStr (u_ID u)), (''userPrincipalName'', JStr (u_UserPrincipalName u)), (''displayName'', JStr (u_DisplayName u)),
     (''givenName'', nullable (u_GivenName u)), (''surname'', nullable (u_Surname u)), (''mail'', nullable (u_Mail u)),
     (''accountEnabled'', JBool (u_AccountEnabled u)), (''hasPassword'', JBool (u_PasswordHash u \<noteq> [])), (''createdAt'', iso (u_CreatedAt u))]"

definition groupDTO :: "Store \<Rightarrow> Group \<Rightarrow> shape" where
  "groupDTO s g = [(''id'', JStr (g_ID g)), (''displayName'', JStr (g_DisplayName g)), (''description'', nullable (g_Description g)),
     (''memberCount'', jnat (CountGroupMembers s (g_ID g))), (''createdAt'', iso (g_CreatedAt g))]"

section \<open>A sample emulator\<close>

text \<open>The witnesses of the administration API run in this environment and on this state, over a given store.\<close>

definition admin_env0 :: "unit AdminEnv" where
  "admin_env0 = \<lparr>ae_env = env0 claims1, ae_cfg = config0, ae_Portal = ''p'', ae_TLS = True, ae_BaseDomain = ''d'', ae_Cert = None,
     ae_Version = ''v'', ae_uptime = 0, ae_wall = 9, ae_guid = (\<lambda>n. ''guid'' @ replicate n CHR ''x''), ae_hash = (\<lambda>n pw. Some pw),
     ae_opaque = ''secret'', ae_priv = ''priv'', ae_bogus = None, ae_company = ''c'', ae_letters = ''l'', ae_mail_ok = (\<lambda>_. True),
     ae_marshal = (\<lambda>_. ''''), ae_float = (\<lambda>_. None), ae_remote = (\<lambda>_ _ _ _ w. (Inl ''off'', w))\<rparr>"

definition admin_on :: "Store \<Rightarrow> unit Admin" where
  "admin_on s = \<lparr>ad_Tokens = \<lparr>sv_Store = s, sv_Signer = \<lparr>sg_Kid = ''k'', sg_PrivateKey = ''priv''\<rparr>, sv_tenantSigners = Map.empty\<rparr>,
     ad_Clock = Clock_New, ad_Faults = no_faults,
     ad_Audit = Recorder_New \<lparr>ev_EventID = [], ev_Time = 0, ev_TimeISO = [], ev_Flow = [], ev_GrantType = [], ev_ClientID = [], ev_UserID = [],
       ev_UserPrincipalName = [], ev_Status = 0, ev_OK = False, ev_Error = [], ev_Reason = []\<rparr> 2,
     ad_CustomExt = NewStore, ad_Provisioner = NewProvisioner, ad_Remote = ()\<rparr>"

definition sample_request :: "string \<Rightarrow> (string \<Rightarrow> string) \<Rightarrow> json option \<Rightarrow> AdminRequest" where
  "sample_request m pv b = \<lparr>aq_Method = m, aq_Query = (\<lambda>_. []), aq_PathValue = pv, aq_ContentLength = 1, aq_Body = b\<rparr>"

end
