(* ===== verification/AdminDirectory.thy ===== *)
theory AdminDirectory
  imports AdminCore
begin

text \<open>
  The directory handlers of the administration API: users (\<^verbatim>\<open>admin.go\<close>), groups and their members
  (\<^verbatim>\<open>groups_apps.go\<close>), tenants (\<^verbatim>\<open>tenants.go\<close>), passkeys (\<^verbatim>\<open>passkeys.go\<close>). A handler is named after its method.
\<close>

section \<open>Users\<close>

record UserFields =
  uf_UserPrincipalName :: "string option"
  uf_DisplayName :: "string option"
  uf_GivenName :: "string option"
  uf_Surname :: "string option"
  uf_Mail :: "string option"
  uf_AccountEnabled :: "bool option"
  uf_Password :: "string option"

definition user_fields :: "string list" where
  "user_fields = [''userPrincipalName'', ''displayName'', ''givenName'', ''surname'', ''mail'', ''accountEnabled'', ''password'']"

definition dec_UserFields :: "(string \<times> json) list \<Rightarrow> UserFields option" where
  "dec_UserFields ms =
     (case (str_ptr ms ''userPrincipalName'', str_ptr ms ''displayName'', str_ptr ms ''givenName'', str_ptr ms ''surname'',
            str_ptr ms ''mail'', bool_ptr ms ''accountEnabled'', str_ptr ms ''password'') of
        (Some upn, Some dn, Some gn, Some sn, Some ml, Some en, Some pw) \<Rightarrow>
          Some \<lparr>uf_UserPrincipalName = upn, uf_DisplayName = dn, uf_GivenName = gn, uf_Surname = sn, uf_Mail = ml,
                uf_AccountEnabled = en, uf_Password = pw\<rparr>
      | _ \<Rightarrow> None)"

definition UserFields_validate :: "'r AdminEnv \<Rightarrow> bool \<Rightarrow> UserFields \<Rightarrow> (string \<times> string) list" where
  "UserFields_validate e create b =
     (if create \<and> or_else (uf_UserPrincipalName b) [] = [] then [(''userPrincipalName'', ''Required.'')] else [])
     @ (if create \<and> or_else (uf_DisplayName b) [] = [] then [(''displayName'', ''Required.'')] else [])
     @ (if or_else (uf_Mail b) [] \<noteq> [] \<and> \<not> ae_mail_ok e (or_else (uf_Mail b) []) then [(''mail'', ''Invalid email.'')] else [])"

definition applyUserFields :: "UserFields \<Rightarrow> User \<Rightarrow> User" where
  "applyUserFields b u =
     u\<lparr>u_UserPrincipalName := or_else (uf_UserPrincipalName b) (u_UserPrincipalName u),
       u_DisplayName := or_else (uf_DisplayName b) (u_DisplayName u),
       u_GivenName := or_else (uf_GivenName b) (u_GivenName u),
       u_Surname := or_else (uf_Surname b) (u_Surname u),
       u_Mail := or_else (uf_Mail b) (u_Mail u),
       u_AccountEnabled := or_else (uf_AccountEnabled b) (u_AccountEnabled u)\<rparr>"

text \<open>\<^verbatim>\<open>store.HashSecret\<close> of a password that is set and not empty; \<open>None\<close> when hashing failed.\<close>

definition hashed_password :: "'r AdminEnv \<Rightarrow> UserFields \<Rightarrow> string \<Rightarrow> string option" where
  "hashed_password e b old = (if or_else (uf_Password b) [] = [] then Some old else ae_hash e 0 (or_else (uf_Password b) []))"

definition hash_failed :: admin_reply where
  "hash_failed = AdminError 500 ''internal_error'' ''hash error'' []"

definition Admin_listUsers :: "'r AdminEnv \<Rightarrow> 'r admin_handler" where
  "Admin_listUsers e r a =
     (case pageParams r of (tp, skip, q) \<Rightarrow>
        case ListUsers (ad_Store a) tp skip q of (us, count) \<Rightarrow> (paged (map userDTO us) count tp skip, a))"

definition Admin_createUser :: "'r AdminEnv \<Rightarrow> 'r admin_handler" where
  "Admin_createUser e r a = with_body (decodeBody user_fields dec_UserFields r) (\<lambda>b.
     if UserFields_validate e True b \<noteq> [] then (validation_error ''Invalid user.'' (UserFields_validate e True b), a)
     else case hashed_password e b [] of
       None \<Rightarrow> (hash_failed, a)
     | Some h \<Rightarrow>
       let u = applyUserFields b \<lparr>u_ID = ae_guid e 0, u_TenantID = cf_TenantID (ae_cfg e),
             u_UserPrincipalName = or_else (uf_UserPrincipalName b) [], u_DisplayName = or_else (uf_DisplayName b) [],
             u_GivenName = [], u_Surname = [], u_Mail = [], u_PasswordHash = h, u_AccountEnabled = True, u_UserType = [],
             u_ExternalUserState = [], u_InviteRedirectURL = [], u_CreatedAt = admin_now e a, u_UpdatedAt = 0\<rparr>
       in run_store (CreateUser u) (\<lambda>_ _. AdminJSON 201 (userDTO u)) a) a"

definition Admin_getUser :: "'r AdminEnv \<Rightarrow> 'r admin_handler" where
  "Admin_getUser e r a = with_row (GetUser (ad_Store a) (aq_PathValue r ''id'')) (\<lambda>u. (AdminJSON 200 (userDTO u), a)) a"

text \<open>
  \<^verbatim>\<open>patchUser\<close> decodes the members into a map of raw values (the last of two equal names wins) and the map, in
  the order of its keys, into the struct, ignoring the error: a value of the wrong kind leaves the field's pointer
  allocated, at the value it had or at zero.
\<close>

definition raw_map :: "(string \<times> json) list \<Rightarrow> (string \<times> json) list" where
  "raw_map ms = sort_key fst (fold (\<lambda>(k, v) m. AList.update k v m) ms [])"

fun lenient_pointer :: "(json \<Rightarrow> 'a option) \<Rightarrow> 'a \<Rightarrow> 'a option \<Rightarrow> json list \<Rightarrow> 'a option" where
  "lenient_pointer dec zero cur [] = cur"
| "lenient_pointer dec zero cur (v # vs) =
     lenient_pointer dec zero
       (if v = JNull then None else case dec v of Some x \<Rightarrow> Some x | None \<Rightarrow> Some (or_else cur zero)) vs"

definition lenient_UserFields :: "(string \<times> json) list \<Rightarrow> UserFields" where
  "lenient_UserFields raw =
     (let str = \<lambda>name. lenient_pointer dec_str [] None (members raw name) in
      \<lparr>uf_UserPrincipalName = str ''userPrincipalName'', uf_DisplayName = str ''displayName'', uf_GivenName = str ''givenName'',
       uf_Surname = str ''surname'', uf_Mail = str ''mail'',
       uf_AccountEnabled = lenient_pointer dec_bool False None (members raw ''accountEnabled''), uf_Password = str ''password''\<rparr>)"

text \<open>The password: \<^verbatim>\<open>null\<close> clears, a string sets, absent (under this exact name) leaves unchanged.\<close>

definition patched_password :: "'r AdminEnv \<Rightarrow> (string \<times> json) list \<Rightarrow> UserFields \<Rightarrow> string \<Rightarrow> string option" where
  "patched_password e raw b old =
     (case map_of raw ''password'' of
        None \<Rightarrow> Some old
      | Some v \<Rightarrow> if v = JNull then Some [] else hashed_password e b old)"

definition decode_raw :: "AdminRequest \<Rightarrow> admin_reply + (string \<times> json) list" where
  "decode_raw r = (case Option.bind (aq_Body r) as_object of None \<Rightarrow> Inl bad_json | Some ms \<Rightarrow> Inr (raw_map ms))"

definition Admin_patchUser :: "'r AdminEnv \<Rightarrow> 'r admin_handler" where
  "Admin_patchUser e r a = with_row (GetUser (ad_Store a) (aq_PathValue r ''id'')) (\<lambda>u.
     with_body (decode_raw r) (\<lambda>raw.
       let b = lenient_UserFields raw; u1 = applyUserFields b u in
       if UserFields_validate e False b \<noteq> [] then (validation_error ''Invalid user.'' (UserFields_validate e False b), a)
       else case patched_password e raw b (u_PasswordHash u) of
         None \<Rightarrow> (hash_failed, a)
       | Some h \<Rightarrow>
         let u2 = u1\<lparr>u_PasswordHash := h\<rparr> in
         run_store (UpdateUser (admin_now e a) u2) (\<lambda>_ _. AdminJSON 200 (userDTO u2)) a) a) a"

definition Admin_deleteUser :: "'r AdminEnv \<Rightarrow> 'r admin_handler" where
  "Admin_deleteUser e r = run_store (DeleteUser (aq_PathValue r ''id'')) no_content"

definition Admin_listUserGroups :: "'r AdminEnv \<Rightarrow> 'r admin_handler" where
  "Admin_listUserGroups e r a = with_row (GetUser (ad_Store a) (aq_PathValue r ''id''))
     (\<lambda>_. (paged_all (map (groupDTO (ad_Store a)) (ListGroupsForUser (ad_Store a) (aq_PathValue r ''id''))), a)) a"

section \<open>Groups\<close>

definition group_fields :: "string list" where
  "group_fields = [''displayName'', ''description'']"

definition dec_GroupFields :: "(string \<times> json) list \<Rightarrow> (string option \<times> string option) option" where
  "dec_GroupFields ms =
     (case (str_ptr ms ''displayName'', str_ptr ms ''description'') of (Some dn, Some de) \<Rightarrow> Some (dn, de) | _ \<Rightarrow> None)"

definition Admin_listGroups :: "'r AdminEnv \<Rightarrow> 'r admin_handler" where
  "Admin_listGroups e r a =
     (case pageParams r of (tp, skip, q) \<Rightarrow>
        case ListGroups (ad_Store a) tp skip q of (gs, count) \<Rightarrow> (paged (map (groupDTO (ad_Store a)) gs) count tp skip, a))"

definition Admin_createGroup :: "'r AdminEnv \<Rightarrow> 'r admin_handler" where
  "Admin_createGroup e r a = with_body (decodeBody group_fields dec_GroupFields r) (\<lambda>(dn, de).
     if or_else dn [] = [] then (validation_error ''Invalid group.'' [(''displayName'', ''Required.'')], a)
     else let g = \<lparr>g_ID = ae_guid e 0, g_TenantID = cf_TenantID (ae_cfg e), g_DisplayName = or_else dn [],
                   g_Description = or_else de [], g_CreatedAt = admin_now e a\<rparr>
       in run_store (CreateGroup g) (\<lambda>_ a1. AdminJSON 201 (groupDTO (ad_Store a1) g)) a) a"

definition Admin_getGroup :: "'r AdminEnv \<Rightarrow> 'r admin_handler" where
  "Admin_getGroup e r a =
     with_row (GetGroup (ad_Store a) (aq_PathValue r ''id'')) (\<lambda>g. (AdminJSON 200 (groupDTO (ad_Store a) g), a)) a"

definition Admin_patchGroup :: "'r AdminEnv \<Rightarrow> 'r admin_handler" where
  "Admin_patchGroup e r a = with_row (GetGroup (ad_Store a) (aq_PathValue r ''id'')) (\<lambda>g.
     with_body (decodeBody group_fields dec_GroupFields r) (\<lambda>(dn, de).
       let g1 = g\<lparr>g_DisplayName := or_else dn (g_DisplayName g), g_Description := or_else de (g_Description g)\<rparr>
       in run_store (UpdateGroup g1) (\<lambda>_ a1. AdminJSON 200 (groupDTO (ad_Store a1) g1)) a) a) a"

definition Admin_deleteGroup :: "'r AdminEnv \<Rightarrow> 'r admin_handler" where
  "Admin_deleteGroup e r = run_store (DeleteGroup (aq_PathValue r ''id'')) no_content"

definition Admin_listMembers :: "'r AdminEnv \<Rightarrow> 'r admin_handler" where
  "Admin_listMembers e r a = with_row (GetGroup (ad_Store a) (aq_PathValue r ''id''))
     (\<lambda>_. (paged_all (map userDTO (ListGroupMembers (ad_Store a) (aq_PathValue r ''id''))), a)) a"

definition Admin_addMember :: "'r AdminEnv \<Rightarrow> 'r admin_handler" where
  "Admin_addMember e r a = with_body (decodeBody [''userId''] (\<lambda>ms. str_field ms ''userId'') r) (\<lambda>uid.
     with_row (GetGroup (ad_Store a) (aq_PathValue r ''id'')) (\<lambda>_.
       case GetUser (ad_Store a) uid of
         Inl err \<Rightarrow> (AdminError 400 ''invalid_reference'' ''The user does not exist.'' [], a)
       | Inr u \<Rightarrow> run_store (AddGroupMember (aq_PathValue r ''id'') uid) no_content a) a) a"

definition Admin_removeMember :: "'r AdminEnv \<Rightarrow> 'r admin_handler" where
  "Admin_removeMember e r = run_store (RemoveGroupMember (aq_PathValue r ''id'') (aq_PathValue r ''userId'')) no_content"

section \<open>Tenants\<close>

definition tenantDTO :: "Tenant \<Rightarrow> bool \<Rightarrow> shape" where
  "tenantDTO t home = [(''id'', JStr (t_ID t)), (''displayName'', JStr (t_DisplayName t)), (''issuer'', JStr (t_Issuer t)),
     (''initialDomain'', nullable (t_InitialDomain t)), (''isHome'', JBool home), (''createdAt'', iso (t_CreatedAt t))]"

definition slug_char :: "char \<Rightarrow> bool" where
  "slug_char c \<longleftrightarrow> CHR ''a'' \<le> c \<and> c \<le> CHR ''z'' \<or> CHR ''0'' \<le> c \<and> c \<le> CHR ''9''"

definition domainSlug :: "'r AdminEnv \<Rightarrow> string \<Rightarrow> string" where
  "domainSlug e name =
     (let slug = filter slug_char (ToLower name) in if slug = [] then ''contoso'' @ ToLower (ae_letters e) else slug)"

definition Admin_listTenants :: "'r AdminEnv \<Rightarrow> 'r admin_handler" where
  "Admin_listTenants e r a =
     (AdminJSON 200 [(''value'', JList (map (\<lambda>t. JObj (tenantDTO t (t_ID t = cf_TenantID (ae_cfg e)))) (ListTenants (ad_Store a))))], a)"

definition Admin_getTenant :: "'r AdminEnv \<Rightarrow> 'r admin_handler" where
  "Admin_getTenant e r a = with_row (GetTenantByID (ad_Store a) (aq_PathValue r ''id''))
     (\<lambda>t. (AdminJSON 200 (tenantDTO t (t_ID t = cf_TenantID (ae_cfg e))), a)) a"

definition dec_TenantFields :: "(string \<times> json) list \<Rightarrow> (string option \<times> string option) option" where
  "dec_TenantFields ms =
     (case (str_ptr ms ''displayName'', str_ptr ms ''initialDomain'') of (Some dn, Some idom) \<Rightarrow> Some (dn, idom) | _ \<Rightarrow> None)"

text \<open>The new tenant's signing key is provisioned at once.\<close>

definition Admin_createTenant :: "'r AdminEnv \<Rightarrow> 'r admin_handler" where
  "Admin_createTenant e r a = with_body (optionalBody [''displayName'', ''initialDomain''] dec_TenantFields (None, None) r) (\<lambda>(dn, idom).
     let given = TrimSpace (or_else dn []); display = (if given = [] then ae_company e else given);
         asked = ToLower (TrimSpace (or_else idom [])); domain = (if asked = [] then domainSlug e display @ ''.onmicrosoft.com'' else asked);
         tid = ae_guid e 0;
         t = \<lparr>t_ID = tid, t_DisplayName = display, t_Issuer = cf_Login (ae_cfg e) @ ''/'' @ tid @ ''/v2.0'', t_InitialDomain = domain,
              t_CreatedAt = admin_now e a\<rparr>
     in case CreateTenant t (ad_Store a) of
          (Inl err, s1) \<Rightarrow> (writeStoreErr err, put_store s1 a)
        | (Inr _, s1) \<Rightarrow>
          (case signerForTenant (ae_env e) (ae_cfg e) (admin_now e a) (ae_priv e) tid (ad_Tokens (put_store s1 a)) of
             (Inl err, sv) \<Rightarrow> (AdminError 500 ''internal_error'' (err_text err) [], a\<lparr>ad_Tokens := sv\<rparr>)
           | (Inr signer, sv) \<Rightarrow> (AdminJSON 201 (tenantDTO t False), a\<lparr>ad_Tokens := sv\<rparr>))) a"

definition Admin_deleteTenant :: "'r AdminEnv \<Rightarrow> 'r admin_handler" where
  "Admin_deleteTenant e r a =
     (if aq_PathValue r ''id'' = cf_TenantID (ae_cfg e) then (validation_error ''The home tenant cannot be deleted.'' [], a)
      else run_store (DeleteTenant (aq_PathValue r ''id'')) no_content a)"

section \<open>Passkeys\<close>

definition passkeyDTO :: "WebAuthnCredential \<Rightarrow> shape" where
  "passkeyDTO c = [(''id'', JStr (wc_ID c)), (''name'', nullable (wc_Name c)), (''signCount'', JInt (wc_SignCount c)),
     (''transports'', nullable (wc_Transports c)), (''createdAt'', iso (wc_CreatedAt c))]"

definition Admin_listPasskeys :: "'r AdminEnv \<Rightarrow> 'r admin_handler" where
  "Admin_listPasskeys e r a = with_row (GetUser (ad_Store a) (aq_PathValue r ''id''))
     (\<lambda>_. (paged_all (map passkeyDTO (ListWebAuthnCredentials (ad_Store a) (aq_PathValue r ''id''))), a)) a"

definition Admin_deletePasskey :: "'r AdminEnv \<Rightarrow> 'r admin_handler" where
  "Admin_deletePasskey e r = run_store (DeleteWebAuthnCredential (aq_PathValue r ''id'') (aq_PathValue r ''credId'')) no_content"

end
