(* ===== verification/AdminApps.thy ===== *)
theory AdminApps
  imports AdminCore
begin

text \<open>
  The application handlers of the administration API: registrations, redirect URIs, secrets, exposed scopes and
  roles (\<^verbatim>\<open>groups_apps.go\<close>), key credentials (\<^verbatim>\<open>keycred.go\<close>), federated credentials (\<^verbatim>\<open>federatedcred.go\<close>) and Fabric
  workspace identities (\<^verbatim>\<open>fabric.go\<close>).
\<close>

section \<open>The JSON of an application\<close>

definition Admin_splitCSV :: "string \<Rightarrow> string list" where
  "Admin_splitCSV s = filter (\<lambda>x. x \<noteq> []) (SplitChar s (CHR '',''))"

definition joinCSV :: "string list \<Rightarrow> string" where
  "joinCSV parts = Join parts '',''"

text \<open>A nil slice is \<^verbatim>\<open>null\<close>.\<close>

definition nil_strs :: "string list \<Rightarrow> json" where
  "nil_strs xs = (if xs = [] then JNull else JList (map JStr xs))"

definition redirectDTO :: "RedirectURI \<Rightarrow> shape" where
  "redirectDTO u = [(''id'', JInt (ru_ID u)), (''uri'', JStr (ru_URI u)), (''type'', JStr (ru_Type u))]"

definition scopeDTO :: "AppScope \<Rightarrow> shape" where
  "scopeDTO sc = [(''id'', JStr (sc_ID sc)), (''value'', JStr (sc_Value sc)),
     (''adminConsentDisplayName'', nullable (sc_AdminConsentDisplayName sc)), (''isEnabled'', JBool (sc_IsEnabled sc))]"

definition roleDTO :: "AppRole \<Rightarrow> shape" where
  "roleDTO ro = [(''id'', JStr (ro_ID ro)), (''value'', JStr (ro_Value ro)), (''displayName'', nullable (ro_DisplayName ro)),
     (''allowedMemberTypes'', nil_strs (Admin_splitCSV (ro_AllowedMemberTypes ro))), (''isEnabled'', JBool (ro_IsEnabled ro))]"

definition secretDTO :: "AppSecret \<Rightarrow> shape" where
  "secretDTO sec = [(''id'', JStr (sec_ID sec)), (''displayName'', nullable (sec_DisplayName sec)), (''hint'', nullable (sec_Hint sec)),
     (''expiresAt'', iso (sec_ExpiresAt sec)), (''createdAt'', iso (sec_CreatedAt sec))]"

definition appDTO :: "Store \<Rightarrow> App \<Rightarrow> shape" where
  "appDTO s ap = [(''id'', JStr (a_ID ap)), (''displayName'', JStr (a_DisplayName ap)), (''isConfidential'', JBool (a_IsConfidential ap)),
     (''appIdUri'', nullable (a_AppIDURI ap)), (''redirectUris'', JList (map (JObj \<circ> redirectDTO) (ListRedirectURIs s (a_ID ap)))),
     (''exposedScopes'', JList (map (JObj \<circ> scopeDTO) (ListScopes s (a_ID ap)))),
     (''appRoles'', JList (map (JObj \<circ> roleDTO) (ListRoles s (a_ID ap)))),
     (''secrets'', JList (map (JObj \<circ> secretDTO) (ListSecrets s (a_ID ap)))),
     (''groupMembershipClaims'', JStr (a_GroupMembershipClaims ap)), (''createdAt'', iso (a_CreatedAt ap))]"

section \<open>Registrations\<close>

record AppFields =
  af_DisplayName :: "string option"
  af_TenantID :: "string option"
  af_IsConfidential :: "bool option"
  af_AppIDURI :: "string option"
  af_GroupMembershipClaims :: "string option"
  af_GroupOverageLimit :: "int option"
  af_OptionalClaims :: json
  af_FrontchannelLogoutURI :: "string option"
  af_RedirectUris :: "(string \<times> string) list"

definition app_fields :: "string list" where
  "app_fields = [''displayName'', ''tenantId'', ''isConfidential'', ''appIdUri'', ''groupMembershipClaims'', ''groupOverageLimit'',
     ''optionalClaims'', ''frontchannelLogoutUri'', ''redirectUris'']"

definition dec_redirect :: "json \<Rightarrow> (string \<times> string) option" where
  "dec_redirect v =
     (case strict_object [''uri'', ''type''] v of
        None \<Rightarrow> None
      | Some ms \<Rightarrow> (case (str_field ms ''uri'', str_field ms ''type'') of (Some uri, Some ty) \<Rightarrow> Some (uri, ty) | _ \<Rightarrow> None))"

text \<open>A field of type \<^verbatim>\<open>any\<close> holds the last value.\<close>

definition any_field :: "(string \<times> json) list \<Rightarrow> string \<Rightarrow> json" where
  "any_field ms name = (if members ms name = [] then JNull else last (members ms name))"

definition dec_AppFields :: "(string \<times> json) list \<Rightarrow> AppFields option" where
  "dec_AppFields ms =
     (case (str_ptr ms ''displayName'', str_ptr ms ''tenantId'', bool_ptr ms ''isConfidential'', str_ptr ms ''appIdUri'',
            str_ptr ms ''groupMembershipClaims'', int_ptr ms ''groupOverageLimit'', str_ptr ms ''frontchannelLogoutUri'',
            list_field dec_redirect ms ''redirectUris'') of
        (Some dn, Some tid, Some conf, Some uri, Some gmc, Some gol, Some fc, Some rus) \<Rightarrow>
          Some \<lparr>af_DisplayName = dn, af_TenantID = tid, af_IsConfidential = conf, af_AppIDURI = uri, af_GroupMembershipClaims = gmc,
                af_GroupOverageLimit = gol, af_OptionalClaims = any_field ms ''optionalClaims'', af_FrontchannelLogoutURI = fc,
                af_RedirectUris = rus\<rparr>
      | _ \<Rightarrow> None)"

definition applyAppFields :: "'r AdminEnv \<Rightarrow> AppFields \<Rightarrow> App \<Rightarrow> App" where
  "applyAppFields e b ap =
     ap\<lparr>a_DisplayName := or_else (af_DisplayName b) (a_DisplayName ap),
        a_IsConfidential := or_else (af_IsConfidential b) (a_IsConfidential ap),
        a_AppIDURI := or_else (af_AppIDURI b) (a_AppIDURI ap),
        a_GroupMembershipClaims := or_else (af_GroupMembershipClaims b) (a_GroupMembershipClaims ap),
        a_GroupOverageLimit := or_else (af_GroupOverageLimit b) (a_GroupOverageLimit ap),
        a_OptionalClaims := (if af_OptionalClaims b = JNull then a_OptionalClaims ap else ae_marshal e (af_OptionalClaims b))\<rparr>"

definition Admin_listApps :: "'r AdminEnv \<Rightarrow> 'r admin_handler" where
  "Admin_listApps e r a =
     (case pageParams r of (tp, skip, q) \<Rightarrow>
        case ListApps (ad_Store a) tp skip q of (aps, count) \<Rightarrow> (paged (map (appDTO (ad_Store a)) aps) count tp skip, a))"

text \<open>The tenant a body names, which has to exist; the home tenant without one.\<close>

definition tenant_of_body :: "'r AdminEnv \<Rightarrow> Store \<Rightarrow> string option \<Rightarrow> admin_reply + string" where
  "tenant_of_body e s asked =
     (if or_else asked [] = [] then Inr (cf_TenantID (ae_cfg e))
      else case GetTenantByID s (or_else asked []) of
        Inl err \<Rightarrow> Inl (AdminError 400 ''invalid_reference'' ''tenantId does not resolve to a tenant.'' [])
      | Inr t \<Rightarrow> Inr (or_else asked []))"

fun add_redirects :: "string \<Rightarrow> (string \<times> string) list \<Rightarrow> unit op" where
  "add_redirects appID [] s = (Inr (), s)"
| "add_redirects appID ((uri, ty) # us) s =
     (case AddRedirectURI appID uri ty s of (Inl err, s1) \<Rightarrow> (Inl err, s1) | (Inr _, s1) \<Rightarrow> add_redirects appID us s1)"

definition Admin_createApp :: "'r AdminEnv \<Rightarrow> 'r admin_handler" where
  "Admin_createApp e r a = with_body (decodeBody app_fields dec_AppFields r) (\<lambda>b.
     if or_else (af_DisplayName b) [] = [] then (validation_error ''Invalid app.'' [(''displayName'', ''Required.'')], a)
     else with_body (tenant_of_body e (ad_Store a) (af_TenantID b)) (\<lambda>tid.
       let ap = applyAppFields e b \<lparr>a_ID = ae_guid e 0, a_TenantID = tid, a_DisplayName = or_else (af_DisplayName b) [],
             a_IsConfidential = False, a_AppIDURI = [], a_OptionalClaims = [], a_GroupMembershipClaims = ''None'',
             a_GroupOverageLimit = 0, a_CreatedAt = admin_now e a\<rparr>
       in case CreateApp ap (ad_Store a) of
            (Inl err, s1) \<Rightarrow> (writeStoreErr err, put_store s1 a)
          | (Inr _, s1) \<Rightarrow> run_store (add_redirects (a_ID ap) (af_RedirectUris b)) (\<lambda>_ a2. AdminJSON 201 (appDTO (ad_Store a2) ap)) (put_store s1 a)) a) a"

definition Admin_getApp :: "'r AdminEnv \<Rightarrow> 'r admin_handler" where
  "Admin_getApp e r a = with_row (GetApp (ad_Store a) (aq_PathValue r ''id'')) (\<lambda>ap. (AdminJSON 200 (appDTO (ad_Store a) ap), a)) a"

text \<open>The front-channel logout URI has a column of its own.\<close>

definition Admin_patchApp :: "'r AdminEnv \<Rightarrow> 'r admin_handler" where
  "Admin_patchApp e r a = with_row (GetApp (ad_Store a) (aq_PathValue r ''id'')) (\<lambda>ap0.
     with_body (decodeBody app_fields dec_AppFields r) (\<lambda>b.
       let ap = applyAppFields e b ap0; ok = (\<lambda>_ a2. AdminJSON 200 (appDTO (ad_Store a2) ap)) in
       case UpdateApp ap (ad_Store a) of
         (Inl err, s1) \<Rightarrow> (writeStoreErr err, put_store s1 a)
       | (Inr _, s1) \<Rightarrow>
         (case af_FrontchannelLogoutURI b of
            None \<Rightarrow> (ok () (put_store s1 a), put_store s1 a)
          | Some uri \<Rightarrow> run_store (SetFrontchannelLogoutURI (a_ID ap) uri) ok (put_store s1 a))) a) a"

definition Admin_deleteApp :: "'r AdminEnv \<Rightarrow> 'r admin_handler" where
  "Admin_deleteApp e r = run_store (DeleteApp (aq_PathValue r ''id'')) no_content"

section \<open>Redirect URIs\<close>

definition dec_redirect_body :: "(string \<times> json) list \<Rightarrow> (string \<times> string) option" where
  "dec_redirect_body ms = (case (str_field ms ''uri'', str_field ms ''type'') of (Some uri, Some ty) \<Rightarrow> Some (uri, ty) | _ \<Rightarrow> None)"

definition Admin_addRedirectURI :: "'r AdminEnv \<Rightarrow> 'r admin_handler" where
  "Admin_addRedirectURI e r a = with_row (GetApp (ad_Store a) (aq_PathValue r ''id'')) (\<lambda>_.
     with_body (decodeBody [''uri'', ''type''] dec_redirect_body r) (\<lambda>(uri, ty).
       if uri = [] then (validation_error ''uri is required.'' [(''uri'', ''Required.'')], a)
       else run_store (AddRedirectURI (aq_PathValue r ''id'') uri ty) (\<lambda>ru _. AdminJSON 201 (redirectDTO ru)) a) a) a"

text \<open>\<^verbatim>\<open>json.Unmarshal\<close> into an \<^verbatim>\<open>int64\<close>: an integer literal in range between blanks, or \<^verbatim>\<open>null\<close>, which leaves 0.\<close>

definition json_space :: "char \<Rightarrow> bool" where
  "json_space c \<longleftrightarrow> c = CHR '' '' \<or> c = CHR 0x09 \<or> c = CHR 0x0A \<or> c = CHR 0x0D"

definition json_digits :: "string \<Rightarrow> bool" where
  "json_digits ds \<longleftrightarrow> ds \<noteq> [] \<and> list_all is_digit ds \<and> (hd ds = CHR ''0'' \<longrightarrow> length ds = 1)"

definition parseInt64 :: "string \<Rightarrow> int option" where
  "parseInt64 s =
     (let t = rev (dropWhile json_space (rev (dropWhile json_space s))) in
      if t = ''null'' then Some 0 else if json_digits (TrimPrefix t ''-'') then Atoi t else None)"

definition Admin_deleteRedirectURI :: "'r AdminEnv \<Rightarrow> 'r admin_handler" where
  "Admin_deleteRedirectURI e r a =
     (case parseInt64 (aq_PathValue r ''uriId'') of
        None \<Rightarrow> (validation_error ''Invalid redirect URI id.'' [], a)
      | Some i \<Rightarrow> run_store (DeleteRedirectURI (aq_PathValue r ''id'') i) no_content a)"

section \<open>Secrets\<close>

text \<open>The text of a secret appears in this reply only; its hash and a hint are stored.\<close>

definition hint_of :: "string \<Rightarrow> string" where
  "hint_of plaintext = take 3 plaintext @ [CHR 0xE2, CHR 0x80, CHR 0xA6] @ drop (length plaintext - 2) plaintext"

definition dec_secret_body :: "(string \<times> json) list \<Rightarrow> (string \<times> int) option" where
  "dec_secret_body ms = (case (str_field ms ''displayName'', int_field ms ''expiresInDays'') of (Some dn, Some d) \<Rightarrow> Some (dn, d) | _ \<Rightarrow> None)"

definition Admin_addSecret :: "'r AdminEnv \<Rightarrow> 'r admin_handler" where
  "Admin_addSecret e r a = with_row (GetApp (ad_Store a) (aq_PathValue r ''id'')) (\<lambda>_.
     with_body (optionalBody [''displayName'', ''expiresInDays''] dec_secret_body ([], 0) r) (\<lambda>(dn, days).
       let plaintext = ae_opaque e; now = admin_now e a in
       case ae_hash e 0 plaintext of
         None \<Rightarrow> (AdminError 500 ''internal_error'' ''hash error'' [], a)
       | Some h \<Rightarrow>
         let sec = \<lparr>sec_ID = ae_guid e 0, sec_AppID = aq_PathValue r ''id'', sec_DisplayName = dn, sec_SecretHash = h,
               sec_Hint = hint_of plaintext, sec_ExpiresAt = (if days > 0 then i64_add now (i64_mul days 86400) else 0), sec_CreatedAt = now\<rparr>
         in run_store (AddSecret sec) (\<lambda>_ _. AdminJSON 201
              [(''id'', JStr (sec_ID sec)), (''displayName'', nullable dn), (''hint'', JStr (sec_Hint sec)), (''secretText'', JStr plaintext),
               (''expiresAt'', iso (sec_ExpiresAt sec)), (''createdAt'', iso now)]) a) a) a"

definition Admin_deleteSecret :: "'r AdminEnv \<Rightarrow> 'r admin_handler" where
  "Admin_deleteSecret e r = run_store (DeleteSecret (aq_PathValue r ''id'') (aq_PathValue r ''secretId'')) no_content"

section \<open>Exposed scopes\<close>

text \<open>The loop over the rows keeps the last one with the id.\<close>

definition last_match :: "('x \<Rightarrow> bool) \<Rightarrow> 'x list \<Rightarrow> 'x option" where
  "last_match p xs = find p (rev xs)"

definition dec_scope_body :: "(string \<times> json) list \<Rightarrow> (string \<times> string \<times> bool option) option" where
  "dec_scope_body ms =
     (case (str_field ms ''value'', str_field ms ''adminConsentDisplayName'', bool_ptr ms ''isEnabled'') of
        (Some v, Some dn, Some en) \<Rightarrow> Some (v, dn, en) | _ \<Rightarrow> None)"

definition Admin_addScope :: "'r AdminEnv \<Rightarrow> 'r admin_handler" where
  "Admin_addScope e r a = with_row (GetApp (ad_Store a) (aq_PathValue r ''id'')) (\<lambda>_.
     with_body (decodeBody [''value'', ''adminConsentDisplayName'', ''isEnabled''] dec_scope_body r) (\<lambda>(v, dn, en).
       if v = [] then (validation_error ''value is required.'' [(''value'', ''Required.'')], a)
       else let sc = \<lparr>sc_ID = ae_guid e 0, sc_AppID = aq_PathValue r ''id'', sc_Value = v, sc_AdminConsentDisplayName = dn,
                sc_IsEnabled = or_else en True\<rparr>
         in run_store (AddScope sc) (\<lambda>_ _. AdminJSON 201 (scopeDTO sc)) a) a) a"

definition dec_scope_patch :: "(string \<times> json) list \<Rightarrow> (string option \<times> bool option) option" where
  "dec_scope_patch ms =
     (case (str_ptr ms ''adminConsentDisplayName'', bool_ptr ms ''isEnabled'') of (Some dn, Some en) \<Rightarrow> Some (dn, en) | _ \<Rightarrow> None)"

definition Admin_patchScope :: "'r AdminEnv \<Rightarrow> 'r admin_handler" where
  "Admin_patchScope e r a =
     (case last_match (\<lambda>sc. sc_ID sc = aq_PathValue r ''scopeId'') (ListScopes (ad_Store a) (aq_PathValue r ''id'')) of
        None \<Rightarrow> (AdminError 404 ''not_found'' ''Scope not found.'' [], a)
      | Some sc \<Rightarrow> with_body (decodeBody [''adminConsentDisplayName'', ''isEnabled''] dec_scope_patch r) (\<lambda>(dn, en).
          let sc1 = sc\<lparr>sc_AdminConsentDisplayName := or_else dn (sc_AdminConsentDisplayName sc), sc_IsEnabled := or_else en (sc_IsEnabled sc)\<rparr>
          in run_store (UpdateScope sc1) (\<lambda>_ _. AdminJSON 200 (scopeDTO sc1)) a) a)"

definition Admin_deleteScope :: "'r AdminEnv \<Rightarrow> 'r admin_handler" where
  "Admin_deleteScope e r = run_store (DeleteScope (aq_PathValue r ''id'') (aq_PathValue r ''scopeId'')) no_content"

section \<open>Roles\<close>

definition dec_role_body :: "(string \<times> json) list \<Rightarrow> (string \<times> string \<times> string list option \<times> bool option) option" where
  "dec_role_body ms =
     (case (str_field ms ''value'', str_field ms ''displayName'', strs_field ms ''allowedMemberTypes'', bool_ptr ms ''isEnabled'') of
        (Some v, Some dn, Some ts, Some en) \<Rightarrow> Some (v, dn, ts, en) | _ \<Rightarrow> None)"

definition Admin_addRole :: "'r AdminEnv \<Rightarrow> 'r admin_handler" where
  "Admin_addRole e r a = with_row (GetApp (ad_Store a) (aq_PathValue r ''id'')) (\<lambda>_.
     with_body (decodeBody [''value'', ''displayName'', ''allowedMemberTypes'', ''isEnabled''] dec_role_body r) (\<lambda>(v, dn, ts, en).
       if v = [] then (validation_error ''value is required.'' [(''value'', ''Required.'')], a)
       else let ro = \<lparr>ro_ID = ae_guid e 0, ro_AppID = aq_PathValue r ''id'', ro_Value = v, ro_DisplayName = dn,
                ro_AllowedMemberTypes = (if or_else ts [] = [] then ''Application'' else joinCSV (or_else ts [])), ro_IsEnabled = or_else en True\<rparr>
         in run_store (AddRole ro) (\<lambda>_ _. AdminJSON 201 (roleDTO ro)) a) a) a"

definition dec_role_patch :: "(string \<times> json) list \<Rightarrow> (string option \<times> string list option \<times> bool option) option" where
  "dec_role_patch ms =
     (case (str_ptr ms ''displayName'', strs_field ms ''allowedMemberTypes'', bool_ptr ms ''isEnabled'') of
        (Some dn, Some ts, Some en) \<Rightarrow> Some (dn, ts, en) | _ \<Rightarrow> None)"

definition Admin_patchRole :: "'r AdminEnv \<Rightarrow> 'r admin_handler" where
  "Admin_patchRole e r a =
     (case last_match (\<lambda>ro. ro_ID ro = aq_PathValue r ''roleId'') (ListRoles (ad_Store a) (aq_PathValue r ''id'')) of
        None \<Rightarrow> (AdminError 404 ''not_found'' ''Role not found.'' [], a)
      | Some ro \<Rightarrow> with_body (decodeBody [''displayName'', ''allowedMemberTypes'', ''isEnabled''] dec_role_patch r) (\<lambda>(dn, ts, en).
          let ro1 = ro\<lparr>ro_DisplayName := or_else dn (ro_DisplayName ro),
                ro_AllowedMemberTypes := (if or_else ts [] = [] then ro_AllowedMemberTypes ro else joinCSV (or_else ts [])),
                ro_IsEnabled := or_else en (ro_IsEnabled ro)\<rparr>
          in run_store (UpdateRole ro1) (\<lambda>_ _. AdminJSON 200 (roleDTO ro1)) a) a)"

definition Admin_deleteRole :: "'r AdminEnv \<Rightarrow> 'r admin_handler" where
  "Admin_deleteRole e r = run_store (DeleteRole (aq_PathValue r ''id'') (aq_PathValue r ''roleId'')) no_content"

section \<open>Key credentials\<close>

definition keyCredDTO :: "AppKeyCredential \<Rightarrow> shape" where
  "keyCredDTO c = [(''id'', JStr (kc_ID c)), (''displayName'', nullable (kc_DisplayName c)), (''createdAt'', iso (kc_CreatedAt c))]"

definition Admin_listKeyCredentials :: "'r AdminEnv \<Rightarrow> 'r admin_handler" where
  "Admin_listKeyCredentials e r a = with_row (GetApp (ad_Store a) (aq_PathValue r ''id''))
     (\<lambda>_. (paged_all (map keyCredDTO (ListAppKeyCredentials (ad_Store a) (aq_PathValue r ''id''))), a)) a"

definition dec_key_body :: "(string \<times> json) list \<Rightarrow> (string \<times> string) option" where
  "dec_key_body ms = (case (str_field ms ''publicKey'', str_field ms ''displayName'') of (Some k, Some dn) \<Rightarrow> Some (k, dn) | _ \<Rightarrow> None)"

definition Admin_addKeyCredential :: "'r AdminEnv \<Rightarrow> 'r admin_handler" where
  "Admin_addKeyCredential e r a = with_row (GetApp (ad_Store a) (aq_PathValue r ''id'')) (\<lambda>_.
     with_body (decodeBody [''publicKey'', ''displayName''] dec_key_body r) (\<lambda>(k, dn).
       if k = [] then (validation_error ''publicKey (PEM) is required.'' [], a)
       else let c = \<lparr>kc_ID = ae_guid e 0, kc_AppID = aq_PathValue r ''id'', kc_PublicKey = k, kc_DisplayName = dn, kc_CreatedAt = admin_now e a\<rparr>
         in run_store (AddAppKeyCredential c) (\<lambda>_ _. AdminJSON 201 (keyCredDTO c)) a) a) a"

definition Admin_deleteKeyCredential :: "'r AdminEnv \<Rightarrow> 'r admin_handler" where
  "Admin_deleteKeyCredential e r = run_store (DeleteAppKeyCredential (aq_PathValue r ''id'') (aq_PathValue r ''credId'')) no_content"

section \<open>Federated credentials\<close>

definition fedcredJSON :: "FederatedCredential \<Rightarrow> shape" where
  "fedcredJSON c = [(''id'', JStr (fc_ID c)), (''appId'', JStr (fc_AppID c)), (''name'', JStr (fc_Name c)), (''issuer'', JStr (fc_Issuer c)),
     (''subject'', JStr (fc_Subject c)), (''audiences'', nil_strs (fc_Audiences c))] @ omitempty ''description'' (fc_Description c)
     @ [(''createdAt'', JInt (fc_CreatedAt c))]"

definition Admin_listFederatedCredentials :: "'r AdminEnv \<Rightarrow> 'r admin_handler" where
  "Admin_listFederatedCredentials e r a = with_row (GetApp (ad_Store a) (aq_PathValue r ''id'')) (\<lambda>_.
     let creds = ListFederatedCredentials (ad_Store a) (aq_PathValue r ''id'') in
     (AdminJSON 200 [(''value'', JList (map (JObj \<circ> fedcredJSON) creds)), (''count'', jnat (length creds))], a)) a"

definition dec_fedcred_body :: "(string \<times> json) list \<Rightarrow> (string \<times> string \<times> string \<times> string list option \<times> string) option" where
  "dec_fedcred_body ms =
     (case (str_field ms ''name'', str_field ms ''issuer'', str_field ms ''subject'', strs_field ms ''audiences'', str_field ms ''description'') of
        (Some n, Some i, Some sb, Some au, Some d) \<Rightarrow> Some (n, i, sb, au, d) | _ \<Rightarrow> None)"

text \<open>\<^verbatim>\<open>CreateFederatedCredential\<close> writes the default audience into the struct the reply encodes.\<close>

definition with_audience :: "FederatedCredential \<Rightarrow> FederatedCredential" where
  "with_audience c = c\<lparr>fc_Audiences := (if fc_Audiences c = [] then [DefaultFederatedAudience] else fc_Audiences c)\<rparr>"

definition Admin_addFederatedCredential :: "'r AdminEnv \<Rightarrow> 'r admin_handler" where
  "Admin_addFederatedCredential e r a = with_row (GetApp (ad_Store a) (aq_PathValue r ''id'')) (\<lambda>_.
     with_body (decodeBody [''name'', ''issuer'', ''subject'', ''audiences'', ''description''] dec_fedcred_body r) (\<lambda>(n, i, sb, au, d).
       if n = [] \<or> i = [] \<or> sb = [] then (AdminError 400 ''invalid_request'' ''name, issuer and subject are required.'' [], a)
       else let c = \<lparr>fc_ID = ae_guid e 0, fc_AppID = aq_PathValue r ''id'', fc_Name = n, fc_Issuer = i, fc_Subject = sb,
                fc_Audiences = or_else au [], fc_Description = d, fc_CreatedAt = admin_now e a\<rparr>
         in run_store (CreateFederatedCredential c) (\<lambda>_ _. AdminJSON 201 (fedcredJSON (with_audience c))) a) a) a"

definition Admin_deleteFederatedCredential :: "'r AdminEnv \<Rightarrow> 'r admin_handler" where
  "Admin_deleteFederatedCredential e r = run_store (DeleteFederatedCredential (aq_PathValue r ''id'') (aq_PathValue r ''credId'')) no_content"

section \<open>Fabric workspace identities\<close>

definition workspaceIdentityDTO :: "WorkspaceIdentity \<Rightarrow> shape" where
  "workspaceIdentityDTO wi = [(''id'', JStr (wi_ID wi)), (''appId'', JStr (wi_AppID wi)), (''tenantId'', JStr (wi_TenantID wi)),
     (''workspaceId'', JStr (wi_WorkspaceID wi)), (''workspaceName'', JStr (wi_WorkspaceName wi)), (''state'', JStr (wi_State wi)),
     (''createdAt'', iso (wi_CreatedAt wi))]"

definition Admin_listWorkspaceIdentities :: "'r AdminEnv \<Rightarrow> 'r admin_handler" where
  "Admin_listWorkspaceIdentities e r a =
     (AdminJSON 200 [(''value'', JList (map (JObj \<circ> workspaceIdentityDTO) (ListWorkspaceIdentities (ad_Store a))))], a)"

definition Admin_getWorkspaceIdentity :: "'r AdminEnv \<Rightarrow> 'r admin_handler" where
  "Admin_getWorkspaceIdentity e r a = with_row (GetWorkspaceIdentity (ad_Store a) (aq_PathValue r ''id''))
     (\<lambda>wi. (AdminJSON 200 (workspaceIdentityDTO wi), a)) a"

record WorkspaceFields =
  wf_WorkspaceName :: "string option"
  wf_WorkspaceID :: "string option"
  wf_TenantID :: "string option"
  wf_State :: "string option"

definition workspace_fields :: "string list" where
  "workspace_fields = [''workspaceName'', ''workspaceId'', ''tenantId'', ''state'']"

definition no_workspace :: WorkspaceFields where
  "no_workspace = \<lparr>wf_WorkspaceName = None, wf_WorkspaceID = None, wf_TenantID = None, wf_State = None\<rparr>"

definition dec_WorkspaceFields :: "(string \<times> json) list \<Rightarrow> WorkspaceFields option" where
  "dec_WorkspaceFields ms =
     (case (str_ptr ms ''workspaceName'', str_ptr ms ''workspaceId'', str_ptr ms ''tenantId'', str_ptr ms ''state'') of
        (Some n, Some i, Some t, Some st) \<Rightarrow> Some \<lparr>wf_WorkspaceName = n, wf_WorkspaceID = i, wf_TenantID = t, wf_State = st\<rparr>
      | _ \<Rightarrow> None)"

definition Admin_createWorkspaceIdentity :: "'r AdminEnv \<Rightarrow> 'r admin_handler" where
  "Admin_createWorkspaceIdentity e r a = with_body (optionalBody workspace_fields dec_WorkspaceFields no_workspace r) (\<lambda>b.
     let given = TrimSpace (or_else (wf_WorkspaceName b) []); name = (if given = [] then ae_company e @ '' Analytics'' else given) in
     with_body (tenant_of_body e (ad_Store a) (wf_TenantID b)) (\<lambda>tid.
       let asked = TrimSpace (or_else (wf_WorkspaceID b) []); workspaceID = (if asked = [] then ae_guid e 0 else asked);
           now = admin_now e a; appID = ae_guid e 1;
           ap = \<lparr>a_ID = appID, a_TenantID = tid, a_DisplayName = name, a_IsConfidential = True, a_AppIDURI = [], a_OptionalClaims = [],
                 a_GroupMembershipClaims = [], a_GroupOverageLimit = 0, a_CreatedAt = now\<rparr>;
           wi = \<lparr>wi_ID = ae_guid e 2, wi_TenantID = tid, wi_AppID = appID, wi_WorkspaceID = workspaceID, wi_WorkspaceName = name,
                 wi_State = ''Active'', wi_CreatedAt = now\<rparr>
       in run_store (CreateWorkspaceIdentity wi ap) (\<lambda>_ _. AdminJSON 201 (workspaceIdentityDTO wi)) a) a) a"

definition Admin_patchWorkspaceIdentity :: "'r AdminEnv \<Rightarrow> 'r admin_handler" where
  "Admin_patchWorkspaceIdentity e r a = with_row (GetWorkspaceIdentity (ad_Store a) (aq_PathValue r ''id'')) (\<lambda>wi.
     with_body (decodeBody workspace_fields dec_WorkspaceFields r) (\<lambda>b.
       let given = TrimSpace (or_else (wf_WorkspaceName b) []); state = or_else (wf_State b) (wi_State wi);
           wi1 = wi\<lparr>wi_WorkspaceName := (if given = [] then wi_WorkspaceName wi else given), wi_State := state\<rparr>
       in if wf_State b \<noteq> None \<and> \<not> ValidWorkspaceIdentityState state
          then (validation_error ''Invalid workspace identity.'' [(''state'', ''Must be Active, Provisioning, Failed, or Deprovisioning.'')], a)
          else run_store (UpdateWorkspaceIdentity wi1) (\<lambda>_ _. AdminJSON 200 (workspaceIdentityDTO wi1)) a) a) a"

definition Admin_deleteWorkspaceIdentity :: "'r AdminEnv \<Rightarrow> 'r admin_handler" where
  "Admin_deleteWorkspaceIdentity e r = run_store (DeleteWorkspaceIdentity (aq_PathValue r ''id'')) no_content"

end
