(* ===== verification/Seed.thy ===== *)
theory Seed
  imports Minting Snapshot "HOL-Library.Sublist"
begin

text \<open>
  \<^verbatim>\<open>internal/store/seed.go\<close>: the deterministic directory, its reset, and the store's part of booting
  (\<^verbatim>\<open>cmd/entra-emulator/main.go\<close>). The hashes of the three seeded secrets are arguments (\<open>None\<close> when
  \<^verbatim>\<open>HashSecret\<close> failed), for \<^verbatim>\<open>scrypt\<close> salts them at random.
\<close>

section \<open>The statements of the seed\<close>

definition SeedUserAliceID :: string where "SeedUserAliceID = ''df8ec5dd-1599-45ef-908b-4ae020cd1dbe''"
definition SeedUserBobID :: string where "SeedUserBobID = ''0d4ba1f9-cab1-4200-b516-d4cb8b340930''"
definition SeedGroupEngID :: string where "SeedGroupEngID = ''54a9d08c-889d-489e-b534-336fe19dbfce''"
definition SeedAppSPAID :: string where "SeedAppSPAID = ''189c7070-78a3-4c13-aa18-20a2ca5755ca''"
definition SeedAppDaemonID :: string where "SeedAppDaemonID = ''00d88624-f0d7-46f6-a641-6232c2608928''"
definition SeedPassword :: string where "SeedPassword = ''Password1!''"
definition SeedDaemonSecret :: string where "SeedDaemonSecret = ''daemon-app-secret''"

definition secretHint :: "string \<Rightarrow> string" where
  "secretHint plaintext =
     (if length plaintext \<le> 5 then take 1 plaintext @ [CHR 0xE2, CHR 0x80, CHR 0xA6]
      else take 3 plaintext @ [CHR 0xE2, CHR 0x80, CHR 0xA6] @ drop (length plaintext - 2) plaintext)"

definition IsSeeded :: "Store \<Rightarrow> bool" where
  "IsSeeded s \<longleftrightarrow> length (users s) > 0"

definition seed_tenant :: "string \<Rightarrow> string \<Rightarrow> int \<Rightarrow> Tenant" where
  "seed_tenant tid issuer now = \<lparr>t_ID = tid, t_DisplayName = ''Entra Emulator'', t_Issuer = issuer, t_InitialDomain = [], t_CreatedAt = now\<rparr>"

text \<open>\<^verbatim>\<open>INSERT OR IGNORE\<close>: a row whose key is taken is skipped, a missing parent row is an error all the same.\<close>

definition insert_ignore :: "(Store \<Rightarrow> bool) \<Rightarrow> (Store \<Rightarrow> bool) \<Rightarrow> (Store \<Rightarrow> Store) \<Rightarrow> unit op" where
  "insert_ignore taken parents ins s =
     (if taken s then (Inr (), s) else if \<not> parents s then (Inl ErrForeignKey, s) else (Inr (), ins s))"

definition ins_tenant :: "Tenant \<Rightarrow> unit op" where
  "ins_tenant t = insert_ignore (\<lambda>s. has_tenant s (t_ID t)) (\<lambda>s. True) (\<lambda>s. s\<lparr>tenants := tenants s @ [t]\<rparr>)"

definition ins_user :: "User \<Rightarrow> unit op" where
  "ins_user u = insert_ignore (\<lambda>s. has_user s (u_ID u) \<or> list_ex (\<lambda>x. u_UserPrincipalName x = u_UserPrincipalName u) (users s))
     (\<lambda>s. has_tenant s (u_TenantID u)) (\<lambda>s. s\<lparr>users := users s @ [u]\<rparr>)"

definition ins_group :: "Group \<Rightarrow> unit op" where
  "ins_group g = insert_ignore (\<lambda>s. has_group s (g_ID g)) (\<lambda>s. has_tenant s (g_TenantID g)) (\<lambda>s. s\<lparr>groups := groups s @ [g]\<rparr>)"

definition ins_member :: "string \<times> string \<Rightarrow> unit op" where
  "ins_member m = insert_ignore (\<lambda>s. m \<in> set (group_members s)) (\<lambda>s. has_group s (fst m) \<and> has_user s (snd m))
     (\<lambda>s. s\<lparr>group_members := group_members s @ [m]\<rparr>)"

definition ins_app :: "App \<Rightarrow> unit op" where
  "ins_app ap = insert_ignore (\<lambda>s. has_app s (a_ID ap)) (\<lambda>s. has_tenant s (a_TenantID ap))
     (\<lambda>s. s\<lparr>app_registrations := app_registrations s @ [app_row ap]\<rparr>)"

definition ins_redirect :: "string \<Rightarrow> string \<Rightarrow> string \<Rightarrow> unit op" where
  "ins_redirect appID uri ty = insert_ignore (\<lambda>s. list_ex (\<lambda>r. ru_AppID r = appID \<and> ru_URI r = uri) (app_redirect_uris s)) (\<lambda>s. has_app s appID)
     (\<lambda>s. s\<lparr>app_redirect_uris := app_redirect_uris s @ [\<lparr>ru_ID = redirect_uri_seq s + 1, ru_AppID = appID, ru_URI = uri, ru_Type = ty\<rparr>],
            redirect_uri_seq := redirect_uri_seq s + 1\<rparr>)"

definition ins_scope :: "AppScope \<Rightarrow> unit op" where
  "ins_scope sc = insert_ignore (\<lambda>s. list_ex (\<lambda>r. sc_ID r = sc_ID sc \<or> sc_AppID r = sc_AppID sc \<and> sc_Value r = sc_Value sc) (app_scopes s))
     (\<lambda>s. has_app s (sc_AppID sc)) (\<lambda>s. s\<lparr>app_scopes := app_scopes s @ [sc]\<rparr>)"

definition ins_secret :: "AppSecret \<Rightarrow> unit op" where
  "ins_secret sec = insert_ignore (\<lambda>s. list_ex (\<lambda>r. sec_ID r = sec_ID sec) (app_secrets s)) (\<lambda>s. has_app s (sec_AppID sec))
     (\<lambda>s. s\<lparr>app_secrets := app_secrets s @ [sec]\<rparr>)"

definition ins_role :: "AppRole \<Rightarrow> unit op" where
  "ins_role ro = insert_ignore (\<lambda>s. list_ex (\<lambda>r. ro_ID r = ro_ID ro \<or> ro_AppID r = ro_AppID ro \<and> ro_Value r = ro_Value ro) (app_roles s))
     (\<lambda>s. has_app s (ro_AppID ro)) (\<lambda>s. s\<lparr>app_roles := app_roles s @ [ro]\<rparr>)"

definition seed_user :: "string \<Rightarrow> string \<Rightarrow> string \<Rightarrow> string \<Rightarrow> string \<Rightarrow> int \<Rightarrow> User" where
  "seed_user uid tid upn given pwd now = \<lparr>u_ID = uid, u_TenantID = tid, u_UserPrincipalName = upn, u_DisplayName = given @ '' Example'',
     u_GivenName = given, u_Surname = ''Example'', u_Mail = upn, u_PasswordHash = pwd, u_AccountEnabled = True, u_UserType = ''Member'',
     u_ExternalUserState = [], u_InviteRedirectURL = [], u_CreatedAt = now, u_UpdatedAt = now\<rparr>"

definition seed_app :: "string \<Rightarrow> string \<Rightarrow> string \<Rightarrow> bool \<Rightarrow> int \<Rightarrow> App" where
  "seed_app appID tid name conf now = \<lparr>a_ID = appID, a_TenantID = tid, a_DisplayName = name, a_IsConfidential = conf,
     a_AppIDURI = ''api://'' @ appID, a_OptionalClaims = [], a_GroupMembershipClaims = ''None'', a_GroupOverageLimit = 0, a_CreatedAt = now\<rparr>"

type_synonym seed_hashes = "string \<times> string \<times> string"

definition seed_statements :: "seed_hashes \<Rightarrow> int \<Rightarrow> string \<Rightarrow> string \<Rightarrow> unit op list" where
  "seed_statements hs now tid issuer =
     (case hs of (alicePwd, bobPwd, daemonHash) \<Rightarrow>
      [ins_tenant (seed_tenant tid issuer now),
       ins_user (seed_user SeedUserAliceID tid ''alice@entraemulator.dev'' ''Alice'' alicePwd now),
       ins_user (seed_user SeedUserBobID tid ''bob@entraemulator.dev'' ''Bob'' bobPwd now),
       ins_group \<lparr>g_ID = SeedGroupEngID, g_TenantID = tid, g_DisplayName = ''Engineering'', g_Description = ''Seeded engineering group'', g_CreatedAt = now\<rparr>,
       ins_member (SeedGroupEngID, SeedUserAliceID), ins_member (SeedGroupEngID, SeedUserBobID),
       ins_app (seed_app SeedAppSPAID tid ''Sample SPA'' False now),
       ins_redirect SeedAppSPAID ''https://localhost:3000'' ''spa'',
       ins_scope \<lparr>sc_ID = ''a8f36f17-b5e6-4c4d-a387-47e75c4de4b4'', sc_AppID = SeedAppSPAID, sc_Value = ''access_as_user'',
         sc_AdminConsentDisplayName = ''Access Sample SPA as the signed-in user'', sc_IsEnabled = True\<rparr>,
       ins_app (seed_app SeedAppDaemonID tid ''Sample Daemon'' True now),
       ins_secret \<lparr>sec_ID = ''a9b8116b-018c-4b45-b64f-e93d4b9e4f24'', sec_AppID = SeedAppDaemonID, sec_DisplayName = ''Seeded dev secret'',
         sec_SecretHash = daemonHash, sec_Hint = secretHint SeedDaemonSecret, sec_ExpiresAt = 0, sec_CreatedAt = now\<rparr>,
       ins_role \<lparr>ro_ID = ''df36982d-c8b3-4239-a1fb-4d8d72b7de2e'', ro_AppID = SeedAppDaemonID, ro_Value = ''Tasks.Read.All'',
         ro_DisplayName = ''Read all tasks'', ro_AllowedMemberTypes = ''Application'', ro_IsEnabled = True\<rparr>])"

fun run_statements :: "unit op list \<Rightarrow> unit op" where
  "run_statements [] s = (Inr (), s)"
| "run_statements (st # sts) s = (case st s of (Inl e, s1) \<Rightarrow> (Inl e, s1) | (Inr _, s1) \<Rightarrow> run_statements sts s1)"

section \<open>The operations\<close>

datatype seed_err = SeedStore store_err | SeedHash

definition EnsureTenant :: "string \<Rightarrow> string \<Rightarrow> int \<Rightarrow> Store \<Rightarrow> Store" where
  "EnsureTenant tid issuer now s = snd (ins_tenant (seed_tenant tid issuer now) s)"

definition Seed :: "seed_hashes option \<Rightarrow> int \<Rightarrow> string \<Rightarrow> string \<Rightarrow> Store \<Rightarrow> (seed_err + bool) \<times> Store" where
  "Seed hashes now tid issuer s =
     (case hashes of
        None \<Rightarrow> (Inl SeedHash, s)
      | Some hs \<Rightarrow>
        (case tx (run_statements (seed_statements hs now tid issuer)) s of
           (Inl err, s1) \<Rightarrow> (Inl (SeedStore err), s1)
         | (Inr _, s1) \<Rightarrow> (Inr (\<not> IsSeeded s), s1)))"

text \<open>The deleted tables are those of an import; the schema cascades the same rows.\<close>

definition Reset :: "seed_hashes option \<Rightarrow> int \<Rightarrow> string \<Rightarrow> string \<Rightarrow> bool \<Rightarrow> bool \<Rightarrow> Store \<Rightarrow> (seed_err + bool) \<times> Store" where
  "Reset hashes now tid issuer reseed resetKeys s =
     (let s1 = clear_directory s; s2 = (if resetKeys then s1\<lparr>signing_keys := []\<rparr> else s1) in
      if reseed then (case Seed hashes now tid issuer s2 of (Inl err, s3) \<Rightarrow> (Inl err, s3) | (Inr _, s3) \<Rightarrow> (Inr True, s3))
      else (Inr False, s2))"

text \<open>Booting: the tenant row, the seed unless it is switched off, the active signing key, the token service over them.\<close>

definition boot :: "Env \<Rightarrow> Config \<Rightarrow> seed_hashes option \<Rightarrow> bool \<Rightarrow> int \<Rightarrow> string \<Rightarrow> Store \<Rightarrow> (string + Service) \<times> Store" where
  "boot env cfg hashes seedOnStart now priv s =
     (let s1 = EnsureTenant (cf_TenantID cfg) (cf_Issuer cfg) now s;
          seeded = (if seedOnStart then Seed hashes now (cf_TenantID cfg) (cf_Issuer cfg) s1 else (Inr False, s1)) in
      case seeded of
        (Inl err, s2) \<Rightarrow> (Inl ''seed'', s2)
      | (Inr _, s2) \<Rightarrow>
        (case EnsureActiveKey env priv now (cf_TenantID cfg) s2 of
           (Inl err, s3) \<Rightarrow> (Inl ''signing key'', s3)
         | (Inr signer, s3) \<Rightarrow> (Inr \<lparr>sv_Store = s3, sv_Signer = signer, sv_tenantSigners = Map.empty\<rparr>, s3)))"

section \<open>The seed only adds rows\<close>

text \<open>A store that grew: the tables the seed writes have new rows at their ends, the others are the same.\<close>

definition unseeded :: "Store \<Rightarrow> Store" where
  "unseeded s = s\<lparr>tenants := [], users := [], groups := [], group_members := [], app_registrations := [], app_redirect_uris := [],
     redirect_uri_seq := 0, app_secrets := [], app_scopes := [], app_roles := []\<rparr>"

definition covers :: "Store \<Rightarrow> Store \<Rightarrow> bool" where
  "covers s s' \<longleftrightarrow>
     prefix (tenants s) (tenants s') \<and> prefix (users s) (users s') \<and> prefix (groups s) (groups s') \<and> prefix (group_members s) (group_members s')
     \<and> prefix (app_registrations s) (app_registrations s') \<and> prefix (app_redirect_uris s) (app_redirect_uris s') \<and> prefix (app_secrets s) (app_secrets s')
     \<and> prefix (app_scopes s) (app_scopes s') \<and> prefix (app_roles s) (app_roles s')"

definition grown :: "Store \<Rightarrow> Store \<Rightarrow> bool" where
  "grown s s' \<longleftrightarrow> unseeded s' = unseeded s \<and> covers s s'"

lemma covers_refl [simp]: "covers s s" and grown_refl [simp]: "grown s s"
  by (simp_all add: covers_def grown_def)

lemma covers_trans: "covers s s1 \<Longrightarrow> covers s1 s2 \<Longrightarrow> covers s s2"
  unfolding covers_def by (auto intro: prefix_order.trans)

lemma grown_trans: "grown s s1 \<Longrightarrow> grown s1 s2 \<Longrightarrow> grown s s2"
  unfolding grown_def by (auto intro: covers_trans)

lemma grown_covers: "grown s s1 \<Longrightarrow> covers s s1"
  by (simp add: grown_def)

text \<open>\<open>st'\<close> finds its row where \<open>st\<close> has run, and keeps finding it while the store grows.\<close>

definition settles :: "unit op \<Rightarrow> unit op \<Rightarrow> bool" where
  "settles st st' \<longleftrightarrow> (\<forall>s s1. st s = (Inr (), s1) \<longrightarrow> grown s s1 \<and> (\<forall>s2. covers s1 s2 \<longrightarrow> st' s2 = (Inr (), s2)))"

lemma settlesI:
  assumes "\<And>s. \<not> taken s \<Longrightarrow> grown s (ins s) \<and> taken (ins s)" and "\<And>s s2. covers s s2 \<Longrightarrow> taken s \<Longrightarrow> taken s2"
  shows "settles (insert_ignore taken parents ins) (insert_ignore taken parents2 ins2)"
  using assms unfolding settles_def insert_ignore_def by (auto split: if_splits)

lemma covers_sets:
  assumes "covers s s2"
  shows "x0 \<in> set (tenants s) \<Longrightarrow> x0 \<in> set (tenants s2)"
    and "x1 \<in> set (users s) \<Longrightarrow> x1 \<in> set (users s2)"
    and "x2 \<in> set (groups s) \<Longrightarrow> x2 \<in> set (groups s2)"
    and "x3 \<in> set (group_members s) \<Longrightarrow> x3 \<in> set (group_members s2)"
    and "x4 \<in> set (app_registrations s) \<Longrightarrow> x4 \<in> set (app_registrations s2)"
    and "x5 \<in> set (app_redirect_uris s) \<Longrightarrow> x5 \<in> set (app_redirect_uris s2)"
    and "x6 \<in> set (app_secrets s) \<Longrightarrow> x6 \<in> set (app_secrets s2)"
    and "x7 \<in> set (app_scopes s) \<Longrightarrow> x7 \<in> set (app_scopes s2)"
    and "x8 \<in> set (app_roles s) \<Longrightarrow> x8 \<in> set (app_roles s2)"
  using assms by (auto simp: covers_def dest: set_mono_prefix)

lemma settles_statements:
  "t_ID t = t_ID t2 \<Longrightarrow> settles (ins_tenant t) (ins_tenant t2)"
  "u_ID u = u_ID u2 \<Longrightarrow> u_UserPrincipalName u = u_UserPrincipalName u2 \<Longrightarrow> settles (ins_user u) (ins_user u2)"
  "g_ID g = g_ID g2 \<Longrightarrow> settles (ins_group g) (ins_group g2)"
  "settles (ins_member m) (ins_member m)"
  "a_ID a = a_ID a2 \<Longrightarrow> settles (ins_app a) (ins_app a2)"
  "settles (ins_redirect i uri ty) (ins_redirect i uri ty2)"
  "sc_ID c = sc_ID c2 \<Longrightarrow> sc_AppID c = sc_AppID c2 \<Longrightarrow> sc_Value c = sc_Value c2 \<Longrightarrow> settles (ins_scope c) (ins_scope c2)"
  "sec_ID k = sec_ID k2 \<Longrightarrow> settles (ins_secret k) (ins_secret k2)"
  "ro_ID r = ro_ID r2 \<Longrightarrow> ro_AppID r = ro_AppID r2 \<Longrightarrow> ro_Value r = ro_Value r2 \<Longrightarrow> settles (ins_role r) (ins_role r2)"
  unfolding ins_tenant_def ins_user_def ins_group_def ins_member_def ins_app_def ins_redirect_def ins_scope_def ins_secret_def ins_role_def has_defs list_ex_iff
  by ((simp only:)?, rule settlesI, simp add: grown_def covers_def unseeded_def app_row_def App.defs, blast dest: covers_sets)+

lemma run_ConsE:
  assumes "run_statements (st # sts) s = (Inr (), s1)"
  obtains sm where "st s = (Inr (), sm)" and "run_statements sts sm = (Inr (), s1)"
  using assms by (auto split: sum.splits prod.splits)

lemma run_statements_settled:
  assumes "list_all2 settles sts sts'" and "run_statements sts s = (Inr (), s1)"
  shows "grown s s1 \<and> (\<forall>s2. covers s1 s2 \<longrightarrow> run_statements sts' s2 = (Inr (), s2))"
  using assms
proof (induction arbitrary: s rule: list_all2_induct)
  case (Cons st sts st' sts')
  from Cons.prems obtain sm where sm: "st s = (Inr (), sm)" "run_statements sts sm = (Inr (), s1)" by (rule run_ConsE)
  from Cons.hyps(1) sm(1) have 1: "grown s sm" "\<And>s2. covers sm s2 \<Longrightarrow> st' s2 = (Inr (), s2)" by (auto simp: settles_def)
  from Cons.IH[OF sm(2)] have 2: "grown sm s1" "\<And>s2. covers s1 s2 \<Longrightarrow> run_statements sts' s2 = (Inr (), s2)" by auto
  show ?case using 1(1) 2 1(2)[OF covers_trans[OF grown_covers[OF 2(1)]]] by (auto intro: grown_trans)
qed simp

lemma seed_settles: "list_all2 settles (seed_statements hs now tid issuer) (seed_statements hs2 now2 tid issuer2)"
  by (cases hs, cases hs2) (simp add: seed_statements_def settles_statements seed_tenant_def seed_user_def seed_app_def)

text \<open>
  Seeding changes and deletes nothing: on any store it either fails and leaves the store as it was, or adds rows at
  the ends of its tables; seeding again for the same tenant, at any later time and with whatever salts, then reports
  nothing to do and changes nothing.
\<close>

theorem seed_idempotent:
  assumes "Seed (Some hs) now tid issuer s = (res, s1)"
  shows "case res of
      Inl err \<Rightarrow> s1 = s
    | Inr fresh \<Rightarrow> (fresh \<longleftrightarrow> users s = []) \<and> grown s s1 \<and> Seed (Some hs2) now2 tid issuer2 s1 = (Inr False, s1)"
proof (cases "run_statements (seed_statements hs now tid issuer) s")
  case (Pair r s')
  show ?thesis
  proof (cases r)
    case (Inl err)
    then show ?thesis using assms Pair by (auto simp: Seed_def tx_def)
  next
    case (Inr u)
    then have run: "run_statements (seed_statements hs now tid issuer) s = (Inr (), s')" using Pair by simp
    then have res: "res = Inr (\<not> IsSeeded s)" "s1 = s'" using assms by (auto simp: Seed_def tx_def)
    from run_statements_settled[OF seed_settles run, of hs2 now2 issuer2] res(2)
    have g: "grown s s1" and again: "run_statements (seed_statements hs2 now2 tid issuer2) s1 = (Inr (), s1)" by auto
    have "IsSeeded s1"
    proof -
      obtain pwd rest where st: "seed_statements hs now tid issuer = ins_tenant (seed_tenant tid issuer now)
          # ins_user (seed_user SeedUserAliceID tid ''alice@entraemulator.dev'' ''Alice'' pwd now) # rest"
        by (cases hs) (simp add: seed_statements_def)
      from run_ConsE[OF run[unfolded st]] obtain sa where "run_statements (ins_user (seed_user SeedUserAliceID tid ''alice@entraemulator.dev'' ''Alice'' pwd now) # rest) sa = (Inr (), s')"
        by blast
      from run_ConsE[OF this] obtain sb where 1: "ins_user (seed_user SeedUserAliceID tid ''alice@entraemulator.dev'' ''Alice'' pwd now) sa = (Inr (), sb)"
        and 2: "run_statements rest sb = (Inr (), s1)" using res(2) by blast
      from 1 have "users sb \<noteq> []" by (auto simp: ins_user_def insert_ignore_def has_defs split: if_splits)
      moreover have "list_all2 settles rest rest"
        using seed_settles[of hs now tid issuer hs now issuer] unfolding st by simp
      with run_statements_settled[OF _ 2] have "grown sb s1" by blast
      ultimately show ?thesis by (auto simp: IsSeeded_def grown_def covers_def prefix_def)
    qed
    with g again res(1) show ?thesis by (simp add: Seed_def tx_def IsSeeded_def)
  qed
qed

section \<open>Booting and restarting\<close>

lemma ins_tenant_has: "ins_tenant t s = (Inr (), s1) \<Longrightarrow> has_tenant s1 (t_ID t)"
  by (auto simp: ins_tenant_def insert_ignore_def has_defs split: if_splits)

lemma EnsureTenant_ok:
  "covers s (EnsureTenant tid issuer now s)" "has_tenant (EnsureTenant tid issuer now s) tid"
  "signing_keys (EnsureTenant tid issuer now s) = signing_keys s"
  "has_tenant s tid \<Longrightarrow> EnsureTenant tid issuer now s = s"
  by (simp_all add: EnsureTenant_def ins_tenant_def insert_ignore_def seed_tenant_def covers_def has_defs)

lemma grown_keys: "grown s s1 \<Longrightarrow> signing_keys s1 = signing_keys s"
  by (auto simp: grown_def unseeded_def dest: arg_cong[where f = signing_keys])

lemma Seed_again:
  assumes "Seed (Some hs) now tid issuer s = (Inr b, s1)" and "covers s1 s2"
  shows "grown s s1" and "Seed (Some hs2) now2 tid issuer2 s2 = (Inr (\<not> IsSeeded s2), s2)"
proof -
  have run: "run_statements (seed_statements hs now tid issuer) s = (Inr (), s1)"
    using assms(1) by (auto simp: Seed_def tx_def split: sum.splits prod.splits)
  from run_statements_settled[OF seed_settles run, of hs2 now2 issuer2] assms(2)
  show "grown s s1" "Seed (Some hs2) now2 tid issuer2 s2 = (Inr (\<not> IsSeeded s2), s2)" by (auto simp: Seed_def tx_def)
qed

lemma EnsureActiveKey_again:
  assumes "crypto_laws env" and "EnsureActiveKey env priv now tid s = (Inr sg, s1)"
  shows "covers s s1 \<and> EnsureActiveKey env priv2 now2 tid s1 = (Inr sg, s1)"
proof (cases "GetActiveSigningKey s tid")
  case (Inr k)
  then show ?thesis using assms(2) by (auto simp: EnsureActiveKey_def split: option.splits)
next
  case (Inl e)
  obtain kid jwk where pj: "publicJWKFor env (env_public env priv) = (kid, jwk)" by fastforce
  have none: "sql_first (\<lambda>k. k_TenantID k = tid \<and> k_IsActive k) (signing_keys s) = None"
    using Inl by (auto simp: GetActiveSigningKey_def one_row_def split: option.splits)
  have gen: "generateAndActivate env priv now tid s = (Inr sg, s1)" using assms(2) Inl by (auto simp: EnsureActiveKey_def split: if_splits)
  let ?k = "\<lparr>k_Kid = kid, k_TenantID = tid, k_Alg = ''RS256'', k_PublicJWK = jwk, k_PrivatePKCS8 = env_pem_encode env priv,
     k_IsActive = True, k_CreatedAt = now, k_NotAfter = Some 0\<rparr>"
  from gen pj have s1: "s1 = s\<lparr>signing_keys := signing_keys s @ [norm_key ?k]\<rparr>" "sg = \<lparr>sg_Kid = kid, sg_PrivateKey = priv\<rparr>"
    by (auto simp: generateAndActivate_def InsertSigningKey_def split: if_splits)
  have "sql_first (\<lambda>k. k_TenantID k = tid \<and> k_IsActive k) (signing_keys s @ [norm_key ?k]) = Some (norm_key ?k)"
    by (simp add: sql_first_append none) (simp add: norm_key_def)
  then have "GetActiveSigningKey s1 tid = Inr (norm_key ?k)" by (simp add: GetActiveSigningKey_def one_row_def s1(1))
  then show ?thesis using assms(1) by (simp add: EnsureActiveKey_def norm_key_def crypto_laws_def s1 covers_def)
qed

text \<open>The key a service is started with is the tenant's active one: found so in the table, or just generated.\<close>

lemma EnsureActiveKey_active:
  assumes "crypto_laws env" and "keys_ok env s" and "EnsureActiveKey env priv now tid s = (Inr sg, s')"
  shows "\<exists>k \<in> set (signing_keys s'). k_TenantID k = tid \<and> k_IsActive k \<and> k_Kid k = sg_Kid sg
    \<and> k_PublicJWK k = snd (publicJWKFor env (env_public env (sg_PrivateKey sg)))"
proof (cases "GetActiveSigningKey s tid")
  case (Inl e)
  then have g: "generateAndActivate env priv now tid s = (Inr sg, s')" using assms(3) by (auto simp: EnsureActiveKey_def split: if_splits)
  obtain kid jwk where pj: "publicJWKFor env (env_public env priv) = (kid, jwk)" by fastforce
  from g pj show ?thesis
    by (auto simp: generateAndActivate_def InsertSigningKey_def norm_key_def split: if_splits)
next
  case (Inr k)
  then have k: "k \<in> set (signing_keys s)" "k_TenantID k = tid" "k_IsActive k"
    by (auto simp: GetActiveSigningKey_def one_row_def split: option.splits dest: sql_first_Some)
  have sg: "s' = s" "sg_Kid sg = k_Kid k" "env_pem_decode env (k_PrivatePKCS8 k) = Some (sg_PrivateKey sg)"
    using assms(3) Inr by (auto simp: EnsureActiveKey_def split: option.splits)
  have "key_row_ok env k" using assms(2) k(1) by (simp add: keys_ok_def)
  with sg(3) have "k_PublicJWK k = snd (publicJWKFor env (env_public env (sg_PrivateKey sg)))" by (simp add: key_row_ok_def)
  with k sg show ?thesis by metis
qed

lemma active_published: "k \<in> set (signing_keys s) \<Longrightarrow> k_TenantID k = tid \<Longrightarrow> k_IsActive k \<Longrightarrow> k \<in> set (ListPublishableKeys s tid t)"
  by (simp add: ListPublishableKeys_def publishable_def)

text \<open>
  C31. A started emulator restarts unchanged: whatever well-formed key table it found, a service that booted runs on the
  store it left behind, has its home tenant, kept every row it found, and signs with a key whose row is an active one of
  the home tenant, names the signer's key id and public key, and is in the published key set at every time; booting again
  from that store, later and with other random material, succeeds, writes nothing and signs with the same key, so what
  was issued before the restart is still accepted after it.
\<close>

theorem boot_restart:
  assumes "crypto_laws env" and "keys_ok env s" and "boot env cfg (Some hs) seedOnStart now priv s = (Inr sv, s1)"
  shows "sv_Store sv = s1 \<and> service_ok env sv \<and> has_tenant s1 (cf_TenantID cfg) \<and> covers s s1
    \<and> (\<exists>k \<in> set (signing_keys s1). k_TenantID k = cf_TenantID cfg \<and> k_IsActive k \<and> k_Kid k = sg_Kid (sv_Signer sv)
        \<and> k_PublicJWK k = snd (publicJWKFor env (env_public env (sg_PrivateKey (sv_Signer sv))))
        \<and> (\<forall>t. k \<in> set (ListPublishableKeys s1 (cf_TenantID cfg) t)))
    \<and> boot env cfg (Some hs2) seedOnStart now2 priv2 s1 = (Inr sv, s1)"
proof -
  let ?tid = "cf_TenantID cfg" and ?s1 = "EnsureTenant (cf_TenantID cfg) (cf_Issuer cfg) now s"
  obtain b s2 where seeded: "(if seedOnStart then Seed (Some hs) now ?tid (cf_Issuer cfg) ?s1 else (Inr False, ?s1)) = (Inr b, s2)"
    using assms(3) by (auto simp: boot_def Let_def split: sum.splits prod.splits)
  with assms(3) obtain sg where key: "EnsureActiveKey env priv now ?tid s2 = (Inr sg, s1)" "sv = \<lparr>sv_Store = s1, sv_Signer = sg, sv_tenantSigners = Map.empty\<rparr>"
    by (auto simp: boot_def Let_def split: sum.splits prod.splits)
  have g: "grown ?s1 s2" using seeded Seed_again(1)[OF _ covers_refl] by (auto split: if_splits)
  note again = EnsureActiveKey_again[OF assms(1) key(1), of priv2 now2]
  have c: "covers s s1" using EnsureTenant_ok(1) grown_covers[OF g] again by (blast intro: covers_trans)
  have "covers ?s1 s1" using grown_covers[OF g] again by (blast intro: covers_trans)
  from EnsureTenant_ok(2)[where tid = ?tid] covers_sets(1)[OF this] have t: "has_tenant s1 ?tid" unfolding has_defs list_ex_iff by blast
  have k2: "keys_ok env s2" using assms(2) grown_keys[OF g] by (simp add: keys_ok_def EnsureTenant_ok(3))
  from service_start[OF assms(1) k2 key(1)] have ok: "service_ok env sv" using key(2) by simp
  from EnsureActiveKey_active[OF assms(1) k2 key(1)] obtain k where k: "k \<in> set (signing_keys s1)" "k_TenantID k = ?tid" "k_IsActive k"
    "k_Kid k = sg_Kid sg" "k_PublicJWK k = snd (publicJWKFor env (env_public env (sg_PrivateKey sg)))" by blast
  have act: "\<exists>k \<in> set (signing_keys s1). k_TenantID k = ?tid \<and> k_IsActive k \<and> k_Kid k = sg_Kid (sv_Signer sv)
      \<and> k_PublicJWK k = snd (publicJWKFor env (env_public env (sg_PrivateKey (sv_Signer sv))))
      \<and> (\<forall>t. k \<in> set (ListPublishableKeys s1 ?tid t))"
    using k active_published[OF k(1-3)] key(2) by (intro bexI[of _ k]) auto
  have "(if seedOnStart then Seed (Some hs2) now2 ?tid (cf_Issuer cfg) s1 else (Inr False, s1)) = (Inr (seedOnStart \<and> \<not> IsSeeded s1), s1)"
    using seeded Seed_again(2)[of hs now ?tid "cf_Issuer cfg" ?s1 b s2 s1] again by (auto split: if_splits)
  then have "boot env cfg (Some hs2) seedOnStart now2 priv2 s1 = (Inr sv, s1)"
    using again by (simp add: boot_def EnsureTenant_ok(4)[OF t] key(2) Let_def)
  with act ok t c show ?thesis by (simp add: key(2))
qed

lemma boot_first:
  assumes "signing_keys s = []" and "Seed (Some hs) now (cf_TenantID cfg) (cf_Issuer cfg) (EnsureTenant (cf_TenantID cfg) (cf_Issuer cfg) now s) = (Inr b, s2)"
  shows "\<exists>sv s3. boot env cfg (Some hs) True now priv s = (Inr sv, s3) \<and> users s3 = users s2"
proof -
  have g: "grown (EnsureTenant (cf_TenantID cfg) (cf_Issuer cfg) now s) s2" using Seed_again(1)[OF assms(2) covers_refl] .
  have k: "signing_keys s2 = []" using grown_keys[OF g] assms(1) by (simp add: EnsureTenant_ok(3))
  have t: "has_tenant s2 (cf_TenantID cfg)"
    using EnsureTenant_ok(2)[where tid = "cf_TenantID cfg"] covers_sets(1)[OF grown_covers[OF g]] unfolding has_defs list_ex_iff by blast
  show ?thesis
    by (simp add: boot_def assms(2) EnsureActiveKey_def GetActiveSigningKey_def one_row_def sql_first_def generateAndActivate_def InsertSigningKey_def k t
      split: prod.splits)
qed

theorem boot_restart_witness:
  "\<exists>sv. boot (env0 claims1) config0 (Some (''a'', ''b'', ''d'')) True 1 ''priv'' empty_store = (Inr sv, sv_Store sv) \<and> IsSeeded (sv_Store sv)
     \<and> boot (env0 claims1) config0 (Some (''x'', ''y'', ''z'')) True 9 ''other'' (sv_Store sv) = (Inr sv, sv_Store sv)"
proof -
  let ?s = "Seed (Some (''a'', ''b'', ''d'')) 1 (cf_TenantID config0) (cf_Issuer config0) (EnsureTenant (cf_TenantID config0) (cf_Issuer config0) 1 empty_store)"
  have "case fst ?s of Inl e \<Rightarrow> False | Inr b \<Rightarrow> IsSeeded (snd ?s)" by code_simp
  then obtain b s2 where s2: "?s = (Inr b, s2)" "IsSeeded s2" by (cases ?s) (auto split: sum.splits)
  have "signing_keys empty_store = []" by (simp add: empty_store_def)
  from boot_first[OF this s2(1)] s2(2) obtain sv s1 where
    b: "boot (env0 claims1) config0 (Some (''a'', ''b'', ''d'')) True 1 ''priv'' empty_store = (Inr sv, s1)" "IsSeeded s1"
    by (metis IsSeeded_def)
  have "keys_ok (env0 claims1) empty_store" by (simp add: keys_ok_def empty_store_def)
  from boot_restart[OF crypto_laws_env0 this b(1)] b show ?thesis by blast
qed

definition seeded0 :: Store where
  "seeded0 = snd (Seed (Some (''a'', ''b'', ''d'')) 1 ''t'' ''iss'' empty_store)"

theorem seed_idempotent_witness:
  "users seeded0 \<noteq> [] \<and> grown empty_store seeded0 \<and> Seed (Some (''x'', ''y'', ''z'')) 7 ''t'' ''iss2'' seeded0 = (Inr False, seeded0)"
proof -
  have "fst (Seed (Some (''a'', ''b'', ''d'')) 1 ''t'' ''iss'' empty_store) = Inr True" by code_simp
  then have s: "Seed (Some (''a'', ''b'', ''d'')) 1 ''t'' ''iss'' empty_store = (Inr True, seeded0)" unfolding seeded0_def by (metis prod.collapse)
  have "users seeded0 \<noteq> []" unfolding seeded0_def by code_simp
  with seed_idempotent[OF s, of "(''x'', ''y'', ''z'')" 7 "''iss2''"] show ?thesis by simp
qed

end
