(* ===== verification/AdminControl.thy ===== *)
theory AdminControl
  imports AdminCore Seed
begin

text \<open>
  The handlers that control the emulator: health, seed, reset and certificate (\<^verbatim>\<open>admin.go\<close>), clock (\<^verbatim>\<open>clock.go\<close>), fault
  injection (\<^verbatim>\<open>faults.go\<close>), sign-in log (\<^verbatim>\<open>audit.go\<close>), key rotation (\<^verbatim>\<open>keyrotation.go\<close>), the token forge (\<^verbatim>\<open>forge.go\<close>),
  outbound provisioning (\<^verbatim>\<open>scim.go\<close>) and custom extensions (\<^verbatim>\<open>customext.go\<close>).
\<close>

section \<open>System\<close>

definition Admin_handleHealth :: "'r AdminEnv \<Rightarrow> 'r admin_handler" where
  "Admin_handleHealth e r a =
     (AdminJSON 200 [(''status'', JStr ''ok''), (''version'', JStr (ae_Version e)), (''uptimeSeconds'', JInt (ae_uptime e)),
        (''tls'', JBool (ae_TLS e)), (''tenantId'', JStr (cf_TenantID (ae_cfg e))),
        (''origins'', JObj [(''login'', JStr (cf_Login (ae_cfg e))), (''portal'', JStr (ae_Portal e)), (''graph'', JStr (cf_Graph (ae_cfg e)))])], a)"

definition admin_hashes :: "'r AdminEnv \<Rightarrow> seed_hashes option" where
  "admin_hashes e =
     (case (ae_hash e 0 SeedPassword, ae_hash e 1 SeedPassword, ae_hash e 2 SeedDaemonSecret) of
        (Some x, Some y, Some z) \<Rightarrow> Some (x, y, z) | _ \<Rightarrow> None)"

definition seed_reply :: "seed_err \<Rightarrow> admin_reply" where
  "seed_reply err = (case err of SeedHash \<Rightarrow> AdminError 500 ''internal_error'' ''hash error'' [] | SeedStore se \<Rightarrow> writeStoreErr se)"

definition Admin_seed :: "'r AdminEnv \<Rightarrow> 'r admin_handler" where
  "Admin_seed e r a = with_body (optionalBody [''force''] (\<lambda>ms. bool_field ms ''force'') False r) (\<lambda>force.
     if IsSeeded (ad_Store a) \<and> \<not> force then (AdminJSON 200 [(''seeded'', JBool False)], a)
     else case Seed (admin_hashes e) (admin_now e a) (cf_TenantID (ae_cfg e)) (cf_Issuer (ae_cfg e)) (ad_Store a) of
       (Inl err, s1) \<Rightarrow> (seed_reply err, put_store s1 a)
     | (Inr _, s1) \<Rightarrow> (AdminJSON 200 [(''seeded'', JBool True)], put_store s1 a)) a"

definition dec_reset_body :: "(string \<times> json) list \<Rightarrow> (bool option \<times> bool) option" where
  "dec_reset_body ms = (case (bool_ptr ms ''reseed'', bool_field ms ''resetKeys'') of (Some rs, Some rk) \<Rightarrow> Some (rs, rk) | _ \<Rightarrow> None)"

definition Admin_reset :: "'r AdminEnv \<Rightarrow> 'r admin_handler" where
  "Admin_reset e r a = with_body (optionalBody [''reseed'', ''resetKeys''] dec_reset_body (None, False) r) (\<lambda>(rs, resetKeys).
     case Reset (admin_hashes e) (admin_now e a) (cf_TenantID (ae_cfg e)) (cf_Issuer (ae_cfg e)) (or_else rs True) resetKeys (ad_Store a) of
       (Inl err, s1) \<Rightarrow> (seed_reply err, put_store s1 a)
     | (Inr reseeded, s1) \<Rightarrow> (AdminJSON 200 [(''reset'', JBool True), (''reseeded'', JBool reseeded)], put_store s1 a)) a"

definition no_certificate :: admin_reply where
  "no_certificate = AdminError 404 ''not_found'' ''TLS is disabled; no certificate.'' []"

definition Admin_certificateMeta :: "'r AdminEnv \<Rightarrow> 'r admin_handler" where
  "Admin_certificateMeta e r a =
     (case ae_Cert e of
        None \<Rightarrow> (no_certificate, a)
      | Some c \<Rightarrow>
        (case ct_fingerprint c of
           None \<Rightarrow> (AdminError 500 ''internal_error'' ''fingerprint'' [], a)
         | Some fp \<Rightarrow> (AdminJSON 200 [(''fingerprintSHA256'', JStr fp), (''certPath'', JStr (ct_path c)), (''baseDomain'', JStr (ae_BaseDomain e))], a)))"

definition Admin_certificatePEM :: "'r AdminEnv \<Rightarrow> 'r admin_handler" where
  "Admin_certificatePEM e r a =
     (case ae_Cert e of None \<Rightarrow> (no_certificate, a) | Some c \<Rightarrow> (AdminFile ''entra-emulator-cert.pem'' (ct_pem c), a))"

section \<open>Clock\<close>

definition clockJSON :: "ClockState \<Rightarrow> shape" where
  "clockJSON c = [(''offsetSeconds'', JInt (cs_OffsetSeconds c)), (''frozen'', JBool (cs_Frozen c)), (''now'', JInt (cs_Now c)),
     (''nowISO'', JStr (cs_NowISO c))]"

definition Admin_getClock :: "'r AdminEnv \<Rightarrow> 'r admin_handler" where
  "Admin_getClock e r a = (AdminJSON 200 (clockJSON (Clock_State (ae_wall e) (ad_Clock a))), a)"

definition dec_clock_body :: "(string \<times> json) list \<Rightarrow> (int option \<times> int option \<times> bool option) option" where
  "dec_clock_body ms =
     (case (int_ptr ms ''offsetSeconds'', int_ptr ms ''advanceSeconds'', bool_ptr ms ''frozen'') of
        (Some off, Some adv, Some fr) \<Rightarrow> Some (off, adv, fr) | _ \<Rightarrow> None)"

text \<open>The fields are applied in order: offset, advance, freeze or unfreeze.\<close>

definition apply_clock :: "int \<Rightarrow> int option \<times> int option \<times> bool option \<Rightarrow> Clock \<Rightarrow> Clock" where
  "apply_clock wall b c =
     (case b of (off, adv, fr) \<Rightarrow>
        let c1 = (case off of None \<Rightarrow> c | Some n \<Rightarrow> Clock_SetOffset n c);
            c2 = (case adv of None \<Rightarrow> c1 | Some n \<Rightarrow> Clock_Advance n c1)
        in case fr of None \<Rightarrow> c2 | Some f \<Rightarrow> if f then Clock_Freeze wall c2 else Clock_Unfreeze wall c2)"

definition Admin_setClock :: "'r AdminEnv \<Rightarrow> 'r admin_handler" where
  "Admin_setClock e r a = with_body (decodeBody [''offsetSeconds'', ''advanceSeconds'', ''frozen''] dec_clock_body r) (\<lambda>b.
     let c = apply_clock (ae_wall e) b (ad_Clock a) in
     (AdminJSON 200 (clockJSON (Clock_State (ae_wall e) c)), a\<lparr>ad_Clock := c\<rparr>)) a"

definition Admin_resetClock :: "'r AdminEnv \<Rightarrow> 'r admin_handler" where
  "Admin_resetClock e r a = (AdminEmpty 204, a\<lparr>ad_Clock := Clock_Reset (ad_Clock a)\<rparr>)"

section \<open>Fault injection\<close>

definition Admin_getFaults :: "'r AdminEnv \<Rightarrow> 'r admin_handler" where
  "Admin_getFaults e r a = (AdminFaults (ad_Faults a), a)"

definition dec_number :: "'r AdminEnv \<Rightarrow> json \<Rightarrow> real option" where
  "dec_number e v = (case v of JInt _ \<Rightarrow> ae_float e v | JFrac _ \<Rightarrow> ae_float e v | _ \<Rightarrow> None)"

definition dec_FaultConfig :: "'r AdminEnv \<Rightarrow> (string \<times> json) list \<Rightarrow> FaultConfig option" where
  "dec_FaultConfig e ms =
     (case (str_field ms ''tokenError'', str_field ms ''tokenErrorDescription'', int_field ms ''tokenLatencyMs'',
            store_value (dec_number e) 0 (members ms ''probability'')) of
        (Some te, Some td, Some lat, Some p) \<Rightarrow>
          Some \<lparr>fa_TokenError = te, fa_TokenErrorDescription = td, fa_TokenLatencyMs = lat, fa_Probability = p\<rparr>
      | _ \<Rightarrow> None)"

definition Admin_setFaults :: "'r AdminEnv \<Rightarrow> 'r admin_handler" where
  "Admin_setFaults e r a = with_body (decodeBody [''tokenError'', ''tokenErrorDescription'', ''tokenLatencyMs'', ''probability''] (dec_FaultConfig e) r) (\<lambda>cfg.
     if fa_TokenLatencyMs cfg < 0 then (validation_error ''tokenLatencyMs must be non-negative.'' [], a)
     else if fa_Probability cfg < 0 \<or> fa_Probability cfg > 1 then (validation_error ''probability must be within [0,1].'' [], a)
     else let f = Faults_Set cfg (ad_Faults a) in (AdminFaults f, a\<lparr>ad_Faults := f\<rparr>)) a"

definition Admin_clearFaults :: "'r AdminEnv \<Rightarrow> 'r admin_handler" where
  "Admin_clearFaults e r a = (AdminEmpty 204, a\<lparr>ad_Faults := Faults_Clear (ad_Faults a)\<rparr>)"

section \<open>The sign-in log\<close>

definition no_event :: Event where
  "no_event = \<lparr>ev_EventID = [], ev_Time = 0, ev_TimeISO = [], ev_Flow = [], ev_GrantType = [], ev_ClientID = [], ev_UserID = [],
     ev_UserPrincipalName = [], ev_Status = 0, ev_OK = False, ev_Error = [], ev_Reason = []\<rparr>"

definition Admin_getAudit :: "'r AdminEnv \<Rightarrow> 'r admin_handler" where
  "Admin_getAudit e r a =
     (let limit = (case Atoi (aq_Query r ''limit'') of Some v \<Rightarrow> if v > 0 then v else 100 | None \<Rightarrow> 100) in
      (AdminEvents (Recorder_List limit (ad_Audit a)), a))"

definition Admin_clearAudit :: "'r AdminEnv \<Rightarrow> 'r admin_handler" where
  "Admin_clearAudit e r a = (AdminEmpty 204, a\<lparr>ad_Audit := Recorder_Clear no_event (ad_Audit a)\<rparr>)"

section \<open>Signing keys\<close>

definition Admin_rotateSigningKey :: "'r AdminEnv \<Rightarrow> 'r admin_handler" where
  "Admin_rotateSigningKey e r a = with_body (optionalBody [''graceSeconds''] (\<lambda>ms. int_ptr ms ''graceSeconds'') None r) (\<lambda>g.
     let grace = or_else g 3600 in
     if grace < 0 then (validation_error ''graceSeconds must be non-negative.'' [], a)
     else case Rotate (ae_env e) (ae_cfg e) (admin_now e a) (ae_priv e) grace (ad_Tokens a) of
       (Inl err, sv) \<Rightarrow> (AdminError 500 ''internal_error'' (err_text err) [], a\<lparr>ad_Tokens := sv\<rparr>)
     | (Inr kid, sv) \<Rightarrow>
       (AdminJSON 200 [(''activeKid'', JStr kid),
          (''publishedCount'', jnat (length (ListPublishableKeys (sv_Store sv) (cf_TenantID (ae_cfg e)) (admin_now e a)))),
          (''graceSeconds'', JInt grace)], a\<lparr>ad_Tokens := sv\<rparr>)) a"

section \<open>The token forge\<close>

record forgeRequest =
  fr_TokenType :: string
  fr_ClientID :: string
  fr_UserID :: string
  fr_Scopes :: "string list"
  fr_Roles :: "string list"
  fr_Audience :: string
  fr_ExpiresInSeconds :: "int option"
  fr_NotBeforeSeconds :: "int option"
  fr_Nonce :: string
  fr_ExtraClaims :: "(string \<times> json) list"
  fr_Signature :: string

definition forge_fields :: "string list" where
  "forge_fields = [''tokenType'', ''clientId'', ''userId'', ''scopes'', ''roles'', ''audience'', ''expiresInSeconds'', ''notBeforeSeconds'',
     ''nonce'', ''extraClaims'', ''signature'']"

definition no_forge :: forgeRequest where
  "no_forge = \<lparr>fr_TokenType = [], fr_ClientID = [], fr_UserID = [], fr_Scopes = [], fr_Roles = [], fr_Audience = [], fr_ExpiresInSeconds = None,
     fr_NotBeforeSeconds = None, fr_Nonce = [], fr_ExtraClaims = [], fr_Signature = []\<rparr>"

definition dec_forge :: "(string \<times> json) list \<Rightarrow> forgeRequest option" where
  "dec_forge ms =
     (case (str_field ms ''tokenType'', str_field ms ''clientId'', str_field ms ''userId'', strs_field ms ''scopes'', strs_field ms ''roles'',
            str_field ms ''audience'', int_ptr ms ''expiresInSeconds'', int_ptr ms ''notBeforeSeconds'') of
        (Some tt, Some cid, Some uid, Some scs, Some ros, Some aud, Some ex, Some nb) \<Rightarrow>
          (case (str_field ms ''nonce'', claims_field [] (members ms ''extraClaims''), str_field ms ''signature'') of
             (Some nonce, Some extra, Some sig) \<Rightarrow>
               Some \<lparr>fr_TokenType = tt, fr_ClientID = cid, fr_UserID = uid, fr_Scopes = or_else scs [], fr_Roles = or_else ros [], fr_Audience = aud,
                     fr_ExpiresInSeconds = ex, fr_NotBeforeSeconds = nb, fr_Nonce = nonce, fr_ExtraClaims = extra, fr_Signature = sig\<rparr>
           | _ \<Rightarrow> None)
      | _ \<Rightarrow> None)"

definition forge_type :: "forgeRequest \<Rightarrow> string" where
  "forge_type req = (if fr_TokenType req = [] then ''access'' else fr_TokenType req)"

definition user_claims :: "'r AdminEnv \<Rightarrow> App \<Rightarrow> User \<Rightarrow> claims" where
  "user_claims e ap u =
     [''sub'' \<mapsto> CStr (PairwiseSub (ae_env e) (ae_cfg e) (u_ID u) (a_ID ap) (a_TenantID ap)), ''oid'' \<mapsto> CStr (u_ID u)]"

text \<open>The claims before the request's extra claims override them; the last map wins.\<close>

definition forge_base :: "'r AdminEnv \<Rightarrow> int \<Rightarrow> forgeRequest \<Rightarrow> App \<Rightarrow> User option \<Rightarrow> claims" where
  "forge_base e now req ap user =
     (let common = [''iss'' \<mapsto> CStr (cf_Issuer (ae_cfg e)), ''iat'' \<mapsto> CInt now, ''nbf'' \<mapsto> CInt (i64_add now (or_else (fr_NotBeforeSeconds req) 0)),
            ''exp'' \<mapsto> CInt (i64_add now (or_else (fr_ExpiresInSeconds req) 3600)), ''tid'' \<mapsto> CStr (cf_TenantID (ae_cfg e)), ''ver'' \<mapsto> CStr ''2.0''] in
      if forge_type req = ''id'' then
        (let c = common(''aud'' \<mapsto> CStr (a_ID ap));
             c1 = (case user of None \<Rightarrow> c
               | Some u \<Rightarrow> set_if (u_Mail u \<noteq> []) ''email'' (CStr (u_Mail u))
                   ((c ++ user_claims e ap u)(''name'' \<mapsto> CStr (u_DisplayName u), ''preferred_username'' \<mapsto> CStr (u_UserPrincipalName u))))
         in set_if (fr_Nonce req \<noteq> []) ''nonce'' (CStr (fr_Nonce req)) c1)
      else
        (let aud = (if fr_Audience req = [] then cf_GraphResourceID (ae_cfg e) else fr_Audience req);
             c = common(''aud'' \<mapsto> CStr aud, ''azp'' \<mapsto> CStr (a_ID ap), ''appid'' \<mapsto> CStr (a_ID ap))
         in case user of
              Some u \<Rightarrow> (c ++ user_claims e ap u)(''scp'' \<mapsto> CStr (Join (fr_Scopes req) '' ''))
            | None \<Rightarrow> c(''sub'' \<mapsto> CStr (a_ID ap), ''roles'' \<mapsto> CStrs (fr_Roles req))))"

definition forge_claims :: "'r AdminEnv \<Rightarrow> int \<Rightarrow> forgeRequest \<Rightarrow> App \<Rightarrow> User option \<Rightarrow> claims" where
  "forge_claims e now req ap user = forge_base e now req ap user ++ (map_option claim_of_json \<circ> map_of (fr_ExtraClaims req))"

definition forge_user :: "Store \<Rightarrow> forgeRequest \<Rightarrow> admin_reply + User option" where
  "forge_user s req =
     (if fr_UserID req = [] then Inr None
      else case GetUser s (fr_UserID req) of
        Inl err \<Rightarrow> Inl (AdminError 400 ''invalid_reference'' ''userId does not resolve to a user.'' [])
      | Inr u \<Rightarrow> Inr (Some u))"

text \<open>Signed by the active key, or, under its key id, by a throwaway key.\<close>

definition Admin_forgeToken :: "'r AdminEnv \<Rightarrow> 'r admin_handler" where
  "Admin_forgeToken e r a = with_body (optionalBody forge_fields dec_forge no_forge r) (\<lambda>req.
     case GetApp (ad_Store a) (if fr_ClientID req = [] then SeedAppSPAID else fr_ClientID req) of
       Inl err \<Rightarrow> (AdminError 400 ''invalid_reference'' ''clientId does not resolve to a registered app.'' [], a)
     | Inr ap \<Rightarrow> with_body (forge_user (ad_Store a) req) (\<lambda>user.
         let claims = forge_claims e (admin_now e a) req ap user; signer = sv_Signer (ad_Tokens a) in
         case (if fr_Signature req = ''invalid'' then ae_bogus e else Some (sg_PrivateKey signer)) of
           None \<Rightarrow> (AdminError 500 ''internal_error'' ''key generation'' [], a)
         | Some key \<Rightarrow>
           (case SignRS256 (ae_env e) key (sg_Kid signer) claims of
              Inl err \<Rightarrow> (AdminError 500 ''internal_error'' (err_text err) [], a)
            | Inr jwt \<Rightarrow> (AdminForged jwt (forge_type req) (sg_Kid signer) claims, a))) a) a"

section \<open>Outbound provisioning\<close>

definition targetJSON :: "Target \<Rightarrow> bool \<Rightarrow> shape" where
  "targetJSON t ok = [(''configured'', JBool ok), (''endpoint'', JStr (tg_Endpoint t))]"

definition Admin_getScimTarget :: "'r AdminEnv \<Rightarrow> 'r admin_handler" where
  "Admin_getScimTarget e r a = (case Provisioner_Target (ad_Provisioner a) of (t, ok) \<Rightarrow> (AdminJSON 200 (targetJSON t ok), a))"

definition dec_Target :: "(string \<times> json) list \<Rightarrow> Target option" where
  "dec_Target ms =
     (case (str_field ms ''endpoint'', str_field ms ''token'') of (Some ep, Some tok) \<Rightarrow> Some \<lparr>tg_Endpoint = ep, tg_Token = tok\<rparr> | _ \<Rightarrow> None)"

definition Admin_setScimTarget :: "'r AdminEnv \<Rightarrow> 'r admin_handler" where
  "Admin_setScimTarget e r a = with_body (decodeBody [''endpoint'', ''token''] dec_Target r) (\<lambda>t.
     if tg_Endpoint t = [] then (validation_error ''endpoint is required.'' [], a)
     else (AdminJSON 200 (targetJSON t True), a\<lparr>ad_Provisioner := SetTarget t (ad_Provisioner a)\<rparr>)) a"

definition Admin_clearScimTarget :: "'r AdminEnv \<Rightarrow> 'r admin_handler" where
  "Admin_clearScimTarget e r a = (AdminEmpty 204, a\<lparr>ad_Provisioner := ClearTarget (ad_Provisioner a)\<rparr>)"

definition resultJSON :: "SyncResult \<Rightarrow> shape" where
  "resultJSON sr = [(''mode'', JStr (sr_Mode sr)), (''created'', jnat (sr_Created sr)), (''updated'', jnat (sr_Updated sr)),
     (''deprovisioned'', jnat (sr_Deprovisioned sr)), (''skipped'', jnat (sr_Skipped sr)), (''failed'', jnat (sr_Failed sr)),
     (''groupsCreated'', jnat (sr_GroupsCreated sr)), (''groupsUpdated'', jnat (sr_GroupsUpdated sr))]"

definition Admin_scimSync :: "'r AdminEnv \<Rightarrow> 'r admin_handler" where
  "Admin_scimSync e r a = with_body (optionalBody [''mode''] (\<lambda>ms. str_field ms ''mode'') [] r) (\<lambda>m.
     case Sync (ae_remote e) (admin_now e a) (if m = [] then ''initial'' else m) (ad_Store a) (ad_Provisioner a) (ad_Remote a) of (res, p, w) \<Rightarrow>
       ((case res of Inl err \<Rightarrow> AdminError 400 ''not_configured'' err [] | Inr sr \<Rightarrow> AdminJSON 200 (resultJSON sr)),
        a\<lparr>ad_Provisioner := p, ad_Remote := w\<rparr>)) a"

definition logJSON :: "LogEntry \<Rightarrow> shape" where
  "logJSON l = [(''time'', JInt (le_Time l)), (''resource'', JStr (le_Resource l)), (''subject'', JStr (le_Subject l)),
     (''action'', JStr (le_Action l)), (''method'', JStr (le_Method l)), (''path'', JStr (le_Path l)), (''status'', JInt (le_Status l))]
     @ omitempty ''detail'' (le_Detail l)"

definition Admin_getScimLog :: "'r AdminEnv \<Rightarrow> 'r admin_handler" where
  "Admin_getScimLog e r a = (AdminJSON 200 [(''value'', JList (map (JObj \<circ> logJSON) (Provisioner_Log (ad_Provisioner a))))], a)"

definition Admin_clearScimLog :: "'r AdminEnv \<Rightarrow> 'r admin_handler" where
  "Admin_clearScimLog e r a = (AdminEmpty 204, a\<lparr>ad_Provisioner := ClearLog (ad_Provisioner a)\<rparr>)"

section \<open>Custom extensions\<close>

definition extJSON :: "ExtConfig \<Rightarrow> shape" where
  "extJSON c = [(''endpoint'', JStr (xc_Endpoint c))] @ (if xc_Claims c = [] then [] else [(''claims'', JList (map JStr (xc_Claims c)))])
     @ (if xc_TimeoutMs c = 0 then [] else [(''timeoutMs'', JInt (xc_TimeoutMs c))])"

definition Admin_listCustomExtensions :: "'r AdminEnv \<Rightarrow> 'r admin_handler" where
  "Admin_listCustomExtensions e r a =
     (AdminJSON 200 [(''value'', JObj (map (\<lambda>(k, c). (k, JObj (extJSON c))) (ExtStore_All (ad_CustomExt a))))], a)"

definition dec_ExtConfig :: "(string \<times> json) list \<Rightarrow> ExtConfig option" where
  "dec_ExtConfig ms =
     (case (str_field ms ''endpoint'', strs_field ms ''claims'', int_field ms ''timeoutMs'') of
        (Some ep, Some cs, Some t) \<Rightarrow> Some \<lparr>xc_Endpoint = ep, xc_Claims = or_else cs [], xc_TimeoutMs = t\<rparr> | _ \<Rightarrow> None)"

definition Admin_setCustomExtension :: "'r AdminEnv \<Rightarrow> 'r admin_handler" where
  "Admin_setCustomExtension e r a = with_row (GetApp (ad_Store a) (aq_PathValue r ''id'')) (\<lambda>_.
     with_body (decodeBody [''endpoint'', ''claims'', ''timeoutMs''] dec_ExtConfig r) (\<lambda>c.
       if xc_Endpoint c = [] then (validation_error ''endpoint is required.'' [], a)
       else (AdminJSON 200 (extJSON c), a\<lparr>ad_CustomExt := ExtStore_Set (aq_PathValue r ''id'') c (ad_CustomExt a)\<rparr>)) a) a"

definition Admin_deleteCustomExtension :: "'r AdminEnv \<Rightarrow> 'r admin_handler" where
  "Admin_deleteCustomExtension e r a = (AdminEmpty 204, a\<lparr>ad_CustomExt := ExtStore_Delete (aq_PathValue r ''id'') (ad_CustomExt a)\<rparr>)"

end
