(* ===== verification/AdminSnapshot.thy ===== *)
theory AdminSnapshot
  imports AdminCore "HOL-Library.Multiset"
begin

text \<open>
  \<^verbatim>\<open>internal/admin/export.go\<close>: the directory as a JSON fixture. \<^verbatim>\<open>json.Marshal\<close> of the snapshot (the structs carry no
  tags, a field is named as in Go, a nil slice is \<^verbatim>\<open>null\<close>) and its strict decoding; what is decoded may hold nil
  pointers where the snapshot has none.
\<close>

section \<open>Encoding\<close>

definition userJSON :: "User \<Rightarrow> json" where
  "userJSON u = JObj [(''ID'', JStr (u_ID u)), (''TenantID'', JStr (u_TenantID u)), (''UserPrincipalName'', JStr (u_UserPrincipalName u)),
     (''DisplayName'', JStr (u_DisplayName u)), (''GivenName'', JStr (u_GivenName u)), (''Surname'', JStr (u_Surname u)), (''Mail'', JStr (u_Mail u)),
     (''PasswordHash'', JStr (u_PasswordHash u)), (''AccountEnabled'', JBool (u_AccountEnabled u)), (''UserType'', JStr (u_UserType u)),
     (''ExternalUserState'', JStr (u_ExternalUserState u)), (''InviteRedirectURL'', JStr (u_InviteRedirectURL u)),
     (''CreatedAt'', JInt (u_CreatedAt u)), (''UpdatedAt'', JInt (u_UpdatedAt u))]"

definition groupJSON :: "Group \<Rightarrow> json" where
  "groupJSON g = JObj [(''ID'', JStr (g_ID g)), (''TenantID'', JStr (g_TenantID g)), (''DisplayName'', JStr (g_DisplayName g)),
     (''Description'', JStr (g_Description g)), (''CreatedAt'', JInt (g_CreatedAt g))]"

definition membershipJSON :: "string \<times> string \<Rightarrow> json" where
  "membershipJSON m = JObj [(''groupId'', JStr (fst m)), (''userId'', JStr (snd m))]"

definition appJSON :: "App \<Rightarrow> json" where
  "appJSON ap = JObj [(''ID'', JStr (a_ID ap)), (''TenantID'', JStr (a_TenantID ap)), (''DisplayName'', JStr (a_DisplayName ap)),
     (''IsConfidential'', JBool (a_IsConfidential ap)), (''AppIDURI'', JStr (a_AppIDURI ap)), (''OptionalClaims'', JStr (a_OptionalClaims ap)),
     (''GroupMembershipClaims'', JStr (a_GroupMembershipClaims ap)), (''GroupOverageLimit'', JInt (a_GroupOverageLimit ap)),
     (''CreatedAt'', JInt (a_CreatedAt ap))]"

definition redirectJSON :: "RedirectURI \<Rightarrow> json" where
  "redirectJSON r = JObj [(''ID'', JInt (ru_ID r)), (''AppID'', JStr (ru_AppID r)), (''URI'', JStr (ru_URI r)), (''Type'', JStr (ru_Type r))]"

definition secretJSON :: "AppSecret \<Rightarrow> json" where
  "secretJSON r = JObj [(''ID'', JStr (sec_ID r)), (''AppID'', JStr (sec_AppID r)), (''DisplayName'', JStr (sec_DisplayName r)),
     (''SecretHash'', JStr (sec_SecretHash r)), (''Hint'', JStr (sec_Hint r)), (''ExpiresAt'', JInt (sec_ExpiresAt r)), (''CreatedAt'', JInt (sec_CreatedAt r))]"

definition scopeJSON :: "AppScope \<Rightarrow> json" where
  "scopeJSON r = JObj [(''ID'', JStr (sc_ID r)), (''AppID'', JStr (sc_AppID r)), (''Value'', JStr (sc_Value r)),
     (''AdminConsentDisplayName'', JStr (sc_AdminConsentDisplayName r)), (''IsEnabled'', JBool (sc_IsEnabled r))]"

definition roleJSON :: "AppRole \<Rightarrow> json" where
  "roleJSON r = JObj [(''ID'', JStr (ro_ID r)), (''AppID'', JStr (ro_AppID r)), (''Value'', JStr (ro_Value r)), (''DisplayName'', JStr (ro_DisplayName r)),
     (''AllowedMemberTypes'', JStr (ro_AllowedMemberTypes r)), (''IsEnabled'', JBool (ro_IsEnabled r))]"

definition nil_list :: "('x \<Rightarrow> json) \<Rightarrow> 'x list \<Rightarrow> json" where
  "nil_list enc xs = (if xs = [] then JNull else JList (map enc xs))"

definition appExportJSON :: "AppExport \<Rightarrow> json" where
  "appExportJSON x = JObj [(''app'', appJSON (ae_App x)), (''redirectUris'', nil_list redirectJSON (ae_RedirectURIs x)),
     (''secrets'', nil_list secretJSON (ae_Secrets x)), (''scopes'', nil_list scopeJSON (ae_Scopes x)), (''roles'', nil_list roleJSON (ae_Roles x))]"

definition snapshotJSON :: "DirectorySnapshot \<Rightarrow> shape" where
  "snapshotJSON x = [(''version'', JInt (dx_Version x)), (''users'', nil_list userJSON (dx_Users x)), (''groups'', nil_list groupJSON (dx_Groups x)),
     (''groupMembers'', nil_list membershipJSON (dx_GroupMembers x)), (''apps'', nil_list appExportJSON (dx_Apps x))]"

section \<open>Decoding\<close>

definition user_names :: "string list" where
  "user_names = [''ID'', ''TenantID'', ''UserPrincipalName'', ''DisplayName'', ''GivenName'', ''Surname'', ''Mail'', ''PasswordHash'', ''AccountEnabled'',
     ''UserType'', ''ExternalUserState'', ''InviteRedirectURL'', ''CreatedAt'', ''UpdatedAt'']"

definition dec_User :: "json \<Rightarrow> User option" where
  "dec_User v =
     (case strict_object user_names v of
        None \<Rightarrow> None
      | Some ms \<Rightarrow>
        (case (str_field ms ''ID'', str_field ms ''TenantID'', str_field ms ''UserPrincipalName'', str_field ms ''DisplayName'',
               str_field ms ''GivenName'', str_field ms ''Surname'', str_field ms ''Mail'') of
           (Some i, Some t, Some upn, Some dn, Some gn, Some sn, Some ml) \<Rightarrow>
             (case (str_field ms ''PasswordHash'', bool_field ms ''AccountEnabled'', str_field ms ''UserType'', str_field ms ''ExternalUserState'',
                    str_field ms ''InviteRedirectURL'', int_field ms ''CreatedAt'', int_field ms ''UpdatedAt'') of
                (Some pw, Some en, Some ty, Some es, Some ivr, Some cr, Some upd) \<Rightarrow>
                  Some \<lparr>u_ID = i, u_TenantID = t, u_UserPrincipalName = upn, u_DisplayName = dn, u_GivenName = gn, u_Surname = sn, u_Mail = ml,
                        u_PasswordHash = pw, u_AccountEnabled = en, u_UserType = ty, u_ExternalUserState = es, u_InviteRedirectURL = ivr,
                        u_CreatedAt = cr, u_UpdatedAt = upd\<rparr>
              | _ \<Rightarrow> None)
         | _ \<Rightarrow> None))"

definition dec_Group :: "json \<Rightarrow> Group option" where
  "dec_Group v =
     (case strict_object [''ID'', ''TenantID'', ''DisplayName'', ''Description'', ''CreatedAt''] v of
        None \<Rightarrow> None
      | Some ms \<Rightarrow>
        (case (str_field ms ''ID'', str_field ms ''TenantID'', str_field ms ''DisplayName'', str_field ms ''Description'', int_field ms ''CreatedAt'') of
           (Some i, Some t, Some dn, Some de, Some cr) \<Rightarrow> Some \<lparr>g_ID = i, g_TenantID = t, g_DisplayName = dn, g_Description = de, g_CreatedAt = cr\<rparr>
         | _ \<Rightarrow> None))"

definition dec_membership :: "json \<Rightarrow> (string \<times> string) option" where
  "dec_membership v =
     (case strict_object [''groupId'', ''userId''] v of
        None \<Rightarrow> None
      | Some ms \<Rightarrow> (case (str_field ms ''groupId'', str_field ms ''userId'') of (Some g, Some u) \<Rightarrow> Some (g, u) | _ \<Rightarrow> None))"

definition app_names :: "string list" where
  "app_names = [''ID'', ''TenantID'', ''DisplayName'', ''IsConfidential'', ''AppIDURI'', ''OptionalClaims'', ''GroupMembershipClaims'',
     ''GroupOverageLimit'', ''CreatedAt'']"

definition dec_App :: "json \<Rightarrow> App option" where
  "dec_App v =
     (case strict_object app_names v of
        None \<Rightarrow> None
      | Some ms \<Rightarrow>
        (case (str_field ms ''ID'', str_field ms ''TenantID'', str_field ms ''DisplayName'', bool_field ms ''IsConfidential'', str_field ms ''AppIDURI'',
               str_field ms ''OptionalClaims'', str_field ms ''GroupMembershipClaims'', int_field ms ''GroupOverageLimit'', int_field ms ''CreatedAt'') of
           (Some i, Some t, Some dn, Some co, Some uri, Some oc, Some gm, Some go, Some cr) \<Rightarrow>
             Some \<lparr>a_ID = i, a_TenantID = t, a_DisplayName = dn, a_IsConfidential = co, a_AppIDURI = uri, a_OptionalClaims = oc,
                   a_GroupMembershipClaims = gm, a_GroupOverageLimit = go, a_CreatedAt = cr\<rparr>
         | _ \<Rightarrow> None))"

definition dec_RedirectURI :: "json \<Rightarrow> RedirectURI option" where
  "dec_RedirectURI v =
     (case strict_object [''ID'', ''AppID'', ''URI'', ''Type''] v of
        None \<Rightarrow> None
      | Some ms \<Rightarrow>
        (case (int_field ms ''ID'', str_field ms ''AppID'', str_field ms ''URI'', str_field ms ''Type'') of
           (Some i, Some ap, Some uri, Some ty) \<Rightarrow> Some \<lparr>ru_ID = i, ru_AppID = ap, ru_URI = uri, ru_Type = ty\<rparr> | _ \<Rightarrow> None))"

definition secret_names :: "string list" where
  "secret_names = [''ID'', ''AppID'', ''DisplayName'', ''SecretHash'', ''Hint'', ''ExpiresAt'', ''CreatedAt'']"

definition dec_AppSecret :: "json \<Rightarrow> AppSecret option" where
  "dec_AppSecret v =
     (case strict_object secret_names v of
        None \<Rightarrow> None
      | Some ms \<Rightarrow>
        (case (str_field ms ''ID'', str_field ms ''AppID'', str_field ms ''DisplayName'', str_field ms ''SecretHash'', str_field ms ''Hint'',
               int_field ms ''ExpiresAt'', int_field ms ''CreatedAt'') of
           (Some i, Some ap, Some dn, Some sh, Some hi, Some ex, Some cr) \<Rightarrow>
             Some \<lparr>sec_ID = i, sec_AppID = ap, sec_DisplayName = dn, sec_SecretHash = sh, sec_Hint = hi, sec_ExpiresAt = ex, sec_CreatedAt = cr\<rparr>
         | _ \<Rightarrow> None))"

definition dec_AppScope :: "json \<Rightarrow> AppScope option" where
  "dec_AppScope v =
     (case strict_object [''ID'', ''AppID'', ''Value'', ''AdminConsentDisplayName'', ''IsEnabled''] v of
        None \<Rightarrow> None
      | Some ms \<Rightarrow>
        (case (str_field ms ''ID'', str_field ms ''AppID'', str_field ms ''Value'', str_field ms ''AdminConsentDisplayName'', bool_field ms ''IsEnabled'') of
           (Some i, Some ap, Some vl, Some dn, Some en) \<Rightarrow>
             Some \<lparr>sc_ID = i, sc_AppID = ap, sc_Value = vl, sc_AdminConsentDisplayName = dn, sc_IsEnabled = en\<rparr>
         | _ \<Rightarrow> None))"

definition dec_AppRole :: "json \<Rightarrow> AppRole option" where
  "dec_AppRole v =
     (case strict_object [''ID'', ''AppID'', ''Value'', ''DisplayName'', ''AllowedMemberTypes'', ''IsEnabled''] v of
        None \<Rightarrow> None
      | Some ms \<Rightarrow>
        (case (str_field ms ''ID'', str_field ms ''AppID'', str_field ms ''Value'', str_field ms ''DisplayName'', str_field ms ''AllowedMemberTypes'',
               bool_field ms ''IsEnabled'') of
           (Some i, Some ap, Some vl, Some dn, Some mt, Some en) \<Rightarrow>
             Some \<lparr>ro_ID = i, ro_AppID = ap, ro_Value = vl, ro_DisplayName = dn, ro_AllowedMemberTypes = mt, ro_IsEnabled = en\<rparr>
         | _ \<Rightarrow> None))"

text \<open>A pointer: \<^verbatim>\<open>null\<close> is nil; objects of repeated names are decoded into the same struct.\<close>

definition dec_ptr :: "(json \<Rightarrow> 'x option) \<Rightarrow> json \<Rightarrow> 'x option option" where
  "dec_ptr dec v = (if v = JNull then Some None else map_option Some (dec v))"

fun obj_ptr :: "(string \<times> json) list option \<Rightarrow> json list \<Rightarrow> (string \<times> json) list option option" where
  "obj_ptr cur [] = Some cur"
| "obj_ptr cur (v # vs) =
     (case v of JNull \<Rightarrow> obj_ptr None vs | JObj ms \<Rightarrow> obj_ptr (Some (or_else cur [] @ ms)) vs | _ \<Rightarrow> None)"

record RawApp =
  rx_App :: "App option"
  rx_RedirectURIs :: "RedirectURI option list"
  rx_Secrets :: "AppSecret option list"
  rx_Scopes :: "AppScope option list"
  rx_Roles :: "AppRole option list"

record RawSnapshot =
  rs_Users :: "User option list"
  rs_Groups :: "Group option list"
  rs_GroupMembers :: "(string \<times> string) list"
  rs_Apps :: "RawApp list"

definition dec_app_field :: "(string \<times> json) list \<Rightarrow> App option option" where
  "dec_app_field ms =
     (case obj_ptr None (members ms ''app'') of
        None \<Rightarrow> None
      | Some None \<Rightarrow> Some None
      | Some (Some fs) \<Rightarrow> map_option Some (dec_App (JObj fs)))"

definition dec_RawApp :: "json \<Rightarrow> RawApp option" where
  "dec_RawApp v =
     (case strict_object [''app'', ''redirectUris'', ''secrets'', ''scopes'', ''roles''] v of
        None \<Rightarrow> None
      | Some ms \<Rightarrow>
        (case (dec_app_field ms, list_field (dec_ptr dec_RedirectURI) ms ''redirectUris'', list_field (dec_ptr dec_AppSecret) ms ''secrets'',
               list_field (dec_ptr dec_AppScope) ms ''scopes'', list_field (dec_ptr dec_AppRole) ms ''roles'') of
           (Some ap, Some rus, Some secs, Some scs, Some ros) \<Rightarrow>
             Some \<lparr>rx_App = ap, rx_RedirectURIs = rus, rx_Secrets = secs, rx_Scopes = scs, rx_Roles = ros\<rparr>
         | _ \<Rightarrow> None))"

definition snapshot_names :: "string list" where
  "snapshot_names = [''version'', ''users'', ''groups'', ''groupMembers'', ''apps'']"

definition dec_snapshot :: "(string \<times> json) list \<Rightarrow> RawSnapshot option" where
  "dec_snapshot ms =
     (case (int_field ms ''version'', list_field (dec_ptr dec_User) ms ''users'', list_field (dec_ptr dec_Group) ms ''groups'',
            list_field dec_membership ms ''groupMembers'', list_field dec_RawApp ms ''apps'') of
        (Some _, Some us, Some gs, Some mem, Some aps) \<Rightarrow> Some \<lparr>rs_Users = us, rs_Groups = gs, rs_GroupMembers = mem, rs_Apps = aps\<rparr>
      | _ \<Rightarrow> None)"

section \<open>The handlers\<close>

definition Admin_exportDirectory :: "'r AdminEnv \<Rightarrow> 'r admin_handler" where
  "Admin_exportDirectory e r a = (AdminDownload ''entra-emulator-directory.json'' (snapshotJSON (ExportDirectory (ad_Store a))), a)"

text \<open>
  What the transaction inserts before it dereferences a nil pointer, if it does; the order is users, groups,
  memberships, then per application its registration, redirect URIs, secrets, scopes and roles.
\<close>

definition non_nil :: "'x option list \<Rightarrow> 'x list" where
  "non_nil xs = map the (takeWhile (\<lambda>x. x \<noteq> None) xs)"

definition has_nil :: "'x option list \<Rightarrow> bool" where
  "has_nil xs \<longleftrightarrow> None \<in> set xs"

definition app_before_nil :: "App \<Rightarrow> RawApp \<Rightarrow> AppExport" where
  "app_before_nil ap x =
     (let n1 = has_nil (rx_RedirectURIs x); n2 = n1 \<or> has_nil (rx_Secrets x); n3 = n2 \<or> has_nil (rx_Scopes x) in
      \<lparr>ae_App = ap, ae_RedirectURIs = non_nil (rx_RedirectURIs x), ae_Secrets = (if n1 then [] else non_nil (rx_Secrets x)),
       ae_Scopes = (if n2 then [] else non_nil (rx_Scopes x)), ae_Roles = (if n3 then [] else non_nil (rx_Roles x))\<rparr>)"

definition app_has_nil :: "RawApp \<Rightarrow> bool" where
  "app_has_nil x \<longleftrightarrow> rx_App x = None \<or> has_nil (rx_RedirectURIs x) \<or> has_nil (rx_Secrets x) \<or> has_nil (rx_Scopes x) \<or> has_nil (rx_Roles x)"

fun apps_before_nil :: "RawApp list \<Rightarrow> AppExport list" where
  "apps_before_nil [] = []"
| "apps_before_nil (x # xs) =
     (case rx_App x of None \<Rightarrow> [] | Some ap \<Rightarrow> app_before_nil ap x # (if app_has_nil x then [] else apps_before_nil xs))"

definition snapshot_has_nil :: "RawSnapshot \<Rightarrow> bool" where
  "snapshot_has_nil x \<longleftrightarrow> has_nil (rs_Users x) \<or> has_nil (rs_Groups x) \<or> list_ex app_has_nil (rs_Apps x)"

definition before_nil :: "RawSnapshot \<Rightarrow> DirectorySnapshot" where
  "before_nil x =
     (let n1 = has_nil (rs_Users x); n2 = n1 \<or> has_nil (rs_Groups x) in
      \<lparr>dx_Version = 1, dx_Users = non_nil (rs_Users x), dx_Groups = (if n1 then [] else non_nil (rs_Groups x)),
       dx_GroupMembers = (if n2 then [] else rs_GroupMembers x), dx_Apps = (if n2 then [] else apps_before_nil (rs_Apps x))\<rparr>)"

text \<open>A panic leaves the transaction open: nothing of it is visible, and nothing else is served, for the store has one connection.\<close>

definition Admin_importDirectory :: "'r AdminEnv \<Rightarrow> 'r admin_handler" where
  "Admin_importDirectory e r a = with_body (decodeBody snapshot_names dec_snapshot r) (\<lambda>x.
     case ImportDirectory (before_nil x) (cf_TenantID (ae_cfg e)) (admin_now e a) (ad_Store a) of
       (Inl err, s1) \<Rightarrow> (writeStoreErr err, put_store s1 a)
     | (Inr _, s1) \<Rightarrow>
       if snapshot_has_nil x then (AdminPanic, a)
       else (AdminJSON 200 [(''imported'', JObj [(''users'', jnat (length (rs_Users x))), (''groups'', jnat (length (rs_Groups x))),
                (''apps'', jnat (length (rs_Apps x)))])], put_store s1 a)) a"

section \<open>Decoding what was encoded\<close>

lemma members_unique:
  "distinct (map (fold_name \<circ> fst) ms) \<Longrightarrow> map_of ms k = Some v \<Longrightarrow> members ms k = [v]"
proof (induction ms)
  case (Cons m ms)
  show ?case
  proof (cases "fst m = k")
    case True
    then have "filter (\<lambda>m. fold_name (fst m) = fold_name k) ms = []"
      using Cons.prems(1) by (auto simp: filter_empty_conv image_iff dest: sym)
    then show ?thesis using Cons.prems True by (simp add: members_def EqualFold_def)
  next
    case False
    then have "map_of ms k = Some v" using Cons.prems(2) by (cases m) simp
    then have "fold_name (fst m) \<noteq> fold_name k" using Cons.prems(1) by (auto dest!: map_of_SomeD simp: rev_image_eqI)
    then show ?thesis using Cons \<open>map_of ms k = Some v\<close> by (simp add: members_def EqualFold_def)
  qed
qed simp

lemma known_own: "map fst ms = names \<Longrightarrow> known_fields names ms"
  by (auto simp: known_fields_def list_all_iff list_ex_iff EqualFold_def rev_image_eqI)

lemma strict_own: "map fst ms = names \<Longrightarrow> strict_object names (JObj ms) = Some ms"
  by (simp add: strict_object_def as_object_def known_own)

lemma field_own:
  assumes "map fst ms = names" and "distinct (map fold_name names)"
  shows "(k, v) \<in> set ms \<Longrightarrow> members ms k = [v]"
    and "(k, JStr s) \<in> set ms \<Longrightarrow> str_field ms k = Some s"
    and "(k, JBool b) \<in> set ms \<Longrightarrow> bool_field ms k = Some b"
    and "(k, JInt n) \<in> set ms \<Longrightarrow> is_int64 n \<Longrightarrow> int_field ms k = Some n"
proof -
  have d: "distinct (map (fold_name \<circ> fst) ms)" using assms by (metis map_map)
  then have "distinct (map fst ms)" by (metis distinct_map map_map)
  with members_unique[OF d] have m: "(k, v) \<in> set ms \<Longrightarrow> members ms k = [v]" for v by simp
  then show "(k, v) \<in> set ms \<Longrightarrow> members ms k = [v]" .
  show "(k, JStr s) \<in> set ms \<Longrightarrow> str_field ms k = Some s" by (simp add: m dec_str_def)
  show "(k, JBool b) \<in> set ms \<Longrightarrow> bool_field ms k = Some b" by (simp add: m dec_bool_def)
  show "(k, JInt n) \<in> set ms \<Longrightarrow> is_int64 n \<Longrightarrow> int_field ms k = Some n" by (simp add: m dec_int_def int_field_def)
qed

definition user_fits :: "User \<Rightarrow> bool" where
  "user_fits u \<longleftrightarrow> is_int64 (u_CreatedAt u) \<and> is_int64 (u_UpdatedAt u)"

definition group_fits :: "Group \<Rightarrow> bool" where
  "group_fits g \<longleftrightarrow> is_int64 (g_CreatedAt g)"

definition app_fits :: "App \<Rightarrow> bool" where
  "app_fits ap \<longleftrightarrow> is_int64 (a_GroupOverageLimit ap) \<and> is_int64 (a_CreatedAt ap)"

definition redirect_fits :: "RedirectURI \<Rightarrow> bool" where
  "redirect_fits r \<longleftrightarrow> is_int64 (ru_ID r)"

definition secret_fits :: "AppSecret \<Rightarrow> bool" where
  "secret_fits r \<longleftrightarrow> is_int64 (sec_ExpiresAt r) \<and> is_int64 (sec_CreatedAt r)"

lemma dec_userJSON:
  assumes "user_fits u"
  shows "dec_User (userJSON u) = Some u"
proof -
  define ms where "ms = (case userJSON u of JObj x \<Rightarrow> x)"
  note ms = ms_def userJSON_def
  have js: "userJSON u = JObj ms" by (simp add: ms)
  have names: "map fst ms = user_names" by (simp add: ms user_names_def)
  have d: "distinct (map fold_name user_names)" by code_simp
  note f = field_own(2-)[OF names d]
  have s: "str_field ms ''ID'' = Some (u_ID u)" "str_field ms ''TenantID'' = Some (u_TenantID u)" "str_field ms ''UserPrincipalName'' = Some (u_UserPrincipalName u)"
    "str_field ms ''DisplayName'' = Some (u_DisplayName u)" "str_field ms ''GivenName'' = Some (u_GivenName u)" "str_field ms ''Surname'' = Some (u_Surname u)"
    "str_field ms ''Mail'' = Some (u_Mail u)" "str_field ms ''PasswordHash'' = Some (u_PasswordHash u)" "str_field ms ''UserType'' = Some (u_UserType u)"
    "str_field ms ''ExternalUserState'' = Some (u_ExternalUserState u)" "str_field ms ''InviteRedirectURL'' = Some (u_InviteRedirectURL u)"
    by (rule f(1), simp add: ms)+
  have b: "bool_field ms ''AccountEnabled'' = Some (u_AccountEnabled u)"
    by (rule f(2), simp add: ms)+
  have i: "int_field ms ''CreatedAt'' = Some (u_CreatedAt u)" "int_field ms ''UpdatedAt'' = Some (u_UpdatedAt u)"
    by (rule f(3), simp add: ms, use assms in \<open>simp add: user_fits_def\<close>)+
  show ?thesis unfolding js dec_User_def strict_own[OF names] option.case by (simp add: s b i)
qed

lemma dec_groupJSON:
  assumes "group_fits g"
  shows "dec_Group (groupJSON g) = Some g"
proof -
  define ms where "ms = (case groupJSON g of JObj x \<Rightarrow> x)"
  note ms = ms_def groupJSON_def
  have js: "groupJSON g = JObj ms" by (simp add: ms)
  have names: "map fst ms = [''ID'', ''TenantID'', ''DisplayName'', ''Description'', ''CreatedAt'']" by (simp add: ms)
  have d: "distinct (map fold_name [''ID'', ''TenantID'', ''DisplayName'', ''Description'', ''CreatedAt''])" by code_simp
  note f = field_own(2-)[OF names d]
  have s: "str_field ms ''ID'' = Some (g_ID g)" "str_field ms ''TenantID'' = Some (g_TenantID g)" "str_field ms ''DisplayName'' = Some (g_DisplayName g)"
    "str_field ms ''Description'' = Some (g_Description g)"
    by (rule f(1), simp add: ms)+
  have i: "int_field ms ''CreatedAt'' = Some (g_CreatedAt g)"
    by (rule f(3), simp add: ms, use assms in \<open>simp add: group_fits_def\<close>)+
  show ?thesis unfolding js dec_Group_def strict_own[OF names] option.case by (simp add: s i)
qed

lemma dec_appJSON:
  assumes "app_fits ap"
  shows "dec_App (appJSON ap) = Some ap"
proof -
  define ms where "ms = (case appJSON ap of JObj x \<Rightarrow> x)"
  note ms = ms_def appJSON_def
  have js: "appJSON ap = JObj ms" by (simp add: ms)
  have names: "map fst ms = app_names" by (simp add: ms app_names_def)
  have d: "distinct (map fold_name app_names)" by code_simp
  note f = field_own(2-)[OF names d]
  have s: "str_field ms ''ID'' = Some (a_ID ap)" "str_field ms ''TenantID'' = Some (a_TenantID ap)" "str_field ms ''DisplayName'' = Some (a_DisplayName ap)"
    "str_field ms ''AppIDURI'' = Some (a_AppIDURI ap)" "str_field ms ''OptionalClaims'' = Some (a_OptionalClaims ap)" "str_field ms ''GroupMembershipClaims'' = Some (a_GroupMembershipClaims ap)"
    by (rule f(1), simp add: ms)+
  have b: "bool_field ms ''IsConfidential'' = Some (a_IsConfidential ap)"
    by (rule f(2), simp add: ms)+
  have i: "int_field ms ''GroupOverageLimit'' = Some (a_GroupOverageLimit ap)" "int_field ms ''CreatedAt'' = Some (a_CreatedAt ap)"
    by (rule f(3), simp add: ms, use assms in \<open>simp add: app_fits_def\<close>)+
  show ?thesis unfolding js dec_App_def strict_own[OF names] option.case by (simp add: s b i)
qed

lemma dec_redirectJSON:
  assumes "redirect_fits r"
  shows "dec_RedirectURI (redirectJSON r) = Some r"
proof -
  define ms where "ms = (case redirectJSON r of JObj x \<Rightarrow> x)"
  note ms = ms_def redirectJSON_def
  have js: "redirectJSON r = JObj ms" by (simp add: ms)
  have names: "map fst ms = [''ID'', ''AppID'', ''URI'', ''Type'']" by (simp add: ms)
  have d: "distinct (map fold_name [''ID'', ''AppID'', ''URI'', ''Type''])" by code_simp
  note f = field_own(2-)[OF names d]
  have s: "str_field ms ''AppID'' = Some (ru_AppID r)" "str_field ms ''URI'' = Some (ru_URI r)" "str_field ms ''Type'' = Some (ru_Type r)"
    by (rule f(1), simp add: ms)+
  have i: "int_field ms ''ID'' = Some (ru_ID r)"
    by (rule f(3), simp add: ms, use assms in \<open>simp add: redirect_fits_def\<close>)+
  show ?thesis unfolding js dec_RedirectURI_def strict_own[OF names] option.case by (simp add: s i)
qed

lemma dec_secretJSON:
  assumes "secret_fits r"
  shows "dec_AppSecret (secretJSON r) = Some r"
proof -
  define ms where "ms = (case secretJSON r of JObj x \<Rightarrow> x)"
  note ms = ms_def secretJSON_def
  have js: "secretJSON r = JObj ms" by (simp add: ms)
  have names: "map fst ms = secret_names" by (simp add: ms secret_names_def)
  have d: "distinct (map fold_name secret_names)" by code_simp
  note f = field_own(2-)[OF names d]
  have s: "str_field ms ''ID'' = Some (sec_ID r)" "str_field ms ''AppID'' = Some (sec_AppID r)" "str_field ms ''DisplayName'' = Some (sec_DisplayName r)"
    "str_field ms ''SecretHash'' = Some (sec_SecretHash r)" "str_field ms ''Hint'' = Some (sec_Hint r)"
    by (rule f(1), simp add: ms)+
  have i: "int_field ms ''ExpiresAt'' = Some (sec_ExpiresAt r)" "int_field ms ''CreatedAt'' = Some (sec_CreatedAt r)"
    by (rule f(3), simp add: ms, use assms in \<open>simp add: secret_fits_def\<close>)+
  show ?thesis unfolding js dec_AppSecret_def strict_own[OF names] option.case by (simp add: s i)
qed

lemma dec_scopeJSON:
  shows "dec_AppScope (scopeJSON r) = Some r"
proof -
  define ms where "ms = (case scopeJSON r of JObj x \<Rightarrow> x)"
  note ms = ms_def scopeJSON_def
  have js: "scopeJSON r = JObj ms" by (simp add: ms)
  have names: "map fst ms = [''ID'', ''AppID'', ''Value'', ''AdminConsentDisplayName'', ''IsEnabled'']" by (simp add: ms)
  have d: "distinct (map fold_name [''ID'', ''AppID'', ''Value'', ''AdminConsentDisplayName'', ''IsEnabled''])" by code_simp
  note f = field_own(2-)[OF names d]
  have s: "str_field ms ''ID'' = Some (sc_ID r)" "str_field ms ''AppID'' = Some (sc_AppID r)" "str_field ms ''Value'' = Some (sc_Value r)"
    "str_field ms ''AdminConsentDisplayName'' = Some (sc_AdminConsentDisplayName r)"
    by (rule f(1), simp add: ms)+
  have b: "bool_field ms ''IsEnabled'' = Some (sc_IsEnabled r)"
    by (rule f(2), simp add: ms)+
  show ?thesis unfolding js dec_AppScope_def strict_own[OF names] option.case by (simp add: s b)
qed

lemma dec_roleJSON:
  shows "dec_AppRole (roleJSON r) = Some r"
proof -
  define ms where "ms = (case roleJSON r of JObj x \<Rightarrow> x)"
  note ms = ms_def roleJSON_def
  have js: "roleJSON r = JObj ms" by (simp add: ms)
  have names: "map fst ms = [''ID'', ''AppID'', ''Value'', ''DisplayName'', ''AllowedMemberTypes'', ''IsEnabled'']" by (simp add: ms)
  have d: "distinct (map fold_name [''ID'', ''AppID'', ''Value'', ''DisplayName'', ''AllowedMemberTypes'', ''IsEnabled''])" by code_simp
  note f = field_own(2-)[OF names d]
  have s: "str_field ms ''ID'' = Some (ro_ID r)" "str_field ms ''AppID'' = Some (ro_AppID r)" "str_field ms ''Value'' = Some (ro_Value r)"
    "str_field ms ''DisplayName'' = Some (ro_DisplayName r)" "str_field ms ''AllowedMemberTypes'' = Some (ro_AllowedMemberTypes r)"
    by (rule f(1), simp add: ms)+
  have b: "bool_field ms ''IsEnabled'' = Some (ro_IsEnabled r)"
    by (rule f(2), simp add: ms)+
  show ?thesis unfolding js dec_AppRole_def strict_own[OF names] option.case by (simp add: s b)
qed

lemma dec_membershipJSON: "dec_membership (membershipJSON m) = Some m"
proof -
  define ms where "ms = (case membershipJSON m of JObj x \<Rightarrow> x)"
  note ms = ms_def membershipJSON_def
  have js: "membershipJSON m = JObj ms" by (simp add: ms)
  have names: "map fst ms = [''groupId'', ''userId'']" by (simp add: ms)
  have d: "distinct (map fold_name [''groupId'', ''userId''])" by code_simp
  have s: "str_field ms ''groupId'' = Some (fst m)" "str_field ms ''userId'' = Some (snd m)"
    by (rule field_own(2)[OF names d], simp add: ms)+
  show ?thesis unfolding js dec_membership_def strict_own[OF names] option.case by (simp add: s)
qed

lemma dec_all_map: "(\<And>x. x \<in> set xs \<Longrightarrow> dec (enc x) = Some (f x)) \<Longrightarrow> dec_all dec (map enc xs) = Some (map f xs)"
  by (induction xs) auto

lemma list_field_own:
  assumes "members ms k = [nil_list enc xs]" and "\<And>x. x \<in> set xs \<Longrightarrow> dec (enc x) = Some (f x)"
  shows "list_field dec ms k = Some (map f xs)"
  using assms dec_all_map[of xs dec enc f] by (simp add: list_field_def nil_list_def dec_list_def or_else_def)

lemma dec_ptr_own: "dec v = Some x \<Longrightarrow> v \<noteq> JNull \<Longrightarrow> dec_ptr dec v = Some (Some x)"
  by (simp add: dec_ptr_def)

definition export_fits :: "AppExport \<Rightarrow> bool" where
  "export_fits x \<longleftrightarrow> app_fits (ae_App x) \<and> list_all redirect_fits (ae_RedirectURIs x) \<and> list_all secret_fits (ae_Secrets x)"

definition raw_app :: "AppExport \<Rightarrow> RawApp" where
  "raw_app x = \<lparr>rx_App = Some (ae_App x), rx_RedirectURIs = map Some (ae_RedirectURIs x), rx_Secrets = map Some (ae_Secrets x),
     rx_Scopes = map Some (ae_Scopes x), rx_Roles = map Some (ae_Roles x)\<rparr>"

lemma dec_appExportJSON:
  assumes "export_fits x"
  shows "dec_RawApp (appExportJSON x) = Some (raw_app x)"
proof -
  define ms where "ms = (case appExportJSON x of JObj y \<Rightarrow> y)"
  note ms = ms_def appExportJSON_def
  have js: "appExportJSON x = JObj ms" by (simp add: ms)
  have names: "map fst ms = [''app'', ''redirectUris'', ''secrets'', ''scopes'', ''roles'']" by (simp add: ms)
  have d: "distinct (map fold_name [''app'', ''redirectUris'', ''secrets'', ''scopes'', ''roles''])" by code_simp
  note f = field_own(1)[OF names d]
  have "members ms ''app'' = [appJSON (ae_App x)]" by (rule f) (simp add: ms)
  then have app: "dec_app_field ms = Some (Some (ae_App x))"
    using dec_appJSON[of "ae_App x"] assms by (simp add: dec_app_field_def export_fits_def appJSON_def or_else_def)
  have 1: "list_field (dec_ptr dec_RedirectURI) ms ''redirectUris'' = Some (map Some (ae_RedirectURIs x))"
    by (rule list_field_own[OF f[of "''redirectUris''" "nil_list redirectJSON (ae_RedirectURIs x)"]], simp add: ms, rule dec_ptr_own,
        rule dec_redirectJSON, use assms in \<open>simp add: export_fits_def list_all_iff\<close>, simp add: redirectJSON_def)
  have 2: "list_field (dec_ptr dec_AppSecret) ms ''secrets'' = Some (map Some (ae_Secrets x))"
    by (rule list_field_own[OF f[of "''secrets''" "nil_list secretJSON (ae_Secrets x)"]], simp add: ms, rule dec_ptr_own,
        rule dec_secretJSON, use assms in \<open>simp add: export_fits_def list_all_iff\<close>, simp add: secretJSON_def)
  have 3: "list_field (dec_ptr dec_AppScope) ms ''scopes'' = Some (map Some (ae_Scopes x))"
    by (rule list_field_own[OF f[of "''scopes''" "nil_list scopeJSON (ae_Scopes x)"]], simp add: ms, rule dec_ptr_own,
        rule dec_scopeJSON, simp add: scopeJSON_def)
  have 4: "list_field (dec_ptr dec_AppRole) ms ''roles'' = Some (map Some (ae_Roles x))"
    by (rule list_field_own[OF f[of "''roles''" "nil_list roleJSON (ae_Roles x)"]], simp add: ms, rule dec_ptr_own,
        rule dec_roleJSON, simp add: roleJSON_def)
  show ?thesis unfolding js dec_RawApp_def strict_own[OF names] option.case by (simp add: app 1 2 3 4 raw_app_def)
qed

definition snapshot_fits :: "DirectorySnapshot \<Rightarrow> bool" where
  "snapshot_fits x \<longleftrightarrow> dx_Version x = 1 \<and> list_all user_fits (dx_Users x) \<and> list_all group_fits (dx_Groups x) \<and> list_all export_fits (dx_Apps x)"

definition raw_snapshot :: "DirectorySnapshot \<Rightarrow> RawSnapshot" where
  "raw_snapshot x = \<lparr>rs_Users = map Some (dx_Users x), rs_Groups = map Some (dx_Groups x), rs_GroupMembers = dx_GroupMembers x,
     rs_Apps = map raw_app (dx_Apps x)\<rparr>"

lemma dec_snapshotJSON:
  assumes "snapshot_fits x"
  shows "known_fields snapshot_names (snapshotJSON x) \<and> dec_snapshot (snapshotJSON x) = Some (raw_snapshot x)"
proof -
  have names: "map fst (snapshotJSON x) = snapshot_names" by (simp add: snapshotJSON_def snapshot_names_def)
  have d: "distinct (map fold_name snapshot_names)" by code_simp
  note f = field_own(1)[OF names d]
  have v: "int_field (snapshotJSON x) ''version'' = Some 1"
    by (rule field_own(4)[OF names d]) (use assms in \<open>simp_all add: snapshotJSON_def snapshot_fits_def is_int64_def\<close>)
  have 1: "list_field (dec_ptr dec_User) (snapshotJSON x) ''users'' = Some (map Some (dx_Users x))"
    by (rule list_field_own[OF f[of "''users''" "nil_list userJSON (dx_Users x)"]], simp add: snapshotJSON_def, rule dec_ptr_own,
        rule dec_userJSON, use assms in \<open>simp add: snapshot_fits_def list_all_iff\<close>, simp add: userJSON_def)
  have 2: "list_field (dec_ptr dec_Group) (snapshotJSON x) ''groups'' = Some (map Some (dx_Groups x))"
    by (rule list_field_own[OF f[of "''groups''" "nil_list groupJSON (dx_Groups x)"]], simp add: snapshotJSON_def, rule dec_ptr_own,
        rule dec_groupJSON, use assms in \<open>simp add: snapshot_fits_def list_all_iff\<close>, simp add: groupJSON_def)
  have "list_field dec_membership (snapshotJSON x) ''groupMembers'' = Some (map id (dx_GroupMembers x))"
    by (rule list_field_own[OF f[of "''groupMembers''" "nil_list membershipJSON (dx_GroupMembers x)"]]) (simp_all add: snapshotJSON_def dec_membershipJSON)
  then have 3: "list_field dec_membership (snapshotJSON x) ''groupMembers'' = Some (dx_GroupMembers x)" by simp
  have 4: "list_field dec_RawApp (snapshotJSON x) ''apps'' = Some (map raw_app (dx_Apps x))"
    by (rule list_field_own[OF f[of "''apps''" "nil_list appExportJSON (dx_Apps x)"]], simp add: snapshotJSON_def,
        rule dec_appExportJSON, use assms in \<open>simp add: snapshot_fits_def list_all_iff\<close>)
  show ?thesis by (simp add: known_own[OF names] dec_snapshot_def v 1 2 3 4 raw_snapshot_def)
qed

lemma non_nil_Some [simp]: "non_nil (map Some xs) = xs" "\<not> has_nil (map Some xs)"
  by (induction xs) (auto simp: non_nil_def has_nil_def)

lemma raw_app_complete [simp]: "\<not> app_has_nil (raw_app x)" "app_before_nil (ae_App x) (raw_app x) = x"
  by (simp_all add: app_has_nil_def app_before_nil_def raw_app_def)

lemma before_nil_raw:
  assumes "snapshot_fits x"
  shows "before_nil (raw_snapshot x) = x" and "\<not> snapshot_has_nil (raw_snapshot x)"
proof -
  have "apps_before_nil (map raw_app aps) = aps" for aps
    by (induction aps) (simp_all add: raw_app_def[THEN arg_cong[where f = rx_App]])
  then show "before_nil (raw_snapshot x) = x"
    using assms by (intro DirectorySnapshot.equality) (simp_all add: before_nil_def raw_snapshot_def snapshot_fits_def)
  show "\<not> snapshot_has_nil (raw_snapshot x)" by (simp add: snapshot_has_nil_def raw_snapshot_def list_ex_iff)
qed

text \<open>
  The store after the import, table by table: what comes back (every row, in whatever order; users lose what the
  inserting statement does not name, applications their front-channel logout URI, redirect URIs their row numbers), what
  is deleted for good, and that no other table has changed.
\<close>

definition restored_from :: "Store \<Rightarrow> Store \<Rightarrow> bool" where
  "restored_from s s' \<longleftrightarrow>
     mset (users s') = image_mset (\<lambda>u. u\<lparr>u_UserType := ''Member'', u_ExternalUserState := [], u_InviteRedirectURL := [],
         u_UpdatedAt := u_CreatedAt u\<rparr>) (mset (users s))
     \<and> mset (groups s') = mset (groups s)
     \<and> distinct (group_members s') \<and> set (group_members s') = {m \<in> set (group_members s). has_group s (fst m) \<and> has_user s (snd m)}
     \<and> mset (app_registrations s') = image_mset (\<lambda>a. a\<lparr>ar_FrontchannelLogoutURI := []\<rparr>) (mset (app_registrations s))
     \<and> mset (map forget_id (app_redirect_uris s')) = mset (map forget_id (filter (\<lambda>r. has_app s (ru_AppID r)) (app_redirect_uris s)))
     \<and> mset (app_secrets s') = mset (filter (\<lambda>r. has_app s (sec_AppID r)) (app_secrets s))
     \<and> mset (app_scopes s') = mset (filter (\<lambda>r. has_app s (sc_AppID r)) (app_scopes s))
     \<and> mset (app_roles s') = mset (filter (\<lambda>r. has_app s (ro_AppID r)) (app_roles s))
     \<and> authorization_codes s' = [] \<and> refresh_tokens s' = [] \<and> sessions s' = [] \<and> device_codes s' = []
     \<and> webauthn_credentials s' = [] \<and> user_custom_security_attributes s' = [] \<and> app_federated_credentials s' = []
     \<and> app_key_credentials s' = [] \<and> app_token_lifetime_policies s' = [] \<and> workspace_identities s' = []
     \<and> s'\<lparr>users := users s, groups := groups s, group_members := group_members s, app_registrations := app_registrations s,
         app_redirect_uris := app_redirect_uris s, redirect_uri_seq := redirect_uri_seq s, app_secrets := app_secrets s,
         app_scopes := app_scopes s, app_roles := app_roles s, authorization_codes := authorization_codes s,
         refresh_tokens := refresh_tokens s, sessions := sessions s, device_codes := device_codes s,
         webauthn_credentials := webauthn_credentials s, user_custom_security_attributes := user_custom_security_attributes s,
         app_federated_credentials := app_federated_credentials s, app_key_credentials := app_key_credentials s,
         app_token_lifetime_policies := app_token_lifetime_policies s, workspace_identities := workspace_identities s\<rparr> = s"

lemma mset_own_rows:
  assumes "distinct (map k apps)"
  shows "mset (concat (map (\<lambda>a. sort_key ord (filter (\<lambda>r. h r = k a) tbl)) apps)) = mset (filter (\<lambda>r. h r \<in> k ` set apps) tbl)"
  using assms
proof (induction apps)
  case (Cons a apps)
  have "mset (filter (\<lambda>r. h r \<in> k ` set (a # apps)) tbl)
      = mset (filter (\<lambda>r. h r = k a) tbl) + mset (filter (\<lambda>r. h r \<in> k ` set apps) tbl)"
    using Cons.prems by (induction tbl) (auto simp: image_iff)
  with Cons show ?case by simp
qed simp

lemma reimported_restored:
  assumes "directory_wf s"
  shows "restored_from s (reimported tid now s)"
proof -
  let ?s' = "reimported tid now s" and ?apps = "sort_key a_ID (map App.truncate (app_registrations s))"
  have d: "distinct (map a_ID ?apps)"
    using assms by (simp add: directory_wf_def distinct_map inj_on_def image_iff comp_def) (metis truncate_sel(1))
  have ids: "x \<in> a_ID ` set ?apps \<longleftrightarrow> has_app s x" for x by (auto simp: has_defs list_ex_iff image_iff)
  note own = mset_own_rows[OF d, unfolded ids]
  have rows: "dx_Apps (ExportDirectory s) = map (export_app s) ?apps" by (rule export_lists(3)[OF assms])
  have sec: "mset (app_secrets ?s') = mset (filter (\<lambda>r. has_app s (sec_AppID r)) (app_secrets s))"
    unfolding reimported_def with_apps_tables rows by (simp add: comp_def export_app_def ListSecrets_def own)
  have sc: "mset (app_scopes ?s') = mset (filter (\<lambda>r. has_app s (sc_AppID r)) (app_scopes s))"
    unfolding reimported_def with_apps_tables rows by (simp add: comp_def export_app_def ListScopes_def own)
  have ro: "mset (app_roles ?s') = mset (filter (\<lambda>r. has_app s (ro_AppID r)) (app_roles s))"
    unfolding reimported_def with_apps_tables rows by (simp add: comp_def export_app_def ListRoles_def own)
  have fg: "map forget_id (renumber n xs) = map forget_id xs" for n xs by (induction xs arbitrary: n) (simp_all add: forget_id_def)
  have ru: "mset (map forget_id (app_redirect_uris ?s')) = mset (map forget_id (filter (\<lambda>r. has_app s (ru_AppID r)) (app_redirect_uris s)))"
    unfolding reimported_def with_apps_tables rows fg unfolding mset_map
    by (rule arg_cong[of _ _ "image_mset forget_id"]) (simp add: comp_def export_app_def ListRedirectURIs_def own)
  have regs: "mset (app_registrations ?s') = image_mset (\<lambda>a. a\<lparr>ar_FrontchannelLogoutURI := []\<rparr>) (mset (app_registrations s))"
  proof -
    have e: "app_row (App.truncate a) = a\<lparr>ar_FrontchannelLogoutURI := []\<rparr>" for a by (cases a) (simp add: app_row_def App.defs AppRow.defs)
    have "mset (app_registrations ?s') = image_mset app_row (image_mset App.truncate (mset (app_registrations s)))"
      unfolding reimported_def with_apps_tables rows by (simp add: comp_def export_app_def mset_map multiset.map_comp del: mset_map) (simp add: mset_map multiset.map_comp comp_def)
    then show ?thesis by (simp add: multiset.map_comp comp_def e)
  qed
  have us: "imported_user tid now u = u\<lparr>u_UserType := ''Member'', u_ExternalUserState := [], u_InviteRedirectURL := [], u_UpdatedAt := u_CreatedAt u\<rparr>"
    if "u \<in> set (users s)" for u using that assms by (auto simp: directory_wf_def imported_user_def orNow_def intro!: User.equality)
  have users: "mset (users ?s') = image_mset (\<lambda>u. u\<lparr>u_UserType := ''Member'', u_ExternalUserState := [], u_InviteRedirectURL := [],
         u_UpdatedAt := u_CreatedAt u\<rparr>) (mset (users s))"
    by (simp add: reimported_def with_apps_tables) (rule image_mset_cong, simp add: us)
  have grp: "mset (groups ?s') = mset (groups s)" by (simp add: reimported_def with_apps_tables)
  have mem: "distinct (group_members ?s')" "set (group_members ?s') = {m \<in> set (group_members s). has_group s (fst m) \<and> has_user s (snd m)}"
    using members_wf[OF assms] by (auto simp: reimported_def with_apps_tables has_iff)
  have rest: "authorization_codes ?s' = [] \<and> refresh_tokens ?s' = [] \<and> sessions ?s' = [] \<and> device_codes ?s' = []
     \<and> webauthn_credentials ?s' = [] \<and> user_custom_security_attributes ?s' = [] \<and> app_federated_credentials ?s' = []
     \<and> app_key_credentials ?s' = [] \<and> app_token_lifetime_policies ?s' = [] \<and> workspace_identities ?s' = []"
    by (simp add: reimported_def with_apps_def clear_directory_def Let_def)
  show ?thesis unfolding restored_from_def
    by (intro conjI users grp mem regs ru sec sc ro) (use rest in \<open>simp_all add: reimported_def with_apps_def clear_directory_def Let_def\<close>)
qed


text \<open>
  C29. The fixture round trip over the API: the document a well-formed directory is exported as is accepted by the
  import, which reports the number of users, groups and applications and replaces the store by one that is restored
  from it: the users (as members, without invitation state and with their creation as the last update), groups,
  memberships, applications (without front-channel logout URI), redirect URIs, secret hashes, scopes and roles are back;
  passkeys, custom security attributes, key and federated credentials, lifetime policy links, workspace identities and
  live grants are gone, which the comment of the snapshot type (a round trip preserves authentication) does not say;
  every other table is as before. Exporting again gives the same document but for those user columns and the numbers
  of redirect URIs.
\<close>

theorem fixture_roundtrip:
  assumes "directory_wf (ad_Store a)" and "snapshot_fits (ExportDirectory (ad_Store a))"
    and "Admin_exportDirectory e r a = (AdminDownload file doc, a1)" and "aq_Body r2 = Some (JObj doc)"
  shows "a1 = a \<and> (\<exists>s'. Admin_importDirectory e2 r2 a = (AdminJSON 200 [(''imported'', JObj [(''users'', jnat (length (users (ad_Store a)))),
        (''groups'', jnat (length (groups (ad_Store a)))), (''apps'', jnat (length (app_registrations (ad_Store a))))])], put_store s' a)
    \<and> restored_from (ad_Store a) s'
    \<and> portable (ExportDirectory s') = (portable (ExportDirectory (ad_Store a)))
        \<lparr>dx_Users := map (imported_user (cf_TenantID (ae_cfg e2)) (admin_now e2 a)) (dx_Users (ExportDirectory (ad_Store a)))\<rparr>)"
proof -
  let ?s = "ad_Store a" and ?tid = "cf_TenantID (ae_cfg e2)" and ?now = "admin_now e2 a"
  have doc: "doc = snapshotJSON (ExportDirectory ?s)" "a1 = a" using assms(3) by (auto simp: Admin_exportDirectory_def)
  have body: "decodeBody snapshot_names dec_snapshot r2 = Inr (raw_snapshot (ExportDirectory ?s))"
    using dec_snapshotJSON[OF assms(2)] assms(4) by (simp add: decodeBody_def as_object_def doc(1))
  have n: "length (rs_Users (raw_snapshot (ExportDirectory ?s))) = length (users ?s)" "length (rs_Groups (raw_snapshot (ExportDirectory ?s))) = length (groups ?s)"
    "length (rs_Apps (raw_snapshot (ExportDirectory ?s))) = length (app_registrations ?s)"
    by (simp_all add: raw_snapshot_def export_lists[OF assms(1)])
  have i: "Admin_importDirectory e2 r2 a = (AdminJSON 200 [(''imported'', JObj [(''users'', jnat (length (users ?s))),
        (''groups'', jnat (length (groups ?s))), (''apps'', jnat (length (app_registrations ?s)))])], put_store (reimported ?tid ?now ?s) a)"
    by (simp add: Admin_importDirectory_def with_body_def body before_nil_raw[OF assms(2)] import_own_export[OF assms(1)] n)
  show ?thesis using i reimported_restored[OF assms(1)] reimported_export[OF assms(1)] doc(2) by blast
qed

theorem fixture_roundtrip_witness:
  "\<exists>s'. Admin_importDirectory admin_env0 (sample_request ''POST'' (\<lambda>_. []) (Some (JObj (snapshotJSON (ExportDirectory store0))))) (admin_on store0)
       = (AdminJSON 200 [(''imported'', JObj [(''users'', jnat 1), (''groups'', jnat 1), (''apps'', jnat 1)])], put_store s' (admin_on store0))
     \<and> group_members s' = group_members store0 \<and> refresh_tokens s' = []"
proof -
  let ?r = "sample_request ''POST'' (\<lambda>_. []) (Some (JObj (snapshotJSON (ExportDirectory store0))))" and ?a = "admin_on store0"
  have st: "ad_Store ?a = store0" by (simp add: admin_on_def)
  have wf: "directory_wf (ad_Store ?a)" unfolding st by (simp add: directory_wf_def has_defs sample_defs)
  have f: "snapshot_fits (ExportDirectory (ad_Store ?a))"
  proof -
    have v: "dx_Version (ExportDirectory store0) = 1" by (simp add: ExportDirectory_def Let_def)
    show ?thesis unfolding st snapshot_fits_def v export_lists[OF wf[unfolded st]]
      by (simp add: export_fits_def export_app_def user_fits_def group_fits_def app_fits_def is_int64_def App.defs
        ListRedirectURIs_def ListSecrets_def sample_defs)
  qed
  have x: "Admin_exportDirectory admin_env0 ?r ?a = (AdminDownload ''entra-emulator-directory.json'' (snapshotJSON (ExportDirectory store0)), ?a)"
    by (simp add: Admin_exportDirectory_def st)
  have b: "aq_Body ?r = Some (JObj (snapshotJSON (ExportDirectory store0)))" by (simp add: sample_request_def)
  have n: "length (users store0) = 1" "length (groups store0) = 1" "length (app_registrations store0) = 1" by (simp_all add: sample_defs)
  have m: "distinct ms \<Longrightarrow> set ms = {m \<in> set (group_members store0). has_group store0 (fst m) \<and> has_user store0 (snd m)} \<Longrightarrow> ms = group_members store0" for ms
  proof -
    assume d: "distinct ms" and s: "set ms = {m \<in> set (group_members store0). has_group store0 (fst m) \<and> has_user store0 (snd m)}"
    have "set ms = {(''g'', ''u'')}" unfolding s by (auto simp: has_defs sample_defs)
    with d have "ms = [(''g'', ''u'')]" by (cases ms; cases "tl ms") auto
    then show "ms = group_members store0" by (simp add: sample_defs)
  qed
  obtain s' where "Admin_importDirectory admin_env0 ?r ?a = (AdminJSON 200 [(''imported'', JObj [(''users'', jnat 1), (''groups'', jnat 1), (''apps'', jnat 1)])], put_store s' ?a)"
    "restored_from store0 s'"
    using fixture_roundtrip[OF wf f x b, of admin_env0] by (auto simp: st n)
  then show ?thesis using m[of "group_members s'"] unfolding restored_from_def by blast
qed

end
