(* ===== verification/AdminRoutes.thy ===== *)
theory AdminRoutes
  imports AdminDirectory AdminApps AdminControl AdminSnapshot
begin

text \<open>
  The route table of the administration API (\<^verbatim>\<open>Admin.Register\<close> in \<^verbatim>\<open>admin.go\<close>, \<^verbatim>\<open>federatedcred.go\<close>) and a request
  served through it.
\<close>

type_synonym 'r admin_route = "string \<times> 'r admin_handler"

definition registerFederatedCredentials_admin :: "'r AdminEnv \<Rightarrow> 'r admin_route list" where
  "registerFederatedCredentials_admin e = [
     (''GET /admin/api/apps/{id}/federated-credentials'', Admin_listFederatedCredentials e),
     (''POST /admin/api/apps/{id}/federated-credentials'', Admin_addFederatedCredential e),
     (''DELETE /admin/api/apps/{id}/federated-credentials/{credId}'', Admin_deleteFederatedCredential e)]"

definition AdminRoutes :: "'r AdminEnv \<Rightarrow> 'r admin_route list" where
  "AdminRoutes e = [
     (''GET /admin/api/health'', Admin_handleHealth e),
     (''GET /health'', Admin_handleHealth e),
     (''GET /admin/api/tenants'', Admin_listTenants e),
     (''POST /admin/api/tenants'', Admin_createTenant e),
     (''GET /admin/api/tenants/{id}'', Admin_getTenant e),
     (''DELETE /admin/api/tenants/{id}'', Admin_deleteTenant e),
     (''GET /admin/api/users'', Admin_listUsers e),
     (''POST /admin/api/users'', Admin_createUser e),
     (''GET /admin/api/users/{id}'', Admin_getUser e),
     (''PATCH /admin/api/users/{id}'', Admin_patchUser e),
     (''DELETE /admin/api/users/{id}'', Admin_deleteUser e),
     (''GET /admin/api/users/{id}/groups'', Admin_listUserGroups e),
     (''GET /admin/api/groups'', Admin_listGroups e),
     (''POST /admin/api/groups'', Admin_createGroup e),
     (''GET /admin/api/groups/{id}'', Admin_getGroup e),
     (''PATCH /admin/api/groups/{id}'', Admin_patchGroup e),
     (''DELETE /admin/api/groups/{id}'', Admin_deleteGroup e),
     (''GET /admin/api/groups/{id}/members'', Admin_listMembers e),
     (''POST /admin/api/groups/{id}/members'', Admin_addMember e),
     (''DELETE /admin/api/groups/{id}/members/{userId}'', Admin_removeMember e),
     (''GET /admin/api/apps'', Admin_listApps e),
     (''POST /admin/api/apps'', Admin_createApp e),
     (''GET /admin/api/apps/{id}'', Admin_getApp e),
     (''PATCH /admin/api/apps/{id}'', Admin_patchApp e),
     (''DELETE /admin/api/apps/{id}'', Admin_deleteApp e),
     (''POST /admin/api/apps/{id}/redirectUris'', Admin_addRedirectURI e),
     (''DELETE /admin/api/apps/{id}/redirectUris/{uriId}'', Admin_deleteRedirectURI e),
     (''POST /admin/api/apps/{id}/secrets'', Admin_addSecret e),
     (''DELETE /admin/api/apps/{id}/secrets/{secretId}'', Admin_deleteSecret e)]
   @ registerFederatedCredentials_admin e @ [
     (''POST /admin/api/apps/{id}/scopes'', Admin_addScope e),
     (''PATCH /admin/api/apps/{id}/scopes/{scopeId}'', Admin_patchScope e),
     (''DELETE /admin/api/apps/{id}/scopes/{scopeId}'', Admin_deleteScope e),
     (''POST /admin/api/apps/{id}/roles'', Admin_addRole e),
     (''PATCH /admin/api/apps/{id}/roles/{roleId}'', Admin_patchRole e),
     (''DELETE /admin/api/apps/{id}/roles/{roleId}'', Admin_deleteRole e),
     (''POST /admin/api/tokens'', Admin_forgeToken e),
     (''GET /admin/api/faults'', Admin_getFaults e),
     (''POST /admin/api/faults'', Admin_setFaults e),
     (''DELETE /admin/api/faults'', Admin_clearFaults e),
     (''GET /admin/api/clock'', Admin_getClock e),
     (''POST /admin/api/clock'', Admin_setClock e),
     (''DELETE /admin/api/clock'', Admin_resetClock e),
     (''GET /admin/api/export'', Admin_exportDirectory e),
     (''POST /admin/api/import'', Admin_importDirectory e),
     (''GET /admin/api/audit'', Admin_getAudit e),
     (''DELETE /admin/api/audit'', Admin_clearAudit e),
     (''GET /admin/api/scim/target'', Admin_getScimTarget e),
     (''POST /admin/api/scim/target'', Admin_setScimTarget e),
     (''DELETE /admin/api/scim/target'', Admin_clearScimTarget e),
     (''POST /admin/api/scim/sync'', Admin_scimSync e),
     (''GET /admin/api/scim/log'', Admin_getScimLog e),
     (''DELETE /admin/api/scim/log'', Admin_clearScimLog e),
     (''GET /admin/api/custom-extensions'', Admin_listCustomExtensions e),
     (''PUT /admin/api/apps/{id}/custom-extension'', Admin_setCustomExtension e),
     (''DELETE /admin/api/apps/{id}/custom-extension'', Admin_deleteCustomExtension e),
     (''GET /admin/api/users/{id}/passkeys'', Admin_listPasskeys e),
     (''DELETE /admin/api/users/{id}/passkeys/{credId}'', Admin_deletePasskey e),
     (''GET /admin/api/apps/{id}/keyCredentials'', Admin_listKeyCredentials e),
     (''POST /admin/api/apps/{id}/keyCredentials'', Admin_addKeyCredential e),
     (''DELETE /admin/api/apps/{id}/keyCredentials/{credId}'', Admin_deleteKeyCredential e),
     (''GET /admin/api/workspace-identities'', Admin_listWorkspaceIdentities e),
     (''POST /admin/api/workspace-identities'', Admin_createWorkspaceIdentity e),
     (''GET /admin/api/workspace-identities/{id}'', Admin_getWorkspaceIdentity e),
     (''PATCH /admin/api/workspace-identities/{id}'', Admin_patchWorkspaceIdentity e),
     (''DELETE /admin/api/workspace-identities/{id}'', Admin_deleteWorkspaceIdentity e),
     (''POST /admin/api/signing-keys/rotate'', Admin_rotateSigningKey e),
     (''POST /admin/api/seed'', Admin_seed e),
     (''POST /admin/api/reset'', Admin_reset e),
     (''GET /admin/api/certificate'', Admin_certificateMeta e),
     (''GET /admin/api/certificate/pem'', Admin_certificatePEM e)]"

text \<open>A request as it arrives: the encoded path, the raw query, the length and the first JSON value of the body.\<close>

record AdminCall =
  al_Method :: string
  al_Path :: string
  al_RawQuery :: string
  al_ContentLength :: int
  al_Body :: "json option"

definition path_segs :: "string \<Rightarrow> string list" where
  "path_segs path = SplitChar (TrimPrefix path ''/'') (CHR ''/'')"

definition admin_request :: "AdminCall \<Rightarrow> string \<Rightarrow> AdminRequest" where
  "admin_request c pat = \<lparr>aq_Method = al_Method c, aq_Query = query_of (al_RawQuery c), aq_PathValue = path_values [] pat (path_segs (al_Path c)),
     aq_ContentLength = al_ContentLength c, aq_Body = al_Body c\<rparr>"

text \<open>\<open>None\<close>: no handler of the API runs (no route matches, the path does not unescape, or the router first redirects it
  to its clean form).\<close>

definition admin_serve :: "'r AdminEnv \<Rightarrow> AdminCall \<Rightarrow> 'r Admin \<Rightarrow> (admin_reply \<times> 'r Admin) option" where
  "admin_serve e c a =
     (let segs = path_segs (al_Path c) in
      if \<not> HasPrefix (al_Path c) ''/'' \<or> PathUnescape (al_Path c) = None \<or> [] \<in> set (butlast segs) \<or> ''.'' \<in> set segs \<or> ''..'' \<in> set segs then None
      else case find_route (AdminRoutes e) [] (al_Method c) segs of
        None \<Rightarrow> None
      | Some (pat, h) \<Rightarrow> Some (h (admin_request c pat) a))"

end
