(* ===== verification/AdminProperties.thy ===== *)
theory AdminProperties
  imports AdminRoutes
begin

text \<open>
  What the administration API guarantees: whatever is asked of it, short of deleting the signing keys, the home
  tenant stays and the emulator signs with a key that verification finds.
\<close>

section \<open>Operations that leave tenants and keys alone\<close>

definition key_frame :: "'x op \<Rightarrow> bool" where
  "key_frame op \<longleftrightarrow> (\<forall>s. tenants (snd (op s)) = tenants s \<and> signing_keys (snd (op s)) = signing_keys s)"

named_theorems key_frames

lemma key_frameD: "key_frame op \<Longrightarrow> op s = (r, s1) \<Longrightarrow> tenants s1 = tenants s \<and> signing_keys s1 = signing_keys s"
  by (metis key_frame_def snd_conv)

lemma key_frame_tx [key_frames]: "key_frame op \<Longrightarrow> key_frame (tx op)"
  unfolding key_frame_def tx_def by (simp split: prod.splits sum.splits) (metis snd_conv)

lemma key_frame_statements [key_frames]: "key_frame (del_users P)" "key_frame (del_groups Q)" "key_frame (del_apps R)"
  by (simp_all add: key_frame_def del_users_def del_groups_def del_apps_def Let_def)

lemma key_frame_users [key_frames]:
  "key_frame (CreateUser u)" "key_frame (UpdateUser now u)" "key_frame (CreateGroup g)" "key_frame (UpdateGroup g)"
  "key_frame (AddGroupMember gid uid)" "key_frame (RemoveGroupMember gid uid)" "key_frame (DeleteWebAuthnCredential uid i)"
  "key_frame (DeleteGroup gid)" "key_frame (delete_user_body uid)"
  by (simp_all add: key_frame_def CreateUser_def UpdateUser_def CreateGroup_def UpdateGroup_def AddGroupMember_def RemoveGroupMember_def
      DeleteWebAuthnCredential_def DeleteGroup_def del_groups_def delete_user_body_def del_users_def clear_user_grants_def Let_def
      split: sum.splits prod.splits if_splits)

lemma key_frame_apps [key_frames]:
  "key_frame (CreateApp ap)" "key_frame (insert_app ap)" "key_frame (UpdateApp ap)" "key_frame (SetFrontchannelLogoutURI i uri)"
  "key_frame (AddRedirectURI i uri ty)" "key_frame (DeleteRedirectURI i n)" "key_frame (AddSecret sec)" "key_frame (DeleteSecret i j)"
  "key_frame (AddScope sc)" "key_frame (UpdateScope sc)" "key_frame (DeleteScope i j)" "key_frame (AddRole ro)" "key_frame (UpdateRole ro)"
  "key_frame (DeleteRole i j)" "key_frame (AddAppKeyCredential kc)" "key_frame (DeleteAppKeyCredential i j)"
  "key_frame (CreateFederatedCredential fc)" "key_frame (DeleteFederatedCredential i j)" "key_frame (delete_app_body i)"
  by (simp_all add: key_frame_def CreateApp_def insert_app_def UpdateApp_def SetFrontchannelLogoutURI_def AddRedirectURI_def DeleteRedirectURI_def
      AddSecret_def DeleteSecret_def AddScope_def UpdateScope_def DeleteScope_def AddRole_def UpdateRole_def DeleteRole_def AddAppKeyCredential_def
      DeleteAppKeyCredential_def CreateFederatedCredential_def DeleteFederatedCredential_def delete_app_body_def del_apps_def clear_app_grants_def Let_def
      split: sum.splits prod.splits if_splits)

lemma key_frame_deletes [key_frames]: "key_frame (DeleteUser i)" "key_frame (DeleteApp i)"
  unfolding DeleteUser_def DeleteApp_def by (intro key_frames)+

lemma key_frame_workspaces [key_frames]:
  "key_frame (CreateWorkspaceIdentity wi ap)" "key_frame (UpdateWorkspaceIdentity wi)" "key_frame (DeleteWorkspaceIdentity i)"
  subgoal unfolding CreateWorkspaceIdentity_def by (rule key_frame_tx) (simp add: key_frame_def Let_def)
  subgoal unfolding UpdateWorkspaceIdentity_def by (rule key_frame_tx) (simp add: key_frame_def Let_def split: sum.splits)
  subgoal using key_frame_deletes(2) by (simp add: key_frame_def DeleteWorkspaceIdentity_def split: sum.splits)
  done

text \<open>Loops and the transaction of an import.\<close>

lemma key_frame_then:
  assumes "key_frame f" and "\<And>x. key_frame (g x)"
  shows "key_frame (\<lambda>s. case f s of (Inl e, s1) \<Rightarrow> (Inl e, s1) | (Inr x, s1) \<Rightarrow> g x s1)"
proof -
  have "tenants (snd (g x s1)) = tenants s \<and> signing_keys (snd (g x s1)) = signing_keys s" if "f s = (Inr x, s1)" for x s s1
    using key_frameD[OF assms(1) that] assms(2)[of x] by (simp add: key_frame_def)
  with key_frameD[OF assms(1)] show ?thesis by (auto simp: key_frame_def split: prod.splits sum.splits)
qed

lemma key_frame_insert_all [key_frames]: "(\<And>x. key_frame (f x)) \<Longrightarrow> key_frame (insert_all f xs)"
proof (induction xs)
  case Nil
  then show ?case by (simp add: key_frame_def)
next
  case (Cons x xs)
  from Cons.IH[OF Cons.prems] have "tenants (snd (insert_all f xs s1)) = tenants s1 \<and> signing_keys (snd (insert_all f xs s1)) = signing_keys s1" for s1
    by (simp add: key_frame_def)
  with key_frameD[OF Cons.prems[of x]] show ?case by (auto simp: key_frame_def split: prod.splits sum.splits)
qed

lemma key_frame_drop_row [key_frames]: "key_frame op \<Longrightarrow> key_frame (drop_row op)"
  by (auto simp: key_frame_def drop_row_def split: prod.splits sum.splits) (metis snd_conv)+

lemma key_frame_add_redirects [key_frames]: "key_frame (add_redirects i us)"
proof (induction us)
  case Nil
  show ?case by (simp add: key_frame_def)
next
  case (Cons u us)
  obtain uri ty where u: "u = (uri, ty)" by fastforce
  have "add_redirects i (u # us) = (\<lambda>s. case AddRedirectURI i uri ty s of (Inl err, s1) \<Rightarrow> (Inl err, s1) | (Inr _, s1) \<Rightarrow> add_redirects i us s1)"
    by (rule ext) (simp add: u)
  with key_frame_then[OF key_frame_apps(5) Cons.IH] show ?case by simp
qed

lemma key_frame_import [key_frames]: "key_frame (ImportDirectory snap tid now)"
proof -
  have rows: "key_frame (import_user tid now u)" "key_frame (import_group tid now g)" "key_frame (import_member m)" for u g m
    by (simp_all add: key_frame_def import_user_def import_group_def import_member_def Let_def)
  have app: "key_frame (import_app tid now x)" for x
    unfolding import_app_def insertAppExportTx_def Let_def
    by (intro key_frame_then key_frames)
  have clear: "key_frame (\<lambda>s. insert_all (import_user tid now) us (clear_directory s))" for us
    using key_frame_insert_all[of "import_user tid now" us, OF rows(1)] by (simp add: key_frame_def clear_directory_def)
  show ?thesis unfolding ImportDirectory_def
    by (intro key_frame_tx key_frame_then clear key_frame_insert_all rows app)
qed

section \<open>Handlers that leave tenants and keys alone\<close>

definition signs_same :: "'r Admin \<Rightarrow> 'r Admin \<Rightarrow> bool" where
  "signs_same a a' \<longleftrightarrow> tenants (ad_Store a') = tenants (ad_Store a) \<and> signing_keys (ad_Store a') = signing_keys (ad_Store a)
     \<and> sv_Signer (ad_Tokens a') = sv_Signer (ad_Tokens a)"

definition frames :: "'r admin_handler \<Rightarrow> bool" where
  "frames h \<longleftrightarrow> (\<forall>r a. signs_same a (snd (h r a)))"

lemma signs_same_refl: "signs_same a a"
  by (simp add: signs_same_def)

lemma signs_same_put: "key_frame op \<Longrightarrow> op (ad_Store a) = (x, s1) \<Longrightarrow> signs_same a (put_store s1 a)"
  using key_frameD[of op "ad_Store a" x s1] by (simp add: signs_same_def put_store_def)

lemma signs_same_run: "key_frame op \<Longrightarrow> signs_same a (snd (run_store op k a))"
  using signs_same_put[of op a] by (auto simp: run_store_def split: prod.splits sum.splits)

lemma signs_same_put_run: "key_frame op \<Longrightarrow> signs_same a (put_store s1 a) \<Longrightarrow> signs_same a (snd (run_store op k (put_store s1 a)))"
  using signs_same_run[of op "put_store s1 a" k] by (auto simp: signs_same_def)

lemma signs_same_row: "(\<And>x. signs_same a (snd (k x))) \<Longrightarrow> signs_same a (snd (with_row row k a))"
  by (simp add: with_row_def signs_same_refl split: sum.splits)

lemma signs_same_body: "(\<And>x. signs_same a (snd (k x))) \<Longrightarrow> signs_same a (snd (with_body b k a))"
  by (simp add: with_body_def signs_same_refl split: sum.splits)

lemma signs_same_fields:
  "signs_same a (a\<lparr>ad_Clock := c\<rparr>)" "signs_same a (a\<lparr>ad_Faults := f\<rparr>)" "signs_same a (a\<lparr>ad_Audit := l\<rparr>)" "signs_same a (a\<lparr>ad_CustomExt := x\<rparr>)"
  "signs_same a (a\<lparr>ad_Provisioner := p\<rparr>)" "signs_same a (a\<lparr>ad_Provisioner := p, ad_Remote := w\<rparr>)"
  by (simp_all add: signs_same_def)

lemma signs_same_cases:
  "(\<And>x. row = Some x \<Longrightarrow> signs_same a (snd (k x))) \<Longrightarrow> (row = None \<Longrightarrow> signs_same a (snd n)) \<Longrightarrow> signs_same a (snd (case row of None \<Rightarrow> n | Some x \<Rightarrow> k x))"
  "(b \<Longrightarrow> signs_same a (snd p)) \<Longrightarrow> (\<not> b \<Longrightarrow> signs_same a (snd q)) \<Longrightarrow> signs_same a (snd (if b then p else q))"
  "(\<And>y z. yz = (y, z) \<Longrightarrow> signs_same a (snd (m y z))) \<Longrightarrow> signs_same a (snd (case yz of (y, z) \<Rightarrow> m y z))"
  "(\<And>e. res = Inl e \<Longrightarrow> signs_same a (snd (u e))) \<Longrightarrow> (\<And>v. res = Inr v \<Longrightarrow> signs_same a (snd (w v))) \<Longrightarrow> signs_same a (snd (case res of Inl e \<Rightarrow> u e | Inr v \<Rightarrow> w v))"
  "signs_same a a' \<Longrightarrow> signs_same a (snd (rp, a'))"
  by (auto split: option.splits prod.splits sum.splits)

lemmas signs_same_intros = signs_same_row signs_same_body signs_same_run signs_same_cases signs_same_refl signs_same_fields key_frames

lemma directory_frames:
  "frames (Admin_listUsers e)" "frames (Admin_createUser e)" "frames (Admin_getUser e)" "frames (Admin_patchUser e)" "frames (Admin_deleteUser e)"
  "frames (Admin_listUserGroups e)" "frames (Admin_listGroups e)" "frames (Admin_createGroup e)" "frames (Admin_getGroup e)"
  "frames (Admin_patchGroup e)" "frames (Admin_deleteGroup e)" "frames (Admin_listMembers e)" "frames (Admin_addMember e)"
  "frames (Admin_removeMember e)" "frames (Admin_listTenants e)" "frames (Admin_getTenant e)" "frames (Admin_listPasskeys e)" "frames (Admin_deletePasskey e)"
  unfolding frames_def Admin_listUsers_def Admin_createUser_def Admin_getUser_def Admin_patchUser_def Admin_deleteUser_def Admin_listUserGroups_def
    Admin_listGroups_def Admin_createGroup_def Admin_getGroup_def Admin_patchGroup_def Admin_deleteGroup_def Admin_listMembers_def Admin_addMember_def
    Admin_removeMember_def Admin_listTenants_def Admin_getTenant_def Admin_listPasskeys_def Admin_deletePasskey_def Let_def
  by (intro allI signs_same_intros)+

lemma app_frames:
  "frames (Admin_listApps e)" "frames (Admin_getApp e)" "frames (Admin_deleteApp e)" "frames (Admin_addRedirectURI e)"
  "frames (Admin_deleteRedirectURI e)" "frames (Admin_addSecret e)" "frames (Admin_deleteSecret e)" "frames (Admin_addScope e)" "frames (Admin_patchScope e)"
  "frames (Admin_deleteScope e)" "frames (Admin_addRole e)" "frames (Admin_patchRole e)" "frames (Admin_deleteRole e)" "frames (Admin_listKeyCredentials e)"
  "frames (Admin_addKeyCredential e)" "frames (Admin_deleteKeyCredential e)" "frames (Admin_listFederatedCredentials e)"
  "frames (Admin_addFederatedCredential e)" "frames (Admin_deleteFederatedCredential e)" "frames (Admin_listWorkspaceIdentities e)"
  "frames (Admin_getWorkspaceIdentity e)" "frames (Admin_createWorkspaceIdentity e)" "frames (Admin_patchWorkspaceIdentity e)" "frames (Admin_deleteWorkspaceIdentity e)"
  unfolding frames_def Admin_listApps_def Admin_getApp_def Admin_deleteApp_def Admin_addRedirectURI_def Admin_deleteRedirectURI_def Admin_addSecret_def
    Admin_deleteSecret_def Admin_addScope_def Admin_patchScope_def Admin_deleteScope_def Admin_addRole_def Admin_patchRole_def Admin_deleteRole_def
    Admin_listKeyCredentials_def Admin_addKeyCredential_def Admin_deleteKeyCredential_def Admin_listFederatedCredentials_def
    Admin_addFederatedCredential_def Admin_deleteFederatedCredential_def Admin_listWorkspaceIdentities_def Admin_getWorkspaceIdentity_def
    Admin_createWorkspaceIdentity_def Admin_patchWorkspaceIdentity_def Admin_deleteWorkspaceIdentity_def Let_def
  by (intro allI signs_same_intros)+

lemma app_row_frames: "frames (Admin_createApp e)" "frames (Admin_patchApp e)"
  unfolding frames_def Admin_createApp_def Admin_patchApp_def Let_def
  by (intro allI signs_same_put_run signs_same_intros; (rule signs_same_put[rotated], assumption)?; intro key_frames)+

lemma control_frames:
  "frames (Admin_handleHealth e)" "frames (Admin_certificateMeta e)" "frames (Admin_certificatePEM e)" "frames (Admin_getClock e)"
  "frames (Admin_setClock e)" "frames (Admin_resetClock e)" "frames (Admin_getFaults e)" "frames (Admin_setFaults e)" "frames (Admin_clearFaults e)"
  "frames (Admin_getAudit e)" "frames (Admin_clearAudit e)" "frames (Admin_forgeToken e)" "frames (Admin_getScimTarget e)" "frames (Admin_setScimTarget e)"
  "frames (Admin_clearScimTarget e)" "frames (Admin_scimSync e)" "frames (Admin_getScimLog e)" "frames (Admin_clearScimLog e)"
  "frames (Admin_listCustomExtensions e)" "frames (Admin_setCustomExtension e)" "frames (Admin_deleteCustomExtension e)"
  "frames (Admin_exportDirectory e)"
  unfolding frames_def Admin_handleHealth_def Admin_certificateMeta_def Admin_certificatePEM_def Admin_getClock_def Admin_setClock_def Admin_resetClock_def
    Admin_getFaults_def Admin_setFaults_def Admin_clearFaults_def Admin_getAudit_def Admin_clearAudit_def Admin_forgeToken_def Admin_getScimTarget_def
    Admin_setScimTarget_def Admin_clearScimTarget_def Admin_scimSync_def Admin_getScimLog_def Admin_clearScimLog_def Admin_listCustomExtensions_def
    Admin_setCustomExtension_def Admin_deleteCustomExtension_def Admin_exportDirectory_def Let_def
  by (intro allI signs_same_intros)+

lemma import_frames: "frames (Admin_importDirectory e)"
  unfolding frames_def Admin_importDirectory_def Let_def
  by (intro allI signs_same_put_run signs_same_intros; (rule signs_same_put[rotated], assumption)?; intro key_frames)+

section \<open>The home tenant and its signer\<close>

text \<open>The keys of a tenant: their ids with their public halves.\<close>

definition tenant_keys :: "Store \<Rightarrow> string \<Rightarrow> (string \<times> string) set" where
  "tenant_keys s t = (\<lambda>k. (k_Kid k, k_PublicJWK k)) ` {k \<in> set (signing_keys s). k_TenantID k = t}"

definition public_jwk :: "Env \<Rightarrow> Signer \<Rightarrow> string" where
  "public_jwk env sg = snd (publicJWKFor env (env_public env (sg_PrivateKey sg)))"

text \<open>The active keys of a tenant, by the table's flag: they are published at every time.\<close>

definition active_keys :: "Store \<Rightarrow> string \<Rightarrow> (string \<times> string) list" where
  "active_keys s t = map (\<lambda>k. (k_Kid k, k_PublicJWK k)) (filter (\<lambda>k. k_TenantID k = t \<and> k_IsActive k) (signing_keys s))"

text \<open>The home tenant has one active key, and it is the one the running emulator signs with.\<close>

definition home_ok :: "Env \<Rightarrow> string \<Rightarrow> 'r Admin \<Rightarrow> bool" where
  "home_ok env tid a \<longleftrightarrow> has_tenant (ad_Store a) tid \<and> keys_ok env (ad_Store a)
     \<and> active_keys (ad_Store a) tid = [(sg_Kid (sv_Signer (ad_Tokens a)), public_jwk env (sv_Signer (ad_Tokens a)))]"

text \<open>What a step owes to the home tenant.\<close>

definition safe :: "Env \<Rightarrow> string \<Rightarrow> 'r Admin \<Rightarrow> 'r Admin \<Rightarrow> bool" where
  "safe env tid a a' \<longleftrightarrow> (home_ok env tid a \<longrightarrow> home_ok env tid a' \<and> tenant_keys (ad_Store a) tid \<subseteq> tenant_keys (ad_Store a') tid)"

definition safe_handler :: "Env \<Rightarrow> string \<Rightarrow> 'r admin_handler \<Rightarrow> bool" where
  "safe_handler env tid h \<longleftrightarrow> (\<forall>r a. safe env tid a (snd (h r a)))"

lemma safe_refl [simp]: "safe env tid a a"
  by (simp add: safe_def)

lemma safe_trans: "safe env tid a a1 \<Longrightarrow> safe env tid a1 a2 \<Longrightarrow> safe env tid a a2"
  by (auto simp: safe_def)

lemma safe_same: "signs_same a a' \<Longrightarrow> safe env tid a a'"
  by (simp add: safe_def home_ok_def signs_same_def has_defs keys_ok_def tenant_keys_def active_keys_def)

lemma frames_safe: "frames h \<Longrightarrow> safe_handler env tid h"
  by (simp add: frames_def safe_handler_def safe_same)

text \<open>A step that keeps the home tenant, the well-formedness of the keys, the keys of the home tenant and the signer.\<close>

lemma safeI:
  assumes "keys_ok env (ad_Store a) \<Longrightarrow> has_tenant (ad_Store a) tid \<Longrightarrow>
      has_tenant (ad_Store a') tid \<and> keys_ok env (ad_Store a') \<and> tenant_keys (ad_Store a) tid \<subseteq> tenant_keys (ad_Store a') tid
      \<and> active_keys (ad_Store a') tid = active_keys (ad_Store a) tid \<and> sv_Signer (ad_Tokens a') = sv_Signer (ad_Tokens a)"
  shows "safe env tid a a'"
  using assms by (auto simp: safe_def home_ok_def)

lemma insert_key_keeps:
  assumes "InsertSigningKey k s = (r, s')"
  shows "tenants s' = tenants s \<and> (\<forall>t. tenant_keys s t \<subseteq> tenant_keys s' t)
    \<and> (\<forall>t. active_keys s' t = active_keys s t @ (if r = Inr () \<and> k_TenantID k = t \<and> k_IsActive k then [(k_Kid k, k_PublicJWK k)] else []))"
proof (cases r)
  case (Inl e)
  then show ?thesis using assms keys.ins_err[of k s e s'] by auto
next
  case (Inr u)
  then have "signing_keys s' = signing_keys s @ [norm_key k]" "tenants s' = tenants s" "r = Inr ()"
    using assms by (auto simp: InsertSigningKey_def split: if_splits)
  moreover have "k_Kid (norm_key k) = k_Kid k" "k_TenantID (norm_key k) = k_TenantID k" "k_PublicJWK (norm_key k) = k_PublicJWK k"
    "k_IsActive (norm_key k) = k_IsActive k"
    by (simp_all add: norm_key_def)
  ultimately show ?thesis by (auto simp: tenant_keys_def active_keys_def image_iff)
qed

lemma generated_keeps:
  assumes "crypto_laws env" and "keys_ok env s" and "generateAndActivate env priv now t s = (r, s')"
  shows "tenants s' = tenants s \<and> keys_ok env s' \<and> (\<forall>t. tenant_keys s t \<subseteq> tenant_keys s' t)
     \<and> (\<forall>u. active_keys s' u = active_keys s u @ (case r of Inl e \<Rightarrow> [] | Inr sg \<Rightarrow> if u = t then [(sg_Kid sg, public_jwk env sg)] else []))"
proof (cases r)
  case (Inl e)
  with assms(2,3) show ?thesis by (auto simp: generateAndActivate_def InsertSigningKey_def split: prod.splits sum.splits if_splits)
next
  case (Inr sg)
  obtain kid jwk where pj: "publicJWKFor env (env_public env priv) = (kid, jwk)" by fastforce
  let ?k = "\<lparr>k_Kid = kid, k_TenantID = t, k_Alg = ''RS256'', k_PublicJWK = jwk, k_PrivatePKCS8 = env_pem_encode env priv, k_IsActive = True,
      k_CreatedAt = now, k_NotAfter = Some 0\<rparr>"
  have ins: "InsertSigningKey ?k s = (Inr (), s')" and sg: "sg = \<lparr>sg_Kid = kid, sg_PrivateKey = priv\<rparr>"
    using assms(3) Inr pj by (auto simp: generateAndActivate_def split: sum.splits prod.splits)
  from insert_key_keeps[OF ins] generateAndActivate_ok[OF assms(1,2), of priv now t sg s'] assms(3) Inr pj show ?thesis
    by (simp add: sg public_jwk_def)
qed

lemma signer_keeps:
  assumes "crypto_laws env" and "keys_ok env (sv_Store sv)" and "signerForTenant env cfg now priv t sv = (r, sv')"
  shows "tenants (sv_Store sv') = tenants (sv_Store sv) \<and> keys_ok env (sv_Store sv')
     \<and> (\<forall>t. tenant_keys (sv_Store sv) t \<subseteq> tenant_keys (sv_Store sv') t) \<and> sv_Signer sv' = sv_Signer sv
     \<and> active_keys (sv_Store sv') (cf_TenantID cfg) = active_keys (sv_Store sv) (cf_TenantID cfg)"
proof -
  have "tenants s1 = tenants s \<and> keys_ok env s1 \<and> (\<forall>t. tenant_keys s t \<subseteq> tenant_keys s1 t) \<and> (\<forall>u. u \<noteq> t \<longrightarrow> active_keys s1 u = active_keys s u)"
    if "keys_ok env s" "EnsureActiveKey env priv now t s = (x, s1)" for s x s1
    using that generated_keeps[OF assms(1) that(1), of priv now t]
    by (auto simp: EnsureActiveKey_def split: sum.splits option.splits if_splits)
  from this[OF assms(2)] assms(2,3) show ?thesis
    by (auto simp: signerForTenant_def subset_iff split: if_splits option.splits prod.splits sum.splits)
qed

section \<open>The handlers that write tenants or keys\<close>

lemma createTenant_safe:
  assumes "crypto_laws env" and "ae_env e = env" and "cf_TenantID (ae_cfg e) = tid"
  shows "safe_handler env tid (Admin_createTenant e)"
proof -
  have body: "safe env tid a (snd (case CreateTenant t (ad_Store a) of
          (Inl err, s1) \<Rightarrow> (writeStoreErr err, put_store s1 a)
        | (Inr _, s1) \<Rightarrow>
          (case signerForTenant (ae_env e) (ae_cfg e) (admin_now e a) (ae_priv e) (ae_guid e 0) (ad_Tokens (put_store s1 a)) of
             (Inl err, sv) \<Rightarrow> (AdminError 500 ''internal_error'' (err_text err) [], a\<lparr>ad_Tokens := sv\<rparr>)
           | (Inr signer, sv) \<Rightarrow> (rep, a\<lparr>ad_Tokens := sv\<rparr>))))" for a :: "'a Admin" and t rep
  proof (cases "has_tenant (ad_Store a) (t_ID t)")
    case True
    then show ?thesis by (simp add: CreateTenant_def)
  next
    case False
    let ?a1 = "put_store (ad_Store a\<lparr>tenants := tenants (ad_Store a) @ [t]\<rparr>) a"
    have 1: "safe env tid a ?a1"
      by (rule safeI) (auto simp: has_defs keys_ok_def tenant_keys_def active_keys_def put_store_def)
    obtain r sv where sv: "signerForTenant env (ae_cfg e) (admin_now e a) (ae_priv e) (ae_guid e 0) (ad_Tokens ?a1) = (r, sv)" by fastforce
    have "safe env tid ?a1 (a\<lparr>ad_Tokens := sv\<rparr>)"
      using signer_keeps[OF assms(1) _ sv] assms(3) by (intro safeI) (auto simp: has_defs put_store_def)
    with 1 have "safe env tid a (a\<lparr>ad_Tokens := sv\<rparr>)" by (rule safe_trans)
    with False sv show ?thesis by (auto simp: CreateTenant_def assms(2) split: sum.splits)
  qed
  show ?thesis unfolding safe_handler_def Admin_createTenant_def with_body_def Let_def
    by (intro allI) (auto split: sum.splits intro: body)
qed

lemma active_keys_delete:
  "signing_keys s' = sql_delete (\<lambda>k. k_TenantID k = i) (signing_keys s) \<Longrightarrow> i \<noteq> t \<Longrightarrow> active_keys s' t = active_keys s t"
  "signing_keys s' = signing_keys s \<Longrightarrow> active_keys s' t = active_keys s t"
  by (auto simp: active_keys_def sql_delete_def intro!: arg_cong[where f = "map _"] filter_cong)

lemma DeleteTenant_keeps:
  assumes "DeleteTenant i s = (r, s')" and "i \<noteq> tid"
  shows "has_tenant s tid \<longrightarrow> has_tenant s' tid" "keys_ok env s \<longrightarrow> keys_ok env s'" "tenant_keys s tid \<subseteq> tenant_keys s' tid"
    "active_keys s' tid = active_keys s tid"
proof -
  let ?kept = "\<lambda>s'. (s' = s \<or> tenants s' = tenants s \<and> signing_keys s' = signing_keys s
     \<or> tenants s' = sql_delete (\<lambda>t. t_ID t = i) (tenants s) \<and> signing_keys s' = sql_delete (\<lambda>k. k_TenantID k = i) (signing_keys s))"
  note stages = key_frameD[OF key_frame_statements(1)] key_frameD[OF key_frame_statements(2)] key_frameD[OF key_frame_statements(3)]
  have kept: "?kept s'" using assms(1)
    by (auto simp: DeleteTenant_def tx_def del_tenant_row_def Let_def clear_tenant_grants_def split: sum.splits prod.splits if_splits dest!: stages)
  then show "has_tenant s tid \<longrightarrow> has_tenant s' tid" "keys_ok env s \<longrightarrow> keys_ok env s'" "tenant_keys s tid \<subseteq> tenant_keys s' tid"
    using assms(2) by (auto simp: has_defs list_ex_iff keys_ok_def tenant_keys_def set_sql_delete distinct_sql_delete)
  from kept active_keys_delete(1)[of s' i s tid] active_keys_delete(2)[of s' s tid] assms(2) show "active_keys s' tid = active_keys s tid" by blast
qed

lemma deleteTenant_safe: "cf_TenantID (ae_cfg e) = tid \<Longrightarrow> safe_handler env tid (Admin_deleteTenant e)"
  unfolding safe_handler_def
proof (intro allI)
  fix r :: AdminRequest and a :: "'a Admin"
  assume tid: "cf_TenantID (ae_cfg e) = tid"
  obtain x s1 where d: "DeleteTenant (aq_PathValue r ''id'') (ad_Store a) = (x, s1)" by fastforce
  show "safe env tid a (snd (Admin_deleteTenant e r a))"
  proof (cases "aq_PathValue r ''id'' = tid")
    case True
    then show ?thesis by (simp add: Admin_deleteTenant_def tid)
  next
    case False
    have "safe env tid a (put_store s1 a)"
      using DeleteTenant_keeps[OF d False] by (intro safeI) (auto simp: put_store_def)
    then show ?thesis using False d by (simp add: Admin_deleteTenant_def tid run_store_def split: sum.splits)
  qed
qed

lemma tenant_keys_map: "tenant_keys s t = {(i, j). (i, j, t) \<in> set (map (\<lambda>k. (k_Kid k, k_PublicJWK k, k_TenantID k)) (signing_keys s))}"
  by (auto simp: tenant_keys_def)

lemma demote_keeps:
  "tenants (DemoteActiveSigningKeys t n s) = tenants s" "tenant_keys (DemoteActiveSigningKeys t n s) t' = tenant_keys s t'"
  "keys_ok env s \<Longrightarrow> keys_ok env (DemoteActiveSigningKeys t n s)" "active_keys (DemoteActiveSigningKeys t n s) t = []"
  "map k_Kid (signing_keys (DemoteActiveSigningKeys t n s)) = map k_Kid (signing_keys s)"
proof -
  show "tenants (DemoteActiveSigningKeys t n s) = tenants s" by (simp add: DemoteActiveSigningKeys_def)
  show "tenant_keys (DemoteActiveSigningKeys t n s) t' = tenant_keys s t'"
    unfolding tenant_keys_map DemoteActiveSigningKeys_def by (simp add: map_sql_update)
  show "keys_ok env s \<Longrightarrow> keys_ok env (DemoteActiveSigningKeys t n s)" by (simp add: keys_ok_def demote_keys)
  show "active_keys (DemoteActiveSigningKeys t n s) t = []"
  proof -
    have "filter (\<lambda>k. k_TenantID k = t \<and> k_IsActive k) (signing_keys (DemoteActiveSigningKeys t n s)) = []"
      unfolding filter_empty_conv DemoteActiveSigningKeys_def by (simp add: ball_sql_update)
    then show ?thesis by (simp add: active_keys_def)
  qed
qed (rule demote_keys(1))

text \<open>The key \<^verbatim>\<open>rsa.GenerateKey\<close> hands to a request is none of the table's. A rotation whose insertion fails has already
  retired the active key, so without it the emulator could be left signing with a retired one.\<close>

definition new_key :: "'r AdminEnv \<Rightarrow> 'r Admin \<Rightarrow> bool" where
  "new_key e a \<longleftrightarrow> fst (publicJWKFor (ae_env e) (env_public (ae_env e) (ae_priv e))) \<notin> k_Kid ` set (signing_keys (ad_Store a))"

lemma generated_new:
  assumes "fst (publicJWKFor env (env_public env priv)) \<notin> k_Kid ` set (signing_keys s)" and "has_tenant s t"
  shows "\<exists>sg s'. generateAndActivate env priv now t s = (Inr sg, s')"
  using assms by (auto simp: generateAndActivate_def InsertSigningKey_def list_ex_iff split: prod.splits)

lemma rotate_safe:
  assumes "crypto_laws env" and "ae_env e = env" and "cf_TenantID (ae_cfg e) = tid" and "new_key e a"
  shows "safe env tid a (snd (Admin_rotateSigningKey e r a))"
proof -
  have rot: "safe env tid a (a\<lparr>ad_Tokens := sv\<rparr>)"
    if "Rotate env (ae_cfg e) now (ae_priv e) grace (ad_Tokens a) = (x, sv)" for now grace x sv
    unfolding safe_def
  proof
    let ?s = "DemoteActiveSigningKeys tid (i64_add now grace) (ad_Store a)"
    assume home: "home_ok env tid a"
    have "k_Kid ` set (signing_keys ?s) = k_Kid ` set (signing_keys (ad_Store a))"
      using demote_keeps(5)[of tid "i64_add now grace" "ad_Store a"] by (metis list.set_map)
    moreover have "has_tenant ?s tid" using home demote_keeps(1) by (simp add: home_ok_def has_defs)
    ultimately obtain sg :: Signer and s2 where g: "generateAndActivate env (ae_priv e) now tid ?s = (Inr sg, s2)"
      using generated_new[of env "ae_priv e" ?s tid now] assms(2,4) unfolding new_key_def by metis
    from that g have sv: "sv_Store sv = s2" "sv_Signer sv = sg"
      by (auto simp: Rotate_def Let_def assms(3))
    have ok: "keys_ok env (ad_Store a)" using home by (simp add: home_ok_def)
    from generated_keeps[OF assms(1) demote_keeps(3)[OF ok] g] demote_keeps(1,2,4)
    have k: "tenants s2 = tenants (ad_Store a)" "keys_ok env s2" "tenant_keys (ad_Store a) tid \<subseteq> tenant_keys s2 tid"
      "active_keys s2 tid = [(sg_Kid sg, public_jwk env sg)]" by (simp_all del: subset_iff)
    show "home_ok env tid (a\<lparr>ad_Tokens := sv\<rparr>) \<and> tenant_keys (ad_Store a) tid \<subseteq> tenant_keys (ad_Store (a\<lparr>ad_Tokens := sv\<rparr>)) tid"
      using k home by (simp add: sv home_ok_def has_defs)
  qed
  show ?thesis unfolding Admin_rotateSigningKey_def with_body_def Let_def assms(2)
    by (auto split: sum.splits prod.splits intro: rot)
qed

lemma seed_keeps:
  assumes "Seed hs now tid2 issuer s = (r, s')"
  shows "(has_tenant s t \<longrightarrow> has_tenant s' t) \<and> signing_keys s' = signing_keys s"
proof (cases hs)
  case None
  with assms show ?thesis by (simp add: Seed_def)
next
  case (Some h)
  show ?thesis
  proof (cases r)
    case (Inl err)
    with assms Some show ?thesis by (auto simp: Seed_def tx_def split: sum.splits prod.splits)
  next
    case (Inr b)
    from Seed_again(1)[OF assms[unfolded Some Inr] covers_refl] have g: "grown s s'" .
    have "has_tenant s t \<longrightarrow> has_tenant s' t" using covers_sets(1)[OF grown_covers[OF g]] unfolding has_defs list_ex_iff by blast
    with grown_keys[OF g] show ?thesis by simp
  qed
qed

lemma safe_put:
  assumes "has_tenant (ad_Store a) tid \<longrightarrow> has_tenant s tid" and "signing_keys s = signing_keys (ad_Store a)"
  shows "safe env tid a (put_store s a)"
  using assms by (intro safeI) (auto simp: put_store_def keys_ok_def tenant_keys_def active_keys_def)

lemma seed_safe: "safe_handler env tid (Admin_seed e)"
  unfolding safe_handler_def Admin_seed_def with_body_def Let_def
  by (intro allI) (auto split: sum.splits prod.splits intro!: safe_put dest!: seed_keeps)

definition asks_key_reset :: "AdminRequest \<Rightarrow> bool" where
  "asks_key_reset r \<longleftrightarrow> (case optionalBody [''reseed'', ''resetKeys''] dec_reset_body (None, False) r of Inl _ \<Rightarrow> False | Inr b \<Rightarrow> snd b)"

lemma reset_safe: "\<not> asks_key_reset r \<Longrightarrow> safe env tid a (snd (Admin_reset e r a))"
proof (cases "optionalBody [''reseed'', ''resetKeys''] dec_reset_body (None, False) r")
  case (Inl rep)
  then show ?thesis by (simp add: Admin_reset_def with_body_def)
next
  case (Inr b)
  assume "\<not> asks_key_reset r"
  with Inr obtain rs where b: "b = (rs, False)" by (cases b) (simp add: asks_key_reset_def)
  obtain x s1 where x: "Reset (admin_hashes e) (admin_now e a) (cf_TenantID (ae_cfg e)) (cf_Issuer (ae_cfg e)) (or_else rs True) False (ad_Store a) = (x, s1)"
    by fastforce
  have c: "tenants (clear_directory s) = tenants s" "signing_keys (clear_directory s) = signing_keys s" for s by (simp_all add: clear_directory_def)
  have "(has_tenant (ad_Store a) tid \<longrightarrow> has_tenant s1 tid) \<and> signing_keys s1 = signing_keys (ad_Store a)"
    using x seed_keeps[where t = tid and s = "clear_directory (ad_Store a)"] c
    by (auto simp: Reset_def Let_def has_defs split: if_splits sum.splits prod.splits)
  then have "safe env tid a (put_store s1 a)" by (auto intro: safe_put)
  with Inr b x show ?thesis by (simp add: Admin_reset_def with_body_def split: sum.splits)
qed

section \<open>The whole surface\<close>

lemma routes_safe:
  assumes "crypto_laws env" and "ae_env e = env" and "cf_TenantID (ae_cfg e) = tid"
    and "(pat, h) \<in> set (AdminRoutes e)" and "pat \<noteq> ''POST /admin/api/reset''" and "pat \<noteq> ''POST /admin/api/signing-keys/rotate''"
  shows "safe_handler env tid h"
proof -
  have "list_all (\<lambda>(pat, h). pat = ''POST /admin/api/reset'' \<or> pat = ''POST /admin/api/signing-keys/rotate'' \<or> safe_handler env tid h) (AdminRoutes e)"
    by (simp add: AdminRoutes_def registerFederatedCredentials_admin_def frames_safe directory_frames app_frames app_row_frames control_frames import_frames
      createTenant_safe[OF assms(1-3)] deleteTenant_safe[OF assms(3)] seed_safe)
  with assms(4-6) show ?thesis by (auto simp: list_all_iff)
qed

inductive admin_run :: "Env \<Rightarrow> string \<Rightarrow> 'r Admin \<Rightarrow> 'r Admin \<Rightarrow> bool" for env tid where
  start: "admin_run env tid a a"
| serve: "\<lbrakk>admin_run env tid a a1; ae_env e = env; cf_TenantID (ae_cfg e) = tid; \<not> asks_key_reset (admin_request c []); new_key e a1;
    admin_serve e c a1 = Some (rp, a2)\<rbrakk> \<Longrightarrow> admin_run env tid a a2"

lemma serve_safe:
  assumes "crypto_laws env" and "ae_env e = env" and "cf_TenantID (ae_cfg e) = tid" and "\<not> asks_key_reset (admin_request c [])"
    and "new_key e a" and "admin_serve e c a = Some (rp, a')"
  shows "safe env tid a a'"
proof -
  from assms(6) obtain pat h where h: "find_route (AdminRoutes e) [] (al_Method c) (path_segs (al_Path c)) = Some (pat, h)"
    "h (admin_request c pat) a = (rp, a')"
    by (auto simp: admin_serve_def Let_def split: if_splits option.splits)
  from find_route_mem[OF h(1)] have mem: "(pat, h) \<in> set (AdminRoutes e)" by blast
  consider (reset) "pat = ''POST /admin/api/reset''" | (rotate) "pat = ''POST /admin/api/signing-keys/rotate''"
    | (other) "pat \<noteq> ''POST /admin/api/reset''" "pat \<noteq> ''POST /admin/api/signing-keys/rotate''" by blast
  then show ?thesis
  proof cases
    case reset
    have "list_all (\<lambda>(pat, h). pat = ''POST /admin/api/reset'' \<longrightarrow> h = Admin_reset e) (AdminRoutes e)"
      by (simp add: AdminRoutes_def registerFederatedCredentials_admin_def)
    with mem reset have "h = Admin_reset e" by (auto simp: list_all_iff)
    moreover have "asks_key_reset (admin_request c pat) = asks_key_reset (admin_request c [])"
      by (simp add: asks_key_reset_def admin_request_def optionalBody_def decodeBody_def)
    ultimately show ?thesis using reset_safe[of "admin_request c pat" env tid a e] h(2) assms(4) by simp
  next
    case rotate
    have "list_all (\<lambda>(pat, h). pat = ''POST /admin/api/signing-keys/rotate'' \<longrightarrow> h = Admin_rotateSigningKey e) (AdminRoutes e)"
      by (simp add: AdminRoutes_def registerFederatedCredentials_admin_def)
    with mem rotate have "h = Admin_rotateSigningKey e" by (auto simp: list_all_iff)
    with rotate_safe[OF assms(1-3,5), of "admin_request c pat"] h(2) show ?thesis by simp
  next
    case other
    from routes_safe[OF assms(1-3) mem other] h(2) show ?thesis unfolding safe_handler_def by (metis snd_conv)
  qed
qed

lemma run_safe: "admin_run env tid a a' \<Longrightarrow> crypto_laws env \<Longrightarrow> safe env tid a a'"
proof (induction rule: admin_run.induct)
  case (serve a a1 e c rp a2)
  with serve_safe[of env e tid c a1 rp a2] show ?case by (auto intro: safe_trans)
qed simp

lemma tenant_keys_get:
  assumes "keys_ok env s" and "(i, j) \<in> tenant_keys s t"
  shows "\<exists>k. GetSigningKey s i = Inr k \<and> k_PublicJWK k = j"
  using assms keys.get_Inr_iff[of s] by (auto simp: tenant_keys_def keys_ok_def)

lemma VerificationKey_jwk:
  assumes "GetSigningKey s i = Inr k" and "GetSigningKey s' i = Inr k'" and "k_PublicJWK k' = k_PublicJWK k"
  shows "VerificationKey env s' i = VerificationKey env s i"
  using assms by (simp add: VerificationKey_def)

lemma home_active:
  assumes "home_ok env tid a"
  shows "\<exists>k \<in> set (signing_keys (ad_Store a)). k_TenantID k = tid \<and> k_IsActive k \<and> k_Kid k = sg_Kid (sv_Signer (ad_Tokens a))
    \<and> k_PublicJWK k = public_jwk env (sv_Signer (ad_Tokens a))"
proof -
  have "(sg_Kid (sv_Signer (ad_Tokens a)), public_jwk env (sv_Signer (ad_Tokens a))) \<in> set (active_keys (ad_Store a) tid)"
    using assms by (simp add: home_ok_def)
  then show ?thesis by (auto simp: active_keys_def)
qed

lemma home_ok_signer:
  assumes "home_ok env tid a"
  shows "signer_ok env (ad_Store a) (sv_Signer (ad_Tokens a))"
proof -
  from home_active[OF assms] have "(sg_Kid (sv_Signer (ad_Tokens a)), public_jwk env (sv_Signer (ad_Tokens a))) \<in> tenant_keys (ad_Store a) tid"
    by (auto simp: tenant_keys_def image_iff)
  with assms tenant_keys_get[of env "ad_Store a"] show ?thesis by (simp add: home_ok_def signer_ok_def public_jwk_def)
qed

section \<open>Properties\<close>

text \<open>
  C32. The administration API cannot break the emulator's tokens: in whatever sequence its requests arrive, short of a
  reset that asks for the keys to be deleted, and with a fresh key generated for each, the home tenant stays and has
  exactly one active signing key, the one the emulator signs with (so a rotation also changes the signer); that key is in
  the published key set at every time, verification finds it under the id the emulator's tokens carry, and every key of
  the home tenant that verified before verifies the same signatures still.
\<close>

theorem admin_keeps_signing:
  assumes "crypto_laws env" and "home_ok env tid a" and "admin_run env tid a a'"
  shows "has_tenant (ad_Store a') tid
    \<and> map k_Kid (filter (\<lambda>k. k_TenantID k = tid \<and> k_IsActive k) (signing_keys (ad_Store a'))) = [sg_Kid (sv_Signer (ad_Tokens a'))]
    \<and> (\<forall>now. \<exists>k \<in> set (ListPublishableKeys (ad_Store a') tid now). k_Kid k = sg_Kid (sv_Signer (ad_Tokens a'))
         \<and> k_PublicJWK k = snd (publicJWKFor env (env_public env (sg_PrivateKey (sv_Signer (ad_Tokens a'))))))
    \<and> VerificationKey env (ad_Store a') (sg_Kid (sv_Signer (ad_Tokens a'))) = Inr (env_public env (sg_PrivateKey (sv_Signer (ad_Tokens a'))))
    \<and> (\<forall>k \<in> set (signing_keys (ad_Store a)). k_TenantID k = tid \<longrightarrow>
         VerificationKey env (ad_Store a') (k_Kid k) = VerificationKey env (ad_Store a) (k_Kid k))"
proof -
  from run_safe[OF assms(3,1)] assms(2) have ok: "home_ok env tid a'" and sub: "tenant_keys (ad_Store a) tid \<subseteq> tenant_keys (ad_Store a') tid"
    by (auto simp: safe_def)
  have "VerificationKey env (ad_Store a') (k_Kid k) = VerificationKey env (ad_Store a) (k_Kid k)"
    if "k \<in> set (signing_keys (ad_Store a))" "k_TenantID k = tid" for k
  proof -
    from that have "(k_Kid k, k_PublicJWK k) \<in> tenant_keys (ad_Store a) tid" by (auto simp: tenant_keys_def)
    with sub have "(k_Kid k, k_PublicJWK k) \<in> tenant_keys (ad_Store a') tid" by blast
    then obtain k2 where k2: "GetSigningKey (ad_Store a') (k_Kid k) = Inr k2" "k_PublicJWK k2 = k_PublicJWK k"
      using tenant_keys_get ok unfolding home_ok_def by blast
    have "GetSigningKey (ad_Store a) (k_Kid k) = Inr k" using assms(2) that keys.get_Inr_iff by (auto simp: home_ok_def keys_ok_def)
    with k2 show ?thesis by (intro VerificationKey_jwk)
  qed
  moreover from home_active[OF ok] obtain k where k: "k \<in> set (signing_keys (ad_Store a'))" "k_TenantID k = tid" "k_IsActive k"
    "k_Kid k = sg_Kid (sv_Signer (ad_Tokens a'))" "k_PublicJWK k = public_jwk env (sv_Signer (ad_Tokens a'))" by blast
  then have "\<exists>k \<in> set (ListPublishableKeys (ad_Store a') tid now). k_Kid k = sg_Kid (sv_Signer (ad_Tokens a'))
      \<and> k_PublicJWK k = snd (publicJWKFor env (env_public env (sg_PrivateKey (sv_Signer (ad_Tokens a')))))" for now
    using active_published[OF k(1-3)] by (intro bexI[of _ k]) (simp_all add: public_jwk_def)
  moreover have "map k_Kid (filter (\<lambda>k. k_TenantID k = tid \<and> k_IsActive k) (signing_keys (ad_Store a'))) = map fst (active_keys (ad_Store a') tid)"
    by (simp add: active_keys_def comp_def)
  moreover have "has_tenant (ad_Store a') tid" "map fst (active_keys (ad_Store a') tid) = [sg_Kid (sv_Signer (ad_Tokens a'))]"
    using ok by (simp_all add: home_ok_def)
  ultimately show ?thesis using signer_ok_verifies[OF assms(1) home_ok_signer[OF ok]] by (intro conjI allI ballI impI) simp_all
qed

text \<open>
  C33. What the exception is for: a reset with \<^verbatim>\<open>resetKeys\<close> deletes every signing key and leaves the running signer as it
  was, so afterwards no access token is accepted, also none the emulator signs from then on for its home tenant.
\<close>

theorem reset_orphans_signer:
  assumes "asks_key_reset r" and "Admin_reset e r a = (AdminJSON 200 m, a')"
  shows "signing_keys (ad_Store a') = [] \<and> sv_Signer (ad_Tokens a') = sv_Signer (ad_Tokens a)
    \<and> isl (ValidateAccessToken env cfg now (ad_Store a') token auds)
    \<and> (signTenant env (ae_cfg e) now2 priv (cf_TenantID (ae_cfg e)) c (ad_Tokens a') = (Inr jwt, sv) \<longrightarrow>
         isl (ValidateAccessToken env cfg now3 (sv_Store sv) jwt auds2))"
proof -
  from assms(1) obtain rs where b: "optionalBody [''reseed'', ''resetKeys''] dec_reset_body (None, False) r = Inr (rs, True)"
    by (auto simp: asks_key_reset_def split: sum.splits)
  obtain x s1 where x: "Reset (admin_hashes e) (admin_now e a) (cf_TenantID (ae_cfg e)) (cf_Issuer (ae_cfg e)) (or_else rs True) True (ad_Store a) = (x, s1)"
    by fastforce
  have a': "a' = put_store s1 a" using assms(2) b x by (auto simp: Admin_reset_def with_body_def split: sum.splits)
  have no: "signing_keys s1 = []"
    using x seed_keeps[where s = "clear_directory (ad_Store a)\<lparr>signing_keys := []\<rparr>"]
    by (auto simp: Reset_def Let_def split: if_splits sum.splits prod.splits)
  have refused: "isl (ValidateAccessToken env cfg n s tok au)" if "signing_keys s = []" for n s tok au
  proof (cases "ValidateAccessToken env cfg n s tok au")
    case (Inr vt)
    then obtain kid pub where "VerificationKey env s kid = Inr pub" by (rule ValidateAccessToken_InrE)
    with that show ?thesis by (simp add: VerificationKey_def GetSigningKey_def one_row_def sql_first_def)
  qed simp
  have "sv_Store sv = s1" if "signTenant env (ae_cfg e) now2 priv (cf_TenantID (ae_cfg e)) c (ad_Tokens a') = (Inr jwt, sv)"
    using that by (auto simp: signTenant_def signerForTenant_def a' put_store_def split: sum.splits)
  with no refused show ?thesis by (auto simp: a' put_store_def)
qed

text \<open>An emulator over the sample directory with one key, asked to delete its home tenant and then to rotate its key.\<close>

definition signing_admin :: "unit Admin" where
  "signing_admin = (admin_on store0)\<lparr>ad_Tokens := service1 claims1\<rparr>"

lemma signing_admin_key:
  "\<exists>k. signing_keys (ad_Store signing_admin) = [k] \<and> k_TenantID k = ''t'' \<and> k_IsActive k
    \<and> k_Kid k = fst (publicJWKFor (env0 claims1) (env_public (env0 claims1) ''K'')) \<and> k_Kid k = sg_Kid (sv_Signer (service1 claims1))
    \<and> k_PublicJWK k = public_jwk (env0 claims1) (sv_Signer (service1 claims1))"
  by (simp add: signing_admin_def service1_def EnsureActiveKey_def GetActiveSigningKey_def generateAndActivate_def InsertSigningKey_def sql_defs
      sample_defs has_defs public_jwk_def norm_key_def split: prod.splits)

lemma signing_admin_ok: "home_ok (env0 claims1) ''t'' signing_admin"
proof -
  have ok: "service_ok (env0 claims1) (service1 claims1)" by (rule service1_ok)
  obtain ks where "sv_Store (service1 claims1) = store0\<lparr>signing_keys := ks\<rparr>" using service1_frame[of claims1] by (auto simp: keys_only_def)
  then have "has_tenant (ad_Store signing_admin) ''t''" by (simp add: signing_admin_def has_defs sample_defs)
  moreover have "active_keys (ad_Store signing_admin) ''t''
      = [(sg_Kid (sv_Signer (service1 claims1)), public_jwk (env0 claims1) (sv_Signer (service1 claims1)))]"
    using signing_admin_key by (auto simp: active_keys_def)
  ultimately show ?thesis using ok by (simp add: home_ok_def signing_admin_def service_ok_def)
qed

lemma sample_key_new: "new_key admin_env0 signing_admin"
proof -
  have "fst (publicJWKFor (env0 claims1) (env_public (env0 claims1) ''K'')) \<noteq> fst (publicJWKFor (env0 claims1) (env_public (env0 claims1) ''priv''))"
    by (simp add: publicJWKFor_def Let_def RawURLEncode_inj env0_def json_obj_def jstr_def be_val_def be_bytes.simps b64_char_def)
  with signing_admin_key show ?thesis by (auto simp: new_key_def admin_env0_def)
qed

definition rotate_now :: AdminCall where
  "rotate_now = \<lparr>al_Method = ''POST'', al_Path = ''/admin/api/signing-keys/rotate'', al_RawQuery = [], al_ContentLength = 0, al_Body = None\<rparr>"

lemma served_by:
  assumes "map_option fst (find_route (AdminRoutes e) [] (al_Method c) (path_segs (al_Path c))) = Some pat"
    and "list_all (\<lambda>(p, h). p = pat \<longrightarrow> h = h0) (AdminRoutes e)"
    and "HasPrefix (al_Path c) ''/'' \<and> PathUnescape (al_Path c) \<noteq> None \<and> [] \<notin> set (butlast (path_segs (al_Path c)))
       \<and> ''.'' \<notin> set (path_segs (al_Path c)) \<and> ''..'' \<notin> set (path_segs (al_Path c))"
  shows "admin_serve e c a = Some (h0 (admin_request c pat) a)"
proof -
  from assms(1) obtain h where h: "find_route (AdminRoutes e) [] (al_Method c) (path_segs (al_Path c)) = Some (pat, h)" by auto
  from find_route_mem[OF this] assms(2) have "h = h0" by (auto simp: list_all_iff)
  with h assms(3) show ?thesis by (simp add: admin_serve_def Let_def)
qed

lemma rotate_served:
  "admin_serve admin_env0 rotate_now a = Some (Admin_rotateSigningKey admin_env0 (admin_request rotate_now ''POST /admin/api/signing-keys/rotate'') a)"
proof (rule served_by)
  show "map_option fst (find_route (AdminRoutes admin_env0) [] (al_Method rotate_now) (path_segs (al_Path rotate_now)))
      = Some ''POST /admin/api/signing-keys/rotate''"
    by (subst find_route_pattern) (simp only: AdminRoutes_def registerFederatedCredentials_admin_def map_append list.map fst_conv, code_simp)
  show "list_all (\<lambda>(p, h). p = ''POST /admin/api/signing-keys/rotate'' \<longrightarrow> h = Admin_rotateSigningKey admin_env0) (AdminRoutes admin_env0)"
    by (simp add: AdminRoutes_def registerFederatedCredentials_admin_def)
qed code_simp

theorem admin_keeps_signing_witness:
  "\<exists>rp a'. admin_serve admin_env0 rotate_now signing_admin = Some (rp, a') \<and> has_tenant (ad_Store a') ''t''
     \<and> map k_Kid (filter (\<lambda>k. k_TenantID k = ''t'' \<and> k_IsActive k) (signing_keys (ad_Store a'))) = [sg_Kid (sv_Signer (ad_Tokens a'))]
     \<and> VerificationKey (env0 claims1) (ad_Store a') (sg_Kid (sv_Signer (service1 claims1)))
         = VerificationKey (env0 claims1) (ad_Store signing_admin) (sg_Kid (sv_Signer (service1 claims1)))"
proof -
  let ?e = "admin_env0" and ?a2 = "Admin_rotateSigningKey admin_env0 (admin_request rotate_now ''POST /admin/api/signing-keys/rotate'') signing_admin"
  have r: "admin_serve ?e rotate_now signing_admin = Some (fst ?a2, snd ?a2)" by (simp add: rotate_served)
  have e: "ae_env ?e = env0 claims1" "cf_TenantID (ae_cfg ?e) = ''t''" by (simp_all add: admin_env0_def config0_def)
  have n: "\<not> asks_key_reset (admin_request rotate_now [])"
    by (simp add: asks_key_reset_def admin_request_def optionalBody_def rotate_now_def)
  have run: "admin_run (env0 claims1) ''t'' signing_admin (snd ?a2)" by (rule admin_run.serve[OF admin_run.start e n sample_key_new r])
  obtain k where k: "signing_keys (ad_Store signing_admin) = [k]" "k_TenantID k = ''t''" "k_Kid k = sg_Kid (sv_Signer (service1 claims1))"
    using signing_admin_key by blast
  then have mem: "k \<in> set (signing_keys (ad_Store signing_admin))" by simp
  note kept = admin_keeps_signing[OF crypto_laws_env0 signing_admin_ok run]
  from kept[THEN conjunct2, THEN conjunct2, THEN conjunct2, THEN conjunct2, THEN bspec, OF mem] k(2,3)
  have "VerificationKey (env0 claims1) (ad_Store (snd ?a2)) (sg_Kid (sv_Signer (service1 claims1)))
      = VerificationKey (env0 claims1) (ad_Store signing_admin) (sg_Kid (sv_Signer (service1 claims1)))" by simp
  with r kept[THEN conjunct1] kept[THEN conjunct2, THEN conjunct1] show ?thesis by (intro exI conjI)
qed

definition reset_keys :: AdminRequest where
  "reset_keys = sample_request ''POST'' (\<lambda>_. []) (Some (JObj [(''resetKeys'', JBool True)]))"

theorem reset_orphans_signer_witness:
  "\<exists>a'. Admin_reset admin_env0 reset_keys signing_admin = (AdminJSON 200 [(''reset'', JBool True), (''reseeded'', JBool True)], a')
     \<and> signing_keys (ad_Store a') = [] \<and> (\<forall>token. isl (ValidateAccessToken (env0 claims1) config0 9 (ad_Store a') token [''https://graph'']))"
proof -
  have "case optionalBody [''reseed'', ''resetKeys''] dec_reset_body (None, False) reset_keys of Inl _ \<Rightarrow> False | Inr b \<Rightarrow> b = (None, True)" by code_simp
  then have b: "optionalBody [''reseed'', ''resetKeys''] dec_reset_body (None, False) reset_keys = Inr (None, True)" by (simp split: sum.splits)
  then have q: "asks_key_reset reset_keys" by (simp add: asks_key_reset_def)
  have "\<exists>s1. Reset (admin_hashes admin_env0) (admin_now admin_env0 signing_admin) (cf_TenantID (ae_cfg admin_env0)) (cf_Issuer (ae_cfg admin_env0)) True True (ad_Store signing_admin) = (Inr True, s1)"
  proof -
    obtain ks where ks: "sv_Store (service1 claims1) = store0\<lparr>signing_keys := ks\<rparr>" using service1_frame[of claims1] by (auto simp: keys_only_def)
    have c: "clear_directory (store0\<lparr>signing_keys := ks\<rparr>)\<lparr>signing_keys := []\<rparr> = clear_directory store0\<lparr>signing_keys := []\<rparr>"
      by (simp add: clear_directory_def)
    let ?S = "Seed (Some (SeedPassword, SeedPassword, SeedDaemonSecret)) 9 ''t'' ''https://h/t/v2.0'' (clear_directory store0\<lparr>signing_keys := []\<rparr>)"
    have "case fst ?S of Inl err \<Rightarrow> False | Inr b \<Rightarrow> True" by code_simp
    then obtain b s1 where "?S = (Inr b, s1)" by (cases ?S) (auto split: sum.splits)
    then show ?thesis
      by (simp add: Reset_def Let_def signing_admin_def ks c admin_hashes_def admin_env0_def config0_def admin_now_def admin_on_def Clock_New_def Clock_Now_def
        i64_add_id is_int64_def split: sum.splits prod.splits)
  qed
  then obtain a' where r: "Admin_reset admin_env0 reset_keys signing_admin = (AdminJSON 200 [(''reset'', JBool True), (''reseeded'', JBool True)], a')"
    by (auto simp: Admin_reset_def with_body_def b or_else_def)
  from reset_orphans_signer[OF q r] show ?thesis using r by blast
qed

end
