(* ===== verification/Url.thy ===== *)
theory Url
  imports Router Apps
begin

text \<open>
  Go's \<^verbatim>\<open>url.Parse\<close> as far as the repository reads its result: scheme, host and raw query, and whether the text
  parses at all. Whether a bracketed host is an IPv6 literal (\<^verbatim>\<open>netip.ParseAddr\<close>) is the parameter \<open>ip6\<close>.
\<close>

record Url =
  ur_Scheme :: string
  ur_Host :: string
  ur_RawQuery :: string

text \<open>\<^verbatim>\<open>strings.Cut\<close> at a byte: before, after, found.\<close>

definition cut_at :: "char \<Rightarrow> string \<Rightarrow> string \<times> string \<times> bool" where
  "cut_at c s = (takeWhile (\<lambda>x. x \<noteq> c) s, drop 1 (dropWhile (\<lambda>x. x \<noteq> c) s), c \<in> set s)"

text \<open>\<^verbatim>\<open>strings.Cut\<close> at a string.\<close>

fun cut_sub :: "string \<Rightarrow> string \<Rightarrow> (string \<times> string) option" where
  "cut_sub sub [] = (if sub = [] then Some ([], []) else None)"
| "cut_sub sub (c # cs) =
     (if HasPrefix (c # cs) sub then Some ([], drop (length sub) (c # cs))
      else map_option (\<lambda>(a, b). (c # a, b)) (cut_sub sub cs))"

definition is_letter :: "char \<Rightarrow> bool" where
  "is_letter c \<longleftrightarrow> CHR ''a'' \<le> c \<and> c \<le> CHR ''z'' \<or> CHR ''A'' \<le> c \<and> c \<le> CHR ''Z''"

text \<open>\<^verbatim>\<open>getScheme\<close>: \<open>None\<close> is the error of a text that starts with a colon; without a scheme the text is the rest.\<close>

fun scan_scheme :: "string \<Rightarrow> string \<Rightarrow> (string \<times> string) option option" where
  "scan_scheme acc [] = Some None"
| "scan_scheme acc (c # cs) =
     (if is_letter c then scan_scheme (acc @ [c]) cs
      else if is_digit c \<or> c \<in> {CHR ''+'', CHR ''-'', CHR ''.''} then (if acc = [] then Some None else scan_scheme (acc @ [c]) cs)
      else if c = CHR '':'' then (if acc = [] then None else Some (Some (acc, cs)))
      else Some None)"

definition getScheme :: "string \<Rightarrow> (string \<times> string) option" where
  "getScheme raw = map_option (\<lambda>r. or_else r ([], raw)) (scan_scheme [] raw)"

definition host_char :: "char \<Rightarrow> bool" where
  "host_char c \<longleftrightarrow> 128 \<le> (of_char c :: nat) \<or> unreserved c \<or> c \<in> set ''!$&()*+,;=:[]<>'' \<or> c = CHR 0x22 \<or> c = CHR 0x27"

fun host_unescape :: "string \<Rightarrow> string option" where
  "host_unescape [] = Some []"
| "host_unescape (c # cs) =
     (if c = CHR ''%'' then
        (case cs of
           a # b # rest \<Rightarrow>
             (case (unhex a, unhex b) of
                (Some h, Some l) \<Rightarrow>
                  if h < 8 \<and> \<not> (h = 2 \<and> l = 5) then None else map_option ((#) (char_of (16 * h + l))) (host_unescape rest)
              | _ \<Rightarrow> None)
         | _ \<Rightarrow> None)
      else if \<not> host_char c then None
      else map_option ((#) c) (host_unescape cs))"

definition validOptionalPort :: "string \<Rightarrow> bool" where
  "validOptionalPort p \<longleftrightarrow> p = [] \<or> hd p = CHR '':'' \<and> list_all is_digit (tl p)"

definition before_last :: "char \<Rightarrow> string \<Rightarrow> string" where
  "before_last c s = slice_to s (LastIndex s c)"

definition parseHost :: "(string \<Rightarrow> bool) \<Rightarrow> string \<Rightarrow> string option" where
  "parseHost ip6 host =
     (if HasPrefix host ''['' then
        (if CHR '']'' \<notin> set host then None
         else if \<not> validOptionalPort (slice_from host (LastIndex host (CHR '']'') + 1)) then None
         else if ip6 (tl (before_last (CHR '']'') host)) then Some host else None)
      else if CHR ''['' \<in> set host then None
      else if CHR '':'' \<in> set host \<and> \<not> validOptionalPort (slice_from host (IndexByte host (CHR '':''))) then None
      else host_unescape host)"

definition validUserinfo :: "string \<Rightarrow> bool" where
  "validUserinfo s \<longleftrightarrow> list_all (\<lambda>c. is_letter c \<or> is_digit c \<or> c \<in> set ''-._:~!$&()*+,;=%@'' \<or> c = CHR 0x27) s"

definition parseAuthority :: "(string \<Rightarrow> bool) \<Rightarrow> string \<Rightarrow> string option" where
  "parseAuthority ip6 authority =
     (if CHR ''@'' \<notin> set authority then parseHost ip6 authority
      else let i = LastIndex authority (CHR ''@''); userinfo = slice_to authority i in
        case parseHost ip6 (slice_from authority (i + 1)) of
          None \<Rightarrow> None
        | Some host \<Rightarrow>
          if \<not> validUserinfo userinfo then None
          else if list_all (\<lambda>part. PathUnescape part \<noteq> None) [fst (cut_at (CHR '':'') userinfo), fst (snd (cut_at (CHR '':'') userinfo))]
          then Some host else None)"

definition url_parse :: "(string \<Rightarrow> bool) \<Rightarrow> string \<Rightarrow> Url option" where
  "url_parse ip6 raw =
     (if list_ex (\<lambda>c. of_char c < (32::nat) \<or> of_char c = (127::nat)) raw then None
      else if raw = ''*'' then Some \<lparr>ur_Scheme = [], ur_Host = [], ur_RawQuery = []\<rparr>
      else case getScheme raw of
        None \<Rightarrow> None
      | Some (scheme0, rest0) \<Rightarrow>
        (let scheme = ToLower scheme0; (rest, query, _) = cut_at (CHR ''?'') rest0 in
         if \<not> HasPrefix rest ''/'' then
           (if scheme \<noteq> [] then Some \<lparr>ur_Scheme = scheme, ur_Host = [], ur_RawQuery = query\<rparr>
            else if CHR '':'' \<in> set (fst (cut_at (CHR ''/'') rest)) then None
            else if PathUnescape rest = None then None
            else Some \<lparr>ur_Scheme = [], ur_Host = [], ur_RawQuery = query\<rparr>)
         else if HasPrefix rest ''//'' \<and> (scheme \<noteq> [] \<or> \<not> HasPrefix rest ''///'') then
           (let authority = fst (cut_at (CHR ''/'') (drop 2 rest)); path = drop (length authority + 2) rest in
            case parseAuthority ip6 authority of
              None \<Rightarrow> None
            | Some host \<Rightarrow> if PathUnescape path = None then None else Some \<lparr>ur_Scheme = scheme, ur_Host = host, ur_RawQuery = query\<rparr>)
         else if PathUnescape rest = None then None
         else Some \<lparr>ur_Scheme = scheme, ur_Host = [], ur_RawQuery = query\<rparr>))"

definition url_Parse :: "(string \<Rightarrow> bool) \<Rightarrow> string \<Rightarrow> Url option" where
  "url_Parse ip6 raw =
     (case cut_at (CHR ''#'') raw of (u, frag, _) \<Rightarrow>
        if PathUnescape frag = None then None else url_parse ip6 u)"

text \<open>\<^verbatim>\<open>URL.Hostname\<close>.\<close>

definition Hostname :: "Url \<Rightarrow> string" where
  "Hostname u =
     (let host = ur_Host u; colon = LastIndex host (CHR '':'');
          host1 = (if colon \<noteq> -1 \<and> validOptionalPort (slice_from host colon) then slice_to host colon else host) in
      if HasPrefix host1 ''['' \<and> HasSuffix host1 '']'' then butlast (tl host1) else host1)"

section \<open>Origins\<close>

text \<open>A host name as an administrator writes it, and the origin built from it.\<close>

definition plain_host :: "string \<Rightarrow> bool" where
  "plain_host h \<longleftrightarrow> h \<noteq> [] \<and> list_all (\<lambda>c. is_letter c \<or> is_digit c \<or> c = CHR ''-'' \<or> c = CHR ''.'') h"

lemma plain_host_chars:
  assumes "plain_host h"
  shows "CHR '':'' \<notin> set h" "CHR ''/'' \<notin> set h" "CHR ''?'' \<notin> set h" "CHR ''#'' \<notin> set h" "CHR ''@'' \<notin> set h" "CHR ''['' \<notin> set h" "CHR '']'' \<notin> set h"
    "CHR ''%'' \<notin> set h"
  using assms by (auto simp: plain_host_def list_all_iff is_letter_def is_digit_def less_eq_char_def)

lemma dropWhile_neq: "c \<notin> set s \<Longrightarrow> dropWhile (\<lambda>x. x \<noteq> c) (s @ t) = dropWhile (\<lambda>x. x \<noteq> c) t"
  by (induction s) auto

lemma cut_none: "c \<notin> set s \<Longrightarrow> cut_at c s = (s, [], False)"
  using dropWhile_neq[of c s "[]"] by (simp add: cut_at_def del: dropWhile_eq_Nil_conv)

lemma cut_first: "c \<notin> set s \<Longrightarrow> cut_at c (s @ c # t) = (s, t, True)"
  by (simp add: cut_at_def dropWhile_neq)

lemma host_unescape_plain: "list_all host_char s \<Longrightarrow> CHR ''%'' \<notin> set s \<Longrightarrow> host_unescape s = Some s"
  by (induction s) auto

lemma host_char_name: "is_letter c \<or> is_digit c \<or> c = CHR ''-'' \<or> c = CHR ''.'' \<or> c = CHR '':'' \<Longrightarrow> host_char c"
  by (auto simp: host_char_def unreserved_def re_word_def is_letter_def is_digit_def)

text \<open>The part after the authority: empty or a path, without query, fragment, escapes and control bytes.\<close>

definition plain_tail :: "string \<Rightarrow> bool" where
  "plain_tail t \<longleftrightarrow> (t = [] \<or> hd t = CHR ''/'') \<and> list_all (\<lambda>c. 32 < (of_char c :: nat) \<and> of_char c \<noteq> (127::nat) \<and> c \<notin> {CHR ''?'', CHR ''#'', CHR ''%''}) t"

lemma plain_host_bytes: "is_letter c \<or> is_digit c \<or> c = CHR ''-'' \<or> c = CHR ''.'' \<or> c = CHR '':'' \<Longrightarrow> 32 < (of_char c :: nat) \<and> of_char c < (127::nat)"
  by (auto simp: is_letter_def is_digit_def less_eq_char_def)

lemma valid_port_chars:
  assumes "validOptionalPort p"
  shows "CHR ''@'' \<notin> set p" "CHR ''['' \<notin> set p" "CHR ''%'' \<notin> set p" "CHR ''#'' \<notin> set p" "CHR ''?'' \<notin> set p" "CHR ''/'' \<notin> set p"
    "list_all (\<lambda>c. is_digit c \<or> c = CHR '':'') p"
  using assms by (cases p; auto simp: validOptionalPort_def list_all_iff is_digit_def less_eq_char_def)+

lemma parse_host_port:
  assumes "plain_host h" and "validOptionalPort p"
  shows "parseAuthority ip6 (h @ p) = Some (h @ p)"
proof -
  note c = plain_host_chars[OF assms(1)] and d = valid_port_chars[OF assms(2)]
  have port: "validOptionalPort (slice_from (h @ p) (IndexByte (h @ p) (CHR '':'')))" if colon: "CHR '':'' \<in> set p"
  proof -
    obtain q where q: "p = CHR '':'' # q" using assms(2) colon by (cases p) (auto simp: validOptionalPort_def)
    have "slice_from (h @ p) (IndexByte (h @ p) (CHR '':'')) = p" unfolding q using c(1) by (simp add: IndexByte_def slice_from_def)
    with assms(2) show ?thesis by simp
  qed
  have "list_all host_char (h @ p)"
    using assms(1) d(7) by (auto simp: plain_host_def list_all_iff intro!: host_char_name)
  moreover have "CHR ''%'' \<notin> set (h @ p)" using c d by auto
  ultimately have "host_unescape (h @ p) = Some (h @ p)" by (rule host_unescape_plain)
  moreover have "\<not> HasPrefix (h @ p) ''[''" using c(6) assms(1) by (cases h) (auto simp: HasPrefix_def plain_host_def)
  ultimately show ?thesis using c d port by (auto simp: parseAuthority_def parseHost_def)
qed

lemma parse_origin:
  assumes "scheme \<in> {''http'', ''https''}" and "plain_host h" and "validOptionalPort p" and "plain_tail t"
  shows "url_Parse ip6 (scheme @ ''://'' @ h @ p @ t) = Some \<lparr>ur_Scheme = scheme, ur_Host = h @ p, ur_RawQuery = []\<rparr>"
proof -
  let ?raw = "scheme @ ''://'' @ h @ p @ t" and ?rest = "''//'' @ h @ p @ t"
  note c = plain_host_chars[OF assms(2)]
  have bytes: "\<forall>x \<in> set (h @ p @ t). 32 < (of_char x :: nat) \<and> of_char x \<noteq> (127::nat)"
    using assms(2,4) valid_port_chars(7)[OF assms(3)] plain_host_bytes by (fastforce simp: plain_host_def plain_tail_def list_all_iff)
  have sb: "\<forall>x \<in> set (scheme @ ''://''). 32 < (of_char x :: nat) \<and> of_char x \<noteq> (127::nat)" using assms(1) by auto
  have nc: "\<not> list_ex (\<lambda>x. of_char x < (32::nat) \<or> of_char x = (127::nat)) ?raw"
  proof
    assume "list_ex (\<lambda>x. of_char x < (32::nat) \<or> of_char x = (127::nat)) ?raw"
    then obtain x where x: "x \<in> set (scheme @ ''://'') \<union> set (h @ p @ t)" "of_char x < (32::nat) \<or> of_char x = (127::nat)"
      by (auto simp: list_ex_iff)
    from x(1) bytes sb have "32 < (of_char x :: nat) \<and> of_char x \<noteq> (127::nat)" by blast
    with x(2) show False by linarith
  qed
  note d = valid_port_chars[OF assms(3)]
  have tl: "CHR ''#'' \<notin> set t" "CHR ''?'' \<notin> set t" "CHR ''%'' \<notin> set t" using assms(4) by (auto simp: plain_tail_def list_all_iff)
  have "CHR ''#'' \<notin> set ?raw" "CHR ''?'' \<notin> set ?rest" using c d tl assms(1) by auto
  note cuts = cut_none[OF this(1)] cut_none[OF this(2)]
  have sch: "getScheme ?raw = Some (scheme, ?rest)" using assms(1) by (auto simp: getScheme_def is_letter_def is_digit_def or_else_def less_eq_char_def)
  have "ToLower ''http'' = ''http''" "ToLower ''https'' = ''https''" by code_simp+
  with assms(1) have low: "ToLower scheme = scheme" by blast
  have auth: "fst (cut_at (CHR ''/'') (h @ p @ t)) = h @ p"
  proof (cases t)
    case Nil
    then show ?thesis using c d by (simp add: cut_none)
  next
    case (Cons x xs)
    then have "x = CHR ''/''" using assms(4) by (simp add: plain_tail_def)
    with Cons cut_first[of "CHR ''/''" "h @ p" xs] c d show ?thesis by simp
  qed
  have raw: "?raw \<noteq> ''*''" using assms(1) by auto
  have "url_parse ip6 ?raw = Some \<lparr>ur_Scheme = scheme, ur_Host = h @ p, ur_RawQuery = []\<rparr>"
    using nc raw sch cuts(2) auth parse_host_port[OF assms(2,3), of ip6] unescape_plain[OF tl(3)] assms(1)
    by (auto simp: url_parse_def low HasPrefix_def Let_def)
  then show ?thesis unfolding url_Parse_def cuts(1) prod.case by (simp add: unescape_plain)
qed

lemma Hostname_host_port:
  assumes "plain_host h" and "validOptionalPort p"
  shows "Hostname \<lparr>ur_Scheme = s, ur_Host = h @ p, ur_RawQuery = q\<rparr> = h"
proof -
  note c = plain_host_chars[OF assms(1)]
  have h: "\<not> HasPrefix h ''[''" using c(6) assms(1) by (cases h) (auto simp: HasPrefix_def plain_host_def)
  show ?thesis
  proof (cases p)
    case Nil
    then have "LastIndex (h @ p) (CHR '':'') = -1" using c(1) by (simp add: LastIndex_def)
    with h Nil show ?thesis by (simp add: Hostname_def Let_def)
  next
    case (Cons x q)
    then have p: "p = CHR '':'' # q" "CHR '':'' \<notin> set q" using assms(2) by (auto simp: validOptionalPort_def list_all_iff is_digit_def less_eq_char_def)
    from LastIndex_cut[OF p(2), of h] h assms(2) show ?thesis by (simp add: Hostname_def Let_def slice_to_def slice_from_def p(1))
  qed
qed

end
