(* ===== verification/Logout.thy ===== *)
theory Logout
  imports Url Identity Minting "HOL-Library.Multiset"
begin

text \<open>
  \<^verbatim>\<open>internal/identity/logout.go\<close>: ending a session, notifying the applications it signed in to, and the redirect
  afterwards. The logout page is the list of its frame URLs and the continuation; HTML escaping is not modelled. No
  session cookie is the empty session id, for which no application is ever noted.
\<close>

datatype logout_reply =
    LogoutError int string
  | FrontchannelPage "string list" string
  | SignedOutPage
  | LogoutRedirect string

text \<open>The client of the request, or the audience of the unverified ID token hint.\<close>

definition logout_client :: "Env \<Rightarrow> query \<Rightarrow> string" where
  "logout_client env q =
     (if q ''client_id'' \<noteq> [] then q ''client_id''
      else if q ''id_token_hint'' = [] then []
      else case DecodeUnverified env (q ''id_token_hint'') of Inl _ \<Rightarrow> [] | Inr c \<Rightarrow> str_claim c ''aud'')"

definition validatedPostLogoutRedirect :: "Env \<Rightarrow> Store \<Rightarrow> query \<Rightarrow> string" where
  "validatedPostLogoutRedirect env s q =
     (let target = q ''post_logout_redirect_uri''; clientID = logout_client env q in
      if target = [] \<or> clientID = [] \<or> \<not> HasRedirectURI s clientID target then [] else target)"

definition query_sep :: "(string \<Rightarrow> bool) \<Rightarrow> string \<Rightarrow> string" where
  "query_sep ip6 u = (case url_Parse ip6 u of Some x \<Rightarrow> if ur_RawQuery x \<noteq> [] then ''&'' else ''?'' | None \<Rightarrow> ''?'')"

definition logout_frame :: "(string \<Rightarrow> bool) \<Rightarrow> Config \<Rightarrow> string \<Rightarrow> string \<Rightarrow> string" where
  "logout_frame ip6 cfg sid u = u @ query_sep ip6 u @ ''iss='' @ QueryEscape (cf_Issuer cfg) @ ''&sid='' @ QueryEscape sid"

definition with_state :: "(string \<Rightarrow> bool) \<Rightarrow> string \<Rightarrow> string \<Rightarrow> string" where
  "with_state ip6 target state = (if state = [] then target else target @ query_sep ip6 target @ ''state='' @ QueryEscape state)"

definition handleLogout :: "(string \<Rightarrow> bool) \<Rightarrow> Env \<Rightarrow> Config \<Rightarrow> Request \<Rightarrow> Store \<Rightarrow> logout_reply \<times> Store" where
  "handleLogout ip6 env cfg rq s =
     (if \<not> snd (tenantSegment cfg s rq) then (LogoutError 400 ''Unknown tenant.'', s)
      else
        let sessionID = rq_cookie rq; uris = SessionLogoutURIs s sessionID; s1 = clearSession rq s;
            s2 = (if sessionID \<noteq> [] then ForgetSessionApps sessionID s1 else s1); q = rq_query rq;
            target = q ''post_logout_redirect_uri''; clientID = logout_client env q in
        if uris \<noteq> [] then (FrontchannelPage (map (logout_frame ip6 cfg sessionID) uris) (validatedPostLogoutRedirect env s2 q), s2)
        else if target = [] \<or> clientID = [] \<or> \<not> HasRedirectURI s2 clientID target then (SignedOutPage, s2)
        else (LogoutRedirect (with_state ip6 target (q ''state'')), s2))"

section \<open>Properties\<close>

lemma cleared_session:
  "sessions (clearSession rq s) = (if rq_cookie rq = [] then sessions s else sql_delete (\<lambda>x. se_ID x = rq_cookie rq) (sessions s))"
  "s\<lparr>sessions := sessions (clearSession rq s)\<rparr> = clearSession rq s"
  by (simp_all add: clearSession_def DeleteSession_def)

text \<open>The logout URIs to notify for a session, one for each application that is recorded for the session and has one.\<close>

definition to_notify :: "Store \<Rightarrow> string \<Rightarrow> string multiset" where
  "to_notify s sid =
     {#ar_FrontchannelLogoutURI a. a \<in># mset (filter (\<lambda>a. (sid, a_ID a) \<in> set (session_apps s) \<and> ar_FrontchannelLogoutURI a \<noteq> []) (app_registrations s))#}"

definition registered_for :: "Store \<Rightarrow> string \<Rightarrow> string \<Rightarrow> bool" where
  "registered_for s appID uri \<longleftrightarrow> (\<exists>r \<in> set (app_redirect_uris s). ru_AppID r = appID \<and> ru_URI r = uri)"

lemma SessionLogoutURIs_notify: "mset (SessionLogoutURIs s sid) = to_notify s sid"
  unfolding SessionLogoutURIs_def to_notify_def mset_map mset_sort ..

lemma HasRedirectURI_registered: "HasRedirectURI s appID uri \<longleftrightarrow> registered_for s appID uri"
  by (auto simp: HasRedirectURI_def registered_for_def sql_count_def filter_empty_conv)

text \<open>
  C25. Logging out ends the session and nothing else: for a known tenant, whatever the request asks, the session of the
  cookie no longer resolves, exactly its row and its records of applications are deleted, and the rest of the store is as
  before. The page notifies, each once, exactly the applications that are recorded for this session and registered a
  logout URI (recorded are interactive sign-ins and every authorization; a SAML or WS-Federation assertion issued to a
  session that was already there is not recorded), with the issuer and the session id added to the URI; and the browser
  is only sent on to a redirect URI registered for the client that the request names.
\<close>

theorem logout_ends_session:
  assumes "handleLogout ip6 env cfg rq s = (rep, s')" and "snd (tenantSegment cfg s rq)" and "sid = rq_cookie rq"
  shows "currentSession now s' rq = None
    \<and> sessions s' = filter (\<lambda>x. sid = [] \<or> se_ID x \<noteq> sid) (sessions s)
    \<and> session_apps s' = filter (\<lambda>(x, a). sid = [] \<or> x \<noteq> sid) (session_apps s)
    \<and> s'\<lparr>sessions := sessions s, session_apps := session_apps s\<rparr> = s
    \<and> (case rep of
         LogoutError c m \<Rightarrow> False
       | FrontchannelPage frames cont \<Rightarrow>
           frames \<noteq> [] \<and> (\<exists>uris. mset uris = to_notify s sid
             \<and> frames = map (\<lambda>u. u @ query_sep ip6 u @ ''iss='' @ QueryEscape (cf_Issuer cfg) @ ''&sid='' @ QueryEscape sid) uris)
           \<and> (cont \<noteq> [] \<longrightarrow> cont = rq_query rq ''post_logout_redirect_uri'' \<and> registered_for s (logout_client env (rq_query rq)) cont)
       | SignedOutPage \<Rightarrow> to_notify s sid = {#}
       | LogoutRedirect uri \<Rightarrow> to_notify s sid = {#}
           \<and> registered_for s (logout_client env (rq_query rq)) (rq_query rq ''post_logout_redirect_uri'')
           \<and> uri = with_state ip6 (rq_query rq ''post_logout_redirect_uri'') (rq_query rq ''state''))"
proof -
  let ?q = "rq_query rq" and ?uris = "SessionLogoutURIs s sid"
  have s': "s' = (if sid \<noteq> [] then ForgetSessionApps sid (clearSession rq s) else clearSession rq s)"
    using assms by (auto simp: handleLogout_def Let_def split: if_splits)
  have red: "HasRedirectURI s' c u = registered_for s c u" for c u
    unfolding HasRedirectURI_registered by (simp add: s' registered_for_def ForgetSessionApps_def clearSession_def DeleteSession_def)
  have rows: "sessions s' = filter (\<lambda>x. sid = [] \<or> se_ID x \<noteq> sid) (sessions s)"
    "session_apps s' = filter (\<lambda>(x, a). sid = [] \<or> x \<noteq> sid) (session_apps s)"
    by (auto simp: s' assms(3) ForgetSessionApps_def clearSession_def DeleteSession_def sql_delete_def intro!: filter_cong)
  have gone: "currentSession now s' rq = None"
    using rows(1) by (auto simp: currentSession_def GetSession_def one_row_def assms(3) split: option.splits dest!: sql_first_Some)
  have frame: "s'\<lparr>sessions := sessions s, session_apps := session_apps s\<rparr> = s"
    by (simp add: s' ForgetSessionApps_def clearSession_def DeleteSession_def)
  have none: "?uris = [] \<longleftrightarrow> to_notify s sid = {#}" unfolding SessionLogoutURIs_notify[symmetric] by simp
  have "rep = (if ?uris \<noteq> [] then FrontchannelPage (map (logout_frame ip6 cfg sid) ?uris) (validatedPostLogoutRedirect env s' ?q)
      else if ?q ''post_logout_redirect_uri'' = [] \<or> logout_client env ?q = [] \<or> \<not> registered_for s (logout_client env ?q) (?q ''post_logout_redirect_uri'')
      then SignedOutPage else LogoutRedirect (with_state ip6 (?q ''post_logout_redirect_uri'') (?q ''state'')))"
    using assms(1,2) red unfolding handleLogout_def Let_def assms(3)[symmetric] s'[symmetric] by (simp split: if_splits)
  then have "case rep of
         LogoutError c m \<Rightarrow> False
       | FrontchannelPage frames cont \<Rightarrow>
           frames \<noteq> [] \<and> (\<exists>uris. mset uris = to_notify s sid
             \<and> frames = map (\<lambda>u. u @ query_sep ip6 u @ ''iss='' @ QueryEscape (cf_Issuer cfg) @ ''&sid='' @ QueryEscape sid) uris)
           \<and> (cont \<noteq> [] \<longrightarrow> cont = ?q ''post_logout_redirect_uri'' \<and> registered_for s (logout_client env ?q) cont)
       | SignedOutPage \<Rightarrow> to_notify s sid = {#}
       | LogoutRedirect uri \<Rightarrow> to_notify s sid = {#} \<and> registered_for s (logout_client env ?q) (?q ''post_logout_redirect_uri'')
           \<and> uri = with_state ip6 (?q ''post_logout_redirect_uri'') (?q ''state'')"
    using none SessionLogoutURIs_notify[of s sid]
    by (auto simp: validatedPostLogoutRedirect_def Let_def red logout_frame_def intro!: exI[of _ ?uris])
  with gone rows frame show ?thesis by blast
qed

definition logout_store :: Store where
  "logout_store = store0\<lparr>sessions := [\<lparr>se_ID = ''sid'', se_UserID = ''u'', se_AuthMethod = ''pwd'', se_CreatedAt = 1, se_ExpiresAt = 100\<rparr>],
     session_apps := [(''sid'', ''app'')], app_registrations := [app0\<lparr>ar_FrontchannelLogoutURI := ''https://r/out?x=1''\<rparr>]\<rparr>"

definition logout_rq :: Request where
  "logout_rq = \<lparr>rq_post = False, rq_tenant = ''common'', rq_form_ok = True, rq_form = (\<lambda>_. []),
     rq_query = (\<lambda>_. [])(''client_id'' := ''app'', ''post_logout_redirect_uri'' := ''https://evil''),
     rq_basic = None, rq_cookie = ''sid'', rq_path_id = [], rq_identity_header = []\<rparr>"

theorem logout_ends_session_witness:
  "currentSession 9 logout_store logout_rq \<noteq> None
   \<and> (\<exists>s'. handleLogout (\<lambda>_. False) (env0 claims1) config0 logout_rq logout_store
        = (FrontchannelPage [''https://r/out?x=1&iss='' @ QueryEscape (cf_Issuer config0) @ ''&sid=sid''] [], s')
      \<and> currentSession 9 s' logout_rq = None \<and> session_apps s' = [])"
proof -
  have live: "currentSession 9 logout_store logout_rq \<noteq> None"
    by (simp add: currentSession_def logout_rq_def logout_store_def GetSession_def GetUser_def sql_defs sample_defs)
  have k: "snd (tenantSegment config0 logout_store logout_rq)" by (simp add: tenantSegment_def logout_rq_def)
  obtain rep s' where h: "handleLogout (\<lambda>_. False) (env0 claims1) config0 logout_rq logout_store = (rep, s')" by fastforce
  have u: "SessionLogoutURIs logout_store ''sid'' = [''https://r/out?x=1'']"
    by (simp add: SessionLogoutURIs_def logout_store_def sample_defs)
  have "query_sep (\<lambda>_. False) ''https://r/out?x=1'' = ''&''" "QueryEscape ''sid'' = ''sid''" by code_simp+
  then have f: "logout_frame (\<lambda>_. False) config0 ''sid'' ''https://r/out?x=1'' = ''https://r/out?x=1&iss='' @ QueryEscape (cf_Issuer config0) @ ''&sid=sid''"
    by (simp add: logout_frame_def)
  have v: "validatedPostLogoutRedirect e s2 (rq_query logout_rq) = []" if "app_redirect_uris s2 = []" for e s2
    using that by (simp add: validatedPostLogoutRedirect_def HasRedirectURI_def sql_defs Let_def)
  have c: "rq_cookie logout_rq = ''sid''" by (simp add: logout_rq_def)
  have "rep = FrontchannelPage [''https://r/out?x=1&iss='' @ QueryEscape (cf_Issuer config0) @ ''&sid=sid''] []"
    using h k by (auto simp: handleLogout_def Let_def c u f intro!: v)
      (simp add: ForgetSessionApps_def clearSession_def DeleteSession_def logout_store_def sample_defs)
  moreover have "session_apps s' = filter (\<lambda>(x, a). ''sid'' = [] \<or> x \<noteq> ''sid'') (session_apps logout_store)" "currentSession 9 s' logout_rq = None"
    using logout_ends_session[OF h k c[symmetric], of 9] by blast+
  ultimately show ?thesis using h live by (simp add: logout_store_def)
qed

end
