(* ===== verification/Envelopes.thy ===== *)
theory Envelopes
  imports ScimMapping TokenEndpoint
begin

text \<open>
  \<^verbatim>\<open>internal/httpx/httpx.go\<close>: the JSON error envelopes of the three surfaces. Identifiers and the machine's clock are
  arguments.
\<close>

definition ValidTenant :: "string \<Rightarrow> string \<Rightarrow> bool" where
  "ValidTenant segment tenantID \<longleftrightarrow> segment \<in> {tenantID, ''common'', ''organizations'', ''consumers''}"

definition aadstsCodes :: "(string \<times> int) list" where
  "aadstsCodes = [(''invalid_request'', 900144), (''invalid_client'', 7000215), (''invalid_grant'', 70008), (''invalid_scope'', 70011),
     (''invalid_resource'', 500011), (''unauthorized_client'', 700038), (''unsupported_grant_type'', 70003), (''authorization_pending'', 70016),
     (''access_denied'', 65004), (''expired_token'', 70020), (''authorization_declined'', 70018), (''bad_verification_code'', 70019)]"

definition errorURICodes :: "int list" where
  "errorURICodes = [7000215, 500011]"

text \<open>\<^verbatim>\<open>time.Format\<close> with the layouts of the envelopes: RFC 3339 with a blank for the T, or without the zone.\<close>

definition entraTimestamp :: "int \<Rightarrow> string" where
  "entraTimestamp wall = map (\<lambda>c. if c = CHR ''T'' then CHR '' '' else c) (rfc3339 wall)"

definition WriteOAuthError :: "string \<Rightarrow> string \<Rightarrow> int \<Rightarrow> string \<Rightarrow> string \<Rightarrow> int \<times> shape" where
  "WriteOAuthError traceID corrID wall code description =
     (let n = or_else (map_of aadstsCodes code) 0; ts = entraTimestamp wall;
          desc = (if n \<noteq> 0 then description @ '' Trace ID: '' @ traceID @ '' Correlation ID: '' @ corrID @ '' Timestamp: '' @ ts else description);
          uri = (if n \<in> set errorURICodes then ''https://login.microsoftonline.com/error?code='' @ Itoa n else []) in
      (oauthStatus code,
       [(''error'', JStr code), (''error_description'', JStr desc)] @ (if n \<noteq> 0 then [(''error_codes'', JList [JInt n])] else [])
       @ [(''timestamp'', JStr ts), (''trace_id'', JStr traceID), (''correlation_id'', JStr corrID)]
       @ (if uri \<noteq> [] then [(''error_uri'', JStr uri)] else [])))"

definition WriteAdminError :: "string \<Rightarrow> string \<Rightarrow> (string \<times> string) list \<Rightarrow> shape" where
  "WriteAdminError code message details =
     [(''error'', JObj ([(''code'', JStr code), (''message'', JStr message)]
        @ (if details \<noteq> [] then [(''details'', JList (map (\<lambda>(f, m). JObj [(''field'', JStr f), (''message'', JStr m)]) details))] else [])))]"

text \<open>The correlation ids are those \<^verbatim>\<open>GraphRequestIDs\<close> stamped on the response, or fresh ones.\<close>

definition GraphRequestIDs :: "string \<Rightarrow> string \<Rightarrow> string \<Rightarrow> string \<times> string \<Rightarrow> string \<times> string" where
  "GraphRequestIDs fresh1 fresh2 client ids =
     (case ids of (rid, cid) \<Rightarrow>
        (if rid = [] then fresh1 else rid, if cid \<noteq> [] then cid else if client \<noteq> [] then client else fresh2))"

definition WriteGraphError :: "string \<Rightarrow> string \<Rightarrow> int \<Rightarrow> string \<times> string \<Rightarrow> string \<Rightarrow> string \<Rightarrow> shape" where
  "WriteGraphError fresh1 fresh2 wall ids code message =
     (case ids of (rid, cid) \<Rightarrow>
       [(''error'', JObj [(''code'', JStr code), (''message'', JStr message),
          (''innerError'', JObj [(''date'', JStr (TrimSuffix (rfc3339 wall) ''Z'')), (''request-id'', JStr (if rid = [] then fresh1 else rid)),
             (''client-request-id'', JStr (if cid = [] then fresh2 else cid))])])])"

end
