(* ===== verification/SignInAudit.thy ===== *)
theory SignInAudit
  imports Logout Envelopes AuthorizeFlow
begin

text \<open>
  \<^verbatim>\<open>internal/identity/audit.go\<close>: the middleware that turns what a handler of the token service answered into an
  entry of the sign-in log. It sees the answer only: its status, its \<^verbatim>\<open>Location\<close> header and the body of a failure, as it
  buffers it. A redirect keeps the bytes of an absolute ASCII location.
\<close>

text \<open>\<open>oc_JSON\<close> is the JSON value of the body, \<open>None\<close> when the body is not JSON.\<close>

record Outcome =
  oc_Status :: int
  oc_Location :: string
  oc_JSON :: "json option"
  oc_Body :: string

record auditSubject =
  su_UserID :: string
  su_UPN :: string
  su_ClientID :: string

definition no_subject :: auditSubject where
  "no_subject = \<lparr>su_UserID = [], su_UPN = [], su_ClientID = []\<rparr>"

definition noteAuditSubject :: "string \<Rightarrow> string \<Rightarrow> auditSubject \<Rightarrow> auditSubject" where
  "noteAuditSubject userID upn s = s\<lparr>su_UserID := userID, su_UPN := upn\<rparr>"

definition noteAuditClientID :: "string \<Rightarrow> auditSubject \<Rightarrow> auditSubject" where
  "noteAuditClientID clientID s = s\<lparr>su_ClientID := clientID\<rparr>"

section \<open>Reasons\<close>

text \<open>\<^verbatim>\<open>strings.Split\<close> by one byte, and the first part that starts with the parameter.\<close>

definition param_of_parts :: "string \<Rightarrow> string list \<Rightarrow> string option" where
  "param_of_parts needle parts =
     map_option (\<lambda>part. takeWhile (\<lambda>c. c \<noteq> CHR ''&'') (TrimPrefix part needle)) (find (\<lambda>part. HasPrefix part needle) parts)"

definition extractQueryParam :: "string \<Rightarrow> string \<Rightarrow> string" where
  "extractQueryParam rawurl key =
     (let needle = key @ ''='' in
      case param_of_parts needle (SplitChar rawurl (CHR ''?'')) of
        Some v \<Rightarrow> v
      | None \<Rightarrow>
        (case param_of_parts needle (SplitChar rawurl (CHR ''#'')) of
           Some v \<Rightarrow> v
         | None \<Rightarrow> or_else (param_of_parts needle (SplitChar rawurl (CHR ''&''))) []))"

text \<open>\<open>unesc\<close> is \<^verbatim>\<open>html.UnescapeString\<close>.\<close>

definition htmlErrorMessage :: "(string \<Rightarrow> string) \<Rightarrow> string \<Rightarrow> string" where
  "htmlErrorMessage unesc body =
     (case cut_sub (''<div class='' @ dquote # ''error'' @ dquote # ''>'') body of
        None \<Rightarrow> []
      | Some (_, rest) \<Rightarrow> (case cut_sub ''</div>'' rest of None \<Rightarrow> [] | Some (m, _) \<Rightarrow> unesc (TrimSpace m)))"

text \<open>The two fields of an OAuth error; a value of another kind makes the decoder fail.\<close>

definition oauth_fields :: "json option \<Rightarrow> (string \<times> string) option" where
  "oauth_fields v =
     (case Option.bind v as_object of
        None \<Rightarrow> None
      | Some ms \<Rightarrow> (case (str_field ms ''error'', str_field ms ''error_description'') of (Some c, Some d) \<Rightarrow> Some (c, d) | _ \<Rightarrow> None))"

definition failure_reason :: "(string \<Rightarrow> string) \<Rightarrow> Outcome \<Rightarrow> string \<times> string" where
  "failure_reason unesc oc =
     (if oc_Status oc \<ge> 400 \<and> oc_Body oc \<noteq> [] then
        (let (err, reason) = (case oauth_fields (oc_JSON oc) of Some (c, d) \<Rightarrow> (c, d) | None \<Rightarrow> ([], [])) in
         (err, if reason = [] then htmlErrorMessage unesc (oc_Body oc) else reason))
      else ([], []))"

section \<open>The middleware\<close>

text \<open>\<open>fv\<close> is \<^verbatim>\<open>r.FormValue\<close>, \<open>rid\<close> the event id of the recorder.\<close>

definition audit_event :: "(string \<Rightarrow> string) \<Rightarrow> int \<Rightarrow> string \<Rightarrow> (string \<Rightarrow> string) \<Rightarrow> auditSubject \<Rightarrow> Outcome \<Rightarrow> Event" where
  "audit_event unesc now flow fv subj oc =
     (let ok = (oc_Status oc < 400); (err, reason) = failure_reason unesc oc; clientID = fv ''client_id'';
          ev = \<lparr>ev_EventID = [], ev_Time = now, ev_TimeISO = [], ev_Flow = flow, ev_GrantType = fv ''grant_type'',
            ev_ClientID = (if su_ClientID subj \<noteq> [] then su_ClientID subj else if clientID = [] then fv ''wtrealm'' else clientID),
            ev_UserID = su_UserID subj, ev_UserPrincipalName = su_UPN subj, ev_Status = oc_Status oc, ev_OK = ok, ev_Error = err, ev_Reason = reason\<rparr> in
      if flow = ''authorize'' \<and> ok \<and> ContainsStr (oc_Location oc) ''error=''
      then ev\<lparr>ev_OK := False, ev_Error := extractQueryParam (oc_Location oc) ''error'', ev_Reason := extractQueryParam (oc_Location oc) ''error_description''\<rparr>
      else ev)"

definition audited :: "(string \<Rightarrow> string) \<Rightarrow> string option \<Rightarrow> int \<Rightarrow> string \<Rightarrow> (string \<Rightarrow> string) \<Rightarrow> auditSubject \<Rightarrow> Outcome
    \<Rightarrow> Event Recorder \<Rightarrow> Event Recorder" where
  "audited unesc rid now flow fv subj oc = Recorder_Record rid (audit_event unesc now flow fv subj oc)"

section \<open>What the handlers answer\<close>

text \<open>The token endpoint: a token response, an OAuth error, or nothing when the handler panicked (no entry is made).
  \<open>text\<close> renders a JSON value.\<close>

definition token_outcome :: "(json \<Rightarrow> string) \<Rightarrow> string \<Rightarrow> string \<Rightarrow> int \<Rightarrow> token_result \<Rightarrow> Outcome option" where
  "token_outcome text traceID corrID wall res =
     (case res of
        TokenOK tr \<Rightarrow> Some \<lparr>oc_Status = 200, oc_Location = [], oc_JSON = None, oc_Body = []\<rparr>
      | TokenErr (OAuthError c d) \<Rightarrow>
          (case WriteOAuthError traceID corrID wall c d of (st, v) \<Rightarrow>
             Some \<lparr>oc_Status = st, oc_Location = [], oc_JSON = Some (JObj v), oc_Body = text (JObj v)\<rparr>)
      | TokenErr Aborted \<Rightarrow> None)"

text \<open>\<^verbatim>\<open>url.Values.Encode\<close>, and the answer of the authorize endpoint that delivers a result.\<close>

definition values_encode :: "(string \<times> string) list \<Rightarrow> string" where
  "values_encode kvs = Join (map (\<lambda>(k, v). QueryEscape k @ ''='' @ QueryEscape v) (sort_key fst kvs)) ''&''"

definition deliver_outcome :: "(string \<Rightarrow> bool) \<Rightarrow> string \<Rightarrow> string \<Rightarrow> (string \<times> string) list \<Rightarrow> Outcome" where
  "deliver_outcome ip6 uri m params =
     (if m = ''form_post'' then \<lparr>oc_Status = 200, oc_Location = [], oc_JSON = None, oc_Body = []\<rparr>
      else \<lparr>oc_Status = 302,
        oc_Location = (if m = ''fragment'' then uri @ ''#'' @ values_encode params else uri @ query_sep ip6 uri @ values_encode params),
        oc_JSON = None, oc_Body = []\<rparr>)"

text \<open>Pages are rendered by \<open>page\<close>; the sign-in and the consent form are answered with 200.\<close>

definition authorize_outcome :: "(string \<Rightarrow> bool) \<Rightarrow> (authorize_result \<Rightarrow> string) \<Rightarrow> authorize_result \<Rightarrow> Outcome" where
  "authorize_outcome ip6 page res =
     (case res of
        AErrorPage c msg \<Rightarrow> \<lparr>oc_Status = c, oc_Location = [], oc_JSON = None, oc_Body = page res\<rparr>
      | SignInForm st msg \<Rightarrow> \<lparr>oc_Status = 200, oc_Location = [], oc_JSON = None, oc_Body = []\<rparr>
      | ConsentForm st ap \<Rightarrow> \<lparr>oc_Status = 200, oc_Location = [], oc_JSON = None, oc_Body = []\<rparr>
      | Deliver uri m params \<Rightarrow> deliver_outcome ip6 uri m params)"

section \<open>Properties\<close>

lemma contains_iff: "ContainsStr s sub \<longleftrightarrow> (\<exists>a b. s = a @ sub @ b)"
proof (induction s)
  case (Cons c s)
  show ?case
  proof
    assume "ContainsStr (c # s) sub"
    then consider (here) "HasPrefix (c # s) sub" | (later) "ContainsStr s sub" by auto
    then show "\<exists>a b. c # s = a @ sub @ b"
    proof cases
      case here
      then have "c # s = [] @ sub @ drop (length sub) (c # s)" unfolding HasPrefix_def by (metis append_Nil append_take_drop_id)
      then show ?thesis by blast
    next
      case later
      with Cons.IH obtain a b where "s = a @ sub @ b" by blast
      then have "c # s = (c # a) @ sub @ b" by simp
      then show ?thesis by blast
    qed
  next
    assume "\<exists>a b. c # s = a @ sub @ b"
    then obtain a b where ab: "c # s = a @ sub @ b" by blast
    show "ContainsStr (c # s) sub"
    proof (cases a)
      case Nil
      with ab have "HasPrefix (c # s) sub" by (simp add: HasPrefix_def)
      then show ?thesis by simp
    next
      case (Cons x xs)
      with ab have "s = xs @ sub @ b" by simp
      with Cons.IH show ?thesis by auto
    qed
  qed
qed auto

lemma contains_cut:
  assumes "c \<notin> set sub"
  shows "ContainsStr (a @ c # b) sub \<longleftrightarrow> ContainsStr a sub \<or> ContainsStr b sub"
proof
  assume "ContainsStr (a @ c # b) sub"
  then obtain x y where xy: "a @ c # b = x @ sub @ y" by (auto simp: contains_iff)
  then consider (left) z where "a = x @ sub @ z" | (mid) u v where "sub = u @ c # v" | (right) w where "b = w @ sub @ y"
    using assms by (auto simp: append_eq_append_conv2 append_eq_Cons_conv Cons_eq_append_conv)
  then show "ContainsStr a sub \<or> ContainsStr b sub"
    using assms by cases (auto simp: contains_iff)
next
  assume "ContainsStr a sub \<or> ContainsStr b sub"
  then show "ContainsStr (a @ c # b) sub"
  proof
    assume "ContainsStr a sub"
    then obtain x y where "a = x @ sub @ y" by (auto simp: contains_iff)
    then have "a @ c # b = x @ sub @ (y @ c # b)" by simp
    then show ?thesis unfolding contains_iff by blast
  next
    assume "ContainsStr b sub"
    then obtain x y where "b = x @ sub @ y" by (auto simp: contains_iff)
    then have "a @ c # b = (a @ c # x) @ sub @ y" by simp
    then show ?thesis unfolding contains_iff by blast
  qed
qed

lemma escaped_no_equals: "CHR ''='' \<notin> set (QueryEscape v)"
  using QueryEscape_plain[of v] by blast

lemma contains_pair:
  assumes "CHR ''='' \<notin> set k" and "CHR ''='' \<notin> set v" and "CHR ''='' \<notin> set x" and "\<not> HasSuffix k x"
  shows "\<not> ContainsStr (k @ CHR ''='' # v) (x @ ''='')"
proof
  assume "ContainsStr (k @ CHR ''='' # v) (x @ ''='')"
  then obtain a b where ab: "k @ CHR ''='' # v = (a @ x) @ CHR ''='' # b" by (auto simp: contains_iff)
  then have "k = a @ x" using append_Cons_eq_iff[OF assms(1,2), of "a @ x" b] by simp
  with assms(4) show False by (auto simp: HasSuffix_iff)
qed

text \<open>\<^verbatim>\<open>error=\<close> in a delivered location: in the redirect URI or as the first parameter of an error.\<close>

definition err_param :: string where
  "err_param = ''error=''"

lemma err_in_code:
  assumes "x = [(''code'', v)] \<or> x = [(''code'', v), (''state'', w)]"
  shows "\<not> ContainsStr (values_encode x) err_param"
proof -
  have e: "QueryEscape ''code'' = ''code''" "QueryEscape ''state'' = ''state''" by code_simp+
  have ne: "CHR ''='' \<notin> set (QueryEscape y)" for y using QueryEscape_plain[of y] by blast
  have x: "err_param = ''error'' @ ''=''" "CHR ''&'' \<notin> set err_param" by (simp_all add: err_param_def)
  have p: "\<not> ContainsStr (''code'' @ CHR ''='' # QueryEscape v) err_param" "\<not> ContainsStr (''state'' @ CHR ''='' # QueryEscape w) err_param"
    unfolding x(1) by (rule contains_pair; simp add: ne HasSuffix_def HasPrefix_def)+
  have le: "\<not> ''state'' \<le> ''code''" "''code'' \<le> ''state''" by code_simp+
  have two: "values_encode [(''code'', v), (''state'', w)] = (''code'' @ CHR ''='' # QueryEscape v) @ CHR ''&'' # (''state'' @ CHR ''='' # QueryEscape w)"
    using le by (simp add: values_encode_def e del: QueryEscape_Cons)
  show ?thesis using assms
  proof
    assume "x = [(''code'', v)]"
    then have "values_encode x = ''code'' @ CHR ''='' # QueryEscape v" by (simp add: values_encode_def e del: QueryEscape_Cons)
    with p(1) show ?thesis by simp
  next
    assume "x = [(''code'', v), (''state'', w)]"
    then show ?thesis using p unfolding two contains_cut[OF x(2)] by (simp only: two contains_cut[OF x(2)]) blast
  qed
qed

lemma err_in_error:
  "\<exists>t. values_encode ([(''error'', c), (''error_description'', d)] @ (if st = [] then [] else [(''state'', st)])) = err_param @ t"
proof -
  have e: "QueryEscape ''error'' = ''error''" by code_simp
  show ?thesis by (simp add: values_encode_def e err_param_def del: QueryEscape_Cons)
qed

lemma query_sep_cases: "query_sep ip6 u = ''?'' \<or> query_sep ip6 u = ''&''"
  by (simp add: query_sep_def split: option.splits)

lemma location_err:
  assumes "c \<in> {CHR ''?'', CHR ''&'', CHR ''#''}"
  shows "ContainsStr (uri @ c # ps) err_param \<longleftrightarrow> ContainsStr uri err_param \<or> ContainsStr ps err_param"
  using assms by (intro contains_cut) (auto simp: err_param_def)

text \<open>
  C27. What the sign-in log makes of the authorize endpoint: a delivered error is logged as a failure unless it is posted
  as a form, when it is logged as a success; a delivered code is logged as a success unless it is not posted and the
  registered redirect URI itself contains \<^verbatim>\<open>error=\<close>, when it is logged as a failure.
\<close>

theorem authorize_log_exact:
  "(ev_OK (audit_event unesc now ''authorize'' fv subj (authorize_outcome ip6 page (deliverAuthorizeError st code desc)))
      \<longleftrightarrow> as_ResponseMode st = ''form_post'')
   \<and> (\<not> ev_OK (audit_event unesc now ''authorize'' fv subj (authorize_outcome ip6 page (deliverAuthorizeResult st [(''code'', c)])))
      \<longleftrightarrow> as_ResponseMode st \<noteq> ''form_post'' \<and> ContainsStr (as_RedirectURI st) ''error='')"
proof -
  let ?loc = "\<lambda>ps. oc_Location (deliver_outcome ip6 (as_RedirectURI st)
     (if as_ResponseMode st = ''form_post'' \<or> as_ResponseMode st = ''fragment'' then as_ResponseMode st else ''query'')
     (ps @ (if as_State st \<noteq> [] then [(''state'', as_State st)] else [])))"
  have ok: "ev_OK (audit_event unesc now ''authorize'' fv subj (authorize_outcome ip6 page (deliverAuthorizeResult st ps)))
      \<longleftrightarrow> \<not> ContainsStr (?loc ps) err_param" for ps
    by (simp add: audit_event_def authorize_outcome_def deliverAuthorizeResult_def deliver_outcome_def failure_reason_def err_param_def Let_def)
  have loc: "ContainsStr (?loc ps) err_param \<longleftrightarrow> as_ResponseMode st \<noteq> ''form_post''
      \<and> (ContainsStr (as_RedirectURI st) err_param \<or> ContainsStr (values_encode (ps @ (if as_State st \<noteq> [] then [(''state'', as_State st)] else []))) err_param)" for ps
  proof -
    have none: "\<not> ContainsStr [] err_param" by (simp add: err_param_def)
    consider "as_ResponseMode st = ''form_post''" | "as_ResponseMode st = ''fragment''"
      | "as_ResponseMode st \<noteq> ''form_post''" "as_ResponseMode st \<noteq> ''fragment''" by blast
    then show ?thesis
    proof cases
      case 1
      then show ?thesis using none by (simp add: deliver_outcome_def del: ContainsStr.simps)
    next
      case 2
      then show ?thesis using location_err[of "CHR ''#''"] by (simp add: deliver_outcome_def)
    next
      case 3
      then show ?thesis using query_sep_cases[of ip6 "as_RedirectURI st"] location_err[of "CHR ''?''"] location_err[of "CHR ''&''"]
        by (elim disjE) (simp_all add: deliver_outcome_def)
    qed
  qed
  have "\<exists>t. values_encode ([(''error'', code), (''error_description'', desc)] @ (if as_State st \<noteq> [] then [(''state'', as_State st)] else [])) = err_param @ t"
    using err_in_error[of code desc "as_State st"] by (auto split: if_splits)
  then have "ContainsStr (values_encode ([(''error'', code), (''error_description'', desc)] @ (if as_State st \<noteq> [] then [(''state'', as_State st)] else []))) err_param"
    unfolding contains_iff by (metis append_Nil)
  then have e: "ContainsStr (?loc [(''error'', code), (''error_description'', desc)]) err_param \<longleftrightarrow> as_ResponseMode st \<noteq> ''form_post''"
    unfolding loc by blast
  have "\<not> ContainsStr (values_encode ([(''code'', c)] @ (if as_State st \<noteq> [] then [(''state'', as_State st)] else []))) err_param"
    by (rule err_in_code[where v = c and w = "as_State st"]) simp
  then have f: "ContainsStr (?loc [(''code'', c)]) err_param \<longleftrightarrow> as_ResponseMode st \<noteq> ''form_post'' \<and> ContainsStr (as_RedirectURI st) err_param"
    unfolding loc by blast
  show ?thesis unfolding deliverAuthorizeError_def ok e f by (simp add: err_param_def)
qed

lemma envelope_fields:
  "\<exists>tail. oauth_fields (Some (JObj (snd (WriteOAuthError t c wall code d)))) = Some (code, d @ tail)"
proof -
  have f: "EqualFold ''error'' ''error''" "EqualFold ''error_description'' ''error_description''" "\<not> EqualFold ''error_description'' ''error''"
    "\<not> EqualFold ''error'' ''error_description''" "\<not> EqualFold ''error_codes'' ''error''" "\<not> EqualFold ''error_codes'' ''error_description''"
    "\<not> EqualFold ''timestamp'' ''error''" "\<not> EqualFold ''timestamp'' ''error_description''" "\<not> EqualFold ''trace_id'' ''error''"
    "\<not> EqualFold ''trace_id'' ''error_description''" "\<not> EqualFold ''correlation_id'' ''error''" "\<not> EqualFold ''correlation_id'' ''error_description''"
    "\<not> EqualFold ''error_uri'' ''error''" "\<not> EqualFold ''error_uri'' ''error_description''" by code_simp+
  have two: "members (snd (WriteOAuthError t c wall code d)) ''error'' = [JStr code]"
    "\<exists>tail. members (snd (WriteOAuthError t c wall code d)) ''error_description'' = [JStr (d @ tail)]"
    by (simp_all add: WriteOAuthError_def members_def Let_def f)
  then show ?thesis by (auto simp: oauth_fields_def as_object_def dec_str_def)
qed

lemma oauthStatus_error: "400 \<le> oauthStatus code"
  by (simp add: oauthStatus_def)

text \<open>
  C26. The sign-in log of the token endpoint tells the truth: the exchange adds exactly one entry in front of the log (the
  oldest goes when it is full), it is marked as a success exactly when a token response was returned, and a refused one
  carries the error code and a reason that starts with the error's description.
\<close>

theorem token_log_faithful:
  assumes "ring_ok r" and "token_outcome text t c wall res = Some oc" and "\<And>v. text v \<noteq> []"
  shows "\<exists>ev. ring_abs (audited unesc rid now ''token'' fv subj oc r) = take (rec_cap r) (ev # ring_abs r)
    \<and> ev_Time ev = now \<and> ev_UserID ev = su_UserID subj
    \<and> (ev_OK ev \<longleftrightarrow> (\<exists>tr. res = TokenOK tr))
    \<and> (\<forall>code d. res = TokenErr (OAuthError code d) \<longrightarrow> ev_Error ev = code \<and> HasPrefix (ev_Reason ev) d)"
proof -
  let ?ev = "audit_event unesc now ''token'' fv subj oc" and ?st = "stamp_event rid (audit_event unesc now ''token'' fv subj oc)"
  have log: "ring_abs (audited unesc rid now ''token'' fv subj oc r) = take (rec_cap r) (?st # ring_abs r)"
    using ring_abs_put[OF assms(1)] by (simp add: audited_def Recorder_Record_def)
  have stamp: "ev_Time ?st = ev_Time ?ev" "ev_UserID ?st = ev_UserID ?ev" "ev_OK ?st = ev_OK ?ev" "ev_Error ?st = ev_Error ?ev" "ev_Reason ?st = ev_Reason ?ev"
    by (simp_all add: stamp_event_def)
  have ev: "ev_Time ?ev = now" "ev_UserID ?ev = su_UserID subj" "ev_OK ?ev \<longleftrightarrow> oc_Status oc < 400"
    "ev_Error ?ev = fst (failure_reason unesc oc)" "ev_Reason ?ev = snd (failure_reason unesc oc)"
    by (simp_all add: audit_event_def Let_def case_prod_beta)
  have ok: "oc_Status oc < 400 \<longleftrightarrow> (\<exists>tr. res = TokenOK tr)"
    using assms(2) oauthStatus_error by (auto simp: token_outcome_def WriteOAuthError_def Let_def not_less split: token_result.splits oauth_err.splits)
  have err: "fst (failure_reason unesc oc) = code \<and> HasPrefix (snd (failure_reason unesc oc)) d" if "res = TokenErr (OAuthError code d)" for code d
  proof -
    obtain tail where tl: "oauth_fields (Some (JObj (snd (WriteOAuthError t c wall code d)))) = Some (code, d @ tail)" using envelope_fields by blast
    have "oc_Status oc = oauthStatus code" "oc_JSON oc = Some (JObj (snd (WriteOAuthError t c wall code d)))" "oc_Body oc \<noteq> []"
      using assms(2,3) that by (auto simp: token_outcome_def WriteOAuthError_def Let_def)
    with tl oauthStatus_error[of code] show ?thesis by (simp add: failure_reason_def) (auto simp: HasPrefix_def)
  qed
  show ?thesis using log stamp ev ok err by (intro exI[of _ ?st]) simp
qed

definition refused_outcome :: "Outcome option" where
  "refused_outcome = token_outcome (\<lambda>_. ''{}'') ''trace'' ''corr'' 0 (TokenErr (OAuthError ''invalid_grant'' ''AADSTS50057: The user account is disabled.''))"

definition empty_log :: "Event Recorder" where
  "empty_log = Recorder_New (audit_event (\<lambda>s. s) 0 [] (\<lambda>_. []) no_subject \<lparr>oc_Status = 200, oc_Location = [], oc_JSON = None, oc_Body = []\<rparr>) 2"

theorem token_log_faithful_witness:
  "\<exists>oc ev. refused_outcome = Some oc \<and> ring_abs (audited (\<lambda>s. s) None 7 ''token'' (\<lambda>_. []) no_subject oc empty_log) = [ev]
    \<and> ev_Time ev = 7 \<and> \<not> ev_OK ev \<and> ev_Error ev = ''invalid_grant'' \<and> HasPrefix (ev_Reason ev) ''AADSTS50057: The user account is disabled.''"
proof -
  obtain oc where oc: "token_outcome (\<lambda>_. ''{}'') ''trace'' ''corr'' 0 (TokenErr (OAuthError ''invalid_grant'' ''AADSTS50057: The user account is disabled.'')) = Some oc"
    by (auto simp: token_outcome_def split_beta)
  have log: "ring_ok empty_log" "ring_abs empty_log = []" "rec_cap empty_log = 2"
    by (simp_all add: empty_log_def)
  from token_log_faithful[OF log(1) oc, of "\<lambda>s. s" None 7 "\<lambda>_. []" no_subject] log(2,3) oc
  show ?thesis by (auto simp: refused_outcome_def)
qed

end
