(* ===== verification/Discovery.thy ===== *)
theory Discovery
  imports Url Envelopes Identity Minting
begin

text \<open>
  \<^verbatim>\<open>internal/identity/discovery.go\<close>, \<^verbatim>\<open>userrealm.go\<close> and \<^verbatim>\<open>cors.go\<close>: the documents a client reads before it
  signs anyone in, the published keys, and the headers that let a browser read them. A handler answers with a status
  and a JSON body; the key set is a text.
\<close>

datatype discovery_reply = DiscoveryJSON int shape | KeySet string

definition unknown_tenant :: discovery_reply where
  "unknown_tenant = DiscoveryJSON 404 [(''error'', JObj [(''code'', JStr ''invalid_tenant''), (''message'', JStr ''Unknown tenant.'')])]"

definition discovery_failed :: "string \<Rightarrow> discovery_reply" where
  "discovery_failed m = DiscoveryJSON 500 [(''error'', JObj [(''code'', JStr ''internal_error''), (''message'', JStr m)])]"

text \<open>\<open>None\<close> leaves the value as it is; an origin without a host counts as unparseable.\<close>

definition hostOf :: "(string \<Rightarrow> bool) \<Rightarrow> string \<Rightarrow> string" where
  "hostOf ip6 origin = (case url_Parse ip6 origin of Some u \<Rightarrow> if ur_Host u \<noteq> [] then ur_Host u else origin | None \<Rightarrow> origin)"

definition cloudInstanceName :: "(string \<Rightarrow> bool) \<Rightarrow> Config \<Rightarrow> string" where
  "cloudInstanceName ip6 cfg = hostOf ip6 (cf_Login cfg)"

definition tenantInitialDomain :: "(string \<Rightarrow> bool) \<Rightarrow> Config \<Rightarrow> string" where
  "tenantInitialDomain ip6 cfg = hostOf ip6 (cf_Login cfg)"

definition issuerFor :: "Config \<Rightarrow> string \<Rightarrow> string" where
  "issuerFor cfg tid = (if tid = cf_TenantID cfg then cf_Issuer cfg else cf_Login cfg @ ''/'' @ tid @ ''/v2.0'')"

definition userinfoEndpoint :: "Config \<Rightarrow> string" where
  "userinfoEndpoint cfg = (if cf_Graph cfg = cf_Login cfg then cf_Graph cfg @ ''/graph/oidc/userinfo'' else cf_Graph cfg @ ''/oidc/userinfo'')"

section \<open>Handlers\<close>

text \<open>\<^verbatim>\<open>strings.Replace\<close> with count 1 and a non-empty old text.\<close>

definition replace_once :: "string \<Rightarrow> string \<Rightarrow> string \<Rightarrow> string" where
  "replace_once s old new = (case cut_sub old s of None \<Rightarrow> s | Some (a, b) \<Rightarrow> a @ new @ b)"

definition handleInstanceDiscovery :: "(string \<Rightarrow> bool) \<Rightarrow> Config \<Rightarrow> query \<Rightarrow> discovery_reply" where
  "handleInstanceDiscovery ip6 cfg q =
     (let host = hostOf ip6 (cf_Login cfg); authz = q ''authorization_endpoint'';
          tenantDiscovery =
            (if authz \<noteq> [] then replace_once authz ''/oauth2/v2.0/authorize'' ''/v2.0/.well-known/openid-configuration''
             else cf_Login cfg @ ''/'' @ cf_TenantID cfg @ ''/v2.0/.well-known/openid-configuration'') in
      DiscoveryJSON 200 [(''tenant_discovery_endpoint'', JStr tenantDiscovery), (''api-version'', JStr ''1.1''),
        (''metadata'', JList [JObj [(''preferred_network'', JStr host), (''preferred_cache'', JStr host), (''aliases'', JList [JStr host])]])])"

definition discovery_document :: "(string \<Rightarrow> bool) \<Rightarrow> Config \<Rightarrow> string \<Rightarrow> shape" where
  "discovery_document ip6 cfg tid =
     (let base = cf_Login cfg @ ''/'' @ tid in
      [(''issuer'', JStr (issuerFor cfg tid)),
       (''authorization_endpoint'', JStr (base @ ''/oauth2/v2.0/authorize'')),
       (''token_endpoint'', JStr (base @ ''/oauth2/v2.0/token'')),
       (''device_authorization_endpoint'', JStr (base @ ''/oauth2/v2.0/devicecode'')),
       (''jwks_uri'', JStr (base @ ''/discovery/v2.0/keys'')),
       (''userinfo_endpoint'', JStr (userinfoEndpoint cfg)),
       (''end_session_endpoint'', JStr (base @ ''/oauth2/v2.0/logout'')),
       (''response_types_supported'', JList (map JStr [''code'', ''id_token'', ''code id_token''])),
       (''response_modes_supported'', JList (map JStr [''query'', ''fragment'', ''form_post''])),
       (''grant_types_supported'', JList (map JStr [''authorization_code'', ''refresh_token'', ''client_credentials'', ''password'',
          ''urn:ietf:params:oauth:grant-type:device_code'', ''urn:ietf:params:oauth:grant-type:jwt-bearer''])),
       (''subject_types_supported'', JList [JStr ''pairwise'']),
       (''scopes_supported'', JList (map JStr [''openid'', ''profile'', ''email'', ''offline_access''])),
       (''id_token_signing_alg_values_supported'', JList [JStr ''RS256'']),
       (''token_endpoint_auth_methods_supported'', JList (map JStr [''client_secret_post'', ''client_secret_basic'', ''private_key_jwt''])),
       (''http_logout_supported'', JBool True),
       (''frontchannel_logout_supported'', JBool True),
       (''code_challenge_methods_supported'', JList [JStr ''S256'', JStr ''plain'']),
       (''request_uri_parameter_supported'', JBool True),
       (''claims_supported'', JList (map JStr [''sub'', ''iss'', ''aud'', ''exp'', ''iat'', ''nbf'', ''tid'', ''oid'',
          ''name'', ''preferred_username'', ''email'', ''nonce'', ''ver'', ''auth_time''])),
       (''tenant_region_scope'', JStr ''LOC''),
       (''cloud_instance_name'', JStr (cloudInstanceName ip6 cfg)),
       (''cloud_graph_host_name'', JStr (hostOf ip6 (cf_Graph cfg))),
       (''msgraph_host'', JStr (hostOf ip6 (cf_Graph cfg))),
       (''rbac_url'', JStr (cf_Graph cfg))])"

definition handleDiscovery :: "(string \<Rightarrow> bool) \<Rightarrow> Config \<Rightarrow> Request \<Rightarrow> Store \<Rightarrow> discovery_reply" where
  "handleDiscovery ip6 cfg rq s =
     (case tenantSegment cfg s rq of (tid, ok) \<Rightarrow>
        if \<not> ok then unknown_tenant else DiscoveryJSON 200 (discovery_document ip6 cfg tid))"

text \<open>A key is generated for a tenant that has none; \<open>priv\<close> is the fresh key.\<close>

definition handleJWKS :: "Env \<Rightarrow> Config \<Rightarrow> int \<Rightarrow> string \<Rightarrow> Request \<Rightarrow> Service \<Rightarrow> discovery_reply \<times> Service" where
  "handleJWKS env cfg now priv rq sv =
     (case tenantSegment cfg (sv_Store sv) rq of (tid, ok) \<Rightarrow>
        if \<not> ok then (unknown_tenant, sv)
        else if tid \<noteq> cf_TenantID cfg then
          (case signerForTenant env cfg now priv tid sv of
             (Inl e, sv1) \<Rightarrow> (discovery_failed (err_text e), sv1)
           | (Inr _, sv1) \<Rightarrow> (KeySet (JWKS (sv_Store sv1) tid now), sv1))
        else (KeySet (JWKS (sv_Store sv) tid now), sv))"

text \<open>\<open>t\<close>, \<open>c\<close> and \<open>wall\<close> are the identifiers and the time of the error envelope.\<close>

definition handleUserRealm :: "(string \<Rightarrow> bool) \<Rightarrow> string \<Rightarrow> string \<Rightarrow> int \<Rightarrow> Config \<Rightarrow> string \<Rightarrow> discovery_reply" where
  "handleUserRealm ip6 t c wall cfg user =
     (if user = [] then (case WriteOAuthError t c wall ''invalid_request'' ''AADSTS900144: a username is required.'' of (st, b) \<Rightarrow> DiscoveryJSON st b)
      else
        let i = LastIndex user (CHR ''@'');
            domain = (if i \<ge> 0 \<and> i + 1 < int (length user) then slice_from user (i + 1) else tenantInitialDomain ip6 cfg) in
        DiscoveryJSON 200 [(''ver'', JStr ''1.0''), (''account_type'', JStr ''Managed''), (''domain_name'', JStr domain),
          (''cloud_instance_name'', JStr (cloudInstanceName ip6 cfg)), (''cloud_audience_urn'', JStr ''urn:federation:MicrosoftOnline'')])"

section \<open>CORS\<close>

definition HasSPARedirectOrigin :: "(string \<Rightarrow> bool) \<Rightarrow> Store \<Rightarrow> string \<Rightarrow> string \<Rightarrow> bool" where
  "HasSPARedirectOrigin ip6 s appID origin \<longleftrightarrow>
     list_ex (\<lambda>u. ru_Type u = ''spa'' \<and>
       (case url_Parse ip6 (ru_URI u) of
          None \<Rightarrow> False
        | Some p \<Rightarrow> ur_Scheme p \<noteq> [] \<and> ur_Host p \<noteq> [] \<and> ur_Scheme p @ ''://'' @ ur_Host p = origin)) (ListRedirectURIs s appID)"

definition setCORSHeaders :: "string \<Rightarrow> (string \<times> string) list" where
  "setCORSHeaders origin =
     [(''Access-Control-Allow-Origin'', origin), (''Vary'', ''Origin''), (''Access-Control-Allow-Methods'', ''GET, POST, OPTIONS''),
      (''Access-Control-Allow-Headers'', ''Authorization, Content-Type, x-client-SKU, x-client-VER, x-client-OS, '' @
         ''x-client-CPU, client-request-id, x-client-current-telemetry, '' @
         ''x-client-last-telemetry, x-ms-lib-capability, x-app-name, x-app-ver''),
      (''Access-Control-Expose-Headers'', ''client-request-id, x-ms-request-id''), (''Access-Control-Max-Age'', ''86400'')]"

text \<open>The headers set, and whether the request is answered here with 204 instead of by the handler.\<close>

definition withCORS :: "string \<Rightarrow> string \<Rightarrow> (string \<times> string) list \<times> bool" where
  "withCORS method origin = (if origin \<noteq> [] then setCORSHeaders origin else [], method = ''OPTIONS'')"

definition withTokenCORS :: "(string \<Rightarrow> bool) \<Rightarrow> string \<Rightarrow> Request \<Rightarrow> Store \<Rightarrow> (string \<times> string) list" where
  "withTokenCORS ip6 origin rq s =
     (if origin \<noteq> [] \<and> rq_form rq ''client_id'' \<noteq> [] \<and> HasSPARedirectOrigin ip6 s (rq_form rq ''client_id'') origin
      then setCORSHeaders origin else [])"

definition registerCORSPreflight :: "string list" where
  "registerCORSPreflight = map (\<lambda>p. ''OPTIONS '' @ p)
     [''/{tenant}/v2.0/.well-known/openid-configuration'', ''/{tenant}/discovery/v2.0/keys'', ''/{tenant}/oauth2/v2.0/token'',
      ''/common/discovery/instance'']"

section \<open>Properties\<close>

text \<open>Key rows and signers as \<^verbatim>\<open>tokens/keys.go\<close> makes them: the key id is the thumbprint of the public key, and what a
  tenant's signer signs with is an active row of that tenant.\<close>

definition row_for :: "Env \<Rightarrow> string \<Rightarrow> SigningKey \<Rightarrow> bool" where
  "row_for env p k \<longleftrightarrow> (k_Kid k, k_PublicJWK k) = publicJWKFor env (env_public env p)"

definition keys_named :: "Env \<Rightarrow> Store \<Rightarrow> bool" where
  "keys_named env s \<longleftrightarrow> (\<forall>k \<in> set (signing_keys s). \<exists>p. env_pem_decode env (k_PrivatePKCS8 k) = Some p \<and> row_for env p k)"

definition published :: "Env \<Rightarrow> Store \<Rightarrow> string \<Rightarrow> Signer \<Rightarrow> bool" where
  "published env s tid sg \<longleftrightarrow> (\<exists>k \<in> set (signing_keys s). k_TenantID k = tid \<and> k_IsActive k \<and> k_Kid k = sg_Kid sg \<and> row_for env (sg_PrivateKey sg) k)"

definition signers_published :: "Env \<Rightarrow> Config \<Rightarrow> Service \<Rightarrow> bool" where
  "signers_published env cfg sv \<longleftrightarrow> keys_named env (sv_Store sv) \<and> published env (sv_Store sv) (cf_TenantID cfg) (sv_Signer sv)
     \<and> (\<forall>tid sg. sv_tenantSigners sv tid = Some sg \<longrightarrow> published env (sv_Store sv) tid sg)"

lemma EnsureActiveKey_published:
  assumes "crypto_laws env" and "keys_named env s" and "EnsureActiveKey env priv now tid s = (Inr sg, s')"
  shows "keys_named env s' \<and> published env s' tid sg \<and> set (signing_keys s) \<subseteq> set (signing_keys s')"
proof (cases "GetActiveSigningKey s tid")
  case (Inl e)
  then have g: "generateAndActivate env priv now tid s = (Inr sg, s')" using assms(3) by (auto simp: EnsureActiveKey_def split: if_splits)
  obtain kid jwk where pj: "publicJWKFor env (env_public env priv) = (kid, jwk)" by fastforce
  let ?k = "\<lparr>k_Kid = kid, k_TenantID = tid, k_Alg = ''RS256'', k_PublicJWK = jwk,
      k_PrivatePKCS8 = env_pem_encode env priv, k_IsActive = True, k_CreatedAt = now, k_NotAfter = Some 0\<rparr>"
  from g pj have ins: "InsertSigningKey ?k s = (Inr (), s')" by (auto simp: generateAndActivate_def split: prod.splits sum.splits)
  have rows: "signing_keys s' = signing_keys s @ [norm_key ?k]" using keys.ins_ok[OF ins] by blast
  have sg: "sg_PrivateKey sg = priv" "sg_Kid sg = kid" using generateAndActivate_Inr(1,2)[OF g] pj by simp_all
  have row: "env_pem_decode env (k_PrivatePKCS8 (norm_key ?k)) = Some priv" "row_for env priv (norm_key ?k)"
    "k_TenantID (norm_key ?k) = tid" "k_IsActive (norm_key ?k)" "k_Kid (norm_key ?k) = kid"
    using assms(1) pj by (simp_all add: row_for_def norm_key_def crypto_laws_def)
  have "keys_named env s'" using assms(2) row(1,2) unfolding keys_named_def rows by auto
  moreover have "published env s' tid sg" using row sg unfolding published_def rows by auto
  ultimately show ?thesis unfolding rows by auto
next
  case (Inr k)
  then have k: "k \<in> set (signing_keys s)" "k_TenantID k = tid" "k_IsActive k"
    by (auto simp: GetActiveSigningKey_def one_row_def split: option.splits dest: sql_first_Some)
  have sg: "s' = s" "sg_Kid sg = k_Kid k" "env_pem_decode env (k_PrivatePKCS8 k) = Some (sg_PrivateKey sg)"
    using assms(3) Inr by (auto simp: EnsureActiveKey_def split: option.splits)
  have "row_for env (sg_PrivateKey sg) k" using assms(2) k(1) sg(3) by (fastforce simp: keys_named_def)
  with k sg assms(2) show ?thesis by (auto simp: published_def)
qed

lemma published_mono: "set (signing_keys s) \<subseteq> set (signing_keys s') \<Longrightarrow> published env s tid sg \<Longrightarrow> published env s' tid sg"
  by (auto simp: published_def)

lemma signerForTenant_published:
  assumes "crypto_laws env" and "signers_published env cfg sv" and "signerForTenant env cfg now priv tid sv = (Inr sg, sv')"
  shows "signers_published env cfg sv' \<and> published env (sv_Store sv') tid sg
    \<and> (tid = cf_TenantID cfg \<or> sv_tenantSigners sv' tid = Some sg)"
proof (cases "tid = cf_TenantID cfg \<or> sv_tenantSigners sv tid \<noteq> None")
  case True
  with assms(2,3) show ?thesis by (auto simp: signerForTenant_def signers_published_def split: if_splits)
next
  case False
  then obtain s1 where e: "EnsureActiveKey env priv now tid (sv_Store sv) = (Inr sg, s1)"
    "sv' = sv\<lparr>sv_Store := s1, sv_tenantSigners := (sv_tenantSigners sv)(tid \<mapsto> sg)\<rparr>"
    using assms(3) by (auto simp: signerForTenant_def split: prod.splits sum.splits)
  from assms(2) have "keys_named env (sv_Store sv)" by (simp add: signers_published_def)
  from EnsureActiveKey_published[OF assms(1) this e(1)] assms(2) show ?thesis
    by (auto simp: signers_published_def e(2) intro: published_mono)
qed

text \<open>The key a client looks up in the served key set, by the id in the header of a token.\<close>

lemma published_in_JWKS:
  assumes "published env s tid sg"
  shows "snd (publicJWKFor env (env_public env (sg_PrivateKey sg))) \<in> k_PublicJWK ` set (ListPublishableKeys s tid now)"
    "fst (publicJWKFor env (env_public env (sg_PrivateKey sg))) = sg_Kid sg"
proof -
  obtain k where k: "k \<in> set (signing_keys s)" "k_TenantID k = tid" "k_IsActive k" "k_Kid k = sg_Kid sg" "row_for env (sg_PrivateKey sg) k"
    using assms by (auto simp: published_def)
  then have "k \<in> set (ListPublishableKeys s tid now)" by (simp add: ListPublishableKeys_def publishable_def)
  with k(5) show "snd (publicJWKFor env (env_public env (sg_PrivateKey sg))) \<in> k_PublicJWK ` set (ListPublishableKeys s tid now)"
    unfolding row_for_def by (metis imageI snd_conv)
  from k(4,5) show "fst (publicJWKFor env (env_public env (sg_PrivateKey sg))) = sg_Kid sg" unfolding row_for_def by (metis fst_conv)
qed

text \<open>
  C24. Discovery and minting agree: when an access or ID token has been minted for a tenant, the discovery document of
  that tenant names as issuer exactly the \<^verbatim>\<open>iss\<close> of the token, and the key set served for the tenant contains a JWK
  whose \<^verbatim>\<open>kid\<close> is the one in the token's header and whose public key verifies the token's signature over its claims;
  a cached or generated signer of the tenant stays published.
\<close>

theorem relying_party_can_verify:
  assumes "crypto_laws env" and "signers_published env cfg sv" and "resolveTenant cfg (dg_TenantID g) = tid"
    and "mintAccessDelegated env cfg now priv g aud sv = (Inr jwt, sv1) \<and> c = access_claims env cfg now g aud (sv_Store sv)
       \<or> mintIDToken env cfg now priv g sv = (Inr jwt, sv1) \<and> c = id_token_claims env cfg now g (sv_Store sv)"
    and "env_unmarshal env (env_marshal env c) = Some c"
    and "tenantSegment cfg (sv_Store sv) rq = (tid, True)"
  shows "\<exists>doc kid pub part keys sv2.
      handleDiscovery ip6 cfg rq (sv_Store sv1) = DiscoveryJSON 200 doc \<and> map_of doc ''issuer'' = Some (JStr (str_claim c ''iss''))
    \<and> handleJWKS env cfg now2 priv2 rq sv1 = (KeySet (''{'' @ jstr ''keys'' @ '':['' @ Join keys '','' @ '']}''), sv2)
    \<and> snd (publicJWKFor env pub) \<in> set keys \<and> fst (publicJWKFor env pub) = kid
    \<and> hd (SplitChar jwt (CHR ''.'')) = RawURLEncode part \<and> env_header env part = Some (''RS256'', kid)
    \<and> VerifyRS256 env pub jwt = Inr c \<and> signers_published env cfg sv2"
proof -
  have "signTenant env cfg now priv tid c sv = (Inr jwt, sv1)" and iss: "str_claim c ''iss'' = issuerFor cfg tid"
    using assms(3,4) access_claims_values(1)[of env cfg now g aud "sv_Store sv"] id_token_identity[of env cfg now g "sv_Store sv"]
    by (auto simp: mintAccessDelegated_def mintIDToken_def str_claim_def issuerForTenant_def issuerFor_def Let_def)
  then obtain sg where sg: "signerForTenant env cfg now priv tid sv = (Inr sg, sv1)" "SignRS256 env (sg_PrivateKey sg) (sg_Kid sg) c = Inr jwt"
    by (auto simp: signTenant_def split: prod.splits sum.splits)
  note pub = signerForTenant_published[OF assms(1,2) sg(1)]
  have "keys_only (sv_Store sv) (sv_Store sv1)"
    using mint_frame[of sv env cfg now priv g] assms(4) by auto (metis snd_conv)+
  then have "tenants (sv_Store sv1) = tenants (sv_Store sv)" by (auto simp: keys_only_def)
  then have "tenantSegment cfg (sv_Store sv1) rq = tenantSegment cfg (sv_Store sv) rq"
    by (simp add: tenantSegment_def GetTenantByID_def Let_def)
  with assms(6) have seg: "tenantSegment cfg (sv_Store sv1) rq = (tid, True)" by simp
  let ?pub = "env_public env (sg_PrivateKey sg)" and ?keys = "map k_PublicJWK (ListPublishableKeys (sv_Store sv1) tid now2)"
  have same: "signerForTenant env cfg now2 priv2 tid sv1 = (Inr sg, sv1)" if "tid \<noteq> cf_TenantID cfg"
    using that pub by (simp add: signerForTenant_def)
  have jwks: "handleJWKS env cfg now2 priv2 rq sv1 = (KeySet (''{'' @ jstr ''keys'' @ '':['' @ Join ?keys '','' @ '']}''), sv1)"
    using same by (simp add: handleJWKS_def seg JWKS_def)
  have rsa: "\<And>d sig. env_rsa_sign env (sg_PrivateKey sg) d = Some sig \<Longrightarrow> env_rsa_verify env ?pub d sig"
    and hdr: "env_header env (env_marshal env (jws_header (sg_Kid sg))) = Some (''RS256'', sg_Kid sg)"
    using assms(1) by (auto simp: crypto_laws_def)
  note v = VerifyRS256_SignRS256[OF sg(2) rsa assms(5)]
  from v(3) have "hd (SplitChar jwt (CHR ''.'')) = RawURLEncode (env_marshal env (jws_header (sg_Kid sg)))" by auto
  moreover have "handleDiscovery ip6 cfg rq (sv_Store sv1) = DiscoveryJSON 200 (discovery_document ip6 cfg tid)"
    by (simp add: handleDiscovery_def seg)
  moreover have "map_of (discovery_document ip6 cfg tid) ''issuer'' = Some (JStr (str_claim c ''iss''))"
    by (simp add: discovery_document_def Let_def iss)
  ultimately show ?thesis using jwks v(1) hdr published_in_JWKS(1)[of env "sv_Store sv1" tid sg now2] published_in_JWKS(2)[of env "sv_Store sv1" tid sg] pub
    by (intro exI[of _ "discovery_document ip6 cfg tid"] exI[of _ "sg_Kid sg"] exI[of _ ?pub] exI[of _ "env_marshal env (jws_header (sg_Kid sg))"]
        exI[of _ ?keys] exI[of _ sv1]) (simp add: image_def)
qed

definition discovery_rq :: Request where
  "discovery_rq = \<lparr>rq_post = False, rq_tenant = ''common'', rq_form_ok = True, rq_form = (\<lambda>_. []), rq_query = (\<lambda>_. []),
     rq_basic = None, rq_cookie = [], rq_path_id = [], rq_identity_header = []\<rparr>"

lemma service1_published: "signers_published (env0 c) config0 (service1 c)"
proof -
  have "\<exists>sg. fst (EnsureActiveKey (env0 c) ''K'' 1 ''t'' store0) = Inr sg"
    by (simp add: EnsureActiveKey_def GetActiveSigningKey_def generateAndActivate_def InsertSigningKey_def sql_defs
        sample_defs has_defs split: prod.splits)
  then obtain sg s' where e: "EnsureActiveKey (env0 c) ''K'' 1 ''t'' store0 = (Inr sg, s')" by (metis prod.collapse)
  have "keys_named (env0 c) store0" by (simp add: keys_named_def sample_defs)
  from EnsureActiveKey_published[OF crypto_laws_env0 this e] show ?thesis
    by (simp add: signers_published_def service1_def e config0_def)
qed

theorem relying_party_can_verify_witness:
  "\<exists>jwt sv1 doc keys sv2. mintAccessDelegated (env0 claims1) config0 9 ''K'' grant0 ''https://graph'' (service1 claims1) = (Inr jwt, sv1)
    \<and> handleDiscovery (\<lambda>_. False) config0 discovery_rq (sv_Store sv1) = DiscoveryJSON 200 doc
    \<and> map_of doc ''issuer'' = Some (JStr ''https://h/t/v2.0'')
    \<and> handleJWKS (env0 claims1) config0 10 ''K'' discovery_rq sv1 = (KeySet (''{'' @ jstr ''keys'' @ '':['' @ Join keys '','' @ '']}''), sv2) \<and> keys \<noteq> []"
proof -
  obtain ks where st: "sv_Store (service1 claims1) = store0\<lparr>signing_keys := ks\<rparr>" using service1_frame by (auto simp: keys_only_def)
  have "\<exists>jwt. fst (mintAccessDelegated (env0 claims1) config0 9 ''K'' grant0 ''https://graph'' (service1 claims1)) = Inr jwt"
    by (simp add: mintAccessDelegated_def signTenant_def signerForTenant_def SignRS256_def Let_def config0_def env0_def resolveTenant_def)
  then obtain jwt sv1 where m: "mintAccessDelegated (env0 claims1) config0 9 ''K'' grant0 ''https://graph'' (service1 claims1) = (Inr jwt, sv1)"
    by (metis prod.collapse)
  have c: "access_claims (env0 claims1) config0 9 grant0 ''https://graph'' (sv_Store (service1 claims1)) = claims1" by (simp add: st claims_sample)
  have seg: "tenantSegment config0 (sv_Store (service1 claims1)) discovery_rq = (''t'', True)"
    by (simp add: tenantSegment_def discovery_rq_def config0_def)
  have t: "resolveTenant config0 (dg_TenantID grant0) = ''t''" "str_claim claims1 ''iss'' = ''https://h/t/v2.0''"
    by (simp_all add: claims1_def str_claim_def)
  note v = relying_party_can_verify[OF crypto_laws_env0 service1_published t(1) disjI1 _ seg, where jwt = jwt and c = claims1 and ?sv1.0 = sv1
      and ?now2.0 = 10 and ?priv2.0 = "''K''" and ?ip6.0 = "\<lambda>_. False"]
  obtain doc keys sv2 pub where "handleDiscovery (\<lambda>_. False) config0 discovery_rq (sv_Store sv1) = DiscoveryJSON 200 doc"
    "map_of doc ''issuer'' = Some (JStr (str_claim claims1 ''iss''))" "snd (publicJWKFor (env0 claims1) pub) \<in> set keys"
    "handleJWKS (env0 claims1) config0 10 ''K'' discovery_rq sv1 = (KeySet (''{'' @ jstr ''keys'' @ '':['' @ Join keys '','' @ '']}''), sv2)"
    using v[OF conjI[OF m c[symmetric]]] by auto
  with m t(2) show ?thesis by (metis empty_iff empty_set)
qed

text \<open>
  Which browsers may read the token endpoint: its answer carries CORS headers exactly when the request names a
  client and the calling origin is the one of a redirect URI of type \<^verbatim>\<open>spa\<close> registered for that client, given that these
  are written as scheme, host, optional port and path; the headers then name that origin. A redirect URI of another
  type, or one of another client, opens nothing.
\<close>

definition spa_form :: "string \<Rightarrow> string \<Rightarrow> string \<Rightarrow> bool" where
  "spa_form origin tail uri \<longleftrightarrow> (\<exists>scheme h p. scheme \<in> {''http'', ''https''} \<and> plain_host h \<and> validOptionalPort p \<and> plain_tail tail
     \<and> origin = scheme @ ''://'' @ h @ p \<and> uri = origin @ tail)"

lemma spa_form_parse:
  assumes "spa_form origin tail uri"
  shows "\<exists>u. url_Parse ip6 uri = Some u \<and> ur_Scheme u \<noteq> [] \<and> ur_Host u \<noteq> [] \<and> ur_Scheme u @ ''://'' @ ur_Host u = origin"
proof -
  obtain scheme h p where *: "scheme \<in> {''http'', ''https''}" "plain_host h" "validOptionalPort p" "plain_tail tail"
    "origin = scheme @ ''://'' @ h @ p" "uri = origin @ tail"
    using assms unfolding spa_form_def by blast
  then have "url_Parse ip6 uri = Some \<lparr>ur_Scheme = scheme, ur_Host = h @ p, ur_RawQuery = []\<rparr>" using parse_origin[OF *(1-4), of ip6] by simp
  moreover have "h \<noteq> []" "scheme \<noteq> []" using *(1,2) by (auto simp: plain_host_def)
  ultimately show ?thesis using *(5) by simp
qed

theorem token_cors_exact:
  assumes "\<forall>u \<in> set (app_redirect_uris s). ru_AppID u = client \<and> ru_Type u = ''spa'' \<longrightarrow> (\<exists>o1 t1. spa_form o1 t1 (ru_URI u))"
    and "client = rq_form rq ''client_id''"
  shows "(withTokenCORS ip6 origin rq s \<noteq> [] \<longleftrightarrow> client \<noteq> []
       \<and> (\<exists>u tail. u \<in> set (app_redirect_uris s) \<and> ru_AppID u = client \<and> ru_Type u = ''spa'' \<and> spa_form origin tail (ru_URI u)))
    \<and> (withTokenCORS ip6 origin rq s \<noteq> [] \<longrightarrow> map_of (withTokenCORS ip6 origin rq s) ''Access-Control-Allow-Origin'' = Some origin)"
proof -
  have set_uris: "set (ListRedirectURIs s client) = {u \<in> set (app_redirect_uris s). ru_AppID u = client}" by (auto simp: ListRedirectURIs_def)
  have parsed: "(case url_Parse ip6 (ru_URI u) of None \<Rightarrow> False
       | Some p \<Rightarrow> ur_Scheme p \<noteq> [] \<and> ur_Host p \<noteq> [] \<and> ur_Scheme p @ ''://'' @ ur_Host p = origin) \<longleftrightarrow> (\<exists>tail. spa_form origin tail (ru_URI u))"
    if u: "u \<in> set (app_redirect_uris s)" "ru_AppID u = client" "ru_Type u = ''spa''" for u
  proof -
    from assms(1) u obtain o1 t1 where f: "spa_form o1 t1 (ru_URI u)" by blast
    from spa_form_parse[OF f, of ip6] obtain p where p: "url_Parse ip6 (ru_URI u) = Some p" "ur_Scheme p \<noteq> []" "ur_Host p \<noteq> []"
      "ur_Scheme p @ ''://'' @ ur_Host p = o1" by blast
    show ?thesis
    proof
      assume "case url_Parse ip6 (ru_URI u) of None \<Rightarrow> False
        | Some p \<Rightarrow> ur_Scheme p \<noteq> [] \<and> ur_Host p \<noteq> [] \<and> ur_Scheme p @ ''://'' @ ur_Host p = origin"
      with p f show "\<exists>tail. spa_form origin tail (ru_URI u)" by auto
    next
      assume "\<exists>tail. spa_form origin tail (ru_URI u)"
      then obtain tail where "spa_form origin tail (ru_URI u)" by blast
      from spa_form_parse[OF this, of ip6] p(1) p show "case url_Parse ip6 (ru_URI u) of None \<Rightarrow> False
        | Some p \<Rightarrow> ur_Scheme p \<noteq> [] \<and> ur_Host p \<noteq> [] \<and> ur_Scheme p @ ''://'' @ ur_Host p = origin" by auto
    qed
  qed
  define P where "P \<longleftrightarrow> (\<exists>u tail. u \<in> set (app_redirect_uris s) \<and> ru_AppID u = client \<and> ru_Type u = ''spa'' \<and> spa_form origin tail (ru_URI u))"
  have has: "HasSPARedirectOrigin ip6 s client origin \<longleftrightarrow> P"
    unfolding HasSPARedirectOrigin_def list_ex_iff set_uris P_def using parsed by blast
  have "origin \<noteq> []" if "spa_form origin tail uri" for tail uri using that unfolding spa_form_def by fastforce
  then have ne: "P \<Longrightarrow> origin \<noteq> []" unfolding P_def by blast
  have hdr: "setCORSHeaders origin \<noteq> []" "map_of (setCORSHeaders origin) ''Access-Control-Allow-Origin'' = Some origin"
    by (simp_all add: setCORSHeaders_def)
  show ?thesis unfolding withTokenCORS_def assms(2)[symmetric] has P_def[symmetric] using ne hdr
    by (cases P; cases "client = []"; cases "origin = []") simp_all
qed

definition spa_store :: Store where
  "spa_store = store0\<lparr>app_redirect_uris := [\<lparr>ru_ID = 1, ru_AppID = ''app'', ru_URI = ''https://spa.test:3000/cb'', ru_Type = ''spa''\<rparr>,
     \<lparr>ru_ID = 2, ru_AppID = ''app'', ru_URI = ''https://web.test/cb'', ru_Type = ''web''\<rparr>]\<rparr>"

theorem token_cors_exact_witness:
  "withTokenCORS (\<lambda>_. False) ''https://spa.test:3000'' (discovery_rq\<lparr>rq_form := (\<lambda>_. [])(''client_id'' := ''app'')\<rparr>) spa_store \<noteq> []
   \<and> withTokenCORS (\<lambda>_. False) ''https://web.test'' (discovery_rq\<lparr>rq_form := (\<lambda>_. [])(''client_id'' := ''app'')\<rparr>) spa_store = []"
proof -
  let ?rq = "discovery_rq\<lparr>rq_form := (\<lambda>_. [])(''client_id'' := ''app'')\<rparr>"
  have "plain_host ''spa.test''" "validOptionalPort '':3000''" "plain_tail ''/cb''" by code_simp+
  then have f: "spa_form ''https://spa.test:3000'' ''/cb'' ''https://spa.test:3000/cb''"
    unfolding spa_form_def by (intro exI[of _ "''https''"] exI[of _ "''spa.test''"] exI[of _ "'':3000''"]) simp
  then have wf: "\<forall>u \<in> set (app_redirect_uris spa_store). ru_AppID u = ''app'' \<and> ru_Type u = ''spa'' \<longrightarrow> (\<exists>o1 t1. spa_form o1 t1 (ru_URI u))"
    by (auto simp: spa_store_def)
  have c: "''app'' = rq_form ?rq ''client_id''" by simp
  have "''https://spa.test:3000/cb'' \<noteq> ''https://web.test'' @ tail" for tail by simp
  then have "\<not> spa_form ''https://web.test'' tail ''https://spa.test:3000/cb''" for tail unfolding spa_form_def by metis
  then have none: "\<not> (\<exists>u tail. u \<in> set (app_redirect_uris spa_store) \<and> ru_AppID u = ''app'' \<and> ru_Type u = ''spa'' \<and> spa_form ''https://web.test'' tail (ru_URI u))"
    by (auto simp: spa_store_def)
  have some: "\<exists>u tail. u \<in> set (app_redirect_uris spa_store) \<and> ru_AppID u = ''app'' \<and> ru_Type u = ''spa'' \<and> spa_form ''https://spa.test:3000'' tail (ru_URI u)"
    using f by (intro exI[of _ "\<lparr>ru_ID = 1, ru_AppID = ''app'', ru_URI = ''https://spa.test:3000/cb'', ru_Type = ''spa''\<rparr>"] exI[of _ "''/cb''"])
      (simp add: spa_store_def)
  from token_cors_exact[OF wf c, of "\<lambda>_. False" "''https://spa.test:3000''"] token_cors_exact[OF wf c, of "\<lambda>_. False" "''https://web.test''"] some none
  show ?thesis by (metis list.distinct(1))
qed

end
