(* ===== verification/ConfigLoad.thy ===== *)
theory ConfigLoad
  imports Url AdminCore
begin

text \<open>
  \<^verbatim>\<open>internal/config/config.go\<close>: the configuration from the environment, the config file and the defaults, its
  validation and the derivation of the advertised origins. The record of \<^verbatim>\<open>TokenService\<close> is extended by the
  settings only the server reads.
\<close>

record ServerConfig = Config +
  cs_Host :: string
  cs_Port :: int
  cs_OriginMode :: string
  cs_BaseDomain :: string
  cs_LocalDomains :: "string list"
  cs_Portal :: string
  cs_DBPath :: string
  cs_TLSEnabled :: bool
  cs_TLSCertPath :: string
  cs_TLSKeyPath :: string
  cs_TLSCertDir :: string
  cs_SeedOnStart :: bool
  cs_RequestLog :: bool
  cs_RecordResponses :: string
  cs_LogLevel :: string

section \<open>The config file\<close>

record fileTLS =
  ft_Enabled :: "bool option"
  ft_CertPath :: "string option"
  ft_KeyPath :: "string option"
  ft_CertDir :: "string option"

record fileTLifetimes =
  fl_AuthCode :: "int option"
  fl_IDToken :: "int option"
  fl_AccessToken :: "int option"
  fl_RefreshToken :: "int option"
  fl_DeviceCode :: "int option"

record fileConfig =
  fc_Host :: "string option"
  fc_Port :: "int option"
  fc_TenantID :: "string option"
  fc_OriginMode :: "string option"
  fc_BaseDomain :: "string option"
  fc_LocalDomains :: "string option"
  fc_PublicOrigin :: "string option"
  fc_LoginOrigin :: "string option"
  fc_PortalOrigin :: "string option"
  fc_GraphOrigin :: "string option"
  fc_Issuer :: "string option"
  fc_DBPath :: "string option"
  fc_RequirePassword :: "bool option"
  fc_RequireConsent :: "bool option"
  fc_GraphPermissions :: "bool option"
  fc_SeedOnStart :: "bool option"
  fc_RequestLog :: "bool option"
  fc_DeviceInterval :: "int option"
  fc_GraphResourceID :: "string option"
  fc_LogLevel :: "string option"
  fc_TLS :: "fileTLS option"
  fc_TokenLifetimes :: "fileTLifetimes option"
  fc_ManagedIdentitySecret :: "string option"
  fc_ManagedIdentityClientID :: "string option"

definition dec_fileTLS :: "(string \<times> json) list \<Rightarrow> fileTLS option" where
  "dec_fileTLS ms =
     Option.bind (bool_ptr ms ''enabled'') (\<lambda>en.
     Option.bind (str_ptr ms ''certPath'') (\<lambda>cp.
     Option.bind (str_ptr ms ''keyPath'') (\<lambda>kp.
     Option.bind (str_ptr ms ''certDir'') (\<lambda>cd.
     Some \<lparr>ft_Enabled = en, ft_CertPath = cp, ft_KeyPath = kp, ft_CertDir = cd\<rparr>))))"

definition dec_fileTLifetimes :: "(string \<times> json) list \<Rightarrow> fileTLifetimes option" where
  "dec_fileTLifetimes ms =
     Option.bind (int_ptr ms ''authCode'') (\<lambda>ac.
     Option.bind (int_ptr ms ''idToken'') (\<lambda>idt.
     Option.bind (int_ptr ms ''accessToken'') (\<lambda>acc.
     Option.bind (int_ptr ms ''refreshToken'') (\<lambda>rt.
     Option.bind (int_ptr ms ''deviceCode'') (\<lambda>dc.
     Some \<lparr>fl_AuthCode = ac, fl_IDToken = idt, fl_AccessToken = acc, fl_RefreshToken = rt, fl_DeviceCode = dc\<rparr>)))))"

text \<open>A pointer to a nested struct: \<^verbatim>\<open>null\<close> clears it, a repeated object is merged into it.\<close>

fun nested_ptr :: "((string \<times> json) list \<Rightarrow> 'x option) \<Rightarrow> (string \<times> json) list option \<Rightarrow> json list \<Rightarrow> 'x option option" where
  "nested_ptr dec cur [] = (case cur of None \<Rightarrow> Some None | Some ms \<Rightarrow> map_option Some (dec ms))"
| "nested_ptr dec cur (v # vs) =
     (case v of
        JNull \<Rightarrow> if cur \<noteq> None \<and> dec (the cur) = None then None else nested_ptr dec None vs
      | JObj ms \<Rightarrow> nested_ptr dec (Some (or_else cur [] @ ms)) vs
      | _ \<Rightarrow> None)"

definition dec_fileConfig :: "(string \<times> json) list \<Rightarrow> fileConfig option" where
  "dec_fileConfig ms =
     Option.bind (str_ptr ms ''host'') (\<lambda>host. Option.bind (int_ptr ms ''port'') (\<lambda>port.
     Option.bind (str_ptr ms ''tenantId'') (\<lambda>tid. Option.bind (str_ptr ms ''originMode'') (\<lambda>mode.
     Option.bind (str_ptr ms ''baseDomain'') (\<lambda>base. Option.bind (str_ptr ms ''localDomains'') (\<lambda>dom.
     Option.bind (str_ptr ms ''publicOrigin'') (\<lambda>pub. Option.bind (str_ptr ms ''loginOrigin'') (\<lambda>login.
     Option.bind (str_ptr ms ''portalOrigin'') (\<lambda>portal. Option.bind (str_ptr ms ''graphOrigin'') (\<lambda>graph.
     Option.bind (str_ptr ms ''issuer'') (\<lambda>iss. Option.bind (str_ptr ms ''dbPath'') (\<lambda>db.
     Option.bind (bool_ptr ms ''requirePassword'') (\<lambda>rp. Option.bind (bool_ptr ms ''requireConsent'') (\<lambda>rc.
     Option.bind (bool_ptr ms ''graphPermissions'') (\<lambda>gp. Option.bind (bool_ptr ms ''seedOnStart'') (\<lambda>seed.
     Option.bind (bool_ptr ms ''requestLog'') (\<lambda>rl. Option.bind (int_ptr ms ''deviceCodeInterval'') (\<lambda>di.
     Option.bind (str_ptr ms ''graphResourceId'') (\<lambda>gr. Option.bind (str_ptr ms ''logLevel'') (\<lambda>ll.
     Option.bind (nested_ptr dec_fileTLS None (members ms ''tls'')) (\<lambda>tls.
     Option.bind (nested_ptr dec_fileTLifetimes None (members ms ''tokenLifetimes'')) (\<lambda>lt.
     Option.bind (str_ptr ms ''managedIdentitySecret'') (\<lambda>mis. Option.bind (str_ptr ms ''managedIdentityClientId'') (\<lambda>mic.
     Some \<lparr>fc_Host = host, fc_Port = port, fc_TenantID = tid, fc_OriginMode = mode, fc_BaseDomain = base, fc_LocalDomains = dom,
       fc_PublicOrigin = pub, fc_LoginOrigin = login, fc_PortalOrigin = portal, fc_GraphOrigin = graph, fc_Issuer = iss, fc_DBPath = db,
       fc_RequirePassword = rp, fc_RequireConsent = rc, fc_GraphPermissions = gp, fc_SeedOnStart = seed, fc_RequestLog = rl,
       fc_DeviceInterval = di, fc_GraphResourceID = gr, fc_LogLevel = ll, fc_TLS = tls, fc_TokenLifetimes = lt,
       fc_ManagedIdentitySecret = mis, fc_ManagedIdentityClientID = mic\<rparr>))))))))))))))))))))))))"

text \<open>What reading a file gives: nothing there, another failure, or a text, with its JSON value if it is JSON.\<close>

datatype file_content = NoFile | Unreadable | Content "json option"

datatype load_error = FileError | FileSyntax string | Invalid "(string \<times> string) list"

definition no_file :: fileConfig where
  "no_file = \<lparr>fc_Host = None, fc_Port = None, fc_TenantID = None, fc_OriginMode = None, fc_BaseDomain = None, fc_LocalDomains = None,
     fc_PublicOrigin = None, fc_LoginOrigin = None, fc_PortalOrigin = None, fc_GraphOrigin = None, fc_Issuer = None, fc_DBPath = None,
     fc_RequirePassword = None, fc_RequireConsent = None, fc_GraphPermissions = None, fc_SeedOnStart = None, fc_RequestLog = None,
     fc_DeviceInterval = None, fc_GraphResourceID = None, fc_LogLevel = None, fc_TLS = None, fc_TokenLifetimes = None,
     fc_ManagedIdentitySecret = None, fc_ManagedIdentityClientID = None\<rparr>"

definition readFile :: "(string \<Rightarrow> file_content) \<Rightarrow> string \<Rightarrow> load_error + fileConfig" where
  "readFile files path =
     (case files path of
        NoFile \<Rightarrow> Inr no_file
      | Unreadable \<Rightarrow> Inl FileError
      | Content v \<Rightarrow>
        (case Option.bind (Option.bind v as_object) dec_fileConfig of None \<Rightarrow> Inl (FileSyntax path) | Some fc \<Rightarrow> Inr fc))"


section \<open>Resolution\<close>

definition pick :: "string \<Rightarrow> string \<Rightarrow> string" where
  "pick v def = (if v \<noteq> [] then v else def)"

definition resolveStr :: "string \<Rightarrow> string option \<Rightarrow> string \<Rightarrow> string" where
  "resolveStr env file def = (if env \<noteq> [] then env else case file of Some f \<Rightarrow> if f \<noteq> [] then f else def | None \<Rightarrow> def)"

text \<open>The value and the failures reported; \<open>quote\<close> is the verb \<^verbatim>\<open>%q\<close>.\<close>

definition resolveInt :: "(string \<Rightarrow> string) \<Rightarrow> string \<Rightarrow> int option \<Rightarrow> int \<Rightarrow> string \<Rightarrow> int \<times> (string \<times> string) list" where
  "resolveInt quote env file def key =
     (if env \<noteq> [] then (case Atoi env of None \<Rightarrow> (def, [(key, ''not an integer: '' @ quote env)]) | Some n \<Rightarrow> (n, []))
      else (or_else file def, []))"

definition resolveBool :: "(string \<Rightarrow> string) \<Rightarrow> string \<Rightarrow> bool option \<Rightarrow> bool \<Rightarrow> string \<Rightarrow> bool \<times> (string \<times> string) list" where
  "resolveBool quote env file def key =
     (if env \<noteq> [] then
        (if ToLower env \<in> {''true'', ''1'', ''yes''} then (True, [])
         else if ToLower env \<in> {''false'', ''0'', ''no''} then (False, [])
         else (def, [(key, ''not a boolean: '' @ quote env)]))
      else (or_else file def, []))"

text \<open>\<^verbatim>\<open>filepath.Join\<close> of a non-empty directory and a name.\<close>

definition clean_step :: "bool \<Rightarrow> string list \<Rightarrow> string \<Rightarrow> string list" where
  "clean_step rooted out seg =
     (if seg = [] \<or> seg = ''.'' then out
      else if seg = ''..'' then
        (if out \<noteq> [] \<and> last out \<noteq> ''..'' then butlast out else if rooted then out else out @ [seg])
      else out @ [seg])"

definition path_clean :: "string \<Rightarrow> string" where
  "path_clean p =
     (let rooted = HasPrefix p ''/''; body = Join (foldl (clean_step rooted) [] (SplitChar p (CHR ''/''))) ''/'' in
      if rooted then ''/'' @ body else if body = [] then ''.'' else body)"

definition path_join :: "string \<Rightarrow> string \<Rightarrow> string" where
  "path_join dir name = path_clean (dir @ ''/'' @ name)"

definition DefaultTenantID :: string where
  "DefaultTenantID = ''6f89cf12-978b-4d23-ac18-9ef0c127cf87''"

definition DefaultManagedIdentityClientID :: string where
  "DefaultManagedIdentityClientID = ''00d88624-f0d7-46f6-a641-6232c2608928''"

definition envDataDir :: "string option \<Rightarrow> (string \<Rightarrow> string) \<Rightarrow> string" where
  "envDataDir lookup getenv =
     (case lookup of Some v \<Rightarrow> v | None \<Rightarrow> if getenv ''ENTRA_DATA_DIR'' \<noteq> [] then getenv ''ENTRA_DATA_DIR'' else ''./data'')"

definition defaultDBPath :: "string \<Rightarrow> string" where
  "defaultDBPath dir = (if dir = [] then '':memory:'' else path_join dir ''entra-emulator.db'')"

definition defaultTLSCertDir :: "string \<Rightarrow> string" where
  "defaultTLSCertDir dir = (if dir = [] then [] else path_join dir ''tls'')"

text \<open>The pattern of a lower-case GUID.\<close>

definition lower_hex :: "char \<Rightarrow> bool" where
  "lower_hex c \<longleftrightarrow> CHR ''0'' \<le> c \<and> c \<le> CHR ''9'' \<or> CHR ''a'' \<le> c \<and> c \<le> CHR ''f''"

definition guidRe :: "string \<Rightarrow> bool" where
  "guidRe s \<longleftrightarrow> map length (SplitChar s (CHR ''-'')) = [8, 4, 4, 4, 12] \<and> list_all (list_all lower_hex) (SplitChar s (CHR ''-''))"

definition local_domains :: "string \<Rightarrow> string list" where
  "local_domains raw = (if raw = [] then [] else map ToLower (filter (\<lambda>d. d \<noteq> []) (map TrimSpace (SplitChar raw (CHR '','')))))"

section \<open>Load\<close>

text \<open>What \<^verbatim>\<open>Load\<close> takes from the process: the environment, the lookup of \<^verbatim>\<open>ENTRA_DATA_DIR\<close>, files, and two functions of Go.\<close>

record LoadEnv =
  le_getenv :: "string \<Rightarrow> string"
  le_DataDir :: "string option"
  le_files :: "string \<Rightarrow> file_content"
  le_quote :: "string \<Rightarrow> string"
  le_ip6 :: "string \<Rightarrow> bool"

definition with_failures :: "'x \<times> 'f list \<Rightarrow> ('x \<Rightarrow> 'y \<times> 'f list) \<Rightarrow> 'y \<times> 'f list" where
  "with_failures a k = (case k (fst a) of (y, es) \<Rightarrow> (y, snd a @ es))"

text \<open>The settings before validation, with the failures of the numbers and booleans.\<close>

definition resolve_config :: "LoadEnv \<Rightarrow> fileConfig \<Rightarrow> ServerConfig \<times> (string \<times> string) list" where
  "resolve_config le fc =
     (let ge = le_getenv le; q = le_quote le; dataDir = envDataDir (le_DataDir le) ge; lt = fc_TokenLifetimes fc; tl = fc_TLS fc in
      with_failures (resolveInt q (ge ''PORT'') (fc_Port fc) 8443 ''PORT'') (\<lambda>port.
      with_failures (resolveInt q (ge ''DEVICE_CODE_INTERVAL_SECONDS'') (fc_DeviceInterval fc) 5 ''DEVICE_CODE_INTERVAL_SECONDS'') (\<lambda>interval.
      with_failures (resolveBool q (ge ''TLS_ENABLED'') (Option.bind tl ft_Enabled) True ''TLS_ENABLED'') (\<lambda>tls.
      with_failures (resolveBool q (ge ''REQUIRE_PASSWORD'') (fc_RequirePassword fc) False ''REQUIRE_PASSWORD'') (\<lambda>pw.
      with_failures (resolveBool q (ge ''REQUIRE_CONSENT'') (fc_RequireConsent fc) False ''REQUIRE_CONSENT'') (\<lambda>consent.
      with_failures (resolveBool q (ge ''GRAPH_PERMISSIONS'') (fc_GraphPermissions fc) False ''GRAPH_PERMISSIONS'') (\<lambda>perms.
      with_failures (resolveBool q (ge ''SEED_ON_START'') (fc_SeedOnStart fc) True ''SEED_ON_START'') (\<lambda>seed.
      with_failures (resolveBool q (ge ''REQUEST_LOG'') (fc_RequestLog fc) False ''REQUEST_LOG'') (\<lambda>log.
      with_failures (resolveInt q (ge ''TOKEN_LIFETIME_AUTH_CODE_SECONDS'') (Option.bind lt fl_AuthCode) 300 ''TOKEN_LIFETIME_AUTH_CODE_SECONDS'') (\<lambda>ac.
      with_failures (resolveInt q (ge ''TOKEN_LIFETIME_ID_SECONDS'') (Option.bind lt fl_IDToken) 3600 ''TOKEN_LIFETIME_ID_SECONDS'') (\<lambda>idt.
      with_failures (resolveInt q (ge ''TOKEN_LIFETIME_ACCESS_SECONDS'') (Option.bind lt fl_AccessToken) 3600 ''TOKEN_LIFETIME_ACCESS_SECONDS'') (\<lambda>acc.
      with_failures (resolveInt q (ge ''TOKEN_LIFETIME_REFRESH_SECONDS'') (Option.bind lt fl_RefreshToken) 86400 ''TOKEN_LIFETIME_REFRESH_SECONDS'') (\<lambda>rt.
      with_failures (resolveInt q (ge ''TOKEN_LIFETIME_DEVICE_CODE_SECONDS'') (Option.bind lt fl_DeviceCode) 900 ''TOKEN_LIFETIME_DEVICE_CODE_SECONDS'') (\<lambda>dc.
      (\<lparr>cf_TenantID = ToLower (resolveStr (ge ''TENANT_ID'') (fc_TenantID fc) DefaultTenantID), cf_Issuer = [], cf_Login = [], cf_Graph = [],
         cf_GraphResourceID = resolveStr (ge ''GRAPH_RESOURCE_ID'') (fc_GraphResourceID fc) ''https://graph.microsoft.com'',
         cf_RequirePassword = pw, cf_RequireConsent = consent, cf_AuthCode = ac, cf_IDToken = idt, cf_AccessToken = acc, cf_RefreshToken = rt,
         cf_DeviceCode = dc, cf_DeviceInterval = interval,
         cf_ManagedIdentitySecret = resolveStr (ge ''MANAGED_IDENTITY_SECRET'') (fc_ManagedIdentitySecret fc) ''managed-identity-secret'',
         cf_ManagedIdentityClientID = ToLower (resolveStr (ge ''MANAGED_IDENTITY_CLIENT_ID'') (fc_ManagedIdentityClientID fc) DefaultManagedIdentityClientID),
         cf_GraphPermissions = perms,
         cs_Host = resolveStr (ge ''HOST'') (fc_Host fc) ''localhost'', cs_Port = port,
         cs_OriginMode = resolveStr (ge ''ORIGIN_MODE'') (fc_OriginMode fc) ''subdomains'',
         cs_BaseDomain = resolveStr (ge ''BASE_DOMAIN'') (fc_BaseDomain fc) ''entra.localhost'',
         cs_LocalDomains = local_domains (resolveStr (ge ''LOCAL_DOMAINS'') (fc_LocalDomains fc) []), cs_Portal = [],
         cs_DBPath = resolveStr (ge ''DB_PATH'') (fc_DBPath fc) (defaultDBPath dataDir), cs_TLSEnabled = tls,
         cs_TLSCertPath = pick (ge ''TLS_CERT'') (or_else (Option.bind tl ft_CertPath) []),
         cs_TLSKeyPath = pick (ge ''TLS_KEY'') (or_else (Option.bind tl ft_KeyPath) []),
         cs_TLSCertDir = pick (ge ''TLS_CERT_DIR'') (or_else (Option.bind tl ft_CertDir) (defaultTLSCertDir dataDir)),
         cs_SeedOnStart = seed, cs_RequestLog = log, cs_RecordResponses = ge ''RECORD_RESPONSES'',
         cs_LogLevel = resolveStr (ge ''LOG_LEVEL'') (fc_LogLevel fc) ''info''\<rparr>, [])))))))))))))))"

text \<open>The lifetimes and the addresses are ranges over Go maps, whose order is not fixed; here it is the order of the literals.\<close>

definition validate_settings :: "ServerConfig \<Rightarrow> (string \<times> string) list" where
  "validate_settings c =
     (if guidRe (cf_TenantID c) then [] else [(''TENANT_ID'', ''must be a GUID'')])
     @ (if cs_Port c < 1 \<or> cs_Port c > 65535 then [(''PORT'', ''must be 1-65535'')] else [])
     @ (if cs_OriginMode c \<noteq> ''subdomains'' \<and> cs_OriginMode c \<noteq> ''compat''
        then [(''ORIGIN_MODE'', ''must be '' @ dquote # ''subdomains'' @ dquote # '' or '' @ dquote # ''compat'' @ [dquote])] else [])
     @ (if (cs_TLSCertPath c = []) \<noteq> (cs_TLSKeyPath c = []) then [(''TLS_CERT/TLS_KEY'', ''set both or neither'')] else [])
     @ map (\<lambda>(k, v). (k, ''must be a positive integer'')) (filter (\<lambda>(k, v). v < 1)
         [(''TOKEN_LIFETIME_AUTH_CODE_SECONDS'', cf_AuthCode c), (''TOKEN_LIFETIME_ID_SECONDS'', cf_IDToken c),
          (''TOKEN_LIFETIME_ACCESS_SECONDS'', cf_AccessToken c), (''TOKEN_LIFETIME_REFRESH_SECONDS'', cf_RefreshToken c),
          (''TOKEN_LIFETIME_DEVICE_CODE_SECONDS'', cf_DeviceCode c), (''DEVICE_CODE_INTERVAL_SECONDS'', cf_DeviceInterval c)])"

definition origin_scheme :: "ServerConfig \<Rightarrow> string" where
  "origin_scheme c = (if cs_TLSEnabled c then ''https'' else ''http'')"

definition derive_origin :: "string \<Rightarrow> ServerConfig \<Rightarrow> string \<Rightarrow> string" where
  "derive_origin collapse c sub =
     (if collapse \<noteq> [] then collapse else origin_scheme c @ ''://'' @ sub @ ''.'' @ cs_BaseDomain c @ '':'' @ Itoa (cs_Port c))"

definition collapse_origin :: "string \<Rightarrow> ServerConfig \<Rightarrow> string" where
  "collapse_origin publicOrigin c =
     (if publicOrigin = [] \<and> cs_OriginMode c = ''compat'' then origin_scheme c @ ''://localhost:'' @ Itoa (cs_Port c) else publicOrigin)"

definition derive_origins :: "LoadEnv \<Rightarrow> fileConfig \<Rightarrow> ServerConfig \<Rightarrow> ServerConfig" where
  "derive_origins le fc c =
     (let ge = le_getenv le; collapse = collapse_origin (resolveStr (ge ''PUBLIC_ORIGIN'') (fc_PublicOrigin fc) []) c;
          login = resolveStr (ge ''LOGIN_ORIGIN'') (fc_LoginOrigin fc) (derive_origin collapse c ''login'') in
      c\<lparr>cf_Login := login, cs_Portal := resolveStr (ge ''PORTAL_ORIGIN'') (fc_PortalOrigin fc) (derive_origin collapse c ''portal''),
        cf_Graph := resolveStr (ge ''GRAPH_ORIGIN'') (fc_GraphOrigin fc) (derive_origin collapse c ''graph''),
        cf_Issuer := resolveStr (ge ''ISSUER'') (fc_Issuer fc) (login @ ''/'' @ cf_TenantID c @ ''/v2.0'')\<rparr>)"

definition absolute_url :: "(string \<Rightarrow> bool) \<Rightarrow> string \<Rightarrow> bool" where
  "absolute_url ip6 u = (case url_Parse ip6 u of None \<Rightarrow> False | Some p \<Rightarrow> ur_Scheme p \<noteq> [] \<and> ur_Host p \<noteq> [])"

definition validate_origins :: "LoadEnv \<Rightarrow> ServerConfig \<Rightarrow> (string \<times> string) list" where
  "validate_origins le c =
     map (\<lambda>(k, u). (k, ''not a valid absolute URL: '' @ le_quote le u)) (filter (\<lambda>(k, u). \<not> absolute_url (le_ip6 le) u)
       [(''LOGIN_ORIGIN'', cf_Login c), (''PORTAL_ORIGIN'', cs_Portal c), (''GRAPH_ORIGIN'', cf_Graph c), (''ISSUER'', cf_Issuer c)])"

definition Load :: "LoadEnv \<Rightarrow> load_error + ServerConfig" where
  "Load le =
     (case readFile (le_files le) (pick (le_getenv le ''CONFIG_FILE'') ''./entra-emulator.config.json'') of
        Inl e \<Rightarrow> Inl e
      | Inr fc \<Rightarrow>
        (case resolve_config le fc of (c0, errs1) \<Rightarrow>
          let c = derive_origins le fc c0; errs = errs1 @ validate_settings c0 @ validate_origins le c in
          if errs \<noteq> [] then Inl (Invalid errs) else Inr c))"


section \<open>Properties\<close>

text \<open>What a number or a boolean of the configuration is: the environment's text if there is one, which must parse, else
  the file's value, else the default.\<close>

definition int_setting :: "LoadEnv \<Rightarrow> string \<Rightarrow> int option \<Rightarrow> int \<Rightarrow> int option" where
  "int_setting le key file def = (if le_getenv le key \<noteq> [] then Atoi (le_getenv le key) else Some (or_else file def))"

definition bool_text :: "string \<Rightarrow> bool option" where
  "bool_text s = (if ToLower s \<in> {''true'', ''1'', ''yes''} then Some True else if ToLower s \<in> {''false'', ''0'', ''no''} then Some False else None)"

definition bool_setting :: "LoadEnv \<Rightarrow> string \<Rightarrow> bool option \<Rightarrow> bool \<Rightarrow> bool option" where
  "bool_setting le key file def = (if le_getenv le key \<noteq> [] then bool_text (le_getenv le key) else Some (or_else file def))"

definition int_settings :: "(string \<times> (fileConfig \<Rightarrow> int option) \<times> int \<times> (ServerConfig \<Rightarrow> int)) list" where
  "int_settings =
     [(''PORT'', fc_Port, 8443, cs_Port), (''DEVICE_CODE_INTERVAL_SECONDS'', fc_DeviceInterval, 5, cf_DeviceInterval),
      (''TOKEN_LIFETIME_AUTH_CODE_SECONDS'', \<lambda>f. Option.bind (fc_TokenLifetimes f) fl_AuthCode, 300, cf_AuthCode),
      (''TOKEN_LIFETIME_ID_SECONDS'', \<lambda>f. Option.bind (fc_TokenLifetimes f) fl_IDToken, 3600, cf_IDToken),
      (''TOKEN_LIFETIME_ACCESS_SECONDS'', \<lambda>f. Option.bind (fc_TokenLifetimes f) fl_AccessToken, 3600, cf_AccessToken),
      (''TOKEN_LIFETIME_REFRESH_SECONDS'', \<lambda>f. Option.bind (fc_TokenLifetimes f) fl_RefreshToken, 86400, cf_RefreshToken),
      (''TOKEN_LIFETIME_DEVICE_CODE_SECONDS'', \<lambda>f. Option.bind (fc_TokenLifetimes f) fl_DeviceCode, 900, cf_DeviceCode)]"

definition bool_settings :: "(string \<times> (fileConfig \<Rightarrow> bool option) \<times> bool \<times> (ServerConfig \<Rightarrow> bool)) list" where
  "bool_settings =
     [(''TLS_ENABLED'', \<lambda>f. Option.bind (fc_TLS f) ft_Enabled, True, cs_TLSEnabled), (''REQUIRE_PASSWORD'', fc_RequirePassword, False, cf_RequirePassword),
      (''REQUIRE_CONSENT'', fc_RequireConsent, False, cf_RequireConsent), (''GRAPH_PERMISSIONS'', fc_GraphPermissions, False, cf_GraphPermissions),
      (''SEED_ON_START'', fc_SeedOnStart, True, cs_SeedOnStart), (''REQUEST_LOG'', fc_RequestLog, False, cs_RequestLog)]"

definition config_file :: "LoadEnv \<Rightarrow> load_error + fileConfig" where
  "config_file le = readFile (le_files le) (pick (le_getenv le ''CONFIG_FILE'') ''./entra-emulator.config.json'')"

definition named :: "(string \<times> 'f) list \<Rightarrow> string \<Rightarrow> bool" where
  "named errs key \<longleftrightarrow> key \<in> fst ` set errs"

lemma named_simps [simp]:
  "\<not> named [] key" "named (a @ b) key \<longleftrightarrow> named a key \<or> named b key" "named (x # xs) key \<longleftrightarrow> key = fst x \<or> named xs key"
  "named (if P then xs else ys) key \<longleftrightarrow> (if P then named xs key else named ys key)"
  by (auto simp: named_def)

lemma named_filter:
  "named (filter P (x # xs)) key \<longleftrightarrow> P x \<and> key = fst x \<or> named (filter P xs) key"
  by (auto simp: named_def)

lemma named_map: "named (map (\<lambda>(k, v). (k, m v)) xs) key \<longleftrightarrow> named xs key"
  by (auto simp: named_def image_iff split_beta)

lemma with_failures_simps [simp]:
  "fst (with_failures a k) = fst (k (fst a))" "snd (with_failures a k) = snd a @ snd (k (fst a))"
  by (simp_all add: with_failures_def case_prod_beta)

lemma resolveInt_simps [simp]:
  "fst (resolveInt q (le_getenv le key) f d key) = or_else (int_setting le key f d) d"
  "named (snd (resolveInt q (le_getenv le key) f d key)) k \<longleftrightarrow> k = key \<and> int_setting le key f d = None"
  by (auto simp: resolveInt_def int_setting_def or_else_def named_def split: option.splits)

lemma resolveBool_simps [simp]:
  "fst (resolveBool q (le_getenv le key) f d key) = or_else (bool_setting le key f d) d"
  "named (snd (resolveBool q (le_getenv le key) f d key)) k \<longleftrightarrow> k = key \<and> bool_setting le key f d = None"
  by (auto simp: resolveBool_def bool_setting_def bool_text_def or_else_def named_def split: option.splits)

lemma resolved_values:
  "\<forall>(key, f, d, get) \<in> set int_settings. get (fst (resolve_config le fc)) = or_else (int_setting le key (f fc) d) d"
  "\<forall>(key, f, b, get) \<in> set bool_settings. get (fst (resolve_config le fc)) = or_else (bool_setting le key (f fc) b) b"
  by (simp_all add: int_settings_def bool_settings_def resolve_config_def Let_def)

lemma resolved_failures:
  "\<forall>(key, f, d, get) \<in> set int_settings. named (snd (resolve_config le fc)) key \<longleftrightarrow> int_setting le key (f fc) d = None"
  "\<forall>(key, f, b, get) \<in> set bool_settings. named (snd (resolve_config le fc)) key \<longleftrightarrow> bool_setting le key (f fc) b = None"
  by (simp_all add: int_settings_def bool_settings_def resolve_config_def Let_def)

lemma derived_kept:
  "\<forall>(key, f, d, get) \<in> set int_settings. get (derive_origins le fc c) = get c"
  "\<forall>(key, f, b, get) \<in> set bool_settings. get (derive_origins le fc c) = get c"
  "cf_TenantID (derive_origins le fc c) = cf_TenantID c" "cs_OriginMode (derive_origins le fc c) = cs_OriginMode c"
  "cs_TLSCertPath (derive_origins le fc c) = cs_TLSCertPath c" "cs_TLSKeyPath (derive_origins le fc c) = cs_TLSKeyPath c"
  "cs_BaseDomain (derive_origins le fc c) = cs_BaseDomain c" "cs_Port (derive_origins le fc c) = cs_Port c"
  "cs_TLSEnabled (derive_origins le fc c) = cs_TLSEnabled c"
  by (simp_all add: int_settings_def bool_settings_def derive_origins_def Let_def)

lemma validated_numbers:
  "\<forall>(key, f, d, get) \<in> set int_settings. named (validate_settings c) key \<longleftrightarrow> get c < 1 \<or> key = ''PORT'' \<and> get c > 65535"
  "\<forall>(key, f, b, get) \<in> set bool_settings. \<not> named (validate_settings c) key"
  by (simp_all add: int_settings_def bool_settings_def validate_settings_def named_map named_filter del: filter.simps(2))

lemma validated_origins:
  "\<forall>(key, f, d, get) \<in> set int_settings. \<not> named (validate_origins le c) key"
  "\<forall>(key, f, b, get) \<in> set bool_settings. \<not> named (validate_origins le c) key"
  by (simp_all add: int_settings_def bool_settings_def validate_origins_def named_map named_filter del: filter.simps(2))

text \<open>
  C30. Loading the configuration is exact: it succeeds only if every number and boolean is what the environment says, or
  else the file, or else the default, all numbers are positive and the port fits, the tenant is a lower-case GUID, the
  origin mode is known, certificate and key come together, and the origins and the issuer are absolute URLs; and when
  it fails after reading the file it names exactly the numbers that do not parse or are out of range and exactly the
  booleans that do not parse, all of them at once.
\<close>

theorem load_exact:
  assumes "config_file le = Inr fc"
  shows "case Load le of
      Inr cfg \<Rightarrow>
        (\<forall>(key, f, d, get) \<in> set int_settings. int_setting le key (f fc) d = Some (get cfg) \<and> 1 \<le> get cfg) \<and> cs_Port cfg \<le> 65535
        \<and> (\<forall>(key, f, b, get) \<in> set bool_settings. bool_setting le key (f fc) b = Some (get cfg))
        \<and> guidRe (cf_TenantID cfg) \<and> cs_OriginMode cfg \<in> {''subdomains'', ''compat''} \<and> (cs_TLSCertPath cfg = [] \<longleftrightarrow> cs_TLSKeyPath cfg = [])
        \<and> list_all (absolute_url (le_ip6 le)) [cf_Login cfg, cs_Portal cfg, cf_Graph cfg, cf_Issuer cfg]
    | Inl e \<Rightarrow>
        (\<exists>errs. e = Invalid errs \<and> errs \<noteq> []
           \<and> (\<forall>(key, f, d, get) \<in> set int_settings. named errs key \<longleftrightarrow>
                (case int_setting le key (f fc) d of None \<Rightarrow> True | Some n \<Rightarrow> n < 1 \<or> key = ''PORT'' \<and> n > 65535))
           \<and> (\<forall>(key, f, b, get) \<in> set bool_settings. named errs key \<longleftrightarrow> bool_setting le key (f fc) b = None))"
proof -
  obtain c0 errs1 where rc: "resolve_config le fc = (c0, errs1)" by fastforce
  define c where "c = derive_origins le fc c0"
  define errs where "errs = errs1 @ validate_settings c0 @ validate_origins le c"
  have load: "Load le = (if errs \<noteq> [] then Inl (Invalid errs) else Inr c)"
    using assms rc by (simp add: Load_def config_file_def c_def errs_def Let_def)
  have v: "fst (resolve_config le fc) = c0" "snd (resolve_config le fc) = errs1" by (simp_all add: rc)
  have ints: "named errs key \<longleftrightarrow> (case int_setting le key (f fc) d of None \<Rightarrow> True | Some n \<Rightarrow> n < 1 \<or> key = ''PORT'' \<and> n > 65535)"
    if i: "(key, f, d, get) \<in> set int_settings" for key f d get
    using bspec[OF resolved_values(1)[of le fc] i] bspec[OF resolved_failures(1)[of le fc] i] bspec[OF validated_numbers(1)[of c0] i]
      bspec[OF validated_origins(1)[of le c] i]
    by (auto simp: errs_def v or_else_def split: option.splits)
  have bools: "named errs key \<longleftrightarrow> bool_setting le key (f fc) b = None" if i: "(key, f, b, get) \<in> set bool_settings" for key f b get
    using bspec[OF resolved_failures(2)[of le fc] i] bspec[OF validated_numbers(2)[of c0] i] bspec[OF validated_origins(2)[of le c] i]
    by (simp add: errs_def v)
  show ?thesis
  proof (cases "errs = []")
    case False
    with ints bools show ?thesis by (auto simp: load)
  next
    case True
    then have none: "validate_settings c0 = []" "validate_origins le c = []" by (simp_all add: errs_def)
    have kept: "cf_TenantID c = cf_TenantID c0" "cs_OriginMode c = cs_OriginMode c0" "cs_TLSCertPath c = cs_TLSCertPath c0" "cs_TLSKeyPath c = cs_TLSKeyPath c0" "cs_Port c = cs_Port c0"
      by (simp_all add: c_def derived_kept)
    have i: "int_setting le key (f fc) d = Some (get c) \<and> 1 \<le> get c" if i: "(key, f, d, get) \<in> set int_settings" for key f d get
      using bspec[OF resolved_values(1)[of le fc] i] bspec[OF derived_kept(1)[of le fc c0] i] ints[OF i] True
      by (auto simp: v c_def or_else_def split: option.splits)
    have b: "bool_setting le key (f fc) b = Some (get c)" if i: "(key, f, b, get) \<in> set bool_settings" for key f b get
      using bspec[OF resolved_values(2)[of le fc] i] bspec[OF derived_kept(2)[of le fc c0] i] bools[OF i] True
      by (auto simp: v c_def or_else_def split: option.splits)
    have r: "cs_Port c0 \<le> 65535" "guidRe (cf_TenantID c0)" "cs_OriginMode c0 \<in> {''subdomains'', ''compat''}" "cs_TLSCertPath c0 = [] \<longleftrightarrow> cs_TLSKeyPath c0 = []"
      using none(1) by (auto simp: validate_settings_def split: if_splits)
    have o: "list_all (absolute_url (le_ip6 le)) [cf_Login c, cs_Portal c, cf_Graph c, cf_Issuer c]"
      using none(2) by (auto simp: validate_origins_def filter_empty_conv simp del: filter.simps)
    from load True have l: "Load le = Inr c" by simp
    show ?thesis unfolding l sum.case kept using i b r o by (intro conjI ballI; (assumption | auto))
  qed
qed

definition bare_env :: LoadEnv where
  "bare_env = \<lparr>le_getenv = (\<lambda>_. []), le_DataDir = None, le_files = (\<lambda>_. NoFile), le_quote = (\<lambda>s. s), le_ip6 = (\<lambda>_. False)\<rparr>"

definition port_env :: LoadEnv where
  "port_env = bare_env\<lparr>le_getenv := (\<lambda>_. [])(''PORT'' := ''65536'', ''SEED_ON_START'' := ''maybe'')\<rparr>"

lemma config_file_sample: "config_file bare_env = Inr no_file" "config_file port_env = Inr no_file"
  by (simp_all add: config_file_def bare_env_def port_env_def readFile_def)

text \<open>The defaults as \<^verbatim>\<open>docs/04-configuration.md\<close> lists them.\<close>

definition documented_defaults :: ServerConfig where
  "documented_defaults = \<lparr>cf_TenantID = ''6f89cf12-978b-4d23-ac18-9ef0c127cf87'',
     cf_Issuer = ''https://login.entra.localhost:8443/6f89cf12-978b-4d23-ac18-9ef0c127cf87/v2.0'',
     cf_Login = ''https://login.entra.localhost:8443'', cf_Graph = ''https://graph.entra.localhost:8443'',
     cf_GraphResourceID = ''https://graph.microsoft.com'', cf_RequirePassword = False, cf_RequireConsent = False, cf_AuthCode = 300,
     cf_IDToken = 3600, cf_AccessToken = 3600, cf_RefreshToken = 86400, cf_DeviceCode = 900, cf_DeviceInterval = 5,
     cf_ManagedIdentitySecret = ''managed-identity-secret'', cf_ManagedIdentityClientID = ''00d88624-f0d7-46f6-a641-6232c2608928'',
     cf_GraphPermissions = False, cs_Host = ''localhost'', cs_Port = 8443, cs_OriginMode = ''subdomains'', cs_BaseDomain = ''entra.localhost'',
     cs_LocalDomains = [], cs_Portal = ''https://portal.entra.localhost:8443'', cs_DBPath = ''data/entra-emulator.db'', cs_TLSEnabled = True,
     cs_TLSCertPath = [], cs_TLSKeyPath = [], cs_TLSCertDir = ''data/tls'', cs_SeedOnStart = True, cs_RequestLog = False,
     cs_RecordResponses = [], cs_LogLevel = ''info''\<rparr>"

lemma default_texts:
  "ToLower DefaultTenantID = ''6f89cf12-978b-4d23-ac18-9ef0c127cf87''" "ToLower DefaultManagedIdentityClientID = ''00d88624-f0d7-46f6-a641-6232c2608928''"
  "path_join ''./data'' ''entra-emulator.db'' = ''data/entra-emulator.db''" "path_join ''./data'' ''tls'' = ''data/tls''" 
  "guidRe ''6f89cf12-978b-4d23-ac18-9ef0c127cf87''"
  by code_simp+

lemma itoa_8443: "Itoa 8443 = ''8443''"
proof -
  have "char_of (56::nat) = CHR ''8''" "char_of (52::nat) = CHR ''4''" "char_of (51::nat) = CHR ''3''" by code_simp+
  then show ?thesis by (simp add: Itoa_def nat_digits_small nat_digits_big)
qed

lemma default_urls:
  "absolute_url (\<lambda>_. False) ''https://login.entra.localhost:8443''" "absolute_url (\<lambda>_. False) ''https://portal.entra.localhost:8443''"
  "absolute_url (\<lambda>_. False) ''https://graph.entra.localhost:8443''"
  "absolute_url (\<lambda>_. False) ''https://login.entra.localhost:8443/6f89cf12-978b-4d23-ac18-9ef0c127cf87/v2.0''"
  by code_simp+

lemma default_resolution:
  "resolve_config bare_env no_file = (documented_defaults\<lparr>cf_Issuer := [], cf_Login := [], cf_Graph := [], cs_Portal := []\<rparr>, [])"
  by (simp add: resolve_config_def Let_def bare_env_def no_file_def with_failures_def resolveInt_def resolveBool_def resolveStr_def or_else_def pick_def
      envDataDir_def defaultDBPath_def defaultTLSCertDir_def default_texts local_domains_def documented_defaults_def del: with_failures_simps)

lemma default_load: "Load bare_env = Inr documented_defaults"
proof -
  have "readFile (le_files bare_env) p = Inr no_file" for p by (simp add: readFile_def bare_env_def)
  moreover have "derive_origins bare_env no_file (documented_defaults\<lparr>cf_Issuer := [], cf_Login := [], cf_Graph := [], cs_Portal := []\<rparr>) = documented_defaults"
    by (simp add: derive_origins_def bare_env_def no_file_def resolveStr_def collapse_origin_def derive_origin_def origin_scheme_def documented_defaults_def
        default_texts itoa_8443 Let_def)
  moreover have "validate_settings (documented_defaults\<lparr>cf_Issuer := [], cf_Login := [], cf_Graph := [], cs_Portal := []\<rparr>) = []"
    by (simp add: validate_settings_def documented_defaults_def default_texts)
  moreover have "validate_origins bare_env documented_defaults = []"
    by (simp add: validate_origins_def documented_defaults_def bare_env_def default_urls)
  ultimately show ?thesis by (simp add: Load_def default_resolution Let_def)
qed

theorem load_exact_witness:
  "(\<exists>cfg. Load bare_env = Inr cfg \<and> cs_Port cfg = 8443 \<and> cf_Login cfg = ''https://login.entra.localhost:8443'' \<and> cs_DBPath cfg = ''data/entra-emulator.db'')
   \<and> (\<exists>errs. Load port_env = Inl (Invalid errs) \<and> named errs ''PORT'' \<and> named errs ''SEED_ON_START'' \<and> \<not> named errs ''TLS_ENABLED'')"
proof -
  have p: "int_setting bare_env ''PORT'' (fc_Port no_file) 8443 = Some 8443" "int_setting port_env ''PORT'' (fc_Port no_file) 8443 = Some 65536"
    "bool_setting port_env ''SEED_ON_START'' (fc_SeedOnStart no_file) True = None"
    "bool_setting port_env ''TLS_ENABLED'' (Option.bind (fc_TLS no_file) ft_Enabled) True \<noteq> None" by code_simp+
  have i: "(''PORT'', fc_Port, 8443, cs_Port) \<in> set int_settings" by (simp add: int_settings_def)
  have b: "(''SEED_ON_START'', fc_SeedOnStart, True, cs_SeedOnStart) \<in> set bool_settings"
    "(''TLS_ENABLED'', \<lambda>f. Option.bind (fc_TLS f) ft_Enabled, True, cs_TLSEnabled) \<in> set bool_settings" by (simp_all add: bool_settings_def)
  have in_range: "int_setting le ''PORT'' (fc_Port fc) 8443 = Some (cs_Port cfg) \<and> cs_Port cfg \<le> 65535"
    if "config_file le = Inr fc" "Load le = Inr cfg" for le fc cfg
    using load_exact[OF that(1)] bspec[OF _ i] unfolding that(2) sum.case by fast
  from in_range[OF config_file_sample(1) default_load]
  have bare: "int_setting bare_env ''PORT'' (fc_Port no_file) 8443 = Some (cs_Port documented_defaults)" by blast
  show ?thesis
  proof (cases "Load port_env")
    case (Inr cfg)
    from in_range[OF config_file_sample(2) this] p(2) show ?thesis by auto
  next
    case (Inl e)
    with load_exact[OF config_file_sample(2)] obtain errs where e: "e = Invalid errs"
      "\<forall>(key, f, d, get) \<in> set int_settings. named errs key \<longleftrightarrow>
         (case int_setting port_env key (f no_file) d of None \<Rightarrow> True | Some n \<Rightarrow> n < 1 \<or> key = ''PORT'' \<and> n > 65535)"
      "\<forall>(key, f, b, get) \<in> set bool_settings. named errs key \<longleftrightarrow> bool_setting port_env key (f no_file) b = None" by auto
    from bspec[OF e(2) i] bspec[OF e(3) b(1)] bspec[OF e(3) b(2)] p have "named errs ''PORT''" "named errs ''SEED_ON_START''" "\<not> named errs ''TLS_ENABLED''"
      by simp_all
    with Inl e(1) bare p(1) default_load show ?thesis by (simp add: documented_defaults_def)
  qed
qed

end
