(* ===== verification/Surfaces.thy ===== *)
theory Surfaces
  imports ConfigLoad
begin

text \<open>
  \<^verbatim>\<open>internal/server/server.go\<close>: the choice of the surface by the \<^verbatim>\<open>Host\<close> header and the fallback of the portal.
  Each surface is a route table that its component registers; listening, TLS and logging are not modelled.
\<close>

datatype surface = LoginSurface | GraphSurface | PortalSurface | CompatSurface

definition originHost :: "(string \<Rightarrow> bool) \<Rightarrow> string \<Rightarrow> string" where
  "originHost ip6 origin = (case url_Parse ip6 origin of None \<Rightarrow> [] | Some u \<Rightarrow> Hostname u)"

text \<open>The host without its port.\<close>

definition request_host :: "string \<Rightarrow> string" where
  "request_host host =
     (let i = LastIndex host (CHR '':'') in if i > 0 \<and> CHR '']'' \<notin> set (slice_from host i) then slice_to host i else host)"

definition hostRouter :: "(string \<Rightarrow> bool) \<Rightarrow> ServerConfig \<Rightarrow> string \<Rightarrow> surface" where
  "hostRouter ip6 cfg r_host =
     (let host = request_host r_host in
      if host = originHost ip6 (cf_Login cfg) \<and> cf_Login cfg \<noteq> cs_Portal cfg then LoginSurface
      else if host = originHost ip6 (cf_Graph cfg) \<and> cf_Graph cfg \<noteq> cs_Portal cfg then GraphSurface
      else if host = originHost ip6 (cs_Portal cfg) \<and> cf_Login cfg \<noteq> cs_Portal cfg then PortalSurface
      else CompatSurface)"

definition surfaceDescriptor :: "string \<Rightarrow> (string \<times> json) list" where
  "surfaceDescriptor role = [(''service'', JStr ''entra-emulator''), (''surface'', JStr role)]"

definition apiPrefixes :: "string list" where
  "apiPrefixes = [''/admin/'', ''/graph/'', ''/scim/'', ''/health'']"

fun guid_chars :: "nat \<Rightarrow> string \<Rightarrow> bool" where
  "guid_chars i [] = True"
| "guid_chars i (c # cs) =
     ((if i \<in> {8, 13, 18, 23} then c = CHR ''-''
       else CHR ''0'' \<le> c \<and> c \<le> CHR ''9'' \<or> CHR ''a'' \<le> c \<and> c \<le> CHR ''f'' \<or> CHR ''A'' \<le> c \<and> c \<le> CHR ''F'') \<and> guid_chars (i + 1) cs)"

definition looksLikeGUID :: "string \<Rightarrow> bool" where
  "looksLikeGUID s \<longleftrightarrow> length s = 36 \<and> guid_chars 0 s"

datatype portal_reply = PortalJSON int "(string \<times> json) list" | PortalFile string | PortalPlaceholder

definition no_such :: "string \<Rightarrow> portal_reply" where
  "no_such m = PortalJSON 404 [(''error'', JObj [(''code'', JStr ''not_found''), (''message'', JStr m)])]"

text \<open>\<open>assets\<close> are the embedded files, \<open>None\<close> when the build has no portal.\<close>

definition servePortal :: "(string \<Rightarrow> bool) option \<Rightarrow> string \<Rightarrow> portal_reply" where
  "servePortal assets path =
     (case assets of
        None \<Rightarrow> PortalPlaceholder
      | Some has \<Rightarrow>
        (let p = TrimPrefix path ''/''; p1 = (if p = [] then ''index.html'' else p) in PortalFile (if has p1 then p1 else ''index.html'')))"

definition portalFallback :: "(string \<Rightarrow> bool) option \<Rightarrow> string \<Rightarrow> string \<Rightarrow> portal_reply" where
  "portalFallback assets method path =
     (if list_ex (\<lambda>p. HasPrefix path p) apiPrefixes then no_such ''No such API route.''
      else
        let rest = TrimPrefix path ''/''; seg = takeWhile (\<lambda>c. c \<noteq> CHR ''/'') rest in
        if CHR ''/'' \<in> set rest \<and> (seg \<in> {''common'', ''organizations'', ''consumers''} \<or> looksLikeGUID seg) then no_such ''No such API route.''
        else if method \<noteq> ''GET'' then no_such ''Not found.''
        else servePortal assets path)"

section \<open>Properties\<close>

lemma itoa_port: "0 \<le> n \<Longrightarrow> validOptionalPort (CHR '':'' # Itoa n)"
  using nat_digits_val[of "nat n"] by (simp add: validOptionalPort_def Itoa_def)

lemma request_host_plain:
  assumes "plain_host h" and "validOptionalPort p"
  shows "request_host (h @ p) = h"
proof (cases p)
  case Nil
  then show ?thesis using plain_host_chars(1)[OF assms(1)] by (simp add: request_host_def LastIndex_def Let_def)
next
  case (Cons x q)
  then have q: "p = CHR '':'' # q" "CHR '':'' \<notin> set q" "CHR '']'' \<notin> set q"
    using assms(2) by (auto simp: validOptionalPort_def list_all_iff is_digit_def less_eq_char_def)
  have "h \<noteq> []" using assms(1) by (simp add: plain_host_def)
  with LastIndex_cut[OF q(2), of h] q(3) show ?thesis by (simp add: request_host_def Let_def slice_to_def slice_from_def q(1))
qed

lemma plain_host_dot: "plain_host a \<Longrightarrow> plain_host b \<Longrightarrow> plain_host (a @ ''.'' @ b)"
  by (simp add: plain_host_def)

lemma derived_host:
  assumes "plain_host (cs_BaseDomain c)" and "plain_host sub" and "0 \<le> cs_Port c"
  shows "originHost ip6 (derive_origin [] c sub) = sub @ ''.'' @ cs_BaseDomain c"
proof -
  let ?h = "sub @ ''.'' @ cs_BaseDomain c" and ?p = "'':'' @ Itoa (cs_Port c)"
  note h = plain_host_dot[OF assms(2,1)]
  have port: "validOptionalPort ?p" using itoa_port[OF assms(3)] by simp
  have "derive_origin [] c sub = origin_scheme c @ ''://'' @ ?h @ ?p @ []" by (simp add: derive_origin_def)
  moreover have "url_Parse ip6 (origin_scheme c @ ''://'' @ ?h @ ?p @ []) = Some \<lparr>ur_Scheme = origin_scheme c, ur_Host = ?h @ ?p, ur_RawQuery = []\<rparr>"
    by (rule parse_origin[OF _ h port]) (auto simp: origin_scheme_def plain_tail_def)
  ultimately show ?thesis using Hostname_host_port[OF h port] by (simp add: originHost_def)
qed

text \<open>Nothing overrides the origin of a single surface, or the issuer.\<close>

definition single_origins :: "fileConfig \<Rightarrow> (string \<times> string option) set" where
  "single_origins fc = {(''LOGIN_ORIGIN'', fc_LoginOrigin fc), (''PORTAL_ORIGIN'', fc_PortalOrigin fc), (''GRAPH_ORIGIN'', fc_GraphOrigin fc),
     (''ISSUER'', fc_Issuer fc)}"

definition no_origin_overrides :: "LoadEnv \<Rightarrow> fileConfig \<Rightarrow> bool" where
  "no_origin_overrides le fc \<longleftrightarrow> (\<forall>(key, file) \<in> single_origins fc. resolveStr (le_getenv le key) file [] = [])"

lemma not_overridden:
  assumes "no_origin_overrides le fc" and "(key, file) \<in> single_origins fc"
  shows "resolveStr (le_getenv le key) file d = d"
proof -
  have "resolveStr (le_getenv le key) file [] = []" using assms unfolding no_origin_overrides_def by blast
  then show ?thesis by (auto simp: resolveStr_def split: if_splits option.splits)
qed

text \<open>
  One listener, three hosts: with a loaded configuration that does not override single origins, in the subdomain
  mode without a public origin a request for \<^verbatim>\<open>login.\<close>, \<^verbatim>\<open>graph.\<close> or \<^verbatim>\<open>portal.\<close> of the base domain, at whatever port the
  client names, reaches that surface and any other host name the full one; in the compat mode or with a public origin
  every host reaches the full one. In both cases every tenant's issuer is below the login origin.
\<close>

theorem surfaces_by_host:
  assumes "Load le = Inr cfg" and "config_file le = Inr fc" and "no_origin_overrides le fc"
    and "public = resolveStr (le_getenv le ''PUBLIC_ORIGIN'') (fc_PublicOrigin fc) []"
    and "plain_host (cs_BaseDomain cfg)" and "plain_host name" and "validOptionalPort p"
  shows "(cs_OriginMode cfg = ''subdomains'' \<and> public = [] \<longrightarrow>
       hostRouter ip6 cfg (name @ p) =
         (if name = ''login.'' @ cs_BaseDomain cfg then LoginSurface else if name = ''graph.'' @ cs_BaseDomain cfg then GraphSurface
          else if name = ''portal.'' @ cs_BaseDomain cfg then PortalSurface else CompatSurface))
    \<and> (cs_OriginMode cfg = ''compat'' \<or> public \<noteq> [] \<longrightarrow> (\<forall>host. hostRouter ip6 cfg host = CompatSurface))
    \<and> issuerForTenant (Config.truncate cfg) tid = cf_Login cfg @ ''/'' @ tid @ ''/v2.0''"
proof -
  obtain c0 errs1 where rc: "resolve_config le fc = (c0, errs1)" by fastforce
  have cfg: "cfg = derive_origins le fc c0" using assms(1,2) rc by (auto simp: Load_def config_file_def Let_def split: if_splits)
  have "(''PORT'', fc_Port, 8443, cs_Port) \<in> set int_settings" by (simp add: int_settings_def)
  then have port: "0 \<le> cs_Port cfg" using load_exact[OF assms(2)] assms(1) by fastforce
  have ov: "resolveStr (le_getenv le ''LOGIN_ORIGIN'') (fc_LoginOrigin fc) d = d" "resolveStr (le_getenv le ''PORTAL_ORIGIN'') (fc_PortalOrigin fc) d = d"
    "resolveStr (le_getenv le ''GRAPH_ORIGIN'') (fc_GraphOrigin fc) d = d" "resolveStr (le_getenv le ''ISSUER'') (fc_Issuer fc) d = d" for d
    by (rule not_overridden[OF assms(3)]; simp add: single_origins_def)+
  let ?col = "collapse_origin public c0"
  have kept: "cs_BaseDomain cfg = cs_BaseDomain c0" "cs_OriginMode cfg = cs_OriginMode c0" "cs_Port cfg = cs_Port c0"
    by (simp_all add: cfg derived_kept)
  have o: "cf_Login cfg = derive_origin ?col c0 ''login''" "cs_Portal cfg = derive_origin ?col c0 ''portal''" "cf_Graph cfg = derive_origin ?col c0 ''graph''"
    "cf_Issuer cfg = cf_Login cfg @ ''/'' @ cf_TenantID cfg @ ''/v2.0''"
    unfolding cfg by (simp_all add: derive_origins_def Let_def ov assms(4)[symmetric])
  have iss: "issuerForTenant (Config.truncate cfg) tid = cf_Login cfg @ ''/'' @ tid @ ''/v2.0''"
    by (simp add: issuerForTenant_def Config.defs o(4))
  have compat: "hostRouter ip6 cfg host = CompatSurface" if "cs_OriginMode cfg = ''compat'' \<or> public \<noteq> []" for host
  proof -
    have "?col \<noteq> []" using that by (auto simp: collapse_origin_def origin_scheme_def kept)
    then have "cf_Login cfg = cs_Portal cfg" "cf_Graph cfg = cs_Portal cfg" using o by (simp_all add: derive_origin_def)
    then show ?thesis by (simp add: hostRouter_def Let_def)
  qed
  have sub: "hostRouter ip6 cfg (name @ p) =
         (if name = ''login.'' @ cs_BaseDomain cfg then LoginSurface else if name = ''graph.'' @ cs_BaseDomain cfg then GraphSurface
          else if name = ''portal.'' @ cs_BaseDomain cfg then PortalSurface else CompatSurface)" if m: "cs_OriginMode cfg = ''subdomains''" "public = []"
  proof -
    have col: "?col = []" using m by (simp add: collapse_origin_def kept)
    have ph: "plain_host ''login''" "plain_host ''graph''" "plain_host ''portal''" by code_simp+
    have base: "plain_host (cs_BaseDomain c0)" "0 \<le> cs_Port c0" using assms(5) port kept by simp_all
    note hosts = derived_host[OF base(1) ph(1) base(2), of ip6] derived_host[OF base(1) ph(2) base(2), of ip6] derived_host[OF base(1) ph(3) base(2), of ip6]
    have ne: "cf_Login cfg \<noteq> cs_Portal cfg" "cf_Graph cfg \<noteq> cs_Portal cfg" unfolding o col by (simp_all add: derive_origin_def)
    have "originHost ip6 (cf_Login cfg) = ''login.'' @ cs_BaseDomain cfg" "originHost ip6 (cf_Graph cfg) = ''graph.'' @ cs_BaseDomain cfg"
      "originHost ip6 (cs_Portal cfg) = ''portal.'' @ cs_BaseDomain cfg"
      unfolding o col hosts by (simp_all add: kept)
    then show ?thesis using ne request_host_plain[OF assms(6,7)] by (simp add: hostRouter_def Let_def)
  qed
  from sub compat iss show ?thesis by blast
qed

theorem surfaces_by_host_witness:
  "hostRouter (\<lambda>_. False) documented_defaults ''graph.entra.localhost:8443'' = GraphSurface
   \<and> hostRouter (\<lambda>_. False) documented_defaults ''localhost'' = CompatSurface"
proof -
  have n: "no_origin_overrides bare_env no_file" by (simp add: no_origin_overrides_def single_origins_def resolveStr_def bare_env_def no_file_def)
  have pub: "[] = resolveStr (le_getenv bare_env ''PUBLIC_ORIGIN'') (fc_PublicOrigin no_file) []" by (simp add: resolveStr_def bare_env_def no_file_def)
  have "plain_host (''entra.localhost'')" and h: "plain_host ''graph.entra.localhost''" "plain_host ''localhost''"
    and p: "validOptionalPort '':8443''" "validOptionalPort []" by code_simp+
  then have base: "plain_host (cs_BaseDomain documented_defaults)" by (simp add: documented_defaults_def)
  note by_host = surfaces_by_host[OF default_load config_file_sample(1) n pub base]
  from by_host[OF h(1) p(1), of "\<lambda>_. False" "''t''"] by_host[OF h(2) p(2), of "\<lambda>_. False" "''t''"]
  show ?thesis by (simp add: documented_defaults_def)
qed

end
