(* ===== verification/SamlTokens.thy ===== *)
theory SamlTokens
  imports Authorize ScimMapping
begin

text \<open>
  The documents of \<^verbatim>\<open>internal/identity/samlresponse.go\<close>, \<^verbatim>\<open>wsfedresponse.go\<close> and \<^verbatim>\<open>saml.go\<close>, and the certificate of
  \<^verbatim>\<open>internal/tokens/samlcert.go\<close>. An XML document is the tree of elements the code builds; namespaces are the
  attributes it sets. Rendering, the X.509 encoder and the XML signature are libraries: fields of \<open>FEnv\<close>.
\<close>

datatype xml = XElem string "(string \<times> string) list" "xml list" | XText string

text \<open>\<^verbatim>\<open>CreateElement(tag).SetText(s)\<close>.\<close>

definition x_text :: "string \<Rightarrow> (string \<times> string) list \<Rightarrow> string \<Rightarrow> xml" where
  "x_text tag attrs s = XElem tag attrs (if s = [] then [] else [XText s])"

record CertTemplate =
  ct_Serial :: nat
  ct_CN :: string
  ct_NotBefore :: int
  ct_NotAfter :: int

text \<open>
  What comes from packages: creating a certificate for a private key (DER), the enveloped signature (\<^verbatim>\<open>goxmldsig\<close>),
  base64 with padding, inflating with a limit, and \<^verbatim>\<open>xml.Unmarshal\<close> of an AuthnRequest, as ID, ACS URL, issuer and
  name id format.
\<close>

record authnRequest =
  ar_ID :: string
  ar_ACS :: string
  ar_Issuer :: string
  ar_Format :: string

record FEnv =
  fe_ie :: IEnv
  fe_x509 :: "CertTemplate \<Rightarrow> string \<Rightarrow> string option"
  fe_dsig :: "string \<Rightarrow> string \<Rightarrow> xml \<Rightarrow> xml option"
  fe_b64 :: "string \<Rightarrow> string"
  fe_unb64 :: "string \<Rightarrow> string option"
  fe_inflate :: "nat \<Rightarrow> string \<Rightarrow> string option"
  fe_xml :: "string \<Rightarrow> authnRequest option"

section \<open>The certificate\<close>

definition serialFromDigest :: "string \<Rightarrow> nat" where
  "serialFromDigest b = (if be_val b = 0 then 1 else be_val b)"

definition samlCertCN :: "string \<Rightarrow> string" where
  "samlCertCN tenantID = ''entra-emulator SAML signing '' @ tenantID"

definition SAMLCertificate :: "FEnv \<Rightarrow> Signer \<Rightarrow> string \<Rightarrow> int \<Rightarrow> string option" where
  "SAMLCertificate fe sg tenantID notBefore =
     (let nb = notBefore - notBefore mod 3600 in
      fe_x509 fe \<lparr>ct_Serial = serialFromDigest (take 16 (env_sha256 (ie_env (fe_ie fe)) (sg_Kid sg))), ct_CN = samlCertCN tenantID,
        ct_NotBefore = nb, ct_NotAfter = nb + 397 * 24 * 3600\<rparr> (sg_PrivateKey sg))"

text \<open>\<^verbatim>\<open>time.Now().AddDate(0, 0, -1).Truncate(24*time.Hour)\<close> in UTC.\<close>

definition cert_window :: "int \<Rightarrow> int" where
  "cert_window wall = (wall - 86400) - (wall - 86400) mod 86400"

section \<open>Assertions\<close>

definition assertionLifetime :: int where "assertionLifetime = 300"

definition assertionClockSkew :: int where "assertionClockSkew = 60"

definition samlID :: "string \<Rightarrow> string" where
  "samlID b = CHR ''_'' # hex_encode b"

definition nsAssertion :: string where
  "nsAssertion = ''urn:oasis:names:tc:SAML:2.0:assertion''"

definition nameIDFormatEmail :: string where
  "nameIDFormatEmail = ''urn:oasis:names:tc:SAML:1.1:nameid-format:emailAddress''"

definition nameIDFormatPersistent :: string where
  "nameIDFormatPersistent = ''urn:oasis:names:tc:SAML:2.0:nameid-format:persistent''"

record samlAssertionInput =
  sa_IssuerEntityID :: string
  sa_SPEntityID :: string
  sa_ACSURL :: string
  sa_InResponseTo :: string
  sa_NameID :: string
  sa_NameIDFormat :: string
  sa_SessionIndex :: string
  sa_Attributes :: "(string \<times> string list) list"
  sa_Now :: int

definition assertion_valid :: "samlAssertionInput \<Rightarrow> bool" where
  "assertion_valid x \<longleftrightarrow> sa_IssuerEntityID x \<noteq> [] \<and> sa_SPEntityID x \<noteq> [] \<and> sa_ACSURL x \<noteq> [] \<and> sa_NameID x \<noteq> []"

text \<open>The attribute map, an association list without duplicate names, in the order of \<^verbatim>\<open>sortedKeys\<close>.\<close>

definition attribute_statement :: "(string \<times> string list) list \<Rightarrow> xml" where
  "attribute_statement attrs =
     XElem ''saml:AttributeStatement'' []
       (map (\<lambda>(name, vs). XElem ''saml:Attribute'' [(''Name'', name), (''NameFormat'', ''urn:oasis:names:tc:SAML:2.0:attrname-format:uri'')]
              (map (x_text ''saml:AttributeValue'' []) vs)) (sort_key fst attrs))"

definition buildAssertion :: "samlAssertionInput \<Rightarrow> string \<Rightarrow> xml option" where
  "buildAssertion x ident =
     (if \<not> assertion_valid x then None
      else
        let notBefore = sa_Now x - assertionClockSkew; notAfter = sa_Now x + assertionLifetime;
            format = (if sa_NameIDFormat x = [] then nameIDFormatEmail else sa_NameIDFormat x) in
        Some (XElem ''saml:Assertion''
          [(''xmlns:saml'', nsAssertion), (''ID'', ident), (''Version'', ''2.0''), (''IssueInstant'', rfc3339 (sa_Now x))]
          ([x_text ''saml:Issuer'' [] (sa_IssuerEntityID x),
            XElem ''saml:Subject'' []
              [x_text ''saml:NameID'' [(''Format'', format)] (sa_NameID x),
               XElem ''saml:SubjectConfirmation'' [(''Method'', ''urn:oasis:names:tc:SAML:2.0:cm:bearer'')]
                 [XElem ''saml:SubjectConfirmationData''
                    ([(''NotOnOrAfter'', rfc3339 notAfter), (''Recipient'', sa_ACSURL x)]
                     @ (if sa_InResponseTo x \<noteq> [] then [(''InResponseTo'', sa_InResponseTo x)] else [])) []]],
            XElem ''saml:Conditions'' [(''NotBefore'', rfc3339 notBefore), (''NotOnOrAfter'', rfc3339 notAfter)]
              [XElem ''saml:AudienceRestriction'' [] [x_text ''saml:Audience'' [] (sa_SPEntityID x)]],
            XElem ''saml:AuthnStatement''
              ([(''AuthnInstant'', rfc3339 (sa_Now x))] @ (if sa_SessionIndex x \<noteq> [] then [(''SessionIndex'', sa_SessionIndex x)] else []))
              [XElem ''saml:AuthnContext'' [] [x_text ''saml:AuthnContextClassRef'' [] ''urn:oasis:names:tc:SAML:2.0:ac:classes:Password'']]]
           @ (if sa_Attributes x \<noteq> [] then [attribute_statement (sa_Attributes x)] else []))))"

text \<open>Signing needs a key and a certificate.\<close>

definition signAssertion :: "FEnv \<Rightarrow> xml \<Rightarrow> string \<Rightarrow> string \<Rightarrow> xml option" where
  "signAssertion fe a key certDER = (if certDER = [] then None else fe_dsig fe key certDER a)"

definition buildResponse :: "xml \<Rightarrow> string \<Rightarrow> string \<Rightarrow> string \<Rightarrow> string \<Rightarrow> int \<Rightarrow> xml" where
  "buildResponse signed issuer acs inResponseTo ident now =
     XElem ''samlp:Response''
       ([(''xmlns:samlp'', ''urn:oasis:names:tc:SAML:2.0:protocol''), (''ID'', ident), (''Version'', ''2.0''), (''IssueInstant'', rfc3339 now),
         (''Destination'', acs)] @ (if inResponseTo \<noteq> [] then [(''InResponseTo'', inResponseTo)] else []))
       [x_text ''saml:Issuer'' [(''xmlns:saml'', nsAssertion)] issuer,
        XElem ''samlp:Status'' [] [XElem ''samlp:StatusCode'' [(''Value'', ''urn:oasis:names:tc:SAML:2.0:status:Success'')] []],
        signed]"

text \<open>The WS-Federation envelope.\<close>

definition buildRSTR :: "xml \<Rightarrow> string \<Rightarrow> int \<Rightarrow> xml option" where
  "buildRSTR signed appliesTo now =
     (if appliesTo = [] then None
      else
        let wsu = [(''xmlns:wsu'', ''http://docs.oasis-open.org/wss/2004/01/oasis-200401-wss-wssecurity-utility-1.0.xsd'')] in
        Some (XElem ''t:RequestSecurityTokenResponse'' [(''xmlns:t'', ''http://schemas.xmlsoap.org/ws/2005/02/trust'')]
          [XElem ''t:Lifetime'' [] [x_text ''wsu:Created'' wsu (rfc3339 now), x_text ''wsu:Expires'' wsu (rfc3339 (now + assertionLifetime))],
           XElem ''wsp:AppliesTo'' [(''xmlns:wsp'', ''http://schemas.xmlsoap.org/ws/2004/09/policy'')]
             [XElem ''wsa:EndpointReference'' [(''xmlns:wsa'', ''http://www.w3.org/2005/08/addressing'')] [x_text ''wsa:Address'' [] appliesTo]],
           XElem ''t:RequestedSecurityToken'' [] [signed],
           x_text ''t:TokenType'' [] ''http://docs.oasis-open.org/wss/oasis-wss-saml-token-profile-1.1#SAMLV2.0'',
           x_text ''t:RequestType'' [] ''http://schemas.xmlsoap.org/ws/2005/02/trust/Issue'',
           x_text ''t:KeyType'' [] ''http://schemas.xmlsoap.org/ws/2005/05/identity/NoProofKey'']))"

definition signAndWrapRSTR :: "FEnv \<Rightarrow> xml \<Rightarrow> string \<Rightarrow> string \<Rightarrow> string \<Rightarrow> int \<Rightarrow> xml option" where
  "signAndWrapRSTR fe a key certDER appliesTo now =
     Option.bind (signAssertion fe a key certDER) (\<lambda>signed. buildRSTR signed appliesTo now)"

definition samlAttributesFor :: "User \<Rightarrow> (string \<times> string list) list" where
  "samlAttributesFor u =
     [(''http://schemas.xmlsoap.org/ws/2005/05/identity/claims/name'', [u_UserPrincipalName u])]
     @ (if u_DisplayName u \<noteq> [] then [(''http://schemas.microsoft.com/identity/claims/displayname'', [u_DisplayName u])] else [])
     @ (if u_ID u \<noteq> [] then [(''http://schemas.microsoft.com/identity/claims/objectidentifier'', [u_ID u])] else [])"

section \<open>Metadata\<close>

definition samlEntityID :: "Config \<Rightarrow> string \<Rightarrow> string" where
  "samlEntityID cfg tid = cf_Login cfg @ ''/'' @ tid @ ''/''"

definition samlSSOURL :: "Config \<Rightarrow> string \<Rightarrow> string" where
  "samlSSOURL cfg tid = cf_Login cfg @ ''/'' @ tid @ ''/saml2''"

definition trim_right :: "char \<Rightarrow> string \<Rightarrow> string" where
  "trim_right c s = rev (dropWhile (\<lambda>x. x = c) (rev s))"

definition key_descriptor :: "FEnv \<Rightarrow> string \<Rightarrow> (string \<times> string) list \<Rightarrow> xml" where
  "key_descriptor fe certDER inner =
     (let ds = [(''xmlns'', ''http://www.w3.org/2000/09/xmldsig#'')] in
      XElem ''KeyDescriptor'' [(''use'', ''signing'')]
        [XElem ''KeyInfo'' ds [XElem ''X509Data'' inner [x_text ''X509Certificate'' inner (fe_b64 fe certDER)]]])"

definition addWSFedEndpoint :: "string \<Rightarrow> string \<Rightarrow> xml" where
  "addWSFedEndpoint local address =
     XElem (''fed:'' @ local) []
       [XElem ''EndpointReference'' [(''xmlns'', ''http://www.w3.org/2005/08/addressing'')] [x_text ''Address'' [] address]]"

text \<open>The marshalled descriptor of the identity provider, and the role descriptor appended to it.\<close>

definition samlMetadataXML :: "FEnv \<Rightarrow> string \<Rightarrow> string \<Rightarrow> string \<Rightarrow> xml option" where
  "samlMetadataXML fe certDER entityID ssoURL =
     (if certDER = [] \<or> entityID = [] \<or> ssoURL = [] then None
      else
        let md = [(''xmlns'', ''urn:oasis:names:tc:SAML:2.0:metadata'')]; ds = [(''xmlns'', ''http://www.w3.org/2000/09/xmldsig#'')];
            fed = ''http://docs.oasis-open.org/wsfed/federation/200706''; wsfedURL = trim_right (CHR ''/'') entityID @ ''/wsfed'';
            redirect = (''Binding'', ''urn:oasis:names:tc:SAML:2.0:bindings:HTTP-Redirect'') in
        Some (XElem ''EntityDescriptor'' (md @ [(''entityID'', entityID)])
          [XElem ''IDPSSODescriptor'' (md @ [(''protocolSupportEnumeration'', ''urn:oasis:names:tc:SAML:2.0:protocol''), (''WantAuthnRequestsSigned'', ''false'')])
             [key_descriptor fe certDER ds, x_text ''NameIDFormat'' [] nameIDFormatEmail,
              XElem ''SingleSignOnService'' [redirect, (''Location'', ssoURL)] [],
              XElem ''SingleSignOnService'' [(''Binding'', ''urn:oasis:names:tc:SAML:2.0:bindings:HTTP-POST''), (''Location'', ssoURL)] [],
              XElem ''SingleLogoutService'' [redirect, (''Location'', ssoURL)] []],
           XElem ''RoleDescriptor''
             [(''xmlns:xsi'', ''http://www.w3.org/2001/XMLSchema-instance''), (''xmlns:fed'', fed), (''xsi:type'', ''fed:SecurityTokenServiceType''),
              (''protocolSupportEnumeration'', fed)]
             [key_descriptor fe certDER [], addWSFedEndpoint ''SecurityTokenServiceEndpoint'' wsfedURL,
              addWSFedEndpoint ''PassiveRequestorEndpoint'' wsfedURL]]))"

end
