(* ===== verification/Federation.thy ===== *)
theory Federation
  imports SamlTokens
begin

text \<open>
  \<^verbatim>\<open>internal/identity/samlrequest.go\<close>, \<^verbatim>\<open>samlsso.go\<close>, \<^verbatim>\<open>wsfedrequest.go\<close> and \<^verbatim>\<open>wsfed.go\<close>: single sign-on by SAML and by
  WS-Federation. A page is its status and title, or the form state it carries and its message; a form posted to an
  application is its target and its document. \<open>now\<close> is the store's clock, \<open>wall\<close> the machine's, \<open>rnd\<close> the random
  bytes drawn, \<open>sid\<close> a fresh session id and \<open>priv\<close> a fresh key.
\<close>

record samlState =
  sm_Kind :: string
  sm_Tenant :: string
  sm_RequestID :: string
  sm_SPEntityID :: string
  sm_ACSURL :: string
  sm_RelayState :: string
  sm_NameIDFormat :: string

record wsfedState =
  ws_Kind :: string
  ws_Tenant :: string
  ws_Wtrealm :: string
  ws_Wreply :: string
  ws_Wctx :: string

record FedCodecs =
  fc_saml :: "samlState codec"
  fc_wsfed :: "wsfedState codec"

datatype fed_reply =
    FedPage int string
  | SamlSignInForm samlState string
  | SamlPost string xml string
  | WSFedSignInForm wsfedState string
  | WSFedPost string xml string
  | FedRedirect string

definition sign_saml :: "FEnv \<Rightarrow> FedCodecs \<Rightarrow> Identity \<Rightarrow> samlState \<Rightarrow> string" where
  "sign_saml fe cod i st = signState (fe_ie fe) (id_stateKey i) (cd_enc (fc_saml cod) st)"

definition verify_saml :: "FEnv \<Rightarrow> FedCodecs \<Rightarrow> Identity \<Rightarrow> string \<Rightarrow> samlState option" where
  "verify_saml fe cod i signed =
     (case Option.bind (verifyState (fe_ie fe) (id_stateKey i) signed) (cd_dec (fc_saml cod)) of
        None \<Rightarrow> None | Some st \<Rightarrow> if sm_Kind st = ''saml'' then Some st else None)"

definition sign_wsfed :: "FEnv \<Rightarrow> FedCodecs \<Rightarrow> Identity \<Rightarrow> wsfedState \<Rightarrow> string" where
  "sign_wsfed fe cod i st = signState (fe_ie fe) (id_stateKey i) (cd_enc (fc_wsfed cod) st)"

definition verify_wsfed :: "FEnv \<Rightarrow> FedCodecs \<Rightarrow> Identity \<Rightarrow> string \<Rightarrow> wsfedState option" where
  "verify_wsfed fe cod i signed =
     (case Option.bind (verifyState (fe_ie fe) (id_stateKey i) signed) (cd_dec (fc_wsfed cod)) of
        None \<Rightarrow> None | Some st \<Rightarrow> if ws_Kind st = ''wsfed'' then Some st else None)"

section \<open>SAML requests\<close>

definition maxAuthnRequestBytes :: nat where "maxAuthnRequestBytes = 131072"

text \<open>The inflater is asked for one byte more than the limit.\<close>

definition decodeAuthnRequest :: "FEnv \<Rightarrow> string \<Rightarrow> bool \<Rightarrow> authnRequest option" where
  "decodeAuthnRequest fe encoded deflated =
     (if TrimSpace encoded = [] then None
      else
        Option.bind (fe_unb64 fe encoded) (\<lambda>raw0.
        Option.bind (if deflated then fe_inflate fe (maxAuthnRequestBytes + 1) raw0 else Some raw0) (\<lambda>raw.
        if length raw > maxAuthnRequestBytes then None
        else Option.bind (fe_xml fe raw) (\<lambda>req. if ar_ID req = [] \<or> ar_Issuer req = [] then None else Some req))))"

definition redirectTypeSAMLACS :: string where "redirectTypeSAMLACS = ''saml-acs''"

definition resolveServiceProvider :: "Store \<Rightarrow> authnRequest \<Rightarrow> (App \<times> string) option" where
  "resolveServiceProvider s req =
     (case GetAppByIDURI s (ar_Issuer req) of
        Inl _ \<Rightarrow> None
      | Inr app \<Rightarrow>
        (let registered = map ru_URI (filter (\<lambda>u. ru_Type u = redirectTypeSAMLACS) (ListRedirectURIs s (a_ID app))) in
         if registered = [] then None
         else if ar_ACS req = [] then Some (app, hd registered)
         else if ar_ACS req \<in> set registered then Some (app, ar_ACS req) else None))"

section \<open>SAML sign-on\<close>

definition deliverSAMLResponse ::
  "FEnv \<Rightarrow> Config \<Rightarrow> int \<Rightarrow> int \<Rightarrow> string \<Rightarrow> (nat \<Rightarrow> string) \<Rightarrow> samlState \<Rightarrow> User \<Rightarrow> Identity \<Rightarrow> fed_reply \<times> Identity" where
  "deliverSAMLResponse fe cfg now wall priv rnd st user i =
     (case EnsureActiveKey (ie_env (fe_ie fe)) priv now (sm_Tenant st) (id_Store i) of
        (Inl _, s1) \<Rightarrow> (FedPage 500 ''Cannot sign in'', with_store s1 i)
      | (Inr signer, s1) \<Rightarrow>
        (case Option.bind (SAMLCertificate fe signer (sm_Tenant st) (cert_window wall)) (\<lambda>der.
              Option.bind (buildAssertion
                \<lparr>sa_IssuerEntityID = samlEntityID cfg (sm_Tenant st), sa_SPEntityID = sm_SPEntityID st, sa_ACSURL = sm_ACSURL st,
                 sa_InResponseTo = sm_RequestID st, sa_NameID = u_UserPrincipalName user, sa_NameIDFormat = sm_NameIDFormat st,
                 sa_SessionIndex = samlID (rnd 0), sa_Attributes = samlAttributesFor user, sa_Now = wall\<rparr> (samlID (rnd 1))) (\<lambda>a.
              signAssertion fe a (sg_PrivateKey signer) der)) of
           None \<Rightarrow> (FedPage 500 ''Cannot sign in'', with_store s1 i)
         | Some signed \<Rightarrow>
             (SamlPost (sm_ACSURL st)
                (buildResponse signed (samlEntityID cfg (sm_Tenant st)) (sm_ACSURL st) (sm_RequestID st) (samlID (rnd 2)) wall) (sm_RelayState st),
              with_store s1 i)))"

definition samlSignIn ::
  "FEnv \<Rightarrow> FedCodecs \<Rightarrow> Config \<Rightarrow> int \<Rightarrow> int \<Rightarrow> string \<Rightarrow> string \<Rightarrow> (nat \<Rightarrow> string) \<Rightarrow> Request \<Rightarrow> Identity \<Rightarrow> fed_reply \<times> Identity" where
  "samlSignIn fe cod cfg now wall priv sid rnd rq i =
     (case verify_saml fe cod i (rq_form rq ''__ee_state'') of
        None \<Rightarrow> (FedPage 400 ''Invalid request'', i)
      | Some st \<Rightarrow>
        (case GetAppByIDURI (id_Store i) (sm_SPEntityID st) of
           Inl _ \<Rightarrow> (FedPage 400 ''Unknown application'', i)
         | Inr app \<Rightarrow>
           (case sign_in_user (ie_env (fe_ie fe)) cfg (id_Store i) rq of
              None \<Rightarrow> (SamlSignInForm st ''Incorrect email or password.'', i)
            | Some user \<Rightarrow>
              (case createSession now sid (u_ID user) ''pwd'' (id_Store i) of
                 (sess, s1) \<Rightarrow>
                   deliverSAMLResponse fe cfg now wall priv rnd st user
                     (with_store (case sess of None \<Rightarrow> s1 | Some x \<Rightarrow> RecordSessionApp (se_ID x) (a_ID app) s1) i)))))"

definition handleSAMLSSO ::
  "FEnv \<Rightarrow> FedCodecs \<Rightarrow> Config \<Rightarrow> int \<Rightarrow> int \<Rightarrow> string \<Rightarrow> string \<Rightarrow> (nat \<Rightarrow> string) \<Rightarrow> Request \<Rightarrow> Identity \<Rightarrow> fed_reply \<times> Identity" where
  "handleSAMLSSO fe cod cfg now wall priv sid rnd rq i =
     (case tenantSegment cfg (id_Store i) rq of (tid, ok) \<Rightarrow>
        if \<not> ok then (FedPage 404 ''Unknown tenant'', i)
        else if rq_post rq \<and> rq_form rq ''__ee_state'' \<noteq> [] then samlSignIn fe cod cfg now wall priv sid rnd rq i
        else
          let param = (if rq_post rq then rq_form rq else rq_query rq) in
          case decodeAuthnRequest fe (param ''SAMLRequest'') (\<not> rq_post rq) of
            None \<Rightarrow> (FedPage 400 ''Invalid request'', i)
          | Some req \<Rightarrow>
            (case resolveServiceProvider (id_Store i) req of
               None \<Rightarrow> (FedPage 400 ''Unknown application'', i)
             | Some (app, acs) \<Rightarrow>
               (let st = \<lparr>sm_Kind = ''saml'', sm_Tenant = tid, sm_RequestID = ar_ID req, sm_SPEntityID = ar_Issuer req, sm_ACSURL = acs,
                          sm_RelayState = param ''RelayState'', sm_NameIDFormat = ar_Format req\<rparr> in
                case currentSession now (id_Store i) rq of
                  Some (sess, user) \<Rightarrow> deliverSAMLResponse fe cfg now wall priv rnd st user i
                | None \<Rightarrow> (SamlSignInForm st [], i))))"

text \<open>The metadata document; it may create the tenant's first key.\<close>

definition handleSAMLMetadata :: "FEnv \<Rightarrow> Config \<Rightarrow> int \<Rightarrow> int \<Rightarrow> string \<Rightarrow> Request \<Rightarrow> Identity \<Rightarrow> (fed_reply + xml) \<times> Identity" where
  "handleSAMLMetadata fe cfg now wall priv rq i =
     (case tenantSegment cfg (id_Store i) rq of (tid, ok) \<Rightarrow>
        if \<not> ok then (Inl (FedPage 404 ''Unknown tenant''), i)
        else case EnsureActiveKey (ie_env (fe_ie fe)) priv now tid (id_Store i) of
          (Inl _, s1) \<Rightarrow> (Inl (FedPage 500 ''Metadata unavailable''), with_store s1 i)
        | (Inr signer, s1) \<Rightarrow>
          (case Option.bind (SAMLCertificate fe signer tid (cert_window wall)) (\<lambda>der. samlMetadataXML fe der (samlEntityID cfg tid) (samlSSOURL cfg tid)) of
             None \<Rightarrow> (Inl (FedPage 500 ''Metadata unavailable''), with_store s1 i)
           | Some doc \<Rightarrow> (Inr doc, with_store s1 i)))"

section \<open>WS-Federation\<close>

definition wsfedChallengeValue :: "Request \<Rightarrow> string \<Rightarrow> string" where
  "wsfedChallengeValue rq key = (if rq_post rq then rq_form rq key else rq_query rq key)"

definition wsfedAppByRealm :: "Store \<Rightarrow> string \<Rightarrow> App option" where
  "wsfedAppByRealm s wtrealm =
     (if wtrealm = [] then None else case GetAppByIDURI s wtrealm of Inl _ \<Rightarrow> None | Inr app \<Rightarrow> Some app)"

definition redirectTypeWSFedReply :: string where "redirectTypeWSFedReply = ''wsfed-reply''"

definition checkWSFedReply :: "Store \<Rightarrow> string \<Rightarrow> string \<Rightarrow> bool" where
  "checkWSFedReply s appID wreply = HasRedirectURIOfType s appID wreply redirectTypeWSFedReply"

definition resolveWSFedRelyingParty :: "Store \<Rightarrow> string \<Rightarrow> string \<Rightarrow> App option" where
  "resolveWSFedRelyingParty s wtrealm wreply =
     (case wsfedAppByRealm s wtrealm of
        None \<Rightarrow> None
      | Some app \<Rightarrow> if wreply = [] \<or> \<not> checkWSFedReply s (a_ID app) wreply then None else Some app)"

definition registeredWSFedReplyForRealm :: "Store \<Rightarrow> string \<Rightarrow> string option" where
  "registeredWSFedReplyForRealm s wtrealm =
     (case wsfedAppByRealm s wtrealm of
        None \<Rightarrow> None
      | Some app \<Rightarrow> map_option ru_URI (find (\<lambda>u. checkWSFedReply s (a_ID app) (ru_URI u)) (ListRedirectURIs s (a_ID app))))"

definition resolveWSFedSignOutReturn :: "Store \<Rightarrow> string \<Rightarrow> string \<Rightarrow> string option" where
  "resolveWSFedSignOutReturn s wtrealm wreply =
     (if wreply \<noteq> [] then map_option (\<lambda>_. wreply) (resolveWSFedRelyingParty s wtrealm wreply) else registeredWSFedReplyForRealm s wtrealm)"

definition endWSFedEmulatorSession :: "Request \<Rightarrow> Store \<Rightarrow> Store" where
  "endWSFedEmulatorSession rq s = (let s1 = clearSession rq s in if rq_cookie rq \<noteq> [] then ForgetSessionApps (rq_cookie rq) s1 else s1)"

definition handleWSFedSignOut :: "Request \<Rightarrow> Identity \<Rightarrow> fed_reply \<times> Identity" where
  "handleWSFedSignOut rq i =
     (case resolveWSFedSignOutReturn (id_Store i) (wsfedChallengeValue rq ''wtrealm'') (wsfedChallengeValue rq ''wreply'') of
        None \<Rightarrow> (FedPage 400 ''Unknown application'', i)
      | Some returnTo \<Rightarrow> (FedRedirect returnTo, with_store (endWSFedEmulatorSession rq (id_Store i)) i))"

definition issueWSFedRSTR :: "FEnv \<Rightarrow> Config \<Rightarrow> int \<Rightarrow> (nat \<Rightarrow> string) \<Rightarrow> Signer \<Rightarrow> wsfedState \<Rightarrow> User \<Rightarrow> xml option" where
  "issueWSFedRSTR fe cfg wall rnd signer st user =
     Option.bind (SAMLCertificate fe signer (ws_Tenant st) (cert_window wall)) (\<lambda>der.
     Option.bind (buildAssertion
       \<lparr>sa_IssuerEntityID = samlEntityID cfg (ws_Tenant st), sa_SPEntityID = ws_Wtrealm st, sa_ACSURL = ws_Wreply st, sa_InResponseTo = [],
        sa_NameID = u_ID user, sa_NameIDFormat = nameIDFormatPersistent, sa_SessionIndex = samlID (rnd 0),
        sa_Attributes = samlAttributesFor user, sa_Now = wall\<rparr> (samlID (rnd 1))) (\<lambda>a.
     signAndWrapRSTR fe a (sg_PrivateKey signer) der (ws_Wtrealm st) wall))"

definition deliverWSFedResponse ::
  "FEnv \<Rightarrow> Config \<Rightarrow> int \<Rightarrow> int \<Rightarrow> string \<Rightarrow> (nat \<Rightarrow> string) \<Rightarrow> wsfedState \<Rightarrow> User \<Rightarrow> Identity \<Rightarrow> fed_reply \<times> Identity" where
  "deliverWSFedResponse fe cfg now wall priv rnd st user i =
     (case EnsureActiveKey (ie_env (fe_ie fe)) priv now (ws_Tenant st) (id_Store i) of
        (Inl _, s1) \<Rightarrow> (FedPage 500 ''Cannot sign in'', with_store s1 i)
      | (Inr signer, s1) \<Rightarrow>
        (case issueWSFedRSTR fe cfg wall rnd signer st user of
           None \<Rightarrow> (FedPage 500 ''Cannot sign in'', with_store s1 i)
         | Some doc \<Rightarrow> (WSFedPost (ws_Wreply st) doc (ws_Wctx st), with_store s1 i)))"

definition wsfedSignIn ::
  "FEnv \<Rightarrow> FedCodecs \<Rightarrow> Config \<Rightarrow> int \<Rightarrow> int \<Rightarrow> string \<Rightarrow> string \<Rightarrow> (nat \<Rightarrow> string) \<Rightarrow> Request \<Rightarrow> Identity \<Rightarrow> fed_reply \<times> Identity" where
  "wsfedSignIn fe cod cfg now wall priv sid rnd rq i =
     (case verify_wsfed fe cod i (rq_form rq ''__ee_state'') of
        None \<Rightarrow> (FedPage 400 ''Invalid request'', i)
      | Some st \<Rightarrow>
        (case resolveWSFedRelyingParty (id_Store i) (ws_Wtrealm st) (ws_Wreply st) of
           None \<Rightarrow> (FedPage 400 ''Unknown application'', i)
         | Some app \<Rightarrow>
           (case sign_in_user (ie_env (fe_ie fe)) cfg (id_Store i) rq of
              None \<Rightarrow> (WSFedSignInForm st ''Incorrect email or password.'', i)
            | Some user \<Rightarrow>
              (case createSession now sid (u_ID user) ''pwd'' (id_Store i) of
                 (sess, s1) \<Rightarrow>
                   deliverWSFedResponse fe cfg now wall priv rnd st user
                     (with_store (case sess of None \<Rightarrow> s1 | Some x \<Rightarrow> RecordSessionApp (se_ID x) (a_ID app) s1) i)))))"

text \<open>\<^verbatim>\<open>dispatchWSFedAction\<close> and the rest of the handler.\<close>

definition handleWSFed ::
  "FEnv \<Rightarrow> FedCodecs \<Rightarrow> Config \<Rightarrow> int \<Rightarrow> int \<Rightarrow> string \<Rightarrow> string \<Rightarrow> (nat \<Rightarrow> string) \<Rightarrow> Request \<Rightarrow> Identity \<Rightarrow> fed_reply \<times> Identity" where
  "handleWSFed fe cod cfg now wall priv sid rnd rq i =
     (case tenantSegment cfg (id_Store i) rq of (tid, ok) \<Rightarrow>
        if \<not> ok then (FedPage 404 ''Unknown tenant'', i)
        else
          let wa = wsfedChallengeValue rq ''wa'' in
          if wa = ''wsignout1.0'' then handleWSFedSignOut rq i
          else if wa \<noteq> [] \<and> wa \<noteq> ''wsignin1.0'' then (FedPage 400 ''Unsupported action'', i)
          else if rq_post rq \<and> rq_form rq ''__ee_state'' \<noteq> [] then wsfedSignIn fe cod cfg now wall priv sid rnd rq i
          else if rq_post rq \<and> rq_form rq ''wresult'' \<noteq> [] then (FedPage 400 ''Unsolicited sign-in'', i)
          else
            let st = \<lparr>ws_Kind = ''wsfed'', ws_Tenant = tid, ws_Wtrealm = wsfedChallengeValue rq ''wtrealm'',
                      ws_Wreply = wsfedChallengeValue rq ''wreply'', ws_Wctx = wsfedChallengeValue rq ''wctx''\<rparr> in
            case resolveWSFedRelyingParty (id_Store i) (ws_Wtrealm st) (ws_Wreply st) of
              None \<Rightarrow> (FedPage 400 ''Unknown application'', i)
            | Some app \<Rightarrow>
              (case currentSession now (id_Store i) rq of
                 Some (sess, user) \<Rightarrow> deliverWSFedResponse fe cfg now wall priv rnd st user i
               | None \<Rightarrow> (WSFedSignInForm st [], i)))"

end
