(* ===== verification/FederationFlow.thy ===== *)
theory FederationFlow
  imports Federation Seed
begin

text \<open>
  Runs of the SAML and the WS-Federation endpoint, interleaved with any other traffic on the store, and what the
  documents they post say to the application that reads them.
\<close>

section \<open>Reading a document\<close>

fun x_tag :: "xml \<Rightarrow> string" where
  "x_tag (XElem t as ks) = t"
| "x_tag (XText s) = []"

fun x_kids :: "xml \<Rightarrow> xml list" where
  "x_kids (XElem t as ks) = ks"
| "x_kids (XText s) = []"

fun x_attr :: "string \<Rightarrow> xml \<Rightarrow> string option" where
  "x_attr k (XElem t as ks) = map_of as k"
| "x_attr k (XText s) = None"

fun x_content :: "xml \<Rightarrow> string" where
  "x_content (XElem t as ks) = concat (map (\<lambda>k. case k of XText s \<Rightarrow> s | _ \<Rightarrow> []) ks)"
| "x_content (XText s) = s"

fun x_at :: "string list \<Rightarrow> xml \<Rightarrow> xml option" where
  "x_at [] e = Some e"
| "x_at (t # ts) e = Option.bind (find (\<lambda>k. x_tag k = t) (x_kids e)) (x_at ts)"

definition text_at :: "string list \<Rightarrow> xml \<Rightarrow> string option" where
  "text_at path e = map_option x_content (x_at path e)"

definition attr_at :: "string list \<Rightarrow> string \<Rightarrow> xml \<Rightarrow> string option" where
  "attr_at path k e = Option.bind (x_at path e) (x_attr k)"

definition confirmation :: "string list" where
  "confirmation = [''saml:Assertion'', ''saml:Subject'', ''saml:SubjectConfirmation'', ''saml:SubjectConfirmationData'']"

text \<open>What a bearer assertion below \<open>path\<close> confines: its issuer, audience, recipient, subject, instant of issue and end of validity.\<close>

definition confined :: "string list \<Rightarrow> xml \<Rightarrow> string \<Rightarrow> string \<Rightarrow> string \<Rightarrow> string \<Rightarrow> string \<Rightarrow> string \<Rightarrow> bool" where
  "confined path doc issuer audience recipient subject issued until \<longleftrightarrow>
     attr_at (path @ [''saml:Assertion'']) ''IssueInstant'' doc = Some issued \<and>
     text_at (path @ [''saml:Assertion'', ''saml:Issuer'']) doc = Some issuer
     \<and> text_at (path @ [''saml:Assertion'', ''saml:Conditions'', ''saml:AudienceRestriction'', ''saml:Audience'']) doc = Some audience
     \<and> text_at (path @ [''saml:Assertion'', ''saml:Subject'', ''saml:NameID'']) doc = Some subject
     \<and> attr_at (path @ confirmation) ''Recipient'' doc = Some recipient
     \<and> attr_at (path @ confirmation) ''NotOnOrAfter'' doc = Some until
     \<and> attr_at (path @ [''saml:Assertion'', ''saml:Conditions'']) ''NotOnOrAfter'' doc = Some until"

text \<open>An enveloped signature is appended to the element it signs.\<close>

definition dsig_law :: "FEnv \<Rightarrow> bool" where
  "dsig_law fe \<longleftrightarrow> (\<forall>key cert t as ks x. fe_dsig fe key cert (XElem t as ks) = Some x \<longrightarrow> (\<exists>sig. x_tag sig = ''ds:Signature'' \<and> x = XElem t as (ks @ [sig])))"

lemma x_text_simps [simp]: "x_tag (x_text t as s) = t" "x_content (x_text t as s) = s" "x_attr k (x_text t as s) = map_of as k"
  by (simp_all add: x_text_def)

lemma x_at_append: "x_at (p @ q) e = Option.bind (x_at p e) (x_at q)"
  by (induction p arbitrary: e) (auto split: Option.bind_splits)

lemma signed_shape:
  assumes "dsig_law fe" and "signAssertion fe (XElem t as ks) key cert = Some signed"
  obtains sig where "x_tag sig = ''ds:Signature''" and "signed = XElem t as (ks @ [sig])"
proof -
  have "fe_dsig fe key cert (XElem t as ks) = Some signed" using assms(2) by (simp add: signAssertion_def split: if_splits)
  then show thesis using assms(1) that unfolding dsig_law_def by blast
qed

text \<open>What the code builds: the first four children are fixed.\<close>

lemma assertion_shape:
  assumes "buildAssertion x ident = Some a"
  obtains as cd rest where "a = XElem ''saml:Assertion'' as
      ([x_text ''saml:Issuer'' [] (sa_IssuerEntityID x),
        XElem ''saml:Subject'' []
          [x_text ''saml:NameID'' [(''Format'', if sa_NameIDFormat x = [] then nameIDFormatEmail else sa_NameIDFormat x)] (sa_NameID x),
           XElem ''saml:SubjectConfirmation'' [(''Method'', ''urn:oasis:names:tc:SAML:2.0:cm:bearer'')] [XElem ''saml:SubjectConfirmationData'' cd []]],
        XElem ''saml:Conditions''
          [(''NotBefore'', rfc3339 (sa_Now x - assertionClockSkew)), (''NotOnOrAfter'', rfc3339 (sa_Now x + assertionLifetime))]
          [XElem ''saml:AudienceRestriction'' [] [x_text ''saml:Audience'' [] (sa_SPEntityID x)]]] @ rest)"
    and "map_of as ''IssueInstant'' = Some (rfc3339 (sa_Now x))"
    and "map_of cd ''Recipient'' = Some (sa_ACSURL x)" and "map_of cd ''NotOnOrAfter'' = Some (rfc3339 (sa_Now x + assertionLifetime))"
proof -
  have v: "\<not> \<not> assertion_valid x" using assms by (auto simp: buildAssertion_def split: if_splits)
  note a = assms[unfolded buildAssertion_def Let_def if_not_P[OF v] option.inject, symmetric]
  show thesis
    by (rule that[of _ "[(''NotOnOrAfter'', rfc3339 (sa_Now x + assertionLifetime)), (''Recipient'', sa_ACSURL x)]
          @ (if sa_InResponseTo x \<noteq> [] then [(''InResponseTo'', sa_InResponseTo x)] else [])"], unfold a append_Cons append_Nil append_assoc) (rule refl, simp_all)
qed

lemma signed_assertion:
  assumes "dsig_law fe" and "buildAssertion x ident = Some a" and "signAssertion fe a key cert = Some signed"
    and "x_at path doc = Some parent" and "x_tag signed = ''saml:Assertion'' \<Longrightarrow> find (\<lambda>k. x_tag k = ''saml:Assertion'') (x_kids parent) = Some signed"
  shows "confined path doc (sa_IssuerEntityID x) (sa_SPEntityID x) (sa_ACSURL x) (sa_NameID x) (rfc3339 (sa_Now x)) (rfc3339 (sa_Now x + assertionLifetime))"
proof -
  obtain as cd rest where a: "a = XElem ''saml:Assertion'' as
      ([x_text ''saml:Issuer'' [] (sa_IssuerEntityID x),
        XElem ''saml:Subject'' []
          [x_text ''saml:NameID'' [(''Format'', if sa_NameIDFormat x = [] then nameIDFormatEmail else sa_NameIDFormat x)] (sa_NameID x),
           XElem ''saml:SubjectConfirmation'' [(''Method'', ''urn:oasis:names:tc:SAML:2.0:cm:bearer'')] [XElem ''saml:SubjectConfirmationData'' cd []]],
        XElem ''saml:Conditions''
          [(''NotBefore'', rfc3339 (sa_Now x - assertionClockSkew)), (''NotOnOrAfter'', rfc3339 (sa_Now x + assertionLifetime))]
          [XElem ''saml:AudienceRestriction'' [] [x_text ''saml:Audience'' [] (sa_SPEntityID x)]]] @ rest)"
    and cd: "map_of as ''IssueInstant'' = Some (rfc3339 (sa_Now x))" "map_of cd ''Recipient'' = Some (sa_ACSURL x)" "map_of cd ''NotOnOrAfter'' = Some (rfc3339 (sa_Now x + assertionLifetime))"
    using assertion_shape[OF assms(2)] by blast
  obtain sig where sig: "signed = XElem (x_tag a) as (x_kids a @ [sig])"
    using signed_shape[OF assms(1) assms(3)[unfolded a]] by (metis a x_kids.simps(1) x_tag.simps(1))
  have low: "x_at (path @ ''saml:Assertion'' # ts) doc = x_at ts signed" for ts
    using assms(4,5) by (simp add: x_at_append sig a)
  show ?thesis unfolding confined_def text_at_def attr_at_def confirmation_def append_assoc append_Cons append_Nil low
    by (simp add: a sig cd)
qed

section \<open>Where responses go\<close>

text \<open>The application named by an identifier URI has registered the URL for the protocol.\<close>

definition party :: "Store \<Rightarrow> string \<Rightarrow> string \<Rightarrow> string \<Rightarrow> bool" where
  "party s audience url typ \<longleftrightarrow>
     (\<exists>app \<in> set (app_registrations s). a_AppIDURI app = audience
        \<and> (\<exists>ru \<in> set (app_redirect_uris s). ru_AppID ru = a_ID app \<and> ru_URI ru = url \<and> ru_Type ru = typ))"

definition enabled_in :: "Store \<Rightarrow> User \<Rightarrow> bool" where
  "enabled_in s u \<longleftrightarrow> u \<in> set (users s) \<and> u_AccountEnabled u"

text \<open>
  What a reply is about: a posted assertion is confined to an audience and a URL that stand in \<open>P\<close> for the
  protocol's type of redirect URI, and speaks of a user in \<open>U\<close>; the state of a sign-in form names such an audience
  and URL.
\<close>

fun reply_ok :: "Config \<Rightarrow> int \<Rightarrow> (string \<Rightarrow> string \<Rightarrow> string \<Rightarrow> bool) \<Rightarrow> (User \<Rightarrow> bool) \<Rightarrow> fed_reply \<Rightarrow> bool" where
  "reply_ok cfg wall P U (SamlPost url doc relay) \<longleftrightarrow>
     (\<exists>audience tid u. P audience url redirectTypeSAMLACS \<and> U u \<and> attr_at [] ''Destination'' doc = Some url
        \<and> confined [] doc (samlEntityID cfg tid) audience url (u_UserPrincipalName u) (rfc3339 wall) (rfc3339 (wall + assertionLifetime)))"
| "reply_ok cfg wall P U (WSFedPost url doc ctx) \<longleftrightarrow>
     (\<exists>audience tid u. P audience url redirectTypeWSFedReply \<and> U u
        \<and> text_at [''wsp:AppliesTo'', ''wsa:EndpointReference'', ''wsa:Address''] doc = Some audience
        \<and> confined [''t:RequestedSecurityToken''] doc (samlEntityID cfg tid) audience url (u_ID u) (rfc3339 wall) (rfc3339 (wall + assertionLifetime)))"
| "reply_ok cfg wall P U (SamlSignInForm st msg) \<longleftrightarrow> P (sm_SPEntityID st) (sm_ACSURL st) redirectTypeSAMLACS"
| "reply_ok cfg wall P U (WSFedSignInForm st msg) \<longleftrightarrow> P (ws_Wtrealm st) (ws_Wreply st) redirectTypeWSFedReply"
| "reply_ok cfg wall P U (FedPage c t) \<longleftrightarrow> True"
| "reply_ok cfg wall P U (FedRedirect url) \<longleftrightarrow> (\<exists>audience. P audience url redirectTypeWSFedReply)"

lemma reply_ok_mono:
  "reply_ok cfg wall P U r \<Longrightarrow> (\<And>aud url typ. P aud url typ \<Longrightarrow> P' aud url typ) \<Longrightarrow> (\<And>u. U u \<Longrightarrow> U' u) \<Longrightarrow> reply_ok cfg wall P' U' r"
  by (cases r) (simp_all, blast+)

lemma GetAppByIDURI_Inr:
  assumes "GetAppByIDURI s uri = Inr app"
  obtains row where "row \<in> set (app_registrations s)" and "a_AppIDURI row = uri" and "a_ID row = a_ID app"
proof -
  obtain row where "row \<in> set (app_registrations s)" "App.truncate row = app" "null_eq (a_AppIDURI app) uri"
    using assms by (auto simp: GetAppByIDURI_def one_row_def split: option.splits dest!: sql_first_Some)
  then show thesis by (intro that[of row]) (auto simp: App.defs null_eq_def)
qed

lemma currentSession_user: "currentSession now s rq = Some (sess, u) \<Longrightarrow> enabled_in s u"
  by (auto simp: currentSession_def enabled_in_def GetUser_def one_row_def split: sum.splits if_splits option.splits dest: sql_first_Some)

lemma sign_in_user_enabled: "sign_in_user env cfg s rq = Some u \<Longrightarrow> enabled_in s u"
  by (auto simp: sign_in_user_def enabled_in_def split: if_splits sum.splits dest: VerifyPassword_Inr enabled_user_Some)

lemma resolveServiceProvider_party:
  assumes "resolveServiceProvider s req = Some (app, acs)"
  shows "party s (ar_Issuer req) acs redirectTypeSAMLACS"
proof -
  have g: "GetAppByIDURI s (ar_Issuer req) = Inr app"
    using assms by (auto simp: resolveServiceProvider_def Let_def split: sum.splits if_splits)
  let ?R = "map ru_URI (filter (\<lambda>u. ru_Type u = redirectTypeSAMLACS) (ListRedirectURIs s (a_ID app)))"
  have "?R \<noteq> [] \<and> (acs = hd ?R \<or> acs \<in> set ?R)"
    using assms unfolding resolveServiceProvider_def g by (simp only: Let_def sum.case split: if_splits) simp_all
  then have "acs \<in> set ?R" by (metis hd_in_set)
  then have "\<exists>ru \<in> set (app_redirect_uris s). ru_AppID ru = a_ID app \<and> ru_URI ru = acs \<and> ru_Type ru = redirectTypeSAMLACS"
    by (auto simp: ListRedirectURIs_def)
  with GetAppByIDURI_Inr[OF g] show ?thesis unfolding party_def by metis
qed

lemma party_of:
  assumes "GetAppByIDURI s realm = Inr app" and "checkWSFedReply s (a_ID app) reply"
  shows "party s realm reply redirectTypeWSFedReply"
proof -
  have "\<exists>ru \<in> set (app_redirect_uris s). ru_AppID ru = a_ID app \<and> ru_URI ru = reply \<and> ru_Type ru = redirectTypeWSFedReply"
    using assms(2) by (auto simp: checkWSFedReply_def HasRedirectURIOfType_def sql_count_def filter_empty_conv)
  with GetAppByIDURI_Inr[OF assms(1)] show ?thesis unfolding party_def by metis
qed

lemma resolveWSFed_party:
  assumes "resolveWSFedRelyingParty s realm reply = Some app"
  shows "party s realm reply redirectTypeWSFedReply"
  using assms by (intro party_of[of _ _ app]) (auto simp: resolveWSFedRelyingParty_def wsfedAppByRealm_def split: sum.splits if_splits option.splits)

lemma signOutReturn_party:
  assumes "resolveWSFedSignOutReturn s realm reply = Some url"
  shows "party s realm url redirectTypeWSFedReply"
proof (cases "reply = []")
  case True
  then have f: "registeredWSFedReplyForRealm s realm = Some url" using assms by (simp add: resolveWSFedSignOutReturn_def)
  then obtain app where app: "wsfedAppByRealm s realm = Some app"
    and u: "map_option ru_URI (find (\<lambda>u. checkWSFedReply s (a_ID app) (ru_URI u)) (ListRedirectURIs s (a_ID app))) = Some url"
    by (auto simp: registeredWSFedReplyForRealm_def split: option.splits)
  from u have "checkWSFedReply s (a_ID app) url" by (auto simp: find_Some_iff)
  moreover have "GetAppByIDURI s realm = Inr app" using app by (auto simp: wsfedAppByRealm_def split: if_splits sum.splits)
  ultimately show ?thesis by (simp add: party_of)
next
  case False
  then show ?thesis using assms by (auto simp: resolveWSFedSignOutReturn_def intro: resolveWSFed_party)
qed

section \<open>The handlers\<close>

lemma posted:
  assumes "(case m of None \<Rightarrow> (FedPage c t, x) | Some y \<Rightarrow> (f y, x)) = (r, i')" and "r \<noteq> FedPage c t"
  obtains y where "m = Some y" and "r = f y"
  using assms by (cases m) simp_all

lemma bind2_Some:
  assumes "Option.bind m (\<lambda>x. Option.bind (g x) (\<lambda>y. h x y)) = Some z"
  obtains x y where "g x = Some y" and "h x y = Some z"
  using assms by (cases m; cases "g (the m)") auto

lemma deliverSAML_ok:
  assumes "dsig_law fe" and "deliverSAMLResponse fe cfg now wall priv rnd st u i = (r, i')"
  shows "(\<exists>c t. r = FedPage c t) \<or> (\<exists>url doc relay. r = SamlPost url doc relay)"
    and "reply_ok cfg wall (\<lambda>aud url typ. aud = sm_SPEntityID st \<and> url = sm_ACSURL st \<and> typ = redirectTypeSAMLACS) ((=) u) r"
proof -
  show kind: "(\<exists>c t. r = FedPage c t) \<or> (\<exists>url doc relay. r = SamlPost url doc relay)"
    using assms(2) by (auto simp: deliverSAMLResponse_def split: prod.splits sum.splits option.splits)
  have "attr_at [] ''Destination'' doc = Some url
      \<and> confined [] doc (samlEntityID cfg (sm_Tenant st)) (sm_SPEntityID st) url (u_UserPrincipalName u) (rfc3339 wall) (rfc3339 (wall + assertionLifetime)) \<and> url = sm_ACSURL st"
    if r: "r = SamlPost url doc relay" for url doc relay
  proof -
    let ?x = "\<lparr>sa_IssuerEntityID = samlEntityID cfg (sm_Tenant st), sa_SPEntityID = sm_SPEntityID st, sa_ACSURL = sm_ACSURL st,
                 sa_InResponseTo = sm_RequestID st, sa_NameID = u_UserPrincipalName u, sa_NameIDFormat = sm_NameIDFormat st,
                 sa_SessionIndex = samlID (rnd 0), sa_Attributes = samlAttributesFor u, sa_Now = wall\<rparr>"
    obtain signer :: Signer and der a signed where e: "buildAssertion ?x (samlID (rnd 1)) = Some a" "signAssertion fe a (sg_PrivateKey signer) der = Some signed"
      and d: "doc = buildResponse signed (samlEntityID cfg (sm_Tenant st)) (sm_ACSURL st) (sm_RequestID st) (samlID (rnd 2)) wall" "url = sm_ACSURL st"
    proof -
      obtain res s1 where k: "EnsureActiveKey (ie_env (fe_ie fe)) priv now (sm_Tenant st) (id_Store i) = (res, s1)" by fastforce
      from assms(2)[unfolded r deliverSAMLResponse_def k prod.case] obtain signer where res: "res = Inr signer" by (cases res) simp_all
      have "r \<noteq> FedPage 500 ''Cannot sign in''" by (simp add: r)
      from posted[OF assms(2)[unfolded deliverSAMLResponse_def k res prod.case sum.case] this] obtain signed where
        m: "Option.bind (SAMLCertificate fe signer (sm_Tenant st) (cert_window wall)) (\<lambda>der. Option.bind (buildAssertion ?x (samlID (rnd 1))) (\<lambda>a. signAssertion fe a (sg_PrivateKey signer) der)) = Some signed"
        and p: "r = SamlPost (sm_ACSURL st) (buildResponse signed (samlEntityID cfg (sm_Tenant st)) (sm_ACSURL st) (sm_RequestID st) (samlID (rnd 2)) wall) (sm_RelayState st)"
        by blast
      from bind2_Some[OF m] obtain der a where b: "buildAssertion ?x (samlID (rnd 1)) = Some a" "signAssertion fe a (sg_PrivateKey signer) der = Some signed" .
      show thesis by (rule that[OF b]) (use p[unfolded r] in \<open>simp_all only: fed_reply.inject\<close>)
    qed
    have "confined [] doc (sa_IssuerEntityID ?x) (sa_SPEntityID ?x) (sa_ACSURL ?x) (sa_NameID ?x) (rfc3339 (sa_Now ?x)) (rfc3339 (sa_Now ?x + assertionLifetime))"
      by (rule signed_assertion[OF assms(1) e, of _ _ doc]) (simp_all add: d buildResponse_def)
    then show ?thesis by (simp add: d attr_at_def buildResponse_def)
  qed
  with kind show "reply_ok cfg wall (\<lambda>aud url typ. aud = sm_SPEntityID st \<and> url = sm_ACSURL st \<and> typ = redirectTypeSAMLACS) ((=) u) r"
    by (elim disjE exE) (simp_all, blast)
qed

lemma deliverWSFed_ok:
  assumes "dsig_law fe" and "deliverWSFedResponse fe cfg now wall priv rnd st u i = (r, i')"
  shows "reply_ok cfg wall (\<lambda>aud url typ. aud = ws_Wtrealm st \<and> url = ws_Wreply st \<and> typ = redirectTypeWSFedReply) ((=) u) r"
proof -
  have kind: "(\<exists>c t. r = FedPage c t) \<or> (\<exists>url doc ctx. r = WSFedPost url doc ctx)"
    using assms(2) by (auto simp: deliverWSFedResponse_def split: prod.splits sum.splits option.splits)
  have "text_at [''wsp:AppliesTo'', ''wsa:EndpointReference'', ''wsa:Address''] doc = Some (ws_Wtrealm st)
      \<and> confined [''t:RequestedSecurityToken''] doc (samlEntityID cfg (ws_Tenant st)) (ws_Wtrealm st) url (u_ID u) (rfc3339 wall) (rfc3339 (wall + assertionLifetime))
      \<and> url = ws_Wreply st"
    if r: "r = WSFedPost url doc ctx" for url doc ctx
  proof -
    let ?x = "\<lparr>sa_IssuerEntityID = samlEntityID cfg (ws_Tenant st), sa_SPEntityID = ws_Wtrealm st, sa_ACSURL = ws_Wreply st, sa_InResponseTo = [],
        sa_NameID = u_ID u, sa_NameIDFormat = nameIDFormatPersistent, sa_SessionIndex = samlID (rnd 0),
        sa_Attributes = samlAttributesFor u, sa_Now = wall\<rparr>"
    obtain signer :: Signer and der a signed where e: "buildAssertion ?x (samlID (rnd 1)) = Some a" "signAssertion fe a (sg_PrivateKey signer) der = Some signed"
      and d: "buildRSTR signed (ws_Wtrealm st) wall = Some doc" "url = ws_Wreply st"
    proof -
      obtain res s1 where k: "EnsureActiveKey (ie_env (fe_ie fe)) priv now (ws_Tenant st) (id_Store i) = (res, s1)" by fastforce
      from assms(2)[unfolded r deliverWSFedResponse_def k prod.case] obtain signer where res: "res = Inr signer" by (cases res) simp_all
      have "r \<noteq> FedPage 500 ''Cannot sign in''" by (simp add: r)
      from posted[OF assms(2)[unfolded deliverWSFedResponse_def k res prod.case sum.case] this] obtain doc' where
        m: "issueWSFedRSTR fe cfg wall rnd signer st u = Some doc'" and p: "r = WSFedPost (ws_Wreply st) doc' (ws_Wctx st)" by blast
      from bind2_Some[OF m[unfolded issueWSFedRSTR_def]] obtain der a where b: "buildAssertion ?x (samlID (rnd 1)) = Some a"
        "signAndWrapRSTR fe a (sg_PrivateKey signer) der (ws_Wtrealm st) wall = Some doc'" .
      obtain signed where c: "signAssertion fe a (sg_PrivateKey signer) der = Some signed" "buildRSTR signed (ws_Wtrealm st) wall = Some doc'"
        using b(2) by (cases "signAssertion fe a (sg_PrivateKey signer) der") (simp_all add: signAndWrapRSTR_def)
      show thesis by (rule that[OF b(1) c(1)]) (use p[unfolded r] c(2) in \<open>simp_all only: fed_reply.inject\<close>)
    qed
    have "ws_Wtrealm st \<noteq> []" using d(1) by (auto simp: buildRSTR_def split: if_splits)
    note doc = d(1)[unfolded buildRSTR_def Let_def if_not_P[OF this] option.inject, symmetric]
    have "confined [''t:RequestedSecurityToken''] doc (sa_IssuerEntityID ?x) (sa_SPEntityID ?x) (sa_ACSURL ?x) (sa_NameID ?x) (rfc3339 (sa_Now ?x)) (rfc3339 (sa_Now ?x + assertionLifetime))"
      by (rule signed_assertion[OF assms(1) e, of _ _ "XElem ''t:RequestedSecurityToken'' [] [signed]"]) (simp_all add: doc)
    then show ?thesis by (simp add: d(2) doc text_at_def)
  qed
  with kind show ?thesis by (elim disjE exE) (simp_all, blast)
qed

lemma handleSAMLSSO_ok:
  assumes "dsig_law fe" and "handleSAMLSSO fe cod cfg now wall priv sid rnd rq i = (r, i')"
  shows "reply_ok cfg wall (\<lambda>aud url typ. party (id_Store i) aud url typ
      \<or> (\<exists>st. verify_saml fe cod i (rq_form rq ''__ee_state'') = Some st \<and> aud = sm_SPEntityID st \<and> url = sm_ACSURL st \<and> typ = redirectTypeSAMLACS))
    (enabled_in (id_Store i)) r" (is "reply_ok cfg wall ?P ?U r")
proof -
  have page: "reply_ok cfg wall ?P ?U (FedPage c t)" for c t by simp
  have sent: "reply_ok cfg wall ?P ?U r" if "deliverSAMLResponse fe cfg now wall priv rnd st u j = (r, i')" "?P (sm_SPEntityID st) (sm_ACSURL st) redirectTypeSAMLACS" "?U u" for st u j
    by (rule reply_ok_mono[OF deliverSAML_ok(2)[OF assms(1) that(1)]]) (use that(2,3) in auto)
  consider "r = FedPage 404 ''Unknown tenant''" | "samlSignIn fe cod cfg now wall priv sid rnd rq i = (r, i')"
    | "r = FedPage 400 ''Invalid request''" | "r = FedPage 400 ''Unknown application''"
    | req app acs st where "resolveServiceProvider (id_Store i) req = Some (app, acs)" "sm_SPEntityID st = ar_Issuer req" "sm_ACSURL st = acs"
        "(case currentSession now (id_Store i) rq of
            Some (sess, user) \<Rightarrow> deliverSAMLResponse fe cfg now wall priv rnd st user i | None \<Rightarrow> (SamlSignInForm st [], i)) = (r, i')"
    using assms(2) by (fastforce simp: handleSAMLSSO_def Let_def split: prod.splits if_splits option.splits)
  then show ?thesis
  proof cases
    case 2
    show ?thesis
    proof (cases "verify_saml fe cod i (rq_form rq ''__ee_state'')")
      case (Some st)
      show ?thesis
      proof (cases "sign_in_user (ie_env (fe_ie fe)) cfg (id_Store i) rq")
        case None
        with 2 Some show ?thesis by (auto simp: samlSignIn_def split: sum.splits)
      next
        case u: (Some u)
        have "(\<exists>c t. r = FedPage c t) \<or> (\<exists>j. deliverSAMLResponse fe cfg now wall priv rnd st u j = (r, i'))"
          using 2 Some u by (auto simp: samlSignIn_def split: sum.splits prod.splits)
        with sent[of st u] Some sign_in_user_enabled[OF u] page show ?thesis by blast
      qed
    qed (use 2 in \<open>auto simp: samlSignIn_def\<close>)
  next
    case (5 req app acs st)
    then have p: "?P (sm_SPEntityID st) (sm_ACSURL st) redirectTypeSAMLACS" by (simp add: resolveServiceProvider_party)
    show ?thesis
    proof (cases "currentSession now (id_Store i) rq")
      case (Some x)
      then obtain sess u where x: "currentSession now (id_Store i) rq = Some (sess, u)" by (cases x) auto
      with 5(4) sent[OF _ p currentSession_user[OF x]] show ?thesis by simp
    qed (use 5(4) p in auto)
  qed simp_all
qed

lemma handleWSFed_ok:
  assumes "dsig_law fe" and "handleWSFed fe cod cfg now wall priv sid rnd rq i = (r, i')"
  shows "reply_ok cfg wall (party (id_Store i)) (enabled_in (id_Store i)) r" (is "reply_ok cfg wall ?P ?U r")
proof -
  have page: "reply_ok cfg wall ?P ?U (FedPage c t)" for c t by simp
  have sent: "reply_ok cfg wall ?P ?U r" if "deliverWSFedResponse fe cfg now wall priv rnd st u j = (r, i')" "?P (ws_Wtrealm st) (ws_Wreply st) redirectTypeWSFedReply" "?U u" for st u j
    by (rule reply_ok_mono[OF deliverWSFed_ok[OF assms(1) that(1)]]) (use that(2,3) in auto)
  consider c t where "r = FedPage c t" | "wsfedSignIn fe cod cfg now wall priv sid rnd rq i = (r, i')"
    | "handleWSFedSignOut rq i = (r, i')"
    | app st where "resolveWSFedRelyingParty (id_Store i) (ws_Wtrealm st) (ws_Wreply st) = Some app"
        "(case currentSession now (id_Store i) rq of
            Some (sess, user) \<Rightarrow> deliverWSFedResponse fe cfg now wall priv rnd st user i | None \<Rightarrow> (WSFedSignInForm st [], i)) = (r, i')"
    using assms(2) by (fastforce simp: handleWSFed_def Let_def split: prod.splits if_splits option.splits)
  then show ?thesis
  proof cases
    case 2
    show ?thesis
    proof (cases "verify_wsfed fe cod i (rq_form rq ''__ee_state'')")
      case (Some st)
      show ?thesis
      proof (cases "resolveWSFedRelyingParty (id_Store i) (ws_Wtrealm st) (ws_Wreply st)")
        case app: (Some app)
        note p = resolveWSFed_party[OF app]
        show ?thesis
        proof (cases "sign_in_user (ie_env (fe_ie fe)) cfg (id_Store i) rq")
          case None
          with 2 Some app p show ?thesis by (auto simp: wsfedSignIn_def)
        next
          case u: (Some u)
          have "\<exists>j. deliverWSFedResponse fe cfg now wall priv rnd st u j = (r, i')"
            using 2 Some app u by (auto simp: wsfedSignIn_def split: prod.splits)
          with sent[OF _ p sign_in_user_enabled[OF u]] show ?thesis by blast
        qed
      qed (use 2 Some in \<open>auto simp: wsfedSignIn_def\<close>)
    qed (use 2 in \<open>auto simp: wsfedSignIn_def\<close>)
  next
    case 3
    then show ?thesis
    proof (cases "resolveWSFedSignOutReturn (id_Store i) (wsfedChallengeValue rq ''wtrealm'') (wsfedChallengeValue rq ''wreply'')")
      case (Some url)
      then have "r = FedRedirect url" using 3 by (auto simp: handleWSFedSignOut_def)
      with signOutReturn_party[OF Some] show ?thesis by auto
    qed (use 3 in \<open>auto simp: handleWSFedSignOut_def\<close>)
  next
    case (4 app st)
    note p = resolveWSFed_party[OF 4(1)]
    show ?thesis
    proof (cases "currentSession now (id_Store i) rq")
      case (Some x)
      then obtain sess u where x: "currentSession now (id_Store i) rq = Some (sess, u)" by (cases x) auto
      with 4(2) sent[OF _ p currentSession_user[OF x]] show ?thesis by simp
    qed (use 4(2) p in auto)
  qed simp
qed

section \<open>Runs\<close>

text \<open>
  Requests to the two endpoints, and any other traffic on the store in between. \<open>H\<close> holds every store a request was
  answered on, \<open>out\<close> each reply with the wall time and the store it was answered at, the latest first. A form state that verifies was
  shown by the SAML endpoint before: the states are signed with a key the client does not have.
\<close>

definition saml_genuine :: "FEnv \<Rightarrow> FedCodecs \<Rightarrow> Identity \<Rightarrow> (int \<times> Store \<times> fed_reply) list \<Rightarrow> Request \<Rightarrow> bool" where
  "saml_genuine fe cod i out rq \<longleftrightarrow>
     (\<forall>st. verify_saml fe cod i (rq_form rq ''__ee_state'') = Some st \<longrightarrow> (\<exists>w s msg. (w, s, SamlSignInForm st msg) \<in> set out))"

inductive fed_run :: "FEnv \<Rightarrow> FedCodecs \<Rightarrow> Config \<Rightarrow> Identity \<Rightarrow> (int \<times> Store \<times> fed_reply) list \<Rightarrow> bool" for fe cod cfg where
  fed_start: "fed_run fe cod cfg i []"
| fed_other: "fed_run fe cod cfg i out \<Longrightarrow> fed_run fe cod cfg (with_store s i) out"
| fed_saml: "fed_run fe cod cfg i out \<Longrightarrow> saml_genuine fe cod i out rq \<Longrightarrow>
    handleSAMLSSO fe cod cfg now wall priv sid rnd rq i = (r, i') \<Longrightarrow> fed_run fe cod cfg i' ((wall, id_Store i, r) # out)"
| fed_wsfed: "fed_run fe cod cfg i out \<Longrightarrow>
    handleWSFed fe cod cfg now wall priv sid rnd rq i = (r, i') \<Longrightarrow> fed_run fe cod cfg i' ((wall, id_Store i, r) # out)"

text \<open>The URL stood in the store now, or when the form was shown.\<close>

definition party_within :: "(int \<times> Store \<times> fed_reply) list \<Rightarrow> Store \<Rightarrow> string \<Rightarrow> string \<Rightarrow> string \<Rightarrow> bool" where
  "party_within out s aud url typ \<longleftrightarrow>
     party s aud url typ \<or> (typ = redirectTypeSAMLACS \<and> (\<exists>w' s' r'. (w', s', r') \<in> set out \<and> party s' aud url typ))"

lemma run_ok:
  assumes "dsig_law fe" and "fed_run fe cod cfg i out" and "(wall, s, r) \<in> set out"
  shows "reply_ok cfg wall (party_within out s) (enabled_in s) r"
  using assms(2,3)
proof (induction arbitrary: wall s r)
  case (fed_saml i out rq now wall0 priv sid rnd r0 i')
  have mono: "party_within out s aud url ty \<Longrightarrow> party_within (x # out) s aud url ty" for x s aud url ty
    by (auto simp: party_within_def)
  show ?case
  proof (cases "(wall, s, r) \<in> set out")
    case True
    show ?thesis by (rule reply_ok_mono[OF fed_saml.IH[OF True]]) (simp_all add: mono)
  next
    case False
    then have r: "r = r0" "s = id_Store i" "wall = wall0" using fed_saml.prems by auto
    have "party_within ((wall, s, r) # out) s (sm_SPEntityID st) (sm_ACSURL st) redirectTypeSAMLACS"
      if v: "verify_saml fe cod i (rq_form rq ''__ee_state'') = Some st" for st
    proof -
      obtain w' s' msg where f: "(w', s', SamlSignInForm st msg) \<in> set out" using fed_saml.hyps(2) v unfolding saml_genuine_def by blast
      from fed_saml.IH[OF this] f show ?thesis by (auto simp: party_within_def)
    qed
    then show ?thesis unfolding r
      by (intro reply_ok_mono[OF handleSAMLSSO_ok[OF assms(1) fed_saml.hyps(3)]]) (auto simp: party_within_def)
  qed
next
  case (fed_wsfed i out now wall0 priv sid rnd rq r0 i')
  have mono: "party_within out s aud url ty \<Longrightarrow> party_within (x # out) s aud url ty" for x s aud url ty
    by (auto simp: party_within_def)
  show ?case
  proof (cases "(wall, s, r) \<in> set out")
    case True
    show ?thesis by (rule reply_ok_mono[OF fed_wsfed.IH[OF True]]) (simp_all add: mono)
  next
    case False
    then have r: "r = r0" "s = id_Store i" "wall = wall0" using fed_wsfed.prems by auto
    show ?thesis unfolding r
      by (rule reply_ok_mono[OF handleWSFed_ok[OF assms(1) fed_wsfed.hyps(2)]]) (auto simp: party_within_def)
  qed
qed simp_all

section \<open>Properties\<close>

text \<open>
  C22. Assertions are confined: however requests to the SAML and the WS-Federation endpoint and other traffic interleave,
  an assertion is posted only to a URL that the application named by its audience registered for that protocol (in the
  store it is issued on, or for SAML in the store the sign-in form was shown on), with that URL as its recipient, about
  a user whose account is enabled at that moment, and valid for five minutes; and a sign-out redirects only to a
  registered reply URL.\<close>

theorem assertions_confined:
  assumes "dsig_law fe" and "fed_run fe cod cfg i out" and "(wall, s, r) \<in> set out"
  shows "(r = SamlPost url doc relay \<longrightarrow>
      (\<exists>audience tid u. party_within out s audience url redirectTypeSAMLACS \<and> u \<in> set (users s) \<and> u_AccountEnabled u
        \<and> attr_at [] ''Destination'' doc = Some url
        \<and> confined [] doc (samlEntityID cfg tid) audience url (u_UserPrincipalName u) (rfc3339 wall) (rfc3339 (wall + 300))))
    \<and> (r = WSFedPost url doc relay \<longrightarrow>
      (\<exists>audience tid u. party s audience url redirectTypeWSFedReply \<and> u \<in> set (users s) \<and> u_AccountEnabled u
        \<and> text_at [''wsp:AppliesTo'', ''wsa:EndpointReference'', ''wsa:Address''] doc = Some audience
        \<and> confined [''t:RequestedSecurityToken''] doc (samlEntityID cfg tid) audience url (u_ID u) (rfc3339 wall) (rfc3339 (wall + 300))))
    \<and> (r = FedRedirect url \<longrightarrow> (\<exists>audience. party s audience url redirectTypeWSFedReply))"
proof (intro conjI impI)
  assume "r = SamlPost url doc relay"
  with run_ok[OF assms] show "\<exists>audience tid u. party_within out s audience url redirectTypeSAMLACS \<and> u \<in> set (users s) \<and> u_AccountEnabled u
        \<and> attr_at [] ''Destination'' doc = Some url
        \<and> confined [] doc (samlEntityID cfg tid) audience url (u_UserPrincipalName u) (rfc3339 wall) (rfc3339 (wall + 300))"
    unfolding enabled_in_def assertionLifetime_def[symmetric] by simp
next
  have p: "party_within out s aud url redirectTypeWSFedReply = party s aud url redirectTypeWSFedReply" for aud
    by (simp add: party_within_def redirectTypeSAMLACS_def redirectTypeWSFedReply_def)
  { assume "r = FedRedirect url"
    with run_ok[OF assms] show "\<exists>audience. party s audience url redirectTypeWSFedReply" by (simp add: p) }
  assume r: "r = WSFedPost url doc relay"
  from run_ok[OF assms] show "\<exists>audience tid u. party s audience url redirectTypeWSFedReply \<and> u \<in> set (users s) \<and> u_AccountEnabled u
        \<and> text_at [''wsp:AppliesTo'', ''wsa:EndpointReference'', ''wsa:Address''] doc = Some audience
        \<and> confined [''t:RequestedSecurityToken''] doc (samlEntityID cfg tid) audience url (u_ID u) (rfc3339 wall) (rfc3339 (wall + 300))"
    unfolding enabled_in_def assertionLifetime_def[symmetric] r reply_ok.simps p conj_assoc .
qed

definition fe0 :: FEnv where
  "fe0 = \<lparr>fe_ie = ie0, fe_x509 = (\<lambda>_ _. Some ''DER''),
     fe_dsig = (\<lambda>_ _ e. case e of XElem t as ks \<Rightarrow> Some (XElem t as (ks @ [XElem ''ds:Signature'' [] []])) | XText _ \<Rightarrow> None),
     fe_b64 = id, fe_unb64 = Some, fe_inflate = (\<lambda>_. Some),
     fe_xml = (\<lambda>_. Some \<lparr>ar_ID = ''_1'', ar_ACS = [], ar_Issuer = ''api://app'', ar_Format = []\<rparr>)\<rparr>"

definition fed_codecs0 :: FedCodecs where
  "fed_codecs0 = \<lparr>fc_saml = \<lparr>cd_enc = (\<lambda>_. []), cd_dec = (\<lambda>_. None)\<rparr>, fc_wsfed = \<lparr>cd_enc = (\<lambda>_. []), cd_dec = (\<lambda>_. None)\<rparr>\<rparr>"

definition fed_identity :: Identity where
  "fed_identity = with_store ((id_Store identity0)\<lparr>app_redirect_uris := [\<lparr>ru_ID = 1, ru_AppID = ''app'', ru_URI = ''https://sp/acs'',
     ru_Type = ''saml-acs''\<rparr>]\<rparr>) identity0"

definition fed_rq :: Request where
  "fed_rq = \<lparr>rq_post = False, rq_tenant = ''common'', rq_form_ok = True, rq_form = (\<lambda>_. []),
     rq_query = (\<lambda>_. [])(''SAMLRequest'' := ''x''), rq_basic = None, rq_cookie = ''sid'', rq_path_id = [], rq_identity_header = []\<rparr>"

lemma dsig_law_fe0: "dsig_law fe0"
  by (simp add: dsig_law_def fe0_def)

lemma fed_key: "\<exists>sg s1. EnsureActiveKey (ie_env (fe_ie fe0)) ''K'' now ''t'' (id_Store fed_identity) = (Inr sg, s1)"
  by (simp add: EnsureActiveKey_def GetActiveSigningKey_def generateAndActivate_def InsertSigningKey_def fed_identity_def identity0_def sql_defs
      sample_defs has_defs split: prod.splits)

lemma fed_sample:
  "\<exists>doc i'. handleSAMLSSO fe0 fed_codecs0 config0 9 9 ''K'' ''s2'' (\<lambda>_. ''r'') fed_rq fed_identity = (SamlPost ''https://sp/acs'' doc [], i')"
proof -
  have t: "tenantSegment config0 (id_Store fed_identity) fed_rq = (''t'', True)" by (simp add: tenantSegment_def config0_def fed_rq_def)
  have d: "decodeAuthnRequest fe0 (rq_query fed_rq ''SAMLRequest'') True = Some \<lparr>ar_ID = ''_1'', ar_ACS = [], ar_Issuer = ''api://app'', ar_Format = []\<rparr>"
    by (simp add: decodeAuthnRequest_def fe0_def fed_rq_def maxAuthnRequestBytes_def) code_simp
  have g: "GetAppByIDURI (id_Store fed_identity) ''api://app'' = Inr (App.truncate app0)"
    by (simp add: GetAppByIDURI_def fed_identity_def identity0_def sql_defs sample_defs null_eq_def App.defs)
  have r: "resolveServiceProvider (id_Store fed_identity) \<lparr>ar_ID = ''_1'', ar_ACS = [], ar_Issuer = ''api://app'', ar_Format = []\<rparr> = Some (App.truncate app0, ''https://sp/acs'')"
    by (simp add: resolveServiceProvider_def g ListRedirectURIs_def redirectTypeSAMLACS_def) (simp add: fed_identity_def app0_def App.defs)
  have c: "currentSession 9 (id_Store fed_identity) fed_rq = Some (session0, user0)"
    by (simp add: currentSession_def GetSession_def GetUser_def fed_identity_def identity0_def fed_rq_def session0_def sql_defs sample_defs)
  obtain sg :: Signer and s1 where e: "EnsureActiveKey (ie_env (fe_ie fe0)) ''K'' 9 ''t'' (id_Store fed_identity) = (Inr sg, s1)"
    using fed_key[of 9] by blast
  have x: "SAMLCertificate fe0 sg ''t'' w = Some ''DER''" for w by (simp add: SAMLCertificate_def Let_def fe0_def)
  have q: "rq_post fed_rq = False" by (simp add: fed_rq_def)
  show ?thesis
    by (simp add: handleSAMLSSO_def t d r c q Let_def deliverSAMLResponse_def e x)
       (simp add: fed_rq_def buildAssertion_def assertion_valid_def samlEntityID_def user0_def signAssertion_def fe0_def Let_def)
qed

theorem assertions_confined_witness:
  "\<exists>i out doc. fed_run fe0 fed_codecs0 config0 i out \<and> (9, id_Store fed_identity, SamlPost ''https://sp/acs'' doc []) \<in> set out
     \<and> (\<exists>audience. party_within out (id_Store fed_identity) audience ''https://sp/acs'' redirectTypeSAMLACS
          \<and> attr_at confirmation ''Recipient'' doc = Some ''https://sp/acs'')"
proof -
  obtain doc i' where h: "handleSAMLSSO fe0 fed_codecs0 config0 9 9 ''K'' ''s2'' (\<lambda>_. ''r'') fed_rq fed_identity = (SamlPost ''https://sp/acs'' doc [], i')"
    using fed_sample by blast
  have "saml_genuine fe0 fed_codecs0 fed_identity [] fed_rq"
    by (simp add: saml_genuine_def verify_saml_def fed_codecs0_def split: option.splits bind_splits)
  from fed_saml[OF fed_start this h] have run: "fed_run fe0 fed_codecs0 config0 i' [(9, id_Store fed_identity, SamlPost ''https://sp/acs'' doc [])]" .
  from assertions_confined[OF dsig_law_fe0 run, of 9 "id_Store fed_identity" "SamlPost ''https://sp/acs'' doc []" "''https://sp/acs''" doc "[]"]
  obtain audience where "party_within [(9, id_Store fed_identity, SamlPost ''https://sp/acs'' doc [])] (id_Store fed_identity) audience ''https://sp/acs'' redirectTypeSAMLACS"
    "attr_at confirmation ''Recipient'' doc = Some ''https://sp/acs''"
    by (auto simp only: confined_def append_Nil list.set insert_iff simp_thms)
  with run show ?thesis by (metis list.set_intros(1))
qed








end
