(* ===== verification/Spec2Isabelle.thy ===== *)
theory Spec2Isabelle
  imports Minting AuthorizeFlow Snapshot GraphProperties ScimConverge AdminProperties SignInAudit Discovery Surfaces FederationFlow
begin

text \<open>
  \<^bold>\<open>A verification library for the Entra emulator's identity core\<close>

  The emulator is a Go program that imitates a cloud identity provider for tests: an OAuth 2.0 /
  OpenID Connect token service over a SQLite directory, with a controllable clock, fault injection
  and audit logs. This library models the part that decides who gets which token, and proves what
  makes those decisions right. Paths below are under \<^verbatim>\<open>src/internal/\<close>.

  \<^bold>\<open>How the program fits together.\<close> HTTP handlers in \<^verbatim>\<open>identity/\<close> parse a request, authenticate the client,
  and call the token service in \<^verbatim>\<open>tokens/\<close>, which mints JWTs and issues or redeems codes and refresh
  tokens; both read and write the tables of \<^verbatim>\<open>store/\<close>. The clock of \<^verbatim>\<open>clock/\<close> supplies \<^verbatim>\<open>Store.Now()\<close>,
  \<^verbatim>\<open>faults/\<close> may make the token endpoint fail, and \<^verbatim>\<open>audit/\<close> records what happened.

  \<^bold>\<open>How the code is modelled.\<close> A table is the list of its rows; a SQL statement is one operation on that
  list, with the constraints of the schema (\<^verbatim>\<open>store/db.go\<close>) written out; \<^verbatim>\<open>Store.tx\<close> restores the store
  when its body fails. An operation takes the store and returns a result (\<open>Inl\<close> an error) and the
  store. A handler does the same with the \<open>Identity\<close> record, which holds the service, the fault
  configuration, the HMAC key and the cache of issuer keys. One call is one atomic step; that is what
  SQLite and the mutexes give the code, and interleavings are sequences of such steps. Go's \<^verbatim>\<open>int64\<close>
  arithmetic wraps around (\<open>wrap64\<close>). Strings are byte lists. The clock reading and the random values
  of a call are its arguments. Cryptography, JSON, PEM, HTTP and password hashing come from packages
  outside the repository: they are the fields of the records \<open>Env\<close> and \<open>IEnv\<close>, and the laws a theorem
  needs of them are its hypotheses (\<open>crypto_laws\<close>, \<open>hash_law\<close>), which the toy environment \<open>env0\<close> of the
  witnesses satisfies.

  \<^bold>\<open>The theories.\<close>
  \<^item> \<open>Prelude\<close>: 64-bit arithmetic, Go's \<^verbatim>\<open>strings\<close>, SQL statements on lists of rows, and two interfaces as
    locales: \<open>keyed_table\<close> (lookup, insert, conflict) and \<open>single_use\<close> (an artifact redeemed by one atomic
    statement is redeemed at most once under any interleaving). Both are interpreted on the tables and
    statements of the store.
  \<^item> \<open>StoreTypes\<close>, \<open>Samples\<close>: the rows and tables (\<^verbatim>\<open>store/types.go\<close>, \<^verbatim>\<open>store/db.go\<close>), and a small concrete
    directory for the witnesses.
  \<^item> \<open>Directory\<close> (\<^verbatim>\<open>store/directory.go\<close>), \<open>Apps\<close> (\<^verbatim>\<open>store/apps.go\<close>, \<^verbatim>\<open>keycred.go\<close>, \<^verbatim>\<open>federatedcred.go\<close>,
    \<^verbatim>\<open>frontchannel.go\<close>, \<^verbatim>\<open>fabric.go\<close>), \<open>Consent\<close> (\<^verbatim>\<open>consent.go\<close>, \<^verbatim>\<open>roles.go\<close>), \<open>Lifetimes\<close>
    (\<^verbatim>\<open>tokenlifetime.go\<close>), \<open>RecycleBin\<close> (\<^verbatim>\<open>deleted.go\<close>): the directory side of the store.
  \<^item> \<open>Grants\<close>, \<open>RotationFamily\<close> (\<^verbatim>\<open>store/grants.go\<close>): signing keys, codes, refresh tokens, sessions, device
    codes. Single use of codes, rotations and device codes; the family walk computes exactly the
    connected component of the rotation links; the reachable stores (an inductive step relation) have
    at most one live token per family.
  \<^item> \<open>Codec\<close>, \<open>Jwt\<close> (\<^verbatim>\<open>tokens/jwt.go\<close>, \<^verbatim>\<open>keys.go\<close>, \<^verbatim>\<open>store/hashing.go\<close>): base64url, hex and big-endian bytes
    with their round trips; compact JWS and signing keys.
  \<^item> \<open>TokenService\<close>, \<open>Minting\<close> (\<^verbatim>\<open>tokens/service.go\<close>): claims, minting, redemption with replay and reuse
    detection, validation, key rotation.
  \<^item> \<open>Scopes\<close> (\<^verbatim>\<open>identity/scopes.go\<close>, \<^verbatim>\<open>azure.go\<close>, \<^verbatim>\<open>databricks.go\<close>, \<^verbatim>\<open>fabric.go\<close>): which resource and
    permission a scope string means.
  \<^item> \<open>Identity\<close> (\<^verbatim>\<open>identity/identity.go\<close>, \<^verbatim>\<open>federated.go\<close>, \<^verbatim>\<open>tokens/clientassertion.go\<close>), \<open>TokenEndpoint\<close>
    (\<^verbatim>\<open>token.go\<close>, \<^verbatim>\<open>obo.go\<close>, \<^verbatim>\<open>ropc.go\<close>, \<^verbatim>\<open>msi.go\<close>), \<open>DeviceFlow\<close> (\<^verbatim>\<open>devicecode.go\<close>), \<open>Authorize\<close>
    (\<^verbatim>\<open>authorize.go\<close>, \<^verbatim>\<open>requestobject.go\<close>): the endpoints; \<open>AuthorizeFlow\<close>: interleavings of authorize requests,
    sign-ins and consent decisions as an inductive run, with what they deliver and where.
  \<^item> \<open>Logout\<close> (\<^verbatim>\<open>identity/logout.go\<close>), \<open>Envelopes\<close> (\<^verbatim>\<open>httpx/httpx.go\<close>), \<open>SignInAudit\<close> (\<^verbatim>\<open>identity/audit.go\<close>): ending
    sessions, the error bodies, and what the sign-in log makes of the answers of the token and the authorize endpoint.
    \<open>Discovery\<close> (\<^verbatim>\<open>discovery.go\<close>, \<^verbatim>\<open>userrealm.go\<close>, \<^verbatim>\<open>cors.go\<close>): the documents and keys a relying party reads, which agree
    with what the service mints, and the CORS decisions. \<open>Url\<close>: Go's \<^verbatim>\<open>url.Parse\<close>.
  \<^item> \<open>SamlTokens\<close> (\<^verbatim>\<open>identity/samlresponse.go\<close>, \<^verbatim>\<open>wsfedresponse.go\<close>, \<^verbatim>\<open>saml.go\<close>, \<^verbatim>\<open>tokens/samlcert.go\<close>), \<open>Federation\<close>
    (\<^verbatim>\<open>samlrequest.go\<close>, \<^verbatim>\<open>samlsso.go\<close>, \<^verbatim>\<open>wsfedrequest.go\<close>, \<^verbatim>\<open>wsfed.go\<close>): the documents as XML trees, and the two protocols;
    \<open>FederationFlow\<close>: where assertions go in any interleaving of requests, and the metadata that matches them.
  \<^item> \<open>ConfigLoad\<close> (\<^verbatim>\<open>config/config.go\<close>): precedence, validation, origins and the documented defaults; \<open>Surfaces\<close>
    (\<^verbatim>\<open>server/server.go\<close>): which of the surfaces a host name reaches.
  \<^item> \<open>DirectoryExtras\<close> (\<^verbatim>\<open>store/adminunit.go\<close>, \<^verbatim>\<open>customrole.go\<close>, \<^verbatim>\<open>customsecattr.go\<close>, \<^verbatim>\<open>webauthn.go\<close>,
    \<^verbatim>\<open>scimext.go\<close>), \<open>Snapshot\<close> (\<^verbatim>\<open>store/export.go\<close>): the remaining tables; export and import of a directory.
  \<^item> \<open>OData\<close> (\<^verbatim>\<open>graph/odata.go\<close>), \<open>GraphCore\<close> (\<^verbatim>\<open>permissions.go\<close>, the gates of \<^verbatim>\<open>graph.go\<close>), \<open>GraphReads\<close> and
    \<open>GraphWrites\<close> (every reading and every writing handler of \<^verbatim>\<open>graph/\<close>), \<open>CaseFold\<close> (\<^verbatim>\<open>casefold.go\<close>), \<open>GraphRoutes\<close>
    (the route table, the router and the surface it serves), \<open>GraphEffects\<close> and \<open>GraphProperties\<close>: paging and
    filters, the permission gate over the whole surface, routing of any spelling, the directory journal,
    password reset and the recycle bin. A handler takes the request, the validated token and the graph
    state and returns what it writes and the new state. \<open>Router\<close> is the standard library's router, which the
    Graph and the SCIM surface share.
  \<^item> \<open>ScimMapping\<close> (\<^verbatim>\<open>scim/mapping.go\<close>, \<^verbatim>\<open>projection.go\<close>, the patch operations of \<^verbatim>\<open>resources.go\<close>), \<open>ScimService\<close>
    (\<^verbatim>\<open>scim.go\<close>, \<^verbatim>\<open>resources.go\<close>, \<^verbatim>\<open>discovery.go\<close>), \<open>ScimProvision\<close> (\<^verbatim>\<open>provision.go\<close>): the SCIM provider and the provisioning
    client, whose downstream service is a parameter. \<open>ScimProperties\<close>: the secret, paging, membership.
    \<open>ScimContract\<close>: what the client relies on, as a locale; \<open>ScimRemote\<close>, \<open>ScimConverge\<close>: client and provider
    composed; the requests of a cycle refine the specification \<open>place\<close>, and a full cycle converges.
  \<^item> \<open>CustomExt\<close> (\<^verbatim>\<open>customext/customext.go\<close>): the custom claims provider, whose answer is the enricher of the token
    service. \<open>Seed\<close> (\<^verbatim>\<open>store/seed.go\<close>, the start-up order of \<^verbatim>\<open>cmd/entra-emulator/main.go\<close>): seeding, reset, boot.
  \<^item> The administration API \<^verbatim>\<open>admin/\<close>: \<open>AdminCore\<close> (its state, requests, strict decoding, error mapping),
    \<open>AdminDirectory\<close> (users, groups, tenants, passkeys), \<open>AdminApps\<close> (applications and what belongs to them),
    \<open>AdminControl\<close> (reset, key rotation, clock, faults, audit log, forging, provisioning), \<open>AdminSnapshot\<close>
    (export and import as JSON), \<open>AdminRoutes\<close> (the route table), \<open>AdminProperties\<close> (runs of requests through it
    keep the home tenant and a signer that verifies; what a reset of the keys does instead).
  \<^item> \<open>Runtime\<close> (\<^verbatim>\<open>clock/\<close>, \<^verbatim>\<open>faults/\<close>, \<^verbatim>\<open>audit/\<close>): the controllable clock, fault injection and the ring
    buffers, which are shown to implement a bounded newest-first history.

  \<^bold>\<open>Loops and fuel.\<close> Every loop of the modelled code is a total function; the only one that is not
  structural, the family walk, terminates because each round marks a new hash of a finite table. The
  client of a paged collection (\<open>follow\<close>) terminates because each next link skips further. No definition
  uses fuel.

  \<^bold>\<open>Specifications that stand apart from the code.\<close> Where a property compares the code with what it promises, the promise
  is a definition that uses none of the code's own functions:
  \<^item> client authentication (\<open>client_proved\<close>): the secret row, the registered key or the federated credential that
    proves the client; app-only tokens (\<open>app_only_grant\<close>): audience and roles by the tables; scopes (\<open>scope_meaning\<close>);
  \<^item> signing keys: \<open>active_keys\<close> of the home tenant and membership in the published set \<open>ListPublishableKeys\<close>, kept by a
    boot, a rotation and any run of administration requests;
  \<^item> a restored directory (\<open>restored_from\<close>), table by table, with everything the fixture format loses;
  \<^item> the applications a logout notifies (\<open>to_notify\<close>), the shape of a security attribute (\<open>csa_fits\<close>), the meaning of a
    filter literal (\<open>spells\<close>, \<open>has_value\<close>);
  \<^item> the standard router (\<open>mux_match\<close> over \<open>narrower\<close>): among the patterns that match, the one whose set of requests is
    contained in those of the others, which the order of the case folder must agree with;
  \<^item> provisioning (\<open>provisioned\<close>): which fields of a new and of an existing account follow the source, external ids
    included, and that nothing else moves.

  \<^bold>\<open>Not modelled.\<close> Rendering of HTML and XML, the route table of \<^verbatim>\<open>identity/\<close>, WebAuthn ceremonies (checks of a
  library), listening, TLS, request logging and the command line; response headers and correlation ids of \<^verbatim>\<open>graph/\<close>.
  An \<^verbatim>\<open>int\<close> or \<^verbatim>\<open>int64\<close> is an \<open>int\<close> and its arithmetic goes through \<open>wrap64\<close>. Error texts that wrap a library
  error or print a number keep their fixed part.
\<close>

end
